(* ===== verification/Prelude.thy ===== *)
theory Prelude
  imports Complex_Main "HOL-Library.Multiset" "HOL-Library.AList"
begin

text \<open>
  Shared base of the development: the numeric conventions (Python floats as exact reals,
  Python integers as \<open>int\<close>), the standard-library operations the modelled code calls
  (\<open>bisect.insort\<close>, \<open>list.remove\<close>, \<open>round\<close>, \<open>int\<close>,
  \<open>numpy.clip\<close>, f-string number formatting), the constants of
  \<open>openpilot/common/constants.py\<close> and \<open>openpilot/common/realtime.py\<close>, and the lemmas
  the components share.

  Numbers.  A Python float is modelled by the real number it stands for: rounding of the
  individual float operations, NaN and infinities are not modelled.  Every integer the code
  derives from a float constant in this development (\<open>int(3 / DT_CTRL)\<close> and the like)
  has the same value in exact and in IEEE arithmetic.
\<close>

section \<open>Collections of facts\<close>

named_theorems ev_simps \<open>membership and well-formedness of event lists under the event operations\<close>
named_theorems step_defs \<open>the definitions a step of a state machine unfolds\<close>
named_theorems frame_simps \<open>fields an operation leaves unchanged\<close>

section \<open>Constants\<close>

text \<open>\<open>class CV\<close> of constants.py: the conversions the code uses, with the factors written as there.\<close>

definition MPH_TO_KPH :: real where "MPH_TO_KPH = 1609344 / 1000000"
definition KPH_TO_MPH :: real where "KPH_TO_MPH = 1 / MPH_TO_KPH"
definition MS_TO_KPH :: real where "MS_TO_KPH = 36 / 10"
definition KPH_TO_MS :: real where "KPH_TO_MS = 1 / MS_TO_KPH"
definition MS_TO_MPH :: real where "MS_TO_MPH = MS_TO_KPH * KPH_TO_MPH"
definition MPH_TO_MS :: real where "MPH_TO_MS = MPH_TO_KPH * KPH_TO_MS"

lemmas CV_defs = MPH_TO_KPH_def KPH_TO_MPH_def MS_TO_KPH_def KPH_TO_MS_def MS_TO_MPH_def MPH_TO_MS_def

definition DT_CTRL :: real where "DT_CTRL = 1 / 100"
definition DT_MDL :: real where "DT_MDL = 5 / 100"

lemma speed_conversions_pos [simp]:
  "0 < MS_TO_KPH" "0 < MS_TO_MPH" "0 < KPH_TO_MS" "0 < MPH_TO_MS" "0 < MPH_TO_KPH" "0 < KPH_TO_MPH"
  by (simp_all add: CV_defs)

section \<open>Python numbers\<close>

text \<open>\<open>int(x)\<close> on a float truncates towards zero.\<close>

definition py_int :: "real \<Rightarrow> int" where
  "py_int x = (if 0 \<le> x then \<lfloor>x\<rfloor> else \<lceil>x\<rceil>)"

text \<open>\<open>round(x)\<close> rounds half to even.\<close>

definition py_round :: "real \<Rightarrow> int" where
  "py_round x =
     (let f = \<lfloor>x\<rfloor>; d = x - of_int f
      in if d < 1 / 2 then f else if 1 / 2 < d then f + 1
         else if even f then f else f + 1)"

text \<open>\<open>round(x, n)\<close>.\<close>

definition py_round_digits :: "nat \<Rightarrow> real \<Rightarrow> real" where
  "py_round_digits n x = of_int (py_round (x * 10 ^ n)) / 10 ^ n"

text \<open>\<open>numpy.clip(x, lo, hi)\<close> is \<open>minimum(maximum(x, lo), hi)\<close>.\<close>

definition np_clip :: "'a::linorder \<Rightarrow> 'a \<Rightarrow> 'a \<Rightarrow> 'a" where
  "np_clip x lo hi = min (max x lo) hi"

lemma np_clip_upper: "np_clip x lo hi \<le> hi"
  by (simp add: np_clip_def)

lemma np_clip_lower: "lo \<le> hi \<Longrightarrow> lo \<le> np_clip x lo hi"
  by (simp add: np_clip_def)

lemma np_clip_id: "lo \<le> x \<Longrightarrow> x \<le> hi \<Longrightarrow> np_clip x lo hi = x"
  by (simp add: np_clip_def)

lemma np_clip_mono: "x \<le> y \<Longrightarrow> np_clip x lo hi \<le> np_clip y lo hi"
  by (auto simp: np_clip_def min_def max_def)

lemma py_round_of_int [simp]: "py_round (of_int k) = k"
  by (simp add: py_round_def)

lemma py_round_numeral [simp]: "py_round (numeral k) = numeral k"
  using py_round_of_int [of "numeral k"] by simp

lemma py_round_0 [simp]: "py_round 0 = 0"
  using py_round_of_int [of 0] by simp

lemma py_round_near: "\<bar>of_int (py_round x) - x\<bar> \<le> 1 / 2"
proof -
  have "of_int \<lfloor>x\<rfloor> \<le> x" "x < of_int \<lfloor>x\<rfloor> + 1" by linarith+
  then show ?thesis unfolding py_round_def Let_def by (simp split: if_split)
qed

lemma py_round_mono:
  assumes "x \<le> y"
  shows "py_round x \<le> py_round y"
proof (cases "\<lfloor>x\<rfloor> = \<lfloor>y\<rfloor>")
  case True
  with assms show ?thesis by (auto simp: py_round_def Let_def)
next
  case False
  with assms have "\<lfloor>x\<rfloor> + 1 \<le> \<lfloor>y\<rfloor>" using floor_mono [of x y] by linarith
  moreover have "py_round x \<le> \<lfloor>x\<rfloor> + 1" "\<lfloor>y\<rfloor> \<le> py_round y"
    by (auto simp: py_round_def Let_def)
  ultimately show ?thesis by linarith
qed

section \<open>Formatting numbers\<close>

definition digit_char :: "nat \<Rightarrow> char" where
  "digit_char d = char_of (48 + d)"

fun nat_digits :: "nat \<Rightarrow> string" where
  "nat_digits n = (if n < 10 then [digit_char n] else nat_digits (n div 10) @ [digit_char (n mod 10)])"

declare nat_digits.simps [simp del]

definition show_int :: "int \<Rightarrow> string" where
  "show_int k = (if k < 0 then ''-'' @ nat_digits (nat (- k)) else nat_digits (nat k))"

text \<open>The format specification \<open>:.nf\<close>: round half to even at \<open>n\<close> decimals; a
  negative number keeps its sign even when it rounds to zero.\<close>

fun pad_left :: "nat \<Rightarrow> string \<Rightarrow> string" where
  "pad_left n s = replicate (n - length s) (CHR ''0'') @ s"

definition fmt_fixed :: "nat \<Rightarrow> real \<Rightarrow> string" where
  "fmt_fixed n x =
     (let k = nat \<bar>py_round (x * 10 ^ n)\<bar>; ip = k div 10 ^ n; fp = k mod 10 ^ n
      in (if x < 0 then ''-'' else []) @ nat_digits ip
         @ (if n = 0 then [] else ''.'' @ pad_left n (nat_digits fp)))"

text \<open>\<open>', '.join(xs)\<close>.\<close>

fun py_join :: "string \<Rightarrow> string list \<Rightarrow> string" where
  "py_join sep [] = []"
| "py_join sep [x] = x"
| "py_join sep (x # y # zs) = x @ sep @ py_join sep (y # zs)"

section \<open>Strings\<close>

text \<open>\<open>sub in s\<close>, \<open>s.replace(old, '')\<close> and \<open>s.title()\<close> (on ASCII letters).\<close>

fun py_contains :: "string \<Rightarrow> string \<Rightarrow> bool" where
  "py_contains sub [] \<longleftrightarrow> sub = []"
| "py_contains sub (c # cs) \<longleftrightarrow> take (length sub) (c # cs) = sub \<or> py_contains sub cs"

fun remove_sub_from :: "nat \<Rightarrow> string \<Rightarrow> string \<Rightarrow> string" where
  "remove_sub_from k old [] = []"
| "remove_sub_from (Suc k) old (c # cs) = remove_sub_from k old cs"
| "remove_sub_from 0 old (c # cs) =
     (if old \<noteq> [] \<and> take (length old) (c # cs) = old then remove_sub_from (length old - 1) old cs
      else c # remove_sub_from 0 old cs)"

abbreviation py_remove_sub :: "string \<Rightarrow> string \<Rightarrow> string" where
  "py_remove_sub old s \<equiv> remove_sub_from 0 old s"

definition is_lower :: "char \<Rightarrow> bool" where
  "is_lower c \<longleftrightarrow> 97 \<le> (of_char c :: nat) \<and> of_char c \<le> (122::nat)"

definition is_upper :: "char \<Rightarrow> bool" where
  "is_upper c \<longleftrightarrow> 65 \<le> (of_char c :: nat) \<and> of_char c \<le> (90::nat)"

definition to_upper :: "char \<Rightarrow> char" where
  "to_upper c = (if is_lower c then char_of ((of_char c :: nat) - 32) else c)"

definition to_lower :: "char \<Rightarrow> char" where
  "to_lower c = (if is_upper c then char_of ((of_char c :: nat) + 32) else c)"

fun title_from :: "bool \<Rightarrow> string \<Rightarrow> string" where
  "title_from in_word [] = []"
| "title_from in_word (c # cs) =
     (if is_lower c \<or> is_upper c
      then (if in_word then to_lower c else to_upper c) # title_from True cs
      else c # title_from False cs)"

definition py_title :: "string \<Rightarrow> string" where
  "py_title s = title_from False s"

lemma py_title_ex: "py_title ''aggressive'' = ''Aggressive''"
  by code_simp

section \<open>Dictionaries\<close>

text \<open>\<open>d.update(u)\<close> on dictionaries kept as association lists.\<close>

fun dict_update :: "('k \<times> 'v) list \<Rightarrow> ('k \<times> 'v) list \<Rightarrow> ('k \<times> 'v) list" where
  "dict_update d [] = d"
| "dict_update d ((k, v) # u) = dict_update (AList.update k v d) u"

lemma dict_update_keys: "set (map fst (dict_update d u)) = set (map fst u) \<union> set (map fst d)"
  by (induction d u rule: dict_update.induct) (auto simp: update_keys dom_update)

section \<open>Sorted lists: \<open>bisect.insort\<close>\<close>

text \<open>
  \<open>bisect.insort(a, x)\<close> finds the insertion point right of any equal element by binary
  search and inserts there.
\<close>

function bisect_right :: "int list \<Rightarrow> int \<Rightarrow> nat \<Rightarrow> nat \<Rightarrow> nat" where
  "bisect_right a x lo hi =
     (if lo < hi
      then let mid = (lo + hi) div 2
           in if x < a ! mid then bisect_right a x lo mid else bisect_right a x (Suc mid) hi
      else lo)"
  by pat_completeness auto
termination
  by (relation "measure (\<lambda>(a, x, lo, hi). hi - lo)") auto

declare bisect_right.simps [simp del]

definition bisect_insort :: "int list \<Rightarrow> int \<Rightarrow> int list" where
  "bisect_insort a x = (let i = bisect_right a x 0 (length a) in take i a @ x # drop i a)"

text \<open>The binary search lands between the elements that are at most \<open>x\<close> and those above it.\<close>

lemma bisect_right_split:
  assumes "sorted a" "lo \<le> hi" "hi \<le> length a"
    and "\<forall>i<lo. a ! i \<le> x" "\<forall>i. hi \<le> i \<and> i < length a \<longrightarrow> x < a ! i"
  shows "let k = bisect_right a x lo hi in
           k \<le> length a \<and> (\<forall>i<k. a ! i \<le> x) \<and> (\<forall>i. k \<le> i \<and> i < length a \<longrightarrow> x < a ! i)"
  using assms
proof (induction a x lo hi rule: bisect_right.induct)
  case (1 a x lo hi)
  let ?mid = "(lo + hi) div 2"
  show ?case
  proof (cases "lo < hi")
    case False
    with "1.prems"(2-5) show ?thesis
      by (simp only: bisect_right.simps [of a x lo hi] Let_def if_False) auto
  next
    case True
    then have mid: "lo \<le> ?mid" "?mid < hi" by auto
    show ?thesis
    proof (cases "x < a ! ?mid")
      case x: True
      have "\<forall>i. ?mid \<le> i \<and> i < length a \<longrightarrow> x < a ! i"
        using "1.prems"(1) x by (meson order_less_le_trans sorted_nth_mono)
      then show ?thesis
        using 1(1) [OF True refl x] "1.prems" mid True x
        by (simp add: bisect_right.simps [of a x lo hi])
    next
      case x: False
      have "\<forall>i<Suc ?mid. a ! i \<le> x"
      proof (intro allI impI)
        fix i assume "i < Suc ?mid"
        then have "a ! i \<le> a ! ?mid"
          using "1.prems"(1,3) mid by (intro sorted_nth_mono) auto
        with x show "a ! i \<le> x" by simp
      qed
      then show ?thesis
        using 1(2) [OF True refl x] "1.prems" mid True x
        by (simp add: bisect_right.simps [of a x lo hi])
    qed
  qed
qed

lemma sorted_insert_at:
  assumes "sorted a" "\<forall>i<k. a ! i \<le> x" "\<forall>i. k \<le> i \<and> i < length a \<longrightarrow> x < (a ! i::int)"
    and "k \<le> length a"
  shows "sorted (take k a @ x # drop k a)"
proof -
  have "\<forall>y\<in>set (take k a). y \<le> x" "\<forall>y\<in>set (drop k a). x < y"
    using assms by (auto simp: in_set_conv_nth)
  moreover have "sorted (take k a)" "sorted (drop k a)"
    using assms(1) by (simp_all add: sorted_wrt_take sorted_wrt_drop)
  ultimately show ?thesis by (fastforce simp: sorted_append)
qed

lemma mset_insert_at: "mset (take k a @ x # drop k a) = add_mset x (mset a)"
proof -
  have "mset a = mset (take k a) + mset (drop k a)"
    by (metis append_take_drop_id mset_append)
  then show ?thesis by simp
qed

lemma mset_bisect_insort [simp]: "mset (bisect_insort a x) = add_mset x (mset a)"
  by (simp only: bisect_insort_def Let_def mset_insert_at)

lemma set_bisect_insort [simp]: "set (bisect_insort a x) = insert x (set a)"
  by (metis mset_bisect_insort mset.simps(2) mset_eq_setD list.simps(15))

lemma length_bisect_insort [simp]: "length (bisect_insort a x) = Suc (length a)"
  by (metis mset_bisect_insort mset.simps(2) mset_eq_length length_Cons)

lemma count_list_mset: "count_list xs y = count (mset xs) y"
  by (induction xs) auto

lemma count_bisect_insort:
  "count_list (bisect_insort a x) y = (if x = y then Suc (count_list a y) else count_list a y)"
  by (simp add: count_list_mset)

lemma sorted_bisect_insort [simp]:
  assumes "sorted a"
  shows "sorted (bisect_insort a x)"
proof -
  have "let k = bisect_right a x 0 (length a) in
          k \<le> length a \<and> (\<forall>i<k. a ! i \<le> x) \<and> (\<forall>i. k \<le> i \<and> i < length a \<longrightarrow> x < a ! i)"
    by (rule bisect_right_split [OF assms]) auto
  with assms show ?thesis
    unfolding bisect_insort_def Let_def by (blast intro: sorted_insert_at)
qed

text \<open>On a sorted list the binary insertion is the textbook insertion.\<close>

lemma bisect_insort_eq_insort: "sorted a \<Longrightarrow> bisect_insort a x = insort x a"
  by (rule properties_for_sort [THEN trans [OF sym]])
     (auto simp: sorted_insort intro: properties_for_sort)

section \<open>List removal\<close>

lemma sorted_remove1_int [simp]: "sorted (xs::int list) \<Longrightarrow> sorted (remove1 x xs)"
  by (rule sorted_remove1)

lemma count_remove1: "count_list (remove1 x xs) y = (if x = y then count_list xs y - 1 else count_list xs y)"
  by (auto simp: count_list_mset)

lemma in_set_count: "x \<in> set xs \<longleftrightarrow> 0 < count_list xs x"
  by (simp add: count_list_mset)

lemma in_set_remove1_count: "y \<in> set (remove1 x xs) \<longleftrightarrow>
    (if x = y then 1 < count_list xs y else y \<in> set xs)"
  by (auto simp: in_set_count count_remove1)

section \<open>Countdown timers\<close>

text \<open>The timers of the state machines are decremented as \<open>max(0, t - 1)\<close>.\<close>

definition tick_down :: "int \<Rightarrow> int" where
  "tick_down t = max 0 (t - 1)"

lemma tick_down_nonneg [simp]: "0 \<le> tick_down t"
  by (simp add: tick_down_def)

lemma tick_down_le: "0 \<le> t \<Longrightarrow> tick_down t \<le> t"
  by (simp add: tick_down_def)

lemma tick_down_bound: "t \<le> n \<Longrightarrow> 0 \<le> n \<Longrightarrow> tick_down t \<le> n"
  by (simp add: tick_down_def)

lemma tick_down_funpow: "0 \<le> t \<Longrightarrow> (tick_down ^^ n) t = max 0 (t - int n)"
  by (induction n) (auto simp: tick_down_def)

end
