(* ===== verification/Messages.thy ===== *)
theory Messages
  imports Prelude
begin

text \<open>
  The messages and structs the modelled code reads: enums of \<open>cereal/log.capnp\<close> and
  \<open>cereal/custom.capnp\<close> as datatypes, structs as records holding the fields the code
  reads, and the bookkeeping of \<open>messaging.SubMaster\<close>.  Structs of the \<open>opendbc\<close>
  submodule (CarParams, CarState, CarControl) are records of the fields the code reads; their
  enums have the constructors the code names and one further constructor for the rest.
  Constants of \<open>opendbc\<close> are fields of a record that is an argument of the definitions
  using them.
\<close>

section \<open>Enums\<close>

datatype openpilot_state = OS_disabled | OS_preEnabled | OS_enabled | OS_softDisabling | OS_overriding

datatype mads_state = MS_disabled | MS_paused | MS_enabled | MS_softDisabling | MS_overriding

datatype alert_status = AS_normal | AS_userPrompt | AS_critical
datatype alert_size = ASz_none | ASz_small | ASz_mid | ASz_full

text \<open>\<open>SelfdriveState.AudibleAlert\<close>, with the two sounds \<open>SelfdriveStateSP.AudibleAlert\<close> adds.\<close>

datatype audible_alert = AA_none | AA_engage | AA_disengage | AA_refuse | AA_warningSoft
  | AA_warningImmediate | AA_prompt | AA_promptRepeat | AA_promptDistracted | AA_preAlert | AA_complete
  | AA_promptSingleLow | AA_promptSingleHigh

text \<open>\<open>CarControl.HUDControl.VisualAlert\<close> (opendbc): the values the code names.\<close>

datatype visual_alert = VA_none | VA_fcw | VA_steerRequired | VA_brakePressed | VA_ldw | VA_other nat

datatype thermal_status = TS_ok | TS_warmDEPRECATED | TS_overheated | TS_critical

fun thermal_ord :: "thermal_status \<Rightarrow> nat" where
  "thermal_ord TS_ok = 0"
| "thermal_ord TS_warmDEPRECATED = 1"
| "thermal_ord TS_overheated = 2"
| "thermal_ord TS_critical = 3"

datatype cal_status = CAL_uncalibrated | CAL_calibrated | CAL_invalid | CAL_recalibrating

datatype lane_change_state = LCS_off | LCS_preLaneChange | LCS_laneChangeStarting | LCS_laneChangeFinishing
datatype lane_change_direction = LCD_none | LCD_left | LCD_right
datatype turn_direction = TD_none | TD_turnLeft | TD_turnRight
datatype desire = D_none | D_turnLeft | D_turnRight | D_laneChangeLeft | D_laneChangeRight | D_keepLeft | D_keepRight

datatype sla_state = SLA_disabled | SLA_inactive | SLA_preActive | SLA_pending | SLA_adapting | SLA_active
datatype speed_limit_source = SLS_none | SLS_car | SLS_map

datatype icbm_state = ICBM_inactive | ICBM_preActive | ICBM_increasing | ICBM_decreasing | ICBM_holding
datatype send_button_state = SB_none | SB_increase | SB_decrease

text \<open>Enums of opendbc.\<close>

datatype gear_shifter = Gear_drive | Gear_reverse | Gear_park | Gear_other nat
datatype button_type = BT_accelCruise | BT_decelCruise | BT_setCruise | BT_resumeCruise
  | BT_cancel | BT_mainCruise | BT_gapAdjustCruise | BT_lkas | BT_other nat
datatype safety_model = SM_silent | SM_noOutput | SM_other nat
datatype network_location = NL_fwdCamera | NL_other nat
datatype long_ctrl_state = LC_off | LC_pid | LC_stopping | LC_other nat
datatype steer_control_type = SCT_torque | SCT_angle | SCT_curvature

text \<open>\<open>CarParams.lateralTuning\<close>, a union: the gains of the \<open>pid\<close> tuning are \<open>(kpBP, kpV)\<close>,
  \<open>(kiBP, kiV)\<close> and \<open>kf\<close>.\<close>

record torque_tuning =
  tq_latAccelFactor :: real
  tq_latAccelOffset :: real
  tq_friction :: real
  tq_steeringAngleDeadzoneDeg :: real

datatype lateral_tuning =
  Tuning_pid "real list \<times> real list" "real list \<times> real list" real | Tuning_torque torque_tuning

definition is_torque :: "lateral_tuning \<Rightarrow> bool" where
  "is_torque tuning \<longleftrightarrow> (case tuning of Tuning_torque _ \<Rightarrow> True | _ \<Rightarrow> False)"

section \<open>Structs of opendbc\<close>

record button_event =
  be_type :: button_type
  be_pressed :: bool

record cruise_state =
  cr_enabled :: bool
  cr_available :: bool
  cr_standstill :: bool
  cr_nonAdaptive :: bool
  cr_speed :: real
  cr_speedCluster :: real

record car_state =
  cs_vEgo :: real
  cs_aEgo :: real
  cs_standstill :: bool
  cs_gasPressed :: bool
  cs_brakePressed :: bool
  cs_regenBraking :: bool
  cs_parkingBrake :: bool
  cs_brakeHoldActive :: bool
  cs_steeringPressed :: bool
  cs_steeringDisengage :: bool
  cs_steeringTorque :: real
  cs_steerFaultTemporary :: bool
  cs_steerFaultPermanent :: bool
  cs_gearShifter :: gear_shifter
  cs_doorOpen :: bool
  cs_seatbeltUnlatched :: bool
  cs_espDisabled :: bool
  cs_espActive :: bool
  cs_stockFcw :: bool
  cs_stockAeb :: bool
  cs_stockLkas :: bool
  cs_accFaulted :: bool
  cs_carNotReady :: bool
  cs_vehicleSensorsInvalid :: bool
  cs_invalidLkasSetting :: bool
  cs_lowSpeedAlert :: bool
  cs_buttonEnable :: bool
  cs_blockPcmEnable :: bool
  cs_buttonEvents :: "button_event list"
  cs_cruiseState :: cruise_state
  cs_leftBlinker :: bool
  cs_rightBlinker :: bool
  cs_leftBlindspot :: bool
  cs_rightBlindspot :: bool
  cs_canValid :: bool
  cs_canTimeout :: bool
  cs_vCruise :: real
  cs_vCruiseCluster :: real
  cs_steeringAngleDeg :: real
  cs_steeringRateDeg :: real

record safety_config =
  sc_safetyModel :: safety_model
  sc_safetyParam :: int

record car_params =
  cp_brand :: string
  cp_carFingerprint :: string
  cp_flags :: int
  cp_passive :: bool
  cp_notCar :: bool
  cp_pcmCruise :: bool
  cp_openpilotLongitudinalControl :: bool
  cp_alphaLongitudinalAvailable :: bool
  cp_minSteerSpeed :: real
  cp_minEnableSpeed :: real
  cp_networkLocation :: network_location
  cp_safetyConfigs :: "safety_config list"
  cp_alternativeExperience :: int
  cp_secOcRequired :: bool
  cp_secOcKeyAvailable :: bool
  cp_stopAccel :: real
  cp_kiBP :: "real list"
  cp_kiV :: "real list"
  cp_steerControlType :: steer_control_type
  cp_lateralTuning :: lateral_tuning
  cp_steerAtStandstill :: bool
  cp_steerLimitTimer :: real
  cp_longitudinalActuatorDelay :: real
  cp_steerActuatorDelay :: real

record car_params_sp =
  cpsp_flags :: int
  cpsp_safetyParam :: int
  cpsp_pcmCruiseSpeed :: bool
  cpsp_enableGasInterceptor :: bool

record car_control =
  cc_enabled :: bool
  cc_latActive :: bool
  cc_longActive :: bool
  cc_accel :: real
  cc_torque :: real
  cc_override :: bool
  cc_cancel :: bool
  cc_resume :: bool

text \<open>Constants the code imports from opendbc.\<close>

record opendbc =
  ob_MAX_CTRL_SPEED :: real
  ob_DRIVABLE_GEARS :: "string \<Rightarrow> gear_shifter list"
  ob_RAM_DT :: "string list"
  ob_ToyotaFlags_HYBRID :: int
  ob_ISO_LATERAL_ACCEL :: real
  ob_ACCEL_MIN :: real
  ob_ACCEL_MAX :: real
  ob_GRAVITY :: real
  ob_button_raw :: "button_type \<Rightarrow> nat"
  ob_DT_CTRL :: real
  ob_apply_hysteresis :: "real \<Rightarrow> real \<Rightarrow> real \<Rightarrow> real"

section \<open>Messages of log.capnp and custom.capnp\<close>

record device_state =
  ds_thermalStatus :: thermal_status
  ds_freeSpacePercent :: real
  ds_memoryUsagePercent :: int
  ds_cpuTempC :: "real list"
  ds_gpuTempC :: "real list"
  ds_memoryTempC :: real
  ds_fanSpeedPercentDesired :: int

record peripheral_state =
  ps_pandaType_unknown :: bool
  ps_fanSpeedRpm :: int

record panda_state =
  pa_safetyModel :: safety_model
  pa_safetyParam :: int
  pa_alternativeExperience :: int
  pa_safetyRxChecksInvalid :: bool
  pa_relayMalfunction :: bool
  pa_controlsAllowed :: bool
  pa_controlsAllowedLateral :: bool

record extrinsics_calibration =
  xc_calStatus :: cal_status
  xc_calPerc :: int
  xc_rpyCalib :: "real list"

record vehicle_parameters =
  vp_valid :: bool
  vp_roll :: real
  vp_angleOffsetValid :: bool
  vp_angleOffsetDeg :: real
  vp_steerRatioValid :: bool
  vp_steerRatio :: real
  vp_stiffnessFactorValid :: bool
  vp_stiffnessFactor :: real

record model_v2 =
  mv_velocity_x :: "real list"
  mv_frameDropPerc :: real
  mv_laneChangeState :: lane_change_state
  mv_laneChangeDirection :: lane_change_direction
  mv_hardBrakePredicted :: bool
  mv_desiredCurvature :: real

record model_data_sp =
  md_leftLaneChangeEdgeBlock :: bool
  md_rightLaneChangeEdgeBlock :: bool
  md_laneTurnDirection :: turn_direction

record process_state =
  pr_name :: string
  pr_running :: bool
  pr_shouldBeRunning :: bool

record radar_errors =
  re_canError :: bool
  re_radarUnavailableTemporary :: bool
  re_others :: "bool list"

record controls_state =
  ct_debugState :: bool
  ct_lac_active :: bool
  ct_lac_saturated :: bool
  ct_curvature :: real
  ct_vCruise_deprecated :: real

record plan_sp =
  lp_events :: "int list"
  lp_vTarget :: real
  lp_speedLimit :: real
  lp_speedLimitFinalLast :: real
  lp_speedLimitValid :: bool
  lp_speedLimitLastValid :: bool
  lp_assistState :: sla_state

text \<open>The pose the calibrator builds from \<open>deviceMotion\<close>: the components that are read.\<close>

record calibrated_pose =
  po_acceleration_x :: real
  po_yaw_rate :: real

section \<open>SubMaster\<close>

text \<open>
  \<open>messaging.SubMaster\<close>: the per-service flags, the ignore lists and the latest message of
  every service.  \<open>subm_freq\<close> is \<open>SERVICE_LIST[s].frequency\<close>.
\<close>

record sub_master =
  subm_frame :: int
  subm_services :: "string list"
  subm_updated :: "string \<Rightarrow> bool"
  subm_recv_frame :: "string \<Rightarrow> int"
  subm_alive :: "string \<Rightarrow> bool"
  subm_freq_ok :: "string \<Rightarrow> bool"
  subm_valid :: "string \<Rightarrow> bool"
  subm_freq :: "string \<Rightarrow> real"
  subm_ignore_alive :: "string list"
  subm_ignore_average_freq :: "string list"
  subm_ignore_valid :: "string list"

definition service_list_or_all :: "sub_master \<Rightarrow> string list \<Rightarrow> string list" where
  "service_list_or_all sm l = (if l = [] then subm_services sm else l)"

definition check_avg_freq :: "sub_master \<Rightarrow> string \<Rightarrow> bool" where
  "check_avg_freq sm s \<longleftrightarrow>
     99 / 100 < subm_freq sm s \<and> s \<notin> set (subm_ignore_average_freq sm) \<and> s \<notin> set (subm_ignore_alive sm)"

definition all_alive :: "sub_master \<Rightarrow> string list \<Rightarrow> bool" where
  "all_alive sm l = list_all (\<lambda>s. s \<in> set (subm_ignore_alive sm) \<or> subm_alive sm s) (service_list_or_all sm l)"

definition all_freq_ok :: "sub_master \<Rightarrow> string list \<Rightarrow> bool" where
  "all_freq_ok sm l = list_all (\<lambda>s. check_avg_freq sm s \<longrightarrow> subm_freq_ok sm s) (service_list_or_all sm l)"

definition all_valid :: "sub_master \<Rightarrow> string list \<Rightarrow> bool" where
  "all_valid sm l = list_all (\<lambda>s. s \<in> set (subm_ignore_valid sm) \<or> subm_valid sm s) (service_list_or_all sm l)"

definition all_checks :: "sub_master \<Rightarrow> string list \<Rightarrow> bool" where
  "all_checks sm l \<longleftrightarrow> all_alive sm l \<and> all_freq_ok sm l \<and> all_valid sm l"

text \<open>What selfdrived reads in a frame: the SubMaster and the latest message of each service, the
  calibrated pose built from \<open>deviceMotion\<close>, the car state received (if any), whether its rate keeper
  lags and which camera streams are available.\<close>

record sd_inputs =
  in_sub :: sub_master
  in_deviceState :: device_state
  in_peripheralState :: peripheral_state
  in_pandaStates :: "panda_state list"
  in_extrinsics :: extrinsics_calibration
  in_vehicleParameters :: vehicle_parameters
  in_modelV2 :: model_v2
  in_modelDataV2SP :: model_data_sp
  in_processes :: "process_state list"
  in_radarErrors :: radar_errors
  in_controlsState :: controls_state
  in_carControl :: car_control
  in_plan_fcw :: bool
  in_planSP :: plan_sp
  in_alertDebug :: "string \<times> string"
  in_leftLaneDeparture :: bool
  in_rightLaneDeparture :: bool
  in_posenetOK :: bool
  in_inputsOK :: bool
  in_calibrated_pose :: calibrated_pose
  in_carState :: "car_state option"
  in_rk_lagging :: bool
  in_narrow_stream :: bool
  in_wide_stream :: bool

end
