(* ===== verification/EventsBase.thy ===== *)
theory EventsBase
  imports Messages "HOL-Library.Product_Lexorder" "HOL-Library.Monad_Syntax"
begin

text \<open>
  \<open>sunnypilot/selfdrive/selfdrived/events_base.py\<close>: event types, alert priorities, the
  \<open>Alert\<close> class with its subclasses, and \<open>EventsBase\<close>, the list of current
  events with its per-event counters.  A Python exception (a \<open>KeyError\<close> on the counters or
  on the table) is the result \<open>None\<close>.  The interface the rest of the system uses is the
  locale \<open>event_store\<close>, interpreted at the end on the model's operations.
\<close>

section \<open>Priority and event types\<close>

datatype priority = LOWEST | LOWER | LOW | MID | HIGH | HIGHEST

fun priority_ord :: "priority \<Rightarrow> nat" where
  "priority_ord LOWEST = 0"
| "priority_ord LOWER = 1"
| "priority_ord LOW = 2"
| "priority_ord MID = 3"
| "priority_ord HIGH = 4"
| "priority_ord HIGHEST = 5"

lemma priority_ord_inject [simp]: "priority_ord p = priority_ord q \<longleftrightarrow> p = q"
  by (cases p; cases q) simp_all

text \<open>\<open>Priority\<close> is an \<open>IntEnum\<close>: it is ordered by its value.\<close>

instantiation priority :: linorder
begin
definition less_eq_priority :: "priority \<Rightarrow> priority \<Rightarrow> bool" where
  "p \<le> q \<longleftrightarrow> priority_ord p \<le> priority_ord q"
definition less_priority :: "priority \<Rightarrow> priority \<Rightarrow> bool" where
  "p < q \<longleftrightarrow> priority_ord p < priority_ord q"
instance by standard (auto simp: less_eq_priority_def less_priority_def)
end

datatype ET = ENABLE | PRE_ENABLE | OVERRIDE_LATERAL | OVERRIDE_LONGITUDINAL | NO_ENTRY
  | WARNING | USER_DISABLE | SOFT_DISABLE | IMMEDIATE_DISABLE | PERMANENT

fun ET_str :: "ET \<Rightarrow> string" where
  "ET_str ENABLE = ''enable''"
| "ET_str PRE_ENABLE = ''preEnable''"
| "ET_str OVERRIDE_LATERAL = ''overrideLateral''"
| "ET_str OVERRIDE_LONGITUDINAL = ''overrideLongitudinal''"
| "ET_str NO_ENTRY = ''noEntry''"
| "ET_str WARNING = ''warning''"
| "ET_str USER_DISABLE = ''userDisable''"
| "ET_str SOFT_DISABLE = ''softDisable''"
| "ET_str IMMEDIATE_DISABLE = ''immediateDisable''"
| "ET_str PERMANENT = ''permanent''"

section \<open>Alerts\<close>

record alert =
  al_text_1 :: string
  al_text_2 :: string
  al_status :: alert_status
  al_size :: alert_size
  al_priority :: priority
  al_visual :: visual_alert
  al_audible :: audible_alert
  al_duration :: int
  al_creation_delay :: real
  al_type :: string
  al_event_type :: "ET option"

text \<open>\<open>Alert.__init__\<close>; the duration is turned into control frames.\<close>

definition Alert_delay ::
  "string \<Rightarrow> string \<Rightarrow> alert_status \<Rightarrow> alert_size \<Rightarrow> priority \<Rightarrow> visual_alert \<Rightarrow> audible_alert
   \<Rightarrow> real \<Rightarrow> real \<Rightarrow> alert" where
  "Alert_delay t1 t2 st sz pr va aa duration delay =
     \<lparr> al_text_1 = t1, al_text_2 = t2, al_status = st, al_size = sz, al_priority = pr,
       al_visual = va, al_audible = aa, al_duration = py_int (duration / DT_CTRL),
       al_creation_delay = delay, al_type = '''', al_event_type = None \<rparr>"

abbreviation Alert ::
  "string \<Rightarrow> string \<Rightarrow> alert_status \<Rightarrow> alert_size \<Rightarrow> priority \<Rightarrow> visual_alert \<Rightarrow> audible_alert
   \<Rightarrow> real \<Rightarrow> alert" where
  "Alert t1 t2 st sz pr va aa duration \<equiv> Alert_delay t1 t2 st sz pr va aa duration 0"

definition EmptyAlert :: alert where
  "EmptyAlert = Alert '''' '''' AS_normal ASz_none LOWEST VA_none AA_none 0"

text \<open>The subclasses.  \<open>mici\<close> is \<open>HARDWARE.get_device_type() == 'mici'\<close>.\<close>

definition NoEntryAlert_full :: "bool \<Rightarrow> string \<Rightarrow> string \<Rightarrow> visual_alert \<Rightarrow> priority \<Rightarrow> alert" where
  "NoEntryAlert_full mici t2 t1 va pr =
     (if mici then Alert t2 t1 AS_normal ASz_mid pr va AA_refuse 3
      else Alert t1 t2 AS_normal ASz_mid pr va AA_refuse 3)"

abbreviation NoEntryAlert :: "bool \<Rightarrow> string \<Rightarrow> alert" where
  "NoEntryAlert mici t2 \<equiv> NoEntryAlert_full mici t2 ''openpilot Unavailable'' VA_none LOW"

definition SoftDisableAlert :: "string \<Rightarrow> alert" where
  "SoftDisableAlert t2 =
     Alert ''TAKE CONTROL IMMEDIATELY'' t2 AS_userPrompt ASz_full MID VA_steerRequired AA_warningSoft 2"

definition UserSoftDisableAlert :: "string \<Rightarrow> alert" where
  "UserSoftDisableAlert t2 = (SoftDisableAlert t2)\<lparr>al_text_1 := ''openpilot will disengage''\<rparr>"

definition ImmediateDisableAlert :: "string \<Rightarrow> alert" where
  "ImmediateDisableAlert t2 =
     Alert ''TAKE CONTROL IMMEDIATELY'' t2 AS_critical ASz_full HIGHEST VA_steerRequired
       AA_warningImmediate 4"

definition EngagementAlert :: "audible_alert \<Rightarrow> alert" where
  "EngagementAlert aa = Alert '''' '''' AS_normal ASz_none MID VA_none aa (2 / 10)"

definition NormalPermanentAlert_full :: "string \<Rightarrow> string \<Rightarrow> real \<Rightarrow> priority \<Rightarrow> real \<Rightarrow> alert" where
  "NormalPermanentAlert_full t1 t2 duration pr delay =
     Alert_delay t1 t2 AS_normal (if t2 \<noteq> [] then ASz_mid else ASz_small) pr VA_none AA_none duration delay"

abbreviation NormalPermanentAlert :: "string \<Rightarrow> string \<Rightarrow> alert" where
  "NormalPermanentAlert t1 t2 \<equiv> NormalPermanentAlert_full t1 t2 (2 / 10) LOWER 0"

definition StartupAlert_full :: "bool \<Rightarrow> string \<Rightarrow> string \<Rightarrow> alert_status \<Rightarrow> alert" where
  "StartupAlert_full mici t1 t2 st =
     (let t2' = (if mici \<and> t2 = ''Always keep hands on wheel and eyes on road'' then '''' else t2);
          sz = (if mici then ASz_small else ASz_mid)
      in Alert t1 t2' st sz LOWER VA_none AA_none 5)"

abbreviation StartupAlert :: "bool \<Rightarrow> string \<Rightarrow> alert" where
  "StartupAlert mici t1 \<equiv> StartupAlert_full mici t1 ''Always keep hands on wheel and eyes on road'' AS_normal"

section \<open>Alert callbacks and event tables\<close>

text \<open>
  \<open>callback_args\<close> of \<open>SelfdriveD.update_alerts\<close>, and what the callbacks read from the
  process environment: the device type, \<open>get_short_branch()\<close> and whether \<open>REPLAY\<close> is set.
\<close>

record callback_args =
  ca_CP :: car_params
  ca_CS :: car_state
  ca_sm :: sd_inputs
  ca_metric :: bool
  ca_soft_disable_time :: int
  ca_personality :: string
  ca_mici :: bool
  ca_short_branch :: string
  ca_REPLAY :: bool

datatype alert_src = AlertObj alert | AlertCallback "callback_args \<Rightarrow> alert"

fun alert_of :: "callback_args \<Rightarrow> alert_src \<Rightarrow> alert" where
  "alert_of args (AlertObj a) = a"
| "alert_of args (AlertCallback f) = f args"

type_synonym event_entry = "(ET \<times> alert_src) list"
type_synonym events_mapping = "(int \<times> event_entry) list"

definition wrong_car_mode_alert :: "callback_args \<Rightarrow> alert" where
  "wrong_car_mode_alert args =
     (let text = ''Enable Adaptive Cruise to Engage'';
          text = (if cp_brand (ca_CP args) = ''honda'' then ''Enable Main Switch to Engage'' else text)
      in NoEntryAlert (ca_mici args) text)"

text \<open>
  The key a caller passes to \<open>contains\<close>: the table's keys are the strings of \<open>ET\<close>, so an
  integer (an event name) is never among them.
\<close>

datatype py_key = KStr ET | KInt int

fun key_in :: "py_key \<Rightarrow> ET list \<Rightarrow> bool" where
  "key_in (KStr t) ts \<longleftrightarrow> t \<in> set ts"
| "key_in (KInt n) ts \<longleftrightarrow> False"

definition mapping_get :: "events_mapping \<Rightarrow> int \<Rightarrow> event_entry" where
  "mapping_get m e = (case map_of m e of None \<Rightarrow> [] | Some en \<Rightarrow> en)"

definition event_types :: "events_mapping \<Rightarrow> int \<Rightarrow> ET list" where
  "event_types m e = map fst (mapping_get m e)"

section \<open>\<open>EventsBase\<close>\<close>

record events =
  ev_events :: "int list"
  ev_static :: "int list"
  ev_counters :: "int \<rightharpoonup> int"

text \<open>\<open>__init__\<close> with \<open>dict.fromkeys(mapping.keys(), 0)\<close>.\<close>

definition ev_init :: "events_mapping \<Rightarrow> events" where
  "ev_init m = \<lparr> ev_events = [], ev_static = [],
     ev_counters = (\<lambda>e. if e \<in> set (map fst m) then Some 0 else None) \<rparr>"

definition ev_len :: "events \<Rightarrow> int" where
  "ev_len s = int (length (ev_events s))"

definition ev_add_static :: "int \<Rightarrow> bool \<Rightarrow> events \<Rightarrow> events" where
  "ev_add_static e static s =
     (let s = (if static then s\<lparr>ev_static := bisect_insort (ev_static s) e\<rparr> else s)
      in s\<lparr>ev_events := bisect_insort (ev_events s) e\<rparr>)"

abbreviation ev_add :: "int \<Rightarrow> events \<Rightarrow> events" where
  "ev_add e s \<equiv> ev_add_static e False s"

definition ev_clear :: "events \<Rightarrow> events" where
  "ev_clear s = s\<lparr>
     ev_counters := (\<lambda>k. case ev_counters s k of None \<Rightarrow> None
                       | Some v \<Rightarrow> Some (if k \<in> set (ev_events s) then v + 1 else 0)),
     ev_events := ev_static s \<rparr>"

definition ev_contains :: "events_mapping \<Rightarrow> py_key \<Rightarrow> events \<Rightarrow> bool" where
  "ev_contains m k s = list_ex (\<lambda>e. key_in k (event_types m e)) (ev_events s)"

abbreviation contains_et :: "events_mapping \<Rightarrow> ET \<Rightarrow> events \<Rightarrow> bool" where
  "contains_et m t s \<equiv> ev_contains m (KStr t) s"

definition ev_has :: "int \<Rightarrow> events \<Rightarrow> bool" where
  "ev_has e s \<longleftrightarrow> e \<in> set (ev_events s)"

definition ev_contains_in_list :: "int list \<Rightarrow> events \<Rightarrow> bool" where
  "ev_contains_in_list l s = list_ex (\<lambda>e. e \<in> set (ev_events s)) l"

definition ev_add_from_msg :: "int list \<Rightarrow> events \<Rightarrow> events" where
  "ev_add_from_msg names s = fold (\<lambda>e s. s\<lparr>ev_events := bisect_insort (ev_events s) e\<rparr>) names s"

definition ev_to_msg :: "events_mapping \<Rightarrow> events \<Rightarrow> (int \<times> ET list) list" where
  "ev_to_msg m s = map (\<lambda>e. (e, event_types m e)) (ev_events s)"

text \<open>\<open>remove\<close>: the counter of the removed event is incremented (\<open>KeyError\<close> if it has none)
  and one occurrence is taken out of the list.\<close>

definition ev_remove_static :: "int \<Rightarrow> bool \<Rightarrow> events \<Rightarrow> events option" where
  "ev_remove_static e static s =
     (let s = (if static \<and> e \<in> set (ev_static s) then s\<lparr>ev_static := remove1 e (ev_static s)\<rparr> else s)
      in if e \<in> set (ev_events s)
         then (case ev_counters s e of
                 None \<Rightarrow> None
               | Some n \<Rightarrow> Some (s\<lparr>ev_counters := (ev_counters s)(e \<mapsto> n + 1),
                                  ev_events := remove1 e (ev_events s)\<rparr>))
         else Some s)"

abbreviation ev_remove :: "int \<Rightarrow> events \<Rightarrow> events option" where
  "ev_remove e s \<equiv> ev_remove_static e False s"

text \<open>\<open>create_alerts\<close>: for every current event and every requested type the event has, the
  alert (built by the callback where the entry is one) once its creation delay has passed.\<close>

fun alerts_for_types ::
  "(int \<rightharpoonup> string) \<Rightarrow> (int \<rightharpoonup> int) \<Rightarrow> callback_args \<Rightarrow> int \<Rightarrow> event_entry \<Rightarrow> ET list
   \<Rightarrow> alert list option" where
  "alerts_for_types names counters args e en [] = Some []"
| "alerts_for_types names counters args e en (t # ts) =
     (case map_of en t of
        None \<Rightarrow> alerts_for_types names counters args e en ts
      | Some src \<Rightarrow>
          (let a = alert_of args src
           in do { n \<leftarrow> counters e;
                   if al_creation_delay a \<le> DT_CTRL * of_int (n + 1)
                   then do { name \<leftarrow> names e;
                             rest \<leftarrow> alerts_for_types names counters args e en ts;
                             Some (a\<lparr>al_type := name @ ''/'' @ ET_str t, al_event_type := Some t\<rparr> # rest) }
                   else alerts_for_types names counters args e en ts }))"

fun create_alerts_loop ::
  "events_mapping \<Rightarrow> (int \<rightharpoonup> string) \<Rightarrow> (int \<rightharpoonup> int) \<Rightarrow> callback_args \<Rightarrow> ET list \<Rightarrow> int list
   \<Rightarrow> alert list option" where
  "create_alerts_loop m names counters args ts [] = Some []"
| "create_alerts_loop m names counters args ts (e # es) =
     do { en \<leftarrow> map_of m e;
          alerts \<leftarrow> alerts_for_types names counters args e en ts;
          rest \<leftarrow> create_alerts_loop m names counters args ts es;
          Some (alerts @ rest) }"

definition ev_create_alerts ::
  "events_mapping \<Rightarrow> (int \<rightharpoonup> string) \<Rightarrow> ET list \<Rightarrow> callback_args \<Rightarrow> events \<Rightarrow> alert list option" where
  "ev_create_alerts m names ts args s =
     create_alerts_loop m names (ev_counters s) args ts (ev_events s)"

section \<open>Well-formed event stores\<close>

text \<open>
  The invariant of \<open>EventsBase\<close>: the lists are sorted (so that \<open>bisect\<close> finds the right
  place), every event has an entry in the table, and the counters are those of the table.
\<close>

definition known_event :: "events_mapping \<Rightarrow> int \<Rightarrow> bool" where
  "known_event m e \<longleftrightarrow> e \<in> set (map fst m)"

definition ev_wf :: "events_mapping \<Rightarrow> events \<Rightarrow> bool" where
  "ev_wf m s \<longleftrightarrow> sorted (ev_events s) \<and> sorted (ev_static s) \<and>
     list_all (known_event m) (ev_events s) \<and> list_all (known_event m) (ev_static s) \<and>
     dom (ev_counters s) = set (map fst m)"

definition ev_count :: "events \<Rightarrow> int \<Rightarrow> nat" where
  "ev_count s e = count_list (ev_events s) e"

text \<open>The effect of \<open>remove\<close> where it does not raise.\<close>

definition ev_removed :: "int \<Rightarrow> events \<Rightarrow> events" where
  "ev_removed e s =
     (if ev_has e s
      then s\<lparr>ev_counters := (ev_counters s)(e \<mapsto> the (ev_counters s e) + 1),
             ev_events := remove1 e (ev_events s)\<rparr>
      else s)"

lemma known_event_dom: "ev_wf m s \<Longrightarrow> known_event m e \<longleftrightarrow> e \<in> dom (ev_counters s)"
  by (simp add: ev_wf_def known_event_def)

lemma ev_remove_wf:
  assumes "ev_wf m s"
  shows "ev_remove e s = Some (ev_removed e s)"
proof (cases "e \<in> set (ev_events s)")
  case True
  with assms have "e \<in> dom (ev_counters s)"
    by (auto simp: ev_wf_def known_event_def list_all_iff)
  with True show ?thesis
    by (auto simp: ev_remove_static_def ev_removed_def ev_has_def)
next
  case False
  then show ?thesis by (simp add: ev_remove_static_def ev_removed_def ev_has_def)
qed

lemma ev_wf_init [ev_simps]: "ev_wf m (ev_init m)"
  by (auto simp: ev_wf_def ev_init_def dom_def)

lemma ev_wf_add_static: "ev_wf m s \<Longrightarrow> known_event m e \<Longrightarrow> ev_wf m (ev_add_static e static s)"
  by (auto simp: ev_wf_def ev_add_static_def Let_def list_all_iff)

lemma ev_wf_removed: "ev_wf m s \<Longrightarrow> ev_wf m (ev_removed e s)"
  by (auto simp: ev_wf_def ev_removed_def ev_has_def known_event_def list_all_iff dest: notin_set_remove1)

lemma dom_clear: "dom (ev_counters (ev_clear s)) = dom (ev_counters s)"
  by (rule set_eqI) (simp add: ev_clear_def dom_def split: option.split)

lemma ev_wf_clear:
  assumes "ev_wf m s"
  shows "ev_wf m (ev_clear s)"
proof -
  have "ev_events (ev_clear s) = ev_static s" "ev_static (ev_clear s) = ev_static s"
    by (simp_all add: ev_clear_def)
  with assms show ?thesis by (simp only: ev_wf_def dom_clear simp_thms)
qed

text \<open>\<open>add_from_msg\<close> inserts into the list directly, which is what \<open>add\<close> does.\<close>

lemma add_from_msg_fold: "ev_add_from_msg es s = fold (\<lambda>e. ev_add e) es s"
  by (simp add: ev_add_from_msg_def ev_add_static_def cong: fold_cong)

lemma ev_count_add_static: "ev_count (ev_add_static e static s) x =
    (if e = x then Suc (ev_count s x) else ev_count s x)"
  by (simp add: ev_count_def ev_add_static_def Let_def count_bisect_insort)

lemma ev_count_removed: "ev_count (ev_removed e s) x =
    (if e = x then ev_count s x - 1 else ev_count s x)"
  by (simp add: ev_count_def ev_removed_def ev_has_def count_remove1 count_notin)

lemma ev_has_count: "ev_has e s \<longleftrightarrow> 0 < ev_count s e"
  by (simp only: ev_has_def ev_count_def in_set_count)

section \<open>The interface of an event store\<close>

text \<open>
  What the clients (selfdrived, MADS, the car-specific events, speed limit assist) rely on:
  a store counts the occurrences of each event, \<open>add\<close> adds one, \<open>remove\<close> takes one away
  and does not raise on a well-formed store.
\<close>

locale event_store =
  fixes count :: "'s \<Rightarrow> 'e \<Rightarrow> nat"
    and has :: "'e \<Rightarrow> 's \<Rightarrow> bool"
    and add :: "'e \<Rightarrow> 's \<Rightarrow> 's"
    and remove :: "'e \<Rightarrow> 's \<Rightarrow> 's option"
    and removed :: "'e \<Rightarrow> 's \<Rightarrow> 's"
    and wf :: "'s \<Rightarrow> bool"
    and known :: "'e \<Rightarrow> bool"
  assumes has_count: "has e s \<longleftrightarrow> 0 < count s e"
    and count_add: "count (add e s) x = (if e = x then Suc (count s x) else count s x)"
    and count_removed: "count (removed e s) x = (if e = x then count s x - 1 else count s x)"
    and remove_wf: "wf s \<Longrightarrow> remove e s = Some (removed e s)"
    and wf_add: "wf s \<Longrightarrow> known e \<Longrightarrow> wf (add e s)"
    and wf_removed: "wf s \<Longrightarrow> wf (removed e s)"
begin

lemma has_add: "has x (add e s) \<longleftrightarrow> x = e \<or> has x s"
  by (auto simp: has_count count_add)

lemma has_removed_other: "x \<noteq> e \<Longrightarrow> has x (removed e s) \<longleftrightarrow> has x s"
  by (simp add: has_count count_removed)

lemma has_removed_self: "has e (removed e s) \<longleftrightarrow> 1 < count s e"
  by (auto simp: has_count count_removed)

lemma has_removed: "has x (removed e s) \<longleftrightarrow> (if x = e then 1 < count s e else has x s)"
  by (simp add: has_removed_other has_removed_self)

lemma removed_gone: "count s e \<le> 1 \<Longrightarrow> \<not> has e (removed e s)"
  by (simp add: has_removed_self)

lemma has_removedD: "has x (removed e s) \<Longrightarrow> has x s"
  by (auto simp: has_count count_removed split: if_splits)

text \<open>Replacing an event keeps every other event of the store it is removed from.\<close>

lemma remove_then_has:
  assumes "wf s" "remove e s = Some s'" "x \<noteq> e"
  shows "has x s' \<longleftrightarrow> has x s"
  using assms by (auto simp: remove_wf has_removed_other)

lemma wf_adds: "wf s \<Longrightarrow> (\<And>e. e \<in> set es \<Longrightarrow> known e) \<Longrightarrow> wf (fold add es s)"
  by (induction es arbitrary: s) (auto simp: wf_add)

lemma has_adds: "has x (fold add es s) \<longleftrightarrow> x \<in> set es \<or> has x s"
  by (induction es arbitrary: s) (auto simp: has_add)

end

interpretation ev: event_store ev_count ev_has "\<lambda>e. ev_add e" "\<lambda>e. ev_remove e" ev_removed "ev_wf m" "known_event m"
  for m
  by unfold_locales
     (auto simp: ev_has_count ev_count_add_static ev_count_removed ev_remove_wf ev_wf_add_static ev_wf_removed)

lemma ev_wf_add_from_msg: "ev_wf m s \<Longrightarrow> list_all (known_event m) es \<Longrightarrow> ev_wf m (ev_add_from_msg es s)"
  unfolding add_from_msg_fold by (rule ev.wf_adds) (auto simp: list_all_iff)

lemmas ev_store_simps [ev_simps] = ev.has_add ev.has_removed ev_count_add_static ev_count_removed
  ev_remove_wf ev_wf_add_static ev_wf_removed ev_wf_clear ev_wf_add_from_msg

section \<open>Lemmas on \<open>contains\<close> and on the loops\<close>

lemma contains_int_never [ev_simps]: "\<not> ev_contains m (KInt n) s"
  by (simp add: ev_contains_def list_ex_iff)

lemma contains_iff: "contains_et m t s \<longleftrightarrow> (\<exists>e. ev_has e s \<and> t \<in> set (event_types m e))"
  by (auto simp: ev_contains_def list_ex_iff ev_has_def)

lemma contains_add [ev_simps]:
  "contains_et m t (ev_add_static e static s) \<longleftrightarrow> t \<in> set (event_types m e) \<or> contains_et m t s"
  by (auto simp: ev_contains_def ev_add_static_def Let_def list_ex_iff)

lemma contains_in_list_iff: "ev_contains_in_list l s \<longleftrightarrow> (\<exists>e\<in>set l. ev_has e s)"
  by (auto simp: ev_contains_in_list_def list_ex_iff ev_has_def)

lemma has_add_from_msg [ev_simps]: "ev_has x (ev_add_from_msg es s) \<longleftrightarrow> x \<in> set es \<or> ev_has x s"
  unfolding add_from_msg_fold by (rule ev.has_adds)

lemma ev_static_add [frame_simps]: "ev_static (ev_add e s) = ev_static s"
  by (simp add: ev_add_static_def)

lemma ev_static_removed [frame_simps]: "ev_static (ev_removed e s) = ev_static s"
  by (simp add: ev_removed_def)

lemma has_clear [ev_simps]: "ev_has e (ev_clear s) \<longleftrightarrow> e \<in> set (ev_static s)"
  by (simp add: ev_has_def ev_clear_def)

lemma ev_len_add: "ev_len (ev_add_static e static s) = ev_len s + 1"
  by (simp add: ev_len_def ev_add_static_def Let_def)

text \<open>Once every table key has a name and a counter, \<open>create_alerts\<close> does not raise.\<close>

lemma alerts_for_types_defined:
  "names e \<noteq> None \<Longrightarrow> counters e \<noteq> None \<Longrightarrow> \<exists>r. alerts_for_types names counters args e en ts = Some r"
  by (induction ts) (auto split: option.splits simp: Let_def)

lemma create_alerts_loop_defined:
  assumes "\<forall>e\<in>set es. known_event m e \<and> counters e \<noteq> None \<and> names e \<noteq> None"
  shows "\<exists>r. create_alerts_loop m names counters args ts es = Some r"
  using assms
proof (induction es)
  case Nil
  then show ?case by simp
next
  case (Cons e es)
  then obtain en where "map_of m e = Some en"
    by (auto simp: known_event_def dest!: weak_map_of_SomeI)
  moreover obtain a where "alerts_for_types names counters args e en ts = Some a"
    using Cons.prems alerts_for_types_defined [of names e counters] by force
  moreover obtain r where "create_alerts_loop m names counters args ts es = Some r"
    using Cons by auto
  ultimately show ?case by simp
qed

lemma create_alerts_defined:
  assumes "ev_wf m s" "\<forall>e\<in>set (map fst m). names e \<noteq> None"
  shows "\<exists>r. ev_create_alerts m names ts args s = Some r"
proof -
  have "\<forall>e\<in>set (ev_events s). known_event m e \<and> ev_counters s e \<noteq> None \<and> names e \<noteq> None"
  proof
    fix e assume e: "e \<in> set (ev_events s)"
    with assms(1) have k: "known_event m e" by (simp add: ev_wf_def list_all_iff)
    with assms(1) have "e \<in> dom (ev_counters s)" by (simp add: known_event_dom)
    with k assms(2) show "known_event m e \<and> ev_counters s e \<noteq> None \<and> names e \<noteq> None"
      by (auto simp: known_event_def)
  qed
  then show ?thesis unfolding ev_create_alerts_def by (rule create_alerts_loop_defined)
qed

text \<open>Every alert that is created is of a requested type of a current event.\<close>

lemma alerts_for_types_event_type:
  "alerts_for_types names counters args e en ts = Some r \<Longrightarrow> a \<in> set r \<Longrightarrow>
     \<exists>t\<in>set ts. al_event_type a = Some t \<and> map_of en t \<noteq> None"
proof (induction ts arbitrary: r)
  case Nil
  then show ?case by simp
next
  case (Cons t ts)
  then show ?case
    by (fastforce simp: Let_def split: option.splits if_splits simp: bind_eq_Some_conv)
qed

lemma create_alerts_loop_event_type:
  "create_alerts_loop m names counters args ts es = Some r \<Longrightarrow> a \<in> set r \<Longrightarrow>
     \<exists>e\<in>set es. \<exists>t\<in>set ts. al_event_type a = Some t \<and> t \<in> set (event_types m e)"
proof (induction es arbitrary: r)
  case Nil
  then show ?case by simp
next
  case (Cons e es)
  from Cons.prems(1) obtain en as rest where
    en: "map_of m e = Some en" and as: "alerts_for_types names counters args e en ts = Some as"
    and rest: "create_alerts_loop m names counters args ts es = Some rest" and r: "r = as @ rest"
    by (auto simp: bind_eq_Some_conv)
  have types: "event_types m e = map fst en" by (simp add: event_types_def mapping_get_def en)
  show ?case
  proof (cases "a \<in> set as")
    case True
    from alerts_for_types_event_type [OF as True] show ?thesis
      by (auto simp: types map_of_eq_None_iff)
  next
    case False
    with Cons.prems(2) r have "a \<in> set rest" by simp
    from Cons.IH [OF rest this] show ?thesis by auto
  qed
qed

lemma create_alerts_event_type:
  assumes "ev_create_alerts m names ts args s = Some r" "a \<in> set r"
  shows "\<exists>e t. ev_has e s \<and> t \<in> set ts \<and> al_event_type a = Some t \<and> t \<in> set (event_types m e)"
  using create_alerts_loop_event_type [OF assms(1) [unfolded ev_create_alerts_def] assms(2)]
  by (auto simp: ev_has_def)

end
