(* ===== verification/EventNames.thy ===== *)
theory EventNames
  imports EventsBase
begin

text \<open>
  The event names: the ordinals of \<open>enum OnroadEvent.EventName\<close> (\<open>cereal/log.capnp\<close>)
  and of \<open>enum OnroadEventSP.EventName\<close> (\<open>cereal/custom.capnp\<close>).  The code keeps events
  as these integers (its lists are ordered by them), so the model does too.  Then the reverse
  dictionaries \<open>EVENT_NAME\<close> and \<open>EVENT_NAME_SP\<close>.
\<close>

section \<open>log.OnroadEvent.EventName\<close>

abbreviation EN_canError :: int where "EN_canError \<equiv> 0"
abbreviation EN_steerUnavailable :: int where "EN_steerUnavailable \<equiv> 1"
abbreviation EN_wrongGear :: int where "EN_wrongGear \<equiv> 2"
abbreviation EN_doorOpen :: int where "EN_doorOpen \<equiv> 3"
abbreviation EN_seatbeltNotLatched :: int where "EN_seatbeltNotLatched \<equiv> 4"
abbreviation EN_espDisabled :: int where "EN_espDisabled \<equiv> 5"
abbreviation EN_wrongCarMode :: int where "EN_wrongCarMode \<equiv> 6"
abbreviation EN_steerTempUnavailable :: int where "EN_steerTempUnavailable \<equiv> 7"
abbreviation EN_reverseGear :: int where "EN_reverseGear \<equiv> 8"
abbreviation EN_buttonCancel :: int where "EN_buttonCancel \<equiv> 9"
abbreviation EN_buttonEnable :: int where "EN_buttonEnable \<equiv> 10"
abbreviation EN_pedalPressed :: int where "EN_pedalPressed \<equiv> 11"
abbreviation EN_preEnableStandstill :: int where "EN_preEnableStandstill \<equiv> 12"
abbreviation EN_gasPressedOverride :: int where "EN_gasPressedOverride \<equiv> 13"
abbreviation EN_steerOverride :: int where "EN_steerOverride \<equiv> 14"
abbreviation EN_cruiseDisabled :: int where "EN_cruiseDisabled \<equiv> 15"
abbreviation EN_speedTooLow :: int where "EN_speedTooLow \<equiv> 16"
abbreviation EN_outOfSpace :: int where "EN_outOfSpace \<equiv> 17"
abbreviation EN_overheat :: int where "EN_overheat \<equiv> 18"
abbreviation EN_calibrationIncomplete :: int where "EN_calibrationIncomplete \<equiv> 19"
abbreviation EN_calibrationInvalid :: int where "EN_calibrationInvalid \<equiv> 20"
abbreviation EN_calibrationRecalibrating :: int where "EN_calibrationRecalibrating \<equiv> 21"
abbreviation EN_controlsMismatch :: int where "EN_controlsMismatch \<equiv> 22"
abbreviation EN_pcmEnable :: int where "EN_pcmEnable \<equiv> 23"
abbreviation EN_pcmDisable :: int where "EN_pcmDisable \<equiv> 24"
abbreviation EN_radarFault :: int where "EN_radarFault \<equiv> 25"
abbreviation EN_brakeHold :: int where "EN_brakeHold \<equiv> 26"
abbreviation EN_parkBrake :: int where "EN_parkBrake \<equiv> 27"
abbreviation EN_manualRestart :: int where "EN_manualRestart \<equiv> 28"
abbreviation EN_joystickDebug :: int where "EN_joystickDebug \<equiv> 29"
abbreviation EN_longitudinalManeuver :: int where "EN_longitudinalManeuver \<equiv> 30"
abbreviation EN_steerTempUnavailableSilent :: int where "EN_steerTempUnavailableSilent \<equiv> 31"
abbreviation EN_resumeRequired :: int where "EN_resumeRequired \<equiv> 32"
abbreviation EN_driverDistracted1 :: int where "EN_driverDistracted1 \<equiv> 33"
abbreviation EN_driverDistracted2 :: int where "EN_driverDistracted2 \<equiv> 34"
abbreviation EN_driverDistracted3 :: int where "EN_driverDistracted3 \<equiv> 35"
abbreviation EN_driverUnresponsive1 :: int where "EN_driverUnresponsive1 \<equiv> 36"
abbreviation EN_driverUnresponsive2 :: int where "EN_driverUnresponsive2 \<equiv> 37"
abbreviation EN_driverUnresponsive3 :: int where "EN_driverUnresponsive3 \<equiv> 38"
abbreviation EN_belowSteerSpeed :: int where "EN_belowSteerSpeed \<equiv> 39"
abbreviation EN_lowBatteryDEPRECATED :: int where "EN_lowBatteryDEPRECATED \<equiv> 40"
abbreviation EN_accFaulted :: int where "EN_accFaulted \<equiv> 41"
abbreviation EN_sensorDataInvalid :: int where "EN_sensorDataInvalid \<equiv> 42"
abbreviation EN_commIssue :: int where "EN_commIssue \<equiv> 43"
abbreviation EN_commIssueAvgFreq :: int where "EN_commIssueAvgFreq \<equiv> 44"
abbreviation EN_tooDistracted :: int where "EN_tooDistracted \<equiv> 45"
abbreviation EN_posenetInvalid :: int where "EN_posenetInvalid \<equiv> 46"
abbreviation EN_soundsUnavailableDEPRECATED :: int where "EN_soundsUnavailableDEPRECATED \<equiv> 47"
abbreviation EN_preLaneChangeLeft :: int where "EN_preLaneChangeLeft \<equiv> 48"
abbreviation EN_preLaneChangeRight :: int where "EN_preLaneChangeRight \<equiv> 49"
abbreviation EN_laneChange :: int where "EN_laneChange \<equiv> 50"
abbreviation EN_lowMemory :: int where "EN_lowMemory \<equiv> 51"
abbreviation EN_stockAeb :: int where "EN_stockAeb \<equiv> 52"
abbreviation EN_ldw :: int where "EN_ldw \<equiv> 53"
abbreviation EN_carUnrecognized :: int where "EN_carUnrecognized \<equiv> 54"
abbreviation EN_invalidLkasSetting :: int where "EN_invalidLkasSetting \<equiv> 55"
abbreviation EN_speedTooHigh :: int where "EN_speedTooHigh \<equiv> 56"
abbreviation EN_laneChangeBlocked :: int where "EN_laneChangeBlocked \<equiv> 57"
abbreviation EN_relayMalfunction :: int where "EN_relayMalfunction \<equiv> 58"
abbreviation EN_stockFcw :: int where "EN_stockFcw \<equiv> 59"
abbreviation EN_startup :: int where "EN_startup \<equiv> 60"
abbreviation EN_startupNoCar :: int where "EN_startupNoCar \<equiv> 61"
abbreviation EN_startupNoControl :: int where "EN_startupNoControl \<equiv> 62"
abbreviation EN_startupNoSecOcKey :: int where "EN_startupNoSecOcKey \<equiv> 63"
abbreviation EN_startupMaster :: int where "EN_startupMaster \<equiv> 64"
abbreviation EN_fcw :: int where "EN_fcw \<equiv> 65"
abbreviation EN_steerSaturated :: int where "EN_steerSaturated \<equiv> 66"
abbreviation EN_belowEngageSpeed :: int where "EN_belowEngageSpeed \<equiv> 67"
abbreviation EN_noGps :: int where "EN_noGps \<equiv> 68"
abbreviation EN_wrongCruiseMode :: int where "EN_wrongCruiseMode \<equiv> 69"
abbreviation EN_modeldLagging :: int where "EN_modeldLagging \<equiv> 70"
abbreviation EN_deviceFallingDEPRECATED :: int where "EN_deviceFallingDEPRECATED \<equiv> 71"
abbreviation EN_fanMalfunction :: int where "EN_fanMalfunction \<equiv> 72"
abbreviation EN_cameraMalfunction :: int where "EN_cameraMalfunction \<equiv> 73"
abbreviation EN_cameraFrameRate :: int where "EN_cameraFrameRate \<equiv> 74"
abbreviation EN_processNotRunning :: int where "EN_processNotRunning \<equiv> 75"
abbreviation EN_dashcamMode :: int where "EN_dashcamMode \<equiv> 76"
abbreviation EN_selfdriveInitializing :: int where "EN_selfdriveInitializing \<equiv> 77"
abbreviation EN_usbErrorDEPRECATED :: int where "EN_usbErrorDEPRECATED \<equiv> 78"
abbreviation EN_cruiseMismatch :: int where "EN_cruiseMismatch \<equiv> 79"
abbreviation EN_canBusMissing :: int where "EN_canBusMissing \<equiv> 80"
abbreviation EN_selfdrivedLagging :: int where "EN_selfdrivedLagging \<equiv> 81"
abbreviation EN_resumeBlocked :: int where "EN_resumeBlocked \<equiv> 82"
abbreviation EN_steerTimeLimit :: int where "EN_steerTimeLimit \<equiv> 83"
abbreviation EN_vehicleSensorsInvalid :: int where "EN_vehicleSensorsInvalid \<equiv> 84"
abbreviation EN_locationdTemporaryError :: int where "EN_locationdTemporaryError \<equiv> 85"
abbreviation EN_locationdPermanentError :: int where "EN_locationdPermanentError \<equiv> 86"
abbreviation EN_paramsdTemporaryError :: int where "EN_paramsdTemporaryError \<equiv> 87"
abbreviation EN_paramsdPermanentError :: int where "EN_paramsdPermanentError \<equiv> 88"
abbreviation EN_actuatorsApiUnavailable :: int where "EN_actuatorsApiUnavailable \<equiv> 89"
abbreviation EN_espActive :: int where "EN_espActive \<equiv> 90"
abbreviation EN_personalityChanged :: int where "EN_personalityChanged \<equiv> 91"
abbreviation EN_aeb :: int where "EN_aeb \<equiv> 92"
abbreviation EN_radarTempUnavailable :: int where "EN_radarTempUnavailable \<equiv> 93"
abbreviation EN_steerDisengage :: int where "EN_steerDisengage \<equiv> 94"
abbreviation EN_userBookmark :: int where "EN_userBookmark \<equiv> 95"
abbreviation EN_excessiveActuation :: int where "EN_excessiveActuation \<equiv> 96"
abbreviation EN_audioFeedbackDEPRECATED :: int where "EN_audioFeedbackDEPRECATED \<equiv> 97"
abbreviation EN_stockLkas :: int where "EN_stockLkas \<equiv> 98"
abbreviation EN_lateralManeuver :: int where "EN_lateralManeuver \<equiv> 99"
abbreviation EN_bigModelLoading :: int where "EN_bigModelLoading \<equiv> 100"
abbreviation EN_bigModelReadyDEPRECATED :: int where "EN_bigModelReadyDEPRECATED \<equiv> 101"
abbreviation EN_bigModelFailed :: int where "EN_bigModelFailed \<equiv> 102"
abbreviation EN_carNotReady :: int where "EN_carNotReady \<equiv> 103"

section \<open>custom.OnroadEventSP.EventName\<close>

abbreviation SP_lkasEnable :: int where "SP_lkasEnable \<equiv> 0"
abbreviation SP_lkasDisable :: int where "SP_lkasDisable \<equiv> 1"
abbreviation SP_manualSteeringRequired :: int where "SP_manualSteeringRequired \<equiv> 2"
abbreviation SP_manualLongitudinalRequired :: int where "SP_manualLongitudinalRequired \<equiv> 3"
abbreviation SP_silentLkasEnable :: int where "SP_silentLkasEnable \<equiv> 4"
abbreviation SP_silentLkasDisable :: int where "SP_silentLkasDisable \<equiv> 5"
abbreviation SP_silentBrakeHold :: int where "SP_silentBrakeHold \<equiv> 6"
abbreviation SP_silentWrongGear :: int where "SP_silentWrongGear \<equiv> 7"
abbreviation SP_silentReverseGear :: int where "SP_silentReverseGear \<equiv> 8"
abbreviation SP_silentDoorOpen :: int where "SP_silentDoorOpen \<equiv> 9"
abbreviation SP_silentSeatbeltNotLatched :: int where "SP_silentSeatbeltNotLatched \<equiv> 10"
abbreviation SP_silentParkBrake :: int where "SP_silentParkBrake \<equiv> 11"
abbreviation SP_controlsMismatchLateral :: int where "SP_controlsMismatchLateral \<equiv> 12"
abbreviation SP_hyundaiRadarTracksConfirmed :: int where "SP_hyundaiRadarTracksConfirmed \<equiv> 13"
abbreviation SP_experimentalModeSwitched :: int where "SP_experimentalModeSwitched \<equiv> 14"
abbreviation SP_wrongCarModeAlertOnly :: int where "SP_wrongCarModeAlertOnly \<equiv> 15"
abbreviation SP_pedalPressedAlertOnly :: int where "SP_pedalPressedAlertOnly \<equiv> 16"
abbreviation SP_laneTurnLeft :: int where "SP_laneTurnLeft \<equiv> 17"
abbreviation SP_laneTurnRight :: int where "SP_laneTurnRight \<equiv> 18"
abbreviation SP_speedLimitPreActive :: int where "SP_speedLimitPreActive \<equiv> 19"
abbreviation SP_speedLimitActive :: int where "SP_speedLimitActive \<equiv> 20"
abbreviation SP_speedLimitChanged :: int where "SP_speedLimitChanged \<equiv> 21"
abbreviation SP_speedLimitPending :: int where "SP_speedLimitPending \<equiv> 22"
abbreviation SP_e2eChime :: int where "SP_e2eChime \<equiv> 23"
abbreviation SP_laneChangeRoadEdge :: int where "SP_laneChangeRoadEdge \<equiv> 24"
abbreviation SP_bigModelReady :: int where "SP_bigModelReady \<equiv> 25"

section \<open>Names\<close>

definition EVENT_NAME_table :: "(int \<times> string) list" where
  "EVENT_NAME_table = [
    (0, ''canError''),
    (1, ''steerUnavailable''),
    (2, ''wrongGear''),
    (3, ''doorOpen''),
    (4, ''seatbeltNotLatched''),
    (5, ''espDisabled''),
    (6, ''wrongCarMode''),
    (7, ''steerTempUnavailable''),
    (8, ''reverseGear''),
    (9, ''buttonCancel''),
    (10, ''buttonEnable''),
    (11, ''pedalPressed''),
    (12, ''preEnableStandstill''),
    (13, ''gasPressedOverride''),
    (14, ''steerOverride''),
    (15, ''cruiseDisabled''),
    (16, ''speedTooLow''),
    (17, ''outOfSpace''),
    (18, ''overheat''),
    (19, ''calibrationIncomplete''),
    (20, ''calibrationInvalid''),
    (21, ''calibrationRecalibrating''),
    (22, ''controlsMismatch''),
    (23, ''pcmEnable''),
    (24, ''pcmDisable''),
    (25, ''radarFault''),
    (26, ''brakeHold''),
    (27, ''parkBrake''),
    (28, ''manualRestart''),
    (29, ''joystickDebug''),
    (30, ''longitudinalManeuver''),
    (31, ''steerTempUnavailableSilent''),
    (32, ''resumeRequired''),
    (33, ''driverDistracted1''),
    (34, ''driverDistracted2''),
    (35, ''driverDistracted3''),
    (36, ''driverUnresponsive1''),
    (37, ''driverUnresponsive2''),
    (38, ''driverUnresponsive3''),
    (39, ''belowSteerSpeed''),
    (40, ''lowBatteryDEPRECATED''),
    (41, ''accFaulted''),
    (42, ''sensorDataInvalid''),
    (43, ''commIssue''),
    (44, ''commIssueAvgFreq''),
    (45, ''tooDistracted''),
    (46, ''posenetInvalid''),
    (47, ''soundsUnavailableDEPRECATED''),
    (48, ''preLaneChangeLeft''),
    (49, ''preLaneChangeRight''),
    (50, ''laneChange''),
    (51, ''lowMemory''),
    (52, ''stockAeb''),
    (53, ''ldw''),
    (54, ''carUnrecognized''),
    (55, ''invalidLkasSetting''),
    (56, ''speedTooHigh''),
    (57, ''laneChangeBlocked''),
    (58, ''relayMalfunction''),
    (59, ''stockFcw''),
    (60, ''startup''),
    (61, ''startupNoCar''),
    (62, ''startupNoControl''),
    (63, ''startupNoSecOcKey''),
    (64, ''startupMaster''),
    (65, ''fcw''),
    (66, ''steerSaturated''),
    (67, ''belowEngageSpeed''),
    (68, ''noGps''),
    (69, ''wrongCruiseMode''),
    (70, ''modeldLagging''),
    (71, ''deviceFallingDEPRECATED''),
    (72, ''fanMalfunction''),
    (73, ''cameraMalfunction''),
    (74, ''cameraFrameRate''),
    (75, ''processNotRunning''),
    (76, ''dashcamMode''),
    (77, ''selfdriveInitializing''),
    (78, ''usbErrorDEPRECATED''),
    (79, ''cruiseMismatch''),
    (80, ''canBusMissing''),
    (81, ''selfdrivedLagging''),
    (82, ''resumeBlocked''),
    (83, ''steerTimeLimit''),
    (84, ''vehicleSensorsInvalid''),
    (85, ''locationdTemporaryError''),
    (86, ''locationdPermanentError''),
    (87, ''paramsdTemporaryError''),
    (88, ''paramsdPermanentError''),
    (89, ''actuatorsApiUnavailable''),
    (90, ''espActive''),
    (91, ''personalityChanged''),
    (92, ''aeb''),
    (93, ''radarTempUnavailable''),
    (94, ''steerDisengage''),
    (95, ''userBookmark''),
    (96, ''excessiveActuation''),
    (97, ''audioFeedbackDEPRECATED''),
    (98, ''stockLkas''),
    (99, ''lateralManeuver''),
    (100, ''bigModelLoading''),
    (101, ''bigModelReadyDEPRECATED''),
    (102, ''bigModelFailed''),
    (103, ''carNotReady'')]"

definition EVENT_NAME :: "int \<rightharpoonup> string" where
  "EVENT_NAME = map_of EVENT_NAME_table"

definition EVENT_NAME_SP_table :: "(int \<times> string) list" where
  "EVENT_NAME_SP_table = [
    (0, ''lkasEnable''),
    (1, ''lkasDisable''),
    (2, ''manualSteeringRequired''),
    (3, ''manualLongitudinalRequired''),
    (4, ''silentLkasEnable''),
    (5, ''silentLkasDisable''),
    (6, ''silentBrakeHold''),
    (7, ''silentWrongGear''),
    (8, ''silentReverseGear''),
    (9, ''silentDoorOpen''),
    (10, ''silentSeatbeltNotLatched''),
    (11, ''silentParkBrake''),
    (12, ''controlsMismatchLateral''),
    (13, ''hyundaiRadarTracksConfirmed''),
    (14, ''experimentalModeSwitched''),
    (15, ''wrongCarModeAlertOnly''),
    (16, ''pedalPressedAlertOnly''),
    (17, ''laneTurnLeft''),
    (18, ''laneTurnRight''),
    (19, ''speedLimitPreActive''),
    (20, ''speedLimitActive''),
    (21, ''speedLimitChanged''),
    (22, ''speedLimitPending''),
    (23, ''e2eChime''),
    (24, ''laneChangeRoadEdge''),
    (25, ''bigModelReady'')]"

definition EVENT_NAME_SP :: "int \<rightharpoonup> string" where
  "EVENT_NAME_SP = map_of EVENT_NAME_SP_table"

end
