(* ===== verification/EventTable.thy ===== *)
theory EventTable
  imports EventNames
begin

text \<open>
  \<open>selfdrive/selfdrived/events.py\<close>: the alert callbacks and the table \<open>EVENTS\<close> from
  event names to the event types they have, each with its alert or alert callback.  The table is
  in five definitions, in the order of the source.  At the end, the types of every entry as
  rewrite rules, and the facts about the table the state machines rely on.
\<close>

section \<open>Helper functions\<close>

definition get_display_speed :: "real \<Rightarrow> bool \<Rightarrow> string" where
  "get_display_speed speed_ms metric =
     (let speed = py_int (of_int (py_round (speed_ms * (if metric then MS_TO_KPH else MS_TO_MPH))));
          unit = (if metric then ''km/h'' else ''mph'')
      in show_int speed @ '' '' @ unit)"

text \<open>\<open>calibrationd.MIN_SPEED_FILTER\<close>.\<close>

definition MIN_SPEED_FILTER :: real where
  "MIN_SPEED_FILTER = 15 * MPH_TO_MS"

section \<open>Alert callbacks\<close>

definition soft_disable_alert :: "string \<Rightarrow> callback_args \<Rightarrow> alert" where
  "soft_disable_alert t2 args =
     (if ca_soft_disable_time args < py_int ((1 / 2) / DT_CTRL) then ImmediateDisableAlert t2
      else SoftDisableAlert t2)"

definition user_soft_disable_alert :: "string \<Rightarrow> callback_args \<Rightarrow> alert" where
  "user_soft_disable_alert t2 args =
     (if ca_soft_disable_time args < py_int ((1 / 2) / DT_CTRL) then ImmediateDisableAlert t2
      else UserSoftDisableAlert t2)"

definition startup_master_alert :: "callback_args \<Rightarrow> alert" where
  "startup_master_alert args =
     (let branch = (if ca_REPLAY args then ''replay'' else ca_short_branch args)
      in StartupAlert_full (ca_mici args) ''WARNING: This branch is not tested'' branch AS_userPrompt)"

definition below_engage_speed_alert :: "callback_args \<Rightarrow> alert" where
  "below_engage_speed_alert args =
     NoEntryAlert (ca_mici args)
       (''Drive above '' @ get_display_speed (cp_minEnableSpeed (ca_CP args)) (ca_metric args) @ '' to engage'')"

definition below_steer_speed_alert :: "callback_args \<Rightarrow> alert" where
  "below_steer_speed_alert args =
     Alert (''Steer Assist Unavailable Below '' @ get_display_speed (cp_minSteerSpeed (ca_CP args)) (ca_metric args))
       '''' AS_userPrompt ASz_small LOW VA_none AA_prompt (4 / 10)"

definition calibration_incomplete_alert :: "callback_args \<Rightarrow> alert" where
  "calibration_incomplete_alert args =
     (let xc = in_extrinsics (ca_sm args);
          first_word = (if xc_calStatus xc = CAL_recalibrating then ''Recalibrating'' else ''Calibrating'')
      in Alert (first_word @ '': '' @ show_int (xc_calPerc xc) @ ''%'')
           (''Drive Above '' @ get_display_speed MIN_SPEED_FILTER (ca_metric args))
           AS_normal ASz_mid LOWEST VA_none AA_none (2 / 10))"

definition out_of_space_alert :: "callback_args \<Rightarrow> alert" where
  "out_of_space_alert args =
     (let full_perc = py_round (100 - ds_freeSpacePercent (in_deviceState (ca_sm args)))
      in NormalPermanentAlert ''Out of Storage'' (show_int full_perc @ ''% full''))"

text \<open>Without a velocity the error is a NaN, which prints as \<open>nan\<close>.\<close>

definition posenet_invalid_alert :: "callback_args \<Rightarrow> alert" where
  "posenet_invalid_alert args =
     (let err = (case mv_velocity_x (in_modelV2 (ca_sm args)) of [] \<Rightarrow> ''nan''
                 | x # _ \<Rightarrow> fmt_fixed 1 (cs_vEgo (ca_CS args) - x))
      in NoEntryAlert_full (ca_mici args) (''Speed Error: '' @ err @ '' m/s'') ''Posenet Speed Invalid'' VA_none LOW)"

definition process_not_running_alert :: "callback_args \<Rightarrow> alert" where
  "process_not_running_alert args =
     (let not_running = [pr_name p. p \<leftarrow> in_processes (ca_sm args), \<not> pr_running p \<and> pr_shouldBeRunning p]
      in NoEntryAlert_full (ca_mici args) (py_join '', '' not_running) ''Process Not Running'' VA_none LOW)"

definition comm_issue_alert :: "callback_args \<Rightarrow> alert" where
  "comm_issue_alert args =
     (let sm = in_sub (ca_sm args); bs = [s \<leftarrow> subm_services sm. \<not> all_checks sm [s]]
      in NoEntryAlert_full (ca_mici args) (py_join '', '' (take 4 bs))
           ''Communication Issue Between Processes'' VA_none LOW)"

definition camera_malfunction_alert :: "callback_args \<Rightarrow> alert" where
  "camera_malfunction_alert args =
     (let sm = in_sub (ca_sm args);
          all_cams = [''narrowRoadCameraState'', ''cabinCameraState'', ''wideRoadCameraState''];
          bad_cams = [py_remove_sub ''State'' s. s \<leftarrow> all_cams, s \<in> set (subm_services sm) \<and> \<not> all_checks sm [s]]
      in NormalPermanentAlert ''Camera Malfunction'' (py_join '', '' bad_cams))"

definition calibration_invalid_alert :: "callback_args \<Rightarrow> alert" where
  "calibration_invalid_alert args =
     (let rpy = xc_rpyCalib (in_extrinsics (ca_sm args));
          degrees = (\<lambda>i. if length rpy = 3 then fmt_fixed 1 (rpy ! i * 180 / pi) else ''nan'');
          yaw = degrees 2; pitch = degrees 1;
          angles = ''Remount Device (Pitch: '' @ pitch @ [CHR 0xB0] @ '', Yaw: '' @ yaw @ [CHR 0xB0] @ '')''
      in NormalPermanentAlert ''Calibration Invalid'' angles)"

definition paramsd_invalid_alert :: "callback_args \<Rightarrow> alert" where
  "paramsd_invalid_alert args =
     (let vp = in_vehicleParameters (ca_sm args); mici = ca_mici args
      in if \<not> vp_angleOffsetValid vp then
           NoEntryAlert_full mici
             (''Angle offset too high (Offset: '' @ fmt_fixed 1 (vp_angleOffsetDeg vp) @ [CHR 0xB0] @ '')'')
             ''Steering misalignment detected'' VA_none LOW
         else if \<not> vp_steerRatioValid vp then
           NoEntryAlert_full mici
             (''Steering rack geometry may be off (Ratio: '' @ fmt_fixed 1 (vp_steerRatio vp) @ '')'')
             ''Steer ratio mismatch'' VA_none LOW
         else if \<not> vp_stiffnessFactorValid vp then
           NoEntryAlert_full mici
             (''Check tires, pressure, or alignment (Factor: '' @ fmt_fixed 1 (vp_stiffnessFactor vp) @ '')'')
             ''Abnormal tire stiffness'' VA_none LOW
         else NoEntryAlert mici ''paramsd Temporary Error'')"

text \<open>\<open>max(xs, default=0.)\<close>.\<close>

definition max_default :: "real \<Rightarrow> real list \<Rightarrow> real" where
  "max_default d xs = (case xs of [] \<Rightarrow> d | y # ys \<Rightarrow> fold max ys y)"

definition overheat_alert :: "callback_args \<Rightarrow> alert" where
  "overheat_alert args =
     (let ds = in_deviceState (ca_sm args);
          cpu = max_default 0 (ds_cpuTempC ds);
          gpu = max_default 0 (ds_gpuTempC ds);
          temp = max (max cpu gpu) (ds_memoryTempC ds)
      in NormalPermanentAlert ''System Overheated'' (fmt_fixed 0 temp @ '' '' @ [CHR 0xB0] @ ''C''))"

definition low_memory_alert :: "callback_args \<Rightarrow> alert" where
  "low_memory_alert args =
     NormalPermanentAlert ''Low Memory''
       (show_int (ds_memoryUsagePercent (in_deviceState (ca_sm args))) @ ''% used'')"

definition modeld_lagging_alert :: "callback_args \<Rightarrow> alert" where
  "modeld_lagging_alert args =
     NormalPermanentAlert ''Driving Model Lagging''
       (fmt_fixed 1 (mv_frameDropPerc (in_modelV2 (ca_sm args))) @ ''% frames dropped'')"

definition joystick_alert :: "callback_args \<Rightarrow> alert" where
  "joystick_alert args =
     (let gb = cc_accel (in_carControl (ca_sm args)) / 4;
          steer = cc_torque (in_carControl (ca_sm args));
          vals = ''Gas: '' @ show_int (py_round (gb * 100)) @ ''%, Steer: '' @ show_int (py_round (steer * 100)) @ ''%''
      in NormalPermanentAlert ''Joystick Mode'' vals)"

definition longitudinal_maneuver_alert :: "callback_args \<Rightarrow> alert" where
  "longitudinal_maneuver_alert args =
     (let (text1, text2) = in_alertDebug (ca_sm args);
          act = py_contains ''Active'' text1;
          aa = (if act then AA_prompt else AA_none);
          st = (if act then AS_userPrompt else AS_normal);
          sz = (if text2 \<noteq> [] then ASz_mid else ASz_small)
      in Alert text1 text2 st sz LOW VA_none aa (2 / 10))"

definition personality_changed_alert :: "callback_args \<Rightarrow> alert" where
  "personality_changed_alert args =
     NormalPermanentAlert_full (''Driving Personality: '' @ py_title (ca_personality args)) '''' (15 / 10) LOWER 0"

definition invalid_lkas_setting_alert :: "callback_args \<Rightarrow> alert" where
  "invalid_lkas_setting_alert args =
     (let brand = cp_brand (ca_CP args);
          text = (if brand = ''tesla'' then ''Switch to Traffic-Aware Cruise Control to engage''
                  else if brand = ''mazda'' then ''Enable your car'' @ [CHR 0x27] @ ''s LKAS to engage''
                  else if brand = ''nissan'' then ''Disable your car'' @ [CHR 0x27] @ ''s stock LKAS to engage''
                  else ''Toggle stock LKAS on or off to engage'')
      in NormalPermanentAlert ''Invalid LKAS setting'' text)"

section \<open>The table\<close>

definition EVENTS_all_states :: "bool \<Rightarrow> events_mapping" where
  "EVENTS_all_states mici = [
  (EN_noGps, []),
  (EN_stockFcw, []),
  (EN_actuatorsApiUnavailable, []),
  (EN_joystickDebug, [
    (WARNING, AlertCallback joystick_alert),
    (PERMANENT, AlertObj (NormalPermanentAlert ''Joystick Mode'' ''''))]),
  (EN_longitudinalManeuver, [
    (WARNING, AlertCallback longitudinal_maneuver_alert),
    (PERMANENT, AlertObj (NormalPermanentAlert ''Longitudinal Maneuver Mode'' ''Ensure road ahead is clear''))]),
  (EN_bigModelLoading, [
    (NO_ENTRY, AlertObj (NoEntryAlert mici ''Big Model Loading''))]),
  (EN_bigModelFailed, []),
  (EN_selfdriveInitializing, [
    (NO_ENTRY, AlertObj (NoEntryAlert mici ''System Initializing''))]),
  (EN_startup, [
    (PERMANENT, AlertObj (StartupAlert mici ''Be ready to take over at any time''))]),
  (EN_startupMaster, [
    (PERMANENT, AlertCallback startup_master_alert)]),
  (EN_startupNoControl, [
    (PERMANENT, AlertObj (StartupAlert mici ''Dashcam mode'')),
    (NO_ENTRY, AlertObj (NoEntryAlert mici ''Dashcam mode''))]),
  (EN_startupNoCar, [
    (PERMANENT, AlertObj (StartupAlert mici ''Dashcam mode for unsupported car''))]),
  (EN_startupNoSecOcKey, [
    (PERMANENT, AlertObj (NormalPermanentAlert_full ''Dashcam Mode'' ''Security Key Not Available'' (2 / 10) HIGH 0))]),
  (EN_dashcamMode, [
    (PERMANENT, AlertObj (NormalPermanentAlert_full ''Dashcam Mode'' '''' (2 / 10) LOWEST 0))]),
  (EN_invalidLkasSetting, [
    (PERMANENT, AlertCallback invalid_lkas_setting_alert),
    (NO_ENTRY, AlertObj (NoEntryAlert mici ''Invalid LKAS setting''))]),
  (EN_cruiseMismatch, []),
  (EN_carUnrecognized, [
    (PERMANENT, AlertObj (NormalPermanentAlert_full ''Dashcam Mode'' ''Car Unrecognized'' (2 / 10) LOWEST 0))]),
  (EN_aeb, [
    (PERMANENT, AlertObj (Alert ''BRAKE!'' ''Emergency Braking: Risk of Collision'' AS_critical ASz_full HIGHEST VA_fcw AA_none 2)),
    (NO_ENTRY, AlertObj (NoEntryAlert mici ''AEB: Risk of Collision''))]),
  (EN_stockAeb, [
    (PERMANENT, AlertObj (Alert ''BRAKE!'' ''Stock AEB: Risk of Collision'' AS_critical ASz_full HIGHEST VA_fcw AA_none 2)),
    (NO_ENTRY, AlertObj (NoEntryAlert mici ''Stock AEB: Risk of Collision''))]),
  (EN_stockLkas, [
    (NO_ENTRY, AlertObj (NoEntryAlert mici ''Stock LKAS: Lane Departure Detected''))]),
  (EN_fcw, [
    (PERMANENT, AlertObj (Alert ''BRAKE!'' ''Risk of Collision'' AS_critical ASz_full HIGHEST VA_fcw AA_warningSoft 2))]),
  (EN_ldw, [
    (PERMANENT, AlertObj (Alert ''Lane Departure Detected'' '''' AS_userPrompt ASz_small LOW VA_ldw AA_prompt 3))])]"

definition EVENTS_engaged :: "bool \<Rightarrow> events_mapping" where
  "EVENTS_engaged mici = [
  (EN_steerTempUnavailableSilent, [
    (WARNING, AlertObj (Alert ''Steering Assist Temporarily Unavailable'' '''' AS_userPrompt ASz_small LOW VA_steerRequired AA_prompt (18 / 10)))]),
  (EN_manualRestart, [
    (WARNING, AlertObj (Alert ''TAKE CONTROL'' ''Resume Driving Manually'' AS_userPrompt ASz_mid LOW VA_none AA_none (2 / 10)))]),
  (EN_resumeRequired, [
    (WARNING, AlertObj (Alert ''Press Resume to Exit Standstill'' '''' AS_userPrompt ASz_small LOW VA_none AA_none (2 / 10)))]),
  (EN_belowSteerSpeed, [
    (WARNING, AlertCallback below_steer_speed_alert)]),
  (EN_preLaneChangeLeft, [
    (WARNING, AlertObj (Alert ''Steer Left to Start Lane Change Once Safe'' '''' AS_normal ASz_small LOW VA_none AA_none (1 / 10)))]),
  (EN_preLaneChangeRight, [
    (WARNING, AlertObj (Alert ''Steer Right to Start Lane Change Once Safe'' '''' AS_normal ASz_small LOW VA_none AA_none (1 / 10)))]),
  (EN_laneChangeBlocked, [
    (WARNING, AlertObj (Alert ''Car Detected in Blindspot'' '''' AS_userPrompt ASz_small LOW VA_none AA_prompt (1 / 10)))]),
  (EN_laneChange, [
    (WARNING, AlertObj (Alert ''Changing Lanes'' '''' AS_normal ASz_small LOW VA_none AA_none (1 / 10)))]),
  (EN_steerSaturated, [
    (WARNING, AlertObj (Alert ''Take Control'' ''Turn Exceeds Steering Limit'' AS_userPrompt ASz_mid LOW VA_steerRequired AA_promptRepeat 2))]),
  (EN_fanMalfunction, [
    (PERMANENT, AlertObj (NormalPermanentAlert ''Fan Malfunction'' ''Contact comma.ai/support''))]),
  (EN_cameraMalfunction, [
    (PERMANENT, AlertCallback camera_malfunction_alert),
    (SOFT_DISABLE, AlertCallback (soft_disable_alert ''Camera Malfunction'')),
    (NO_ENTRY, AlertObj (NoEntryAlert mici ''Camera Malfunction: Reboot Your Device''))]),
  (EN_cameraFrameRate, [
    (PERMANENT, AlertObj (NormalPermanentAlert ''Camera Frame Rate Low'' ''Reboot your Device'')),
    (SOFT_DISABLE, AlertCallback (soft_disable_alert ''Camera Frame Rate Low'')),
    (NO_ENTRY, AlertObj (NoEntryAlert mici ''Camera Frame Rate Low: Reboot Your Device''))])]"

definition EVENTS_transitions_1 :: "bool \<Rightarrow> events_mapping" where
  "EVENTS_transitions_1 mici = [
  (EN_locationdTemporaryError, [
    (NO_ENTRY, AlertObj (NoEntryAlert mici ''locationd Temporary Error'')),
    (SOFT_DISABLE, AlertCallback (soft_disable_alert ''locationd Temporary Error''))]),
  (EN_locationdPermanentError, [
    (NO_ENTRY, AlertObj (NoEntryAlert mici ''locationd Permanent Error'')),
    (IMMEDIATE_DISABLE, AlertObj (ImmediateDisableAlert ''locationd Permanent Error'')),
    (PERMANENT, AlertObj (NormalPermanentAlert ''locationd Permanent Error'' ''''))]),
  (EN_paramsdTemporaryError, [
    (NO_ENTRY, AlertCallback paramsd_invalid_alert),
    (SOFT_DISABLE, AlertCallback (soft_disable_alert ''paramsd Temporary Error''))]),
  (EN_paramsdPermanentError, [
    (NO_ENTRY, AlertObj (NoEntryAlert mici ''paramsd Permanent Error'')),
    (IMMEDIATE_DISABLE, AlertObj (ImmediateDisableAlert ''paramsd Permanent Error'')),
    (PERMANENT, AlertObj (NormalPermanentAlert ''paramsd Permanent Error'' ''''))]),
  (EN_pcmEnable, [
    (ENABLE, AlertObj (EngagementAlert AA_engage))]),
  (EN_buttonEnable, [
    (ENABLE, AlertObj (EngagementAlert AA_engage))]),
  (EN_pcmDisable, [
    (USER_DISABLE, AlertObj (EngagementAlert AA_disengage))]),
  (EN_buttonCancel, [
    (USER_DISABLE, AlertObj (EngagementAlert AA_disengage)),
    (NO_ENTRY, AlertObj (NoEntryAlert mici ''Cancel Pressed''))]),
  (EN_brakeHold, [
    (WARNING, AlertObj (Alert ''Press Resume to Exit Brake Hold'' '''' AS_userPrompt ASz_small LOW VA_none AA_none (2 / 10)))]),
  (EN_parkBrake, [
    (USER_DISABLE, AlertObj (EngagementAlert AA_disengage)),
    (NO_ENTRY, AlertObj (NoEntryAlert mici ''Parking Brake Engaged''))]),
  (EN_pedalPressed, [
    (USER_DISABLE, AlertObj (EngagementAlert AA_disengage)),
    (NO_ENTRY, AlertObj (NoEntryAlert_full mici ''Pedal Pressed'' ''openpilot Unavailable'' VA_brakePressed LOW))]),
  (EN_steerDisengage, [
    (USER_DISABLE, AlertObj (EngagementAlert AA_disengage)),
    (NO_ENTRY, AlertObj (NoEntryAlert mici ''Steering Pressed''))]),
  (EN_preEnableStandstill, [
    (PRE_ENABLE, AlertObj (Alert_delay ''Release Brake to Engage'' '''' AS_normal ASz_small LOWEST VA_none AA_none (1 / 10) 1))]),
  (EN_gasPressedOverride, [
    (OVERRIDE_LONGITUDINAL, AlertObj (Alert '''' '''' AS_normal ASz_none LOWEST VA_none AA_none (1 / 10)))]),
  (EN_steerOverride, [
    (OVERRIDE_LATERAL, AlertObj (Alert '''' '''' AS_normal ASz_none LOWEST VA_none AA_none (1 / 10)))]),
  (EN_wrongCarMode, [
    (USER_DISABLE, AlertObj (EngagementAlert AA_disengage)),
    (NO_ENTRY, AlertCallback wrong_car_mode_alert)]),
  (EN_resumeBlocked, [
    (NO_ENTRY, AlertObj (NoEntryAlert mici ''Press Set to Engage''))]),
  (EN_carNotReady, [
    (NO_ENTRY, AlertObj (NoEntryAlert mici ''Car Not Ready''))]),
  (EN_wrongCruiseMode, [
    (USER_DISABLE, AlertObj (EngagementAlert AA_disengage)),
    (NO_ENTRY, AlertObj (NoEntryAlert mici ''Adaptive Cruise Disabled''))]),
  (EN_steerTempUnavailable, [
    (SOFT_DISABLE, AlertCallback (soft_disable_alert ''Steering Assist Temporarily Unavailable'')),
    (NO_ENTRY, AlertObj (NoEntryAlert mici ''Steering Temporarily Unavailable''))]),
  (EN_steerTimeLimit, [
    (SOFT_DISABLE, AlertCallback (soft_disable_alert ''Vehicle Steering Time Limit'')),
    (NO_ENTRY, AlertObj (NoEntryAlert mici ''Vehicle Steering Time Limit''))]),
  (EN_outOfSpace, [
    (PERMANENT, AlertCallback out_of_space_alert),
    (NO_ENTRY, AlertObj (NoEntryAlert mici ''Out of Storage''))]),
  (EN_belowEngageSpeed, [
    (NO_ENTRY, AlertCallback below_engage_speed_alert)]),
  (EN_sensorDataInvalid, [
    (PERMANENT, AlertObj (Alert_delay ''Sensor Data Invalid'' ''Contact comma.ai/support'' AS_normal ASz_mid LOWER VA_none AA_none (2 / 10) 1)),
    (NO_ENTRY, AlertObj (NoEntryAlert mici ''Sensor Data Invalid'')),
    (SOFT_DISABLE, AlertCallback (soft_disable_alert ''Sensor Data Invalid''))]),
  (EN_excessiveActuation, [
    (SOFT_DISABLE, AlertCallback (soft_disable_alert ''Excessive Actuation'')),
    (NO_ENTRY, AlertObj (NoEntryAlert mici ''Excessive Actuation''))])]"

definition EVENTS_transitions_2 :: "bool \<Rightarrow> events_mapping" where
  "EVENTS_transitions_2 mici = [
  (EN_overheat, [
    (PERMANENT, AlertCallback overheat_alert),
    (SOFT_DISABLE, AlertCallback (soft_disable_alert ''System Overheated'')),
    (NO_ENTRY, AlertObj (NoEntryAlert mici ''System Overheated''))]),
  (EN_wrongGear, [
    (SOFT_DISABLE, AlertCallback (user_soft_disable_alert ''Gear not D'')),
    (NO_ENTRY, AlertObj (NoEntryAlert mici ''Gear not D''))]),
  (EN_calibrationInvalid, [
    (PERMANENT, AlertCallback calibration_invalid_alert),
    (SOFT_DISABLE, AlertCallback (soft_disable_alert ''Calibration Invalid: Remount Device & Recalibrate'')),
    (NO_ENTRY, AlertObj (NoEntryAlert mici ''Calibration Invalid: Remount Device & Recalibrate''))]),
  (EN_calibrationIncomplete, [
    (PERMANENT, AlertCallback calibration_incomplete_alert),
    (SOFT_DISABLE, AlertCallback (soft_disable_alert ''Calibration Incomplete'')),
    (NO_ENTRY, AlertObj (NoEntryAlert mici ''Calibration in Progress''))]),
  (EN_calibrationRecalibrating, [
    (PERMANENT, AlertCallback calibration_incomplete_alert),
    (SOFT_DISABLE, AlertCallback (soft_disable_alert ''Device Remount Detected: Recalibrating'')),
    (NO_ENTRY, AlertObj (NoEntryAlert mici ''Remount Detected: Recalibrating''))]),
  (EN_doorOpen, [
    (SOFT_DISABLE, AlertCallback (user_soft_disable_alert ''Door Open'')),
    (NO_ENTRY, AlertObj (NoEntryAlert mici ''Door Open''))]),
  (EN_seatbeltNotLatched, [
    (SOFT_DISABLE, AlertCallback (user_soft_disable_alert ''Seatbelt Unlatched'')),
    (NO_ENTRY, AlertObj (NoEntryAlert mici ''Seatbelt Unlatched''))]),
  (EN_espDisabled, [
    (SOFT_DISABLE, AlertCallback (soft_disable_alert ''Electronic Stability Control Disabled'')),
    (NO_ENTRY, AlertObj (NoEntryAlert mici ''Electronic Stability Control Disabled''))]),
  (EN_commIssue, [
    (SOFT_DISABLE, AlertCallback (soft_disable_alert ''Communication Issue Between Processes'')),
    (NO_ENTRY, AlertCallback comm_issue_alert)]),
  (EN_commIssueAvgFreq, [
    (SOFT_DISABLE, AlertCallback (soft_disable_alert ''Low Communication Rate Between Processes'')),
    (NO_ENTRY, AlertObj (NoEntryAlert mici ''Low Communication Rate Between Processes''))]),
  (EN_selfdrivedLagging, [
    (SOFT_DISABLE, AlertCallback (soft_disable_alert ''System Lagging'')),
    (NO_ENTRY, AlertObj (NoEntryAlert mici ''Selfdrive Process Lagging: Reboot Your Device''))]),
  (EN_processNotRunning, [
    (NO_ENTRY, AlertCallback process_not_running_alert),
    (SOFT_DISABLE, AlertCallback (soft_disable_alert ''Process Not Running''))]),
  (EN_radarFault, [
    (SOFT_DISABLE, AlertCallback (soft_disable_alert ''Radar Error: Restart the Car'')),
    (NO_ENTRY, AlertObj (NoEntryAlert mici ''Radar Error: Restart the Car''))]),
  (EN_radarTempUnavailable, [
    (SOFT_DISABLE, AlertCallback (soft_disable_alert ''Radar Temporarily Unavailable'')),
    (NO_ENTRY, AlertObj (NoEntryAlert mici ''Radar Temporarily Unavailable''))]),
  (EN_modeldLagging, [
    (SOFT_DISABLE, AlertCallback (soft_disable_alert ''Driving Model Lagging'')),
    (NO_ENTRY, AlertObj (NoEntryAlert mici ''Driving Model Lagging'')),
    (PERMANENT, AlertCallback modeld_lagging_alert)]),
  (EN_posenetInvalid, [
    (SOFT_DISABLE, AlertCallback (soft_disable_alert ''Posenet Speed Invalid'')),
    (NO_ENTRY, AlertCallback posenet_invalid_alert)]),
  (EN_lowMemory, [
    (SOFT_DISABLE, AlertCallback (soft_disable_alert ''Low Memory: Reboot Your Device'')),
    (PERMANENT, AlertCallback low_memory_alert),
    (NO_ENTRY, AlertObj (NoEntryAlert mici ''Low Memory: Reboot Your Device''))]),
  (EN_accFaulted, [
    (IMMEDIATE_DISABLE, AlertObj (ImmediateDisableAlert ''Cruise Fault: Restart the Car'')),
    (PERMANENT, AlertObj (NormalPermanentAlert ''Cruise Fault: Restart the car to engage'' '''')),
    (NO_ENTRY, AlertObj (NoEntryAlert mici ''Cruise Fault: Restart the Car''))]),
  (EN_espActive, [
    (SOFT_DISABLE, AlertCallback (soft_disable_alert ''Electronic Stability Control Active'')),
    (NO_ENTRY, AlertObj (NoEntryAlert mici ''Electronic Stability Control Active''))]),
  (EN_controlsMismatch, [
    (IMMEDIATE_DISABLE, AlertObj (ImmediateDisableAlert ''Controls Mismatch'')),
    (NO_ENTRY, AlertObj (NoEntryAlert mici ''Controls Mismatch''))]),
  (EN_canError, [
    (IMMEDIATE_DISABLE, AlertObj (ImmediateDisableAlert ''Unknown Vehicle Variant'')),
    (PERMANENT, AlertObj (Alert_delay ''Unknown Vehicle Variant'' '''' AS_normal ASz_small LOW VA_none AA_none 1 1)),
    (NO_ENTRY, AlertObj (NoEntryAlert mici ''Unknown Vehicle Variant''))]),
  (EN_canBusMissing, [
    (IMMEDIATE_DISABLE, AlertObj (ImmediateDisableAlert ''CAN Bus Disconnected'')),
    (PERMANENT, AlertObj (Alert_delay ''CAN Bus Disconnected: Likely Faulty Cable'' '''' AS_normal ASz_small LOW VA_none AA_none 1 1)),
    (NO_ENTRY, AlertObj (NoEntryAlert mici ''CAN Bus Disconnected: Check Connections''))])]"

definition EVENTS_transitions_3 :: "bool \<Rightarrow> events_mapping" where
  "EVENTS_transitions_3 mici = [
  (EN_steerUnavailable, [
    (IMMEDIATE_DISABLE, AlertObj (ImmediateDisableAlert ''LKAS Fault: Restart the Car'')),
    (PERMANENT, AlertObj (NormalPermanentAlert ''LKAS Fault: Restart the car to engage'' '''')),
    (NO_ENTRY, AlertObj (NoEntryAlert mici ''LKAS Fault: Restart the Car''))]),
  (EN_reverseGear, [
    (PERMANENT, AlertObj (Alert_delay (''Reverse'' @ [CHR 0x0A] @ ''Gear'') '''' AS_normal ASz_full LOWEST VA_none AA_none (2 / 10) (5 / 10))),
    (USER_DISABLE, AlertObj (ImmediateDisableAlert ''Reverse Gear'')),
    (NO_ENTRY, AlertObj (NoEntryAlert mici ''Reverse Gear''))]),
  (EN_cruiseDisabled, [
    (IMMEDIATE_DISABLE, AlertObj (ImmediateDisableAlert ''Cruise Is Off''))]),
  (EN_relayMalfunction, [
    (IMMEDIATE_DISABLE, AlertObj (ImmediateDisableAlert ''Harness Relay Malfunction'')),
    (PERMANENT, AlertObj (NormalPermanentAlert ''Harness Relay Malfunction'' ''Contact comma.ai/support'')),
    (NO_ENTRY, AlertObj (NoEntryAlert mici ''Harness Relay Malfunction''))]),
  (EN_speedTooLow, [
    (IMMEDIATE_DISABLE, AlertObj (Alert ''openpilot Canceled'' ''Speed too low'' AS_normal ASz_mid HIGH VA_none AA_disengage 3))]),
  (EN_speedTooHigh, [
    (WARNING, AlertObj (Alert ''Speed Too High'' ''Model uncertain at this speed'' AS_userPrompt ASz_mid HIGH VA_steerRequired AA_promptRepeat 4)),
    (NO_ENTRY, AlertObj (NoEntryAlert mici ''Slow down to engage''))]),
  (EN_vehicleSensorsInvalid, [
    (IMMEDIATE_DISABLE, AlertObj (ImmediateDisableAlert ''Vehicle Sensors Invalid'')),
    (PERMANENT, AlertObj (NormalPermanentAlert ''Vehicle Sensors Calibrating'' ''Drive to Calibrate'')),
    (NO_ENTRY, AlertObj (NoEntryAlert mici ''Vehicle Sensors Calibrating''))]),
  (EN_personalityChanged, [
    (WARNING, AlertCallback personality_changed_alert)]),
  (EN_userBookmark, [
    (PERMANENT, AlertObj (NormalPermanentAlert_full ''Bookmark Saved'' '''' (15 / 10) LOWER 0))])]"

definition EVENTS_base :: "bool \<Rightarrow> events_mapping" where
  "EVENTS_base mici = EVENTS_all_states mici @ EVENTS_engaged mici @ EVENTS_transitions_1 mici @ EVENTS_transitions_2 mici @ EVENTS_transitions_3 mici"

text \<open>The entries replaced on the mici device.\<close>

definition EVENTS_mici :: "bool \<Rightarrow> events_mapping" where
  "EVENTS_mici mici = [
  (EN_resumeRequired, [
    (WARNING, AlertObj (Alert ''Press Resume'' '''' AS_userPrompt ASz_small LOW VA_none AA_none (2 / 10)))]),
  (EN_preLaneChangeLeft, [
    (WARNING, AlertObj (Alert ''Steer Left'' ''Confirm Lane Change'' AS_normal ASz_mid LOW VA_none AA_none (1 / 10)))]),
  (EN_preLaneChangeRight, [
    (WARNING, AlertObj (Alert ''Steer Right'' ''Confirm Lane Change'' AS_normal ASz_mid LOW VA_none AA_none (1 / 10)))]),
  (EN_laneChangeBlocked, [
    (WARNING, AlertObj (Alert ''Car in Blindspot'' '''' AS_userPrompt ASz_small LOW VA_none AA_prompt (1 / 10)))]),
  (EN_steerSaturated, [
    (WARNING, AlertObj (Alert ''take control'' ''turn exceeds limit'' AS_userPrompt ASz_mid LOW VA_steerRequired AA_promptRepeat 2))]),
  (EN_calibrationIncomplete, [
    (PERMANENT, AlertCallback calibration_incomplete_alert),
    (SOFT_DISABLE, AlertCallback (soft_disable_alert ''Calibration Incomplete'')),
    (NO_ENTRY, AlertObj (NoEntryAlert mici ''Calibrating''))]),
  (EN_reverseGear, [
    (PERMANENT, AlertObj (Alert_delay ''Reverse'' '''' AS_normal ASz_full LOWEST VA_none AA_none (2 / 10) (5 / 10))),
    (USER_DISABLE, AlertObj (ImmediateDisableAlert ''Reverse'')),
    (NO_ENTRY, AlertObj (NoEntryAlert mici ''Reverse''))])]"

definition EVENTS :: "bool \<Rightarrow> events_mapping" where
  "EVENTS mici = (if mici then dict_update (EVENTS_base mici) (EVENTS_mici mici) else EVENTS_base mici)"

lemmas EVENTS_chunk_defs = EVENTS_all_states_def EVENTS_engaged_def EVENTS_transitions_1_def EVENTS_transitions_2_def EVENTS_transitions_3_def

section \<open>The types of the entries\<close>

text \<open>The table with the alerts dropped; it is the same on every device.\<close>

definition EVENTS_types :: "(int \<times> ET list) list" where
  "EVENTS_types = [
    (EN_noGps, []),
    (EN_stockFcw, []),
    (EN_actuatorsApiUnavailable, []),
    (EN_joystickDebug, [WARNING, PERMANENT]),
    (EN_longitudinalManeuver, [WARNING, PERMANENT]),
    (EN_bigModelLoading, [NO_ENTRY]),
    (EN_bigModelFailed, []),
    (EN_selfdriveInitializing, [NO_ENTRY]),
    (EN_startup, [PERMANENT]),
    (EN_startupMaster, [PERMANENT]),
    (EN_startupNoControl, [PERMANENT, NO_ENTRY]),
    (EN_startupNoCar, [PERMANENT]),
    (EN_startupNoSecOcKey, [PERMANENT]),
    (EN_dashcamMode, [PERMANENT]),
    (EN_invalidLkasSetting, [PERMANENT, NO_ENTRY]),
    (EN_cruiseMismatch, []),
    (EN_carUnrecognized, [PERMANENT]),
    (EN_aeb, [PERMANENT, NO_ENTRY]),
    (EN_stockAeb, [PERMANENT, NO_ENTRY]),
    (EN_stockLkas, [NO_ENTRY]),
    (EN_fcw, [PERMANENT]),
    (EN_ldw, [PERMANENT]),
    (EN_steerTempUnavailableSilent, [WARNING]),
    (EN_manualRestart, [WARNING]),
    (EN_resumeRequired, [WARNING]),
    (EN_belowSteerSpeed, [WARNING]),
    (EN_preLaneChangeLeft, [WARNING]),
    (EN_preLaneChangeRight, [WARNING]),
    (EN_laneChangeBlocked, [WARNING]),
    (EN_laneChange, [WARNING]),
    (EN_steerSaturated, [WARNING]),
    (EN_fanMalfunction, [PERMANENT]),
    (EN_cameraMalfunction, [PERMANENT, SOFT_DISABLE, NO_ENTRY]),
    (EN_cameraFrameRate, [PERMANENT, SOFT_DISABLE, NO_ENTRY]),
    (EN_locationdTemporaryError, [NO_ENTRY, SOFT_DISABLE]),
    (EN_locationdPermanentError, [NO_ENTRY, IMMEDIATE_DISABLE, PERMANENT]),
    (EN_paramsdTemporaryError, [NO_ENTRY, SOFT_DISABLE]),
    (EN_paramsdPermanentError, [NO_ENTRY, IMMEDIATE_DISABLE, PERMANENT]),
    (EN_pcmEnable, [ENABLE]),
    (EN_buttonEnable, [ENABLE]),
    (EN_pcmDisable, [USER_DISABLE]),
    (EN_buttonCancel, [USER_DISABLE, NO_ENTRY]),
    (EN_brakeHold, [WARNING]),
    (EN_parkBrake, [USER_DISABLE, NO_ENTRY]),
    (EN_pedalPressed, [USER_DISABLE, NO_ENTRY]),
    (EN_steerDisengage, [USER_DISABLE, NO_ENTRY]),
    (EN_preEnableStandstill, [PRE_ENABLE]),
    (EN_gasPressedOverride, [OVERRIDE_LONGITUDINAL]),
    (EN_steerOverride, [OVERRIDE_LATERAL]),
    (EN_wrongCarMode, [USER_DISABLE, NO_ENTRY]),
    (EN_resumeBlocked, [NO_ENTRY]),
    (EN_carNotReady, [NO_ENTRY]),
    (EN_wrongCruiseMode, [USER_DISABLE, NO_ENTRY]),
    (EN_steerTempUnavailable, [SOFT_DISABLE, NO_ENTRY]),
    (EN_steerTimeLimit, [SOFT_DISABLE, NO_ENTRY]),
    (EN_outOfSpace, [PERMANENT, NO_ENTRY]),
    (EN_belowEngageSpeed, [NO_ENTRY]),
    (EN_sensorDataInvalid, [PERMANENT, NO_ENTRY, SOFT_DISABLE]),
    (EN_excessiveActuation, [SOFT_DISABLE, NO_ENTRY]),
    (EN_overheat, [PERMANENT, SOFT_DISABLE, NO_ENTRY]),
    (EN_wrongGear, [SOFT_DISABLE, NO_ENTRY]),
    (EN_calibrationInvalid, [PERMANENT, SOFT_DISABLE, NO_ENTRY]),
    (EN_calibrationIncomplete, [PERMANENT, SOFT_DISABLE, NO_ENTRY]),
    (EN_calibrationRecalibrating, [PERMANENT, SOFT_DISABLE, NO_ENTRY]),
    (EN_doorOpen, [SOFT_DISABLE, NO_ENTRY]),
    (EN_seatbeltNotLatched, [SOFT_DISABLE, NO_ENTRY]),
    (EN_espDisabled, [SOFT_DISABLE, NO_ENTRY]),
    (EN_commIssue, [SOFT_DISABLE, NO_ENTRY]),
    (EN_commIssueAvgFreq, [SOFT_DISABLE, NO_ENTRY]),
    (EN_selfdrivedLagging, [SOFT_DISABLE, NO_ENTRY]),
    (EN_processNotRunning, [NO_ENTRY, SOFT_DISABLE]),
    (EN_radarFault, [SOFT_DISABLE, NO_ENTRY]),
    (EN_radarTempUnavailable, [SOFT_DISABLE, NO_ENTRY]),
    (EN_modeldLagging, [SOFT_DISABLE, NO_ENTRY, PERMANENT]),
    (EN_posenetInvalid, [SOFT_DISABLE, NO_ENTRY]),
    (EN_lowMemory, [SOFT_DISABLE, PERMANENT, NO_ENTRY]),
    (EN_accFaulted, [IMMEDIATE_DISABLE, PERMANENT, NO_ENTRY]),
    (EN_espActive, [SOFT_DISABLE, NO_ENTRY]),
    (EN_controlsMismatch, [IMMEDIATE_DISABLE, NO_ENTRY]),
    (EN_canError, [IMMEDIATE_DISABLE, PERMANENT, NO_ENTRY]),
    (EN_canBusMissing, [IMMEDIATE_DISABLE, PERMANENT, NO_ENTRY]),
    (EN_steerUnavailable, [IMMEDIATE_DISABLE, PERMANENT, NO_ENTRY]),
    (EN_reverseGear, [PERMANENT, USER_DISABLE, NO_ENTRY]),
    (EN_cruiseDisabled, [IMMEDIATE_DISABLE]),
    (EN_relayMalfunction, [IMMEDIATE_DISABLE, PERMANENT, NO_ENTRY]),
    (EN_speedTooLow, [IMMEDIATE_DISABLE]),
    (EN_speedTooHigh, [WARNING, NO_ENTRY]),
    (EN_vehicleSensorsInvalid, [IMMEDIATE_DISABLE, PERMANENT, NO_ENTRY]),
    (EN_personalityChanged, [WARNING]),
    (EN_userBookmark, [PERMANENT])]"

definition entry_types :: "int \<times> event_entry \<Rightarrow> int \<times> ET list" where
  "entry_types p = (fst p, map fst (snd p))"

lemma entry_types_pair: "entry_types (e, en) = (e, map fst en)"
  by (simp add: entry_types_def)

lemma update_types: "map entry_types (AList.update k en d) = AList.update k (map fst en) (map entry_types d)"
  by (induction d) (auto simp: entry_types_def)

lemma dict_update_types: "map entry_types (dict_update d u) = dict_update (map entry_types d) (map entry_types u)"
  by (induction d u rule: dict_update.induct) (simp_all add: update_types entry_types_pair)

lemmas table_eval = list.map entry_types_pair fst_conv append.simps

definition EVENTS_mici_types :: "(int \<times> ET list) list" where
  "EVENTS_mici_types = [
    (EN_resumeRequired, [WARNING]),
    (EN_preLaneChangeLeft, [WARNING]),
    (EN_preLaneChangeRight, [WARNING]),
    (EN_laneChangeBlocked, [WARNING]),
    (EN_steerSaturated, [WARNING]),
    (EN_calibrationIncomplete, [PERMANENT, SOFT_DISABLE, NO_ENTRY]),
    (EN_reverseGear, [PERMANENT, USER_DISABLE, NO_ENTRY])]"

lemma EVENTS_base_types: "map entry_types (EVENTS_base mici) = EVENTS_types"
  by (simp only: EVENTS_base_def map_append EVENTS_chunk_defs table_eval EVENTS_types_def)

lemma EVENTS_mici_types_eq: "map entry_types (EVENTS_mici mici) = EVENTS_mici_types"
  by (simp only: EVENTS_mici_def table_eval EVENTS_mici_types_def)

text \<open>The replacements keep the types of the entries.\<close>

lemma EVENTS_types_update: "dict_update EVENTS_types EVENTS_mici_types = EVENTS_types"
  by (simp add: EVENTS_types_def EVENTS_mici_types_def)

lemma EVENTS_types_eq: "map entry_types (EVENTS mici) = EVENTS_types"
  by (simp add: EVENTS_def dict_update_types EVENTS_base_types EVENTS_mici_types_eq EVENTS_types_update)

lemma event_types_of_map:
  "map entry_types m = tys \<Longrightarrow>
   event_types m e = (case map_of tys e of None \<Rightarrow> [] | Some ts \<Rightarrow> ts)"
proof (induction m arbitrary: tys)
  case Nil
  then show ?case by (auto simp: event_types_def mapping_get_def)
next
  case (Cons p m)
  then show ?case
    by (cases p) (auto simp: event_types_def mapping_get_def entry_types_pair)
qed

lemmas event_types_EVENTS = event_types_of_map [OF EVENTS_types_eq]

lemma event_types_table [simp]:
  "event_types (EVENTS mici) EN_noGps = []"
  "event_types (EVENTS mici) EN_stockFcw = []"
  "event_types (EVENTS mici) EN_actuatorsApiUnavailable = []"
  "event_types (EVENTS mici) EN_joystickDebug = [WARNING, PERMANENT]"
  "event_types (EVENTS mici) EN_longitudinalManeuver = [WARNING, PERMANENT]"
  "event_types (EVENTS mici) EN_bigModelLoading = [NO_ENTRY]"
  "event_types (EVENTS mici) EN_bigModelFailed = []"
  "event_types (EVENTS mici) EN_selfdriveInitializing = [NO_ENTRY]"
  "event_types (EVENTS mici) EN_startup = [PERMANENT]"
  "event_types (EVENTS mici) EN_startupMaster = [PERMANENT]"
  "event_types (EVENTS mici) EN_startupNoControl = [PERMANENT, NO_ENTRY]"
  "event_types (EVENTS mici) EN_startupNoCar = [PERMANENT]"
  "event_types (EVENTS mici) EN_startupNoSecOcKey = [PERMANENT]"
  "event_types (EVENTS mici) EN_dashcamMode = [PERMANENT]"
  "event_types (EVENTS mici) EN_invalidLkasSetting = [PERMANENT, NO_ENTRY]"
  "event_types (EVENTS mici) EN_cruiseMismatch = []"
  "event_types (EVENTS mici) EN_carUnrecognized = [PERMANENT]"
  "event_types (EVENTS mici) EN_aeb = [PERMANENT, NO_ENTRY]"
  "event_types (EVENTS mici) EN_stockAeb = [PERMANENT, NO_ENTRY]"
  "event_types (EVENTS mici) EN_stockLkas = [NO_ENTRY]"
  "event_types (EVENTS mici) EN_fcw = [PERMANENT]"
  "event_types (EVENTS mici) EN_ldw = [PERMANENT]"
  "event_types (EVENTS mici) EN_steerTempUnavailableSilent = [WARNING]"
  "event_types (EVENTS mici) EN_manualRestart = [WARNING]"
  "event_types (EVENTS mici) EN_resumeRequired = [WARNING]"
  "event_types (EVENTS mici) EN_belowSteerSpeed = [WARNING]"
  "event_types (EVENTS mici) EN_preLaneChangeLeft = [WARNING]"
  "event_types (EVENTS mici) EN_preLaneChangeRight = [WARNING]"
  "event_types (EVENTS mici) EN_laneChangeBlocked = [WARNING]"
  "event_types (EVENTS mici) EN_laneChange = [WARNING]"
  "event_types (EVENTS mici) EN_steerSaturated = [WARNING]"
  "event_types (EVENTS mici) EN_fanMalfunction = [PERMANENT]"
  "event_types (EVENTS mici) EN_cameraMalfunction = [PERMANENT, SOFT_DISABLE, NO_ENTRY]"
  "event_types (EVENTS mici) EN_cameraFrameRate = [PERMANENT, SOFT_DISABLE, NO_ENTRY]"
  "event_types (EVENTS mici) EN_locationdTemporaryError = [NO_ENTRY, SOFT_DISABLE]"
  "event_types (EVENTS mici) EN_locationdPermanentError = [NO_ENTRY, IMMEDIATE_DISABLE, PERMANENT]"
  "event_types (EVENTS mici) EN_paramsdTemporaryError = [NO_ENTRY, SOFT_DISABLE]"
  "event_types (EVENTS mici) EN_paramsdPermanentError = [NO_ENTRY, IMMEDIATE_DISABLE, PERMANENT]"
  "event_types (EVENTS mici) EN_pcmEnable = [ENABLE]"
  "event_types (EVENTS mici) EN_buttonEnable = [ENABLE]"
  "event_types (EVENTS mici) EN_pcmDisable = [USER_DISABLE]"
  "event_types (EVENTS mici) EN_buttonCancel = [USER_DISABLE, NO_ENTRY]"
  "event_types (EVENTS mici) EN_brakeHold = [WARNING]"
  "event_types (EVENTS mici) EN_parkBrake = [USER_DISABLE, NO_ENTRY]"
  "event_types (EVENTS mici) EN_pedalPressed = [USER_DISABLE, NO_ENTRY]"
  "event_types (EVENTS mici) EN_steerDisengage = [USER_DISABLE, NO_ENTRY]"
  "event_types (EVENTS mici) EN_preEnableStandstill = [PRE_ENABLE]"
  "event_types (EVENTS mici) EN_gasPressedOverride = [OVERRIDE_LONGITUDINAL]"
  "event_types (EVENTS mici) EN_steerOverride = [OVERRIDE_LATERAL]"
  "event_types (EVENTS mici) EN_wrongCarMode = [USER_DISABLE, NO_ENTRY]"
  "event_types (EVENTS mici) EN_resumeBlocked = [NO_ENTRY]"
  "event_types (EVENTS mici) EN_carNotReady = [NO_ENTRY]"
  "event_types (EVENTS mici) EN_wrongCruiseMode = [USER_DISABLE, NO_ENTRY]"
  "event_types (EVENTS mici) EN_steerTempUnavailable = [SOFT_DISABLE, NO_ENTRY]"
  "event_types (EVENTS mici) EN_steerTimeLimit = [SOFT_DISABLE, NO_ENTRY]"
  "event_types (EVENTS mici) EN_outOfSpace = [PERMANENT, NO_ENTRY]"
  "event_types (EVENTS mici) EN_belowEngageSpeed = [NO_ENTRY]"
  "event_types (EVENTS mici) EN_sensorDataInvalid = [PERMANENT, NO_ENTRY, SOFT_DISABLE]"
  "event_types (EVENTS mici) EN_excessiveActuation = [SOFT_DISABLE, NO_ENTRY]"
  "event_types (EVENTS mici) EN_overheat = [PERMANENT, SOFT_DISABLE, NO_ENTRY]"
  "event_types (EVENTS mici) EN_wrongGear = [SOFT_DISABLE, NO_ENTRY]"
  "event_types (EVENTS mici) EN_calibrationInvalid = [PERMANENT, SOFT_DISABLE, NO_ENTRY]"
  "event_types (EVENTS mici) EN_calibrationIncomplete = [PERMANENT, SOFT_DISABLE, NO_ENTRY]"
  "event_types (EVENTS mici) EN_calibrationRecalibrating = [PERMANENT, SOFT_DISABLE, NO_ENTRY]"
  "event_types (EVENTS mici) EN_doorOpen = [SOFT_DISABLE, NO_ENTRY]"
  "event_types (EVENTS mici) EN_seatbeltNotLatched = [SOFT_DISABLE, NO_ENTRY]"
  "event_types (EVENTS mici) EN_espDisabled = [SOFT_DISABLE, NO_ENTRY]"
  "event_types (EVENTS mici) EN_commIssue = [SOFT_DISABLE, NO_ENTRY]"
  "event_types (EVENTS mici) EN_commIssueAvgFreq = [SOFT_DISABLE, NO_ENTRY]"
  "event_types (EVENTS mici) EN_selfdrivedLagging = [SOFT_DISABLE, NO_ENTRY]"
  "event_types (EVENTS mici) EN_processNotRunning = [NO_ENTRY, SOFT_DISABLE]"
  "event_types (EVENTS mici) EN_radarFault = [SOFT_DISABLE, NO_ENTRY]"
  "event_types (EVENTS mici) EN_radarTempUnavailable = [SOFT_DISABLE, NO_ENTRY]"
  "event_types (EVENTS mici) EN_modeldLagging = [SOFT_DISABLE, NO_ENTRY, PERMANENT]"
  "event_types (EVENTS mici) EN_posenetInvalid = [SOFT_DISABLE, NO_ENTRY]"
  "event_types (EVENTS mici) EN_lowMemory = [SOFT_DISABLE, PERMANENT, NO_ENTRY]"
  "event_types (EVENTS mici) EN_accFaulted = [IMMEDIATE_DISABLE, PERMANENT, NO_ENTRY]"
  "event_types (EVENTS mici) EN_espActive = [SOFT_DISABLE, NO_ENTRY]"
  "event_types (EVENTS mici) EN_controlsMismatch = [IMMEDIATE_DISABLE, NO_ENTRY]"
  "event_types (EVENTS mici) EN_canError = [IMMEDIATE_DISABLE, PERMANENT, NO_ENTRY]"
  "event_types (EVENTS mici) EN_canBusMissing = [IMMEDIATE_DISABLE, PERMANENT, NO_ENTRY]"
  "event_types (EVENTS mici) EN_steerUnavailable = [IMMEDIATE_DISABLE, PERMANENT, NO_ENTRY]"
  "event_types (EVENTS mici) EN_reverseGear = [PERMANENT, USER_DISABLE, NO_ENTRY]"
  "event_types (EVENTS mici) EN_cruiseDisabled = [IMMEDIATE_DISABLE]"
  "event_types (EVENTS mici) EN_relayMalfunction = [IMMEDIATE_DISABLE, PERMANENT, NO_ENTRY]"
  "event_types (EVENTS mici) EN_speedTooLow = [IMMEDIATE_DISABLE]"
  "event_types (EVENTS mici) EN_speedTooHigh = [WARNING, NO_ENTRY]"
  "event_types (EVENTS mici) EN_vehicleSensorsInvalid = [IMMEDIATE_DISABLE, PERMANENT, NO_ENTRY]"
  "event_types (EVENTS mici) EN_personalityChanged = [WARNING]"
  "event_types (EVENTS mici) EN_userBookmark = [PERMANENT]"
  by (simp_all add: event_types_EVENTS EVENTS_types_def)

lemma keys_of_map:
  assumes "map entry_types m = tys"
  shows "map fst m = map fst tys"
  using arg_cong [OF assms, of "map fst"] by (simp add: comp_def entry_types_def)

lemma known_EVENTS: "known_event (EVENTS mici) e \<longleftrightarrow> e \<in> set (map fst EVENTS_types)"
  by (simp add: known_event_def keys_of_map [OF EVENTS_types_eq])

lemma known_event_table [simp]:
  "known_event (EVENTS mici) EN_noGps"
  "known_event (EVENTS mici) EN_stockFcw"
  "known_event (EVENTS mici) EN_actuatorsApiUnavailable"
  "known_event (EVENTS mici) EN_joystickDebug"
  "known_event (EVENTS mici) EN_longitudinalManeuver"
  "known_event (EVENTS mici) EN_bigModelLoading"
  "known_event (EVENTS mici) EN_bigModelFailed"
  "known_event (EVENTS mici) EN_selfdriveInitializing"
  "known_event (EVENTS mici) EN_startup"
  "known_event (EVENTS mici) EN_startupMaster"
  "known_event (EVENTS mici) EN_startupNoControl"
  "known_event (EVENTS mici) EN_startupNoCar"
  "known_event (EVENTS mici) EN_startupNoSecOcKey"
  "known_event (EVENTS mici) EN_dashcamMode"
  "known_event (EVENTS mici) EN_invalidLkasSetting"
  "known_event (EVENTS mici) EN_cruiseMismatch"
  "known_event (EVENTS mici) EN_carUnrecognized"
  "known_event (EVENTS mici) EN_aeb"
  "known_event (EVENTS mici) EN_stockAeb"
  "known_event (EVENTS mici) EN_stockLkas"
  "known_event (EVENTS mici) EN_fcw"
  "known_event (EVENTS mici) EN_ldw"
  "known_event (EVENTS mici) EN_steerTempUnavailableSilent"
  "known_event (EVENTS mici) EN_manualRestart"
  "known_event (EVENTS mici) EN_resumeRequired"
  "known_event (EVENTS mici) EN_belowSteerSpeed"
  "known_event (EVENTS mici) EN_preLaneChangeLeft"
  "known_event (EVENTS mici) EN_preLaneChangeRight"
  "known_event (EVENTS mici) EN_laneChangeBlocked"
  "known_event (EVENTS mici) EN_laneChange"
  "known_event (EVENTS mici) EN_steerSaturated"
  "known_event (EVENTS mici) EN_fanMalfunction"
  "known_event (EVENTS mici) EN_cameraMalfunction"
  "known_event (EVENTS mici) EN_cameraFrameRate"
  "known_event (EVENTS mici) EN_locationdTemporaryError"
  "known_event (EVENTS mici) EN_locationdPermanentError"
  "known_event (EVENTS mici) EN_paramsdTemporaryError"
  "known_event (EVENTS mici) EN_paramsdPermanentError"
  "known_event (EVENTS mici) EN_pcmEnable"
  "known_event (EVENTS mici) EN_buttonEnable"
  "known_event (EVENTS mici) EN_pcmDisable"
  "known_event (EVENTS mici) EN_buttonCancel"
  "known_event (EVENTS mici) EN_brakeHold"
  "known_event (EVENTS mici) EN_parkBrake"
  "known_event (EVENTS mici) EN_pedalPressed"
  "known_event (EVENTS mici) EN_steerDisengage"
  "known_event (EVENTS mici) EN_preEnableStandstill"
  "known_event (EVENTS mici) EN_gasPressedOverride"
  "known_event (EVENTS mici) EN_steerOverride"
  "known_event (EVENTS mici) EN_wrongCarMode"
  "known_event (EVENTS mici) EN_resumeBlocked"
  "known_event (EVENTS mici) EN_carNotReady"
  "known_event (EVENTS mici) EN_wrongCruiseMode"
  "known_event (EVENTS mici) EN_steerTempUnavailable"
  "known_event (EVENTS mici) EN_steerTimeLimit"
  "known_event (EVENTS mici) EN_outOfSpace"
  "known_event (EVENTS mici) EN_belowEngageSpeed"
  "known_event (EVENTS mici) EN_sensorDataInvalid"
  "known_event (EVENTS mici) EN_excessiveActuation"
  "known_event (EVENTS mici) EN_overheat"
  "known_event (EVENTS mici) EN_wrongGear"
  "known_event (EVENTS mici) EN_calibrationInvalid"
  "known_event (EVENTS mici) EN_calibrationIncomplete"
  "known_event (EVENTS mici) EN_calibrationRecalibrating"
  "known_event (EVENTS mici) EN_doorOpen"
  "known_event (EVENTS mici) EN_seatbeltNotLatched"
  "known_event (EVENTS mici) EN_espDisabled"
  "known_event (EVENTS mici) EN_commIssue"
  "known_event (EVENTS mici) EN_commIssueAvgFreq"
  "known_event (EVENTS mici) EN_selfdrivedLagging"
  "known_event (EVENTS mici) EN_processNotRunning"
  "known_event (EVENTS mici) EN_radarFault"
  "known_event (EVENTS mici) EN_radarTempUnavailable"
  "known_event (EVENTS mici) EN_modeldLagging"
  "known_event (EVENTS mici) EN_posenetInvalid"
  "known_event (EVENTS mici) EN_lowMemory"
  "known_event (EVENTS mici) EN_accFaulted"
  "known_event (EVENTS mici) EN_espActive"
  "known_event (EVENTS mici) EN_controlsMismatch"
  "known_event (EVENTS mici) EN_canError"
  "known_event (EVENTS mici) EN_canBusMissing"
  "known_event (EVENTS mici) EN_steerUnavailable"
  "known_event (EVENTS mici) EN_reverseGear"
  "known_event (EVENTS mici) EN_cruiseDisabled"
  "known_event (EVENTS mici) EN_relayMalfunction"
  "known_event (EVENTS mici) EN_speedTooLow"
  "known_event (EVENTS mici) EN_speedTooHigh"
  "known_event (EVENTS mici) EN_vehicleSensorsInvalid"
  "known_event (EVENTS mici) EN_personalityChanged"
  "known_event (EVENTS mici) EN_userBookmark"
  by (simp_all add: known_EVENTS EVENTS_types_def)

end
