(* ===== verification/EventTableSP.thy ===== *)
theory EventTableSP
  imports EventTable
begin

text \<open>
  \<open>sunnypilot/selfdrive/selfdrived/events.py\<close>: the alert callbacks of the sunnypilot events
  and the table \<open>EVENTS_SP\<close>, with the types of every entry as rewrite rules.
\<close>

section \<open>Alert callbacks\<close>

definition speed_limit_adjust_alert :: "callback_args \<Rightarrow> alert" where
  "speed_limit_adjust_alert args =
     (let speedLimit = lp_speedLimit (in_planSP (ca_sm args));
          speed = py_round (speedLimit * (if ca_metric args then MS_TO_KPH else MS_TO_MPH));
          message = ''Adjusting to '' @ show_int speed @ '' '' @ (if ca_metric args then ''km/h'' else ''mph'')
                    @ '' speed limit''
      in Alert message '''' AS_normal ASz_small LOW VA_none AA_none 4)"

text \<open>Constants of \<open>speed_limit/__init__.py\<close>, indexed by \<open>is_metric\<close>.\<close>

definition PCM_LONG_REQUIRED_MAX_SET_SPEED :: "bool \<Rightarrow> real \<times> real" where
  "PCM_LONG_REQUIRED_MAX_SET_SPEED metric =
     (if metric then (333333 / 10000, 361111 / 10000) else (312928 / 10000, 357632 / 10000))"

definition CONFIRM_SPEED_THRESHOLD :: "bool \<Rightarrow> int" where
  "CONFIRM_SPEED_THRESHOLD metric = (if metric then 80 else 50)"

definition speed_limit_pre_active_alert :: "callback_args \<Rightarrow> alert" where
  "speed_limit_pre_active_alert args =
     (let metric = ca_metric args;
          speed_conv = (if metric then MS_TO_KPH else MS_TO_MPH);
          v_cruise_cluster = cs_vCruiseCluster (ca_CS args);
          set_speed = (if v_cruise_cluster = 0 then ct_vCruise_deprecated (in_controlsState (ca_sm args))
                       else v_cruise_cluster);
          set_speed_conv = py_round (set_speed * speed_conv);
          limit_conv = py_round (lp_speedLimitFinalLast (in_planSP (ca_sm args)) * speed_conv);
          (text, sz) =
            (if cp_openpilotLongitudinalControl (ca_CP args) \<and> cp_pcmCruise (ca_CP args) then
               (let (cst_low, cst_high) = PCM_LONG_REQUIRED_MAX_SET_SPEED metric;
                    required_max = (if limit_conv < CONFIRM_SPEED_THRESHOLD metric then cst_low else cst_high);
                    required_conv = py_round (required_max * speed_conv);
                    speed_unit = (if metric then ''km/h'' else ''mph'')
                in (''Speed Limit Assist: set to '' @ show_int required_conv @ '' '' @ speed_unit @ '' to engage'', ASz_small))
             else if ca_mici args then
               (if set_speed_conv < limit_conv then (''Press + to confirm speed limit'', ASz_small)
                else if limit_conv < set_speed_conv then (''Press - to confirm speed limit'', ASz_small)
                else ('''', ASz_small))
             else ('''', ASz_none))
      in Alert text '''' AS_normal sz LOW VA_none AA_promptSingleLow (1 / 10))"

section \<open>The table\<close>

definition EVENTS_SP_1 :: "bool \<Rightarrow> events_mapping" where
  "EVENTS_SP_1 mici = [
  (SP_lkasEnable, [
    (ENABLE, AlertObj (EngagementAlert AA_engage))]),
  (SP_lkasDisable, [
    (USER_DISABLE, AlertObj (EngagementAlert AA_disengage))]),
  (SP_manualSteeringRequired, [
    (USER_DISABLE, AlertObj (Alert ''Automatic Lane Centering is OFF'' ''Manual Steering Required'' AS_normal ASz_mid LOW VA_none AA_disengage 1))]),
  (SP_manualLongitudinalRequired, [
    (WARNING, AlertObj (Alert ''Smart/Adaptive Cruise Control: OFF'' ''Manual Speed Control Required'' AS_normal ASz_mid LOW VA_none AA_none 1))]),
  (SP_silentLkasEnable, [
    (ENABLE, AlertObj (EngagementAlert AA_none))]),
  (SP_silentLkasDisable, [
    (USER_DISABLE, AlertObj (EngagementAlert AA_none))]),
  (SP_silentBrakeHold, [
    (WARNING, AlertObj (EngagementAlert AA_none)),
    (NO_ENTRY, AlertObj (NoEntryAlert mici ''Brake Hold Active''))]),
  (SP_silentWrongGear, [
    (WARNING, AlertObj (Alert '''' '''' AS_normal ASz_none LOWEST VA_none AA_none 0)),
    (NO_ENTRY, AlertObj (Alert ''Gear not D'' ''openpilot Unavailable'' AS_normal ASz_mid LOW VA_none AA_none 0))]),
  (SP_silentReverseGear, [
    (PERMANENT, AlertObj (Alert_delay (''Reverse'' @ [CHR 0x0A] @ ''Gear'') '''' AS_normal ASz_full LOWEST VA_none AA_none (2 / 10) (5 / 10))),
    (NO_ENTRY, AlertObj (NoEntryAlert mici ''Reverse Gear''))]),
  (SP_silentDoorOpen, [
    (WARNING, AlertObj (Alert '''' '''' AS_normal ASz_none LOWEST VA_none AA_none 0)),
    (NO_ENTRY, AlertObj (NoEntryAlert mici ''Door Open''))]),
  (SP_silentSeatbeltNotLatched, [
    (WARNING, AlertObj (Alert '''' '''' AS_normal ASz_none LOWEST VA_none AA_none 0)),
    (NO_ENTRY, AlertObj (NoEntryAlert mici ''Seatbelt Unlatched''))]),
  (SP_silentParkBrake, [
    (WARNING, AlertObj (Alert '''' '''' AS_normal ASz_none LOWEST VA_none AA_none 0)),
    (NO_ENTRY, AlertObj (NoEntryAlert mici ''Parking Brake Engaged''))]),
  (SP_controlsMismatchLateral, [
    (IMMEDIATE_DISABLE, AlertObj (ImmediateDisableAlert ''Controls Mismatch: Lateral'')),
    (NO_ENTRY, AlertObj (NoEntryAlert mici ''Controls Mismatch: Lateral''))])]"

definition EVENTS_SP_2 :: "bool \<Rightarrow> events_mapping" where
  "EVENTS_SP_2 mici = [
  (SP_experimentalModeSwitched, [
    (WARNING, AlertObj (NormalPermanentAlert_full ''Experimental Mode Switched'' '''' (15 / 10) LOWER 0))]),
  (SP_wrongCarModeAlertOnly, [
    (WARNING, AlertCallback wrong_car_mode_alert)]),
  (SP_pedalPressedAlertOnly, [
    (WARNING, AlertObj (NoEntryAlert mici ''Pedal Pressed''))]),
  (SP_laneTurnLeft, [
    (WARNING, AlertObj (Alert ''Turning Left'' '''' AS_normal ASz_small LOW VA_none AA_none 1))]),
  (SP_laneTurnRight, [
    (WARNING, AlertObj (Alert ''Turning Right'' '''' AS_normal ASz_small LOW VA_none AA_none 1))]),
  (SP_speedLimitActive, [
    (WARNING, AlertObj (Alert ''Auto adjusting to speed limit'' '''' AS_normal ASz_small LOW VA_none AA_promptSingleHigh 5))]),
  (SP_speedLimitChanged, [
    (WARNING, AlertObj (Alert ''Set speed changed'' '''' AS_normal ASz_small LOW VA_none AA_promptSingleHigh 5))]),
  (SP_speedLimitPreActive, [
    (WARNING, AlertCallback speed_limit_pre_active_alert)]),
  (SP_speedLimitPending, [
    (WARNING, AlertObj (Alert ''Auto adjusting to last speed limit'' '''' AS_normal ASz_small LOW VA_none AA_promptSingleHigh 5))]),
  (SP_e2eChime, [
    (PERMANENT, AlertObj (Alert '''' '''' AS_normal ASz_none MID VA_none AA_prompt 3))]),
  (SP_laneChangeRoadEdge, [
    (WARNING, AlertObj (Alert ''Lane Change Unavailable: Road Edge'' '''' AS_userPrompt ASz_small LOW VA_none AA_prompt (1 / 10)))]),
  (SP_bigModelReady, [
    (PERMANENT, AlertObj (Alert ''Big Model Ready'' '''' AS_normal ASz_small LOW VA_none AA_prompt 2))])]"

definition EVENTS_SP :: "bool \<Rightarrow> events_mapping" where
  "EVENTS_SP mici = EVENTS_SP_1 mici @ EVENTS_SP_2 mici"

section \<open>The types of the entries\<close>

definition EVENTS_SP_types :: "(int \<times> ET list) list" where
  "EVENTS_SP_types = [
    (SP_lkasEnable, [ENABLE]),
    (SP_lkasDisable, [USER_DISABLE]),
    (SP_manualSteeringRequired, [USER_DISABLE]),
    (SP_manualLongitudinalRequired, [WARNING]),
    (SP_silentLkasEnable, [ENABLE]),
    (SP_silentLkasDisable, [USER_DISABLE]),
    (SP_silentBrakeHold, [WARNING, NO_ENTRY]),
    (SP_silentWrongGear, [WARNING, NO_ENTRY]),
    (SP_silentReverseGear, [PERMANENT, NO_ENTRY]),
    (SP_silentDoorOpen, [WARNING, NO_ENTRY]),
    (SP_silentSeatbeltNotLatched, [WARNING, NO_ENTRY]),
    (SP_silentParkBrake, [WARNING, NO_ENTRY]),
    (SP_controlsMismatchLateral, [IMMEDIATE_DISABLE, NO_ENTRY]),
    (SP_experimentalModeSwitched, [WARNING]),
    (SP_wrongCarModeAlertOnly, [WARNING]),
    (SP_pedalPressedAlertOnly, [WARNING]),
    (SP_laneTurnLeft, [WARNING]),
    (SP_laneTurnRight, [WARNING]),
    (SP_speedLimitActive, [WARNING]),
    (SP_speedLimitChanged, [WARNING]),
    (SP_speedLimitPreActive, [WARNING]),
    (SP_speedLimitPending, [WARNING]),
    (SP_e2eChime, [PERMANENT]),
    (SP_laneChangeRoadEdge, [WARNING]),
    (SP_bigModelReady, [PERMANENT])]"

lemma EVENTS_SP_types_eq: "map entry_types (EVENTS_SP mici) = EVENTS_SP_types"
  by (simp only: EVENTS_SP_def EVENTS_SP_1_def EVENTS_SP_2_def map_append table_eval EVENTS_SP_types_def)

lemmas event_types_EVENTS_SP = event_types_of_map [OF EVENTS_SP_types_eq]

lemma event_types_table_SP [simp]:
  "event_types (EVENTS_SP mici) SP_lkasEnable = [ENABLE]"
  "event_types (EVENTS_SP mici) SP_lkasDisable = [USER_DISABLE]"
  "event_types (EVENTS_SP mici) SP_manualSteeringRequired = [USER_DISABLE]"
  "event_types (EVENTS_SP mici) SP_manualLongitudinalRequired = [WARNING]"
  "event_types (EVENTS_SP mici) SP_silentLkasEnable = [ENABLE]"
  "event_types (EVENTS_SP mici) SP_silentLkasDisable = [USER_DISABLE]"
  "event_types (EVENTS_SP mici) SP_silentBrakeHold = [WARNING, NO_ENTRY]"
  "event_types (EVENTS_SP mici) SP_silentWrongGear = [WARNING, NO_ENTRY]"
  "event_types (EVENTS_SP mici) SP_silentReverseGear = [PERMANENT, NO_ENTRY]"
  "event_types (EVENTS_SP mici) SP_silentDoorOpen = [WARNING, NO_ENTRY]"
  "event_types (EVENTS_SP mici) SP_silentSeatbeltNotLatched = [WARNING, NO_ENTRY]"
  "event_types (EVENTS_SP mici) SP_silentParkBrake = [WARNING, NO_ENTRY]"
  "event_types (EVENTS_SP mici) SP_controlsMismatchLateral = [IMMEDIATE_DISABLE, NO_ENTRY]"
  "event_types (EVENTS_SP mici) SP_experimentalModeSwitched = [WARNING]"
  "event_types (EVENTS_SP mici) SP_wrongCarModeAlertOnly = [WARNING]"
  "event_types (EVENTS_SP mici) SP_pedalPressedAlertOnly = [WARNING]"
  "event_types (EVENTS_SP mici) SP_laneTurnLeft = [WARNING]"
  "event_types (EVENTS_SP mici) SP_laneTurnRight = [WARNING]"
  "event_types (EVENTS_SP mici) SP_speedLimitActive = [WARNING]"
  "event_types (EVENTS_SP mici) SP_speedLimitChanged = [WARNING]"
  "event_types (EVENTS_SP mici) SP_speedLimitPreActive = [WARNING]"
  "event_types (EVENTS_SP mici) SP_speedLimitPending = [WARNING]"
  "event_types (EVENTS_SP mici) SP_e2eChime = [PERMANENT]"
  "event_types (EVENTS_SP mici) SP_laneChangeRoadEdge = [WARNING]"
  "event_types (EVENTS_SP mici) SP_bigModelReady = [PERMANENT]"
  by (simp_all add: event_types_EVENTS_SP EVENTS_SP_types_def)

lemma known_EVENTS_SP: "known_event (EVENTS_SP mici) e \<longleftrightarrow> e \<in> set (map fst EVENTS_SP_types)"
  by (simp add: known_event_def keys_of_map [OF EVENTS_SP_types_eq])

lemma known_event_table_SP [simp]:
  "known_event (EVENTS_SP mici) SP_lkasEnable"
  "known_event (EVENTS_SP mici) SP_lkasDisable"
  "known_event (EVENTS_SP mici) SP_manualSteeringRequired"
  "known_event (EVENTS_SP mici) SP_manualLongitudinalRequired"
  "known_event (EVENTS_SP mici) SP_silentLkasEnable"
  "known_event (EVENTS_SP mici) SP_silentLkasDisable"
  "known_event (EVENTS_SP mici) SP_silentBrakeHold"
  "known_event (EVENTS_SP mici) SP_silentWrongGear"
  "known_event (EVENTS_SP mici) SP_silentReverseGear"
  "known_event (EVENTS_SP mici) SP_silentDoorOpen"
  "known_event (EVENTS_SP mici) SP_silentSeatbeltNotLatched"
  "known_event (EVENTS_SP mici) SP_silentParkBrake"
  "known_event (EVENTS_SP mici) SP_controlsMismatchLateral"
  "known_event (EVENTS_SP mici) SP_experimentalModeSwitched"
  "known_event (EVENTS_SP mici) SP_wrongCarModeAlertOnly"
  "known_event (EVENTS_SP mici) SP_pedalPressedAlertOnly"
  "known_event (EVENTS_SP mici) SP_laneTurnLeft"
  "known_event (EVENTS_SP mici) SP_laneTurnRight"
  "known_event (EVENTS_SP mici) SP_speedLimitActive"
  "known_event (EVENTS_SP mici) SP_speedLimitChanged"
  "known_event (EVENTS_SP mici) SP_speedLimitPreActive"
  "known_event (EVENTS_SP mici) SP_speedLimitPending"
  "known_event (EVENTS_SP mici) SP_e2eChime"
  "known_event (EVENTS_SP mici) SP_laneChangeRoadEdge"
  "known_event (EVENTS_SP mici) SP_bigModelReady"
  by (simp_all add: known_EVENTS_SP EVENTS_SP_types_def)

end
