(* ===== verification/EventProps.thy ===== *)
theory EventProps
  imports EventTableSP
begin

text \<open>
  Properties of the event store over the two tables of the program: which alerts
  \<open>create_alerts\<close> returns, that it never raises on the tables, and that the frame counters make
  a creation delay exact.
\<close>

section \<open>The alerts created\<close>

definition alert_for :: "(int \<rightharpoonup> string) \<Rightarrow> callback_args \<Rightarrow> int \<Rightarrow> ET \<Rightarrow> alert_src \<Rightarrow> alert" where
  "alert_for names args e t src =
     (alert_of args src)\<lparr>al_type := the (names e) @ ''/'' @ ET_str t, al_event_type := Some t\<rparr>"

definition delay_passed :: "int \<Rightarrow> alert \<Rightarrow> bool" where
  "delay_passed n a \<longleftrightarrow> al_creation_delay a \<le> DT_CTRL * of_int (n + 1)"

lemma alerts_for_types_set:
  "alerts_for_types names counters args e en ts = Some r \<Longrightarrow> counters e = Some n \<Longrightarrow>
   a \<in> set r \<longleftrightarrow> (\<exists>t\<in>set ts. \<exists>src. map_of en t = Some src \<and> delay_passed n (alert_of args src) \<and>
                       a = alert_for names args e t src)"
proof (induction ts arbitrary: r)
  case (Cons t ts)
  show ?case
  proof (cases "map_of en t")
    case None
    with Cons show ?thesis by simp
  next
    case (Some src)
    show ?thesis
    proof (cases "delay_passed n (alert_of args src)")
      case True
      with Cons.prems Some obtain name rest where name: "names e = Some name"
        and rest: "alerts_for_types names counters args e en ts = Some rest"
        and r: "r = (alert_of args src)\<lparr>al_type := name @ ''/'' @ ET_str t, al_event_type := Some t\<rparr> # rest"
        by (auto simp: Let_def delay_passed_def bind_eq_Some_conv)
      from Cons.IH [OF rest Cons.prems(2)] True Some name r show ?thesis
        by (auto simp: alert_for_def)
    next
      case False
      with Cons.prems Some have "alerts_for_types names counters args e en ts = Some r"
        by (auto simp: Let_def delay_passed_def)
      from Cons.IH [OF this Cons.prems(2)] False Some show ?thesis by auto
    qed
  qed
qed simp

lemma create_alerts_loop_set:
  assumes "create_alerts_loop m names counters args ts es = Some r" "\<forall>e\<in>set es. counters e \<noteq> None"
  shows "a \<in> set r \<longleftrightarrow> (\<exists>e\<in>set es. \<exists>t\<in>set ts. \<exists>src. map_of (mapping_get m e) t = Some src \<and>
           delay_passed (the (counters e)) (alert_of args src) \<and> a = alert_for names args e t src)"
  using assms
proof (induction es arbitrary: r)
  case (Cons e es)
  from Cons.prems(1) obtain en as rest where
    en: "map_of m e = Some en" and as: "alerts_for_types names counters args e en ts = Some as"
    and rest: "create_alerts_loop m names counters args ts es = Some rest" and r: "r = as @ rest"
    by (auto simp: bind_eq_Some_conv)
  obtain n where n: "counters e = Some n" using Cons.prems(2) by auto
  have "mapping_get m e = en" by (simp add: mapping_get_def en)
  with Cons.IH [OF rest] Cons.prems(2) alerts_for_types_set [OF as n] n r show ?case by auto
qed simp

lemma wf_counters: "ev_wf m s \<Longrightarrow> e \<in> set (ev_events s) \<Longrightarrow> ev_counters s e \<noteq> None"
  using known_event_dom [of m s e] by (auto simp: ev_wf_def list_all_iff)

lemma create_alerts_set:
  assumes "ev_create_alerts m names ts args s = Some r" "ev_wf m s"
  shows "a \<in> set r \<longleftrightarrow> (\<exists>e t src. ev_has e s \<and> t \<in> set ts \<and> map_of (mapping_get m e) t = Some src \<and>
           delay_passed (the (ev_counters s e)) (alert_of args src) \<and> a = alert_for names args e t src)"
  using create_alerts_loop_set [OF assms(1) [unfolded ev_create_alerts_def]] wf_counters [OF assms(2)]
  by (auto simp: ev_has_def)

lemma names_total: "list_all (\<lambda>e. e \<in> set (map fst EVENT_NAME_table)) (map fst EVENTS_types)"
  by code_simp

lemma names_total_SP: "list_all (\<lambda>e. e \<in> set (map fst EVENT_NAME_SP_table)) (map fst EVENTS_SP_types)"
  by code_simp

lemma known_has_name: "known_event (EVENTS mici) e \<Longrightarrow> EVENT_NAME e \<noteq> None"
  unfolding known_EVENTS EVENT_NAME_def map_of_eq_None_iff not_not set_map [symmetric]
  by (rule names_total [unfolded list_all_iff, rule_format])

lemma known_has_name_SP: "known_event (EVENTS_SP mici) e \<Longrightarrow> EVENT_NAME_SP e \<noteq> None"
  unfolding known_EVENTS_SP EVENT_NAME_SP_def map_of_eq_None_iff not_not set_map [symmetric]
  by (rule names_total_SP [unfolded list_all_iff, rule_format])

section \<open>Frames\<close>

text \<open>One frame of the store: \<open>clear\<close>, then the event is added.\<close>

fun event_frames :: "nat \<Rightarrow> int \<Rightarrow> events \<Rightarrow> events" where
  "event_frames 0 e s = s"
| "event_frames (Suc n) e s = ev_add e (ev_clear (event_frames n e s))"

lemma event_frames_static [simp]: "ev_static (event_frames n e s) = ev_static s"
  by (induction n) (simp_all add: ev_clear_def frame_simps)

lemma add_counters [frame_simps]: "ev_counters (ev_add_static e static s) = ev_counters s"
  by (simp add: ev_add_static_def Let_def)

lemma clear_counters: "ev_counters (ev_clear s) e =
    map_option (\<lambda>v. if ev_has e s then v + 1 else 0) (ev_counters s e)"
  by (simp add: ev_clear_def ev_has_def split: option.split)

lemma event_frames_counter:
  assumes "ev_counters s e \<noteq> None" "\<not> ev_has e s"
  shows "ev_counters (event_frames (Suc n) e s) e = Some (int n)"
proof (induction n)
  case 0
  from assms show ?case by (auto simp: frame_simps clear_counters)
next
  case (Suc n)
  have "ev_has e (event_frames (Suc n) e s)" by (simp add: ev.has_add)
  with Suc show ?case by (simp add: frame_simps clear_counters)
qed

lemma event_frames_wf: "ev_wf m s \<Longrightarrow> known_event m e \<Longrightarrow> ev_wf m (event_frames n e s)"
  by (induction n) (auto intro: ev_wf_add_static ev_wf_clear)

section \<open>Properties\<close>

text \<open>\<open>create_alerts\<close> on either event table never raises on a well-formed store (every
  event has an entry, a counter and a name) and returns exactly the alerts of the current events
  for the requested types whose creation delay has passed, each stamped with the name and the type
  of its event.\<close>

theorem create_alerts_exact:
  "(\<forall>mici ts args s. ev_wf (EVENTS mici) s \<longrightarrow>
      (\<exists>r. ev_create_alerts (EVENTS mici) EVENT_NAME ts args s = Some r \<and>
        set r = {alert_for EVENT_NAME args e t src | e t src.
          ev_has e s \<and> t \<in> set ts \<and> map_of (mapping_get (EVENTS mici) e) t = Some src \<and>
          delay_passed (the (ev_counters s e)) (alert_of args src)})) \<and>
   (\<forall>mici ts args s. ev_wf (EVENTS_SP mici) s \<longrightarrow>
      (\<exists>r. ev_create_alerts (EVENTS_SP mici) EVENT_NAME_SP ts args s = Some r \<and>
        set r = {alert_for EVENT_NAME_SP args e t src | e t src.
          ev_has e s \<and> t \<in> set ts \<and> map_of (mapping_get (EVENTS_SP mici) e) t = Some src \<and>
          delay_passed (the (ev_counters s e)) (alert_of args src)}))"
proof -
  have gen: "\<exists>r. ev_create_alerts m names ts args s = Some r \<and>
        set r = {alert_for names args e t src | e t src.
          ev_has e s \<and> t \<in> set ts \<and> map_of (mapping_get m e) t = Some src \<and>
          delay_passed (the (ev_counters s e)) (alert_of args src)}"
    if "ev_wf m s" "\<And>e. known_event m e \<Longrightarrow> names e \<noteq> None" for m names ts args s
  proof -
    have "\<forall>e\<in>set (map fst m). names e \<noteq> None" using that(2) by (auto simp: known_event_def)
    from create_alerts_defined [OF that(1) this] obtain r where r: "ev_create_alerts m names ts args s = Some r"
      by blast
    have "set r = {alert_for names args e t src | e t src.
          ev_has e s \<and> t \<in> set ts \<and> map_of (mapping_get m e) t = Some src \<and>
          delay_passed (the (ev_counters s e)) (alert_of args src)}"
      unfolding set_eq_iff mem_Collect_eq create_alerts_set [OF r that(1)] by blast
    with r show ?thesis by blast
  qed
  show ?thesis
    by (intro conjI allI impI) (erule gen, erule known_has_name, erule gen, erule known_has_name_SP)
qed

theorem create_alerts_exact_witness:
  "\<forall>args. \<exists>r. ev_create_alerts (EVENTS False) EVENT_NAME [WARNING] args
      (ev_add EN_steerSaturated (ev_init (EVENTS False))) = Some r"
proof -
  have "ev_wf (EVENTS False) (ev_add EN_steerSaturated (ev_init (EVENTS False)))"
    by (intro ev_wf_add_static ev_wf_init) simp
  then show ?thesis
    using create_alerts_exact [THEN conjunct1, THEN spec, THEN spec, THEN spec, THEN spec, THEN mp] by blast
qed

text \<open>Creation delays are exact: when an event that was absent is added in every frame, the
  alert of its entry is created in the \<open>n\<close>-th of these frames if and only if \<open>n\<close> control periods
  cover the delay of the alert, and after a frame without the event the count starts again.\<close>

theorem creation_delay_exact:
  assumes "ev_wf (EVENTS mici) s" "\<not> ev_has e s" "known_event (EVENTS mici) e" "e \<notin> set (ev_static s)"
    and "map_of (mapping_get (EVENTS mici) e) t = Some src" "t \<in> set ts"
    and unique: "\<And>e'. EVENT_NAME e' = EVENT_NAME e \<Longrightarrow> e' = e"
  shows "(\<exists>r. ev_create_alerts (EVENTS mici) EVENT_NAME ts args (event_frames (Suc n) e s) = Some r \<and>
            (alert_for EVENT_NAME args e t src \<in> set r \<longleftrightarrow>
             al_creation_delay (alert_of args src) \<le> DT_CTRL * real (Suc n))) \<and>
         (\<forall>k. ev_counters (event_frames (Suc k) e (ev_clear (event_frames n e s))) e = Some (int k))"
proof -
  let ?s = "event_frames (Suc n) e s"
  have wf: "ev_wf (EVENTS mici) ?s" by (rule event_frames_wf [OF assms(1,3)])
  have cs: "ev_counters s e \<noteq> None" using assms(1,3) known_event_dom [of "EVENTS mici" s e] by auto
  have c: "ev_counters ?s e = Some (int n)" by (rule event_frames_counter [OF cs assms(2)])
  have has: "ev_has e ?s" by (simp add: ev.has_add)
  have "\<forall>e\<in>set (map fst (EVENTS mici)). EVENT_NAME e \<noteq> None"
    using known_has_name [of mici] by (auto simp: known_event_def)
  from create_alerts_defined [OF wf this] obtain r where
    r: "ev_create_alerts (EVENTS mici) EVENT_NAME ts args ?s = Some r" by blast
  obtain name where name: "EVENT_NAME e = Some name" using known_has_name [OF assms(3)] by blast
  have "alert_for EVENT_NAME args e t src \<in> set r \<longleftrightarrow> delay_passed (int n) (alert_of args src)"
  proof
    assume "alert_for EVENT_NAME args e t src \<in> set r"
    then obtain e' t' src' where e': "ev_has e' ?s" "map_of (mapping_get (EVENTS mici) e') t' = Some src'"
      "delay_passed (the (ev_counters ?s e')) (alert_of args src')"
      "alert_for EVENT_NAME args e t src = alert_for EVENT_NAME args e' t' src'"
      unfolding create_alerts_set [OF r wf] by blast
    have "known_event (EVENTS mici) e'" using wf e'(1) by (auto simp: ev_wf_def list_all_iff ev_has_def)
    then obtain name' where name': "EVENT_NAME e' = Some name'" using known_has_name by blast
    have t: "t' = t" "name' = name"
      using arg_cong [OF e'(4), of al_event_type] arg_cong [OF e'(4), of al_type] name name'
      by (simp_all add: alert_for_def)
    then have "e' = e" using unique name name' by simp
    with e' t assms(5) c show "delay_passed (int n) (alert_of args src)" by simp
  next
    assume "delay_passed (int n) (alert_of args src)"
    with has c assms(5,6) show "alert_for EVENT_NAME args e t src \<in> set r"
      unfolding create_alerts_set [OF r wf] by (intro exI [of _ e] exI [of _ t] exI [of _ src]) simp
  qed
  moreover have "ev_counters (event_frames (Suc k) e (ev_clear (event_frames n e s))) e = Some (int k)" for k
  proof (rule event_frames_counter)
    show "\<not> ev_has e (ev_clear (event_frames n e s))" using assms(4) by (simp add: has_clear)
    have "ev_wf (EVENTS mici) (ev_clear (event_frames n e s))"
      by (intro ev_wf_clear event_frames_wf assms(1,3))
    then show "ev_counters (ev_clear (event_frames n e s)) e \<noteq> None"
      using assms(3) known_event_dom [of "EVENTS mici" "ev_clear (event_frames n e s)" e] by auto
  qed
  ultimately show ?thesis using r by (intro conjI exI [of _ r]) (simp_all add: delay_passed_def add.commute)
qed

theorem creation_delay_exact_witness:
  "\<forall>args. \<exists>r. ev_create_alerts (EVENTS False) EVENT_NAME [WARNING] args
      (event_frames (Suc 7) EN_steerSaturated (ev_init (EVENTS False))) = Some r"
proof
  fix args
  have "WARNING \<in> set (map fst (mapping_get (EVENTS False) EN_steerSaturated))"
    by (simp add: event_types_def [symmetric])
  then obtain src where "map_of (mapping_get (EVENTS False) EN_steerSaturated) WARNING = Some src"
    by (metis map_of_eq_None_iff not_None_eq set_map)
  moreover have "e' = EN_steerSaturated" if "EVENT_NAME e' = EVENT_NAME EN_steerSaturated" for e'
  proof -
    have "EVENT_NAME EN_steerSaturated = Some ''steerSaturated''" by (simp add: EVENT_NAME_def EVENT_NAME_table_def)
    with that have "(e', ''steerSaturated'') \<in> set EVENT_NAME_table"
      by (auto simp: EVENT_NAME_def dest: map_of_SomeD)
    then show ?thesis by (simp add: EVENT_NAME_table_def)
  qed
  ultimately show "\<exists>r. ev_create_alerts (EVENTS False) EVENT_NAME [WARNING] args
      (event_frames (Suc 7) EN_steerSaturated (ev_init (EVENTS False))) = Some r"
    using creation_delay_exact [OF ev_wf_init _ _ _ _ _ , of EN_steerSaturated False WARNING src "[WARNING]" args 7]
    by (auto simp: ev_has_def ev_init_def)
qed

end
