(* ===== verification/AlertManager.thy ===== *)
theory AlertManager
  imports EventsBase
begin

text \<open>
  \<open>selfdrive/selfdrived/alertmanager.py\<close>: \<open>AlertEntry\<close> and \<open>AlertManager\<close>.  The
  dictionary of entries keeps insertion order (ties between alerts go to the earlier entry), so it
  is an association list.  \<open>set_offroad_alert\<close>, which writes the params store, is in theory
  \<open>Hardwared\<close>.
\<close>

section \<open>Entries\<close>

record alert_entry =
  ae_alert :: "alert option"
  ae_start_frame :: int
  ae_end_frame :: int
  ae_added_frame :: int

definition empty_entry :: alert_entry where
  "empty_entry = \<lparr> ae_alert = None, ae_start_frame = -1, ae_end_frame = -1, ae_added_frame = -1 \<rparr>"

definition ae_active :: "int \<Rightarrow> alert_entry \<Rightarrow> bool" where
  "ae_active frame e \<longleftrightarrow> frame \<le> ae_end_frame e"

definition ae_just_added :: "int \<Rightarrow> alert_entry \<Rightarrow> bool" where
  "ae_just_added frame e \<longleftrightarrow> ae_active frame e \<and> frame = ae_added_frame e + 1"

section \<open>The manager\<close>

record alert_manager =
  am_alerts :: "(string \<times> alert_entry) list"
  am_current :: alert

definition am_init :: alert_manager where
  "am_init = \<lparr> am_alerts = [], am_current = EmptyAlert \<rparr>"

text \<open>The body of the loop of \<open>add_many\<close>; a missing key is created by the \<open>defaultdict\<close>.\<close>

definition entry_add :: "int \<Rightarrow> alert \<Rightarrow> alert_entry \<Rightarrow> alert_entry" where
  "entry_add frame a e =
     (let e = e\<lparr>ae_alert := Some a\<rparr>;
          e = (if \<not> ae_just_added frame e then e\<lparr>ae_start_frame := frame\<rparr> else e);
          min_end_frame = ae_start_frame e + al_duration a
      in e\<lparr>ae_end_frame := max (frame + 1) min_end_frame, ae_added_frame := frame\<rparr>)"

definition get_entry :: "(string \<times> alert_entry) list \<Rightarrow> string \<Rightarrow> alert_entry" where
  "get_entry d k = (case map_of d k of None \<Rightarrow> empty_entry | Some e \<Rightarrow> e)"

definition add_one :: "int \<Rightarrow> alert \<Rightarrow> (string \<times> alert_entry) list \<Rightarrow> (string \<times> alert_entry) list" where
  "add_one frame a d = AList.update (al_type a) (entry_add frame a (get_entry d (al_type a))) d"

definition add_many :: "int \<Rightarrow> alert list \<Rightarrow> alert_manager \<Rightarrow> alert_manager" where
  "add_many frame alerts am = am\<lparr>am_alerts := fold (add_one frame) alerts (am_alerts am)\<rparr>"

text \<open>The loop of \<open>process_alerts\<close>: \<open>ae\<close> is the best entry so far.\<close>

definition clear_entry :: "ET set \<Rightarrow> alert_entry \<Rightarrow> alert_entry" where
  "clear_entry clr v =
     (case ae_alert v of None \<Rightarrow> v
      | Some a \<Rightarrow> (case al_event_type a of
           None \<Rightarrow> v
         | Some t \<Rightarrow> if t \<in> clr then v\<lparr>ae_end_frame := -1\<rparr> else v))"

definition entry_key :: "alert_entry \<Rightarrow> priority \<times> int" where
  "entry_key v = (case ae_alert v of None \<Rightarrow> (LOWEST, -1) | Some a \<Rightarrow> (al_priority a, ae_start_frame v))"

definition best_step :: "int \<Rightarrow> alert_entry \<Rightarrow> alert_entry \<Rightarrow> alert_entry" where
  "best_step frame v ae =
     (if ae_alert v = None then ae
      else let greater = (ae_alert ae = None \<or> entry_key ae < entry_key v)
           in if ae_active frame v \<and> greater then v else ae)"

definition process_alerts :: "int \<Rightarrow> ET set \<Rightarrow> alert_manager \<Rightarrow> alert_manager" where
  "process_alerts frame clr am =
     (let cleared = map (apsnd (clear_entry clr)) (am_alerts am);
          ae = fold (best_step frame) (map snd cleared) empty_entry
      in am\<lparr>am_alerts := cleared,
            am_current := (case ae_alert ae of None \<Rightarrow> EmptyAlert | Some a \<Rightarrow> a)\<rparr>)"

section \<open>Adding alerts\<close>

lemma entry_add_fields:
  "ae_alert (entry_add frame a e) = Some a"
  "ae_added_frame (entry_add frame a e) = frame"
  "ae_start_frame (entry_add frame a e) = (if ae_just_added frame e then ae_start_frame e else frame)"
  "ae_end_frame (entry_add frame a e) = max (frame + 1) (ae_start_frame (entry_add frame a e) + al_duration a)"
  by (auto simp: entry_add_def Let_def ae_just_added_def ae_active_def)

lemma get_entry_add_one:
  "get_entry (add_one frame a d) k = (if k = al_type a then entry_add frame a (get_entry d k) else get_entry d k)"
  by (simp add: add_one_def get_entry_def update_conv')

lemma entry_add_active: "ae_active (frame + 1) (entry_add frame a e)"
  by (simp add: ae_active_def entry_add_fields)

text \<open>An alert that is added once per frame keeps its start frame.\<close>

lemma start_frame_kept:
  "ae_start_frame (entry_add (frame + 1) b (entry_add frame a e)) = ae_start_frame (entry_add frame a e)"
  by (simp add: entry_add_fields ae_just_added_def ae_active_def)

text \<open>Added a second time in the same frame, it restarts.\<close>

lemma start_frame_restarts:
  "ae_start_frame (entry_add frame b (entry_add frame a e)) = frame"
  by (simp add: entry_add_fields ae_just_added_def)

lemma add_many_get:
  assumes "k \<notin> al_type ` set alerts"
  shows "get_entry (am_alerts (add_many frame alerts am)) k = get_entry (am_alerts am) k"
proof -
  have "get_entry (fold (add_one frame) alerts d) k = get_entry d k" for d
    using assms by (induction alerts arbitrary: d) (auto simp: get_entry_add_one)
  then show ?thesis by (simp add: add_many_def)
qed

section \<open>Choosing the alert\<close>

definition candidate :: "int \<Rightarrow> alert_entry \<Rightarrow> bool" where
  "candidate frame v \<longleftrightarrow> ae_alert v \<noteq> None \<and> ae_active frame v"

lemma best_fold_inv:
  assumes "ae_alert ae = None \<or> candidate frame ae"
  shows "(let r = fold (best_step frame) vs ae in
           (ae_alert r = None \<longrightarrow> r = ae \<and> (\<forall>v\<in>set vs. \<not> candidate frame v)) \<and>
           (ae_alert r \<noteq> None \<longrightarrow> candidate frame r \<and> (r = ae \<or> r \<in> set vs) \<and>
              (ae_alert ae \<noteq> None \<longrightarrow> entry_key ae \<le> entry_key r) \<and>
              (\<forall>v\<in>set vs. candidate frame v \<longrightarrow> entry_key v \<le> entry_key r)))"
  using assms
proof (induction vs arbitrary: ae)
  case Nil
  then show ?case by (auto simp: candidate_def)
next
  case (Cons v vs)
  let ?ae = "best_step frame v ae"
  have ae': "ae_alert ?ae = None \<or> candidate frame ?ae"
    using Cons.prems by (auto simp: best_step_def candidate_def Let_def)
  have key: "candidate frame v \<Longrightarrow> ae_alert ?ae \<noteq> None \<and> entry_key v \<le> entry_key ?ae"
    by (auto simp: best_step_def candidate_def Let_def)
  have keep: "ae_alert ae \<noteq> None \<Longrightarrow> ae_alert ?ae \<noteq> None \<and> entry_key ae \<le> entry_key ?ae"
    by (auto simp: best_step_def Let_def)
  have from_: "?ae = ae \<or> ?ae = v \<and> candidate frame v"
    by (auto simp: best_step_def candidate_def Let_def)
  show ?case
    using Cons.IH [OF ae'] key keep from_ by (fastforce simp: Let_def)
qed

lemma current_is_best:
  fixes frame clr am
  defines "am' \<equiv> process_alerts frame clr am"
  defines "vs \<equiv> map (clear_entry clr \<circ> snd) (am_alerts am)"
  shows "(\<forall>v\<in>set vs. \<not> candidate frame v) \<and> am_current am' = EmptyAlert \<or>
         (\<exists>v\<in>set vs. candidate frame v \<and> ae_alert v = Some (am_current am') \<and>
            (\<forall>w\<in>set vs. candidate frame w \<longrightarrow> entry_key w \<le> entry_key v))"
proof -
  let ?r = "fold (best_step frame) vs empty_entry"
  have vs: "map snd (map (apsnd (clear_entry clr)) (am_alerts am)) = vs"
    by (simp add: vs_def comp_def)
  have cur: "am_current am' = (case ae_alert ?r of None \<Rightarrow> EmptyAlert | Some a \<Rightarrow> a)"
    unfolding am'_def process_alerts_def Let_def vs by simp
  have inv: "let r = ?r in
           (ae_alert r = None \<longrightarrow> r = empty_entry \<and> (\<forall>v\<in>set vs. \<not> candidate frame v)) \<and>
           (ae_alert r \<noteq> None \<longrightarrow> candidate frame r \<and> (r = empty_entry \<or> r \<in> set vs) \<and>
              (ae_alert empty_entry \<noteq> None \<longrightarrow> entry_key empty_entry \<le> entry_key r) \<and>
              (\<forall>v\<in>set vs. candidate frame v \<longrightarrow> entry_key v \<le> entry_key r))"
    by (rule best_fold_inv) (simp add: empty_entry_def)
  show ?thesis
  proof (cases "ae_alert ?r")
    case None
    with inv cur show ?thesis by (simp add: Let_def)
  next
    case (Some a)
    then have "?r \<noteq> empty_entry" by (auto simp: empty_entry_def)
    with inv cur Some show ?thesis by (auto simp: Let_def)
  qed
qed

text \<open>The event type of the alert that is shown is not among the cleared ones (for frames from 0 on).\<close>

lemma candidate_not_cleared:
  assumes "0 \<le> frame" "candidate frame (clear_entry clr v)" "ae_alert (clear_entry clr v) = Some a"
    and "al_event_type a = Some t"
  shows "t \<notin> clr"
  using assms by (auto simp: clear_entry_def candidate_def ae_active_def split: option.splits if_splits)

lemma current_not_cleared:
  assumes "0 \<le> frame" "al_event_type (am_current (process_alerts frame clr am)) = Some t"
  shows "t \<notin> clr"
proof -
  have "am_current (process_alerts frame clr am) \<noteq> EmptyAlert"
    using assms(2) by (auto simp: EmptyAlert_def Alert_delay_def)
  then obtain v where "candidate frame (clear_entry clr v)"
    "ae_alert (clear_entry clr v) = Some (am_current (process_alerts frame clr am))"
    using current_is_best [of clr am frame] by auto
  with assms show ?thesis by (intro candidate_not_cleared)
qed

section \<open>Properties\<close>

text \<open>The alert shown is the best one: among the entries that are active and whose event
  type is not cleared it has the greatest (priority, start frame), and when there is none the empty
  alert is shown; its event type is never one of the cleared types.\<close>

theorem shown_alert_is_best:
  fixes frame clr am
  defines "vs \<equiv> map (clear_entry clr) (map snd (am_alerts am))"
  defines "shown \<equiv> am_current (process_alerts frame clr am)"
  assumes "0 \<le> frame"
  shows "((\<forall>v\<in>set vs. ae_alert v = None \<or> \<not> ae_active frame v) \<and> shown = EmptyAlert \<or>
          (\<exists>v\<in>set vs. ae_active frame v \<and> ae_alert v = Some shown \<and>
             (\<forall>w\<in>set vs. \<forall>a. ae_active frame w \<longrightarrow> ae_alert w = Some a \<longrightarrow>
                (al_priority a, ae_start_frame w) \<le> (al_priority shown, ae_start_frame v)))) \<and>
         (\<forall>t\<in>clr. al_event_type shown \<noteq> Some t)"
proof -
  have vs: "vs = map (clear_entry clr \<circ> snd) (am_alerts am)" by (simp add: vs_def)
  have "\<forall>t\<in>clr. al_event_type shown \<noteq> Some t"
    unfolding shown_def using current_not_cleared [OF assms(3)] by blast
  moreover from current_is_best [of clr am frame]
  have "(\<forall>v\<in>set vs. ae_alert v = None \<or> \<not> ae_active frame v) \<and> shown = EmptyAlert \<or>
          (\<exists>v\<in>set vs. ae_active frame v \<and> ae_alert v = Some shown \<and>
             (\<forall>w\<in>set vs. \<forall>a. ae_active frame w \<longrightarrow> ae_alert w = Some a \<longrightarrow>
                (al_priority a, ae_start_frame w) \<le> (al_priority shown, ae_start_frame v)))"
  proof
    assume "(\<forall>v\<in>set (map (clear_entry clr \<circ> snd) (am_alerts am)). \<not> candidate frame v) \<and>
            am_current (process_alerts frame clr am) = EmptyAlert"
    then show ?thesis by (simp add: vs shown_def candidate_def)
  next
    assume "\<exists>v\<in>set (map (clear_entry clr \<circ> snd) (am_alerts am)).
       candidate frame v \<and> ae_alert v = Some (am_current (process_alerts frame clr am)) \<and>
       (\<forall>w\<in>set (map (clear_entry clr \<circ> snd) (am_alerts am)). candidate frame w \<longrightarrow> entry_key w \<le> entry_key v)"
    then obtain v where v: "v \<in> set vs" "candidate frame v" "ae_alert v = Some shown"
      "\<forall>w\<in>set vs. candidate frame w \<longrightarrow> entry_key w \<le> entry_key v"
      unfolding vs shown_def by blast
    have "entry_key v = (al_priority shown, ae_start_frame v)" using v(3) by (simp add: entry_key_def)
    moreover have "(al_priority a, ae_start_frame w) = entry_key w" if "ae_alert w = Some a" for w a
      using that by (simp add: entry_key_def)
    ultimately show ?thesis using v by (intro disjI2 bexI [OF _ v(1)]) (auto simp: candidate_def)
  qed
  ultimately show ?thesis by blast
qed

definition demo_alert :: "priority \<Rightarrow> ET \<Rightarrow> string \<Rightarrow> alert" where
  "demo_alert p t k = (EmptyAlert\<lparr>al_priority := p, al_type := k, al_event_type := Some t\<rparr>)"

theorem shown_alert_is_best_witness:
  "al_event_type (am_current (process_alerts 7 {WARNING}
      (add_many 7 [demo_alert HIGH WARNING ''a'', demo_alert LOW PERMANENT ''b''] am_init))) \<noteq> Some WARNING"
  by (rule shown_alert_is_best [THEN conjunct2, rule_format]) simp_all

text \<open>An alert requested in frame \<open>f\<close> is active through frame \<open>f + 1\<close> and through
  its start frame plus its duration; requested once in each of the frames \<open>f\<close> to \<open>f + n\<close> it
  keeps the start frame of the first request, but requested twice within one frame it restarts.\<close>

fun request_frames :: "int \<Rightarrow> nat \<Rightarrow> alert \<Rightarrow> alert_entry \<Rightarrow> alert_entry" where
  "request_frames f 0 a e = entry_add f a e"
| "request_frames f (Suc n) a e = entry_add (f + int n + 1) a (request_frames f n a e)"

lemma alert_duration:
  "ae_start_frame (request_frames f n a e) = ae_start_frame (entry_add f a e) \<and>
   (\<forall>g. ae_active g (request_frames f n a e) =
        (g \<le> max (f + int n + 1) (ae_start_frame (entry_add f a e) + al_duration a))) \<and>
   ae_start_frame (entry_add (f + int n) a (request_frames f n a e)) = f + int n"
proof (induction n)
  case 0
  show ?case by (auto simp: entry_add_fields ae_active_def ae_just_added_def)
next
  case (Suc n)
  have added: "ae_added_frame (request_frames f n a e) = f + int n"
    by (cases n) (simp_all add: entry_add_fields)
  have "ae_active (f + int n + 1) (request_frames f n a e)" using Suc by (simp add: ae_active_def)
  then have "ae_just_added (f + int n + 1) (request_frames f n a e)"
    by (simp add: ae_just_added_def added)
  then have start: "ae_start_frame (request_frames f (Suc n) a e) = ae_start_frame (request_frames f n a e)"
    by (simp add: entry_add_fields)
  have "ae_added_frame (request_frames f (Suc n) a e) = f + int n + 1"
    by (simp add: entry_add_fields)
  with start Suc show ?case
    by (auto simp: entry_add_fields ae_active_def ae_just_added_def)
qed

end
