(* ===== verification/Engagement.thy ===== *)
theory Engagement
  imports Prelude
begin

text \<open>
  The contract the engagement state machines share (selfdrived, MADS, Speed Limit Assist): a
  step function on a state with a phase, an off phase, inputs that force the machine off and
  inputs without which it does not leave the off phase.  The lemmas about runs are proved here
  once and hold for every machine that interprets the locale.
\<close>

locale engagement =
  fixes step :: "'i \<Rightarrow> 's \<Rightarrow> 's"
    and phase :: "'s \<Rightarrow> 'q"
    and is_enabled :: "'q \<Rightarrow> bool"
    and is_active :: "'q \<Rightarrow> bool"
    and off :: "'q"
    and kill :: "'i \<Rightarrow> bool"
    and admit :: "'i \<Rightarrow> bool"
  assumes active_enabled: "is_active q \<Longrightarrow> is_enabled q"
    and off_not_enabled: "\<not> is_enabled off"
    and killed: "kill i \<Longrightarrow> phase s \<noteq> off \<Longrightarrow> phase (step i s) = off"
    and not_admitted: "phase s = off \<Longrightarrow> \<not> admit i \<Longrightarrow> phase (step i s) = off"
begin

lemma off_not_active: "\<not> is_active off"
  using active_enabled off_not_enabled by blast

lemma stays_off:
  "phase s = off \<Longrightarrow> (\<And>i. i \<in> set is \<Longrightarrow> \<not> admit i) \<Longrightarrow> phase (fold step is s) = off"
  by (induction "is" arbitrary: s) (auto simp: not_admitted)

text \<open>A machine that is on at the end of a run from the off phase was admitted on the way.\<close>

lemma on_was_admitted:
  assumes "phase s = off" "phase (fold step is s) \<noteq> off"
  shows "\<exists>i\<in>set is. admit i"
  using assms stays_off by blast

lemma enabled_was_admitted:
  assumes "phase s = off" "is_enabled (phase (fold step is s))"
  shows "\<exists>i\<in>set is. admit i"
  using assms on_was_admitted off_not_enabled by metis

text \<open>After a killing input the machine stays off until it is admitted again.\<close>

lemma kill_off:
  assumes "kill i" "\<not> admit i \<or> phase s \<noteq> off" "\<And>j. j \<in> set js \<Longrightarrow> \<not> admit j"
  shows "phase (fold step (i # js) s) = off"
proof -
  have "phase (step i s) = off"
    using assms(1,2) killed not_admitted by blast
  with assms(3) show ?thesis by (simp add: stays_off)
qed

lemma kill_quiet:
  assumes "kill i" "phase s \<noteq> off" "\<And>j. j \<in> set js \<Longrightarrow> \<not> admit j"
  shows "\<not> is_active (phase (fold step (i # js) s))"
  using kill_off [OF assms(1) disjI2 [OF assms(2)] assms(3)] off_not_active by simp

end

end
