(* ===== verification/StateMachine.thy ===== *)
theory StateMachine
  imports EventTable Engagement
begin

text \<open>
  \<open>selfdrive/selfdrived/state.py\<close>: the openpilot state machine.  Its state is the phase, the
  soft-disable timer and the alert types of the current frame; its input is the event store.
  The lemmas give the transition of every branch, the bounds of the timer, and the engagement
  contract, which rests on facts about the event table.
\<close>

section \<open>The machine\<close>

definition SOFT_DISABLE_TIME :: real where "SOFT_DISABLE_TIME = 3"

definition soft_disable_frames :: int where
  "soft_disable_frames = py_int (SOFT_DISABLE_TIME / DT_CTRL)"

lemma soft_disable_frames_eq [simp]: "soft_disable_frames = 300"
  by (simp add: soft_disable_frames_def SOFT_DISABLE_TIME_def DT_CTRL_def py_int_def)

definition ACTIVE_STATES :: "openpilot_state list" where
  "ACTIVE_STATES = [OS_enabled, OS_softDisabling, OS_overriding]"

definition ENABLED_STATES :: "openpilot_state list" where
  "ENABLED_STATES = OS_preEnabled # ACTIVE_STATES"

record ss_machine =
  ss_current_alert_types :: "ET list"
  ss_state :: openpilot_state
  ss_soft_disable_timer :: int

definition ss_init :: ss_machine where
  "ss_init = \<lparr> ss_current_alert_types = [PERMANENT], ss_state = OS_disabled, ss_soft_disable_timer = 0 \<rparr>"

definition ss_append :: "ET list \<Rightarrow> ss_machine \<Rightarrow> ss_machine" where
  "ss_append ts st = st\<lparr>ss_current_alert_types := ss_current_alert_types st @ ts\<rparr>"

text \<open>\<open>StateMachine.update\<close> up to the returned pair.\<close>

definition ss_step :: "events_mapping \<Rightarrow> events \<Rightarrow> ss_machine \<Rightarrow> ss_machine" where
  "ss_step m events st0 =
     (let has = (\<lambda>t. contains_et m t events);
          st = st0\<lparr>ss_soft_disable_timer := tick_down (ss_soft_disable_timer st0),
                   ss_current_alert_types := [PERMANENT]\<rparr>;
          st =
       (if ss_state st \<noteq> OS_disabled then
          (if has IMMEDIATE_DISABLE then ss_append [IMMEDIATE_DISABLE] (st\<lparr>ss_state := OS_disabled\<rparr>)
           else if has USER_DISABLE then ss_append [USER_DISABLE] (st\<lparr>ss_state := OS_disabled\<rparr>)
           else (case ss_state st of
             OS_enabled \<Rightarrow>
               (if has SOFT_DISABLE then
                  ss_append [SOFT_DISABLE]
                    (st\<lparr>ss_state := OS_softDisabling, ss_soft_disable_timer := soft_disable_frames\<rparr>)
                else if has OVERRIDE_LATERAL \<or> has OVERRIDE_LONGITUDINAL then
                  ss_append [OVERRIDE_LATERAL, OVERRIDE_LONGITUDINAL] (st\<lparr>ss_state := OS_overriding\<rparr>)
                else st)
           | OS_softDisabling \<Rightarrow>
               (if \<not> has SOFT_DISABLE then st\<lparr>ss_state := OS_enabled\<rparr>
                else if 0 < ss_soft_disable_timer st then ss_append [SOFT_DISABLE] st
                else if ss_soft_disable_timer st \<le> 0 then st\<lparr>ss_state := OS_disabled\<rparr>
                else st)
           | OS_preEnabled \<Rightarrow>
               (if \<not> has PRE_ENABLE then st\<lparr>ss_state := OS_enabled\<rparr>
                else ss_append [PRE_ENABLE] st)
           | OS_overriding \<Rightarrow>
               (if has SOFT_DISABLE then
                  ss_append [SOFT_DISABLE]
                    (st\<lparr>ss_state := OS_softDisabling, ss_soft_disable_timer := soft_disable_frames\<rparr>)
                else if \<not> (has OVERRIDE_LATERAL \<or> has OVERRIDE_LONGITUDINAL) then st\<lparr>ss_state := OS_enabled\<rparr>
                else ss_append [OVERRIDE_LATERAL, OVERRIDE_LONGITUDINAL] st)
           | OS_disabled \<Rightarrow> st))
        else if has ENABLE then
          (if has NO_ENTRY then ss_append [NO_ENTRY] st
           else ss_append [ENABLE]
             (st\<lparr>ss_state := (if has PRE_ENABLE then OS_preEnabled
                              else if has OVERRIDE_LATERAL \<or> has OVERRIDE_LONGITUDINAL then OS_overriding
                              else OS_enabled)\<rparr>))
        else st)
      in if ss_state st \<in> set ACTIVE_STATES then ss_append [WARNING] st else st)"

text \<open>The pair \<open>update\<close> returns.\<close>

definition ss_outputs :: "ss_machine \<Rightarrow> bool \<times> bool" where
  "ss_outputs st = (ss_state st \<in> set ENABLED_STATES, ss_state st \<in> set ACTIVE_STATES)"

definition ss_update :: "events_mapping \<Rightarrow> events \<Rightarrow> ss_machine \<Rightarrow> ss_machine \<times> bool \<times> bool" where
  "ss_update m events st = (let st = ss_step m events st in (st, ss_outputs st))"

section \<open>Transitions\<close>

lemma ss_append_state [simp]: "ss_state (ss_append ts st) = ss_state st"
  "ss_soft_disable_timer (ss_append ts st) = ss_soft_disable_timer st"
  by (simp_all add: ss_append_def)

lemma ss_state_if [simp]: "ss_state (if b then x else y) = (if b then ss_state x else ss_state y)"
  "ss_soft_disable_timer (if b then x else y) = (if b then ss_soft_disable_timer x else ss_soft_disable_timer y)"
  by simp_all

text \<open>The phase after a step, as a function of the phase, the timer and the event types present.\<close>

fun ss_next :: "(ET \<Rightarrow> bool) \<Rightarrow> int \<Rightarrow> openpilot_state \<Rightarrow> openpilot_state" where
  "ss_next has t OS_disabled =
     (if has ENABLE \<and> \<not> has NO_ENTRY then
        (if has PRE_ENABLE then OS_preEnabled
         else if has OVERRIDE_LATERAL \<or> has OVERRIDE_LONGITUDINAL then OS_overriding else OS_enabled)
      else OS_disabled)"
| "ss_next has t q =
     (if has IMMEDIATE_DISABLE \<or> has USER_DISABLE then OS_disabled
      else if q = OS_preEnabled then (if has PRE_ENABLE then OS_preEnabled else OS_enabled)
      else if q = OS_softDisabling then
        (if \<not> has SOFT_DISABLE then OS_enabled else if 1 < t then OS_softDisabling else OS_disabled)
      else if has SOFT_DISABLE then OS_softDisabling
      else if has OVERRIDE_LATERAL \<or> has OVERRIDE_LONGITUDINAL then OS_overriding else OS_enabled)"

lemma ss_step_state:
  "ss_state (ss_step m ev st) = ss_next (\<lambda>t. contains_et m t ev) (ss_soft_disable_timer st) (ss_state st)"
  by (cases "ss_state st") (simp_all add: ss_step_def Let_def tick_down_def)

lemma ss_step_timer:
  "ss_soft_disable_timer (ss_step m ev st) =
     (if ss_state (ss_step m ev st) = OS_softDisabling \<and> ss_state st \<noteq> OS_softDisabling
      then soft_disable_frames else tick_down (ss_soft_disable_timer st))"
  by (cases "ss_state st") (simp_all add: ss_step_def Let_def)

lemma enabled_iff: "q \<in> set ENABLED_STATES \<longleftrightarrow> q \<noteq> OS_disabled"
  by (cases q) (simp_all add: ENABLED_STATES_def ACTIVE_STATES_def)

lemma active_iff: "q \<in> set ACTIVE_STATES \<longleftrightarrow> q \<noteq> OS_disabled \<and> q \<noteq> OS_preEnabled"
  by (cases q) (simp_all add: ACTIVE_STATES_def)

section \<open>The engagement contract\<close>

definition ss_kill :: "events_mapping \<Rightarrow> events \<Rightarrow> bool" where
  "ss_kill m ev \<longleftrightarrow> contains_et m IMMEDIATE_DISABLE ev \<or> contains_et m USER_DISABLE ev"

definition ss_admit :: "events_mapping \<Rightarrow> events \<Rightarrow> bool" where
  "ss_admit m ev \<longleftrightarrow> contains_et m ENABLE ev \<and> \<not> contains_et m NO_ENTRY ev"

interpretation ss: engagement "ss_step m" ss_state "\<lambda>q. q \<in> set ENABLED_STATES"
  "\<lambda>q. q \<in> set ACTIVE_STATES" OS_disabled "ss_kill m" "ss_admit m"
  for m
proof
  fix i :: events and s :: ss_machine and q
  show "q \<in> set ACTIVE_STATES \<Longrightarrow> q \<in> set ENABLED_STATES"
    by (simp add: ENABLED_STATES_def)
  show "OS_disabled \<notin> set ENABLED_STATES"
    by (simp add: enabled_iff)
  show "ss_kill m i \<Longrightarrow> ss_state s \<noteq> OS_disabled \<Longrightarrow> ss_state (ss_step m i s) = OS_disabled"
    by (cases "ss_state s") (auto simp: ss_kill_def ss_step_state)
  show "ss_state s = OS_disabled \<Longrightarrow> \<not> ss_admit m i \<Longrightarrow> ss_state (ss_step m i s) = OS_disabled"
    by (auto simp: ss_admit_def ss_step_state)
qed

section \<open>Facts about the table\<close>

text \<open>An event of type \<open>t\<close> has type \<open>u\<close> too, but for the listed exceptions.\<close>

definition types_imply :: "(int \<times> ET list) list \<Rightarrow> ET \<Rightarrow> ET \<Rightarrow> int list \<Rightarrow> bool" where
  "types_imply tys t u exc \<longleftrightarrow>
     list_all (\<lambda>(e, ts). t \<in> set ts \<longrightarrow> u \<in> set ts \<or> e \<in> set exc) tys"

lemma soft_disable_no_entry: "types_imply EVENTS_types SOFT_DISABLE NO_ENTRY []"
  by (simp add: types_imply_def EVENTS_types_def)

lemma immediate_disable_no_entry:
  "types_imply EVENTS_types IMMEDIATE_DISABLE NO_ENTRY [EN_cruiseDisabled, EN_speedTooLow]"
  by (simp add: types_imply_def EVENTS_types_def)

lemma user_disable_no_entry:
  "types_imply EVENTS_types USER_DISABLE NO_ENTRY [EN_pcmDisable]"
  by (simp add: types_imply_def EVENTS_types_def)

lemma types_implyD:
  assumes "types_imply tys t u exc" "event_types m e = (case map_of tys e of None \<Rightarrow> [] | Some ts \<Rightarrow> ts)"
    and "t \<in> set (event_types m e)" "e \<notin> set exc"
  shows "u \<in> set (event_types m e)"
  using assms by (auto simp: types_imply_def list_all_iff split: option.splits dest!: map_of_SomeD)

lemma contains_implies:
  assumes "types_imply EVENTS_types t u exc" "contains_et (EVENTS mici) t ev"
    and "\<And>e. e \<in> set exc \<Longrightarrow> \<not> ev_has e ev"
  shows "contains_et (EVENTS mici) u ev"
  using assms(2,3) types_implyD [OF assms(1) event_types_EVENTS] by (auto simp: contains_iff)

section \<open>Bounds of the timer\<close>

definition ss_inv :: "ss_machine \<Rightarrow> bool" where
  "ss_inv st \<longleftrightarrow> 0 \<le> ss_soft_disable_timer st \<and> ss_soft_disable_timer st \<le> soft_disable_frames"

lemma ss_inv_init: "ss_inv ss_init"
  by (simp add: ss_inv_def ss_init_def)

lemma ss_inv_step: "ss_inv st \<Longrightarrow> ss_inv (ss_step m ev st)"
  by (auto simp: ss_inv_def ss_step_timer tick_down_def)

lemma ss_inv_run: "ss_inv st \<Longrightarrow> ss_inv (fold (ss_step m) evs st)"
  by (induction evs arbitrary: st) (auto simp: ss_inv_step)

text \<open>While the soft-disable condition holds, the machine counts down and then disengages.\<close>

lemma soft_disabling_countdown:
  assumes "\<And>ev. ev \<in> set evs \<Longrightarrow> contains_et m SOFT_DISABLE ev \<and> \<not> ss_kill m ev"
    and "ss_state st = OS_softDisabling" "int (length evs) < ss_soft_disable_timer st"
  shows "ss_state (fold (ss_step m) evs st) = OS_softDisabling \<and>
         ss_soft_disable_timer (fold (ss_step m) evs st) = ss_soft_disable_timer st - int (length evs)"
  using assms
proof (induction evs arbitrary: st)
  case Nil
  then show ?case by simp
next
  case (Cons ev evs)
  let ?st = "ss_step m ev st"
  have 1: "ss_state ?st = OS_softDisabling" "ss_soft_disable_timer ?st = ss_soft_disable_timer st - 1"
    using Cons.prems by (auto simp: ss_step_state ss_step_timer ss_kill_def tick_down_def)
  have "ss_state (fold (ss_step m) evs ?st) = OS_softDisabling \<and>
        ss_soft_disable_timer (fold (ss_step m) evs ?st) = ss_soft_disable_timer ?st - int (length evs)"
    using Cons.prems 1 by (intro Cons.IH) auto
  with 1 show ?case by simp
qed

lemma soft_disabling_expires:
  assumes "\<And>ev. ev \<in> set evs \<Longrightarrow> contains_et m SOFT_DISABLE ev \<and> \<not> ss_kill m ev"
    and "ss_state st = OS_softDisabling" "int (length evs) = ss_soft_disable_timer st" "evs \<noteq> []"
  shows "ss_state (fold (ss_step m) evs st) = OS_disabled"
proof -
  obtain es e where evs: "evs = es @ [e]" using assms(4) by (cases evs rule: rev_cases) auto
  let ?s = "fold (ss_step m) es st"
  have "ss_state ?s = OS_softDisabling \<and> ss_soft_disable_timer ?s = 1"
    using soft_disabling_countdown [of es m st] assms evs by auto
  then show ?thesis using assms(1) [of e] by (auto simp: evs ss_step_state ss_kill_def)
qed

section \<open>Properties\<close>

text \<open>C4: An immediate-disable or user-disable event takes the openpilot state machine from every
  engaged phase to \<open>disabled\<close> in the same frame, so that \<open>update\<close> reports neither enabled
  nor active, and without an admissible engagement request it stays there in every later frame.\<close>

theorem disable_is_immediate:
  assumes "contains_et m IMMEDIATE_DISABLE ev \<or> contains_et m USER_DISABLE ev" "ss_state st \<noteq> OS_disabled"
    and "\<forall>ev'\<in>set evs. contains_et m ENABLE ev' \<longrightarrow> contains_et m NO_ENTRY ev'"
  shows "snd (ss_update m ev st) = (False, False) \<and>
         ss_state (fold (ss_step m) (ev # evs) st) = OS_disabled"
proof -
  have k: "ss_kill m ev" using assms(1) by (simp add: ss_kill_def)
  have "ss_state (ss_step m ev st) = OS_disabled" by (rule ss.killed [OF k assms(2)])
  moreover have "ss_state (fold (ss_step m) (ev # evs) st) = OS_disabled"
    using assms(3) by (intro ss.kill_off [OF k disjI2 [OF assms(2)]]) (auto simp: ss_admit_def)
  ultimately show ?thesis
    by (simp add: ss_update_def ss_outputs_def enabled_iff active_iff)
qed

theorem disable_is_immediate_witness:
  "ss_state (fold (ss_step (EVENTS False)) [ev_add EN_canError (ev_init (EVENTS False)),
       ev_init (EVENTS False)] (ss_init\<lparr>ss_state := OS_overriding\<rparr>)) = OS_disabled"
proof -
  let ?e = "ev_add EN_canError (ev_init (EVENTS False))"
  have "contains_et (EVENTS False) IMMEDIATE_DISABLE ?e" by (simp add: contains_add)
  then show ?thesis
    using disable_is_immediate [of "EVENTS False" ?e "ss_init\<lparr>ss_state := OS_overriding\<rparr>" "[ev_init (EVENTS False)]"]
    by (simp add: ev_contains_def ev_init_def)
qed

text \<open>While any soft-disable condition of the event table is present the machine cannot be
  engaged: every event with a soft-disable alert also has a no-entry alert, so from \<open>disabled\<close> the
  step stays in \<open>disabled\<close> whatever engagement requests the frame holds.\<close>

theorem soft_disable_blocks_entry:
  assumes "contains_et (EVENTS mici) SOFT_DISABLE ev" "ss_state st = OS_disabled"
  shows "ss_state (ss_step (EVENTS mici) ev st) = OS_disabled"
proof -
  have "contains_et (EVENTS mici) NO_ENTRY ev"
    by (rule contains_implies [OF soft_disable_no_entry assms(1)]) simp
  then show ?thesis by (intro ss.not_admitted [OF assms(2)]) (simp add: ss_admit_def)
qed

theorem soft_disable_blocks_entry_witness:
  "ss_state (ss_step (EVENTS True) (ev_add EN_overheat (ev_add EN_pcmEnable (ev_init (EVENTS True)))) ss_init)
     = OS_disabled"
  by (rule soft_disable_blocks_entry) (simp_all add: contains_add ss_init_def)

text \<open>The same holds for immediate-disable conditions with exactly two exceptions in the
  table, \<open>cruiseDisabled\<close> and \<open>speedTooLow\<close>, which have no no-entry alert: with an
  engagement request and only such an event the machine does engage.\<close>

theorem immediate_disable_blocks_entry:
  "(\<forall>mici ev st. contains_et (EVENTS mici) IMMEDIATE_DISABLE ev \<longrightarrow>
      \<not> ev_has EN_cruiseDisabled ev \<longrightarrow> \<not> ev_has EN_speedTooLow ev \<longrightarrow> ss_state st = OS_disabled \<longrightarrow>
      ss_state (ss_step (EVENTS mici) ev st) = OS_disabled) \<and>
   (\<forall>mici. ss_state (ss_step (EVENTS mici) (ev_add EN_cruiseDisabled (ev_add EN_buttonEnable (ev_init (EVENTS mici)))) ss_init)
      = OS_enabled)"
proof (intro conjI allI impI)
  fix mici ev and st :: ss_machine
  assume a: "contains_et (EVENTS mici) IMMEDIATE_DISABLE ev" "\<not> ev_has EN_cruiseDisabled ev"
    "\<not> ev_has EN_speedTooLow ev" and off: "ss_state st = OS_disabled"
  have "contains_et (EVENTS mici) NO_ENTRY ev"
    by (rule contains_implies [OF immediate_disable_no_entry a(1)]) (use a in auto)
  then show "ss_state (ss_step (EVENTS mici) ev st) = OS_disabled"
    by (intro ss.not_admitted [OF off]) (simp add: ss_admit_def)
next
  fix mici
  have "\<not> contains_et (EVENTS mici) t (ev_init (EVENTS mici))" for t
    by (simp add: ev_contains_def ev_init_def)
  then show "ss_state (ss_step (EVENTS mici) (ev_add EN_cruiseDisabled (ev_add EN_buttonEnable (ev_init (EVENTS mici)))) ss_init)
      = OS_enabled"
    by (simp add: ss_step_state ss_init_def contains_add)
qed

theorem immediate_disable_blocks_entry_witness:
  "ss_state (ss_step (EVENTS False) (ev_add EN_controlsMismatch (ev_add EN_pcmEnable (ev_init (EVENTS False)))) ss_init)
     = OS_disabled"
proof -
  let ?e = "ev_add EN_controlsMismatch (ev_add EN_pcmEnable (ev_init (EVENTS False)))"
  have "contains_et (EVENTS False) IMMEDIATE_DISABLE ?e" by (simp add: contains_add)
  moreover have "\<not> ev_has EN_cruiseDisabled ?e" "\<not> ev_has EN_speedTooLow ?e"
    by (simp_all add: ev.has_add) (simp_all add: ev_has_def ev_init_def)
  ultimately show ?thesis
    using immediate_disable_blocks_entry by (auto simp: ss_init_def)
qed

text \<open>A soft-disable condition that persists ends the engagement after exactly 300 control
  frames (3 seconds): the machine is \<open>softDisabling\<close> in the frame the condition appears and in
  the 299 frames after it, and \<open>disabled\<close> in the next one.\<close>

theorem soft_disable_deadline:
  assumes "ss_state st \<in> {OS_enabled, OS_overriding}"
    and "\<forall>ev\<in>set (e # evs). contains_et m SOFT_DISABLE ev \<and>
           \<not> contains_et m IMMEDIATE_DISABLE ev \<and> \<not> contains_et m USER_DISABLE ev"
    and "length evs \<le> 300"
  shows "ss_state (fold (ss_step m) (e # evs) st) = (if length evs < 300 then OS_softDisabling else OS_disabled)"
proof -
  let ?s = "ss_step m e st"
  have s: "ss_state ?s = OS_softDisabling" "ss_soft_disable_timer ?s = 300"
    using assms(1,2) by (auto simp: ss_step_state ss_step_timer)
  have kill: "\<And>ev. ev \<in> set evs \<Longrightarrow> contains_et m SOFT_DISABLE ev \<and> \<not> ss_kill m ev"
    using assms(2) by (auto simp: ss_kill_def)
  show ?thesis
  proof (cases "length evs < 300")
    case True
    with soft_disabling_countdown [OF kill s(1)] s(2) show ?thesis by simp
  next
    case False
    with assms(3) have len: "length evs = 300" by simp
    then have "evs \<noteq> []" by auto
    with soft_disabling_expires [OF kill s(1)] s(2) len show ?thesis by simp
  qed
qed

theorem soft_disable_deadline_witness:
  "ss_state (fold (ss_step (EVENTS False))
      (ev_add EN_doorOpen (ev_init (EVENTS False)) # replicate 300 (ev_add EN_doorOpen (ev_init (EVENTS False))))
      (ss_init\<lparr>ss_state := OS_enabled\<rparr>)) = OS_disabled"
proof -
  let ?e = "ev_add EN_doorOpen (ev_init (EVENTS False))"
  have "\<not> contains_et (EVENTS False) t (ev_init (EVENTS False))" for t
    by (simp add: ev_contains_def ev_init_def)
  then have "\<forall>ev\<in>set (?e # replicate 300 ?e). contains_et (EVENTS False) SOFT_DISABLE ev \<and>
      \<not> contains_et (EVENTS False) IMMEDIATE_DISABLE ev \<and> \<not> contains_et (EVENTS False) USER_DISABLE ev"
    by (auto simp: contains_add)
  then show ?thesis
    using soft_disable_deadline [of "ss_init\<lparr>ss_state := OS_enabled\<rparr>" ?e "replicate 300 ?e" "EVENTS False"] by simp
qed

text \<open>In every run from the initial state the timer stays between 0 and 300, active implies
  enabled, and an enabled machine was admitted by some frame of the run: one with an engagement
  request and no no-entry event.\<close>

theorem engagement_is_admitted:
  fixes evs m
  defines "st \<equiv> fold (ss_step m) evs ss_init"
  shows "0 \<le> ss_soft_disable_timer st \<and> ss_soft_disable_timer st \<le> 300 \<and>
         (snd (ss_outputs st) \<longrightarrow> fst (ss_outputs st)) \<and>
         (fst (ss_outputs st) \<longrightarrow> (\<exists>ev\<in>set evs. contains_et m ENABLE ev \<and> \<not> contains_et m NO_ENTRY ev))"
proof -
  have "ss_inv st" unfolding st_def by (rule ss_inv_run [OF ss_inv_init])
  moreover have "ss_state st \<in> set ENABLED_STATES \<Longrightarrow> \<exists>ev\<in>set evs. ss_admit m ev"
    unfolding st_def by (rule ss.enabled_was_admitted) (simp_all add: ss_init_def)
  ultimately show ?thesis
    by (auto simp: ss_inv_def ss_outputs_def ss_admit_def intro: ss.active_enabled)
qed

theorem engagement_is_admitted_witness:
  "\<exists>ev\<in>set [ev_add EN_pcmEnable (ev_init (EVENTS False))]. contains_et (EVENTS False) ENABLE ev \<and>
      \<not> contains_et (EVENTS False) NO_ENTRY ev"
proof -
  let ?e = "ev_add EN_pcmEnable (ev_init (EVENTS False))"
  have "\<not> contains_et (EVENTS False) t (ev_init (EVENTS False))" for t
    by (simp add: ev_contains_def ev_init_def)
  then have "fst (ss_outputs (fold (ss_step (EVENTS False)) [?e] ss_init))"
    by (simp add: ss_outputs_def enabled_iff ss_step_state ss_init_def contains_add)
  then show ?thesis using engagement_is_admitted [where evs = "[?e]" and m = "EVENTS False"] by blast
qed

end
