(* ===== verification/ParamsStore.thy ===== *)
theory ParamsStore
  imports Prelude "HOL-Library.Monad_Syntax"
begin

text \<open>
  The parameter store as the modelled code sees it: \<open>common/params.py\<close> over the typed values
  its \<open>put\<close> accepts and its \<open>get\<close> returns (the byte encoding and the C library behind it
  are not modelled), with \<open>get_sanitize_int_param\<close> of \<open>sunnypilot/__init__.py\<close>.  The keys
  and their defaults (\<open>params_keys.h\<close>) are fields of the store.  Reading a value of another
  type than the caller needs, or none at all, is the result \<open>None\<close>.
\<close>

section \<open>The store\<close>

datatype param_value = PBool bool | PInt int | PFloat real | PStr string

record params =
  pr_values :: "string \<rightharpoonup> param_value"
  pr_defaults :: "string \<rightharpoonup> param_value"

definition get_bool :: "string \<Rightarrow> params \<Rightarrow> bool" where
  "get_bool k p \<longleftrightarrow> pr_values p k = Some (PBool True)"

text \<open>\<open>get(key, return_default=True)\<close>.\<close>

definition get_param :: "string \<Rightarrow> params \<Rightarrow> param_value option" where
  "get_param k p = (case pr_values p k of None \<Rightarrow> pr_defaults p k | Some v \<Rightarrow> Some v)"

fun as_int :: "param_value \<Rightarrow> int option" where
  "as_int (PInt n) = Some n"
| "as_int _ = None"

fun as_float :: "param_value \<Rightarrow> real option" where
  "as_float (PFloat x) = Some x"
| "as_float (PInt n) = Some (of_int n)"
| "as_float _ = None"

definition get_int :: "string \<Rightarrow> params \<Rightarrow> int option" where
  "get_int k p = Option.bind (get_param k p) as_int"

definition get_float :: "string \<Rightarrow> params \<Rightarrow> real option" where
  "get_float k p = Option.bind (get_param k p) as_float"

definition put_param :: "string \<Rightarrow> param_value \<Rightarrow> params \<Rightarrow> params" where
  "put_param k v p = p\<lparr>pr_values := (pr_values p)(k \<mapsto> v)\<rparr>"

definition remove_param :: "string \<Rightarrow> params \<Rightarrow> params" where
  "remove_param k p = p\<lparr>pr_values := (pr_values p)(k := None)\<rparr>"

text \<open>\<open>get_sanitize_int_param\<close>: clip to the range and write back what was clipped.\<close>

definition get_sanitize_int_param :: "string \<Rightarrow> int \<Rightarrow> int \<Rightarrow> params \<Rightarrow> (int \<times> params) option" where
  "get_sanitize_int_param key min_val max_val p =
     do { val \<leftarrow> get_int key p;
          let clipped = max min_val (min max_val val) in
          Some (clipped, if clipped \<noteq> val then put_param key (PInt clipped) p else p) }"

text \<open>How often controllers re-read their parameters, in seconds.\<close>

definition PARAMS_UPDATE_PERIOD :: real where "PARAMS_UPDATE_PERIOD = 3"

section \<open>The interface\<close>

locale param_store =
  fixes get :: "'k \<Rightarrow> 'p \<Rightarrow> 'v option"
    and put :: "'k \<Rightarrow> 'v \<Rightarrow> 'p \<Rightarrow> 'p"
    and remove :: "'k \<Rightarrow> 'p \<Rightarrow> 'p"
    and deflt :: "'k \<Rightarrow> 'p \<Rightarrow> 'v option"
  assumes get_put: "get k (put j v p) = (if k = j then Some v else get k p)"
    and get_remove: "get k (remove j p) = (if k = j then deflt k p else get k p)"
    and deflt_put: "deflt k (put j v p) = deflt k p"
    and deflt_remove: "deflt k (remove j p) = deflt k p"
begin

lemma put_get_same: "get k (put k v p) = Some v"
  by (simp add: get_put)

lemma put_put: "get k (put j w (put j v p)) = get k (put j w p)"
  by (simp add: get_put)

lemma remove_put: "get k (remove k (put k v p)) = deflt k p"
  by (simp add: get_remove deflt_put)

lemma puts_get: "k \<notin> fst ` set kvs \<Longrightarrow> get k (fold (\<lambda>(j, v). put j v) kvs p) = get k p"
  by (induction kvs arbitrary: p) (auto simp: get_put)

end

interpretation pstore: param_store get_param put_param remove_param "\<lambda>k p. pr_defaults p k"
  by unfold_locales (auto simp: get_param_def put_param_def remove_param_def split: option.split)

lemma get_bool_put [simp]: "get_bool k (put_param j v p) \<longleftrightarrow> (if k = j then v = PBool True else get_bool k p)"
  by (simp add: get_bool_def put_param_def)

lemma get_int_put [simp]: "get_int k (put_param j v p) = (if k = j then as_int v else get_int k p)"
  by (simp add: get_int_def pstore.get_put)

lemma get_bool_remove [simp]: "get_bool k (remove_param j p) \<longleftrightarrow> k \<noteq> j \<and> get_bool k p"
  by (simp add: get_bool_def remove_param_def)

lemma get_int_remove [simp]: "k \<noteq> j \<Longrightarrow> get_int k (remove_param j p) = get_int k p"
  by (simp add: get_int_def pstore.get_remove)

text \<open>The sanitized value is in range, and it is what the store holds afterwards.\<close>

lemma sanitize_in_range:
  assumes "get_sanitize_int_param key lo hi p = Some (v, p')" "lo \<le> hi"
  shows "lo \<le> v \<and> v \<le> hi \<and> get_int key p' = Some v"
  using assms by (auto simp: get_sanitize_int_param_def bind_eq_Some_conv Let_def split: if_splits)

end
