(* ===== verification/Mads.thy ===== *)
theory Mads
  imports EventTableSP StateMachine ParamsStore
begin

text \<open>
  \<open>sunnypilot/mads\<close>: the Modular Assistive Driving System, which engages lateral control
  independently of openpilot.  \<open>state.py\<close> is the state machine (it shares the alert types and the
  soft-disable timer of the openpilot machine), \<open>mads.py\<close> rewrites the events of the frame before
  the machine runs, \<open>helpers.py\<close> derives the configuration from the car and the params.
  An exception of the event store (a \<open>KeyError\<close>) is the result \<open>None\<close>.
\<close>

section \<open>\<open>helpers.py\<close>\<close>

abbreviation REMAIN_ACTIVE :: int where "REMAIN_ACTIVE \<equiv> 0"
abbreviation PAUSE :: int where "PAUSE \<equiv> 1"
abbreviation DISENGAGE :: int where "DISENGAGE \<equiv> 2"

definition MADS_NO_ACC_MAIN_BUTTON :: "string list" where
  "MADS_NO_ACC_MAIN_BUTTON = [''rivian'', ''tesla'']"

text \<open>Constants of opendbc the helpers use.\<close>

record mads_consts =
  mc_HAS_VEHICLE_BUS :: int
  mc_ScreenButton_OFF :: int
  mc_HAS_LDA_BUTTON_OR_CANFD :: int
  mc_ENABLE_MADS :: int
  mc_DISENGAGE_LATERAL_ON_BRAKE :: int
  mc_PAUSE_LATERAL_ON_BRAKE :: int
  mc_MAIN_CRUISE_TOGGLEABLE :: int
  mc_SAFETY_MAIN_CRUISE_TOGGLEABLE :: int

definition get_mads_limited_brands ::
  "mads_consts \<Rightarrow> car_params \<Rightarrow> car_params_sp \<Rightarrow> params \<Rightarrow> bool option" where
  "get_mads_limited_brands K CP CP_SP p =
     (if cp_brand CP = ''rivian'' then Some True
      else if cp_brand CP = ''tesla'' then
        (if and (cpsp_flags CP_SP) (mc_HAS_VEHICLE_BUS K) = 0 then Some True
         else do { screen_button \<leftarrow> get_int ''TeslaMadsScreenButton'' p;
                   Some (screen_button = mc_ScreenButton_OFF K) })
      else Some False)"

definition read_steering_mode_param ::
  "mads_consts \<Rightarrow> car_params \<Rightarrow> car_params_sp \<Rightarrow> params \<Rightarrow> int option" where
  "read_steering_mode_param K CP CP_SP p =
     do { limited \<leftarrow> get_mads_limited_brands K CP CP_SP p;
          if limited then Some DISENGAGE else get_int ''MadsSteeringMode'' p }"

definition set_alternative_experience ::
  "mads_consts \<Rightarrow> car_params_sp \<Rightarrow> params \<Rightarrow> car_params \<Rightarrow> car_params option" where
  "set_alternative_experience K CP_SP p CP =
     (let enabled = get_bool ''Mads'' p
      in do { steering_mode \<leftarrow> read_steering_mode_param K CP CP_SP p;
              let ae = cp_alternativeExperience CP;
                  ae = (if enabled then
                          (let ae = or ae (mc_ENABLE_MADS K)
                           in if steering_mode = DISENGAGE then or ae (mc_DISENGAGE_LATERAL_ON_BRAKE K)
                              else if steering_mode = PAUSE then or ae (mc_PAUSE_LATERAL_ON_BRAKE K)
                              else ae)
                        else ae)
              in Some (CP\<lparr>cp_alternativeExperience := ae\<rparr>) })"

definition set_car_specific_params ::
  "mads_consts \<Rightarrow> car_params \<Rightarrow> car_params_sp \<times> params \<Rightarrow> (car_params_sp \<times> params) option" where
  "set_car_specific_params K CP = (\<lambda>(CP_SP, p).
     (let CP_SP = (if cp_brand CP = ''hyundai''
                   then CP_SP\<lparr>cpsp_flags := or (cpsp_flags CP_SP) (mc_MAIN_CRUISE_TOGGLEABLE K),
                              cpsp_safetyParam := or (cpsp_safetyParam CP_SP) (mc_SAFETY_MAIN_CRUISE_TOGGLEABLE K)\<rparr>
                   else CP_SP)
      in do { partial_support \<leftarrow> get_mads_limited_brands K CP CP_SP p;
              let p = (if partial_support
                       then put_param ''MadsUnifiedEngagementMode'' (PBool True)
                              (put_param ''MadsSteeringMode'' (PInt 2) p)
                       else p);
                  p = (if cp_brand CP \<in> set MADS_NO_ACC_MAIN_BUTTON
                       then remove_param ''MadsMainCruiseAllowed'' p else p)
              in Some (CP_SP, p) }))"

section \<open>\<open>state.py\<close>\<close>

definition MADS_ACTIVE_STATES :: "mads_state list" where
  "MADS_ACTIVE_STATES = [MS_enabled, MS_softDisabling, MS_overriding]"

definition MADS_ENABLED_STATES :: "mads_state list" where
  "MADS_ENABLED_STATES = MS_paused # MADS_ACTIVE_STATES"

definition GEARS_ALLOW_PAUSED_SILENT :: "int list" where
  "GEARS_ALLOW_PAUSED_SILENT = [SP_silentWrongGear, SP_silentReverseGear, SP_silentBrakeHold,
     SP_silentDoorOpen, SP_silentSeatbeltNotLatched, SP_silentParkBrake]"

definition GEARS_ALLOW_PAUSED :: "int list" where
  "GEARS_ALLOW_PAUSED = [EN_wrongGear, EN_reverseGear, EN_brakeHold, EN_doorOpen,
     EN_seatbeltNotLatched, EN_parkBrake]"

type_synonym stores = "events \<times> events"

definition check_contains :: "bool \<Rightarrow> ET \<Rightarrow> stores \<Rightarrow> bool" where
  "check_contains mici t evs \<longleftrightarrow> contains_et (EVENTS mici) t (fst evs) \<or> contains_et (EVENTS_SP mici) t (snd evs)"

definition check_contains_in_list :: "stores \<Rightarrow> bool" where
  "check_contains_in_list evs \<longleftrightarrow>
     ev_contains_in_list GEARS_ALLOW_PAUSED (fst evs) \<or> ev_contains_in_list GEARS_ALLOW_PAUSED_SILENT (snd evs)"

text \<open>Alert types are added only while openpilot itself is not engaged.\<close>

definition add_current_alert_types :: "bool \<Rightarrow> ET \<Rightarrow> ss_machine \<Rightarrow> ss_machine" where
  "add_current_alert_types sd_enabled t ss = (if \<not> sd_enabled then ss_append [t] ss else ss)"

definition mads_soft_disable :: "bool \<Rightarrow> ss_machine \<Rightarrow> ss_machine" where
  "mads_soft_disable sd_enabled ss =
     (if \<not> sd_enabled then ss_append [SOFT_DISABLE] (ss\<lparr>ss_soft_disable_timer := soft_disable_frames\<rparr>) else ss)"

text \<open>\<open>StateMachine.update\<close>: the phase of MADS and the shared openpilot machine.\<close>

definition mads_sm_step ::
  "bool \<Rightarrow> bool \<times> stores \<Rightarrow> mads_state \<times> ss_machine \<Rightarrow> mads_state \<times> ss_machine" where
  "mads_sm_step mici = (\<lambda>(sd_enabled, evs) (q, ss).
     (let has = (\<lambda>t. check_contains mici t evs);
          alert = (\<lambda>t. add_current_alert_types sd_enabled t ss);
          engage = (if has OVERRIDE_LATERAL then MS_overriding else MS_enabled);
          (q, ss) =
       (if q \<noteq> MS_disabled then
          (if has USER_DISABLE then
             (if ev_has SP_silentLkasDisable (snd evs) then MS_paused else MS_disabled,
              ss_append [USER_DISABLE] ss)
           else if has IMMEDIATE_DISABLE then (MS_disabled, alert IMMEDIATE_DISABLE)
           else (case q of
             MS_enabled \<Rightarrow>
               (if has SOFT_DISABLE then (MS_softDisabling, mads_soft_disable sd_enabled ss)
                else if has OVERRIDE_LATERAL then (MS_overriding, alert OVERRIDE_LATERAL)
                else (q, ss))
           | MS_softDisabling \<Rightarrow>
               (if \<not> has SOFT_DISABLE then (MS_enabled, ss)
                else if 0 < ss_soft_disable_timer ss then (q, alert SOFT_DISABLE)
                else if ss_soft_disable_timer ss \<le> 0 then (MS_disabled, ss)
                else (q, ss))
           | MS_paused \<Rightarrow>
               (if has ENABLE then
                  (if has NO_ENTRY then (q, alert NO_ENTRY) else (engage, alert ENABLE))
                else (q, ss))
           | MS_overriding \<Rightarrow>
               (if has SOFT_DISABLE then (MS_softDisabling, mads_soft_disable sd_enabled ss)
                else if \<not> has OVERRIDE_LATERAL then (MS_enabled, ss)
                else (q, ss_append [OVERRIDE_LATERAL] ss))
           | MS_disabled \<Rightarrow> (q, ss)))
        else if has ENABLE then
          (if has NO_ENTRY then (if check_contains_in_list evs then MS_paused else q, alert NO_ENTRY)
           else (engage, alert ENABLE))
        else (q, ss))
      in (q, if q \<in> set MADS_ACTIVE_STATES then add_current_alert_types sd_enabled WARNING ss else ss)))"

section \<open>\<open>mads.py\<close>\<close>

record mads =
  ma_enabled :: bool
  ma_active :: bool
  ma_lateral_mismatch_counter :: int
  ma_allow_always :: bool
  ma_no_main_cruise :: bool
  ma_state :: mads_state
  ma_disengage_on_accelerator :: bool
  ma_enabled_toggle :: bool
  ma_main_enabled_toggle :: bool
  ma_steering_mode_on_brake :: int
  ma_unified_engagement_mode :: bool

definition mads_init :: "mads_consts \<Rightarrow> car_params \<Rightarrow> car_params_sp \<Rightarrow> params \<Rightarrow> mads option" where
  "mads_init K CP CP_SP p =
     do { mode \<leftarrow> read_steering_mode_param K CP CP_SP p;
          Some \<lparr> ma_enabled = False, ma_active = False, ma_lateral_mismatch_counter = 0,
            ma_allow_always = (cp_brand CP = ''hyundai'' \<and> and (cp_flags CP) (mc_HAS_LDA_BUTTON_OR_CANFD K) \<noteq> 0
                               \<or> cp_brand CP = ''tesla''),
            ma_no_main_cruise = (cp_brand CP \<in> set MADS_NO_ACC_MAIN_BUTTON),
            ma_state = MS_disabled,
            ma_disengage_on_accelerator = get_bool ''DisengageOnAccelerator'' p,
            ma_enabled_toggle = get_bool ''Mads'' p,
            ma_main_enabled_toggle = get_bool ''MadsMainCruiseAllowed'' p,
            ma_steering_mode_on_brake = mode,
            ma_unified_engagement_mode = get_bool ''MadsUnifiedEngagementMode'' p \<rparr> }"

definition mads_read_params :: "params \<Rightarrow> mads \<Rightarrow> mads" where
  "mads_read_params p ma = ma\<lparr>ma_main_enabled_toggle := get_bool ''MadsMainCruiseAllowed'' p,
                              ma_unified_engagement_mode := get_bool ''MadsUnifiedEngagementMode'' p\<rparr>"

text \<open>What MADS reads of its \<open>selfdrive\<close> object besides the shared machine and the stores.\<close>

record mads_env =
  me_CP :: car_params
  me_CS :: car_state
  me_CS_prev :: car_state
  me_enabled :: bool
  me_enabled_prev :: bool
  me_initialized :: bool
  me_pandaStates :: "panda_state list"

definition IGNORED_SAFETY_MODES :: "safety_model list" where
  "IGNORED_SAFETY_MODES = [SM_silent, SM_noOutput]"

definition SET_SPEED_BUTTONS :: "button_type list" where
  "SET_SPEED_BUTTONS = [BT_accelCruise, BT_resumeCruise, BT_decelCruise, BT_setCruise]"

definition pedal_pressed_non_gas_pressed :: "mads \<Rightarrow> mads_env \<Rightarrow> events \<Rightarrow> bool" where
  "pedal_pressed_non_gas_pressed ma env ev \<longleftrightarrow>
     ev_has EN_pedalPressed ev \<and>
     \<not> (cs_gasPressed (me_CS env) \<and> \<not> cs_gasPressed (me_CS_prev env) \<and> ma_disengage_on_accelerator ma)"

definition should_silent_lkas_enable :: "mads \<Rightarrow> mads_env \<Rightarrow> stores \<Rightarrow> bool" where
  "should_silent_lkas_enable ma env evs =
     (if ma_steering_mode_on_brake ma = PAUSE \<and>
         (cs_brakePressed (me_CS env) \<or> cs_regenBraking (me_CS env) \<or>
          pedal_pressed_non_gas_pressed ma env (fst evs)) then False
      else if ev_contains_in_list GEARS_ALLOW_PAUSED_SILENT (snd evs) then False
      else True)"

definition block_unified_engagement_mode :: "mads \<Rightarrow> mads_env \<Rightarrow> bool" where
  "block_unified_engagement_mode ma env =
     (if \<not> ma_unified_engagement_mode ma then True
      else if ma_enabled ma then True
      else if me_enabled env \<and> me_enabled_prev env then True
      else False)"

definition replace_event :: "int \<Rightarrow> int \<Rightarrow> stores \<Rightarrow> stores option" where
  "replace_event old_event new_event evs =
     do { ev \<leftarrow> ev_remove old_event (fst evs); Some (ev, ev_add new_event (snd evs)) }"

definition get_wrong_car_mode :: "bool \<Rightarrow> stores \<Rightarrow> stores option" where
  "get_wrong_car_mode alert_only evs =
     (if alert_only then
        (if ev_has EN_wrongCarMode (fst evs) then replace_event EN_wrongCarMode SP_wrongCarModeAlertOnly evs
         else Some evs)
      else do { ev \<leftarrow> ev_remove EN_wrongCarMode (fst evs); Some (ev, snd evs) })"

definition transition_paused_state :: "mads \<Rightarrow> stores \<Rightarrow> stores" where
  "transition_paused_state ma evs =
     (if ma_state ma \<noteq> MS_paused then apsnd (ev_add SP_silentLkasDisable) evs else evs)"

text \<open>\<open>data_sample\<close>.\<close>

definition mads_data_sample :: "mads_env \<Rightarrow> mads \<Rightarrow> mads" where
  "mads_data_sample env ma =
     (if \<not> ma_active ma \<or> me_enabled env then ma\<lparr>ma_lateral_mismatch_counter := 0\<rparr>
      else if list_ex (\<lambda>ps. pa_safetyModel ps \<notin> set IGNORED_SAFETY_MODES \<and> \<not> pa_controlsAllowedLateral ps)
                (me_pandaStates env)
      then ma\<lparr>ma_lateral_mismatch_counter := ma_lateral_mismatch_counter ma + 1\<rparr>
      else ma)"

subsection \<open>\<open>update_events\<close>\<close>

text \<open>Replace an event that is present by its silent form and ask for the pause.\<close>

definition silence :: "mads \<Rightarrow> int \<Rightarrow> int \<Rightarrow> stores \<Rightarrow> stores option" where
  "silence ma old_event new_event evs =
     (if ev_has old_event (fst evs)
      then do { evs \<leftarrow> replace_event old_event new_event evs; Some (transition_paused_state ma evs) }
      else Some evs)"

text \<open>The conditions under which an event is silenced, in the order of the source.\<close>

definition silence_rules :: "car_state \<Rightarrow> (bool \<times> int \<times> int) list" where
  "silence_rules CS =
     [(cs_standstill CS, EN_doorOpen, SP_silentDoorOpen),
      (cs_standstill CS, EN_seatbeltNotLatched, SP_silentSeatbeltNotLatched),
      (cs_vEgo CS < 25 / 10 \<or> cs_gearShifter CS = Gear_reverse, EN_wrongGear, SP_silentWrongGear),
      (True, EN_reverseGear, SP_silentReverseGear),
      (True, EN_brakeHold, SP_silentBrakeHold),
      (True, EN_parkBrake, SP_silentParkBrake)]"

fun silence_all :: "mads \<Rightarrow> (bool \<times> int \<times> int) list \<Rightarrow> stores \<Rightarrow> stores option" where
  "silence_all ma [] evs = Some evs"
| "silence_all ma ((c, old_event, new_event) # rules) evs =
     do { evs \<leftarrow> (if c then silence ma old_event new_event evs else Some evs);
          silence_all ma rules evs }"

fun remove_all_events :: "int list \<Rightarrow> events \<Rightarrow> events option" where
  "remove_all_events [] ev = Some ev"
| "remove_all_events (e # es) ev = do { ev \<leftarrow> ev_remove e ev; remove_all_events es ev }"

declare remove_all_events.simps [simp del]

text \<open>While MADS is engaged and openpilot is not, some events only pause MADS and others are dropped.\<close>

definition mads_only_events :: "mads \<Rightarrow> mads_env \<Rightarrow> stores \<Rightarrow> stores option" where
  "mads_only_events ma env evs =
     do { evs \<leftarrow> silence_all ma (silence_rules (me_CS env)) evs;
          let evs = (if ma_steering_mode_on_brake ma = PAUSE \<and> pedal_pressed_non_gas_pressed ma env (fst evs)
                     then transition_paused_state ma evs else evs);
          ev \<leftarrow> remove_all_events [EN_preEnableStandstill, EN_belowEngageSpeed, EN_speedTooLow,
                  EN_cruiseDisabled, EN_manualRestart, EN_espActive] (fst evs);
          Some (ev, snd evs) }"

text \<open>Engagement requests of openpilot, and the main cruise switch.\<close>

definition mads_enable_events :: "mads \<Rightarrow> mads_env \<Rightarrow> stores \<Rightarrow> stores option" where
  "mads_enable_events ma env evs =
     do { let CS = me_CS env;
          let sd_enable = ev_has EN_pcmEnable (fst evs) \<or> ev_has EN_buttonEnable (fst evs);
          let set_speed_btns = list_ex (\<lambda>be. be_type be \<in> set SET_SPEED_BUTTONS) (cs_buttonEvents CS);
          evs \<leftarrow> get_wrong_car_mode (sd_enable \<or> set_speed_btns) evs;
          if sd_enable then
            do { let evs = (if pedal_pressed_non_gas_pressed ma env (fst evs)
                            then apsnd (ev_add SP_pedalPressedAlertOnly) evs else evs);
                 if block_unified_engagement_mode ma env then
                   do { ev \<leftarrow> remove_all_events [EN_pcmEnable, EN_buttonEnable] (fst evs); Some (ev, snd evs) }
                 else Some evs }
          else if ma_main_enabled_toggle ma \<and> cr_available (cs_cruiseState CS) \<and>
                  \<not> cr_available (cs_cruiseState (me_CS_prev env))
          then Some (apsnd (ev_add SP_lkasEnable) evs)
          else Some evs }"

definition mads_button_event :: "mads \<Rightarrow> mads_env \<Rightarrow> button_event \<Rightarrow> events \<Rightarrow> events" where
  "mads_button_event ma env be sp =
     (let sp = (if be_type be = BT_cancel \<and> \<not> me_enabled env \<and> me_enabled_prev env
                then ev_add SP_manualLongitudinalRequired sp else sp)
      in if be_type be = BT_lkas \<and> be_pressed be \<and>
            (cr_available (cs_cruiseState (me_CS env)) \<or> ma_allow_always ma)
         then (if ma_enabled ma
               then (if me_enabled env then ev_add SP_manualSteeringRequired sp else ev_add SP_lkasDisable sp)
               else ev_add SP_lkasEnable sp)
         else sp)"

definition mads_cruise_off_events :: "mads \<Rightarrow> mads_env \<Rightarrow> stores \<Rightarrow> stores option" where
  "mads_cruise_off_events ma env evs =
     (if \<not> cr_available (cs_cruiseState (me_CS env)) \<and> \<not> ma_no_main_cruise ma then
        do { ev \<leftarrow> ev_remove EN_buttonEnable (fst evs);
             Some (ev, if cr_available (cs_cruiseState (me_CS_prev env))
                       then ev_add SP_lkasDisable (snd evs) else snd evs) }
      else Some evs)"

text \<open>The brake in the \<open>DISENGAGE\<close> mode.  As in the source, the test for a pending
  \<open>lkasEnable\<close> is \<open>contains\<close>, whose argument is an event type, on an event name.\<close>

definition mads_brake_events :: "bool \<Rightarrow> mads \<Rightarrow> mads_env \<Rightarrow> stores \<Rightarrow> stores option" where
  "mads_brake_events mici ma env evs =
     (if ma_steering_mode_on_brake ma = DISENGAGE \<and> pedal_pressed_non_gas_pressed ma env (fst evs) then
        (if ma_enabled ma then Some (apsnd (ev_add SP_lkasDisable) evs)
         else if ev_contains (EVENTS_SP mici) (KInt SP_lkasEnable) (snd evs) then
           do { sp \<leftarrow> ev_remove SP_lkasEnable (snd evs);
                Some (fst evs, ev_add SP_pedalPressedAlertOnly sp) }
         else Some evs)
      else Some evs)"

definition mads_update_events :: "bool \<Rightarrow> mads \<Rightarrow> mads_env \<Rightarrow> stores \<Rightarrow> stores option" where
  "mads_update_events mici ma env evs =
     do { evs \<leftarrow> (if \<not> me_enabled env \<and> ma_enabled ma then mads_only_events ma env evs else Some evs);
          evs \<leftarrow> mads_enable_events ma env evs;
          let evs = apsnd (fold (mads_button_event ma env) (cs_buttonEvents (me_CS env))) evs;
          evs \<leftarrow> mads_cruise_off_events ma env evs;
          evs \<leftarrow> mads_brake_events mici ma env evs;
          let evs = (if should_silent_lkas_enable ma env evs \<and> ma_state ma = MS_paused
                     then apsnd (ev_add SP_silentLkasEnable) evs else evs);
          let evs = (if 200 \<le> ma_lateral_mismatch_counter ma
                     then apsnd (ev_add SP_controlsMismatchLateral) evs else evs);
          ev \<leftarrow> remove_all_events [EN_pcmDisable, EN_buttonCancel, EN_pedalPressed, EN_wrongCruiseMode] (fst evs);
          Some (ev, snd evs) }"

text \<open>\<open>update\<close>: the new MADS state, the shared machine, the stores and \<open>selfdrive.enabled_prev\<close>.\<close>

definition mads_update ::
  "bool \<Rightarrow> mads_env \<Rightarrow> mads \<times> ss_machine \<times> stores \<Rightarrow> (mads \<times> ss_machine \<times> stores \<times> bool) option" where
  "mads_update mici env = (\<lambda>(ma, ss, evs).
     (if \<not> ma_enabled_toggle ma then Some (ma, ss, evs, me_enabled_prev env)
      else do { let ma = mads_data_sample env ma;
                evs \<leftarrow> mads_update_events mici ma env evs;
                let (ma, ss) =
                  (if \<not> cp_passive (me_CP env) \<and> me_initialized env then
                     (let (q, ss) = mads_sm_step mici (me_enabled env, evs) (ma_state ma, ss)
                      in (ma\<lparr>ma_state := q, ma_enabled := q \<in> set MADS_ENABLED_STATES,
                             ma_active := q \<in> set MADS_ACTIVE_STATES\<rparr>, ss))
                   else (ma, ss));
                Some (ma, ss, evs, me_enabled env) }))"

end
