(* ===== verification/MadsFacts.thy ===== *)
theory MadsFacts
  imports Mads
begin

text \<open>
  Lemmas on MADS: the rewriting of the events never raises on well-formed stores and keeps them
  well formed; the transitions of the state machine and its engagement contract; what a brake
  press, a lateral mismatch and the gear and door conditions lead to.
\<close>

section \<open>The stores stay well formed and nothing raises\<close>

definition stores_wf :: "bool \<Rightarrow> stores \<Rightarrow> bool" where
  "stores_wf mici evs \<longleftrightarrow> ev_wf (EVENTS mici) (fst evs) \<and> ev_wf (EVENTS_SP mici) (snd evs)"

lemma stores_wf_apsnd:
  "stores_wf mici evs \<Longrightarrow> known_event (EVENTS_SP mici) e \<Longrightarrow> stores_wf mici (apsnd (ev_add e) evs)"
  by (cases evs) (auto simp: stores_wf_def ev_wf_add_static)

lemma stores_wf_add_pair:
  "stores_wf mici (ev, sp) \<Longrightarrow> known_event (EVENTS_SP mici) e \<Longrightarrow> stores_wf mici (ev, ev_add e sp)"
  by (simp add: stores_wf_def ev_wf_add_static)

lemma remove_all_defined:
  "ev_wf m ev \<Longrightarrow> remove_all_events es ev = Some (fold ev_removed es ev) \<and> ev_wf m (fold ev_removed es ev)"
  by (induction es arbitrary: ev) (auto simp: remove_all_events.simps ev_remove_wf ev_wf_removed)

lemma fold_removed_wf: "ev_wf m ev \<Longrightarrow> ev_wf m (fold ev_removed es ev)"
  using remove_all_defined by blast

lemma replace_event_wf:
  assumes "stores_wf mici evs" "known_event (EVENTS_SP mici) new"
  shows "\<exists>evs'. replace_event old new evs = Some evs' \<and> stores_wf mici evs'"
  using assms by (auto simp: replace_event_def stores_wf_def ev_remove_wf ev_wf_removed ev_wf_add_static)

lemma transition_paused_wf: "stores_wf mici evs \<Longrightarrow> stores_wf mici (transition_paused_state ma evs)"
  by (simp add: transition_paused_state_def stores_wf_apsnd)

text \<open>A result that is defined and well formed; the rules chain the steps of a handler.\<close>

definition ok_wf :: "bool \<Rightarrow> stores option \<Rightarrow> bool" where
  "ok_wf mici r \<longleftrightarrow> (\<exists>evs. r = Some evs \<and> stores_wf mici evs)"

lemma ok_wf_Some [simp]: "ok_wf mici (Some evs) \<longleftrightarrow> stores_wf mici evs"
  by (simp add: ok_wf_def)

lemma ok_wf_bind:
  assumes "ok_wf mici r" "\<And>evs. stores_wf mici evs \<Longrightarrow> ok_wf mici (f evs)"
  shows "ok_wf mici (Option.bind r f)"
  using assms by (auto simp: ok_wf_def)

lemma ok_wf_if: "(b \<Longrightarrow> ok_wf mici x) \<Longrightarrow> (\<not> b \<Longrightarrow> ok_wf mici y) \<Longrightarrow> ok_wf mici (if b then x else y)"
  by simp

lemma ok_wf_remove_all:
  "stores_wf mici evs \<Longrightarrow> ok_wf mici (do { ev \<leftarrow> remove_all_events es (fst evs); Some (ev, snd evs) })"
  using remove_all_defined [of "EVENTS mici" "fst evs" es] by (auto simp: stores_wf_def)

lemma ok_wf_silence:
  "stores_wf mici evs \<Longrightarrow> known_event (EVENTS_SP mici) new \<Longrightarrow> ok_wf mici (silence ma old new evs)"
  using replace_event_wf [of mici evs new old] by (auto simp: silence_def transition_paused_wf)

lemma ok_wf_silence_all:
  "stores_wf mici evs \<Longrightarrow> (\<And>c old new. (c, old, new) \<in> set rules \<Longrightarrow> known_event (EVENTS_SP mici) new) \<Longrightarrow>
   ok_wf mici (silence_all ma rules evs)"
proof (induction ma rules evs rule: silence_all.induct)
  case (1 ma evs)
  then show ?case by simp
next
  case (2 ma c old new rules evs)
  have "ok_wf mici (if c then silence ma old new evs else Some evs)"
    using 2(2) 2(3) [of c old new] by (auto intro: ok_wf_silence)
  then obtain e1 where e1: "(if c then silence ma old new evs else Some evs) = Some e1" "stores_wf mici e1"
    unfolding ok_wf_def by blast
  with 2(1) [OF e1] 2(3) show ?case by auto
qed

lemma silence_rules_known: "(c, old, new) \<in> set (silence_rules CS) \<Longrightarrow> known_event (EVENTS_SP mici) new"
  by (auto simp: silence_rules_def)

lemma ok_wf_only_events: "stores_wf mici evs \<Longrightarrow> ok_wf mici (mads_only_events ma env evs)"
  unfolding mads_only_events_def Let_def
  by (intro ok_wf_bind ok_wf_if ok_wf_silence_all ok_wf_remove_all)
     (auto intro: transition_paused_wf silence_rules_known)

lemma ok_wf_wrong_car_mode: "stores_wf mici evs \<Longrightarrow> ok_wf mici (get_wrong_car_mode b evs)"
  using replace_event_wf [of mici evs SP_wrongCarModeAlertOnly EN_wrongCarMode]
  by (cases evs) (auto simp: get_wrong_car_mode_def ok_wf_def stores_wf_def ev_remove_wf ev_wf_removed)

lemma ok_wf_enable_events: "stores_wf mici evs \<Longrightarrow> ok_wf mici (mads_enable_events ma env evs)"
  unfolding mads_enable_events_def Let_def
  by (intro ok_wf_bind ok_wf_if ok_wf_wrong_car_mode ok_wf_remove_all)
     (auto intro: stores_wf_apsnd)

lemma known_button_events:
  "ev_wf (EVENTS_SP mici) sp \<Longrightarrow> ev_wf (EVENTS_SP mici) (mads_button_event ma env be sp)"
  by (simp add: mads_button_event_def Let_def ev_wf_add_static)

lemma buttons_wf:
  "stores_wf mici evs \<Longrightarrow> stores_wf mici (apsnd (fold (mads_button_event ma env) bs) evs)"
proof (induction bs arbitrary: evs)
  case Nil
  then show ?case by (cases evs) simp
next
  case (Cons b bs)
  have "stores_wf mici (apsnd (mads_button_event ma env b) evs)"
    using Cons.prems by (cases evs) (simp add: stores_wf_def known_button_events)
  from Cons.IH [OF this] show ?case by (cases evs) simp
qed

lemma ok_wf_cruise_off: "stores_wf mici evs \<Longrightarrow> ok_wf mici (mads_cruise_off_events ma env evs)"
  by (cases evs) (auto simp: mads_cruise_off_events_def stores_wf_def ev_remove_wf ev_wf_removed ev_wf_add_static)

lemma ok_wf_brake: "stores_wf mici evs \<Longrightarrow> ok_wf mici (mads_brake_events mici ma env evs)"
  by (simp add: mads_brake_events_def contains_int_never stores_wf_apsnd)

lemma ok_wf_update_events: "stores_wf mici evs \<Longrightarrow> ok_wf mici (mads_update_events mici ma env evs)"
  unfolding mads_update_events_def Let_def
  by (intro ok_wf_bind ok_wf_if ok_wf_only_events ok_wf_enable_events ok_wf_cruise_off ok_wf_brake
        ok_wf_remove_all)
     (auto intro: buttons_wf simp: stores_wf_apsnd stores_wf_add_pair)

lemma mads_update_defined:
  assumes "stores_wf mici evs"
  shows "\<exists>ma' ss' evs' b. mads_update mici env (ma, ss, evs) = Some (ma', ss', evs', b) \<and> stores_wf mici evs'"
proof -
  obtain evs' where "mads_update_events mici (mads_data_sample env ma) env evs = Some evs'" "stores_wf mici evs'"
    using ok_wf_update_events [OF assms, of "mads_data_sample env ma" env] unfolding ok_wf_def by blast
  with assms show ?thesis
    by (cases evs; cases evs') (auto simp: mads_update_def Let_def split: prod.splits)
qed

section \<open>Transitions\<close>

text \<open>The phase after a step, as a function of the phase, the timer and the event types present.\<close>

fun mads_next :: "(ET \<Rightarrow> bool) \<Rightarrow> bool \<Rightarrow> bool \<Rightarrow> int \<Rightarrow> mads_state \<Rightarrow> mads_state" where
  "mads_next has silent pausable t MS_disabled =
     (if \<not> has ENABLE then MS_disabled
      else if has NO_ENTRY then (if pausable then MS_paused else MS_disabled)
      else if has OVERRIDE_LATERAL then MS_overriding else MS_enabled)"
| "mads_next has silent pausable t q =
     (if has USER_DISABLE then (if silent then MS_paused else MS_disabled)
      else if has IMMEDIATE_DISABLE then MS_disabled
      else if q = MS_paused then
        (if has ENABLE \<and> \<not> has NO_ENTRY
         then (if has OVERRIDE_LATERAL then MS_overriding else MS_enabled) else MS_paused)
      else if q = MS_softDisabling then
        (if \<not> has SOFT_DISABLE then MS_enabled else if 0 < t then MS_softDisabling else MS_disabled)
      else if has SOFT_DISABLE then MS_softDisabling
      else if has OVERRIDE_LATERAL then MS_overriding else MS_enabled)"

lemma mads_sm_step_state:
  "fst (mads_sm_step mici (en, evs) (q, ss)) =
     mads_next (\<lambda>t. check_contains mici t evs) (ev_has SP_silentLkasDisable (snd evs))
       (check_contains_in_list evs) (ss_soft_disable_timer ss) q"
  by (cases q) (simp_all add: mads_sm_step_def Let_def)

lemma mads_enabled_iff: "q \<in> set MADS_ENABLED_STATES \<longleftrightarrow> q \<noteq> MS_disabled"
  by (cases q) (simp_all add: MADS_ENABLED_STATES_def MADS_ACTIVE_STATES_def)

lemma mads_active_iff: "q \<in> set MADS_ACTIVE_STATES \<longleftrightarrow> q \<noteq> MS_disabled \<and> q \<noteq> MS_paused"
  by (cases q) (simp_all add: MADS_ACTIVE_STATES_def)

section \<open>The engagement contract\<close>

definition mads_kill :: "bool \<Rightarrow> bool \<times> stores \<Rightarrow> bool" where
  "mads_kill mici i \<longleftrightarrow>
     (if check_contains mici USER_DISABLE (snd i) then \<not> ev_has SP_silentLkasDisable (snd (snd i))
      else check_contains mici IMMEDIATE_DISABLE (snd i))"

definition mads_admit :: "bool \<Rightarrow> bool \<times> stores \<Rightarrow> bool" where
  "mads_admit mici i \<longleftrightarrow> check_contains mici ENABLE (snd i) \<and>
     (check_contains mici NO_ENTRY (snd i) \<longrightarrow> check_contains_in_list (snd i))"

interpretation mads: engagement "mads_sm_step mici" fst "\<lambda>q. q \<in> set MADS_ENABLED_STATES"
  "\<lambda>q. q \<in> set MADS_ACTIVE_STATES" MS_disabled "mads_kill mici" "mads_admit mici"
  for mici
proof
  fix i :: "bool \<times> stores" and s :: "mads_state \<times> ss_machine" and q
  obtain en evs where i: "i = (en, evs)" by (cases i)
  obtain q' ss where s: "s = (q', ss)" by (cases s)
  show "q \<in> set MADS_ACTIVE_STATES \<Longrightarrow> q \<in> set MADS_ENABLED_STATES"
    by (simp add: MADS_ENABLED_STATES_def)
  show "MS_disabled \<notin> set MADS_ENABLED_STATES"
    by (simp add: mads_enabled_iff)
  show "mads_kill mici i \<Longrightarrow> fst s \<noteq> MS_disabled \<Longrightarrow> fst (mads_sm_step mici i s) = MS_disabled"
    by (cases q') (auto simp: i s mads_sm_step_state mads_kill_def split: if_splits)
  show "fst s = MS_disabled \<Longrightarrow> \<not> mads_admit mici i \<Longrightarrow> fst (mads_sm_step mici i s) = MS_disabled"
    by (auto simp: i s mads_sm_step_state mads_admit_def)
qed

text \<open>Without an \<open>ENABLE\<close> event the machine does not become active.\<close>

lemma mads_not_activated:
  assumes "q \<notin> set MADS_ACTIVE_STATES" "\<not> check_contains mici ENABLE evs"
  shows "fst (mads_sm_step mici (en, evs) (q, ss)) \<notin> set MADS_ACTIVE_STATES"
  using assms by (cases q) (auto simp: mads_sm_step_state mads_active_iff)

text \<open>A user-disable event always makes lateral control inactive.\<close>

lemma mads_user_disable_inactive:
  assumes "check_contains mici USER_DISABLE evs" "q \<noteq> MS_disabled"
  shows "fst (mads_sm_step mici (en, evs) (q, ss)) \<notin> set MADS_ACTIVE_STATES"
  using assms by (cases q) (auto simp: mads_sm_step_state mads_active_iff)

lemma mads_silent_pauses:
  assumes "ev_has SP_silentLkasDisable (snd evs)" "q \<noteq> MS_disabled"
  shows "fst (mads_sm_step mici (en, evs) (q, ss)) = MS_paused"
proof -
  have "check_contains mici USER_DISABLE evs"
    using assms(1) by (force simp: check_contains_def contains_iff)
  with assms show ?thesis by (cases q) (auto simp: mads_sm_step_state)
qed

lemma mads_kill_inactive:
  assumes "check_contains mici IMMEDIATE_DISABLE evs" "q \<noteq> MS_disabled"
  shows "fst (mads_sm_step mici (en, evs) (q, ss)) \<notin> set MADS_ACTIVE_STATES"
  using assms by (cases q) (auto simp: mads_sm_step_state mads_active_iff)

section \<open>Events of one store through the handler\<close>

text \<open>What the rewriting keeps: the sunnypilot events only grow (the removal of \<open>lkasEnable\<close> is never reached).\<close>

definition sp_grows :: "events \<Rightarrow> stores option \<Rightarrow> bool" where
  "sp_grows sp r \<longleftrightarrow> (\<forall>evs. r = Some evs \<longrightarrow> (\<forall>e. ev_has e sp \<longrightarrow> ev_has e (snd evs)))"

lemma sp_grows_Some [simp]: "sp_grows sp (Some evs) \<longleftrightarrow> (\<forall>e. ev_has e sp \<longrightarrow> ev_has e (snd evs))"
  by (simp add: sp_grows_def)

lemma sp_grows_bind:
  assumes "sp_grows sp r" "\<And>evs. r = Some evs \<Longrightarrow> sp_grows (snd evs) (f evs)"
  shows "sp_grows sp (Option.bind r f)"
  using assms by (auto simp: sp_grows_def bind_eq_Some_conv)

lemma sp_grows_if: "(b \<Longrightarrow> sp_grows sp x) \<Longrightarrow> (\<not> b \<Longrightarrow> sp_grows sp y) \<Longrightarrow> sp_grows sp (if b then x else y)"
  by simp

lemma sp_grows_keep: "sp_grows (snd evs) (do { ev \<leftarrow> r; Some (ev, snd evs) })"
  by (auto simp: sp_grows_def bind_eq_Some_conv)

lemma sp_grows_replace: "sp_grows (snd evs) (replace_event old new evs)"
  by (auto simp: sp_grows_def replace_event_def bind_eq_Some_conv ev.has_add)

lemma transition_paused_has: "ev_has e (snd evs) \<Longrightarrow> ev_has e (snd (transition_paused_state ma evs))"
  by (cases evs) (simp add: transition_paused_state_def ev.has_add)

lemma sp_grows_silence: "sp_grows (snd evs) (silence ma old new evs)"
  unfolding silence_def
  by (intro sp_grows_if sp_grows_bind sp_grows_replace) (auto simp: transition_paused_has)

lemma sp_grows_wrong_car_mode: "sp_grows (snd evs) (get_wrong_car_mode b evs)"
  unfolding get_wrong_car_mode_def by (intro sp_grows_if sp_grows_replace sp_grows_keep) simp

lemma sp_grows_enable_events: "sp_grows (snd evs) (mads_enable_events ma env evs)"
  unfolding mads_enable_events_def Let_def
  by (intro sp_grows_bind sp_grows_wrong_car_mode)
     (auto simp: sp_grows_def bind_eq_Some_conv ev.has_add split: if_splits prod.splits)

lemma button_has: "ev_has e sp \<Longrightarrow> ev_has e (mads_button_event ma env be sp)"
  by (simp add: mads_button_event_def Let_def ev.has_add)

lemma buttons_has: "ev_has e sp \<Longrightarrow> ev_has e (fold (mads_button_event ma env) bs sp)"
  by (induction bs arbitrary: sp) (simp_all add: button_has)

lemma sp_grows_cruise_off: "sp_grows (snd evs) (mads_cruise_off_events ma env evs)"
  by (auto simp: mads_cruise_off_events_def sp_grows_def bind_eq_Some_conv ev.has_add)

lemma sp_grows_brake: "sp_grows (snd evs) (mads_brake_events mici ma env evs)"
  by (cases evs) (simp add: mads_brake_events_def contains_int_never ev.has_add)

lemma sp_grows_remove_all: "sp_grows (snd evs) (do { ev \<leftarrow> remove_all_events es (fst evs); Some (ev, snd evs) })"
  by (rule sp_grows_keep)

lemma sp_grows_trans: "sp_grows sp' r \<Longrightarrow> (\<And>e. ev_has e sp \<Longrightarrow> ev_has e sp') \<Longrightarrow> sp_grows sp r"
  by (simp add: sp_grows_def)

lemma sp_grows_silence_all: "sp_grows (snd evs) (silence_all ma rules evs)"
proof (induction ma rules evs rule: silence_all.induct)
  case (2 ma c old new rules evs)
  have "sp_grows (snd evs) (if c then silence ma old new evs else Some evs)"
    by (intro sp_grows_if sp_grows_silence) simp
  then show ?case unfolding silence_all.simps
    by (rule sp_grows_bind) (use 2 in blast)
qed simp

lemma sp_grows_only_events: "sp_grows (snd evs) (mads_only_events ma env evs)"
proof -
  have tail: "sp_grows (snd evs) (let evs' = (if b then transition_paused_state ma evs else evs) in
      do { ev \<leftarrow> remove_all_events es (fst evs'); Some (ev, snd evs') })" for b es evs
    unfolding Let_def by (rule sp_grows_trans [OF sp_grows_remove_all]) (simp add: transition_paused_has)
  show ?thesis
    unfolding mads_only_events_def
    by (intro sp_grows_bind sp_grows_silence_all tail)
qed

text \<open>The last part of the handler, from the button events on.\<close>

definition mads_late_events :: "bool \<Rightarrow> mads \<Rightarrow> mads_env \<Rightarrow> stores \<Rightarrow> stores option" where
  "mads_late_events mici ma env evs =
     do { let evs = apsnd (fold (mads_button_event ma env) (cs_buttonEvents (me_CS env))) evs;
          evs \<leftarrow> mads_cruise_off_events ma env evs;
          evs \<leftarrow> mads_brake_events mici ma env evs;
          let evs = (if should_silent_lkas_enable ma env evs \<and> ma_state ma = MS_paused
                     then apsnd (ev_add SP_silentLkasEnable) evs else evs);
          let evs = (if 200 \<le> ma_lateral_mismatch_counter ma
                     then apsnd (ev_add SP_controlsMismatchLateral) evs else evs);
          ev \<leftarrow> remove_all_events [EN_pcmDisable, EN_buttonCancel, EN_pedalPressed, EN_wrongCruiseMode] (fst evs);
          Some (ev, snd evs) }"

lemma mads_update_events_split:
  "mads_update_events mici ma env evs =
     do { evs \<leftarrow> (if \<not> me_enabled env \<and> ma_enabled ma then mads_only_events ma env evs else Some evs);
          evs \<leftarrow> mads_enable_events ma env evs;
          mads_late_events mici ma env evs }"
  unfolding mads_update_events_def mads_late_events_def by (rule refl)

lemma late_events_buttons:
  "sp_grows (fold (mads_button_event ma env) (cs_buttonEvents (me_CS env)) (snd evs)) (mads_late_events mici ma env evs)"
proof -
  have tail: "sp_grows (snd evs) (let evs' = (if b then apsnd (ev_add x) evs else evs);
        evs' = (if c then apsnd (ev_add y) evs' else evs') in
      do { ev \<leftarrow> remove_all_events es (fst evs'); Some (ev, snd evs') })" for b c es x y evs
    unfolding Let_def
    by (rule sp_grows_trans [OF sp_grows_remove_all]) (cases evs; simp add: ev.has_add)
  show ?thesis
    unfolding mads_late_events_def Let_def [of "apsnd _ _"]
    by (intro sp_grows_bind tail) (cases evs; simp add: sp_grows_cruise_off [THEN sp_grows_trans] sp_grows_brake)+
qed

lemma sp_grows_late_events: "sp_grows (snd evs) (mads_late_events mici ma env evs)"
  by (rule sp_grows_trans [OF late_events_buttons]) (rule buttons_has)

lemma sp_grows_update_events: "sp_grows (snd evs) (mads_update_events mici ma env evs)"
  unfolding mads_update_events_split
  by (intro sp_grows_bind sp_grows_if sp_grows_only_events sp_grows_enable_events sp_grows_late_events) simp

section \<open>The brake, the lateral mismatch and the pause conditions\<close>

lemma ev_remove_Some: "ev_remove e s = Some s' \<Longrightarrow> s' = ev_removed e s"
  by (auto simp: ev_remove_static_def ev_removed_def ev_has_def split: if_splits option.splits)

lemma silence_keeps:
  assumes "silence ma old new evs = Some evs'" "x \<noteq> old"
  shows "ev_has x (fst evs') \<longleftrightarrow> ev_has x (fst evs)"
  using assms
  by (cases evs)
     (auto simp: silence_def replace_event_def transition_paused_state_def bind_eq_Some_conv ev.has_removed_other
       split: if_splits dest!: ev_remove_Some)

lemma silence_adds:
  assumes "silence ma old new evs = Some evs'" "ev_has old (fst evs)" "ma_state ma \<noteq> MS_paused"
  shows "ev_has SP_silentLkasDisable (snd evs') \<and> ev_has new (snd evs')"
  using assms
  by (auto simp: silence_def replace_event_def transition_paused_state_def bind_eq_Some_conv ev.has_add)

lemma silence_all_keeps:
  "silence_all ma rules evs = Some evs' \<Longrightarrow> x \<notin> set (map (fst \<circ> snd) rules) \<Longrightarrow>
   ev_has x (fst evs') \<longleftrightarrow> ev_has x (fst evs)"
proof (induction ma rules evs rule: silence_all.induct)
  case (2 ma c old new rules evs)
  then obtain e1 where e1: "(if c then silence ma old new evs else Some evs) = Some e1"
    "silence_all ma rules e1 = Some evs'"
    by (auto simp: bind_eq_Some_conv)
  then have "ev_has x (fst e1) \<longleftrightarrow> ev_has x (fst evs)"
    using 2(3) by (auto split: if_splits simp: silence_keeps)
  with 2(1) [OF e1] 2(3) show ?case by auto
qed simp

text \<open>Any of the silenced conditions asks for the pause.\<close>

lemma silence_all_pauses:
  assumes "silence_all ma rules evs = Some evs'" "(True, old, new) \<in> set rules"
    and "distinct (map (fst \<circ> snd) rules)" "ev_has old (fst evs)" "ma_state ma \<noteq> MS_paused"
  shows "ev_has SP_silentLkasDisable (snd evs') \<and> ev_has new (snd evs')"
  using assms
proof (induction ma rules evs rule: silence_all.induct)
  case (1 ma evs)
  then show ?case by simp
next
  case (2 ma c old' new' rules evs)
  from 2(2) obtain e1 where e1: "(if c then silence ma old' new' evs else Some evs) = Some e1"
    "silence_all ma rules e1 = Some evs'"
    by (auto simp: bind_eq_Some_conv)
  show ?case
  proof (cases "(True, old, new) = (c, old', new')")
    case True
    with e1 2(5,6) have "ev_has SP_silentLkasDisable (snd e1) \<and> ev_has new (snd e1)"
      using silence_adds [of ma old new evs e1] by auto
    moreover have "sp_grows (snd e1) (Some evs')"
      using sp_grows_silence_all [of e1 ma rules] e1(2) by simp
    ultimately show ?thesis by simp
  next
    case False
    with 2(3) have mem: "(True, old, new) \<in> set rules" by auto
    with 2(4) have "old \<noteq> old'" by (force simp: image_iff)
    then have "ev_has old (fst e1)"
      using e1(1) 2(5) by (auto split: if_splits simp: silence_keeps)
    with 2(1) [OF e1 mem] 2(4,6) show ?thesis by simp
  qed
qed

lemma silence_rules_distinct: "distinct (map (fst \<circ> snd) (silence_rules CS))"
  by (simp add: silence_rules_def)

lemma only_events_condition_pauses:
  assumes "mads_only_events ma env evs = Some evs'"
    and "(True, old, new) \<in> set (silence_rules (me_CS env))" "ev_has old (fst evs)" "ma_state ma \<noteq> MS_paused"
  shows "ev_has SP_silentLkasDisable (snd evs')"
proof -
  from assms(1) obtain e1 where e1: "silence_all ma (silence_rules (me_CS env)) evs = Some e1"
    and rest: "ev_has SP_silentLkasDisable (snd e1) \<Longrightarrow> ev_has SP_silentLkasDisable (snd evs')"
    by (cases evs) (auto simp: mads_only_events_def Let_def bind_eq_Some_conv transition_paused_has split: if_splits)
  from silence_all_pauses [OF e1 assms(2) silence_rules_distinct assms(3,4)] rest show ?thesis by blast
qed

lemma only_events_pedal_pauses:
  assumes "mads_only_events ma env evs = Some evs'"
    and "ma_steering_mode_on_brake ma = PAUSE" "pedal_pressed_non_gas_pressed ma env (fst evs)"
    and "ma_state ma \<noteq> MS_paused"
  shows "ev_has SP_silentLkasDisable (snd evs')"
proof -
  from assms(1) obtain e1 where e1: "silence_all ma (silence_rules (me_CS env)) evs = Some e1"
    and rest: "pedal_pressed_non_gas_pressed ma env (fst e1) \<Longrightarrow> snd evs' = snd (transition_paused_state ma e1)"
    using assms(2) by (auto simp: mads_only_events_def Let_def bind_eq_Some_conv)
  have "ev_has EN_pedalPressed (fst e1) \<longleftrightarrow> ev_has EN_pedalPressed (fst evs)"
    by (rule silence_all_keeps [OF e1]) (simp add: silence_rules_def)
  with assms(3) rest have "snd evs' = snd (transition_paused_state ma e1)"
    by (simp add: pedal_pressed_non_gas_pressed_def)
  with assms(4) show ?thesis by (cases e1) (simp add: transition_paused_state_def ev.has_add)
qed

lemma update_events_grow:
  "mads_update_events mici ma env evs = Some evs' \<Longrightarrow> ev_has e (snd evs) \<Longrightarrow> ev_has e (snd evs')"
  using sp_grows_update_events [of evs mici ma env] by (simp add: sp_grows_def)

lemma update_events_after_only:
  assumes "mads_update_events mici ma env evs = Some evs'" "\<not> me_enabled env" "ma_enabled ma"
  shows "\<exists>e1. mads_only_events ma env evs = Some e1 \<and> (\<forall>e. ev_has e (snd e1) \<longrightarrow> ev_has e (snd evs'))"
proof -
  obtain e1 e2 where e1: "mads_only_events ma env evs = Some e1" "mads_enable_events ma env e1 = Some e2"
    "mads_late_events mici ma env e2 = Some evs'"
    using assms by (auto simp: mads_update_events_split bind_eq_Some_conv)
  then show ?thesis
    using sp_grows_enable_events [of e1 ma env] sp_grows_late_events [of e2 mici ma env]
    by (auto simp: sp_grows_def)
qed

text \<open>A whole update in terms of the events it leaves.\<close>

lemma mads_update_cases:
  assumes "mads_update mici env (ma, ss, evs) = Some (ma', ss', evs', b)"
    and "ma_enabled_toggle ma" "\<not> cp_passive (me_CP env)" "me_initialized env"
  shows "mads_update_events mici (mads_data_sample env ma) env evs = Some evs' \<and>
         ma_state ma' = fst (mads_sm_step mici (me_enabled env, evs') (ma_state ma, ss)) \<and>
         ma_enabled ma' = (ma_state ma' \<in> set MADS_ENABLED_STATES) \<and>
         ma_active ma' = (ma_state ma' \<in> set MADS_ACTIVE_STATES)"
proof -
  have "ma_state (mads_data_sample env ma) = ma_state ma"
    by (simp add: mads_data_sample_def)
  with assms show ?thesis
    by (auto simp: mads_update_def Let_def bind_eq_Some_conv split: prod.splits)
qed

lemma mads_data_sample_frame [frame_simps]:
  "ma_state (mads_data_sample env ma) = ma_state ma"
  "ma_enabled (mads_data_sample env ma) = ma_enabled ma"
  "ma_steering_mode_on_brake (mads_data_sample env ma) = ma_steering_mode_on_brake ma"
  "ma_disengage_on_accelerator (mads_data_sample env ma) = ma_disengage_on_accelerator ma"
  by (simp_all add: mads_data_sample_def)

text \<open>The mismatch event survives to the state machine.\<close>

lemma late_events_mismatch:
  assumes "mads_late_events mici ma env evs = Some evs'" "200 \<le> ma_lateral_mismatch_counter ma"
  shows "ev_has SP_controlsMismatchLateral (snd evs')"
  using assms by (auto simp: mads_late_events_def Let_def bind_eq_Some_conv ev.has_add)

lemma update_events_mismatch:
  assumes "mads_update_events mici ma env evs = Some evs'" "200 \<le> ma_lateral_mismatch_counter ma"
  shows "ev_has SP_controlsMismatchLateral (snd evs')"
  using assms(1) unfolding mads_update_events_split
  by (auto simp: bind_eq_Some_conv intro: late_events_mismatch [OF _ assms(2)])

lemma mismatch_contains:
  "ev_has SP_controlsMismatchLateral (snd evs) \<Longrightarrow> check_contains mici IMMEDIATE_DISABLE evs"
  by (force simp: check_contains_def contains_iff)

text \<open>A brake press in the \<open>DISENGAGE\<close> mode while MADS is on.\<close>

lemma late_events_keep_brake:
  assumes "mads_late_events mici ma env evs = Some evs'"
    and "ma_steering_mode_on_brake ma = DISENGAGE" "ma_enabled ma"
    and "pedal_pressed_non_gas_pressed ma env (fst evs)"
  shows "ev_has SP_lkasDisable (snd evs')"
proof -
  let ?e0 = "apsnd (fold (mads_button_event ma env) (cs_buttonEvents (me_CS env))) evs"
  obtain e1 e2 where e1: "mads_cruise_off_events ma env ?e0 = Some e1"
    and e2: "mads_brake_events mici ma env e1 = Some e2"
    and rest: "ev_has SP_lkasDisable (snd e2) \<Longrightarrow> ev_has SP_lkasDisable (snd evs')"
    using assms(1) by (auto simp: mads_late_events_def Let_def bind_eq_Some_conv ev.has_add)
  have "ev_has EN_pedalPressed (fst e1) \<longleftrightarrow> ev_has EN_pedalPressed (fst ?e0)"
    using e1 by (auto simp: mads_cruise_off_events_def bind_eq_Some_conv ev.has_removed_other
        split: if_splits dest!: ev_remove_Some)
  with assms(4) have "pedal_pressed_non_gas_pressed ma env (fst e1)"
    by (cases evs) (simp add: pedal_pressed_non_gas_pressed_def)
  with e2 assms(2,3) have "ev_has SP_lkasDisable (snd e2)"
    by (auto simp: mads_brake_events_def ev.has_add)
  with rest show ?thesis by blast
qed

lemma only_events_keep_pedal:
  assumes "mads_only_events ma env evs = Some evs'"
  shows "ev_has EN_pedalPressed (fst evs') \<longleftrightarrow> ev_has EN_pedalPressed (fst evs)"
proof -
  obtain e1 where e1: "silence_all ma (silence_rules (me_CS env)) evs = Some e1"
    and e2: "ev_has EN_pedalPressed (fst evs') \<longleftrightarrow> ev_has EN_pedalPressed (fst e1)"
    using assms
    by (auto simp: mads_only_events_def Let_def bind_eq_Some_conv remove_all_events.simps
        transition_paused_state_def ev.has_removed_other split: if_splits dest!: ev_remove_Some)
  show ?thesis unfolding e2 by (rule silence_all_keeps [OF e1]) (simp add: silence_rules_def)
qed

lemma enable_events_keep_pedal:
  assumes "mads_enable_events ma env evs = Some evs'"
  shows "ev_has EN_pedalPressed (fst evs') \<longleftrightarrow> ev_has EN_pedalPressed (fst evs)"
proof -
  obtain b e1 where e1: "get_wrong_car_mode b evs = Some e1"
    and e2: "ev_has EN_pedalPressed (fst evs') \<longleftrightarrow> ev_has EN_pedalPressed (fst e1)"
    using assms
    by (auto simp: mads_enable_events_def Let_def bind_eq_Some_conv remove_all_events.simps
        ev.has_removed_other split: if_splits dest!: ev_remove_Some)
  from e1 have "ev_has EN_pedalPressed (fst e1) \<longleftrightarrow> ev_has EN_pedalPressed (fst evs)"
    by (auto simp: get_wrong_car_mode_def replace_event_def bind_eq_Some_conv ev.has_removed_other
        split: if_splits dest!: ev_remove_Some)
  with e2 show ?thesis by simp
qed

lemma update_events_brake:
  assumes "mads_update_events mici ma env evs = Some evs'"
    and "ma_steering_mode_on_brake ma = DISENGAGE" "ma_enabled ma"
    and "pedal_pressed_non_gas_pressed ma env (fst evs)"
  shows "ev_has SP_lkasDisable (snd evs')"
proof -
  obtain e1 e2 where e1: "(if \<not> me_enabled env \<and> ma_enabled ma then mads_only_events ma env evs else Some evs) = Some e1"
    and e2: "mads_enable_events ma env e1 = Some e2" "mads_late_events mici ma env e2 = Some evs'"
    using assms(1) by (auto simp: mads_update_events_split bind_eq_Some_conv)
  have "ev_has EN_pedalPressed (fst e2) \<longleftrightarrow> ev_has EN_pedalPressed (fst evs)"
    using e1 enable_events_keep_pedal [OF e2(1)] by (auto split: if_splits simp: only_events_keep_pedal)
  with assms(4) have "pedal_pressed_non_gas_pressed ma env (fst e2)"
    by (simp add: pedal_pressed_non_gas_pressed_def)
  with assms(2,3) show ?thesis by (intro late_events_keep_brake [OF e2(2)])
qed

end
