(* ===== verification/CarEvents.thy ===== *)
theory CarEvents
  imports EventTableSP
begin

text \<open>
  \<open>selfdrive/car/car_events.py\<close>: the events of the car state, with the brand-specific parts and
  the steering-fault and low-speed hysteresis kept in the object; and
  \<open>sunnypilot/selfdrive/car/car_specific.py\<close>, which corrects them for two brands.  An update builds
  a fresh event store; the conditions are listed in the order of the source.
\<close>

section \<open>\<open>CarEvents\<close>\<close>

record car_events =
  vc_steering_unpressed :: int
  vc_low_speed_alert :: bool
  vc_no_steer_warning :: bool
  vc_silent_steer_warning :: bool

definition car_events_init :: car_events where
  "car_events_init = \<lparr> vc_steering_unpressed = 0, vc_low_speed_alert = False, vc_no_steer_warning = False,
     vc_silent_steer_warning = True \<rparr>"

text \<open>A sequence of \<open>if condition: events.add(event)\<close>.\<close>

fun add_all :: "(bool \<times> int) list \<Rightarrow> events \<Rightarrow> events" where
  "add_all [] ev = ev"
| "add_all ((c, e) # rest) ev = add_all rest (if c then ev_add e ev else ev)"

subsection \<open>\<open>create_common_events\<close>\<close>

definition common_conditions :: "opendbc \<Rightarrow> car_params \<Rightarrow> car_state \<Rightarrow> car_state \<Rightarrow> (bool \<times> int) list" where
  "common_conditions K CP CS CS_prev =
     [(cs_doorOpen CS, EN_doorOpen),
      (cs_seatbeltUnlatched CS, EN_seatbeltNotLatched),
      (cs_gearShifter CS \<noteq> Gear_drive \<and> cs_gearShifter CS \<notin> set (ob_DRIVABLE_GEARS K (cp_carFingerprint CP)), EN_wrongGear),
      (cs_gearShifter CS = Gear_reverse, EN_reverseGear),
      (\<not> cr_available (cs_cruiseState CS), EN_wrongCarMode),
      (cs_espDisabled CS, EN_espDisabled),
      (cs_espActive CS, EN_espActive),
      (cs_stockFcw CS, EN_stockFcw),
      (cs_stockAeb CS, EN_stockAeb),
      (cs_stockLkas CS, EN_stockLkas),
      (ob_MAX_CTRL_SPEED K < cs_vEgo CS, EN_speedTooHigh),
      (cr_nonAdaptive (cs_cruiseState CS), EN_wrongCruiseMode),
      (cs_brakeHoldActive CS \<and> cp_openpilotLongitudinalControl CP, EN_brakeHold),
      (cs_parkingBrake CS, EN_parkBrake),
      (cs_accFaulted CS, EN_accFaulted),
      (cs_carNotReady CS, EN_carNotReady),
      (cs_steeringPressed CS, EN_steerOverride),
      (cs_steeringDisengage CS \<and> \<not> cs_steeringDisengage CS_prev, EN_steerDisengage),
      (cs_brakePressed CS \<and> cs_standstill CS, EN_preEnableStandstill),
      (cs_gasPressed CS, EN_gasPressedOverride),
      (cs_vehicleSensorsInvalid CS, EN_vehicleSensorsInvalid),
      (cs_invalidLkasSetting CS, EN_invalidLkasSetting),
      (cs_lowSpeedAlert CS, EN_belowSteerSpeed),
      (cs_buttonEnable CS, EN_buttonEnable)]"

definition button_conditions :: "car_params \<Rightarrow> car_state \<Rightarrow> (bool \<times> int) list" where
  "button_conditions CP CS =
     (let allow_button_cancel = cp_brand CP \<noteq> ''hyundai''
      in map (\<lambda>b. (be_type b = BT_cancel \<and> (allow_button_cancel \<or> \<not> cp_pcmCruise CP), EN_buttonCancel))
           (cs_buttonEvents CS))"

text \<open>Permanent and temporary steering faults.\<close>

definition steer_fault_events ::
  "opendbc \<Rightarrow> car_state \<Rightarrow> car_state \<Rightarrow> car_events \<times> events \<Rightarrow> car_events \<times> events" where
  "steer_fault_events K CS CS_prev = (\<lambda>(vc, ev).
     (let vc = vc\<lparr>vc_steering_unpressed := (if cs_steeringPressed CS then 0 else vc_steering_unpressed vc + 1)\<rparr>;
          (vc, ev) =
            (if cs_steerFaultTemporary CS then
               (if cs_steeringPressed CS \<and> (\<not> cs_steerFaultTemporary CS_prev \<or> vc_no_steer_warning vc)
                then (vc\<lparr>vc_no_steer_warning := True\<rparr>, ev)
                else
                  (let vc = vc\<lparr>vc_no_steer_warning := False\<rparr>
                   in if vc_silent_steer_warning vc \<or> cs_standstill CS \<or>
                         vc_steering_unpressed vc < py_int (15 / 10 / ob_DT_CTRL K)
                      then (vc\<lparr>vc_silent_steer_warning := True\<rparr>, ev_add EN_steerTempUnavailableSilent ev)
                      else (vc, ev_add EN_steerTempUnavailable ev)))
             else (vc\<lparr>vc_no_steer_warning := False, vc_silent_steer_warning := False\<rparr>, ev))
      in (vc, if cs_steerFaultPermanent CS then ev_add EN_steerUnavailable ev else ev)))"

text \<open>Engagement on the rising edge of the stock cruise.\<close>

definition pcm_events :: "car_params \<Rightarrow> car_state \<Rightarrow> car_state \<Rightarrow> events \<Rightarrow> events" where
  "pcm_events CP CS CS_prev ev =
     (let pcm_enable = cp_pcmCruise CP \<and> cp_brand CP \<noteq> ''honda''
      in if pcm_enable then
           (if cr_enabled (cs_cruiseState CS) \<and> \<not> cr_enabled (cs_cruiseState CS_prev) \<and> \<not> cs_blockPcmEnable CS
            then ev_add EN_pcmEnable ev
            else if \<not> cr_enabled (cs_cruiseState CS) then ev_add EN_pcmDisable ev
            else ev)
         else ev)"

definition create_common_events ::
  "bool \<Rightarrow> opendbc \<Rightarrow> car_params \<Rightarrow> car_state \<Rightarrow> car_state \<Rightarrow> car_events \<Rightarrow> car_events \<times> events" where
  "create_common_events mici K CP CS CS_prev vc =
     (let ev = ev_init (EVENTS mici);
          ev = add_all (common_conditions K CP CS CS_prev) ev;
          ev = add_all (button_conditions CP CS) ev;
          (vc, ev) = steer_fault_events K CS CS_prev (vc, ev)
      in (vc, pcm_events CP CS CS_prev ev))"

subsection \<open>Brands\<close>

text \<open>Hysteresis of the low-speed steering alert.\<close>

definition chrysler_low_speed :: "car_params \<Rightarrow> car_state \<Rightarrow> bool \<Rightarrow> bool" where
  "chrysler_low_speed CP CS low =
     (if 0 < cp_minSteerSpeed CP \<and> cs_vEgo CS < cp_minSteerSpeed CP + 5 / 10 then True
      else if cp_minSteerSpeed CP + 1 < cs_vEgo CS then False
      else low)"

definition honda_conditions :: "car_params \<Rightarrow> car_state \<Rightarrow> car_state \<Rightarrow> car_control \<Rightarrow> (bool \<times> int) list" where
  "honda_conditions CP CS CS_prev CC =
     (let rising = cr_enabled (cs_cruiseState CS) \<and> \<not> cr_enabled (cs_cruiseState CS_prev);
          dropped = cp_pcmCruise CP \<and> \<not> rising \<and> \<not> cr_enabled (cs_cruiseState CS) \<and>
                    (0 \<le> cc_accel CC \<or> \<not> cp_openpilotLongitudinalControl CP);
          slow = cs_vEgo CS < cp_minEnableSpeed CP + 2
      in [(cp_pcmCruise CP \<and> cs_vEgo CS < cp_minEnableSpeed CP, EN_belowEngageSpeed),
          (cp_pcmCruise CP \<and> rising, EN_pcmEnable),
          (dropped \<and> slow, EN_speedTooLow),
          (dropped \<and> \<not> slow, EN_cruiseDisabled),
          (0 < cp_minEnableSpeed CP \<and> cs_vEgo CS < 1 / 1000, EN_manualRestart),
          (cs_brakeHoldActive CS \<and> cs_blockPcmEnable CS, EN_belowEngageSpeed)])"

definition toyota_conditions :: "opendbc \<Rightarrow> car_params \<Rightarrow> car_state \<Rightarrow> car_control \<Rightarrow> (bool \<times> int) list" where
  "toyota_conditions K CP CS CC =
     (if cp_openpilotLongitudinalControl CP then
        (let below = cs_vEgo CS < cp_minEnableSpeed CP
         in [(cr_standstill (cs_cruiseState CS) \<and> \<not> cs_brakePressed CS \<and>
                (cc_resume CC \<or> and (cp_flags CP) (ob_ToyotaFlags_HYBRID K) \<noteq> 0), EN_resumeRequired),
             (below, EN_belowEngageSpeed),
             (below \<and> 3 / 10 < cc_accel CC, EN_speedTooLow),
             (below \<and> cs_vEgo CS < 1 / 1000, EN_manualRestart)])
      else [])"

definition gm_conditions :: "car_params \<Rightarrow> car_state \<Rightarrow> (bool \<times> int) list" where
  "gm_conditions CP CS =
     [(cs_vEgo CS < cp_minEnableSpeed CP \<and>
         \<not> (cs_standstill CS \<and> cs_brakePressed CS \<and> cp_networkLocation CP = NL_fwdCamera), EN_belowEngageSpeed),
      (cr_standstill (cs_cruiseState CS), EN_resumeRequired)]"

definition volkswagen_conditions :: "car_params \<Rightarrow> car_state \<Rightarrow> car_control \<Rightarrow> (bool \<times> int) list" where
  "volkswagen_conditions CP CS CC =
     (if cp_openpilotLongitudinalControl CP then
        [(cs_vEgo CS < cp_minEnableSpeed CP + 5 / 10, EN_belowEngageSpeed),
         (cc_enabled CC \<and> cs_vEgo CS < cp_minEnableSpeed CP, EN_speedTooLow)]
      else [])"

text \<open>\<open>update\<close>.\<close>

definition car_events_update ::
  "bool \<Rightarrow> opendbc \<Rightarrow> car_params \<Rightarrow> car_state \<Rightarrow> car_state \<Rightarrow> car_control \<Rightarrow> car_events \<Rightarrow> car_events \<times> events" where
  "car_events_update mici K CP CS CS_prev CC vc =
     (if cp_brand CP \<in> {''body'', ''mock''} then (vc, ev_init (EVENTS mici))
      else
        (let (vc, ev) = create_common_events mici K CP CS CS_prev vc
         in if cp_brand CP = ''chrysler'' then
              (let vc = vc\<lparr>vc_low_speed_alert := chrysler_low_speed CP CS (vc_low_speed_alert vc)\<rparr>
               in (vc, add_all [(vc_low_speed_alert vc, EN_belowSteerSpeed)] ev))
            else if cp_brand CP = ''honda'' then (vc, add_all (honda_conditions CP CS CS_prev CC) ev)
            else if cp_brand CP = ''toyota'' then (vc, add_all (toyota_conditions K CP CS CC) ev)
            else if cp_brand CP = ''gm'' then (vc, add_all (gm_conditions CP CS) ev)
            else if cp_brand CP = ''volkswagen'' then (vc, add_all (volkswagen_conditions CP CS CC) ev)
            else (vc, ev)))"

section \<open>\<open>CarSpecificEventsSP\<close>\<close>

text \<open>The object keeps \<open>low_speed_alert\<close>; the update changes the openpilot store and returns an
  empty sunnypilot store.\<close>

definition car_specific_update ::
  "bool \<Rightarrow> opendbc \<Rightarrow> car_params \<Rightarrow> car_params_sp \<Rightarrow> car_state \<Rightarrow> bool \<times> events \<Rightarrow> ((bool \<times> events) \<times> events) option" where
  "car_specific_update mici K CP CP_SP CS = (\<lambda>(low, ev).
     (let events_sp = ev_init (EVENTS_SP mici)
      in if cp_brand CP = ''chrysler'' then
           do { (low, ev) \<leftarrow>
                  (if cp_carFingerprint CP \<in> set (ob_RAM_DT K) then
                     do { ev \<leftarrow> (if ev_has EN_belowSteerSpeed ev then ev_remove EN_belowSteerSpeed ev else Some ev);
                          let low = (if cp_minEnableSpeed CP \<le> cs_vEgo CS then False else low);
                          let low = (if 145 / 10 \<le> cp_minEnableSpeed CP \<and> cs_gearShifter CS \<noteq> Gear_drive then True else low);
                          Some (low, ev) }
                   else Some (low, ev));
                Some ((low, if low then ev_add EN_belowSteerSpeed ev else ev), events_sp) }
         else if cp_brand CP = ''toyota'' then
           (if cp_openpilotLongitudinalControl CP \<and> cr_standstill (cs_cruiseState CS) \<and>
               \<not> cs_brakePressed CS \<and> cpsp_enableGasInterceptor CP_SP \<and> ev_has EN_resumeRequired ev
            then do { ev \<leftarrow> ev_remove EN_resumeRequired ev; Some ((low, ev), events_sp) }
            else Some ((low, ev), events_sp))
         else Some ((low, ev), events_sp)))"

section \<open>Lemmas\<close>

lemma add_all_has: "ev_has e (add_all cs ev) \<longleftrightarrow> (True, e) \<in> set cs \<or> ev_has e ev"
  by (induction cs ev rule: add_all.induct) (auto simp: ev.has_add)

lemma add_all_wf: "ev_wf m ev \<Longrightarrow> list_all (\<lambda>(c, e). known_event m e) cs \<Longrightarrow> ev_wf m (add_all cs ev)"
  by (induction cs ev rule: add_all.induct) (auto simp: ev_wf_add_static)

lemma common_known: "list_all (\<lambda>(c, e). known_event (EVENTS mici) e) (common_conditions K CP CS CS_prev)"
  by (simp add: common_conditions_def)

lemma button_known: "list_all (\<lambda>(c, e). known_event (EVENTS mici) e) (button_conditions CP CS)"
  by (simp add: button_conditions_def list_all_iff)

lemma steer_fault_wf:
  "ev_wf (EVENTS mici) ev \<Longrightarrow> ev_wf (EVENTS mici) (snd (steer_fault_events K CS CS_prev (vc, ev)))"
  by (simp add: steer_fault_events_def Let_def ev_wf_add_static)

lemma pcm_wf: "ev_wf (EVENTS mici) ev \<Longrightarrow> ev_wf (EVENTS mici) (pcm_events CP CS CS_prev ev)"
  by (simp add: pcm_events_def Let_def ev_wf_add_static)

lemma create_common_wf: "ev_wf (EVENTS mici) (snd (create_common_events mici K CP CS CS_prev vc))"
  by (simp add: create_common_events_def Let_def case_prod_beta pcm_wf steer_fault_wf add_all_wf ev_wf_init
      common_known button_known)

lemma brand_known:
  "list_all (\<lambda>(c, e). known_event (EVENTS mici) e) (honda_conditions CP CS CS_prev CC)"
  "list_all (\<lambda>(c, e). known_event (EVENTS mici) e) (toyota_conditions K CP CS CC)"
  "list_all (\<lambda>(c, e). known_event (EVENTS mici) e) (gm_conditions CP CS)"
  "list_all (\<lambda>(c, e). known_event (EVENTS mici) e) (volkswagen_conditions CP CS CC)"
  by (simp_all add: honda_conditions_def toyota_conditions_def gm_conditions_def volkswagen_conditions_def Let_def)

lemma car_events_wf: "ev_wf (EVENTS mici) (snd (car_events_update mici K CP CS CS_prev CC vc))"
  by (simp add: car_events_update_def Let_def case_prod_beta ev_wf_init create_common_wf add_all_wf brand_known
      ev_wf_add_static)

lemma car_specific_defined:
  assumes "ev_wf (EVENTS mici) ev"
  shows "\<exists>low' ev' sp. car_specific_update mici K CP CP_SP CS (low, ev) = Some ((low', ev'), sp) \<and>
           ev_wf (EVENTS mici) ev' \<and> sp = ev_init (EVENTS_SP mici)"
  using assms
  by (auto simp: car_specific_update_def Let_def ev_remove_wf ev_wf_removed ev_wf_add_static)

text \<open>Only the events the corrections are about change.\<close>

lemma car_specific_has:
  assumes "car_specific_update mici K CP CP_SP CS (low, ev) = Some ((low', ev'), sp)"
    and "e \<noteq> EN_belowSteerSpeed" "e \<noteq> EN_resumeRequired" "ev_wf (EVENTS mici) ev"
  shows "ev_has e ev' \<longleftrightarrow> ev_has e ev"
  using assms
  by (auto simp: car_specific_update_def Let_def ev_remove_wf bind_eq_Some_conv ev.has_add ev.has_removed_other
      split: if_splits)

section \<open>Engagement requests and steering faults\<close>

lemma steer_fault_has:
  assumes "e \<notin> {EN_steerTempUnavailableSilent, EN_steerTempUnavailable, EN_steerUnavailable}"
  shows "ev_has e (snd (steer_fault_events K CS CS_prev (vc, ev))) \<longleftrightarrow> ev_has e ev"
  using assms by (simp add: steer_fault_events_def Let_def ev.has_add)

lemma pcm_has: "ev_has e (pcm_events CP CS CS_prev ev) \<longleftrightarrow> ev_has e ev \<or>
    cp_pcmCruise CP \<and> cp_brand CP \<noteq> ''honda'' \<and>
    (e = EN_pcmEnable \<and> cr_enabled (cs_cruiseState CS) \<and> \<not> cr_enabled (cs_cruiseState CS_prev) \<and> \<not> cs_blockPcmEnable CS \<or>
     e = EN_pcmDisable \<and> \<not> cr_enabled (cs_cruiseState CS))"
  by (auto simp: pcm_events_def Let_def ev.has_add)

lemma init_has [simp]: "\<not> ev_has e (ev_init m)"
  by (simp add: ev_has_def ev_init_def)

lemma create_common_has:
  assumes "e \<notin> {EN_steerTempUnavailableSilent, EN_steerTempUnavailable, EN_steerUnavailable}"
  shows "ev_has e (snd (create_common_events mici K CP CS CS_prev vc)) \<longleftrightarrow>
    (True, e) \<in> set (common_conditions K CP CS CS_prev) \<or> (True, e) \<in> set (button_conditions CP CS) \<or>
    cp_pcmCruise CP \<and> cp_brand CP \<noteq> ''honda'' \<and>
    (e = EN_pcmEnable \<and> cr_enabled (cs_cruiseState CS) \<and> \<not> cr_enabled (cs_cruiseState CS_prev) \<and> \<not> cs_blockPcmEnable CS \<or>
     e = EN_pcmDisable \<and> \<not> cr_enabled (cs_cruiseState CS))"
  by (auto simp: create_common_events_def Let_def case_prod_beta pcm_has steer_fault_has [OF assms] add_all_has)

definition brand_conditions ::
  "opendbc \<Rightarrow> car_params \<Rightarrow> car_state \<Rightarrow> car_state \<Rightarrow> car_control \<Rightarrow> (bool \<times> int) list" where
  "brand_conditions K CP CS CS_prev CC =
     (if cp_brand CP = ''honda'' then honda_conditions CP CS CS_prev CC
      else if cp_brand CP = ''toyota'' then toyota_conditions K CP CS CC
      else if cp_brand CP = ''gm'' then gm_conditions CP CS
      else if cp_brand CP = ''volkswagen'' then volkswagen_conditions CP CS CC
      else [])"

lemma car_events_has:
  assumes "cp_brand CP \<notin> {''body'', ''mock''}" "e \<noteq> EN_belowSteerSpeed"
  shows "ev_has e (snd (car_events_update mici K CP CS CS_prev CC vc)) \<longleftrightarrow>
    ev_has e (snd (create_common_events mici K CP CS CS_prev vc)) \<or>
    (True, e) \<in> set (brand_conditions K CP CS CS_prev CC)"
  using assms
  by (auto simp: car_events_update_def brand_conditions_def Let_def case_prod_beta add_all_has ev.has_add)

text \<open>The steering-fault state of a frame with a real brand.\<close>

lemma car_events_fault:
  assumes "cp_brand CP \<notin> {''body'', ''mock''}"
  shows "vc_steering_unpressed (fst (car_events_update mici K CP CS CS_prev CC vc)) =
           (if cs_steeringPressed CS then 0 else vc_steering_unpressed vc + 1)"
    and "ev_has EN_steerTempUnavailable (snd (car_events_update mici K CP CS CS_prev CC vc)) \<longleftrightarrow>
           cs_steerFaultTemporary CS \<and> \<not> (cs_steeringPressed CS \<and> (\<not> cs_steerFaultTemporary CS_prev \<or> vc_no_steer_warning vc)) \<and>
           \<not> vc_silent_steer_warning vc \<and> \<not> cs_standstill CS \<and>
           py_int (15 / 10 / ob_DT_CTRL K) \<le> (if cs_steeringPressed CS then 0 else vc_steering_unpressed vc + 1)"
proof -
  have fst: "vc_steering_unpressed (fst (car_events_update mici K CP CS CS_prev CC vc)) =
      vc_steering_unpressed (fst (steer_fault_events K CS CS_prev (vc, ev)))" for ev
    using assms by (simp add: car_events_update_def create_common_events_def steer_fault_events_def Let_def case_prod_beta)
  show "vc_steering_unpressed (fst (car_events_update mici K CP CS CS_prev CC vc)) =
           (if cs_steeringPressed CS then 0 else vc_steering_unpressed vc + 1)"
    unfolding fst [of undefined] by (simp add: steer_fault_events_def Let_def)
  have "(True, EN_steerTempUnavailable) \<notin> set (brand_conditions K CP CS CS_prev CC)"
    by (simp add: brand_conditions_def honda_conditions_def toyota_conditions_def gm_conditions_def
        volkswagen_conditions_def Let_def)
  moreover have "(True, EN_steerTempUnavailable) \<notin> set (common_conditions K CP CS CS_prev)"
    by (simp add: common_conditions_def)
  moreover have "(True, EN_steerTempUnavailable) \<notin> set (button_conditions CP CS)"
    by (auto simp: button_conditions_def)
  ultimately show "ev_has EN_steerTempUnavailable (snd (car_events_update mici K CP CS CS_prev CC vc)) \<longleftrightarrow>
      cs_steerFaultTemporary CS \<and> \<not> (cs_steeringPressed CS \<and> (\<not> cs_steerFaultTemporary CS_prev \<or> vc_no_steer_warning vc)) \<and>
      \<not> vc_silent_steer_warning vc \<and> \<not> cs_standstill CS \<and>
      py_int (15 / 10 / ob_DT_CTRL K) \<le> (if cs_steeringPressed CS then 0 else vc_steering_unpressed vc + 1)"
    unfolding car_events_has [OF assms, of EN_steerTempUnavailable, simplified]
    by (simp add: create_common_events_def Let_def case_prod_beta pcm_has add_all_has steer_fault_events_def ev.has_add not_less)
qed

section \<open>Properties\<close>

text \<open>openpilot is asked to engage by the stock cruise only on the rising edge of its
  \<open>enabled\<close> flag: for every real brand the update contains \<open>pcmEnable\<close> exactly when the car has
  \<open>pcmCruise\<close>, the flag rises and (except on Honda) the port does not block it; a frame with the flag
  off asks for \<open>pcmDisable\<close> (not on Honda), and the two requests never occur together.\<close>

theorem pcm_enable_on_rising_edge:
  fixes CP CS CS_prev CC vc K mici
  defines "ev \<equiv> snd (car_events_update mici K CP CS CS_prev CC vc)"
    and "rising \<equiv> cr_enabled (cs_cruiseState CS) \<and> \<not> cr_enabled (cs_cruiseState CS_prev)"
  assumes "cp_brand CP \<notin> {''body'', ''mock''}"
  shows "(ev_has EN_pcmEnable ev \<longleftrightarrow> cp_pcmCruise CP \<and> rising \<and> (cp_brand CP = ''honda'' \<or> \<not> cs_blockPcmEnable CS)) \<and>
         (ev_has EN_pcmDisable ev \<longleftrightarrow> cp_pcmCruise CP \<and> cp_brand CP \<noteq> ''honda'' \<and> \<not> cr_enabled (cs_cruiseState CS)) \<and>
         \<not> (ev_has EN_pcmEnable ev \<and> ev_has EN_pcmDisable ev)"
proof -
  have common: "(True, EN_pcmEnable) \<notin> set (common_conditions K CP CS CS_prev)"
    "(True, EN_pcmDisable) \<notin> set (common_conditions K CP CS CS_prev)"
    by (simp_all add: common_conditions_def)
  have buttons: "(True, EN_pcmEnable) \<notin> set (button_conditions CP CS)"
    "(True, EN_pcmDisable) \<notin> set (button_conditions CP CS)"
    by (auto simp: button_conditions_def)
  have brand: "(True, EN_pcmEnable) \<in> set (brand_conditions K CP CS CS_prev CC) \<longleftrightarrow>
      cp_brand CP = ''honda'' \<and> cp_pcmCruise CP \<and> rising"
    "(True, EN_pcmDisable) \<notin> set (brand_conditions K CP CS CS_prev CC)"
    by (auto simp: brand_conditions_def honda_conditions_def toyota_conditions_def gm_conditions_def
        volkswagen_conditions_def Let_def rising_def)
  have "ev_has EN_pcmEnable ev \<longleftrightarrow> cp_pcmCruise CP \<and> rising \<and> (cp_brand CP = ''honda'' \<or> \<not> cs_blockPcmEnable CS)"
    unfolding ev_def car_events_has [OF assms(3), of EN_pcmEnable, simplified]
    by (auto simp: create_common_has common buttons brand rising_def)
  moreover have "ev_has EN_pcmDisable ev \<longleftrightarrow>
      cp_pcmCruise CP \<and> cp_brand CP \<noteq> ''honda'' \<and> \<not> cr_enabled (cs_cruiseState CS)"
    unfolding ev_def car_events_has [OF assms(3), of EN_pcmDisable, simplified]
    by (auto simp: create_common_has common buttons brand)
  ultimately show ?thesis by (auto simp: rising_def)
qed

text \<open>Inputs for the witnesses.\<close>

definition demo_car :: car_state where
  "demo_car = \<lparr>cs_vEgo = 0, cs_aEgo = 0, cs_standstill = True, cs_gasPressed = False, cs_brakePressed = True,
     cs_regenBraking = False, cs_parkingBrake = False, cs_brakeHoldActive = False, cs_steeringPressed = False,
     cs_steeringDisengage = False, cs_steeringTorque = 0, cs_steerFaultTemporary = False,
     cs_steerFaultPermanent = False, cs_gearShifter = Gear_drive, cs_doorOpen = False,
     cs_seatbeltUnlatched = False, cs_espDisabled = False, cs_espActive = False, cs_stockFcw = False,
     cs_stockAeb = False, cs_stockLkas = False, cs_accFaulted = False, cs_carNotReady = False,
     cs_vehicleSensorsInvalid = False, cs_invalidLkasSetting = False, cs_lowSpeedAlert = False,
     cs_buttonEnable = False, cs_blockPcmEnable = False, cs_buttonEvents = [],
     cs_cruiseState = \<lparr>cr_enabled = False, cr_available = True, cr_standstill = False, cr_nonAdaptive = False,
        cr_speed = 0, cr_speedCluster = 0\<rparr>,
     cs_leftBlinker = False, cs_rightBlinker = False, cs_leftBlindspot = False, cs_rightBlindspot = False,
     cs_canValid = True, cs_canTimeout = False, cs_vCruise = 0, cs_vCruiseCluster = 0, cs_steeringAngleDeg = 0, cs_steeringRateDeg = 0\<rparr>"

definition demo_params :: car_params where
  "demo_params = \<lparr>cp_brand = ''rivian'', cp_carFingerprint = [], cp_flags = 0, cp_passive = False,
     cp_notCar = False, cp_pcmCruise = True, cp_openpilotLongitudinalControl = False,
     cp_alphaLongitudinalAvailable = False, cp_minSteerSpeed = 0, cp_minEnableSpeed = 0,
     cp_networkLocation = NL_fwdCamera, cp_safetyConfigs = [], cp_alternativeExperience = 0,
     cp_secOcRequired = False, cp_secOcKeyAvailable = False, cp_stopAccel = 0, cp_kiBP = [0], cp_kiV = [0],
     cp_steerControlType = SCT_angle, cp_lateralTuning = Tuning_torque \<lparr>tq_latAccelFactor = 2, tq_latAccelOffset = 0, tq_friction = 0,
       tq_steeringAngleDeadzoneDeg = 0\<rparr>, cp_steerAtStandstill = False,
     cp_steerLimitTimer = 1, cp_longitudinalActuatorDelay = 0, cp_steerActuatorDelay = 0\<rparr>"

definition demo_control :: car_control where
  "demo_control = \<lparr>cc_enabled = False, cc_latActive = False, cc_longActive = False, cc_accel = 0, cc_torque = 0,
     cc_override = False, cc_cancel = False, cc_resume = False\<rparr>"

definition demo_params_sp :: car_params_sp where
  "demo_params_sp = \<lparr>cpsp_flags = 0, cpsp_safetyParam = 0, cpsp_pcmCruiseSpeed = True,
     cpsp_enableGasInterceptor = False\<rparr>"

definition demo_plan_sp :: plan_sp where
  "demo_plan_sp = \<lparr>lp_events = [], lp_vTarget = 20, lp_speedLimit = 0, lp_speedLimitFinalLast = 0,
     lp_speedLimitValid = False, lp_speedLimitLastValid = False, lp_assistState = SLA_disabled\<rparr>"

definition demo_opendbc :: opendbc where
  "demo_opendbc = \<lparr>ob_MAX_CTRL_SPEED = 40, ob_DRIVABLE_GEARS = (\<lambda>_. []), ob_RAM_DT = [], ob_ToyotaFlags_HYBRID = 1,
     ob_ISO_LATERAL_ACCEL = 3, ob_ACCEL_MIN = - 35 / 10, ob_ACCEL_MAX = 2, ob_GRAVITY = 981 / 100,
     ob_button_raw = (\<lambda>_. 0), ob_DT_CTRL = 1 / 100, ob_apply_hysteresis = (\<lambda>v s g. v)\<rparr>"

theorem pcm_enable_on_rising_edge_witness:
  "ev_has EN_pcmEnable (snd (car_events_update False demo_opendbc demo_params
     (demo_car\<lparr>cs_cruiseState := (cs_cruiseState demo_car)\<lparr>cr_enabled := True\<rparr>\<rparr>) demo_car demo_control car_events_init))"
  by (subst pcm_enable_on_rising_edge [THEN conjunct1]) (simp_all add: demo_params_def demo_car_def)

text \<open>Frames of the object: the car state, the one before it and the actuators.\<close>

definition car_events_frame ::
  "bool \<Rightarrow> opendbc \<Rightarrow> car_params \<Rightarrow> car_state \<times> car_state \<times> car_control \<Rightarrow> car_events \<Rightarrow> car_events" where
  "car_events_frame mici K CP = (\<lambda>(CS, CS_prev, CC) vc. fst (car_events_update mici K CP CS CS_prev CC vc))"

lemma unpressed_run:
  assumes "cp_brand CP \<notin> {''body'', ''mock''}" "0 < n"
    and "int n \<le> vc_steering_unpressed (fold (car_events_frame mici K CP) fs car_events_init)"
  shows "n \<le> length fs \<and> (\<forall>f\<in>set (drop (length fs - n) fs). \<not> cs_steeringPressed (fst f))"
  using assms(2,3)
proof (induction fs arbitrary: n rule: rev_induct)
  case Nil
  then show ?case by (simp add: car_events_init_def)
next
  case (snoc f fs)
  obtain CS CS_prev CC where f: "f = (CS, CS_prev, CC)" by (cases f)
  let ?vc = "fold (car_events_frame mici K CP) fs car_events_init"
  have unpressed: "\<not> cs_steeringPressed CS" "int n \<le> vc_steering_unpressed ?vc + 1"
    using snoc.prems by (auto simp: car_events_frame_def f car_events_fault(1) [OF assms(1)] split: if_splits)
  show ?case
  proof (cases "n = 1")
    case True
    with unpressed show ?thesis by (simp add: f)
  next
    case False
    with snoc.prems(1) obtain k where k: "n = Suc k" "0 < k" by (cases n) auto
    with snoc.IH [of k] unpressed(2)
    have "k \<le> length fs" "\<forall>f\<in>set (drop (length fs - k) fs). \<not> cs_steeringPressed (fst f)" by auto
    with unpressed(1) k(1) show ?thesis by (simp add: f)
  qed
qed

text \<open>The harsh steering-fault alert (a soft disable) needs hands off the wheel: when a frame of a
  run raises \<open>steerTempUnavailable\<close>, the steering wheel was not pressed in that frame and the 149
  frames before it (1.5 seconds), the car is moving, the fault is present and the silent alert was not
  latched.\<close>

theorem steer_fault_hands_off:
  fixes K mici CP fs CS CS_prev CC
  defines "vc \<equiv> fold (car_events_frame mici K CP) fs car_events_init"
  assumes "cp_brand CP \<notin> {''body'', ''mock''}" "ob_DT_CTRL K = 1 / 100"
    and "ev_has EN_steerTempUnavailable (snd (car_events_update mici K CP CS CS_prev CC vc))"
  shows "150 \<le> length fs + 1 \<and> (\<forall>f\<in>set (drop (length fs - 149) fs). \<not> cs_steeringPressed (fst f)) \<and>
         \<not> cs_steeringPressed CS \<and> \<not> cs_standstill CS \<and> cs_steerFaultTemporary CS \<and>
         \<not> vc_silent_steer_warning vc"
proof -
  have n: "py_int (15 / 10 / ob_DT_CTRL K) = 150" by (simp add: assms(3) py_int_def)
  have h: "cs_steerFaultTemporary CS" "\<not> vc_silent_steer_warning vc" "\<not> cs_standstill CS"
    "150 \<le> (if cs_steeringPressed CS then 0 else vc_steering_unpressed vc + 1)"
    using assms(4) unfolding car_events_fault(2) [OF assms(2)] n by blast+
  then have "\<not> cs_steeringPressed CS" "int 149 \<le> vc_steering_unpressed vc" by (auto split: if_splits)
  with h unpressed_run [OF assms(2), of 149 mici K fs] show ?thesis by (simp add: vc_def)
qed

definition demo_moving :: car_state where
  "demo_moving = demo_car\<lparr>cs_standstill := False, cs_vEgo := 10\<rparr>"

lemma demo_frame:
  "car_events_frame False demo_opendbc demo_params (demo_moving, demo_moving, demo_control) vc =
     vc\<lparr>vc_steering_unpressed := vc_steering_unpressed vc + 1, vc_no_steer_warning := False,
        vc_silent_steer_warning := False\<rparr>"
  by (simp add: car_events_frame_def car_events_update_def create_common_events_def steer_fault_events_def
      Let_def case_prod_beta demo_params_def demo_moving_def demo_car_def)

lemma demo_frames:
  "fold (car_events_frame False demo_opendbc demo_params) (replicate (Suc n) (demo_moving, demo_moving, demo_control)) vc =
     vc\<lparr>vc_steering_unpressed := vc_steering_unpressed vc + int (Suc n), vc_no_steer_warning := False,
        vc_silent_steer_warning := False\<rparr>"
proof (induction n arbitrary: vc)
  case 0
  show ?case by (simp add: demo_frame)
next
  case (Suc n)
  show ?case by (subst replicate_Suc, subst fold_Cons, subst comp_apply, subst demo_frame, subst Suc.IH)
      (simp add: algebra_simps)
qed

theorem steer_fault_hands_off_witness:
  "150 \<le> length (replicate 149 (demo_moving, demo_moving, demo_control)) + 1 \<and>
   \<not> vc_silent_steer_warning (fold (car_events_frame False demo_opendbc demo_params)
       (replicate 149 (demo_moving, demo_moving, demo_control)) car_events_init)"
proof -
  let ?fs = "replicate 149 (demo_moving, demo_moving, demo_control)"
  let ?CS = "demo_moving\<lparr>cs_steerFaultTemporary := True\<rparr>"
  let ?vc = "fold (car_events_frame False demo_opendbc demo_params) ?fs car_events_init"
  have n: "py_int (15 / 10 / ob_DT_CTRL demo_opendbc) = 150" by (simp add: demo_opendbc_def py_int_def)
  have vc: "vc_steering_unpressed ?vc = 149" "\<not> vc_silent_steer_warning ?vc"
    using demo_frames [of 148 car_events_init] by (simp_all add: car_events_init_def)
  have brand: "cp_brand demo_params \<notin> {''body'', ''mock''}" by (simp add: demo_params_def)
  have "ev_has EN_steerTempUnavailable
      (snd (car_events_update False demo_opendbc demo_params ?CS demo_moving demo_control ?vc))"
    unfolding car_events_fault(2) [OF brand] n vc(1) using vc(2)
    by (simp add: demo_moving_def demo_car_def)
  from steer_fault_hands_off [OF brand _ this] show ?thesis by (simp add: demo_opendbc_def)
qed

end
