(* ===== verification/MadsProps.thy ===== *)
theory MadsProps
  imports MadsFacts CarEvents
begin

text \<open>
  The properties of MADS: the update is total and keeps its invariants, the brake and the
  conditions of the cabin take lateral control away as the configured mode says, a lateral mismatch
  is bounded in time, and the configuration helpers agree with each other.
\<close>

section \<open>Invariants\<close>

text \<open>The two flags follow the phase.\<close>

definition mads_inv :: "mads \<Rightarrow> bool" where
  "mads_inv ma \<longleftrightarrow> ma_enabled ma = (ma_state ma \<in> set MADS_ENABLED_STATES) \<and>
                   ma_active ma = (ma_state ma \<in> set MADS_ACTIVE_STATES)"

text \<open>A frame in which the MADS machine runs.\<close>

definition mads_running :: "mads \<Rightarrow> mads_env \<Rightarrow> bool" where
  "mads_running ma env \<longleftrightarrow> ma_enabled_toggle ma \<and> \<not> cp_passive (me_CP env) \<and> me_initialized env"

lemma mads_update_inv:
  assumes "mads_update mici env (ma, ss, evs) = Some (ma', ss', evs', b)" "mads_inv ma"
  shows "mads_inv ma'"
proof -
  have "mads_inv (mads_data_sample env ma)" using assms(2) by (simp add: mads_inv_def mads_data_sample_def)
  with assms show ?thesis
    by (auto simp: mads_update_def Let_def bind_eq_Some_conv mads_inv_def split: if_splits prod.splits)
qed

lemma mads_init_inv: "mads_init K CP CP_SP p = Some ma \<Longrightarrow> mads_inv ma"
  by (auto simp: mads_init_def bind_eq_Some_conv mads_inv_def MADS_ENABLED_STATES_def MADS_ACTIVE_STATES_def)

lemma mads_update_fields:
  assumes "mads_update mici env (ma, ss, evs) = Some (ma', ss', evs', b)"
  shows "ma_enabled_toggle ma' = ma_enabled_toggle ma"
    "ma_lateral_mismatch_counter ma' =
       (if ma_enabled_toggle ma then ma_lateral_mismatch_counter (mads_data_sample env ma)
        else ma_lateral_mismatch_counter ma)"
  using assms
  by (auto simp: mads_update_def Let_def bind_eq_Some_conv mads_data_sample_def split: if_splits prod.splits)

section \<open>Inputs for the witnesses\<close>

definition demo_env :: mads_env where
  "demo_env = \<lparr>me_CP = demo_params, me_CS = demo_car, me_CS_prev = demo_car\<lparr>cs_brakePressed := False\<rparr>,
     me_enabled = False, me_enabled_prev = False, me_initialized = True, me_pandaStates = []\<rparr>"

definition demo_mads :: "int \<Rightarrow> mads_state \<Rightarrow> mads" where
  "demo_mads mode q = \<lparr>ma_enabled = (q \<in> set MADS_ENABLED_STATES), ma_active = (q \<in> set MADS_ACTIVE_STATES),
     ma_lateral_mismatch_counter = 0, ma_allow_always = False, ma_no_main_cruise = False, ma_state = q,
     ma_disengage_on_accelerator = False, ma_enabled_toggle = True, ma_main_enabled_toggle = True,
     ma_steering_mode_on_brake = mode, ma_unified_engagement_mode = True\<rparr>"

definition demo_stores :: "int list \<Rightarrow> stores" where
  "demo_stores es = (fold ev_add es (ev_init (EVENTS False)), ev_init (EVENTS_SP False))"

lemma fold_add_wf:
  "ev_wf m ev \<Longrightarrow> list_all (known_event m) es \<Longrightarrow> ev_wf m (fold ev_add es ev)"
  by (induction es arbitrary: ev) (auto simp: ev_wf_add_static)

lemma demo_stores_wf [simp]:
  "list_all (known_event (EVENTS False)) es \<Longrightarrow> stores_wf False (demo_stores es)"
  by (simp add: stores_wf_def demo_stores_def ev_wf_init fold_add_wf)

lemma fold_add_has: "ev_has e (fold ev_add es ev) \<longleftrightarrow> e \<in> set es \<or> ev_has e ev"
  by (induction es arbitrary: ev) (auto simp: ev.has_add)

lemma demo_stores_has [simp]: "ev_has e (fst (demo_stores es)) \<longleftrightarrow> e \<in> set es"
  by (simp add: demo_stores_def fold_add_has)

lemma demo_mads_inv [simp]: "mads_inv (demo_mads mode q)"
  by (simp add: mads_inv_def demo_mads_def)

lemma demo_running [simp]: "mads_running (demo_mads mode q) demo_env"
  by (simp add: mads_running_def demo_mads_def demo_env_def demo_params_def)

lemma demo_mads_fields [simp]:
  "ma_state (demo_mads mode q) = q" "ma_steering_mode_on_brake (demo_mads mode q) = mode"
  "ma_disengage_on_accelerator (demo_mads mode q) = False"
  "ma_enabled (demo_mads mode q) = (q \<in> set MADS_ENABLED_STATES)"
  "ma_lateral_mismatch_counter (demo_mads mode q) = 0"
  by (simp_all add: demo_mads_def)

lemma demo_update_defined:
  "list_all (known_event (EVENTS False)) es \<Longrightarrow>
   \<exists>ma' ss' evs' b. mads_update False env (ma, ss, demo_stores es) = Some (ma', ss', evs', b)"
  using mads_update_defined [OF demo_stores_wf] by blast

section \<open>Properties\<close>

text \<open>\<open>ModularAssistiveDrivingSystem.update\<close> never raises: on event stores that hold only
  known events every removal finds its event's counter, the stores stay well formed, and the flags
  \<open>enabled\<close> and \<open>active\<close> agree with the phase of the machine before and after.\<close>

theorem mads_update_total:
  assumes "stores_wf mici evs" "mads_inv ma"
  shows "\<exists>ma' ss' evs' b. mads_update mici env (ma, ss, evs) = Some (ma', ss', evs', b) \<and>
           stores_wf mici evs' \<and> mads_inv ma' \<and> (ma_active ma' \<longrightarrow> ma_enabled ma')"
proof -
  obtain ma' ss' evs' b where u: "mads_update mici env (ma, ss, evs) = Some (ma', ss', evs', b)" "stores_wf mici evs'"
    using mads_update_defined [OF assms(1)] by blast
  moreover have "mads_inv ma'" by (rule mads_update_inv [OF u(1) assms(2)])
  ultimately show ?thesis by (auto simp: mads_inv_def MADS_ENABLED_STATES_def)
qed

theorem mads_update_total_witness:
  "\<exists>ma' ss' evs' b. mads_update False demo_env (demo_mads PAUSE MS_enabled, ss_init, demo_stores [EN_pedalPressed, EN_doorOpen])
     = Some (ma', ss', evs', b) \<and> stores_wf False evs' \<and> mads_inv ma' \<and> (ma_active ma' \<longrightarrow> ma_enabled ma')"
  by (rule mads_update_total) simp_all

text \<open>C24: While openpilot is not enabled and MADS is steering, an open door or an unlatched belt at
  standstill, reverse, brake hold or the parking brake, and in the \<open>PAUSE\<close> mode a pedal press other
  than the accelerator, pause MADS in that very frame: the phase is \<open>paused\<close>, lateral control is
  not active, MADS stays enabled.\<close>

theorem mads_pauses:
  assumes "mads_update mici env (ma, ss, evs) = Some (ma', ss', evs', b)"
    and "mads_running ma env" "mads_inv ma" "ma_state ma \<noteq> MS_disabled" "ma_state ma \<noteq> MS_paused"
    and "\<not> me_enabled env"
    and "cs_standstill (me_CS env) \<and> (ev_has EN_doorOpen (fst evs) \<or> ev_has EN_seatbeltNotLatched (fst evs)) \<or>
         ev_has EN_reverseGear (fst evs) \<or> ev_has EN_brakeHold (fst evs) \<or> ev_has EN_parkBrake (fst evs) \<or>
         ma_steering_mode_on_brake ma = PAUSE \<and> pedal_pressed_non_gas_pressed ma env (fst evs)"
  shows "ma_state ma' = MS_paused \<and> \<not> ma_active ma' \<and> ma_enabled ma'"
proof -
  let ?ma = "mads_data_sample env ma"
  have u: "mads_update_events mici ?ma env evs = Some evs'"
    and q: "ma_state ma' = fst (mads_sm_step mici (me_enabled env, evs') (ma_state ma, ss))"
    and f: "ma_enabled ma' = (ma_state ma' \<in> set MADS_ENABLED_STATES)"
      "ma_active ma' = (ma_state ma' \<in> set MADS_ACTIVE_STATES)"
    using mads_update_cases [OF assms(1)] assms(2) by (auto simp: mads_running_def)
  have en: "ma_enabled ?ma"
    using assms(3,4) by (simp add: frame_simps mads_inv_def mads_enabled_iff)
  obtain e1 where e1: "mads_only_events ?ma env evs = Some e1" "\<And>e. ev_has e (snd e1) \<Longrightarrow> ev_has e (snd evs')"
    using update_events_after_only [OF u assms(6) en] by blast
  have np: "ma_state ?ma \<noteq> MS_paused" using assms(5) by (simp add: frame_simps)
  have "ev_has SP_silentLkasDisable (snd e1)"
    using assms(7)
  proof (elim disjE)
    assume "ma_steering_mode_on_brake ma = PAUSE \<and> pedal_pressed_non_gas_pressed ma env (fst evs)"
    then show ?thesis
      by (intro only_events_pedal_pauses [OF e1(1)])
         (simp_all add: frame_simps np pedal_pressed_non_gas_pressed_def assms(5))
  qed (insert only_events_condition_pauses [OF e1(1) _ _ np, where new = SP_silentDoorOpen and old = EN_doorOpen]
         only_events_condition_pauses [OF e1(1) _ _ np, where new = SP_silentSeatbeltNotLatched and old = EN_seatbeltNotLatched]
         only_events_condition_pauses [OF e1(1) _ _ np, where new = SP_silentReverseGear and old = EN_reverseGear]
         only_events_condition_pauses [OF e1(1) _ _ np, where new = SP_silentBrakeHold and old = EN_brakeHold]
         only_events_condition_pauses [OF e1(1) _ _ np, where new = SP_silentParkBrake and old = EN_parkBrake],
       auto simp: silence_rules_def)
  then have "ma_state ma' = MS_paused"
    unfolding q using e1(2) assms(4) by (intro mads_silent_pauses) auto
  with f show ?thesis by (simp add: mads_enabled_iff mads_active_iff)
qed

theorem mads_pauses_witness:
  "\<exists>ma' ss' evs' b. mads_update False demo_env (demo_mads PAUSE MS_enabled, ss_init, demo_stores [EN_pedalPressed])
      = Some (ma', ss', evs', b) \<and> ma_state ma' = MS_paused \<and> \<not> ma_active ma'"
proof -
  obtain ma' ss' evs' b where u: "mads_update False demo_env (demo_mads PAUSE MS_enabled, ss_init,
      demo_stores [EN_pedalPressed]) = Some (ma', ss', evs', b)"
    using demo_update_defined [of "[EN_pedalPressed]" demo_env "demo_mads PAUSE MS_enabled" ss_init] by auto
  with mads_pauses [OF u] show ?thesis
    by (simp add: pedal_pressed_non_gas_pressed_def demo_env_def [THEN arg_cong [of _ _ me_enabled]])
qed

text \<open>In the \<open>DISENGAGE\<close> mode a pedal press other than the accelerator ends lateral control in
  that very frame, whether or not openpilot is enabled.\<close>

theorem mads_brake_disengages:
  assumes "mads_update mici env (ma, ss, evs) = Some (ma', ss', evs', b)"
    and "mads_running ma env" "mads_inv ma" "ma_state ma \<noteq> MS_disabled"
    and "ma_steering_mode_on_brake ma = DISENGAGE" "pedal_pressed_non_gas_pressed ma env (fst evs)"
  shows "ev_has SP_lkasDisable (snd evs') \<and> \<not> ma_active ma' \<and>
         (ma_state ma' = MS_disabled \<or> ma_state ma' = MS_paused \<and> ev_has SP_silentLkasDisable (snd evs'))"
proof -
  let ?ma = "mads_data_sample env ma"
  have u: "mads_update_events mici ?ma env evs = Some evs'"
    and q: "ma_state ma' = fst (mads_sm_step mici (me_enabled env, evs') (ma_state ma, ss))"
    and f: "ma_active ma' = (ma_state ma' \<in> set MADS_ACTIVE_STATES)"
    using mads_update_cases [OF assms(1)] assms(2) by (auto simp: mads_running_def)
  have en: "ma_enabled ?ma"
    using assms(3,4) by (simp add: frame_simps mads_inv_def mads_enabled_iff)
  have dis: "ev_has SP_lkasDisable (snd evs')"
    by (rule update_events_brake [OF u]) (use en assms(5,6) in \<open>simp_all add: frame_simps pedal_pressed_non_gas_pressed_def\<close>)
  then have "check_contains mici USER_DISABLE evs'"
    by (force simp: check_contains_def contains_iff)
  with assms(4) have "ma_state ma' = MS_disabled \<or> ma_state ma' = MS_paused \<and> ev_has SP_silentLkasDisable (snd evs')"
    unfolding q by (cases "ma_state ma") (auto simp: mads_sm_step_state)
  with dis f show ?thesis by (auto simp: mads_active_iff)
qed

theorem mads_brake_disengages_witness:
  "\<exists>ma' ss' evs' b. mads_update False demo_env (demo_mads DISENGAGE MS_overriding, ss_init, demo_stores [EN_pedalPressed])
      = Some (ma', ss', evs', b) \<and> ev_has SP_lkasDisable (snd evs') \<and> \<not> ma_active ma'"
proof -
  obtain ma' ss' evs' b where u: "mads_update False demo_env (demo_mads DISENGAGE MS_overriding, ss_init,
      demo_stores [EN_pedalPressed]) = Some (ma', ss', evs', b)"
    using demo_update_defined [of "[EN_pedalPressed]" demo_env "demo_mads DISENGAGE MS_overriding" ss_init] by auto
  with mads_brake_disengages [OF u] show ?thesis
    by (simp add: pedal_pressed_non_gas_pressed_def)
qed

text \<open>The MADS object over a run of frames; the openpilot machine and the stores come from selfdrived.\<close>

fun mads_frames :: "bool \<Rightarrow> (mads_env \<times> ss_machine \<times> stores) list \<Rightarrow> mads \<Rightarrow> mads option" where
  "mads_frames mici [] ma = Some ma"
| "mads_frames mici ((env, ss, evs) # fs) ma =
     do { (ma', _) \<leftarrow> mads_update mici env (ma, ss, evs); mads_frames mici fs ma' }"

definition mismatch_frame :: "bool \<Rightarrow> mads \<Rightarrow> mads_env \<times> ss_machine \<times> stores \<Rightarrow> bool" where
  "mismatch_frame mici ma = (\<lambda>(env, ss, evs). mads_running ma env \<and> stores_wf mici evs \<and> \<not> me_enabled env \<and>
     (\<exists>ps\<in>set (me_pandaStates env). pa_safetyModel ps \<notin> set IGNORED_SAFETY_MODES \<and> \<not> pa_controlsAllowedLateral ps))"

lemma mismatch_step:
  assumes "mads_inv ma" "mismatch_frame mici ma (env, ss, evs)" "ma_active ma"
    and "mads_update mici env (ma, ss, evs) = Some (ma', ss', evs', b)"
  shows "ma_lateral_mismatch_counter ma' = ma_lateral_mismatch_counter ma + 1"
    and "199 \<le> ma_lateral_mismatch_counter ma \<Longrightarrow> \<not> ma_active ma'"
proof -
  let ?ma = "mads_data_sample env ma"
  have c: "ma_lateral_mismatch_counter ?ma = ma_lateral_mismatch_counter ma + 1"
    using assms(2,3) by (auto simp: mads_data_sample_def mismatch_frame_def list_ex_iff)
  then show "ma_lateral_mismatch_counter ma' = ma_lateral_mismatch_counter ma + 1"
    using assms(2) mads_update_fields(2) [OF assms(4)] by (simp add: mismatch_frame_def mads_running_def)
  assume "199 \<le> ma_lateral_mismatch_counter ma"
  moreover have u: "mads_update_events mici ?ma env evs = Some evs'"
    and q: "ma_state ma' = fst (mads_sm_step mici (me_enabled env, evs') (ma_state ma, ss))"
    and f: "ma_active ma' = (ma_state ma' \<in> set MADS_ACTIVE_STATES)"
    using mads_update_cases [OF assms(4)] assms(2) by (auto simp: mismatch_frame_def mads_running_def)
  ultimately have "check_contains mici IMMEDIATE_DISABLE evs'"
    using c by (intro mismatch_contains update_events_mismatch [OF u]) simp
  moreover have "ma_state ma \<noteq> MS_disabled" using assms(1,3) by (simp add: mads_inv_def mads_active_iff)
  ultimately show "\<not> ma_active ma'" unfolding f q by (rule mads_kill_inactive)
qed

text \<open>A lateral mismatch is bounded in time: when openpilot is not enabled and some panda with a
  safety model does not allow lateral control in each of 200 consecutive frames, MADS is inactive
  after at least one of the first 200 of them (2 seconds), whatever the events of the frames.\<close>

theorem mads_mismatch_deadline:
  assumes "mads_inv ma" "0 \<le> ma_lateral_mismatch_counter ma" "length fs = 200"
    and "\<forall>f\<in>set fs. mismatch_frame mici ma f"
  shows "\<exists>k\<le>200. \<exists>ma'. mads_frames mici (take k fs) ma = Some ma' \<and> \<not> ma_active ma'"
proof -
  have "\<exists>k\<le>length fs. \<exists>ma'. mads_frames mici (take k fs) ma = Some ma' \<and> \<not> ma_active ma'"
    if "mads_inv ma" "200 \<le> ma_lateral_mismatch_counter ma + int (length fs)" "fs \<noteq> []"
      "\<forall>f\<in>set fs. mismatch_frame mici ma f" for fs :: "(mads_env \<times> ss_machine \<times> stores) list" and ma
    using that
  proof (induction fs arbitrary: ma)
    case (Cons f fs)
    obtain env ss evs where f: "f = (env, ss, evs)" by (cases f)
    show ?case
    proof (cases "ma_active ma")
      case False
      then show ?thesis by (intro exI [of _ 0]) simp
    next
      case True
      have mf: "mismatch_frame mici ma (env, ss, evs)" using Cons.prems(4) f by simp
      obtain ma' ss' evs' b where u: "mads_update mici env (ma, ss, evs) = Some (ma', ss', evs', b)"
        using mads_update_defined [of mici evs env ma ss] mf unfolding mismatch_frame_def prod.case by blast
      note step = mismatch_step [OF Cons.prems(1) mf True u]
      show ?thesis
      proof (cases "ma_active ma'")
        case False
        with u show ?thesis by (intro exI [of _ 1]) (simp add: f)
      next
        case act: True
        then have ne: "fs \<noteq> []" using step(2) Cons.prems(2) by (auto simp: not_le)
        have "\<forall>f\<in>set fs. mismatch_frame mici ma' f"
          using Cons.prems(4) mads_update_fields(1) [OF u] by (auto simp: mismatch_frame_def mads_running_def)
        then obtain k ma'' where "k \<le> length fs" "mads_frames mici (take k fs) ma' = Some ma''" "\<not> ma_active ma''"
          using Cons.IH [OF mads_update_inv [OF u Cons.prems(1)]] step(1) Cons.prems(2) ne by fastforce
        with u show ?thesis by (intro exI [of _ "Suc k"]) (simp add: f)
      qed
    qed
  qed simp
  from this [OF assms(1) _ _ assms(4)] assms(2,3) show ?thesis by fastforce
qed

definition demo_panda :: panda_state where
  "demo_panda = \<lparr>pa_safetyModel = SM_other 2, pa_safetyParam = 0, pa_alternativeExperience = 0,
     pa_safetyRxChecksInvalid = False, pa_relayMalfunction = False, pa_controlsAllowed = False,
     pa_controlsAllowedLateral = False\<rparr>"

theorem mads_mismatch_deadline_witness:
  "\<exists>k\<le>200. \<exists>ma'. mads_frames False
      (take k (replicate 200 (demo_env\<lparr>me_pandaStates := [demo_panda]\<rparr>, ss_init, demo_stores [])))
      (demo_mads PAUSE MS_enabled) = Some ma' \<and> \<not> ma_active ma'"
  by (rule mads_mismatch_deadline)
     (simp_all add: mismatch_frame_def mads_running_def demo_env_def demo_params_def demo_mads_def demo_panda_def
       IGNORED_SAFETY_MODES_def mads_inv_def)

text \<open>A press of the lane-keeping button while MADS is off always leaves the \<open>lkasEnable\<close>
  request for the state machine, also with the brake held in the \<open>DISENGAGE\<close> mode: the branch of
  \<open>update_events\<close> that should replace the request by an alert tests \<open>contains\<close> with an
  event name, which no event store ever satisfies.\<close>

theorem lkas_request_survives_brake:
  assumes "mads_update_events mici ma env evs = Some evs'" "\<not> ma_enabled ma"
    and "be \<in> set (cs_buttonEvents (me_CS env))" "be_type be = BT_lkas" "be_pressed be"
    and "cr_available (cs_cruiseState (me_CS env)) \<or> ma_allow_always ma"
  shows "ev_has SP_lkasEnable (snd evs') \<and> (\<forall>m e ev. \<not> ev_contains m (KInt e) ev)"
proof -
  have btn: "ev_has SP_lkasEnable (fold (mads_button_event ma env) bs sp)" if "be \<in> set bs" for bs sp
    using that
  proof (induction bs arbitrary: sp)
    case (Cons b bs)
    show ?case
    proof (cases "b = be")
      case True
      with assms have "ev_has SP_lkasEnable (mads_button_event ma env b sp)"
        by (auto simp: mads_button_event_def ev.has_add)
      then show ?thesis by (simp add: buttons_has)
    qed (use Cons in auto)
  qed simp
  obtain e1 e2 where e: "mads_enable_events ma env e1 = Some e2" "mads_late_events mici ma env e2 = Some evs'"
    using assms(1) by (auto simp: mads_update_events_split bind_eq_Some_conv)
  have "sp_grows (fold (mads_button_event ma env) (cs_buttonEvents (me_CS env)) (snd e2)) (Some evs')"
    using late_events_buttons [of ma env e2 mici] e(2) by simp
  then show ?thesis using btn [OF assms(3)] by (simp add: contains_int_never)
qed

theorem lkas_request_survives_brake_witness:
  "\<exists>evs'. mads_update_events False (demo_mads DISENGAGE MS_disabled)
      (demo_env\<lparr>me_CS := demo_car\<lparr>cs_buttonEvents := [\<lparr>be_type = BT_lkas, be_pressed = True\<rparr>]\<rparr>\<rparr>)
      (demo_stores [EN_pedalPressed]) = Some evs' \<and> ev_has SP_lkasEnable (snd evs')"
proof -
  let ?env = "demo_env\<lparr>me_CS := demo_car\<lparr>cs_buttonEvents := [\<lparr>be_type = BT_lkas, be_pressed = True\<rparr>]\<rparr>\<rparr>"
  obtain evs' where u: "mads_update_events False (demo_mads DISENGAGE MS_disabled) ?env
      (demo_stores [EN_pedalPressed]) = Some evs'"
    using ok_wf_update_events [OF demo_stores_wf, of "[EN_pedalPressed]" "demo_mads DISENGAGE MS_disabled" ?env]
    by (auto simp: ok_wf_def)
  have "ev_has SP_lkasEnable (snd evs')"
    by (rule lkas_request_survives_brake [OF u, THEN conjunct1,
          of "\<lparr>be_type = BT_lkas, be_pressed = True\<rparr>"]) (simp_all add: demo_car_def mads_enabled_iff)
  with u show ?thesis by blast
qed

text \<open>The configuration helpers agree: for a car with limited support
  \<open>set_car_specific_params\<close> stores the mode \<open>read_steering_mode_param\<close> then reports
  (\<open>DISENGAGE\<close>) and forces unified engagement, for any other car it leaves mode and engagement
  setting alone; and with MADS on, \<open>set_alternative_experience\<close> sets the safety flag of the
  reported mode.\<close>

theorem mads_config_consistent:
  assumes "get_mads_limited_brands K CP CP_SP p = Some limited"
    and "set_car_specific_params K CP (CP_SP, p) = Some (CP_SP', p')" "cp_brand CP \<noteq> ''hyundai''"
  shows "(if limited then get_int ''MadsSteeringMode'' p' = Some DISENGAGE \<and>
            get_bool ''MadsUnifiedEngagementMode'' p' \<and>
            read_steering_mode_param K CP CP_SP' p' = Some DISENGAGE
          else get_int ''MadsSteeringMode'' p' = get_int ''MadsSteeringMode'' p \<and>
            get_bool ''MadsUnifiedEngagementMode'' p' = get_bool ''MadsUnifiedEngagementMode'' p \<and>
            read_steering_mode_param K CP CP_SP' p' = get_int ''MadsSteeringMode'' p) \<and>
         (get_bool ''Mads'' p \<longrightarrow> limited \<longrightarrow>
            set_alternative_experience K CP_SP' p' CP = Some (CP\<lparr>cp_alternativeExperience :=
              or (or (cp_alternativeExperience CP) (mc_ENABLE_MADS K)) (mc_DISENGAGE_LATERAL_ON_BRAKE K)\<rparr>))"
proof -
  have keys: "get_int ''TeslaMadsScreenButton'' p' = get_int ''TeslaMadsScreenButton'' p"
    "get_bool ''Mads'' p' = get_bool ''Mads'' p"
    "CP_SP' = CP_SP"
    using assms by (auto simp: set_car_specific_params_def Let_def bind_eq_Some_conv split: if_splits)
  have lim: "get_mads_limited_brands K CP CP_SP' p' = Some limited"
    using assms(1) by (auto simp: get_mads_limited_brands_def keys split: if_splits)
  have vals: "if limited then get_int ''MadsSteeringMode'' p' = Some DISENGAGE \<and> get_bool ''MadsUnifiedEngagementMode'' p'
     else get_int ''MadsSteeringMode'' p' = get_int ''MadsSteeringMode'' p \<and>
          get_bool ''MadsUnifiedEngagementMode'' p' = get_bool ''MadsUnifiedEngagementMode'' p"
    using assms by (auto simp: set_car_specific_params_def Let_def split: if_splits)
  have mode: "read_steering_mode_param K CP CP_SP' p' =
      (if limited then Some DISENGAGE else get_int ''MadsSteeringMode'' p)"
    using vals by (simp add: read_steering_mode_param_def lim)
  with vals show ?thesis
    by (simp add: set_alternative_experience_def keys(2) Let_def)
qed

theorem mads_config_consistent_witness:
  "\<forall>K CP_SP p. \<exists>CP_SP' p'. set_car_specific_params K demo_params (CP_SP, p) = Some (CP_SP', p') \<and>
     get_int ''MadsSteeringMode'' p' = Some DISENGAGE"
proof (intro allI)
  fix K CP_SP p
  have lim: "get_mads_limited_brands K demo_params CP_SP p = Some True"
    by (simp add: get_mads_limited_brands_def demo_params_def)
  obtain CP_SP' p' where s: "set_car_specific_params K demo_params (CP_SP, p) = Some (CP_SP', p')"
    using lim by (simp add: set_car_specific_params_def demo_params_def Let_def)
  with mads_config_consistent [OF lim s] show "\<exists>CP_SP' p'. set_car_specific_params K demo_params (CP_SP, p) = Some (CP_SP', p') \<and>
     get_int ''MadsSteeringMode'' p' = Some DISENGAGE" by (simp add: demo_params_def)
qed

end
