(* ===== verification/Buttons.thy ===== *)
theory Buttons
  imports CarEvents ParamsStore
begin

text \<open>
  Button handling shared by the controllers: the per-button timers of
  \<open>sunnypilot/selfdrive/car/cruise_ext.py\<close> and of the distance-button hold of
  \<open>cruise_helpers.py\<close>, with the contract they share as a locale, and the button bit sets
  selfdrived publishes (\<open>button_state_tracker.py\<close>).
\<close>

section \<open>The contract of button timers\<close>

text \<open>The value of the timer of one button after the button events of a frame.\<close>

definition timer_events :: "button_type \<Rightarrow> button_event list \<Rightarrow> int \<Rightarrow> int" where
  "timer_events k bs t = fold (\<lambda>b t. if be_type b = k then (if be_pressed b then 1 else 0) else t) bs t"

lemma timer_events_simps [simp]:
  "timer_events k [] t = t"
  "timer_events k (b # bs) t = timer_events k bs (if be_type b = k then (if be_pressed b then 1 else 0) else t)"
  by (simp_all add: timer_events_def)

lemma timer_events_nonneg: "0 \<le> t \<Longrightarrow> 0 \<le> timer_events k bs t"
  by (induction bs arbitrary: t) auto

lemma timer_events_other: "\<forall>b\<in>set bs. be_type b \<noteq> k \<Longrightarrow> timer_events k bs t = t"
  by (induction bs arbitrary: t) auto

locale button_timers =
  fixes timer :: "'s \<Rightarrow> button_type \<Rightarrow> int option"
    and step :: "button_event list \<Rightarrow> 's \<Rightarrow> 's"
  assumes timer_step:
    "timer (step bs s) k = map_option (\<lambda>t. timer_events k bs (if 0 < t then t + 1 else t)) (timer s k)"
begin

lemma timer_nonneg: "timer s k = Some t \<Longrightarrow> 0 \<le> t \<Longrightarrow> \<exists>t'. timer (step bs s) k = Some t' \<and> 0 \<le> t'"
  by (simp add: timer_step timer_events_nonneg)

lemma timers_nonneg:
  "timer s k = Some t \<Longrightarrow> 0 \<le> t \<Longrightarrow> \<exists>t'. timer (fold step bss s) k = Some t' \<and> 0 \<le> t'"
  by (induction bss arbitrary: s t) (auto simp: timer_step timer_events_nonneg)

text \<open>A button that stays pressed is timed by the frames since the press, a released one is at 0.\<close>

lemma hold:
  assumes "timer s k = Some t" "0 < t" "\<forall>bs\<in>set bss. \<forall>b\<in>set bs. be_type b \<noteq> k"
  shows "timer (fold step bss s) k = Some (t + int (length bss))"
  using assms
proof (induction bss arbitrary: s t)
  case (Cons bs bss)
  from Cons.prems have "timer (step bs s) k = Some (t + 1)"
    by (simp add: timer_step timer_events_other)
  from Cons.IH [OF this] Cons.prems show ?case by simp
qed simp

lemma press: "timer s k = Some t \<Longrightarrow> timer (step [\<lparr>be_type = k, be_pressed = True\<rparr>] s) k = Some 1"
  by (simp add: timer_step)

lemma release:
  assumes "timer s k = Some t" "\<forall>bs\<in>set bss. \<forall>b\<in>set bs. be_type b \<noteq> k"
  shows "timer (fold step ([\<lparr>be_type = k, be_pressed = False\<rparr>] # bss) s) k = Some 0"
proof -
  have idle: "timer (fold step bss s) k = Some 0" if "timer s k = Some 0" for s
    using that assms(2) by (induction bss arbitrary: s) (auto simp: timer_step timer_events_other)
  show ?thesis using assms(1) by (simp add: timer_step idle)
qed

end

section \<open>\<open>update_manual_button_timers\<close>\<close>

type_synonym timers = "(button_type \<times> int) list"

definition CRUISE_BUTTON_TIMER :: timers where
  "CRUISE_BUTTON_TIMER = [(BT_decelCruise, 0), (BT_accelCruise, 0), (BT_setCruise, 0), (BT_resumeCruise, 0),
     (BT_cancel, 0), (BT_mainCruise, 0)]"

definition bump_timers :: "timers \<Rightarrow> timers" where
  "bump_timers ts = map (\<lambda>(k, t). (k, if 0 < t then t + 1 else t)) ts"

text \<open>Start or end the timer on a change of a button that has one.\<close>

definition set_timer :: "button_event \<Rightarrow> timers \<Rightarrow> timers" where
  "set_timer b ts = (if be_type b \<in> set (map fst ts)
                     then AList.update (be_type b) (if be_pressed b then 1 else 0) ts else ts)"

definition update_manual_button_timers :: "button_event list \<Rightarrow> timers \<Rightarrow> timers" where
  "update_manual_button_timers bs ts = fold set_timer bs (bump_timers ts)"

definition any_pressed :: "timers \<Rightarrow> bool" where
  "any_pressed ts = list_ex (\<lambda>(k, t). 0 < t) ts"

lemma map_of_bump: "map_of (bump_timers ts) k = map_option (\<lambda>t. if 0 < t then t + 1 else t) (map_of ts k)"
  by (simp add: bump_timers_def map_of_map)

lemma fst_set_map_of: "k \<in> fst ` set ts \<longleftrightarrow> map_of ts k \<noteq> None"
  by (simp add: map_of_eq_None_iff)

lemma map_of_set_timer:
  "map_of (set_timer b ts) k =
     map_option (\<lambda>t. if be_type b = k then (if be_pressed b then 1 else 0) else t) (map_of ts k)"
  by (cases "map_of ts k") (auto simp: set_timer_def update_conv fst_set_map_of)

lemma map_of_set_timers: "map_of (fold set_timer bs ts) k = map_option (\<lambda>t. timer_events k bs t) (map_of ts k)"
proof (induction bs arbitrary: ts)
  case Nil
  show ?case by (cases "map_of ts k") simp_all
next
  case (Cons b bs)
  then show ?case by (cases "map_of ts k") (simp_all add: map_of_set_timer)
qed

interpretation manual: button_timers map_of update_manual_button_timers
  by unfold_locales
     (simp add: update_manual_button_timers_def map_of_set_timers map_of_bump option.map_comp comp_def)

section \<open>\<open>CruiseHelper\<close>: experimental mode on the distance button\<close>

record cruise_helper =
  ch_button_frame_counts :: timers
  ch_experimental_mode :: bool
  ch_experimental_mode_switched :: bool

definition cruise_helper_init :: cruise_helper where
  "cruise_helper_init = \<lparr> ch_button_frame_counts = [(BT_gapAdjustCruise, 0)], ch_experimental_mode = False,
     ch_experimental_mode_switched = False \<rparr>"

definition DISTANCE_LONG_PRESS :: int where "DISTANCE_LONG_PRESS = 50"

definition update_button_frame_counts :: "button_event list \<Rightarrow> cruise_helper \<Rightarrow> cruise_helper" where
  "update_button_frame_counts bs ch =
     ch\<lparr>ch_button_frame_counts :=
        fold (\<lambda>b ts. if be_type b \<in> set (map fst ts)
                      then AList.update (be_type b) (of_bool (be_pressed b)) ts else ts) bs
          (map (\<lambda>(k, n). (k, if 0 < n then n + 1 else n)) (ch_button_frame_counts ch))\<rparr>"

text \<open>The count of a button that is in the dictionary (it always holds \<open>gapAdjustCruise\<close>).\<close>

definition frame_count :: "cruise_helper \<Rightarrow> button_type \<Rightarrow> int" where
  "frame_count ch k = (case map_of (ch_button_frame_counts ch) k of Some n \<Rightarrow> n | None \<Rightarrow> 0)"

definition update_experimental_mode ::
  "bool \<Rightarrow> cruise_helper \<times> params \<times> events \<Rightarrow> cruise_helper \<times> params \<times> events" where
  "update_experimental_mode experimental_mode = (\<lambda>(ch, p, sp).
     (if DISTANCE_LONG_PRESS \<le> frame_count ch BT_gapAdjustCruise \<and> \<not> ch_experimental_mode_switched ch
      then (let ch = ch\<lparr>ch_experimental_mode := \<not> experimental_mode\<rparr>
            in (ch\<lparr>ch_experimental_mode_switched := True\<rparr>,
                put_param ''ExperimentalMode'' (PBool (ch_experimental_mode ch)) p,
                ev_add SP_experimentalModeSwitched sp))
      else (ch, p, sp)))"

definition cruise_helper_update ::
  "car_params \<Rightarrow> car_state \<Rightarrow> bool \<Rightarrow> cruise_helper \<times> params \<times> events \<Rightarrow> cruise_helper \<times> params \<times> events" where
  "cruise_helper_update CP CS experimental_mode = (\<lambda>(ch, p, sp).
     (if cp_openpilotLongitudinalControl CP \<and> cr_available (cs_cruiseState CS)
      then update_experimental_mode experimental_mode
             (update_button_frame_counts (cs_buttonEvents CS) ch, p, sp)
      else (ch, p, sp)))"

lemma frame_counts_manual:
  "ch_button_frame_counts (update_button_frame_counts bs ch) =
     update_manual_button_timers bs (ch_button_frame_counts ch)"
proof -
  have "(\<lambda>b ts. if be_type b \<in> set (map fst ts)
                then AList.update (be_type b) (of_bool (be_pressed b)) ts else ts) = set_timer"
    by (intro ext) (simp add: set_timer_def of_bool_def)
  then show ?thesis by (simp add: update_button_frame_counts_def update_manual_button_timers_def bump_timers_def)
qed

interpretation hold: button_timers "\<lambda>ch k. map_of (ch_button_frame_counts ch) k" update_button_frame_counts
  by unfold_locales (simp add: frame_counts_manual manual.timer_step)

section \<open>\<open>ButtonStateTracker\<close>\<close>

record button_tracker =
  bt_pressed :: int
  bt_release_toggle :: int

definition tracker_init :: button_tracker where
  "tracker_init = \<lparr> bt_pressed = 0, bt_release_toggle = 0 \<rparr>"

definition tracker_event :: "opendbc \<Rightarrow> button_event \<Rightarrow> button_tracker \<Rightarrow> button_tracker" where
  "tracker_event K b t =
     (let bit = push_bit (ob_button_raw K (be_type b)) 1
      in if be_pressed b then t\<lparr>bt_pressed := or (bt_pressed t) bit\<rparr>
         else t\<lparr>bt_pressed := and (bt_pressed t) (not bit), bt_release_toggle := xor (bt_release_toggle t) bit\<rparr>)"

definition tracker_update :: "opendbc \<Rightarrow> button_event list \<Rightarrow> button_tracker \<Rightarrow> button_tracker" where
  "tracker_update K bs t = fold (tracker_event K) bs t"

lemma bit_push_one: "bit (2 ^ n :: int) m \<longleftrightarrow> m = n"
  by (auto simp: bit_exp_iff)

lemma tracker_pressed:
  "bit (bt_pressed (tracker_event K b t)) n \<longleftrightarrow>
     (if n = ob_button_raw K (be_type b) then be_pressed b else bit (bt_pressed t) n)"
  by (auto simp: tracker_event_def Let_def bit_or_iff bit_and_iff bit_not_iff bit_push_one push_bit_eq_mult)

lemma tracker_toggle:
  "bit (bt_release_toggle (tracker_event K b t)) n \<longleftrightarrow>
     (bit (bt_release_toggle t) n \<noteq> (n = ob_button_raw K (be_type b) \<and> \<not> be_pressed b))"
  by (auto simp: tracker_event_def Let_def bit_xor_iff bit_push_one push_bit_eq_mult)

section \<open>Properties\<close>

text \<open>The published button sets are right after any number of frames: the bit of a button in
  \<open>buttonsPressed\<close> is the state of its last event, its bit in \<open>buttonsReleaseToggle\<close> is the parity of
  its releases (so a release is seen by a reader that misses frames), and both stay non-negative.\<close>

lemma tracker_bits:
  fixes bss :: "button_event list list" and K n
  defines "t \<equiv> fold (tracker_update K) bss tracker_init"
    and "mine \<equiv> filter (\<lambda>b. ob_button_raw K (be_type b) = n) (concat bss)"
  shows "(bit (bt_pressed t) n \<longleftrightarrow> mine \<noteq> [] \<and> be_pressed (last mine)) \<and>
         (bit (bt_release_toggle t) n \<longleftrightarrow> odd (length (filter (\<lambda>b. \<not> be_pressed b) mine))) \<and>
         0 \<le> bt_pressed t \<and> 0 \<le> bt_release_toggle t"
proof -
  define run where "run es = fold (tracker_event K) es tracker_init" for es
  have t: "t = run (concat bss)"
    unfolding t_def run_def tracker_update_def
    by (induction bss rule: rev_induct) simp_all
  have bits: "(bit (bt_pressed (run es)) n \<longleftrightarrow>
        filter (\<lambda>b. ob_button_raw K (be_type b) = n) es \<noteq> [] \<and>
        be_pressed (last (filter (\<lambda>b. ob_button_raw K (be_type b) = n) es))) \<and>
      (bit (bt_release_toggle (run es)) n \<longleftrightarrow>
        odd (length (filter (\<lambda>b. \<not> be_pressed b) (filter (\<lambda>b. ob_button_raw K (be_type b) = n) es))))" for es
    by (induction es rule: rev_induct)
       (auto simp: run_def tracker_init_def tracker_pressed tracker_toggle)
  have nonneg: "0 \<le> bt_pressed (run es) \<and> 0 \<le> bt_release_toggle (run es)" for es
    by (induction es rule: rev_induct)
       (auto simp: run_def tracker_init_def tracker_event_def Let_def)
  show ?thesis using bits [of "concat bss"] nonneg [of "concat bss"] by (simp add: t mine_def)
qed

definition hold_frames ::
  "car_params \<Rightarrow> bool \<Rightarrow> car_state list \<Rightarrow> cruise_helper \<times> params \<times> events \<Rightarrow> cruise_helper \<times> params \<times> events" where
  "hold_frames CP em css = fold (\<lambda>CS. cruise_helper_update CP CS em) css"

lemma frame_count_other:
  assumes "frame_count ch BT_gapAdjustCruise = n" "0 < n" "\<forall>b\<in>set bs. be_type b \<noteq> BT_gapAdjustCruise"
  shows "frame_count (update_button_frame_counts bs ch) BT_gapAdjustCruise = n + 1"
  using assms hold.timer_step [of bs ch BT_gapAdjustCruise]
  by (auto simp: frame_count_def timer_events_other split: option.splits)

text \<open>Holding the distance button switches the experimental mode exactly once: counted from the
  frame of the press, the switch is made in the 50th frame of the hold (half a second), it is announced by
  exactly one \<open>experimentalModeSwitched\<close> event however long the hold lasts, and it stores the
  negation of the mode.\<close>

theorem distance_hold_switches_once:
  fixes CP em css s
  defines "r \<equiv> hold_frames CP em css s"
  assumes "cp_openpilotLongitudinalControl CP" "\<forall>CS\<in>set css. cr_available (cs_cruiseState CS)"
    and "css = CS0 # rest" "cs_buttonEvents CS0 = [\<lparr>be_type = BT_gapAdjustCruise, be_pressed = True\<rparr>]"
    and "\<forall>CS\<in>set rest. \<forall>b\<in>set (cs_buttonEvents CS). be_type b \<noteq> BT_gapAdjustCruise"
    and "BT_gapAdjustCruise \<in> fst ` set (ch_button_frame_counts (fst s))" "\<not> ch_experimental_mode_switched (fst s)"
  shows "frame_count (fst r) BT_gapAdjustCruise = int (length css) \<and>
         (ch_experimental_mode_switched (fst r) \<longleftrightarrow> 50 \<le> length css) \<and>
         ev_count (snd (snd r)) SP_experimentalModeSwitched =
           ev_count (snd (snd s)) SP_experimentalModeSwitched + (if 50 \<le> length css then 1 else 0) \<and>
         (50 \<le> length css \<longrightarrow> get_bool ''ExperimentalMode'' (fst (snd r)) = (\<not> em))"
  using assms(3,6) unfolding r_def assms(4)
proof (induction rest rule: rev_induct)
  case Nil
  obtain ch p sp where s: "s = (ch, p, sp)" by (cases s)
  have "map_of (ch_button_frame_counts ch) BT_gapAdjustCruise \<noteq> None"
    using assms(7) by (simp add: s map_of_eq_None_iff)
  then have "frame_count (update_button_frame_counts (cs_buttonEvents CS0) ch) BT_gapAdjustCruise = 1"
    using hold.timer_step [of "cs_buttonEvents CS0" ch BT_gapAdjustCruise]
    by (auto simp: assms(5) frame_count_def)
  then show ?case using assms(2,8) Nil.prems
    by (simp add: s hold_frames_def cruise_helper_update_def update_experimental_mode_def DISTANCE_LONG_PRESS_def)
       (simp add: update_button_frame_counts_def)
next
  case (snoc CS rest)
  obtain ch p sp where r: "hold_frames CP em (CS0 # rest) s = (ch, p, sp)" by (cases "hold_frames CP em (CS0 # rest) s")
  have step: "hold_frames CP em (CS0 # rest @ [CS]) s = cruise_helper_update CP CS em (ch, p, sp)"
    using r by (simp add: hold_frames_def)
  have IH: "frame_count ch BT_gapAdjustCruise = int (length (CS0 # rest))"
    "ch_experimental_mode_switched ch \<longleftrightarrow> 50 \<le> length (CS0 # rest)"
    "ev_count sp SP_experimentalModeSwitched =
       ev_count (snd (snd s)) SP_experimentalModeSwitched + (if 50 \<le> length (CS0 # rest) then 1 else 0)"
    "50 \<le> length (CS0 # rest) \<longrightarrow> get_bool ''ExperimentalMode'' p = (\<not> em)"
    using snoc.IH snoc.prems r by simp_all
  have c: "frame_count (update_button_frame_counts (cs_buttonEvents CS) ch) BT_gapAdjustCruise = int (length (CS0 # rest)) + 1"
    using IH(1) snoc.prems(2) by (intro frame_count_other) auto
  have sw: "ch_experimental_mode_switched (update_button_frame_counts (cs_buttonEvents CS) ch) = ch_experimental_mode_switched ch"
    by (simp add: update_button_frame_counts_def)
  have fc: "frame_count (ch\<lparr>ch_experimental_mode := x, ch_experimental_mode_switched := y\<rparr>) k = frame_count ch k" for ch x y k
    by (simp add: frame_count_def)
  show ?case unfolding step using assms(2) snoc.prems IH c sw
    by (auto simp: cruise_helper_update_def update_experimental_mode_def DISTANCE_LONG_PRESS_def Let_def fc
        ev_count_add_static)
qed

text \<open>Inputs for the witness: a hold of 60 frames.\<close>

definition hold_press :: "car_state \<Rightarrow> car_state list" where
  "hold_press CS = CS\<lparr>cs_buttonEvents := [\<lparr>be_type = BT_gapAdjustCruise, be_pressed = True\<rparr>]\<rparr> #
     replicate 59 (CS\<lparr>cs_buttonEvents := []\<rparr>)"

theorem distance_hold_switches_once_witness:
  "ch_experimental_mode_switched (fst (hold_frames (demo_params\<lparr>cp_openpilotLongitudinalControl := True\<rparr>) False
      (hold_press demo_car) (cruise_helper_init, \<lparr>pr_values = Map.empty, pr_defaults = Map.empty\<rparr>, ev_init (EVENTS_SP False))))"
  by (subst distance_hold_switches_once [THEN conjunct2, THEN conjunct1])
     (auto simp: hold_press_def demo_car_def demo_params_def cruise_helper_init_def)

end
