(* ===== verification/Icbm.thy ===== *)
theory Icbm
  imports Buttons Engagement
begin

text \<open>
  \<open>sunnypilot/selfdrive/car/intelligent_cruise_button_management\<close>: the state machine that sends
  increase and decrease button presses to a stock cruise control until its set speed is the planner's
  target.  Targets and set speeds are whole units of the display (km/h or mph).
\<close>

section \<open>The controller\<close>

definition INACTIVE_TIMER :: real where "INACTIVE_TIMER = 4 / 10"
definition HYST_GAP :: real where "HYST_GAP = 0"

definition get_minimum_set_speed :: "bool \<Rightarrow> int" where
  "get_minimum_set_speed is_metric = (if is_metric then 30 else 20)"

record icbm =
  ic_v_target :: int
  ic_v_cruise_cluster :: int
  ic_v_cruise_min :: int
  ic_cruise_button :: send_button_state
  ic_state :: icbm_state
  ic_pre_active_timer :: int
  ic_is_ready :: bool
  ic_is_ready_prev :: bool
  ic_v_target_ms_last :: real
  ic_is_metric :: bool
  ic_cruise_button_timers :: timers

definition icbm_init :: icbm where
  "icbm_init = \<lparr> ic_v_target = 0, ic_v_cruise_cluster = 0, ic_v_cruise_min = 0, ic_cruise_button = SB_none,
     ic_state = ICBM_inactive, ic_pre_active_timer = 0, ic_is_ready = False, ic_is_ready_prev = False,
     ic_v_target_ms_last = 0, ic_is_metric = False, ic_cruise_button_timers = CRUISE_BUTTON_TIMER \<rparr>"

definition v_cruise_equal :: "icbm \<Rightarrow> bool" where
  "v_cruise_equal ic \<longleftrightarrow> ic_v_target ic = ic_v_cruise_cluster ic"

definition icbm_update_calculations :: "opendbc \<Rightarrow> car_state \<Rightarrow> plan_sp \<Rightarrow> icbm \<Rightarrow> icbm" where
  "icbm_update_calculations K CS LP_SP ic =
     (let speed_conv = (if ic_is_metric ic then MS_TO_KPH else MS_TO_MPH);
          ms_conv = (if ic_is_metric ic then KPH_TO_MS else MPH_TO_MS);
          v_target_ms = ob_apply_hysteresis K (lp_vTarget LP_SP) (ic_v_target_ms_last ic) (HYST_GAP * ms_conv)
      in ic\<lparr>ic_v_target_ms_last := v_target_ms,
            ic_v_target := py_round (v_target_ms * speed_conv),
            ic_v_cruise_min := get_minimum_set_speed (ic_is_metric ic),
            ic_v_cruise_cluster := py_round (cr_speedCluster (cs_cruiseState CS) * speed_conv)\<rparr>)"

fun SEND_BUTTONS :: "icbm_state \<Rightarrow> send_button_state" where
  "SEND_BUTTONS ICBM_increasing = SB_increase"
| "SEND_BUTTONS ICBM_decreasing = SB_decrease"
| "SEND_BUTTONS _ = SB_none"

definition icbm_state_machine :: "icbm \<Rightarrow> icbm" where
  "icbm_state_machine ic =
     (let ic = ic\<lparr>ic_pre_active_timer := max 0 (ic_pre_active_timer ic - 1)\<rparr>
      in if ic_state ic \<noteq> ICBM_inactive then
           (if \<not> ic_is_ready ic then ic\<lparr>ic_state := ICBM_inactive\<rparr>
            else if ic_state ic = ICBM_preActive then
              (if ic_pre_active_timer ic \<le> 0 then
                 (if v_cruise_equal ic then ic\<lparr>ic_state := ICBM_holding\<rparr>
                  else if ic_v_cruise_cluster ic < ic_v_target ic then ic\<lparr>ic_state := ICBM_increasing\<rparr>
                  else if ic_v_target ic < ic_v_cruise_cluster ic \<and> ic_v_cruise_min ic < ic_v_cruise_cluster ic
                  then ic\<lparr>ic_state := ICBM_decreasing\<rparr>
                  else ic)
               else ic)
            else if ic_state ic = ICBM_holding then
              (if \<not> v_cruise_equal ic then ic\<lparr>ic_state := ICBM_preActive\<rparr> else ic)
            else if ic_state ic = ICBM_increasing then
              (if ic_v_target ic \<le> ic_v_cruise_cluster ic then ic\<lparr>ic_state := ICBM_holding\<rparr> else ic)
            else if ic_state ic = ICBM_decreasing then
              (if ic_v_cruise_cluster ic \<le> ic_v_target ic \<or> ic_v_cruise_cluster ic \<le> ic_v_cruise_min ic
               then ic\<lparr>ic_state := ICBM_holding\<rparr> else ic)
            else ic)
         else if ic_is_ready ic \<and> \<not> ic_is_ready_prev ic
         then ic\<lparr>ic_pre_active_timer := py_int (INACTIVE_TIMER / DT_CTRL), ic_state := ICBM_preActive\<rparr>
         else ic)"

definition icbm_update_readiness :: "car_state \<Rightarrow> car_control \<Rightarrow> icbm \<Rightarrow> icbm" where
  "icbm_update_readiness CS CC ic =
     (let timers = update_manual_button_timers (cs_buttonEvents CS) (ic_cruise_button_timers ic);
          ready = cc_enabled CC \<and> \<not> cc_override CC \<and> \<not> cc_cancel CC \<and> \<not> cc_resume CC;
          button_pressed = any_pressed timers
      in ic\<lparr>ic_cruise_button_timers := timers, ic_is_ready := ready \<and> \<not> button_pressed\<rparr>)"

definition icbm_run ::
  "opendbc \<Rightarrow> car_params_sp \<Rightarrow> car_state \<Rightarrow> car_control \<Rightarrow> plan_sp \<Rightarrow> bool \<Rightarrow> icbm \<Rightarrow> icbm" where
  "icbm_run K CP_SP CS CC LP_SP is_metric ic =
     (if cpsp_pcmCruiseSpeed CP_SP then ic
      else
        (let ic = ic\<lparr>ic_is_metric := is_metric\<rparr>;
             ic = icbm_update_calculations K CS LP_SP ic;
             ic = icbm_update_readiness CS CC ic;
             ic = icbm_state_machine ic;
             ic = ic\<lparr>ic_cruise_button := SEND_BUTTONS (ic_state ic)\<rparr>
         in ic\<lparr>ic_is_ready_prev := ic_is_ready ic\<rparr>))"

section \<open>Lemmas\<close>

lemma pre_active_frames: "py_int (INACTIVE_TIMER / DT_CTRL) = 40"
  by (simp add: INACTIVE_TIMER_def DT_CTRL_def py_int_def)

lemma state_machine_fields [frame_simps]:
  "ic_is_ready (icbm_state_machine ic) = ic_is_ready ic"
  "ic_v_target (icbm_state_machine ic) = ic_v_target ic"
  "ic_v_cruise_cluster (icbm_state_machine ic) = ic_v_cruise_cluster ic"
  "ic_v_cruise_min (icbm_state_machine ic) = ic_v_cruise_min ic"
  "ic_is_ready_prev (icbm_state_machine ic) = ic_is_ready_prev ic"
  "ic_is_metric (icbm_state_machine ic) = ic_is_metric ic"
  "ic_cruise_button_timers (icbm_state_machine ic) = ic_cruise_button_timers ic"
  by (simp_all add: icbm_state_machine_def Let_def)

text \<open>The phase and the timer after a step.\<close>

fun icbm_next :: "bool \<Rightarrow> bool \<Rightarrow> int \<Rightarrow> int \<Rightarrow> int \<Rightarrow> int \<Rightarrow> icbm_state \<Rightarrow> icbm_state" where
  "icbm_next ready ready_prev target cluster vmin timer ICBM_inactive =
     (if ready \<and> \<not> ready_prev then ICBM_preActive else ICBM_inactive)"
| "icbm_next ready ready_prev target cluster vmin timer ICBM_preActive =
     (if \<not> ready then ICBM_inactive
      else if 1 < timer then ICBM_preActive
      else if target = cluster then ICBM_holding
      else if cluster < target then ICBM_increasing
      else if vmin < cluster then ICBM_decreasing else ICBM_preActive)"
| "icbm_next ready ready_prev target cluster vmin timer ICBM_holding =
     (if \<not> ready then ICBM_inactive else if target \<noteq> cluster then ICBM_preActive else ICBM_holding)"
| "icbm_next ready ready_prev target cluster vmin timer ICBM_increasing =
     (if \<not> ready then ICBM_inactive else if target \<le> cluster then ICBM_holding else ICBM_increasing)"
| "icbm_next ready ready_prev target cluster vmin timer ICBM_decreasing =
     (if \<not> ready then ICBM_inactive
      else if cluster \<le> target \<or> cluster \<le> vmin then ICBM_holding else ICBM_decreasing)"

lemma icbm_state_machine_state:
  "ic_state (icbm_state_machine ic) =
     icbm_next (ic_is_ready ic) (ic_is_ready_prev ic) (ic_v_target ic) (ic_v_cruise_cluster ic)
       (ic_v_cruise_min ic) (ic_pre_active_timer ic) (ic_state ic)"
  by (cases "ic_state ic") (auto simp: icbm_state_machine_def v_cruise_equal_def Let_def)

lemma icbm_state_machine_timer:
  "ic_pre_active_timer (icbm_state_machine ic) =
     (if ic_state ic = ICBM_inactive \<and> ic_is_ready ic \<and> \<not> ic_is_ready_prev ic then 40
      else max 0 (ic_pre_active_timer ic - 1))"
  by (cases "ic_state ic") (auto simp: icbm_state_machine_def pre_active_frames Let_def)

text \<open>One frame of a car whose cruise speed openpilot sets through the buttons.\<close>

definition icbm_frame :: "opendbc \<Rightarrow> car_params_sp \<Rightarrow> car_state \<times> car_control \<times> plan_sp \<times> bool \<Rightarrow> icbm \<Rightarrow> icbm" where
  "icbm_frame K CP_SP = (\<lambda>(CS, CC, LP_SP, is_metric). icbm_run K CP_SP CS CC LP_SP is_metric)"

definition driver_allows :: "car_state \<times> car_control \<times> plan_sp \<times> bool \<Rightarrow> bool" where
  "driver_allows = (\<lambda>(CS, CC, LP_SP, is_metric).
     cc_enabled CC \<and> \<not> cc_override CC \<and> \<not> cc_cancel CC \<and> \<not> cc_resume CC)"

lemma icbm_run_ready:
  assumes "\<not> cpsp_pcmCruiseSpeed CP_SP" "ic_is_ready (icbm_run K CP_SP CS CC LP_SP is_metric ic)"
  shows "driver_allows (CS, CC, LP_SP, is_metric)"
    and "\<not> any_pressed (update_manual_button_timers (cs_buttonEvents CS) (ic_cruise_button_timers ic))"
  using assms
  by (simp_all add: icbm_run_def icbm_update_readiness_def icbm_update_calculations_def Let_def frame_simps
      driver_allows_def)

lemma icbm_run_state:
  fixes K CP_SP CS CC LP_SP is_metric ic
  assumes "\<not> cpsp_pcmCruiseSpeed CP_SP"
  defines "r \<equiv> icbm_run K CP_SP CS CC LP_SP is_metric ic"
  shows "ic_state r = icbm_next (ic_is_ready r) (ic_is_ready_prev ic) (ic_v_target r) (ic_v_cruise_cluster r)
      (ic_v_cruise_min r) (ic_pre_active_timer ic) (ic_state ic)"
    and "ic_cruise_button r = SEND_BUTTONS (ic_state r)"
    and "ic_is_ready_prev r = ic_is_ready r"
    and "ic_v_cruise_min r = (if is_metric then 30 else 20)"
    and "ic_pre_active_timer r =
      (if ic_state ic = ICBM_inactive \<and> ic_is_ready r \<and> \<not> ic_is_ready_prev ic then 40
       else max 0 (ic_pre_active_timer ic - 1))"
  using assms
  by (simp_all add: icbm_run_def Let_def icbm_state_machine_state icbm_state_machine_timer frame_simps
      icbm_update_readiness_def icbm_update_calculations_def get_minimum_set_speed_def)

text \<open>The controller keeps the engagement contract: a frame in which the driver does not allow it
  makes it inactive, and without one that does it stays inactive.\<close>

interpretation icbm: engagement "\<lambda>i ic. icbm_frame K (CP_SP\<lparr>cpsp_pcmCruiseSpeed := False\<rparr>) i ic" ic_state
  "\<lambda>q. q \<noteq> ICBM_inactive" "\<lambda>q. q = ICBM_increasing \<or> q = ICBM_decreasing" ICBM_inactive
  "\<lambda>i. \<not> driver_allows i" driver_allows
  for K CP_SP
proof
  fix i :: "car_state \<times> car_control \<times> plan_sp \<times> bool" and s :: icbm and q :: icbm_state
  obtain CS CC LP m where i: "i = (CS, CC, LP, m)" by (cases i)
  let ?CP = "CP_SP\<lparr>cpsp_pcmCruiseSpeed := False\<rparr>"
  have np: "\<not> cpsp_pcmCruiseSpeed ?CP" by simp
  have nr: "\<not> driver_allows i \<Longrightarrow> \<not> ic_is_ready (icbm_run K ?CP CS CC LP m s)"
    using icbm_run_ready(1) [OF np] unfolding i by blast
  show "\<not> driver_allows i \<Longrightarrow> ic_state s \<noteq> ICBM_inactive \<Longrightarrow>
      ic_state (icbm_frame K ?CP i s) = ICBM_inactive"
    using nr icbm_run_state(1) [OF np, of K CS CC LP m s]
    by (cases "ic_state s") (simp_all add: icbm_frame_def i)
  show "ic_state s = ICBM_inactive \<Longrightarrow> \<not> driver_allows i \<Longrightarrow>
      ic_state (icbm_frame K ?CP i s) = ICBM_inactive"
    using nr icbm_run_state(1) [OF np, of K CS CC LP m s] by (simp add: icbm_frame_def i)
qed auto

section \<open>Properties\<close>

text \<open>A button press is sent only towards the target and only while the driver lets it: after any
  frame that sends \<open>increase\<close> the set speed is below the target, after one that sends \<open>decrease\<close> it
  is above the target and above the minimum set speed of the unit, and in both cases openpilot is
  engaged, nobody overrides, cancels or resumes and no cruise button is held.\<close>

theorem icbm_button_safe:
  fixes K CP_SP CS CC LP_SP is_metric ic
  defines "r \<equiv> icbm_run K CP_SP CS CC LP_SP is_metric ic"
  assumes "\<not> cpsp_pcmCruiseSpeed CP_SP"
  shows "(ic_cruise_button r = SB_increase \<longrightarrow> ic_v_cruise_cluster r < ic_v_target r) \<and>
         (ic_cruise_button r = SB_decrease \<longrightarrow> ic_v_target r < ic_v_cruise_cluster r \<and>
            (if is_metric then 30 else 20) < ic_v_cruise_cluster r) \<and>
         (ic_cruise_button r \<noteq> SB_none \<longrightarrow>
            cc_enabled CC \<and> \<not> cc_override CC \<and> \<not> cc_cancel CC \<and> \<not> cc_resume CC \<and>
            \<not> any_pressed (update_manual_button_timers (cs_buttonEvents CS) (ic_cruise_button_timers ic)))"
proof -
  have r: "ic_state r = icbm_next (ic_is_ready r) (ic_is_ready_prev ic) (ic_v_target r) (ic_v_cruise_cluster r)
      (if is_metric then 30 else 20) (ic_pre_active_timer ic) (ic_state ic)"
    "ic_cruise_button r = SEND_BUTTONS (ic_state r)"
    unfolding r_def using icbm_run_state(1,2,4) [OF assms(2), of K CS CC LP_SP is_metric ic] by simp_all
  have inc: "ic_state r = ICBM_increasing \<Longrightarrow> ic_is_ready r \<and> ic_v_cruise_cluster r < ic_v_target r"
    unfolding r(1) by (cases "ic_state ic") (auto split: if_splits)
  have dec: "ic_state r = ICBM_decreasing \<Longrightarrow> ic_is_ready r \<and> ic_v_target r < ic_v_cruise_cluster r \<and>
      (if is_metric then 30 else 20) < ic_v_cruise_cluster r"
    unfolding r(1) by (cases "ic_state ic") (auto split: if_splits)
  have ready: "ic_is_ready r \<Longrightarrow> driver_allows (CS, CC, LP_SP, is_metric) \<and>
      \<not> any_pressed (update_manual_button_timers (cs_buttonEvents CS) (ic_cruise_button_timers ic))"
    unfolding r_def using icbm_run_ready [OF assms(2)] by blast
  show ?thesis using inc dec ready unfolding r(2) driver_allows_def
    by (cases "ic_state r") (simp_all only: SEND_BUTTONS.simps, auto)
qed

theorem icbm_button_safe_witness:
  "ic_v_cruise_cluster (icbm_run demo_opendbc (demo_params_sp\<lparr>cpsp_pcmCruiseSpeed := False\<rparr>) demo_car
      (demo_control\<lparr>cc_enabled := True\<rparr>) demo_plan_sp True (icbm_init\<lparr>ic_state := ICBM_preActive\<rparr>)) <
   ic_v_target (icbm_run demo_opendbc (demo_params_sp\<lparr>cpsp_pcmCruiseSpeed := False\<rparr>) demo_car
      (demo_control\<lparr>cc_enabled := True\<rparr>) demo_plan_sp True (icbm_init\<lparr>ic_state := ICBM_preActive\<rparr>))"
proof (rule icbm_button_safe [THEN conjunct1, rule_format])
  show "ic_cruise_button (icbm_run demo_opendbc (demo_params_sp\<lparr>cpsp_pcmCruiseSpeed := False\<rparr>) demo_car
      (demo_control\<lparr>cc_enabled := True\<rparr>) demo_plan_sp True (icbm_init\<lparr>ic_state := ICBM_preActive\<rparr>)) = SB_increase"
    by (simp add: icbm_run_def icbm_update_calculations_def icbm_update_readiness_def Let_def icbm_state_machine_state
        icbm_init_def demo_opendbc_def demo_car_def demo_control_def demo_plan_sp_def update_manual_button_timers_def
        CRUISE_BUTTON_TIMER_def bump_timers_def any_pressed_def MS_TO_KPH_def)
qed simp

text \<open>After it becomes ready the controller waits: started inactive, it sends no button in any of
  its first 40 frames (0.4 seconds), whatever happens in them.\<close>

theorem icbm_waits:
  fixes K CP_SP fs ic
  defines "r \<equiv> fold (icbm_frame K CP_SP) fs ic"
  assumes "\<not> cpsp_pcmCruiseSpeed CP_SP" "ic_state ic = ICBM_inactive" "fs \<noteq> []" "length fs \<le> 40"
  shows "ic_cruise_button r = SB_none \<and>
         (ic_state r = ICBM_inactive \<or> ic_state r = ICBM_preActive \<and> 41 - int (length fs) \<le> ic_pre_active_timer r)"
  using assms(4,5) unfolding r_def
proof (induction fs rule: rev_induct)
  case (snoc f fs)
  obtain CS CC LP m where f: "f = (CS, CC, LP, m)" by (cases f)
  let ?ic = "fold (icbm_frame K CP_SP) fs ic"
  have "ic_state ?ic = ICBM_inactive \<or>
        ic_state ?ic = ICBM_preActive \<and> 41 - int (length fs) \<le> ic_pre_active_timer ?ic"
    using snoc assms(3) by (cases "fs = []") auto
  moreover note icbm_run_state [OF assms(2), of K CS CC LP m ?ic]
  moreover have "int (length fs) \<le> 39" using snoc.prems by simp
  ultimately show ?case
    by (auto simp: f icbm_frame_def)
qed simp

theorem icbm_waits_witness:
  "ic_cruise_button (fold (icbm_frame demo_opendbc (demo_params_sp\<lparr>cpsp_pcmCruiseSpeed := False\<rparr>))
      (replicate 40 (demo_car, demo_control\<lparr>cc_enabled := True\<rparr>, demo_plan_sp, True)) icbm_init) = SB_none"
  by (rule icbm_waits [THEN conjunct1]) (simp_all add: icbm_init_def)

end
