(* ===== verification/Actuation.thy ===== *)
theory Actuation
  imports CarEvents
begin

text \<open>
  \<open>selfdrive/selfdrived/helpers.py\<close>: the check that the car accelerates or corners far beyond what
  openpilot may request; and the contract of counters of consecutive frames, which this check and
  several others of the program use.
\<close>

section \<open>Counters of consecutive frames\<close>

locale run_counter =
  fixes step :: "'i \<Rightarrow> 's \<Rightarrow> 's"
    and count :: "'s \<Rightarrow> int"
    and counts :: "'s \<Rightarrow> 'i \<Rightarrow> bool"
  assumes count_step: "count (step i s) = (if counts s i then count s + 1 else 0)"
begin

definition state_at :: "'i list \<Rightarrow> 's \<Rightarrow> nat \<Rightarrow> 's" where
  "state_at is s k = fold step (take k is) s"

lemma state_at_append: "k \<le> length is \<Longrightarrow> state_at (is @ js) s k = state_at is s k"
  by (simp add: state_at_def)

text \<open>A count of \<open>n\<close> means that each of the last \<open>n\<close> inputs was counted.\<close>

lemma last_counted:
  assumes "count s \<le> 0" "int n \<le> count (fold step is s)" "0 < n"
  shows "n \<le> length is \<and> (\<forall>k. length is - n \<le> k \<longrightarrow> k < length is \<longrightarrow> counts (state_at is s k) (is ! k))"
  using assms(2,3)
proof (induction "is" arbitrary: n rule: rev_induct)
  case Nil
  with assms(1) show ?case by simp
next
  case (snoc i "is")
  let ?s = "fold step is s"
  have c: "counts ?s i" "int n \<le> count ?s + 1"
    using snoc.prems by (auto simp: count_step split: if_splits)
  have last: "state_at (is @ [i]) s (length is) = ?s" by (simp add: state_at_def)
  show ?case
  proof (cases "n = 1")
    case True
    with c last show ?thesis by (auto simp: less_Suc_eq)
  next
    case False
    with snoc.prems(2) obtain m where m: "n = Suc m" "0 < m" by (cases n) auto
    from snoc.IH [of m] c(2) m
    have IH: "m \<le> length is" "\<And>k. length is - m \<le> k \<Longrightarrow> k < length is \<Longrightarrow> counts (state_at is s k) (is ! k)"
      by auto
    show ?thesis
    proof (intro conjI allI impI)
      show "n \<le> length (is @ [i])" using IH(1) m by simp
      fix k assume k: "length (is @ [i]) - n \<le> k" "k < length (is @ [i])"
      show "counts (state_at (is @ [i]) s k) ((is @ [i]) ! k)"
        using IH(2) [of k] k m c(1) last
        by (cases "k = length is") (auto simp: nth_append state_at_append)
    qed
  qed
qed

text \<open>Conversely a run of counted inputs is counted in full.\<close>

lemma all_counted:
  "(\<And>k. k < length is \<Longrightarrow> counts (state_at is s k) (is ! k)) \<Longrightarrow> count (fold step is s) = count s + int (length is)"
proof (induction "is" rule: rev_induct)
  case (snoc i "is")
  have "counts (fold step is s) i" using snoc.prems [of "length is"] by (simp add: state_at_def)
  moreover have "counts (state_at is s k) (is ! k)" if "k < length is" for k
    using snoc.prems [of k] that by (simp add: state_at_append nth_append)
  ultimately show ?case using snoc.IH by (simp add: count_step)
qed simp

lemma count_nonneg: "0 \<le> count s \<Longrightarrow> 0 \<le> count (fold step is s)"
  by (induction "is" arbitrary: s) (auto simp: count_step)

end

section \<open>\<open>ExcessiveActuationCheck\<close>\<close>

datatype excessive_actuation_type = EA_longitudinal | EA_lateral

definition MIN_EXCESSIVE_ACTUATION_COUNT :: int where
  "MIN_EXCESSIVE_ACTUATION_COUNT = py_int (25 / 100 / DT_CTRL)"

definition MIN_LATERAL_ENGAGE_BUFFER :: int where
  "MIN_LATERAL_ENGAGE_BUFFER = py_int (1 / DT_CTRL)"

record excessive_check =
  ec_excessive_counter :: int
  ec_engaged_counter :: int

definition excessive_check_init :: excessive_check where
  "excessive_check_init = \<lparr> ec_excessive_counter = 0, ec_engaged_counter = 0 \<rparr>"

definition roll_compensated_lateral_accel :: "opendbc \<Rightarrow> real \<Rightarrow> car_state \<Rightarrow> calibrated_pose \<Rightarrow> real" where
  "roll_compensated_lateral_accel K roll CS pose = cs_vEgo CS * po_yaw_rate pose - sin roll * ob_GRAVITY K"

definition excessive_check_update ::
  "opendbc \<Rightarrow> car_control \<Rightarrow> real \<Rightarrow> car_state \<Rightarrow> calibrated_pose \<Rightarrow> excessive_check
   \<Rightarrow> excessive_check \<times> excessive_actuation_type option" where
  "excessive_check_update K CC roll CS pose ec =
     (let accel_calibrated = po_acceleration_x pose;
          excessive_long_actuation =
            (cc_longActive CC \<and> (ob_ACCEL_MAX K * 2 < accel_calibrated \<or> accel_calibrated < ob_ACCEL_MIN K * 2));
          engaged = (if cc_latActive CC \<and> \<not> cs_steeringPressed CS then ec_engaged_counter ec + 1 else 0);
          excessive_lat_actuation =
            (MIN_LATERAL_ENGAGE_BUFFER < engaged \<and>
             ob_ISO_LATERAL_ACCEL K * 2 < \<bar>roll_compensated_lateral_accel K roll CS pose\<bar>);
          device_motion_valid = (\<bar>cs_aEgo CS - accel_calibrated\<bar> < 2);
          excessive = (if device_motion_valid \<and> (excessive_long_actuation \<or> excessive_lat_actuation)
                       then ec_excessive_counter ec + 1 else 0);
          excessive_type =
            (if MIN_EXCESSIVE_ACTUATION_COUNT < excessive
             then Some (if excessive_long_actuation then EA_longitudinal else EA_lateral) else None)
      in (\<lparr> ec_excessive_counter = excessive, ec_engaged_counter = engaged \<rparr>, excessive_type))"

lemma excessive_constants [simp]:
  "MIN_EXCESSIVE_ACTUATION_COUNT = 25" "MIN_LATERAL_ENGAGE_BUFFER = 100"
  by (simp_all add: MIN_EXCESSIVE_ACTUATION_COUNT_def MIN_LATERAL_ENGAGE_BUFFER_def DT_CTRL_def py_int_def)

text \<open>A frame of inputs of the check.\<close>

type_synonym actuation_frame = "car_control \<times> real \<times> car_state \<times> calibrated_pose"

definition excessive_frame :: "opendbc \<Rightarrow> actuation_frame \<Rightarrow> excessive_check \<Rightarrow> excessive_check" where
  "excessive_frame K = (\<lambda>(CC, roll, CS, pose) ec. fst (excessive_check_update K CC roll CS pose ec))"

definition long_excess :: "opendbc \<Rightarrow> actuation_frame \<Rightarrow> bool" where
  "long_excess K = (\<lambda>(CC, roll, CS, pose). cc_longActive CC \<and>
     (ob_ACCEL_MAX K * 2 < po_acceleration_x pose \<or> po_acceleration_x pose < ob_ACCEL_MIN K * 2))"

definition lat_excess :: "opendbc \<Rightarrow> actuation_frame \<Rightarrow> bool" where
  "lat_excess K = (\<lambda>(CC, roll, CS, pose). cc_latActive CC \<and> \<not> cs_steeringPressed CS \<and>
     ob_ISO_LATERAL_ACCEL K * 2 < \<bar>roll_compensated_lateral_accel K roll CS pose\<bar>)"

definition motion_valid :: "actuation_frame \<Rightarrow> bool" where
  "motion_valid = (\<lambda>(CC, roll, CS, pose). \<bar>cs_aEgo CS - po_acceleration_x pose\<bar> < 2)"

definition lat_engaged :: "actuation_frame \<Rightarrow> bool" where
  "lat_engaged = (\<lambda>(CC, roll, CS, pose). cc_latActive CC \<and> \<not> cs_steeringPressed CS)"

interpretation engaged: run_counter "excessive_frame K" ec_engaged_counter "\<lambda>s. lat_engaged" for K
  by unfold_locales (auto simp: excessive_frame_def excessive_check_update_def Let_def lat_engaged_def split: if_splits)

interpretation excess: run_counter "excessive_frame K" ec_excessive_counter
  "\<lambda>ec f. motion_valid f \<and> (long_excess K f \<or> lat_excess K f \<and> 100 \<le> ec_engaged_counter ec)" for K
  by unfold_locales
     (auto simp: excessive_frame_def excessive_check_update_def Let_def long_excess_def lat_excess_def motion_valid_def
       split: if_splits)

section \<open>Properties\<close>

text \<open>Excessive actuation is reported only after it lasted: a report after a run means that in
  each of the last 26 frames the motion signals agreed and the car was either accelerating beyond
  twice the limit with longitudinal control active, or cornering beyond twice the limit with
  lateral control active and the wheel untouched, the latter also for the 100 frames before.\<close>

theorem excessive_actuation_sustained:
  fixes K fs CC roll CS pose
  defines "ec \<equiv> fold (excessive_frame K) fs excessive_check_init"
    and "all \<equiv> fs @ [(CC, roll, CS, pose)]"
  assumes "snd (excessive_check_update K CC roll CS pose ec) = Some ty"
  shows "26 \<le> length all \<and>
         (\<forall>k. length all - 26 \<le> k \<longrightarrow> k < length all \<longrightarrow>
            motion_valid (all ! k) \<and>
            (long_excess K (all ! k) \<or>
             lat_excess K (all ! k) \<and> 100 \<le> k \<and> (\<forall>j. k - 100 \<le> j \<longrightarrow> j < k \<longrightarrow> lat_engaged (all ! j)))) \<and>
         (ty = EA_longitudinal \<longleftrightarrow> long_excess K (CC, roll, CS, pose))"
proof -
  have c: "int 26 \<le> ec_excessive_counter (fold (excessive_frame K) all excessive_check_init)"
    and ty: "ty = EA_longitudinal \<longleftrightarrow> long_excess K (CC, roll, CS, pose)"
    using assms(3)
    by (auto simp: all_def ec_def excessive_frame_def excessive_check_update_def Let_def long_excess_def split: if_splits)
  have init: "ec_excessive_counter excessive_check_init \<le> 0" "ec_engaged_counter excessive_check_init \<le> 0"
    by (simp_all add: excessive_check_init_def)
  note ex = excess.last_counted [OF init(1) c, simplified]
  have eng: "100 \<le> k \<and> (\<forall>j. k - 100 \<le> j \<longrightarrow> j < k \<longrightarrow> lat_engaged (all ! j))"
    if "k < length all" "100 \<le> ec_engaged_counter (excess.state_at K all excessive_check_init k)" for k
  proof -
    have "int 100 \<le> ec_engaged_counter (fold (excessive_frame K) (take k all) excessive_check_init)"
      using that(2) by (simp add: excess.state_at_def)
    from engaged.last_counted [OF init(2) this] that(1) show ?thesis by auto
  qed
  show ?thesis using ex eng ty by blast
qed

definition demo_surge :: actuation_frame where
  "demo_surge = (demo_control\<lparr>cc_longActive := True\<rparr>, 0, demo_car\<lparr>cs_aEgo := 5\<rparr>,
     \<lparr>po_acceleration_x = 5, po_yaw_rate = 0\<rparr>)"

theorem excessive_actuation_sustained_witness:
  "long_excess demo_opendbc demo_surge \<and>
   snd (excessive_check_update demo_opendbc (demo_control\<lparr>cc_longActive := True\<rparr>) 0 (demo_car\<lparr>cs_aEgo := 5\<rparr>)
     \<lparr>po_acceleration_x = 5, po_yaw_rate = 0\<rparr>
     (fold (excessive_frame demo_opendbc) (replicate 25 demo_surge) excessive_check_init)) = Some EA_longitudinal"
proof -
  let ?ec = "fold (excessive_frame demo_opendbc) (replicate 25 demo_surge) excessive_check_init"
  have surge: "motion_valid demo_surge" "long_excess demo_opendbc demo_surge"
    by (simp_all add: motion_valid_def long_excess_def demo_surge_def demo_opendbc_def)
  have "ec_excessive_counter ?ec = ec_excessive_counter excessive_check_init + int (length (replicate 25 demo_surge))"
    by (rule excess.all_counted) (use surge in simp)
  then have "snd (excessive_check_update demo_opendbc (demo_control\<lparr>cc_longActive := True\<rparr>) 0 (demo_car\<lparr>cs_aEgo := 5\<rparr>)
     \<lparr>po_acceleration_x = 5, po_yaw_rate = 0\<rparr> ?ec) = Some EA_longitudinal"
    by (simp add: excessive_check_update_def demo_opendbc_def excessive_check_init_def Let_def)
  with excessive_actuation_sustained [OF this] show ?thesis by (simp add: demo_surge_def)
qed

end
