(* ===== verification/SelfdriveD.thy ===== *)
theory SelfdriveD
  imports MadsFacts AlertManager Icbm Actuation
begin

text \<open>
  \<open>selfdrive/selfdrived/selfdrived.py\<close>: the daemon that turns the car state and the health of every
  other process into events, runs the two engagement machines and shows one alert, 100 times a second.
  A frame is \<open>step\<close>: \<open>data_sample\<close>, \<open>update_events\<close>, the openpilot machine, MADS,
  \<open>update_alerts\<close>, \<open>publish_selfdriveState\<close>.  An exception is the result \<open>None\<close>.
  What only feeds the log (\<open>logged_comm_issue\<close>, \<open>not_running_prev\<close>) is left out; the offroad
  alerts the daemon raises are kept as a list.
\<close>

section \<open>State\<close>

text \<open>The process environment and what is read once at start.\<close>

record sd_env =
  se_opendbc :: opendbc
  se_REPLAY :: bool
  se_SIMULATION :: bool
  se_TESTING_CLOSET :: bool
  se_mici :: bool
  se_is_remote :: bool
  se_tested_channel :: bool
  se_short_branch :: string
  se_gps_service :: string
  se_CP :: car_params
  se_CP_SP :: car_params_sp

record selfdrived =
  sd_car_events :: car_events
  sd_car_events_sp :: bool
  sd_calibrated_pose :: "calibrated_pose option"
  sd_excessive_check :: excessive_check
  sd_excessive_actuation :: bool
  sd_is_metric :: bool
  sd_is_ldw_enabled :: bool
  sd_disengage_on_accelerator :: bool
  sd_CS_prev :: car_state
  sd_AM :: alert_manager
  sd_events :: events
  sd_events_sp :: events
  sd_initialized :: bool
  sd_enabled :: bool
  sd_active :: bool
  sd_enabled_prev :: bool
  sd_mismatch_counter :: int
  sd_cruise_mismatch_counter :: int
  sd_last_steering_pressed_frame :: int
  sd_distance_traveled :: real
  sd_last_functional_fan_frame :: int
  sd_events_prev :: "int list"
  sd_events_sp_prev :: "int list"
  sd_experimental_mode :: bool
  sd_personality :: int
  sd_recalibrating_seen :: bool
  sd_state_machine :: ss_machine
  sd_startup_event :: "int option"
  sd_mads :: mads
  sd_icbm :: icbm
  sd_cruise_helper :: cruise_helper
  sd_button_tracker :: button_tracker
  sd_params :: params
  sd_ignored :: "string list"
  sd_offroad_alerts :: "(string \<times> string) list"

definition camera_packets :: "string list" where
  "camera_packets = [''narrowRoadCameraState'', ''wideRoadCameraState'']"

definition sensor_packets :: "string list" where
  "sensor_packets = [''accelerometer'', ''gyroscope'']"

text \<open>The startup event chosen by the constructor.\<close>

definition startup_event :: "sd_env \<Rightarrow> int option" where
  "startup_event E =
     (let car_recognized = cp_brand (se_CP E) \<noteq> ''mock'';
          startup = Some (if se_is_remote E \<and> se_tested_channel E then EN_startup else EN_startupMaster);
          startup = (if se_mici E then None else startup)
      in if \<not> car_recognized then Some EN_startupNoCar
         else if cp_passive (se_CP E) then Some EN_startupNoControl
         else if cp_secOcRequired (se_CP E) \<and> \<not> cp_secOcKeyAvailable (se_CP E) then Some EN_startupNoSecOcKey
         else startup)"

text \<open>The constructor.  \<open>CS0\<close> is the empty \<open>CarState\<close> message; the parameters are read, cleaned
  up and sanitized as there.\<close>

definition selfdrived_init :: "sd_env \<Rightarrow> mads_consts \<Rightarrow> car_state \<Rightarrow> params \<Rightarrow> selfdrived option" where
  "selfdrived_init E KM CS0 p =
     (let CP = se_CP E;
          excessive = pr_values p ''Offroad_ExcessiveActuation'' \<noteq> None;
          is_metric = get_bool ''IsMetric'' p;
          ldw = get_bool ''IsLdwEnabled'' p;
          disengage = get_bool ''DisengageOnAccelerator'' p;
          car_recognized = cp_brand CP \<noteq> ''mock'';
          p = (if \<not> cp_alphaLongitudinalAvailable CP then remove_param ''AlphaLongitudinalEnabled'' p else p);
          p = (if \<not> cp_openpilotLongitudinalControl CP then remove_param ''ExperimentalMode'' p else p);
          events = ev_init (EVENTS (se_mici E));
          events = (if \<not> car_recognized then ev_add_static EN_carUnrecognized True events
                    else if cp_passive CP then ev_add_static EN_dashcamMode True events
                    else events)
      in do { (personality, p) \<leftarrow> get_sanitize_int_param ''LongitudinalPersonality'' 0 2 p;
              mads \<leftarrow> mads_init KM CP (se_CP_SP E) p;
              Some \<lparr> sd_car_events = car_events_init, sd_car_events_sp = False, sd_calibrated_pose = None,
                sd_excessive_check = excessive_check_init, sd_excessive_actuation = excessive,
                sd_is_metric = is_metric, sd_is_ldw_enabled = ldw, sd_disengage_on_accelerator = disengage,
                sd_CS_prev = CS0, sd_AM = am_init, sd_events = events,
                sd_events_sp = ev_init (EVENTS_SP (se_mici E)), sd_initialized = False, sd_enabled = False,
                sd_active = False, sd_enabled_prev = False, sd_mismatch_counter = 0, sd_cruise_mismatch_counter = 0,
                sd_last_steering_pressed_frame = 0, sd_distance_traveled = 0, sd_last_functional_fan_frame = 0,
                sd_events_prev = [], sd_events_sp_prev = [], sd_experimental_mode = False,
                sd_personality = personality, sd_recalibrating_seen = False, sd_state_machine = ss_init,
                sd_startup_event = startup_event E, sd_mads = mads, sd_icbm = icbm_init,
                sd_cruise_helper = cruise_helper_init, sd_button_tracker = tracker_init, sd_params = p,
                sd_ignored = [],
                sd_offroad_alerts = (if car_recognized then [] else [(''Offroad_CarUnrecognized'', [])]) \<rparr> })"

section \<open>\<open>data_sample\<close>\<close>

text \<open>The SubMaster with the services whose camera stream is missing ignored.  The three ignore lists
  of selfdrived's SubMaster are one list object, so what is appended to one is in all.\<close>

definition effective_inputs :: "selfdrived \<Rightarrow> sd_inputs \<Rightarrow> sd_inputs" where
  "effective_inputs sd inp =
     (let sm = in_sub inp
      in inp\<lparr>in_sub := sm\<lparr>subm_ignore_alive := subm_ignore_alive sm @ sd_ignored sd,
                            subm_ignore_average_freq := subm_ignore_average_freq sm @ sd_ignored sd,
                            subm_ignore_valid := subm_ignore_valid sm @ sd_ignored sd\<rparr>\<rparr>)"

text \<open>Initialisation: once all checks pass, or after six seconds.\<close>

definition ds_initialize :: "sd_env \<Rightarrow> sd_inputs \<Rightarrow> car_state \<Rightarrow> selfdrived \<Rightarrow> selfdrived" where
  "ds_initialize E inp CS sd =
     (let sm = in_sub (effective_inputs sd inp);
          all_valid = (cs_canValid CS \<and> all_checks sm []);
          timed_out = (6 < of_int (subm_frame sm) * DT_CTRL)
      in if all_valid \<or> timed_out \<or> (se_SIMULATION E \<and> \<not> se_REPLAY E) then
           (let sd = (if \<not> in_narrow_stream inp
                      then sd\<lparr>sd_ignored := sd_ignored sd @ [''narrowRoadCameraState'']\<rparr> else sd);
                sd = (if \<not> in_wide_stream inp
                      then sd\<lparr>sd_ignored := sd_ignored sd @ [''wideRoadCameraState'']\<rparr> else sd);
                sd = (if se_REPLAY E \<and> list_ex pa_controlsAllowed (in_pandaStates inp)
                      then sd\<lparr>sd_state_machine := (sd_state_machine sd)\<lparr>ss_state := OS_enabled\<rparr>\<rparr> else sd)
            in sd\<lparr>sd_initialized := True\<rparr>)
         else sd)"

text \<open>A panda with a safety mode that does not allow controls.\<close>

definition controls_denied :: "sd_inputs \<Rightarrow> bool" where
  "controls_denied inp \<longleftrightarrow>
     list_ex (\<lambda>ps. pa_safetyModel ps \<notin> set IGNORED_SAFETY_MODES \<and> \<not> pa_controlsAllowed ps) (in_pandaStates inp)"

definition data_sample :: "sd_env \<Rightarrow> sd_inputs \<Rightarrow> selfdrived \<Rightarrow> car_state \<times> selfdrived" where
  "data_sample E inp sd =
     (let CS = (case in_carState inp of Some cs \<Rightarrow> cs | None \<Rightarrow> sd_CS_prev sd);
          sd = (if \<not> sd_initialized sd then ds_initialize E inp CS sd else sd);
          sd = (if \<not> sd_enabled sd then sd\<lparr>sd_mismatch_counter := 0\<rparr> else sd);
          sd = (if sd_enabled sd \<and> controls_denied inp
                then sd\<lparr>sd_mismatch_counter := sd_mismatch_counter sd + 1\<rparr> else sd)
      in (CS, sd))"

section \<open>\<open>update_events\<close>\<close>

text \<open>The source is one long method; its parts below follow its order.  \<open>sm\<close> is the SubMaster.\<close>

definition add_ev :: "int \<Rightarrow> selfdrived \<Rightarrow> selfdrived" where
  "add_ev e sd = sd\<lparr>sd_events := ev_add e (sd_events sd)\<rparr>"

definition add_evs :: "(bool \<times> int) list \<Rightarrow> selfdrived \<Rightarrow> selfdrived" where
  "add_evs cs sd = sd\<lparr>sd_events := add_all cs (sd_events sd)\<rparr>"

definition add_evs_sp :: "(bool \<times> int) list \<Rightarrow> selfdrived \<Rightarrow> selfdrived" where
  "add_evs_sp cs sd = sd\<lparr>sd_events_sp := add_all cs (sd_events_sp sd)\<rparr>"

definition ue_start :: "sd_inputs \<Rightarrow> selfdrived \<Rightarrow> selfdrived" where
  "ue_start inp sd =
     (let sd = sd\<lparr>sd_events := ev_clear (sd_events sd), sd_events_sp := ev_clear (sd_events_sp sd)\<rparr>;
          sd = (if ct_debugState (in_controlsState inp)
                then (add_ev EN_joystickDebug sd)\<lparr>sd_startup_event := None\<rparr> else sd);
          sd = (if 0 < subm_recv_frame (in_sub inp) ''alertDebug''
                then (add_ev EN_longitudinalManeuver sd)\<lparr>sd_startup_event := None\<rparr> else sd)
      in (case sd_startup_event sd of
            Some e \<Rightarrow> (add_ev e sd)\<lparr>sd_startup_event := None\<rparr>
          | None \<Rightarrow> sd))"

definition resume_blocked :: "car_params \<Rightarrow> car_state \<Rightarrow> bool" where
  "resume_blocked CP CS \<longleftrightarrow> \<not> cp_pcmCruise CP \<and> 250 < cs_vCruise CS \<and>
     list_ex (\<lambda>be. be_type be \<in> {BT_accelCruise, BT_resumeCruise}) (cs_buttonEvents CS)"

text \<open>Rising edge of accelerator or brake, or the brake while moving.\<close>

definition pedal_pressed :: "bool \<Rightarrow> car_state \<Rightarrow> car_state \<Rightarrow> bool" where
  "pedal_pressed disengage_on_accelerator CS CS_prev \<longleftrightarrow>
     cs_gasPressed CS \<and> \<not> cs_gasPressed CS_prev \<and> disengage_on_accelerator \<or>
     cs_brakePressed CS \<and> (\<not> cs_brakePressed CS_prev \<or> \<not> cs_standstill CS) \<or>
     cs_regenBraking CS \<and> (\<not> cs_regenBraking CS_prev \<or> \<not> cs_standstill CS)"

definition ue_car :: "sd_env \<Rightarrow> sd_inputs \<Rightarrow> car_state \<Rightarrow> selfdrived \<Rightarrow> selfdrived option" where
  "ue_car E inp CS sd =
     (let CP = se_CP E;
          sd = add_evs [(resume_blocked CP CS, EN_resumeBlocked)] sd;
          sd = (if \<not> cp_notCar CP
                then sd\<lparr>sd_events_sp := ev_add_from_msg (lp_events (in_planSP inp)) (sd_events_sp sd)\<rparr> else sd)
      in if cs_canValid CS then
           (let (vc, car_ev) = car_events_update (se_mici E) (se_opendbc E) CP CS (sd_CS_prev sd) (in_carControl inp)
                                 (sd_car_events sd);
                ev = ev_add_from_msg (map fst (ev_to_msg (EVENTS (se_mici E)) car_ev)) (sd_events sd)
            in do { ((low, ev), car_sp) \<leftarrow>
                      car_specific_update (se_mici E) (se_opendbc E) CP (se_CP_SP E) CS (sd_car_events_sp sd, ev);
                    let sp = ev_add_from_msg (map fst (ev_to_msg (EVENTS_SP (se_mici E)) car_sp)) (sd_events_sp sd);
                    let sd = sd\<lparr>sd_car_events := vc, sd_car_events_sp := low, sd_events := ev, sd_events_sp := sp\<rparr>;
                    Some (add_evs
                      [(cp_notCar CP \<and> py_int (2 / DT_CTRL) < subm_frame (in_sub inp) \<and> sd_initialized sd, EN_pcmEnable),
                       (pedal_pressed (sd_disengage_on_accelerator sd) CS (sd_CS_prev sd), EN_pedalPressed)] sd) })
         else Some sd)"

text \<open>Temperature, disk, memory, fan, calibration and lane departure.\<close>

definition ue_device :: "sd_env \<Rightarrow> sd_inputs \<Rightarrow> selfdrived \<Rightarrow> selfdrived" where
  "ue_device E inp sd =
     (let ds = in_deviceState inp; ps = in_peripheralState inp; frame = subm_frame (in_sub inp);
          cal = xc_calStatus (in_extrinsics inp);
          sd = add_evs
            [(thermal_ord TS_overheated \<le> thermal_ord (ds_thermalStatus ds), EN_overheat),
             (ds_freeSpacePercent ds < 7 \<and> \<not> se_SIMULATION E, EN_outOfSpace),
             (90 < ds_memoryUsagePercent ds \<and> \<not> se_SIMULATION E, EN_lowMemory)] sd;
          sd = (if \<not> ps_pandaType_unknown ps then
                  (if ps_fanSpeedRpm ps < 500 \<and> 50 < ds_fanSpeedPercentDesired ds
                   then add_evs [(15 < of_int (frame - sd_last_functional_fan_frame sd) * DT_CTRL, EN_fanMalfunction)] sd
                   else sd\<lparr>sd_last_functional_fan_frame := frame\<rparr>)
                else sd);
          sd = (if cal \<noteq> CAL_calibrated then
                  (if cal = CAL_uncalibrated then add_ev EN_calibrationIncomplete sd
                   else if cal = CAL_recalibrating then
                     add_ev EN_calibrationRecalibrating
                       (sd\<lparr>sd_offroad_alerts := (if \<not> sd_recalibrating_seen sd
                             then sd_offroad_alerts sd @ [(''Offroad_Recalibration'', [])] else sd_offroad_alerts sd),
                          sd_recalibrating_seen := True\<rparr>)
                   else add_ev EN_calibrationInvalid sd)
                else sd)
      in add_evs [(sd_is_ldw_enabled sd \<and> subm_valid (in_sub inp) ''driverAssistance'' \<and>
                   (in_leftLaneDeparture inp \<or> in_rightLaneDeparture inp), EN_ldw)] sd)"

fun ea_name :: "excessive_actuation_type \<Rightarrow> string" where
  "ea_name EA_longitudinal = ''longitudinal''"
| "ea_name EA_lateral = ''lateral''"

definition ue_actuation :: "sd_env \<Rightarrow> sd_inputs \<Rightarrow> car_state \<Rightarrow> selfdrived \<Rightarrow> selfdrived" where
  "ue_actuation E inp CS sd =
     (let sd = (if subm_updated (in_sub inp) ''deviceMotion''
                then sd\<lparr>sd_calibrated_pose := Some (in_calibrated_pose inp)\<rparr> else sd);
          sd = (case sd_calibrated_pose sd of
                  Some pose \<Rightarrow>
                    (if \<not> cp_notCar (se_CP E) then
                       (let (ec, excessive) = excessive_check_update (se_opendbc E) (in_carControl inp)
                              (vp_roll (in_vehicleParameters inp)) CS pose (sd_excessive_check sd);
                            sd = sd\<lparr>sd_excessive_check := ec\<rparr>
                        in (case excessive of
                              Some t \<Rightarrow> (if \<not> sd_excessive_actuation sd
                                 then sd\<lparr>sd_offroad_alerts := sd_offroad_alerts sd @ [(''Offroad_ExcessiveActuation'', ea_name t)],
                                         sd_excessive_actuation := True\<rparr> else sd)
                            | None \<Rightarrow> sd))
                     else sd)
                | None \<Rightarrow> sd)
      in add_evs [(sd_excessive_actuation sd, EN_excessiveActuation)] sd)"

definition ue_lane :: "sd_inputs \<Rightarrow> car_state \<Rightarrow> selfdrived \<Rightarrow> selfdrived" where
  "ue_lane inp CS sd =
     (let mv = in_modelV2 inp; mdv2sp = in_modelDataV2SP inp; direction = mv_laneChangeDirection mv;
          sd =
            (if mv_laneChangeState mv = LCS_preLaneChange then
               (if cs_leftBlindspot CS \<and> direction = LCD_left \<or> cs_rightBlindspot CS \<and> direction = LCD_right
                then add_ev EN_laneChangeBlocked sd
                else if md_leftLaneChangeEdgeBlock mdv2sp \<and> direction = LCD_left \<or>
                        md_rightLaneChangeEdgeBlock mdv2sp \<and> direction = LCD_right
                then add_evs_sp [(True, SP_laneChangeRoadEdge)] sd
                else if direction = LCD_left then add_ev EN_preLaneChangeLeft sd
                else add_ev EN_preLaneChangeRight sd)
             else if mv_laneChangeState mv \<in> {LCS_laneChangeStarting, LCS_laneChangeFinishing}
             then add_ev EN_laneChange sd
             else sd)
      in add_evs_sp [(md_laneTurnDirection mdv2sp = TD_turnLeft, SP_laneTurnLeft),
                     (md_laneTurnDirection mdv2sp = TD_turnRight, SP_laneTurnRight)] sd)"

text \<open>Panda \<open>i\<close> against the \<open>i\<close>-th safety configuration.\<close>

definition safety_mismatch :: "car_params \<Rightarrow> nat \<Rightarrow> panda_state \<Rightarrow> bool" where
  "safety_mismatch CP i ps =
     (if i < length (cp_safetyConfigs CP) then
        pa_safetyModel ps \<noteq> sc_safetyModel (cp_safetyConfigs CP ! i) \<or>
        pa_safetyParam ps \<noteq> sc_safetyParam (cp_safetyConfigs CP ! i) \<or>
        pa_alternativeExperience ps \<noteq> cp_alternativeExperience CP
      else pa_safetyModel ps \<notin> set IGNORED_SAFETY_MODES)"

definition panda_conditions :: "sd_env \<Rightarrow> sd_inputs \<Rightarrow> int \<Rightarrow> (bool \<times> int) list" where
  "panda_conditions E inp mismatch_counter =
     concat (map (\<lambda>(i, ps).
       [(safety_mismatch (se_CP E) i ps \<and> 10 < of_int (subm_frame (in_sub inp)) * DT_CTRL \<or>
           pa_safetyRxChecksInvalid ps \<or> 200 \<le> mismatch_counter, EN_controlsMismatch),
        (pa_relayMalfunction ps, EN_relayMalfunction)])
       (zip [0..<length (in_pandaStates inp)] (in_pandaStates inp)))"

definition ue_pandas :: "sd_env \<Rightarrow> sd_inputs \<Rightarrow> selfdrived \<Rightarrow> selfdrived" where
  "ue_pandas E inp sd = add_evs (panda_conditions E inp (sd_mismatch_counter sd)) sd"

text \<open>Hardware and system malfunctions, and the generic communication issue when no specific event
  explains it.\<close>

definition not_running :: "sd_inputs \<Rightarrow> bool" where
  "not_running inp \<longleftrightarrow> list_ex (\<lambda>pr. \<not> pr_running pr \<and> pr_shouldBeRunning pr) (in_processes inp)"

definition system_conditions :: "sd_env \<Rightarrow> sd_inputs \<Rightarrow> car_state \<Rightarrow> (bool \<times> int) list" where
  "system_conditions E inp CS =
     (let sm = in_sub inp; re = in_radarErrors inp; long = cp_openpilotLongitudinalControl (se_CP E);
          process = subm_recv_frame sm ''managerState'' \<noteq> 0 \<and> not_running inp;
          cameras = \<not> process \<and> \<not> se_SIMULATION E \<and> \<not> in_rk_lagging inp
      in [(process, EN_processNotRunning),
          (cameras \<and> \<not> all_alive sm camera_packets, EN_cameraMalfunction),
          (cameras \<and> all_alive sm camera_packets \<and> \<not> all_freq_ok sm camera_packets, EN_cameraFrameRate),
          (\<not> se_REPLAY E \<and> in_rk_lagging inp, EN_selfdrivedLagging),
          (long \<and> re_canError re, EN_canError),
          (long \<and> \<not> re_canError re \<and> re_radarUnavailableTemporary re, EN_radarTempUnavailable),
          (long \<and> \<not> re_canError re \<and> \<not> re_radarUnavailableTemporary re \<and> list_ex id (re_others re), EN_radarFault),
          (cs_canTimeout CS, EN_canBusMissing),
          (\<not> cs_canTimeout CS \<and> \<not> cs_canValid CS, EN_canError)])"

definition ue_system :: "sd_env \<Rightarrow> sd_inputs \<Rightarrow> car_state \<Rightarrow> selfdrived \<Rightarrow> selfdrived" where
  "ue_system E inp CS sd =
     (let sm = in_sub inp; m = EVENTS (se_mici E);
          num_events = ev_len (sd_events sd);
          sd = add_evs (system_conditions E inp CS) sd;
          has_disable_events = contains_et m NO_ENTRY (sd_events sd) \<and>
            (contains_et m SOFT_DISABLE (sd_events sd) \<or> contains_et m IMMEDIATE_DISABLE (sd_events sd));
          no_system_errors = \<not> has_disable_events \<or> ev_len (sd_events sd) = num_events
      in if \<not> all_checks sm [] \<and> no_system_errors then
           (if \<not> all_alive sm [] then add_ev EN_commIssue sd
            else if \<not> all_freq_ok sm [] then add_ev EN_commIssueAvgFreq sd
            else add_ev EN_commIssue sd)
         else sd)"

definition ue_localization :: "sd_env \<Rightarrow> sd_inputs \<Rightarrow> car_state \<Rightarrow> selfdrived \<Rightarrow> selfdrived" where
  "ue_localization E inp CS sd =
     (let CP = se_CP E; sm = in_sub inp;
          sd = (if \<not> cp_notCar CP then
                  add_evs [(\<not> in_posenetOK inp, EN_posenetInvalid),
                           (\<not> in_inputsOK inp, EN_locationdTemporaryError),
                           (\<not> vp_valid (in_vehicleParameters inp) \<and> xc_calStatus (in_extrinsics inp) = CAL_calibrated \<and>
                            \<not> se_TESTING_CLOSET E \<and> (\<not> se_SIMULATION E \<or> se_REPLAY E), EN_paramsdTemporaryError)] sd
                else sd);
          sd = add_evs [(list_ex (\<lambda>s. 10 < of_int (subm_frame sm - subm_recv_frame sm s) * DT_CTRL) sensor_packets,
                         EN_sensorDataInvalid)] sd
      in if \<not> se_REPLAY E then
           (let cruise_mismatch = cr_enabled (cs_cruiseState CS) \<and> (\<not> sd_enabled sd \<or> \<not> cp_pcmCruise CP);
                sd = sd\<lparr>sd_cruise_mismatch_counter := (if cruise_mismatch then sd_cruise_mismatch_counter sd + 1 else 0)\<rparr>
            in add_evs [(py_int (6 / DT_CTRL) < sd_cruise_mismatch_counter sd, EN_cruiseMismatch)] sd)
         else sd)"

text \<open>Steering saturation.  The division raises when the measured acceleration is exactly \<open>-1e-3\<close>.\<close>

definition ue_saturation :: "sd_env \<Rightarrow> sd_inputs \<Rightarrow> car_state \<Rightarrow> selfdrived \<Rightarrow> selfdrived option" where
  "ue_saturation E inp CS sd =
     (let frame = subm_frame (in_sub inp); cst = in_controlsState inp;
          sd = (if cs_steeringPressed CS then sd\<lparr>sd_last_steering_pressed_frame := frame\<rparr> else sd);
          recent_steer_pressed = (of_int (frame - sd_last_steering_pressed_frame sd) * DT_CTRL < 2)
      in if ct_lac_active cst \<and> \<not> recent_steer_pressed \<and> \<not> cp_notCar (se_CP E) then
           (let clipped_speed = max (cs_vEgo CS) (3 / 10);
                actual_lateral_accel = ct_curvature cst * clipped_speed ^ 2;
                desired_lateral_accel = mv_desiredCurvature (in_modelV2 inp) * clipped_speed ^ 2
            in if 1 / 1000 + actual_lateral_accel = 0 then None
               else
                 (let undershooting = (12 / 10 < \<bar>desired_lateral_accel\<bar> / \<bar>1 / 1000 + actual_lateral_accel\<bar>);
                      turning = (1 < \<bar>desired_lateral_accel\<bar>)
                  in Some (add_evs [(undershooting \<and> turning \<and> ct_lac_saturated cst, EN_steerSaturated)] sd)))
         else Some sd)"

definition ue_fcw_gps :: "sd_env \<Rightarrow> sd_inputs \<Rightarrow> car_state \<Rightarrow> selfdrived \<Rightarrow> selfdrived" where
  "ue_fcw_gps E inp CS sd =
     (let CP = se_CP E; sm = in_sub inp; frame = subm_frame sm; gps = subm_recv_frame sm (se_gps_service E);
          stock_long_is_braking = (sd_enabled sd \<and> \<not> cp_openpilotLongitudinalControl CP \<and> cs_aEgo CS < - 125 / 100);
          model_fcw = (mv_hardBrakePredicted (in_modelV2 inp) \<and> \<not> cs_brakePressed CS \<and> \<not> stock_long_is_braking);
          planner_fcw = (in_plan_fcw inp \<and> sd_enabled sd);
          sd = add_evs [((planner_fcw \<or> model_fcw) \<and> \<not> cp_notCar CP, EN_fcw)] sd;
          gps_ok = (0 < gps \<and> of_int (frame - gps) * DT_CTRL < 2);
          sd = add_evs [(\<not> gps_ok \<and> in_inputsOK inp \<and> 1500 < sd_distance_traveled sd, EN_noGps)] sd;
          sd = (if gps_ok then sd\<lparr>sd_distance_traveled := 0\<rparr> else sd);
          sd = sd\<lparr>sd_distance_traveled := sd_distance_traveled sd + \<bar>cs_vEgo CS\<bar> * DT_CTRL\<rparr>
      in add_evs [((\<not> se_SIMULATION E \<or> se_REPLAY E) \<and> 1 < mv_frameDropPerc (in_modelV2 inp), EN_modeldLagging)] sd)"

text \<open>The muted event, the distance button (experimental mode, personality) and ICBM.\<close>

definition ue_personality :: "sd_env \<Rightarrow> car_state \<Rightarrow> selfdrived \<Rightarrow> selfdrived" where
  "ue_personality E CS sd =
     (if cp_openpilotLongitudinalControl (se_CP E) \<and>
         list_ex (\<lambda>be. \<not> be_pressed be \<and> be_type be = BT_gapAdjustCruise) (cs_buttonEvents CS)
      then (let sd = (if \<not> ch_experimental_mode_switched (sd_cruise_helper sd)
                      then (let pers = (sd_personality sd - 1) mod 3
                            in add_ev EN_personalityChanged
                                 (sd\<lparr>sd_personality := pers,
                                     sd_params := put_param ''LongitudinalPersonality'' (PInt pers) (sd_params sd)\<rparr>))
                      else sd)
            in sd\<lparr>sd_cruise_helper := (sd_cruise_helper sd)\<lparr>ch_experimental_mode_switched := False\<rparr>\<rparr>)
      else sd)"

definition ue_buttons :: "sd_env \<Rightarrow> sd_inputs \<Rightarrow> car_state \<Rightarrow> selfdrived \<Rightarrow> selfdrived option" where
  "ue_buttons E inp CS sd =
     do { ev \<leftarrow> (if cs_gearShifter CS = Gear_park \<and> ma_enabled (sd_mads sd)
                then ev_remove EN_canBusMissing (sd_events sd) else Some (sd_events sd));
          let sd = sd\<lparr>sd_events := ev\<rparr>;
          let (ch, p, sp) = cruise_helper_update (se_CP E) CS (sd_experimental_mode sd)
                              (sd_cruise_helper sd, sd_params sd, sd_events_sp sd);
          let sd = ue_personality E CS (sd\<lparr>sd_cruise_helper := ch, sd_params := p, sd_events_sp := sp\<rparr>);
          Some (sd\<lparr>sd_icbm := icbm_run (se_opendbc E) (se_CP_SP E) CS (in_carControl inp) (in_planSP inp)
                               (sd_is_metric sd) (sd_icbm sd)\<rparr>) }"

definition update_events :: "sd_env \<Rightarrow> sd_inputs \<Rightarrow> car_state \<Rightarrow> selfdrived \<Rightarrow> selfdrived option" where
  "update_events E inp CS sd =
     (let sd = ue_start inp sd
      in if \<not> sd_initialized sd then Some (add_ev EN_selfdriveInitializing sd)
         else
           (let sd = add_evs [(subm_updated (in_sub inp) ''userBookmark'', EN_userBookmark)] sd
            in if cp_passive (se_CP E) then Some sd
               else do { sd \<leftarrow> ue_car E inp CS sd;
                         let sd = ue_device E inp sd;
                         let sd = ue_actuation E inp CS sd;
                         let sd = ue_lane inp CS sd;
                         let sd = ue_pandas E inp sd;
                         let sd = ue_system E inp CS sd;
                         let sd = ue_localization E inp CS sd;
                         sd \<leftarrow> ue_saturation E inp CS sd;
                         let sd = ue_fcw_gps E inp CS sd;
                         ue_buttons E inp CS sd }))"

section \<open>\<open>update_alerts\<close>\<close>

fun personality_name :: "int \<Rightarrow> string option" where
  "personality_name n =
     (if n = 0 then Some ''aggressive'' else if n = 1 then Some ''standard'' else if n = 2 then Some ''relaxed'' else None)"

definition clear_event_types :: "selfdrived \<Rightarrow> ET set" where
  "clear_event_types sd =
     (if WARNING \<notin> set (ss_current_alert_types (sd_state_machine sd)) then {WARNING} else {}) \<union>
     (if sd_enabled sd then {NO_ENTRY} else {})"

definition sd_callback_args :: "sd_env \<Rightarrow> sd_inputs \<Rightarrow> car_state \<Rightarrow> string \<Rightarrow> selfdrived \<Rightarrow> callback_args" where
  "sd_callback_args E inp CS pers sd =
     \<lparr> ca_CP = se_CP E, ca_CS = CS, ca_sm = inp, ca_metric = sd_is_metric sd,
       ca_soft_disable_time = ss_soft_disable_timer (sd_state_machine sd), ca_personality = pers,
       ca_mici = se_mici E, ca_short_branch = se_short_branch E, ca_REPLAY = se_REPLAY E \<rparr>"

definition update_alerts :: "sd_env \<Rightarrow> sd_inputs \<Rightarrow> car_state \<Rightarrow> selfdrived \<Rightarrow> selfdrived option" where
  "update_alerts E inp CS sd =
     do { let types = ss_current_alert_types (sd_state_machine sd);
          pers \<leftarrow> personality_name (sd_personality sd);
          let args = sd_callback_args E inp CS pers sd;
          alerts \<leftarrow> ev_create_alerts (EVENTS (se_mici E)) EVENT_NAME types args (sd_events sd);
          alerts_sp \<leftarrow> ev_create_alerts (EVENTS_SP (se_mici E)) EVENT_NAME_SP types args (sd_events_sp sd);
          let frame = subm_frame (in_sub inp);
          Some (sd\<lparr>sd_AM := process_alerts frame (clear_event_types sd) (add_many frame (alerts @ alerts_sp) (sd_AM sd))\<rparr>) }"

section \<open>\<open>publish_selfdriveState\<close>\<close>

text \<open>What is sent in a frame: \<open>selfdriveState\<close>, \<open>selfdriveStateSP\<close>, and the two event lists when they
  changed or once a second.\<close>

record publication =
  pb_enabled :: bool
  pb_active :: bool
  pb_state :: openpilot_state
  pb_engageable :: bool
  pb_experimentalMode :: bool
  pb_personality :: int
  pb_alert :: alert
  pb_mads_state :: mads_state
  pb_mads_enabled :: bool
  pb_mads_active :: bool
  pb_mads_available :: bool
  pb_icbm_state :: icbm_state
  pb_icbm_sendButton :: send_button_state
  pb_icbm_vTarget :: int
  pb_buttonsPressed :: int
  pb_buttonsReleaseToggle :: int
  pb_onroadEvents :: "(int \<times> ET list) list option"
  pb_onroadEventsSP :: "(int \<times> ET list) list option"

definition publish_selfdriveState :: "sd_env \<Rightarrow> sd_inputs \<Rightarrow> selfdrived \<Rightarrow> publication \<times> selfdrived" where
  "publish_selfdriveState E inp sd =
     (let m = EVENTS (se_mici E); m_sp = EVENTS_SP (se_mici E);
          every_second = (subm_frame (in_sub inp) mod py_int (1 / DT_CTRL) = 0);
          pb = \<lparr> pb_enabled = sd_enabled sd, pb_active = sd_active sd, pb_state = ss_state (sd_state_machine sd),
             pb_engageable = (\<not> contains_et m NO_ENTRY (sd_events sd)),
             pb_experimentalMode = sd_experimental_mode sd, pb_personality = sd_personality sd,
             pb_alert = am_current (sd_AM sd),
             pb_mads_state = ma_state (sd_mads sd), pb_mads_enabled = ma_enabled (sd_mads sd),
             pb_mads_active = ma_active (sd_mads sd), pb_mads_available = ma_enabled_toggle (sd_mads sd),
             pb_icbm_state = ic_state (sd_icbm sd), pb_icbm_sendButton = ic_cruise_button (sd_icbm sd),
             pb_icbm_vTarget = ic_v_target (sd_icbm sd),
             pb_buttonsPressed = bt_pressed (sd_button_tracker sd),
             pb_buttonsReleaseToggle = bt_release_toggle (sd_button_tracker sd),
             pb_onroadEvents = (if every_second \<or> ev_events (sd_events sd) \<noteq> sd_events_prev sd
                                then Some (ev_to_msg m (sd_events sd)) else None),
             pb_onroadEventsSP = (if every_second \<or> ev_events (sd_events_sp sd) \<noteq> sd_events_sp_prev sd
                                then Some (ev_to_msg m_sp (sd_events_sp sd)) else None) \<rparr>
      in (pb, sd\<lparr>sd_events_prev := ev_events (sd_events sd), sd_events_sp_prev := ev_events (sd_events_sp sd)\<rparr>))"

section \<open>\<open>step\<close> and \<open>params_thread\<close>\<close>

definition sd_mads_env :: "sd_env \<Rightarrow> sd_inputs \<Rightarrow> car_state \<Rightarrow> selfdrived \<Rightarrow> mads_env" where
  "sd_mads_env E inp CS sd =
     \<lparr> me_CP = se_CP E, me_CS = CS, me_CS_prev = sd_CS_prev sd, me_enabled = sd_enabled sd,
       me_enabled_prev = sd_enabled_prev sd, me_initialized = sd_initialized sd, me_pandaStates = in_pandaStates inp \<rparr>"

text \<open>The openpilot machine and MADS.\<close>

definition sd_engage :: "sd_env \<Rightarrow> selfdrived \<Rightarrow> selfdrived" where
  "sd_engage E sd =
     (if \<not> cp_passive (se_CP E) \<and> sd_initialized sd
      then (let (st, enabled, active) = ss_update (EVENTS (se_mici E)) (sd_events sd) (sd_state_machine sd)
            in sd\<lparr>sd_state_machine := st, sd_enabled := enabled, sd_active := active\<rparr>)
      else sd)"

definition sd_run_mads :: "sd_env \<Rightarrow> sd_inputs \<Rightarrow> car_state \<Rightarrow> selfdrived \<Rightarrow> selfdrived option" where
  "sd_run_mads E inp CS sd =
     (if \<not> cp_notCar (se_CP E)
      then do { (ma, ss, evs, enabled_prev) \<leftarrow>
                  mads_update (se_mici E) (sd_mads_env E inp CS sd)
                    (sd_mads sd, sd_state_machine sd, (sd_events sd, sd_events_sp sd));
                Some (sd\<lparr>sd_mads := ma, sd_state_machine := ss, sd_events := fst evs, sd_events_sp := snd evs,
                         sd_enabled_prev := enabled_prev\<rparr>) }
      else Some sd)"

definition sd_step :: "sd_env \<Rightarrow> sd_inputs \<Rightarrow> selfdrived \<Rightarrow> (publication \<times> selfdrived) option" where
  "sd_step E inp0 sd0 =
     (let (CS, sd) = data_sample E inp0 sd0;
          inp = effective_inputs sd inp0
      in do { sd \<leftarrow> update_events E inp CS sd;
              let sd = sd_engage E sd;
              sd \<leftarrow> sd_run_mads E inp CS sd;
              sd \<leftarrow> update_alerts E inp CS sd;
              let sd = sd\<lparr>sd_button_tracker := tracker_update (se_opendbc E) (cs_buttonEvents CS) (sd_button_tracker sd)\<rparr>;
              let (pb, sd) = publish_selfdriveState E inp sd;
              Some (pb, sd\<lparr>sd_CS_prev := CS\<rparr>) })"

text \<open>One round of the thread that re-reads the parameters, against the current store.\<close>

definition params_thread_round :: "sd_env \<Rightarrow> params \<Rightarrow> selfdrived \<Rightarrow> selfdrived option" where
  "params_thread_round E p sd =
     do { personality \<leftarrow> get_int ''LongitudinalPersonality'' p;
          Some (sd\<lparr>sd_params := p,
             sd_is_metric := get_bool ''IsMetric'' p,
             sd_is_ldw_enabled := get_bool ''IsLdwEnabled'' p,
             sd_disengage_on_accelerator := get_bool ''DisengageOnAccelerator'' p,
             sd_experimental_mode := get_bool ''ExperimentalMode'' p \<and> cp_openpilotLongitudinalControl (se_CP E),
             sd_personality := personality,
             sd_mads := mads_read_params p (sd_mads sd)\<rparr>) }"

end
