(* ===== verification/SelfdriveFacts.thy ===== *)
theory SelfdriveFacts
  imports SelfdriveD MadsProps EventProps
begin

text \<open>
  Lemmas on selfdrived: what every part of \<open>update_events\<close> preserves (well-formed stores, the events
  already there, the fields it does not own), the invariant of the daemon, and a frame as a whole in
  terms of the events that reach the state machine.
\<close>

section \<open>Parts of \<open>update_events\<close>\<close>

definition sd_has :: "int \<Rightarrow> selfdrived \<Rightarrow> bool" where
  "sd_has e sd \<longleftrightarrow> ev_has e (sd_events sd)"

definition sd_wf :: "bool \<Rightarrow> selfdrived \<Rightarrow> bool" where
  "sd_wf mici sd \<longleftrightarrow> stores_wf mici (sd_events sd, sd_events_sp sd)"

text \<open>Events that nothing takes out of the store before the state machine runs.\<close>

definition lasting :: "int \<Rightarrow> bool" where
  "lasting e \<longleftrightarrow> e \<notin> {EN_belowSteerSpeed, EN_resumeRequired, EN_canBusMissing}"

text \<open>The missing bus is muted in Park while MADS is on.\<close>

definition unmuted :: "car_state \<Rightarrow> selfdrived \<Rightarrow> int \<Rightarrow> bool" where
  "unmuted CS sd e \<longleftrightarrow> e = EN_canBusMissing \<and> \<not> (cs_gearShifter CS = Gear_park \<and> ma_enabled (sd_mads sd))"

text \<open>The fields \<open>update_events\<close> does not assign.\<close>

definition sd_core :: "selfdrived \<Rightarrow> _" where
  "sd_core sd = (sd_initialized sd, sd_enabled sd, sd_active sd, sd_state_machine sd, sd_mads sd, sd_AM sd,
     sd_mismatch_counter sd, sd_enabled_prev sd, sd_CS_prev sd, sd_disengage_on_accelerator sd,
     sd_button_tracker sd, sd_startup_event sd, sd_ignored sd)"

definition grows :: "bool \<Rightarrow> selfdrived \<Rightarrow> selfdrived \<Rightarrow> bool" where
  "grows mici sd sd' \<longleftrightarrow>
     (sd_wf mici sd \<longrightarrow> sd_wf mici sd') \<and>
     (\<forall>e. lasting e \<longrightarrow> sd_has e sd \<longrightarrow> sd_has e sd') \<and>
     sd_core sd' = sd_core sd \<and>
     (0 \<le> sd_personality sd \<and> sd_personality sd \<le> 2 \<longrightarrow> 0 \<le> sd_personality sd' \<and> sd_personality sd' \<le> 2) \<and>
     (sd_excessive_actuation sd \<longrightarrow> sd_excessive_actuation sd')"

lemma grows_refl [simp]: "grows mici sd sd"
  by (simp add: grows_def)

lemma grows_trans: "grows mici a b \<Longrightarrow> grows mici b c \<Longrightarrow> grows mici a c"
  by (simp add: grows_def)

lemma grows_add_evs:
  "grows mici a sd \<Longrightarrow> list_all (\<lambda>(c, e). known_event (EVENTS mici) e) cs \<Longrightarrow> grows mici a (add_evs cs sd)"
  by (simp add: grows_def sd_wf_def stores_wf_def sd_has_def sd_core_def add_evs_def add_all_has add_all_wf)

lemma grows_add_evs_sp:
  "grows mici a sd \<Longrightarrow> list_all (\<lambda>(c, e). known_event (EVENTS_SP mici) e) cs \<Longrightarrow> grows mici a (add_evs_sp cs sd)"
  by (simp add: grows_def sd_wf_def stores_wf_def sd_has_def sd_core_def add_evs_sp_def add_all_wf)

lemma grows_add_ev: "grows mici a sd \<Longrightarrow> known_event (EVENTS mici) e \<Longrightarrow> grows mici a (add_ev e sd)"
  by (simp add: grows_def sd_wf_def stores_wf_def sd_has_def sd_core_def add_ev_def ev.has_add ev_wf_add_static)

text \<open>Fields the relation does not speak of.\<close>

lemma grows_fields:
  "grows mici a sd \<Longrightarrow> grows mici a (sd\<lparr>sd_last_functional_fan_frame := x1\<rparr>)"
  "grows mici a sd \<Longrightarrow> grows mici a (sd\<lparr>sd_offroad_alerts := x2, sd_recalibrating_seen := x3\<rparr>)"
  "grows mici a sd \<Longrightarrow> grows mici a (sd\<lparr>sd_calibrated_pose := x4\<rparr>)"
  "grows mici a sd \<Longrightarrow> grows mici a (sd\<lparr>sd_excessive_check := x5\<rparr>)"
  "grows mici a sd \<Longrightarrow> grows mici a (sd\<lparr>sd_offroad_alerts := x6, sd_excessive_actuation := True\<rparr>)"
  "grows mici a sd \<Longrightarrow> grows mici a (sd\<lparr>sd_cruise_mismatch_counter := x7\<rparr>)"
  "grows mici a sd \<Longrightarrow> grows mici a (sd\<lparr>sd_last_steering_pressed_frame := x8\<rparr>)"
  "grows mici a sd \<Longrightarrow> grows mici a (sd\<lparr>sd_distance_traveled := x9\<rparr>)"
  "grows mici a sd \<Longrightarrow> grows mici a (sd\<lparr>sd_icbm := x10\<rparr>)"
  "grows mici a sd \<Longrightarrow> grows mici a (sd\<lparr>sd_cruise_helper := x11\<rparr>)"
  by (simp_all add: grows_def sd_wf_def stores_wf_def sd_has_def sd_core_def)

lemma grows_personality:
  "grows mici a sd \<Longrightarrow> grows mici a (sd\<lparr>sd_personality := (n - 1) mod 3, sd_params := p\<rparr>)"
proof -
  have "0 \<le> (n - 1) mod 3 \<and> (n - 1) mod 3 \<le> 2" for n :: int
    by presburger
  then show "grows mici a sd \<Longrightarrow> ?thesis"
    by (simp add: grows_def sd_wf_def stores_wf_def sd_has_def sd_core_def)
qed

lemma grows_if: "grows mici a x \<Longrightarrow> grows mici a y \<Longrightarrow> grows mici a (if b then x else y)"
  by simp

lemma grows_option:
  "grows mici a x \<Longrightarrow> (\<And>v. grows mici a (f v)) \<Longrightarrow> grows mici a (case r of None \<Rightarrow> x | Some v \<Rightarrow> f v)"
  by (simp split: option.split)

text \<open>The events of a list of conditions are known whatever the conditions are.\<close>

lemma known_list:
  "list_all (\<lambda>(c, e). known_event m e) []"
  "known_event m e \<Longrightarrow> list_all (\<lambda>(c, e). known_event m e) cs \<Longrightarrow> list_all (\<lambda>(c, e). known_event m e) ((c, e) # cs)"
  by simp_all

lemmas grows_intros = grows_refl grows_add_evs grows_add_evs_sp grows_add_ev grows_fields grows_personality
  grows_if grows_option known_list

lemma grows_ue_device: "grows mici sd (ue_device E inp sd)"
  unfolding ue_device_def Let_def by (intro grows_intros) simp_all

lemma grows_ue_actuation: "grows mici sd (ue_actuation E inp CS sd)"
  unfolding ue_actuation_def Let_def case_prod_beta by (intro grows_intros) simp_all

lemma grows_ue_lane: "grows mici sd (ue_lane inp CS sd)"
  unfolding ue_lane_def Let_def by (intro grows_intros) simp_all

lemma grows_ue_pandas: "grows mici sd (ue_pandas E inp sd)"
  unfolding ue_pandas_def
  by (intro grows_intros) (auto simp: panda_conditions_def list_all_iff)

lemma system_known: "list_all (\<lambda>(c, e). known_event (EVENTS mici) e) (system_conditions E inp CS)"
  by (simp add: system_conditions_def Let_def)

lemma grows_ue_system: "grows mici sd (ue_system E inp CS sd)"
  unfolding ue_system_def Let_def by (intro grows_intros system_known) simp_all

lemma grows_ue_localization: "grows mici sd (ue_localization E inp CS sd)"
  unfolding ue_localization_def Let_def by (intro grows_intros) simp_all

lemma if_Some_cases: "(if b then r else Some x) = Some y \<Longrightarrow> (b \<Longrightarrow> r = Some y \<Longrightarrow> P) \<Longrightarrow> (x = y \<Longrightarrow> P) \<Longrightarrow> P"
  by (simp split: if_splits)

lemma grows_ue_saturation:
  assumes "ue_saturation E inp CS sd = Some sd'"
  shows "grows mici sd sd'"
proof -
  define sd1 where "sd1 = (if cs_steeringPressed CS
             then sd\<lparr>sd_last_steering_pressed_frame := subm_frame (in_sub inp)\<rparr> else sd)"
  have "grows mici sd sd1" unfolding sd1_def by (intro grows_intros)
  moreover have "sd' = sd1 \<or> (\<exists>c. sd' = add_evs [(c, EN_steerSaturated)] sd1)"
    using assms unfolding ue_saturation_def Let_def sd1_def [symmetric]
    by (elim if_Some_cases) blast+
  ultimately show ?thesis by (auto intro: grows_intros)
qed

lemma grows_ue_fcw_gps: "grows mici sd (ue_fcw_gps E inp CS sd)"
  unfolding ue_fcw_gps_def Let_def by (intro grows_intros) simp_all

lemma grows_ue_personality: "grows mici sd (ue_personality E CS sd)"
  unfolding ue_personality_def Let_def by (intro grows_intros) simp_all

lemma cruise_helper_sp_wf:
  "ev_wf (EVENTS_SP mici) sp \<Longrightarrow> ev_wf (EVENTS_SP mici) (snd (snd (cruise_helper_update CP CS em (ch, p, sp))))"
  by (simp add: cruise_helper_update_def update_experimental_mode_def Let_def ev_wf_add_static)

lemma grows_helper:
  "grows mici a sd \<Longrightarrow> cruise_helper_update CP CS em (ch, p, sd_events_sp sd) = (ch', p', sp') \<Longrightarrow>
   grows mici a (sd\<lparr>sd_cruise_helper := ch', sd_params := p', sd_events_sp := sp'\<rparr>)"
  using cruise_helper_sp_wf [of mici "sd_events_sp sd" CP CS em ch p]
  by (simp add: grows_def sd_wf_def stores_wf_def sd_has_def sd_core_def)

lemma ue_buttons_ok:
  assumes "sd_wf mici sd"
  shows "\<exists>sd'. ue_buttons E inp CS sd = Some sd' \<and> grows mici sd sd'"
proof -
  let ?ev = "if cs_gearShifter CS = Gear_park \<and> ma_enabled (sd_mads sd)
             then ev_removed EN_canBusMissing (sd_events sd) else sd_events sd"
  let ?sd = "sd\<lparr>sd_events := ?ev\<rparr>"
  have wf: "ev_wf (EVENTS mici) (sd_events sd)" using assms by (simp add: sd_wf_def stores_wf_def)
  have g1: "grows mici sd ?sd"
    using ev.has_removed_other
    by (auto simp: grows_def sd_wf_def stores_wf_def sd_has_def sd_core_def lasting_def ev_wf_removed)
  obtain ch p sp where h: "cruise_helper_update (se_CP E) CS (sd_experimental_mode ?sd)
      (sd_cruise_helper ?sd, sd_params ?sd, sd_events_sp ?sd) = (ch, p, sp)"
    by (cases "cruise_helper_update (se_CP E) CS (sd_experimental_mode ?sd)
      (sd_cruise_helper ?sd, sd_params ?sd, sd_events_sp ?sd)")
  let ?sd2 = "?sd\<lparr>sd_cruise_helper := ch, sd_params := p, sd_events_sp := sp\<rparr>"
  let ?sd3 = "ue_personality E CS ?sd2"
  have "grows mici sd ?sd3"
    by (rule grows_trans [OF grows_helper [OF g1 h] grows_ue_personality])
  moreover have "(if cs_gearShifter CS = Gear_park \<and> ma_enabled (sd_mads sd)
                then ev_remove EN_canBusMissing (sd_events sd) else Some (sd_events sd)) = Some ?ev"
    by (simp add: ev_remove_wf [OF wf])
  ultimately show ?thesis
    using h by (auto simp: ue_buttons_def Let_def intro: grows_fields)
qed

text \<open>The car events: what the car reports and the pedals are in the store afterwards.\<close>

lemma to_msg_names [simp]: "map fst (ev_to_msg m s) = ev_events s"
  by (simp add: ev_to_msg_def comp_def)

lemma wf_known_events: "ev_wf m s \<Longrightarrow> list_all (known_event m) (ev_events s)"
  by (simp add: ev_wf_def)

lemma has_events [simp]: "e \<in> set (ev_events s) \<longleftrightarrow> ev_has e s"
  by (simp add: ev_has_def)

lemma ue_car_ok:
  assumes "sd_wf (se_mici E) sd" "list_all (known_event (EVENTS_SP (se_mici E))) (lp_events (in_planSP inp))"
  shows "\<exists>sd'. ue_car E inp CS sd = Some sd' \<and> grows (se_mici E) sd sd' \<and>
           (cs_canValid CS \<longrightarrow> pedal_pressed (sd_disengage_on_accelerator sd) CS (sd_CS_prev sd) \<longrightarrow> sd_has EN_pedalPressed sd')"
proof -
  let ?m = "EVENTS (se_mici E)" and ?CP = "se_CP E"
  define sd1 where "sd1 = add_evs [(resume_blocked ?CP CS, EN_resumeBlocked)] sd"
  define sd2 where "sd2 = (if \<not> cp_notCar ?CP
      then sd1\<lparr>sd_events_sp := ev_add_from_msg (lp_events (in_planSP inp)) (sd_events_sp sd1)\<rparr> else sd1)"
  have g1: "grows (se_mici E) sd sd1" unfolding sd1_def by (intro grows_intros) simp_all
  then have wf1: "sd_wf (se_mici E) sd1" using assms(1) by (simp add: grows_def)
  then have wf2: "sd_wf (se_mici E) sd2" and g2: "grows (se_mici E) sd sd2"
    using g1 assms(2)
    by (auto simp: sd2_def grows_def sd_wf_def stores_wf_def sd_has_def sd_core_def ev_wf_add_from_msg)
  show ?thesis
  proof (cases "cs_canValid CS")
    case False
    then have "ue_car E inp CS sd = Some sd2"
      by (simp add: ue_car_def sd1_def [symmetric] sd2_def Let_def)
    with False g2 show ?thesis by blast
  next
    case True
    obtain vc car where car: "car_events_update (se_mici E) (se_opendbc E) ?CP CS (sd_CS_prev sd2) (in_carControl inp)
        (sd_car_events sd2) = (vc, car)" by (cases "car_events_update (se_mici E) (se_opendbc E) ?CP CS (sd_CS_prev sd2)
        (in_carControl inp) (sd_car_events sd2)")
    have "ev_wf ?m car" using car_events_wf [of "se_mici E" "se_opendbc E" ?CP CS "sd_CS_prev sd2" "in_carControl inp" "sd_car_events sd2"] car by simp
    then have wf: "ev_wf ?m (ev_add_from_msg (ev_events car) (sd_events sd2))"
      using wf2 by (intro ev_wf_add_from_msg wf_known_events) (simp_all add: sd_wf_def stores_wf_def)
    from car_specific_defined [OF this] obtain low ev' where
      sp: "car_specific_update (se_mici E) (se_opendbc E) ?CP (se_CP_SP E) CS (sd_car_events_sp sd2,
             ev_add_from_msg (ev_events car) (sd_events sd2)) = Some ((low, ev'), ev_init (EVENTS_SP (se_mici E)))"
        "ev_wf ?m ev'"
      by blast
    let ?sd3 = "sd2\<lparr>sd_car_events := vc, sd_car_events_sp := low, sd_events := ev',
        sd_events_sp := ev_add_from_msg [] (sd_events_sp sd2)\<rparr>"
    let ?cs = "[(cp_notCar ?CP \<and> py_int (2 / DT_CTRL) < subm_frame (in_sub inp) \<and> sd_initialized ?sd3, EN_pcmEnable),
                (pedal_pressed (sd_disengage_on_accelerator ?sd3) CS (sd_CS_prev ?sd3), EN_pedalPressed)]"
    have keep: "ev_has e ev'" if "lasting e" "ev_has e (sd_events sd2)" for e
      using car_specific_has [OF sp(1) _ _ wf] that by (simp add: lasting_def has_add_from_msg)
    have "grows (se_mici E) sd2 ?sd3"
      using keep sp(2) by (simp add: grows_def sd_wf_def stores_wf_def sd_has_def sd_core_def ev_add_from_msg_def)
    then have "grows (se_mici E) sd (add_evs ?cs ?sd3)"
      by (intro grows_add_evs known_list grows_trans [OF g2]) simp_all
    moreover have "ue_car E inp CS sd = Some (add_evs ?cs ?sd3)"
      unfolding ue_car_def Let_def sd1_def [symmetric] sd2_def [symmetric] using True car sp(1)
      by (simp add: ev_init_def [of "EVENTS_SP (se_mici E)"])
    moreover have "sd_disengage_on_accelerator sd2 = sd_disengage_on_accelerator sd" "sd_CS_prev sd2 = sd_CS_prev sd"
      using g2 by (simp_all add: grows_def sd_core_def)
    moreover have "sd_has EN_pedalPressed (add_evs ?cs ?sd3)"
      if "pedal_pressed (sd_disengage_on_accelerator sd2) CS (sd_CS_prev sd2)"
      using that by (simp add: sd_has_def add_evs_def ev.has_add)
    ultimately show ?thesis by auto
  qed
qed

section \<open>\<open>update_events\<close> as a whole\<close>

text \<open>The saturation check does not divide by zero.\<close>

definition saturation_defined :: "sd_inputs \<Rightarrow> car_state \<Rightarrow> bool" where
  "saturation_defined inp CS \<longleftrightarrow>
     1 / 1000 + ct_curvature (in_controlsState inp) * (max (cs_vEgo CS) (3 / 10)) ^ 2 \<noteq> 0"

lemma ue_saturation_defined:
  "saturation_defined inp CS \<Longrightarrow> \<exists>sd'. ue_saturation E inp CS sd = Some sd'"
  by (simp add: ue_saturation_def saturation_defined_def Let_def)

lemma ue_start_wf:
  assumes "sd_wf mici sd" "\<And>e. sd_startup_event sd = Some e \<Longrightarrow> known_event (EVENTS mici) e"
  shows "sd_wf mici (ue_start inp sd)"
  using assms
  by (auto simp: ue_start_def Let_def sd_wf_def stores_wf_def add_ev_def ev_wf_clear ev_wf_add_static
      split: option.split)

text \<open>What \<open>ue_start\<close> keeps: everything but the stores and the startup event, which is consumed.\<close>

lemma ue_start_fields:
  "sd_initialized (ue_start inp sd) = sd_initialized sd" "sd_enabled (ue_start inp sd) = sd_enabled sd"
  "sd_active (ue_start inp sd) = sd_active sd" "sd_state_machine (ue_start inp sd) = sd_state_machine sd"
  "sd_mads (ue_start inp sd) = sd_mads sd" "sd_AM (ue_start inp sd) = sd_AM sd"
  "sd_mismatch_counter (ue_start inp sd) = sd_mismatch_counter sd"
  "sd_enabled_prev (ue_start inp sd) = sd_enabled_prev sd" "sd_CS_prev (ue_start inp sd) = sd_CS_prev sd"
  "sd_disengage_on_accelerator (ue_start inp sd) = sd_disengage_on_accelerator sd"
  "sd_button_tracker (ue_start inp sd) = sd_button_tracker sd" "sd_ignored (ue_start inp sd) = sd_ignored sd"
  "sd_personality (ue_start inp sd) = sd_personality sd"
  "sd_excessive_actuation (ue_start inp sd) = sd_excessive_actuation sd"
  "sd_startup_event (ue_start inp sd) = None"
  by (simp_all add: ue_start_def Let_def add_ev_def split: option.split)

text \<open>The part of the method that runs once the daemon is initialised and the car is not passive.\<close>

definition ue_main :: "sd_env \<Rightarrow> sd_inputs \<Rightarrow> car_state \<Rightarrow> selfdrived \<Rightarrow> selfdrived option" where
  "ue_main E inp CS sd =
     do { sd \<leftarrow> ue_car E inp CS sd;
          sd \<leftarrow> ue_saturation E inp CS (ue_localization E inp CS (ue_system E inp CS (ue_pandas E inp
                  (ue_lane inp CS (ue_actuation E inp CS (ue_device E inp sd))))));
          ue_buttons E inp CS (ue_fcw_gps E inp CS sd) }"

lemma update_events_eq:
  "update_events E inp CS sd =
     (let sd = ue_start inp sd
      in if \<not> sd_initialized sd then Some (add_ev EN_selfdriveInitializing sd)
         else (let sd = add_evs [(subm_updated (in_sub inp) ''userBookmark'', EN_userBookmark)] sd
               in if cp_passive (se_CP E) then Some sd else ue_main E inp CS sd))"
  by (simp add: update_events_def ue_main_def Let_def)

text \<open>Nothing but the muting takes the missing bus out of the store.\<close>

lemma adds_keep:
  "sd_has e sd \<Longrightarrow> sd_has e (add_evs cs sd)" "sd_has e sd \<Longrightarrow> sd_has e (add_ev e' sd)"
  by (simp_all add: sd_has_def add_evs_def add_ev_def add_all_has ev.has_add)

lemma set_keep:
  "sd_has e (sd\<lparr>sd_cruise_mismatch_counter := x1\<rparr>) = sd_has e sd" "sd_has e (sd\<lparr>sd_last_steering_pressed_frame := x2\<rparr>) = sd_has e sd"
  "sd_has e (sd\<lparr>sd_distance_traveled := x3\<rparr>) = sd_has e sd"
  by (simp_all add: sd_has_def)

lemma ue_personality_keep: "ev_has e (sd_events sd) \<Longrightarrow> ev_has e (sd_events (ue_personality E CS sd))"
  by (simp add: ue_personality_def add_ev_def ev.has_add Let_def)

lemma ue_fcw_gps_mads: "sd_mads (ue_fcw_gps E inp CS s) = sd_mads s"
  by (simp add: ue_fcw_gps_def add_evs_def add_ev_def Let_def)

lemma missing_bus_kept:
  assumes "sd_has EN_canBusMissing sd" "ue_saturation E inp CS (ue_localization E inp CS sd) = Some s"
    and "ue_buttons E inp CS (ue_fcw_gps E inp CS s) = Some sd'" "unmuted CS s EN_canBusMissing"
  shows "sd_has EN_canBusMissing sd'"
proof -
  have l: "sd_has EN_canBusMissing (ue_localization E inp CS sd)"
    unfolding ue_localization_def Let_def using assms(1) by (simp add: adds_keep set_keep)
  have "sd_has EN_canBusMissing s"
    using l assms(2) by (auto simp: ue_saturation_def adds_keep set_keep Let_def split: if_splits)
  then have g: "sd_has EN_canBusMissing (ue_fcw_gps E inp CS s)"
    unfolding ue_fcw_gps_def Let_def by (simp add: adds_keep set_keep)
  have "\<not> (cs_gearShifter CS = Gear_park \<and> ma_enabled (sd_mads (ue_fcw_gps E inp CS s)))"
    using assms(4) by (simp add: unmuted_def ue_fcw_gps_mads)
  then show ?thesis
    using g assms(3) by (auto simp: ue_buttons_def sd_has_def ue_personality_keep Let_def split: prod.splits if_splits)
qed

text \<open>The state right before the system checks, and everything the method adds before it.\<close>

lemma ue_main_ok:
  assumes "sd_wf (se_mici E) sd" "list_all (known_event (EVENTS_SP (se_mici E))) (lp_events (in_planSP inp))"
    and "saturation_defined inp CS"
  shows "\<exists>sd'. ue_main E inp CS sd = Some sd' \<and> grows (se_mici E) sd sd' \<and>
     (cs_canValid CS \<longrightarrow> pedal_pressed (sd_disengage_on_accelerator sd) CS (sd_CS_prev sd) \<longrightarrow> sd_has EN_pedalPressed sd') \<and>
     (\<forall>e. lasting e \<longrightarrow> (True, e) \<in> set (panda_conditions E inp (sd_mismatch_counter sd)) \<longrightarrow> sd_has e sd') \<and>
     (\<forall>e. lasting e \<or> unmuted CS sd e \<longrightarrow> (True, e) \<in> set (system_conditions E inp CS) \<longrightarrow> sd_has e sd') \<and>
     (sd_excessive_actuation sd \<longrightarrow> sd_has EN_excessiveActuation sd')"
proof -
  let ?g = "grows (se_mici E)"
  obtain sd1 where sd1: "ue_car E inp CS sd = Some sd1" "?g sd sd1"
    and pedal: "cs_canValid CS \<Longrightarrow> pedal_pressed (sd_disengage_on_accelerator sd) CS (sd_CS_prev sd) \<Longrightarrow> sd_has EN_pedalPressed sd1"
    using ue_car_ok [OF assms(1,2)] by blast
  define a where "a = ue_actuation E inp CS (ue_device E inp sd1)"
  define p where "p = ue_pandas E inp (ue_lane inp CS a)"
  define y where "y = ue_system E inp CS p"
  define l where "l = ue_localization E inp CS y"
  obtain s where s: "ue_saturation E inp CS l = Some s" using ue_saturation_defined [OF assms(3)] by blast
  have ga: "?g sd1 a" unfolding a_def by (rule grows_trans [OF grows_ue_device grows_ue_actuation])
  have gp: "?g a p" unfolding p_def by (rule grows_trans [OF grows_ue_lane grows_ue_pandas])
  have gy: "?g p y" unfolding y_def by (rule grows_ue_system)
  have gs: "?g y (ue_fcw_gps E inp CS s)"
    unfolding l_def using grows_trans [OF grows_trans [OF grows_ue_localization grows_ue_saturation [OF s [unfolded l_def]]] grows_ue_fcw_gps]
    by blast
  have g: "?g sd (ue_fcw_gps E inp CS s)"
    using sd1(2) ga gp gy gs by (blast intro: grows_trans)
  then have "sd_wf (se_mici E) (ue_fcw_gps E inp CS s)" using assms(1) by (simp add: grows_def)
  then obtain sd' where sd': "ue_buttons E inp CS (ue_fcw_gps E inp CS s) = Some sd'" "?g (ue_fcw_gps E inp CS s) sd'"
    using ue_buttons_ok by blast
  have run: "ue_main E inp CS sd = Some sd'"
    using sd1(1) s sd'(1) by (simp add: ue_main_def a_def p_def y_def l_def)
  have from_y: "?g y sd'" by (rule grows_trans [OF gs sd'(2)])
  have from_p: "?g p sd'" by (rule grows_trans [OF gy from_y])
  have from_a: "?g a sd'" by (rule grows_trans [OF gp from_p])
  have from_1: "?g sd1 sd'" by (rule grows_trans [OF ga from_a])
  have mc: "sd_mismatch_counter (ue_lane inp CS a) = sd_mismatch_counter sd"
    using grows_trans [OF sd1(2) grows_trans [OF ga grows_ue_lane]] by (simp add: grows_def sd_core_def)
  have pandas: "sd_has e p" if "(True, e) \<in> set (panda_conditions E inp (sd_mismatch_counter sd))" for e
    using that by (simp add: p_def ue_pandas_def mc sd_has_def add_evs_def add_all_has)
  have system: "sd_has e y" if "(True, e) \<in> set (system_conditions E inp CS)" for e
    using that by (auto simp: y_def ue_system_def sd_has_def add_evs_def add_ev_def add_all_has ev.has_add Let_def)
  have exc: "sd_has EN_excessiveActuation a" if "sd_excessive_actuation sd"
  proof -
    have "sd_excessive_actuation (ue_device E inp sd1)"
      using that grows_trans [OF sd1(2) grows_ue_device] by (simp add: grows_def)
    then show ?thesis
      by (auto simp: a_def ue_actuation_def Let_def case_prod_beta sd_has_def add_evs_def ev.has_add split: option.split)
  qed
  have keep: "sd_has e x \<Longrightarrow> lasting e \<Longrightarrow> sd_has e sd'" if "?g x sd'" for x e
    using that by (simp add: grows_def)
  have bus: "sd_has EN_canBusMissing sd'" if "unmuted CS sd EN_canBusMissing" "sd_has EN_canBusMissing y"
  proof (rule missing_bus_kept [OF that(2) s [unfolded l_def] sd'(1)])
    have "sd_mads (ue_fcw_gps E inp CS s) = sd_mads sd" using g by (simp add: grows_def sd_core_def)
    then show "unmuted CS s EN_canBusMissing" using that(1) by (simp add: unmuted_def ue_fcw_gps_mads)
  qed
  have "\<forall>e. unmuted CS sd e \<longrightarrow> (True, e) \<in> set (system_conditions E inp CS) \<longrightarrow> sd_has e sd'"
    using bus system by (auto simp: unmuted_def)
  moreover have "lasting EN_pedalPressed" "lasting EN_excessiveActuation" by (simp_all add: lasting_def)
  ultimately show ?thesis
    using run grows_trans [OF g sd'(2)] keep [OF from_1] keep [OF from_p] keep [OF from_y] keep [OF from_a]
      pedal pandas system exc by blast
qed

section \<open>Frames\<close>

lemma effective_fields [simp]:
  "lp_events (in_planSP (effective_inputs sd inp)) = lp_events (in_planSP inp)"
  "in_pandaStates (effective_inputs sd inp) = in_pandaStates inp"
  "saturation_defined (effective_inputs sd inp) CS = saturation_defined inp CS"
  "subm_frame (in_sub (effective_inputs sd inp)) = subm_frame (in_sub inp)"
  "panda_conditions E (effective_inputs sd inp) n = panda_conditions E inp n"
  by (simp_all add: effective_inputs_def saturation_defined_def panda_conditions_def Let_def)

text \<open>What \<open>data_sample\<close> may change.\<close>

lemma ds_initialize_fields [simp]:
  "sd_events (ds_initialize E inp CS sd) = sd_events sd" "sd_events_sp (ds_initialize E inp CS sd) = sd_events_sp sd"
  "sd_mads (ds_initialize E inp CS sd) = sd_mads sd" "sd_enabled (ds_initialize E inp CS sd) = sd_enabled sd"
  "sd_active (ds_initialize E inp CS sd) = sd_active sd"
  "sd_personality (ds_initialize E inp CS sd) = sd_personality sd"
  "sd_startup_event (ds_initialize E inp CS sd) = sd_startup_event sd"
  "sd_AM (ds_initialize E inp CS sd) = sd_AM sd" "sd_CS_prev (ds_initialize E inp CS sd) = sd_CS_prev sd"
  "sd_disengage_on_accelerator (ds_initialize E inp CS sd) = sd_disengage_on_accelerator sd"
  "sd_excessive_actuation (ds_initialize E inp CS sd) = sd_excessive_actuation sd"
  "sd_mismatch_counter (ds_initialize E inp CS sd) = sd_mismatch_counter sd"
  "ss_current_alert_types (sd_state_machine (ds_initialize E inp CS sd)) = ss_current_alert_types (sd_state_machine sd)"
  "\<not> se_REPLAY E \<Longrightarrow> sd_state_machine (ds_initialize E inp CS sd) = sd_state_machine sd"
  by (simp_all add: ds_initialize_def Let_def)

lemma data_sample_fields:
  assumes "data_sample E inp sd = (CS, sd1)"
  shows "sd_events sd1 = sd_events sd" "sd_events_sp sd1 = sd_events_sp sd" "sd_mads sd1 = sd_mads sd"
    "sd_enabled sd1 = sd_enabled sd" "sd_active sd1 = sd_active sd" "sd_personality sd1 = sd_personality sd"
    "sd_startup_event sd1 = sd_startup_event sd" "sd_AM sd1 = sd_AM sd" "sd_CS_prev sd1 = sd_CS_prev sd"
    "sd_disengage_on_accelerator sd1 = sd_disengage_on_accelerator sd"
    "sd_excessive_actuation sd1 = sd_excessive_actuation sd"
    "ss_current_alert_types (sd_state_machine sd1) = ss_current_alert_types (sd_state_machine sd)"
    "\<not> se_REPLAY E \<Longrightarrow> sd_state_machine sd1 = sd_state_machine sd"
    "sd_initialized sd \<Longrightarrow> sd_initialized sd1"
    "CS = (case in_carState inp of Some cs \<Rightarrow> cs | None \<Rightarrow> sd_CS_prev sd)"
    "sd_mismatch_counter sd1 = (if \<not> sd_enabled sd then 0
       else if controls_denied inp then sd_mismatch_counter sd + 1 else sd_mismatch_counter sd)"
  using assms [symmetric] by (simp_all add: data_sample_def Let_def)

text \<open>MADS leaves the phase of the openpilot machine alone, and asks for warnings only while it steers.\<close>

lemma add_types_state [simp]: "ss_state (add_current_alert_types en t ss) = ss_state ss"
  by (simp add: add_current_alert_types_def)

lemma mads_sm_step_shared:
  assumes "mads_sm_step mici (en, evs) (q, ss) = (q', ss')"
  shows "ss_state ss' = ss_state ss \<and>
    (WARNING \<in> set (ss_current_alert_types ss') \<longrightarrow> WARNING \<in> set (ss_current_alert_types ss) \<or> q' \<in> set MADS_ACTIVE_STATES)"
  using assms
  by (cases q)
     (auto simp: mads_sm_step_def Let_def mads_soft_disable_def add_current_alert_types_def ss_append_def split: if_splits)

lemma mads_update_shared:
  assumes "mads_update mici env (ma, ss, evs) = Some (ma', ss', evs', b)"
  shows "ss_state ss' = ss_state ss \<and>
    (WARNING \<in> set (ss_current_alert_types ss') \<longrightarrow> WARNING \<in> set (ss_current_alert_types ss) \<or>
       \<not> mads_running ma env \<or> ma_active ma')"
proof (cases "mads_running ma env")
  case False
  then show ?thesis
    using assms by (auto simp: mads_update_def mads_running_def Let_def bind_eq_Some_conv split: if_splits prod.splits)
next
  case True
  then obtain q where q: "mads_sm_step mici (me_enabled env, evs') (ma_state (mads_data_sample env ma), ss) = (q, ss')"
    and a: "ma_active ma' = (q \<in> set MADS_ACTIVE_STATES)"
    using assms by (auto simp: mads_update_def mads_running_def Let_def bind_eq_Some_conv split: prod.splits)
  show ?thesis using mads_sm_step_shared [OF q] a by auto
qed

lemma types_append: "ss_current_alert_types (ss_append ts st) = ss_current_alert_types st @ ts"
  by (simp add: ss_append_def)

lemma types_if: "WARNING \<in> set (ss_current_alert_types (if b then x else y)) \<longleftrightarrow>
    (if b then WARNING \<in> set (ss_current_alert_types x) else WARNING \<in> set (ss_current_alert_types y))"
  by simp

lemma ss_step_warning:
  "WARNING \<in> set (ss_current_alert_types (ss_step m ev st)) \<longleftrightarrow> ss_state (ss_step m ev st) \<in> set ACTIVE_STATES"
proof -
  have "\<exists>s. ss_step m ev st = (if ss_state s \<in> set ACTIVE_STATES then ss_append [WARNING] s else s) \<and>
            WARNING \<notin> set (ss_current_alert_types s)"
    unfolding ss_step_def Let_def
    by (rule exI, rule conjI, rule refl) (cases "ss_state st"; simp add: types_if types_append)
  then obtain s where s: "ss_step m ev st = (if ss_state s \<in> set ACTIVE_STATES then ss_append [WARNING] s else s)"
    "WARNING \<notin> set (ss_current_alert_types s)" by blast
  show ?thesis unfolding s(1) using s(2)
    by (cases "ss_state s \<in> set ACTIVE_STATES") (simp_all only: if_True if_False ss_append_state types_append, simp_all)
qed

section \<open>The invariant\<close>

text \<open>
  The stores are well formed, the MADS flags agree with its phase, the personality is one of the
  three, a passive or uninitialised daemon is not enabled, the openpilot flags agree with the phase
  of the machine, and warnings are requested only while one of the machines is active.
\<close>

definition sd_inv :: "sd_env \<Rightarrow> selfdrived \<Rightarrow> bool" where
  "sd_inv E sd \<longleftrightarrow>
     sd_wf (se_mici E) sd \<and> mads_inv (sd_mads sd) \<and> 0 \<le> sd_personality sd \<and> sd_personality sd \<le> 2 \<and>
     (\<forall>e. sd_startup_event sd = Some e \<longrightarrow> known_event (EVENTS (se_mici E)) e) \<and>
     (cp_passive (se_CP E) \<or> \<not> sd_initialized sd \<longrightarrow> \<not> sd_enabled sd \<and> \<not> sd_active sd) \<and>
     (\<not> se_REPLAY E \<longrightarrow> sd_enabled sd = (ss_state (sd_state_machine sd) \<in> set ENABLED_STATES)) \<and>
     (sd_active sd \<longrightarrow> sd_enabled sd) \<and>
     (WARNING \<in> set (ss_current_alert_types (sd_state_machine sd)) \<longrightarrow> sd_active sd \<or> ma_active (sd_mads sd)) \<and>
     (cp_passive (se_CP E) \<or> \<not> sd_initialized sd \<longrightarrow> WARNING \<notin> set (ss_current_alert_types (sd_state_machine sd)))"

lemma ev_wf_add_known_static:
  "known_event (EVENTS mici) EN_carUnrecognized" "known_event (EVENTS mici) EN_dashcamMode"
  by simp_all

lemma startup_known: "startup_event E = Some e \<Longrightarrow> known_event (EVENTS mici) e"
  by (auto simp: startup_event_def Let_def split: if_splits)

lemma selfdrived_init_inv:
  assumes "selfdrived_init E KM CS0 p = Some sd"
  shows "sd_inv E sd"
proof -
  obtain pers p' ma where pers: "get_sanitize_int_param ''LongitudinalPersonality'' 0 2
      (let p = (if \<not> cp_alphaLongitudinalAvailable (se_CP E) then remove_param ''AlphaLongitudinalEnabled'' p else p)
       in if \<not> cp_openpilotLongitudinalControl (se_CP E) then remove_param ''ExperimentalMode'' p else p) = Some (pers, p')"
    and ma: "mads_init KM (se_CP E) (se_CP_SP E) p' = Some ma"
    and sd: "sd_personality sd = pers" "sd_mads sd = ma" "sd_state_machine sd = ss_init" "\<not> sd_enabled sd"
      "\<not> sd_active sd" "sd_startup_event sd = startup_event E" "sd_events_sp sd = ev_init (EVENTS_SP (se_mici E))"
      "\<not> sd_initialized sd"
      "sd_events sd = (if cp_brand (se_CP E) = ''mock'' then ev_add_static EN_carUnrecognized True (ev_init (EVENTS (se_mici E)))
         else if cp_passive (se_CP E) then ev_add_static EN_dashcamMode True (ev_init (EVENTS (se_mici E)))
         else ev_init (EVENTS (se_mici E)))"
    using assms by (auto simp: selfdrived_init_def Let_def bind_eq_Some_conv)
  have "0 \<le> pers \<and> pers \<le> 2" using sanitize_in_range [OF pers] by simp
  moreover have "sd_wf (se_mici E) sd"
    by (simp add: sd_wf_def stores_wf_def sd ev_wf_init ev_wf_add_static)
  ultimately show ?thesis
    using mads_init_inv [OF ma] startup_known
    by (auto simp: sd_inv_def sd ss_init_def ENABLED_STATES_def ACTIVE_STATES_def)
qed

end
