(* ===== verification/SelfdriveProps.thy ===== *)
theory SelfdriveProps
  imports SelfdriveFacts
begin

text \<open>
  The properties of selfdrived: a frame does not raise and keeps the invariant of the daemon, the
  brake, a lost CAN bus and a panda that denies controls end the engagement, and what is published
  and shown agrees with the state of the two engagement machines.
\<close>

section \<open>A frame\<close>

lemma update_events_ok:
  assumes "sd_wf (se_mici E) sd" "\<And>e. sd_startup_event sd = Some e \<Longrightarrow> known_event (EVENTS (se_mici E)) e"
    and "list_all (known_event (EVENTS_SP (se_mici E))) (lp_events (in_planSP inp))" "saturation_defined inp CS"
    and "0 \<le> sd_personality sd \<and> sd_personality sd \<le> 2"
  obtains sd2 where "update_events E inp CS sd = Some sd2" "sd_wf (se_mici E) sd2"
    "0 \<le> sd_personality sd2 \<and> sd_personality sd2 \<le> 2" "sd_startup_event sd2 = None"
    "sd_initialized sd2 = sd_initialized sd" "sd_enabled sd2 = sd_enabled sd" "sd_active sd2 = sd_active sd"
    "sd_state_machine sd2 = sd_state_machine sd" "sd_mads sd2 = sd_mads sd"
    "sd_mismatch_counter sd2 = sd_mismatch_counter sd"
    "sd_excessive_actuation sd \<Longrightarrow> sd_excessive_actuation sd2"
    "sd_initialized sd \<Longrightarrow> \<not> cp_passive (se_CP E) \<Longrightarrow>
     (cs_canValid CS \<longrightarrow> pedal_pressed (sd_disengage_on_accelerator sd) CS (sd_CS_prev sd) \<longrightarrow> sd_has EN_pedalPressed sd2) \<and>
     (\<forall>e. lasting e \<longrightarrow> (True, e) \<in> set (panda_conditions E inp (sd_mismatch_counter sd)) \<longrightarrow> sd_has e sd2) \<and>
     (\<forall>e. lasting e \<or> unmuted CS sd e \<longrightarrow> (True, e) \<in> set (system_conditions E inp CS) \<longrightarrow> sd_has e sd2) \<and>
     (sd_excessive_actuation sd \<longrightarrow> sd_has EN_excessiveActuation sd2)"
proof -
  let ?m = "se_mici E"
  define s0 where "s0 = ue_start inp sd"
  have wf0: "sd_wf ?m s0" unfolding s0_def by (rule ue_start_wf [OF assms(1,2)])
  note f0 = ue_start_fields [of inp sd, folded s0_def]
  show ?thesis
  proof (cases "sd_initialized sd")
    case False
    have g: "grows ?m s0 (add_ev EN_selfdriveInitializing s0)" by (intro grows_intros) simp
    have "update_events E inp CS sd = Some (add_ev EN_selfdriveInitializing s0)"
      using False by (simp add: update_events_eq s0_def [symmetric] f0)
    then show ?thesis using g wf0 f0 False assms(5) by (intro that [of "add_ev EN_selfdriveInitializing s0"]) (simp_all add: grows_def sd_core_def)
  next
    case True
    define s1 where "s1 = add_evs [(subm_updated (in_sub inp) ''userBookmark'', EN_userBookmark)] s0"
    have g1: "grows ?m s0 s1" unfolding s1_def by (intro grows_intros) simp
    then have wf1: "sd_wf ?m s1" using wf0 by (simp add: grows_def)
    show ?thesis
    proof (cases "cp_passive (se_CP E)")
      case dashcam: True
      have "update_events E inp CS sd = Some s1"
        using True dashcam by (simp add: update_events_eq s0_def [symmetric] s1_def [symmetric] f0)
      then show ?thesis using g1 wf1 f0 dashcam assms(5) by (intro that [of s1]) (simp_all add: grows_def sd_core_def)
    next
      case False
      from ue_main_ok [OF wf1 assms(3,4)] obtain sd2 where
        run: "ue_main E inp CS s1 = Some sd2" and g2: "grows ?m s1 sd2"
        and facts: "(cs_canValid CS \<longrightarrow> pedal_pressed (sd_disengage_on_accelerator s1) CS (sd_CS_prev s1) \<longrightarrow> sd_has EN_pedalPressed sd2) \<and>
          (\<forall>e. lasting e \<longrightarrow> (True, e) \<in> set (panda_conditions E inp (sd_mismatch_counter s1)) \<longrightarrow> sd_has e sd2) \<and>
          (\<forall>e. lasting e \<or> unmuted CS s1 e \<longrightarrow> (True, e) \<in> set (system_conditions E inp CS) \<longrightarrow> sd_has e sd2) \<and>
          (sd_excessive_actuation s1 \<longrightarrow> sd_has EN_excessiveActuation sd2)"
        by blast
      have g: "grows ?m s0 sd2" by (rule grows_trans [OF g1 g2])
      have s1: "sd_disengage_on_accelerator s1 = sd_disengage_on_accelerator sd" "sd_CS_prev s1 = sd_CS_prev sd"
        "sd_mismatch_counter s1 = sd_mismatch_counter sd" "sd_excessive_actuation s1 = sd_excessive_actuation sd"
        "unmuted CS s1 e = unmuted CS sd e" for e
        by (simp_all add: s1_def add_evs_def f0 unmuted_def)
      have "update_events E inp CS sd = Some sd2"
        using True False run by (simp add: update_events_eq s0_def [symmetric] s1_def [symmetric] f0)
      then show ?thesis using g wf0 f0 facts [unfolded s1] assms(5)
        by (intro that [of sd2]) (simp_all add: grows_def sd_core_def)
    qed
  qed
qed

text \<open>The engagement step.\<close>

lemma sd_engage_fields [simp]:
  "sd_events (sd_engage E sd) = sd_events sd" "sd_events_sp (sd_engage E sd) = sd_events_sp sd"
  "sd_mads (sd_engage E sd) = sd_mads sd" "sd_personality (sd_engage E sd) = sd_personality sd"
  "sd_initialized (sd_engage E sd) = sd_initialized sd" "sd_startup_event (sd_engage E sd) = sd_startup_event sd"
  "sd_mismatch_counter (sd_engage E sd) = sd_mismatch_counter sd"
  "sd_excessive_actuation (sd_engage E sd) = sd_excessive_actuation sd"
  by (simp_all add: sd_engage_def case_prod_beta)

lemma sd_engage_run:
  assumes "\<not> cp_passive (se_CP E)" "sd_initialized sd"
  shows "sd_state_machine (sd_engage E sd) = ss_step (EVENTS (se_mici E)) (sd_events sd) (sd_state_machine sd)"
    and "sd_enabled (sd_engage E sd) = (ss_state (sd_state_machine (sd_engage E sd)) \<in> set ENABLED_STATES)"
    and "sd_active (sd_engage E sd) = (ss_state (sd_state_machine (sd_engage E sd)) \<in> set ACTIVE_STATES)"
  using assms by (simp_all add: sd_engage_def ss_update_def ss_outputs_def Let_def)

lemma sd_engage_off:
  "cp_passive (se_CP E) \<or> \<not> sd_initialized sd \<Longrightarrow> sd_engage E sd = sd"
  by (auto simp: sd_engage_def)

text \<open>\<open>update_alerts\<close> only changes the alert manager.\<close>

lemma update_alerts_ok:
  assumes "sd_wf (se_mici E) sd" "0 \<le> sd_personality sd" "sd_personality sd \<le> 2"
  shows "\<exists>AM. update_alerts E inp CS sd = Some (sd\<lparr>sd_AM := process_alerts (subm_frame (in_sub inp)) (clear_event_types sd) AM\<rparr>)"
proof -
  have "sd_personality sd = 0 \<or> sd_personality sd = 1 \<or> sd_personality sd = 2" using assms(2,3) by linarith
  then obtain pers where pers: "personality_name (sd_personality sd) = Some pers" by auto
  let ?ts = "ss_current_alert_types (sd_state_machine sd)" and ?args = "sd_callback_args E inp CS pers sd"
  have "\<forall>e\<in>set (map fst (EVENTS (se_mici E))). EVENT_NAME e \<noteq> None"
    using known_has_name [of "se_mici E"] by (auto simp: known_event_def)
  then obtain a where a: "ev_create_alerts (EVENTS (se_mici E)) EVENT_NAME ?ts ?args (sd_events sd) = Some a"
    using create_alerts_defined assms(1) by (metis sd_wf_def stores_wf_def fst_conv)
  have "\<forall>e\<in>set (map fst (EVENTS_SP (se_mici E))). EVENT_NAME_SP e \<noteq> None"
    using known_has_name_SP [of "se_mici E"] by (auto simp: known_event_def)
  then obtain b where b: "ev_create_alerts (EVENTS_SP (se_mici E)) EVENT_NAME_SP ?ts ?args (sd_events_sp sd) = Some b"
    using create_alerts_defined assms(1) by (metis sd_wf_def stores_wf_def snd_conv)
  show ?thesis
    unfolding update_alerts_def Let_def using pers a b by (simp del: personality_name.simps) blast
qed

lemma sd_run_mads_ok:
  assumes "sd_wf (se_mici E) sd" "mads_inv (sd_mads sd)"
  obtains sd' where "sd_run_mads E inp CS sd = Some sd'" "sd_wf (se_mici E) sd'" "mads_inv (sd_mads sd')"
    "sd_enabled sd' = sd_enabled sd" "sd_active sd' = sd_active sd" "sd_initialized sd' = sd_initialized sd"
    "sd_personality sd' = sd_personality sd" "sd_startup_event sd' = sd_startup_event sd"
    "sd_mismatch_counter sd' = sd_mismatch_counter sd" "sd_excessive_actuation sd' = sd_excessive_actuation sd"
    "ss_state (sd_state_machine sd') = ss_state (sd_state_machine sd)"
    "WARNING \<in> set (ss_current_alert_types (sd_state_machine sd')) \<Longrightarrow>
      WARNING \<in> set (ss_current_alert_types (sd_state_machine sd)) \<or>
      \<not> cp_passive (se_CP E) \<and> sd_initialized sd \<and> ma_active (sd_mads sd')"
proof (cases "cp_notCar (se_CP E)")
  case True
  with assms show ?thesis by (intro that [of sd]) (simp_all add: sd_run_mads_def)
next
  case False
  let ?env = "sd_mads_env E inp CS sd"
  have wf: "stores_wf (se_mici E) (sd_events sd, sd_events_sp sd)" using assms(1) by (simp add: sd_wf_def)
  obtain ma ss evs b where u: "mads_update (se_mici E) ?env (sd_mads sd, sd_state_machine sd,
      (sd_events sd, sd_events_sp sd)) = Some (ma, ss, evs, b)" "stores_wf (se_mici E) evs"
    using mads_update_defined [OF wf] by blast
  let ?sd = "sd\<lparr>sd_mads := ma, sd_state_machine := ss, sd_events := fst evs, sd_events_sp := snd evs, sd_enabled_prev := b\<rparr>"
  have run: "sd_run_mads E inp CS sd = Some ?sd" using False u(1) by (simp add: sd_run_mads_def)
  have warn: "WARNING \<in> set (ss_current_alert_types ss) \<Longrightarrow> WARNING \<in> set (ss_current_alert_types (sd_state_machine sd)) \<or>
      \<not> cp_passive (se_CP E) \<and> sd_initialized sd \<and> ma_active ma"
  proof -
    assume w: "WARNING \<in> set (ss_current_alert_types ss)"
    show ?thesis
    proof (cases "mads_running (sd_mads sd) ?env")
      case True
      then show ?thesis using mads_update_shared [OF u(1)] w by (auto simp: mads_running_def sd_mads_env_def)
    next
      case False
      then have "ss = sd_state_machine sd"
        using u(1) by (auto simp: mads_update_def mads_running_def Let_def bind_eq_Some_conv split: if_splits)
      with w show ?thesis by simp
    qed
  qed
  have "sd_wf (se_mici E) ?sd" using u(2) by (simp add: sd_wf_def)
  moreover have "mads_inv ma" by (rule mads_update_inv [OF u(1) assms(2)])
  moreover have "ss_state ss = ss_state (sd_state_machine sd)" using mads_update_shared [OF u(1)] by simp
  ultimately show ?thesis using run warn by (intro that [of ?sd]) simp_all
qed

text \<open>Inputs a frame does not raise on: the planner sends known sunnypilot events and the steering
  saturation check does not divide by zero.\<close>

definition frame_ok :: "sd_env \<Rightarrow> sd_inputs \<Rightarrow> selfdrived \<Rightarrow> bool" where
  "frame_ok E inp sd \<longleftrightarrow> list_all (known_event (EVENTS_SP (se_mici E))) (lp_events (in_planSP inp)) \<and>
     saturation_defined inp (fst (data_sample E inp sd))"

text \<open>A whole frame: the states after \<open>data_sample\<close> and \<open>update_events\<close>, and the result.\<close>

lemma sd_step_ok:
  assumes "sd_inv E sd" "frame_ok E inp sd"
  obtains CS sd1 sd2 pb sd' where
    "data_sample E inp sd = (CS, sd1)" "update_events E (effective_inputs sd1 inp) CS sd1 = Some sd2"
    "sd_step E inp sd = Some (pb, sd')" "sd_inv E sd'"
    "sd_enabled sd' = sd_enabled (sd_engage E sd2)" "sd_active sd' = sd_active (sd_engage E sd2)"
    "pb_enabled pb = sd_enabled sd'" "pb_active pb = sd_active sd'"
    "pb_mads_enabled pb = ma_enabled (sd_mads sd')" "pb_mads_active pb = ma_active (sd_mads sd')"
    "sd_initialized sd' = sd_initialized sd1" "sd_initialized sd2 = sd_initialized sd1"
    "sd_state_machine sd2 = sd_state_machine sd1" "sd_enabled sd2 = sd_enabled sd"
    "sd_mismatch_counter sd' = sd_mismatch_counter sd1"
    "sd_excessive_actuation sd \<Longrightarrow> sd_excessive_actuation sd'"
    "0 \<le> subm_frame (in_sub inp) \<Longrightarrow> al_event_type (pb_alert pb) = Some NO_ENTRY \<Longrightarrow> \<not> pb_enabled pb"
    "0 \<le> subm_frame (in_sub inp) \<Longrightarrow> al_event_type (pb_alert pb) = Some WARNING \<Longrightarrow> pb_active pb \<or> pb_mads_active pb"
    "sd_initialized sd1 \<Longrightarrow> \<not> cp_passive (se_CP E) \<Longrightarrow>
     (cs_canValid CS \<longrightarrow> pedal_pressed (sd_disengage_on_accelerator sd) CS (sd_CS_prev sd) \<longrightarrow> sd_has EN_pedalPressed sd2) \<and>
     (\<forall>e. lasting e \<longrightarrow> (True, e) \<in> set (panda_conditions E inp (sd_mismatch_counter sd1)) \<longrightarrow> sd_has e sd2) \<and>
     (\<forall>e. lasting e \<or> unmuted CS sd e \<longrightarrow> (True, e) \<in> set (system_conditions E (effective_inputs sd1 inp) CS) \<longrightarrow> sd_has e sd2) \<and>
     (sd_excessive_actuation sd \<longrightarrow> sd_has EN_excessiveActuation sd2)"
proof -
  let ?m = "se_mici E" and ?off = "cp_passive (se_CP E) \<or> \<not> sd_initialized sd"
  obtain CS sd1 where ds: "data_sample E inp sd = (CS, sd1)" by (cases "data_sample E inp sd")
  note d = data_sample_fields [OF ds]
  let ?inp = "effective_inputs sd1 inp" and ?f = "subm_frame (in_sub inp)"
  have inv: "sd_wf ?m sd" "mads_inv (sd_mads sd)" "0 \<le> sd_personality sd \<and> sd_personality sd \<le> 2"
    "\<And>e. sd_startup_event sd = Some e \<Longrightarrow> known_event (EVENTS ?m) e"
    "?off \<Longrightarrow> \<not> sd_enabled sd \<and> \<not> sd_active sd"
    "\<not> se_REPLAY E \<Longrightarrow> sd_enabled sd = (ss_state (sd_state_machine sd) \<in> set ENABLED_STATES)"
    "sd_active sd \<Longrightarrow> sd_enabled sd"
    "?off \<Longrightarrow> WARNING \<notin> set (ss_current_alert_types (sd_state_machine sd))"
    "WARNING \<in> set (ss_current_alert_types (sd_state_machine sd)) \<Longrightarrow> sd_active sd \<or> ma_active (sd_mads sd)"
    using assms(1) by (auto simp: sd_inv_def)
  have wf1: "sd_wf ?m sd1" using inv(1) d(1,2) by (simp add: sd_wf_def)
  obtain sd2 where u: "update_events E ?inp CS sd1 = Some sd2" "sd_wf ?m sd2"
    "0 \<le> sd_personality sd2 \<and> sd_personality sd2 \<le> 2" "sd_startup_event sd2 = None"
    "sd_initialized sd2 = sd_initialized sd1" "sd_enabled sd2 = sd_enabled sd1" "sd_active sd2 = sd_active sd1"
    "sd_state_machine sd2 = sd_state_machine sd1" "sd_mads sd2 = sd_mads sd1"
    "sd_mismatch_counter sd2 = sd_mismatch_counter sd1" "sd_excessive_actuation sd1 \<Longrightarrow> sd_excessive_actuation sd2"
    and facts: "sd_initialized sd1 \<Longrightarrow> \<not> cp_passive (se_CP E) \<Longrightarrow>
     (cs_canValid CS \<longrightarrow> pedal_pressed (sd_disengage_on_accelerator sd) CS (sd_CS_prev sd) \<longrightarrow> sd_has EN_pedalPressed sd2) \<and>
     (\<forall>e. lasting e \<longrightarrow> (True, e) \<in> set (panda_conditions E inp (sd_mismatch_counter sd1)) \<longrightarrow> sd_has e sd2) \<and>
     (\<forall>e. lasting e \<or> unmuted CS sd e \<longrightarrow> (True, e) \<in> set (system_conditions E ?inp CS) \<longrightarrow> sd_has e sd2) \<and>
     (sd_excessive_actuation sd \<longrightarrow> sd_has EN_excessiveActuation sd2)"
    by (rule update_events_ok [OF wf1, of ?inp CS]) (use assms(2) ds d inv(3,4) in \<open>auto simp: frame_ok_def unmuted_def\<close>)
  define sd3 where "sd3 = sd_engage E sd2"
  have wf3: "sd_wf ?m sd3" using u(2) by (simp add: sd3_def sd_wf_def)
  have m3: "mads_inv (sd_mads sd3)" using inv(2) u(9) d(3) by (simp add: sd3_def)
  obtain sd4 where r: "sd_run_mads E ?inp CS sd3 = Some sd4" "sd_wf ?m sd4" "mads_inv (sd_mads sd4)"
    "sd_enabled sd4 = sd_enabled sd3" "sd_active sd4 = sd_active sd3" "sd_initialized sd4 = sd_initialized sd3"
    "sd_personality sd4 = sd_personality sd3" "sd_startup_event sd4 = sd_startup_event sd3"
    "sd_mismatch_counter sd4 = sd_mismatch_counter sd3" "sd_excessive_actuation sd4 = sd_excessive_actuation sd3"
    "ss_state (sd_state_machine sd4) = ss_state (sd_state_machine sd3)"
    "WARNING \<in> set (ss_current_alert_types (sd_state_machine sd4)) \<Longrightarrow>
      WARNING \<in> set (ss_current_alert_types (sd_state_machine sd3)) \<or>
      \<not> cp_passive (se_CP E) \<and> sd_initialized sd3 \<and> ma_active (sd_mads sd4)"
    using sd_run_mads_ok [OF wf3 m3, of ?inp CS] by blast
  obtain AM where a: "update_alerts E ?inp CS sd4 =
      Some (sd4\<lparr>sd_AM := process_alerts ?f (clear_event_types sd4) AM\<rparr>)"
    using update_alerts_ok [OF r(2), of ?inp CS] u(3) r(7) by (auto simp: sd3_def)
  define sd5 where "sd5 = sd4\<lparr>sd_AM := process_alerts ?f (clear_event_types sd4) AM\<rparr>"
  define sd6 where "sd6 = sd5\<lparr>sd_button_tracker :=
      tracker_update (se_opendbc E) (cs_buttonEvents CS) (sd_button_tracker sd5)\<rparr>"
  define pb where "pb = fst (publish_selfdriveState E ?inp sd6)"
  define sd' where "sd' = (snd (publish_selfdriveState E ?inp sd6))\<lparr>sd_CS_prev := CS\<rparr>"
  have run: "sd_step E inp sd = Some (pb, sd')"
    using u(1) r(1) a
    by (simp add: sd_step_def ds Let_def sd3_def sd5_def sd6_def pb_def sd'_def case_prod_beta)
  have f': "sd_enabled sd' = sd_enabled sd3" "sd_active sd' = sd_active sd3" "sd_mads sd' = sd_mads sd4"
    "sd_state_machine sd' = sd_state_machine sd4" "sd_initialized sd' = sd_initialized sd1"
    "sd_personality sd' = sd_personality sd2" "sd_startup_event sd' = None"
    "sd_mismatch_counter sd' = sd_mismatch_counter sd1" "sd_excessive_actuation sd' = sd_excessive_actuation sd2"
    "sd_events sd' = sd_events sd4" "sd_events_sp sd' = sd_events_sp sd4"
    using u r by (simp_all add: sd'_def publish_selfdriveState_def Let_def sd6_def sd5_def sd3_def)
  have pb: "pb_enabled pb = sd_enabled sd3" "pb_active pb = sd_active sd3"
    "pb_mads_enabled pb = ma_enabled (sd_mads sd4)" "pb_mads_active pb = ma_active (sd_mads sd4)"
    "pb_alert pb = am_current (process_alerts ?f (clear_event_types sd4) AM)"
    using r by (simp_all add: pb_def publish_selfdriveState_def Let_def sd6_def sd5_def)
  have off3: "sd_enabled sd3 = sd_enabled sd \<and> sd_active sd3 = sd_active sd \<and> sd_state_machine sd3 = sd_state_machine sd1"
    if "cp_passive (se_CP E) \<or> \<not> sd_initialized sd1"
    using that u d by (simp add: sd3_def sd_engage_off)
  have on3: "sd_enabled sd3 = (ss_state (sd_state_machine sd3) \<in> set ENABLED_STATES)"
    "sd_active sd3 = (ss_state (sd_state_machine sd3) \<in> set ACTIVE_STATES)"
    "WARNING \<in> set (ss_current_alert_types (sd_state_machine sd3)) \<longleftrightarrow> sd_active sd3"
    if "\<not> cp_passive (se_CP E)" "sd_initialized sd1"
    using that sd_engage_run [of E sd2] u(5) by (simp_all add: sd3_def ss_step_warning)
  have off1: "cp_passive (se_CP E) \<or> \<not> sd_initialized sd1 \<Longrightarrow> ?off" using d(14) by blast
  have warn3: "WARNING \<in> set (ss_current_alert_types (sd_state_machine sd3)) \<Longrightarrow> sd_active sd3 \<and>
      \<not> cp_passive (se_CP E) \<and> sd_initialized sd1"
    using on3 off3 off1 inv(8) d(12) by metis
  have warn4: "WARNING \<in> set (ss_current_alert_types (sd_state_machine sd4)) \<Longrightarrow>
      (sd_active sd3 \<or> ma_active (sd_mads sd4)) \<and> \<not> cp_passive (se_CP E) \<and> sd_initialized sd1"
    using warn3 r(12) u(5) by (auto simp: sd3_def)
  have inv': "sd_inv E sd'"
    unfolding sd_inv_def f'
  proof (intro conjI impI allI)
    show "sd_wf ?m sd'" using r(2) by (simp add: sd_wf_def f')
    show "mads_inv (sd_mads sd4)" by (rule r(3))
    show "0 \<le> sd_personality sd2" "sd_personality sd2 \<le> 2" using u(3) by simp_all
    show "cp_passive (se_CP E) \<or> \<not> sd_initialized sd1 \<Longrightarrow> \<not> sd_enabled sd3"
      "cp_passive (se_CP E) \<or> \<not> sd_initialized sd1 \<Longrightarrow> \<not> sd_active sd3"
      using off3 off1 inv(5) by blast+
    show "sd_enabled sd3 = (ss_state (sd_state_machine sd4) \<in> set ENABLED_STATES)" if "\<not> se_REPLAY E"
      using on3(1) off3 inv(6) [OF that] d(13) [OF that] r(11) by metis
    show "sd_enabled sd3" if "sd_active sd3"
      using that on3 off3 inv(7) by (metis active_iff enabled_iff)
    show "sd_active sd3 \<or> ma_active (sd_mads sd4)" if "WARNING \<in> set (ss_current_alert_types (sd_state_machine sd4))"
      using warn4 [OF that] by blast
    show "WARNING \<notin> set (ss_current_alert_types (sd_state_machine sd4))" if "cp_passive (se_CP E) \<or> \<not> sd_initialized sd1"
      using warn4 that by blast
  qed auto
  have alerts: "al_event_type (pb_alert pb) = Some t \<Longrightarrow> t \<notin> clear_event_types sd4" if "0 \<le> ?f" for t
    unfolding pb(5) by (rule current_not_cleared [OF that])
  have "al_event_type (pb_alert pb) = Some NO_ENTRY \<Longrightarrow> \<not> pb_enabled pb" if "0 \<le> ?f"
    using alerts [OF that, of NO_ENTRY] r(4) by (auto simp: clear_event_types_def pb(1))
  moreover have "al_event_type (pb_alert pb) = Some WARNING \<Longrightarrow> pb_active pb \<or> pb_mads_active pb" if "0 \<le> ?f"
    using alerts [OF that, of WARNING] warn4 by (auto simp: clear_event_types_def pb split: if_splits)
  ultimately show ?thesis
    using ds u(1,5,6,8) run inv' f' pb facts d(4,11) u(11)
    by (intro that [of CS sd1 sd2 pb sd']) (simp_all add: sd3_def [symmetric])
qed

lemma sd_step_defined:
  assumes "sd_inv E sd" "frame_ok E inp sd"
  obtains pb sd' where "sd_step E inp sd = Some (pb, sd')" "sd_inv E sd'"
  using assms by (rule sd_step_ok)

section \<open>Runs\<close>

text \<open>What happens to a running daemon, in any order: a frame, or a round of the thread that re-reads the
  parameters, which finds what other processes have left in the store.\<close>

datatype sd_event = Frame sd_inputs | Params_round params

fun sd_run :: "sd_env \<Rightarrow> sd_event list \<Rightarrow> selfdrived \<Rightarrow> (publication list \<times> selfdrived) option" where
  "sd_run E [] sd = Some ([], sd)"
| "sd_run E (Frame inp # es) sd =
     do { (pb, sd') \<leftarrow> sd_step E inp sd; (pbs, sd'') \<leftarrow> sd_run E es sd'; Some (pb # pbs, sd'') }"
| "sd_run E (Params_round p # es) sd = do { sd' \<leftarrow> params_thread_round E p sd; sd_run E es sd' }"

fun sd_frames :: "sd_event list \<Rightarrow> sd_inputs list" where
  "sd_frames [] = []"
| "sd_frames (Frame inp # es) = inp # sd_frames es"
| "sd_frames (Params_round p # es) = sd_frames es"

text \<open>The thread stores the personality as it reads it, and a value that is no personality stops the daemon
  (\<open>personality_unsanitized\<close> below).\<close>

definition personality_set :: "params \<Rightarrow> bool" where
  "personality_set p \<longleftrightarrow> (case get_int ''LongitudinalPersonality'' p of Some n \<Rightarrow> 0 \<le> n \<and> n \<le> 2 | None \<Rightarrow> False)"

text \<open>Each frame of a run is one \<open>step\<close> does not raise on, each round of the thread finds a personality.\<close>

fun frames_ok :: "sd_env \<Rightarrow> sd_event list \<Rightarrow> selfdrived \<Rightarrow> bool" where
  "frames_ok E [] sd \<longleftrightarrow> True"
| "frames_ok E (Frame inp # es) sd \<longleftrightarrow> frame_ok E inp sd \<and>
     (case sd_step E inp sd of Some (pb, sd') \<Rightarrow> frames_ok E es sd' | None \<Rightarrow> True)"
| "frames_ok E (Params_round p # es) sd \<longleftrightarrow> personality_set p \<and>
     (case params_thread_round E p sd of Some sd' \<Rightarrow> frames_ok E es sd' | None \<Rightarrow> True)"

lemma frames_ok_step: "frames_ok E (Frame inp # es) sd \<Longrightarrow> sd_step E inp sd = Some (pb, sd') \<Longrightarrow> frames_ok E es sd'"
  by simp

lemma sd_run_step:
  "sd_step E inp sd = Some (pb, sd') \<Longrightarrow> sd_run E es sd' = Some (pbs, sd'') \<Longrightarrow>
   sd_run E (Frame inp # es) sd = Some (pb # pbs, sd'')"
  by simp

text \<open>A round of the thread: it does not raise, and touches nothing of the engagement.\<close>

lemma params_round_ok:
  assumes "sd_inv E sd" "personality_set p"
  obtains sd' where "params_thread_round E p sd = Some sd'" "sd_inv E sd'" "sd_enabled sd' = sd_enabled sd"
    "sd_mismatch_counter sd' = sd_mismatch_counter sd" "sd_excessive_actuation sd' = sd_excessive_actuation sd"
proof -
  obtain n where n: "get_int ''LongitudinalPersonality'' p = Some n" "0 \<le> n" "n \<le> 2"
    using assms(2) by (auto simp: personality_set_def split: option.splits)
  have m: "mads_inv (mads_read_params p ma) = mads_inv ma" "ma_active (mads_read_params p ma) = ma_active ma" for ma
    by (simp_all add: mads_read_params_def mads_inv_def)
  define sd' where "sd' = the (params_thread_round E p sd)"
  have run: "params_thread_round E p sd = Some sd'" by (simp add: params_thread_round_def n(1) sd'_def)
  have f: "sd_events sd' = sd_events sd" "sd_events_sp sd' = sd_events_sp sd" "sd_mads sd' = mads_read_params p (sd_mads sd)"
    "sd_personality sd' = n" "sd_startup_event sd' = sd_startup_event sd" "sd_initialized sd' = sd_initialized sd"
    "sd_enabled sd' = sd_enabled sd" "sd_active sd' = sd_active sd" "sd_state_machine sd' = sd_state_machine sd"
    "sd_mismatch_counter sd' = sd_mismatch_counter sd" "sd_excessive_actuation sd' = sd_excessive_actuation sd"
    by (simp_all add: params_thread_round_def n(1) sd'_def)
  have "sd_inv E sd'" using assms(1) n(2,3) unfolding sd_inv_def sd_wf_def f m by blast
  with run f show ?thesis by (intro that [of sd'])
qed

text \<open>A property that every event keeps holds along a run, and a run returns.\<close>

lemma sd_run_induct:
  assumes "sd_inv E sd" "frames_ok E es sd" "P sd"
    and "\<And>sd inp pb sd'. sd_inv E sd \<Longrightarrow> frame_ok E inp sd \<Longrightarrow> inp \<in> set (sd_frames es) \<Longrightarrow> P sd \<Longrightarrow>
           sd_step E inp sd = Some (pb, sd') \<Longrightarrow> P sd' \<and> Q pb"
    and "\<And>sd p sd'. P sd \<Longrightarrow> sd_enabled sd' = sd_enabled sd \<Longrightarrow> sd_mismatch_counter sd' = sd_mismatch_counter sd \<Longrightarrow>
           sd_excessive_actuation sd' = sd_excessive_actuation sd \<Longrightarrow> P sd'"
  shows "\<exists>pbs sd'. sd_run E es sd = Some (pbs, sd') \<and> sd_inv E sd' \<and> P sd' \<and> length pbs = length (sd_frames es) \<and> list_all Q pbs"
  using assms
proof (induction E es sd rule: frames_ok.induct)
  case (2 E inp es sd)
  have ok: "frame_ok E inp sd" using "2.prems"(2) by simp
  obtain pb sd1 where step: "sd_step E inp sd = Some (pb, sd1)" "sd_inv E sd1"
    by (rule sd_step_defined [OF "2.prems"(1) ok])
  have P: "P sd1 \<and> Q pb" using "2.prems"(4) [OF "2.prems"(1) ok _ "2.prems"(3) step(1)] by simp
  have "frames_ok E es sd1" by (rule frames_ok_step [OF "2.prems"(2) step(1)])
  then have "\<exists>pbs sd'. sd_run E es sd1 = Some (pbs, sd') \<and> sd_inv E sd' \<and> P sd' \<and> length pbs = length (sd_frames es) \<and> list_all Q pbs"
  proof (rule "2.IH" [OF step(1) refl step(2) _ conjunct1 [OF P]])
    fix sd inp pb sd'
    assume "sd_inv E sd" "frame_ok E inp sd" "inp \<in> set (sd_frames es)" "P sd" "sd_step E inp sd = Some (pb, sd')"
    then show "P sd' \<and> Q pb" by (intro "2.prems"(4)) simp_all
  qed (rule "2.prems"(5))
  then obtain pbs sd' where r: "sd_run E es sd1 = Some (pbs, sd')" "sd_inv E sd'" "P sd'"
    "length pbs = length (sd_frames es)" "list_all Q pbs" by blast
  show ?case using sd_run_step [OF step(1) r(1)] r(2-5) P by simp
next
  case (3 E p es sd)
  obtain sd1 where t: "params_thread_round E p sd = Some sd1" "sd_inv E sd1" "sd_enabled sd1 = sd_enabled sd"
    "sd_mismatch_counter sd1 = sd_mismatch_counter sd" "sd_excessive_actuation sd1 = sd_excessive_actuation sd"
    by (rule params_round_ok [OF "3.prems"(1)]) (use "3.prems"(2) in auto)
  have "P sd1" by (rule "3.prems"(5) [OF "3.prems"(3) t(3-5)])
  have "\<exists>pbs sd'. sd_run E es sd1 = Some (pbs, sd') \<and> sd_inv E sd' \<and> P sd' \<and> length pbs = length (sd_frames es) \<and> list_all Q pbs"
  proof (rule "3.IH" [OF t(1,2) _ \<open>P sd1\<close>])
    show "frames_ok E es sd1" using "3.prems"(2) t(1) by simp
    fix sd inp pb sd'
    assume "sd_inv E sd" "frame_ok E inp sd" "inp \<in> set (sd_frames es)" "P sd" "sd_step E inp sd = Some (pb, sd')"
    then show "P sd' \<and> Q pb" by (intro "3.prems"(4)) simp_all
  qed (rule "3.prems"(5))
  then show ?case using t(1) by simp
qed simp

lemma sd_run_returns:
  assumes "sd_inv E sd" "frames_ok E es sd"
  obtains pbs sd' where "sd_run E es sd = Some (pbs, sd')"
  using sd_run_induct [OF assms, of "\<lambda>_. True" "\<lambda>_. True"] by blast

section \<open>Inputs for the witnesses\<close>

definition demo_sd_env :: sd_env where
  "demo_sd_env = \<lparr> se_opendbc = demo_opendbc, se_REPLAY = False, se_SIMULATION = False, se_TESTING_CLOSET = False,
     se_mici = True, se_is_remote = False, se_tested_channel = False, se_short_branch = [], se_gps_service = ''gps'',
     se_CP = demo_params, se_CP_SP = demo_params_sp \<rparr>"

definition demo_sub :: sub_master where
  "demo_sub = \<lparr> subm_frame = 1000, subm_services = [], subm_updated = (\<lambda>_. False), subm_recv_frame = (\<lambda>_. 0),
     subm_alive = (\<lambda>_. True), subm_freq_ok = (\<lambda>_. True), subm_valid = (\<lambda>_. True), subm_freq = (\<lambda>_. 20),
     subm_ignore_alive = [], subm_ignore_average_freq = [], subm_ignore_valid = [] \<rparr>"

definition demo_inputs :: "car_state \<Rightarrow> sd_inputs" where
  "demo_inputs CS = \<lparr> in_sub = demo_sub,
     in_deviceState = \<lparr> ds_thermalStatus = TS_ok, ds_freeSpacePercent = 50, ds_memoryUsagePercent = 10, ds_cpuTempC = [],
       ds_gpuTempC = [], ds_memoryTempC = 0, ds_fanSpeedPercentDesired = 0 \<rparr>,
     in_peripheralState = \<lparr> ps_pandaType_unknown = True, ps_fanSpeedRpm = 0 \<rparr>,
     in_pandaStates = [\<lparr>pa_safetyModel = SM_other 2, pa_safetyParam = 0, pa_alternativeExperience = 0,
       pa_safetyRxChecksInvalid = False, pa_relayMalfunction = False, pa_controlsAllowed = False,
       pa_controlsAllowedLateral = False\<rparr>],
     in_extrinsics = \<lparr> xc_calStatus = CAL_calibrated, xc_calPerc = 100, xc_rpyCalib = [] \<rparr>,
     in_vehicleParameters = \<lparr> vp_valid = True, vp_roll = 0, vp_angleOffsetValid = True, vp_angleOffsetDeg = 0,
       vp_steerRatioValid = True, vp_steerRatio = 1, vp_stiffnessFactorValid = True, vp_stiffnessFactor = 1 \<rparr>,
     in_modelV2 = \<lparr> mv_velocity_x = [], mv_frameDropPerc = 0, mv_laneChangeState = LCS_off,
       mv_laneChangeDirection = LCD_none, mv_hardBrakePredicted = False, mv_desiredCurvature = 0 \<rparr>,
     in_modelDataV2SP = \<lparr> md_leftLaneChangeEdgeBlock = False, md_rightLaneChangeEdgeBlock = False,
       md_laneTurnDirection = TD_none \<rparr>,
     in_processes = [], in_radarErrors = \<lparr> re_canError = False, re_radarUnavailableTemporary = False, re_others = [] \<rparr>,
     in_controlsState = \<lparr> ct_debugState = False, ct_lac_active = False, ct_lac_saturated = False, ct_curvature = 0,
       ct_vCruise_deprecated = 0 \<rparr>,
     in_carControl = demo_control, in_plan_fcw = False, in_planSP = demo_plan_sp, in_alertDebug = ([], []),
     in_leftLaneDeparture = False, in_rightLaneDeparture = False, in_posenetOK = True, in_inputsOK = True,
     in_calibrated_pose = \<lparr> po_acceleration_x = 0, po_yaw_rate = 0 \<rparr>, in_carState = Some CS, in_rk_lagging = False,
     in_narrow_stream = True, in_wide_stream = True \<rparr>"

text \<open>A daemon that is initialised and engaged.\<close>

definition demo_selfdrived :: selfdrived where
  "demo_selfdrived = \<lparr> sd_car_events = car_events_init, sd_car_events_sp = False, sd_calibrated_pose = None,
     sd_excessive_check = excessive_check_init, sd_excessive_actuation = False, sd_is_metric = True,
     sd_is_ldw_enabled = False, sd_disengage_on_accelerator = False, sd_CS_prev = demo_car\<lparr>cs_brakePressed := False\<rparr>,
     sd_AM = am_init, sd_events = ev_init (EVENTS True), sd_events_sp = ev_init (EVENTS_SP True), sd_initialized = True,
     sd_enabled = True, sd_active = True, sd_enabled_prev = True, sd_mismatch_counter = 0,
     sd_cruise_mismatch_counter = 0, sd_last_steering_pressed_frame = 0, sd_distance_traveled = 0,
     sd_last_functional_fan_frame = 0, sd_events_prev = [], sd_events_sp_prev = [], sd_experimental_mode = False,
     sd_personality = 1, sd_recalibrating_seen = False, sd_state_machine = ss_init\<lparr>ss_state := OS_enabled\<rparr>,
     sd_startup_event = None, sd_mads = demo_mads PAUSE MS_enabled, sd_icbm = icbm_init,
     sd_cruise_helper = cruise_helper_init, sd_button_tracker = tracker_init,
     sd_params = \<lparr>pr_values = Map.empty, pr_defaults = Map.empty\<rparr>, sd_ignored = [], sd_offroad_alerts = [] \<rparr>"

lemma demo_sd_inv [simp]: "sd_inv demo_sd_env demo_selfdrived"
  by (simp add: sd_inv_def demo_sd_env_def demo_selfdrived_def sd_wf_def stores_wf_def ev_wf_init demo_params_def
      ss_init_def ENABLED_STATES_def ACTIVE_STATES_def)

lemma demo_frame_ok [simp]: "frame_ok demo_sd_env (demo_inputs CS) sd"
  by (simp add: frame_ok_def demo_inputs_def demo_plan_sp_def saturation_defined_def)

abbreviation demo_sd_frames :: "car_state list \<Rightarrow> sd_event list" where
  "demo_sd_frames css \<equiv> map (\<lambda>CS. Frame (demo_inputs CS)) css"

lemma demo_frames_ok [simp]: "frames_ok demo_sd_env (demo_sd_frames css) sd"
  by (induction css arbitrary: sd) (auto split: option.split)

lemma demo_frames_list [simp]: "sd_frames (demo_sd_frames css) = map demo_inputs css"
  by (induction css) simp_all

lemma sd_frames_replicate [simp]: "sd_frames (replicate n (Frame inp)) = replicate n inp"
  by (induction n) simp_all

lemma demo_fields [simp]:
  "\<not> cp_passive (se_CP demo_sd_env)" "sd_mismatch_counter demo_selfdrived = 0" "sd_enabled demo_selfdrived"
  "sd_initialized demo_selfdrived" "controls_denied (demo_inputs CS)" "in_carState (demo_inputs CS) = Some CS"
  by (simp_all add: demo_sd_env_def demo_params_def demo_selfdrived_def controls_denied_def demo_inputs_def
      IGNORED_SAFETY_MODES_def)

section \<open>Properties\<close>

text \<open>An event that disables and does not admit keeps openpilot off in its frame.\<close>

lemma disabling_event:
  assumes "\<not> cp_passive (se_CP E)" "sd_initialized sd2" "sd_has e sd2"
    and "IMMEDIATE_DISABLE \<in> set (event_types (EVENTS (se_mici E)) e) \<or> USER_DISABLE \<in> set (event_types (EVENTS (se_mici E)) e)"
    and "NO_ENTRY \<in> set (event_types (EVENTS (se_mici E)) e)"
  shows "\<not> sd_enabled (sd_engage E sd2)" "\<not> sd_active (sd_engage E sd2)"
proof -
  let ?m = "EVENTS (se_mici E)"
  have kill: "ss_kill ?m (sd_events sd2)"
    using assms(3,4) by (auto simp: ss_kill_def contains_iff sd_has_def)
  have noadmit: "\<not> ss_admit ?m (sd_events sd2)"
    using assms(3,5) by (auto simp: ss_admit_def contains_iff sd_has_def)
  have "ss_state (ss_step ?m (sd_events sd2) (sd_state_machine sd2)) = OS_disabled"
    using ss.killed [OF kill] ss.not_admitted [OF _ noadmit] by blast
  then show "\<not> sd_enabled (sd_engage E sd2)" "\<not> sd_active (sd_engage E sd2)"
    by (simp_all add: sd_engage_run [OF assms(1,2)] enabled_iff active_iff)
qed

lemma frame_disabled:
  assumes "sd_inv E sd" "frame_ok E inp sd" "\<not> cp_passive (se_CP E)"
    and "data_sample E inp sd = (CS, sd1)" "sd_initialized sd1"
    and "\<And>sd2. update_events E (effective_inputs sd1 inp) CS sd1 = Some sd2 \<Longrightarrow> \<exists>e. sd_has e sd2 \<and>
      (IMMEDIATE_DISABLE \<in> set (event_types (EVENTS (se_mici E)) e) \<or> USER_DISABLE \<in> set (event_types (EVENTS (se_mici E)) e)) \<and>
      NO_ENTRY \<in> set (event_types (EVENTS (se_mici E)) e)"
  shows "\<exists>pb sd'. sd_step E inp sd = Some (pb, sd') \<and> \<not> pb_enabled pb \<and> \<not> pb_active pb"
proof (rule sd_step_ok [OF assms(1,2)])
  fix CS' sd1' sd2 pb sd'
  assume a: "data_sample E inp sd = (CS', sd1')" "update_events E (effective_inputs sd1' inp) CS' sd1' = Some sd2"
    "sd_step E inp sd = Some (pb, sd')" "sd_enabled sd' = sd_enabled (sd_engage E sd2)"
    "sd_active sd' = sd_active (sd_engage E sd2)" "pb_enabled pb = sd_enabled sd'" "pb_active pb = sd_active sd'"
    "sd_initialized sd2 = sd_initialized sd1'"
  have e: "CS' = CS" "sd1' = sd1" using a(1) assms(4) by simp_all
  from assms(6) [OF a(2) [unfolded e]] obtain e where "sd_has e sd2"
    "IMMEDIATE_DISABLE \<in> set (event_types (EVENTS (se_mici E)) e) \<or> USER_DISABLE \<in> set (event_types (EVENTS (se_mici E)) e)"
    "NO_ENTRY \<in> set (event_types (EVENTS (se_mici E)) e)" by blast
  with disabling_event [OF assms(3) _ this] a e assms(5) show ?thesis by auto
qed

lemma panda_in_conditions:
  assumes "ps \<in> set (in_pandaStates inp)"
    and "e = EN_relayMalfunction \<and> pa_relayMalfunction ps \<or>
         e = EN_controlsMismatch \<and> (pa_safetyRxChecksInvalid ps \<or> 200 \<le> n)"
  shows "(True, e) \<in> set (panda_conditions E inp n)"
proof -
  obtain i where "i < length (in_pandaStates inp)" "in_pandaStates inp ! i = ps"
    using assms(1) by (auto simp: in_set_conv_nth)
  then have "(i, ps) \<in> set (zip [0..<length (in_pandaStates inp)] (in_pandaStates inp))"
    by (force simp: set_zip)
  then show ?thesis unfolding panda_conditions_def using assms(2) by force
qed

text \<open>A frame with the brake pressed.\<close>

lemma brake_off:
  assumes "sd_inv E sd" "frame_ok E inp sd" "\<not> cp_passive (se_CP E)"
    and "data_sample E inp sd = (CS, sd1)" "sd_initialized sd1" "cs_canValid CS" "cs_brakePressed CS"
    and "\<not> cs_brakePressed (sd_CS_prev sd) \<or> \<not> cs_standstill CS"
  shows "\<exists>pb sd'. sd_step E inp sd = Some (pb, sd') \<and> \<not> pb_enabled pb \<and> \<not> pb_active pb"
proof (rule frame_disabled [OF assms(1-5)])
  fix sd2 assume u: "update_events E (effective_inputs sd1 inp) CS sd1 = Some sd2"
  have "sd_has EN_pedalPressed sd2"
    by (rule sd_step_ok [OF assms(1,2)]) (use u assms in \<open>auto simp: pedal_pressed_def\<close>)
  then show "\<exists>e. sd_has e sd2 \<and>
      (IMMEDIATE_DISABLE \<in> set (event_types (EVENTS (se_mici E)) e) \<or> USER_DISABLE \<in> set (event_types (EVENTS (se_mici E)) e)) \<and>
      NO_ENTRY \<in> set (event_types (EVENTS (se_mici E)) e)"
    by (intro exI [of _ EN_pedalPressed]) simp
qed

text \<open>C1: Pressing the brake disengages: in a frame with valid CAN, of a daemon that is initialized and a car that is not
  passive, in which the brake is newly pressed, or pressed while the car moves, \<open>step\<close> publishes openpilot as
  neither enabled nor active, whatever the other inputs and events of the frame are, as long as it returns (known
  events of the planner, no division by zero in the saturation check).\<close>

theorem brake_disengages:
  assumes "sd_inv E sd" "frame_ok E inp sd" "\<not> cp_passive (se_CP E)"
    and "data_sample E inp sd = (CS, sd1)" "sd_initialized sd1" "cs_canValid CS" "cs_brakePressed CS"
    and "\<not> cs_brakePressed (sd_CS_prev sd) \<or> \<not> cs_standstill CS"
  shows "\<exists>pb sd'. sd_step E inp sd = Some (pb, sd') \<and> \<not> pb_enabled pb \<and> \<not> pb_active pb"
  by (rule brake_off [OF assms])

theorem brake_disengages_witness:
  "\<exists>pb sd'. sd_step demo_sd_env (demo_inputs demo_car) demo_selfdrived = Some (pb, sd') \<and> \<not> pb_enabled pb \<and> \<not> pb_active pb"
proof -
  obtain CS sd1 where d: "data_sample demo_sd_env (demo_inputs demo_car) demo_selfdrived = (CS, sd1)"
    by (cases "data_sample demo_sd_env (demo_inputs demo_car) demo_selfdrived")
  have CS: "CS = demo_car" using data_sample_fields(15) [OF d] by (simp add: demo_inputs_def)
  have i: "sd_initialized sd1" by (rule data_sample_fields(14) [OF d]) (simp add: demo_selfdrived_def)
  show ?thesis
    by (rule brake_disengages [OF demo_sd_inv demo_frame_ok _ d i])
       (simp_all add: CS demo_car_def demo_selfdrived_def demo_sd_env_def demo_params_def)
qed

text \<open>C15: Losing the CAN bus disengages: in a frame in which the CAN bus has timed out or its messages are not
  valid, or with a relay malfunction or failed safety checks on some panda, \<open>step\<close> publishes openpilot as neither
  enabled nor active.  The one exception is the timeout in Park while MADS is on, which the code mutes.\<close>

theorem can_loss_disengages:
  assumes "sd_inv E sd" "frame_ok E inp sd" "\<not> cp_passive (se_CP E)"
    and "data_sample E inp sd = (CS, sd1)" "sd_initialized sd1"
    and "(cs_canTimeout CS \<or> \<not> cs_canValid CS) \<and>
           \<not> (cs_canTimeout CS \<and> cs_gearShifter CS = Gear_park \<and> ma_enabled (sd_mads sd)) \<or>
         (\<exists>ps\<in>set (in_pandaStates inp). pa_relayMalfunction ps \<or> pa_safetyRxChecksInvalid ps)"
  shows "\<exists>pb sd'. sd_step E inp sd = Some (pb, sd') \<and> \<not> pb_enabled pb \<and> \<not> pb_active pb"
proof (rule frame_disabled [OF assms(1-5)])
  fix sd2 assume u: "update_events E (effective_inputs sd1 inp) CS sd1 = Some sd2"
  have sys: "\<not> cs_canValid CS \<Longrightarrow> \<not> cs_canTimeout CS \<Longrightarrow> (True, EN_canError) \<in> set (system_conditions E (effective_inputs sd1 inp) CS)"
    "cs_canTimeout CS \<Longrightarrow> (True, EN_canBusMissing) \<in> set (system_conditions E (effective_inputs sd1 inp) CS)"
    by (simp_all add: system_conditions_def Let_def)
  have l: "lasting EN_canError" "lasting EN_relayMalfunction" "lasting EN_controlsMismatch"
    by (simp_all add: lasting_def)
  have "sd_has EN_canBusMissing sd2 \<or> sd_has EN_canError sd2 \<or> sd_has EN_relayMalfunction sd2 \<or> sd_has EN_controlsMismatch sd2"
  proof (rule sd_step_ok [OF assms(1,2)])
    fix CS' sd1' sd2'
    assume "data_sample E inp sd = (CS', sd1')" "update_events E (effective_inputs sd1' inp) CS' sd1' = Some sd2'"
      and facts: "sd_initialized sd1' \<Longrightarrow> \<not> cp_passive (se_CP E) \<Longrightarrow>
       (cs_canValid CS' \<longrightarrow> pedal_pressed (sd_disengage_on_accelerator sd) CS' (sd_CS_prev sd) \<longrightarrow> sd_has EN_pedalPressed sd2') \<and>
       (\<forall>e. lasting e \<longrightarrow> (True, e) \<in> set (panda_conditions E inp (sd_mismatch_counter sd1')) \<longrightarrow> sd_has e sd2') \<and>
       (\<forall>e. lasting e \<or> unmuted CS' sd e \<longrightarrow> (True, e) \<in> set (system_conditions E (effective_inputs sd1' inp) CS') \<longrightarrow> sd_has e sd2') \<and>
       (sd_excessive_actuation sd \<longrightarrow> sd_has EN_excessiveActuation sd2')"
    then have "CS' = CS" "sd1' = sd1" "sd2' = sd2" using assms(4) u by auto
    with facts assms(3,5) have f: "lasting e \<Longrightarrow> (True, e) \<in> set (panda_conditions E inp (sd_mismatch_counter sd1)) \<Longrightarrow> sd_has e sd2"
      "lasting e \<or> unmuted CS sd e \<Longrightarrow> (True, e) \<in> set (system_conditions E (effective_inputs sd1 inp) CS) \<Longrightarrow> sd_has e sd2" for e
      by auto
    show ?thesis
      using assms(6)
    proof (elim disjE bexE conjE)
      fix ps assume "ps \<in> set (in_pandaStates inp)" "pa_relayMalfunction ps"
      then show ?thesis using f(1) [OF l(2)] panda_in_conditions by blast
    next
      fix ps assume "ps \<in> set (in_pandaStates inp)" "pa_safetyRxChecksInvalid ps"
      then show ?thesis using f(1) [OF l(3)] panda_in_conditions by blast
    next
      assume t: "cs_canTimeout CS" "\<not> (cs_canTimeout CS \<and> cs_gearShifter CS = Gear_park \<and> ma_enabled (sd_mads sd))"
      then have "unmuted CS sd EN_canBusMissing" by (simp add: unmuted_def)
      then show ?thesis using f(2) sys(2) [OF t(1)] by blast
    next
      assume "\<not> cs_canValid CS" "\<not> (cs_canTimeout CS \<and> cs_gearShifter CS = Gear_park \<and> ma_enabled (sd_mads sd))"
      then show ?thesis using f(2) [of EN_canError] f(2) [of EN_canBusMissing] l(1) sys
        by (cases "cs_canTimeout CS") (auto simp: unmuted_def)
    qed
  qed
  then show "\<exists>e. sd_has e sd2 \<and>
      (IMMEDIATE_DISABLE \<in> set (event_types (EVENTS (se_mici E)) e) \<or> USER_DISABLE \<in> set (event_types (EVENTS (se_mici E)) e)) \<and>
      NO_ENTRY \<in> set (event_types (EVENTS (se_mici E)) e)"
  proof (elim disjE)
    assume "sd_has EN_canBusMissing sd2" then show ?thesis by (intro exI [of _ EN_canBusMissing]) simp
  next
    assume "sd_has EN_canError sd2" then show ?thesis by (intro exI [of _ EN_canError]) simp
  next
    assume "sd_has EN_relayMalfunction sd2" then show ?thesis by (intro exI [of _ EN_relayMalfunction]) simp
  next
    assume "sd_has EN_controlsMismatch sd2" then show ?thesis by (intro exI [of _ EN_controlsMismatch]) simp
  qed
qed

theorem can_loss_disengages_witness:
  "\<exists>pb sd'. sd_step demo_sd_env (demo_inputs (demo_car\<lparr>cs_canValid := False\<rparr>)) demo_selfdrived = Some (pb, sd') \<and>
     \<not> pb_enabled pb \<and> \<not> pb_active pb"
proof -
  let ?inp = "demo_inputs (demo_car\<lparr>cs_canValid := False\<rparr>)"
  obtain CS sd1 where d: "data_sample demo_sd_env ?inp demo_selfdrived = (CS, sd1)"
    by (cases "data_sample demo_sd_env ?inp demo_selfdrived")
  have CS: "CS = demo_car\<lparr>cs_canValid := False\<rparr>" using data_sample_fields(15) [OF d] by (simp add: demo_inputs_def)
  have i: "sd_initialized sd1" by (rule data_sample_fields(14) [OF d]) (simp add: demo_selfdrived_def)
  show ?thesis
    by (rule can_loss_disengages [OF demo_sd_inv demo_frame_ok _ d i])
       (simp_all add: CS demo_car_def demo_sd_env_def demo_params_def)
qed

lemma mismatch_frame_step:
  assumes "sd_inv E sd" "frame_ok E inp sd" "\<not> cp_passive (se_CP E)" "controls_denied inp" "sd_enabled sd"
    and "sd_step E inp sd = Some (pb, sd')"
  shows "sd_mismatch_counter sd' = sd_mismatch_counter sd + 1 \<and> pb_enabled pb = sd_enabled sd' \<and>
         (199 \<le> sd_mismatch_counter sd \<longrightarrow> \<not> pb_enabled pb)"
proof (rule sd_step_ok [OF assms(1,2)])
  fix CS sd1 sd2 pb1 sd1'
  assume a: "data_sample E inp sd = (CS, sd1)" "update_events E (effective_inputs sd1 inp) CS sd1 = Some sd2"
    "sd_step E inp sd = Some (pb1, sd1')" "sd_enabled sd1' = sd_enabled (sd_engage E sd2)"
    "pb_enabled pb1 = sd_enabled sd1'" "sd_initialized sd2 = sd_initialized sd1"
    "sd_mismatch_counter sd1' = sd_mismatch_counter sd1"
    and facts: "sd_initialized sd1 \<Longrightarrow> \<not> cp_passive (se_CP E) \<Longrightarrow>
       (cs_canValid CS \<longrightarrow> pedal_pressed (sd_disengage_on_accelerator sd) CS (sd_CS_prev sd) \<longrightarrow> sd_has EN_pedalPressed sd2) \<and>
       (\<forall>e. lasting e \<longrightarrow> (True, e) \<in> set (panda_conditions E inp (sd_mismatch_counter sd1)) \<longrightarrow> sd_has e sd2) \<and>
       (\<forall>e. lasting e \<or> unmuted CS sd e \<longrightarrow> (True, e) \<in> set (system_conditions E (effective_inputs sd1 inp) CS) \<longrightarrow> sd_has e sd2) \<and>
       (sd_excessive_actuation sd \<longrightarrow> sd_has EN_excessiveActuation sd2)"
  have e: "pb1 = pb" "sd1' = sd'" using a(3) assms(6) by simp_all
  have init: "sd_initialized sd1"
    using data_sample_fields(14) [OF a(1)] assms(1,5) by (auto simp: sd_inv_def)
  have mc: "sd_mismatch_counter sd1 = sd_mismatch_counter sd + 1"
    using data_sample_fields(16) [OF a(1)] assms(4,5) by simp
  have "\<not> sd_enabled (sd_engage E sd2)" if c: "199 \<le> sd_mismatch_counter sd"
  proof -
    obtain ps where ps: "ps \<in> set (in_pandaStates inp)" using assms(4) by (auto simp: controls_denied_def list_ex_iff)
    have "(True, EN_controlsMismatch) \<in> set (panda_conditions E inp (sd_mismatch_counter sd1))"
      by (rule panda_in_conditions [OF ps]) (use c mc in simp)
    moreover have "lasting EN_controlsMismatch" by (simp add: lasting_def)
    ultimately have "sd_has EN_controlsMismatch sd2" using facts [OF init assms(3)] by blast
    from disabling_event(1) [OF assms(3) _ this] show ?thesis using init a(6) by simp
  qed
  with a mc e show ?thesis by simp
qed

lemma mismatch_run:
  assumes "sd_inv E sd" "frames_ok E es sd" "\<not> cp_passive (se_CP E)" "sd_enabled sd" "\<forall>inp\<in>set (sd_frames es). controls_denied inp"
  shows "\<exists>pbs sd'. sd_run E es sd = Some (pbs, sd') \<and>
      ((\<exists>pb\<in>set pbs. \<not> pb_enabled pb) \<or>
       sd_mismatch_counter sd' = sd_mismatch_counter sd + int (length (sd_frames es)) \<and>
       (sd_frames es \<noteq> [] \<longrightarrow> sd_mismatch_counter sd' < 200))"
  using assms
proof (induction E es sd rule: frames_ok.induct)
  case (2 E inp es sd)
  have ok: "frame_ok E inp sd" and den: "controls_denied inp"
    using "2.prems"(2,5) by simp_all
  obtain pb sd1 where step: "sd_step E inp sd = Some (pb, sd1)" "sd_inv E sd1"
    by (rule sd_step_defined [OF "2.prems"(1) ok])
  note m = mismatch_frame_step [OF "2.prems"(1) ok "2.prems"(3) den "2.prems"(4) step(1)]
  have oks: "frames_ok E es sd1" by (rule frames_ok_step [OF "2.prems"(2) step(1)])
  obtain pbs sd' where r: "sd_run E es sd1 = Some (pbs, sd')" by (rule sd_run_returns [OF step(2) oks])
  note run = sd_run_step [OF step(1) r]
  show ?case
  proof (cases "pb_enabled pb")
    case False
    with run show ?thesis by auto
  next
    case True
    with m have en: "sd_enabled sd1" "sd_mismatch_counter sd1 < 200" by auto
    from "2.IH" [OF step(1) refl step(2) oks "2.prems"(3) en(1)] "2.prems"(5) r
    have "(\<exists>pb\<in>set pbs. \<not> pb_enabled pb) \<or>
       sd_mismatch_counter sd' = sd_mismatch_counter sd1 + int (length (sd_frames es)) \<and>
       (sd_frames es \<noteq> [] \<longrightarrow> sd_mismatch_counter sd' < 200)" by auto
    with m en run show ?thesis by (cases "sd_frames es = []") auto
  qed
next
  case (3 E p es sd)
  obtain sd1 where t: "params_thread_round E p sd = Some sd1" "sd_inv E sd1" "sd_enabled sd1 = sd_enabled sd"
    "sd_mismatch_counter sd1 = sd_mismatch_counter sd"
    by (rule params_round_ok [OF "3.prems"(1)]) (use "3.prems"(2) in auto)
  then show ?case using "3.IH" [OF t(1,2)] "3.prems"(2-5) by simp
qed simp

text \<open>The first frame, when the daemon is not enabled before it.\<close>

lemma mismatch_first_frame:
  assumes "sd_inv E sd" "frames_ok E es sd" "\<not> sd_enabled sd" "sd_frames es \<noteq> []"
  obtains inp pb sd1 es1 pbs sd' where "sd_frames es = inp # sd_frames es1" "sd_inv E sd1" "frames_ok E es1 sd1"
    "sd_mismatch_counter sd1 = 0" "pb_enabled pb = sd_enabled sd1"
    "sd_run E es1 sd1 = Some (pbs, sd')" "sd_run E es sd = Some (pb # pbs, sd')"
  using assms
proof (induction E es sd arbitrary: thesis rule: frames_ok.induct)
  case (2 E inp es sd)
  have ok: "frame_ok E inp sd" using "2.prems"(3) by simp
  show ?case
  proof (rule sd_step_ok [OF "2.prems"(2) ok])
    fix CS sd1 pb sd'
    assume a: "data_sample E inp sd = (CS, sd1)" "sd_step E inp sd = Some (pb, sd')" "sd_inv E sd'"
      "pb_enabled pb = sd_enabled sd'" "sd_mismatch_counter sd' = sd_mismatch_counter sd1"
    have oks: "frames_ok E es sd'" by (rule frames_ok_step [OF "2.prems"(3) a(2)])
    obtain pbs sd'' where r: "sd_run E es sd' = Some (pbs, sd'')" by (rule sd_run_returns [OF a(3) oks])
    have "sd_mismatch_counter sd' = 0" using data_sample_fields(16) [OF a(1)] "2.prems"(4) a(5) by simp
    then show ?thesis by (intro "2.prems"(1) [OF _ a(3) oks _ a(4) r sd_run_step [OF a(2) r]]) simp_all
  qed
next
  case (3 E p es sd)
  obtain sd1 where t: "params_thread_round E p sd = Some sd1" "sd_inv E sd1" "sd_enabled sd1 = sd_enabled sd"
    by (rule params_round_ok [OF "3.prems"(2)]) (use "3.prems"(3) in auto)
  show ?case
    by (rule "3.IH" [OF t(1) _ t(2)]) (use "3.prems" t in auto)
qed simp

text \<open>C5: A controls mismatch is bounded in time: over any frames and parameter rounds, when some panda with a
  safety mode denies controls in each of 200 frames that start engaged (201 frames when they do not start engaged,
  because the first one resets the counter), openpilot is published as not enabled in at least one of them (2
  seconds), whatever else happens in these frames.  The counter of the daemon is not negative, as after the
  constructor.\<close>

theorem controls_mismatch_deadline:
  assumes "sd_inv E sd" "frames_ok E es sd" "\<not> cp_passive (se_CP E)" "0 \<le> sd_mismatch_counter sd"
    and "length (sd_frames es) = (if sd_enabled sd then 200 else 201)" "\<forall>inp\<in>set (sd_frames es). controls_denied inp"
  shows "\<exists>pbs sd'. sd_run E es sd = Some (pbs, sd') \<and> (\<exists>pb\<in>set pbs. \<not> pb_enabled pb)"
proof (cases "sd_enabled sd")
  case True
  show ?thesis using mismatch_run [OF assms(1-3) True assms(6)] assms(4,5) True by fastforce
next
  case False
  obtain inp pb sd1 es1 pbs sd' where f: "sd_frames es = inp # sd_frames es1" "sd_inv E sd1" "frames_ok E es1 sd1"
    "sd_mismatch_counter sd1 = 0" "pb_enabled pb = sd_enabled sd1"
    "sd_run E es1 sd1 = Some (pbs, sd')" "sd_run E es sd = Some (pb # pbs, sd')"
    by (rule mismatch_first_frame [OF assms(1,2) False]) (use assms(5) False in auto)
  show ?thesis
  proof (cases "pb_enabled pb")
    case True
    then have "\<exists>pb\<in>set pbs. \<not> pb_enabled pb"
      using mismatch_run [OF f(2,3) assms(3)] f assms(5,6) False by fastforce
    with f(7) show ?thesis by auto
  qed (use f(7) in auto)
qed

theorem controls_mismatch_deadline_witness:
  "\<exists>pbs sd'. sd_run demo_sd_env (demo_sd_frames (replicate 200 demo_car)) demo_selfdrived = Some (pbs, sd') \<and>
     (\<exists>pb\<in>set pbs. \<not> pb_enabled pb)"
  by (rule controls_mismatch_deadline [OF demo_sd_inv demo_frames_ok]) simp_all

definition publication_ok :: "publication \<Rightarrow> bool" where
  "publication_ok pb \<longleftrightarrow> (pb_active pb \<longrightarrow> pb_enabled pb) \<and> (pb_mads_active pb \<longrightarrow> pb_mads_enabled pb)"

text \<open>C25: The daemon does not raise and keeps its invariant: from the state the constructor builds, a run over
  frames and rounds of the parameter thread in any order (the planner's events are known, the saturation check
  does not divide by zero, and each round finds a personality between 0 and 2 in the store) returns one
  publication per frame, and in each of them active implies enabled, for openpilot and for MADS.\<close>

theorem selfdrived_runs:
  assumes "selfdrived_init E KM CS0 p = Some sd" "frames_ok E es sd"
  shows "\<exists>pbs sd'. sd_run E es sd = Some (pbs, sd') \<and> length pbs = length (sd_frames es) \<and> sd_inv E sd' \<and>
           list_all publication_ok pbs"
proof -
  have "publication_ok pb" if "sd_inv E sd" "frame_ok E inp sd" "sd_step E inp sd = Some (pb, sd')" for sd inp pb sd'
  proof (rule sd_step_ok [OF that(1,2)])
    fix pb1 sd1 assume "sd_step E inp sd = Some (pb1, sd1)" "sd_inv E sd1" "pb_enabled pb1 = sd_enabled sd1"
      "pb_active pb1 = sd_active sd1" "pb_mads_enabled pb1 = ma_enabled (sd_mads sd1)"
      "pb_mads_active pb1 = ma_active (sd_mads sd1)"
    with that(3) show ?thesis
      by (auto simp: publication_ok_def sd_inv_def mads_inv_def MADS_ENABLED_STATES_def)
  qed
  with sd_run_induct [OF selfdrived_init_inv [OF assms(1)] assms(2), of "\<lambda>_. True" publication_ok]
  show ?thesis by blast
qed

definition alert_fits :: "publication \<Rightarrow> bool" where
  "alert_fits pb \<longleftrightarrow> (al_event_type (pb_alert pb) = Some NO_ENTRY \<longrightarrow> \<not> pb_enabled pb) \<and>
                      (al_event_type (pb_alert pb) = Some WARNING \<longrightarrow> pb_active pb \<or> pb_mads_active pb)"

text \<open>What is shown fits the state: from the state the constructor builds, no publication of a run
  shows a no-entry alert while openpilot is enabled, or a warning while neither openpilot nor MADS is active.\<close>

theorem shown_alert_fits_state:
  assumes "selfdrived_init E KM CS0 p = Some sd" "frames_ok E es sd" "\<forall>inp\<in>set (sd_frames es). 0 \<le> subm_frame (in_sub inp)"
  shows "\<exists>pbs sd'. sd_run E es sd = Some (pbs, sd') \<and> list_all alert_fits pbs"
proof -
  have "alert_fits pb" if "sd_inv E sd" "frame_ok E inp sd" "0 \<le> subm_frame (in_sub inp)"
    "sd_step E inp sd = Some (pb, sd')" for sd inp pb sd'
  proof (rule sd_step_ok [OF that(1,2)])
    fix pb1 sd1 assume "sd_step E inp sd = Some (pb1, sd1)"
      "0 \<le> subm_frame (in_sub inp) \<Longrightarrow> al_event_type (pb_alert pb1) = Some NO_ENTRY \<Longrightarrow> \<not> pb_enabled pb1"
      "0 \<le> subm_frame (in_sub inp) \<Longrightarrow> al_event_type (pb_alert pb1) = Some WARNING \<Longrightarrow> pb_active pb1 \<or> pb_mads_active pb1"
    with that(3,4) show ?thesis by (auto simp: alert_fits_def)
  qed
  with sd_run_induct [OF selfdrived_init_inv [OF assms(1)] assms(2), of "\<lambda>_. True" alert_fits] assms(3)
  show ?thesis by blast
qed

text \<open>A passive car is never driven: with \<open>CP.passive\<close> no publication of any run from the
  constructor's state is enabled or active, whatever the car and the other processes report.\<close>

theorem passive_never_engages:
  assumes "selfdrived_init E KM CS0 p = Some sd" "frames_ok E es sd" "cp_passive (se_CP E)"
  shows "\<exists>pbs sd'. sd_run E es sd = Some (pbs, sd') \<and> list_all (\<lambda>pb. \<not> pb_enabled pb \<and> \<not> pb_active pb) pbs"
proof -
  have "\<not> pb_enabled pb \<and> \<not> pb_active pb" if "sd_inv E sd" "frame_ok E inp sd" "sd_step E inp sd = Some (pb, sd')"
    for sd inp pb sd'
  proof (rule sd_step_ok [OF that(1,2)])
    fix pb1 sd1 assume "sd_step E inp sd = Some (pb1, sd1)" "sd_inv E sd1" "pb_enabled pb1 = sd_enabled sd1"
      "pb_active pb1 = sd_active sd1"
    with that(3) assms(3) show ?thesis by (auto simp: sd_inv_def)
  qed
  with sd_run_induct [OF selfdrived_init_inv [OF assms(1)] assms(2), of "\<lambda>_. True" "\<lambda>pb. \<not> pb_enabled pb \<and> \<not> pb_active pb"]
  show ?thesis by blast
qed

text \<open>C32: Excessive actuation is latched: once it was detected, openpilot is not engaged again by this
  daemon; when it is not enabled, no later frame of any run publishes it as enabled.\<close>

theorem excessive_actuation_latched:
  assumes "sd_inv E sd" "frames_ok E es sd" "\<not> se_REPLAY E" "sd_excessive_actuation sd" "\<not> sd_enabled sd"
  shows "\<exists>pbs sd'. sd_run E es sd = Some (pbs, sd') \<and> sd_excessive_actuation sd' \<and>
           list_all (\<lambda>pb. \<not> pb_enabled pb \<and> \<not> pb_active pb) pbs"
proof -
  let ?P = "\<lambda>sd. sd_excessive_actuation sd \<and> \<not> sd_enabled sd" and ?Q = "\<lambda>pb. \<not> pb_enabled pb \<and> \<not> pb_active pb"
  have "?P sd' \<and> ?Q pb" if "sd_inv E sd" "frame_ok E inp sd" "?P sd" "sd_step E inp sd = Some (pb, sd')" for sd inp pb sd'
  proof (rule sd_step_ok [OF that(1,2)])
    fix CS sd1 sd2 pb1 sd1'
    assume a: "data_sample E inp sd = (CS, sd1)" "sd_step E inp sd = Some (pb1, sd1')" "sd_inv E sd1'"
      "sd_enabled sd1' = sd_enabled (sd_engage E sd2)" "pb_enabled pb1 = sd_enabled sd1'"
      "pb_active pb1 = sd_active sd1'" "sd_initialized sd2 = sd_initialized sd1" "sd_enabled sd2 = sd_enabled sd"
      "sd_state_machine sd2 = sd_state_machine sd1" "sd_excessive_actuation sd \<Longrightarrow> sd_excessive_actuation sd1'"
      and facts: "sd_initialized sd1 \<Longrightarrow> \<not> cp_passive (se_CP E) \<Longrightarrow>
       (cs_canValid CS \<longrightarrow> pedal_pressed (sd_disengage_on_accelerator sd) CS (sd_CS_prev sd) \<longrightarrow> sd_has EN_pedalPressed sd2) \<and>
       (\<forall>e. lasting e \<longrightarrow> (True, e) \<in> set (panda_conditions E inp (sd_mismatch_counter sd1)) \<longrightarrow> sd_has e sd2) \<and>
       (\<forall>e. lasting e \<or> unmuted CS sd e \<longrightarrow> (True, e) \<in> set (system_conditions E (effective_inputs sd1 inp) CS) \<longrightarrow> sd_has e sd2) \<and>
       (sd_excessive_actuation sd \<longrightarrow> sd_has EN_excessiveActuation sd2)"
    have off: "ss_state (sd_state_machine sd1) = OS_disabled"
      using that(1,3) assms(3) data_sample_fields(13) [OF a(1) assms(3)] by (auto simp: sd_inv_def enabled_iff)
    have "\<not> sd_enabled sd1'"
    proof (cases "cp_passive (se_CP E) \<or> \<not> sd_initialized sd1")
      case True
      then show ?thesis using a(4,7,8) that(3) by (simp add: sd_engage_off)
    next
      case False
      then have "sd_has EN_excessiveActuation sd2" using facts that(3) by blast
      then have "contains_et (EVENTS (se_mici E)) SOFT_DISABLE (sd_events sd2)"
        "contains_et (EVENTS (se_mici E)) NO_ENTRY (sd_events sd2)"
        by (force simp: contains_iff sd_has_def)+
      then have "ss_state (ss_step (EVENTS (se_mici E)) (sd_events sd2) (sd_state_machine sd2)) = OS_disabled"
        using off a(9) by (intro ss.not_admitted) (simp_all add: ss_admit_def)
      then show ?thesis using False a(4,7) sd_engage_run [of E sd2] by (simp add: enabled_iff)
    qed
    moreover have "sd_active sd1' \<longrightarrow> sd_enabled sd1'" using a(3) by (simp add: sd_inv_def)
    ultimately show ?thesis using a(2,5,6,10) that(3,4) by auto
  qed
  with sd_run_induct [OF assms(1,2), of ?P ?Q] assms(4,5) show ?thesis by blast
qed

text \<open>An unsanitized personality stops the daemon: the constructor clips
  \<open>LongitudinalPersonality\<close> to the three values, the parameter thread stores what it reads, and on
  a value outside of them \<open>update_alerts\<close> raises for every state of the daemon.\<close>

theorem personality_unsanitized:
  "(\<forall>E KM CS0 p sd. selfdrived_init E KM CS0 p = Some sd \<longrightarrow> sd_personality sd \<in> {0, 1, 2}) \<and>
   (\<forall>E p sd n inp CS. get_int ''LongitudinalPersonality'' p = Some n \<longrightarrow> n \<notin> {0, 1, 2} \<longrightarrow>
      (\<exists>sd'. params_thread_round E p sd = Some sd' \<and> update_alerts E inp CS sd' = None))"
proof (intro conjI allI impI)
  fix E KM CS0 p sd assume "selfdrived_init E KM CS0 p = Some sd"
  then show "sd_personality sd \<in> {0, 1, 2}" using selfdrived_init_inv by (fastforce simp: sd_inv_def)
next
  fix E p sd n inp CS
  assume "get_int ''LongitudinalPersonality'' p = Some n" "n \<notin> {0, 1, 2}"
  then show "\<exists>sd'. params_thread_round E p sd = Some sd' \<and> update_alerts E inp CS sd' = None"
    by (simp add: params_thread_round_def update_alerts_def)
qed

section \<open>Witnesses\<close>

definition demo_store :: "int \<Rightarrow> params" where
  "demo_store n = \<lparr>pr_values = [''LongitudinalPersonality'' \<mapsto> PInt n], pr_defaults = Map.empty\<rparr>"

definition demo_consts :: mads_consts where
  "demo_consts = \<lparr>mc_HAS_VEHICLE_BUS = 1, mc_ScreenButton_OFF = 0, mc_HAS_LDA_BUTTON_OR_CANFD = 1, mc_ENABLE_MADS = 1,
     mc_DISENGAGE_LATERAL_ON_BRAKE = 2, mc_PAUSE_LATERAL_ON_BRAKE = 4, mc_MAIN_CRUISE_TOGGLEABLE = 1,
     mc_SAFETY_MAIN_CRUISE_TOGGLEABLE = 1\<rparr>"

lemma demo_init:
  assumes "cp_brand (se_CP E) = ''rivian''"
  obtains sd where "selfdrived_init E demo_consts demo_car (demo_store 1) = Some sd"
proof -
  have p: "get_int ''LongitudinalPersonality'' (demo_store 1) = Some 1"
    by (simp add: get_int_def get_param_def demo_store_def)
  have "\<exists>sd. selfdrived_init E demo_consts demo_car (demo_store 1) = Some sd"
    using assms p
    by (simp add: selfdrived_init_def get_sanitize_int_param_def mads_init_def read_steering_mode_param_def
        get_mads_limited_brands_def Let_def)
  then show ?thesis using that by blast
qed

theorem selfdrived_runs_witness:
  "\<exists>sd pbs sd'. sd_run demo_sd_env [Frame (demo_inputs demo_car), Params_round (demo_store 2), Frame (demo_inputs demo_car)] sd =
      Some (pbs, sd') \<and> length pbs = 2"
proof -
  let ?es = "[Frame (demo_inputs demo_car), Params_round (demo_store 2), Frame (demo_inputs demo_car)]"
  obtain sd where i: "selfdrived_init demo_sd_env demo_consts demo_car (demo_store 1) = Some sd"
    by (rule demo_init [of demo_sd_env]) (simp add: demo_sd_env_def demo_params_def)
  have "personality_set (demo_store 2)" by (simp add: personality_set_def get_int_def get_param_def demo_store_def)
  then have "frames_ok demo_sd_env ?es sd" by (auto split: option.split)
  from selfdrived_runs [OF i this] obtain pbs sd' where
    r: "sd_run demo_sd_env ?es sd = Some (pbs, sd')" "length pbs = length (sd_frames ?es)" by blast
  from r(2) have "length pbs = 2" by simp
  with r(1) show ?thesis by blast
qed

theorem shown_alert_fits_state_witness:
  "\<exists>sd pbs sd'. sd_run demo_sd_env (demo_sd_frames [demo_car, demo_car]) sd = Some (pbs, sd') \<and> list_all alert_fits pbs"
proof -
  obtain sd where i: "selfdrived_init demo_sd_env demo_consts demo_car (demo_store 1) = Some sd"
    by (rule demo_init [of demo_sd_env]) (simp add: demo_sd_env_def demo_params_def)
  have "\<forall>inp\<in>set (sd_frames (demo_sd_frames [demo_car, demo_car])). 0 \<le> subm_frame (in_sub inp)"
    by (simp add: demo_inputs_def demo_sub_def)
  from shown_alert_fits_state [OF i demo_frames_ok this] show ?thesis by blast
qed

definition demo_passive_env :: sd_env where
  "demo_passive_env = demo_sd_env\<lparr>se_CP := demo_params\<lparr>cp_passive := True\<rparr>\<rparr>"

lemma demo_passive_frames_ok: "frames_ok demo_passive_env (demo_sd_frames css) sd"
  by (induction css arbitrary: sd)
     (auto simp: frame_ok_def demo_inputs_def demo_plan_sp_def saturation_defined_def split: option.split)

theorem passive_never_engages_witness:
  "\<exists>sd pbs sd'. sd_run demo_passive_env (demo_sd_frames [demo_car, demo_car]) sd = Some (pbs, sd') \<and>
     list_all (\<lambda>pb. \<not> pb_enabled pb \<and> \<not> pb_active pb) pbs"
proof -
  have "cp_brand (se_CP demo_passive_env) = ''rivian''" by (simp add: demo_passive_env_def demo_params_def)
  then obtain sd where i: "selfdrived_init demo_passive_env demo_consts demo_car (demo_store 1) = Some sd"
    by (rule demo_init)
  from passive_never_engages [OF i demo_passive_frames_ok, of "[demo_car, demo_car]"] show ?thesis
    by (auto simp: demo_passive_env_def)
qed

theorem excessive_actuation_latched_witness:
  "\<exists>pbs sd'. sd_run demo_sd_env (demo_sd_frames [demo_car, demo_car])
      (demo_selfdrived\<lparr>sd_excessive_actuation := True, sd_enabled := False, sd_active := False,
        sd_state_machine := ss_init\<rparr>) = Some (pbs, sd') \<and> sd_excessive_actuation sd'"
proof -
  let ?sd = "demo_selfdrived\<lparr>sd_excessive_actuation := True, sd_enabled := False, sd_active := False,
        sd_state_machine := ss_init\<rparr>"
  have "sd_inv demo_sd_env ?sd"
    by (simp add: sd_inv_def demo_sd_env_def demo_selfdrived_def sd_wf_def stores_wf_def ev_wf_init
        ss_init_def ENABLED_STATES_def ACTIVE_STATES_def)
  from excessive_actuation_latched [OF this demo_frames_ok, of "[demo_car, demo_car]"] show ?thesis
    by (auto simp: demo_sd_env_def)
qed

theorem personality_unsanitized_witness:
  "\<exists>sd'. params_thread_round demo_sd_env (demo_store 7) demo_selfdrived = Some sd' \<and>
     update_alerts demo_sd_env (demo_inputs demo_car) demo_car sd' = None"
proof -
  have "get_int ''LongitudinalPersonality'' (demo_store 7) = Some 7"
    by (simp add: get_int_def get_param_def demo_store_def)
  then show ?thesis
    by (intro personality_unsanitized [THEN conjunct2, rule_format, of _ 7]) simp_all
qed

end
