(* ===== verification/SpeedLimitAssist.thy ===== *)
theory SpeedLimitAssist
  imports CarEvents ParamsStore Engagement
begin

text \<open>
  \<open>sunnypilot/selfdrive/controls/lib/speed_limit\<close>: the helpers and \<open>SpeedLimitAssist\<close>, the
  two state machines (cars whose cruise openpilot drives through its PCM, and the others) that decide
  when the planner follows the speed limit.  The parameter store is passed through, since the
  availability check may write it; \<open>time.monotonic()\<close> is an input of each call that reads it.
\<close>

section \<open>Helpers\<close>

definition compare_cluster_target :: "real \<Rightarrow> real \<Rightarrow> bool \<Rightarrow> bool \<times> bool" where
  "compare_cluster_target v_cruise_cluster target_set_speed is_metric =
     (let speed_conv = (if is_metric then MS_TO_KPH else MS_TO_MPH);
          v_cruise_cluster_conv = py_round (v_cruise_cluster * speed_conv);
          target_set_speed_conv = py_round (target_set_speed * speed_conv)
      in (v_cruise_cluster_conv < target_set_speed_conv, target_set_speed_conv < v_cruise_cluster_conv))"

definition Mode_warning :: int where "Mode_warning = 2"
definition Mode_assist :: int where "Mode_assist = 3"

definition set_speed_limit_assist_availability :: "car_params \<Rightarrow> car_params_sp \<Rightarrow> params \<Rightarrow> bool \<times> params" where
  "set_speed_limit_assist_availability CP CP_SP p =
     (let is_release = get_bool ''IsReleaseSpBranch'' p;
          disallow_in_release = (cp_brand CP = ''tesla'' \<and> is_release);
          always_disallow = (cp_brand CP = ''rivian'');
          allowed = \<not> (disallow_in_release \<or> always_disallow) \<and>
                    \<not> (\<not> cp_openpilotLongitudinalControl CP \<and> cpsp_pcmCruiseSpeed CP_SP);
          p = (if \<not> allowed \<and> get_int ''SpeedLimitMode'' p = Some Mode_assist
               then put_param ''SpeedLimitMode'' (PInt Mode_warning) p else p)
      in (allowed, p))"

section \<open>State\<close>

definition SLA_ACTIVE_STATES :: "sla_state list" where
  "SLA_ACTIVE_STATES = [SLA_active, SLA_adapting]"

definition SLA_ENABLED_STATES :: "sla_state list" where
  "SLA_ENABLED_STATES = [SLA_preActive, SLA_pending] @ SLA_ACTIVE_STATES"

definition DISABLED_GUARD_PERIOD :: real where "DISABLED_GUARD_PERIOD = 5 / 10"
definition PRE_ACTIVE_GUARD_PERIOD :: "bool \<Rightarrow> real" where
  "PRE_ACTIVE_GUARD_PERIOD pcm = (if pcm then 15 else 5)"
definition LIMIT_SPEED_OFFSET_TH :: real where "LIMIT_SPEED_OFFSET_TH = - 1"
definition SLA_V_CRUISE_UNSET :: real where "SLA_V_CRUISE_UNSET = 255"
definition CRUISE_BUTTONS_PLUS :: "button_type list" where
  "CRUISE_BUTTONS_PLUS = [BT_accelCruise, BT_resumeCruise]"
definition CRUISE_BUTTONS_MINUS :: "button_type list" where
  "CRUISE_BUTTONS_MINUS = [BT_decelCruise, BT_setCruise]"
definition CRUISE_BUTTON_CONFIRM_HOLD :: real where "CRUISE_BUTTON_CONFIRM_HOLD = 5 / 10"

record sla =
  sl_frame :: int
  sl_long_engaged_timer :: int
  sl_pre_active_timer :: int
  sl_is_metric :: bool
  sl_enabled :: bool
  sl_long_enabled :: bool
  sl_long_enabled_prev :: bool
  sl_is_enabled :: bool
  sl_is_active :: bool
  sl_output_v_target :: real
  sl_output_a_target :: real
  sl_v_ego :: real
  sl_a_ego :: real
  sl_v_offset :: real
  sl_target_set_speed_conv :: int
  sl_prev_target_set_speed_conv :: int
  sl_v_cruise_cluster :: real
  sl_v_cruise_cluster_prev :: real
  sl_v_cruise_cluster_conv :: int
  sl_prev_v_cruise_cluster_conv :: int
  sl_has_speed_limit :: bool
  sl_speed_limit :: real
  sl_speed_limit_final_last :: real
  sl_speed_limit_prev :: real
  sl_speed_limit_final_last_conv :: int
  sl_prev_speed_limit_final_last_conv :: int
  sl_distance :: real
  sl_state :: sla_state
  sl_state_prev :: sla_state
  sl_pcm_op_long :: bool
  sl_plus_hold :: real
  sl_minus_hold :: real
  sl_release_toggle_prev :: int

definition sla_init :: "car_params \<Rightarrow> car_params_sp \<Rightarrow> params \<Rightarrow> sla \<times> params" where
  "sla_init CP CP_SP p =
     (let is_metric = get_bool ''IsMetric'' p;
          p = snd (set_speed_limit_assist_availability CP CP_SP p)
      in (\<lparr> sl_frame = -1, sl_long_engaged_timer = 0, sl_pre_active_timer = 0, sl_is_metric = is_metric,
            sl_enabled = (get_int ''SpeedLimitMode'' p = Some Mode_assist), sl_long_enabled = False,
            sl_long_enabled_prev = False, sl_is_enabled = False, sl_is_active = False,
            sl_output_v_target = SLA_V_CRUISE_UNSET, sl_output_a_target = 0, sl_v_ego = 0, sl_a_ego = 0,
            sl_v_offset = 0, sl_target_set_speed_conv = 0, sl_prev_target_set_speed_conv = 0,
            sl_v_cruise_cluster = 0, sl_v_cruise_cluster_prev = 0, sl_v_cruise_cluster_conv = 0,
            sl_prev_v_cruise_cluster_conv = 0, sl_has_speed_limit = False, sl_speed_limit = 0,
            sl_speed_limit_final_last = 0, sl_speed_limit_prev = 0, sl_speed_limit_final_last_conv = 0,
            sl_prev_speed_limit_final_last_conv = 0, sl_distance = 0, sl_state = SLA_disabled,
            sl_state_prev = SLA_disabled,
            sl_pcm_op_long = (cp_openpilotLongitudinalControl CP \<and> cp_pcmCruise CP),
            sl_plus_hold = 0, sl_minus_hold = 0, sl_release_toggle_prev = 0 \<rparr>, p))"

section \<open>Derived conditions\<close>

definition speed_limit_changed :: "sla \<Rightarrow> bool" where
  "speed_limit_changed s \<longleftrightarrow> sl_has_speed_limit s \<and> sl_speed_limit s \<noteq> sl_speed_limit_prev s"

definition v_cruise_cluster_changed :: "sla \<Rightarrow> bool" where
  "v_cruise_cluster_changed s \<longleftrightarrow> sl_v_cruise_cluster_conv s \<noteq> sl_prev_v_cruise_cluster_conv s"

definition target_set_speed_confirmed :: "sla \<Rightarrow> bool" where
  "target_set_speed_confirmed s \<longleftrightarrow> sl_v_cruise_cluster_conv s = sl_target_set_speed_conv s"

definition cluster_below_confirm_threshold :: "sla \<Rightarrow> bool" where
  "cluster_below_confirm_threshold s \<longleftrightarrow> sl_v_cruise_cluster_conv s < CONFIRM_SPEED_THRESHOLD (sl_is_metric s)"

definition apply_confirm_speed_threshold :: "sla \<Rightarrow> bool" where
  "apply_confirm_speed_threshold s \<longleftrightarrow>
     cluster_below_confirm_threshold s \<or> sl_speed_limit_final_last_conv s < CONFIRM_SPEED_THRESHOLD (sl_is_metric s)"

definition update_active_event :: "sla \<Rightarrow> events \<Rightarrow> events" where
  "update_active_event s ev =
     ev_add (if cluster_below_confirm_threshold s then SP_speedLimitChanged else SP_speedLimitActive) ev"

definition get_v_target_from_control :: "sla \<Rightarrow> real" where
  "get_v_target_from_control s =
     (if sl_has_speed_limit s \<and> sl_pcm_op_long s \<and> sl_is_enabled s then sl_speed_limit_final_last s
      else if sl_has_speed_limit s \<and> \<not> sl_pcm_op_long s \<and> sl_is_active s then sl_speed_limit_final_last s
      else SLA_V_CRUISE_UNSET)"

text \<open>The acceleration solutions per state; \<open>T\<close> is \<open>ModelConstants.T_IDXS[CONTROL_N]\<close>.\<close>

definition T_IDXS :: "nat \<Rightarrow> real" where "T_IDXS i = 10 * (of_nat i / 32) ^ 2"
definition CONTROL_N :: nat where "CONTROL_N = 17"

definition active_state_acceleration :: "sla \<Rightarrow> real" where
  "active_state_acceleration s = sl_v_offset s / T_IDXS CONTROL_N"

definition adapting_state_acceleration :: "sla \<Rightarrow> real" where
  "adapting_state_acceleration s =
     (if 0 < sl_distance s
      then ((sl_speed_limit_final_last s) ^ 2 - (sl_v_ego s) ^ 2) / (2 * sl_distance s)
      else sl_v_offset s / T_IDXS CONTROL_N)"

fun acceleration_solutions :: "sla_state \<Rightarrow> sla \<Rightarrow> real" where
  "acceleration_solutions SLA_adapting s = adapting_state_acceleration s"
| "acceleration_solutions SLA_active s = active_state_acceleration s"
| "acceleration_solutions _ s = sl_a_ego s"

section \<open>Parameters, buttons, calculations\<close>

definition sla_update_params :: "car_params \<Rightarrow> car_params_sp \<Rightarrow> sla \<times> params \<Rightarrow> sla \<times> params" where
  "sla_update_params CP CP_SP = (\<lambda>(s, p).
     (if sl_frame s mod py_int (PARAMS_UPDATE_PERIOD / DT_MDL) = 0 then
        (let s = s\<lparr>sl_is_metric := get_bool ''IsMetric'' p\<rparr>;
             p = snd (set_speed_limit_assist_availability CP CP_SP p)
         in (s\<lparr>sl_enabled := (get_int ''SpeedLimitMode'' p = Some Mode_assist)\<rparr>, p))
      else (s, p)))"

definition sla_update_buttons :: "opendbc \<Rightarrow> real \<Rightarrow> int \<Rightarrow> sla \<Rightarrow> sla" where
  "sla_update_buttons K now release_toggle s =
     (let released = xor (sl_release_toggle_prev s) release_toggle;
          s = s\<lparr>sl_release_toggle_prev := release_toggle\<rparr>
      in if released = 0 then s
         else
           (let s = (if list_ex (\<lambda>b. bit released (ob_button_raw K b)) CRUISE_BUTTONS_PLUS
                     then s\<lparr>sl_plus_hold := max (sl_plus_hold s) (now + CRUISE_BUTTON_CONFIRM_HOLD)\<rparr> else s)
            in if list_ex (\<lambda>b. bit released (ob_button_raw K b)) CRUISE_BUTTONS_MINUS
               then s\<lparr>sl_minus_hold := max (sl_minus_hold s) (now + CRUISE_BUTTON_CONFIRM_HOLD)\<rparr> else s))"

definition get_button_release :: "real \<Rightarrow> bool \<Rightarrow> bool \<Rightarrow> sla \<Rightarrow> bool \<times> sla" where
  "get_button_release now req_plus req_minus s =
     (if req_plus \<and> now \<le> sl_plus_hold s then (True, s\<lparr>sl_plus_hold := 0\<rparr>)
      else if req_minus \<and> now \<le> sl_minus_hold s then (True, s\<lparr>sl_minus_hold := 0\<rparr>)
      else
        (let s = (if sl_plus_hold s < now then s\<lparr>sl_plus_hold := 0\<rparr> else s);
             s = (if sl_minus_hold s < now then s\<lparr>sl_minus_hold := 0\<rparr> else s)
         in (False, s)))"

definition sla_update_calculations :: "real \<Rightarrow> sla \<Rightarrow> sla" where
  "sla_update_calculations v_cruise_cluster s =
     (let metric = sl_is_metric s;
          speed_conv = (if metric then MS_TO_KPH else MS_TO_MPH);
          s = s\<lparr>sl_v_cruise_cluster := v_cruise_cluster,
                sl_v_offset := sl_speed_limit_final_last s - sl_v_ego s,
                sl_speed_limit_final_last_conv := py_round (sl_speed_limit_final_last s * speed_conv),
                sl_v_cruise_cluster_conv := py_round (v_cruise_cluster * speed_conv)\<rparr>;
          (cst_low, cst_high) = PCM_LONG_REQUIRED_MAX_SET_SPEED metric;
          pcm_long_required_max =
            (if sl_has_speed_limit s \<and> sl_speed_limit_final_last_conv s < CONFIRM_SPEED_THRESHOLD metric
             then cst_low else cst_high)
      in s\<lparr>sl_target_set_speed_conv :=
             (if sl_pcm_op_long s then py_round (pcm_long_required_max * speed_conv)
              else sl_speed_limit_final_last_conv s)\<rparr>)"

section \<open>The state machines\<close>

definition sla_pre_active_frames :: "sla \<Rightarrow> int" where
  "sla_pre_active_frames s = py_int (PRE_ACTIVE_GUARD_PERIOD (sl_pcm_op_long s) / DT_MDL)"

definition start_pre_active :: "sla \<Rightarrow> sla" where
  "start_pre_active s = s\<lparr>sl_state := SLA_preActive, sl_pre_active_timer := sla_pre_active_frames s\<rparr>"

definition sla_tick :: "sla \<Rightarrow> sla" where
  "sla_tick s = s\<lparr>sl_long_engaged_timer := tick_down (sl_long_engaged_timer s),
                  sl_pre_active_timer := tick_down (sl_pre_active_timer s)\<rparr>"

definition update_confirmed_state :: "sla \<Rightarrow> sla" where
  "update_confirmed_state s =
     (if sl_has_speed_limit s
      then s\<lparr>sl_state := (if sl_v_offset s < LIMIT_SPEED_OFFSET_TH then SLA_adapting else SLA_active)\<rparr>
      else s\<lparr>sl_state := SLA_pending\<rparr>)"

definition non_pcm_long_confirmed :: "real \<Rightarrow> sla \<Rightarrow> bool \<times> sla" where
  "non_pcm_long_confirmed now s =
     (if target_set_speed_confirmed s then (True, s)
      else if sl_state s \<noteq> SLA_preActive then (False, s)
      else (let (req_plus, req_minus) =
                  compare_cluster_target (sl_v_cruise_cluster s) (sl_speed_limit_final_last s) (sl_is_metric s)
            in get_button_release now req_plus req_minus s))"

definition sla_machine_pcm :: "sla \<Rightarrow> sla" where
  "sla_machine_pcm s0 =
     (let s = sla_tick s0 in
      if sl_state s \<noteq> SLA_disabled then
        (if \<not> sl_long_enabled s \<or> \<not> sl_enabled s then s\<lparr>sl_state := SLA_disabled\<rparr>
         else (case sl_state s of
             SLA_active \<Rightarrow>
               (if v_cruise_cluster_changed s then s\<lparr>sl_state := SLA_inactive\<rparr>
                else if speed_limit_changed s \<and> apply_confirm_speed_threshold s then start_pre_active s
                else if sl_has_speed_limit s \<and> sl_v_offset s < LIMIT_SPEED_OFFSET_TH
                then s\<lparr>sl_state := SLA_adapting\<rparr>
                else s)
           | SLA_adapting \<Rightarrow>
               (if v_cruise_cluster_changed s then s\<lparr>sl_state := SLA_inactive\<rparr>
                else if speed_limit_changed s \<and> apply_confirm_speed_threshold s then start_pre_active s
                else if LIMIT_SPEED_OFFSET_TH \<le> sl_v_offset s then s\<lparr>sl_state := SLA_active\<rparr>
                else s)
           | SLA_pending \<Rightarrow>
               (if target_set_speed_confirmed s then update_confirmed_state s
                else if speed_limit_changed s then start_pre_active s
                else s)
           | SLA_preActive \<Rightarrow>
               (if target_set_speed_confirmed s then update_confirmed_state s
                else if sl_pre_active_timer s \<le> 0 then s\<lparr>sl_state := SLA_inactive\<rparr>
                else s)
           | _ \<Rightarrow> s))
      else if sl_long_enabled s \<and> sl_enabled s then
        (if \<not> sl_long_enabled_prev s \<or> v_cruise_cluster_changed s
         then s\<lparr>sl_long_engaged_timer := py_int (DISABLED_GUARD_PERIOD / DT_MDL)\<rparr>
         else if sl_long_engaged_timer s \<le> 0 then
           (if target_set_speed_confirmed s then update_confirmed_state s
            else if sl_has_speed_limit s then start_pre_active s
            else s\<lparr>sl_state := SLA_pending\<rparr>)
         else s)
      else s)"

definition sla_machine_non_pcm :: "real \<Rightarrow> sla \<Rightarrow> sla" where
  "sla_machine_non_pcm now s0 =
     (let s = sla_tick s0 in
      if sl_state s \<noteq> SLA_disabled then
        (if \<not> sl_long_enabled s \<or> \<not> sl_enabled s then s\<lparr>sl_state := SLA_disabled\<rparr>
         else (case sl_state s of
             SLA_active \<Rightarrow>
               (if v_cruise_cluster_changed s then s\<lparr>sl_state := SLA_inactive\<rparr>
                else if speed_limit_changed s \<and> apply_confirm_speed_threshold s then start_pre_active s
                else s)
           | SLA_preActive \<Rightarrow>
               (let (confirmed, s) = non_pcm_long_confirmed now s
                in if confirmed then s\<lparr>sl_state := SLA_active\<rparr>
                   else if sl_pre_active_timer s \<le> 0 then s\<lparr>sl_state := SLA_inactive\<rparr>
                   else s)
           | SLA_inactive \<Rightarrow>
               (if speed_limit_changed s then start_pre_active s
                else (let (confirmed, s) = non_pcm_long_confirmed now s
                      in if confirmed then s\<lparr>sl_state := SLA_active\<rparr> else s))
           | _ \<Rightarrow> s))
      else if sl_long_enabled s \<and> sl_enabled s then
        (if \<not> sl_long_enabled_prev s \<or> v_cruise_cluster_changed s
         then s\<lparr>sl_long_engaged_timer := py_int (DISABLED_GUARD_PERIOD / DT_MDL)\<rparr>
         else if sl_long_engaged_timer s \<le> 0 then
           (let (confirmed, s) = non_pcm_long_confirmed now s
            in if confirmed then s\<lparr>sl_state := SLA_active\<rparr>
               else if sl_has_speed_limit s then start_pre_active s
               else s\<lparr>sl_state := SLA_inactive\<rparr>)
         else s)
      else s)"

definition sla_update_events :: "sla \<Rightarrow> events \<Rightarrow> events" where
  "sla_update_events s ev =
     (let ev = (if sl_state s = SLA_preActive then ev_add SP_speedLimitPreActive ev else ev);
          ev = (if sl_state s = SLA_pending \<and> sl_state_prev s \<noteq> SLA_pending then ev_add SP_speedLimitPending ev else ev)
      in if sl_is_active s then
           (if sl_state_prev s \<notin> set SLA_ACTIVE_STATES then update_active_event s ev
            else if sl_speed_limit s \<noteq> sl_speed_limit_prev s then
              (if sl_speed_limit_prev s \<le> 0 then update_active_event s ev
               else if 0 < sl_speed_limit_prev s \<and> 0 < sl_speed_limit s then update_active_event s ev
               else ev)
            else ev)
         else ev)"

section \<open>\<open>update\<close>\<close>

record sla_input =
  si_now :: real
  si_long_enabled :: bool
  si_v_ego :: real
  si_a_ego :: real
  si_v_cruise_cluster :: real
  si_speed_limit :: real
  si_speed_limit_final_last :: real
  si_has_speed_limit :: bool
  si_distance :: real

definition sla_receive :: "sla_input \<Rightarrow> sla \<Rightarrow> sla" where
  "sla_receive i s = s\<lparr>sl_long_enabled := si_long_enabled i, sl_v_ego := si_v_ego i, sl_a_ego := si_a_ego i,
     sl_has_speed_limit := si_has_speed_limit i, sl_speed_limit := si_speed_limit i,
     sl_speed_limit_final_last := si_speed_limit_final_last i, sl_distance := si_distance i\<rparr>"

definition sla_run_machine :: "real \<Rightarrow> sla \<Rightarrow> sla" where
  "sla_run_machine now s =
     (let s = s\<lparr>sl_state_prev := sl_state s\<rparr>;
          s = (if sl_pcm_op_long s then sla_machine_pcm s else sla_machine_non_pcm now s)
      in s\<lparr>sl_is_enabled := sl_state s \<in> set SLA_ENABLED_STATES,
           sl_is_active := sl_state s \<in> set SLA_ACTIVE_STATES\<rparr>)"

definition sla_track :: "sla \<Rightarrow> sla" where
  "sla_track s = s\<lparr>sl_speed_limit_prev := sl_speed_limit s, sl_v_cruise_cluster_prev := sl_v_cruise_cluster s,
     sl_long_enabled_prev := sl_long_enabled s, sl_prev_target_set_speed_conv := sl_target_set_speed_conv s,
     sl_prev_v_cruise_cluster_conv := sl_v_cruise_cluster_conv s,
     sl_prev_speed_limit_final_last_conv := sl_speed_limit_final_last_conv s,
     sl_output_v_target := get_v_target_from_control s, sl_output_a_target := sl_a_ego s,
     sl_frame := sl_frame s + 1\<rparr>"

definition sla_update :: "car_params \<Rightarrow> car_params_sp \<Rightarrow> sla_input \<Rightarrow> sla \<times> params \<times> events \<Rightarrow> sla \<times> params \<times> events" where
  "sla_update CP CP_SP i = (\<lambda>(s, p, ev).
     (let s = sla_receive i s;
          (s, p) = sla_update_params CP CP_SP (s, p);
          s = sla_update_calculations (si_v_cruise_cluster i) s;
          s = sla_run_machine (si_now i) s;
          ev = sla_update_events s ev
      in (sla_track s, p, ev)))"

section \<open>Lemmas\<close>

lemmas sla_machine_defs = sla_machine_pcm_def sla_machine_non_pcm_def sla_tick_def start_pre_active_def
  update_confirmed_state_def non_pcm_long_confirmed_def get_button_release_def

text \<open>What a machine step leaves alone.\<close>

lemma machine_pcm_frame [frame_simps]:
  "sl_long_enabled (sla_machine_pcm s) = sl_long_enabled s"
  "sl_enabled (sla_machine_pcm s) = sl_enabled s"
  "sl_has_speed_limit (sla_machine_pcm s) = sl_has_speed_limit s"
  "sl_speed_limit_final_last (sla_machine_pcm s) = sl_speed_limit_final_last s"
  "sl_v_cruise_cluster_conv (sla_machine_pcm s) = sl_v_cruise_cluster_conv s"
  "sl_target_set_speed_conv (sla_machine_pcm s) = sl_target_set_speed_conv s"
  "sl_speed_limit_final_last_conv (sla_machine_pcm s) = sl_speed_limit_final_last_conv s"
  "sl_pcm_op_long (sla_machine_pcm s) = sl_pcm_op_long s"
  by (simp_all add: sla_machine_defs Let_def split: sla_state.split)

lemma machine_non_pcm_frame [frame_simps]:
  "sl_long_enabled (sla_machine_non_pcm now s) = sl_long_enabled s"
  "sl_enabled (sla_machine_non_pcm now s) = sl_enabled s"
  "sl_has_speed_limit (sla_machine_non_pcm now s) = sl_has_speed_limit s"
  "sl_speed_limit_final_last (sla_machine_non_pcm now s) = sl_speed_limit_final_last s"
  "sl_v_cruise_cluster_conv (sla_machine_non_pcm now s) = sl_v_cruise_cluster_conv s"
  "sl_target_set_speed_conv (sla_machine_non_pcm now s) = sl_target_set_speed_conv s"
  "sl_speed_limit_final_last_conv (sla_machine_non_pcm now s) = sl_speed_limit_final_last_conv s"
  "sl_pcm_op_long (sla_machine_non_pcm now s) = sl_pcm_op_long s"
  by (simp_all add: sla_machine_defs Let_def case_prod_beta split: sla_state.split)

lemma machine_on:
  "sl_state (sla_machine_pcm s) \<noteq> SLA_disabled \<Longrightarrow> sl_long_enabled s \<and> sl_enabled s"
  "sl_state (sla_machine_non_pcm now s) \<noteq> SLA_disabled \<Longrightarrow> sl_long_enabled s \<and> sl_enabled s"
  by (auto simp: sla_machine_pcm_def sla_machine_non_pcm_def sla_tick_def Let_def split: if_splits)

lemma machine_pcm_activates:
  assumes "sl_state (sla_machine_pcm s) \<in> set SLA_ACTIVE_STATES" "sl_state s \<notin> set SLA_ACTIVE_STATES"
  shows "target_set_speed_confirmed s \<and> sl_has_speed_limit s"
  using assms
  by (cases "sl_state s")
     (auto simp: sla_machine_defs Let_def SLA_ACTIVE_STATES_def target_set_speed_confirmed_def split: if_splits)

lemma machine_non_pcm_activates:
  assumes "sl_state (sla_machine_non_pcm now s) \<in> set SLA_ACTIVE_STATES" "sl_state s \<notin> set SLA_ACTIVE_STATES"
  shows "target_set_speed_confirmed s \<or>
         sl_state s = SLA_preActive \<and>
         (fst (compare_cluster_target (sl_v_cruise_cluster s) (sl_speed_limit_final_last s) (sl_is_metric s)) \<and>
            now \<le> sl_plus_hold s \<or>
          snd (compare_cluster_target (sl_v_cruise_cluster s) (sl_speed_limit_final_last s) (sl_is_metric s)) \<and>
            now \<le> sl_minus_hold s)"
  using assms
  by (cases "sl_state s")
     (auto simp: sla_machine_defs Let_def SLA_ACTIVE_STATES_def target_set_speed_confirmed_def case_prod_beta
       split: if_splits)

text \<open>A confirmation request counts down and is not extended.\<close>

lemma machine_pre_active:
  assumes "sl_state s = SLA_preActive"
  shows "sl_state (sla_machine_pcm s) = SLA_preActive \<Longrightarrow>
           sl_pre_active_timer (sla_machine_pcm s) = sl_pre_active_timer s - 1 \<and> 1 < sl_pre_active_timer s"
    and "sl_state (sla_machine_non_pcm now s) = SLA_preActive \<Longrightarrow>
           sl_pre_active_timer (sla_machine_non_pcm now s) = sl_pre_active_timer s - 1 \<and> 1 < sl_pre_active_timer s"
  using assms
  by (auto simp: sla_machine_defs Let_def tick_down_def case_prod_beta split: if_splits)

end
