(* ===== verification/SpeedLimitProps.thy ===== *)
theory SpeedLimitProps
  imports SpeedLimitAssist
begin

text \<open>
  Speed Limit Assist over whole updates: the engagement contract on its model, that the speed limit is
  followed only after a confirmation, what the planner is given, and that every confirmation request
  ends.
\<close>

section \<open>An update in two parts\<close>

text \<open>The part of \<open>update\<close> before the machine: inputs, parameters, calculations.\<close>

definition sla_prepare :: "car_params \<Rightarrow> car_params_sp \<Rightarrow> sla_input \<Rightarrow> sla \<times> params \<Rightarrow> sla" where
  "sla_prepare CP CP_SP i = (\<lambda>(s, p).
     sla_update_calculations (si_v_cruise_cluster i) (fst (sla_update_params CP CP_SP (sla_receive i s, p))))"

lemma sla_update_fst:
  "fst (sla_update CP CP_SP i (s, p, ev)) = sla_track (sla_run_machine (si_now i) (sla_prepare CP CP_SP i (s, p)))"
  by (simp add: sla_update_def sla_prepare_def Let_def case_prod_beta)

lemma prepare_fields [frame_simps]:
  "sl_state (sla_prepare CP CP_SP i (s, p)) = sl_state s"
  "sl_pre_active_timer (sla_prepare CP CP_SP i (s, p)) = sl_pre_active_timer s"
  "sl_plus_hold (sla_prepare CP CP_SP i (s, p)) = sl_plus_hold s"
  "sl_minus_hold (sla_prepare CP CP_SP i (s, p)) = sl_minus_hold s"
  "sl_pcm_op_long (sla_prepare CP CP_SP i (s, p)) = sl_pcm_op_long s"
  "sl_long_enabled (sla_prepare CP CP_SP i (s, p)) = si_long_enabled i"
  "sl_has_speed_limit (sla_prepare CP CP_SP i (s, p)) = si_has_speed_limit i"
  "sl_speed_limit_final_last (sla_prepare CP CP_SP i (s, p)) = si_speed_limit_final_last i"
  "sl_v_cruise_cluster (sla_prepare CP CP_SP i (s, p)) = si_v_cruise_cluster i"
  by (simp_all add: sla_prepare_def sla_update_params_def sla_update_calculations_def sla_receive_def Let_def
      case_prod_beta)

lemma prepare_conv [frame_simps]:
  "sl_v_cruise_cluster_conv (sla_prepare CP CP_SP i (s, p)) =
     py_round (si_v_cruise_cluster i * (if sl_is_metric (sla_prepare CP CP_SP i (s, p)) then MS_TO_KPH else MS_TO_MPH))"
  "sl_speed_limit_final_last_conv (sla_prepare CP CP_SP i (s, p)) =
     py_round (si_speed_limit_final_last i * (if sl_is_metric (sla_prepare CP CP_SP i (s, p)) then MS_TO_KPH else MS_TO_MPH))"
  by (simp_all add: sla_prepare_def sla_update_params_def sla_update_calculations_def sla_receive_def Let_def
      case_prod_beta)

lemma run_machine_state:
  "sl_state (sla_run_machine now s) =
     (if sl_pcm_op_long s then sl_state (sla_machine_pcm (s\<lparr>sl_state_prev := sl_state s\<rparr>))
      else sl_state (sla_machine_non_pcm now (s\<lparr>sl_state_prev := sl_state s\<rparr>)))"
  by (simp add: sla_run_machine_def Let_def)

lemma run_machine_frame [frame_simps]:
  "sl_long_enabled (sla_run_machine now s) = sl_long_enabled s"
  "sl_enabled (sla_run_machine now s) = sl_enabled s"
  "sl_has_speed_limit (sla_run_machine now s) = sl_has_speed_limit s"
  "sl_speed_limit_final_last (sla_run_machine now s) = sl_speed_limit_final_last s"
  "sl_v_cruise_cluster_conv (sla_run_machine now s) = sl_v_cruise_cluster_conv s"
  "sl_target_set_speed_conv (sla_run_machine now s) = sl_target_set_speed_conv s"
  "sl_speed_limit_final_last_conv (sla_run_machine now s) = sl_speed_limit_final_last_conv s"
  "sl_pcm_op_long (sla_run_machine now s) = sl_pcm_op_long s"
  "sl_is_enabled (sla_run_machine now s) \<longleftrightarrow> sl_state (sla_run_machine now s) \<in> set SLA_ENABLED_STATES"
  "sl_is_active (sla_run_machine now s) \<longleftrightarrow> sl_state (sla_run_machine now s) \<in> set SLA_ACTIVE_STATES"
  by (simp_all add: sla_run_machine_def Let_def frame_simps)

lemma track_fields [frame_simps]:
  "sl_state (sla_track s) = sl_state s"
  "sl_pre_active_timer (sla_track s) = sl_pre_active_timer s"
  "sl_enabled (sla_track s) = sl_enabled s"
  "sl_pcm_op_long (sla_track s) = sl_pcm_op_long s"
  "sl_v_cruise_cluster_conv (sla_track s) = sl_v_cruise_cluster_conv s"
  "sl_target_set_speed_conv (sla_track s) = sl_target_set_speed_conv s"
  "sl_speed_limit_final_last_conv (sla_track s) = sl_speed_limit_final_last_conv s"
  "sl_output_v_target (sla_track s) = get_v_target_from_control s"
  by (simp_all add: sla_track_def get_v_target_from_control_def)

text \<open>A machine that is not disabled has the engagement and the setting.\<close>

lemma run_machine_on:
  "sl_state (sla_run_machine now s) \<noteq> SLA_disabled \<Longrightarrow> sl_long_enabled s \<and> sl_enabled s"
  using machine_on(1) [of "s\<lparr>sl_state_prev := sl_state s\<rparr>"] machine_on(2) [of now "s\<lparr>sl_state_prev := sl_state s\<rparr>"] by (auto simp: run_machine_state split: if_splits)

lemma active_on: "q \<in> set SLA_ENABLED_STATES \<Longrightarrow> q \<noteq> SLA_disabled" "q \<in> set SLA_ACTIVE_STATES \<Longrightarrow> q \<noteq> SLA_disabled"
  by (auto simp: SLA_ENABLED_STATES_def SLA_ACTIVE_STATES_def)

interpretation sla: engagement "sla_update CP CP_SP" "\<lambda>st. sl_state (fst st)" "\<lambda>q. q \<in> set SLA_ENABLED_STATES"
  "\<lambda>q. q \<in> set SLA_ACTIVE_STATES" SLA_disabled "\<lambda>i. \<not> si_long_enabled i" si_long_enabled
  for CP CP_SP
proof
  fix i :: sla_input and st :: "sla \<times> params \<times> events" and q
  obtain s p ev where st: "st = (s, p, ev)" by (cases st)
  show "q \<in> set SLA_ACTIVE_STATES \<Longrightarrow> q \<in> set SLA_ENABLED_STATES" by (simp add: SLA_ENABLED_STATES_def)
  show "SLA_disabled \<notin> set SLA_ENABLED_STATES" by (simp add: SLA_ENABLED_STATES_def SLA_ACTIVE_STATES_def)
  have off: "\<not> si_long_enabled i \<Longrightarrow> sl_state (fst (sla_update CP CP_SP i st)) = SLA_disabled"
    unfolding st sla_update_fst track_fields using run_machine_on [of "si_now i" "sla_prepare CP CP_SP i (s, p)"]
    by (auto simp: frame_simps)
  show "\<not> si_long_enabled i \<Longrightarrow> sl_state (fst st) \<noteq> SLA_disabled \<Longrightarrow>
      sl_state (fst (sla_update CP CP_SP i st)) = SLA_disabled"
    and "sl_state (fst st) = SLA_disabled \<Longrightarrow> \<not> si_long_enabled i \<Longrightarrow>
      sl_state (fst (sla_update CP CP_SP i st)) = SLA_disabled"
    using off by blast+
qed

section \<open>Properties\<close>

text \<open>C38: Speed Limit Assist follows a limit only after a confirmation: when an update takes it into
  \<open>active\<close> or \<open>adapting\<close>, openpilot controls the speed, the feature is on and the set speed shown to
  the driver equals the requested one; on cars without PCM the alternative is an unexpired release
  of the button that moves the set speed towards the limit, made while the request was shown.\<close>

theorem sla_needs_confirmation:
  fixes CP CP_SP i s p ev
  defines "s' \<equiv> fst (sla_update CP CP_SP i (s, p, ev))"
  assumes "sl_state s' \<in> set SLA_ACTIVE_STATES" "sl_state s \<notin> set SLA_ACTIVE_STATES"
  shows "si_long_enabled i \<and> sl_enabled s' \<and>
         (sl_pcm_op_long s \<longrightarrow> sl_v_cruise_cluster_conv s' = sl_target_set_speed_conv s' \<and> si_has_speed_limit i) \<and>
         (\<not> sl_pcm_op_long s \<longrightarrow>
            sl_v_cruise_cluster_conv s' = sl_target_set_speed_conv s' \<or>
            sl_state s = SLA_preActive \<and>
            (sl_v_cruise_cluster_conv s' < sl_speed_limit_final_last_conv s' \<and> si_now i \<le> sl_plus_hold s \<or>
             sl_speed_limit_final_last_conv s' < sl_v_cruise_cluster_conv s' \<and> si_now i \<le> sl_minus_hold s))"
proof -
  define q where "q = sla_prepare CP CP_SP i (s, p)"
  let ?q = "q\<lparr>sl_state_prev := sl_state q\<rparr>"
  have s': "s' = sla_track (sla_run_machine (si_now i) q)" by (simp add: s'_def q_def sla_update_fst)
  have f: "sl_state q = sl_state s" "sl_plus_hold q = sl_plus_hold s" "sl_minus_hold q = sl_minus_hold s"
    "sl_pcm_op_long q = sl_pcm_op_long s" "sl_long_enabled q = si_long_enabled i"
    "sl_has_speed_limit q = si_has_speed_limit i"
    by (simp_all add: q_def frame_simps)
  have t: "sl_v_cruise_cluster_conv s' = sl_v_cruise_cluster_conv q" "sl_enabled s' = sl_enabled q"
    "sl_target_set_speed_conv s' = sl_target_set_speed_conv q"
    "sl_speed_limit_final_last_conv s' = sl_speed_limit_final_last_conv q"
    by (simp_all add: s' frame_simps)
  have on: "sl_long_enabled q \<and> sl_enabled q"
    using assms(2) active_on(2) unfolding s' track_fields by (intro run_machine_on) blast
  have cmp: "compare_cluster_target (sl_v_cruise_cluster ?q) (sl_speed_limit_final_last ?q) (sl_is_metric ?q) =
      (sl_v_cruise_cluster_conv q < sl_speed_limit_final_last_conv q,
       sl_speed_limit_final_last_conv q < sl_v_cruise_cluster_conv q)"
    by (simp add: compare_cluster_target_def q_def frame_simps Let_def)
  show ?thesis
  proof (cases "sl_pcm_op_long s")
    case True
    with assms(2,3) have "target_set_speed_confirmed ?q \<and> sl_has_speed_limit ?q"
      unfolding s' track_fields by (intro machine_pcm_activates) (auto simp: run_machine_state f)
    with True on show ?thesis by (simp add: t f target_set_speed_confirmed_def)
  next
    case False
    with assms(2,3) have "sl_state (sla_machine_non_pcm (si_now i) ?q) \<in> set SLA_ACTIVE_STATES"
      "sl_state ?q \<notin> set SLA_ACTIVE_STATES"
      unfolding s' track_fields by (simp_all add: run_machine_state f)
    from machine_non_pcm_activates [OF this] False on show ?thesis
      unfolding cmp by (simp add: t f target_set_speed_confirmed_def)
  qed
qed

text \<open>What the planner is given: after every update the target speed is either the unset value 255
  or the last final speed limit, and the latter only while openpilot controls the speed, the feature is
  on and a limit is known.\<close>

theorem sla_output_target:
  fixes CP CP_SP i s p ev
  defines "s' \<equiv> fst (sla_update CP CP_SP i (s, p, ev))"
  shows "sl_output_v_target s' = 255 \<or>
         sl_output_v_target s' = si_speed_limit_final_last i \<and> si_long_enabled i \<and> sl_enabled s' \<and>
         si_has_speed_limit i \<and> sl_state s' \<in> set SLA_ENABLED_STATES \<and>
         (sl_pcm_op_long s \<or> sl_state s' \<in> set SLA_ACTIVE_STATES)"
proof -
  define q where "q = sla_prepare CP CP_SP i (s, p)"
  have s': "s' = sla_track (sla_run_machine (si_now i) q)" by (simp add: s'_def q_def sla_update_fst)
  have q: "sl_long_enabled q = si_long_enabled i" "sl_has_speed_limit q = si_has_speed_limit i"
    "sl_speed_limit_final_last q = si_speed_limit_final_last i" "sl_pcm_op_long q = sl_pcm_op_long s"
    by (simp_all add: q_def frame_simps)
  have act: "x \<in> set SLA_ACTIVE_STATES \<Longrightarrow> x \<in> set SLA_ENABLED_STATES" for x
    by (simp add: SLA_ENABLED_STATES_def)
  show ?thesis
    using run_machine_on [of "si_now i" q] active_on act
    unfolding s' by (auto simp: frame_simps get_v_target_from_control_def SLA_V_CRUISE_UNSET_def q)
qed

definition sla_run :: "car_params \<Rightarrow> car_params_sp \<Rightarrow> sla_input list \<Rightarrow> sla \<times> params \<times> events \<Rightarrow> sla \<times> params \<times> events" where
  "sla_run CP CP_SP is st = fold (sla_update CP CP_SP) is st"

lemma pre_active_step:
  assumes "sl_state s = SLA_preActive" "sl_state (fst (sla_update CP CP_SP i (s, p, ev))) = SLA_preActive"
  shows "sl_pre_active_timer (fst (sla_update CP CP_SP i (s, p, ev))) = sl_pre_active_timer s - 1 \<and>
         1 < sl_pre_active_timer s"
proof -
  let ?q = "sla_prepare CP CP_SP i (s, p)"
  let ?r = "?q\<lparr>sl_state_prev := sl_state ?q\<rparr>"
  have "sl_state ?r = SLA_preActive" using assms(1) by (simp add: frame_simps)
  from machine_pre_active [OF this] assms(2) show ?thesis
    unfolding sla_update_fst track_fields run_machine_state
    by (auto simp: sla_run_machine_def Let_def frame_simps split: if_splits)
qed

lemma pre_active_run:
  assumes "\<forall>k\<le>length is. sl_state (fst (sla_run CP CP_SP (take k is) st)) = SLA_preActive"
  shows "is = [] \<or> int (length is) < sl_pre_active_timer (fst st)"
  using assms
proof (induction "is" arbitrary: st)
  case (Cons i "is")
  obtain s p ev where st: "st = (s, p, ev)" by (cases st)
  let ?st = "sla_update CP CP_SP i st"
  have "sl_state (fst st) = SLA_preActive" using Cons.prems [rule_format, of 0] by (simp add: sla_run_def)
  moreover have "sl_state (fst ?st) = SLA_preActive" using Cons.prems [rule_format, of 1] by (simp add: sla_run_def)
  ultimately have t: "sl_pre_active_timer (fst ?st) = sl_pre_active_timer (fst st) - 1 \<and> 1 < sl_pre_active_timer (fst st)"
    using pre_active_step unfolding st by force
  have "\<forall>k\<le>length is. sl_state (fst (sla_run CP CP_SP (take k is) ?st)) = SLA_preActive"
    using Cons.prems [rule_format, of "Suc k" for k] by (simp add: sla_run_def)
  from Cons.IH [OF this] t show ?case by auto
qed simp

lemma machine_timer:
  "sl_pre_active_timer (sla_machine_pcm s) \<in> {tick_down (sl_pre_active_timer s), sla_pre_active_frames s}"
  "sl_pre_active_timer (sla_machine_non_pcm now s) \<in> {tick_down (sl_pre_active_timer s), sla_pre_active_frames s}"
  by (cases "sl_state s"; simp add: sla_machine_defs Let_def sla_pre_active_frames_def case_prod_beta)+

lemma timer_bound_step:
  assumes "sl_pre_active_timer s \<le> 300"
  shows "sl_pre_active_timer (fst (sla_update CP CP_SP i (s, p, ev))) \<le> 300"
proof -
  have p: "py_int (PRE_ACTIVE_GUARD_PERIOD b / DT_MDL) \<le> 300" for b
    by (cases b) (simp_all add: PRE_ACTIVE_GUARD_PERIOD_def DT_MDL_def py_int_def)
  let ?q = "sla_prepare CP CP_SP i (s, p)"
  let ?r = "?q\<lparr>sl_state_prev := sl_state ?q\<rparr>"
  have "tick_down (sl_pre_active_timer ?r) \<le> 300" "sla_pre_active_frames ?r \<le> 300"
    using assms p by (simp_all add: frame_simps tick_down_def sla_pre_active_frames_def)
  with machine_timer(1) [of ?r] machine_timer(2) [of "si_now i" ?r] show ?thesis
    unfolding sla_update_fst track_fields by (auto simp: sla_run_machine_def Let_def)
qed

text \<open>C39: Every confirmation request ends: from the state the constructor builds, after any updates, the
  assist does not stay in \<open>preActive\<close> for 300 further updates (15 seconds), whatever its inputs are.\<close>

theorem sla_request_ends:
  fixes CP CP_SP p ev before "after"
  defines "st \<equiv> sla_run CP CP_SP before (let (s, p) = sla_init CP CP_SP p in (s, p, ev))"
  assumes "length after = 300"
  shows "\<exists>k\<le>300. sl_state (fst (sla_run CP CP_SP (take k after) st)) \<noteq> SLA_preActive"
proof -
  have "sl_pre_active_timer (fst (fold (sla_update CP CP_SP) is st0)) \<le> 300"
    if "sl_pre_active_timer (fst st0) \<le> 300" for "is" st0
    using that
  proof (induction "is" arbitrary: st0)
    case (Cons i "is")
    obtain s p ev where "st0 = (s, p, ev)" by (cases st0)
    with Cons timer_bound_step [of s CP CP_SP i p ev] show ?case by simp
  qed simp
  from this [of "let (s, p) = sla_init CP CP_SP p in (s, p, ev)" before]
  have "sl_pre_active_timer (fst st) \<le> 300" by (simp add: st_def sla_run_def sla_init_def Let_def)
  with pre_active_run [of after CP CP_SP st] assms(2) show ?thesis by fastforce
qed

section \<open>Witnesses\<close>

definition demo_sla_input :: sla_input where
  "demo_sla_input = \<lparr>si_now = 5, si_long_enabled = True, si_v_ego = 20, si_a_ego = 0, si_v_cruise_cluster = 20,
     si_speed_limit = 25, si_speed_limit_final_last = 25, si_has_speed_limit = True, si_distance = 0\<rparr>"

definition demo_sla_params :: params where
  "demo_sla_params = \<lparr>pr_values = Map.empty, pr_defaults = Map.empty\<rparr>"

definition demo_sla :: sla where
  "demo_sla = (fst (sla_init demo_params demo_params_sp demo_sla_params))
     \<lparr>sl_frame := 1, sl_enabled := True, sl_state := SLA_preActive, sl_pre_active_timer := 50, sl_plus_hold := 6,
      sl_pcm_op_long := False, sl_is_metric := True\<rparr>"

theorem sla_needs_confirmation_witness:
  "si_long_enabled demo_sla_input \<and>
   sl_enabled (fst (sla_update demo_params demo_params_sp demo_sla_input (demo_sla, demo_sla_params, ev_init (EVENTS_SP False))))"
proof -
  let ?s = "fst (sla_update demo_params demo_params_sp demo_sla_input (demo_sla, demo_sla_params, ev_init (EVENTS_SP False)))"
  have k: "py_int (PARAMS_UPDATE_PERIOD / DT_MDL) = 60" by (simp add: PARAMS_UPDATE_PERIOD_def DT_MDL_def py_int_def)
  have "sl_state ?s = SLA_active"
    unfolding sla_update_fst
    by (simp add: sla_prepare_def sla_update_params_def k sla_receive_def sla_update_calculations_def Let_def
        case_prod_beta sla_track_def sla_run_machine_def sla_machine_defs demo_sla_def demo_sla_input_def sla_init_def
        target_set_speed_confirmed_def compare_cluster_target_def MS_TO_KPH_def)
  then have a: "sl_state ?s \<in> set SLA_ACTIVE_STATES" by (simp add: SLA_ACTIVE_STATES_def)
  have b: "sl_state demo_sla \<notin> set SLA_ACTIVE_STATES" by (simp add: demo_sla_def SLA_ACTIVE_STATES_def)
  from sla_needs_confirmation [OF a b] show ?thesis by blast
qed

theorem sla_request_ends_witness:
  "\<exists>k\<le>300. sl_state (fst (sla_run demo_params demo_params_sp (take k (replicate 300 demo_sla_input))
     (sla_run demo_params demo_params_sp [demo_sla_input]
        (let (s, p) = sla_init demo_params demo_params_sp demo_sla_params in (s, p, ev_init (EVENTS_SP False))))))
     \<noteq> SLA_preActive"
  by (rule sla_request_ends) simp

end
