(* ===== verification/SpeedLimitResolver.thy ===== *)
theory SpeedLimitResolver
  imports Messages ParamsStore
begin

text \<open>
  \<open>sunnypilot/selfdrive/controls/lib/speed_limit/speed_limit_resolver.py\<close>: the speed limit of
  the car's own sign recognition and of the map, combined by the chosen policy, with the driver's
  offset.  The two solution dictionaries hold every source from the constructor on and are functions
  of the source here.  Each read of \<open>time.monotonic()\<close> is an input; an invalid policy
  (\<open>ValueError\<close>) or offset type (\<open>NotImplementedError\<close>) is the result \<open>None\<close>.
\<close>

section \<open>Policies and offsets\<close>

datatype policy = Car_state_only | Map_data_only | Car_state_priority | Map_data_priority | Combined

text \<open>\<open>Policy(n)\<close>.\<close>

definition Policy :: "int \<Rightarrow> policy option" where
  "Policy n = (if n = 0 then Some Car_state_only else if n = 1 then Some Map_data_only
     else if n = 2 then Some Car_state_priority else if n = 3 then Some Map_data_priority
     else if n = 4 then Some Combined else None)"

fun policy_to_sources :: "policy \<Rightarrow> speed_limit_source list" where
  "policy_to_sources Car_state_only = [SLS_car]"
| "policy_to_sources Map_data_only = [SLS_map]"
| "policy_to_sources Car_state_priority = [SLS_car, SLS_map]"
| "policy_to_sources Map_data_priority = [SLS_map, SLS_car]"
| "policy_to_sources Combined = [SLS_car, SLS_map]"

definition OffsetType_off :: int where "OffsetType_off = 0"
definition OffsetType_fixed :: int where "OffsetType_fixed = 1"
definition OffsetType_percentage :: int where "OffsetType_percentage = 2"

definition LIMIT_ADAPT_ACC :: real where "LIMIT_ADAPT_ACC = - 1"
definition LIMIT_MAX_MAP_DATA_AGE :: real where "LIMIT_MAX_MAP_DATA_AGE = 10"

section \<open>State and inputs\<close>

record resolver =
  rs_frame :: int
  rs_limit_solutions :: "speed_limit_source \<Rightarrow> real"
  rs_distance_solutions :: "speed_limit_source \<Rightarrow> real"
  rs_policy :: int
  rs_source :: speed_limit_source
  rs_is_metric :: bool
  rs_offset_type :: int
  rs_offset_value :: int
  rs_v_ego :: real
  rs_distance :: real
  rs_speed_limit :: real
  rs_speed_limit_last :: real
  rs_speed_limit_final :: real
  rs_speed_limit_final_last :: real
  rs_speed_limit_offset :: real

text \<open>The messages \<open>carStateSP\<close>, \<open>liveMapDataSP\<close> and the GPS fix, and the two clock readings.\<close>

record resolver_input =
  ri_car_speedLimit :: real
  ri_unixTimestampMillis :: int
  ri_map_speedLimit :: real
  ri_map_speedLimitValid :: bool
  ri_map_speedLimitAhead :: real
  ri_map_speedLimitAheadValid :: bool
  ri_map_speedLimitAheadDistance :: real
  ri_now_age :: real
  ri_now_fix :: real

definition reset_limit_sources :: "speed_limit_source \<Rightarrow> resolver \<Rightarrow> resolver" where
  "reset_limit_sources src r =
     r\<lparr>rs_limit_solutions := (rs_limit_solutions r)(src := 0), rs_distance_solutions := (rs_distance_solutions r)(src := 0)\<rparr>"

definition resolver_init :: "params \<Rightarrow> (resolver \<times> params) option" where
  "resolver_init p =
     do { (policy, p) \<leftarrow> get_sanitize_int_param ''SpeedLimitPolicy'' 0 4 p;
          let is_metric = get_bool ''IsMetric'' p;
          (offset_type, p) \<leftarrow> get_sanitize_int_param ''SpeedLimitOffsetType'' 0 2 p;
          offset_value \<leftarrow> get_int ''SpeedLimitValueOffset'' p;
          Some (\<lparr> rs_frame = -1, rs_limit_solutions = (\<lambda>_. 0), rs_distance_solutions = (\<lambda>_. 0),
             rs_policy = policy, rs_source = SLS_none, rs_is_metric = is_metric, rs_offset_type = offset_type,
             rs_offset_value = offset_value, rs_v_ego = 0, rs_distance = 0, rs_speed_limit = 0,
             rs_speed_limit_last = 0, rs_speed_limit_final = 0, rs_speed_limit_final_last = 0,
             rs_speed_limit_offset = 0 \<rparr>, p) }"

section \<open>Operations\<close>

definition update_speed_limit_states :: "resolver \<Rightarrow> resolver" where
  "update_speed_limit_states r =
     (let r = r\<lparr>rs_speed_limit_final := rs_speed_limit r + rs_speed_limit_offset r\<rparr>
      in if 0 < rs_speed_limit r
         then r\<lparr>rs_speed_limit_last := rs_speed_limit r, rs_speed_limit_final_last := rs_speed_limit_final r\<rparr>
         else r)"

definition speed_limit_valid :: "resolver \<Rightarrow> bool" where
  "speed_limit_valid r \<longleftrightarrow> 0 < rs_speed_limit r"

definition speed_limit_last_valid :: "resolver \<Rightarrow> bool" where
  "speed_limit_last_valid r \<longleftrightarrow> 0 < rs_speed_limit_last r"

text \<open>The parameters are re-read every three seconds, without the sanitizing of the constructor.\<close>

definition resolver_update_params :: "params \<Rightarrow> resolver \<Rightarrow> resolver option" where
  "resolver_update_params p r =
     (if rs_frame r mod py_int (PARAMS_UPDATE_PERIOD / DT_MDL) = 0
      then do { policy \<leftarrow> get_int ''SpeedLimitPolicy'' p;
                offset_type \<leftarrow> get_int ''SpeedLimitOffsetType'' p;
                offset_value \<leftarrow> get_int ''SpeedLimitValueOffset'' p;
                Some (r\<lparr>rs_policy := policy, rs_is_metric := get_bool ''IsMetric'' p,
                        rs_offset_type := offset_type, rs_offset_value := offset_value\<rparr>) }
      else Some r)"

definition get_speed_limit_offset :: "resolver \<Rightarrow> real option" where
  "get_speed_limit_offset r =
     (if rs_offset_type r = OffsetType_off then Some 0
      else if rs_offset_type r = OffsetType_fixed
      then Some (of_int (rs_offset_value r) * (if rs_is_metric r then KPH_TO_MS else MPH_TO_MS))
      else if rs_offset_type r = OffsetType_percentage
      then Some (of_int (rs_offset_value r) * (1 / 100) * rs_speed_limit r)
      else None)"

definition get_from_car_state :: "resolver_input \<Rightarrow> resolver \<Rightarrow> resolver" where
  "get_from_car_state i r =
     (let r = reset_limit_sources SLS_car r
      in r\<lparr>rs_limit_solutions := (rs_limit_solutions r)(SLS_car := ri_car_speedLimit i),
           rs_distance_solutions := (rs_distance_solutions r)(SLS_car := 0)\<rparr>)"

definition distance_to_limit_ahead :: "resolver_input \<Rightarrow> resolver \<Rightarrow> real" where
  "distance_to_limit_ahead i r =
     (let distance_since_fix = rs_v_ego r * (ri_now_fix i - of_int (ri_unixTimestampMillis i) * (1 / 1000))
      in max 0 (ri_map_speedLimitAheadDistance i - distance_since_fix))"

definition adapt_distance :: "real \<Rightarrow> real \<Rightarrow> real" where
  "adapt_distance v_ego next_speed_limit =
     (let adapt_time = (next_speed_limit - v_ego) / LIMIT_ADAPT_ACC
      in v_ego * adapt_time + 5 / 10 * LIMIT_ADAPT_ACC * adapt_time ^ 2)"

definition calculate_map_data_limits :: "resolver_input \<Rightarrow> real \<Rightarrow> real \<Rightarrow> resolver \<Rightarrow> resolver" where
  "calculate_map_data_limits i speed_limit next_speed_limit r =
     (let distance_ahead = distance_to_limit_ahead i r;
          r = r\<lparr>rs_limit_solutions := (rs_limit_solutions r)(SLS_map := speed_limit),
                rs_distance_solutions := (rs_distance_solutions r)(SLS_map := 0)\<rparr>
      in if 0 < next_speed_limit \<and> next_speed_limit < rs_v_ego r then
           (if distance_ahead \<le> adapt_distance (rs_v_ego r) next_speed_limit
            then r\<lparr>rs_limit_solutions := (rs_limit_solutions r)(SLS_map := next_speed_limit),
                   rs_distance_solutions := (rs_distance_solutions r)(SLS_map := distance_ahead)\<rparr>
            else r)
         else r)"

definition process_map_data :: "resolver_input \<Rightarrow> resolver \<Rightarrow> resolver" where
  "process_map_data i r =
     (let gps_fix_age = ri_now_age i - of_int (ri_unixTimestampMillis i) * (1 / 1000)
      in if LIMIT_MAX_MAP_DATA_AGE < gps_fix_age then r
         else calculate_map_data_limits i
                (if ri_map_speedLimitValid i then ri_map_speedLimit i else 0)
                (if ri_map_speedLimitAheadValid i then ri_map_speedLimitAhead i else 0) r)"

definition get_from_map_data :: "resolver_input \<Rightarrow> resolver \<Rightarrow> resolver" where
  "get_from_map_data i r = process_map_data i (reset_limit_sources SLS_map r)"

text \<open>\<open>min(..., key=...)\<close> keeps the first minimal element.\<close>

fun min_by_limit :: "(speed_limit_source \<times> real) \<Rightarrow> (speed_limit_source \<times> real) list \<Rightarrow> speed_limit_source \<times> real" where
  "min_by_limit b [] = b"
| "min_by_limit b (x # xs) = min_by_limit (if snd x < snd b then x else b) xs"

definition source_according_to_policy :: "resolver \<Rightarrow> speed_limit_source option" where
  "source_according_to_policy r =
     do { pol \<leftarrow> Policy (rs_policy r);
          let sources = policy_to_sources pol;
          if pol \<noteq> Combined
          then Some (case filter (\<lambda>s. 0 < rs_limit_solutions r s) sources of [] \<Rightarrow> SLS_none | s # _ \<Rightarrow> s)
          else (case filter (\<lambda>(s, limit). 0 < limit) (map (\<lambda>s. (s, rs_limit_solutions r s)) sources) of
                  [] \<Rightarrow> Some SLS_none
                | x # xs \<Rightarrow> Some (fst (min_by_limit x xs))) }"

definition resolve_limit_sources :: "resolver_input \<Rightarrow> resolver \<Rightarrow> ((real \<times> real \<times> speed_limit_source) \<times> resolver) option" where
  "resolve_limit_sources i r =
     (let r = get_from_map_data i (get_from_car_state i r)
      in do { source \<leftarrow> source_according_to_policy r;
              Some ((if source \<noteq> SLS_none then rs_limit_solutions r source else 0,
                     if source \<noteq> SLS_none then rs_distance_solutions r source else 0, source), r) })"

definition resolver_update :: "params \<Rightarrow> real \<Rightarrow> resolver_input \<Rightarrow> resolver \<Rightarrow> resolver option" where
  "resolver_update p v_ego i r =
     do { r \<leftarrow> resolver_update_params p (r\<lparr>rs_v_ego := v_ego\<rparr>);
          ((limit, distance, source), r) \<leftarrow> resolve_limit_sources i r;
          let r = r\<lparr>rs_speed_limit := limit, rs_distance := distance, rs_source := source\<rparr>;
          offset \<leftarrow> get_speed_limit_offset r;
          let r = update_speed_limit_states (r\<lparr>rs_speed_limit_offset := offset\<rparr>);
          Some (r\<lparr>rs_frame := rs_frame r + 1\<rparr>) }"

section \<open>Lemmas\<close>

lemma min_by_limit_in: "min_by_limit b xs \<in> insert b (set xs)"
  by (induction xs arbitrary: b) auto

lemma min_by_limit_le: "x \<in> insert b (set xs) \<Longrightarrow> snd (min_by_limit b xs) \<le> snd x"
proof (induction xs arbitrary: b x)
  case (Cons y xs)
  let ?b = "if snd y < snd b then y else b"
  have b: "snd (min_by_limit ?b xs) \<le> snd ?b" by (rule Cons.IH) simp
  show ?case
  proof (cases "x \<in> set xs")
    case True
    then have "snd (min_by_limit ?b xs) \<le> snd x" by (intro Cons.IH) simp
    then show ?thesis by simp
  next
    case False
    with Cons.prems have "snd ?b \<le> snd x" by auto
    with b show ?thesis by simp
  qed
qed simp

lemma head_filter:
  assumes "(case filter P xs of [] \<Rightarrow> d | s # _ \<Rightarrow> s) = y" "y \<noteq> d"
  shows "\<exists>us vs. xs = us @ y # vs \<and> P y \<and> (\<forall>u\<in>set us. \<not> P u)"
proof -
  from assms obtain ys where "filter P xs = y # ys" by (cases "filter P xs") simp_all
  from filter_eq_ConsD [OF this] show ?thesis by blast
qed

text \<open>The source the policy picks.\<close>

lemma policy_source:
  assumes "source_according_to_policy r = Some src" "Policy (rs_policy r) = Some pol"
  shows "(src = SLS_none \<longrightarrow> (\<forall>s\<in>set (policy_to_sources pol). rs_limit_solutions r s \<le> 0)) \<and>
         (src \<noteq> SLS_none \<longrightarrow> src \<in> set (policy_to_sources pol) \<and> 0 < rs_limit_solutions r src) \<and>
         (src \<noteq> SLS_none \<longrightarrow> pol = Combined \<longrightarrow>
            (\<forall>s\<in>set (policy_to_sources pol). 0 < rs_limit_solutions r s \<longrightarrow> rs_limit_solutions r src \<le> rs_limit_solutions r s)) \<and>
         (src \<noteq> SLS_none \<longrightarrow> pol \<noteq> Combined \<longrightarrow>
            (\<exists>us vs. policy_to_sources pol = us @ src # vs \<and> (\<forall>u\<in>set us. rs_limit_solutions r u \<le> 0)))"
proof (cases "pol = Combined")
  case True
  let ?f = "rs_limit_solutions r"
  have src: "src = (if 0 < ?f SLS_car then (if 0 < ?f SLS_map \<and> ?f SLS_map < ?f SLS_car then SLS_map else SLS_car)
                    else if 0 < ?f SLS_map then SLS_map else SLS_none)"
    using assms by (auto simp: source_according_to_policy_def True Let_def split: if_splits)
  show ?thesis unfolding src using True by auto
next
  case False
  let ?P = "\<lambda>s. 0 < rs_limit_solutions r s" and ?l = "policy_to_sources pol"
  have src: "(case filter ?P ?l of [] \<Rightarrow> SLS_none | s # _ \<Rightarrow> s) = src"
    using assms False by (simp add: source_according_to_policy_def Let_def)
  have none: "src = SLS_none \<Longrightarrow> filter ?P ?l = []"
    using src by (cases pol) (auto split: if_splits)
  from head_filter [OF src] none False show ?thesis
    by (cases "src = SLS_none") (fastforce simp: filter_empty_conv not_less)+
qed

section \<open>Properties\<close>

text \<open>The resolved limit is the one the policy asks for: after an update the limit is 0 without a
  source exactly when no source of the policy has a positive limit; otherwise it is the positive limit of
  the reported source, the smallest of them under the combined policy and the first in the policy's order
  otherwise; the last limits keep the values of the last update that had one, with its offset.\<close>

theorem resolved_by_policy:
  assumes "resolver_update p v_ego i r = Some r'"
  shows "\<exists>pol. Policy (rs_policy r') = Some pol \<and>
    (rs_source r' = SLS_none \<longleftrightarrow> (\<forall>s\<in>set (policy_to_sources pol). rs_limit_solutions r' s \<le> 0)) \<and>
    (rs_source r' = SLS_none \<longrightarrow> rs_speed_limit r' = 0) \<and>
    (rs_source r' \<noteq> SLS_none \<longrightarrow> rs_source r' \<in> set (policy_to_sources pol) \<and>
       rs_speed_limit r' = rs_limit_solutions r' (rs_source r') \<and> 0 < rs_speed_limit r') \<and>
    (rs_source r' \<noteq> SLS_none \<longrightarrow> pol = Combined \<longrightarrow>
       (\<forall>s\<in>set (policy_to_sources pol). 0 < rs_limit_solutions r' s \<longrightarrow> rs_speed_limit r' \<le> rs_limit_solutions r' s)) \<and>
    (rs_source r' \<noteq> SLS_none \<longrightarrow> pol \<noteq> Combined \<longrightarrow>
       (\<exists>us vs. policy_to_sources pol = us @ rs_source r' # vs \<and> (\<forall>u\<in>set us. rs_limit_solutions r' u \<le> 0))) \<and>
    (speed_limit_valid r' \<longrightarrow> rs_speed_limit_last r' = rs_speed_limit r' \<and>
       rs_speed_limit_final_last r' = rs_speed_limit r' + rs_speed_limit_offset r') \<and>
    (\<not> speed_limit_valid r' \<longrightarrow> rs_speed_limit_last r' = rs_speed_limit_last r \<and>
       rs_speed_limit_final_last r' = rs_speed_limit_final_last r)"
proof -
  from assms obtain r1 r2 src off where
    r1: "resolver_update_params p (r\<lparr>rs_v_ego := v_ego\<rparr>) = Some r1"
    and r2: "r2 = get_from_map_data i (get_from_car_state i r1)"
    and src: "source_according_to_policy r2 = Some src"
    and r': "rs_policy r' = rs_policy r2" "rs_limit_solutions r' = rs_limit_solutions r2" "rs_source r' = src"
      "rs_speed_limit r' = (if src \<noteq> SLS_none then rs_limit_solutions r2 src else 0)"
      "rs_speed_limit_last r' = (if 0 < rs_speed_limit r' then rs_speed_limit r' else rs_speed_limit_last r2)"
      "rs_speed_limit_final_last r' =
         (if 0 < rs_speed_limit r' then rs_speed_limit r' + rs_speed_limit_offset r' else rs_speed_limit_final_last r2)"
    by (auto simp: resolver_update_def resolve_limit_sources_def bind_eq_Some_conv Let_def update_speed_limit_states_def)
  have last: "rs_speed_limit_last r2 = rs_speed_limit_last r" "rs_speed_limit_final_last r2 = rs_speed_limit_final_last r"
    using r1 by (auto simp: r2 resolver_update_params_def bind_eq_Some_conv get_from_map_data_def get_from_car_state_def
        process_map_data_def calculate_map_data_limits_def reset_limit_sources_def Let_def split: if_splits)
  obtain pol where pol: "Policy (rs_policy r2) = Some pol"
    using src by (auto simp: source_according_to_policy_def bind_eq_Some_conv)
  have p: "(src = SLS_none \<longrightarrow> (\<forall>s\<in>set (policy_to_sources pol). rs_limit_solutions r2 s \<le> 0)) \<and>
      (src \<noteq> SLS_none \<longrightarrow> src \<in> set (policy_to_sources pol) \<and> 0 < rs_limit_solutions r2 src)"
    using policy_source [OF src pol] by blast
  then have none: "src = SLS_none \<longleftrightarrow> (\<forall>s\<in>set (policy_to_sources pol). rs_limit_solutions r2 s \<le> 0)" by force
  have pos: "0 < rs_speed_limit r' \<longleftrightarrow> src \<noteq> SLS_none" using p r'(4) by auto
  show ?thesis
    using policy_source [OF src pol] none pos
    by (intro exI [of _ pol]) (simp add: r' pol last speed_limit_valid_def)
qed

text \<open>Stale map data is never dropped: the age of the GPS fix is computed as the monotonic clock minus
  the fix's Unix time, so whenever the clock reads less than the Unix time by more than the speed in
  seconds (uptime against seconds since 1970) the map's current limit is used however old the fix is, and
  the limit ahead is never adopted.\<close>

theorem stale_map_data_used:
  assumes "0 \<le> rs_v_ego r" "0 \<le> ri_map_speedLimitAheadDistance i"
    and "ri_now_age i \<le> of_int (ri_unixTimestampMillis i) / 1000"
    and "ri_now_fix i + rs_v_ego r < of_int (ri_unixTimestampMillis i) / 1000"
  shows "rs_limit_solutions (get_from_map_data i r) SLS_map = (if ri_map_speedLimitValid i then ri_map_speedLimit i else 0) \<and>
         rs_distance_solutions (get_from_map_data i r) SLS_map = 0"
proof -
  define v u where "v = rs_v_ego r" and "u = ri_now_fix i - of_int (ri_unixTimestampMillis i) * (1 / 1000)"
  have far: "\<not> distance_to_limit_ahead i r \<le> adapt_distance (rs_v_ego r) n" if n: "0 < n" "n < rs_v_ego r" for n
  proof -
    have u: "v < - u" using assms(4) by (simp add: v_def u_def)
    have "adapt_distance (rs_v_ego r) n = (v * v - n * n) / 2"
      by (simp add: adapt_distance_def LIMIT_ADAPT_ACC_def v_def power2_eq_square field_simps)
    also have "\<dots> < v * v"
    proof -
      have "(x - y) / 2 < x" if "0 < y" "0 < x" for x y :: real using that by (simp add: field_simps)
      moreover have "0 < n * n" "0 < v * v" using n by (simp_all add: v_def)
      ultimately show ?thesis by blast
    qed
    also have "\<dots> \<le> v * (- u)" using u n by (intro mult_left_mono) (auto simp: v_def)
    also have "\<dots> \<le> ri_map_speedLimitAheadDistance i - v * u" using assms(2) by simp
    also have "\<dots> \<le> distance_to_limit_ahead i r"
      unfolding distance_to_limit_ahead_def Let_def v_def u_def by (rule max.cobounded2)
    finally show ?thesis by simp
  qed
  have age: "\<not> LIMIT_MAX_MAP_DATA_AGE < ri_now_age i - of_int (ri_unixTimestampMillis i) * (1 / 1000)"
    using assms(3) by (simp add: LIMIT_MAX_MAP_DATA_AGE_def)
  have "distance_to_limit_ahead i (reset_limit_sources SLS_map r) = distance_to_limit_ahead i r"
    "rs_v_ego (reset_limit_sources SLS_map r) = rs_v_ego r"
    by (simp_all add: distance_to_limit_ahead_def reset_limit_sources_def)
  then show ?thesis using far age
    by (simp add: get_from_map_data_def process_map_data_def calculate_map_data_limits_def Let_def)
qed

section \<open>Witnesses\<close>

definition demo_resolver_params :: params where
  "demo_resolver_params = \<lparr>pr_values = [''SpeedLimitPolicy'' \<mapsto> PInt 4],
     pr_defaults = [''SpeedLimitOffsetType'' \<mapsto> PInt 0, ''SpeedLimitValueOffset'' \<mapsto> PInt 0]\<rparr>"

definition demo_resolver_input :: resolver_input where
  "demo_resolver_input = \<lparr>ri_car_speedLimit = 20, ri_unixTimestampMillis = 1700000000000, ri_map_speedLimit = 10,
     ri_map_speedLimitValid = True, ri_map_speedLimitAhead = 5, ri_map_speedLimitAheadValid = True,
     ri_map_speedLimitAheadDistance = 1, ri_now_age = 1000, ri_now_fix = 1000\<rparr>"

definition demo_resolver :: resolver where
  "demo_resolver = \<lparr> rs_frame = 1, rs_limit_solutions = (\<lambda>_. 0), rs_distance_solutions = (\<lambda>_. 0), rs_policy = 4,
     rs_source = SLS_none, rs_is_metric = True, rs_offset_type = 0, rs_offset_value = 0, rs_v_ego = 20,
     rs_distance = 0, rs_speed_limit = 0, rs_speed_limit_last = 0, rs_speed_limit_final = 0,
     rs_speed_limit_final_last = 0, rs_speed_limit_offset = 0 \<rparr>"

theorem resolved_by_policy_witness:
  "\<exists>r'. resolver_update demo_resolver_params 20 demo_resolver_input demo_resolver = Some r' \<and>
     rs_speed_limit_last r' = rs_speed_limit r'"
proof -
  have "py_int (PARAMS_UPDATE_PERIOD / DT_MDL) = 60" by (simp add: PARAMS_UPDATE_PERIOD_def DT_MDL_def py_int_def)
  then have "\<exists>r'. resolver_update demo_resolver_params 20 demo_resolver_input demo_resolver = Some r' \<and> speed_limit_valid r'"
    by (simp add: resolver_update_def resolver_update_params_def demo_resolver_def resolve_limit_sources_def
        source_according_to_policy_def Policy_def get_speed_limit_offset_def OffsetType_off_def
        get_from_map_data_def process_map_data_def calculate_map_data_limits_def get_from_car_state_def
        distance_to_limit_ahead_def adapt_distance_def reset_limit_sources_def demo_resolver_input_def LIMIT_MAX_MAP_DATA_AGE_def LIMIT_ADAPT_ACC_def
        update_speed_limit_states_def speed_limit_valid_def Let_def)
  then obtain r' where r': "resolver_update demo_resolver_params 20 demo_resolver_input demo_resolver = Some r'"
    "speed_limit_valid r'" by blast
  from resolved_by_policy [OF r'(1)] r' show ?thesis by blast
qed

theorem stale_map_data_used_witness:
  "rs_limit_solutions (get_from_map_data demo_resolver_input demo_resolver) SLS_map = 10"
  using stale_map_data_used [of demo_resolver demo_resolver_input]
  by (simp add: demo_resolver_def demo_resolver_input_def)

end
