(* ===== verification/Cruise.thy ===== *)
theory Cruise
  imports Icbm SpeedLimitAssist
begin

text \<open>
  The set speed: \<open>selfdrive/car/cruise.py\<close> (\<open>VCruiseHelper\<close>) with its base class in
  \<open>sunnypilot/selfdrive/car/cruise_ext.py\<close>, one record for both.  Speeds are km/h.  A missing dictionary key is the result
  \<open>None\<close>.  The partial-interval test \<open>v % delta != 0\<close> is only made with the increments 5, 10, 8 and 16,
  for which float and exact arithmetic agree on the one-decimal set speeds.
\<close>

section \<open>Constants\<close>

definition V_CRUISE_MIN :: int where "V_CRUISE_MIN = 8"
definition V_CRUISE_MAX :: real where "V_CRUISE_MAX = 145"
definition V_CRUISE_UNSET :: real where "V_CRUISE_UNSET = 255"
definition V_CRUISE_INITIAL :: real where "V_CRUISE_INITIAL = 40"
definition V_CRUISE_INITIAL_EXPERIMENTAL_MODE :: real where "V_CRUISE_INITIAL_EXPERIMENTAL_MODE = 105"
definition IMPERIAL_INCREMENT :: real where "IMPERIAL_INCREMENT = py_round_digits 1 MPH_TO_KPH"
definition CRUISE_LONG_PRESS :: int where "CRUISE_LONG_PRESS = 50"

fun CRUISE_NEAREST_FUNC :: "button_type \<Rightarrow> (real \<Rightarrow> int) option" where
  "CRUISE_NEAREST_FUNC BT_accelCruise = Some ceiling"
| "CRUISE_NEAREST_FUNC BT_decelCruise = Some floor"
| "CRUISE_NEAREST_FUNC _ = None"

fun CRUISE_INTERVAL_SIGN :: "button_type \<Rightarrow> real option" where
  "CRUISE_INTERVAL_SIGN BT_accelCruise = Some 1"
| "CRUISE_INTERVAL_SIGN BT_decelCruise = Some (-1)"
| "CRUISE_INTERVAL_SIGN _ = None"

text \<open>\<open>x % y\<close> on numbers, with the sign of \<open>y\<close>.\<close>

definition py_mod :: "real \<Rightarrow> real \<Rightarrow> real" where
  "py_mod x y = x - of_int \<lfloor>x / y\<rfloor> * y"

section \<open>State\<close>

record v_cruise_helper =
  vh_v_cruise_kph :: real
  vh_v_cruise_cluster_kph :: real
  vh_v_cruise_kph_last :: real
  vh_button_timers :: timers
  vh_button_change_states :: "(button_type \<times> bool \<times> bool) list"
  vh_v_cruise_min :: int
  vh_enabled_prev :: bool
  vh_custom_acc_enabled :: bool
  vh_short_increment :: int
  vh_long_increment :: int
  vh_enable_button_timers :: timers
  vh_sla_state :: sla_state
  vh_prev_sla_state :: sla_state
  vh_has_speed_limit :: bool
  vh_speed_limit_final_last :: real
  vh_speed_limit_final_last_kph :: real
  vh_prev_speed_limit_final_last_kph :: real
  vh_req_plus :: bool
  vh_req_minus :: bool

definition read_custom_set_speed_params :: "params \<Rightarrow> v_cruise_helper \<Rightarrow> v_cruise_helper option" where
  "read_custom_set_speed_params p vh =
     do { short \<leftarrow> get_int ''CustomAccShortPressIncrement'' p;
          long \<leftarrow> get_int ''CustomAccLongPressIncrement'' p;
          Some (vh\<lparr>vh_custom_acc_enabled := get_bool ''CustomAccIncrementsEnabled'' p,
                   vh_short_increment := short, vh_long_increment := long\<rparr>) }"

text \<open>The constructor; a change state is the pair of \<open>standstill\<close> and \<open>enabled\<close>.\<close>

definition v_cruise_helper_init :: "params \<Rightarrow> v_cruise_helper option" where
  "v_cruise_helper_init p = read_custom_set_speed_params p
     \<lparr> vh_v_cruise_kph = V_CRUISE_UNSET, vh_v_cruise_cluster_kph = V_CRUISE_UNSET, vh_v_cruise_kph_last = 0,
       vh_button_timers = [(BT_decelCruise, 0), (BT_accelCruise, 0)],
       vh_button_change_states = [(BT_decelCruise, False, False), (BT_accelCruise, False, False)],
       vh_v_cruise_min = 0, vh_enabled_prev = False, vh_custom_acc_enabled = False, vh_short_increment = 1,
       vh_long_increment = 5, vh_enable_button_timers = CRUISE_BUTTON_TIMER, vh_sla_state = SLA_disabled,
       vh_prev_sla_state = SLA_disabled, vh_has_speed_limit = False, vh_speed_limit_final_last = 0,
       vh_speed_limit_final_last_kph = 0, vh_prev_speed_limit_final_last_kph = 0, vh_req_plus = False,
       vh_req_minus = False \<rparr>"

definition v_cruise_initialized :: "v_cruise_helper \<Rightarrow> bool" where
  "v_cruise_initialized vh \<longleftrightarrow> vh_v_cruise_kph vh \<noteq> V_CRUISE_UNSET"

section \<open>\<open>VCruiseHelperSP\<close>\<close>

definition update_v_cruise_delta :: "v_cruise_helper \<Rightarrow> bool \<Rightarrow> real \<Rightarrow> bool \<times> real" where
  "update_v_cruise_delta vh long_press v_cruise_delta =
     (if \<not> vh_custom_acc_enabled vh then (long_press, v_cruise_delta * (if long_press then 5 else 1))
      else
        (let short_increment = np_clip (vh_short_increment vh) 1 10;
             long_increment = np_clip (vh_long_increment vh) 1 10;
             actual_increment = (if long_press then long_increment else short_increment)
         in (actual_increment \<in> {5, 10}, v_cruise_delta * of_int actual_increment)))"

definition update_minimum_set_speed :: "car_params_sp \<Rightarrow> bool \<Rightarrow> v_cruise_helper \<Rightarrow> v_cruise_helper" where
  "update_minimum_set_speed CP_SP is_metric vh =
     vh\<lparr>vh_v_cruise_min := (if cpsp_pcmCruiseSpeed CP_SP then V_CRUISE_MIN else get_minimum_set_speed is_metric)\<rparr>"

definition update_enabled_state ::
  "car_params_sp \<Rightarrow> car_state \<Rightarrow> bool \<Rightarrow> v_cruise_helper \<Rightarrow> bool \<times> v_cruise_helper" where
  "update_enabled_state CP_SP CS enabled vh =
     (if \<not> cpsp_pcmCruiseSpeed CP_SP then
        (let vh = vh\<lparr>vh_enable_button_timers :=
                      update_manual_button_timers (cs_buttonEvents CS) (vh_enable_button_timers vh)\<rparr>;
             button_pressed = any_pressed (vh_enable_button_timers vh);
             (enabled, vh) =
               (if enabled \<and> \<not> vh_enabled_prev vh then (False, vh\<lparr>vh_enabled_prev := \<not> button_pressed\<rparr>)
                else if \<not> enabled then (enabled, vh\<lparr>vh_enabled_prev := enabled\<rparr>)
                else (enabled, vh))
         in (enabled \<and> vh_enabled_prev vh, vh))
      else (enabled, vh))"

definition update_speed_limit_assist :: "bool \<Rightarrow> plan_sp \<Rightarrow> v_cruise_helper \<Rightarrow> v_cruise_helper" where
  "update_speed_limit_assist is_metric LP_SP vh =
     (let (req_plus, req_minus) =
            compare_cluster_target (vh_v_cruise_cluster_kph vh * KPH_TO_MS) (lp_speedLimitFinalLast LP_SP) is_metric
      in vh\<lparr>vh_has_speed_limit := lp_speedLimitValid LP_SP \<or> lp_speedLimitLastValid LP_SP,
            vh_speed_limit_final_last := lp_speedLimitFinalLast LP_SP,
            vh_speed_limit_final_last_kph := lp_speedLimitFinalLast LP_SP * MS_TO_KPH,
            vh_sla_state := lp_assistState LP_SP, vh_req_plus := req_plus, vh_req_minus := req_minus\<rparr>)"

definition speed_limit_final_last_changed :: "v_cruise_helper \<Rightarrow> bool" where
  "speed_limit_final_last_changed vh \<longleftrightarrow>
     vh_has_speed_limit vh \<and> vh_speed_limit_final_last_kph vh \<noteq> vh_prev_speed_limit_final_last_kph vh"

definition sla_pre_active_confirmed :: "button_type \<Rightarrow> v_cruise_helper \<Rightarrow> bool" where
  "sla_pre_active_confirmed button_type vh \<longleftrightarrow>
     (vh_sla_state vh = SLA_preActive \<or> vh_prev_sla_state vh = SLA_preActive) \<and>
     (button_type = BT_decelCruise \<and> vh_req_minus vh \<or> button_type = BT_accelCruise \<and> vh_req_plus vh)"

text \<open>The clipping both set-speed changes end with.\<close>

definition clip_v_cruise :: "v_cruise_helper \<Rightarrow> real \<Rightarrow> real" where
  "clip_v_cruise vh v = np_clip (py_round_digits 1 v) (of_int (vh_v_cruise_min vh)) V_CRUISE_MAX"

definition sla_v_cruise_non_pcm :: "v_cruise_helper \<Rightarrow> v_cruise_helper" where
  "sla_v_cruise_non_pcm vh =
     (let vh = (if vh_sla_state vh \<in> set SLA_ACTIVE_STATES \<and>
                   (vh_prev_sla_state vh \<notin> set SLA_ACTIVE_STATES \<or> speed_limit_final_last_changed vh)
                then vh\<lparr>vh_v_cruise_kph := clip_v_cruise vh (vh_speed_limit_final_last_kph vh)\<rparr> else vh)
      in vh\<lparr>vh_prev_sla_state := vh_sla_state vh,
            vh_prev_speed_limit_final_last_kph := vh_speed_limit_final_last_kph vh\<rparr>)"

section \<open>\<open>VCruiseHelper\<close>\<close>

text \<open>The first released button that has a timer, or the first one held for a multiple of the long press.\<close>

fun released_button :: "timers \<Rightarrow> button_event list \<Rightarrow> button_type option" where
  "released_button ts [] = None"
| "released_button ts (b # bs) =
     (if be_type b \<in> set (map fst ts) \<and> \<not> be_pressed b then Some (be_type b) else released_button ts bs)"

fun held_button :: "timers \<Rightarrow> button_type option" where
  "held_button [] = None"
| "held_button ((k, timer) # ts) =
     (if timer \<noteq> 0 \<and> timer mod CRUISE_LONG_PRESS = 0 then Some k else held_button ts)"

text \<open>The button that changes the speed in this frame, and whether it is held.\<close>

definition changing_button :: "button_event list \<Rightarrow> timers \<Rightarrow> (button_type \<times> bool) option" where
  "changing_button bs ts =
     (case released_button ts bs of
        Some k \<Rightarrow> (case map_of ts k of
                     Some timer \<Rightarrow> (if CRUISE_LONG_PRESS < timer then None else Some (k, False))
                   | None \<Rightarrow> None)
      | None \<Rightarrow> map_option (\<lambda>k. (k, True)) (held_button ts))"

definition apply_v_cruise_delta :: "button_type \<Rightarrow> bool \<Rightarrow> real \<Rightarrow> real \<Rightarrow> real option" where
  "apply_v_cruise_delta button_type to_nearest v_cruise_delta v =
     (if to_nearest \<and> py_mod v v_cruise_delta \<noteq> 0
      then map_option (\<lambda>f. of_int (f (v / v_cruise_delta)) * v_cruise_delta) (CRUISE_NEAREST_FUNC button_type)
      else map_option (\<lambda>sgn. v + v_cruise_delta * sgn) (CRUISE_INTERVAL_SIGN button_type))"

definition update_v_cruise_non_pcm ::
  "car_state \<Rightarrow> bool \<Rightarrow> bool \<Rightarrow> v_cruise_helper \<Rightarrow> v_cruise_helper option" where
  "update_v_cruise_non_pcm CS enabled is_metric vh =
     (if \<not> enabled then Some vh
      else (case changing_button (cs_buttonEvents CS) (vh_button_timers vh) of
          None \<Rightarrow> Some vh
        | Some (button_type, long_press) \<Rightarrow>
            do { (standstill, was_enabled) \<leftarrow> map_of (vh_button_change_states vh) button_type;
                 let cruise_standstill = (standstill \<or> cr_standstill (cs_cruiseState CS));
                 if button_type = BT_accelCruise \<and> cruise_standstill then Some vh
                 else if \<not> was_enabled then Some vh
                 else if sla_pre_active_confirmed button_type vh then Some vh
                 else do { let (to_nearest, v_cruise_delta) =
                                 update_v_cruise_delta vh long_press (if is_metric then 1 else IMPERIAL_INCREMENT);
                           v \<leftarrow> apply_v_cruise_delta button_type to_nearest v_cruise_delta (vh_v_cruise_kph vh);
                           let v = (if cs_gasPressed CS \<and> button_type \<in> {BT_decelCruise, BT_setCruise}
                                    then max v (cs_vEgo CS * MS_TO_KPH) else v);
                           Some (vh\<lparr>vh_v_cruise_kph := clip_v_cruise vh v\<rparr>) } }))"

definition button_timer_event :: "bool \<Rightarrow> bool \<Rightarrow> button_event \<Rightarrow> v_cruise_helper \<Rightarrow> v_cruise_helper" where
  "button_timer_event standstill enabled b vh =
     (if be_type b \<in> set (map fst (vh_button_timers vh))
      then vh\<lparr>vh_button_timers := AList.update (be_type b) (if be_pressed b then 1 else 0) (vh_button_timers vh),
              vh_button_change_states := AList.update (be_type b) (standstill, enabled) (vh_button_change_states vh)\<rparr>
      else vh)"

definition update_button_timers :: "car_state \<Rightarrow> bool \<Rightarrow> v_cruise_helper \<Rightarrow> v_cruise_helper" where
  "update_button_timers CS enabled vh =
     fold (button_timer_event (cr_standstill (cs_cruiseState CS)) enabled) (cs_buttonEvents CS)
       (vh\<lparr>vh_button_timers := map (\<lambda>(k, t). (k, if 0 < t then t + 1 else t)) (vh_button_timers vh)\<rparr>)"

text \<open>The set speed of the stock cruise.\<close>

definition stock_v_cruise :: "car_state \<Rightarrow> v_cruise_helper \<Rightarrow> v_cruise_helper" where
  "stock_v_cruise CS vh =
     (let cr = cs_cruiseState CS
      in if cr_speed cr = 0 then vh\<lparr>vh_v_cruise_kph := V_CRUISE_UNSET, vh_v_cruise_cluster_kph := V_CRUISE_UNSET\<rparr>
         else if cr_speed cr = -1 then vh\<lparr>vh_v_cruise_kph := -1, vh_v_cruise_cluster_kph := -1\<rparr>
         else vh\<lparr>vh_v_cruise_kph := cr_speed cr * MS_TO_KPH, vh_v_cruise_cluster_kph := cr_speedCluster cr * MS_TO_KPH\<rparr>)"

definition update_v_cruise ::
  "car_params \<Rightarrow> car_params_sp \<Rightarrow> car_state \<Rightarrow> bool \<Rightarrow> bool \<Rightarrow> v_cruise_helper \<Rightarrow> v_cruise_helper option" where
  "update_v_cruise CP CP_SP CS enabled is_metric vh =
     do { let vh = vh\<lparr>vh_v_cruise_kph_last := vh_v_cruise_kph vh\<rparr>;
          let vh = update_minimum_set_speed CP_SP is_metric vh;
          let (on, vh) = update_enabled_state CP_SP CS enabled vh;
          vh \<leftarrow> (if cr_available (cs_cruiseState CS) then
                  (if \<not> cp_pcmCruise CP \<or> \<not> cpsp_pcmCruiseSpeed CP_SP \<and> on
                   then do { vh \<leftarrow> update_v_cruise_non_pcm CS on is_metric vh;
                             let vh = sla_v_cruise_non_pcm vh;
                             Some (vh\<lparr>vh_v_cruise_cluster_kph := vh_v_cruise_kph vh\<rparr>) }
                   else Some (stock_v_cruise CS vh))
                else Some (vh\<lparr>vh_v_cruise_kph := V_CRUISE_UNSET, vh_v_cruise_cluster_kph := V_CRUISE_UNSET\<rparr>));
          Some (if \<not> cp_pcmCruise CP \<or> \<not> cpsp_pcmCruiseSpeed CP_SP
                then update_button_timers CS enabled vh else vh) }"

definition initialize_v_cruise :: "car_params \<Rightarrow> car_state \<Rightarrow> bool \<Rightarrow> v_cruise_helper \<Rightarrow> v_cruise_helper" where
  "initialize_v_cruise CP CS experimental_mode vh =
     (if cp_pcmCruise CP then vh
      else
        (let initial = (if experimental_mode then V_CRUISE_INITIAL_EXPERIMENTAL_MODE else V_CRUISE_INITIAL);
             v = (if list_ex (\<lambda>b. be_type b \<in> {BT_accelCruise, BT_resumeCruise}) (cs_buttonEvents CS) \<and>
                     v_cruise_initialized vh
                  then vh_v_cruise_kph_last vh
                  else of_int (py_round (np_clip (cs_vEgo CS * MS_TO_KPH) initial V_CRUISE_MAX)))
         in vh\<lparr>vh_v_cruise_kph := v, vh_v_cruise_cluster_kph := v\<rparr>))"

section \<open>Well-formed helpers\<close>

text \<open>The dictionaries keep the two buttons they start with.\<close>

definition vh_wf :: "v_cruise_helper \<Rightarrow> bool" where
  "vh_wf vh \<longleftrightarrow> set (map fst (vh_button_timers vh)) = {BT_decelCruise, BT_accelCruise} \<and>
                 {BT_decelCruise, BT_accelCruise} \<subseteq> set (map fst (vh_button_change_states vh))"

definition set_speed_ok :: "real \<Rightarrow> real \<Rightarrow> bool" where
  "set_speed_ok lo v \<longleftrightarrow> v = V_CRUISE_UNSET \<or> lo \<le> v \<and> v \<le> V_CRUISE_MAX"

lemma imperial_increment: "IMPERIAL_INCREMENT = 16 / 10"
proof -
  have "\<lfloor>1609344 / 100000 :: real\<rfloor> = 16" by (simp add: floor_eq_iff)
  then show ?thesis by (simp add: IMPERIAL_INCREMENT_def py_round_digits_def MPH_TO_KPH_def py_round_def Let_def)
qed

lemma released_button_key: "released_button ts bs = Some k \<Longrightarrow> k \<in> set (map fst ts)"
  by (induction bs) (auto split: if_splits)

lemma held_button_key: "held_button ts = Some k \<Longrightarrow> k \<in> set (map fst ts)"
  by (induction ts rule: held_button.induct) (auto split: if_splits)

lemma changing_button_key: "changing_button bs ts = Some (k, long) \<Longrightarrow> k \<in> set (map fst ts)"
  by (auto simp: changing_button_def dest: released_button_key held_button_key split: option.splits if_splits)

lemma apply_delta_defined:
  "k \<in> {BT_decelCruise, BT_accelCruise} \<Longrightarrow> \<exists>v'. apply_v_cruise_delta k n d v = Some v'"
  by (auto simp: apply_v_cruise_delta_def)

lemma clip_v_cruise_bounds:
  "of_int (vh_v_cruise_min vh) \<le> V_CRUISE_MAX \<Longrightarrow>
     of_int (vh_v_cruise_min vh) \<le> clip_v_cruise vh v \<and> clip_v_cruise vh v \<le> V_CRUISE_MAX"
  by (simp add: clip_v_cruise_def np_clip_lower np_clip_upper)

text \<open>Only the set speed changes, to a clipped value.\<close>

lemma non_pcm_defined:
  assumes "vh_wf vh"
  shows "\<exists>v. update_v_cruise_non_pcm CS on m vh = Some (vh\<lparr>vh_v_cruise_kph := v\<rparr>) \<and>
             (v = vh_v_cruise_kph vh \<or> (\<exists>w. v = clip_v_cruise vh w))"
proof (cases "changing_button (cs_buttonEvents CS) (vh_button_timers vh)")
  case None
  then show ?thesis by (intro exI [of _ "vh_v_cruise_kph vh"]) (simp add: update_v_cruise_non_pcm_def)
next
  case (Some kl)
  obtain k long where kl: "kl = (k, long)" by (cases kl)
  with Some changing_button_key have k: "k \<in> {BT_decelCruise, BT_accelCruise}"
    using assms by (fastforce simp: vh_wf_def)
  then have "k \<in> set (map fst (vh_button_change_states vh))" using assms by (auto simp: vh_wf_def)
  then obtain st en where se: "map_of (vh_button_change_states vh) k = Some (st, en)"
    by (metis map_of_eq_None_iff not_None_eq set_map surj_pair)
  let ?d = "update_v_cruise_delta vh long (if m then 1 else IMPERIAL_INCREMENT)"
  obtain v where v: "apply_v_cruise_delta k (fst ?d) (snd ?d) (vh_v_cruise_kph vh) = Some v"
    using apply_delta_defined [OF k] by blast
  show ?thesis
  proof (cases "on \<and> \<not> (k = BT_accelCruise \<and> (st \<or> cr_standstill (cs_cruiseState CS))) \<and> en \<and>
      \<not> sla_pre_active_confirmed k vh")
    case True
    then show ?thesis using Some v
      by (auto simp: update_v_cruise_non_pcm_def kl se Let_def case_prod_beta)
  next
    case False
    then show ?thesis using Some
      by (intro exI [of _ "vh_v_cruise_kph vh"]) (auto simp: update_v_cruise_non_pcm_def kl se Let_def)
  qed
qed

lemma button_timer_event_wf: "vh_wf vh \<Longrightarrow> vh_wf (button_timer_event st en b vh)"
  by (auto simp: vh_wf_def button_timer_event_def dom_update)

lemma button_timer_events_wf: "vh_wf vh \<Longrightarrow> vh_wf (fold (button_timer_event st en) bs vh)"
  by (induction bs arbitrary: vh) (auto simp: button_timer_event_wf)

lemma button_timer_events_fields [frame_simps]:
  "vh_v_cruise_kph (fold (button_timer_event st en) bs vh) = vh_v_cruise_kph vh"
  "vh_v_cruise_cluster_kph (fold (button_timer_event st en) bs vh) = vh_v_cruise_cluster_kph vh"
  "vh_v_cruise_kph_last (fold (button_timer_event st en) bs vh) = vh_v_cruise_kph_last vh"
  "vh_v_cruise_min (fold (button_timer_event st en) bs vh) = vh_v_cruise_min vh"
  by (induction bs arbitrary: vh) (simp_all add: button_timer_event_def)

lemma update_button_timers_fields [frame_simps]:
  "vh_v_cruise_kph (update_button_timers CS en vh) = vh_v_cruise_kph vh"
  "vh_v_cruise_cluster_kph (update_button_timers CS en vh) = vh_v_cruise_cluster_kph vh"
  "vh_v_cruise_kph_last (update_button_timers CS en vh) = vh_v_cruise_kph_last vh"
  "vh_v_cruise_min (update_button_timers CS en vh) = vh_v_cruise_min vh"
  by (simp_all add: update_button_timers_def frame_simps)

lemma update_button_timers_wf: "vh_wf vh \<Longrightarrow> vh_wf (update_button_timers CS en vh)"
  unfolding update_button_timers_def
  by (intro button_timer_events_wf) (auto simp: vh_wf_def comp_def case_prod_beta)

lemma enabled_state_fields [frame_simps]:
  "vh_v_cruise_kph (snd (update_enabled_state CP_SP CS en vh)) = vh_v_cruise_kph vh"
  "vh_v_cruise_kph_last (snd (update_enabled_state CP_SP CS en vh)) = vh_v_cruise_kph_last vh"
  "vh_v_cruise_min (snd (update_enabled_state CP_SP CS en vh)) = vh_v_cruise_min vh"
  "vh_button_timers (snd (update_enabled_state CP_SP CS en vh)) = vh_button_timers vh"
  "vh_button_change_states (snd (update_enabled_state CP_SP CS en vh)) = vh_button_change_states vh"
  by (simp_all add: update_enabled_state_def Let_def case_prod_beta)

text \<open>The button timers meet the contract.\<close>

lemma button_timers_run:
  "vh_button_timers (fold (button_timer_event st en) bs vh) = fold set_timer bs (vh_button_timers vh)"
proof (induction bs arbitrary: vh)
  case (Cons b bs)
  have "vh_button_timers (button_timer_event st en b vh) = set_timer b (vh_button_timers vh)"
    by (simp add: button_timer_event_def set_timer_def)
  with Cons show ?case by simp
qed simp

interpretation cruise: button_timers "\<lambda>vh k. map_of (vh_button_timers vh) k"
  "\<lambda>bs. update_button_timers (CS\<lparr>cs_buttonEvents := bs\<rparr>) en" for CS en
proof unfold_locales
  fix bs vh k
  have "vh_button_timers (update_button_timers (CS\<lparr>cs_buttonEvents := bs\<rparr>) en vh) =
      update_manual_button_timers bs (vh_button_timers vh)"
    by (simp add: update_button_timers_def button_timers_run update_manual_button_timers_def bump_timers_def)
  then show "map_of (vh_button_timers (update_button_timers (CS\<lparr>cs_buttonEvents := bs\<rparr>) en vh)) k =
      map_option (\<lambda>t. timer_events k bs (if 0 < t then t + 1 else t)) (map_of (vh_button_timers vh) k)"
    by (simp add: manual.timer_step)
qed

section \<open>The range of the set speed\<close>

definition v_cruise_lower :: "car_params_sp \<Rightarrow> real" where
  "v_cruise_lower CP_SP = (if cpsp_pcmCruiseSpeed CP_SP then 8 else 20)"

lemma minimum_set_speed_range:
  "v_cruise_lower CP_SP \<le> of_int (vh_v_cruise_min (update_minimum_set_speed CP_SP m vh)) \<and>
   of_int (vh_v_cruise_min (update_minimum_set_speed CP_SP m vh)) \<le> V_CRUISE_MAX"
  by (simp add: update_minimum_set_speed_def v_cruise_lower_def V_CRUISE_MIN_def V_CRUISE_MAX_def get_minimum_set_speed_def)

lemma update_v_cruise_range:
  assumes "vh_wf vh" "\<not> cp_pcmCruise CP" "set_speed_ok (v_cruise_lower CP_SP) (vh_v_cruise_kph vh)"
  shows "\<exists>vh'. update_v_cruise CP CP_SP CS en m vh = Some vh' \<and> vh_wf vh' \<and>
     set_speed_ok (v_cruise_lower CP_SP) (vh_v_cruise_kph vh') \<and>
     vh_v_cruise_cluster_kph vh' = vh_v_cruise_kph vh' \<and>
     vh_v_cruise_kph_last vh' = vh_v_cruise_kph vh"
proof -
  define w where "w = update_minimum_set_speed CP_SP m (vh\<lparr>vh_v_cruise_kph_last := vh_v_cruise_kph vh\<rparr>)"
  define x where "x = snd (update_enabled_state CP_SP CS en w)"
  define on where "on = fst (update_enabled_state CP_SP CS en w)"
  have w: "vh_v_cruise_kph w = vh_v_cruise_kph vh" "vh_v_cruise_kph_last w = vh_v_cruise_kph vh"
    "vh_button_timers w = vh_button_timers vh" "vh_button_change_states w = vh_button_change_states vh"
    by (simp_all add: w_def update_minimum_set_speed_def)
  have x: "vh_v_cruise_kph x = vh_v_cruise_kph vh" "vh_v_cruise_kph_last x = vh_v_cruise_kph vh"
    "vh_v_cruise_min x = vh_v_cruise_min w" "vh_wf x"
    using assms(1) by (simp_all add: x_def frame_simps w vh_wf_def)
  have lo: "v_cruise_lower CP_SP \<le> of_int (vh_v_cruise_min x)" "of_int (vh_v_cruise_min x) \<le> V_CRUISE_MAX"
    using minimum_set_speed_range unfolding x(3) w_def by blast+
  have clip: "set_speed_ok (v_cruise_lower CP_SP) (clip_v_cruise y v)" if "vh_v_cruise_min y = vh_v_cruise_min x" for y v
    using clip_v_cruise_bounds [of y v] lo that by (simp add: set_speed_ok_def)
  have split: "update_v_cruise CP CP_SP CS en m vh =
      do { y \<leftarrow> (if cr_available (cs_cruiseState CS)
                then do { y \<leftarrow> update_v_cruise_non_pcm CS on m x;
                          let y = sla_v_cruise_non_pcm y;
                          Some (y\<lparr>vh_v_cruise_cluster_kph := vh_v_cruise_kph y\<rparr>) }
                else Some (x\<lparr>vh_v_cruise_kph := V_CRUISE_UNSET, vh_v_cruise_cluster_kph := V_CRUISE_UNSET\<rparr>));
           Some (update_button_timers CS en y) }"
    using assms(2) by (simp add: update_v_cruise_def w_def x_def on_def Let_def case_prod_beta)
  obtain v where v: "update_v_cruise_non_pcm CS on m x = Some (x\<lparr>vh_v_cruise_kph := v\<rparr>)"
    "v = vh_v_cruise_kph x \<or> (\<exists>u. v = clip_v_cruise x u)"
    using non_pcm_defined [OF x(4)] by blast
  have v_ok: "set_speed_ok (v_cruise_lower CP_SP) v" using v(2) x(1) assms(3) clip [of x] by auto
  show ?thesis
  proof (cases "cr_available (cs_cruiseState CS)")
    case False
    then show ?thesis unfolding split using x
      by (auto simp: frame_simps set_speed_ok_def intro!: update_button_timers_wf) (simp add: vh_wf_def)
  next
    case True
    let ?y = "sla_v_cruise_non_pcm (x\<lparr>vh_v_cruise_kph := v\<rparr>)"
    have y: "vh_wf ?y" "vh_v_cruise_kph_last ?y = vh_v_cruise_kph vh"
      using x by (simp_all add: sla_v_cruise_non_pcm_def Let_def vh_wf_def)
    have y_ok: "set_speed_ok (v_cruise_lower CP_SP) (vh_v_cruise_kph ?y)"
      using v_ok clip [of "x\<lparr>vh_v_cruise_kph := v\<rparr>"] by (simp add: sla_v_cruise_non_pcm_def Let_def)
    have "vh_wf (?y\<lparr>vh_v_cruise_cluster_kph := vh_v_cruise_kph ?y\<rparr>)" using y(1) by (simp add: vh_wf_def)
    from update_button_timers_wf [OF this] y y_ok True show ?thesis
      unfolding split by (simp add: v(1) Let_def frame_simps)
  qed
qed

lemma initialize_range:
  assumes "set_speed_ok (v_cruise_lower CP_SP) (vh_v_cruise_kph_last vh)" "\<not> cp_pcmCruise CP"
  shows "set_speed_ok (v_cruise_lower CP_SP) (vh_v_cruise_kph (initialize_v_cruise CP CS em vh)) \<and>
         vh_v_cruise_cluster_kph (initialize_v_cruise CP CS em vh) = vh_v_cruise_kph (initialize_v_cruise CP CS em vh)"
proof -
  have "40 \<le> py_round (np_clip x lo 145) \<and> py_round (np_clip x lo 145) \<le> 145" if "lo \<in> {40, 105}" for x lo :: real
  proof -
    have "40 \<le> np_clip x lo 145" "np_clip x lo 145 \<le> 145" using that by (auto simp: np_clip_def)
    from py_round_mono [OF this(1)] py_round_mono [OF this(2)] show ?thesis by simp
  qed
  from this [of V_CRUISE_INITIAL_EXPERIMENTAL_MODE "cs_vEgo CS * MS_TO_KPH"]
    this [of V_CRUISE_INITIAL "cs_vEgo CS * MS_TO_KPH"] assms
  show ?thesis
    by (auto simp: initialize_v_cruise_def Let_def set_speed_ok_def v_cruise_lower_def V_CRUISE_INITIAL_def
        V_CRUISE_INITIAL_EXPERIMENTAL_MODE_def V_CRUISE_MAX_def)
qed

lemma initialize_wf: "vh_wf vh \<Longrightarrow> vh_wf (initialize_v_cruise CP CS em vh)"
  by (simp add: initialize_v_cruise_def Let_def vh_wf_def)

end
