(* ===== verification/Card.thy ===== *)
theory Card
  imports Cruise Mads
begin

text \<open>
  \<open>selfdrive/car/card.py\<close>: the loop that publishes \<open>carState\<close> and sends the actuator commands, as
  far as its own state goes: what it changes in the car parameters at start, the set speed it fills in,
  when it actuates, and the thread that re-reads the parameters, which may run between any two frames.
  The car interface (opendbc) provides the car state of a frame and takes the commands; sockets and the
  caching of \<open>CarParams\<close> are left out.
\<close>

section \<open>State and inputs\<close>

record card =
  cd_can_rcv_cum_timeout_counter :: int
  cd_CC_prev :: car_control
  cd_CS_prev :: car_state
  cd_initialized_prev :: bool
  cd_v_cruise_helper :: v_cruise_helper
  cd_is_metric :: bool
  cd_experimental_mode :: bool
  cd_params :: params

text \<open>A frame: the car state the interface decoded, \<open>carControl\<close> and \<open>longitudinalPlanSP\<close>, whether CAN
  data arrived, whether \<open>carControl\<close> is alive, and whether \<open>onroadEvents\<close> were seen and contain
  \<open>selfdriveInitializing\<close>.\<close>

record card_input =
  ci_CS :: car_state
  ci_CC :: car_control
  ci_planSP :: plan_sp
  ci_can_received :: bool
  ci_carControl_alive :: bool
  ci_onroadEvents :: "int list"
  ci_events_seen :: bool

text \<open>The constructor: the car parameters (\<open>controller\<close>: the interface has a controller), and the state.\<close>

definition card_car_params ::
  "mads_consts \<Rightarrow> bool \<Rightarrow> bool \<Rightarrow> car_params \<Rightarrow> car_params_sp \<Rightarrow> params \<Rightarrow> (car_params \<times> car_params_sp \<times> params) option" where
  "card_car_params KM controller dashcamOnly CP CP_SP p =
     do { CP \<leftarrow> set_alternative_experience KM CP_SP p (CP\<lparr>cp_alternativeExperience := 0\<rparr>);
          (CP_SP, p) \<leftarrow> set_car_specific_params KM CP (CP_SP, p);
          let controller_available = (controller \<and> get_bool ''OpenpilotEnabledToggle'' p \<and> \<not> dashcamOnly);
          let CP = CP\<lparr>cp_passive := \<not> controller_available \<or> dashcamOnly\<rparr>;
          let CP = (if cp_passive CP
                    then CP\<lparr>cp_safetyConfigs := [\<lparr>sc_safetyModel = SM_noOutput, sc_safetyParam = 0\<rparr>]\<rparr> else CP);
          Some (CP, CP_SP, p) }"

definition card_init :: "car_state \<Rightarrow> car_control \<Rightarrow> params \<Rightarrow> card option" where
  "card_init CS0 CC0 p =
     do { vh \<leftarrow> v_cruise_helper_init p;
          Some \<lparr> cd_can_rcv_cum_timeout_counter = 0, cd_CC_prev = CC0, cd_CS_prev = CS0, cd_initialized_prev = False,
            cd_v_cruise_helper = vh, cd_is_metric = get_bool ''IsMetric'' p,
            cd_experimental_mode = get_bool ''ExperimentalMode'' p, cd_params = p \<rparr> }"

section \<open>\<open>step\<close>\<close>

definition card_state_update :: "car_params \<Rightarrow> car_params_sp \<Rightarrow> card_input \<Rightarrow> card \<Rightarrow> (car_state \<times> card) option" where
  "card_state_update CP CP_SP i cd =
     do { let CS = ci_CS i;
          let cd = (if \<not> ci_can_received i
                    then cd\<lparr>cd_can_rcv_cum_timeout_counter := cd_can_rcv_cum_timeout_counter cd + 1\<rparr> else cd);
          let vh = update_speed_limit_assist (cd_is_metric cd) (ci_planSP i) (cd_v_cruise_helper cd);
          vh \<leftarrow> update_v_cruise CP CP_SP CS (cc_enabled (ci_CC i)) (cd_is_metric cd) vh;
          let vh = (if cc_enabled (ci_CC i) \<and> \<not> cc_enabled (cd_CC_prev cd)
                    then initialize_v_cruise CP (cd_CS_prev cd) (cd_experimental_mode cd) vh else vh);
          Some (CS\<lparr>cs_vCruise := vh_v_cruise_kph vh, cs_vCruiseCluster := vh_v_cruise_cluster_kph vh\<rparr>,
                cd\<lparr>cd_v_cruise_helper := vh\<rparr>) }"

text \<open>What is sent: \<open>carState\<close> with its validity and error counter, and the command of the car
  interface for the control message, if any.\<close>

record card_output =
  co_carState :: car_state
  co_valid :: bool
  co_canErrorCounter :: int
  co_actuated :: "car_control option"

definition card_controls_update :: "card_input \<Rightarrow> card \<Rightarrow> car_control option \<times> card" where
  "card_controls_update i cd =
     (let cd = (if \<not> cd_initialized_prev cd
                then cd\<lparr>cd_params := put_param ''ControlsReady'' (PBool True) (cd_params cd)\<rparr> else cd)
      in if ci_carControl_alive i then (Some (ci_CC i), cd\<lparr>cd_CC_prev := ci_CC i\<rparr>) else (None, cd))"

definition card_step :: "car_params \<Rightarrow> car_params_sp \<Rightarrow> card_input \<Rightarrow> card \<Rightarrow> (card_output \<times> card) option" where
  "card_step CP CP_SP i cd =
     do { (CS, cd) \<leftarrow> card_state_update CP CP_SP i cd;
          let initialized = (EN_selfdriveInitializing \<notin> set (ci_onroadEvents i) \<and> ci_events_seen i);
          let (cmd, cd) = (if \<not> cp_passive CP \<and> initialized then card_controls_update i cd else (None, cd));
          Some (\<lparr> co_carState = CS, co_valid = cs_canValid CS,
                  co_canErrorCounter = cd_can_rcv_cum_timeout_counter cd, co_actuated = cmd \<rparr>,
                cd\<lparr>cd_initialized_prev := initialized, cd_CS_prev := CS\<rparr>) }"

definition card_params_round :: "car_params \<Rightarrow> params \<Rightarrow> card \<Rightarrow> card option" where
  "card_params_round CP p cd =
     do { vh \<leftarrow> read_custom_set_speed_params p (cd_v_cruise_helper cd);
          Some (cd\<lparr>cd_params := p, cd_is_metric := get_bool ''IsMetric'' p,
             cd_experimental_mode := get_bool ''ExperimentalMode'' p \<and> cp_openpilotLongitudinalControl CP,
             cd_v_cruise_helper := vh\<rparr>) }"

text \<open>The two threads interleaved: a frame, or a round of the parameter thread.\<close>

datatype card_event = Frame card_input | Params_round params

fun card_run :: "car_params \<Rightarrow> car_params_sp \<Rightarrow> card_event list \<Rightarrow> card \<Rightarrow> (card_output list \<times> card) option" where
  "card_run CP CP_SP [] cd = Some ([], cd)"
| "card_run CP CP_SP (Frame i # es) cd =
     do { (co, cd) \<leftarrow> card_step CP CP_SP i cd;
          (cos, cd) \<leftarrow> card_run CP CP_SP es cd;
          Some (co # cos, cd) }"
| "card_run CP CP_SP (Params_round p # es) cd =
     do { cd \<leftarrow> card_params_round CP p cd; card_run CP CP_SP es cd }"

section \<open>Invariant\<close>

definition card_inv :: "car_params_sp \<Rightarrow> card \<Rightarrow> bool" where
  "card_inv CP_SP cd \<longleftrightarrow> vh_wf (cd_v_cruise_helper cd) \<and>
     set_speed_ok (v_cruise_lower CP_SP) (vh_v_cruise_kph (cd_v_cruise_helper cd))"

definition speeds_ok :: "car_params_sp \<Rightarrow> card_output \<Rightarrow> bool" where
  "speeds_ok CP_SP co \<longleftrightarrow> set_speed_ok (v_cruise_lower CP_SP) (cs_vCruise (co_carState co)) \<and>
     cs_vCruiseCluster (co_carState co) = cs_vCruise (co_carState co)"

text \<open>The increments of a parameter store can be read.\<close>

definition increments_set :: "params \<Rightarrow> bool" where
  "increments_set p \<longleftrightarrow> get_int ''CustomAccShortPressIncrement'' p \<noteq> None \<and>
                        get_int ''CustomAccLongPressIncrement'' p \<noteq> None"

fun event_ok :: "card_event \<Rightarrow> bool" where
  "event_ok (Frame i) \<longleftrightarrow> True"
| "event_ok (Params_round p) \<longleftrightarrow> increments_set p"

lemma card_init_inv: "card_init CS0 CC0 p = Some cd \<Longrightarrow> card_inv CP_SP cd"
  by (auto simp: card_init_def v_cruise_helper_init_def read_custom_set_speed_params_def bind_eq_Some_conv
      card_inv_def vh_wf_def set_speed_ok_def)

lemma card_step_inv:
  assumes "card_inv CP_SP cd" "\<not> cp_pcmCruise CP"
  shows "\<exists>co cd'. card_step CP CP_SP i cd = Some (co, cd') \<and> card_inv CP_SP cd' \<and> speeds_ok CP_SP co"
proof -
  let ?u = "update_speed_limit_assist (cd_is_metric cd) (ci_planSP i) (cd_v_cruise_helper cd)"
  have u: "vh_wf ?u" "vh_v_cruise_kph ?u = vh_v_cruise_kph (cd_v_cruise_helper cd)"
    using assms(1) by (simp_all add: card_inv_def update_speed_limit_assist_def Let_def case_prod_beta vh_wf_def)
  with assms obtain vh where vh: "update_v_cruise CP CP_SP (ci_CS i) (cc_enabled (ci_CC i)) (cd_is_metric cd) ?u = Some vh"
    "vh_wf vh" "set_speed_ok (v_cruise_lower CP_SP) (vh_v_cruise_kph vh)"
    "vh_v_cruise_cluster_kph vh = vh_v_cruise_kph vh"
    "set_speed_ok (v_cruise_lower CP_SP) (vh_v_cruise_kph_last vh)"
    using update_v_cruise_range [OF u(1) assms(2), of CP_SP "ci_CS i" "cc_enabled (ci_CC i)" "cd_is_metric cd"]
    by (auto simp: card_inv_def)
  define vh' where "vh' = (if cc_enabled (ci_CC i) \<and> \<not> cc_enabled (cd_CC_prev cd)
      then initialize_v_cruise CP (cd_CS_prev cd) (cd_experimental_mode cd) vh else vh)"
  have vh': "vh_wf vh'" "set_speed_ok (v_cruise_lower CP_SP) (vh_v_cruise_kph vh')"
    "vh_v_cruise_cluster_kph vh' = vh_v_cruise_kph vh'"
    using vh initialize_wf initialize_range [OF vh(5) assms(2)] by (auto simp: vh'_def)
  obtain cd2 where su: "card_state_update CP CP_SP i cd =
      Some ((ci_CS i)\<lparr>cs_vCruise := vh_v_cruise_kph vh', cs_vCruiseCluster := vh_v_cruise_cluster_kph vh'\<rparr>, cd2)"
    "cd_v_cruise_helper cd2 = vh'"
    by (cases "ci_can_received i") (simp_all add: card_state_update_def vh(1) vh'_def Let_def)
  show ?thesis using vh'
    by (simp add: card_step_def su Let_def case_prod_beta card_controls_update_def card_inv_def speeds_ok_def)
qed

lemma card_params_round_inv:
  assumes "card_inv CP_SP cd" "increments_set p"
  shows "\<exists>cd'. card_params_round CP p cd = Some cd' \<and> card_inv CP_SP cd'"
proof -
  from assms(2) obtain a b where "get_int ''CustomAccShortPressIncrement'' p = Some a"
    "get_int ''CustomAccLongPressIncrement'' p = Some b"
    by (auto simp: increments_set_def)
  with assms(1) show ?thesis
    by (simp add: card_params_round_def read_custom_set_speed_params_def card_inv_def vh_wf_def)
qed

section \<open>Properties\<close>

text \<open>C37: The set speed stays in range: on a car whose cruise is not run by its PCM, from the state the
  constructor builds and for every interleaving of frames and parameter rounds, card does not raise, and
  every published \<open>vCruise\<close> is either the unset value 255 or between 8 (20 with button-managed
  cruise) and 145 km/h, and equal to the cluster's value, whatever buttons, parameters and limits come.\<close>

theorem set_speed_bounds:
  assumes "\<not> cp_pcmCruise CP" "card_init CS0 CC0 p = Some cd" "list_all event_ok es"
  shows "\<exists>cos cd'. card_run CP CP_SP es cd = Some (cos, cd') \<and>
           list_all (\<lambda>co. let v = cs_vCruise (co_carState co) in
              (v = 255 \<or> (if cpsp_pcmCruiseSpeed CP_SP then 8 else 20) \<le> v \<and> v \<le> 145) \<and>
              cs_vCruiseCluster (co_carState co) = v) cos"
proof -
  have "\<exists>cos cd'. card_run CP CP_SP es cd = Some (cos, cd') \<and> list_all (speeds_ok CP_SP) cos"
    if "card_inv CP_SP cd" "list_all event_ok es" for es cd
    using that
  proof (induction es arbitrary: cd)
    case (Cons e es)
    show ?case
    proof (cases e)
      case (Frame i)
      obtain co cd1 where s: "card_step CP CP_SP i cd = Some (co, cd1)" "card_inv CP_SP cd1" "speeds_ok CP_SP co"
        using card_step_inv [OF Cons.prems(1) assms(1)] by blast
      from Cons.IH [OF s(2)] Cons.prems(2) s show ?thesis by (auto simp: Frame)
    next
      case (Params_round p)
      with Cons.prems card_params_round_inv obtain cd1 where
        s: "card_params_round CP p cd = Some cd1" "card_inv CP_SP cd1" by fastforce
      from Cons.IH [OF s(2)] Cons.prems(2) s(1) show ?thesis by (auto simp: Params_round)
    qed
  qed simp
  from this [OF card_init_inv [OF assms(2)] assms(3)] show ?thesis
    by (auto simp: speeds_ok_def set_speed_ok_def v_cruise_lower_def V_CRUISE_UNSET_def V_CRUISE_MAX_def Let_def
        list_all_iff)
qed

text \<open>The conditions under which a button changes the set speed in a frame.\<close>

definition press_effective :: "car_state \<Rightarrow> button_type \<Rightarrow> bool \<Rightarrow> v_cruise_helper \<Rightarrow> bool" where
  "press_effective CS k long vh \<longleftrightarrow> changing_button (cs_buttonEvents CS) (vh_button_timers vh) = Some (k, long) \<and>
     map_of (vh_button_change_states vh) k = Some (False, True) \<and> \<not> cr_standstill (cs_cruiseState CS) \<and>
     \<not> cs_gasPressed CS \<and> \<not> sla_pre_active_confirmed k vh"

lemma effective_change:
  assumes "press_effective CS k long vh" "\<not> vh_custom_acc_enabled vh"
    and "apply_v_cruise_delta k long ((if m then 1 else IMPERIAL_INCREMENT) * (if long then 5 else 1)) (vh_v_cruise_kph vh) = Some v"
  shows "update_v_cruise_non_pcm CS True m vh = Some (vh\<lparr>vh_v_cruise_kph := clip_v_cruise vh v\<rparr>)"
  using assms by (simp add: press_effective_def update_v_cruise_non_pcm_def update_v_cruise_delta_def Let_def)

lemma round_tenths:
  assumes "x = of_int n / 10"
  shows "py_round_digits (Suc 0) x = x"
  by (simp add: assms py_round_digits_def)

lemma clip_tenths:
  assumes "v = of_int n / 10"
  shows "clip_v_cruise vh v = np_clip v (of_int (vh_v_cruise_min vh)) V_CRUISE_MAX"
  by (simp add: clip_v_cruise_def round_tenths [OF assms])

lemma clip_in_range:
  assumes "v = of_int n / 10" "of_int (vh_v_cruise_min vh) \<le> v" "v \<le> V_CRUISE_MAX"
  shows "clip_v_cruise vh v = v"
  using assms(2,3) by (simp add: clip_tenths [OF assms(1)] np_clip_id)

text \<open>Up and down cancel: with the standard increments, a short press of \<open>+\<close> in one frame and of \<open>-\<close>
  in another leaves the helper as it was, in metric (1 km/h) and imperial (1.6 km/h) units, as long
  as the raised speed is not clipped; the speed is a multiple of 0.1 km/h, as every set speed is after
  rounding.\<close>

theorem press_round_trip:
  assumes "press_effective CS BT_accelCruise False vh" "\<not> vh_custom_acc_enabled vh"
    and "\<And>v. press_effective CS' BT_decelCruise False (vh\<lparr>vh_v_cruise_kph := v\<rparr>)"
    and "vh_v_cruise_kph vh = of_int n / 10" "of_int (vh_v_cruise_min vh) \<le> vh_v_cruise_kph vh"
    and "vh_v_cruise_kph vh + (if m then 1 else 16 / 10) \<le> V_CRUISE_MAX"
  shows "\<exists>up. update_v_cruise_non_pcm CS True m vh = Some up \<and>
           vh_v_cruise_kph up = vh_v_cruise_kph vh + (if m then 1 else 16 / 10) \<and>
           update_v_cruise_non_pcm CS' True m up = Some vh"
proof -
  let ?d = "(if m then 1 else 16 / 10) :: real" and ?v = "vh_v_cruise_kph vh"
  have d: "(if m then 1 else IMPERIAL_INCREMENT) * (if False then 5 else 1) = ?d" by (simp add: imperial_increment)
  have up: "?v + ?d = of_int (n + (if m then 10 else 16)) / 10" using assms(4) by simp
  have c: "clip_v_cruise vh (?v + ?d) = ?v + ?d"
    using assms(5,6) by (intro clip_in_range [OF up]) (auto split: if_splits)
  have 1: "update_v_cruise_non_pcm CS True m vh = Some (vh\<lparr>vh_v_cruise_kph := ?v + ?d\<rparr>)"
    using effective_change [OF assms(1,2), of m "?v + ?d", unfolded d]
    by (simp add: apply_v_cruise_delta_def c)
  let ?up = "vh\<lparr>vh_v_cruise_kph := ?v + ?d\<rparr>"
  have c': "clip_v_cruise ?up ?v = ?v"
    using assms(5,6) by (intro clip_in_range [OF assms(4)]) (auto split: if_splits)
  have 2: "update_v_cruise_non_pcm CS' True m ?up = Some (?up\<lparr>vh_v_cruise_kph := ?v\<rparr>)"
    using effective_change [OF assms(3) [of "?v + ?d"], of m ?v, unfolded d] assms(2)
    by (simp add: apply_v_cruise_delta_def c')
  from 1 2 show ?thesis by simp
qed

text \<open>The multiple of \<open>u\<close> a long press moves to.\<close>

lemma long_press_target:
  fixes u v :: real
  assumes "0 < u"
  shows "apply_v_cruise_delta BT_accelCruise True u v = Some (of_int (\<lfloor>v / u\<rfloor> + 1) * u)"
    and "apply_v_cruise_delta BT_decelCruise True u v = Some (of_int (\<lceil>v / u\<rceil> - 1) * u)"
proof -
  have i: "py_mod v u = 0 \<longleftrightarrow> v / u = of_int \<lfloor>v / u\<rfloor>"
    using assms by (simp add: py_mod_def field_simps)
  have c: "\<lceil>v / u\<rceil> = (if v / u = of_int \<lfloor>v / u\<rfloor> then \<lfloor>v / u\<rfloor> else \<lfloor>v / u\<rfloor> + 1)"
    by (simp add: ceiling_altdef)
  have v: "v = of_int \<lfloor>v / u\<rfloor> * u" if "v / u = of_int \<lfloor>v / u\<rfloor>"
    using that assms by (simp add: field_simps)
  show "apply_v_cruise_delta BT_accelCruise True u v = Some (of_int (\<lfloor>v / u\<rfloor> + 1) * u)"
    using v c by (auto simp: apply_v_cruise_delta_def i algebra_simps)
  show "apply_v_cruise_delta BT_decelCruise True u v = Some (of_int (\<lceil>v / u\<rceil> - 1) * u)"
    using v c by (auto simp: apply_v_cruise_delta_def i algebra_simps)
qed

text \<open>A long press goes to the next round number: with the standard increments a held \<open>+\<close> moves the
  set speed to the next larger multiple of 5 km/h (8 km/h, 5 mph, in imperial units), a held \<open>-\<close> to the
  next smaller one, within the range of set speeds; so it never skips a multiple and always moves.\<close>

theorem long_press_next_multiple:
  fixes vh CS m k
  defines "u \<equiv> (if m then 5 else 8) :: real"
  assumes "press_effective CS k True vh" "\<not> vh_custom_acc_enabled vh"
    and "k = BT_accelCruise \<or> k = BT_decelCruise"
  shows "\<exists>n::int. update_v_cruise_non_pcm CS True m vh =
             Some (vh\<lparr>vh_v_cruise_kph := np_clip (of_int n * u) (of_int (vh_v_cruise_min vh)) 145\<rparr>) \<and>
           (k = BT_accelCruise \<longrightarrow> of_int (n - 1) * u \<le> vh_v_cruise_kph vh \<and> vh_v_cruise_kph vh < of_int n * u) \<and>
           (k = BT_decelCruise \<longrightarrow> of_int n * u < vh_v_cruise_kph vh \<and> vh_v_cruise_kph vh \<le> of_int (n + 1) * u)"
proof -
  have u: "0 < u" "(if m then 1 else IMPERIAL_INCREMENT) * (if True then 5 else 1) = u"
    by (simp_all add: u_def imperial_increment)
  define n where "n = (if k = BT_accelCruise then \<lfloor>vh_v_cruise_kph vh / u\<rfloor> + 1 else \<lceil>vh_v_cruise_kph vh / u\<rceil> - 1)"
  have t: "apply_v_cruise_delta k True u (vh_v_cruise_kph vh) = Some (of_int n * u)"
    using assms(4) long_press_target [OF u(1)] by (auto simp: n_def)
  have "of_int n * u = of_int (n * (if m then 50 else 80)) / 10" by (simp add: u_def)
  then have c: "clip_v_cruise vh (of_int n * u) = np_clip (of_int n * u) (of_int (vh_v_cruise_min vh)) 145"
    by (simp only: clip_tenths V_CRUISE_MAX_def)
  have "update_v_cruise_non_pcm CS True m vh =
      Some (vh\<lparr>vh_v_cruise_kph := np_clip (of_int n * u) (of_int (vh_v_cruise_min vh)) 145\<rparr>)"
    using effective_change [OF assms(2,3), of m "of_int n * u", unfolded u(2)] t by (simp add: c)
  moreover have "k = BT_accelCruise \<longrightarrow> of_int (n - 1) * u \<le> vh_v_cruise_kph vh \<and> vh_v_cruise_kph vh < of_int n * u"
    using u(1) floor_divide_lower [of u "vh_v_cruise_kph vh"] floor_divide_upper [of u "vh_v_cruise_kph vh"]
    by (simp add: n_def)
  moreover have "k = BT_decelCruise \<longrightarrow> of_int n * u < vh_v_cruise_kph vh \<and> vh_v_cruise_kph vh \<le> of_int (n + 1) * u"
    using u(1) ceiling_divide_lower [of u "vh_v_cruise_kph vh"] ceiling_divide_upper [of u "vh_v_cruise_kph vh"]
    by (auto simp: n_def)
  ultimately show ?thesis by blast
qed

section \<open>Witnesses\<close>

definition demo_card_params :: params where
  "demo_card_params = \<lparr>pr_values = Map.empty,
     pr_defaults = [''CustomAccShortPressIncrement'' \<mapsto> PInt 1, ''CustomAccLongPressIncrement'' \<mapsto> PInt 5]\<rparr>"

definition demo_card_input :: card_input where
  "demo_card_input = \<lparr>ci_CS = demo_car, ci_CC = demo_control\<lparr>cc_enabled := True\<rparr>, ci_planSP = demo_plan_sp,
     ci_can_received = True, ci_carControl_alive = True, ci_onroadEvents = [], ci_events_seen = True\<rparr>"

definition demo_own_cruise :: car_params where
  "demo_own_cruise = demo_params\<lparr>cp_pcmCruise := False\<rparr>"

theorem set_speed_bounds_witness:
  "\<exists>cd cos cd'. card_init demo_car demo_control demo_card_params = Some cd \<and>
     card_run demo_own_cruise demo_params_sp [Frame demo_card_input, Params_round demo_card_params, Frame demo_card_input] cd
       = Some (cos, cd') \<and>
     list_all (\<lambda>co. let v = cs_vCruise (co_carState co) in
        (v = 255 \<or> (if cpsp_pcmCruiseSpeed demo_params_sp then 8 else 20) \<le> v \<and> v \<le> 145) \<and>
        cs_vCruiseCluster (co_carState co) = v) cos"
proof -
  have i: "increments_set demo_card_params"
    by (simp add: increments_set_def get_int_def get_param_def demo_card_params_def)
  then obtain cd where cd: "card_init demo_car demo_control demo_card_params = Some cd"
    by (auto simp: card_init_def v_cruise_helper_init_def read_custom_set_speed_params_def increments_set_def)
  have "list_all event_ok [Frame demo_card_input, Params_round demo_card_params, Frame demo_card_input]"
    using i by simp
  from set_speed_bounds [OF _ cd this, of demo_own_cruise demo_params_sp] cd show ?thesis
    by (auto simp: demo_own_cruise_def)
qed

text \<open>A helper at 50 km/h with a button released after a short press, or held.\<close>

definition demo_helper :: "button_type \<Rightarrow> int \<Rightarrow> v_cruise_helper" where
  "demo_helper k t = \<lparr> vh_v_cruise_kph = 50, vh_v_cruise_cluster_kph = 50, vh_v_cruise_kph_last = 50,
     vh_button_timers = [(BT_decelCruise, if k = BT_decelCruise then t else 0), (BT_accelCruise, if k = BT_accelCruise then t else 0)],
     vh_button_change_states = [(BT_decelCruise, False, True), (BT_accelCruise, False, True)],
     vh_v_cruise_min = 8, vh_enabled_prev = False, vh_custom_acc_enabled = False, vh_short_increment = 1,
     vh_long_increment = 5, vh_enable_button_timers = CRUISE_BUTTON_TIMER, vh_sla_state = SLA_disabled,
     vh_prev_sla_state = SLA_disabled, vh_has_speed_limit = False, vh_speed_limit_final_last = 0,
     vh_speed_limit_final_last_kph = 0, vh_prev_speed_limit_final_last_kph = 0, vh_req_plus = False, vh_req_minus = False \<rparr>"

definition demo_release :: "button_type \<Rightarrow> car_state" where
  "demo_release k = demo_car\<lparr>cs_buttonEvents := [\<lparr>be_type = k, be_pressed = False\<rparr>]\<rparr>"

theorem press_round_trip_witness:
  "\<exists>up. update_v_cruise_non_pcm (demo_release BT_accelCruise) True True (demo_helper BT_accelCruise 3) = Some up \<and>
     vh_v_cruise_kph up = 51 \<and>
     update_v_cruise_non_pcm (demo_release BT_decelCruise) True True up = Some (demo_helper BT_accelCruise 3)"
proof -
  have "\<exists>up. update_v_cruise_non_pcm (demo_release BT_accelCruise) True True (demo_helper BT_accelCruise 3) = Some up \<and>
     vh_v_cruise_kph up = vh_v_cruise_kph (demo_helper BT_accelCruise 3) + (if True then 1 else 16 / 10) \<and>
     update_v_cruise_non_pcm (demo_release BT_decelCruise) True True up = Some (demo_helper BT_accelCruise 3)"
    by (rule press_round_trip [of _ _ _ 500])
       (simp_all add: press_effective_def changing_button_def demo_release_def demo_helper_def demo_car_def
         CRUISE_LONG_PRESS_def sla_pre_active_confirmed_def V_CRUISE_MAX_def)
  then show ?thesis by (simp add: demo_helper_def)
qed

theorem long_press_next_multiple_witness:
  "\<exists>n::int. update_v_cruise_non_pcm (demo_car\<lparr>cs_buttonEvents := []\<rparr>) True True (demo_helper BT_accelCruise 50) =
     Some ((demo_helper BT_accelCruise 50)\<lparr>vh_v_cruise_kph := np_clip (of_int n * 5) (of_int 8) 145\<rparr>) \<and> n = 11"
proof -
  let ?vh = "demo_helper BT_accelCruise 50" and ?CS = "demo_car\<lparr>cs_buttonEvents := []\<rparr>"
  have e: "press_effective ?CS BT_accelCruise True ?vh"
    by (simp add: press_effective_def changing_button_def demo_helper_def demo_car_def CRUISE_LONG_PRESS_def
        sla_pre_active_confirmed_def)
  have c: "\<not> vh_custom_acc_enabled ?vh" by (simp add: demo_helper_def)
  obtain n :: int where n: "update_v_cruise_non_pcm ?CS True True ?vh =
      Some (?vh\<lparr>vh_v_cruise_kph := np_clip (of_int n * 5) (of_int (vh_v_cruise_min ?vh)) 145\<rparr>)"
    "of_int (n - 1) * 5 \<le> vh_v_cruise_kph ?vh" "vh_v_cruise_kph ?vh < of_int n * 5"
    using long_press_next_multiple [OF e c, of True] by auto
  from n(2,3) have "n = 11" by (simp add: demo_helper_def)
  with n(1) show ?thesis by (simp add: demo_helper_def)
qed

end
