(* ===== verification/Desire.thy ===== *)
theory Desire
  imports CarEvents ParamsStore
begin

text \<open>
  Lane changes and turns: \<open>selfdrive/controls/lib/desire_helper.py\<close> with the sunnypilot controllers
  it owns (\<open>auto_lane_change.py\<close>, \<open>lane_turn_desire.py\<close>), and the road-edge detection of
  \<open>relc.py\<close> that feeds it.  Timers are sums of \<open>DT_MDL\<close>, exact here: the code's float sums may
  cross a threshold one frame earlier or later.  A parameter that cannot be read as a float
  (\<open>TypeError\<close>) and a model output that is too short (\<open>IndexError\<close>) are the result \<open>None\<close>.
\<close>

section \<open>\<open>AutoLaneChangeController\<close>\<close>

definition ALC_OFF :: int where "ALC_OFF = -1"
definition ALC_NUDGE :: int where "ALC_NUDGE = 0"

definition AUTO_LANE_CHANGE_TIMER :: "int \<Rightarrow> real option" where
  "AUTO_LANE_CHANGE_TIMER k = map_of [(-1, 0), (0, 0), (1, 5 / 100), (2, 5 / 10), (3, 1), (4, 2), (5, 3)] k"

definition NUDGELESS_DELAY :: real where "NUDGELESS_DELAY = 5 / 100"
definition ONE_SECOND_DELAY :: real where "ONE_SECOND_DELAY = -1"

text \<open>The timer setting is what the parameter store returns, possibly nothing.\<close>

record alc =
  al_lane_change_wait_timer :: real
  al_param_read_counter :: int
  al_lane_change_delay :: real
  al_lane_change_set_timer :: "int option"
  al_lane_change_bsm_delay :: bool
  al_prev_brake_pressed :: bool
  al_auto_lane_change_allowed :: bool
  al_prev_lane_change :: bool

definition alc_read_params :: "params \<Rightarrow> alc \<Rightarrow> alc" where
  "alc_read_params p a = a\<lparr>al_lane_change_bsm_delay := get_bool ''AutoLaneChangeBsmDelay'' p,
                           al_lane_change_set_timer := get_int ''AutoLaneChangeTimer'' p\<rparr>"

definition alc_init :: "params \<Rightarrow> alc" where
  "alc_init p = alc_read_params p
     \<lparr> al_lane_change_wait_timer = 0, al_param_read_counter = 0, al_lane_change_delay = 0,
       al_lane_change_set_timer = get_int ''AutoLaneChangeTimer'' p, al_lane_change_bsm_delay = False,
       al_prev_brake_pressed = False, al_auto_lane_change_allowed = False, al_prev_lane_change = False \<rparr>"

definition alc_update_params :: "params \<Rightarrow> alc \<Rightarrow> alc" where
  "alc_update_params p a =
     (let a = (if al_param_read_counter a mod 50 = 0 then alc_read_params p a else a)
      in a\<lparr>al_param_read_counter := al_param_read_counter a + 1\<rparr>)"

definition update_lane_change_timers :: "bool \<Rightarrow> alc \<Rightarrow> alc" where
  "update_lane_change_timers blindspot_detected a =
     (let delay = (case Option.bind (al_lane_change_set_timer a) AUTO_LANE_CHANGE_TIMER of Some d \<Rightarrow> d | None \<Rightarrow> 0);
          a = a\<lparr>al_lane_change_delay := delay,
                al_lane_change_wait_timer := al_lane_change_wait_timer a + DT_MDL\<rparr>
      in if al_lane_change_bsm_delay a \<and> blindspot_detected \<and> 0 < delay
         then a\<lparr>al_lane_change_wait_timer := (if delay = NUDGELESS_DELAY then ONE_SECOND_DELAY else delay + ONE_SECOND_DELAY)\<rparr>
         else a)"

definition alc_update_allowed :: "alc \<Rightarrow> bool" where
  "alc_update_allowed a =
     (if al_lane_change_set_timer a \<in> {Some ALC_OFF, Some ALC_NUDGE} then False
      else if al_prev_brake_pressed a then False
      else if al_prev_lane_change a then False
      else al_lane_change_delay a < al_lane_change_wait_timer a)"

definition alc_update_lane_change :: "bool \<Rightarrow> bool \<Rightarrow> alc \<Rightarrow> alc" where
  "alc_update_lane_change blindspot_detected brake_pressed a =
     (let a = (if brake_pressed \<and> \<not> al_prev_brake_pressed a then a\<lparr>al_prev_brake_pressed := brake_pressed\<rparr> else a);
          a = update_lane_change_timers blindspot_detected a
      in a\<lparr>al_auto_lane_change_allowed := alc_update_allowed a\<rparr>)"

text \<open>\<open>update_state\<close> with \<open>reset\<close>, for the state and direction of the desire helper.\<close>

definition alc_update_state :: "lane_change_state \<Rightarrow> lane_change_direction \<Rightarrow> alc \<Rightarrow> alc" where
  "alc_update_state state direction a =
     (let a = (if state = LCS_laneChangeStarting then a\<lparr>al_prev_lane_change := True\<rparr> else a)
      in if state = LCS_off \<and> direction = LCD_none
         then a\<lparr>al_lane_change_wait_timer := 0, al_prev_brake_pressed := False, al_prev_lane_change := False\<rparr>
         else a)"

section \<open>\<open>LaneTurnController\<close>\<close>

definition LANE_CHANGE_SPEED_MIN :: real where "LANE_CHANGE_SPEED_MIN = 20 * MPH_TO_MS"

record lane_turn =
  lt_turn_direction :: turn_direction
  lt_lane_turn_value :: real
  lt_param_read_counter :: int
  lt_enabled :: bool

definition lane_turn_init :: "params \<Rightarrow> lane_turn option" where
  "lane_turn_init p =
     do { value \<leftarrow> get_float ''LaneTurnValue'' p;
          Some \<lparr> lt_turn_direction = TD_none, lt_lane_turn_value = value * MPH_TO_MS, lt_param_read_counter = 0,
                 lt_enabled = get_bool ''LaneTurnDesire'' p \<rparr> }"

definition lane_turn_read_params :: "params \<Rightarrow> lane_turn \<Rightarrow> lane_turn option" where
  "lane_turn_read_params p t =
     do { value \<leftarrow> get_float ''LaneTurnValue'' p;
          Some (t\<lparr>lt_enabled := get_bool ''LaneTurnDesire'' p,
                  lt_lane_turn_value := min LANE_CHANGE_SPEED_MIN (value * MPH_TO_MS)\<rparr>) }"

definition lane_turn_update_params :: "params \<Rightarrow> lane_turn \<Rightarrow> lane_turn option" where
  "lane_turn_update_params p t =
     do { t \<leftarrow> (if lt_param_read_counter t mod 50 = 0 then lane_turn_read_params p t else Some t);
          Some (t\<lparr>lt_param_read_counter := lt_param_read_counter t + 1\<rparr>) }"

definition update_lane_turn :: "car_state \<Rightarrow> lane_turn \<Rightarrow> lane_turn" where
  "update_lane_turn CS t =
     t\<lparr>lt_turn_direction :=
        (if cs_leftBlinker CS \<and> \<not> cs_rightBlinker CS \<and> cs_vEgo CS < lt_lane_turn_value t \<and> \<not> cs_leftBlindspot CS
         then TD_turnLeft
         else if cs_rightBlinker CS \<and> \<not> cs_leftBlinker CS \<and> cs_vEgo CS < lt_lane_turn_value t \<and> \<not> cs_rightBlindspot CS
         then TD_turnRight
         else TD_none)\<rparr>"

definition get_turn_direction :: "lane_turn \<Rightarrow> turn_direction" where
  "get_turn_direction t = (if \<not> lt_enabled t then TD_none else lt_turn_direction t)"

section \<open>\<open>DesireHelper\<close>\<close>

definition LANE_CHANGE_TIME_MAX :: real where "LANE_CHANGE_TIME_MAX = 10"
definition LANE_CHANGE_START_TIME :: real where "LANE_CHANGE_START_TIME = 5 / 10"

fun TURN_DESIRES :: "turn_direction \<Rightarrow> desire" where
  "TURN_DESIRES TD_none = D_none"
| "TURN_DESIRES TD_turnLeft = D_turnLeft"
| "TURN_DESIRES TD_turnRight = D_turnRight"

record desire_helper =
  dh_lane_change_state :: lane_change_state
  dh_lane_change_direction :: lane_change_direction
  dh_lane_change_timer :: real
  dh_prev_one_blinker :: bool
  dh_desire :: desire
  dh_alc :: alc
  dh_lane_turn :: lane_turn
  dh_lane_turn_direction :: turn_direction

definition desire_helper_init :: "params \<Rightarrow> desire_helper option" where
  "desire_helper_init p =
     do { t \<leftarrow> lane_turn_init p;
          Some \<lparr> dh_lane_change_state = LCS_off, dh_lane_change_direction = LCD_none, dh_lane_change_timer = 0,
            dh_prev_one_blinker = False, dh_desire = D_none, dh_alc = alc_init p, dh_lane_turn = t,
            dh_lane_turn_direction = TD_none \<rparr> }"

definition get_lane_change_direction :: "car_state \<Rightarrow> lane_change_direction" where
  "get_lane_change_direction CS = (if cs_leftBlinker CS then LCD_left else LCD_right)"

text \<open>The two conditions of a pending lane change towards \<open>direction\<close>.\<close>

definition torque_applied :: "car_state \<Rightarrow> lane_change_direction \<Rightarrow> bool" where
  "torque_applied CS direction \<longleftrightarrow> cs_steeringPressed CS \<and>
     (0 < cs_steeringTorque CS \<and> direction = LCD_left \<or> cs_steeringTorque CS < 0 \<and> direction = LCD_right)"

definition blindspot_detected :: "car_state \<Rightarrow> bool \<Rightarrow> bool \<Rightarrow> lane_change_direction \<Rightarrow> bool" where
  "blindspot_detected CS left_edge right_edge direction \<longleftrightarrow>
     (cs_leftBlindspot CS \<or> left_edge) \<and> direction = LCD_left \<or>
     (cs_rightBlindspot CS \<or> right_edge) \<and> direction = LCD_right"

definition one_blinker :: "car_state \<Rightarrow> bool" where
  "one_blinker CS \<longleftrightarrow> cs_leftBlinker CS \<noteq> cs_rightBlinker CS"

definition lane_change_off :: "desire_helper \<Rightarrow> desire_helper" where
  "lane_change_off d = d\<lparr>dh_lane_change_state := LCS_off, dh_lane_change_direction := LCD_none\<rparr>"

text \<open>The lane-change machine.\<close>

definition lane_change_step :: "car_state \<Rightarrow> bool \<Rightarrow> real \<Rightarrow> bool \<Rightarrow> bool \<Rightarrow> desire_helper \<Rightarrow> desire_helper" where
  "lane_change_step CS lateral_active lane_change_prob left_edge right_edge d =
     (let below = (cs_vEgo CS < LANE_CHANGE_SPEED_MIN)
      in if \<not> lateral_active \<or> LANE_CHANGE_TIME_MAX < dh_lane_change_timer d \<or>
            al_lane_change_set_timer (dh_alc d) = Some ALC_OFF
         then (lane_change_off d)\<lparr>dh_lane_change_timer := 0\<rparr>
         else if dh_lane_change_state d = LCS_off \<and> one_blinker CS \<and> \<not> dh_prev_one_blinker d \<and> \<not> below
         then d\<lparr>dh_lane_change_state := LCS_preLaneChange, dh_lane_change_timer := 0,
                dh_lane_change_direction := get_lane_change_direction CS\<rparr>
         else if dh_lane_change_state d = LCS_preLaneChange then
           (let direction = get_lane_change_direction CS;
                blocked = blindspot_detected CS left_edge right_edge direction;
                d = d\<lparr>dh_lane_change_direction := direction,
                      dh_alc := alc_update_lane_change blocked (cs_brakePressed CS) (dh_alc d)\<rparr>
            in if \<not> one_blinker CS \<or> below then (lane_change_off d)\<lparr>dh_lane_change_timer := 0\<rparr>
               else if (torque_applied CS direction \<or> al_auto_lane_change_allowed (dh_alc d)) \<and> \<not> blocked
               then d\<lparr>dh_lane_change_state := LCS_laneChangeStarting, dh_lane_change_timer := 0\<rparr>
               else d)
         else if dh_lane_change_state d = LCS_laneChangeStarting then
           (let d = d\<lparr>dh_lane_change_timer := dh_lane_change_timer d + DT_MDL\<rparr>
            in if lane_change_prob < 2 / 100 \<and> LANE_CHANGE_START_TIME \<le> dh_lane_change_timer d then
                 (let d = d\<lparr>dh_lane_change_timer := 0\<rparr>
                  in if one_blinker CS
                     then d\<lparr>dh_lane_change_state := LCS_preLaneChange,
                            dh_lane_change_direction := get_lane_change_direction CS\<rparr>
                     else lane_change_off d)
               else d)
         else d)"

definition choose_desire :: "desire_helper \<Rightarrow> desire" where
  "choose_desire d =
     (if dh_lane_turn_direction d \<noteq> TD_none then TURN_DESIRES (dh_lane_turn_direction d)
      else if dh_lane_change_state d = LCS_laneChangeStarting then
        (if dh_lane_change_direction d = LCD_left then D_laneChangeLeft
         else if dh_lane_change_direction d = LCD_right then D_laneChangeRight else D_none)
      else D_none)"

definition desire_update ::
  "params \<Rightarrow> car_state \<Rightarrow> bool \<Rightarrow> real \<Rightarrow> bool \<Rightarrow> bool \<Rightarrow> desire_helper \<Rightarrow> desire_helper option" where
  "desire_update p CS lateral_active lane_change_prob left_edge right_edge d =
     do { let d = d\<lparr>dh_alc := alc_update_params p (dh_alc d)\<rparr>;
          t \<leftarrow> lane_turn_update_params p (dh_lane_turn d);
          let t = update_lane_turn CS t;
          let d = d\<lparr>dh_lane_turn := t, dh_lane_turn_direction := get_turn_direction t\<rparr>;
          let d = lane_change_step CS lateral_active lane_change_prob left_edge right_edge d;
          let d = d\<lparr>dh_prev_one_blinker := one_blinker CS \<and> lateral_active\<rparr>;
          let d = d\<lparr>dh_desire := choose_desire d\<rparr>;
          Some (d\<lparr>dh_alc := alc_update_state (dh_lane_change_state d) (dh_lane_change_direction d) (dh_alc d)\<rparr>) }"

section \<open>\<open>RoadEdgeLaneChangeController\<close>\<close>

definition NEARSIDE_PROB :: real where "NEARSIDE_PROB = 2 / 10"
definition EDGE_PROB :: real where "EDGE_PROB = 35 / 100"
definition EDGE_REACTION_TIME :: real where "EDGE_REACTION_TIME = 1"
definition EDGE_CLEAR_TIME :: real where "EDGE_CLEAR_TIME = 3 / 10"
definition RELC_MIN_SPEED :: real where "RELC_MIN_SPEED = 20 * MPH_TO_MS"
definition VEHICLE_EDGE_MARGIN :: real where "VEHICLE_EDGE_MARGIN = 108 / 100"
definition EDGE_CLEARANCE :: real where "EDGE_CLEARANCE = 37 / 10"

text \<open>The three fields of one side: detected, edge timer, clear timer.\<close>

record edge_side =
  es_detected :: bool
  es_edge_timer :: real
  es_clear_timer :: real

record relc =
  rl_enabled :: bool
  rl_param_read_counter :: int
  rl_left :: edge_side
  rl_right :: edge_side

definition edge_side_init :: edge_side where
  "edge_side_init = \<lparr> es_detected = False, es_edge_timer = 0, es_clear_timer = 0 \<rparr>"

definition relc_init :: "params \<Rightarrow> relc" where
  "relc_init p = \<lparr> rl_enabled = get_bool ''RoadEdgeLaneChangeEnabled'' p, rl_param_read_counter = 0,
     rl_left = edge_side_init, rl_right = edge_side_init \<rparr>"

definition relc_update_params :: "params \<Rightarrow> relc \<Rightarrow> relc" where
  "relc_update_params p r =
     (let r = (if rl_param_read_counter r mod 50 = 0
               then r\<lparr>rl_enabled := get_bool ''RoadEdgeLaneChangeEnabled'' p\<rparr> else r)
      in r\<lparr>rl_param_read_counter := rl_param_read_counter r + 1\<rparr>)"

definition relc_reset :: "relc \<Rightarrow> relc" where
  "relc_reset r = r\<lparr>rl_left := edge_side_init, rl_right := edge_side_init\<rparr>"

definition edge_side_update :: "bool \<Rightarrow> edge_side \<Rightarrow> edge_side" where
  "edge_side_update cond s =
     (if cond then
        (let s = s\<lparr>es_edge_timer := min (es_edge_timer s + DT_MDL) (EDGE_REACTION_TIME + EDGE_CLEAR_TIME),
                   es_clear_timer := 0\<rparr>
         in if EDGE_REACTION_TIME < es_edge_timer s then s\<lparr>es_detected := True\<rparr> else s)
      else
        (let s = s\<lparr>es_clear_timer := es_clear_timer s + DT_MDL\<rparr>
         in if EDGE_CLEAR_TIME < es_clear_timer s then s\<lparr>es_edge_timer := 0, es_detected := False\<rparr> else s))"

text \<open>The distance to each road edge, where both are given.\<close>

definition edge_clearances :: "real list list option \<Rightarrow> real \<times> real" where
  "edge_clearances road_edges =
     (case road_edges of
        Some [l # ls, r # rs] \<Rightarrow> (\<bar>l\<bar> - VEHICLE_EDGE_MARGIN, \<bar>r\<bar> - VEHICLE_EDGE_MARGIN)
      | _ \<Rightarrow> (0, 0))"

definition edge_condition :: "real \<Rightarrow> real \<Rightarrow> real \<Rightarrow> bool" where
  "edge_condition std lane_prob clearance \<longleftrightarrow>
     EDGE_PROB < np_clip (1 - std) 0 1 \<and> lane_prob < NEARSIDE_PROB \<and> clearance < EDGE_CLEARANCE"

definition relc_update ::
  "params \<Rightarrow> real list \<Rightarrow> real list \<Rightarrow> real \<Rightarrow> real list list option \<Rightarrow> relc \<Rightarrow> relc option" where
  "relc_update p road_edge_stds lane_line_probs v_ego road_edges r =
     (let r = relc_update_params p r
      in if \<not> rl_enabled r \<or> v_ego < RELC_MIN_SPEED then Some (relc_reset r)
         else if length road_edge_stds < 2 \<or> length lane_line_probs < 4 then None
         else
           (let (left_clearance, right_clearance) = edge_clearances road_edges;
                left_cond = edge_condition (road_edge_stds ! 0) (lane_line_probs ! 0) left_clearance;
                right_cond = edge_condition (road_edge_stds ! 1) (lane_line_probs ! 3) right_clearance
            in Some (r\<lparr>rl_left := edge_side_update left_cond (rl_left r),
                       rl_right := edge_side_update right_cond (rl_right r)\<rparr>)))"

definition relc_update_and_fill ::
  "params \<Rightarrow> real list \<Rightarrow> real list \<Rightarrow> real \<Rightarrow> real list list option \<Rightarrow> model_data_sp \<times> relc \<Rightarrow> (model_data_sp \<times> relc) option" where
  "relc_update_and_fill p road_edge_stds lane_line_probs v_ego road_edges = (\<lambda>(md, r).
     do { r \<leftarrow> relc_update p road_edge_stds lane_line_probs v_ego road_edges r;
          Some (md\<lparr>md_leftLaneChangeEdgeBlock := es_detected (rl_left r),
                   md_rightLaneChangeEdgeBlock := es_detected (rl_right r)\<rparr>, r) })"

section \<open>Lemmas\<close>

lemma alc_fields [frame_simps]:
  "al_lane_change_set_timer (alc_update_lane_change b br a) = al_lane_change_set_timer a"
  "al_lane_change_set_timer (alc_update_state st dir a) = al_lane_change_set_timer a"
  by (simp_all add: alc_update_lane_change_def update_lane_change_timers_def alc_update_state_def Let_def)

text \<open>An automatic change needs a delay mode, no brake and no earlier change since the blinker came on.\<close>

lemma alc_allowed:
  assumes "al_auto_lane_change_allowed (alc_update_lane_change b br a)"
  shows "al_lane_change_set_timer a \<notin> {Some ALC_OFF, Some ALC_NUDGE} \<and> \<not> br \<and>
         \<not> al_prev_brake_pressed a \<and> \<not> al_prev_lane_change a"
  using assms
  by (auto simp: alc_update_lane_change_def update_lane_change_timers_def alc_update_allowed_def Let_def split: if_splits)

lemma lane_change_starts:
  assumes "dh_lane_change_state (lane_change_step CS lat prob le re d) = LCS_laneChangeStarting"
    and "dh_lane_change_state d \<noteq> LCS_laneChangeStarting"
  defines "dir \<equiv> get_lane_change_direction CS"
  shows "dh_lane_change_state d = LCS_preLaneChange \<and> lat \<and> one_blinker CS \<and> LANE_CHANGE_SPEED_MIN \<le> cs_vEgo CS \<and>
         dh_lane_change_direction (lane_change_step CS lat prob le re d) = dir \<and>
         \<not> blindspot_detected CS le re dir \<and>
         (torque_applied CS dir \<or>
          al_lane_change_set_timer (dh_alc d) \<notin> {Some ALC_OFF, Some ALC_NUDGE} \<and> \<not> cs_brakePressed CS \<and>
          \<not> al_prev_brake_pressed (dh_alc d) \<and> \<not> al_prev_lane_change (dh_alc d))"
  using assms alc_allowed [of "blindspot_detected CS le re dir" "cs_brakePressed CS" "dh_alc d"]
  by (auto simp: lane_change_step_def Let_def lane_change_off_def split: if_splits)

text \<open>The consistency of state, direction and timer.\<close>

definition dh_inv :: "desire_helper \<Rightarrow> bool" where
  "dh_inv d \<longleftrightarrow> (dh_lane_change_state d = LCS_off \<longleftrightarrow> dh_lane_change_direction d = LCD_none) \<and>
     dh_lane_change_state d \<noteq> LCS_laneChangeFinishing \<and>
     0 \<le> dh_lane_change_timer d \<and> dh_lane_change_timer d \<le> LANE_CHANGE_TIME_MAX + DT_MDL"

lemma direction_not_none: "get_lane_change_direction CS \<noteq> LCD_none"
  by (simp add: get_lane_change_direction_def)

lemma lane_change_step_inv: "dh_inv d \<Longrightarrow> dh_inv (lane_change_step CS lat prob le re d)"
  using direction_not_none [of CS]
  by (auto simp: dh_inv_def lane_change_step_def Let_def lane_change_off_def LANE_CHANGE_TIME_MAX_def DT_MDL_def
      split: if_splits)

lemma lane_change_step_inactive:
  "\<not> lat \<Longrightarrow> dh_lane_change_state (lane_change_step CS lat prob le re d) = LCS_off"
  by (simp add: lane_change_step_def Let_def lane_change_off_def)

definition desire_prepare :: "params \<Rightarrow> car_state \<Rightarrow> lane_turn \<Rightarrow> desire_helper \<Rightarrow> desire_helper" where
  "desire_prepare p CS t d =
     d\<lparr>dh_alc := alc_update_params p (dh_alc d), dh_lane_turn := update_lane_turn CS t,
       dh_lane_turn_direction := get_turn_direction (update_lane_turn CS t)\<rparr>"

lemma desire_prepare_fields [frame_simps]:
  "dh_lane_change_state (desire_prepare p CS t d) = dh_lane_change_state d"
  "dh_lane_change_direction (desire_prepare p CS t d) = dh_lane_change_direction d"
  "dh_lane_change_timer (desire_prepare p CS t d) = dh_lane_change_timer d"
  by (simp_all add: desire_prepare_def)

lemma desire_update_Some:
  assumes "lane_turn_update_params p (dh_lane_turn d) = Some t"
  shows "desire_update p CS lat prob le re d =
    (let s = (lane_change_step CS lat prob le re (desire_prepare p CS t d))\<lparr>dh_prev_one_blinker := one_blinker CS \<and> lat\<rparr>;
         s = s\<lparr>dh_desire := choose_desire s\<rparr>
     in Some (s\<lparr>dh_alc := alc_update_state (dh_lane_change_state s) (dh_lane_change_direction s) (dh_alc s)\<rparr>))"
  by (simp add: desire_update_def assms Let_def desire_prepare_def)

lemma desire_update_split:
  assumes "desire_update p CS lat prob le re d = Some d'"
  obtains t s where "s = lane_change_step CS lat prob le re (desire_prepare p CS t d)"
    "dh_lane_change_state d' = dh_lane_change_state s" "dh_lane_change_direction d' = dh_lane_change_direction s"
    "dh_lane_change_timer d' = dh_lane_change_timer s" "dh_desire d' = choose_desire s"
    "dh_lane_turn_direction d' = dh_lane_turn_direction s"
proof -
  from assms obtain t where t: "lane_turn_update_params p (dh_lane_turn d) = Some t"
    by (auto simp: desire_update_def Let_def bind_eq_Some_conv)
  let ?s = "lane_change_step CS lat prob le re (desire_prepare p CS t d)"
  have c: "choose_desire (x\<lparr>dh_prev_one_blinker := b\<rparr>) = choose_desire x" for x b
    by (simp add: choose_desire_def)
  show thesis using assms that [of ?s t] by (auto simp: desire_update_Some [OF t] Let_def c)
qed

definition desire_run ::
  "(params \<times> car_state \<times> bool \<times> real \<times> bool \<times> bool) list \<Rightarrow> desire_helper \<Rightarrow> desire_helper option" where
  "desire_run is d = fold (\<lambda>(p, CS, lat, prob, le, re) d. Option.bind d (desire_update p CS lat prob le re)) is (Some d)"

section \<open>Properties\<close>

text \<open>C35: A lane change starts only when it is safe and wanted: an update that enters
  \<open>laneChangeStarting\<close> comes from \<open>preLaneChange\<close> with lateral control active, exactly one blinker on, at
  least 20 mph, no vehicle in the blind spot and no road edge on the side of the blinker, and with either
  the driver's torque towards that side or an automatic mode with no brake press since the blinker.\<close>

theorem lane_change_starts_safely:
  assumes "desire_update p CS lat prob left_edge right_edge d = Some d'"
    and "dh_lane_change_state d' = LCS_laneChangeStarting" "dh_lane_change_state d \<noteq> LCS_laneChangeStarting"
  shows "dh_lane_change_state d = LCS_preLaneChange \<and> lat \<and> cs_leftBlinker CS \<noteq> cs_rightBlinker CS \<and>
         20 * MPH_TO_MS \<le> cs_vEgo CS \<and>
         (if cs_leftBlinker CS then dh_lane_change_direction d' = LCD_left \<and> \<not> cs_leftBlindspot CS \<and> \<not> left_edge
          else dh_lane_change_direction d' = LCD_right \<and> \<not> cs_rightBlindspot CS \<and> \<not> right_edge) \<and>
         (cs_steeringPressed CS \<and> (if cs_leftBlinker CS then 0 < cs_steeringTorque CS else cs_steeringTorque CS < 0) \<or>
          al_lane_change_set_timer (alc_update_params p (dh_alc d)) \<notin> {Some ALC_OFF, Some ALC_NUDGE} \<and>
          \<not> cs_brakePressed CS \<and> \<not> al_prev_brake_pressed (dh_alc d) \<and> \<not> al_prev_lane_change (dh_alc d))"
proof (rule desire_update_split [OF assms(1)])
  fix s t
  assume s: "s = lane_change_step CS lat prob left_edge right_edge (desire_prepare p CS t d)"
    "dh_lane_change_state d' = dh_lane_change_state s" "dh_lane_change_direction d' = dh_lane_change_direction s"
  have a: "al_prev_brake_pressed (alc_update_params p x) = al_prev_brake_pressed x"
    "al_prev_lane_change (alc_update_params p x) = al_prev_lane_change x" for x
    by (simp_all add: alc_update_params_def alc_read_params_def Let_def)
  have alc: "dh_alc (desire_prepare p CS t d) = alc_update_params p (dh_alc d)" by (simp add: desire_prepare_def)
  have "dh_lane_change_state s = LCS_laneChangeStarting" using s(2) assms(2) by simp
  from lane_change_starts [OF this [unfolded s(1)], folded s(1)] assms(3) show ?thesis
    unfolding s(2,3)
    by (simp add: frame_simps alc a one_blinker_def LANE_CHANGE_SPEED_MIN_def get_lane_change_direction_def
        blindspot_detected_def torque_applied_def split: if_splits)
qed

text \<open>C36: The desire fits the lane-change state: from the state the constructor builds, after any run of
  updates that do not raise, there is a direction exactly when a lane change is pending or under way, the
  timer is within its bound, the finishing state does not occur, and a lane-change desire is given exactly
  when a change is under way in that direction and no turn is requested.\<close>

theorem desire_fits_state:
  assumes "desire_helper_init p = Some d0" "desire_run is d0 = Some d"
  shows "(dh_lane_change_state d = LCS_off \<longleftrightarrow> dh_lane_change_direction d = LCD_none) \<and>
         dh_lane_change_state d \<noteq> LCS_laneChangeFinishing \<and>
         0 \<le> dh_lane_change_timer d \<and> dh_lane_change_timer d \<le> 1005 / 100 \<and>
         (dh_desire d = D_laneChangeLeft \<longleftrightarrow> dh_lane_turn_direction d = TD_none \<and>
            dh_lane_change_state d = LCS_laneChangeStarting \<and> dh_lane_change_direction d = LCD_left) \<and>
         (dh_desire d = D_laneChangeRight \<longleftrightarrow> dh_lane_turn_direction d = TD_none \<and>
            dh_lane_change_state d = LCS_laneChangeStarting \<and> dh_lane_change_direction d = LCD_right)"
proof -
  have des: "dh_inv d \<and> dh_desire d = choose_desire d" using assms(2)
  proof (induction "is" arbitrary: d rule: rev_induct)
    case Nil
    with assms(1) show ?case
      by (auto simp: desire_run_def desire_helper_init_def bind_eq_Some_conv dh_inv_def choose_desire_def
          LANE_CHANGE_TIME_MAX_def DT_MDL_def)
  next
    case (snoc i "is")
    obtain q CS lat prob le re where i: "i = (q, CS, lat, prob, le, re)" by (cases i) auto
    from snoc.prems obtain d1 where d1: "desire_run is d0 = Some d1" "desire_update q CS lat prob le re d1 = Some d"
      by (auto simp: desire_run_def i bind_eq_Some_conv)
    have inv: "dh_inv d1" using snoc.IH [OF d1(1)] by simp
    show ?case
    proof (rule desire_update_split [OF d1(2)])
      fix s t
      assume s: "s = lane_change_step CS lat prob le re (desire_prepare q CS t d1)"
        "dh_lane_change_state d = dh_lane_change_state s" "dh_lane_change_direction d = dh_lane_change_direction s"
        "dh_lane_change_timer d = dh_lane_change_timer s" "dh_desire d = choose_desire s"
        "dh_lane_turn_direction d = dh_lane_turn_direction s"
      have "dh_inv (desire_prepare q CS t d1)" using inv by (simp add: dh_inv_def frame_simps)
      then have "dh_inv s" unfolding s(1) by (rule lane_change_step_inv)
      then show ?thesis by (simp add: dh_inv_def s(2-4) choose_desire_def s(5,6))
    qed
  qed
  have t: "TURN_DESIRES x \<notin> {D_laneChangeLeft, D_laneChangeRight}" for x by (cases x) simp_all
  show ?thesis using des t [of "dh_lane_turn_direction d"]
    by (auto simp: dh_inv_def choose_desire_def LANE_CHANGE_TIME_MAX_def DT_MDL_def split: if_splits)
qed

section \<open>Witnesses\<close>

definition demo_lane_params :: params where
  "demo_lane_params = \<lparr>pr_values = Map.empty, pr_defaults = [''LaneTurnValue'' \<mapsto> PFloat 19, ''AutoLaneChangeTimer'' \<mapsto> PInt 0]\<rparr>"

definition demo_blinking :: car_state where
  "demo_blinking = demo_car\<lparr>cs_vEgo := 20, cs_leftBlinker := True, cs_rightBlinker := False, cs_leftBlindspot := False,
     cs_steeringPressed := True, cs_steeringTorque := 1\<rparr>"

definition demo_pending :: desire_helper where
  "demo_pending = \<lparr> dh_lane_change_state = LCS_preLaneChange, dh_lane_change_direction = LCD_left,
     dh_lane_change_timer = 0, dh_prev_one_blinker = True, dh_desire = D_none, dh_alc = alc_init demo_lane_params,
     dh_lane_turn = \<lparr> lt_turn_direction = TD_none, lt_lane_turn_value = 0, lt_param_read_counter = 1, lt_enabled = False \<rparr>,
     dh_lane_turn_direction = TD_none \<rparr>"

lemma demo_lane_float: "get_float ''LaneTurnValue'' demo_lane_params = Some 19"
  by (simp add: get_float_def get_param_def demo_lane_params_def)

theorem lane_change_starts_safely_witness:
  "\<exists>d'. desire_update demo_lane_params demo_blinking True 0 False False demo_pending = Some d' \<and>
     dh_lane_change_direction d' = LCD_left \<and> 20 * MPH_TO_MS \<le> cs_vEgo demo_blinking"
proof -
  have pending: "dh_lane_change_state demo_pending = LCS_preLaneChange" "dh_lane_change_timer demo_pending = 0"
    by (simp_all add: demo_pending_def)
  have blinking: "cs_leftBlinker demo_blinking" "\<not> cs_rightBlinker demo_blinking" "\<not> cs_leftBlindspot demo_blinking"
    "cs_steeringPressed demo_blinking" "cs_steeringTorque demo_blinking = 1"
    by (simp_all add: demo_blinking_def)
  have v: "\<not> cs_vEgo demo_blinking < LANE_CHANGE_SPEED_MIN"
    by (simp add: demo_blinking_def LANE_CHANGE_SPEED_MIN_def CV_defs)
  have t: "lane_turn_update_params demo_lane_params (dh_lane_turn demo_pending) = Some ((dh_lane_turn demo_pending)\<lparr>lt_param_read_counter := 2\<rparr>)"
    by (simp add: lane_turn_update_params_def demo_pending_def)
  have set: "al_lane_change_set_timer (alc_update_params demo_lane_params (dh_alc demo_pending)) \<noteq> Some ALC_OFF"
    by (simp add: alc_update_params_def alc_read_params_def alc_init_def demo_pending_def demo_lane_params_def
        get_int_def get_param_def ALC_OFF_def Let_def)
  let ?t = "(dh_lane_turn demo_pending)\<lparr>lt_param_read_counter := 2\<rparr>"
  have "al_lane_change_set_timer (dh_alc (desire_prepare demo_lane_params demo_blinking ?t demo_pending)) \<noteq> Some ALC_OFF"
    using set by (simp add: desire_prepare_def)
  then have "dh_lane_change_state (lane_change_step demo_blinking True 0 False False
      (desire_prepare demo_lane_params demo_blinking ?t demo_pending)) = LCS_laneChangeStarting"
    using v by (simp add: lane_change_step_def Let_def frame_simps one_blinker_def get_lane_change_direction_def
        blindspot_detected_def torque_applied_def LANE_CHANGE_TIME_MAX_def pending blinking)
  then have "\<exists>d'. desire_update demo_lane_params demo_blinking True 0 False False demo_pending = Some d' \<and>
      dh_lane_change_state d' = LCS_laneChangeStarting"
    by (simp add: desire_update_Some [OF t] Let_def)
  then obtain d' where d': "desire_update demo_lane_params demo_blinking True 0 False False demo_pending = Some d'"
    "dh_lane_change_state d' = LCS_laneChangeStarting" by blast
  have "dh_lane_change_state demo_pending \<noteq> LCS_laneChangeStarting" by (simp add: demo_pending_def)
  from lane_change_starts_safely [OF d' this] d'(1) show ?thesis by (simp add: demo_blinking_def)
qed

theorem desire_fits_state_witness:
  "\<exists>d0 d. desire_helper_init demo_lane_params = Some d0 \<and>
     desire_run [(demo_lane_params, demo_blinking, True, 0, False, False)] d0 = Some d \<and>
     dh_lane_change_state d \<noteq> LCS_laneChangeFinishing"
proof -
  obtain d0 where d0: "desire_helper_init demo_lane_params = Some d0"
    by (simp add: desire_helper_init_def lane_turn_init_def demo_lane_float)
  obtain t where t: "lane_turn_update_params demo_lane_params (dh_lane_turn d0) = Some t"
    by (cases "lt_param_read_counter (dh_lane_turn d0) mod 50 = 0")
       (simp_all add: lane_turn_update_params_def lane_turn_read_params_def demo_lane_float)
  obtain d where d: "desire_run [(demo_lane_params, demo_blinking, True, 0, False, False)] d0 = Some d"
    by (simp add: desire_run_def desire_update_Some [OF t] Let_def)
  from desire_fits_state [OF d0 d] d0 d show ?thesis by blast
qed

end
