(* ===== verification/StateSpec.thy ===== *)
theory StateSpec
  imports StateMachine
begin

text \<open>
  The specification of the openpilot state machine as a decision table, in the form its design is
  usually drawn: in a phase, the first row whose condition holds gives the next phase and the alert
  types of the frame.  The nested conditionals of \<open>state.py\<close> are proved equivalent to it over runs.
\<close>

text \<open>
  A row holds in one of its phases when an event of one of the types \<open>row_any\<close> is present (or the list
  is empty), one of \<open>row_and\<close> is (or the list is empty), and, for a counting row, the timer has not run out.
\<close>

record row =
  row_phases :: "openpilot_state list"
  row_any :: "ET list"
  row_and :: "ET list"
  row_counting :: bool
  row_next :: openpilot_state
  row_alerts :: "ET list"

definition mk_row ::
  "openpilot_state list \<Rightarrow> ET list \<Rightarrow> ET list \<Rightarrow> bool \<Rightarrow> openpilot_state \<Rightarrow> ET list \<Rightarrow> row" where
  "mk_row ps any_of and_of counting nxt alerts =
     \<lparr> row_phases = ps, row_any = any_of, row_and = and_of, row_counting = counting, row_next = nxt, row_alerts = alerts \<rparr>"

definition decision_table :: "row list" where
  "decision_table =
    (let on = [OS_preEnabled, OS_enabled, OS_softDisabling, OS_overriding];
         driving = [OS_enabled, OS_overriding];
         override = [OVERRIDE_LATERAL, OVERRIDE_LONGITUDINAL]
     in [mk_row on [IMMEDIATE_DISABLE] [] False OS_disabled [IMMEDIATE_DISABLE],
         mk_row on [USER_DISABLE] [] False OS_disabled [USER_DISABLE],
         mk_row driving [SOFT_DISABLE] [] False OS_softDisabling [SOFT_DISABLE],
         mk_row driving override [] False OS_overriding override,
         mk_row [OS_softDisabling] [SOFT_DISABLE] [] True OS_softDisabling [SOFT_DISABLE],
         mk_row [OS_softDisabling] [SOFT_DISABLE] [] False OS_disabled [],
         mk_row [OS_preEnabled] [PRE_ENABLE] [] False OS_preEnabled [PRE_ENABLE],
         mk_row on [] [] False OS_enabled [],
         mk_row [OS_disabled] [ENABLE] [NO_ENTRY] False OS_disabled [NO_ENTRY],
         mk_row [OS_disabled] [ENABLE] [PRE_ENABLE] False OS_preEnabled [ENABLE],
         mk_row [OS_disabled] [ENABLE] override False OS_overriding [ENABLE],
         mk_row [OS_disabled] [ENABLE] [] False OS_enabled [ENABLE]])"

definition row_holds :: "(ET \<Rightarrow> bool) \<Rightarrow> int \<Rightarrow> openpilot_state \<Rightarrow> row \<Rightarrow> bool" where
  "row_holds has timer q r \<longleftrightarrow> q \<in> set (row_phases r) \<and> (row_any r = [] \<or> list_ex has (row_any r)) \<and>
     (row_and r = [] \<or> list_ex has (row_and r)) \<and> (row_counting r \<longrightarrow> 1 < timer)"

text \<open>A frame of the specification: phase, frames left before a soft disable ends, alert types.\<close>

fun spec_step :: "(ET \<Rightarrow> bool) \<Rightarrow> openpilot_state \<times> int \<times> ET list \<Rightarrow> openpilot_state \<times> int \<times> ET list" where
  "spec_step has (q, timer, _) =
     (let (q', alerts) = (case find (row_holds has timer q) decision_table of
                            Some r \<Rightarrow> (row_next r, row_alerts r) | None \<Rightarrow> (q, []));
          timer' = (if q' = OS_softDisabling \<and> q \<noteq> OS_softDisabling then 300 else max 0 (timer - 1));
          warn = (if q' \<in> {OS_enabled, OS_softDisabling, OS_overriding} then [WARNING] else [])
      in (q', timer', PERMANENT # alerts @ warn))"

definition abs_machine :: "ss_machine \<Rightarrow> openpilot_state \<times> int \<times> ET list" where
  "abs_machine st = (ss_state st, ss_soft_disable_timer st, ss_current_alert_types st)"

lemma decision_off:
  "find (row_holds has t OS_disabled) decision_table =
    (if has ENABLE then
       (if has NO_ENTRY then Some (mk_row [OS_disabled] [ENABLE] [NO_ENTRY] False OS_disabled [NO_ENTRY])
        else if has PRE_ENABLE then Some (mk_row [OS_disabled] [ENABLE] [PRE_ENABLE] False OS_preEnabled [ENABLE])
        else if has OVERRIDE_LATERAL \<or> has OVERRIDE_LONGITUDINAL
        then Some (mk_row [OS_disabled] [ENABLE] [OVERRIDE_LATERAL, OVERRIDE_LONGITUDINAL] False OS_overriding [ENABLE])
        else Some (mk_row [OS_disabled] [ENABLE] [] False OS_enabled [ENABLE]))
     else None)"
  by (simp add: decision_table_def row_holds_def mk_row_def Let_def)

lemma tick_down_max: "0 \<le> t \<Longrightarrow> tick_down t = max 0 (t - 1)"
  by (simp add: tick_down_def)

lemma spec_step_refined:
  assumes "ss_inv st"
  shows "abs_machine (ss_step m ev st) = spec_step (\<lambda>t. contains_et m t ev) (abs_machine st)"
proof -
  have t: "tick_down (ss_soft_disable_timer st) = max 0 (ss_soft_disable_timer st - 1)"
    using assms by (simp add: ss_inv_def tick_down_max)
  show ?thesis
  proof (cases "ss_state st")
    case OS_disabled
    then show ?thesis
      by (simp add: abs_machine_def ss_step_def Let_def decision_off ss_append_def ACTIVE_STATES_def t mk_row_def)
  qed (simp_all add: abs_machine_def ss_step_def Let_def decision_table_def row_holds_def mk_row_def
        ss_append_def ACTIVE_STATES_def t)
qed

section \<open>Property\<close>

text \<open>C33: The state machine is equivalent to its decision table: from the initial state, for every sequence
  of event stores and whatever the event table, the phase, the soft-disable timer and the alert types after
  the frames, and the pair \<open>update\<close> returns, are those of the first row that holds, frame by frame.\<close>

theorem machine_equals_table:
  "abs_machine (fold (ss_step m) evs ss_init) =
     fold (\<lambda>ev. spec_step (\<lambda>t. contains_et m t ev)) evs (OS_disabled, 0, [PERMANENT]) \<and>
   snd (ss_update m ev (fold (ss_step m) evs ss_init)) =
     (let q = fst (fold (\<lambda>ev. spec_step (\<lambda>t. contains_et m t ev)) (evs @ [ev]) (OS_disabled, 0, [PERMANENT]))
      in (q \<noteq> OS_disabled, q \<noteq> OS_disabled \<and> q \<noteq> OS_preEnabled))"
proof -
  have run: "abs_machine (fold (ss_step m) evs ss_init) =
      fold (\<lambda>ev. spec_step (\<lambda>t. contains_et m t ev)) evs (OS_disabled, 0, [PERMANENT])" for evs
  proof (induction evs rule: rev_induct)
    case Nil
    show ?case by (simp add: abs_machine_def ss_init_def)
  next
    case (snoc ev evs)
    then show ?case by (simp add: spec_step_refined [OF ss_inv_run [OF ss_inv_init]])
  qed
  have "ss_state st = fst (abs_machine st)" for st by (simp add: abs_machine_def)
  then have "ss_state (ss_step m ev (fold (ss_step m) evs ss_init)) =
      fst (fold (\<lambda>ev. spec_step (\<lambda>t. contains_et m t ev)) (evs @ [ev]) (OS_disabled, 0, [PERMANENT]))"
    using run [of "evs @ [ev]"] by simp
  then show ?thesis
    using run [of evs] by (simp add: ss_update_def ss_outputs_def enabled_iff active_iff Let_def)
qed

end
