(* ===== verification/EventSpec.thy ===== *)
theory EventSpec
  imports EventsBase "HOL-Library.Multiset"
begin

text \<open>
  The abstract specification of an event store: a multiset of current events, a multiset of static
  events and the number of frames each event has been present, with one line per operation.  The
  sorted lists that \<open>events_base.py\<close> keeps by bisection refine it.
\<close>

record spec_store =
  sp_current :: "int multiset"
  sp_static :: "int multiset"
  sp_frames :: "int \<Rightarrow> int"

datatype store_call = Add int bool | AddMsg "int list" | Remove int bool | Clear

fun spec_op :: "store_call \<Rightarrow> spec_store \<Rightarrow> spec_store" where
  "spec_op (Add e static) s =
     s\<lparr>sp_current := add_mset e (sp_current s), sp_static := (if static then add_mset e (sp_static s) else sp_static s)\<rparr>"
| "spec_op (AddMsg es) s = s\<lparr>sp_current := mset es + sp_current s\<rparr>"
| "spec_op (Remove e static) s =
     s\<lparr>sp_current := sp_current s - {#e#}, sp_static := (if static then sp_static s - {#e#} else sp_static s),
       sp_frames := (if e \<in># sp_current s then (sp_frames s)(e := sp_frames s e + 1) else sp_frames s)\<rparr>"
| "spec_op Clear s =
     s\<lparr>sp_current := sp_static s, sp_frames := (\<lambda>e. if e \<in># sp_current s then sp_frames s e + 1 else 0)\<rparr>"

definition spec_store_init :: spec_store where
  "spec_store_init = \<lparr> sp_current = {#}, sp_static = {#}, sp_frames = (\<lambda>_. 0) \<rparr>"

fun store_op :: "store_call \<Rightarrow> events \<Rightarrow> events option" where
  "store_op (Add e static) s = Some (ev_add_static e static s)"
| "store_op (AddMsg es) s = Some (ev_add_from_msg es s)"
| "store_op (Remove e static) s = ev_remove_static e static s"
| "store_op Clear s = Some (ev_clear s)"

fun op_known :: "events_mapping \<Rightarrow> store_call \<Rightarrow> bool" where
  "op_known m (Add e static) \<longleftrightarrow> known_event m e"
| "op_known m (AddMsg es) \<longleftrightarrow> list_all (known_event m) es"
| "op_known m _ \<longleftrightarrow> True"

text \<open>The lists are the sorted multisets; the counters of the table's events are the frame counts.\<close>

definition store_rel :: "events_mapping \<Rightarrow> events \<Rightarrow> spec_store \<Rightarrow> bool" where
  "store_rel m s a \<longleftrightarrow> ev_wf m s \<and> ev_events s = sorted_list_of_multiset (sp_current a) \<and>
     ev_static s = sorted_list_of_multiset (sp_static a) \<and>
     (\<forall>e. known_event m e \<longrightarrow> ev_counters s e = Some (sp_frames a e))"

lemma sorted_list_mset_eq: "sorted xs \<Longrightarrow> sorted_list_of_multiset M = xs \<longleftrightarrow> M = mset xs"
  by (metis mset_sorted_list_of_multiset sorted_list_of_multiset_mset sorted_sort_id)

lemma store_rel_iff:
  "store_rel m s a \<longleftrightarrow> ev_wf m s \<and> sp_current a = mset (ev_events s) \<and> sp_static a = mset (ev_static s) \<and>
     (\<forall>e. known_event m e \<longrightarrow> ev_counters s e = Some (sp_frames a e))"
  using sorted_list_mset_eq [of "ev_events s"] sorted_list_mset_eq [of "ev_static s"]
  by (auto simp: store_rel_def ev_wf_def sorted_sort_id)

lemma add_msg_fields:
  "mset (ev_events (ev_add_from_msg es s)) = mset es + mset (ev_events s)"
  "ev_static (ev_add_from_msg es s) = ev_static s" "ev_counters (ev_add_from_msg es s) = ev_counters s"
  by (induction es arbitrary: s) (simp_all add: ev_add_from_msg_def)

text \<open>\<open>remove\<close> written as one update of the three fields.\<close>

lemma ev_remove_static_fields:
  "ev_remove_static e static s =
     (let st = (if static then remove1 e (ev_static s) else ev_static s)
      in if e \<in> set (ev_events s)
         then map_option (\<lambda>n. s\<lparr>ev_static := st, ev_counters := (ev_counters s)(e \<mapsto> n + 1),
                                ev_events := remove1 e (ev_events s)\<rparr>) (ev_counters s e)
         else Some (s\<lparr>ev_static := st\<rparr>))"
  by (cases "static \<and> e \<in> set (ev_static s)"; cases "ev_counters s e")
     (auto simp: ev_remove_static_def Let_def remove1_idem)

lemma in_set_remove1D: "x \<in> set (remove1 e xs) \<Longrightarrow> x \<in> set xs"
  by (metis notin_set_remove1)

lemma remove_wf:
  assumes "ev_wf m s" "ev_remove_static e static s = Some s'"
  shows "ev_wf m s'"
proof -
  have "dom (ev_counters s') = dom (ev_counters s)"
    using assms(2) by (auto simp: ev_remove_static_fields Let_def insert_absorb split: if_splits)
  moreover have "sorted (ev_events s') \<and> sorted (ev_static s') \<and>
      set (ev_events s') \<subseteq> set (ev_events s) \<and> set (ev_static s') \<subseteq> set (ev_static s)"
    using assms by (auto simp: ev_wf_def ev_remove_static_fields Let_def dest: in_set_remove1D split: if_splits)
  ultimately show ?thesis using assms(1) by (simp add: ev_wf_def list_all_iff subset_iff)
qed

lemma store_op_refines:
  assumes "store_rel m s a" "op_known m p"
  shows "\<exists>s'. store_op p s = Some s' \<and> store_rel m s' (spec_op p a)"
proof (cases p)
  case (Add e static)
  with assms have "ev_wf m (ev_add_static e static s)" by (simp add: store_rel_def ev_wf_add_static)
  then show ?thesis using assms Add by (simp add: store_rel_iff) (simp add: ev_add_static_def Let_def)
next
  case (AddMsg es)
  with assms have "ev_wf m (ev_add_from_msg es s)" by (simp add: store_rel_def ev_wf_add_from_msg)
  then show ?thesis using assms AddMsg by (simp add: store_rel_iff add_msg_fields)
next
  case (Remove e static)
  have wf: "ev_wf m s" using assms(1) by (simp add: store_rel_def)
  have known: "known_event m e" if "e \<in> set (ev_events s)"
    using wf that by (auto simp: ev_wf_def list_all_iff)
  have cnt: "ev_counters s e = Some (sp_frames a e)" if "e \<in> set (ev_events s)"
    using assms(1) known [OF that] by (simp add: store_rel_def)
  obtain s' where s': "ev_remove_static e static s = Some s'"
    by (cases "e \<in> set (ev_events s)") (simp_all add: ev_remove_static_fields Let_def cnt)
  show ?thesis
    using assms(1) Remove s' remove_wf [OF wf s'] known cnt
    by (cases "e \<in> set (ev_events s)"; cases static)
       (auto simp: store_rel_iff ev_remove_static_fields Let_def)
next
  case Clear
  with assms have "ev_wf m (ev_clear s)" by (simp add: store_rel_def ev_wf_clear)
  then show ?thesis using assms Clear by (simp add: store_rel_iff) (simp add: ev_clear_def)
qed

definition store_run :: "store_call list \<Rightarrow> events \<Rightarrow> events option" where
  "store_run ps s = fold (\<lambda>p s. Option.bind s (store_op p)) ps (Some s)"

section \<open>Property\<close>

text \<open>C34: An event store refines its multiset specification: any sequence of additions, message
  additions, removals and clears with events of the table succeeds from the constructor's store, the lists
  are the specification's multisets in ascending order, the counters are its frame counts, and \<open>has\<close>,
  \<open>len\<close> and \<open>contains\<close> answer what the specification says.\<close>

theorem event_store_refines:
  assumes "list_all (op_known m) ps"
  shows "\<exists>s. store_run ps (ev_init m) = Some s \<and>
     (let a = fold spec_op ps spec_store_init
      in ev_events s = sorted_list_of_multiset (sp_current a) \<and> ev_static s = sorted_list_of_multiset (sp_static a) \<and>
         (\<forall>e. known_event m e \<longrightarrow> ev_counters s e = Some (sp_frames a e)) \<and>
         (\<forall>e. ev_has e s = (e \<in># sp_current a)) \<and> ev_len s = int (size (sp_current a)) \<and>
         (\<forall>t. contains_et m t s = (\<exists>e. e \<in># sp_current a \<and> t \<in> set (event_types m e))))"
proof -
  have "\<exists>s. store_run ps (ev_init m) = Some s \<and> store_rel m s (fold spec_op ps spec_store_init)"
    using assms
  proof (induction ps rule: rev_induct)
    case Nil
    show ?case
      by (simp add: store_run_def store_rel_iff ev_wf_init) (simp add: spec_store_init_def ev_init_def known_event_def)
  next
    case (snoc p ps)
    then obtain s where "store_run ps (ev_init m) = Some s" "store_rel m s (fold spec_op ps spec_store_init)"
      by auto
    moreover from store_op_refines [OF this(2)] snoc.prems
    obtain s' where "store_op p s = Some s'" "store_rel m s' (spec_op p (fold spec_op ps spec_store_init))"
      by auto
    ultimately show ?case by (simp add: store_run_def)
  qed
  then obtain s where s: "store_run ps (ev_init m) = Some s" "store_rel m s (fold spec_op ps spec_store_init)"
    by blast
  then have cur: "sp_current (fold spec_op ps spec_store_init) = mset (ev_events s)" by (simp add: store_rel_iff)
  show ?thesis
    by (rule exI [of _ s], use s in \<open>simp add: Let_def store_rel_def\<close>)
       (simp add: cur contains_iff ev_has_def ev_len_def)
qed

theorem event_store_refines_witness:
  "\<exists>s. store_run [Add 3 True, Add 1 False, AddMsg [2, 1], Remove 1 False, Clear, Add 2 False]
       (ev_init [(1, []), (2, []), (3, [])]) = Some s \<and> ev_events s = [2, 3]"
  using event_store_refines [of "[(1, []), (2, []), (3, [])]"
      "[Add 3 True, Add 1 False, AddMsg [2, 1], Remove 1 False, Clear, Add 2 False]"]
  by (auto simp: known_event_def spec_store_init_def Let_def add_mset_commute)

end
