(* ===== verification/Pid.thy ===== *)
theory Pid
  imports Prelude "HOL-Library.Monad_Syntax"
begin

text \<open>
  \<open>common/pid.py\<close> with the interpolation of its gains, and the limits of
  \<open>selfdrive/controls/lib/drive_helpers.py\<close>.  The lemmas bound the output by the limits and show the
  integrator does not wind up past them.
\<close>

section \<open>\<open>numpy.interp\<close>\<close>

text \<open>Piecewise linear interpolation over increasing sample points, constant outside; \<open>ValueError\<close>
  on no sample points or on lists of different length.\<close>

fun interp_from :: "real \<Rightarrow> real list \<Rightarrow> real list \<Rightarrow> real" where
  "interp_from x (a # b # xs) (c # d # ys) =
     (if x < b then c + (d - c) / (b - a) * (x - a) else interp_from x (b # xs) (d # ys))"
| "interp_from x _ (c # _) = c"
| "interp_from x _ [] = 0"

definition np_interp :: "real \<Rightarrow> real list \<Rightarrow> real list \<Rightarrow> real option" where
  "np_interp x xp fp =
     (if xp = [] \<or> length xp \<noteq> length fp then None
      else Some (if x \<le> hd xp then hd fp else interp_from x xp fp))"

lemma interp_segment:
  fixes a b c d x :: real
  assumes "a \<le> x" "x < b"
  shows "min c d \<le> c + (d - c) / (b - a) * (x - a) \<and> c + (d - c) / (b - a) * (x - a) \<le> max c d"
proof -
  define t where "t = (x - a) / (b - a)"
  have t: "0 \<le> t" "t \<le> 1" using assms by (simp_all add: t_def)
  have "c + (d - c) / (b - a) * (x - a) = (1 - t) * c + t * d"
    by (simp add: t_def algebra_simps diff_divide_distrib)
  moreover have "(1 - t) * min c d + t * min c d \<le> (1 - t) * c + t * d"
    using t by (intro add_mono mult_left_mono) simp_all
  moreover have "(1 - t) * c + t * d \<le> (1 - t) * max c d + t * max c d"
    using t by (intro add_mono mult_left_mono) simp_all
  ultimately show ?thesis by (simp add: algebra_simps)
qed

lemma interp_from_bounds:
  assumes "length xs = length ys" "ys \<noteq> []" "hd xs \<le> x" "\<forall>y\<in>set ys. lo \<le> y \<and> y \<le> hi"
  shows "lo \<le> interp_from x xs ys \<and> interp_from x xs ys \<le> hi"
  using assms
proof (induction x xs ys rule: interp_from.induct)
  case (1 x a b xs c d ys)
  show ?case
  proof (cases "x < b")
    case True
    with 1(2-) interp_segment [of a x b c d] show ?thesis by auto
  next
    case False
    with 1 show ?thesis by simp
  qed
qed auto

lemma np_interp_bounds:
  assumes "np_interp x xp fp = Some y" "\<forall>z\<in>set fp. lo \<le> z \<and> z \<le> hi"
  shows "lo \<le> y \<and> y \<le> hi"
proof -
  have l: "length xp = length fp" "fp \<noteq> []" using assms(1) by (auto simp: np_interp_def split: if_splits)
  have "lo \<le> hd fp \<and> hd fp \<le> hi" using l(2) assms(2) by simp
  with assms(1) interp_from_bounds [OF l _ assms(2), of x] show ?thesis
    by (auto simp: np_interp_def split: if_splits)
qed

lemma np_interp_defined: "xp \<noteq> [] \<Longrightarrow> length xp = length fp \<Longrightarrow> np_interp x xp fp \<noteq> None"
  by (simp add: np_interp_def)

section \<open>\<open>PIDController\<close>\<close>

type_synonym gain = "real list \<times> real list"

definition const_gain :: "real \<Rightarrow> gain" where
  "const_gain k = ([0], [k])"

record pid =
  pid_k_p :: gain
  pid_k_i :: gain
  pid_k_d :: gain
  pid_pos_limit :: real
  pid_neg_limit :: real
  pid_i_dt :: real
  pid_speed :: real
  pid_p :: real
  pid_i :: real
  pid_d :: real
  pid_f :: real
  pid_control :: real

definition pid_init :: "gain \<Rightarrow> gain \<Rightarrow> gain \<Rightarrow> real \<Rightarrow> real \<Rightarrow> real \<Rightarrow> pid" where
  "pid_init k_p k_i k_d pos_limit neg_limit rate =
     \<lparr> pid_k_p = k_p, pid_k_i = k_i, pid_k_d = k_d, pid_pos_limit = pos_limit, pid_neg_limit = neg_limit,
       pid_i_dt = 1 / rate, pid_speed = 0, pid_p = 0, pid_i = 0, pid_d = 0, pid_f = 0, pid_control = 0 \<rparr>"

definition pid_reset :: "pid \<Rightarrow> pid" where
  "pid_reset c = c\<lparr>pid_p := 0, pid_i := 0, pid_d := 0, pid_f := 0, pid_control := 0\<rparr>"

definition set_limits :: "real \<Rightarrow> real \<Rightarrow> pid \<Rightarrow> pid" where
  "set_limits pos_limit neg_limit c = c\<lparr>pid_pos_limit := pos_limit, pid_neg_limit := neg_limit\<rparr>"

definition gain_at :: "gain \<Rightarrow> real \<Rightarrow> real option" where
  "gain_at g speed = np_interp speed (fst g) (snd g)"

text \<open>The integrator, with \<open>test_control\<close> deciding which way it may still move.\<close>

definition integrate :: "real \<Rightarrow> pid \<Rightarrow> pid option" where
  "integrate error c =
     do { k_i \<leftarrow> gain_at (pid_k_i c) (pid_speed c);
          let i = pid_i c + k_i * pid_i_dt c * error;
          let test_control = pid_p c + i + pid_d c + pid_f c;
          let i_upperbound = (if pid_pos_limit c < test_control then pid_i c else pid_pos_limit c);
          let i_lowerbound = (if test_control < pid_neg_limit c then pid_i c else pid_neg_limit c);
          Some (c\<lparr>pid_i := np_clip i i_lowerbound i_upperbound\<rparr>) }"

definition pid_update :: "real \<Rightarrow> real \<Rightarrow> real \<Rightarrow> real \<Rightarrow> bool \<Rightarrow> pid \<Rightarrow> pid option" where
  "pid_update error error_rate speed feedforward freeze_integrator c =
     do { let c = c\<lparr>pid_speed := speed\<rparr>;
          k_p \<leftarrow> gain_at (pid_k_p c) speed;
          k_d \<leftarrow> gain_at (pid_k_d c) speed;
          let c = c\<lparr>pid_p := k_p * error, pid_d := k_d * error_rate, pid_f := feedforward\<rparr>;
          c \<leftarrow> (if \<not> freeze_integrator then integrate error c else Some c);
          let control = pid_p c + pid_i c + pid_d c + pid_f c;
          Some (c\<lparr>pid_control := np_clip control (pid_neg_limit c) (pid_pos_limit c)\<rparr>) }"

section \<open>Bounds\<close>

definition gain_wf :: "gain \<Rightarrow> bool" where
  "gain_wf g \<longleftrightarrow> fst g \<noteq> [] \<and> length (fst g) = length (snd g)"

definition pid_wf :: "pid \<Rightarrow> bool" where
  "pid_wf c \<longleftrightarrow> gain_wf (pid_k_p c) \<and> gain_wf (pid_k_i c) \<and> gain_wf (pid_k_d c)"

lemma const_gain_wf [simp]: "gain_wf (const_gain k)"
  by (simp add: gain_wf_def const_gain_def)

lemma gain_at_wf: "gain_wf g \<Longrightarrow> \<exists>k. gain_at g v = Some k"
  using np_interp_defined [of "fst g" "snd g" v] by (auto simp: gain_wf_def gain_at_def)

lemma pid_reset_fields [frame_simps]:
  "pid_wf (pid_reset c) = pid_wf c" "pid_neg_limit (pid_reset c) = pid_neg_limit c"
  "pid_pos_limit (pid_reset c) = pid_pos_limit c"
  "pid_p (pid_reset c) = 0" "pid_i (pid_reset c) = 0" "pid_f (pid_reset c) = 0"
  by (simp_all add: pid_reset_def pid_wf_def)

lemma set_limits_fields [frame_simps]:
  "pid_wf (set_limits pos neg c) = pid_wf c" "pid_pos_limit (set_limits pos neg c) = pos"
  "pid_neg_limit (set_limits pos neg c) = neg" "pid_i (set_limits pos neg c) = pid_i c"
  by (simp_all add: set_limits_def pid_wf_def)

lemma np_clip_between:
  "np_clip x lo hi \<in> {lo, hi, x}"
  by (auto simp: np_clip_def min_def max_def)

text \<open>What one update leaves: it does not raise, the limits and gains stay, the output is the clipped sum
  of the terms, and the integrator moved to a value between the limits or stayed.\<close>

lemma pid_update_ok:
  assumes "pid_wf c"
  shows "\<exists>c'. pid_update error er speed ff fr c = Some c' \<and> pid_wf c' \<and>
    pid_neg_limit c' = pid_neg_limit c \<and> pid_pos_limit c' = pid_pos_limit c \<and> pid_i_dt c' = pid_i_dt c \<and>
    pid_control c' = np_clip (pid_p c' + pid_i c' + pid_d c' + pid_f c') (pid_neg_limit c) (pid_pos_limit c) \<and>
    pid_f c' = ff \<and> (fr \<longrightarrow> pid_i c' = pid_i c)"
proof -
  obtain kp ki kd where k: "gain_at (pid_k_p c) speed = Some kp" "gain_at (pid_k_i c) speed = Some ki"
    "gain_at (pid_k_d c) speed = Some kd"
    using gain_at_wf assms unfolding pid_wf_def by meson
  show ?thesis
    using assms by (cases fr) (simp_all add: pid_update_def integrate_def k Let_def pid_wf_def)
qed

lemma pid_control_bounds:
  assumes "pid_update error er speed ff fr c = Some c'" "pid_wf c" "pid_neg_limit c \<le> pid_pos_limit c"
  shows "pid_neg_limit c \<le> pid_control c' \<and> pid_control c' \<le> pid_pos_limit c"
  using assms(1) pid_update_ok [OF assms(2), of error er speed ff fr] np_clip_lower [OF assms(3)] np_clip_upper
  by (metis option.inject)

text \<open>No windup: within its limits the integrator stays within them.\<close>

lemma integrate_bounds:
  assumes "integrate e c = Some c'" "pid_neg_limit c \<le> pid_i c" "pid_i c \<le> pid_pos_limit c"
  shows "pid_neg_limit c \<le> pid_i c' \<and> pid_i c' \<le> pid_pos_limit c"
proof -
  obtain i lo hi where "pid_i c' = np_clip i lo hi" "lo = pid_i c \<or> lo = pid_neg_limit c" "hi = pid_i c \<or> hi = pid_pos_limit c"
    using assms(1) by (auto simp: integrate_def Let_def bind_eq_Some_conv split: if_splits)
  with assms(2,3) show ?thesis by (auto simp: np_clip_def min_def max_def)
qed

lemma pid_integrator_bounds:
  assumes "pid_update error er speed ff fr c = Some c'" "pid_neg_limit c \<le> pid_i c" "pid_i c \<le> pid_pos_limit c"
  shows "pid_neg_limit c \<le> pid_i c' \<and> pid_i c' \<le> pid_pos_limit c"
  using assms by (auto simp: pid_update_def Let_def bind_eq_Some_conv split: if_splits dest!: integrate_bounds)

section \<open>\<open>drive_helpers.py\<close>\<close>

definition CTRL_MIN_SPEED :: real where "CTRL_MIN_SPEED = 1"
definition MAX_CURVATURE :: real where "MAX_CURVATURE = 2 / 10"
definition MIN_STABLE_DELAY :: real where "MIN_STABLE_DELAY = 3 / 10"
definition MAX_LATERAL_JERK :: real where "MAX_LATERAL_JERK = 5"
definition MAX_LATERAL_ACCEL_NO_ROLL :: real where "MAX_LATERAL_ACCEL_NO_ROLL = 3"
definition ACCELERATION_DUE_TO_GRAVITY :: real where "ACCELERATION_DUE_TO_GRAVITY = 981 / 100"

definition should_stop :: "real \<Rightarrow> real \<Rightarrow> bool" where
  "should_stop v_ego a_target \<longleftrightarrow> v_ego < 3 / 10 \<and> a_target < 1 / 10"

definition clamp :: "real \<Rightarrow> real \<Rightarrow> real \<Rightarrow> real \<times> bool" where
  "clamp val min_val max_val =
     (let clamped_val = np_clip val min_val max_val in (clamped_val, clamped_val \<noteq> val))"

definition clip_curvature :: "real \<Rightarrow> real \<Rightarrow> real \<Rightarrow> real \<Rightarrow> real \<times> bool" where
  "clip_curvature v_ego prev_curvature new_curvature roll =
     (let v_ego = max v_ego CTRL_MIN_SPEED;
          max_curvature_rate = MAX_LATERAL_JERK / v_ego ^ 2;
          new_curvature = np_clip new_curvature (prev_curvature - max_curvature_rate * DT_CTRL)
                            (prev_curvature + max_curvature_rate * DT_CTRL);
          roll_compensation = roll * ACCELERATION_DUE_TO_GRAVITY;
          max_lat_accel = MAX_LATERAL_ACCEL_NO_ROLL + roll_compensation;
          min_lat_accel = - MAX_LATERAL_ACCEL_NO_ROLL + roll_compensation;
          (new_curvature, limited_accel) = clamp new_curvature (min_lat_accel / v_ego ^ 2) (max_lat_accel / v_ego ^ 2);
          (new_curvature, limited_max_curv) = clamp new_curvature (- MAX_CURVATURE) MAX_CURVATURE
      in (new_curvature, limited_accel \<or> limited_max_curv))"

definition get_accel_from_plan :: "real list \<Rightarrow> real list \<Rightarrow> real list \<Rightarrow> real \<Rightarrow> real option" where
  "get_accel_from_plan speeds accels t_idxs action_t =
     (if length speeds = length t_idxs then
        (case (speeds, accels) of
           (v_now # _, a_now # _) \<Rightarrow>
             do { v_target \<leftarrow> (if action_t < MIN_STABLE_DELAY
                    then do { v \<leftarrow> np_interp MIN_STABLE_DELAY t_idxs speeds;
                              Some (v_now + action_t / MIN_STABLE_DELAY * (v - v_now)) }
                    else np_interp action_t t_idxs speeds);
                  Some (2 * (v_target - v_now) / action_t - a_now) }
         | _ \<Rightarrow> None)
      else Some 0)"

subsection \<open>The curvature command\<close>

lemma np_clip_commutes_bounds:
  fixes x :: real
  assumes "lo \<le> np_clip x a b" "np_clip x a b \<le> hi" "l2 \<le> h2" "lo \<le> h2" "l2 \<le> hi"
  shows "lo \<le> np_clip (np_clip x a b) l2 h2 \<and> np_clip (np_clip x a b) l2 h2 \<le> hi"
  using assms by (auto simp: np_clip_def min_def max_def)

lemma np_clip_abs: "0 \<le> m \<Longrightarrow> \<bar>np_clip x (- m) m\<bar> \<le> (m :: real)"
  by (simp add: np_clip_def abs_le_iff min_def max_def)

lemma clip_curvature_max: "\<bar>fst (clip_curvature v prev new roll)\<bar> \<le> MAX_CURVATURE"
proof -
  have "0 \<le> MAX_CURVATURE" by (simp add: MAX_CURVATURE_def)
  then show ?thesis by (simp add: clip_curvature_def clamp_def Let_def np_clip_abs)
qed

text \<open>With a roll of at most 3 over g, the lateral acceleration of the command is within 3 of the roll's.\<close>

lemma clip_curvature_accel:
  fixes v :: real
  assumes "\<bar>roll * ACCELERATION_DUE_TO_GRAVITY\<bar> \<le> MAX_LATERAL_ACCEL_NO_ROLL"
  shows "\<bar>fst (clip_curvature v prev new roll) * (max v CTRL_MIN_SPEED)\<^sup>2 - roll * ACCELERATION_DUE_TO_GRAVITY\<bar>
           \<le> MAX_LATERAL_ACCEL_NO_ROLL"
proof -
  define w where "w = (max v CTRL_MIN_SPEED)\<^sup>2"
  define rc where "rc = roll * ACCELERATION_DUE_TO_GRAVITY"
  define a where "a = (- MAX_LATERAL_ACCEL_NO_ROLL + rc) / w"
  define b where "b = (MAX_LATERAL_ACCEL_NO_ROLL + rc) / w"
  have w: "0 < w" by (simp add: w_def CTRL_MIN_SPEED_def max_def)
  have rc: "- MAX_LATERAL_ACCEL_NO_ROLL \<le> rc" "rc \<le> MAX_LATERAL_ACCEL_NO_ROLL"
    using assms by (simp_all add: rc_def abs_le_iff)
  have ab: "a \<le> 0" "0 \<le> b" using w rc by (simp_all add: a_def b_def divide_le_0_iff)
  obtain y where y: "fst (clip_curvature v prev new roll) = np_clip (np_clip y a b) (- MAX_CURVATURE) MAX_CURVATURE"
    unfolding a_def b_def w_def rc_def by (simp add: clip_curvature_def clamp_def Let_def)
  have "a \<le> np_clip (np_clip y a b) (- MAX_CURVATURE) MAX_CURVATURE \<and>
        np_clip (np_clip y a b) (- MAX_CURVATURE) MAX_CURVATURE \<le> b"
    using ab by (intro np_clip_commutes_bounds) (simp_all add: np_clip_upper np_clip_lower MAX_CURVATURE_def)
  then have "a * w \<le> fst (clip_curvature v prev new roll) * w" "fst (clip_curvature v prev new roll) * w \<le> b * w"
    using w unfolding y by (simp_all add: mult_right_mono)
  moreover have "a * w = - MAX_LATERAL_ACCEL_NO_ROLL + rc" "b * w = MAX_LATERAL_ACCEL_NO_ROLL + rc"
    using w by (simp_all add: a_def b_def)
  ultimately show ?thesis unfolding w_def [symmetric] rc_def [symmetric] by (simp add: abs_le_iff)
qed

text \<open>From a command within the limits of the frame, it moves by at most the jerk limit.\<close>

lemma clip_curvature_rate:
  fixes v :: real
  assumes "\<bar>prev\<bar> \<le> MAX_CURVATURE"
    and "\<bar>prev * (max v CTRL_MIN_SPEED)\<^sup>2 - roll * ACCELERATION_DUE_TO_GRAVITY\<bar> \<le> MAX_LATERAL_ACCEL_NO_ROLL"
  shows "\<bar>fst (clip_curvature v prev new roll) - prev\<bar> \<le> MAX_LATERAL_JERK / (max v CTRL_MIN_SPEED)\<^sup>2 * DT_CTRL"
proof -
  define w where "w = (max v CTRL_MIN_SPEED)\<^sup>2"
  define rc where "rc = roll * ACCELERATION_DUE_TO_GRAVITY"
  define a where "a = (- MAX_LATERAL_ACCEL_NO_ROLL + rc) / w"
  define b where "b = (MAX_LATERAL_ACCEL_NO_ROLL + rc) / w"
  define r where "r = MAX_LATERAL_JERK / w * DT_CTRL"
  have w: "0 < w" by (simp add: w_def CTRL_MIN_SPEED_def max_def)
  have r: "0 \<le> r" using w by (simp add: r_def MAX_LATERAL_JERK_def DT_CTRL_def)
  have ab: "a \<le> prev" "prev \<le> b"
    using assms(2) w unfolding w_def [symmetric] rc_def [symmetric]
    by (simp_all add: a_def b_def abs_le_iff divide_le_eq le_divide_eq)
  define y where "y = np_clip new (prev - r) (prev + r)"
  have y: "fst (clip_curvature v prev new roll) = np_clip (np_clip y a b) (- MAX_CURVATURE) MAX_CURVATURE"
    unfolding a_def b_def w_def rc_def y_def r_def by (simp add: clip_curvature_def clamp_def Let_def)
  have "prev - r \<le> y" "y \<le> prev + r" using r by (simp_all add: y_def np_clip_upper np_clip_lower)
  then have "\<bar>np_clip y a b - prev\<bar> \<le> r" using ab by (auto simp: np_clip_def min_def max_def abs_le_iff)
  then have "\<bar>np_clip (np_clip y a b) (- MAX_CURVATURE) MAX_CURVATURE - prev\<bar> \<le> r"
    using assms(1) by (auto simp: np_clip_def [of _ "- MAX_CURVATURE"] min_def max_def abs_le_iff)
  then show ?thesis unfolding y r_def w_def .
qed

end
