(* ===== verification/LongControl.thy ===== *)
theory LongControl
  imports Pid Messages
begin

text \<open>
  \<open>selfdrive/controls/lib/longcontrol.py\<close>: the state machine of the acceleration controller and its
  PID loop.  The limits of a frame come from the car interface (opendbc).
\<close>

section \<open>The controller\<close>

definition long_control_state_trans ::
  "car_params_sp \<Rightarrow> bool \<Rightarrow> long_ctrl_state \<Rightarrow> bool \<Rightarrow> bool \<Rightarrow> bool \<Rightarrow> long_ctrl_state" where
  "long_control_state_trans CP_SP active st stop brake_pressed cruise_standstill =
     (let cruise_standstill = (cruise_standstill \<and> \<not> cpsp_enableGasInterceptor CP_SP);
          starting_condition = (\<not> stop \<and> \<not> cruise_standstill \<and> \<not> brake_pressed)
      in if \<not> active then LC_off
         else (case st of
             LC_off \<Rightarrow> (if \<not> starting_condition then LC_stopping else LC_pid)
           | LC_stopping \<Rightarrow> (if starting_condition then LC_pid else st)
           | LC_pid \<Rightarrow> (if stop then LC_stopping else st)
           | LC_other _ \<Rightarrow> st))"

record long_control =
  loc_state :: long_ctrl_state
  loc_pid :: pid
  loc_last_output_accel :: real

definition long_control_init :: "car_params \<Rightarrow> long_control" where
  "long_control_init CP =
     \<lparr> loc_state = LC_off,
       loc_pid = pid_init (const_gain 0) (cp_kiBP CP, cp_kiV CP) (const_gain 0) (10 ^ 308) (- (10 ^ 308)) (1 / DT_CTRL),
       loc_last_output_accel = 0 \<rparr>"

definition long_control_reset :: "long_control \<Rightarrow> long_control" where
  "long_control_reset lc = lc\<lparr>loc_pid := pid_reset (loc_pid lc)\<rparr>"

text \<open>The deceleration towards \<open>stopAccel\<close> while stopping.\<close>

definition stop_accel :: "car_params \<Rightarrow> real \<Rightarrow> real" where
  "stop_accel CP output_accel =
     (if cp_stopAccel CP < output_accel then min output_accel 0 - 1 * DT_CTRL else output_accel)"

definition long_control_update ::
  "car_params \<Rightarrow> car_params_sp \<Rightarrow> bool \<Rightarrow> car_state \<Rightarrow> real \<Rightarrow> bool \<Rightarrow> real \<times> real \<Rightarrow> long_control \<Rightarrow> long_control option" where
  "long_control_update CP CP_SP active CS a_target stop accel_limits lc =
     do { let lc = lc\<lparr>loc_pid := set_limits (snd accel_limits) (fst accel_limits) (loc_pid lc)\<rparr>;
          let lc = lc\<lparr>loc_state := long_control_state_trans CP_SP active (loc_state lc) stop (cs_brakePressed CS)
                                     (cr_standstill (cs_cruiseState CS))\<rparr>;
          (output_accel, lc) \<leftarrow>
            (if loc_state lc = LC_off then Some (0, long_control_reset lc)
             else if loc_state lc = LC_stopping then
               Some (stop_accel CP (loc_last_output_accel lc), long_control_reset lc)
             else do { c \<leftarrow> pid_update (a_target - cs_aEgo CS) 0 (cs_vEgo CS) a_target False (loc_pid lc);
                       Some (pid_control c, lc\<lparr>loc_pid := c\<rparr>) });
          Some (lc\<lparr>loc_last_output_accel := np_clip output_accel (fst accel_limits) (snd accel_limits)\<rparr>) }"

section \<open>Lemmas\<close>

lemma long_control_trans_off [simp]: "long_control_state_trans CP_SP False st stop b cs = LC_off"
  by (simp add: long_control_state_trans_def)

lemma long_control_trans_active:
  "st \<noteq> LC_off \<Longrightarrow> long_control_state_trans CP_SP True st stop b cs \<noteq> LC_off"
  by (cases st) (simp_all add: long_control_state_trans_def Let_def)

lemma stop_keeps_stopping:
  "st = LC_stopping \<or> st = LC_pid \<or> st = LC_off \<Longrightarrow> long_control_state_trans CP_SP True st True b cs = LC_stopping"
  by (auto simp: long_control_state_trans_def Let_def)

lemma long_control_init_wf: "gain_wf (cp_kiBP CP, cp_kiV CP) \<Longrightarrow> pid_wf (loc_pid (long_control_init CP))"
  by (simp add: long_control_init_def pid_init_def pid_wf_def)

text \<open>What an update leaves.\<close>

lemma long_control_update_ok:
  assumes "pid_wf (loc_pid lc)"
  shows "\<exists>lc'. long_control_update CP CP_SP active CS a stop lims lc = Some lc' \<and> pid_wf (loc_pid lc') \<and>
    loc_state lc' = long_control_state_trans CP_SP active (loc_state lc) stop (cs_brakePressed CS) (cr_standstill (cs_cruiseState CS)) \<and>
    (\<exists>out. loc_last_output_accel lc' = np_clip out (fst lims) (snd lims) \<and>
       (loc_state lc' = LC_off \<longrightarrow> out = 0) \<and>
       (loc_state lc' = LC_stopping \<longrightarrow> out = stop_accel CP (loc_last_output_accel lc))) \<and>
    (loc_state lc' \<in> {LC_off, LC_stopping} \<longrightarrow>
       pid_p (loc_pid lc') = 0 \<and> pid_i (loc_pid lc') = 0 \<and> pid_f (loc_pid lc') = 0)"
proof -
  let ?q = "long_control_state_trans CP_SP active (loc_state lc) stop (cs_brakePressed CS) (cr_standstill (cs_cruiseState CS))"
  let ?pid = "set_limits (snd lims) (fst lims) (loc_pid lc)"
  have wf: "pid_wf ?pid" using assms by (simp add: frame_simps)
  from pid_update_ok [OF this] obtain c where
    c: "pid_update (a - cs_aEgo CS) 0 (cs_vEgo CS) a False ?pid = Some c" "pid_wf c" by metis
  show ?thesis
    using wf c by (cases "?q = LC_off"; cases "?q = LC_stopping")
      (auto simp: long_control_update_def Let_def long_control_reset_def frame_simps)
qed

lemma long_control_bounds:
  assumes "long_control_update CP CP_SP active CS a stop lims lc = Some lc'" "fst lims \<le> snd lims"
  shows "fst lims \<le> loc_last_output_accel lc' \<and> loc_last_output_accel lc' \<le> snd lims"
  using assms by (auto simp: long_control_update_def Let_def bind_eq_Some_conv np_clip_upper np_clip_lower)

text \<open>Stopping: the acceleration falls by 0.01 a frame until it has passed \<open>stopAccel\<close>.\<close>

lemma stop_accel_bound:
  assumes "a \<le> max s (- k)" "0 \<le> k" "s = cp_stopAccel CP"
  shows "stop_accel CP a \<le> max s (- (k + DT_CTRL))"
  using assms by (auto simp: stop_accel_def DT_CTRL_def max_def min_def split: if_splits)

lemma stop_accel_low:
  assumes "s - DT_CTRL \<le> a" "s = cp_stopAccel CP" "s \<le> 0"
  shows "s - DT_CTRL \<le> stop_accel CP a"
  using assms by (auto simp: stop_accel_def DT_CTRL_def min_def)

end
