(* ===== verification/LatControl.thy ===== *)
theory LatControl
  imports Pid Messages
begin

text \<open>
  The steering controllers of \<open>selfdrive/controls/lib\<close>: the saturation check of
  \<open>latcontrol.py\<close>, and the angle, curvature and PID controllers.  The vehicle model and the
  feed-forward are opendbc's and are function arguments.  The torque controllers are in theory
  \<open>LatTorque\<close>.
\<close>

section \<open>\<open>LatControl\<close>\<close>

record lat_sat =
  ls_dt :: real
  ls_sat_limit :: real
  ls_sat_time :: real
  ls_sat_check_min_speed :: real

definition STEER_MAX :: real where "STEER_MAX = 1"

definition lat_sat_init :: "car_params \<Rightarrow> real \<Rightarrow> lat_sat" where
  "lat_sat_init CP dt = \<lparr> ls_dt = dt, ls_sat_limit = cp_steerLimitTimer CP, ls_sat_time = 0, ls_sat_check_min_speed = 10 \<rparr>"

definition lat_sat_reset :: "lat_sat \<Rightarrow> lat_sat" where
  "lat_sat_reset s = s\<lparr>ls_sat_time := 0\<rparr>"

definition check_saturation :: "bool \<Rightarrow> car_state \<Rightarrow> bool \<Rightarrow> bool \<Rightarrow> lat_sat \<Rightarrow> bool \<times> lat_sat" where
  "check_saturation saturated CS steer_limited_by_safety curvature_limited s =
     (let t = (if (saturated \<or> curvature_limited) \<and> ls_sat_check_min_speed s < cs_vEgo CS \<and>
                  \<not> steer_limited_by_safety \<and> \<not> cs_steeringPressed CS
               then ls_sat_time s + ls_dt s else ls_sat_time s - ls_dt s);
          s = s\<lparr>ls_sat_time := np_clip t 0 (ls_sat_limit s)\<rparr>
      in (ls_sat_limit s - 1 / 1000 < ls_sat_time s, s))"

text \<open>What a controller returns: the torque, the angle or curvature, and the two log flags.\<close>

record lac_output =
  lo_torque :: real
  lo_output :: real
  lo_active :: bool
  lo_saturated :: bool

definition radians :: "real \<Rightarrow> real" where "radians x = x * (pi / 180)"
definition degrees :: "real \<Rightarrow> real" where "degrees x = x * (180 / pi)"

text \<open>The vehicle model with the stiffness and steer ratio of the frame: angle, speed and roll to
  curvature, and curvature, speed and roll to angle.\<close>

record vehicle_model =
  vm_calc_curvature :: "real \<Rightarrow> real \<Rightarrow> real \<Rightarrow> real"
  vm_get_steer_from_curvature :: "real \<Rightarrow> real \<Rightarrow> real \<Rightarrow> real"

section \<open>\<open>LatControlAngle\<close>\<close>

definition STEER_ANGLE_SATURATION_THRESHOLD :: real where "STEER_ANGLE_SATURATION_THRESHOLD = 25 / 10"

record lat_angle =
  lan_sat :: lat_sat
  lan_use_steer_limited_by_safety :: bool

definition lat_angle_init :: "car_params \<Rightarrow> real \<Rightarrow> lat_angle" where
  "lat_angle_init CP dt =
     \<lparr> lan_sat = (lat_sat_init CP dt)\<lparr>ls_sat_check_min_speed := 5\<rparr>,
       lan_use_steer_limited_by_safety = (cp_brand CP \<in> {''tesla'', ''hyundai''}) \<rparr>"

definition lat_angle_update ::
  "bool \<Rightarrow> car_state \<Rightarrow> vehicle_model \<Rightarrow> vehicle_parameters \<Rightarrow> bool \<Rightarrow> real \<Rightarrow> bool \<Rightarrow> lat_angle \<Rightarrow> lac_output \<times> lat_angle" where
  "lat_angle_update active CS VM params steer_limited_by_safety desired_curvature curvature_limited la =
     (let angle_steers_des =
            (if \<not> active then cs_steeringAngleDeg CS
             else degrees (vm_get_steer_from_curvature VM (- desired_curvature) (cs_vEgo CS) (vp_roll params)) +
                  vp_angleOffsetDeg params);
          angle_control_saturated =
            (if lan_use_steer_limited_by_safety la then steer_limited_by_safety
             else STEER_ANGLE_SATURATION_THRESHOLD < \<bar>angle_steers_des - cs_steeringAngleDeg CS\<bar>);
          (saturated, s) = check_saturation angle_control_saturated CS False curvature_limited (lan_sat la)
      in (\<lparr> lo_torque = 0, lo_output = angle_steers_des, lo_active = active, lo_saturated = saturated \<rparr>,
          la\<lparr>lan_sat := s\<rparr>))"

section \<open>\<open>LatControlCurvature\<close>\<close>

definition CURVATURE_SATURATION_THRESHOLD :: real where "CURVATURE_SATURATION_THRESHOLD = 1 / 1000"

record lat_curvature =
  lcv_sat :: lat_sat
  lcv_pid :: "pid option"
  lcv_kf :: real

definition lat_curvature_init :: "car_params \<Rightarrow> real \<Rightarrow> lat_curvature" where
  "lat_curvature_init CP dt =
     (let s = (lat_sat_init CP dt)\<lparr>ls_sat_check_min_speed := 5\<rparr>
      in (case cp_lateralTuning CP of
            Tuning_pid kp ki kf \<Rightarrow>
              \<lparr> lcv_sat = s, lcv_pid = Some (pid_init kp ki (const_gain 0) MAX_CURVATURE (- MAX_CURVATURE) (1 / dt)), lcv_kf = kf \<rparr>
          | Tuning_torque _ \<Rightarrow> \<lparr> lcv_sat = s, lcv_pid = None, lcv_kf = 1 \<rparr>))"

definition lat_curvature_reset :: "lat_curvature \<Rightarrow> lat_curvature" where
  "lat_curvature_reset lc = lc\<lparr>lcv_sat := lat_sat_reset (lcv_sat lc), lcv_pid := map_option pid_reset (lcv_pid lc)\<rparr>"

definition lat_curvature_update ::
  "bool \<Rightarrow> car_state \<Rightarrow> vehicle_model \<Rightarrow> vehicle_parameters \<Rightarrow> real \<Rightarrow> bool \<Rightarrow> lat_curvature \<Rightarrow> (lac_output \<times> lat_curvature) option" where
  "lat_curvature_update active CS VM params desired_curvature curvature_limited lc =
     (let actual_curvature =
            - vm_calc_curvature VM (radians (cs_steeringAngleDeg CS - vp_angleOffsetDeg params)) (cs_vEgo CS) (vp_roll params);
          error = desired_curvature - actual_curvature
      in do { (output_curvature, c) \<leftarrow>
                (if \<not> active then Some (0, map_option pid_reset (lcv_pid lc))
                 else (case lcv_pid lc of
                     None \<Rightarrow> Some (lcv_kf lc * desired_curvature, None)
                   | Some c \<Rightarrow>
                       (if cs_steeringPressed CS then Some (lcv_kf lc * desired_curvature, Some (pid_reset c))
                        else do { c \<leftarrow> pid_update error 0 (cs_vEgo CS) (lcv_kf lc * desired_curvature) False c;
                                  Some (pid_control c, Some c) })));
              let (saturated, s) = check_saturation (CURVATURE_SATURATION_THRESHOLD < \<bar>error\<bar>) CS False curvature_limited (lcv_sat lc);
              Some (\<lparr> lo_torque = 0, lo_output = output_curvature, lo_active = active, lo_saturated = saturated \<rparr>,
                    lc\<lparr>lcv_sat := s, lcv_pid := c\<rparr>) })"

section \<open>\<open>LatControlPID\<close>\<close>

record lat_pid =
  lpd_sat :: lat_sat
  lpd_pid :: pid
  lpd_ff_factor :: real

definition lat_pid_init :: "car_params \<Rightarrow> real \<Rightarrow> gain \<Rightarrow> gain \<Rightarrow> real \<Rightarrow> lat_pid" where
  "lat_pid_init CP dt kp ki kf =
     \<lparr> lpd_sat = lat_sat_init CP dt, lpd_pid = pid_init kp ki (const_gain 0) STEER_MAX (- STEER_MAX) 100, lpd_ff_factor = kf \<rparr>"

definition lat_pid_update ::
  "(real \<Rightarrow> real \<Rightarrow> real) \<Rightarrow> bool \<Rightarrow> car_state \<Rightarrow> vehicle_model \<Rightarrow> vehicle_parameters \<Rightarrow> bool \<Rightarrow> real \<Rightarrow> bool \<Rightarrow> lat_pid
   \<Rightarrow> (lac_output \<times> lat_pid) option" where
  "lat_pid_update feedforward active CS VM params steer_limited_by_safety desired_curvature curvature_limited lp =
     (let angle_steers_des_no_offset =
            degrees (vm_get_steer_from_curvature VM (- desired_curvature) (cs_vEgo CS) (vp_roll params));
          angle_steers_des = angle_steers_des_no_offset + vp_angleOffsetDeg params;
          error = angle_steers_des - cs_steeringAngleDeg CS
      in if \<not> active then
           Some (\<lparr> lo_torque = 0, lo_output = angle_steers_des, lo_active = False, lo_saturated = False \<rparr>, lp)
         else
           do { let ff = lpd_ff_factor lp * feedforward angle_steers_des_no_offset (cs_vEgo CS);
                let freeze_integrator = (steer_limited_by_safety \<or> cs_steeringPressed CS \<or> cs_vEgo CS < 5);
                c \<leftarrow> pid_update error 0 (cs_vEgo CS) ff freeze_integrator (lpd_pid lp);
                let output_torque = pid_control c;
                let (saturated, s) = check_saturation (STEER_MAX - \<bar>output_torque\<bar> < 1 / 1000) CS steer_limited_by_safety
                                       curvature_limited (lpd_sat lp);
                Some (\<lparr> lo_torque = output_torque, lo_output = angle_steers_des, lo_active = True, lo_saturated = saturated \<rparr>,
                      lp\<lparr>lpd_sat := s, lpd_pid := c\<rparr>) })"

section \<open>Lemmas\<close>

text \<open>The saturation timer stays between 0 and its limit, and saturation takes the limit's time.\<close>

definition sat_inv :: "lat_sat \<Rightarrow> bool" where
  "sat_inv s \<longleftrightarrow> 0 \<le> ls_sat_time s \<and> ls_sat_time s \<le> ls_sat_limit s"

lemma check_saturation_inv:
  "0 \<le> ls_sat_limit s \<Longrightarrow> sat_inv (snd (check_saturation b CS l k s))"
  by (simp add: check_saturation_def Let_def sat_inv_def np_clip_upper np_clip_lower)

lemma check_saturation_fields [frame_simps]:
  "ls_sat_limit (snd (check_saturation b CS l k s)) = ls_sat_limit s"
  "ls_dt (snd (check_saturation b CS l k s)) = ls_dt s"
  by (simp_all add: check_saturation_def Let_def)

lemma lat_pid_update_ok:
  assumes "pid_wf (lpd_pid lp)" "pid_neg_limit (lpd_pid lp) = - 1" "pid_pos_limit (lpd_pid lp) = 1"
  shows "\<exists>out lp'. lat_pid_update ff active CS VM params l k cl lp = Some (out, lp') \<and> pid_wf (lpd_pid lp') \<and>
     pid_neg_limit (lpd_pid lp') = - 1 \<and> pid_pos_limit (lpd_pid lp') = 1 \<and> \<bar>lo_torque out\<bar> \<le> 1 \<and>
     (\<not> active \<longrightarrow> lo_torque out = 0) \<and> lo_active out = active"
proof (cases active)
  case True
  let ?e = "degrees (vm_get_steer_from_curvature VM (- k) (cs_vEgo CS) (vp_roll params)) + vp_angleOffsetDeg params - cs_steeringAngleDeg CS"
  let ?ff = "lpd_ff_factor lp * ff (degrees (vm_get_steer_from_curvature VM (- k) (cs_vEgo CS) (vp_roll params))) (cs_vEgo CS)"
  let ?fr = "l \<or> cs_steeringPressed CS \<or> cs_vEgo CS < 5"
  obtain c where c: "pid_update ?e 0 (cs_vEgo CS) ?ff ?fr (lpd_pid lp) = Some c" "pid_wf c"
    "pid_neg_limit c = - 1" "pid_pos_limit c = 1"
    using pid_update_ok [OF assms(1), of ?e 0 "cs_vEgo CS" ?ff ?fr] assms(2,3) by auto
  have "\<bar>pid_control c\<bar> \<le> 1"
    using pid_control_bounds [OF c(1) assms(1)] assms(2,3) by (simp add: abs_le_iff)
  then show ?thesis using True c
    by (simp add: lat_pid_update_def Let_def split: prod.split)
next
  case False
  then show ?thesis using assms by (simp add: lat_pid_update_def Let_def)
qed

lemma lat_curvature_update_ok:
  assumes "\<forall>c. lcv_pid lc = Some c \<longrightarrow> pid_wf c"
  shows "\<exists>out lc'. lat_curvature_update active CS VM params k cl lc = Some (out, lc') \<and>
     (\<forall>c. lcv_pid lc' = Some c \<longrightarrow> pid_wf c) \<and> lo_torque out = 0 \<and> (\<not> active \<longrightarrow> lo_output out = 0) \<and> lo_active out = active"
proof (cases "lcv_pid lc")
  case None
  then show ?thesis by (simp add: lat_curvature_update_def Let_def split: prod.split)
next
  case (Some c)
  let ?e = "k - (- vm_calc_curvature VM (radians (cs_steeringAngleDeg CS - vp_angleOffsetDeg params)) (cs_vEgo CS) (vp_roll params))"
  obtain c' where c': "pid_update ?e 0 (cs_vEgo CS) (lcv_kf lc * k) False c = Some c'" "pid_wf c'"
    using pid_update_ok [of c] Some assms by metis
  show ?thesis
    using Some assms c' by (cases active; cases "cs_steeringPressed CS")
      (simp_all add: lat_curvature_update_def Let_def frame_simps split: prod.split)
qed

lemma lat_angle_update_ok:
  "lo_torque (fst (lat_angle_update active CS VM params l k cl la)) = 0 \<and>
   lo_active (fst (lat_angle_update active CS VM params l k cl la)) = active \<and>
   (\<not> active \<longrightarrow> lo_output (fst (lat_angle_update active CS VM params l k cl la)) = cs_steeringAngleDeg CS)"
  by (simp add: lat_angle_update_def Let_def split: prod.split)

end
