(* ===== verification/Radard.thy ===== *)
theory Radard
  imports CarEvents Pid Messages "HOL-Library.AList"
begin

text \<open>
  \<open>selfdrive/controls/radard.py\<close> with the filters it uses, \<open>common/filter_simple.py\<close> and
  \<open>common/simple_kalman.py\<close>: the radar tracks, their Kalman filters, the match of the leads the model sees
  with the tracks, and the two leads that are published.  A Python dictionary is an association list in
  insertion order (\<open>AList.update\<close> keeps the place of a key); an exception is the result \<open>None\<close>.  A lead of the
  model is its first point: the lists of a lead are taken to be as long as the model makes them, and the
  \<open>IndexError\<close> on empty ones has no counterpart.
\<close>

section \<open>\<open>FirstOrderFilter\<close>\<close>

record first_order_filter =
  ff_x :: real
  ff_dt :: real
  ff_alpha :: real
  ff_initialized :: bool

definition update_alpha :: "real \<Rightarrow> first_order_filter \<Rightarrow> first_order_filter" where
  "update_alpha rc f = f\<lparr>ff_alpha := ff_dt f / (rc + ff_dt f)\<rparr>"

definition filter_init :: "real \<Rightarrow> real \<Rightarrow> real \<Rightarrow> bool \<Rightarrow> first_order_filter" where
  "filter_init x0 rc dt initialized =
     (update_alpha rc \<lparr> ff_x = x0, ff_dt = dt, ff_alpha = 0, ff_initialized = initialized \<rparr>)"

definition filter_update :: "real \<Rightarrow> first_order_filter \<Rightarrow> first_order_filter" where
  "filter_update x f =
     (if ff_initialized f then f\<lparr>ff_x := (1 - ff_alpha f) * ff_x f + ff_alpha f * x\<rparr>
      else f\<lparr>ff_initialized := True, ff_x := x\<rparr>)"

section \<open>\<open>KF1D\<close>\<close>

record kalman =
  kf_x0 :: real
  kf_x1 :: real
  kf_A_K_0 :: real
  kf_A_K_1 :: real
  kf_A_K_2 :: real
  kf_A_K_3 :: real
  kf_K0 :: real
  kf_K1 :: real

text \<open>The arguments are pairs: \<open>x0\<close>, the two rows of \<open>A\<close>, \<open>C\<close> and the gain \<open>K\<close>.\<close>

definition kf_init :: "real \<times> real \<Rightarrow> (real \<times> real) \<times> real \<times> real \<Rightarrow> real \<times> real \<Rightarrow> real \<times> real \<Rightarrow> kalman" where
  "kf_init x0 A C K =
     (let ((A0_0, A0_1), A1_0, A1_1) = A; (C0_0, C0_1) = C; (K0_0, K1_0) = K
      in \<lparr> kf_x0 = fst x0, kf_x1 = snd x0,
           kf_A_K_0 = A0_0 - K0_0 * C0_0, kf_A_K_1 = A0_1 - K0_0 * C0_1,
           kf_A_K_2 = A1_0 - K1_0 * C0_0, kf_A_K_3 = A1_1 - K1_0 * C0_1, kf_K0 = K0_0, kf_K1 = K1_0 \<rparr>)"

definition kf_update :: "real \<Rightarrow> kalman \<Rightarrow> kalman" where
  "kf_update meas k =
     k\<lparr>kf_x0 := kf_A_K_0 k * kf_x0 k + kf_A_K_1 k * kf_x1 k + kf_K0 k * meas,
       kf_x1 := kf_A_K_2 k * kf_x0 k + kf_A_K_3 k * kf_x1 k + kf_K1 k * meas\<rparr>"

section \<open>\<open>KalmanParams\<close>\<close>

definition LEAD_ACCEL_TAU :: real where "LEAD_ACCEL_TAU = 15 / 10"
definition V_EGO_STATIONARY :: real where "V_EGO_STATIONARY = 4"
definition RADAR_TO_CAMERA :: real where "RADAR_TO_CAMERA = 152 / 100"

record kalman_params =
  kp_A :: "(real \<times> real) \<times> real \<times> real"
  kp_C :: "real \<times> real"
  kp_K :: "real \<times> real"

text \<open>The table of gains, in units of 1e-8, for time steps of 0.01 to 0.2 s; the assertion bounds the step.\<close>

definition kalman_K0 :: "real list" where
  "kalman_K0 = map (\<lambda>n. n / 10 ^ 8)
     [12287673, 14556536, 16522756, 18281627, 19886890, 21372394, 22761098, 24069424, 25309600, 26491023,
      27621103, 28705801, 29750003, 30757767, 31732515, 32677158, 33594201, 34485814, 35353899, 36200124]"

definition kalman_K1 :: "real list" where
  "kalman_K1 = map (\<lambda>n. n / 10 ^ 8)
     [29666309, 29330885, 29042818, 28787125, 28555364, 28342219, 28144091, 27958406, 27783249, 27617149,
      27458948, 27307714, 27162685, 27023228, 26888809, 26758976, 26633338, 26511557, 26393339, 26278425]"

definition kalman_params_init :: "real \<Rightarrow> kalman_params option" where
  "kalman_params_init dt =
     (if \<not> (1 / 100 < dt \<and> dt < 2 / 10) then None
      else do { let dts = map (\<lambda>i. real i * (1 / 100)) [1..<21];
                k0 \<leftarrow> np_interp dt dts kalman_K0;
                k1 \<leftarrow> np_interp dt dts kalman_K1;
                Some \<lparr> kp_A = ((1, dt), 0, 1), kp_C = (1, 0), kp_K = (k0, k1) \<rparr> })"

section \<open>\<open>Track\<close>\<close>

record track =
  tr_identifier :: int
  tr_cnt :: int
  tr_aLeadTau :: first_order_filter
  tr_kf :: kalman
  tr_dRel :: real
  tr_yRel :: real
  tr_vRel :: real
  tr_vLead :: real
  tr_vLeadK :: real
  tr_aLeadK :: real

text \<open>The measurements have no value before the first update, which follows at once.\<close>

definition track_init :: "int \<Rightarrow> real \<Rightarrow> kalman_params \<Rightarrow> track" where
  "track_init identifier v_lead kp =
     \<lparr> tr_identifier = identifier, tr_cnt = 0, tr_aLeadTau = filter_init LEAD_ACCEL_TAU (45 / 100) DT_MDL True,
       tr_kf = kf_init (v_lead, 0) (kp_A kp) (kp_C kp) (kp_K kp),
       tr_dRel = 0, tr_yRel = 0, tr_vRel = 0, tr_vLead = 0, tr_vLeadK = 0, tr_aLeadK = 0 \<rparr>"

definition track_update :: "real \<Rightarrow> real \<Rightarrow> real \<Rightarrow> real \<Rightarrow> track \<Rightarrow> track" where
  "track_update d_rel y_rel v_rel v_lead t =
     (let t = t\<lparr>tr_dRel := d_rel, tr_yRel := y_rel, tr_vRel := v_rel, tr_vLead := v_lead\<rparr>;
          t = (if 0 < tr_cnt t then t\<lparr>tr_kf := kf_update v_lead (tr_kf t)\<rparr> else t);
          t = t\<lparr>tr_vLeadK := kf_x0 (tr_kf t), tr_aLeadK := kf_x1 (tr_kf t)\<rparr>;
          t = (if \<bar>tr_aLeadK t\<bar> < 5 / 10 then t\<lparr>tr_aLeadTau := (tr_aLeadTau t)\<lparr>ff_x := LEAD_ACCEL_TAU\<rparr>\<rparr>
               else t\<lparr>tr_aLeadTau := filter_update 0 (tr_aLeadTau t)\<rparr>)
      in t\<lparr>tr_cnt := tr_cnt t + 1\<rparr>)"

text \<open>\<open>RadarState.LeadData\<close>, with the defaults of the message for the fields that are not set.\<close>

record lead =
  le_present :: bool
  le_dRel :: real
  le_yRel :: real
  le_vRel :: real
  le_vLead :: real
  le_vLeadK :: real
  le_aLeadK :: real
  le_aLeadTau :: real
  le_modelProb :: real
  le_radar :: bool
  le_radarTrackId :: int

definition no_lead :: lead where
  "no_lead = \<lparr> le_present = False, le_dRel = 0, le_yRel = 0, le_vRel = 0, le_vLead = 0, le_vLeadK = 0, le_aLeadK = 0,
     le_aLeadTau = 0, le_modelProb = 0, le_radar = False, le_radarTrackId = -1 \<rparr>"

definition get_RadarState :: "real \<Rightarrow> track \<Rightarrow> lead" where
  "get_RadarState model_prob t =
     \<lparr> le_present = True, le_dRel = tr_dRel t, le_yRel = tr_yRel t, le_vRel = tr_vRel t, le_vLead = tr_vLead t,
       le_vLeadK = tr_vLeadK t, le_aLeadK = tr_aLeadK t, le_aLeadTau = ff_x (tr_aLeadTau t), le_modelProb = model_prob,
       le_radar = True, le_radarTrackId = tr_identifier t \<rparr>"

definition potential_low_speed_lead :: "real \<Rightarrow> track \<Rightarrow> bool" where
  "potential_low_speed_lead v_ego t \<longleftrightarrow>
     \<bar>tr_yRel t\<bar> < 1 \<and> v_ego < V_EGO_STATIONARY \<and> 75 / 100 < tr_dRel t \<and> tr_dRel t < 25"

section \<open>Leads\<close>

text \<open>A lead of the model: its probability and the first entry of each of its lists.\<close>

record model_lead =
  ml_prob :: real
  ml_x :: real
  ml_y :: real
  ml_v :: real
  ml_a :: real
  ml_xStd :: real
  ml_yStd :: real
  ml_vStd :: real

definition laplacian_pdf :: "real \<Rightarrow> real \<Rightarrow> real \<Rightarrow> real" where
  "laplacian_pdf x mu b = exp (- \<bar>x - mu\<bar> / max b (1 / 10000))"

text \<open>\<open>max\<close> and \<open>min\<close> with a key return the first extremal element.\<close>

definition max_by :: "('a \<Rightarrow> real) \<Rightarrow> 'a \<Rightarrow> 'a list \<Rightarrow> 'a" where
  "max_by key = foldl (\<lambda>b y. if key b < key y then y else b)"

definition min_by :: "('a \<Rightarrow> real) \<Rightarrow> 'a \<Rightarrow> 'a list \<Rightarrow> 'a" where
  "min_by key = foldl (\<lambda>b y. if key y < key b then y else b)"

definition match_prob :: "real \<Rightarrow> model_lead \<Rightarrow> track \<Rightarrow> real" where
  "match_prob v_ego ml c =
     laplacian_pdf (tr_dRel c) (ml_x ml - RADAR_TO_CAMERA) (ml_xStd ml) *
     laplacian_pdf (tr_yRel c) (- ml_y ml) (ml_yStd ml) *
     laplacian_pdf (tr_vRel c + v_ego) (ml_v ml) (ml_vStd ml)"

definition match_vision_to_track :: "real \<Rightarrow> model_lead \<Rightarrow> track list \<Rightarrow> track option" where
  "match_vision_to_track v_ego ml tracks =
     (let offset_vision_dist = ml_x ml - RADAR_TO_CAMERA;
          t = max_by (match_prob v_ego ml) (hd tracks) (tl tracks);
          dist_sane = (\<bar>tr_dRel t - offset_vision_dist\<bar> < max (offset_vision_dist * (25 / 100)) 5);
          vel_sane = (\<bar>tr_vRel t + v_ego - ml_v ml\<bar> < 10 \<or> 3 < v_ego + tr_vRel t)
      in if dist_sane \<and> vel_sane then Some t else None)"

definition get_RadarState_from_vision :: "model_lead \<Rightarrow> real \<Rightarrow> real \<Rightarrow> real \<Rightarrow> lead" where
  "get_RadarState_from_vision ml v_ego model_v_ego lead_prob =
     (let lead_v_rel_pred = ml_v ml - model_v_ego
      in \<lparr> le_present = True, le_dRel = ml_x ml - RADAR_TO_CAMERA, le_yRel = - ml_y ml, le_vRel = lead_v_rel_pred,
           le_vLead = v_ego + lead_v_rel_pred, le_vLeadK = v_ego + lead_v_rel_pred, le_aLeadK = ml_a ml,
           le_aLeadTau = 3 / 10, le_modelProb = lead_prob, le_radar = False, le_radarTrackId = -1 \<rparr>)"

text \<open>The flag constants of opendbc's Hyundai port, an argument of the definitions.\<close>

record hyundai_flags =
  hf_ENHANCED_SCC :: int
  hf_CANFD_CAMERA_SCC :: int
  hf_CAMERA_SCC :: int

definition get_custom_yrel :: "hyundai_flags \<Rightarrow> car_params \<Rightarrow> car_params_sp \<Rightarrow> lead \<Rightarrow> model_lead \<Rightarrow> lead" where
  "get_custom_yrel F CP CP_SP lead_dict ml =
     (if cp_brand CP = ''hyundai'' \<and>
         (and (cpsp_flags CP_SP) (hf_ENHANCED_SCC F) \<noteq> 0 \<or>
          and (cp_flags CP) (or (hf_CANFD_CAMERA_SCC F) (hf_CAMERA_SCC F)) \<noteq> 0)
      then lead_dict\<lparr>le_yRel := - ml_y ml\<rparr> else lead_dict)"

definition low_speed_lead :: "real \<Rightarrow> track list \<Rightarrow> lead \<Rightarrow> lead" where
  "low_speed_lead v_ego tracks lead_dict =
     (case filter (potential_low_speed_lead v_ego) tracks of
        [] \<Rightarrow> lead_dict
      | c # cs \<Rightarrow>
          (let closest_track = min_by tr_dRel c cs
           in if \<not> le_present lead_dict \<or> tr_dRel closest_track < le_dRel lead_dict
              then get_RadarState 0 closest_track else lead_dict))"

definition get_lead ::
  "hyundai_flags \<Rightarrow> real \<Rightarrow> bool \<Rightarrow> track list \<Rightarrow> model_lead \<Rightarrow> real \<Rightarrow> real \<Rightarrow> car_params \<Rightarrow> car_params_sp \<Rightarrow> bool \<Rightarrow> lead" where
  "get_lead F v_ego ready tracks ml model_v_ego lead_prob CP CP_SP low_speed_override =
     (let matched = (if tracks \<noteq> [] \<and> ready \<and> 5 / 10 < lead_prob then match_vision_to_track v_ego ml tracks else None);
          lead_dict = (case matched of
             Some t \<Rightarrow> get_custom_yrel F CP CP_SP (get_RadarState lead_prob t) ml
           | None \<Rightarrow> if ready \<and> 5 / 10 < lead_prob then get_RadarState_from_vision ml v_ego model_v_ego lead_prob else no_lead)
      in if low_speed_override then low_speed_lead v_ego tracks lead_dict else lead_dict)"

section \<open>\<open>RadarD\<close>\<close>

record radar_point =
  rp_trackId :: int
  rp_dRel :: real
  rp_yRel :: real
  rp_vRel :: real

record radar_state =
  ra_leadOne :: lead
  ra_leadTwo :: lead
  ra_radarErrors :: radar_errors
  ra_valid :: bool

record radard =
  rd_tracks :: "(int \<times> track) list"
  rd_kalman_params :: kalman_params
  rd_lead_prob_filters :: "first_order_filter \<times> first_order_filter"
  rd_v_ego :: real
  rd_v_ego_hist :: "real list"
  rd_maxlen :: nat
  rd_last_v_ego_frame :: int
  rd_ready :: bool

text \<open>\<open>deque\<close> raises on a negative length; an empty history makes the update raise.\<close>

definition radard_init :: "real \<Rightarrow> radard option" where
  "radard_init delay =
     do { kp \<leftarrow> kalman_params_init DT_MDL;
          let maxlen = py_round (delay / DT_MDL) + 1;
          if maxlen < 0 then None
          else Some \<lparr> rd_tracks = [], rd_kalman_params = kp,
                 rd_lead_prob_filters = (filter_init 0 (2 / 10) DT_MDL True, filter_init 0 (2 / 10) DT_MDL True),
                 rd_v_ego = 0, rd_v_ego_hist = take (nat maxlen) [0], rd_maxlen = nat maxlen, rd_last_v_ego_frame = -1,
                 rd_ready = False \<rparr> }"

record radard_input =
  rdi_seen_modelV2 :: bool
  rdi_recv_frame :: int
  rdi_vEgo :: real
  rdi_points :: "radar_point list"
  rdi_radarErrors :: radar_errors
  rdi_all_checks :: bool
  rdi_model_velocity_x :: "real list"
  rdi_leads :: "model_lead list"

definition deque_append :: "nat \<Rightarrow> 'a \<Rightarrow> 'a list \<Rightarrow> 'a list" where
  "deque_append maxlen x xs = (let ys = xs @ [x] in drop (length ys - maxlen) ys)"

text \<open>The points by track identifier: a later point replaces the values of an earlier one.\<close>

definition radar_points :: "radar_point list \<Rightarrow> (int \<times> real \<times> real \<times> real) list" where
  "radar_points pts = foldl (\<lambda>d pt. AList.update (rp_trackId pt) (rp_dRel pt, rp_yRel pt, rp_vRel pt) d) [] pts"

definition track_point :: "kalman_params \<Rightarrow> real \<Rightarrow> (int \<times> track) list \<Rightarrow> int \<times> real \<times> real \<times> real \<Rightarrow> (int \<times> track) list" where
  "track_point kp v_ego tracks = (\<lambda>(ids, d_rel, y_rel, v_rel).
     (let v_lead = v_rel + v_ego;
          t = (case map_of tracks ids of None \<Rightarrow> track_init ids v_lead kp | Some t \<Rightarrow> t)
      in AList.update ids (track_update d_rel y_rel v_rel v_lead t) tracks))"

definition update_tracks :: "kalman_params \<Rightarrow> real \<Rightarrow> (int \<times> real \<times> real \<times> real) list \<Rightarrow> (int \<times> track) list \<Rightarrow> (int \<times> track) list" where
  "update_tracks kp v_ego ar_pts tracks =
     foldl (track_point kp v_ego) (filter (\<lambda>(ids, _). ids \<in> set (map fst ar_pts)) tracks) ar_pts"

definition update_lead_prob :: "real \<Rightarrow> first_order_filter \<Rightarrow> first_order_filter" where
  "update_lead_prob lead_prob f = (if ff_x f < lead_prob then f\<lparr>ff_x := lead_prob\<rparr> else filter_update lead_prob f)"

text \<open>The first part of \<open>update\<close>: a new car state is sampled into the history.\<close>

definition sample_v_ego :: "radard_input \<Rightarrow> radard \<Rightarrow> radard" where
  "sample_v_ego i rd =
     (let rd = rd\<lparr>rd_ready := rdi_seen_modelV2 i\<rparr>
      in if rdi_recv_frame i \<noteq> rd_last_v_ego_frame rd
         then rd\<lparr>rd_v_ego := rdi_vEgo i, rd_v_ego_hist := deque_append (rd_maxlen rd) (rdi_vEgo i) (rd_v_ego_hist rd),
                 rd_last_v_ego_frame := rdi_recv_frame i\<rparr>
         else rd)"

text \<open>The last part: the two leads, when the model has at least two.\<close>

definition publish_leads ::
  "hyundai_flags \<Rightarrow> car_params \<Rightarrow> car_params_sp \<Rightarrow> radard_input \<Rightarrow> radard \<Rightarrow> radard \<times> radar_state" where
  "publish_leads F CP CP_SP i rd =
     (let tracks = map snd (rd_tracks rd);
          model_v_ego = (case rdi_model_velocity_x i of [] \<Rightarrow> rd_v_ego rd | v # _ \<Rightarrow> v);
          none = \<lparr> ra_leadOne = no_lead, ra_leadTwo = no_lead, ra_radarErrors = rdi_radarErrors i, ra_valid = rdi_all_checks i \<rparr>
      in case rdi_leads i of
           l0 # l1 # _ \<Rightarrow>
             (let f0 = update_lead_prob (ml_prob l0) (fst (rd_lead_prob_filters rd));
                  f1 = update_lead_prob (ml_prob l1) (snd (rd_lead_prob_filters rd));
                  rd = rd\<lparr>rd_lead_prob_filters := (f0, f1)\<rparr>
              in (rd, none\<lparr>
                   ra_leadOne := get_lead F (rd_v_ego rd) (rd_ready rd) tracks l0 model_v_ego (ff_x f0) CP CP_SP True,
                   ra_leadTwo := get_lead F (rd_v_ego rd) (rd_ready rd) tracks l1 model_v_ego (ff_x f1) CP CP_SP False\<rparr>))
         | _ \<Rightarrow> (rd, none))"

definition radard_update ::
  "hyundai_flags \<Rightarrow> car_params \<Rightarrow> car_params_sp \<Rightarrow> radard_input \<Rightarrow> radard \<Rightarrow> (radard \<times> radar_state) option" where
  "radard_update F CP CP_SP i rd =
     (let rd = sample_v_ego i rd;
          ar_pts = radar_points (rdi_points i)
      in case rd_v_ego_hist rd of
           [] \<Rightarrow> if ar_pts = [] then Some (publish_leads F CP CP_SP i (rd\<lparr>rd_tracks := []\<rparr>)) else None
         | v_ego_aligned # _ \<Rightarrow>
             Some (publish_leads F CP CP_SP i
                     (rd\<lparr>rd_tracks := update_tracks (rd_kalman_params rd) v_ego_aligned ar_pts (rd_tracks rd)\<rparr>)))"

section \<open>Lemmas\<close>

subsection \<open>First extremal elements\<close>

lemma min_by_in: "min_by key x xs \<in> insert x (set xs)"
  unfolding min_by_def by (induction xs arbitrary: x) auto

lemma min_by_le: "y \<in> insert x (set xs) \<Longrightarrow> key (min_by key x xs) \<le> key y"
  unfolding min_by_def
proof (induction xs arbitrary: x y)
  case (Cons z xs)
  let ?b = "if key z < key x then z else x"
  have b: "key (foldl (\<lambda>b y. if key y < key b then y else b) ?b xs) \<le> key ?b" by (rule Cons.IH) simp
  show ?case
  proof (cases "y \<in> set xs")
    case True
    then have "key (foldl (\<lambda>b y. if key y < key b then y else b) ?b xs) \<le> key y" by (intro Cons.IH) simp
    then show ?thesis by simp
  next
    case False
    with Cons.prems have "key ?b \<le> key y" by auto
    with b show ?thesis by simp
  qed
qed simp

subsection \<open>The points and the tracks\<close>

lemma radar_points_keys: "set (map fst (radar_points pts)) = rp_trackId ` set pts"
proof -
  have "set (map fst (foldl (\<lambda>d pt. AList.update (rp_trackId pt) (f pt) d) d pts)) =
      set (map fst d) \<union> rp_trackId ` set pts" for d :: "(int \<times> real \<times> real \<times> real) list" and f
    by (induction pts arbitrary: d) (auto simp: update_keys simp del: set_map)
  then show ?thesis by (simp add: radar_points_def)
qed

lemma radar_points_distinct: "distinct (map fst (radar_points pts))"
proof -
  have "distinct (map fst d) \<Longrightarrow> distinct (map fst (foldl (\<lambda>d pt. AList.update (rp_trackId pt) (f pt) d) d pts))"
    for d :: "(int \<times> real \<times> real \<times> real) list" and f
    by (induction pts arbitrary: d) (auto simp: distinct_update)
  then show ?thesis by (simp add: radar_points_def)
qed

text \<open>The track of a point after a frame, given the tracks before it.\<close>

definition tracked :: "kalman_params \<Rightarrow> real \<Rightarrow> (int \<times> track) list \<Rightarrow> int \<Rightarrow> real \<times> real \<times> real \<Rightarrow> track" where
  "tracked kp v tracks ids = (\<lambda>(d_rel, y_rel, v_rel).
     track_update d_rel y_rel v_rel (v_rel + v)
       (case map_of tracks ids of None \<Rightarrow> track_init ids (v_rel + v) kp | Some t \<Rightarrow> t))"

lemma track_point_map: "map_of (track_point kp v tracks (ids, m)) = (map_of tracks)(ids \<mapsto> tracked kp v tracks ids m)"
  by (cases m) (simp add: track_point_def tracked_def Let_def update_conv')

lemma track_point_distinct: "distinct (map fst tracks) \<Longrightarrow> distinct (map fst (track_point kp v tracks p))"
  by (cases p) (simp add: track_point_def Let_def distinct_update)

lemma track_points_map:
  assumes "distinct (map fst pts)"
  shows "map_of (foldl (track_point kp v) tracks pts) ids =
    (case map_of pts ids of None \<Rightarrow> map_of tracks ids | Some m \<Rightarrow> Some (tracked kp v tracks ids m))"
  using assms
proof (induction pts arbitrary: tracks)
  case (Cons p pts)
  obtain k m where p: "p = (k, m)" by (cases p)
  have "tracked kp v (track_point kp v tracks p) ids m' = tracked kp v tracks ids m'" if "ids \<noteq> k" for m'
    using that by (simp add: tracked_def p track_point_map split: prod.split)
  moreover have "map_of pts k = None" using Cons.prems by (simp add: p map_of_eq_None_iff)
  ultimately show ?case
    using Cons by (cases "ids = k") (simp_all add: p track_point_map split: option.split)
qed simp

lemma track_points_distinct: "distinct (map fst tracks) \<Longrightarrow> distinct (map fst (foldl (track_point kp v) tracks pts))"
  by (induction pts arbitrary: tracks) (simp_all add: track_point_distinct)

lemma map_of_filter_keys: "map_of (filter (\<lambda>p. P (fst p)) al) k = (if P k then map_of al k else None)"
  by (induction al) auto

lemma update_tracks_map:
  assumes "distinct (map fst pts)" "distinct (map fst tracks)"
  shows "map_of (update_tracks kp v pts tracks) ids =
    (case map_of pts ids of None \<Rightarrow> None | Some m \<Rightarrow> Some (tracked kp v tracks ids m))"
proof -
  let ?kept = "filter (\<lambda>(ids, _). ids \<in> set (map fst pts)) tracks"
  have kept: "map_of ?kept ids = (if ids \<in> set (map fst pts) then map_of tracks ids else None)"
    using map_of_filter_keys [of "\<lambda>k. k \<in> set (map fst pts)" tracks ids] by (simp add: case_prod_unfold)
  show ?thesis
  proof (cases "map_of pts ids")
    case None
    then have "map_of ?kept ids = None" using kept by (simp add: map_of_eq_None_iff)
    with None assms(1) show ?thesis by (simp add: update_tracks_def track_points_map)
  next
    case (Some m)
    then have "ids \<in> set (map fst pts)" by (metis map_of_SomeD in_set_zipE zip_map_fst_snd)
    with kept have "tracked kp v ?kept ids m = tracked kp v tracks ids m" by (simp add: tracked_def split: prod.split)
    with Some assms(1) show ?thesis by (simp add: update_tracks_def track_points_map)
  qed
qed

lemma update_tracks_distinct: "distinct (map fst tracks) \<Longrightarrow> distinct (map fst (update_tracks kp v pts tracks))"
  unfolding update_tracks_def by (rule track_points_distinct) (simp add: distinct_map_filter)

lemma track_update_fields [simp]:
  "tr_dRel (track_update d y vr vl t) = d" "tr_yRel (track_update d y vr vl t) = y" "tr_vRel (track_update d y vr vl t) = vr"
  "tr_vLead (track_update d y vr vl t) = vl" "tr_cnt (track_update d y vr vl t) = tr_cnt t + 1"
  "tr_identifier (track_update d y vr vl t) = tr_identifier t"
  by (simp_all add: track_update_def Let_def)

lemma track_init_fields [simp]: "tr_cnt (track_init ids v kp) = 0" "tr_identifier (track_init ids v kp) = ids"
  by (simp_all add: track_init_def)

text \<open>The time constant of the acceleration stays positive and at most its initial value.\<close>

definition tau_wf :: "first_order_filter \<Rightarrow> bool" where
  "tau_wf f \<longleftrightarrow> ff_initialized f \<and> 0 < ff_alpha f \<and> ff_alpha f < 1 \<and> 0 < ff_x f \<and> ff_x f \<le> LEAD_ACCEL_TAU"

lemma track_init_tau: "tau_wf (tr_aLeadTau (track_init ids v kp))"
  by (simp add: tau_wf_def track_init_def filter_init_def update_alpha_def DT_MDL_def LEAD_ACCEL_TAU_def)

lemma track_update_tau:
  assumes "tau_wf (tr_aLeadTau t)"
  shows "tau_wf (tr_aLeadTau (track_update d y vr vl t))"
proof -
  obtain f where f: "f = tr_aLeadTau t" by simp
  have "(1 - ff_alpha f) * ff_x f \<le> 1 * ff_x f"
    using assms f by (intro mult_right_mono) (auto simp: tau_wf_def)
  moreover have "ff_x f \<le> LEAD_ACCEL_TAU" using assms f by (simp add: tau_wf_def)
  ultimately have "(1 - ff_alpha f) * ff_x f \<le> LEAD_ACCEL_TAU" by linarith
  then have "tau_wf (filter_update 0 f)" "tau_wf (f\<lparr>ff_x := LEAD_ACCEL_TAU\<rparr>)"
    using assms f by (simp_all add: tau_wf_def filter_update_def LEAD_ACCEL_TAU_def)
  then show ?thesis by (simp add: track_update_def Let_def f)
qed

subsection \<open>The leads\<close>

lemma low_speed_lead_near:
  assumes "t \<in> set tracks" "potential_low_speed_lead v t"
  shows "le_present (low_speed_lead v tracks ld) \<and> le_dRel (low_speed_lead v tracks ld) \<le> tr_dRel t"
proof -
  have "t \<in> set (filter (potential_low_speed_lead v) tracks)" using assms by simp
  then obtain c cs where f: "filter (potential_low_speed_lead v) tracks = c # cs" "t \<in> insert c (set cs)"
    by (metis list.set(2) list.set_cases)
  have "tr_dRel (min_by tr_dRel c cs) \<le> tr_dRel t" by (rule min_by_le) (rule f(2))
  then show ?thesis by (auto simp: low_speed_lead_def f(1) Let_def get_RadarState_def)
qed

section \<open>Runs\<close>

fun radard_run :: "hyundai_flags \<Rightarrow> car_params \<Rightarrow> car_params_sp \<Rightarrow> radard_input list \<Rightarrow> radard \<Rightarrow> (radard \<times> radar_state list) option" where
  "radard_run F CP CP_SP [] rd = Some (rd, [])"
| "radard_run F CP CP_SP (i # is) rd =
     do { (rd, rs) \<leftarrow> radard_update F CP CP_SP i rd;
          (rd, rss) \<leftarrow> radard_run F CP CP_SP is rd;
          Some (rd, rs # rss) }"

text \<open>Whether a frame has a point of the track, and for how many frames without a gap it had one.\<close>

definition has_point :: "int \<Rightarrow> radard_input \<Rightarrow> bool" where
  "has_point ids i \<longleftrightarrow> ids \<in> rp_trackId ` set (rdi_points i)"

definition point_streak :: "int \<Rightarrow> radard_input list \<Rightarrow> nat" where
  "point_streak ids is = length (takeWhile (has_point ids) (rev is))"

text \<open>The invariant: a history to read, and the tracks of exactly the points of the last frame, each
  under its identifier, with its age and a time constant in range.\<close>

definition radard_inv :: "radard_input list \<Rightarrow> radard \<Rightarrow> bool" where
  "radard_inv is rd \<longleftrightarrow>
     0 < rd_maxlen rd \<and> rd_v_ego_hist rd \<noteq> [] \<and> length (rd_v_ego_hist rd) \<le> rd_maxlen rd \<and> distinct (map fst (rd_tracks rd)) \<and>
     (\<forall>ids. case map_of (rd_tracks rd) ids of
        None \<Rightarrow> point_streak ids is = 0
      | Some t \<Rightarrow> tr_identifier t = ids \<and> tr_cnt t = int (point_streak ids is) \<and> 0 < point_streak ids is \<and> tau_wf (tr_aLeadTau t))"

lemma point_streak_snoc: "point_streak ids (is @ [i]) = (if has_point ids i then Suc (point_streak ids is) else 0)"
  by (simp add: point_streak_def)

lemma upt_1_21: "[Suc 0..<21] = [1, 2, 3, 4, 5, 6, 7, 8, 9, 10, 11, 12, 13, 14, 15, 16, 17, 18, 19, 20]"
  by code_simp

lemma kalman_params_DT_MDL:
  "kalman_params_init DT_MDL =
     Some \<lparr> kp_A = ((1, 5 / 100), 0, 1), kp_C = (1, 0), kp_K = (19886890 / 10 ^ 8, 28555364 / 10 ^ 8) \<rparr>"
  by (simp add: kalman_params_init_def DT_MDL_def np_interp_def kalman_K0_def kalman_K1_def upt_1_21 Let_def)

lemma radard_init_inv:
  assumes "0 \<le> delay"
  shows "\<exists>rd. radard_init delay = Some rd \<and> radard_inv [] rd"
proof -
  have "0 \<le> py_round (delay / DT_MDL)"
    using py_round_mono [of 0 "delay / DT_MDL"] assms by (simp add: DT_MDL_def)
  then have "0 < nat (py_round (delay / DT_MDL) + 1)" by simp
  then show ?thesis
    by (simp add: radard_init_def kalman_params_DT_MDL radard_inv_def point_streak_def Let_def take_Cons')
qed

lemma publish_leads_keeps [frame_simps]:
  "rd_tracks (fst (publish_leads F CP CP_SP i rd)) = rd_tracks rd"
  "rd_maxlen (fst (publish_leads F CP CP_SP i rd)) = rd_maxlen rd"
  "rd_v_ego_hist (fst (publish_leads F CP CP_SP i rd)) = rd_v_ego_hist rd"
  "rd_v_ego (fst (publish_leads F CP CP_SP i rd)) = rd_v_ego rd"
  "rd_kalman_params (fst (publish_leads F CP CP_SP i rd)) = rd_kalman_params rd"
  by (simp_all add: publish_leads_def Let_def split: list.split)

lemma deque_append_length: "0 < n \<Longrightarrow> deque_append n x xs \<noteq> [] \<and> length (deque_append n x xs) \<le> n"
  by (simp add: deque_append_def Let_def)

lemma sample_v_ego_hist:
  assumes "0 < rd_maxlen rd" "rd_v_ego_hist rd \<noteq> []" "length (rd_v_ego_hist rd) \<le> rd_maxlen rd"
  shows "rd_v_ego_hist (sample_v_ego i rd) \<noteq> [] \<and> length (rd_v_ego_hist (sample_v_ego i rd)) \<le> rd_maxlen rd"
  using assms deque_append_length [OF assms(1), of "rdi_vEgo i" "rd_v_ego_hist rd"] by (simp add: sample_v_ego_def Let_def)

lemma sample_v_ego_keeps [frame_simps]:
  "rd_tracks (sample_v_ego i rd) = rd_tracks rd" "rd_maxlen (sample_v_ego i rd) = rd_maxlen rd"
  "rd_kalman_params (sample_v_ego i rd) = rd_kalman_params rd"
  by (simp_all add: sample_v_ego_def Let_def)

lemma tracked_fields:
  assumes "case map_of tracks ids of None \<Rightarrow> n = 0
      | Some t \<Rightarrow> tr_identifier t = ids \<and> tr_cnt t = int n \<and> 0 < n \<and> tau_wf (tr_aLeadTau t)"
  shows "tr_identifier (tracked kp v tracks ids m) = ids \<and> tr_cnt (tracked kp v tracks ids m) = int (Suc n) \<and>
    tau_wf (tr_aLeadTau (tracked kp v tracks ids m))"
  using assms by (cases m) (auto simp: tracked_def track_init_tau track_update_tau split: option.splits)

lemma radard_update_inv:
  assumes "radard_inv is rd"
  shows "\<exists>rd' rs v. radard_update F CP CP_SP i rd = Some (rd', rs) \<and> radard_inv (is @ [i]) rd' \<and>
    (rd', rs) = publish_leads F CP CP_SP i
      ((sample_v_ego i rd)\<lparr>rd_tracks := update_tracks (rd_kalman_params rd) v (radar_points (rdi_points i)) (rd_tracks rd)\<rparr>)"
proof -
  note inv = assms [unfolded radard_inv_def]
  have hist: "rd_v_ego_hist (sample_v_ego i rd) \<noteq> []" "length (rd_v_ego_hist (sample_v_ego i rd)) \<le> rd_maxlen rd"
    using sample_v_ego_hist [of rd i] inv by simp_all
  then obtain v vs where v: "rd_v_ego_hist (sample_v_ego i rd) = v # vs" by (cases "rd_v_ego_hist (sample_v_ego i rd)") auto
  let ?T = "update_tracks (rd_kalman_params rd) v (radar_points (rdi_points i)) (rd_tracks rd)"
  let ?p = "publish_leads F CP CP_SP i ((sample_v_ego i rd)\<lparr>rd_tracks := ?T\<rparr>)"
  have upd: "radard_update F CP CP_SP i rd = Some ?p" by (simp add: radard_update_def Let_def v frame_simps)
  have dist: "distinct (map fst (rd_tracks rd))" using inv by blast
  have T: "map_of ?T ids = (case map_of (radar_points (rdi_points i)) ids of None \<Rightarrow> None
      | Some m \<Rightarrow> Some (tracked (rd_kalman_params rd) v (rd_tracks rd) ids m))" for ids
    by (rule update_tracks_map [OF radar_points_distinct dist])
  have pt: "has_point ids i \<longleftrightarrow> map_of (radar_points (rdi_points i)) ids \<noteq> None" for ids
    using radar_points_keys [of "rdi_points i"] by (simp add: has_point_def map_of_eq_None_iff)
  have "case map_of ?T ids of None \<Rightarrow> point_streak ids (is @ [i]) = 0
      | Some t \<Rightarrow> tr_identifier t = ids \<and> tr_cnt t = int (point_streak ids (is @ [i])) \<and> 0 < point_streak ids (is @ [i]) \<and>
          tau_wf (tr_aLeadTau t)" for ids
  proof (cases "map_of (radar_points (rdi_points i)) ids")
    case None
    then show ?thesis using pt [of ids] by (simp add: T point_streak_snoc)
  next
    case (Some m)
    have "case map_of (rd_tracks rd) ids of None \<Rightarrow> point_streak ids is = 0
      | Some t \<Rightarrow> tr_identifier t = ids \<and> tr_cnt t = int (point_streak ids is) \<and> 0 < point_streak ids is \<and> tau_wf (tr_aLeadTau t)"
      using inv by blast
    from tracked_fields [OF this] Some pt [of ids] show ?thesis by (simp add: T point_streak_snoc)
  qed
  then have "radard_inv (is @ [i]) (fst ?p)"
    using inv hist update_tracks_distinct [OF dist] by (simp add: radard_inv_def frame_simps)
  with upd show ?thesis by (metis prod.collapse)
qed

lemma radard_run_inv:
  assumes "radard_inv js rd"
  shows "\<exists>rd' rss. radard_run F CP CP_SP is rd = Some (rd', rss) \<and> length rss = length is \<and> radard_inv (js @ is) rd'"
  using assms
proof (induction "is" arbitrary: js rd)
  case (Cons i "is")
  obtain rd1 rs where s: "radard_update F CP CP_SP i rd = Some (rd1, rs)" "radard_inv (js @ [i]) rd1"
    using radard_update_inv [OF Cons.prems] by blast
  obtain rd' rss where r: "radard_run F CP CP_SP is rd1 = Some (rd', rss)" "length rss = length is" "radard_inv ((js @ [i]) @ is) rd'"
    using Cons.IH [OF s(2)] by blast
  with s(1) show ?case by simp
qed simp

subsection \<open>The Kalman filter at a constant speed\<close>

text \<open>With a constant measurement the error of the estimate is multiplied by a matrix of determinant
  \<open>1 - K0 + K1 dt\<close>, about 0.815; the quadratic form \<open>x \<times> A x\<close> of a plane map is multiplied by exactly its determinant.\<close>

definition kf_energy :: "kalman_params \<Rightarrow> real \<Rightarrow> kalman \<Rightarrow> real" where
  "kf_energy kp v k =
     (let dt = snd (fst (kp_A kp)); (k0, k1) = kp_K kp; e = kf_x0 k - v; a = kf_x1 k in k1 * e\<^sup>2 - k0 * e * a + dt * a\<^sup>2)"

lemma kf_energy_step:
  assumes "kp_A kp = ((1, dt), 0, 1)" "kp_C kp = (1, 0)" "kp_K kp = (k0, k1)"
    "k = kf_init x (kp_A kp) (kp_C kp) (kp_K kp)"
  shows "kf_energy kp v (kf_update v k) = (1 - k0 + k1 * dt) * kf_energy kp v k"
proof -
  define e where "e = fst x - v"
  have x: "fst x = e + v" by (simp add: e_def)
  have e1: "kf_x0 (kf_update v k) - v = (1 - k0) * e + dt * snd x" "kf_x1 (kf_update v k) = - k1 * e + snd x"
    by (simp_all add: kf_update_def assms kf_init_def x algebra_simps)
  have e0: "kf_x0 k - v = e" "kf_x1 k = snd x" by (simp_all add: assms kf_init_def x)
  show ?thesis
    by (simp add: kf_energy_def Let_def e1 e0 assms(1,3)) (simp add: algebra_simps power2_eq_square)
qed

lemma kf_update_form:
  assumes "k = kf_init x (kp_A kp) (kp_C kp) (kp_K kp)"
  shows "\<exists>y. kf_update v k = kf_init y (kp_A kp) (kp_C kp) (kp_K kp)"
proof
  show "kf_update v k = kf_init (kf_x0 (kf_update v k), kf_x1 (kf_update v k)) (kp_A kp) (kp_C kp) (kp_K kp)"
    by (simp add: assms kf_update_def kf_init_def Let_def split: prod.split)
qed

lemma quadratic_form_nonneg:
  fixes A B C e a :: real
  assumes "0 < A" "B\<^sup>2 \<le> 4 * A * C"
  shows "0 \<le> A * e\<^sup>2 - B * e * a + C * a\<^sup>2"
proof -
  have "4 * A * (A * e\<^sup>2 - B * e * a + C * a\<^sup>2) = (2 * A * e - B * a)\<^sup>2 + (4 * A * C - B\<^sup>2) * a\<^sup>2"
    by (simp add: algebra_simps power2_eq_square)
  also have "0 \<le> \<dots>" using assms(2) by simp
  finally show ?thesis using assms(1) by (simp add: zero_le_mult_iff)
qed

definition constant_speed :: "real \<Rightarrow> track \<Rightarrow> (real \<times> real \<times> real) list \<Rightarrow> track" where
  "constant_speed v = foldl (\<lambda>t (d_rel, y_rel, v_rel). track_update d_rel y_rel v_rel v t)"

lemma track_update_kf:
  "tr_kf (track_update d y vr v t) = (if 0 < tr_cnt t then kf_update v (tr_kf t) else tr_kf t)"
  "tr_vLeadK (track_update d y vr v t) = kf_x0 (tr_kf (track_update d y vr v t))"
  "tr_aLeadK (track_update d y vr v t) = kf_x1 (tr_kf (track_update d y vr v t))"
  by (simp_all add: track_update_def Let_def)

lemma constant_speed_energy:
  assumes "kp_A kp = ((1, dt), 0, 1)" "kp_C kp = (1, 0)" "kp_K kp = (k0, k1)"
    "0 < tr_cnt t" "tr_kf t = kf_init x (kp_A kp) (kp_C kp) (kp_K kp)" "tr_vLeadK t = kf_x0 (tr_kf t)" "tr_aLeadK t = kf_x1 (tr_kf t)"
  shows "kf_energy kp v (tr_kf (constant_speed v t ms)) = (1 - k0 + k1 * dt) ^ length ms * kf_energy kp v (tr_kf t) \<and>
    tr_vLeadK (constant_speed v t ms) = kf_x0 (tr_kf (constant_speed v t ms)) \<and>
    tr_aLeadK (constant_speed v t ms) = kf_x1 (tr_kf (constant_speed v t ms))"
  using assms(4-)
proof (induction ms arbitrary: t x)
  case (Cons m ms)
  obtain d y vr where m: "m = (d, y, vr)" by (cases m)
  let ?t = "track_update d y vr v t"
  have k: "tr_kf ?t = kf_update v (tr_kf t)" using Cons.prems(1) by (simp add: track_update_kf)
  obtain x' where x': "tr_kf ?t = kf_init x' (kp_A kp) (kp_C kp) (kp_K kp)"
    using kf_update_form [OF Cons.prems(2), of v] k by auto
  have "kf_energy kp v (tr_kf ?t) = (1 - k0 + k1 * dt) * kf_energy kp v (tr_kf t)"
    unfolding k by (rule kf_energy_step [OF assms(1-3) Cons.prems(2)])
  with Cons.IH [of ?t x'] x' Cons.prems(1) show ?case
    by (simp add: m constant_speed_def track_update_kf)
qed (simp add: constant_speed_def)

section \<open>Properties\<close>

text \<open>From the constructor, whatever the radar sends, \<open>update\<close> never raises, and after any frames the tracks are
  exactly the points of the last frame, one per identifier, each with the number of frames in which its point
  was seen without a gap and with an acceleration time constant in (0, 1.5].\<close>

theorem tracks_follow_points:
  assumes "0 \<le> delay"
  shows "\<exists>rd0 rd rss. radard_init delay = Some rd0 \<and> radard_run F CP CP_SP is rd0 = Some (rd, rss) \<and> length rss = length is \<and>
    distinct (map fst (rd_tracks rd)) \<and>
    (\<forall>ids. (ids \<in> set (map fst (rd_tracks rd)) \<longleftrightarrow> 0 < point_streak ids is) \<and>
       (\<forall>t. map_of (rd_tracks rd) ids = Some t \<longrightarrow>
          tr_identifier t = ids \<and> tr_cnt t = int (point_streak ids is) \<and> 0 < ff_x (tr_aLeadTau t) \<and> ff_x (tr_aLeadTau t) \<le> 15 / 10))"
proof -
  obtain rd0 where i: "radard_init delay = Some rd0" "radard_inv [] rd0" using radard_init_inv [OF assms] by blast
  obtain rd rss where r: "radard_run F CP CP_SP is rd0 = Some (rd, rss)" "length rss = length is" "radard_inv is rd"
    using radard_run_inv [OF i(2), of F CP CP_SP "is"] by auto
  have tracks: "case map_of (rd_tracks rd) ids of None \<Rightarrow> point_streak ids is = 0
      | Some t \<Rightarrow> tr_identifier t = ids \<and> tr_cnt t = int (point_streak ids is) \<and> 0 < point_streak ids is \<and> tau_wf (tr_aLeadTau t)" for ids
    using r(3) by (simp add: radard_inv_def)
  have "ids \<in> set (map fst (rd_tracks rd)) \<longleftrightarrow> map_of (rd_tracks rd) ids \<noteq> None" for ids by (simp add: map_of_eq_None_iff)
  then have keys: "ids \<in> set (map fst (rd_tracks rd)) \<longleftrightarrow> 0 < point_streak ids is" for ids
    using tracks [of ids] by (cases "map_of (rd_tracks rd) ids") simp_all
  have "map_of (rd_tracks rd) ids = Some t \<Longrightarrow>
      tr_identifier t = ids \<and> tr_cnt t = int (point_streak ids is) \<and> 0 < ff_x (tr_aLeadTau t) \<and> ff_x (tr_aLeadTau t) \<le> 15 / 10" for ids t
    using tracks [of ids] by (simp add: tau_wf_def LEAD_ACCEL_TAU_def)
  moreover have "distinct (map fst (rd_tracks rd))" using r(3) by (simp add: radard_inv_def)
  ultimately show ?thesis using i(1) r(1,2) keys by blast
qed

text \<open>C14: At low speed the car stops for what is in front of it: in every frame after any run, when the model has
  two leads, the car is slower than 4 m/s and the radar has a point less than 1 m aside and 0.75 to 25 m
  ahead, then the first published lead is present and not farther than that point, whatever the model says.\<close>

theorem low_speed_lead_kept:
  assumes "0 \<le> delay" "radard_init delay = Some rd0" "radard_run F CP CP_SP is rd0 = Some (rd, rss)"
    "radard_update F CP CP_SP i rd = Some (rd', rs)" "2 \<le> length (rdi_leads i)" "rd_v_ego rd' < 4"
    "(ids, d, y, vr) \<in> set (radar_points (rdi_points i))" "\<bar>y\<bar> < 1" "75 / 100 < d" "d < 25"
  shows "le_present (ra_leadOne rs) \<and> le_dRel (ra_leadOne rs) \<le> d"
proof -
  have "radard_inv [] rd0" using radard_init_inv [OF assms(1)] assms(2) by auto
  then have inv: "radard_inv is rd" using radard_run_inv [of "[]" rd0 F CP CP_SP "is"] assms(3) by auto
  obtain v where p: "(rd', rs) = publish_leads F CP CP_SP i
      ((sample_v_ego i rd)\<lparr>rd_tracks := update_tracks (rd_kalman_params rd) v (radar_points (rdi_points i)) (rd_tracks rd)\<rparr>)"
    using radard_update_inv [OF inv, of F CP CP_SP i] assms(4) by auto
  let ?T = "update_tracks (rd_kalman_params rd) v (radar_points (rdi_points i)) (rd_tracks rd)"
  let ?rd = "(sample_v_ego i rd)\<lparr>rd_tracks := ?T\<rparr>"
  let ?t = "tracked (rd_kalman_params rd) v (rd_tracks rd) ids (d, y, vr)"
  have dist: "distinct (map fst (rd_tracks rd))" using inv by (simp add: radard_inv_def)
  have "map_of (radar_points (rdi_points i)) ids = Some (d, y, vr)"
    using assms(7) radar_points_distinct by (metis map_of_is_SomeI)
  then have "map_of ?T ids = Some ?t" by (simp add: update_tracks_map [OF radar_points_distinct dist])
  then have mem: "?t \<in> set (map snd ?T)" by (metis map_of_SomeD in_set_zipE zip_map_fst_snd)
  have "rd_v_ego ?rd < 4" using assms(6) arg_cong [OF p, of fst] by (simp add: frame_simps)
  then have pot: "potential_low_speed_lead (rd_v_ego ?rd) ?t"
    using assms(8-10) by (simp add: potential_low_speed_lead_def V_EGO_STATIONARY_def tracked_def)
  obtain l0 l1 ls where l: "rdi_leads i = l0 # l1 # ls" using assms(5) by (cases "rdi_leads i" rule: remdups_adj.cases) auto
  have "\<exists>ld. ra_leadOne rs = low_speed_lead (rd_v_ego ?rd) (map snd ?T) ld"
    using arg_cong [OF p, of snd] by (auto simp: publish_leads_def Let_def l get_lead_def)
  moreover have "tr_dRel ?t = d" by (simp add: tracked_def)
  ultimately show ?thesis using low_speed_lead_near [OF mem pot] by metis
qed

text \<open>The filtered speed of a track converges: when a track created at one speed is updated any number of times
  with another constant speed, the squares of the errors of its speed and acceleration estimates decrease
  geometrically, by the factor 0.82 per update.\<close>

theorem track_speed_converges:
  assumes "kalman_params_init DT_MDL = Some kp"
    "t = constant_speed v (track_update d y vr v0 (track_init ids v0 kp)) ms"
  shows "(tr_vLeadK t - v)\<^sup>2 \<le> 4 * (82 / 100) ^ length ms * (v0 - v)\<^sup>2 \<and>
    (tr_aLeadK t)\<^sup>2 \<le> 19 * (82 / 100) ^ length ms * (v0 - v)\<^sup>2"
proof -
  define k0 k1 c :: real where "k0 = 19886890 / 10 ^ 8" and "k1 = 28555364 / 10 ^ 8" and "c = 1 - k0 + k1 * (5 / 100)"
  have kp: "kp_A kp = ((1, 5 / 100), 0, 1)" "kp_C kp = (1, 0)" "kp_K kp = (k0, k1)"
    using assms(1) by (auto simp: kalman_params_DT_MDL k0_def k1_def)
  let ?t0 = "track_update d y vr v0 (track_init ids v0 kp)"
  have kf0: "tr_kf ?t0 = kf_init (v0, 0) (kp_A kp) (kp_C kp) (kp_K kp)" by (simp add: track_update_kf track_init_def)
  have E0: "kf_energy kp v (tr_kf ?t0) = k1 * (v0 - v)\<^sup>2" by (simp add: kf0 kf_energy_def kp kf_init_def)
  have "kf_energy kp v (tr_kf t) = c ^ length ms * (k1 * (v0 - v)\<^sup>2) \<and> tr_vLeadK t = kf_x0 (tr_kf t) \<and> tr_aLeadK t = kf_x1 (tr_kf t)"
    using constant_speed_energy [OF kp _ kf0, of v ms] unfolding assms(2) E0 c_def by (simp add: track_update_kf(2,3))
  then have E: "k1 * (tr_vLeadK t - v)\<^sup>2 - k0 * (tr_vLeadK t - v) * tr_aLeadK t + 5 / 100 * (tr_aLeadK t)\<^sup>2 =
      c ^ length ms * (k1 * (v0 - v)\<^sup>2)"
    by (simp add: kf_energy_def kp Let_def)
  have k: "0 < k1" "k0\<^sup>2 \<le> 4 * (3 / 4 * k1) * (5 / 100)" "k0\<^sup>2 \<le> 4 * k1 * (5 / 100 - k1 / 19)"
    by (simp_all add: k0_def k1_def power2_eq_square)
  have "c ^ length ms \<le> (82 / 100) ^ length ms" by (rule power_mono) (simp_all add: c_def k0_def k1_def)
  then have "c ^ length ms * (v0 - v)\<^sup>2 \<le> (82 / 100) ^ length ms * (v0 - v)\<^sup>2" by (rule mult_right_mono) simp
  then have ub: "c ^ length ms * (k1 * (v0 - v)\<^sup>2) \<le> k1 * ((82 / 100) ^ length ms * (v0 - v)\<^sup>2)"
    using mult_left_mono [of _ _ k1] k(1) by (simp add: mult.left_commute)
  have "k1 * (tr_vLeadK t - v)\<^sup>2 \<le> 4 * (c ^ length ms * (k1 * (v0 - v)\<^sup>2))"
    using quadratic_form_nonneg [OF _ k(2), of "tr_vLeadK t - v" "tr_aLeadK t"] k(1) E by linarith
  then have "k1 * (tr_vLeadK t - v)\<^sup>2 \<le> k1 * (4 * ((82 / 100) ^ length ms * (v0 - v)\<^sup>2))" using ub by linarith
  moreover have "k1 * (tr_aLeadK t)\<^sup>2 \<le> 19 * (c ^ length ms * (k1 * (v0 - v)\<^sup>2))"
    using quadratic_form_nonneg [OF k(1,3), of "tr_vLeadK t - v" "tr_aLeadK t"] E by (simp add: left_diff_distrib)
  then have "k1 * (tr_aLeadK t)\<^sup>2 \<le> k1 * (19 * ((82 / 100) ^ length ms * (v0 - v)\<^sup>2))" using ub by linarith
  ultimately show ?thesis using k(1) by (simp add: mult.assoc)
qed

section \<open>Witnesses\<close>

definition demo_flags :: hyundai_flags where
  "demo_flags = \<lparr>hf_ENHANCED_SCC = 1, hf_CANFD_CAMERA_SCC = 2, hf_CAMERA_SCC = 4\<rparr>"

text \<open>A standing car with a point 10 m ahead and a model that sees nothing.\<close>

definition demo_no_lead :: model_lead where
  "demo_no_lead = \<lparr>ml_prob = 0, ml_x = 0, ml_y = 0, ml_v = 0, ml_a = 0, ml_xStd = 1, ml_yStd = 1, ml_vStd = 1\<rparr>"

definition demo_radar :: radard_input where
  "demo_radar = \<lparr>rdi_seen_modelV2 = True, rdi_recv_frame = 1, rdi_vEgo = 0,
     rdi_points = [\<lparr>rp_trackId = 7, rp_dRel = 10, rp_yRel = 0, rp_vRel = 0\<rparr>],
     rdi_radarErrors = \<lparr>re_canError = False, re_radarUnavailableTemporary = False, re_others = []\<rparr>,
     rdi_all_checks = True, rdi_model_velocity_x = [], rdi_leads = [demo_no_lead, demo_no_lead]\<rparr>"

theorem tracks_follow_points_witness:
  "\<exists>rd0 rd rss. radard_init (1 / 10) = Some rd0 \<and>
     radard_run demo_flags demo_params demo_params_sp [demo_radar, demo_radar] rd0 = Some (rd, rss) \<and> length rss = 2"
  using tracks_follow_points [of "1 / 10" demo_flags demo_params demo_params_sp "[demo_radar, demo_radar]"] by fastforce

theorem low_speed_lead_kept_witness:
  "\<exists>rd0 rd' rs. radard_init 0 = Some rd0 \<and> radard_update demo_flags demo_params demo_params_sp demo_radar rd0 = Some (rd', rs) \<and>
    le_present (ra_leadOne rs) \<and> le_dRel (ra_leadOne rs) \<le> 10"
proof -
  obtain rd0 where i: "radard_init 0 = Some rd0" "radard_inv [] rd0" using radard_init_inv [of 0] by auto
  obtain rd' rs where u: "radard_update demo_flags demo_params demo_params_sp demo_radar rd0 = Some (rd', rs)"
    "rd_v_ego rd' = rd_v_ego (sample_v_ego demo_radar rd0)"
    using radard_update_inv [OF i(2), of demo_flags demo_params demo_params_sp demo_radar] by (fastforce simp: frame_simps dest: arg_cong [where f = fst])
  have "rd_last_v_ego_frame rd0 = -1" using i(1) by (auto simp: radard_init_def bind_eq_Some_conv Let_def split: if_splits)
  then have "rd_v_ego rd' = 0" by (simp add: u(2) sample_v_ego_def Let_def demo_radar_def)
  moreover have "(7, 10, 0, 0) \<in> set (radar_points (rdi_points demo_radar))" by (simp add: demo_radar_def radar_points_def)
  moreover have "length (rdi_leads demo_radar) = 2" by (simp add: demo_radar_def)
  ultimately show ?thesis
    using low_speed_lead_kept [of 0 rd0 demo_flags demo_params demo_params_sp "[]" rd0 "[]" demo_radar rd' rs 7 10 0 0] i(1) u(1) by auto
qed

theorem track_speed_converges_witness:
  "\<exists>kp t. kalman_params_init DT_MDL = Some kp \<and>
     t = constant_speed 20 (track_update 30 0 0 30 (track_init 1 30 kp)) [(29, 0, 0), (28, 0, 0)] \<and>
     (tr_vLeadK t - 20)\<^sup>2 \<le> 4 * (82 / 100) ^ length [(29, 0, 0), (28, 0, 0 :: real)] * (30 - 20)\<^sup>2"
  using track_speed_converges [OF kalman_params_DT_MDL refl, of 20 30 0 0 30 1 "[(29, 0, 0), (28, 0, 0)]"]
    kalman_params_DT_MDL by (metis length_Cons list.size(3))

end
