(* ===== verification/LatTorque.thy ===== *)
theory LatTorque
  imports LatControl Radard SpeedLimitAssist
begin

text \<open>
  The torque steering controllers: \<open>selfdrive/controls/lib/latcontrol_torque.py\<close> (version 1) and
  \<open>sunnypilot/.../latcontrol_torque_v0.py\<close> (version 0) in one record, with the extension both own
  (\<open>latcontrol_torque_ext.py\<close> with its base classes).  The tuning \<open>torque_params\<close> is one object shared by a
  controller and its extension, so it is one field; so is the PID controller from the first active frame on:
  the extension's \<open>_pid\<close> is \<open>None\<close> here when it is the controller's own object.  What opendbc provides is
  a record of functions.  Timers and delays are exact, and a division by zero does not occur.
\<close>

section \<open>The interface of the car and the messages\<close>

record torque_ci =
  tc_torque_from_lateral_accel :: "real \<Rightarrow> torque_tuning \<Rightarrow> real"
  tc_lateral_accel_from_torque :: "real \<Rightarrow> torque_tuning \<Rightarrow> real"
  tc_torque_in_torque_space :: "real \<times> real \<times> real \<times> real \<Rightarrow> torque_tuning \<Rightarrow> bool \<Rightarrow> real"
  tc_get_friction :: "real \<Rightarrow> real \<Rightarrow> real \<Rightarrow> torque_tuning \<Rightarrow> real"
  tc_get_friction_in_torque_space :: "real \<Rightarrow> real \<Rightarrow> real \<Rightarrow> torque_tuning \<Rightarrow> real"
  tc_FRICTION_THRESHOLD :: real

record lateral_torque_parameters =
  tp_useParams :: bool
  tp_latAccelFactorFiltered :: real
  tp_latAccelOffsetFiltered :: real
  tp_frictionCoefficientFiltered :: real
  tp_speedBinCenters :: "real list"
  tp_speedBinLatAccelFactors :: "real list"
  tp_speedBinFrictions :: "real list"
  tp_speedBinValid :: "bool list"

section \<open>The extension\<close>

definition LAT_PLAN_MIN_IDX :: nat where "LAT_PLAN_MIN_IDX = 5"
definition LATERAL_LAG_MOD :: real where "LATERAL_LAG_MOD = 0"

definition MODEL_T_IDXS :: "real list" where "MODEL_T_IDXS = map T_IDXS [0..<33]"

definition np_diff :: "real list \<Rightarrow> real list" where
  "np_diff xs = map2 (-) (tl xs) xs"

text \<open>A difference of one element is divided by every time step; other lengths raise \<open>ValueError\<close>.\<close>

definition get_predicted_lateral_jerk :: "real list \<Rightarrow> real list \<Rightarrow> real list option" where
  "get_predicted_lateral_jerk lat_accels t_diffs =
     (let d = np_diff lat_accels
      in if length d = length t_diffs then Some (map2 (/) d t_diffs)
         else if length d = 1 then Some (map (\<lambda>t. hd d / t) t_diffs)
         else None)"

definition py_sign :: "real \<Rightarrow> real" where
  "py_sign x = (if 0 < x then 1 else if x < 0 then - 1 else 0)"

definition min_by_abs :: "real \<Rightarrow> real list \<Rightarrow> real" where
  "min_by_abs x xs = foldl (\<lambda>a b. if \<bar>b\<bar> < \<bar>a\<bar> then b else a) x xs"

definition get_lookahead_value :: "real list \<Rightarrow> real \<Rightarrow> real" where
  "get_lookahead_value future_vals current_val =
     (if future_vals = [] then current_val
      else let same_sign_vals = filter (\<lambda>v. py_sign v = py_sign current_val) future_vals
        in if length same_sign_vals < length future_vals then 0
           else case same_sign_vals @ [current_val] of [] \<Rightarrow> current_val | x # xs \<Rightarrow> min_by_abs x xs)"

text \<open>The attributes that \<open>update\<close> stores and reads only in the same frame are local here.\<close>

record torque_ext =
  te_acceleration_y :: "real list"
  te_model_valid :: bool
  te_actual_lateral_jerk :: real
  te_lateral_jerk_setpoint :: real
  te_lateral_jerk_measurement :: real
  te_lookahead_lateral_jerk :: real
  te_pid :: "pid option"
  te_lat_accel_friction_factor :: real
  te_desired_lat_jerk_time :: real
  te_jerk_aware_enabled :: bool
  te_enforce_torque_control_toggle :: bool
  te_torque_override_enabled :: bool
  te_frame :: int
  te_speed_dep_active :: bool
  te_speed_dep_speed_bp :: "real list"
  te_speed_dep_lat_accel_factor_bp :: "real list"
  te_speed_dep_friction_bp :: "real list"
  te_last_vego :: real

definition lat_jerk_friction_factor :: real where "lat_jerk_friction_factor = 4 / 10"

definition torque_ext_init :: "car_params \<Rightarrow> params \<Rightarrow> torque_ext" where
  "torque_ext_init CP p =
     \<lparr> te_acceleration_y = [], te_model_valid = False, te_actual_lateral_jerk = 0, te_lateral_jerk_setpoint = 0,
       te_lateral_jerk_measurement = 0, te_lookahead_lateral_jerk = 0,
       te_pid = Some (pid_init (const_gain 1) (const_gain (3 / 10)) (const_gain 0) (10 ^ 308) (- (10 ^ 308)) 100),
       te_lat_accel_friction_factor = 7 / 10, te_desired_lat_jerk_time = cp_steerActuatorDelay CP + LATERAL_LAG_MOD,
       te_jerk_aware_enabled = get_bool ''LateralJerkTorqueController'' p,
       te_enforce_torque_control_toggle = get_bool ''EnforceTorqueControl'' p,
       te_torque_override_enabled = get_bool ''TorqueParamsOverrideEnabled'' p, te_frame = - 1,
       te_speed_dep_active = False, te_speed_dep_speed_bp = [], te_speed_dep_lat_accel_factor_bp = [],
       te_speed_dep_friction_bp = [], te_last_vego = 0 \<rparr>"

definition update_model_v2 :: "real list \<Rightarrow> nat \<Rightarrow> torque_ext \<Rightarrow> torque_ext" where
  "update_model_v2 acceleration_y orientation_length ext =
     ext\<lparr>te_acceleration_y := acceleration_y, te_model_valid := CONTROL_N \<le> orientation_length\<rparr>"

definition update_lateral_lag :: "real \<Rightarrow> torque_ext \<Rightarrow> torque_ext" where
  "update_lateral_lag lag ext = ext\<lparr>te_desired_lat_jerk_time := max (1 / 100) lag + LATERAL_LAG_MOD\<rparr>"

text \<open>The index of the first model time after the look-ahead.\<close>

definition friction_upper_idx :: "real \<Rightarrow> nat" where
  "friction_upper_idx lookahead =
     (case find (\<lambda>i. lookahead < MODEL_T_IDXS ! i) [0..<length MODEL_T_IDXS] of None \<Rightarrow> 16 | Some i \<Rightarrow> i)"

definition update_calculations :: "car_state \<Rightarrow> vehicle_model \<Rightarrow> real \<Rightarrow> torque_ext \<Rightarrow> torque_ext option" where
  "update_calculations CS VM desired_lateral_accel ext =
     do { let actual_curvature_rate = - vm_calc_curvature VM (radians (cs_steeringRateDeg CS)) (cs_vEgo CS) 0;
          let actual = actual_curvature_rate * (cs_vEgo CS)\<^sup>2;
          let ext = ext\<lparr>te_actual_lateral_jerk := actual, te_lateral_jerk_setpoint := 0,
                        te_lateral_jerk_measurement := 0, te_lookahead_lateral_jerk := 0\<rparr>;
          if \<not> te_model_valid ext then Some ext
          else
            do { lookahead \<leftarrow> np_interp (cs_vEgo CS) [9, 30] [14 / 10, 2];
                 predicted \<leftarrow> get_predicted_lateral_jerk (te_acceleration_y ext) (np_diff MODEL_T_IDXS);
                 planned \<leftarrow> np_interp (te_desired_lat_jerk_time ext) MODEL_T_IDXS (te_acceleration_y ext);
                 let desired = (planned - desired_lateral_accel) / te_desired_lat_jerk_time ext;
                 let jerk = get_lookahead_value (drop LAT_PLAN_MIN_IDX (take (friction_upper_idx lookahead) predicted)) desired;
                 let ext = ext\<lparr>te_lookahead_lateral_jerk := jerk\<rparr>;
                 let ext = (if jerk = 0 then ext\<lparr>te_actual_lateral_jerk := 0, te_lat_accel_friction_factor := 1\<rparr> else ext);
                 Some (ext\<lparr>te_lateral_jerk_setpoint := lat_jerk_friction_factor * jerk,
                           te_lateral_jerk_measurement := lat_jerk_friction_factor * te_actual_lateral_jerk ext\<rparr>) } }"

definition update_friction_input :: "real \<Rightarrow> real \<Rightarrow> torque_ext \<Rightarrow> real" where
  "update_friction_input val_1 val_2 ext =
     te_lat_accel_friction_factor ext * (val_1 - val_2) + lat_jerk_friction_factor * te_lookahead_lateral_jerk ext"

text \<open>\<open>SPEED_DEP_CONFIG\<close>: no car has an entry; an entry holds \<open>laf_bp\<close> and \<open>friction_bp\<close>.\<close>

definition SPEED_DEP_CONFIG :: "string \<Rightarrow> (real list \<times> real list) option" where
  "SPEED_DEP_CONFIG = Map.empty"

definition update_speed_dep_torque :: "car_params \<Rightarrow> lateral_torque_parameters \<Rightarrow> torque_ext \<Rightarrow> torque_ext" where
  "update_speed_dep_torque CP tp ext =
     (let speed_bp = tp_speedBinCenters tp; factors = tp_speedBinLatAccelFactors tp;
          frictions = tp_speedBinFrictions tp; valid_bp = tp_speedBinValid tp; n = length speed_bp
      in if speed_bp = [] \<or> \<not> (length factors = length frictions \<and> length frictions = length valid_bp \<and> length valid_bp = n)
         then ext\<lparr>te_speed_dep_active := False\<rparr>
         else
           let (seed_lafs, seed_frictions) = (case SPEED_DEP_CONFIG (cp_carFingerprint CP) of None \<Rightarrow> ([], []) | Some c \<Rightarrow> c);
               (fallback_factors, fallback_frictions) =
                 (if seed_lafs \<noteq> [] \<and> seed_frictions \<noteq> [] \<and> length seed_lafs = n \<and> length seed_frictions = n
                  then (seed_lafs, seed_frictions)
                  else (replicate n (tp_latAccelFactorFiltered tp), replicate n (tp_frictionCoefficientFiltered tp)))
           in ext\<lparr>te_speed_dep_active := True, te_speed_dep_speed_bp := speed_bp,
                  te_speed_dep_lat_accel_factor_bp := map (\<lambda>i. if valid_bp ! i then factors ! i else fallback_factors ! i) [0..<n],
                  te_speed_dep_friction_bp := map (\<lambda>i. if valid_bp ! i then frictions ! i else fallback_frictions ! i) [0..<n]\<rparr>)"

text \<open>\<open>update_override_torque_params\<close>: whether the tuning changed, the tuning, the extension.\<close>

definition update_override_torque_params :: "params \<Rightarrow> torque_tuning \<times> torque_ext \<Rightarrow> (bool \<times> torque_tuning \<times> torque_ext) option" where
  "update_override_torque_params p = (\<lambda>(tuning, ext).
     do { (changed, tuning) \<leftarrow>
            (if te_speed_dep_active ext \<and> te_speed_dep_speed_bp ext \<noteq> [] then
               do { factor \<leftarrow> np_interp (te_last_vego ext) (te_speed_dep_speed_bp ext) (te_speed_dep_lat_accel_factor_bp ext);
                    friction \<leftarrow> np_interp (te_last_vego ext) (te_speed_dep_speed_bp ext) (te_speed_dep_friction_bp ext);
                    Some (if factor \<noteq> tq_latAccelFactor tuning \<or> friction \<noteq> tq_friction tuning
                          then (True, tuning\<lparr>tq_latAccelFactor := factor, tq_friction := friction\<rparr>) else (False, tuning)) }
             else Some (False, tuning));
          if \<not> te_enforce_torque_control_toggle ext then Some (changed, tuning, ext)
          else
            do { let ext = ext\<lparr>te_frame := te_frame ext + 1\<rparr>;
                 if te_frame ext mod 300 = 0 then
                   do { let ext = ext\<lparr>te_torque_override_enabled := get_bool ''TorqueParamsOverrideEnabled'' p\<rparr>;
                        if \<not> te_torque_override_enabled ext then Some (changed, tuning, ext)
                        else do { factor \<leftarrow> get_float ''TorqueParamsOverrideLatAccelFactor'' p;
                                  friction \<leftarrow> get_float ''TorqueParamsOverrideFriction'' p;
                                  Some (True, tuning\<lparr>tq_latAccelFactor := factor, tq_friction := friction\<rparr>, ext) } }
                 else Some (changed, tuning, ext) } })"

section \<open>The controllers\<close>

datatype torque_version = V0 | V1

record lat_torque =
  lt_version :: torque_version
  lt_sat :: lat_sat
  lt_params :: torque_tuning
  lt_pid :: pid
  lt_steering_angle_deadzone_deg :: real
  lt_buffer :: "real list"
  lt_filter :: first_order_filter
  lt_previous_measurement :: real
  lt_ext :: torque_ext

definition LAT_ACCEL_REQUEST_BUFFER_SECONDS :: real where "LAT_ACCEL_REQUEST_BUFFER_SECONDS = 1"
definition JERK_LOOKAHEAD_SECONDS :: real where "JERK_LOOKAHEAD_SECONDS = 19 / 100"
definition JERK_GAIN :: real where "JERK_GAIN = 3 / 10"
definition LP_FILTER_CUTOFF_HZ :: real where "LP_FILTER_CUTOFF_HZ = 12 / 10"
definition FRICTION_THRESHOLD_V0 :: real where "FRICTION_THRESHOLD_V0 = 3 / 10"

fun torque_KP :: "torque_version \<Rightarrow> real" where
  "torque_KP V0 = 1"
| "torque_KP V1 = 8 / 10"

fun torque_KI :: "torque_version \<Rightarrow> real" where
  "torque_KI V0 = 3 / 10"
| "torque_KI V1 = 15 / 100"

definition torque_gains :: "torque_version \<Rightarrow> gain" where
  "torque_gains v =
     ([1, 15 / 10, 2, 3, 5, 75 / 10, 10, 15, 30], [250, 120, 65, 30, 115 / 10, 55 / 10, 35 / 10, 2, torque_KP v])"

definition buffer_len :: nat where
  "buffer_len = nat (py_int (LAT_ACCEL_REQUEST_BUFFER_SECONDS / DT_CTRL))"

definition lookahead_frames :: int where
  "lookahead_frames = py_int (JERK_LOOKAHEAD_SECONDS / DT_CTRL)"

definition lt_update_limits :: "torque_ci \<Rightarrow> lat_torque \<Rightarrow> lat_torque" where
  "lt_update_limits CI t =
     t\<lparr>lt_pid := set_limits (tc_lateral_accel_from_torque CI STEER_MAX (lt_params t))
                             (tc_lateral_accel_from_torque CI (- STEER_MAX) (lt_params t)) (lt_pid t)\<rparr>"

text \<open>\<open>update_limits\<close> of the extension: the limits of whichever PID controller it holds.\<close>

definition ext_update_limits :: "lat_torque \<Rightarrow> lat_torque" where
  "ext_update_limits t =
     (if \<not> te_jerk_aware_enabled (lt_ext t) then t
      else case te_pid (lt_ext t) of
             None \<Rightarrow> t\<lparr>lt_pid := set_limits STEER_MAX (- STEER_MAX) (lt_pid t)\<rparr>
           | Some c \<Rightarrow> t\<lparr>lt_ext := (lt_ext t)\<lparr>te_pid := Some (set_limits STEER_MAX (- STEER_MAX) c)\<rparr>\<rparr>)"

text \<open>The constructor; reading the torque tuning of a car with another one raises.\<close>

definition lat_torque_init :: "torque_version \<Rightarrow> torque_ci \<Rightarrow> car_params \<Rightarrow> params \<Rightarrow> lat_torque option" where
  "lat_torque_init v CI CP p =
     (case cp_lateralTuning CP of
        Tuning_pid _ _ _ \<Rightarrow> None
      | Tuning_torque tuning \<Rightarrow>
          Some (lt_update_limits CI
            \<lparr> lt_version = v, lt_sat = lat_sat_init CP DT_CTRL, lt_params = tuning,
              lt_pid = pid_init (torque_gains v) (const_gain (torque_KI v)) (const_gain 0) (10 ^ 308) (- (10 ^ 308)) (1 / DT_CTRL),
              lt_steering_angle_deadzone_deg = tq_steeringAngleDeadzoneDeg tuning,
              lt_buffer = replicate buffer_len 0, lt_filter = filter_init 0 (1 / (2 * pi * LP_FILTER_CUTOFF_HZ)) DT_CTRL True,
              lt_previous_measurement = 0, lt_ext = torque_ext_init CP p \<rparr>))"

definition update_torque_parameters :: "torque_ci \<Rightarrow> real \<Rightarrow> real \<Rightarrow> real \<Rightarrow> lat_torque \<Rightarrow> lat_torque" where
  "update_torque_parameters CI latAccelFactor latAccelOffset friction t =
     lt_update_limits CI
       (t\<lparr>lt_params := (lt_params t)\<lparr>tq_latAccelFactor := latAccelFactor, tq_latAccelOffset := latAccelOffset,
                                     tq_friction := friction\<rparr>\<rparr>)"

definition lat_torque_reset :: "lat_torque \<Rightarrow> lat_torque" where
  "lat_torque_reset t = t\<lparr>lt_sat := lat_sat_reset (lt_sat t)\<rparr>"

text \<open>The numbers of a frame that the controller hands to its extension.\<close>

record torque_frame =
  tf_ff :: real
  tf_setpoint :: real
  tf_measurement :: real
  tf_roll_compensation :: real
  tf_desired_lateral_accel :: real
  tf_lateral_accel_deadzone :: real
  tf_gravity_adjusted :: real

definition freeze_integrator :: "car_state \<Rightarrow> bool \<Rightarrow> bool" where
  "freeze_integrator CS limited \<longleftrightarrow> limited \<or> cs_steeringPressed CS \<or> cs_vEgo CS < 5"

text \<open>The jerk-aware controller: error and feed-forward in torque space, a second update of the PID
  controller, which by now is the controller's own.\<close>

definition update_jerk_aware :: "torque_ci \<Rightarrow> car_state \<Rightarrow> bool \<Rightarrow> torque_frame \<Rightarrow> real \<times> lat_torque \<Rightarrow> (real \<times> lat_torque) option" where
  "update_jerk_aware CI CS limited F = (\<lambda>(output_torque, t).
     if \<not> te_jerk_aware_enabled (lt_ext t) then Some (output_torque, t)
     else
       do { let torque_of = (\<lambda>a. tc_torque_in_torque_space CI (a, tf_roll_compensation F, cs_vEgo CS, cs_aEgo CS) (lt_params t));
            let error = torque_of (tf_setpoint F) False - torque_of (tf_measurement F) False;
            let ff = torque_of (tf_gravity_adjusted F) True +
                     tc_get_friction_in_torque_space CI
                       (update_friction_input (tf_desired_lateral_accel F) (tf_measurement F) (lt_ext t))
                       (tf_lateral_accel_deadzone F) (tc_FRICTION_THRESHOLD CI) (lt_params t);
            c \<leftarrow> pid_update error 0 (cs_vEgo CS) ff (freeze_integrator CS limited) (lt_pid t);
            Some (pid_control c, t\<lparr>lt_pid := c\<rparr>) })"

definition ext_update :: "torque_ci \<Rightarrow> car_state \<Rightarrow> vehicle_model \<Rightarrow> bool \<Rightarrow> torque_frame \<Rightarrow> real \<times> lat_torque
    \<Rightarrow> (real \<times> lat_torque) option" where
  "ext_update CI CS VM limited F = (\<lambda>(output_torque, t).
     do { ext \<leftarrow> update_calculations CS VM (tf_desired_lateral_accel F)
                  ((lt_ext t)\<lparr>te_last_vego := cs_vEgo CS, te_pid := None\<rparr>);
          update_jerk_aware CI CS limited F (output_torque, t\<lparr>lt_ext := ext\<rparr>) })"

text \<open>The active branch from the integrator on, the same in both versions.\<close>

definition torque_output :: "torque_ci \<Rightarrow> car_state \<Rightarrow> vehicle_model \<Rightarrow> bool \<Rightarrow> bool \<Rightarrow> real \<Rightarrow> real \<Rightarrow> torque_frame \<Rightarrow> lat_torque
    \<Rightarrow> (lac_output \<times> lat_torque) option" where
  "torque_output CI CS VM limited curvature_limited error error_rate F t =
     do { c \<leftarrow> pid_update error error_rate (cs_vEgo CS) (tf_ff F) (freeze_integrator CS limited) (lt_pid t);
          let t = t\<lparr>lt_pid := c\<rparr>;
          let output_torque = tc_torque_from_lateral_accel CI (pid_control c) (lt_params t);
          (output_torque, t) \<leftarrow> ext_update CI CS VM limited F (output_torque, t);
          let (saturated, s) = check_saturation (STEER_MAX - \<bar>output_torque\<bar> < 1 / 1000) CS limited curvature_limited (lt_sat t);
          Some (\<lparr> lo_torque = - output_torque, lo_output = 0, lo_active = True, lo_saturated = saturated \<rparr>, t\<lparr>lt_sat := s\<rparr>) }"

definition inactive_output :: lac_output where
  "inactive_output = \<lparr> lo_torque = 0, lo_output = 0, lo_active = False, lo_saturated = False \<rparr>"

text \<open>\<open>buffer[-k]\<close>, and \<open>append\<close> on the full deque.\<close>

definition from_end :: "real list \<Rightarrow> nat \<Rightarrow> real" where
  "from_end b k = b ! (length b - k)"

definition buffer_append :: "real \<Rightarrow> real list \<Rightarrow> real list" where
  "buffer_append x b = tl b @ [x]"

definition measured_accel :: "car_state \<Rightarrow> vehicle_model \<Rightarrow> vehicle_parameters \<Rightarrow> real" where
  "measured_accel CS VM params =
     - vm_calc_curvature VM (radians (cs_steeringAngleDeg CS - vp_angleOffsetDeg params)) (cs_vEgo CS) (vp_roll params) * (cs_vEgo CS)\<^sup>2"

definition accel_deadzone :: "car_state \<Rightarrow> vehicle_model \<Rightarrow> lat_torque \<Rightarrow> real" where
  "accel_deadzone CS VM t =
     \<bar>vm_calc_curvature VM (radians (lt_steering_angle_deadzone_deg t)) (cs_vEgo CS) 0\<bar> * (cs_vEgo CS)\<^sup>2"

definition delay_frames_v1 :: "real \<Rightarrow> nat" where
  "delay_frames_v1 lat_delay = nat (py_int (np_clip (lat_delay / DT_CTRL + 1) 1 (real buffer_len)))"

definition delay_frames_v0 :: "real \<Rightarrow> nat" where
  "delay_frames_v0 lat_delay = nat (py_int (np_clip (lat_delay / DT_CTRL) 1 (real buffer_len)))"

text \<open>Version 1.  The index is negative: \<open>lookahead_back\<close> is its distance from the end.\<close>

definition lookahead_back :: "nat \<Rightarrow> nat" where
  "lookahead_back delay_frames =
     nat (- py_int (np_clip (of_int (- int delay_frames + lookahead_frames)) (- real buffer_len + 1) (- 2)))"

definition update_v1 :: "torque_ci \<Rightarrow> bool \<Rightarrow> car_state \<Rightarrow> vehicle_model \<Rightarrow> vehicle_parameters \<Rightarrow> bool \<Rightarrow> real \<Rightarrow> bool \<Rightarrow> real
    \<Rightarrow> lat_torque \<Rightarrow> (lac_output \<times> lat_torque) option" where
  "update_v1 CI active CS VM params limited desired_curvature curvature_limited lat_delay t =
     (let measurement = measured_accel CS VM params;
          future = desired_curvature * (cs_vEgo CS)\<^sup>2;
          buffer = buffer_append future (lt_buffer t);
          roll_compensation = vp_roll params * ACCELERATION_DUE_TO_GRAVITY;
          deadzone = accel_deadzone CS VM t;
          delay_frames = delay_frames_v1 lat_delay;
          setpoint = from_end buffer delay_frames;
          error = setpoint - measurement;
          k = lookahead_back delay_frames;
          raw_lateral_jerk = (from_end buffer (k - 1) - from_end buffer (k + 1)) / (2 * DT_CTRL);
          f = filter_update raw_lateral_jerk (lt_filter t);
          gravity_adjusted = future - roll_compensation;
          ff = gravity_adjusted - tq_latAccelOffset (lt_params t) +
               tc_get_friction CI (error + JERK_GAIN * ff_x f) deadzone (tc_FRICTION_THRESHOLD CI) (lt_params t);
          t = t\<lparr>lt_buffer := buffer, lt_filter := f\<rparr>
      in if \<not> active then Some (inactive_output, t)
         else torque_output CI CS VM limited curvature_limited error 0
                \<lparr> tf_ff = ff, tf_setpoint = setpoint, tf_measurement = measurement, tf_roll_compensation = roll_compensation,
                  tf_desired_lateral_accel = future, tf_lateral_accel_deadzone = deadzone, tf_gravity_adjusted = gravity_adjusted \<rparr> t)"

definition update_v0 :: "torque_ci \<Rightarrow> bool \<Rightarrow> car_state \<Rightarrow> vehicle_model \<Rightarrow> vehicle_parameters \<Rightarrow> bool \<Rightarrow> real \<Rightarrow> bool \<Rightarrow> real
    \<Rightarrow> lat_torque \<Rightarrow> (lac_output \<times> lat_torque) option" where
  "update_v0 CI active CS VM params limited desired_curvature curvature_limited lat_delay t =
     (if \<not> active then Some (inactive_output, t)
      else
        let roll_compensation = vp_roll params * ACCELERATION_DUE_TO_GRAVITY;
            deadzone = accel_deadzone CS VM t;
            expected = from_end (lt_buffer t) (delay_frames_v0 lat_delay);
            future = desired_curvature * (cs_vEgo CS)\<^sup>2;
            gravity_adjusted = future - roll_compensation;
            desired_lateral_jerk = (future - expected) / max lat_delay DT_CTRL;
            measurement = measured_accel CS VM params;
            f = filter_update ((measurement - lt_previous_measurement t) / DT_CTRL) (lt_filter t);
            setpoint = lat_delay * desired_lateral_jerk + expected;
            error = setpoint - measurement;
            ff = gravity_adjusted - tq_latAccelOffset (lt_params t) +
                 tc_get_friction CI error deadzone FRICTION_THRESHOLD_V0 (lt_params t)
        in torque_output CI CS VM limited curvature_limited error (- ff_x f)
             \<lparr> tf_ff = ff, tf_setpoint = setpoint, tf_measurement = measurement, tf_roll_compensation = roll_compensation,
               tf_desired_lateral_accel = future, tf_lateral_accel_deadzone = deadzone, tf_gravity_adjusted = gravity_adjusted \<rparr>
             (t\<lparr>lt_buffer := buffer_append future (lt_buffer t), lt_filter := f, lt_previous_measurement := measurement\<rparr>))"

text \<open>The start of both updates: the override of the tuning, and the limits that follow it.\<close>

definition override_tuning :: "torque_ci \<Rightarrow> params \<Rightarrow> lat_torque \<Rightarrow> lat_torque option" where
  "override_tuning CI p t =
     do { (changed, tuning, ext) \<leftarrow> update_override_torque_params p (lt_params t, lt_ext t);
          let t = t\<lparr>lt_params := tuning, lt_ext := ext\<rparr>;
          Some (if changed then ext_update_limits (lt_update_limits CI t) else t) }"

definition lat_torque_update :: "torque_ci \<Rightarrow> params \<Rightarrow> bool \<Rightarrow> car_state \<Rightarrow> vehicle_model \<Rightarrow> vehicle_parameters \<Rightarrow> bool \<Rightarrow> real \<Rightarrow> bool
    \<Rightarrow> real \<Rightarrow> lat_torque \<Rightarrow> (lac_output \<times> lat_torque) option" where
  "lat_torque_update CI p active CS VM params limited desired_curvature curvature_limited lat_delay t =
     do { t \<leftarrow> override_tuning CI p t;
          (case lt_version t of V0 \<Rightarrow> update_v0 | V1 \<Rightarrow> update_v1)
            CI active CS VM params limited desired_curvature curvature_limited lat_delay t }"

end
