(* ===== verification/Controls.thy ===== *)
theory Controls
  imports LongControl LatTorque ParamsStore EventsBase
begin

text \<open>
  \<open>selfdrive/controls/controlsd.py\<close> with \<open>sunnypilot/selfdrive/controls/controlsd_ext.py\<close> and
  \<open>blinker_pause_lateral.py\<close>: what controlsd sends to the car in a frame, from the latest messages.
  The car interface and the vehicle model (opendbc) are fields of the environment.  Floats are exact reals, so the replacement of NaN and infinite actuators
  by 0 has no counterpart.
\<close>

section \<open>\<open>BlinkerPauseLateral\<close>\<close>

record blinker_pause =
  bp_enabled :: bool
  bp_is_metric :: bool
  bp_min_speed :: real
  bp_reengage_delay :: real
  bp_blinker_off_timer :: real

definition blinker_pause_init :: "params \<Rightarrow> blinker_pause" where
  "blinker_pause_init p =
     \<lparr> bp_enabled = get_bool ''BlinkerPauseLateralControl'' p, bp_is_metric = get_bool ''IsMetric'' p,
       bp_min_speed = 0, bp_reengage_delay = 0, bp_blinker_off_timer = 0 \<rparr>"

definition blinker_pause_get_params :: "params \<Rightarrow> blinker_pause \<Rightarrow> blinker_pause option" where
  "blinker_pause_get_params p b =
     do { min_speed \<leftarrow> get_float ''BlinkerMinLateralControlSpeed'' p;
          delay \<leftarrow> get_float ''BlinkerLateralReengageDelay'' p;
          Some (b\<lparr>bp_enabled := get_bool ''BlinkerPauseLateralControl'' p, bp_is_metric := get_bool ''IsMetric'' p,
                  bp_min_speed := min_speed, bp_reengage_delay := delay\<rparr>) }"

definition blinker_pause_update :: "car_state \<Rightarrow> blinker_pause \<Rightarrow> bool \<times> blinker_pause" where
  "blinker_pause_update CS b =
     (if \<not> bp_enabled b then (False, b)
      else
        (let one_blinker = (cs_leftBlinker CS \<noteq> cs_rightBlinker CS);
             speed_factor = (if bp_is_metric b then KPH_TO_MS else MPH_TO_MS);
             below_speed = (cs_vEgo CS < bp_min_speed b * speed_factor);
             b = (if one_blinker \<and> below_speed then b\<lparr>bp_blinker_off_timer := bp_reengage_delay b\<rparr>
                  else if 0 < bp_blinker_off_timer b
                  then b\<lparr>bp_blinker_off_timer := bp_blinker_off_timer b - 1 / 100\<rparr> else b)
         in (one_blinker \<and> below_speed \<or> 0 < bp_blinker_off_timer b, b)))"

section \<open>State, environment and inputs\<close>

datatype lat_controller = LatAngle lat_angle | LatCurvature lat_curvature | LatPID lat_pid | LatTorque lat_torque

text \<open>What the frame reads, with the \<open>all_checks\<close> and \<open>updated\<close> of \<open>lateralTorqueParameters\<close>; of the model's
  plan, the accelerations and the number of orientations.\<close>

record ctl_inputs =
  ci_CS :: car_state
  ci_params :: vehicle_parameters
  ci_enabled :: bool
  ci_active :: bool
  ci_state :: openpilot_state
  ci_personality :: int
  ci_visual_alert :: visual_alert
  ci_mads_available :: bool
  ci_mads_active :: bool
  ci_onroadEvents :: "(int \<times> ET list) list"
  ci_aTarget :: real
  ci_shouldStop :: bool
  ci_hasLead :: bool
  ci_laneChangeState :: lane_change_state
  ci_laneChangeDirection :: lane_change_direction
  ci_desiredCurvature :: real
  ci_maneuver_valid :: bool
  ci_maneuver_curvature :: real
  ci_output_angle :: real
  ci_output_torque :: real
  ci_assistance_valid :: bool
  ci_left_departure :: bool
  ci_right_departure :: bool
  ci_torque_params :: lateral_torque_parameters
  ci_torque_checks :: bool
  ci_torque_updated :: bool
  ci_lateralDelay :: real
  ci_acceleration_y :: "real list"
  ci_orientation_length :: nat

text \<open>\<open>calc_curvature\<close> and \<open>get_steer_from_curvature\<close> take stiffness factor and steer ratio first.\<close>

record ctl_env =
  ce_CP :: car_params
  ce_CP_SP :: car_params_sp
  ce_calc_curvature :: "real \<Rightarrow> real \<Rightarrow> real \<Rightarrow> real \<Rightarrow> real \<Rightarrow> real"
  ce_get_steer :: "real \<Rightarrow> real \<Rightarrow> real \<Rightarrow> real \<Rightarrow> real \<Rightarrow> real"
  ce_pid_accel_limits :: "real \<Rightarrow> real \<Rightarrow> real \<times> real"
  ce_steer_feedforward :: "real \<Rightarrow> real \<Rightarrow> real"
  ce_torque :: torque_ci

record controls =
  cl_steer_limited_by_safety :: bool
  cl_curvature :: real
  cl_desired_curvature :: real
  cl_LoC :: long_control
  cl_LaC :: "lat_controller"
  cl_blinker :: blinker_pause
  cl_param_update_time :: real
  cl_lat_delay :: "real option"

text \<open>The choice of the steering controller, with \<open>initialize_lateral_control\<close>: version 0 of the
  torque controller is the sunnypilot one.\<close>

definition stock_lateral_control :: "ctl_env \<Rightarrow> params \<Rightarrow> lat_controller option" where
  "stock_lateral_control E p =
     (let CP = ce_CP E
      in if cp_steerControlType CP = SCT_angle then Some (LatAngle (lat_angle_init CP DT_CTRL))
         else if cp_steerControlType CP = SCT_curvature then Some (LatCurvature (lat_curvature_init CP DT_CTRL))
         else (case cp_lateralTuning CP of
                 Tuning_pid kp ki kf \<Rightarrow> Some (LatPID (lat_pid_init CP DT_CTRL kp ki kf))
               | Tuning_torque _ \<Rightarrow> map_option LatTorque (lat_torque_init V1 (ce_torque E) CP p)))"

definition initialize_lateral_control :: "ctl_env \<Rightarrow> params \<Rightarrow> lat_controller \<Rightarrow> lat_controller option" where
  "initialize_lateral_control E p lac =
     (let torque_v0 = map_option LatTorque (lat_torque_init V0 (ce_torque E) (ce_CP E) p)
      in if \<not> get_bool ''EnforceTorqueControl'' p then
           (if is_torque (cp_lateralTuning (ce_CP E)) then torque_v0 else Some lac)
         else if pr_values p ''TorqueControlTune'' = Some (PFloat 0) then torque_v0
         else Some lac)"

definition controls_init :: "ctl_env \<Rightarrow> params \<Rightarrow> controls option" where
  "controls_init E p =
     do { lac \<leftarrow> stock_lateral_control E p;
          lac \<leftarrow> initialize_lateral_control E p lac;
          Some \<lparr> cl_steer_limited_by_safety = False, cl_curvature = 0, cl_desired_curvature = 0,
                 cl_LoC = long_control_init (ce_CP E), cl_LaC = lac, cl_blinker = blinker_pause_init p,
                 cl_param_update_time = 0, cl_lat_delay = get_float ''LagdValueCache'' p \<rparr> }"

fun lat_reset :: "ctl_env \<Rightarrow> lat_controller \<Rightarrow> lat_controller" where
  "lat_reset E (LatAngle la) = LatAngle (la\<lparr>lan_sat := lat_sat_reset (lan_sat la)\<rparr>)"
| "lat_reset E (LatCurvature lc) = LatCurvature (lat_curvature_reset lc)"
| "lat_reset E (LatPID lp) = LatPID (lp\<lparr>lpd_sat := lat_sat_reset (lpd_sat lp)\<rparr>)"
| "lat_reset E (LatTorque t) = LatTorque (lat_torque_reset t)"

text \<open>The delay of the steering is the one \<open>lagd\<close> publishes and the smoothing of the model.\<close>

definition LAT_SMOOTH_SECONDS :: real where "LAT_SMOOTH_SECONDS = 0"

fun lat_update ::
  "ctl_env \<Rightarrow> params \<Rightarrow> bool \<Rightarrow> ctl_inputs \<Rightarrow> vehicle_model \<Rightarrow> bool \<Rightarrow> real \<Rightarrow> bool \<Rightarrow> lat_controller
   \<Rightarrow> (lac_output \<times> lat_controller) option" where
  "lat_update E p active inp VM limited desired limited_curv (LatAngle la) =
     (let (out, la) = lat_angle_update active (ci_CS inp) VM (ci_params inp) limited desired limited_curv la
      in Some (out, LatAngle la))"
| "lat_update E p active inp VM limited desired limited_curv (LatCurvature lc) =
     do { (out, lc) \<leftarrow> lat_curvature_update active (ci_CS inp) VM (ci_params inp) desired limited_curv lc;
          Some (out, LatCurvature lc) }"
| "lat_update E p active inp VM limited desired limited_curv (LatPID lp) =
     do { (out, lp) \<leftarrow> lat_pid_update (ce_steer_feedforward E) active (ci_CS inp) VM (ci_params inp) limited desired limited_curv lp;
          Some (out, LatPID lp) }"
| "lat_update E p active inp VM limited desired limited_curv (LatTorque t) =
     do { (out, t) \<leftarrow> lat_torque_update (ce_torque E) p active (ci_CS inp) VM (ci_params inp) limited desired limited_curv
                      (ci_lateralDelay inp + LAT_SMOOTH_SECONDS) t;
          Some (out, LatTorque t) }"

section \<open>\<open>state_control\<close>\<close>

definition get_lat_active :: "ctl_inputs \<Rightarrow> blinker_pause \<Rightarrow> bool \<times> blinker_pause" where
  "get_lat_active inp b =
     (let (pause, b) = blinker_pause_update (ci_CS inp) b
      in (if pause then False else if ci_mads_available inp then ci_mads_active inp else ci_active inp, b))"

text \<open>Only the torque controllers have the methods the torque tuning calls (\<open>AttributeError\<close> on the others).\<close>

definition update_torque_params :: "ctl_env \<Rightarrow> ctl_inputs \<Rightarrow> real option \<Rightarrow> lat_controller \<Rightarrow> lat_controller option" where
  "update_torque_params E inp lat_delay lac =
     (if \<not> is_torque (cp_lateralTuning (ce_CP E)) then Some lac
      else case lac of
          LatTorque t \<Rightarrow>
            do { lag \<leftarrow> lat_delay;
                 let tp = ci_torque_params inp;
                 let t = (if ci_torque_checks inp \<and> tp_useParams tp
                          then ext_update_limits (update_torque_parameters (ce_torque E) (tp_latAccelFactorFiltered tp)
                                 (tp_latAccelOffsetFiltered tp) (tp_frictionCoefficientFiltered tp) t)
                          else t);
                 let ext = update_model_v2 (ci_acceleration_y inp) (ci_orientation_length inp) (lt_ext t);
                 Some (LatTorque (t\<lparr>lt_ext := update_lateral_lag lag ext\<rparr>)) }
        | _ \<Rightarrow> None)"

record actuators =
  ac_accel :: real
  ac_torque :: real
  ac_curvature :: real
  ac_steeringAngleDeg :: real
  ac_longControlState :: long_ctrl_state
  ac_latActive :: bool
  ac_longActive :: bool
  ac_leftBlinker :: bool
  ac_rightBlinker :: bool

definition frame_vehicle_model :: "ctl_env \<Rightarrow> vehicle_parameters \<Rightarrow> vehicle_model" where
  "frame_vehicle_model E lp =
     (let x = max (vp_stiffnessFactor lp) (1 / 10); sr = max (vp_steerRatio lp) (1 / 10)
      in \<lparr> vm_calc_curvature = ce_calc_curvature E x sr, vm_get_steer_from_curvature = ce_get_steer E x sr \<rparr>)"

definition lat_allowed :: "car_params \<Rightarrow> car_state \<Rightarrow> bool" where
  "lat_allowed CP CS \<longleftrightarrow>
     (let standstill = (\<bar>cs_vEgo CS\<bar> \<le> max (cp_minSteerSpeed CP) (3 / 10) \<or> cs_standstill CS)
      in \<not> cs_steerFaultTemporary CS \<and> \<not> cs_steerFaultPermanent CS \<and> (\<not> standstill \<or> cp_steerAtStandstill CP))"

definition long_allowed :: "ctl_env \<Rightarrow> ctl_inputs \<Rightarrow> bool" where
  "long_allowed E inp \<longleftrightarrow> ci_enabled inp \<and> \<not> list_ex (\<lambda>(e, ts). OVERRIDE_LONGITUDINAL \<in> set ts) (ci_onroadEvents inp) \<and>
     (cp_openpilotLongitudinalControl (ce_CP E) \<or> \<not> cpsp_pcmCruiseSpeed (ce_CP_SP E))"

text \<open>A controller that may not act in this frame is reset.\<close>

definition gated :: "bool \<Rightarrow> ('a \<Rightarrow> 'a) \<Rightarrow> 'a \<Rightarrow> 'a" where
  "gated active reset x = (if \<not> active then reset x else x)"

definition target_curvature :: "ctl_inputs \<Rightarrow> bool \<Rightarrow> real \<Rightarrow> real" where
  "target_curvature inp latActive curvature =
     (if ci_maneuver_valid inp then (if latActive then ci_maneuver_curvature inp else curvature)
      else if latActive then ci_desiredCurvature inp else curvature)"

definition state_control ::
  "ctl_env \<Rightarrow> params \<Rightarrow> ctl_inputs \<Rightarrow> controls \<Rightarrow> (actuators \<times> lac_output \<times> controls) option" where
  "state_control E p inp c =
     do { let CS = ci_CS inp;
          let CP = ce_CP E;
          let lp = ci_params inp;
          let VM = frame_vehicle_model E lp;
          let c = c\<lparr>cl_curvature := - vm_calc_curvature VM (radians (cs_steeringAngleDeg CS - vp_angleOffsetDeg lp))
                                       (cs_vEgo CS) (vp_roll lp)\<rparr>;
          lac \<leftarrow> update_torque_params E inp (cl_lat_delay c) (cl_LaC c);
          let (lat_active, b) = get_lat_active inp (cl_blinker c);
          let latActive = (lat_active \<and> lat_allowed CP CS);
          let longActive = long_allowed E inp;
          let longControlState = loc_state (cl_LoC c);
          let changing = (ci_laneChangeState inp \<noteq> LCS_off);
          let lac = gated latActive (lat_reset E) lac;
          let loc = gated longActive long_control_reset (cl_LoC c);
          let limits = ce_pid_accel_limits E (cs_vEgo CS) (cs_vCruise CS * KPH_TO_MS);
          loc \<leftarrow> long_control_update CP (ce_CP_SP E) longActive CS (ci_aTarget inp) (ci_shouldStop inp) limits loc;
          let (desired, curvature_limited) =
                clip_curvature (cs_vEgo CS) (cl_desired_curvature c) (target_curvature inp latActive (cl_curvature c)) (vp_roll lp);
          (out, lac) \<leftarrow> lat_update E p latActive inp VM (cl_steer_limited_by_safety c) desired curvature_limited lac;
          Some (\<lparr> ac_accel = loc_last_output_accel loc, ac_torque = lo_torque out,
                  ac_curvature = (if cp_steerControlType CP = SCT_curvature then lo_output out else desired),
                  ac_steeringAngleDeg = (if cp_steerControlType CP = SCT_curvature then 0 else lo_output out),
                  ac_longControlState = longControlState, ac_latActive = latActive, ac_longActive = longActive,
                  ac_leftBlinker = (changing \<and> ci_laneChangeDirection inp = LCD_left),
                  ac_rightBlinker = (changing \<and> ci_laneChangeDirection inp = LCD_right) \<rparr>,
                out, c\<lparr>cl_LaC := lac, cl_LoC := loc, cl_blinker := b, cl_desired_curvature := desired\<rparr>) }"

section \<open>\<open>publish\<close> and \<open>run\<close>\<close>

record ctl_output =
  co_actuators :: actuators
  co_enabled :: bool
  co_override :: bool
  co_cancel :: bool
  co_resume :: bool
  co_currentCurvature :: real
  co_setSpeed :: real
  co_leadVisible :: bool
  co_leadDistanceBars :: int
  co_visualAlert :: visual_alert
  co_leftLaneDepart :: bool
  co_rightLaneDepart :: bool
  co_forceDecel :: bool
  co_desiredCurvature :: real
  co_longControlState :: long_ctrl_state
  co_accel_terms :: "real \<times> real \<times> real"
  co_lac_active :: bool
  co_lac_saturated :: bool
  co_valid :: bool

definition ctl_publish ::
  "ctl_env \<Rightarrow> ctl_inputs \<Rightarrow> actuators \<Rightarrow> lac_output \<Rightarrow> controls \<Rightarrow> ctl_output \<times> controls" where
  "ctl_publish E inp a out c =
     (let CS = ci_CS inp; CP = ce_CP E; enabled = ci_enabled inp;
          (lat_active, b) = get_lat_active inp (cl_blinker c);
          limited = (if lat_active then
                       (if cp_steerControlType CP = SCT_angle
                        then STEER_ANGLE_SATURATION_THRESHOLD < \<bar>ac_steeringAngleDeg a - ci_output_angle inp\<bar>
                        else 1 / 100 < \<bar>ac_torque a - ci_output_torque inp\<bar>)
                     else cl_steer_limited_by_safety c);
          pid = loc_pid (cl_LoC c)
      in (\<lparr> co_actuators = a, co_enabled = enabled,
            co_override = (enabled \<and> \<not> ac_longActive a \<and>
               (cp_openpilotLongitudinalControl CP \<or> \<not> cpsp_pcmCruiseSpeed (ce_CP_SP E))),
            co_cancel = (cr_enabled (cs_cruiseState CS) \<and> (\<not> enabled \<or> \<not> cp_pcmCruise CP)),
            co_resume = (enabled \<and> cr_standstill (cs_cruiseState CS) \<and> \<not> ci_shouldStop inp),
            co_currentCurvature = cl_curvature c, co_setSpeed = cs_vCruiseCluster CS * KPH_TO_MS,
            co_leadVisible = ci_hasLead inp, co_leadDistanceBars = ci_personality inp + 1,
            co_visualAlert = ci_visual_alert inp,
            co_leftLaneDepart = (ci_assistance_valid inp \<and> ci_left_departure inp),
            co_rightLaneDepart = (ci_assistance_valid inp \<and> ci_right_departure inp),
            co_forceDecel = (ci_state inp = OS_softDisabling), co_desiredCurvature = cl_desired_curvature c,
            co_longControlState = loc_state (cl_LoC c), co_accel_terms = (pid_p pid, pid_i pid, pid_f pid),
            co_lac_active = lo_active out, co_lac_saturated = lo_saturated out, co_valid = cs_canValid CS \<rparr>,
          c\<lparr>cl_blinker := b, cl_steer_limited_by_safety := limited\<rparr>))"

text \<open>\<open>get_lat_delay\<close>: what \<open>lagd\<close> learned, or the cached sum of the fixed delays.\<close>

definition get_lat_delay :: "params \<Rightarrow> real \<Rightarrow> real option" where
  "get_lat_delay p stock_lat_delay =
     (if get_bool ''LagdToggle'' p then Some stock_lat_delay else get_float ''LagdValueCache'' p)"

text \<open>\<open>get_params_sp\<close> reads the clock before and after.\<close>

definition get_params_sp :: "ctl_env \<Rightarrow> params \<Rightarrow> real \<times> real \<Rightarrow> ctl_inputs \<Rightarrow> controls \<Rightarrow> controls option" where
  "get_params_sp E p clock inp c =
     (if PARAMS_UPDATE_PERIOD < fst clock - cl_param_update_time c
      then do { b \<leftarrow> blinker_pause_get_params p (cl_blinker c);
                let c = c\<lparr>cl_blinker := b\<rparr>;
                c \<leftarrow> (if is_torque (cp_lateralTuning (ce_CP E))
                      then do { lag \<leftarrow> get_lat_delay p (ci_lateralDelay inp); Some (c\<lparr>cl_lat_delay := Some lag\<rparr>) }
                      else Some c);
                Some (c\<lparr>cl_param_update_time := snd clock\<rparr>) }
      else Some c)"

text \<open>The speed-dependent tables in \<open>run_ext\<close>; \<open>carControlSP\<close> copies messages and is left out.\<close>

definition run_ext :: "ctl_env \<Rightarrow> ctl_inputs \<Rightarrow> lat_controller \<Rightarrow> lat_controller" where
  "run_ext E inp lac =
     (case lac of
        LatTorque t \<Rightarrow>
          if is_torque (cp_lateralTuning (ce_CP E)) \<and> ci_torque_updated inp then
            (if ci_torque_checks inp \<and> tp_useParams (ci_torque_params inp)
             then LatTorque (t\<lparr>lt_ext := update_speed_dep_torque (ce_CP E) (ci_torque_params inp) (lt_ext t)\<rparr>)
             else LatTorque (t\<lparr>lt_ext := (lt_ext t)\<lparr>te_speed_dep_active := False\<rparr>\<rparr>))
          else lac
      | _ \<Rightarrow> lac)"

text \<open>One round of \<open>run\<close>.\<close>

definition ctl_step ::
  "ctl_env \<Rightarrow> params \<times> (real \<times> real) \<times> ctl_inputs \<Rightarrow> controls \<Rightarrow> (ctl_output \<times> controls) option" where
  "ctl_step E = (\<lambda>(p, clock, inp) c.
     do { (a, out, c) \<leftarrow> state_control E p inp c;
          let (co, c) = ctl_publish E inp a out c;
          c \<leftarrow> get_params_sp E p clock inp c;
          Some (co, c\<lparr>cl_LaC := run_ext E inp (cl_LaC c)\<rparr>) })"

fun ctl_run ::
  "ctl_env \<Rightarrow> (params \<times> (real \<times> real) \<times> ctl_inputs) list \<Rightarrow> controls \<Rightarrow> (ctl_output list \<times> controls) option" where
  "ctl_run E [] c = Some ([], c)"
| "ctl_run E (f # fs) c =
     do { (co, c) \<leftarrow> ctl_step E f c; (outs, c) \<leftarrow> ctl_run E fs c; Some (co # outs, c) }"

end
