(* ===== verification/LatTorqueProps.thy ===== *)
theory LatTorqueProps
  imports LatTorque
begin

text \<open>
  The torque controllers over every sequence of the calls \<open>controlsd\<close> makes: they do not raise, do not steer
  while inactive, keep the torque within its range when the car's conversions are inverse to each other, and
  follow the request made one actuator delay ago; and what the shared PID object does to the jerk-aware
  controller.
\<close>

section \<open>The invariant\<close>

definition ext_wf :: "torque_ext \<Rightarrow> bool" where
  "ext_wf ext \<longleftrightarrow> (te_model_valid ext \<longrightarrow> length (te_acceleration_y ext) = 33) \<and>
     (te_speed_dep_active ext \<longrightarrow> length (te_speed_dep_lat_accel_factor_bp ext) = length (te_speed_dep_speed_bp ext) \<and>
        length (te_speed_dep_friction_bp ext) = length (te_speed_dep_speed_bp ext))"

definition torque_wf :: "lat_torque \<Rightarrow> bool" where
  "torque_wf t \<longleftrightarrow> pid_wf (lt_pid t) \<and> length (lt_buffer t) = 100 \<and> ext_wf (lt_ext t)"

definition override_readable :: "params \<Rightarrow> bool" where
  "override_readable p \<longleftrightarrow> get_float ''TorqueParamsOverrideLatAccelFactor'' p \<noteq> None \<and>
     get_float ''TorqueParamsOverrideFriction'' p \<noteq> None"

lemma buffer_len_100 [simp]: "buffer_len = 100"
  by (simp add: buffer_len_def LAT_ACCEL_REQUEST_BUFFER_SECONDS_def DT_CTRL_def py_int_def)

lemma torque_gains_wf [simp]: "gain_wf (torque_gains v)"
  by (simp add: torque_gains_def gain_wf_def)

lemma model_times: "length MODEL_T_IDXS = 33" "MODEL_T_IDXS \<noteq> []"
proof -
  show "length MODEL_T_IDXS = 33" by (simp add: MODEL_T_IDXS_def)
  then show "MODEL_T_IDXS \<noteq> []" by auto
qed

lemma np_diff_length [simp]: "length (np_diff xs) = length xs - 1"
  by (simp add: np_diff_def)

lemma lt_limits_fields [frame_simps]:
  "torque_wf (lt_update_limits CI t) = torque_wf t" "torque_wf (ext_update_limits t) = torque_wf t"
  "lt_version (lt_update_limits CI t) = lt_version t" "lt_version (ext_update_limits t) = lt_version t"
  "lt_params (lt_update_limits CI t) = lt_params t" "lt_params (ext_update_limits t) = lt_params t"
  "lt_buffer (lt_update_limits CI t) = lt_buffer t" "lt_buffer (ext_update_limits t) = lt_buffer t"
  "lt_ext (lt_update_limits CI t) = lt_ext t"
  "te_jerk_aware_enabled (lt_ext (ext_update_limits t)) = te_jerk_aware_enabled (lt_ext t)"
  "te_lat_accel_friction_factor (lt_ext (ext_update_limits t)) = te_lat_accel_friction_factor (lt_ext t)"
  by (auto simp: lt_update_limits_def ext_update_limits_def torque_wf_def ext_wf_def frame_simps split: option.split)

lemma lat_torque_init_wf: "lat_torque_init v CI CP p = Some t \<Longrightarrow> torque_wf t"
  by (auto simp: lat_torque_init_def torque_wf_def ext_wf_def torque_ext_init_def lt_update_limits_def set_limits_def pid_init_def
      pid_wf_def split: lateral_tuning.splits)

lemma reset_wf [frame_simps]:
  "torque_wf (lat_torque_reset t) = torque_wf t" "lt_ext (lat_torque_reset t) = lt_ext t" "lt_pid (lat_torque_reset t) = lt_pid t"
  "lt_params (lat_torque_reset t) = lt_params t" "lt_version (lat_torque_reset t) = lt_version t" "lt_buffer (lat_torque_reset t) = lt_buffer t"
  by (simp_all add: lat_torque_reset_def torque_wf_def)

lemma update_torque_parameters_wf [frame_simps]:
  "torque_wf (update_torque_parameters CI f off fr t) = torque_wf t" "lt_version (update_torque_parameters CI f off fr t) = lt_version t"
  "lt_buffer (update_torque_parameters CI f off fr t) = lt_buffer t" "lt_ext (update_torque_parameters CI f off fr t) = lt_ext t"
  by (simp_all add: update_torque_parameters_def frame_simps) (simp add: torque_wf_def)

text \<open>The calls that only set fields of the extension.\<close>

lemma ext_setters:
  "ext_wf ext \<Longrightarrow> (CONTROL_N \<le> n \<longrightarrow> length y = 33) \<Longrightarrow> ext_wf (update_model_v2 y n ext)"
  "ext_wf ext \<Longrightarrow> ext_wf (update_lateral_lag lag ext)"
  "ext_wf ext \<Longrightarrow> ext_wf (update_speed_dep_torque CP tp ext)"
  "ext_wf ext \<Longrightarrow> ext_wf (ext\<lparr>te_speed_dep_active := False\<rparr>)"
  by (simp_all add: ext_wf_def update_model_v2_def update_lateral_lag_def update_speed_dep_torque_def Let_def split: prod.split)

lemma ext_setters_fields [frame_simps]:
  "te_jerk_aware_enabled (update_model_v2 y n ext) = te_jerk_aware_enabled ext"
  "te_jerk_aware_enabled (update_lateral_lag lag ext) = te_jerk_aware_enabled ext"
  "te_jerk_aware_enabled (update_speed_dep_torque CP tp ext) = te_jerk_aware_enabled ext"
  "te_lat_accel_friction_factor (update_model_v2 y n ext) = te_lat_accel_friction_factor ext"
  "te_lat_accel_friction_factor (update_lateral_lag lag ext) = te_lat_accel_friction_factor ext"
  "te_lat_accel_friction_factor (update_speed_dep_torque CP tp ext) = te_lat_accel_friction_factor ext"
  "te_pid (update_model_v2 y n ext) = te_pid ext" "te_pid (update_lateral_lag lag ext) = te_pid ext"
  "te_pid (update_speed_dep_torque CP tp ext) = te_pid ext"
  by (simp_all add: update_model_v2_def update_lateral_lag_def update_speed_dep_torque_def Let_def split: prod.split)

lemma torque_wf_ext: "torque_wf t \<Longrightarrow> ext_wf e \<Longrightarrow> torque_wf (t\<lparr>lt_ext := e\<rparr>)"
  by (simp add: torque_wf_def)

lemma torque_wf_D: "torque_wf t \<Longrightarrow> ext_wf (lt_ext t)"
  by (simp add: torque_wf_def)

section \<open>One update\<close>

text \<open>What an extension keeps through the calculations of a frame.\<close>

definition ext_kept :: "torque_ext \<Rightarrow> torque_ext \<Rightarrow> bool" where
  "ext_kept ext ext' \<longleftrightarrow> te_acceleration_y ext' = te_acceleration_y ext \<and> te_model_valid ext' = te_model_valid ext \<and>
     te_pid ext' = te_pid ext \<and> te_jerk_aware_enabled ext' = te_jerk_aware_enabled ext \<and>
     te_speed_dep_active ext' = te_speed_dep_active ext \<and> te_speed_dep_speed_bp ext' = te_speed_dep_speed_bp ext \<and>
     te_speed_dep_lat_accel_factor_bp ext' = te_speed_dep_lat_accel_factor_bp ext \<and>
     te_speed_dep_friction_bp ext' = te_speed_dep_friction_bp ext \<and>
     te_enforce_torque_control_toggle ext' = te_enforce_torque_control_toggle ext"

lemma ext_kept_wf: "ext_kept ext ext' \<Longrightarrow> ext_wf ext' = ext_wf ext"
  by (simp add: ext_kept_def ext_wf_def)

lemma update_calculations_ok:
  assumes "ext_wf ext"
  shows "\<exists>ext'. update_calculations CS VM a ext = Some ext' \<and> ext_kept ext ext' \<and>
    te_lat_accel_friction_factor ext' \<in> {te_lat_accel_friction_factor ext, 1}"
proof (cases "te_model_valid ext")
  case False
  then show ?thesis by (simp add: update_calculations_def Let_def ext_kept_def)
next
  case True
  then have y: "length (te_acceleration_y ext) = 33" using assms by (simp add: ext_wf_def)
  obtain l where l: "np_interp (cs_vEgo CS) [9, 30] [7 / 5, 2] = Some l" by (simp add: np_interp_def)
  obtain j where j: "get_predicted_lateral_jerk (te_acceleration_y ext) (np_diff MODEL_T_IDXS) = Some j"
    using y by (simp add: get_predicted_lateral_jerk_def Let_def model_times)
  obtain d where d: "np_interp (te_desired_lat_jerk_time ext) MODEL_T_IDXS (te_acceleration_y ext) = Some d"
    using np_interp_defined [OF model_times(2)] y model_times(1) by fastforce
  show ?thesis using True
    by (auto simp: update_calculations_def Let_def l j d ext_kept_def)
qed

lemma override_ok:
  assumes "ext_wf ext" "override_readable p"
  shows "\<exists>changed tuning' ext'. update_override_torque_params p (tuning, ext) = Some (changed, tuning', ext') \<and> ext_kept ext ext' \<and>
    te_lat_accel_friction_factor ext' = te_lat_accel_friction_factor ext \<and> (\<not> changed \<longrightarrow> tuning' = tuning)"
proof -
  obtain f g where fg: "get_float ''TorqueParamsOverrideLatAccelFactor'' p = Some f" "get_float ''TorqueParamsOverrideFriction'' p = Some g"
    using assms(2) by (auto simp: override_readable_def)
  show ?thesis
  proof (cases "te_speed_dep_active ext \<and> te_speed_dep_speed_bp ext \<noteq> []")
    case True
    then obtain a b where ab: "np_interp (te_last_vego ext) (te_speed_dep_speed_bp ext) (te_speed_dep_lat_accel_factor_bp ext) = Some a"
      "np_interp (te_last_vego ext) (te_speed_dep_speed_bp ext) (te_speed_dep_friction_bp ext) = Some b"
      using np_interp_defined assms(1) unfolding ext_wf_def by (metis not_None_eq)
    show ?thesis using True
      by (auto simp: update_override_torque_params_def ab fg Let_def ext_kept_def)
  next
    case False
    then show ?thesis
      by (auto simp: update_override_torque_params_def fg Let_def ext_kept_def)
  qed
qed

lemma override_tuning_ok:
  assumes "torque_wf t" "override_readable p"
  shows "\<exists>t'. override_tuning CI p t = Some t' \<and> torque_wf t' \<and> lt_version t' = lt_version t \<and> lt_buffer t' = lt_buffer t \<and>
    te_jerk_aware_enabled (lt_ext t') = te_jerk_aware_enabled (lt_ext t) \<and>
    te_lat_accel_friction_factor (lt_ext t') = te_lat_accel_friction_factor (lt_ext t)"
proof -
  obtain changed tuning ext where o: "update_override_torque_params p (lt_params t, lt_ext t) = Some (changed, tuning, ext)"
    "ext_kept (lt_ext t) ext" "te_lat_accel_friction_factor ext = te_lat_accel_friction_factor (lt_ext t)"
    using override_ok [of "lt_ext t" p "lt_params t"] assms by (auto simp: torque_wf_def)
  have "torque_wf (t\<lparr>lt_params := tuning, lt_ext := ext\<rparr>)"
    using assms(1) ext_kept_wf [OF o(2)] by (simp add: torque_wf_def)
  then show ?thesis using o(2,3) by (simp add: override_tuning_def o(1) Let_def frame_simps ext_kept_def)
qed

text \<open>What the active branch leaves: the limits, the tuning and the buffer; and the torque it commands.\<close>

definition tables_positive :: "torque_ext \<Rightarrow> bool" where
  "tables_positive ext \<longleftrightarrow> (te_speed_dep_active ext \<longrightarrow> (\<forall>f \<in> set (te_speed_dep_lat_accel_factor_bp ext). 0 < f))"

definition same_setup :: "lat_torque \<Rightarrow> lat_torque \<Rightarrow> bool" where
  "same_setup t t' \<longleftrightarrow> lt_version t' = lt_version t \<and> lt_params t' = lt_params t \<and> lt_buffer t' = lt_buffer t \<and>
     pid_pos_limit (lt_pid t') = pid_pos_limit (lt_pid t) \<and> pid_neg_limit (lt_pid t') = pid_neg_limit (lt_pid t) \<and>
     te_jerk_aware_enabled (lt_ext t') = te_jerk_aware_enabled (lt_ext t) \<and>
     tables_positive (lt_ext t') = tables_positive (lt_ext t)"

definition commands :: "torque_ci \<Rightarrow> lat_torque \<Rightarrow> real \<Rightarrow> bool" where
  "commands CI t torque \<longleftrightarrow>
     (\<exists>x. let u = np_clip x (pid_neg_limit (lt_pid t)) (pid_pos_limit (lt_pid t))
          in torque = - (if te_jerk_aware_enabled (lt_ext t) then u else tc_torque_from_lateral_accel CI u (lt_params t)))"

lemma jerk_aware_ok:
  assumes "torque_wf t"
  shows "\<exists>out t'. update_jerk_aware CI CS limited F (output_torque, t) = Some (out, t') \<and> torque_wf t' \<and> same_setup t t' \<and> lt_ext t' = lt_ext t \<and>
    lt_sat t' = lt_sat t \<and>
    (\<not> te_jerk_aware_enabled (lt_ext t) \<longrightarrow> out = output_torque) \<and>
    (te_jerk_aware_enabled (lt_ext t) \<longrightarrow> (\<exists>x. out = np_clip x (pid_neg_limit (lt_pid t)) (pid_pos_limit (lt_pid t))))"
proof (cases "te_jerk_aware_enabled (lt_ext t)")
  case True
  let ?of = "\<lambda>a. tc_torque_in_torque_space CI (a, tf_roll_compensation F, cs_vEgo CS, cs_aEgo CS) (lt_params t)"
  let ?e = "?of (tf_setpoint F) False - ?of (tf_measurement F) False"
  let ?f = "?of (tf_gravity_adjusted F) True + tc_get_friction_in_torque_space CI
    (update_friction_input (tf_desired_lateral_accel F) (tf_measurement F) (lt_ext t)) (tf_lateral_accel_deadzone F)
    (tc_FRICTION_THRESHOLD CI) (lt_params t)"
  have wf: "pid_wf (lt_pid t)" using assms by (simp add: torque_wf_def)
  obtain c where c: "pid_update ?e 0 (cs_vEgo CS) ?f (freeze_integrator CS limited) (lt_pid t) = Some c" "pid_wf c"
    "pid_neg_limit c = pid_neg_limit (lt_pid t)" "pid_pos_limit c = pid_pos_limit (lt_pid t)"
    "\<exists>x. pid_control c = np_clip x (pid_neg_limit (lt_pid t)) (pid_pos_limit (lt_pid t))"
    using pid_update_ok [OF wf, of ?e 0 "cs_vEgo CS" ?f "freeze_integrator CS limited"] by blast
  have eq: "update_jerk_aware CI CS limited F (output_torque, t) = Some (pid_control c, t\<lparr>lt_pid := c\<rparr>)"
    using True by (simp add: update_jerk_aware_def Let_def c(1))
  show ?thesis
    by (intro exI conjI, rule eq) (use True assms c(2-5) in \<open>simp_all add: torque_wf_def same_setup_def\<close>)
next
  case False
  then show ?thesis using assms by (simp add: update_jerk_aware_def same_setup_def)
qed

lemma ext_update_ok:
  assumes "torque_wf t"
  shows "\<exists>out t'. ext_update CI CS VM limited F (output_torque, t) = Some (out, t') \<and> torque_wf t' \<and> same_setup t t' \<and>
    lt_sat t' = lt_sat t \<and> te_pid (lt_ext t') = None \<and>
    te_lat_accel_friction_factor (lt_ext t') \<in> {te_lat_accel_friction_factor (lt_ext t), 1} \<and>
    (\<not> te_jerk_aware_enabled (lt_ext t) \<longrightarrow> out = output_torque) \<and>
    (te_jerk_aware_enabled (lt_ext t) \<longrightarrow> (\<exists>x. out = np_clip x (pid_neg_limit (lt_pid t)) (pid_pos_limit (lt_pid t))))"
proof -
  let ?e = "(lt_ext t)\<lparr>te_last_vego := cs_vEgo CS, te_pid := None\<rparr>"
  have "ext_wf ?e" using assms by (simp add: torque_wf_def ext_wf_def)
  then obtain e where e: "update_calculations CS VM (tf_desired_lateral_accel F) ?e = Some e" "ext_kept ?e e"
    "te_lat_accel_friction_factor e \<in> {te_lat_accel_friction_factor (lt_ext t), 1}"
    using update_calculations_ok [of ?e CS VM "tf_desired_lateral_accel F"] by auto
  have wf: "torque_wf (t\<lparr>lt_ext := e\<rparr>)" using assms ext_kept_wf [OF e(2)] by (simp add: torque_wf_def ext_wf_def)
  obtain out t' where u: "update_jerk_aware CI CS limited F (output_torque, t\<lparr>lt_ext := e\<rparr>) = Some (out, t')" "torque_wf t'"
    "same_setup (t\<lparr>lt_ext := e\<rparr>) t'" "lt_ext t' = e" "lt_sat t' = lt_sat t" "\<not> te_jerk_aware_enabled e \<longrightarrow> out = output_torque"
    "te_jerk_aware_enabled e \<longrightarrow> (\<exists>x. out = np_clip x (pid_neg_limit (lt_pid t)) (pid_pos_limit (lt_pid t)))"
    using jerk_aware_ok [OF wf, of CI CS limited F output_torque] by auto
  have k: "te_jerk_aware_enabled e = te_jerk_aware_enabled (lt_ext t)" "te_pid e = None" "tables_positive e = tables_positive (lt_ext t)"
    using e(2) by (simp_all add: ext_kept_def tables_positive_def)
  have eq: "ext_update CI CS VM limited F (output_torque, t) = Some (out, t')" by (simp add: ext_update_def e(1) u(1))
  show ?thesis
    by (intro exI conjI, rule eq) (use u(2-7) e(3) k in \<open>simp_all add: same_setup_def\<close>)
qed

lemma torque_output_ok:
  assumes "torque_wf t"
  shows "\<exists>out t'. torque_output CI CS VM limited cl e er F t = Some (out, t') \<and> torque_wf t' \<and> same_setup t t' \<and> lo_active out \<and>
    te_pid (lt_ext t') = None \<and> te_lat_accel_friction_factor (lt_ext t') \<in> {te_lat_accel_friction_factor (lt_ext t), 1} \<and>
    commands CI t (lo_torque out)"
proof -
  have "pid_wf (lt_pid t)" using assms by (simp add: torque_wf_def)
  then obtain c where c: "pid_update e er (cs_vEgo CS) (tf_ff F) (freeze_integrator CS limited) (lt_pid t) = Some c" "pid_wf c"
    "pid_neg_limit c = pid_neg_limit (lt_pid t)" "pid_pos_limit c = pid_pos_limit (lt_pid t)"
    "\<exists>x. pid_control c = np_clip x (pid_neg_limit (lt_pid t)) (pid_pos_limit (lt_pid t))"
    using pid_update_ok by blast
  let ?t = "t\<lparr>lt_pid := c\<rparr>" and ?o = "tc_torque_from_lateral_accel CI (pid_control c) (lt_params t)"
  have wf: "torque_wf ?t" using assms c(2) by (simp add: torque_wf_def)
  obtain out t' where u: "ext_update CI CS VM limited F (?o, ?t) = Some (out, t')" "torque_wf t'" "same_setup ?t t'" "lt_sat t' = lt_sat t"
    "te_pid (lt_ext t') = None" "te_lat_accel_friction_factor (lt_ext t') \<in> {te_lat_accel_friction_factor (lt_ext t), 1}"
    "\<not> te_jerk_aware_enabled (lt_ext t) \<longrightarrow> out = ?o"
    "te_jerk_aware_enabled (lt_ext t) \<longrightarrow> (\<exists>x. out = np_clip x (pid_neg_limit (lt_pid t)) (pid_pos_limit (lt_pid t)))"
    using ext_update_ok [OF wf, of CI CS VM limited F ?o] c(3,4) by auto
  obtain b s where sat: "check_saturation (STEER_MAX - \<bar>out\<bar> < 1 / 1000) CS limited cl (lt_sat t) = (b, s)" by fastforce
  have com: "commands CI t (- out)"
  proof (cases "te_jerk_aware_enabled (lt_ext t)")
    case True
    with u(8) show ?thesis by (simp add: commands_def Let_def)
  next
    case False
    with u(7) c(5) show ?thesis by (auto simp: commands_def Let_def)
  qed
  have eq: "torque_output CI CS VM limited cl e er F t =
      Some (\<lparr> lo_torque = - out, lo_output = 0, lo_active = True, lo_saturated = b \<rparr>, t'\<lparr>lt_sat := s\<rparr>)"
    using sat by (simp add: torque_output_def c(1) Let_def u(1,4))
  show ?thesis
    by (intro exI conjI, rule eq) (use u(2,3,5,6) com c(3,4) in \<open>simp_all add: same_setup_def torque_wf_def\<close>)
qed

text \<open>The two versions after the override.\<close>

definition version_update :: "torque_ci \<Rightarrow> bool \<Rightarrow> car_state \<Rightarrow> vehicle_model \<Rightarrow> vehicle_parameters \<Rightarrow> bool \<Rightarrow> real \<Rightarrow> bool \<Rightarrow> real
    \<Rightarrow> lat_torque \<Rightarrow> (lac_output \<times> lat_torque) option" where
  "version_update CI active CS VM params limited k cl d t =
     (case lt_version t of V0 \<Rightarrow> update_v0 | V1 \<Rightarrow> update_v1) CI active CS VM params limited k cl d t"

lemma version_update_ok:
  assumes "torque_wf t"
  shows "\<exists>out t'. version_update CI active CS VM params limited k cl d t = Some (out, t') \<and> torque_wf t' \<and>
    lt_version t' = lt_version t \<and> lt_params t' = lt_params t \<and> te_jerk_aware_enabled (lt_ext t') = te_jerk_aware_enabled (lt_ext t) \<and>
    tables_positive (lt_ext t') = tables_positive (lt_ext t) \<and>
    pid_pos_limit (lt_pid t') = pid_pos_limit (lt_pid t) \<and> pid_neg_limit (lt_pid t') = pid_neg_limit (lt_pid t) \<and>
    lo_active out = active \<and> (if active then commands CI t (lo_torque out) else lo_torque out = 0) \<and>
    te_pid (lt_ext t') = (if active then None else te_pid (lt_ext t)) \<and>
    te_lat_accel_friction_factor (lt_ext t') \<in> {te_lat_accel_friction_factor (lt_ext t), 1} \<and>
    lt_buffer t' = (if lt_version t = V1 \<or> active then buffer_append (k * (cs_vEgo CS)\<^sup>2) (lt_buffer t) else lt_buffer t)"
proof -
  let ?b = "buffer_append (k * (cs_vEgo CS)\<^sup>2) (lt_buffer t)"
  have b: "length ?b = 100" using assms by (simp add: buffer_append_def torque_wf_def)
  have out: "\<exists>out t''. torque_output CI CS VM limited cl e er F t' = Some (out, t'') \<and> torque_wf t'' \<and> same_setup t' t'' \<and> lo_active out \<and>
      te_pid (lt_ext t'') = None \<and> te_lat_accel_friction_factor (lt_ext t'') \<in> {te_lat_accel_friction_factor (lt_ext t), 1} \<and>
      commands CI t (lo_torque out)"
    if "t' = t\<lparr>lt_buffer := ?b, lt_filter := f\<rparr> \<or> t' = t\<lparr>lt_buffer := ?b, lt_filter := f, lt_previous_measurement := m\<rparr>" for e er F t' f m
  proof -
    have "torque_wf t'" "lt_ext t' = lt_ext t" "lt_pid t' = lt_pid t" "lt_params t' = lt_params t"
      using that assms b by (auto simp: torque_wf_def)
    moreover from this(2-4) have "commands CI t' = commands CI t" by (simp add: commands_def fun_eq_iff)
    ultimately show ?thesis using torque_output_ok [of t' CI CS VM limited cl e er F] by auto
  qed
  show ?thesis
  proof (cases "lt_version t")
    case V0
    show ?thesis
      using assms out [OF disjI2 [OF refl]] unfolding version_update_def V0 torque_version.case update_v0_def Let_def
      by (cases active) (fastforce simp: inactive_output_def same_setup_def V0)+
  next
    case V1
    show ?thesis
      using assms b out [OF disjI1 [OF refl]] unfolding version_update_def V1 torque_version.case update_v1_def Let_def
      by (cases active) (fastforce simp: inactive_output_def same_setup_def V1 torque_wf_def)+
  qed
qed

section \<open>Sequences of calls\<close>

text \<open>What \<open>controlsd\<close> calls, in any order: \<open>update_torque_parameters\<close> with the extension's \<open>update_limits\<close>, the model,
  the delay, the speed-dependent tables (or their end), \<open>reset\<close>, and \<open>update\<close>.\<close>

datatype steering_call =
    Set_parameters real real real
  | Set_model "real list" nat
  | Set_lag real
  | Set_speed_dep lateral_torque_parameters
  | Clear_speed_dep
  | Reset
  | Step params bool car_state vehicle_model vehicle_parameters bool real bool real

fun torque_call :: "torque_ci \<Rightarrow> car_params \<Rightarrow> steering_call \<Rightarrow> lat_torque \<Rightarrow> (lac_output list \<times> lat_torque) option" where
  "torque_call CI CP (Set_parameters f off fr) t = Some ([], ext_update_limits (update_torque_parameters CI f off fr t))"
| "torque_call CI CP (Set_model y n) t = Some ([], t\<lparr>lt_ext := update_model_v2 y n (lt_ext t)\<rparr>)"
| "torque_call CI CP (Set_lag lag) t = Some ([], t\<lparr>lt_ext := update_lateral_lag lag (lt_ext t)\<rparr>)"
| "torque_call CI CP (Set_speed_dep tp) t = Some ([], t\<lparr>lt_ext := update_speed_dep_torque CP tp (lt_ext t)\<rparr>)"
| "torque_call CI CP Clear_speed_dep t = Some ([], t\<lparr>lt_ext := (lt_ext t)\<lparr>te_speed_dep_active := False\<rparr>\<rparr>)"
| "torque_call CI CP Reset t = Some ([], lat_torque_reset t)"
| "torque_call CI CP (Step p active CS VM params limited k cl d) t =
     do { (out, t) \<leftarrow> lat_torque_update CI p active CS VM params limited k cl d t; Some ([out], t) }"

fun torque_run :: "torque_ci \<Rightarrow> car_params \<Rightarrow> steering_call list \<Rightarrow> lat_torque \<Rightarrow> (lac_output list \<times> lat_torque) option" where
  "torque_run CI CP [] t = Some ([], t)"
| "torque_run CI CP (c # cs) t =
     do { (out, t) \<leftarrow> torque_call CI CP c t; (outs, t) \<leftarrow> torque_run CI CP cs t; Some (out @ outs, t) }"

text \<open>Calls that do not raise: the override parameters can be read, and a model output has all its points.\<close>

fun call_ok :: "steering_call \<Rightarrow> bool" where
  "call_ok (Set_model y n) = (CONTROL_N \<le> n \<longrightarrow> length y = 33)"
| "call_ok (Step p active CS VM params limited k cl d) = override_readable p"
| "call_ok _ = True"

fun steps_active :: "steering_call \<Rightarrow> bool list" where
  "steps_active (Step p active CS VM params limited k cl d) = [active]"
| "steps_active _ = []"

lemma lat_torque_update_eq:
  "lat_torque_update CI p active CS VM params limited k cl d t =
     Option.bind (override_tuning CI p t) (version_update CI active CS VM params limited k cl d)"
  by (simp add: lat_torque_update_def flip: version_update_def)

lemma override_limits:
  assumes "override_tuning CI p t = Some t'"
  shows "te_pid (lt_ext t') = None \<longleftrightarrow> te_pid (lt_ext t) = None"
    "te_jerk_aware_enabled (lt_ext t) \<and> te_pid (lt_ext t) = None \<and> pid_pos_limit (lt_pid t) = 1 \<and> pid_neg_limit (lt_pid t) = - 1 \<longrightarrow>
       pid_pos_limit (lt_pid t') = 1 \<and> pid_neg_limit (lt_pid t') = - 1"
proof -
  obtain changed tuning ext where o: "update_override_torque_params p (lt_params t, lt_ext t) = Some (changed, tuning, ext)"
    "t' = (if changed then ext_update_limits (lt_update_limits CI (t\<lparr>lt_params := tuning, lt_ext := ext\<rparr>)) else t\<lparr>lt_params := tuning, lt_ext := ext\<rparr>)"
    using assms by (auto simp: override_tuning_def bind_eq_Some_conv Let_def)
  have k: "te_pid ext = te_pid (lt_ext t)" "te_jerk_aware_enabled ext = te_jerk_aware_enabled (lt_ext t)"
    using o(1) by (auto simp: update_override_torque_params_def bind_eq_Some_conv Let_def split: if_splits)
  show "te_pid (lt_ext t') = None \<longleftrightarrow> te_pid (lt_ext t) = None"
    by (auto simp: o(2) ext_update_limits_def lt_update_limits_def k split: option.split)
  show "te_jerk_aware_enabled (lt_ext t) \<and> te_pid (lt_ext t) = None \<and> pid_pos_limit (lt_pid t) = 1 \<and> pid_neg_limit (lt_pid t) = - 1 \<longrightarrow>
       pid_pos_limit (lt_pid t') = 1 \<and> pid_neg_limit (lt_pid t') = - 1"
    by (simp add: o(2) ext_update_limits_def lt_update_limits_def k set_limits_def STEER_MAX_def)
qed

text \<open>One call: it returns, keeps the invariant, and its output follows the state its update starts from.\<close>

lemma torque_call_ok:
  assumes "torque_wf t" "call_ok c"
  shows "\<exists>outs t'. torque_call CI CP c t = Some (outs, t') \<and> torque_wf t' \<and> map lo_active outs = steps_active c \<and>
    te_jerk_aware_enabled (lt_ext t') = te_jerk_aware_enabled (lt_ext t) \<and>
    (\<forall>out \<in> set outs. \<not> lo_active out \<longrightarrow> lo_torque out = 0) \<and>
    (te_lat_accel_friction_factor (lt_ext t') \<in> {te_lat_accel_friction_factor (lt_ext t), 1})"
proof (cases c)
  case (Step p active CS VM params limited k cl d)
  then obtain t1 where t1: "override_tuning CI p t = Some t1" "torque_wf t1" "te_jerk_aware_enabled (lt_ext t1) = te_jerk_aware_enabled (lt_ext t)"
    "te_lat_accel_friction_factor (lt_ext t1) = te_lat_accel_friction_factor (lt_ext t)"
    using override_tuning_ok [of t p CI] assms by auto
  obtain out t' where u: "version_update CI active CS VM params limited k cl d t1 = Some (out, t')" "torque_wf t'"
    "te_jerk_aware_enabled (lt_ext t') = te_jerk_aware_enabled (lt_ext t1)" "lo_active out = active"
    "if active then commands CI t1 (lo_torque out) else lo_torque out = 0"
    "te_lat_accel_friction_factor (lt_ext t') \<in> {te_lat_accel_friction_factor (lt_ext t1), 1}"
    using version_update_ok [OF t1(2), of CI active CS VM params limited k cl d] by blast
  then show ?thesis using t1 by (simp add: Step lat_torque_update_eq)
qed (use assms in \<open>simp_all add: frame_simps torque_wf_ext torque_wf_D ext_setters\<close>)

lemma lat_torque_update_ok:
  assumes "torque_wf t" "override_readable p"
  shows "\<exists>out t'. lat_torque_update CI p active CS VM params limited k cl d t = Some (out, t') \<and> torque_wf t' \<and>
    lo_active out = active \<and> (\<not> active \<longrightarrow> lo_torque out = 0)"
  using torque_call_ok [OF assms(1), of "Step p active CS VM params limited k cl d" CI] assms(2)
  by (auto simp: bind_eq_Some_conv)

lemma torque_run_invariant:
  assumes "torque_wf t" "\<forall>c \<in> set cs. call_ok c" "I t"
    and "\<And>c t outs t'. c \<in> set cs \<Longrightarrow> torque_wf t \<Longrightarrow> I t \<Longrightarrow> torque_call CI CP c t = Some (outs, t') \<Longrightarrow> I t' \<and> (\<forall>out \<in> set outs. Q out)"
  shows "\<exists>outs t'. torque_run CI CP cs t = Some (outs, t') \<and> torque_wf t' \<and> I t' \<and> map lo_active outs = concat (map steps_active cs) \<and>
    (\<forall>out \<in> set outs. Q out \<and> (\<not> lo_active out \<longrightarrow> lo_torque out = 0))"
  using assms
proof (induction cs arbitrary: t)
  case Nil
  then show ?case by simp
next
  case (Cons c cs)
  obtain o1 t1 where t1: "torque_call CI CP c t = Some (o1, t1)" "torque_wf t1" "map lo_active o1 = steps_active c"
    "\<forall>out \<in> set o1. \<not> lo_active out \<longrightarrow> lo_torque out = 0"
    using torque_call_ok [OF Cons.prems(1), of c CI CP] Cons.prems(2) by auto
  have I: "I t1 \<and> (\<forall>out \<in> set o1. Q out)" by (rule Cons.prems(4) [OF _ Cons.prems(1,3) t1(1)]) simp
  have "\<exists>outs t'. torque_run CI CP cs t1 = Some (outs, t') \<and> torque_wf t' \<and> I t' \<and> map lo_active outs = concat (map steps_active cs) \<and>
    (\<forall>out \<in> set outs. Q out \<and> (\<not> lo_active out \<longrightarrow> lo_torque out = 0))"
    by (rule Cons.IH [OF t1(2) _ conjunct1 [OF I]]) (use Cons.prems(2) in simp, rule Cons.prems(4), simp_all)
  then show ?case using t1 I by auto
qed

section \<open>The range of the torque\<close>

text \<open>The conversions of opendbc are monotone and inverse to each other for a positive factor: within the lateral
  acceleration of full torque, the torque is at most full.\<close>

definition conversions_ok :: "torque_ci \<Rightarrow> bool" where
  "conversions_ok CI \<longleftrightarrow> (\<forall>tuning. 0 < tq_latAccelFactor tuning \<longrightarrow>
     tc_lateral_accel_from_torque CI (- 1) tuning \<le> tc_lateral_accel_from_torque CI 1 tuning \<and>
     (\<forall>x. tc_lateral_accel_from_torque CI (- 1) tuning \<le> x \<and> x \<le> tc_lateral_accel_from_torque CI 1 tuning \<longrightarrow>
        \<bar>tc_torque_from_lateral_accel CI x tuning\<bar> \<le> 1))"

text \<open>Every factor a call brings is positive.\<close>

fun call_positive :: "steering_call \<Rightarrow> bool" where
  "call_positive (Set_parameters f off fr) = (0 < f)"
| "call_positive (Set_speed_dep tp) = (0 < tp_latAccelFactorFiltered tp \<and> (\<forall>f \<in> set (tp_speedBinLatAccelFactors tp). 0 < f))"
| "call_positive (Step p active CS VM params limited k cl d) =
     (\<forall>f \<in> set_option (get_float ''TorqueParamsOverrideLatAccelFactor'' p). 0 < f)"
| "call_positive _ = True"

text \<open>The limits of the PID controller are those of the tuning, and the tuning is positive.\<close>

definition limits_follow :: "torque_ci \<Rightarrow> lat_torque \<Rightarrow> bool" where
  "limits_follow CI t \<longleftrightarrow> \<not> te_jerk_aware_enabled (lt_ext t) \<and> 0 < tq_latAccelFactor (lt_params t) \<and> tables_positive (lt_ext t) \<and>
     pid_pos_limit (lt_pid t) = tc_lateral_accel_from_torque CI 1 (lt_params t) \<and>
     pid_neg_limit (lt_pid t) = tc_lateral_accel_from_torque CI (- 1) (lt_params t)"

lemma np_interp_positive:
  assumes "np_interp x xp fp = Some y" "\<forall>z \<in> set fp. 0 < z"
  shows "0 < y"
proof -
  have "fp \<noteq> []" using assms(1) by (auto simp: np_interp_def split: if_splits)
  then have "0 < Min (set fp)" using assms(2) by simp
  moreover have "Min (set fp) \<le> y" using np_interp_bounds [OF assms(1), of "Min (set fp)" "Max (set fp)"] by simp
  ultimately show ?thesis by simp
qed

lemma override_positive:
  assumes "update_override_torque_params p (tuning, ext) = Some (changed, tuning', ext')" "0 < tq_latAccelFactor tuning"
    "tables_positive ext" "\<forall>f \<in> set_option (get_float ''TorqueParamsOverrideLatAccelFactor'' p). 0 < f"
  shows "0 < tq_latAccelFactor tuning' \<and> tables_positive ext'"
proof (cases "te_speed_dep_active ext \<and> te_speed_dep_speed_bp ext \<noteq> []")
  case True
  obtain a where a: "np_interp (te_last_vego ext) (te_speed_dep_speed_bp ext) (te_speed_dep_lat_accel_factor_bp ext) = Some a"
    using assms(1) True by (auto simp: update_override_torque_params_def bind_eq_Some_conv)
  have "0 < a" by (rule np_interp_positive [OF a]) (use assms(3) True in \<open>simp add: tables_positive_def\<close>)
  then show ?thesis using assms True
    by (auto simp: update_override_torque_params_def a bind_eq_Some_conv Let_def tables_positive_def split: if_splits)
next
  case False
  then show ?thesis using assms
    by (auto simp: update_override_torque_params_def bind_eq_Some_conv Let_def tables_positive_def split: if_splits)
qed

lemma override_follows:
  assumes "limits_follow CI t" "\<forall>f \<in> set_option (get_float ''TorqueParamsOverrideLatAccelFactor'' p). 0 < f"
    "override_tuning CI p t = Some t'"
  shows "limits_follow CI t'"
proof -
  obtain changed tuning ext where o: "update_override_torque_params p (lt_params t, lt_ext t) = Some (changed, tuning, ext)"
    "t' = (if changed then ext_update_limits (lt_update_limits CI (t\<lparr>lt_params := tuning, lt_ext := ext\<rparr>)) else t\<lparr>lt_params := tuning, lt_ext := ext\<rparr>)"
    using assms(3) by (auto simp: override_tuning_def bind_eq_Some_conv Let_def)
  have k: "te_jerk_aware_enabled ext = te_jerk_aware_enabled (lt_ext t)" "\<not> changed \<longrightarrow> tuning = lt_params t"
    using o(1) by (auto simp: update_override_torque_params_def bind_eq_Some_conv Let_def split: if_splits)
  have "0 < tq_latAccelFactor tuning \<and> tables_positive ext"
    by (rule override_positive [OF o(1)]) (use assms(1,2) in \<open>simp_all add: limits_follow_def\<close>)
  then show ?thesis using assms(1) k
    by (simp add: o(2) limits_follow_def ext_update_limits_def lt_update_limits_def set_limits_def STEER_MAX_def)
qed

lemma setters_positive:
  "tables_positive (update_model_v2 y n ext) = tables_positive ext" "tables_positive (update_lateral_lag lag ext) = tables_positive ext"
  "tables_positive (ext\<lparr>te_speed_dep_active := False\<rparr>)"
  "0 < tp_latAccelFactorFiltered tp \<Longrightarrow> \<forall>f \<in> set (tp_speedBinLatAccelFactors tp). 0 < f \<Longrightarrow> tables_positive (update_speed_dep_torque CP tp ext)"
  by (auto simp: tables_positive_def update_model_v2_def update_lateral_lag_def update_speed_dep_torque_def SPEED_DEP_CONFIG_def Let_def)

lemma call_follows:
  assumes "conversions_ok CI" "torque_wf t" "limits_follow CI t" "call_ok c" "call_positive c" "torque_call CI CP c t = Some (outs, t')"
  shows "limits_follow CI t' \<and> (\<forall>out \<in> set outs. \<bar>lo_torque out\<bar> \<le> 1)"
proof (cases c)
  case (Step p active CS VM params limited k cl d)
  obtain t1 where t1: "override_tuning CI p t = Some t1" "torque_wf t1"
    using override_tuning_ok [OF assms(2), of p CI] assms(4) by (auto simp: Step)
  have f1: "limits_follow CI t1" by (rule override_follows [OF assms(3) _ t1(1)]) (use assms(5) in \<open>simp add: Step\<close>)
  obtain out where u: "version_update CI active CS VM params limited k cl d t1 = Some (out, t')" "outs = [out]"
    using assms(6) by (auto simp: Step lat_torque_update_eq t1(1) bind_eq_Some_conv)
  have f2: "limits_follow CI t'" and c: "if active then commands CI t1 (lo_torque out) else lo_torque out = 0"
    using version_update_ok [OF t1(2), of CI active CS VM params limited k cl d] f1 unfolding u(1) by (auto simp: limits_follow_def)
  have l: "pid_neg_limit (lt_pid t1) = tc_lateral_accel_from_torque CI (- 1) (lt_params t1)"
    "pid_pos_limit (lt_pid t1) = tc_lateral_accel_from_torque CI 1 (lt_params t1)" "\<not> te_jerk_aware_enabled (lt_ext t1)"
    "0 < tq_latAccelFactor (lt_params t1)"
    using f1 by (simp_all add: limits_follow_def)
  have "\<bar>lo_torque out\<bar> \<le> 1"
  proof (cases active)
    case True
    then obtain x where x: "lo_torque out = - tc_torque_from_lateral_accel CI
        (np_clip x (pid_neg_limit (lt_pid t1)) (pid_pos_limit (lt_pid t1))) (lt_params t1)"
      using c l(3) by (auto simp: commands_def Let_def)
    have le: "pid_neg_limit (lt_pid t1) \<le> pid_pos_limit (lt_pid t1)" using assms(1) l(4) by (simp add: conversions_ok_def l(1,2))
    show ?thesis
      using assms(1) l(4) np_clip_lower [OF le, of x] np_clip_upper [of x "pid_neg_limit (lt_pid t1)" "pid_pos_limit (lt_pid t1)"]
      unfolding x conversions_ok_def l(1,2) by simp
  qed (use c in simp)
  with f2 u(2) show ?thesis by simp
next
  case (Set_parameters f off fr)
  then show ?thesis using assms(3,5,6)
    by (auto simp: limits_follow_def update_torque_parameters_def ext_update_limits_def lt_update_limits_def set_limits_def STEER_MAX_def)
qed (use assms(3,5,6) in \<open>auto simp: limits_follow_def frame_simps setters_positive\<close>)

text \<open>The torque stays within its range: from the constructor of either version, with the jerk-aware controller
  off, the torque controller does not raise in any sequence of the calls \<open>controlsd\<close> makes, publishes one
  output per update, commands no torque while inactive and never more than full torque, whatever the learned
  parameters, the overrides and the speed-dependent tables are, as long as the factors are positive.\<close>

theorem torque_within_range:
  assumes "lat_torque_init v CI CP p0 = Some t0" "\<not> get_bool ''LateralJerkTorqueController'' p0" "conversions_ok CI"
    and "\<forall>tuning. cp_lateralTuning CP = Tuning_torque tuning \<longrightarrow> 0 < tq_latAccelFactor tuning"
    and "\<forall>c \<in> set cs. call_ok c \<and> call_positive c"
  shows "\<exists>outs t'. torque_run CI CP cs t0 = Some (outs, t') \<and> map lo_active outs = concat (map steps_active cs) \<and>
    (\<forall>out \<in> set outs. \<bar>lo_torque out\<bar> \<le> 1 \<and> (\<not> lo_active out \<longrightarrow> lo_torque out = 0))"
proof -
  have init: "torque_wf t0" "limits_follow CI t0"
    using assms(1,2,4) lat_torque_init_wf [OF assms(1)]
    by (auto simp: lat_torque_init_def limits_follow_def tables_positive_def torque_ext_init_def lt_update_limits_def set_limits_def
        STEER_MAX_def split: lateral_tuning.splits)
  have "\<exists>outs t'. torque_run CI CP cs t0 = Some (outs, t') \<and> torque_wf t' \<and> limits_follow CI t' \<and>
    map lo_active outs = concat (map steps_active cs) \<and>
    (\<forall>out \<in> set outs. \<bar>lo_torque out\<bar> \<le> 1 \<and> (\<not> lo_active out \<longrightarrow> lo_torque out = 0))"
    by (rule torque_run_invariant [where I = "limits_follow CI", OF init(1) _ init(2)]) (use assms(5) call_follows [OF assms(3)] in blast)+
  then show ?thesis by blast
qed

section \<open>The jerk-aware controller\<close>

text \<open>Limits of full torque on the shared PID object.\<close>

definition torque_limited :: "lat_torque \<Rightarrow> bool" where
  "torque_limited t \<longleftrightarrow> te_jerk_aware_enabled (lt_ext t) \<and> te_pid (lt_ext t) = None \<and> pid_pos_limit (lt_pid t) = 1 \<and>
     pid_neg_limit (lt_pid t) = - 1"

lemma call_limited:
  assumes "torque_wf t" "torque_limited t" "call_ok c" "torque_call CI CP c t = Some (outs, t')"
  shows "torque_limited t' \<and> (\<forall>out \<in> set outs. \<bar>lo_torque out\<bar> \<le> 1)"
proof (cases c)
  case (Step p active CS VM params limited k cl d)
  obtain t1 where t1: "override_tuning CI p t = Some t1" "torque_wf t1" "te_jerk_aware_enabled (lt_ext t1) = te_jerk_aware_enabled (lt_ext t)"
    using override_tuning_ok [OF assms(1), of p CI] assms(3) by (auto simp: Step)
  have l1: "torque_limited t1" using override_limits [OF t1(1)] t1(3) assms(2) by (simp add: torque_limited_def)
  obtain out where u: "version_update CI active CS VM params limited k cl d t1 = Some (out, t')" "outs = [out]"
    using assms(4) by (auto simp: Step lat_torque_update_eq t1(1) bind_eq_Some_conv)
  have l2: "torque_limited t'" and c: "if active then commands CI t1 (lo_torque out) else lo_torque out = 0"
    using version_update_ok [OF t1(2), of CI active CS VM params limited k cl d] l1 unfolding u(1) by (auto simp: torque_limited_def)
  have "\<bar>lo_torque out\<bar> \<le> 1"
    using c l1 np_clip_abs [of 1] by (cases active) (auto simp: commands_def torque_limited_def Let_def)
  with l2 u(2) show ?thesis by simp
qed (use assms(2,4) in \<open>auto simp: torque_limited_def frame_simps ext_update_limits_def update_torque_parameters_def lt_update_limits_def
      set_limits_def STEER_MAX_def\<close>)

text \<open>From its first active frame on, the extension holds the PID controller of its owner.\<close>

lemma active_step_shares:
  assumes "torque_wf t" "override_readable p"
  shows "\<exists>out t'. torque_call CI CP (Step p True CS VM params limited k cl d) t = Some ([out], t') \<and> torque_wf t' \<and>
    te_pid (lt_ext t') = None \<and> te_jerk_aware_enabled (lt_ext t') = te_jerk_aware_enabled (lt_ext t)"
proof -
  obtain t1 where t1: "override_tuning CI p t = Some t1" "torque_wf t1" "te_jerk_aware_enabled (lt_ext t1) = te_jerk_aware_enabled (lt_ext t)"
    using override_tuning_ok [OF assms, of CI] by auto
  then show ?thesis
    using version_update_ok [OF t1(2), of CI True CS VM params limited k cl d] by (auto simp: lat_torque_update_eq)
qed

text \<open>In the jerk-aware mode the torque is limited from the first update of the parameters after an active frame
  on: once the extension holds the PID controller of its owner and has set its limits, no sequence of calls
  commands more than full torque.\<close>

theorem jerk_aware_limited:
  assumes "torque_wf t" "te_jerk_aware_enabled (lt_ext t)" "te_pid (lt_ext t) = None" "\<forall>c \<in> set cs. call_ok c"
  shows "\<exists>outs t'. torque_run CI CP (Set_parameters f off fr # cs) t = Some (outs, t') \<and> (\<forall>out \<in> set outs. \<bar>lo_torque out\<bar> \<le> 1)"
proof -
  let ?t = "ext_update_limits (update_torque_parameters CI f off fr t)"
  have wf: "torque_wf ?t" using assms(1) by (simp add: frame_simps)
  have lim: "torque_limited ?t"
    using assms(2,3) by (simp add: torque_limited_def ext_update_limits_def update_torque_parameters_def lt_update_limits_def
        set_limits_def STEER_MAX_def)
  have "\<exists>outs t'. torque_run CI CP cs ?t = Some (outs, t') \<and> torque_wf t' \<and> torque_limited t' \<and>
    map lo_active outs = concat (map steps_active cs) \<and> (\<forall>out \<in> set outs. \<bar>lo_torque out\<bar> \<le> 1 \<and> (\<not> lo_active out \<longrightarrow> lo_torque out = 0))"
    by (rule torque_run_invariant [where I = torque_limited, OF wf assms(4) lim]) (use assms(4) call_limited in blast)
  then show ?thesis by auto
qed

section \<open>The delay of the actuator\<close>

text \<open>The lateral accelerations asked for by the updates of a sequence of calls.\<close>

fun requests :: "steering_call list \<Rightarrow> real list" where
  "requests [] = []"
| "requests (Step p active CS VM params limited k cl d # cs) = k * (cs_vEgo CS)\<^sup>2 # requests cs"
| "requests (_ # cs) = requests cs"

lemma call_buffer:
  assumes "torque_wf t" "lt_version t = V1" "call_ok c" "torque_call CI CP c t = Some (outs, t')"
  shows "lt_version t' = V1 \<and> lt_buffer t' = fold buffer_append (requests [c]) (lt_buffer t)"
proof (cases c)
  case (Step p active CS VM params limited k cl d)
  obtain t1 where t1: "override_tuning CI p t = Some t1" "torque_wf t1" "lt_version t1 = V1" "lt_buffer t1 = lt_buffer t"
    using override_tuning_ok [OF assms(1), of p CI] assms(2,3) by (auto simp: Step)
  obtain out where u: "version_update CI active CS VM params limited k cl d t1 = Some (out, t')"
    using assms(4) by (auto simp: Step lat_torque_update_eq t1(1) bind_eq_Some_conv)
  show ?thesis
    using version_update_ok [OF t1(2), of CI active CS VM params limited k cl d] t1(3,4) unfolding u by (simp add: Step)
qed (use assms(2,4) in \<open>auto simp: frame_simps\<close>)

lemma requests_append: "requests (cs @ ds) = requests cs @ requests ds"
  by (induction cs rule: requests.induct) simp_all

lemma requests_Cons: "requests (c # cs) = requests [c] @ requests cs"
  using requests_append [of "[c]" cs] by simp

lemma run_buffer:
  assumes "torque_wf t" "lt_version t = V1" "\<forall>c \<in> set cs. call_ok c" "torque_run CI CP cs t = Some (outs, t')"
  shows "lt_buffer t' = fold buffer_append (requests cs) (lt_buffer t)"
  using assms
proof (induction cs arbitrary: t outs)
  case Nil
  then show ?case by simp
next
  case (Cons c cs)
  obtain o1 t1 outs1 where s: "torque_call CI CP c t = Some (o1, t1)" "torque_run CI CP cs t1 = Some (outs1, t')"
    using Cons.prems(4) by (auto simp: bind_eq_Some_conv)
  have "torque_wf t1" using torque_call_ok [OF Cons.prems(1), of c CI CP] s(1) Cons.prems(3) by auto
  moreover have "lt_version t1 = V1" "lt_buffer t1 = fold buffer_append (requests [c]) (lt_buffer t)"
    using call_buffer [OF Cons.prems(1,2) _ s(1)] Cons.prems(3) by auto
  ultimately show ?case
    using Cons.IH [OF _ _ _ s(2)] Cons.prems(3) by (simp add: requests_Cons [of c cs])
qed

lemma buffer_append_Cons: "buffer_append x (a # b) = b @ [x]"
  by (simp add: buffer_append_def)

lemma fold_buffer: "length b = n \<Longrightarrow> fold buffer_append xs b = drop (length xs) (b @ xs)" if "0 < n"
proof (induction xs arbitrary: b)
  case Nil
  then show ?case by simp
next
  case (Cons x xs)
  have b: "b \<noteq> []" using Cons.prems that by auto
  have "fold buffer_append xs (buffer_append x b) = drop (length xs) (buffer_append x b @ xs)"
    by (rule Cons.IH) (use Cons.prems that in \<open>simp add: buffer_append_def\<close>)
  then show ?case using b by (cases b) (simp_all add: buffer_append_Cons)
qed

lemma delay_frames_v1_eq: "delay_frames_v1 d = Suc (min 99 (nat \<lfloor>100 * max 0 d\<rfloor>))"
proof (cases "d < 0")
  case True
  then have "np_clip (d / DT_CTRL + 1) 1 (real buffer_len) = 1" by (simp add: np_clip_def DT_CTRL_def)
  then show ?thesis using True by (simp add: delay_frames_v1_def py_int_def)
next
  case False
  define n where "n = \<lfloor>100 * d\<rfloor>"
  have "np_clip (d / DT_CTRL + 1) 1 (real buffer_len) = min (100 * d + 1) 100"
    using False by (simp add: np_clip_def DT_CTRL_def min_def max_def)
  moreover have "\<lfloor>min (100 * d + 1) 100\<rfloor> = min (n + 1) 100" by (simp add: min_def n_def le_floor_iff) linarith
  moreover have "nat (min (n + 1) 100) = Suc (min 99 (nat n))" if "0 \<le> n" using that by (simp add: min_def nat_add_distrib) linarith
  moreover have "0 \<le> n" "max 0 d = d" "0 \<le> min (100 * d + 1) 100" using False by (simp_all add: n_def)
  ultimately show ?thesis by (simp add: delay_frames_v1_def py_int_def n_def)
qed

text \<open>The element of the request buffer at \<open>-delay_frames\<close>, after any calls.\<close>

lemma delayed_element:
  assumes "lat_torque_init V1 CI CP p0 = Some t0" "\<forall>c \<in> set cs. call_ok c" "torque_run CI CP cs t0 = Some (outs, t)"
  shows "from_end (buffer_append x (lt_buffer t)) (delay_frames_v1 d) =
    (let rs = requests cs @ [x]; ago = min 99 (nat \<lfloor>100 * max 0 d\<rfloor>) in if ago < length rs then rs ! (length rs - 1 - ago) else 0)"
proof -
  let ?rs = "requests cs @ [x]"
  define ago where "ago = min 99 (nat \<lfloor>100 * max 0 d\<rfloor>)"
  have t0: "torque_wf t0" "lt_version t0 = V1" "lt_buffer t0 = replicate 100 0"
    using lat_torque_init_wf [OF assms(1)] assms(1) by (auto simp: lat_torque_init_def lt_update_limits_def split: lateral_tuning.splits)
  have "buffer_append x (lt_buffer t) = fold buffer_append ?rs (replicate 100 0)"
    using run_buffer [OF t0(1,2) assms(2,3)] by (simp add: t0(3))
  then have b: "buffer_append x (lt_buffer t) = drop (length ?rs) (replicate 100 0 @ ?rs)"
    using fold_buffer [of 100 "replicate 100 0" ?rs] by (simp only: length_replicate)
  have len: "length (drop (length ?rs) (replicate 100 0 @ ?rs)) = 100" by simp
  have "from_end (buffer_append x (lt_buffer t)) (delay_frames_v1 d) = (replicate 100 0 @ ?rs) ! (length ?rs + (99 - ago))"
    using len by (simp only: from_end_def b delay_frames_v1_eq ago_def [symmetric]) (simp add: nth_drop del: drop_append)
  also have "\<dots> = (if ago < length ?rs then ?rs ! (length ?rs - 1 - ago) else 0)"
  proof -
    have "ago \<le> 99" by (simp add: ago_def)
    then show ?thesis by (auto simp: nth_append)
  qed
  finally show ?thesis by (simp add: ago_def Let_def)
qed

text \<open>The terms of the PID controller that an update leaves, and that its gains stay.\<close>

lemma pid_update_terms:
  assumes "pid_update error er speed ff fr c = Some c'"
  shows "pid_k_p c' = pid_k_p c \<and> (\<exists>kp kd. gain_at (pid_k_p c) speed = Some kp \<and> pid_p c' = kp * error \<and> pid_d c' = kd * er) \<and>
    pid_control c' = np_clip (pid_p c' + pid_i c' + pid_d c' + pid_f c') (pid_neg_limit c') (pid_pos_limit c')"
proof -
  obtain kp kd where k: "gain_at (pid_k_p c) speed = Some kp" "gain_at (pid_k_d c) speed = Some kd"
    using assms by (auto simp: pid_update_def bind_eq_Some_conv Let_def)
  let ?c = "c\<lparr>pid_speed := speed, pid_p := kp * error, pid_d := kd * er, pid_f := ff\<rparr>"
  obtain c1 where c1: "(if \<not> fr then integrate error ?c else Some ?c) = Some c1"
    "c' = c1\<lparr>pid_control := np_clip (pid_p c1 + pid_i c1 + pid_d c1 + pid_f c1) (pid_neg_limit c1) (pid_pos_limit c1)\<rparr>"
    using assms by (auto simp: pid_update_def k bind_eq_Some_conv Let_def)
  have "c1 = ?c\<lparr>pid_i := pid_i c1\<rparr>"
    using c1(1) by (cases fr) (auto simp: integrate_def bind_eq_Some_conv Let_def)
  then obtain i where "c1 = ?c\<lparr>pid_i := i\<rparr>" by blast
  then show ?thesis using c1(2) k by simp
qed

lemma override_keeps_gains:
  assumes "override_tuning CI p t = Some t'"
  shows "pid_k_p (lt_pid t') = pid_k_p (lt_pid t)"
  using assms
  by (auto simp: override_tuning_def bind_eq_Some_conv Let_def ext_update_limits_def lt_update_limits_def set_limits_def split: option.splits)

lemma torque_output_terms:
  assumes "torque_output CI CS VM limited cl e 0 F t = Some (out, t')" "\<not> te_jerk_aware_enabled (lt_ext t)"
  shows "pid_k_p (lt_pid t') = pid_k_p (lt_pid t) \<and>
    (\<exists>kp. gain_at (pid_k_p (lt_pid t)) (cs_vEgo CS) = Some kp \<and> pid_p (lt_pid t') = kp * e \<and> pid_d (lt_pid t') = 0) \<and>
    lo_torque out = - tc_torque_from_lateral_accel CI
      (np_clip (pid_p (lt_pid t') + pid_i (lt_pid t') + pid_f (lt_pid t')) (pid_neg_limit (lt_pid t')) (pid_pos_limit (lt_pid t'))) (lt_params t')"
proof -
  obtain c where p: "pid_update e 0 (cs_vEgo CS) (tf_ff F) (freeze_integrator CS limited) (lt_pid t) = Some c"
    using assms(1) by (auto simp: torque_output_def bind_eq_Some_conv)
  obtain o1 t1 where x: "ext_update CI CS VM limited F (tc_torque_from_lateral_accel CI (pid_control c) (lt_params t), t\<lparr>lt_pid := c\<rparr>) = Some (o1, t1)"
    using assms(1) by (auto simp: torque_output_def bind_eq_Some_conv p Let_def)
  obtain b s where "check_saturation (STEER_MAX - \<bar>o1\<bar> < 1 / 1000) CS limited cl (lt_sat t1) = (b, s)" by fastforce
  then have u: "lt_pid t' = lt_pid t1" "lt_params t' = lt_params t1" "lo_torque out = - o1"
    using assms(1) by (auto simp: torque_output_def p x Let_def)
  obtain ext where e: "update_calculations CS VM (tf_desired_lateral_accel F) ((lt_ext t)\<lparr>te_last_vego := cs_vEgo CS, te_pid := None\<rparr>) = Some ext"
    "update_jerk_aware CI CS limited F (tc_torque_from_lateral_accel CI (pid_control c) (lt_params t), t\<lparr>lt_pid := c, lt_ext := ext\<rparr>) = Some (o1, t1)"
    using x by (auto simp: ext_update_def bind_eq_Some_conv)
  have "\<not> te_jerk_aware_enabled ext"
    using e(1) assms(2) by (auto simp: update_calculations_def bind_eq_Some_conv Let_def split: if_splits)
  then have "o1 = tc_torque_from_lateral_accel CI (pid_control c) (lt_params t)" "lt_pid t1 = c" "lt_params t1 = lt_params t"
    using e(2) by (auto simp: update_jerk_aware_def)
  then show ?thesis using u pid_update_terms [OF p] by auto
qed

lemma update_v1_terms:
  assumes "update_v1 CI True CS VM params limited k cl d t = Some (out, t')" "\<not> te_jerk_aware_enabled (lt_ext t)"
  shows "pid_k_p (lt_pid t') = pid_k_p (lt_pid t) \<and>
    (\<exists>kp. gain_at (pid_k_p (lt_pid t)) (cs_vEgo CS) = Some kp \<and> pid_d (lt_pid t') = 0 \<and>
       pid_p (lt_pid t') = kp * (from_end (buffer_append (k * (cs_vEgo CS)\<^sup>2) (lt_buffer t)) (delay_frames_v1 d) - measured_accel CS VM params)) \<and>
    lo_torque out = - tc_torque_from_lateral_accel CI
      (np_clip (pid_p (lt_pid t') + pid_i (lt_pid t') + pid_f (lt_pid t')) (pid_neg_limit (lt_pid t')) (pid_pos_limit (lt_pid t'))) (lt_params t')"
proof -
  note v1 = assms(1) [unfolded update_v1_def Let_def not_True_eq_False if_False]
  show ?thesis using torque_output_terms [OF v1] assms(2) by auto
qed

text \<open>Throughout a run the gains are the version's.\<close>

definition gains_kept :: "lat_torque \<Rightarrow> bool" where
  "gains_kept t \<longleftrightarrow> lt_version t = V1 \<and> \<not> te_jerk_aware_enabled (lt_ext t) \<and> pid_k_p (lt_pid t) = torque_gains V1"

lemma call_keeps_gains:
  assumes "torque_wf t" "gains_kept t" "call_ok c" "torque_call CI CP c t = Some (outs, t')"
  shows "gains_kept t'"
proof (cases c)
  case (Step p active CS VM params limited k cl d)
  obtain t1 where t1: "override_tuning CI p t = Some t1" "lt_version t1 = V1" "\<not> te_jerk_aware_enabled (lt_ext t1)"
    using override_tuning_ok [OF assms(1), of p CI] assms(2,3) by (auto simp: Step gains_kept_def)
  obtain out where u: "update_v1 CI active CS VM params limited k cl d t1 = Some (out, t')"
    using assms(4) by (auto simp: Step lat_torque_update_def t1 bind_eq_Some_conv)
  have "pid_k_p (lt_pid t') = pid_k_p (lt_pid t1)"
  proof (cases active)
    case True
    then show ?thesis using update_v1_terms [OF _ t1(3)] u by auto
  next
    case False
    then show ?thesis using u by (auto simp: update_v1_def Let_def)
  qed
  moreover have "lt_version t' = V1" using call_buffer [OF assms(1) _ assms(3,4)] assms(2) by (simp add: gains_kept_def)
  moreover have "\<not> te_jerk_aware_enabled (lt_ext t')" using torque_call_ok [OF assms(1,3), of CI CP] assms(2,4) by (auto simp: gains_kept_def)
  ultimately show ?thesis using override_keeps_gains [OF t1(1)] assms(2) by (simp add: gains_kept_def)
qed (use assms(2,4) in \<open>auto simp: gains_kept_def frame_simps ext_update_limits_def update_torque_parameters_def lt_update_limits_def set_limits_def\<close>)

text \<open>C9: Version 1 of the torque controller steers for the delay of the actuator.  After any calls, an active update
  returns and controls the error between the lateral acceleration requested \<open>lat_delay\<close> seconds ago (rounded
  down to a frame, at most 99 frames; 0 before the first request) and the measured one: the proportional
  term it leaves is that error times the gain of the speed, there is no derivative term, and the torque is the one for the limited sum of the terms.\<close>

theorem setpoint_is_delayed_request:
  fixes k d :: real and CS :: car_state
  assumes "lat_torque_init V1 CI CP p0 = Some t0" "\<not> get_bool ''LateralJerkTorqueController'' p0"
    and "\<forall>c \<in> set cs. call_ok c" "torque_run CI CP cs t0 = Some (outs, t)" "override_readable p"
  defines "delayed \<equiv> let rs = requests cs @ [k * (cs_vEgo CS)\<^sup>2]; ago = min 99 (nat \<lfloor>100 * max 0 d\<rfloor>)
                      in if ago < length rs then rs ! (length rs - 1 - ago) else 0"
  shows "\<exists>out t' kp. lat_torque_update CI p True CS VM params limited k cl d t = Some (out, t') \<and>
    gain_at (torque_gains V1) (cs_vEgo CS) = Some kp \<and> pid_p (lt_pid t') = kp * (delayed - measured_accel CS VM params) \<and>
    lo_torque out = - tc_torque_from_lateral_accel CI
      (np_clip (pid_p (lt_pid t') + pid_i (lt_pid t') + pid_f (lt_pid t')) (pid_neg_limit (lt_pid t')) (pid_pos_limit (lt_pid t'))) (lt_params t')"
proof -
  have t0: "torque_wf t0" "gains_kept t0"
    using lat_torque_init_wf [OF assms(1)] assms(1,2)
    by (auto simp: gains_kept_def lat_torque_init_def lt_update_limits_def set_limits_def pid_init_def torque_ext_init_def split: lateral_tuning.splits)
  have inv: "torque_wf t" "gains_kept t"
    using torque_run_invariant [where I = gains_kept and Q = "\<lambda>_. True" and CI = CI and CP = CP, OF t0(1) assms(3) t0(2)]
      call_keeps_gains assms(3,4) by fastforce+
  obtain t1 where t1: "override_tuning CI p t = Some t1" "torque_wf t1" "lt_version t1 = V1" "\<not> te_jerk_aware_enabled (lt_ext t1)"
    "lt_buffer t1 = lt_buffer t"
    using override_tuning_ok [OF inv(1) assms(5), of CI] inv(2) by (auto simp: gains_kept_def)
  obtain out t' where u: "update_v1 CI True CS VM params limited k cl d t1 = Some (out, t')"
    using version_update_ok [OF t1(2), of CI True CS VM params limited k cl d] t1(3) by (auto simp: version_update_def)
  have g: "pid_k_p (lt_pid t1) = torque_gains V1" using override_keeps_gains [OF t1(1)] inv(2) by (simp add: gains_kept_def)
  have del: "from_end (buffer_append (k * (cs_vEgo CS)\<^sup>2) (lt_buffer t1)) (delay_frames_v1 d) = delayed"
    using delayed_element [OF assms(1,3,4)] by (simp add: delayed_def t1(5))
  have "lat_torque_update CI p True CS VM params limited k cl d t = Some (out, t')"
    using u t1(1,3) by (simp add: lat_torque_update_def)
  then show ?thesis using update_v1_terms [OF u t1(4)] by (auto simp: g del)
qed

section \<open>A car on the bench\<close>

definition demo_vehicle_parameters :: vehicle_parameters where
  "demo_vehicle_parameters = \<lparr> vp_valid = True, vp_roll = 0, vp_angleOffsetValid = True, vp_angleOffsetDeg = 0,
     vp_steerRatioValid = True, vp_steerRatio = 15, vp_stiffnessFactorValid = True, vp_stiffnessFactor = 1 \<rparr>"

text \<open>Linear conversions, no friction, a vehicle that measures no curvature.\<close>

definition demo_torque_ci :: torque_ci where
  "demo_torque_ci = \<lparr> tc_torque_from_lateral_accel = (\<lambda>a tuning. a / tq_latAccelFactor tuning),
     tc_lateral_accel_from_torque = (\<lambda>torque tuning. torque * tq_latAccelFactor tuning),
     tc_torque_in_torque_space = (\<lambda>(a, roll, v, acc) tuning gravity. a / tq_latAccelFactor tuning),
     tc_get_friction = (\<lambda>e dz th tuning. 0), tc_get_friction_in_torque_space = (\<lambda>e dz th tuning. 0),
     tc_FRICTION_THRESHOLD = 3 / 10 \<rparr>"

definition demo_straight_vm :: vehicle_model where
  "demo_straight_vm = \<lparr> vm_calc_curvature = (\<lambda>a v r. 0), vm_get_steer_from_curvature = (\<lambda>k v r. 0) \<rparr>"

definition demo_torque_store :: "bool \<Rightarrow> params" where
  "demo_torque_store jerk_aware = \<lparr> pr_values = [''LateralJerkTorqueController'' \<mapsto> PBool jerk_aware],
     pr_defaults = [''TorqueParamsOverrideLatAccelFactor'' \<mapsto> PFloat 2, ''TorqueParamsOverrideFriction'' \<mapsto> PFloat 0] \<rparr>"

text \<open>A tight curve at 30 m/s, with a delay of 0.1 s.\<close>

definition demo_curve :: "bool \<Rightarrow> steering_call" where
  "demo_curve jerk_aware =
     Step (demo_torque_store jerk_aware) True (demo_car\<lparr>cs_vEgo := 30\<rparr>) demo_straight_vm demo_vehicle_parameters False (1 / 90) False (1 / 10)"

lemma demo_conversions: "conversions_ok demo_torque_ci"
  by (auto simp: conversions_ok_def demo_torque_ci_def abs_le_iff field_simps)

lemma demo_torque_init:
  "\<exists>t. lat_torque_init v demo_torque_ci demo_params p = Some t"
  by (simp add: lat_torque_init_def demo_params_def)

lemma demo_store_readable: "override_readable (demo_torque_store b)" "call_ok (demo_curve b)" "call_positive (demo_curve b)"
  "get_bool ''LateralJerkTorqueController'' (demo_torque_store b) = b"
  by (simp_all add: override_readable_def demo_torque_store_def demo_curve_def get_float_def get_param_def get_bool_def)

theorem torque_within_range_witness:
  "\<exists>t0 out t'. lat_torque_init V1 demo_torque_ci demo_params (demo_torque_store False) = Some t0 \<and>
     torque_run demo_torque_ci demo_params [demo_curve False] t0 = Some ([out], t') \<and> \<bar>lo_torque out\<bar> \<le> 1"
proof -
  obtain t0 where t0: "lat_torque_init V1 demo_torque_ci demo_params (demo_torque_store False) = Some t0"
    using demo_torque_init by blast
  have "\<exists>outs t'. torque_run demo_torque_ci demo_params [demo_curve False] t0 = Some (outs, t') \<and>
      map lo_active outs = concat (map steps_active [demo_curve False]) \<and>
      (\<forall>out \<in> set outs. \<bar>lo_torque out\<bar> \<le> 1 \<and> (\<not> lo_active out \<longrightarrow> lo_torque out = 0))"
    by (rule torque_within_range [OF t0 _ demo_conversions]) (simp_all add: demo_store_readable demo_params_def)
  then obtain outs t' where o: "torque_run demo_torque_ci demo_params [demo_curve False] t0 = Some (outs, t')"
    "map lo_active outs = [True]" "\<forall>out \<in> set outs. \<bar>lo_torque out\<bar> \<le> 1" by (auto simp: demo_curve_def)
  from o(2) obtain out where "outs = [out]" by auto
  with t0 o show ?thesis by auto
qed

theorem setpoint_is_delayed_request_witness:
  "\<exists>t0 outs t out t'. lat_torque_init V1 demo_torque_ci demo_params (demo_torque_store False) = Some t0 \<and>
     torque_run demo_torque_ci demo_params (replicate 20 (demo_curve False)) t0 = Some (outs, t) \<and>
     lat_torque_update demo_torque_ci (demo_torque_store False) True (demo_car\<lparr>cs_vEgo := 30\<rparr>) demo_straight_vm
       demo_vehicle_parameters False 0 False (1 / 10) t = Some (out, t') \<and> pid_p (lt_pid t') = 8"
proof -
  let ?cs = "replicate 20 (demo_curve False)"
  obtain t0 where t0: "lat_torque_init V1 demo_torque_ci demo_params (demo_torque_store False) = Some t0"
    using demo_torque_init by blast
  have ok: "\<forall>c \<in> set ?cs. call_ok c" by (simp add: demo_store_readable)
  obtain outs t where r: "torque_run demo_torque_ci demo_params ?cs t0 = Some (outs, t)"
    using torque_run_invariant [OF lat_torque_init_wf [OF t0] ok, of "\<lambda>_. True" _ _ "\<lambda>_. True"] by blast
  have rs: "requests (replicate n (demo_curve False)) = replicate n 10" for n
    by (induction n) (simp_all add: demo_curve_def)
  have ago: "nat \<lfloor>10 :: real\<rfloor> = 10" by simp
  have kp: "gain_at (torque_gains V1) 30 = Some (8 / 10)" by (simp add: gain_at_def torque_gains_def np_interp_def)
  have m: "measured_accel (demo_car\<lparr>cs_vEgo := 30\<rparr>) demo_straight_vm demo_vehicle_parameters = 0"
    by (simp add: measured_accel_def demo_straight_vm_def)
  have off: "\<not> get_bool ''LateralJerkTorqueController'' (demo_torque_store False)" by (simp add: demo_store_readable)
  show ?thesis
    using setpoint_is_delayed_request [OF t0 off ok r demo_store_readable(1) [of False], where CS = "demo_car\<lparr>cs_vEgo := 30\<rparr>" and
      VM = demo_straight_vm and params = demo_vehicle_parameters and limited = False and k = 0 and cl = False and d = "1 / 10"] t0 r
    by (auto simp: rs Let_def ago nth_append kp m)
qed

text \<open>The PID controller of version 0 within limits of 2, when it is asked for more.\<close>

definition full_lock :: "pid \<Rightarrow> bool" where
  "full_lock c \<longleftrightarrow> pid_k_p c = torque_gains V0 \<and> pid_k_i c = const_gain (3 / 10) \<and> pid_k_d c = const_gain 0 \<and>
     pid_pos_limit c = 2 \<and> pid_neg_limit c = - 2 \<and> pid_i_dt c = 1 / 100 \<and> pid_i c = 0"

lemma full_lock_gains:
  "gain_at (torque_gains V0) 30 = Some 1" "gain_at (const_gain k) v = Some k"
  by (simp_all add: gain_at_def torque_gains_def const_gain_def np_interp_def)

lemma full_lock_integrate:
  assumes "full_lock c" "pid_p c = e" "pid_d c = 0" "pid_f c = ff" "3 \<le> e" "0 \<le> ff"
  shows "integrate e c = Some (c\<lparr>pid_i := 0\<rparr>)"
proof -
  have e: "np_clip (3 * e / 1000) (- 2) 0 = 0" "\<not> e + 3 * e / 1000 + ff < - 2" "2 < e + 3 * e / 1000 + ff"
    using assms(5,6) by (simp_all add: np_clip_def)
  have c: "pid_i_dt c = 1 / 100" "pid_k_i c = const_gain (3 / 10)" "pid_pos_limit c = 2" "pid_neg_limit c = - 2" "pid_i c = 0"
    using assms(1) unfolding full_lock_def by blast+
  have "3 / 10 * pid_i_dt c * e = 3 * e / 1000" unfolding c by simp
  then show ?thesis using e unfolding integrate_def c(2-5) assms(2-4) by (simp add: full_lock_gains c(1))
qed

lemma full_lock_update:
  assumes "full_lock c" "3 \<le> e" "0 \<le> ff"
  shows "\<exists>c'. pid_update e rate 30 ff False c = Some c' \<and> full_lock c' \<and> pid_control c' = 2"
proof -
  let ?c = "c\<lparr>pid_speed := 30, pid_p := e, pid_d := 0, pid_f := ff\<rparr>"
  have "integrate e ?c = Some (?c\<lparr>pid_i := 0\<rparr>)"
    by (rule full_lock_integrate [where ff = ff]) (use assms in \<open>simp_all add: full_lock_def\<close>)
  moreover have "np_clip (e + ff) (- 2) 2 = 2" using assms(2,3) by (simp add: np_clip_def)
  ultimately show ?thesis using assms(1)
    by (simp add: pid_update_def full_lock_gains full_lock_def)
qed

lemma demo_delay: "delay_frames_v0 (1 / 10) = 10"
  by (simp add: delay_frames_v0_def DT_CTRL_def py_int_def np_clip_def)

text \<open>C10: The jerk-aware controller is not limited to full torque at first: the extension replaces the PID controller it
  was built with by its owner's, whose limits are lateral accelerations, and nothing limits it again before the
  next update of the parameters.  In its first active frame it commands twice the full torque of a car for
  which full torque gives 2 metres per second squared.\<close>

theorem jerk_aware_escapes:
  "conversions_ok demo_torque_ci \<and> call_ok (demo_curve True) \<and> call_positive (demo_curve True) \<and>
   (\<exists>t0 out t'. lat_torque_init V0 demo_torque_ci demo_params (demo_torque_store True) = Some t0 \<and>
      torque_run demo_torque_ci demo_params [demo_curve True] t0 = Some ([out], t') \<and> lo_active out \<and> lo_torque out = - 2)"
proof -
  obtain t0 where t0: "lat_torque_init V0 demo_torque_ci demo_params (demo_torque_store True) = Some t0"
    using demo_torque_init by blast
  have "\<exists>out t'. torque_run demo_torque_ci demo_params [demo_curve True] t0 = Some ([out], t') \<and> lo_active out \<and> lo_torque out = - 2"
  proof -
    have f: "lt_version t0 = V0" "lt_params t0 = \<lparr>tq_latAccelFactor = 2, tq_latAccelOffset = 0, tq_friction = 0, tq_steeringAngleDeadzoneDeg = 0\<rparr>"
      "full_lock (lt_pid t0)" "lt_buffer t0 = replicate 100 0"
      "te_jerk_aware_enabled (lt_ext t0)" "\<not> te_speed_dep_active (lt_ext t0)" "\<not> te_enforce_torque_control_toggle (lt_ext t0)"
      "\<not> te_model_valid (lt_ext t0)"
      using t0 by (auto simp: lat_torque_init_def demo_params_def lt_update_limits_def set_limits_def demo_torque_ci_def STEER_MAX_def pid_init_def
          torque_ext_init_def demo_torque_store_def get_bool_def full_lock_def DT_CTRL_def)
    have o: "override_tuning demo_torque_ci (demo_torque_store True) t0 = Some t0"
      using f(6,7) by (simp add: override_tuning_def update_override_torque_params_def)
    let ?CS = "demo_car\<lparr>cs_vEgo := 30\<rparr>"
    define F where "F = \<lparr> tf_ff = 10, tf_setpoint = 10, tf_measurement = 0, tf_roll_compensation = 0, tf_desired_lateral_accel = 10,
      tf_lateral_accel_deadzone = 0, tf_gravity_adjusted = 10 \<rparr>"
    define fl where "fl = filter_update (- lt_previous_measurement t0 / DT_CTRL) (lt_filter t0)"
    define t1 where "t1 = t0\<lparr>lt_buffer := buffer_append 10 (lt_buffer t0), lt_filter := fl, lt_previous_measurement := 0\<rparr>"
    have v0: "update_v0 demo_torque_ci True ?CS demo_straight_vm demo_vehicle_parameters False (1 / 90) False (1 / 10) t0 =
        torque_output demo_torque_ci ?CS demo_straight_vm False False 10 (- ff_x fl) F t1"
      by (simp add: update_v0_def Let_def f(2,4) demo_delay from_end_def measured_accel_def accel_deadzone_def demo_straight_vm_def
          demo_vehicle_parameters_def demo_torque_ci_def F_def t1_def fl_def DT_CTRL_def)
    obtain c1 where c1: "pid_update 10 (- ff_x fl) 30 10 False (lt_pid t0) = Some c1" "full_lock c1" "pid_control c1 = 2"
      using full_lock_update [OF f(3), of 10 10 "- ff_x fl"] by auto
    obtain c2 where c2: "pid_update 5 0 30 5 False c1 = Some c2" "pid_control c2 = 2"
      using full_lock_update [OF c1(2), of 5 5 0] by auto
    show ?thesis
      using f(1,5,8) by (simp add: demo_curve_def lat_torque_update_def o v0)
        (simp add: torque_output_def t1_def F_def c1(1) freeze_integrator_def demo_car_def ext_update_def update_calculations_def
          update_jerk_aware_def Let_def demo_torque_ci_def c2 f(2) split: prod.split)
  qed
  with t0 show ?thesis using demo_conversions demo_store_readable by blast
qed

theorem jerk_aware_limited_witness:
  "\<exists>t0 out t1 outs t'. lat_torque_init V0 demo_torque_ci demo_params (demo_torque_store True) = Some t0 \<and>
     torque_run demo_torque_ci demo_params [demo_curve True] t0 = Some ([out], t1) \<and>
     torque_run demo_torque_ci demo_params (Set_parameters 2 0 0 # [demo_curve True]) t1 = Some (outs, t') \<and>
     (\<forall>out \<in> set outs. \<bar>lo_torque out\<bar> \<le> 1)"
proof -
  obtain t0 where t0: "lat_torque_init V0 demo_torque_ci demo_params (demo_torque_store True) = Some t0"
    using demo_torque_init by blast
  then have j0: "te_jerk_aware_enabled (lt_ext t0)"
    by (auto simp: lat_torque_init_def demo_params_def lt_update_limits_def torque_ext_init_def demo_store_readable)
  obtain out t1 where t1: "torque_call demo_torque_ci demo_params (demo_curve True) t0 = Some ([out], t1)" "torque_wf t1"
    "te_jerk_aware_enabled (lt_ext t1)" "te_pid (lt_ext t1) = None"
    using active_step_shares [OF lat_torque_init_wf [OF t0] demo_store_readable(1) [of True], of demo_torque_ci] j0
    unfolding demo_curve_def by meson
  have "\<exists>outs t'. torque_run demo_torque_ci demo_params (Set_parameters 2 0 0 # [demo_curve True]) t1 = Some (outs, t') \<and>
      (\<forall>out \<in> set outs. \<bar>lo_torque out\<bar> \<le> 1)"
    by (rule jerk_aware_limited [OF t1(2,3,4)]) (simp add: demo_store_readable)
  with t0 t1(1) show ?thesis by auto
qed

end
