(* ===== verification/ControlsProps.thy ===== *)
theory ControlsProps
  imports Controls LatTorqueProps CarEvents
begin

text \<open>
  What controlsd sends: the gates on lateral and longitudinal control, the bounds of the commands over
  every run, the jerk limit of the curvature, and the pause of lateral control after the blinker.
\<close>

section \<open>The invariant\<close>

definition lac_ok :: "ctl_env \<Rightarrow> lat_controller \<Rightarrow> bool" where
  "lac_ok E lac \<longleftrightarrow> (is_torque (cp_lateralTuning (ce_CP E)) \<longrightarrow> (\<exists>t. lac = LatTorque t)) \<and>
     (case lac of
        LatPID lp \<Rightarrow> pid_wf (lpd_pid lp) \<and> pid_neg_limit (lpd_pid lp) = - 1 \<and> pid_pos_limit (lpd_pid lp) = 1
      | LatCurvature lc \<Rightarrow> \<forall>c. lcv_pid lc = Some c \<longrightarrow> pid_wf c
      | LatTorque t \<Rightarrow> torque_wf t
      | _ \<Rightarrow> True)"

definition ctl_inv :: "ctl_env \<Rightarrow> controls \<Rightarrow> bool" where
  "ctl_inv E c \<longleftrightarrow> pid_wf (loc_pid (cl_LoC c)) \<and> lac_ok E (cl_LaC c) \<and> \<bar>cl_desired_curvature c\<bar> \<le> MAX_CURVATURE \<and>
     (is_torque (cp_lateralTuning (ce_CP E)) \<longrightarrow> cl_lat_delay c \<noteq> None)"

text \<open>The gains are interpolation tables, and a car with the torque tuning is steered by torque.\<close>

definition tuning_wf :: "car_params \<Rightarrow> bool" where
  "tuning_wf CP \<longleftrightarrow> gain_wf (cp_kiBP CP, cp_kiV CP) \<and>
     (case cp_lateralTuning CP of Tuning_pid kp ki kf \<Rightarrow> gain_wf kp \<and> gain_wf ki
      | Tuning_torque _ \<Rightarrow> cp_steerControlType CP = SCT_torque)"

lemma pid_init_wf: "gain_wf kp \<Longrightarrow> gain_wf ki \<Longrightarrow> pid_wf (pid_init kp ki (const_gain 0) hi lo r)"
  by (simp add: pid_init_def pid_wf_def)

text \<open>Parameters with defaults, and a model output with all its points.\<close>

definition params_ok :: "params \<Rightarrow> bool" where
  "params_ok p \<longleftrightarrow> get_float ''BlinkerMinLateralControlSpeed'' p \<noteq> None \<and> get_float ''BlinkerLateralReengageDelay'' p \<noteq> None \<and>
     get_float ''LagdValueCache'' p \<noteq> None \<and> override_readable p"

definition inputs_ok :: "ctl_inputs \<Rightarrow> bool" where
  "inputs_ok inp \<longleftrightarrow> (CONTROL_N \<le> ci_orientation_length inp \<longrightarrow> length (ci_acceleration_y inp) = 33)"

lemma stock_ok:
  assumes "tuning_wf (ce_CP E)" "stock_lateral_control E p = Some lac"
  shows "lac_ok E lac"
proof (cases "cp_lateralTuning (ce_CP E)")
  case (Tuning_pid kp ki kf)
  with assms show ?thesis
    by (auto simp: lac_ok_def stock_lateral_control_def tuning_wf_def Let_def lat_curvature_init_def lat_pid_init_def pid_init_wf
        is_torque_def pid_init_def pid_wf_def STEER_MAX_def split: if_splits)
next
  case (Tuning_torque tuning)
  with assms show ?thesis
    by (auto simp: lac_ok_def stock_lateral_control_def tuning_wf_def Let_def dest: lat_torque_init_wf)
qed

lemma initialize_ok:
  assumes "lac_ok E lac" "initialize_lateral_control E p lac = Some lac'"
  shows "lac_ok E lac'"
proof -
  have "lac' = lac \<or> (\<exists>t. lac' = LatTorque t \<and> torque_wf t)"
    using assms(2) by (auto simp: initialize_lateral_control_def Let_def dest: lat_torque_init_wf split: if_splits)
  then show ?thesis using assms(1) by (auto simp: lac_ok_def)
qed

lemma controls_init_inv:
  assumes "tuning_wf (ce_CP E)" "params_ok p" "controls_init E p = Some c"
  shows "ctl_inv E c"
proof -
  obtain lac lac' where l: "stock_lateral_control E p = Some lac" "initialize_lateral_control E p lac = Some lac'"
    "c = \<lparr> cl_steer_limited_by_safety = False, cl_curvature = 0, cl_desired_curvature = 0,
           cl_LoC = long_control_init (ce_CP E), cl_LaC = lac', cl_blinker = blinker_pause_init p,
           cl_param_update_time = 0, cl_lat_delay = get_float ''LagdValueCache'' p \<rparr>"
    using assms(3) by (auto simp: controls_init_def bind_eq_Some_conv)
  have "lac_ok E lac'" by (rule initialize_ok [OF stock_ok [OF assms(1) l(1)] l(2)])
  moreover have "pid_wf (loc_pid (long_control_init (ce_CP E)))"
    using assms(1) by (intro long_control_init_wf) (simp add: tuning_wf_def)
  ultimately show ?thesis using assms(2) by (simp add: l(3) ctl_inv_def MAX_CURVATURE_def params_ok_def)
qed

text \<open>The constructor raises only where version 0 of the torque controller is forced onto another tuning.\<close>

lemma controls_init_total:
  assumes "is_torque (cp_lateralTuning (ce_CP E)) \<or> \<not> get_bool ''EnforceTorqueControl'' p \<or> pr_values p ''TorqueControlTune'' \<noteq> Some (PFloat 0)"
  shows "\<exists>c. controls_init E p = Some c"
proof -
  have t: "\<exists>t. lat_torque_init v (ce_torque E) (ce_CP E) p = Some t" if "is_torque (cp_lateralTuning (ce_CP E))" for v
    using that by (auto simp: lat_torque_init_def is_torque_def split: lateral_tuning.splits)
  have "\<exists>lac. stock_lateral_control E p = Some lac"
    using t [of V1] by (auto simp: stock_lateral_control_def is_torque_def Let_def split: lateral_tuning.split)
  moreover have "\<exists>lac'. initialize_lateral_control E p lac = Some lac'" for lac
    using t [of V0] assms by (auto simp: initialize_lateral_control_def Let_def)
  ultimately obtain lac lac' where "stock_lateral_control E p = Some lac" "initialize_lateral_control E p lac = Some lac'" by blast
  then show ?thesis by (simp add: controls_init_def)
qed

lemma controls_init_torque:
  assumes "tuning_wf (ce_CP E)" "is_torque (cp_lateralTuning (ce_CP E))" "controls_init E p = Some c"
  shows "\<exists>v t. cl_LaC c = LatTorque t \<and> lat_torque_init v (ce_torque E) (ce_CP E) p = Some t"
proof -
  obtain lac where l: "stock_lateral_control E p = Some lac" "initialize_lateral_control E p lac = Some (cl_LaC c)"
    using assms(3) by (auto simp: controls_init_def bind_eq_Some_conv)
  have "\<exists>t. lac = LatTorque t \<and> lat_torque_init V1 (ce_torque E) (ce_CP E) p = Some t"
    using l(1) assms(1,2) by (auto simp: stock_lateral_control_def tuning_wf_def is_torque_def Let_def split: lateral_tuning.splits)
  with l(2) show ?thesis by (auto simp: initialize_lateral_control_def Let_def split: if_splits; metis)
qed

lemma lac_ok_reset: "lac_ok E lac \<Longrightarrow> lac_ok E (lat_reset E lac)"
  by (cases lac) (auto simp: lac_ok_def lat_curvature_reset_def frame_simps)

lemma torque_params_ok:
  assumes "lac_ok E lac" "is_torque (cp_lateralTuning (ce_CP E)) \<longrightarrow> lag \<noteq> None" "inputs_ok inp"
  shows "\<exists>lac'. update_torque_params E inp lag lac = Some lac' \<and> lac_ok E lac' \<and> ((\<exists>t. lac' = LatTorque t) \<longleftrightarrow> (\<exists>t. lac = LatTorque t)) \<and>
     ((\<exists>la. lac' = LatAngle la) \<longleftrightarrow> (\<exists>la. lac = LatAngle la))"
proof (cases "is_torque (cp_lateralTuning (ce_CP E))")
  case True
  then obtain t d where t: "lac = LatTorque t" "lag = Some d" "torque_wf t" using assms(1,2) by (auto simp: lac_ok_def)
  let ?t = "if ci_torque_checks inp \<and> tp_useParams (ci_torque_params inp)
    then ext_update_limits (update_torque_parameters (ce_torque E) (tp_latAccelFactorFiltered (ci_torque_params inp))
           (tp_latAccelOffsetFiltered (ci_torque_params inp)) (tp_frictionCoefficientFiltered (ci_torque_params inp)) t)
    else t"
  have "torque_wf ?t" using t(3) by (simp add: frame_simps)
  then have "torque_wf (?t\<lparr>lt_ext := update_lateral_lag d (update_model_v2 (ci_acceleration_y inp) (ci_orientation_length inp) (lt_ext ?t))\<rparr>)"
    using assms(3) by (intro torque_wf_ext) (simp_all add: torque_wf_D ext_setters inputs_ok_def)
  then show ?thesis using True t(1,2) by (simp add: update_torque_params_def lac_ok_def Let_def)
qed (use assms(1) in \<open>simp add: update_torque_params_def\<close>)

text \<open>One update of the steering controller does not raise, and an inactive one does not steer.\<close>

lemma lat_update_ok:
  assumes "lac_ok E lac" "override_readable p"
  shows "\<exists>out lac'. lat_update E p active inp VM l k cl lac = Some (out, lac') \<and> lac_ok E lac' \<and> lo_active out = active \<and>
    ((\<forall>t. lac \<noteq> LatTorque t) \<longrightarrow> \<bar>lo_torque out\<bar> \<le> 1) \<and> (\<not> active \<longrightarrow> lo_torque out = 0) \<and>
    ((\<exists>la. lac = LatAngle la) \<longrightarrow> \<not> active \<longrightarrow> lo_output out = cs_steeringAngleDeg (ci_CS inp))"
proof (cases lac)
  case (LatAngle la)
  with assms lat_angle_update_ok [of active "ci_CS inp" VM "ci_params inp" l k cl la] show ?thesis
    by (cases "lat_angle_update active (ci_CS inp) VM (ci_params inp) l k cl la") (auto simp: lac_ok_def)
next
  case (LatCurvature lc)
  with assms lat_curvature_update_ok [of lc active "ci_CS inp" VM "ci_params inp" k cl] show ?thesis
    by (auto simp: lac_ok_def)
next
  case (LatPID lp)
  with assms lat_pid_update_ok [of lp "ce_steer_feedforward E" active "ci_CS inp" VM "ci_params inp" l k cl] show ?thesis
    by (auto simp: lac_ok_def)
next
  case (LatTorque t)
  then have "torque_wf t" using assms(1) by (simp add: lac_ok_def)
  then obtain out t' where "lat_torque_update (ce_torque E) p active (ci_CS inp) VM (ci_params inp) l k cl
      (ci_lateralDelay inp + LAT_SMOOTH_SECONDS) t = Some (out, t')"
    "torque_wf t'" "lo_active out = active" "\<not> active \<longrightarrow> lo_torque out = 0"
    using lat_torque_update_ok [OF _ assms(2)] by blast
  then show ?thesis using LatTorque by (simp add: lac_ok_def)
qed

text \<open>The speed-dependent tables keep the kind of the controller and its invariant.\<close>

lemma run_ext_ok: "lac_ok E lac \<Longrightarrow> lac_ok E (run_ext E inp lac)"
  by (auto simp: run_ext_def lac_ok_def torque_wf_ext torque_wf_D ext_setters split: lat_controller.split)

section \<open>One frame\<close>

definition accel_limits :: "ctl_env \<Rightarrow> ctl_inputs \<Rightarrow> real \<times> real" where
  "accel_limits E inp = ce_pid_accel_limits E (cs_vEgo (ci_CS inp)) (cs_vCruise (ci_CS inp) * KPH_TO_MS)"

definition commanded_curvature :: "ctl_env \<Rightarrow> ctl_inputs \<Rightarrow> bool \<Rightarrow> controls \<Rightarrow> real \<times> bool" where
  "commanded_curvature E inp lat c =
     clip_curvature (cs_vEgo (ci_CS inp)) (cl_desired_curvature c)
       (target_curvature inp lat (- vm_calc_curvature (frame_vehicle_model E (ci_params inp))
          (radians (cs_steeringAngleDeg (ci_CS inp) - vp_angleOffsetDeg (ci_params inp))) (cs_vEgo (ci_CS inp)) (vp_roll (ci_params inp))))
       (vp_roll (ci_params inp))"

text \<open>The facts of a frame the properties read off: of the actuators, the desired curvature, the state of
  the acceleration controller and the terms of its loop.\<close>

definition frame_lat :: "ctl_env \<Rightarrow> ctl_inputs \<Rightarrow> controls \<Rightarrow> bool" where
  "frame_lat E inp c \<longleftrightarrow> fst (get_lat_active inp (cl_blinker c)) \<and> lat_allowed (ce_CP E) (ci_CS inp)"

definition frame_facts ::
  "ctl_env \<Rightarrow> ctl_inputs \<Rightarrow> controls \<Rightarrow> actuators \<Rightarrow> real \<Rightarrow> long_ctrl_state \<Rightarrow> real \<times> real \<times> real \<Rightarrow> bool" where
  "frame_facts E inp c a desired st terms \<longleftrightarrow>
     ac_latActive a = frame_lat E inp c \<and> ac_longActive a = long_allowed E inp \<and>
     desired = fst (commanded_curvature E inp (frame_lat E inp c) c) \<and>
     (\<exists>x. ac_accel a = np_clip x (fst (accel_limits E inp)) (snd (accel_limits E inp)) \<and> (\<not> long_allowed E inp \<longrightarrow> x = 0)) \<and>
     (\<not> long_allowed E inp \<longrightarrow> st = LC_off \<and> terms = (0, 0, 0)) \<and>
     ((\<forall>t. cl_LaC c \<noteq> LatTorque t) \<longrightarrow> \<bar>ac_torque a\<bar> \<le> 1) \<and> (\<not> frame_lat E inp c \<longrightarrow> ac_torque a = 0) \<and>
     ((\<exists>la. cl_LaC c = LatAngle la) \<longrightarrow> cp_steerControlType (ce_CP E) \<noteq> SCT_curvature \<longrightarrow> \<not> frame_lat E inp c \<longrightarrow>
        ac_steeringAngleDeg a = cs_steeringAngleDeg (ci_CS inp))"

definition loop_terms :: "long_control \<Rightarrow> real \<times> real \<times> real" where
  "loop_terms lc = (pid_p (loc_pid lc), pid_i (loc_pid lc), pid_f (loc_pid lc))"

text \<open>\<open>state_control\<close> from a state of the invariant: it does not raise, and what its output is.\<close>

lemma state_control_ok:
  assumes "ctl_inv E c" "params_ok p" "inputs_ok inp"
  shows "\<exists>a out c'. state_control E p inp c = Some (a, out, c') \<and> ctl_inv E c' \<and>
    frame_facts E inp c a (cl_desired_curvature c') (loc_state (cl_LoC c')) (loop_terms (cl_LoC c')) \<and>
    cl_blinker c' = snd (get_lat_active inp (cl_blinker c)) \<and> cl_param_update_time c' = cl_param_update_time c"
proof -
  define lat where "lat = frame_lat E inp c"
  let ?CS = "ci_CS inp" and ?lp = "ci_params inp"
  let ?VM = "frame_vehicle_model E ?lp"
  let ?curv = "- vm_calc_curvature ?VM (radians (cs_steeringAngleDeg ?CS - vp_angleOffsetDeg ?lp)) (cs_vEgo ?CS) (vp_roll ?lp)"
  obtain lac where lac: "update_torque_params E inp (cl_lat_delay c) (cl_LaC c) = Some lac" "lac_ok E lac"
    "(\<exists>t. lac = LatTorque t) \<longleftrightarrow> (\<exists>t. cl_LaC c = LatTorque t)" "(\<exists>la. lac = LatAngle la) \<longleftrightarrow> (\<exists>la. cl_LaC c = LatAngle la)"
    using torque_params_ok [of E "cl_LaC c" "cl_lat_delay c" inp] assms(1,3) by (auto simp: ctl_inv_def)
  let ?lac = "gated lat (lat_reset E) lac"
  let ?loc = "gated (long_allowed E inp) long_control_reset (cl_LoC c)"
  have loc_wf: "pid_wf (loc_pid ?loc)"
    using assms(1) by (simp add: ctl_inv_def gated_def long_control_reset_def frame_simps)
  obtain loc where loc: "long_control_update (ce_CP E) (ce_CP_SP E) (long_allowed E inp) ?CS (ci_aTarget inp) (ci_shouldStop inp)
      (accel_limits E inp) ?loc = Some loc" "pid_wf (loc_pid loc)"
    and st: "loc_state loc = long_control_state_trans (ce_CP_SP E) (long_allowed E inp) (loc_state ?loc) (ci_shouldStop inp)
      (cs_brakePressed ?CS) (cr_standstill (cs_cruiseState ?CS))"
    and accel: "\<exists>x. loc_last_output_accel loc = np_clip x (fst (accel_limits E inp)) (snd (accel_limits E inp)) \<and>
       (loc_state loc = LC_off \<longrightarrow> x = 0) \<and>
       (loc_state loc = LC_stopping \<longrightarrow> x = stop_accel (ce_CP E) (loc_last_output_accel ?loc))"
    and terms: "loc_state loc \<in> {LC_off, LC_stopping} \<longrightarrow>
       pid_p (loc_pid loc) = 0 \<and> pid_i (loc_pid loc) = 0 \<and> pid_f (loc_pid loc) = 0"
    using long_control_update_ok [OF loc_wf, of "ce_CP E" "ce_CP_SP E" "long_allowed E inp" ?CS "ci_aTarget inp" "ci_shouldStop inp"
        "accel_limits E inp"] by blast
  have off: "\<not> long_allowed E inp \<longrightarrow> loc_state loc = LC_off" using st by simp
  obtain desired limited where k: "commanded_curvature E inp lat c = (desired, limited)"
    by (cases "commanded_curvature E inp lat c")
  have ok: "lac_ok E ?lac" using lac(2) by (simp add: gated_def lac_ok_reset)
  obtain out lac' where out: "lat_update E p lat inp ?VM (cl_steer_limited_by_safety c) desired limited ?lac = Some (out, lac')"
    "lac_ok E lac'"
    "(\<forall>t. ?lac \<noteq> LatTorque t) \<longrightarrow> \<bar>lo_torque out\<bar> \<le> 1" "\<not> lat \<longrightarrow> lo_torque out = 0"
    "(\<exists>la. ?lac = LatAngle la) \<longrightarrow> \<not> lat \<longrightarrow> lo_output out = cs_steeringAngleDeg ?CS"
    using lat_update_ok [OF ok, of p lat inp ?VM "cl_steer_limited_by_safety c" desired limited] assms(2) unfolding params_ok_def by blast
  have kind: "(\<exists>t. ?lac = LatTorque t) \<longleftrightarrow> (\<exists>t. cl_LaC c = LatTorque t)" "(\<exists>la. ?lac = LatAngle la) \<longleftrightarrow> (\<exists>la. cl_LaC c = LatAngle la)"
    using lac(3,4) by (cases lac; auto simp: gated_def)+
  have desired: "desired = fst (commanded_curvature E inp lat c)" "\<bar>desired\<bar> \<le> MAX_CURVATURE"
    using k clip_curvature_max unfolding commanded_curvature_def by (metis fst_conv)+
  obtain la b where g: "get_lat_active inp (cl_blinker c) = (la, b)" by (cases "get_lat_active inp (cl_blinker c)")
  have lat: "(la \<and> lat_allowed (ce_CP E) ?CS) = lat" by (simp add: lat_def frame_lat_def g)
  have eq: "state_control E p inp c =
      Some (\<lparr> ac_accel = loc_last_output_accel loc, ac_torque = lo_torque out,
              ac_curvature = (if cp_steerControlType (ce_CP E) = SCT_curvature then lo_output out else desired),
              ac_steeringAngleDeg = (if cp_steerControlType (ce_CP E) = SCT_curvature then 0 else lo_output out),
              ac_longControlState = loc_state (cl_LoC c), ac_latActive = lat, ac_longActive = long_allowed E inp,
              ac_leftBlinker = (ci_laneChangeState inp \<noteq> LCS_off \<and> ci_laneChangeDirection inp = LCD_left),
              ac_rightBlinker = (ci_laneChangeState inp \<noteq> LCS_off \<and> ci_laneChangeDirection inp = LCD_right) \<rparr>,
            out, c\<lparr>cl_curvature := ?curv, cl_LaC := lac', cl_LoC := loc, cl_blinker := b, cl_desired_curvature := desired\<rparr>)"
    using lac(1) loc(1) [unfolded accel_limits_def] out(1) k [unfolded commanded_curvature_def]
    by (simp add: state_control_def Let_def g lat split del: if_split)
  have accel': "\<exists>x. loc_last_output_accel loc = np_clip x (fst (accel_limits E inp)) (snd (accel_limits E inp)) \<and>
      (\<not> long_allowed E inp \<longrightarrow> x = 0)"
    using accel off by blast
  have torque: "(\<forall>t. cl_LaC c \<noteq> LatTorque t) \<longrightarrow> \<bar>lo_torque out\<bar> \<le> 1" "\<not> lat \<longrightarrow> lo_torque out = 0"
    using out(3,4) kind(1) by blast+
  have angle: "(\<exists>la. cl_LaC c = LatAngle la) \<longrightarrow> \<not> lat \<longrightarrow> lo_output out = cs_steeringAngleDeg ?CS"
    using out(5) kind(2) by blast
  show ?thesis
  proof (rule exI, rule exI, rule exI, intro conjI, rule eq)
  qed (use loc(2) accel' off terms out(2) torque angle desired assms(1) in \<open>simp_all add: ctl_inv_def frame_facts_def loop_terms_def g flip: lat_def\<close>)
qed

lemma publish_fields:
  "cl_desired_curvature (snd (ctl_publish E inp a out c)) = cl_desired_curvature c"
  "cl_LoC (snd (ctl_publish E inp a out c)) = cl_LoC c" "cl_LaC (snd (ctl_publish E inp a out c)) = cl_LaC c"
  "cl_blinker (snd (ctl_publish E inp a out c)) = snd (get_lat_active inp (cl_blinker c))"
  "cl_param_update_time (snd (ctl_publish E inp a out c)) = cl_param_update_time c"
  "cl_lat_delay (snd (ctl_publish E inp a out c)) = cl_lat_delay c"
  "co_actuators (fst (ctl_publish E inp a out c)) = a"
  "co_desiredCurvature (fst (ctl_publish E inp a out c)) = cl_desired_curvature c"
  "co_longControlState (fst (ctl_publish E inp a out c)) = loc_state (cl_LoC c)"
  "co_accel_terms (fst (ctl_publish E inp a out c)) = loop_terms (cl_LoC c)"
  by (simp_all add: ctl_publish_def Let_def loop_terms_def split: prod.split)

text \<open>What a frame publishes, from a state of the invariant and with readable parameters.\<close>

lemma get_params_sp_ok:
  assumes "params_ok p"
  shows "\<exists>c'. get_params_sp E p clock inp c = Some c' \<and> cl_desired_curvature c' = cl_desired_curvature c \<and> cl_LoC c' = cl_LoC c \<and>
    cl_LaC c' = cl_LaC c \<and> (fst clock - cl_param_update_time c \<le> PARAMS_UPDATE_PERIOD \<longrightarrow> c' = c) \<and>
    (cl_lat_delay c \<noteq> None \<longrightarrow> cl_lat_delay c' \<noteq> None)"
proof -
  obtain b where b: "blinker_pause_get_params p (cl_blinker c) = Some b"
    using assms by (auto simp: params_ok_def blinker_pause_get_params_def)
  have "\<exists>lag. get_lat_delay p (ci_lateralDelay inp) = Some lag"
    using assms by (auto simp: params_ok_def get_lat_delay_def)
  then show ?thesis using b by (cases "is_torque (cp_lateralTuning (ce_CP E))") (auto simp: get_params_sp_def Let_def)
qed

abbreviation output_facts :: "ctl_env \<Rightarrow> ctl_inputs \<Rightarrow> controls \<Rightarrow> ctl_output \<Rightarrow> bool" where
  "output_facts E inp c co \<equiv>
     frame_facts E inp c (co_actuators co) (co_desiredCurvature co) (co_longControlState co) (co_accel_terms co)"

lemma ctl_step_ok:
  assumes "ctl_inv E c" "params_ok p" "inputs_ok inp"
  obtains co c' where "ctl_step E (p, clock, inp) c = Some (co, c')" "ctl_inv E c'" "output_facts E inp c co"
    "cl_desired_curvature c' = co_desiredCurvature co"
    "fst clock - cl_param_update_time c \<le> PARAMS_UPDATE_PERIOD \<Longrightarrow>
       cl_param_update_time c' = cl_param_update_time c \<and>
       cl_blinker c' = snd (get_lat_active inp (snd (get_lat_active inp (cl_blinker c))))"
proof -
  obtain a out c1 where s: "state_control E p inp c = Some (a, out, c1)" "ctl_inv E c1"
    and facts: "frame_facts E inp c a (cl_desired_curvature c1) (loc_state (cl_LoC c1)) (loop_terms (cl_LoC c1))"
      "cl_blinker c1 = snd (get_lat_active inp (cl_blinker c))" "cl_param_update_time c1 = cl_param_update_time c"
    using state_control_ok [OF assms] by blast
  obtain co c2 where p: "ctl_publish E inp a out c1 = (co, c2)" by (cases "ctl_publish E inp a out c1")
  note f = publish_fields [of E inp a out c1, unfolded p fst_conv snd_conv]
  obtain c' where c': "get_params_sp E p clock inp c2 = Some c'" "cl_desired_curvature c' = cl_desired_curvature c2"
    "cl_LoC c' = cl_LoC c2" "cl_LaC c' = cl_LaC c2" "fst clock - cl_param_update_time c2 \<le> PARAMS_UPDATE_PERIOD \<longrightarrow> c' = c2"
    "cl_lat_delay c2 \<noteq> None \<longrightarrow> cl_lat_delay c' \<noteq> None"
    using get_params_sp_ok [OF assms(2), of E clock inp c2] by blast
  have step: "ctl_step E (p, clock, inp) c = Some (co, c'\<lparr>cl_LaC := run_ext E inp (cl_LaC c')\<rparr>)"
    by (simp add: ctl_step_def s(1) p c'(1))
  show thesis
    by (rule that [OF step]) (use s(2) facts f c' in \<open>auto simp: ctl_inv_def run_ext_ok\<close>)
qed

lemma ctl_step_facts:
  assumes "ctl_inv E c" "ctl_step E (p, clock, inp) c = Some (co, c')" "params_ok p" "inputs_ok inp"
  shows "ctl_inv E c' \<and> output_facts E inp c co \<and> cl_desired_curvature c' = co_desiredCurvature co"
  using assms(2) by (cases rule: ctl_step_ok [OF assms(1,3,4), of clock]) simp

text \<open>A run over good frames returns one output per frame and keeps the invariant; what holds of each frame
  from a state of the invariant holds of every frame of the run.\<close>

lemma ctl_run_induct:
  assumes "ctl_inv E c" "\<forall>f\<in>set fs. params_ok (fst f) \<and> inputs_ok (snd (snd f))"
    and "\<And>f c co. f \<in> set fs \<Longrightarrow> ctl_inv E c \<Longrightarrow> output_facts E (snd (snd f)) c co \<Longrightarrow> Q f co"
  shows "\<exists>outs c'. ctl_run E fs c = Some (outs, c') \<and> ctl_inv E c' \<and> list_all2 Q fs outs"
  using assms
proof (induction fs arbitrary: c)
  case Nil
  then show ?case by simp
next
  case (Cons f fs)
  obtain p clock inp where f: "f = (p, clock, inp)" by (cases f)
  have "params_ok p" "inputs_ok inp" using Cons.prems(2) by (simp_all add: f)
  then show ?case
  proof (rule ctl_step_ok [OF Cons.prems(1)])
    fix co c1
    assume step: "ctl_step E (p, clock, inp) c = Some (co, c1)" "ctl_inv E c1" "output_facts E inp c co"
    have "\<exists>outs c'. ctl_run E fs c1 = Some (outs, c') \<and> ctl_inv E c' \<and> list_all2 Q fs outs"
      by (rule Cons.IH [OF step(2)]) (use Cons.prems(2) in simp, rule Cons.prems(3), simp_all)
    moreover have "Q f co" by (rule Cons.prems(3) [OF _ Cons.prems(1)]) (use step(3) in \<open>simp_all add: f\<close>)
    ultimately show ?case using step(1) by (auto simp: f)
  qed
qed

section \<open>Properties\<close>

text \<open>C6: Control is gated: in every frame longitudinal control is active only when openpilot is enabled, no
  current event overrides it and openpilot or the buttons set the speed; lateral control only when MADS (or
  openpilot, where MADS is not available) is active, no steering fault is present and the car moves or steers
  at standstill.  While longitudinal control is off, the acceleration is 0 (within the car's limits), the
  controller is off and its terms are 0; while lateral control is off, no steering controller commands a
  torque and the angle of the angle controller is the measured one.\<close>

theorem control_gated:
  assumes "ctl_inv E c" "params_ok p" "inputs_ok inp" "ctl_step E (p, clock, inp) c = Some (co, c')"
  defines "a \<equiv> co_actuators co" and "CS \<equiv> ci_CS inp" and "CP \<equiv> ce_CP E"
  shows "(ac_longActive a \<longrightarrow> ci_enabled inp \<and> (\<forall>(e, ts)\<in>set (ci_onroadEvents inp). OVERRIDE_LONGITUDINAL \<notin> set ts) \<and>
            (cp_openpilotLongitudinalControl CP \<or> \<not> cpsp_pcmCruiseSpeed (ce_CP_SP E))) \<and>
         (ac_latActive a \<longrightarrow> (if ci_mads_available inp then ci_mads_active inp else ci_active inp) \<and>
            \<not> cs_steerFaultTemporary CS \<and> \<not> cs_steerFaultPermanent CS \<and>
            (\<bar>cs_vEgo CS\<bar> > max (cp_minSteerSpeed CP) (3 / 10) \<and> \<not> cs_standstill CS \<or> cp_steerAtStandstill CP)) \<and>
         (\<not> ac_longActive a \<longrightarrow>
            ac_accel a = np_clip 0 (fst (accel_limits E inp)) (snd (accel_limits E inp)) \<and>
            co_longControlState co = LC_off \<and> co_accel_terms co = (0, 0, 0)) \<and>
         (\<not> ac_latActive a \<longrightarrow> ac_torque a = 0) \<and>
         (\<not> ac_latActive a \<longrightarrow> cp_steerControlType CP = SCT_angle \<longrightarrow> (\<exists>la. cl_LaC c = LatAngle la) \<longrightarrow>
            ac_steeringAngleDeg a = cs_steeringAngleDeg CS)"
proof -
  have facts: "frame_facts E inp c a (co_desiredCurvature co) (co_longControlState co) (co_accel_terms co)"
    using ctl_step_facts [OF assms(1,4,2,3)] by (simp add: a_def)
  have lat: "frame_lat E inp c \<Longrightarrow> (if ci_mads_available inp then ci_mads_active inp else ci_active inp) \<and> lat_allowed CP CS"
    by (auto simp: frame_lat_def get_lat_active_def CP_def CS_def split: prod.splits if_splits)
  have long: "long_allowed E inp \<Longrightarrow> ci_enabled inp \<and> (\<forall>(e, ts)\<in>set (ci_onroadEvents inp). OVERRIDE_LONGITUDINAL \<notin> set ts) \<and>
      (cp_openpilotLongitudinalControl CP \<or> \<not> cpsp_pcmCruiseSpeed (ce_CP_SP E))"
    by (auto simp: long_allowed_def list_ex_iff CP_def)
  have allowed: "lat_allowed CP CS \<Longrightarrow> \<not> cs_steerFaultTemporary CS \<and> \<not> cs_steerFaultPermanent CS \<and>
      (\<bar>cs_vEgo CS\<bar> > max (cp_minSteerSpeed CP) (3 / 10) \<and> \<not> cs_standstill CS \<or> cp_steerAtStandstill CP)"
    by (auto simp: lat_allowed_def Let_def)
  have f: "ac_latActive a = frame_lat E inp c" "ac_longActive a = long_allowed E inp"
    "\<exists>x. ac_accel a = np_clip x (fst (accel_limits E inp)) (snd (accel_limits E inp)) \<and> (\<not> long_allowed E inp \<longrightarrow> x = 0)"
    "\<not> long_allowed E inp \<longrightarrow> co_longControlState co = LC_off \<and> co_accel_terms co = (0, 0, 0)"
    "\<not> frame_lat E inp c \<longrightarrow> ac_torque a = 0"
    "(\<exists>la. cl_LaC c = LatAngle la) \<longrightarrow> cp_steerControlType CP \<noteq> SCT_curvature \<longrightarrow> \<not> frame_lat E inp c \<longrightarrow>
       ac_steeringAngleDeg a = cs_steeringAngleDeg CS"
    using facts unfolding frame_facts_def CP_def CS_def by blast+
  show ?thesis
    unfolding f(1,2) using f(3-6) lat long allowed by (intro conjI impI) auto
qed

text \<open>C7: The commands are bounded in every run: from the state the constructor builds, with gains that are
  interpolation tables, parameters that can be read, complete model outputs and car limits that are ordered, \<open>controlsd\<close> does not
  raise, publishes one output per frame, and in each the curvature is at most 0.2 per metre, the lateral
  acceleration it asks for is within 3 metres per second squared of the road's roll (where the roll itself is), and the
  acceleration is within the limits of the car interface.\<close>

definition command_in_bounds :: "ctl_env \<Rightarrow> ctl_inputs \<Rightarrow> ctl_output \<Rightarrow> bool" where
  "command_in_bounds E inp co \<longleftrightarrow>
     \<bar>co_desiredCurvature co\<bar> \<le> 2 / 10 \<and>
     (let g = vp_roll (ci_params inp) * (981 / 100); v = max (cs_vEgo (ci_CS inp)) 1
      in \<bar>g\<bar> \<le> 3 \<longrightarrow> \<bar>co_desiredCurvature co * v\<^sup>2 - g\<bar> \<le> 3) \<and>
     fst (accel_limits E inp) \<le> ac_accel (co_actuators co) \<and> ac_accel (co_actuators co) \<le> snd (accel_limits E inp)"

theorem commands_bounded:
  assumes "tuning_wf (ce_CP E)" "params_ok p0" "controls_init E p0 = Some c0"
    and "\<forall>(p, clock, inp)\<in>set fs. params_ok p \<and> inputs_ok inp \<and> fst (accel_limits E inp) \<le> snd (accel_limits E inp)"
  shows "\<exists>outs c'. ctl_run E fs c0 = Some (outs, c') \<and>
           list_all2 (\<lambda>(p, clock, inp) co. command_in_bounds E inp co) fs outs"
proof -
  let ?Q = "\<lambda>(p, clock, inp) co. command_in_bounds E inp co"
  have frame: "?Q f co" if "f \<in> set fs" "output_facts E (snd (snd f)) c co" for f c co
  proof -
    obtain p clock inp where f: "f = (p, clock, inp)" by (cases f)
    from that(1) assms(4) have lim: "fst (accel_limits E inp) \<le> snd (accel_limits E inp)" by (auto simp: f)
    from that(2) obtain x where x: "ac_accel (co_actuators co) = np_clip x (fst (accel_limits E inp)) (snd (accel_limits E inp))"
      by (auto simp: frame_facts_def f)
    have k: "co_desiredCurvature co = fst (commanded_curvature E inp (frame_lat E inp c) c)"
      using that(2) by (simp add: frame_facts_def f)
    show ?thesis
      using clip_curvature_max clip_curvature_accel np_clip_lower [OF lim] np_clip_upper
      unfolding f prod.case command_in_bounds_def k x commanded_curvature_def
      by (simp add: Let_def MAX_CURVATURE_def ACCELERATION_DUE_TO_GRAVITY_def MAX_LATERAL_ACCEL_NO_ROLL_def CTRL_MIN_SPEED_def)
  qed
  have ok: "\<forall>f\<in>set fs. params_ok (fst f) \<and> inputs_ok (snd (snd f))" using assms(4) by auto
  have "\<exists>outs c'. ctl_run E fs c0 = Some (outs, c') \<and> ctl_inv E c' \<and> list_all2 ?Q fs outs"
    by (rule ctl_run_induct [OF controls_init_inv [OF assms(1-3)] ok]) (rule frame)
  then show ?thesis by blast
qed

text \<open>The curvature respects the jerk limit: from one frame to the next the desired curvature moves by at
  most 0.05 divided by the squared speed (5 metres per second cubed at 100 Hz, with a speed of at least 1 m/s), whenever the
  previous value was within the lateral acceleration limits at the new speed and roll.\<close>

theorem curvature_jerk_limited:
  assumes "ctl_inv E c" "params_ok p" "inputs_ok inp" "ctl_step E (p, clock, inp) c = Some (co, c')"
    and "\<bar>cl_desired_curvature c * (max (cs_vEgo (ci_CS inp)) 1)\<^sup>2 - vp_roll (ci_params inp) * (981 / 100)\<bar> \<le> 3"
  shows "\<bar>cl_desired_curvature c' - cl_desired_curvature c\<bar> \<le> 5 / 100 / (max (cs_vEgo (ci_CS inp)) 1)\<^sup>2"
proof -
  have k: "cl_desired_curvature c' = fst (commanded_curvature E inp (frame_lat E inp c) c)"
    using ctl_step_facts [OF assms(1,4,2,3)] by (simp add: frame_facts_def)
  have prev: "\<bar>cl_desired_curvature c\<bar> \<le> MAX_CURVATURE" using assms(1) by (simp add: ctl_inv_def)
  have acc: "\<bar>cl_desired_curvature c * (max (cs_vEgo (ci_CS inp)) CTRL_MIN_SPEED)\<^sup>2 -
      vp_roll (ci_params inp) * ACCELERATION_DUE_TO_GRAVITY\<bar> \<le> MAX_LATERAL_ACCEL_NO_ROLL"
    using assms(5) by (simp add: CTRL_MIN_SPEED_def ACCELERATION_DUE_TO_GRAVITY_def MAX_LATERAL_ACCEL_NO_ROLL_def)
  show ?thesis
    using clip_curvature_rate [OF prev acc] unfolding k commanded_curvature_def
    by (simp add: MAX_LATERAL_JERK_def DT_CTRL_def CTRL_MIN_SPEED_def)
qed

section \<open>The torque controllers in a run\<close>

text \<open>A frame steers by calls: on a torque controller, a round of \<open>run\<close> is a sequence of its calls, with one
  output, whose torque is the one sent.\<close>

lemma torque_run_append:
  "torque_run CI CP (xs @ ys) t =
     do { (outs, t) \<leftarrow> torque_run CI CP xs t; (outs', t) \<leftarrow> torque_run CI CP ys t; Some (outs @ outs', t) }"
  by (induction xs arbitrary: t) (auto simp: split: bind_splits)

lemma torque_run_appendI:
  "torque_run CI CP xs t = Some (o1, t1) \<Longrightarrow> torque_run CI CP ys t1 = Some (o2, t2) \<Longrightarrow> torque_run CI CP (xs @ ys) t = Some (o1 @ o2, t2)"
  by (simp add: torque_run_append)

definition factors_positive :: "params \<Rightarrow> ctl_inputs \<Rightarrow> bool" where
  "factors_positive p inp \<longleftrightarrow> 0 < tp_latAccelFactorFiltered (ci_torque_params inp) \<and>
     (\<forall>f \<in> set (tp_speedBinLatAccelFactors (ci_torque_params inp)). 0 < f) \<and>
     (\<forall>f \<in> set_option (get_float ''TorqueParamsOverrideLatAccelFactor'' p). 0 < f)"

abbreviation good_call :: "steering_call \<Rightarrow> bool" where
  "good_call c \<equiv> call_ok c \<and> call_positive c"

lemma prepare_calls:
  assumes "update_torque_params E inp lag (LatTorque t) = Some lac" "is_torque (cp_lateralTuning (ce_CP E))"
    "inputs_ok inp" "factors_positive p inp"
  shows "\<exists>cs t'. lac = LatTorque t' \<and> torque_run (ce_torque E) (ce_CP E) cs t = Some ([], t') \<and> (\<forall>c \<in> set cs. good_call c)"
proof -
  let ?tp = "ci_torque_params inp"
  obtain d where d: "lag = Some d" using assms(1,2) by (auto simp: update_torque_params_def bind_eq_Some_conv)
  let ?cs = "(if ci_torque_checks inp \<and> tp_useParams ?tp then [Set_parameters (tp_latAccelFactorFiltered ?tp)
      (tp_latAccelOffsetFiltered ?tp) (tp_frictionCoefficientFiltered ?tp)] else []) @
    [Set_model (ci_acceleration_y inp) (ci_orientation_length inp), Set_lag d]"
  have "\<forall>c \<in> set ?cs. good_call c" using assms(3,4) by (simp add: inputs_ok_def factors_positive_def)
  then show ?thesis using assms(1,2)
    by (intro exI [of _ ?cs]) (auto simp: update_torque_params_def d Let_def)
qed

lemma run_ext_calls:
  assumes "is_torque (cp_lateralTuning (ce_CP E))" "factors_positive p inp"
  shows "\<exists>cs t'. run_ext E inp (LatTorque t) = LatTorque t' \<and> torque_run (ce_torque E) (ce_CP E) cs t = Some ([], t') \<and> (\<forall>c \<in> set cs. good_call c)"
proof -
  let ?cs = "if \<not> ci_torque_updated inp then []
    else if ci_torque_checks inp \<and> tp_useParams (ci_torque_params inp) then [Set_speed_dep (ci_torque_params inp)] else [Clear_speed_dep]"
  show ?thesis using assms
    by (intro exI [of _ ?cs]) (simp add: run_ext_def factors_positive_def)
qed

lemma state_control_steers:
  assumes "state_control E p inp c = Some (a, out, c')"
  obtains lac VM active desired limited where
    "update_torque_params E inp (cl_lat_delay c) (cl_LaC c) = Some lac"
    "lat_update E p active inp VM (cl_steer_limited_by_safety c) desired limited (gated active (lat_reset E) lac) = Some (out, cl_LaC c')"
    "ac_torque a = lo_torque out"
proof -
  let ?VM = "frame_vehicle_model E (ci_params inp)"
  let ?curv = "- vm_calc_curvature ?VM (radians (cs_steeringAngleDeg (ci_CS inp) - vp_angleOffsetDeg (ci_params inp)))
    (cs_vEgo (ci_CS inp)) (vp_roll (ci_params inp))"
  obtain la b where g: "get_lat_active inp (cl_blinker c) = (la, b)" by (cases "get_lat_active inp (cl_blinker c)")
  define active where "active \<longleftrightarrow> la \<and> lat_allowed (ce_CP E) (ci_CS inp)"
  obtain d l where k: "clip_curvature (cs_vEgo (ci_CS inp)) (cl_desired_curvature c) (target_curvature inp active ?curv)
    (vp_roll (ci_params inp)) = (d, l)" by (cases "clip_curvature (cs_vEgo (ci_CS inp)) (cl_desired_curvature c)
    (target_curvature inp active ?curv) (vp_roll (ci_params inp))")
  obtain lac lac' where "update_torque_params E inp (cl_lat_delay c) (cl_LaC c) = Some lac"
    "lat_update E p active inp ?VM (cl_steer_limited_by_safety c) d l (gated active (lat_reset E) lac) = Some (out, lac')"
    "ac_torque a = lo_torque out" "cl_LaC c' = lac'"
    using assms by (auto simp: state_control_def Let_def g k bind_eq_Some_conv simp flip: active_def)
  then show thesis using that by simp
qed

lemma frame_calls:
  assumes "ctl_step E (p, clock, inp) c = Some (co, c')" "cl_LaC c = LatTorque t" "is_torque (cp_lateralTuning (ce_CP E))"
    "params_ok p" "inputs_ok inp" "factors_positive p inp"
  shows "\<exists>cs out t'. torque_run (ce_torque E) (ce_CP E) cs t = Some ([out], t') \<and> cl_LaC c' = LatTorque t' \<and>
    ac_torque (co_actuators co) = lo_torque out \<and> (\<forall>c \<in> set cs. good_call c)"
proof -
  obtain a out c1 where s1: "state_control E p inp c = Some (a, out, c1)"
    using assms(1) by (auto simp: ctl_step_def bind_eq_Some_conv)
  obtain co' c2 where s2: "ctl_publish E inp a out c1 = (co', c2)" by (cases "ctl_publish E inp a out c1")
  obtain c3 where s: "co' = co" "get_params_sp E p clock inp c2 = Some c3" "cl_LaC c' = run_ext E inp (cl_LaC c3)"
    using assms(1) by (auto simp: ctl_step_def s1 s2 bind_eq_Some_conv)
  have keep: "cl_LaC c3 = cl_LaC c1" "co_actuators co = a"
  proof -
    have "cl_LaC c3 = cl_LaC c2" using get_params_sp_ok [OF assms(4), of E clock inp c2] s(2) by auto
    then show "cl_LaC c3 = cl_LaC c1" using publish_fields(3) [of E inp a out c1] by (simp add: s2)
    show "co_actuators co = a" using publish_fields(7) [of E inp a out c1] by (simp add: s2 s(1))
  qed
  obtain lac VM active desired limited where l: "update_torque_params E inp (cl_lat_delay c) (LatTorque t) = Some lac"
    "lat_update E p active inp VM (cl_steer_limited_by_safety c) desired limited (gated active (lat_reset E) lac) = Some (out, cl_LaC c1)"
    "ac_torque a = lo_torque out"
    by (rule state_control_steers [OF s1, unfolded assms(2)])
  obtain cs1 t1 where p1: "lac = LatTorque t1" "torque_run (ce_torque E) (ce_CP E) cs1 t = Some ([], t1)" "\<forall>c \<in> set cs1. good_call c"
    using prepare_calls [OF l(1) assms(3,5,6)] by blast
  let ?step = "Step p active (ci_CS inp) VM (ci_params inp) (cl_steer_limited_by_safety c) desired limited (ci_lateralDelay inp + LAT_SMOOTH_SECONDS)"
  let ?cs2 = "(if active then [] else [Reset]) @ [?step]"
  obtain t2 where p2: "cl_LaC c1 = LatTorque t2" "torque_run (ce_torque E) (ce_CP E) ?cs2 t1 = Some ([out], t2)"
    using l(2) by (cases "cl_LaC c1"; cases active) (auto simp: p1(1) gated_def bind_eq_Some_conv)
  have g2: "\<forall>c \<in> set ?cs2. good_call c" using assms(4,6) by (simp add: params_ok_def factors_positive_def)
  obtain cs3 t3 where p3: "cl_LaC c' = LatTorque t3" "torque_run (ce_torque E) (ce_CP E) cs3 t2 = Some ([], t3)" "\<forall>c \<in> set cs3. good_call c"
    using run_ext_calls [OF assms(3,6), of t2] s(3) by (auto simp: keep(1) p2(1))
  have "torque_run (ce_torque E) (ce_CP E) (cs1 @ ?cs2 @ cs3) t = Some ([] @ [out] @ [], t3)"
    by (intro torque_run_appendI [OF p1(2)] torque_run_appendI [OF p2(2)] p3(2))
  moreover have "\<forall>c \<in> set (cs1 @ ?cs2 @ cs3). good_call c" using p1(3) g2 p3(3) by (simp only: set_append) blast
  ultimately show ?thesis using p3(1) l(3) by (metis append_Nil append_Nil2 keep(2))
qed

lemma run_calls:
  assumes "ctl_run E fs c = Some (outs, c')" "cl_LaC c = LatTorque t" "is_torque (cp_lateralTuning (ce_CP E))"
    "\<forall>(p, clock, inp) \<in> set fs. params_ok p \<and> inputs_ok inp \<and> factors_positive p inp"
  shows "\<exists>cs louts t'. torque_run (ce_torque E) (ce_CP E) cs t = Some (louts, t') \<and> cl_LaC c' = LatTorque t' \<and>
    map (\<lambda>co. ac_torque (co_actuators co)) outs = map lo_torque louts \<and> (\<forall>c \<in> set cs. good_call c)"
  using assms
proof (induction fs arbitrary: c t outs)
  case Nil
  then show ?case by (intro exI [of _ "[]"]) simp
next
  case (Cons f fs)
  obtain p clock inp where f: "f = (p, clock, inp)" by (cases f)
  obtain co c1 outs1 where s: "ctl_step E (p, clock, inp) c = Some (co, c1)" "ctl_run E fs c1 = Some (outs1, c')" "outs = co # outs1"
    using Cons.prems(1) by (auto simp: f bind_eq_Some_conv)
  obtain cs out t1 where a: "torque_run (ce_torque E) (ce_CP E) cs t = Some ([out], t1)" "cl_LaC c1 = LatTorque t1"
    "ac_torque (co_actuators co) = lo_torque out" "\<forall>c \<in> set cs. good_call c"
    using frame_calls [OF s(1) Cons.prems(2,3)] Cons.prems(4) by (auto simp: f)
  obtain cs' louts t' where b: "torque_run (ce_torque E) (ce_CP E) cs' t1 = Some (louts, t')" "cl_LaC c' = LatTorque t'"
    "map (\<lambda>co. ac_torque (co_actuators co)) outs1 = map lo_torque louts" "\<forall>c \<in> set cs'. good_call c"
    using Cons.IH [OF s(2) a(2) Cons.prems(3)] Cons.prems(4) by auto
  have "torque_run (ce_torque E) (ce_CP E) (cs @ cs') t = Some ([out] @ louts, t')" by (rule torque_run_appendI [OF a(1) b(1)])
  moreover have "map (\<lambda>co. ac_torque (co_actuators co)) outs = map lo_torque ([out] @ louts)" using a(3) b(3) by (simp add: s(3))
  moreover have "\<forall>c \<in> set (cs @ cs'). good_call c" using a(4) b(4) by (simp only: set_append) blast
  ultimately show ?case using b(2) by blast
qed

text \<open>C8: The steering torque stays within its range in every run of \<open>controlsd\<close>: from its constructor on a car
  with the torque tuning and with the jerk-aware controller off, no frame sends more than full torque,
  whatever the model, the learned parameters, the overrides and the speed-dependent tables are, as long as
  every factor is positive and the conversions of the car interface keep what full torque gives within full
  torque.\<close>

theorem torque_bounded_in_runs:
  assumes "tuning_wf (ce_CP E)" "cp_lateralTuning (ce_CP E) = Tuning_torque tuning" "0 < tq_latAccelFactor tuning"
    and "conversions_ok (ce_torque E)" "params_ok p0" "\<not> get_bool ''LateralJerkTorqueController'' p0"
    and "\<forall>(p, clock, inp) \<in> set fs. params_ok p \<and> inputs_ok inp \<and> factors_positive p inp"
  shows "\<exists>c0 outs c'. controls_init E p0 = Some c0 \<and> ctl_run E fs c0 = Some (outs, c') \<and> length outs = length fs \<and>
    (\<forall>co \<in> set outs. \<bar>ac_torque (co_actuators co)\<bar> \<le> 1)"
proof -
  have tq: "is_torque (cp_lateralTuning (ce_CP E))" by (simp add: assms(2) is_torque_def)
  obtain c0 where c0: "controls_init E p0 = Some c0" using controls_init_total [OF disjI1 [OF tq]] by blast
  obtain v t0 where t0: "cl_LaC c0 = LatTorque t0" "lat_torque_init v (ce_torque E) (ce_CP E) p0 = Some t0"
    using controls_init_torque [OF assms(1) tq c0] by blast
  have "\<exists>outs c'. ctl_run E fs c0 = Some (outs, c') \<and> ctl_inv E c' \<and> list_all2 (\<lambda>_ _. True) fs outs"
    by (rule ctl_run_induct [OF controls_init_inv [OF assms(1,5) c0]]) (use assms(7) in auto)
  then obtain outs c' where r: "ctl_run E fs c0 = Some (outs, c')" "length outs = length fs"
    by (auto dest: list_all2_lengthD)
  obtain cs louts t' where k: "torque_run (ce_torque E) (ce_CP E) cs t0 = Some (louts, t')"
    "map (\<lambda>co. ac_torque (co_actuators co)) outs = map lo_torque louts" "\<forall>c \<in> set cs. good_call c"
    using run_calls [OF r(1) t0(1) tq assms(7)] by blast
  have "\<forall>out \<in> set louts. \<bar>lo_torque out\<bar> \<le> 1"
    using torque_within_range [OF t0(2) assms(6,4) _ k(3)] assms(2,3) k(1) by auto
  then have "\<forall>x \<in> set (map lo_torque louts). \<bar>x\<bar> \<le> 1" by simp
  then have "\<forall>co \<in> set outs. \<bar>ac_torque (co_actuators co)\<bar> \<le> 1" unfolding k(2) [symmetric] by simp
  with c0 r show ?thesis by blast
qed

section \<open>Stopping\<close>

text \<open>Updates of the acceleration controller while the plan asks to stop: car state, target and limits.\<close>

fun stop_run :: "car_params \<Rightarrow> car_params_sp \<Rightarrow> (car_state \<times> real \<times> real \<times> real) list \<Rightarrow> long_control \<Rightarrow> long_control option" where
  "stop_run CP CP_SP [] lc = Some lc"
| "stop_run CP CP_SP ((CS, a_target, lims) # us) lc =
     do { lc \<leftarrow> long_control_update CP CP_SP True CS a_target True lims lc; stop_run CP CP_SP us lc }"

lemma stop_update:
  assumes "pid_wf (loc_pid lc)" "loc_state lc \<in> {LC_off, LC_stopping, LC_pid}"
    and "fst lims \<le> cp_stopAccel CP - DT_CTRL" "0 \<le> snd lims" "cp_stopAccel CP \<le> 0"
    and "loc_last_output_accel lc \<le> max (cp_stopAccel CP) (- k) \<or> k = 0" "0 \<le> k"
  shows "\<exists>lc'. long_control_update CP CP_SP True CS a True lims lc = Some lc' \<and> pid_wf (loc_pid lc') \<and>
     loc_state lc' = LC_stopping \<and> loc_last_output_accel lc' \<le> max (cp_stopAccel CP) (- (k + DT_CTRL)) \<and>
     (cp_stopAccel CP - DT_CTRL \<le> loc_last_output_accel lc \<longrightarrow> cp_stopAccel CP - DT_CTRL \<le> loc_last_output_accel lc')"
proof -
  let ?s = "cp_stopAccel CP" and ?a = "loc_last_output_accel lc"
  obtain lc' where u: "long_control_update CP CP_SP True CS a True lims lc = Some lc'" "pid_wf (loc_pid lc')"
    "loc_state lc' = LC_stopping" "loc_last_output_accel lc' = np_clip (stop_accel CP ?a) (fst lims) (snd lims)"
    using long_control_update_ok [OF assms(1), of CP CP_SP True CS a True lims] stop_keeps_stopping assms(2) by auto
  have "stop_accel CP ?a \<le> max ?s (- (k + DT_CTRL))"
    using assms(6,7) by (auto simp: stop_accel_def DT_CTRL_def max_def min_def split: if_splits)
  moreover have "max ?s (- (k + DT_CTRL)) \<le> snd lims" "fst lims \<le> max ?s (- (k + DT_CTRL))"
    using assms(3-5,7) by (auto simp: DT_CTRL_def max_def)
  ultimately have "np_clip (stop_accel CP ?a) (fst lims) (snd lims) \<le> max ?s (- (k + DT_CTRL))"
    by (auto simp: np_clip_def min_def max_def)
  moreover have "?s - DT_CTRL \<le> ?a \<longrightarrow> ?s - DT_CTRL \<le> np_clip (stop_accel CP ?a) (fst lims) (snd lims)"
    using stop_accel_low [of ?s ?a CP] assms(4,5) by (auto simp: np_clip_def min_def max_def DT_CTRL_def)
  ultimately show ?thesis using u by auto
qed

text \<open>C40: A stop is commanded in bounded time: while the plan asks to stop, with car limits that allow the
  stopping acceleration, each frame of an active acceleration controller lowers the command by 0.01 until it
  has passed \<open>stopAccel\<close>: after \<open>n\<close> frames it is at most the larger of \<open>stopAccel\<close> and \<open>-n / 100\<close>, whatever
  it was before, and a command that was not below \<open>stopAccel - 0.01\<close> never falls below it.\<close>

theorem stop_commanded:
  assumes "pid_wf (loc_pid lc)" "loc_state lc \<in> {LC_off, LC_stopping, LC_pid}" "cp_stopAccel CP \<le> 0" "us \<noteq> []"
    and "\<forall>(CS, a_target, lo, hi)\<in>set us. lo \<le> cp_stopAccel CP - 1 / 100 \<and> 0 \<le> hi"
  shows "\<exists>lc'. stop_run CP CP_SP us lc = Some lc' \<and> loc_state lc' = LC_stopping \<and>
     loc_last_output_accel lc' \<le> max (cp_stopAccel CP) (- (real (length us) / 100)) \<and>
     (cp_stopAccel CP - 1 / 100 \<le> loc_last_output_accel lc \<longrightarrow> cp_stopAccel CP - 1 / 100 \<le> loc_last_output_accel lc')"
proof -
  let ?s = "cp_stopAccel CP"
  have "\<exists>lc'. stop_run CP CP_SP us lc = Some lc' \<and> (us \<noteq> [] \<longrightarrow> loc_state lc' = LC_stopping) \<and>
     (us \<noteq> [] \<or> loc_last_output_accel lc \<le> max ?s (- (real n * DT_CTRL)) \<longrightarrow>
        loc_last_output_accel lc' \<le> max ?s (- (real (n + length us) * DT_CTRL))) \<and>
     (?s - DT_CTRL \<le> loc_last_output_accel lc \<longrightarrow> ?s - DT_CTRL \<le> loc_last_output_accel lc')"
    if "pid_wf (loc_pid lc)" "loc_state lc \<in> {LC_off, LC_stopping, LC_pid}"
      "loc_last_output_accel lc \<le> max ?s (- (real n * DT_CTRL)) \<or> n = 0"
      "\<forall>(CS, a_target, lo, hi)\<in>set us. lo \<le> ?s - 1 / 100 \<and> 0 \<le> hi" for n us lc
    using that
  proof (induction us arbitrary: lc n)
    case Nil
    then show ?case by simp
  next
    case (Cons u us)
    obtain CS a_target lims where u: "u = (CS, a_target, lims)" by (cases u) auto
    have lims: "fst lims \<le> ?s - DT_CTRL" "0 \<le> snd lims"
      using Cons.prems(4) by (cases lims, simp add: u DT_CTRL_def)+
    have k: "loc_last_output_accel lc \<le> max ?s (- (real n * DT_CTRL)) \<or> real n * DT_CTRL = 0" "0 \<le> real n * DT_CTRL"
      using Cons.prems(3) by (auto simp: DT_CTRL_def)
    have suc: "real n * DT_CTRL + DT_CTRL = real (Suc n) * DT_CTRL" by (simp add: algebra_simps)
    obtain lc1 where lc1: "long_control_update CP CP_SP True CS a_target True lims lc = Some lc1" "pid_wf (loc_pid lc1)"
      "loc_state lc1 = LC_stopping" "loc_last_output_accel lc1 \<le> max ?s (- (real (Suc n) * DT_CTRL))"
      "?s - DT_CTRL \<le> loc_last_output_accel lc \<longrightarrow> ?s - DT_CTRL \<le> loc_last_output_accel lc1"
      using stop_update [OF Cons.prems(1,2) lims assms(3) k, of CP_SP CS a_target] unfolding suc by blast
    obtain lc' where "stop_run CP CP_SP us lc1 = Some lc'" "us \<noteq> [] \<longrightarrow> loc_state lc' = LC_stopping"
      "loc_last_output_accel lc' \<le> max ?s (- (real (Suc n + length us) * DT_CTRL))"
      "?s - DT_CTRL \<le> loc_last_output_accel lc1 \<longrightarrow> ?s - DT_CTRL \<le> loc_last_output_accel lc'"
      using Cons.IH [OF lc1(2) _ disjI1 [OF lc1(4)]] lc1(3,4) Cons.prems(4) by auto
    moreover have "us = [] \<Longrightarrow> loc_state lc' = LC_stopping" using lc1(3) calculation(1) by simp
    ultimately show ?case using lc1(1,5) by (auto simp: u)
  qed
  from this [OF assms(1,2) _ assms(5), of 0] assms(4) show ?thesis by (auto simp: DT_CTRL_def)
qed

section \<open>The pause after the blinker\<close>

text \<open>The blinker timer after \<open>n\<close> updates without a single blinker, started at \<open>d\<close>.\<close>

definition blinker_at :: "real \<Rightarrow> nat \<Rightarrow> blinker_pause \<Rightarrow> bool" where
  "blinker_at d n b \<longleftrightarrow> bp_enabled b \<and> (0 < bp_blinker_off_timer b \<longleftrightarrow> real n < 100 * d) \<and>
     (0 < bp_blinker_off_timer b \<longrightarrow> bp_blinker_off_timer b = d - real n / 100)"

lemma blinker_at_step:
  assumes "blinker_at d n (cl_blinker c)" "cs_leftBlinker (ci_CS inp) = cs_rightBlinker (ci_CS inp)"
  shows "blinker_at d (Suc n) (snd (get_lat_active inp (cl_blinker c))) \<and>
    (fst (get_lat_active inp (cl_blinker c)) \<longleftrightarrow> 100 * d \<le> real (Suc n) \<and> (if ci_mads_available inp then ci_mads_active inp else ci_active inp))"
proof -
  let ?t = "bp_blinker_off_timer (cl_blinker c)"
  have t: "0 < ?t - 1 / 100 \<longleftrightarrow> real (Suc n) < 100 * d" "?t - 1 / 100 = d - real (Suc n) / 100" if "0 < ?t"
  proof -
    have "?t = d - real n / 100" using assms(1) that by (simp add: blinker_at_def)
    then show "?t - 1 / 100 = d - real (Suc n) / 100" by (simp add: add_divide_distrib)
    then show "0 < ?t - 1 / 100 \<longleftrightarrow> real (Suc n) < 100 * d" by (auto simp: field_simps)
  qed
  show ?thesis
  proof (cases "0 < ?t")
    case True
    with assms t [OF True] show ?thesis
      by (simp add: blinker_at_def get_lat_active_def blinker_pause_update_def Let_def)
  next
    case False
    then have "100 * d \<le> real (Suc n)" using assms(1) by (simp add: blinker_at_def)
    with assms False show ?thesis
      by (simp add: blinker_at_def get_lat_active_def blinker_pause_update_def Let_def)
  qed
qed

text \<open>A frame with both or no blinkers, readable parameters that are not due for a refresh, and lateral control
  otherwise allowed.\<close>

definition straight_frame :: "ctl_env \<Rightarrow> real \<Rightarrow> params \<times> (real \<times> real) \<times> ctl_inputs \<Rightarrow> bool" where
  "straight_frame E refreshed f \<longleftrightarrow> (case f of (p, clock, inp) \<Rightarrow>
     params_ok p \<and> inputs_ok inp \<and> fst clock - refreshed \<le> PARAMS_UPDATE_PERIOD \<and>
     cs_leftBlinker (ci_CS inp) = cs_rightBlinker (ci_CS inp) \<and>
     (if ci_mads_available inp then ci_mads_active inp else ci_active inp) \<and> lat_allowed (ce_CP E) (ci_CS inp))"

lemma straight_run:
  assumes "ctl_inv E c" "\<forall>f\<in>set fs. straight_frame E (cl_param_update_time c) f" "blinker_at d n (cl_blinker c)"
  shows "\<exists>outs c'. ctl_run E fs c = Some (outs, c') \<and> length outs = length fs \<and>
     (\<forall>k<length fs. ac_latActive (co_actuators (outs ! k)) \<longleftrightarrow> 100 * d \<le> real (n + 2 * k + 1))"
  using assms
proof (induction fs arbitrary: c n)
  case Nil
  then show ?case by simp
next
  case (Cons f fs)
  obtain p clock inp where f: "f = (p, clock, inp)" by (cases f)
  have st: "params_ok p" "inputs_ok inp" "fst clock - cl_param_update_time c \<le> PARAMS_UPDATE_PERIOD"
    "cs_leftBlinker (ci_CS inp) = cs_rightBlinker (ci_CS inp)"
    "if ci_mads_available inp then ci_mads_active inp else ci_active inp" "lat_allowed (ce_CP E) (ci_CS inp)"
    using Cons.prems(2) unfolding f by (simp_all add: straight_frame_def)
  show ?case
  proof (rule ctl_step_ok [OF Cons.prems(1) st(1,2), of clock])
    fix co c1
    assume step: "ctl_step E (p, clock, inp) c = Some (co, c1)" "ctl_inv E c1" "output_facts E inp c co"
      and same: "fst clock - cl_param_update_time c \<le> PARAMS_UPDATE_PERIOD \<Longrightarrow>
       cl_param_update_time c1 = cl_param_update_time c \<and>
       cl_blinker c1 = snd (get_lat_active inp (snd (get_lat_active inp (cl_blinker c))))"
    let ?b = "snd (get_lat_active inp (cl_blinker c))"
    note b1 = blinker_at_step [OF Cons.prems(3) st(4)]
    have "blinker_at d (Suc (Suc n)) (snd (get_lat_active inp (cl_blinker (c\<lparr>cl_blinker := ?b\<rparr>))))"
      by (rule conjunct1 [OF blinker_at_step]) (use b1 st(4) in simp_all)
    then have b2: "blinker_at d (Suc (Suc n)) (cl_blinker c1)" "cl_param_update_time c1 = cl_param_update_time c"
      using same [OF st(3)] by simp_all
    have lat: "ac_latActive (co_actuators co) \<longleftrightarrow> 100 * d \<le> real (n + 1)"
      using step(3) b1 st(5,6) by (simp add: frame_facts_def frame_lat_def)
    obtain outs c' where run: "ctl_run E fs c1 = Some (outs, c')" "length outs = length fs"
      "\<forall>k<length fs. ac_latActive (co_actuators (outs ! k)) \<longleftrightarrow> 100 * d \<le> real (Suc (Suc n) + 2 * k + 1)"
      using Cons.IH [OF step(2) _ b2(1)] Cons.prems(2) b2(2) by auto
    have "ac_latActive (co_actuators ((co # outs) ! k)) \<longleftrightarrow> 100 * d \<le> real (n + 2 * k + 1)" if "k < Suc (length fs)" for k
      using that lat run(3) by (cases k) simp_all
    with run(1,2) step(1) show ?case by (simp add: f)
  qed
qed

text \<open>The pause after the blinker lasts half of the configured delay: \<open>get_lat_active\<close> is called twice in
  every frame, and each call takes a control period off the timer.  After a frame with a single blinker below
  the minimum speed, in which lateral control is paused, it is active again in the \<open>k\<close>-th following frame
  (counted from 0, at 100 Hz) exactly when \<open>2 k + 1\<close> hundredths of a second have reached the delay.\<close>

theorem blinker_pause_halved:
  assumes "ctl_inv E c" "bp_enabled (cl_blinker c)" "0 \<le> bp_reengage_delay (cl_blinker c)"
    and "cs_leftBlinker (ci_CS inp) \<noteq> cs_rightBlinker (ci_CS inp)" "bp_is_metric (cl_blinker c)"
      "cs_vEgo (ci_CS inp) < bp_min_speed (cl_blinker c) * KPH_TO_MS"
    and "params_ok p" "inputs_ok inp" "fst clock - cl_param_update_time c \<le> PARAMS_UPDATE_PERIOD"
    and "\<forall>f\<in>set fs. straight_frame E (cl_param_update_time c) f"
  shows "\<exists>outs c'. ctl_run E ((p, clock, inp) # fs) c = Some (outs, c') \<and> length outs = Suc (length fs) \<and>
     \<not> ac_latActive (co_actuators (outs ! 0)) \<and>
     (\<forall>k<length fs. ac_latActive (co_actuators (outs ! Suc k)) \<longleftrightarrow> bp_reengage_delay (cl_blinker c) \<le> (2 * real k + 1) / 100)"
proof (rule ctl_step_ok [OF assms(1,7,8), of clock])
  let ?d = "bp_reengage_delay (cl_blinker c)"
  fix co c1
  assume step: "ctl_step E (p, clock, inp) c = Some (co, c1)" "ctl_inv E c1" "output_facts E inp c co"
    and same: "fst clock - cl_param_update_time c \<le> PARAMS_UPDATE_PERIOD \<Longrightarrow>
       cl_param_update_time c1 = cl_param_update_time c \<and>
       cl_blinker c1 = snd (get_lat_active inp (snd (get_lat_active inp (cl_blinker c))))"
  have g: "get_lat_active inp (cl_blinker c) = (False, (cl_blinker c)\<lparr>bp_blinker_off_timer := ?d\<rparr>)"
    "get_lat_active inp ((cl_blinker c)\<lparr>bp_blinker_off_timer := ?d\<rparr>) = (False, (cl_blinker c)\<lparr>bp_blinker_off_timer := ?d\<rparr>)"
    using assms(2,4-6) by (simp_all add: get_lat_active_def blinker_pause_update_def Let_def)
  have c1: "cl_param_update_time c1 = cl_param_update_time c" "blinker_at ?d 0 (cl_blinker c1)"
    using same [OF assms(9)] assms(2,3) by (simp_all add: g blinker_at_def)
  obtain outs c' where run: "ctl_run E fs c1 = Some (outs, c')" "length outs = length fs"
    "\<forall>k<length fs. ac_latActive (co_actuators (outs ! k)) \<longleftrightarrow> 100 * ?d \<le> real (0 + 2 * k + 1)"
    using straight_run [OF step(2) assms(10) [folded c1(1)] c1(2)] by blast
  have "\<not> ac_latActive (co_actuators co)" using step(3) by (simp add: frame_facts_def frame_lat_def g)
  with run step(1) show ?thesis by (simp add: field_simps)
qed

section \<open>Witnesses\<close>

definition demo_ctl_params :: car_params where
  "demo_ctl_params = demo_params\<lparr>cp_lateralTuning := Tuning_pid ([0], [1]) ([0], [0]) 1, cp_openpilotLongitudinalControl := True\<rparr>"

definition demo_ctl_env :: ctl_env where
  "demo_ctl_env = \<lparr> ce_CP = demo_ctl_params, ce_CP_SP = demo_params_sp, ce_calc_curvature = (\<lambda>x sr a v r. 0),
     ce_get_steer = (\<lambda>x sr k v r. 0), ce_pid_accel_limits = (\<lambda>v vc. (-3, 2)), ce_steer_feedforward = (\<lambda>a v. 0),
     ce_torque = demo_torque_ci \<rparr>"

definition demo_torque_parameters :: lateral_torque_parameters where
  "demo_torque_parameters = \<lparr> tp_useParams = True, tp_latAccelFactorFiltered = 2, tp_latAccelOffsetFiltered = 0,
     tp_frictionCoefficientFiltered = 0, tp_speedBinCenters = [], tp_speedBinLatAccelFactors = [], tp_speedBinFrictions = [],
     tp_speedBinValid = [] \<rparr>"

definition demo_ctl_inputs :: "car_state \<Rightarrow> ctl_inputs" where
  "demo_ctl_inputs CS = \<lparr> ci_CS = CS, ci_params = demo_vehicle_parameters, ci_enabled = True, ci_active = True,
     ci_state = OS_overriding, ci_personality = 1, ci_visual_alert = VA_none, ci_mads_available = True, ci_mads_active = True,
     ci_onroadEvents = [(1, [OVERRIDE_LONGITUDINAL])], ci_aTarget = 1, ci_shouldStop = False, ci_hasLead = False,
     ci_laneChangeState = LCS_off, ci_laneChangeDirection = LCD_none, ci_desiredCurvature = 1, ci_maneuver_valid = False,
     ci_maneuver_curvature = 0, ci_output_angle = 0, ci_output_torque = 0, ci_assistance_valid = False,
     ci_left_departure = False, ci_right_departure = False, ci_torque_params = demo_torque_parameters, ci_torque_checks = True,
     ci_torque_updated = True, ci_lateralDelay = 1 / 10, ci_acceleration_y = [], ci_orientation_length = 0 \<rparr>"

definition demo_ctl_store :: params where
  "demo_ctl_store = \<lparr> pr_values = [''BlinkerPauseLateralControl'' \<mapsto> PBool True, ''IsMetric'' \<mapsto> PBool True],
     pr_defaults = [''BlinkerMinLateralControlSpeed'' \<mapsto> PInt 20, ''BlinkerLateralReengageDelay'' \<mapsto> PInt 2,
       ''LagdValueCache'' \<mapsto> PFloat (1 / 5), ''TorqueParamsOverrideLatAccelFactor'' \<mapsto> PFloat 2,
       ''TorqueParamsOverrideFriction'' \<mapsto> PFloat 0] \<rparr>"

lemma demo_ctl_wf: "tuning_wf (ce_CP demo_ctl_env)" "params_ok demo_ctl_store" "inputs_ok (demo_ctl_inputs CS)"
  by (simp_all add: tuning_wf_def demo_ctl_env_def demo_ctl_params_def demo_params_def gain_wf_def params_ok_def
      get_float_def get_param_def demo_ctl_store_def override_readable_def inputs_ok_def demo_ctl_inputs_def CONTROL_N_def)

lemma demo_limits: "accel_limits demo_ctl_env inp = (- 3, 2)"
  by (simp add: accel_limits_def demo_ctl_env_def)

definition demo_controls :: controls where
  "demo_controls = the (controls_init demo_ctl_env demo_ctl_store)"

lemma demo_controls_init: "controls_init demo_ctl_env demo_ctl_store = Some demo_controls"
  using controls_init_total [of demo_ctl_env demo_ctl_store] by (auto simp: demo_controls_def get_bool_def demo_ctl_store_def)

lemma demo_controls_inv: "ctl_inv demo_ctl_env demo_controls"
  by (rule controls_init_inv [OF demo_ctl_wf(1,2) demo_controls_init])

lemma controls_init_fields:
  assumes "controls_init E p = Some c"
  shows "cl_desired_curvature c = 0" "cl_param_update_time c = 0" "cl_blinker c = blinker_pause_init p"
  using assms by (auto simp: controls_init_def bind_eq_Some_conv)

lemma demo_controls_fields:
  "cl_desired_curvature demo_controls = 0" "cl_param_update_time demo_controls = 0"
  "cl_blinker demo_controls = blinker_pause_init demo_ctl_store"
  by (rule controls_init_fields [OF demo_controls_init])+

theorem control_gated_witness:
  "\<exists>co c'. ctl_step demo_ctl_env (demo_ctl_store, (1, 1), demo_ctl_inputs demo_car) demo_controls = Some (co, c') \<and>
     \<not> ac_longActive (co_actuators co) \<and> ac_accel (co_actuators co) = 0"
proof (rule ctl_step_ok [OF demo_controls_inv demo_ctl_wf(2) demo_ctl_wf(3) [of demo_car], where clock = "(1, 1)"])
  fix co c'
  assume s: "ctl_step demo_ctl_env (demo_ctl_store, (1, 1), demo_ctl_inputs demo_car) demo_controls = Some (co, c')"
  note g = control_gated [OF demo_controls_inv demo_ctl_wf(2,3) s]
  have "\<not> ac_longActive (co_actuators co)" using conjunct1 [OF g] by (auto simp: demo_ctl_inputs_def)
  with g s show ?thesis by (auto simp: demo_limits np_clip_def)
qed

theorem commands_bounded_witness:
  "\<exists>outs c'. ctl_run demo_ctl_env [(demo_ctl_store, (1, 1), demo_ctl_inputs demo_car)] demo_controls = Some (outs, c') \<and>
     list_all (\<lambda>co. \<bar>co_desiredCurvature co\<bar> \<le> 2 / 10) outs"
  using commands_bounded [OF demo_ctl_wf(1,2) demo_controls_init, of "[(demo_ctl_store, (1, 1), demo_ctl_inputs demo_car)]"]
  by (auto simp: demo_ctl_wf(2,3) demo_limits list_all2_Cons1 command_in_bounds_def)

theorem curvature_jerk_limited_witness:
  "\<exists>co c'. ctl_step demo_ctl_env (demo_ctl_store, (1, 1), demo_ctl_inputs demo_car) demo_controls = Some (co, c') \<and>
     \<bar>cl_desired_curvature c'\<bar> \<le> 5 / 100"
proof (rule ctl_step_ok [OF demo_controls_inv demo_ctl_wf(2) demo_ctl_wf(3) [of demo_car], where clock = "(1, 1)"])
  fix co c'
  assume s: "ctl_step demo_ctl_env (demo_ctl_store, (1, 1), demo_ctl_inputs demo_car) demo_controls = Some (co, c')"
  from curvature_jerk_limited [OF demo_controls_inv demo_ctl_wf(2,3) s] s show ?thesis
    by (simp add: demo_controls_fields demo_ctl_inputs_def demo_vehicle_parameters_def demo_car_def)
qed

text \<open>The same car with its torque tuning, turning at 30 m/s.\<close>

definition demo_torque_env :: ctl_env where
  "demo_torque_env = demo_ctl_env\<lparr>ce_CP := demo_params\<lparr>cp_steerControlType := SCT_torque\<rparr>\<rparr>"

theorem torque_bounded_in_runs_witness:
  "\<exists>c0 outs c'. controls_init demo_torque_env demo_ctl_store = Some c0 \<and>
     ctl_run demo_torque_env (replicate 3 (demo_ctl_store, (1, 1), demo_ctl_inputs (demo_car\<lparr>cs_vEgo := 30\<rparr>))) c0 = Some (outs, c') \<and>
     length outs = 3 \<and> (\<forall>co \<in> set outs. \<bar>ac_torque (co_actuators co)\<bar> \<le> 1)"
proof -
  obtain tuning where t: "cp_lateralTuning (ce_CP demo_torque_env) = Tuning_torque tuning" "0 < tq_latAccelFactor tuning"
    by (simp add: demo_torque_env_def demo_params_def)
  have wf: "tuning_wf (ce_CP demo_torque_env)"
    by (simp add: tuning_wf_def demo_torque_env_def demo_params_def gain_wf_def)
  have c: "conversions_ok (ce_torque demo_torque_env)"
    by (simp add: demo_torque_env_def demo_ctl_env_def demo_conversions)
  have p: "\<not> get_bool ''LateralJerkTorqueController'' demo_ctl_store" by (simp add: get_bool_def demo_ctl_store_def)
  have f: "factors_positive demo_ctl_store (demo_ctl_inputs CS)" for CS
    by (simp add: factors_positive_def demo_ctl_inputs_def demo_torque_parameters_def demo_ctl_store_def get_float_def get_param_def)
  show ?thesis
    using torque_bounded_in_runs [OF wf t c demo_ctl_wf(2) p,
        of "replicate 3 (demo_ctl_store, (1, 1), demo_ctl_inputs (demo_car\<lparr>cs_vEgo := 30\<rparr>))"]
    by (simp add: demo_ctl_wf(2,3) f)
qed

theorem stop_commanded_witness:
  "\<exists>lc'. stop_run (demo_ctl_params\<lparr>cp_stopAccel := - 2\<rparr>) demo_params_sp (replicate 250 (demo_car, 0, -3, 2))
       (long_control_init demo_ctl_params) = Some lc' \<and> - 201 / 100 \<le> loc_last_output_accel lc' \<and> loc_last_output_accel lc' \<le> - 2"
proof -
  have "pid_wf (loc_pid (long_control_init demo_ctl_params))"
    by (rule long_control_init_wf) (simp add: gain_wf_def demo_ctl_params_def demo_params_def)
  from stop_commanded [OF this, of "demo_ctl_params\<lparr>cp_stopAccel := - 2\<rparr>" "replicate 250 (demo_car, 0, -3, 2)" demo_params_sp]
  show ?thesis by (auto simp: long_control_init_def)
qed

text \<open>A delay of 2 seconds with the blinker on at 10 km/h; then straight on: paused for 100 frames, one second.\<close>

definition demo_waiting :: "controls" where
  "demo_waiting = demo_controls\<lparr>cl_blinker := (cl_blinker demo_controls)\<lparr>bp_min_speed := 20, bp_reengage_delay := 2\<rparr>\<rparr>"

abbreviation demo_straight :: "params \<times> (real \<times> real) \<times> ctl_inputs" where
  "demo_straight \<equiv> (demo_ctl_store, (1, 1), demo_ctl_inputs (demo_car\<lparr>cs_vEgo := 3, cs_standstill := False\<rparr>))"

theorem blinker_pause_halved_witness:
  "\<exists>outs c'. ctl_run demo_ctl_env ((demo_ctl_store, (1, 1), demo_ctl_inputs (demo_car\<lparr>cs_vEgo := 3, cs_leftBlinker := True\<rparr>)) #
       replicate 101 demo_straight) demo_waiting = Some (outs, c') \<and>
     \<not> ac_latActive (co_actuators (outs ! 100)) \<and> ac_latActive (co_actuators (outs ! 101))"
proof -
  have b: "cl_blinker demo_waiting = \<lparr> bp_enabled = True, bp_is_metric = True, bp_min_speed = 20, bp_reengage_delay = 2,
      bp_blinker_off_timer = 0 \<rparr>" "cl_param_update_time demo_waiting = 0"
    by (simp_all add: demo_waiting_def demo_controls_fields blinker_pause_init_def get_bool_def demo_ctl_store_def)
  have inv: "ctl_inv demo_ctl_env demo_waiting"
    using demo_controls_inv by (simp add: ctl_inv_def demo_waiting_def)
  have st: "straight_frame demo_ctl_env 0 demo_straight"
    by (simp add: straight_frame_def demo_ctl_wf(2) inputs_ok_def CONTROL_N_def PARAMS_UPDATE_PERIOD_def demo_ctl_inputs_def lat_allowed_def
        demo_car_def demo_ctl_env_def demo_ctl_params_def demo_params_def)
  let ?on = "demo_ctl_inputs (demo_car\<lparr>cs_vEgo := 3, cs_leftBlinker := True\<rparr>)"
  have "\<exists>outs c'. ctl_run demo_ctl_env ((demo_ctl_store, (1, 1), ?on) # replicate 101 demo_straight) demo_waiting = Some (outs, c') \<and>
     length outs = Suc (length (replicate 101 demo_straight)) \<and> \<not> ac_latActive (co_actuators (outs ! 0)) \<and>
     (\<forall>k<length (replicate 101 demo_straight). ac_latActive (co_actuators (outs ! Suc k)) \<longleftrightarrow>
        bp_reengage_delay (cl_blinker demo_waiting) \<le> (2 * real k + 1) / 100)"
    by (rule blinker_pause_halved [OF inv])
       (use st demo_ctl_wf(2) in \<open>simp_all add: b inputs_ok_def CONTROL_N_def demo_ctl_inputs_def demo_car_def PARAMS_UPDATE_PERIOD_def CV_defs\<close>)
  then obtain outs c' where o: "ctl_run demo_ctl_env ((demo_ctl_store, (1, 1), ?on) # replicate 101 demo_straight) demo_waiting = Some (outs, c')"
    "\<forall>k<101. ac_latActive (co_actuators (outs ! Suc k)) \<longleftrightarrow> 2 \<le> (2 * real k + 1) / 100"
    by (auto simp: b)
  from o(2) [rule_format, of 99] o(2) [rule_format, of 100] have
    "\<not> ac_latActive (co_actuators (outs ! 100))" "ac_latActive (co_actuators (outs ! 101))" by simp_all
  with o(1) show ?thesis by blast
qed

end
