(* ===== verification/LongMpc.thy ===== *)
theory LongMpc
  imports Radard CarEvents
begin

text \<open>
  \<open>longitudinal_mpc_lib/long_mpc.py\<close>: the class \<open>LongitudinalMpc\<close>, which turns the two leads into an obstacle
  ahead, sets up the solver, runs it and counts the predicted crashes.  The solver is code generated by
  acados: its state is a type parameter and its operations are the fields of an environment.  The functions
  that describe the optimisation problem to the generator run at build time and are not modelled.  An
  exception is the result \<open>None\<close>.
\<close>

section \<open>The solver\<close>

text \<open>The operations the code calls.  A matrix is the list of its rows, a vector the list of its entries; the
  node of the horizon comes first.  \<open>ms_solve\<close> returns the status, and the state at a node has \<open>X_DIM\<close> entries.\<close>

record 's mpc_solver =
  ms_reset :: "'s \<Rightarrow> 's"
  ms_cost_set :: "nat \<Rightarrow> string \<Rightarrow> real list list \<Rightarrow> 's \<Rightarrow> 's"
  ms_set :: "nat \<Rightarrow> string \<Rightarrow> real list \<Rightarrow> 's \<Rightarrow> 's"
  ms_constraints_set :: "nat \<Rightarrow> string \<Rightarrow> real list \<Rightarrow> 's \<Rightarrow> 's"
  ms_solve :: "'s \<Rightarrow> int \<times> 's"
  ms_get_x :: "nat \<Rightarrow> 's \<Rightarrow> real \<times> real \<times> real"
  ms_get_u :: "nat \<Rightarrow> 's \<Rightarrow> real"

section \<open>Constants\<close>

datatype plan_source = LPS_cruise | LPS_lead0 | LPS_lead1 | LPS_e2e

definition MPC_N :: nat where "MPC_N = 12"

text \<open>\<open>index_function(idx, max_val, max_idx)\<close> of modeld/constants.py.\<close>

definition index_function :: "real \<Rightarrow> real \<Rightarrow> real \<Rightarrow> real" where
  "index_function idx max_val max_idx = max_val * (idx / max_idx)\<^sup>2"

definition MPC_T_IDXS :: "real list" where
  "MPC_T_IDXS = map (\<lambda>idx. index_function (real idx) 10 (real MPC_N)) [0..<MPC_N + 1]"

definition MPC_T_DIFFS :: "real list" where
  "MPC_T_DIFFS = map2 (-) MPC_T_IDXS (0 # MPC_T_IDXS)"

definition X_EGO_OBSTACLE_COST :: real where "X_EGO_OBSTACLE_COST = 3"
definition X_EGO_COST :: real where "X_EGO_COST = 0"
definition V_EGO_COST :: real where "V_EGO_COST = 0"
definition A_EGO_COST :: real where "A_EGO_COST = 0"
definition J_EGO_COST :: real where "J_EGO_COST = 5"
definition A_CHANGE_COST :: real where "A_CHANGE_COST = 200"
definition DANGER_ZONE_COST :: real where "DANGER_ZONE_COST = 100"
definition CRASH_DISTANCE :: real where "CRASH_DISTANCE = 25 / 100"
definition LEAD_DANGER_FACTOR :: real where "LEAD_DANGER_FACTOR = 75 / 100"
definition LIMIT_COST :: real where "LIMIT_COST = 10 ^ 6"
definition COMFORT_BRAKE :: real where "COMFORT_BRAKE = 25 / 10"
definition STOP_DISTANCE :: real where "STOP_DISTANCE = 6"
definition MIN_X_LEAD_FACTOR :: real where "MIN_X_LEAD_FACTOR = 5 / 10"

definition COST_E_DIM :: nat where "COST_E_DIM = 5"
definition COST_DIM :: nat where "COST_DIM = COST_E_DIM + 1"

text \<open>The personalities are numbered as in the message: aggressive, standard, relaxed.\<close>

definition get_jerk_factor :: "int \<Rightarrow> real option" where
  "get_jerk_factor personality =
     (if personality = 2 then Some 1 else if personality = 1 then Some 1
      else if personality = 0 then Some (5 / 10) else None)"

definition get_T_FOLLOW :: "int \<Rightarrow> real option" where
  "get_T_FOLLOW personality =
     (if personality = 2 then Some (175 / 100) else if personality = 1 then Some (145 / 100)
      else if personality = 0 then Some (125 / 100) else None)"

definition get_stopped_equivalence_factor :: "real \<Rightarrow> real" where
  "get_stopped_equivalence_factor v_lead = v_lead\<^sup>2 / (2 * COMFORT_BRAKE)"

definition get_safe_obstacle_distance :: "real \<Rightarrow> real \<Rightarrow> real" where
  "get_safe_obstacle_distance v_ego t_follow = v_ego\<^sup>2 / (2 * COMFORT_BRAKE) + t_follow * v_ego + STOP_DISTANCE"

section \<open>State\<close>

record 's long_mpc =
  mpc_dt :: real
  mpc_solver :: 's
  mpc_source :: plan_source
  mpc_x_sol :: "(real \<times> real \<times> real) list"
  mpc_u_sol :: "real list"
  mpc_v_solution :: "real list"
  mpc_a_solution :: "real list"
  mpc_j_solution :: "real list"
  mpc_a_prev :: "real list"
  mpc_params :: "real list list"
  mpc_last_cloudlog_t :: real
  mpc_crash_cnt :: int
  mpc_solution_status :: int
  mpc_x0 :: "real \<times> real \<times> real"

text \<open>\<open>numpy.interp\<close> at several points.\<close>

fun interp_all :: "real list \<Rightarrow> real list \<Rightarrow> real list \<Rightarrow> real list option" where
  "interp_all [] xp fp = Some []"
| "interp_all (x # xs) xp fp = do { y \<leftarrow> np_interp x xp fp; ys \<leftarrow> interp_all xs xp fp; Some (y # ys) }"

text \<open>\<open>for i in range(n)\<close> over the solver.\<close>

definition for_nodes :: "nat \<Rightarrow> (nat \<Rightarrow> 's \<Rightarrow> 's) \<Rightarrow> 's \<Rightarrow> 's" where
  "for_nodes n f s = fold f [0..<n] s"

definition vec3 :: "real \<times> real \<times> real \<Rightarrow> real list" where
  "vec3 x = [fst x, fst (snd x), snd (snd x)]"

section \<open>Weights\<close>

definition diag_matrix :: "real list \<Rightarrow> real list list" where
  "diag_matrix ws = map (\<lambda>i. (replicate (length ws) 0)[i := ws ! i]) [0..<length ws]"

text \<open>The cost of changing the acceleration fades over the first two seconds; the terminal cost is the block
  of the last matrix.\<close>

definition a_change_weight :: "real list \<Rightarrow> nat \<Rightarrow> real" where
  "a_change_weight cost_weights i = cost_weights ! 4 *
     (case np_interp (MPC_T_IDXS ! i) [0, 1, 2] [1, 1, 0] of Some w \<Rightarrow> w | None \<Rightarrow> 0)"

definition set_cost_weights :: "'s mpc_solver \<Rightarrow> real list \<Rightarrow> real list \<Rightarrow> 's \<Rightarrow> 's" where
  "set_cost_weights S cost_weights constraint_cost_weights s =
     (let W = (\<lambda>i. diag_matrix (cost_weights[4 := a_change_weight cost_weights i]));
          s = for_nodes MPC_N (\<lambda>i. ms_cost_set S i ''W'' (W i)) s;
          s = ms_cost_set S MPC_N ''W'' (map (take COST_E_DIM) (take COST_E_DIM (W (MPC_N - 1)))) s
      in for_nodes MPC_N (\<lambda>i. ms_cost_set S i ''Zl'' [constraint_cost_weights]) s)"

definition set_weights :: "'s mpc_solver \<Rightarrow> bool \<Rightarrow> int \<Rightarrow> 's long_mpc \<Rightarrow> 's long_mpc option" where
  "set_weights S prev_accel_constraint personality m =
     do { jerk_factor \<leftarrow> get_jerk_factor personality;
          let a_change_cost = (if prev_accel_constraint then A_CHANGE_COST else 0);
          let cost_weights = [X_EGO_OBSTACLE_COST, X_EGO_COST, V_EGO_COST, A_EGO_COST,
                              jerk_factor * a_change_cost, jerk_factor * J_EGO_COST];
          let constraint_cost_weights = [LIMIT_COST, LIMIT_COST, LIMIT_COST, DANGER_ZONE_COST];
          Some (m\<lparr>mpc_solver := set_cost_weights S cost_weights constraint_cost_weights (mpc_solver m)\<rparr>) }"

section \<open>Reset and construction\<close>

definition mpc_reset :: "'s mpc_solver \<Rightarrow> 's long_mpc \<Rightarrow> 's long_mpc option" where
  "mpc_reset S m =
     (let s = ms_reset S (mpc_solver m);
          s = for_nodes MPC_N (\<lambda>i. ms_cost_set S i ''yref'' [replicate COST_DIM 0]) s;
          s = ms_cost_set S MPC_N ''yref'' [replicate COST_E_DIM 0] s;
          s = for_nodes (MPC_N + 1) (\<lambda>i. ms_set S i ''x'' [0, 0, 0]) s
      in set_weights S True 1
           (m\<lparr>mpc_solver := s, mpc_x_sol := replicate (MPC_N + 1) (0, 0, 0), mpc_u_sol := replicate MPC_N 0,
              mpc_v_solution := replicate (MPC_N + 1) 0, mpc_a_solution := replicate (MPC_N + 1) 0,
              mpc_j_solution := replicate MPC_N 0, mpc_a_prev := replicate (MPC_N + 1) 0,
              mpc_params := replicate (MPC_N + 1) (replicate 6 0), mpc_last_cloudlog_t := 0, mpc_crash_cnt := 0,
              mpc_solution_status := 0, mpc_x0 := (0, 0, 0)\<rparr>))"

definition mpc_init :: "'s mpc_solver \<Rightarrow> 's \<Rightarrow> real \<Rightarrow> 's long_mpc option" where
  "mpc_init S s dt =
     mpc_reset S \<lparr> mpc_dt = dt, mpc_solver = s, mpc_source = LPS_cruise, mpc_x_sol = [], mpc_u_sol = [], mpc_v_solution = [],
       mpc_a_solution = [], mpc_j_solution = [], mpc_a_prev = [], mpc_params = [], mpc_last_cloudlog_t = 0,
       mpc_crash_cnt = 0, mpc_solution_status = 0, mpc_x0 = (0, 0, 0) \<rparr>"

definition set_cur_state :: "'s mpc_solver \<Rightarrow> real \<Rightarrow> real \<Rightarrow> 's long_mpc \<Rightarrow> 's long_mpc" where
  "set_cur_state S v a m =
     (let v_prev = fst (snd (mpc_x0 m));
          x0 = (fst (mpc_x0 m), v, a);
          m = m\<lparr>mpc_x0 := x0\<rparr>
      in if 2 < \<bar>v_prev - v\<bar>
         then m\<lparr>mpc_solver := for_nodes (MPC_N + 1) (\<lambda>i. ms_set S i ''x'' (vec3 x0)) (mpc_solver m)\<rparr>
         else m)"

section \<open>Leads\<close>

fun cumsum_from :: "real \<Rightarrow> real list \<Rightarrow> real list" where
  "cumsum_from s [] = []"
| "cumsum_from s (x # xs) = (s + x) # cumsum_from (s + x) xs"

text \<open>The predicted positions and speeds of a lead over the horizon.\<close>

definition extrapolate_lead :: "real \<Rightarrow> real \<Rightarrow> real \<Rightarrow> real \<Rightarrow> (real \<times> real) list" where
  "extrapolate_lead x_lead v_lead a_lead a_lead_tau =
     (let a_lead_traj = map (\<lambda>t. a_lead * exp (- a_lead_tau * t\<^sup>2 / 2)) MPC_T_IDXS;
          v_lead_traj = map (\<lambda>s. np_clip (v_lead + s) 0 (10 ^ 8)) (cumsum_from 0 (map2 (*) MPC_T_DIFFS a_lead_traj));
          x_lead_traj = map (\<lambda>s. x_lead + s) (cumsum_from 0 (map2 (*) MPC_T_DIFFS v_lead_traj))
      in zip x_lead_traj v_lead_traj)"

definition process_lead :: "opendbc \<Rightarrow> real \<Rightarrow> lead \<Rightarrow> (real \<times> real) list" where
  "process_lead K v_ego ld =
     (let (x_lead, v_lead, a_lead, a_lead_tau) =
            (if le_present ld then (le_dRel ld, le_vLead ld, le_aLeadK ld, le_aLeadTau ld)
             else (50, v_ego + 10, 0, LEAD_ACCEL_TAU));
          min_x_lead = MIN_X_LEAD_FACTOR * (v_ego + v_lead) * (v_ego - v_lead) / (- ob_ACCEL_MIN K * 2)
      in extrapolate_lead (np_clip x_lead min_x_lead (10 ^ 8)) (np_clip v_lead 0 (10 ^ 8)) (np_clip a_lead (- 10) 5) a_lead_tau)"

definition lead_obstacle :: "(real \<times> real) list \<Rightarrow> real list" where
  "lead_obstacle lead_xv = map (\<lambda>(x, v). x + get_stopped_equivalence_factor v) lead_xv"

section \<open>The update\<close>

definition mpc_run :: "'s mpc_solver \<Rightarrow> real \<Rightarrow> 's long_mpc \<Rightarrow> 's long_mpc option" where
  "mpc_run S now m =
     do { let s = for_nodes (MPC_N + 1) (\<lambda>i. ms_set S i ''p'' (mpc_params m ! i)) (mpc_solver m);
          let s = ms_constraints_set S 0 ''lbx'' (vec3 (mpc_x0 m)) s;
          let s = ms_constraints_set S 0 ''ubx'' (vec3 (mpc_x0 m)) s;
          let (status, s) = ms_solve S s;
          let x_sol = map (\<lambda>i. ms_get_x S i s) [0..<MPC_N + 1];
          let u_sol = map (\<lambda>i. ms_get_u S i s) [0..<MPC_N];
          let a_solution = map (snd \<circ> snd) x_sol;
          a_prev \<leftarrow> interp_all (map (\<lambda>t. t + mpc_dt m) MPC_T_IDXS) MPC_T_IDXS a_solution;
          let m = m\<lparr>mpc_solver := s, mpc_solution_status := status, mpc_x_sol := x_sol, mpc_u_sol := u_sol,
                    mpc_v_solution := map (fst \<circ> snd) x_sol, mpc_a_solution := a_solution, mpc_j_solution := u_sol,
                    mpc_a_prev := a_prev\<rparr>;
          if status \<noteq> 0 then mpc_reset S (if mpc_last_cloudlog_t m + 5 < now then m\<lparr>mpc_last_cloudlog_t := now\<rparr> else m)
          else Some m }"

text \<open>A crash is predicted when the first lead comes within \<open>CRASH_DISTANCE\<close> of the planned path in five seconds.\<close>

definition crash_predicted :: "(real \<times> real) list \<Rightarrow> (real \<times> real \<times> real) list \<Rightarrow> bool" where
  "crash_predicted lead_xv x_sol \<longleftrightarrow>
     list_ex (\<lambda>(t, (x_lead, _), (x, _)). t < 5 \<and> x_lead - x < CRASH_DISTANCE) (zip MPC_T_IDXS (zip lead_xv x_sol))"

text \<open>\<open>update\<close> in three parts: the problem set up from the two leads, the run, and the count of crashes.\<close>

definition mpc_setup :: "'s mpc_solver \<Rightarrow> opendbc \<Rightarrow> real \<Rightarrow> (real \<times> real) list \<Rightarrow> (real \<times> real) list \<Rightarrow> 's long_mpc \<Rightarrow> 's long_mpc" where
  "mpc_setup S K t_follow lead_xv_0 lead_xv_1 m =
     (let lead_0_obstacle = lead_obstacle lead_xv_0;
          lead_1_obstacle = lead_obstacle lead_xv_1;
          s = for_nodes MPC_N (\<lambda>i. ms_set S i ''yref'' (replicate COST_DIM 0)) (mpc_solver m);
          s = ms_set S MPC_N ''yref'' (replicate COST_E_DIM 0) s
      in m\<lparr>mpc_source := (if hd lead_1_obstacle < hd lead_0_obstacle then LPS_lead1 else LPS_lead0), mpc_solver := s,
           mpc_params := map (\<lambda>((x0, x1), a_prev).
               [ob_ACCEL_MIN K, ob_ACCEL_MAX K, min x0 x1, a_prev, t_follow, LEAD_DANGER_FACTOR])
             (zip (zip lead_0_obstacle lead_1_obstacle) (mpc_a_prev m))\<rparr>)"

definition count_crash :: "(real \<times> real) list \<Rightarrow> radar_state \<Rightarrow> 's long_mpc \<Rightarrow> 's long_mpc" where
  "count_crash lead_xv_0 radarstate m =
     (if crash_predicted lead_xv_0 (mpc_x_sol m) \<and> 9 / 10 < le_modelProb (ra_leadOne radarstate)
      then m\<lparr>mpc_crash_cnt := mpc_crash_cnt m + 1\<rparr> else m\<lparr>mpc_crash_cnt := 0\<rparr>)"

definition mpc_update :: "'s mpc_solver \<Rightarrow> opendbc \<Rightarrow> real \<Rightarrow> radar_state \<Rightarrow> int \<Rightarrow> 's long_mpc \<Rightarrow> 's long_mpc option" where
  "mpc_update S K now radarstate personality m =
     do { t_follow \<leftarrow> get_T_FOLLOW personality;
          let v_ego = fst (snd (mpc_x0 m));
          let lead_xv_0 = process_lead K v_ego (ra_leadOne radarstate);
          let lead_xv_1 = process_lead K v_ego (ra_leadTwo radarstate);
          m \<leftarrow> mpc_run S now (mpc_setup S K t_follow lead_xv_0 lead_xv_1 m);
          Some (count_crash lead_xv_0 radarstate m) }"

section \<open>Lemmas\<close>

lemma interp_all_defined:
  assumes "xp \<noteq> []" "length xp = length fp"
  shows "\<exists>ys. interp_all xs xp fp = Some ys \<and> length ys = length xs"
proof (induction xs)
  case (Cons x xs)
  obtain y where "np_interp x xp fp = Some y" using np_interp_defined [OF assms] by blast
  with Cons show ?case by auto
qed simp

lemma interp_all_length: "interp_all xs xp fp = Some ys \<Longrightarrow> length ys = length xs"
  by (induction xs arbitrary: ys) (auto simp: bind_eq_Some_conv)

lemma MPC_T_IDXS_length [simp]: "length MPC_T_IDXS = 13" "MPC_T_IDXS \<noteq> []"
  by (simp_all add: MPC_T_IDXS_def MPC_N_def flip: length_greater_0_conv)

lemma MPC_T_IDXS_nth: "i < 13 \<Longrightarrow> MPC_T_IDXS ! i = index_function (real i) 10 12"
  by (simp add: MPC_T_IDXS_def MPC_N_def)

lemma MPC_T_DIFFS_length [simp]: "length MPC_T_DIFFS = 13"
  by (simp add: MPC_T_DIFFS_def)

lemma MPC_T_DIFFS_nonneg: "\<forall>d\<in>set MPC_T_DIFFS. 0 \<le> d"
proof -
  have "0 \<le> MPC_T_DIFFS ! i" if "i < 13" for i
  proof (cases i)
    case 0
    then show ?thesis by (simp add: MPC_T_DIFFS_def MPC_T_IDXS_nth index_function_def)
  next
    case (Suc j)
    have "(real j / 12)\<^sup>2 \<le> (real i / 12)\<^sup>2" by (rule power_mono) (simp_all add: Suc)
    with Suc that show ?thesis by (simp add: MPC_T_DIFFS_def MPC_T_IDXS_nth index_function_def)
  qed
  then show ?thesis by (auto simp: in_set_conv_nth)
qed

lemma MPC_T_DIFFS_first: "\<exists>ds. MPC_T_DIFFS = 0 # ds"
proof -
  have "hd MPC_T_DIFFS = 0"
    by (simp add: hd_conv_nth flip: length_greater_0_conv) (simp add: MPC_T_DIFFS_def MPC_T_IDXS_nth index_function_def)
  moreover have "MPC_T_DIFFS \<noteq> []" by (simp flip: length_greater_0_conv)
  ultimately show ?thesis by (metis list.collapse)
qed

subsection \<open>The path of a lead\<close>

lemma cumsum_length [simp]: "length (cumsum_from s xs) = length xs"
  by (induction xs arbitrary: s) simp_all

lemma cumsum_ge: "\<forall>x\<in>set xs. 0 \<le> x \<Longrightarrow> y \<in> set (cumsum_from s xs) \<Longrightarrow> s \<le> y"
  by (induction xs arbitrary: s) fastforce+

lemma cumsum_le: "\<forall>x\<in>set xs. x \<le> 0 \<Longrightarrow> y \<in> set (cumsum_from s xs) \<Longrightarrow> y \<le> s"
  by (induction xs arbitrary: s) fastforce+

lemma cumsum_sorted: "\<forall>x\<in>set xs. 0 \<le> x \<Longrightarrow> sorted (cumsum_from s xs)"
  by (induction xs arbitrary: s) (auto dest: cumsum_ge)

lemma cumsum_antitone: "\<forall>x\<in>set xs. x \<le> 0 \<Longrightarrow> sorted_wrt (\<ge>) (cumsum_from s xs)"
  by (induction xs arbitrary: s) (auto dest: cumsum_le)

lemma map2_mult_sign:
  "\<forall>d\<in>set ds. 0 \<le> d \<Longrightarrow> \<forall>x\<in>set xs. 0 \<le> x \<Longrightarrow> \<forall>y\<in>set (map2 (*) ds xs). 0 \<le> (y :: real)"
  "\<forall>d\<in>set ds. 0 \<le> d \<Longrightarrow> \<forall>x\<in>set xs. x \<le> 0 \<Longrightarrow> \<forall>y\<in>set (map2 (*) ds xs). (y :: real) \<le> 0"
  by (auto intro!: mult_nonneg_nonneg mult_nonneg_nonpos dest: set_zip_leftD set_zip_rightD)

text \<open>The two trajectories: the speeds within their limits, falling when the lead brakes, and the positions rising.\<close>

lemma extrapolate_lead_path:
  fixes x v a tau :: real
  defines "xv \<equiv> extrapolate_lead x v a tau"
  shows "length xv = 13 \<and> hd xv = (x, np_clip v 0 (10 ^ 8)) \<and> sorted (map fst xv) \<and>
    (\<forall>s\<in>set (map snd xv). 0 \<le> s \<and> s \<le> 10 ^ 8) \<and> (a \<le> 0 \<longrightarrow> sorted_wrt (\<ge>) (map snd xv))"
proof -
  define as where "as = map (\<lambda>t. a * exp (- tau * t\<^sup>2 / 2)) MPC_T_IDXS"
  define cs where "cs = cumsum_from 0 (map2 (*) MPC_T_DIFFS as)"
  define vs where "vs = map (\<lambda>s. np_clip (v + s) 0 (10 ^ 8)) cs"
  define xs where "xs = map (\<lambda>s. x + s) (cumsum_from 0 (map2 (*) MPC_T_DIFFS vs))"
  have len: "length as = 13" "length cs = 13" "length vs = 13" "length xs = 13"
    by (simp_all add: as_def cs_def vs_def xs_def)
  have xv: "xv = zip xs vs" by (simp add: xv_def extrapolate_lead_def Let_def as_def cs_def vs_def xs_def)
  obtain ds where ds: "MPC_T_DIFFS = 0 # ds" using MPC_T_DIFFS_first by blast
  obtain a0 as' where a0: "as = a0 # as'" using len(1) by (cases as) auto
  have c0: "cs = 0 # cumsum_from 0 (map2 (*) ds as')" by (simp add: cs_def ds a0)
  obtain v0 vs' where v0: "vs = v0 # vs'" "v0 = np_clip v 0 (10 ^ 8)" by (simp add: vs_def c0)
  have x0: "hd xs = x" "xs \<noteq> []" using len(4) by (auto simp: xs_def ds v0)
  have speeds: "\<forall>s\<in>set vs. 0 \<le> s \<and> s \<le> 10 ^ 8" by (auto simp: vs_def np_clip_upper intro: np_clip_lower)
  then have "\<forall>y\<in>set (map2 (*) MPC_T_DIFFS vs). 0 \<le> y" by (intro map2_mult_sign MPC_T_DIFFS_nonneg) simp
  then have "sorted xs" using cumsum_sorted [of "map2 (*) MPC_T_DIFFS vs" 0]
    by (simp add: xs_def sorted_map)
  moreover have "sorted_wrt (\<ge>) vs" if "a \<le> 0"
  proof -
    have "\<forall>y\<in>set as. y \<le> 0" using that by (auto simp: as_def mult_nonpos_nonneg)
    then have "sorted_wrt (\<ge>) cs" unfolding cs_def by (intro cumsum_antitone map2_mult_sign MPC_T_DIFFS_nonneg)
    then show ?thesis unfolding vs_def sorted_wrt_map
      by (rule sorted_wrt_mono_rel [rotated]) (simp add: np_clip_mono)
  qed
  ultimately show ?thesis using len speeds x0 v0 by (simp add: xv) (metis hd_zip list.sel(1) list.simps(3))
qed

subsection \<open>The solver's state\<close>

text \<open>The shape of the solutions, which every operation keeps.\<close>

definition mpc_wf :: "'s long_mpc \<Rightarrow> bool" where
  "mpc_wf m \<longleftrightarrow> length (mpc_x_sol m) = 13 \<and> length (mpc_v_solution m) = 13 \<and> length (mpc_a_solution m) = 13 \<and>
     length (mpc_j_solution m) = 12 \<and> length (mpc_a_prev m) = 13 \<and> 0 \<le> mpc_crash_cnt m"

definition zero_plan :: "'s long_mpc \<Rightarrow> bool" where
  "zero_plan m \<longleftrightarrow> mpc_v_solution m = replicate 13 0 \<and> mpc_a_solution m = replicate 13 0 \<and> mpc_j_solution m = replicate 12 0"

definition personality_ok :: "int \<Rightarrow> bool" where
  "personality_ok n \<longleftrightarrow> n \<in> {0, 1, 2}"

lemma personality_factors:
  "personality_ok n \<Longrightarrow> \<exists>j. get_jerk_factor n = Some j" "personality_ok n \<Longrightarrow> \<exists>t. get_T_FOLLOW n = Some t"
proof -
  have "get_jerk_factor 0 = Some (5 / 10)" "get_jerk_factor 1 = Some 1" "get_jerk_factor 2 = Some 1"
    and "get_T_FOLLOW 0 = Some (125 / 100)" "get_T_FOLLOW 1 = Some (145 / 100)" "get_T_FOLLOW 2 = Some (175 / 100)"
    by (simp_all add: get_jerk_factor_def get_T_FOLLOW_def)
  then show "personality_ok n \<Longrightarrow> \<exists>j. get_jerk_factor n = Some j" "personality_ok n \<Longrightarrow> \<exists>t. get_T_FOLLOW n = Some t"
    unfolding personality_ok_def by blast+
qed

lemma set_weights_ok:
  assumes "personality_ok n"
  shows "\<exists>s. set_weights S b n m = Some (m\<lparr>mpc_solver := s\<rparr>)"
  using personality_factors(1) [OF assms] by (auto simp: set_weights_def Let_def)

lemma mpc_reset_ok:
  "\<exists>m'. mpc_reset S m = Some m' \<and> mpc_wf m' \<and> zero_plan m' \<and> mpc_crash_cnt m' = 0 \<and> mpc_dt m' = mpc_dt m \<and>
     mpc_source m' = mpc_source m \<and> mpc_solution_status m' = 0 \<and> mpc_last_cloudlog_t m' = 0"
proof -
  have "personality_ok 1" by (simp add: personality_ok_def)
  from set_weights_ok [OF this] show ?thesis
    unfolding mpc_reset_def Let_def by (fastforce simp: mpc_wf_def zero_plan_def MPC_N_def)
qed

lemma mpc_init_ok: "\<exists>m. mpc_init S s dt = Some m \<and> mpc_wf m \<and> mpc_crash_cnt m = 0"
  using mpc_reset_ok unfolding mpc_init_def by blast

lemma set_cur_state_keeps [frame_simps]:
  "mpc_crash_cnt (set_cur_state S v a m) = mpc_crash_cnt m" "mpc_wf (set_cur_state S v a m) = mpc_wf m"
  "mpc_x0 (set_cur_state S v a m) = (fst (mpc_x0 m), v, a)" "mpc_source (set_cur_state S v a m) = mpc_source m"
  by (simp_all add: set_cur_state_def Let_def mpc_wf_def)

lemma set_weights_keeps:
  "set_weights S b n m = Some m' \<Longrightarrow> mpc_crash_cnt m' = mpc_crash_cnt m \<and> mpc_wf m' = mpc_wf m \<and> mpc_source m' = mpc_source m"
  by (auto simp: set_weights_def Let_def bind_eq_Some_conv mpc_wf_def)

text \<open>A run keeps the shape; when the solver fails, the plan is reset to zeros and the count of crashes to 0.\<close>

lemma mpc_run_ok:
  assumes "0 \<le> mpc_crash_cnt m"
  shows "\<exists>m'. mpc_run S now m = Some m' \<and> mpc_wf m' \<and> mpc_source m' = mpc_source m \<and>
    (mpc_crash_cnt m' = mpc_crash_cnt m \<or> mpc_crash_cnt m' = 0) \<and>
    ((\<forall>t. fst (ms_solve S t) \<noteq> 0) \<longrightarrow> zero_plan m' \<and> mpc_crash_cnt m' = 0)"
proof -
  define s0 where "s0 = ms_constraints_set S 0 ''ubx'' (vec3 (mpc_x0 m)) (ms_constraints_set S 0 ''lbx'' (vec3 (mpc_x0 m))
      (for_nodes (MPC_N + 1) (\<lambda>i. ms_set S i ''p'' (mpc_params m ! i)) (mpc_solver m)))"
  obtain status s where sol: "ms_solve S s0 = (status, s)" by (cases "ms_solve S s0")
  define x_sol where "x_sol = map (\<lambda>i. ms_get_x S i s) [0..<MPC_N + 1]"
  have x_len: "length x_sol = 13" by (simp add: x_sol_def MPC_N_def)
  obtain a_prev where a: "interp_all (map (\<lambda>t. t + mpc_dt m) MPC_T_IDXS) MPC_T_IDXS (map (snd \<circ> snd) x_sol) = Some a_prev"
      "length a_prev = 13"
    using interp_all_defined [of MPC_T_IDXS "map (snd \<circ> snd) x_sol" "map (\<lambda>t. t + mpc_dt m) MPC_T_IDXS"] x_len by auto
  define m1 where "m1 = m\<lparr>mpc_solver := s, mpc_solution_status := status, mpc_x_sol := x_sol,
      mpc_u_sol := map (\<lambda>i. ms_get_u S i s) [0..<MPC_N], mpc_v_solution := map (fst \<circ> snd) x_sol,
      mpc_a_solution := map (snd \<circ> snd) x_sol, mpc_j_solution := map (\<lambda>i. ms_get_u S i s) [0..<MPC_N], mpc_a_prev := a_prev\<rparr>"
  have wf: "mpc_wf m1" using assms x_len a(2) by (simp add: m1_def mpc_wf_def MPC_N_def)
  have keep: "mpc_crash_cnt m1 = mpc_crash_cnt m" "mpc_source m1 = mpc_source m" by (simp_all add: m1_def)
  let ?m2 = "if mpc_last_cloudlog_t m1 + 5 < now then m1\<lparr>mpc_last_cloudlog_t := now\<rparr> else m1"
  have run: "mpc_run S now m = (if status \<noteq> 0 then mpc_reset S ?m2 else Some m1)"
    unfolding mpc_run_def Let_def s0_def [symmetric] sol prod.case x_sol_def [symmetric] a(1) Option.bind.simps m1_def [symmetric] ..
  show ?thesis
  proof (cases "status = 0")
    case True
    then have "\<not> (\<forall>t. fst (ms_solve S t) \<noteq> 0)" using sol by (metis fst_conv)
    then show ?thesis using True wf keep unfolding run by auto
  next
    case False
    have "mpc_source ?m2 = mpc_source m" using keep by simp
    with False mpc_reset_ok [of S ?m2] show ?thesis unfolding run by auto
  qed
qed

lemma mpc_update_ok:
  assumes "personality_ok n" "mpc_wf m"
  shows "\<exists>m'. mpc_update S K now rs n m = Some m' \<and> mpc_wf m' \<and> mpc_source m' \<in> {LPS_lead0, LPS_lead1} \<and>
    (mpc_crash_cnt m' = 0 \<or> mpc_crash_cnt m' \<le> mpc_crash_cnt m + 1 \<and> 9 / 10 < le_modelProb (ra_leadOne rs) \<and>
       crash_predicted (process_lead K (fst (snd (mpc_x0 m))) (ra_leadOne rs)) (mpc_x_sol m')) \<and>
    ((\<forall>t. fst (ms_solve S t) \<noteq> 0) \<longrightarrow> zero_plan m' \<and> mpc_crash_cnt m' \<le> 1)"
proof -
  obtain tf where tf: "get_T_FOLLOW n = Some tf" using personality_factors(2) [OF assms(1)] by blast
  let ?xv0 = "process_lead K (fst (snd (mpc_x0 m))) (ra_leadOne rs)"
  define m1 where "m1 = mpc_setup S K tf ?xv0 (process_lead K (fst (snd (mpc_x0 m))) (ra_leadTwo rs)) m"
  have m1: "mpc_crash_cnt m1 = mpc_crash_cnt m" "mpc_source m1 \<in> {LPS_lead0, LPS_lead1}"
    by (simp_all add: m1_def mpc_setup_def Let_def)
  have nonneg: "0 \<le> mpc_crash_cnt m" using assms(2) by (simp add: mpc_wf_def)
  obtain m2 where m2: "mpc_run S now m1 = Some m2" "mpc_wf m2" "mpc_source m2 = mpc_source m1"
    "mpc_crash_cnt m2 = mpc_crash_cnt m \<or> mpc_crash_cnt m2 = 0"
    "(\<forall>t. fst (ms_solve S t) \<noteq> 0) \<longrightarrow> zero_plan m2 \<and> mpc_crash_cnt m2 = 0"
    using mpc_run_ok [of m1 S now] nonneg m1(1) by auto
  have upd: "mpc_update S K now rs n m = Some (count_crash ?xv0 rs m2)"
    by (simp add: mpc_update_def tf Let_def m2(1) flip: m1_def)
  have "0 \<le> mpc_crash_cnt m2" using m2(2) by (simp add: mpc_wf_def)
  then have "mpc_wf (count_crash ?xv0 rs m2)" "zero_plan (count_crash ?xv0 rs m2) = zero_plan m2"
    "mpc_source (count_crash ?xv0 rs m2) = mpc_source m2" "mpc_x_sol (count_crash ?xv0 rs m2) = mpc_x_sol m2"
    "mpc_crash_cnt (count_crash ?xv0 rs m2) = 0 \<or> mpc_crash_cnt (count_crash ?xv0 rs m2) = mpc_crash_cnt m2 + 1 \<and>
       9 / 10 < le_modelProb (ra_leadOne rs) \<and> crash_predicted ?xv0 (mpc_x_sol m2)"
    using m2(2) by (auto simp: count_crash_def mpc_wf_def zero_plan_def)
  with upd m1(2) m2(3-5) nonneg show ?thesis by auto
qed

section \<open>Property\<close>

text \<open>The path predicted for a lead is sane: 13 positions that never go backwards, from the lead's distance,
  raised to what the car can still brake for and at most 1e8 m, with speeds between 0 and 1e8 m/s that start at the clipped
  speed and never rise for a lead that does not accelerate; without a lead the path starts 50 m ahead at
  10 m/s more than the car.\<close>

theorem lead_path_sane:
  assumes "ob_ACCEL_MIN K < 0"
  shows "\<exists>xs vs. process_lead K v_ego ld = zip xs vs \<and> length xs = 13 \<and> length vs = 13 \<and> sorted xs \<and>
    (\<forall>s\<in>set vs. 0 \<le> s \<and> s \<le> 10 ^ 8) \<and>
    (le_present ld \<longrightarrow>
       hd xs = min (10 ^ 8) (max (le_dRel ld) ((v_ego\<^sup>2 - (le_vLead ld)\<^sup>2) / (4 * \<bar>ob_ACCEL_MIN K\<bar>))) \<and>
       hd vs = np_clip (le_vLead ld) 0 (10 ^ 8) \<and> (le_aLeadK ld \<le> 0 \<longrightarrow> sorted_wrt (\<ge>) vs)) \<and>
    (\<not> le_present ld \<longrightarrow> 0 \<le> v_ego \<longrightarrow> hd xs = 50 \<and> hd vs = min (10 ^ 8) (v_ego + 10))"
proof -
  define x v a tau where "x = (if le_present ld then le_dRel ld else 50)" and "v = (if le_present ld then le_vLead ld else v_ego + 10)"
    and "a = (if le_present ld then le_aLeadK ld else 0)" and "tau = (if le_present ld then le_aLeadTau ld else LEAD_ACCEL_TAU)"
  define mx where "mx = MIN_X_LEAD_FACTOR * (v_ego + v) * (v_ego - v) / (- ob_ACCEL_MIN K * 2)"
  let ?xv = "extrapolate_lead (np_clip x mx (10 ^ 8)) (np_clip v 0 (10 ^ 8)) (np_clip a (- 10) 5) tau"
  have xv: "process_lead K v_ego ld = ?xv"
    by (simp add: process_lead_def x_def v_def a_def tau_def mx_def)
  have mx: "mx = (v_ego\<^sup>2 - v\<^sup>2) / (4 * \<bar>ob_ACCEL_MIN K\<bar>)"
    using assms by (simp add: mx_def MIN_X_LEAD_FACTOR_def power2_eq_square field_simps)
  note path = extrapolate_lead_path [of "np_clip x mx (10 ^ 8)" "np_clip v 0 (10 ^ 8)" "np_clip a (- 10) 5" tau]
  have ne: "?xv \<noteq> []" using path by (metis length_0_conv zero_neq_numeral)
  have hd: "hd (map fst ?xv) = np_clip x mx (10 ^ 8)" "hd (map snd ?xv) = np_clip v 0 (10 ^ 8)"
    using path ne by (simp_all add: hd_map) (simp add: np_clip_def)
  have absent: "mx \<le> 50" if "\<not> le_present ld" "0 \<le> v_ego"
  proof -
    have "v_ego\<^sup>2 \<le> v\<^sup>2" using that by (intro power_mono) (simp_all add: v_def)
    then have "mx \<le> 0" unfolding mx by (intro divide_nonpos_nonneg) simp_all
    then show ?thesis by simp
  qed
  have "np_clip a (- 10) 5 \<le> 0" if "le_aLeadK ld \<le> 0" "le_present ld" using that by (simp add: a_def np_clip_def)
  then have fall: "le_aLeadK ld \<le> 0 \<Longrightarrow> le_present ld \<Longrightarrow> sorted_wrt (\<ge>) (map snd ?xv)" using path by blast
  have present: "le_present ld \<Longrightarrow> x = le_dRel ld \<and> v = le_vLead ld" and missing: "\<not> le_present ld \<Longrightarrow> x = 50 \<and> v = v_ego + 10"
    by (simp_all add: x_def v_def)
  have "le_present ld \<Longrightarrow> np_clip x mx (10 ^ 8) =
      min (10 ^ 8) (max (le_dRel ld) ((v_ego\<^sup>2 - (le_vLead ld)\<^sup>2) / (4 * \<bar>ob_ACCEL_MIN K\<bar>)))"
    using present by (simp add: mx np_clip_def min.commute)
  then have "le_present ld \<Longrightarrow> hd (map fst ?xv) =
      min (10 ^ 8) (max (le_dRel ld) ((v_ego\<^sup>2 - (le_vLead ld)\<^sup>2) / (4 * \<bar>ob_ACCEL_MIN K\<bar>)))"
    unfolding hd(1) .
  moreover have "le_present ld \<Longrightarrow> hd (map snd ?xv) = np_clip (le_vLead ld) 0 (10 ^ 8)" unfolding hd(2) using present by simp
  moreover have "\<not> le_present ld \<Longrightarrow> 0 \<le> v_ego \<Longrightarrow> hd (map fst ?xv) = 50 \<and> hd (map snd ?xv) = min (10 ^ 8) (v_ego + 10)"
    unfolding hd using missing absent by (simp add: np_clip_def min.commute)
  moreover have "?xv = zip (map fst ?xv) (map snd ?xv)" by (simp add: zip_map_fst_snd)
  moreover have "length (map fst ?xv) = 13" "length (map snd ?xv) = 13" "sorted (map fst ?xv)"
    "\<forall>s\<in>set (map snd ?xv). 0 \<le> s \<and> s \<le> 10 ^ 8"
    using path by simp_all
  ultimately show ?thesis unfolding xv using fall by blast
qed

definition demo_lead :: lead where
  "demo_lead = no_lead\<lparr>le_present := True, le_dRel := 30, le_aLeadTau := 1\<rparr>"

theorem lead_path_sane_witness:
  "\<exists>xs vs. process_lead demo_opendbc 20 demo_lead = zip xs vs \<and> sorted xs \<and> hd xs = 30 \<and> hd vs = 0 \<and> sorted_wrt (\<ge>) vs"
proof -
  have "ob_ACCEL_MIN demo_opendbc < 0" "le_present demo_lead" "le_aLeadK demo_lead \<le> 0"
    "min (10 ^ 8) (max (le_dRel demo_lead) ((20\<^sup>2 - (le_vLead demo_lead)\<^sup>2) / (4 * \<bar>ob_ACCEL_MIN demo_opendbc\<bar>))) = 30"
    "np_clip (le_vLead demo_lead) 0 (10 ^ 8) = 0"
    by (simp_all add: demo_opendbc_def demo_lead_def no_lead_def np_clip_def)
  with lead_path_sane [of demo_opendbc 20 demo_lead] show ?thesis by auto
qed

end
