(* ===== verification/SmartCruise.thy ===== *)
theory SmartCruise
  imports Pid Messages ParamsStore Cruise
begin

text \<open>
  Smart Cruise Control: \<open>vision_controller.py\<close>, which slows for the curves the model predicts, and
  \<open>map_controller.py\<close>, which slows for the target speeds of the map.  A speed numpy computes can be
  infinite or not a number (a division by zero, the root of a negative number); it has the type
  \<open>np_float\<close>.  An exception is the result \<open>None\<close>.
\<close>

section \<open>Speeds numpy computes\<close>

datatype np_float = Fin real | PosInf | NaN

fun np_less :: "np_float \<Rightarrow> np_float \<Rightarrow> bool" where
  "np_less (Fin x) (Fin y) \<longleftrightarrow> x < y"
| "np_less (Fin _) PosInf \<longleftrightarrow> True"
| "np_less _ _ \<longleftrightarrow> False"

text \<open>Python's \<open>max(a, b)\<close> keeps \<open>a\<close> unless \<open>b\<close> is greater.\<close>

definition py_max :: "np_float \<Rightarrow> np_float \<Rightarrow> np_float" where
  "py_max a b = (if np_less a b then b else a)"

fun np_add :: "np_float \<Rightarrow> real \<Rightarrow> np_float" where
  "np_add (Fin x) y = Fin (x + y)"
| "np_add a _ = a"

text \<open>\<open>(k / x) ** 0.5\<close> for a positive \<open>k\<close>.\<close>

definition np_sqrt_div :: "real \<Rightarrow> real \<Rightarrow> np_float" where
  "np_sqrt_div k x = (if x = 0 then PosInf else if x < 0 then NaN else Fin (sqrt (k / x)))"

text \<open>\<open>numpy.percentile\<close> with linear interpolation; it raises on an empty list.\<close>

definition np_percentile :: "real list \<Rightarrow> real \<Rightarrow> real option" where
  "np_percentile xs q =
     (if xs = [] then None
      else (let ys = sort xs; pos = q / 100 * real (length xs - 1); i = nat \<lfloor>pos\<rfloor>
            in Some (if Suc i < length ys then ys ! i + (ys ! Suc i - ys ! i) * (pos - of_int \<lfloor>pos\<rfloor>) else ys ! i)))"

text \<open>The product of two arrays, with numpy's broadcasting of arrays of length 1.\<close>

definition np_mult :: "real list \<Rightarrow> real list \<Rightarrow> real list option" where
  "np_mult xs ys =
     (if length xs = length ys then Some (map2 (*) xs ys)
      else if length xs = 1 then Some (map ((*) (hd xs)) ys)
      else if length ys = 1 then Some (map (\<lambda>x. x * hd ys) xs)
      else None)"

section \<open>Shared constants\<close>

definition SCC_MIN_V :: real where "SCC_MIN_V = 20 * KPH_TO_MS"

definition scc_params_frames :: int where "scc_params_frames = py_int (PARAMS_UPDATE_PERIOD / DT_MDL)"

section \<open>\<open>SmartCruiseControlVision\<close>\<close>

datatype vision_state = VS_disabled | VS_enabled | VS_entering | VS_turning | VS_leaving | VS_overriding

definition VISION_ACTIVE :: "vision_state list" where "VISION_ACTIVE = [VS_entering, VS_turning, VS_leaving]"
definition VISION_ENABLED :: "vision_state list" where "VISION_ENABLED = VS_enabled # VS_overriding # VISION_ACTIVE"

definition ENTERING_PRED_LAT_ACC_TH :: real where "ENTERING_PRED_LAT_ACC_TH = 13 / 10"
definition ABORT_ENTERING_PRED_LAT_ACC_TH :: real where "ABORT_ENTERING_PRED_LAT_ACC_TH = 11 / 10"
definition TURNING_LAT_ACC_TH :: real where "TURNING_LAT_ACC_TH = 16 / 10"
definition LEAVING_LAT_ACC_TH :: real where "LEAVING_LAT_ACC_TH = 13 / 10"
definition FINISH_LAT_ACC_TH :: real where "FINISH_LAT_ACC_TH = 11 / 10"
definition A_LAT_REG_MAX :: real where "A_LAT_REG_MAX = 2"
definition NO_OVERSHOOT_TIME_HORIZON :: real where "NO_OVERSHOOT_TIME_HORIZON = 4"
definition ENTERING_SMOOTH_DECEL_V :: "real list" where "ENTERING_SMOOTH_DECEL_V = [- 2 / 10, -1]"
definition ENTERING_SMOOTH_DECEL_BP :: "real list" where "ENTERING_SMOOTH_DECEL_BP = [13 / 10, 3]"
definition TURNING_ACC_V :: "real list" where "TURNING_ACC_V = [5 / 10, 0, - 4 / 10]"
definition TURNING_ACC_BP :: "real list" where "TURNING_ACC_BP = [15 / 10, 23 / 10, 3]"
definition LEAVING_ACC :: real where "LEAVING_ACC = 5 / 10"

record scc_vision =
  sv_v_target :: np_float
  sv_a_target :: real
  sv_output_v_target :: np_float
  sv_output_a_target :: real
  sv_frame :: int
  sv_is_enabled :: bool
  sv_is_active :: bool
  sv_enabled :: bool
  sv_state :: vision_state
  sv_current_lat_acc :: real
  sv_max_pred_lat_acc :: real

definition scc_vision_init :: "params \<Rightarrow> scc_vision" where
  "scc_vision_init p =
     \<lparr> sv_v_target = Fin 0, sv_a_target = 0, sv_output_v_target = Fin V_CRUISE_UNSET, sv_output_a_target = 0,
       sv_frame = -1, sv_is_enabled = False, sv_is_active = False, sv_enabled = get_bool ''SmartCruiseControlVision'' p,
       sv_state = VS_disabled, sv_current_lat_acc = 0, sv_max_pred_lat_acc = 0 \<rparr>"

text \<open>The inputs of an update: \<open>orientationRate.z\<close> and \<open>velocity.x\<close> of the model, the measured curvature,
  and whether control is enabled or overridden.\<close>

record scc_inputs =
  sci_orientation_rate_z :: "real list"
  sci_velocity_x :: "real list"
  sci_curvature :: real
  sci_long_enabled :: bool
  sci_long_override :: bool
  sci_v_ego :: real
  sci_a_ego :: real
  sci_v_cruise :: real

definition vision_update_params :: "params \<Rightarrow> scc_vision \<Rightarrow> scc_vision" where
  "vision_update_params p v =
     (if sv_frame v mod scc_params_frames = 0 then v\<lparr>sv_enabled := get_bool ''SmartCruiseControlVision'' p\<rparr> else v)"

definition vision_update_calculations :: "scc_inputs \<Rightarrow> scc_vision \<Rightarrow> scc_vision option" where
  "vision_update_calculations i v =
     (if \<not> sci_long_enabled i then Some v
      else
        do { predicted_lat_accels \<leftarrow> np_mult (map abs (sci_orientation_rate_z i)) (sci_velocity_x i);
             max_pred \<leftarrow> np_percentile predicted_lat_accels 97;
             let v_ego = max (sci_v_ego i) (1 / 10);
             Some (v\<lparr>sv_current_lat_acc := (sci_v_ego i)\<^sup>2 * \<bar>sci_curvature i\<bar>, sv_max_pred_lat_acc := max_pred,
                     sv_v_target := np_sqrt_div A_LAT_REG_MAX (max_pred / v_ego\<^sup>2)\<rparr>) })"

definition vision_next :: "scc_inputs \<Rightarrow> scc_vision \<Rightarrow> vision_state" where
  "vision_next i v =
     (if sv_state v \<noteq> VS_disabled then
        (if \<not> sci_long_enabled i \<or> \<not> sv_enabled v then VS_disabled
         else if sci_long_override i then VS_overriding
         else (case sv_state v of
             VS_enabled \<Rightarrow>
               (if sci_v_ego i \<le> SCC_MIN_V then VS_enabled
                else if ENTERING_PRED_LAT_ACC_TH \<le> sv_max_pred_lat_acc v then VS_entering else VS_enabled)
           | VS_overriding \<Rightarrow> (if \<not> sci_long_override i then VS_enabled else VS_overriding)
           | VS_entering \<Rightarrow>
               (if TURNING_LAT_ACC_TH \<le> sv_current_lat_acc v then VS_turning
                else if sv_max_pred_lat_acc v < ABORT_ENTERING_PRED_LAT_ACC_TH then VS_enabled else VS_entering)
           | VS_turning \<Rightarrow> (if sv_current_lat_acc v \<le> LEAVING_LAT_ACC_TH then VS_leaving else VS_turning)
           | VS_leaving \<Rightarrow>
               (if TURNING_LAT_ACC_TH \<le> sv_current_lat_acc v then VS_turning
                else if sv_current_lat_acc v < FINISH_LAT_ACC_TH then VS_enabled else VS_leaving)
           | VS_disabled \<Rightarrow> VS_disabled))
      else if sci_long_enabled i \<and> sv_enabled v then (if sci_long_override i then VS_overriding else VS_enabled)
      else VS_disabled)"

definition vision_solution :: "scc_inputs \<Rightarrow> scc_vision \<Rightarrow> real option" where
  "vision_solution i v =
     (if sv_state v \<notin> set VISION_ACTIVE then Some (sci_a_ego i)
      else if sv_state v = VS_entering then np_interp (sv_max_pred_lat_acc v) ENTERING_SMOOTH_DECEL_BP ENTERING_SMOOTH_DECEL_V
      else if sv_state v = VS_turning then np_interp (sv_current_lat_acc v) TURNING_ACC_BP TURNING_ACC_V
      else Some LEAVING_ACC)"

definition vision_v_target_from_control :: "scc_vision \<Rightarrow> np_float" where
  "vision_v_target_from_control v =
     (if sv_is_active v then np_add (py_max (sv_v_target v) (Fin SCC_MIN_V)) (sv_a_target v * NO_OVERSHOOT_TIME_HORIZON)
      else Fin V_CRUISE_UNSET)"

definition scc_vision_update :: "params \<Rightarrow> scc_inputs \<Rightarrow> scc_vision \<Rightarrow> scc_vision option" where
  "scc_vision_update p i v =
     do { let v = vision_update_params p v;
          v \<leftarrow> vision_update_calculations i v;
          let v = v\<lparr>sv_state := vision_next i v\<rparr>;
          let v = v\<lparr>sv_is_enabled := sv_state v \<in> set VISION_ENABLED, sv_is_active := sv_state v \<in> set VISION_ACTIVE\<rparr>;
          a \<leftarrow> vision_solution i v;
          let v = v\<lparr>sv_a_target := a\<rparr>;
          Some (v\<lparr>sv_output_v_target := vision_v_target_from_control v, sv_output_a_target := sv_a_target v,
                  sv_frame := sv_frame v + 1\<rparr>) }"

section \<open>\<open>SmartCruiseControlMap\<close>\<close>

subsection \<open>The values \<open>json.loads\<close> returns\<close>

datatype json = JNull | JBool bool | JInt int | JFloat real | JInf bool | JNaN | JStr string
  | JList "json list" | JObj "(string \<times> json) list"

text \<open>What the store holds: nothing, text that is not JSON, or a value.\<close>

datatype raw_targets = NoTargets | BadJson | Loaded json

fun json_num :: "json \<Rightarrow> real option" where
  "json_num (JBool b) = Some (if b then 1 else 0)"
| "json_num (JInt n) = Some (of_int n)"
| "json_num (JFloat x) = Some x"
| "json_num _ = None"

text \<open>Python's \<open>==\<close> on these values.\<close>

function json_eq :: "json \<Rightarrow> json \<Rightarrow> bool" where
  "json_eq a b =
     (case (a, b) of
        (JNull, JNull) \<Rightarrow> True
      | (JInf p, JInf q) \<Rightarrow> p = q
      | (JStr s, JStr t) \<Rightarrow> s = t
      | (JList xs, JList ys) \<Rightarrow> length xs = length ys \<and> (\<forall>(x, y)\<in>set (zip xs ys). json_eq x y)
      | (JObj xs, JObj ys) \<Rightarrow> set (map fst xs) = set (map fst ys) \<and>
          (\<forall>(k, x)\<in>set xs. case map_of ys k of None \<Rightarrow> False | Some y \<Rightarrow> json_eq x y)
      | _ \<Rightarrow> (case (json_num a, json_num b) of (Some x, Some y) \<Rightarrow> x = y | _ \<Rightarrow> False))"
  by pat_completeness auto

lemma json_size_list: "x \<in> set xs \<Longrightarrow> size x < size (JList xs)"
  by (induction xs) auto

lemma json_size_obj: "(k, x) \<in> set xs \<Longrightarrow> size x < size (JObj xs)"
  by (induction xs) auto

termination json_eq
  by (relation "measure (\<lambda>(a, b). size a)") (auto dest!: set_zip_leftD json_size_list json_size_obj)

declare json_eq.simps [simp del]

fun json_get :: "string \<Rightarrow> json \<Rightarrow> json option" where
  "json_get k (JObj kvs) = map_of kvs k"
| "json_get k _ = None"

subsection \<open>\<open>read_targets\<close>\<close>

record map_point =
  mp_latitude :: real
  mp_longitude :: real
  mp_distance_m :: real
  mp_velocity :: real

record map_snapshot =
  ms_sample_time_ns :: int
  ms_valid_until_ns :: int
  ms_points :: "map_point list"
  ms_raw_points :: json

text \<open>A number of type \<open>int\<close> or \<open>float\<close> that is finite; \<open>math.isfinite\<close> raises on an integer beyond the floats.\<close>

fun finite_number :: "json \<Rightarrow> real option" where
  "finite_number (JInt n) = (if \<bar>n\<bar> < 2 ^ 1024 - 2 ^ 970 then Some (of_int n) else None)"
| "finite_number (JFloat x) = Some x"
| "finite_number _ = None"

definition read_point :: "real \<Rightarrow> json \<Rightarrow> map_point option" where
  "read_point previous_distance point =
     do { lat \<leftarrow> Option.bind (json_get ''latitude'' point) finite_number;
          lon \<leftarrow> Option.bind (json_get ''longitude'' point) finite_number;
          distance \<leftarrow> Option.bind (json_get ''distance_m'' point) finite_number;
          velocity \<leftarrow> Option.bind (json_get ''velocity'' point) finite_number;
          if lat < - 90 \<or> 90 < lat \<or> lon < - 180 \<or> 180 < lon \<or> lat = 0 \<and> lon = 0 \<or>
             distance < previous_distance \<or> 600 < distance \<or> velocity \<le> 0
          then None
          else Some \<lparr> mp_latitude = lat, mp_longitude = lon, mp_distance_m = distance, mp_velocity = velocity \<rparr> }"

fun read_points :: "real \<Rightarrow> json list \<Rightarrow> map_point list option" where
  "read_points previous_distance [] = Some []"
| "read_points previous_distance (j # js) =
     do { pt \<leftarrow> read_point previous_distance j; pts \<leftarrow> read_points (mp_distance_m pt) js; Some (pt # pts) }"

text \<open>The validation of a loaded value; every reason to reject is the result \<open>None\<close>.\<close>

fun json_int :: "json \<Rightarrow> int option" where
  "json_int (JInt n) = Some n"
| "json_int _ = None"

fun json_list :: "json \<Rightarrow> json list option" where
  "json_list (JList xs) = Some xs"
| "json_list _ = None"

definition read_snapshot :: "int \<Rightarrow> json \<Rightarrow> map_snapshot option" where
  "read_snapshot now_ns j =
     do { sample_ns \<leftarrow> Option.bind (json_get ''sample_time_ns'' j) json_int;
          valid_until_ns \<leftarrow> Option.bind (json_get ''valid_until_ns'' j) json_int;
          if \<not> (0 < sample_ns \<and> sample_ns \<le> now_ns \<and> now_ns \<le> valid_until_ns \<and> valid_until_ns \<le> sample_ns + 2000000000)
          then None
          else do { raw \<leftarrow> json_get ''points'' j;
                    points \<leftarrow> json_list raw;
                    if \<not> (1 \<le> length points \<and> length points \<le> 8) then None
                    else do { pts \<leftarrow> read_points 0 points;
                              Some \<lparr> ms_sample_time_ns = sample_ns, ms_valid_until_ns = valid_until_ns, ms_points = pts,
                                     ms_raw_points = raw \<rparr> } } }"

text \<open>\<open>read_targets\<close> with the time of the last warning it keeps.\<close>

definition read_targets :: "raw_targets \<Rightarrow> int \<Rightarrow> int \<Rightarrow> map_snapshot option \<times> int" where
  "read_targets raw now_ns last_bad_log_ns =
     (let rejected = (None, if 5000000000 \<le> now_ns - last_bad_log_ns \<or> last_bad_log_ns = 0 then now_ns else last_bad_log_ns)
      in case raw of
           NoTargets \<Rightarrow> (None, last_bad_log_ns)
         | BadJson \<Rightarrow> rejected
         | Loaded j \<Rightarrow>
             (if j = JList [] then (None, last_bad_log_ns)
              else (case read_snapshot now_ns j of None \<Rightarrow> rejected | Some s \<Rightarrow> (Some s, last_bad_log_ns))))"

subsection \<open>\<open>update_calculations\<close>\<close>

definition SCC_TARGET_JERK :: real where "SCC_TARGET_JERK = - 6 / 10"
definition SCC_TARGET_ACCEL :: real where "SCC_TARGET_ACCEL = - 12 / 10"
definition SCC_TARGET_OFFSET :: real where "SCC_TARGET_OFFSET = 1"

definition calculate_velocity :: "real \<Rightarrow> real \<Rightarrow> real \<Rightarrow> real \<Rightarrow> real" where
  "calculate_velocity t target_jerk a_ego v_ego = v_ego + a_ego * t + target_jerk / 2 * t\<^sup>2"

definition calculate_distance :: "real \<Rightarrow> real \<Rightarrow> real \<Rightarrow> real \<Rightarrow> real" where
  "calculate_distance t target_jerk a_ego v_ego = t * v_ego + a_ego / 2 * t\<^sup>2 + target_jerk / 6 * t ^ 3"

datatype map_state = MAP_disabled | MAP_enabled | MAP_turning | MAP_overriding

definition MAP_ACTIVE :: "map_state list" where "MAP_ACTIVE = [MAP_turning]"
definition MAP_ENABLED :: "map_state list" where "MAP_ENABLED = MAP_enabled # MAP_overriding # MAP_ACTIVE"

record scc_map =
  sm_v_target :: real
  sm_output_v_target :: real
  sm_output_a_target :: real
  sm_enabled :: bool
  sm_is_enabled :: bool
  sm_is_active :: bool
  sm_state :: map_state
  sm_target_lat :: real
  sm_target_lon :: real
  sm_frame :: int
  sm_last_bad_log_ns :: int
  sm_snapshot :: "map_snapshot option"
  sm_sample_time_ns :: int
  sm_travelled_m :: real
  sm_last_update_ns :: "int option"

definition scc_map_init :: "params \<Rightarrow> scc_map" where
  "scc_map_init p =
     \<lparr> sm_v_target = 0, sm_output_v_target = V_CRUISE_UNSET, sm_output_a_target = 0,
       sm_enabled = get_bool ''SmartCruiseControlMap'' p, sm_is_enabled = False, sm_is_active = False,
       sm_state = MAP_disabled, sm_target_lat = 0, sm_target_lon = 0, sm_frame = -1, sm_last_bad_log_ns = 0,
       sm_snapshot = None, sm_sample_time_ns = 0, sm_travelled_m = 0, sm_last_update_ns = None \<rparr>"

definition map_update_params :: "params \<Rightarrow> scc_map \<Rightarrow> scc_map" where
  "map_update_params p m =
     (if sm_frame m mod scc_params_frames = 0 then m\<lparr>sm_enabled := get_bool ''SmartCruiseControlMap'' p\<rparr> else m)"

definition clear_targets :: "scc_map \<Rightarrow> scc_map" where
  "clear_targets m = m\<lparr>sm_snapshot := None, sm_v_target := 0, sm_target_lat := 0, sm_target_lon := 0\<rparr>"

text \<open>The distance needed to slow to \<open>tv\<close>; a quadratic without real roots skips the point.\<close>

definition needed_distance :: "real \<Rightarrow> real \<Rightarrow> real \<Rightarrow> real option" where
  "needed_distance v_ego a_ego tv =
     (let accel_t = \<bar>(a_ego - SCC_TARGET_ACCEL) / SCC_TARGET_JERK\<bar>;
          min_accel_v = calculate_velocity accel_t SCC_TARGET_JERK a_ego v_ego
      in if min_accel_v < tv then
           (let a = 5 / 10 * SCC_TARGET_JERK; b = a_ego; c = v_ego - tv; disc = b\<^sup>2 - 4 * a * c
            in if disc < 0 then None
               else (let t_a = - 1 * (sqrt disc + b) / (2 * a); t_b = (sqrt disc - b) / (2 * a);
                         t = (if 0 < t_a then t_a else t_b)
                     in Some (calculate_distance t SCC_TARGET_JERK a_ego v_ego)))
         else
           (let t = \<bar>(min_accel_v - tv) / SCC_TARGET_ACCEL\<bar>
            in Some (calculate_distance accel_t SCC_TARGET_JERK a_ego v_ego +
                     calculate_distance t 0 SCC_TARGET_ACCEL min_accel_v)))"

definition valid_velocity :: "real \<Rightarrow> real \<Rightarrow> real \<Rightarrow> map_point \<Rightarrow> bool" where
  "valid_velocity v_ego a_ego travelled_m pt \<longleftrightarrow>
     mp_velocity pt \<le> v_ego \<and>
     (case needed_distance v_ego a_ego (mp_velocity pt) of
        None \<Rightarrow> False
      | Some max_d \<Rightarrow> max 0 (mp_distance_m pt - travelled_m) < max_d + mp_velocity pt * SCC_TARGET_OFFSET)"

text \<open>The smallest velocity to slow for, 100 where there is none.\<close>

definition slowest :: "map_point list \<Rightarrow> real \<times> real \<times> real" where
  "slowest pts = fold (\<lambda>pt (min_v, lat, lon).
     if mp_velocity pt < min_v then (mp_velocity pt, mp_latitude pt, mp_longitude pt) else (min_v, lat, lon)) pts (100, 0, 0)"

definition choose_target :: "real \<Rightarrow> real \<Rightarrow> map_point list \<Rightarrow> scc_map \<Rightarrow> scc_map" where
  "choose_target v_ego a_ego pts m =
     (let (min_v, lat, lon) = slowest (filter (valid_velocity v_ego a_ego (sm_travelled_m m)) pts)
      in if sm_v_target m < min_v \<and> \<not> (sm_target_lat m = 0 \<and> sm_target_lon m = 0) \<and>
            list_ex (\<lambda>pt. mp_velocity pt \<le> v_ego \<and> mp_latitude pt = sm_target_lat m \<and> mp_longitude pt = sm_target_lon m \<and>
                           mp_velocity pt = sm_v_target m) pts
         then m
         else m\<lparr>sm_v_target := min_v, sm_target_lat := lat, sm_target_lon := lon\<rparr>)"

text \<open>The last branch, which subtracts the previous time, is reached only with a snapshot, so after an
  update that set it.\<close>

definition map_update_calculations :: "bool \<Rightarrow> real \<Rightarrow> real \<Rightarrow> raw_targets \<Rightarrow> int \<Rightarrow> scc_map \<Rightarrow> scc_map" where
  "map_update_calculations motion_valid v_ego a_ego raw now_ns m =
     (let previous_ns = sm_last_update_ns m; m = m\<lparr>sm_last_update_ns := Some now_ns\<rparr>
      in if \<not> motion_valid \<or> v_ego < 0 \<or> (case previous_ns of None \<Rightarrow> False | Some prev \<Rightarrow> now_ns < prev) then clear_targets m
         else
           (let (snapshot, log) = read_targets raw now_ns (sm_last_bad_log_ns m);
                m = m\<lparr>sm_last_bad_log_ns := log\<rparr>
            in case snapshot of
                 None \<Rightarrow> clear_targets m
               | Some s \<Rightarrow>
                   (let sample_ns = ms_sample_time_ns s
                    in if sample_ns < sm_sample_time_ns m \<or>
                          sample_ns = sm_sample_time_ns m \<and>
                          (case sm_snapshot m of None \<Rightarrow> True | Some old \<Rightarrow> \<not> json_eq (ms_raw_points s) (ms_raw_points old))
                       then clear_targets m
                       else if sm_sample_time_ns m < sample_ns then
                         choose_target v_ego a_ego (ms_points s)
                           (m\<lparr>sm_sample_time_ns := sample_ns, sm_travelled_m := v_ego * (of_int (now_ns - sample_ns) / 10 ^ 9),
                              sm_snapshot := Some s\<rparr>)
                       else
                         (let s = s\<lparr>ms_valid_until_ns :=
                                  (case sm_snapshot m of None \<Rightarrow> ms_valid_until_ns s
                                   | Some old \<Rightarrow> min (ms_valid_until_ns s) (ms_valid_until_ns old))\<rparr>
                          in if ms_valid_until_ns s < now_ns then clear_targets m
                             else choose_target v_ego a_ego (ms_points s)
                               (m\<lparr>sm_travelled_m := sm_travelled_m m +
                                    v_ego * (of_int (now_ns - (case previous_ns of None \<Rightarrow> now_ns | Some prev \<Rightarrow> prev)) / 10 ^ 9),
                                  sm_snapshot := Some s\<rparr>)))))"

subsection \<open>The machine and \<open>update\<close>\<close>

definition map_next :: "scc_inputs \<Rightarrow> scc_map \<Rightarrow> map_state" where
  "map_next i m =
     (let slow = (sm_v_target m < sci_v_cruise i \<and> sm_v_target m \<noteq> 0)
      in if sm_state m \<noteq> MAP_disabled then
           (if \<not> sci_long_enabled i \<or> \<not> sm_enabled m then MAP_disabled
            else if sci_long_override i then MAP_overriding
            else (case sm_state m of
                MAP_enabled \<Rightarrow> (if slow then MAP_turning else MAP_enabled)
              | MAP_turning \<Rightarrow> (if sci_v_cruise i \<le> sm_v_target m \<or> sm_v_target m = 0 then MAP_enabled else MAP_turning)
              | MAP_overriding \<Rightarrow> (if \<not> sci_long_override i then (if slow then MAP_turning else MAP_enabled) else MAP_overriding)
              | MAP_disabled \<Rightarrow> MAP_disabled))
         else if sci_long_enabled i \<and> sm_enabled m then (if sci_long_override i then MAP_overriding else MAP_enabled)
         else MAP_disabled)"

definition map_v_target_from_control :: "scc_map \<Rightarrow> real" where
  "map_v_target_from_control m = (if sm_is_active m then max (sm_v_target m) SCC_MIN_V else V_CRUISE_UNSET)"

definition scc_map_update :: "params \<Rightarrow> bool \<Rightarrow> raw_targets \<Rightarrow> int \<Rightarrow> scc_inputs \<Rightarrow> scc_map \<Rightarrow> scc_map" where
  "scc_map_update p motion_valid raw now_ns i m =
     (let m = map_update_params p m;
          m = map_update_calculations motion_valid (sci_v_ego i) (sci_a_ego i) raw now_ns m;
          m = m\<lparr>sm_state := map_next i m\<rparr>;
          m = m\<lparr>sm_is_enabled := sm_state m \<in> set MAP_ENABLED, sm_is_active := sm_state m \<in> set MAP_ACTIVE\<rparr>
      in m\<lparr>sm_output_v_target := map_v_target_from_control m, sm_output_a_target := sci_a_ego i, sm_frame := sm_frame m + 1\<rparr>)"

section \<open>Lemmas\<close>

lemma scc_params_frames_eq [simp]: "scc_params_frames = 60"
  by (simp add: scc_params_frames_def PARAMS_UPDATE_PERIOD_def DT_MDL_def py_int_def)

lemma slowest_range: "fst (slowest pts) = 100 \<or> (\<exists>pt\<in>set pts. fst (slowest pts) = mp_velocity pt)"
proof -
  let ?f = "\<lambda>pt (min_v, lat, lon). if mp_velocity pt < min_v then (mp_velocity pt, mp_latitude pt, mp_longitude pt) else (min_v, lat, lon)"
  have "fst (fold ?f pts a) = fst a \<or> (\<exists>pt\<in>set pts. fst (fold ?f pts a) = mp_velocity pt)" for a
  proof (induction pts arbitrary: a)
    case Nil
    show ?case by simp
  next
    case (Cons pt pts)
    obtain v lat lon where a: "a = (v, lat, lon)" by (cases a)
    show ?case
      using Cons.IH [of "?f pt a"] by (cases "mp_velocity pt < v") (auto simp: a)
  qed
  from this [of "(100, 0, 0)"] show ?thesis by (simp add: slowest_def)
qed

lemma choose_target_velocity:
  "sm_v_target (choose_target v a pts m) = 100 \<or>
   (\<exists>pt\<in>set pts. sm_v_target (choose_target v a pts m) = mp_velocity pt \<and> mp_velocity pt \<le> v)"
proof -
  obtain min_v lat lon where c: "slowest (filter (valid_velocity v a (sm_travelled_m m)) pts) = (min_v, lat, lon)"
    by (metis prod_cases3)
  let ?keep = "sm_v_target m < min_v \<and> \<not> (sm_target_lat m = 0 \<and> sm_target_lon m = 0) \<and>
      list_ex (\<lambda>pt. mp_velocity pt \<le> v \<and> mp_latitude pt = sm_target_lat m \<and> mp_longitude pt = sm_target_lon m \<and>
                     mp_velocity pt = sm_v_target m) pts"
  show ?thesis
  proof (cases ?keep)
    case True
    then obtain pt where "pt \<in> set pts" "mp_velocity pt \<le> v" "mp_velocity pt = sm_v_target m" by (auto simp: list_ex_iff)
    moreover have "choose_target v a pts m = m" using True by (simp add: choose_target_def c)
    ultimately show ?thesis by metis
  next
    case False
    then have "sm_v_target (choose_target v a pts m) = min_v" by (simp add: choose_target_def c)
    then show ?thesis
      using slowest_range [of "filter (valid_velocity v a (sm_travelled_m m)) pts"] by (auto simp: c valid_velocity_def)
  qed
qed

lemma choose_target_frame [frame_simps]:
  "sm_snapshot (choose_target v a pts m) = sm_snapshot m" "sm_state (choose_target v a pts m) = sm_state m"
  "sm_enabled (choose_target v a pts m) = sm_enabled m"
  by (simp_all add: choose_target_def split: prod.split)

lemma read_snapshot_times:
  assumes "read_snapshot now j = Some s"
  shows "0 < ms_sample_time_ns s \<and> ms_sample_time_ns s \<le> now \<and> now \<le> ms_valid_until_ns s \<and>
    ms_valid_until_ns s \<le> ms_sample_time_ns s + 2000000000"
  using assms by (auto simp: read_snapshot_def bind_eq_Some_conv split: if_splits)

lemma read_targets_times:
  assumes "fst (read_targets raw now bad) = Some s"
  shows "0 < ms_sample_time_ns s \<and> ms_sample_time_ns s \<le> now \<and> now \<le> ms_valid_until_ns s \<and>
    ms_valid_until_ns s \<le> ms_sample_time_ns s + 2000000000"
  using assms read_snapshot_times
  by (auto simp: read_targets_def Let_def split: raw_targets.splits if_splits option.splits)

text \<open>After the calculations there is no target, or one from a snapshot that is valid now.\<close>

definition fresh_target :: "real \<Rightarrow> int \<Rightarrow> scc_map \<Rightarrow> bool" where
  "fresh_target v_ego now m \<longleftrightarrow>
     (\<exists>s. sm_snapshot m = Some s \<and> ms_sample_time_ns s \<le> now \<and> now \<le> ms_valid_until_ns s \<and>
       ms_valid_until_ns s \<le> ms_sample_time_ns s + 2000000000 \<and>
       (sm_v_target m = 100 \<or> (\<exists>pt\<in>set (ms_points s). sm_v_target m = mp_velocity pt \<and> mp_velocity pt \<le> v_ego)))"

lemma choose_target_fresh:
  assumes "sm_snapshot m = Some s" "ms_sample_time_ns s \<le> now" "now \<le> ms_valid_until_ns s"
    "ms_valid_until_ns s \<le> ms_sample_time_ns s + 2000000000" "ms_points s = pts"
  shows "fresh_target v now (choose_target v a pts m)"
  using assms choose_target_velocity [of v a pts m] by (auto simp: fresh_target_def frame_simps)

lemma map_calculations_fresh:
  fixes m :: scc_map and mv :: bool and v a :: real and raw :: raw_targets and now :: int
  defines "m' \<equiv> map_update_calculations mv v a raw now m"
  shows "sm_v_target m' = 0 \<or> mv \<and> 0 \<le> v \<and> fresh_target v now m'"
proof -
  obtain sn lg where r: "read_targets raw now (sm_last_bad_log_ns m) = (sn, lg)"
    by (cases "read_targets raw now (sm_last_bad_log_ns m)")
  have clear: "sm_v_target (clear_targets x) = 0" for x by (simp add: clear_targets_def)
  show ?thesis
  proof (cases "\<not> mv \<or> v < 0 \<or> (case sm_last_update_ns m of None \<Rightarrow> False | Some prev \<Rightarrow> now < prev) \<or> sn = None")
    case True
    then show ?thesis unfolding m'_def map_update_calculations_def by (auto simp: Let_def r clear)
  next
    case False
    then obtain s where s: "sn = Some s" by auto
    have t: "ms_sample_time_ns s \<le> now" "now \<le> ms_valid_until_ns s" "ms_valid_until_ns s \<le> ms_sample_time_ns s + 2000000000"
      using read_targets_times [of raw now "sm_last_bad_log_ns m" s] by (simp_all add: r s)
    show ?thesis
      using False t unfolding m'_def map_update_calculations_def
      by (auto simp: Let_def r s clear not_less intro!: choose_target_fresh split: option.splits)
  qed
qed

section \<open>Properties\<close>

text \<open>Only fresh map data slows the car: after any update of the map controller in which it is active
  (it gives the planner a target speed), longitudinal control is enabled and not overridden, the motion was
  valid, the stored snapshot was sampled before and is valid now, for at most two seconds after it was
  sampled, and the target is the velocity of one of its points that is not above the car's speed (or the
  100 m/s that stand for no such point); the speed given is never below 20 km/h.\<close>

theorem map_target_fresh:
  assumes "sm_is_active m'" "m' = scc_map_update p motion_valid raw now_ns i m"
  shows "sci_long_enabled i \<and> \<not> sci_long_override i \<and> motion_valid \<and> 0 \<le> sci_v_ego i \<and>
     (\<exists>s. sm_snapshot m' = Some s \<and> ms_sample_time_ns s \<le> now_ns \<and> now_ns \<le> ms_valid_until_ns s \<and>
        ms_valid_until_ns s \<le> ms_sample_time_ns s + 2 * 10 ^ 9 \<and>
        (sm_v_target m' = 100 \<or> (\<exists>pt\<in>set (ms_points s). sm_v_target m' = mp_velocity pt \<and> mp_velocity pt \<le> sci_v_ego i))) \<and>
     sm_output_v_target m' = max (sm_v_target m') (20 * KPH_TO_MS)"
proof -
  define m0 where "m0 = map_update_params p m"
  define m1 where "m1 = map_update_calculations motion_valid (sci_v_ego i) (sci_a_ego i) raw now_ns m0"
  have turning: "map_next i m1 = MAP_turning"
    using assms by (simp add: scc_map_update_def Let_def m0_def m1_def MAP_ACTIVE_def)
  then have nz: "sm_v_target m1 \<noteq> 0" "sci_long_enabled i" "\<not> sci_long_override i"
    by (auto simp: map_next_def Let_def split: if_splits map_state.splits)
  have out: "sm_v_target m' = sm_v_target m1" "sm_snapshot m' = sm_snapshot m1" "sm_output_v_target m' = max (sm_v_target m1) SCC_MIN_V"
    using turning unfolding assms(2)
    by (simp_all add: scc_map_update_def Let_def map_v_target_from_control_def MAP_ACTIVE_def m0_def m1_def)
  have "motion_valid \<and> 0 \<le> sci_v_ego i \<and> fresh_target (sci_v_ego i) now_ns m1"
    using map_calculations_fresh [of motion_valid "sci_v_ego i" "sci_a_ego i" raw now_ns m0] nz(1)
    unfolding m1_def by blast
  with nz(2,3) show ?thesis unfolding out by (auto simp: fresh_target_def SCC_MIN_V_def)
qed

text \<open>The vision controller slows gently: whenever an update leaves it active, control is enabled and not
  overridden, and its acceleration is the interpolated one of its state: between -1 and -0.2 on entering,
  between -0.4 and 0.5 in the turn, 0.5 on leaving; it starts slowing only above 20 km/h for a predicted
  lateral acceleration of at least 1.3.\<close>

theorem vision_slows_gently:
  assumes "scc_vision_update p i v = Some v'" "sv_is_active v'"
  shows "sci_long_enabled i \<and> \<not> sci_long_override i \<and>
     (case sv_state v' of VS_entering \<Rightarrow> -1 \<le> sv_a_target v' \<and> sv_a_target v' \<le> - 2 / 10
      | VS_turning \<Rightarrow> - 4 / 10 \<le> sv_a_target v' \<and> sv_a_target v' \<le> 5 / 10
      | VS_leaving \<Rightarrow> sv_a_target v' = 5 / 10 | _ \<Rightarrow> False) \<and>
     (sv_state v \<notin> {VS_entering, VS_turning, VS_leaving} \<longrightarrow>
        20 * KPH_TO_MS < sci_v_ego i \<and> 13 / 10 \<le> sv_max_pred_lat_acc v' \<and> sv_state v' = VS_entering)"
proof -
  define v0 where "v0 = vision_update_params p v"
  have st0: "sv_state v0 = sv_state v" by (simp add: v0_def vision_update_params_def)
  obtain v1 where v1: "vision_update_calculations i v0 = Some v1" "sv_state v1 = sv_state v"
    using assms(1) by (auto simp: scc_vision_update_def Let_def bind_eq_Some_conv st0 vision_update_calculations_def simp flip: v0_def split: if_splits)
  let ?q = "vision_next i v1"
  let ?v2 = "v1\<lparr>sv_state := ?q, sv_is_enabled := ?q \<in> set VISION_ENABLED, sv_is_active := ?q \<in> set VISION_ACTIVE\<rparr>"
  obtain a where a: "vision_solution i ?v2 = Some a" "sv_state v' = ?q" "sv_a_target v' = a"
    "sv_is_active v' = (?q \<in> set VISION_ACTIVE)" "sv_max_pred_lat_acc v' = sv_max_pred_lat_acc v1"
    using assms(1) v1(1) by (auto simp: scc_vision_update_def Let_def bind_eq_Some_conv simp flip: v0_def)
  have act: "?q \<in> {VS_entering, VS_turning, VS_leaving}" using assms(2) a(4) by (simp add: VISION_ACTIVE_def)
  have gates: "sci_long_enabled i" "\<not> sci_long_override i"
    using act by (auto simp: vision_next_def split: if_splits vision_state.splits)
  have enter: "sv_state v \<notin> {VS_entering, VS_turning, VS_leaving} \<Longrightarrow>
      SCC_MIN_V < sci_v_ego i \<and> ENTERING_PRED_LAT_ACC_TH \<le> sv_max_pred_lat_acc v1 \<and> ?q = VS_entering"
    using act gates v1(2) by (auto simp: vision_next_def split: if_splits vision_state.splits)
  have accel: "case ?q of VS_entering \<Rightarrow> -1 \<le> a \<and> a \<le> - 2 / 10 | VS_turning \<Rightarrow> - 4 / 10 \<le> a \<and> a \<le> 5 / 10
      | VS_leaving \<Rightarrow> a = 5 / 10 | _ \<Rightarrow> False"
    using act
  proof (elim insertE emptyE)
    assume q: "?q = VS_entering"
    then have "np_interp (sv_max_pred_lat_acc ?v2) ENTERING_SMOOTH_DECEL_BP ENTERING_SMOOTH_DECEL_V = Some a"
      using a(1) by (simp add: vision_solution_def VISION_ACTIVE_def)
    from np_interp_bounds [OF this, of "-1" "- 2 / 10"] q show ?thesis by (simp add: ENTERING_SMOOTH_DECEL_V_def)
  next
    assume q: "?q = VS_turning"
    then have "np_interp (sv_current_lat_acc ?v2) TURNING_ACC_BP TURNING_ACC_V = Some a"
      using a(1) by (simp add: vision_solution_def VISION_ACTIVE_def)
    from np_interp_bounds [OF this, of "- 4 / 10" "5 / 10"] q show ?thesis by (simp add: TURNING_ACC_V_def)
  next
    assume "?q = VS_leaving"
    with a(1) show ?thesis by (simp add: vision_solution_def VISION_ACTIVE_def LEAVING_ACC_def)
  qed
  show ?thesis using gates enter accel unfolding a(2,3,5) SCC_MIN_V_def ENTERING_PRED_LAT_ACC_TH_def by blast
qed

section \<open>Witnesses\<close>

definition demo_scc_params :: params where
  "demo_scc_params = \<lparr>pr_values = [''SmartCruiseControlMap'' \<mapsto> PBool True, ''SmartCruiseControlVision'' \<mapsto> PBool True],
     pr_defaults = (\<lambda>_. None)\<rparr>"

definition demo_scc_inputs :: scc_inputs where
  "demo_scc_inputs = \<lparr> sci_orientation_rate_z = [1 / 10], sci_velocity_x = [20], sci_curvature = 0, sci_long_enabled = True,
     sci_long_override = False, sci_v_ego = 20, sci_a_ego = 0, sci_v_cruise = 30 \<rparr>"

definition demo_snapshot :: raw_targets where
  "demo_snapshot = Loaded (JObj [(''sample_time_ns'', JInt 5), (''valid_until_ns'', JInt 1000),
     (''points'', JList [JObj [(''latitude'', JInt 1), (''longitude'', JInt 1), (''distance_m'', JInt 0), (''velocity'', JInt 10)]])])"

definition demo_map_point :: map_point where
  "demo_map_point = \<lparr>mp_latitude = 1, mp_longitude = 1, mp_distance_m = 0, mp_velocity = 10\<rparr>"

lemma demo_point: "valid_velocity 20 0 x demo_map_point" if "0 \<le> x"
  using that by (simp add: demo_map_point_def valid_velocity_def needed_distance_def Let_def calculate_velocity_def
      calculate_distance_def SCC_TARGET_JERK_def SCC_TARGET_ACCEL_def SCC_TARGET_OFFSET_def power2_eq_square power3_eq_cube)

lemma demo_read: "\<exists>raw. read_targets demo_snapshot 5 0 =
    (Some \<lparr>ms_sample_time_ns = 5, ms_valid_until_ns = 1000, ms_points = [demo_map_point], ms_raw_points = raw\<rparr>, 0)"
  by (simp add: demo_snapshot_def demo_map_point_def read_targets_def read_snapshot_def read_point_def Let_def)

theorem map_target_fresh_witness:
  "\<exists>m'. m' = scc_map_update demo_scc_params True demo_snapshot 5 demo_scc_inputs ((scc_map_init demo_scc_params)\<lparr>sm_state := MAP_enabled\<rparr>) \<and>
     sm_is_active m' \<and> sm_output_v_target m' = max (sm_v_target m') (20 * KPH_TO_MS)"
proof -
  define m where "m = (scc_map_init demo_scc_params)\<lparr>sm_state := MAP_enabled\<rparr>"
  obtain raw where raw: "read_targets demo_snapshot 5 0 =
      (Some \<lparr>ms_sample_time_ns = 5, ms_valid_until_ns = 1000, ms_points = [demo_map_point], ms_raw_points = raw\<rparr>, 0)"
    using demo_read by blast
  have fields: "sm_last_update_ns m = None" "sm_last_bad_log_ns m = 0" "sm_sample_time_ns m = 0" "sm_frame m = -1" "sm_enabled m"
    "sm_state m = MAP_enabled" "sm_target_lat m = 0" "sm_target_lon m = 0"
    by (simp_all add: m_def scc_map_init_def demo_scc_params_def get_bool_def)
  have calc: "sm_v_target (map_update_calculations True 20 0 demo_snapshot 5 m) = 10"
    "sm_state (map_update_calculations True 20 0 demo_snapshot 5 m) = MAP_enabled" "sm_enabled (map_update_calculations True 20 0 demo_snapshot 5 m)"
    using demo_point [of 0]
    by (simp_all add: map_update_calculations_def fields raw Let_def choose_target_def slowest_def) (simp_all add: demo_map_point_def)
  have "map_update_params demo_scc_params m = m" by (simp add: map_update_params_def fields)
  with calc have "sm_is_active (scc_map_update demo_scc_params True demo_snapshot 5 demo_scc_inputs m)"
    by (simp add: scc_map_update_def Let_def map_next_def demo_scc_inputs_def MAP_ACTIVE_def)
  with map_target_fresh [OF this refl] show ?thesis unfolding m_def by blast
qed

theorem vision_slows_gently_witness:
  "\<exists>v'. scc_vision_update demo_scc_params demo_scc_inputs ((scc_vision_init demo_scc_params)\<lparr>sv_state := VS_enabled\<rparr>) = Some v' \<and>
     sv_state v' = VS_entering \<and> sv_a_target v' \<le> - 2 / 10"
proof -
  let ?v = "(scc_vision_init demo_scc_params)\<lparr>sv_state := VS_enabled\<rparr>"
  have "\<exists>v'. scc_vision_update demo_scc_params demo_scc_inputs ?v = Some v' \<and> sv_is_active v' \<and> sv_state v' = VS_entering"
    by (simp add: scc_vision_update_def scc_vision_init_def vision_update_params_def vision_update_calculations_def np_mult_def
        np_percentile_def demo_scc_inputs_def demo_scc_params_def get_bool_def vision_next_def vision_solution_def VISION_ACTIVE_def
        np_interp_def ENTERING_SMOOTH_DECEL_V_def ENTERING_SMOOTH_DECEL_BP_def SCC_MIN_V_def KPH_TO_MS_def MS_TO_KPH_def
        ENTERING_PRED_LAT_ACC_TH_def Let_def)
  then obtain v' where v': "scc_vision_update demo_scc_params demo_scc_inputs ?v = Some v'" "sv_is_active v'" "sv_state v' = VS_entering"
    by blast
  from vision_slows_gently [OF v'(1,2)] v' show ?thesis by auto
qed

end
