(* ===== verification/PlannerAlerts.thy ===== *)
theory PlannerAlerts
  imports EventTableSP Cruise
begin

text \<open>
  The alerts the planner process raises: \<open>e2e_alerts_helper.py\<close> (the light turned green, the lead departed)
  and \<open>ldw.py\<close> (lane departure without lateral control).  An exception is the result \<open>None\<close>.
\<close>

section \<open>\<open>E2EAlertsHelper\<close>\<close>

datatype e2e_state = E2E_INACTIVE | E2E_ARMED | E2E_CONSUMED

definition GREEN_LIGHT_X_THRESHOLD :: real where "GREEN_LIGHT_X_THRESHOLD = 30"
definition LEAD_DEPART_DIST_THRESHOLD :: real where "LEAD_DEPART_DIST_THRESHOLD = 1"
definition TRIGGER_TIMER_THRESHOLD :: real where "TRIGGER_TIMER_THRESHOLD = 3 / 10"

record e2e_alerts =
  ee_frame :: int
  ee_green_light_state :: e2e_state
  ee_lead_depart_state :: e2e_state
  ee_green_light_alert :: bool
  ee_green_light_alert_enabled :: bool
  ee_lead_depart_alert :: bool
  ee_lead_depart_alert_enabled :: bool
  ee_green_light_trigger_timer :: int
  ee_lead_depart_trigger_timer :: int
  ee_last_lead_distance :: real
  ee_last_moving_frame :: int
  ee_allowed :: bool
  ee_last_allowed :: bool
  ee_has_lead :: bool
  ee_lead_depart_arm_timer :: int
  ee_lead_depart_confirmed_lead :: bool
  ee_lead_depart_armed :: bool

definition e2e_init :: "params \<Rightarrow> e2e_alerts" where
  "e2e_init p =
     \<lparr> ee_frame = -1, ee_green_light_state = E2E_INACTIVE, ee_lead_depart_state = E2E_INACTIVE,
       ee_green_light_alert = False, ee_green_light_alert_enabled = get_bool ''GreenLightAlert'' p,
       ee_lead_depart_alert = False, ee_lead_depart_alert_enabled = get_bool ''LeadDepartAlert'' p,
       ee_green_light_trigger_timer = 0, ee_lead_depart_trigger_timer = 0, ee_last_lead_distance = -1,
       ee_last_moving_frame = -1, ee_allowed = False, ee_last_allowed = False, ee_has_lead = False,
       ee_lead_depart_arm_timer = 0, ee_lead_depart_confirmed_lead = False, ee_lead_depart_armed = False \<rparr>"

definition e2e_read_params :: "params \<Rightarrow> e2e_alerts \<Rightarrow> e2e_alerts" where
  "e2e_read_params p e =
     (if ee_frame e mod py_int (PARAMS_UPDATE_PERIOD / DT_MDL) = 0
      then e\<lparr>ee_green_light_alert_enabled := get_bool ''GreenLightAlert'' p, ee_lead_depart_alert_enabled := get_bool ''LeadDepartAlert'' p\<rparr>
      else e)"

text \<open>The frame's inputs: the car state, whether control is enabled, the predicted positions and the lead.\<close>

record e2e_inputs =
  ei_CS :: car_state
  ei_cc_enabled :: bool
  ei_model_x :: "real list"
  ei_lead_present :: bool
  ei_lead_dRel :: real

definition e2e_update_allowed :: "e2e_inputs \<Rightarrow> e2e_alerts \<Rightarrow> e2e_alerts" where
  "e2e_update_allowed i e =
     (let CS = ei_CS i; moving = (\<not> cs_standstill CS \<and> 1 / 10 < cs_vEgo CS);
          e = e\<lparr>ee_has_lead := ei_lead_present i\<rparr>;
          e = (if moving then e\<lparr>ee_last_moving_frame := ee_frame e\<rparr> else e);
          recent_moving = (ee_last_moving_frame e = -1 \<or> of_int (ee_frame e - ee_last_moving_frame e) * DT_MDL < 2)
      in e\<lparr>ee_allowed := (\<not> moving \<and> \<not> cs_gasPressed CS \<and> \<not> ei_cc_enabled i \<and> \<not> recent_moving)\<rparr>)"

text \<open>The trigger of the green light; \<open>IndexError\<close> when armed without predicted positions.\<close>

definition green_light_trigger :: "e2e_inputs \<Rightarrow> e2e_alerts \<Rightarrow> (bool \<times> e2e_alerts) option" where
  "green_light_trigger i e =
     (if ee_green_light_state e = E2E_ARMED then
        (if ei_model_x i = [] then None
         else (let e = (if GREEN_LIGHT_X_THRESHOLD < last (ei_model_x i)
                        then e\<lparr>ee_green_light_trigger_timer := ee_green_light_trigger_timer e + 1\<rparr>
                        else e\<lparr>ee_green_light_trigger_timer := 0\<rparr>)
               in Some (TRIGGER_TIMER_THRESHOLD < of_int (ee_green_light_trigger_timer e) * DT_MDL, e)))
      else Some (False, e\<lparr>ee_green_light_trigger_timer := 0\<rparr>))"

definition lead_depart_arm :: "e2e_inputs \<Rightarrow> e2e_alerts \<Rightarrow> e2e_alerts" where
  "lead_depart_arm i e =
     (let close_lead_valid = (ee_has_lead e \<and> ei_lead_dRel i < 8);
          e = (if ee_allowed e \<and> \<not> ee_last_allowed e \<and> close_lead_valid then e\<lparr>ee_lead_depart_confirmed_lead := True\<rparr>
               else if \<not> ee_allowed e then e\<lparr>ee_lead_depart_confirmed_lead := False\<rparr> else e)
      in if ee_allowed e \<and> ee_lead_depart_confirmed_lead e \<and> close_lead_valid then
           (let e = e\<lparr>ee_lead_depart_arm_timer := ee_lead_depart_arm_timer e + 1\<rparr>
            in if 1 \<le> of_int (ee_lead_depart_arm_timer e) * DT_MDL then e\<lparr>ee_lead_depart_armed := True\<rparr> else e)
         else e\<lparr>ee_lead_depart_arm_timer := 0, ee_lead_depart_armed := False\<rparr>)"

definition lead_depart_trigger :: "e2e_inputs \<Rightarrow> e2e_alerts \<Rightarrow> bool \<times> e2e_alerts" where
  "lead_depart_trigger i e =
     (if ee_lead_depart_state e = E2E_ARMED then
        (let dRel = ei_lead_dRel i;
             e = (if ee_last_lead_distance e = -1 \<or> dRel < ee_last_lead_distance e
                  then e\<lparr>ee_last_lead_distance := dRel\<rparr> else e);
             e = (if ee_last_lead_distance e \<noteq> -1 \<and> LEAD_DEPART_DIST_THRESHOLD < dRel - ee_last_lead_distance e
                  then e\<lparr>ee_lead_depart_trigger_timer := ee_lead_depart_trigger_timer e + 1\<rparr>
                  else e\<lparr>ee_lead_depart_trigger_timer := 0\<rparr>)
         in (TRIGGER_TIMER_THRESHOLD < of_int (ee_lead_depart_trigger_timer e) * DT_MDL, e))
      else (False, e\<lparr>ee_last_lead_distance := -1, ee_lead_depart_trigger_timer := 0\<rparr>))"

definition e2e_update_state_machine :: "e2e_state \<Rightarrow> bool \<Rightarrow> bool \<Rightarrow> bool \<Rightarrow> e2e_state \<times> bool" where
  "e2e_update_state_machine st enabled allowed triggered =
     (if st \<noteq> E2E_INACTIVE then
        (if \<not> allowed \<or> \<not> enabled then E2E_INACTIVE
         else if st = E2E_ARMED then (if triggered then E2E_CONSUMED else st) else st)
      else if allowed \<and> enabled then E2E_ARMED else st, triggered)"

definition e2e_update :: "params \<Rightarrow> e2e_inputs \<Rightarrow> e2e_alerts \<times> events \<Rightarrow> (e2e_alerts \<times> events) option" where
  "e2e_update p i = (\<lambda>(e, ev).
     do { let e = e2e_update_allowed i (e2e_read_params p e);
          (green, e) \<leftarrow> green_light_trigger i e;
          let (lead, e) = lead_depart_trigger i (lead_depart_arm i e);
          let e = e\<lparr>ee_last_allowed := ee_allowed e\<rparr>;
          let (st, alert) = e2e_update_state_machine (ee_green_light_state e) (ee_green_light_alert_enabled e)
                              (ee_allowed e \<and> \<not> ee_has_lead e) green;
          let e = e\<lparr>ee_green_light_state := st, ee_green_light_alert := alert\<rparr>;
          let (st, alert) = e2e_update_state_machine (ee_lead_depart_state e) (ee_lead_depart_alert_enabled e)
                              (ee_allowed e \<and> ee_lead_depart_armed e) lead;
          let e = e\<lparr>ee_lead_depart_state := st, ee_lead_depart_alert := alert\<rparr>;
          let ev = (if ee_green_light_alert e \<or> ee_lead_depart_alert e then ev_add SP_e2eChime ev else ev);
          Some (e\<lparr>ee_frame := ee_frame e + 1\<rparr>, ev) })"

section \<open>\<open>LaneDepartureWarning\<close>\<close>

definition CAMERA_OFFSET :: real where "CAMERA_OFFSET = 4 / 100"
definition LDW_MIN_SPEED :: real where "LDW_MIN_SPEED = 31 * MPH_TO_MS"
definition LANE_DEPARTURE_THRESHOLD :: real where "LANE_DEPARTURE_THRESHOLD = 1 / 10"

record ldw =
  ld_left :: bool
  ld_right :: bool
  ld_last_blinker_frame :: int

definition ldw_init :: ldw where
  "ldw_init = \<lparr> ld_left = False, ld_right = False, ld_last_blinker_frame = 0 \<rparr>"

text \<open>What it reads of the model: the predicted desires by number, the lane-line probabilities and the first
  lateral position of the two inner lane lines.  Lists that are too short are an \<open>IndexError\<close>.\<close>

record ldw_model =
  lm_desirePrediction :: "real list"
  lm_laneLineProbs :: "real list"
  lm_left_y :: real
  lm_right_y :: real

definition Desire_laneChangeLeft :: nat where "Desire_laneChangeLeft = 3"
definition Desire_laneChangeRight :: nat where "Desire_laneChangeRight = 4"

definition ldw_update :: "int \<Rightarrow> ldw_model \<Rightarrow> car_state \<Rightarrow> bool \<Rightarrow> ldw \<Rightarrow> ldw option" where
  "ldw_update frame mv CS latActive l =
     (let l = (if cs_leftBlinker CS \<or> cs_rightBlinker CS then l\<lparr>ld_last_blinker_frame := frame\<rparr> else l);
          recent_blinker = (of_int (frame - ld_last_blinker_frame l) * DT_MDL < 5);
          ldw_allowed = (LDW_MIN_SPEED < cs_vEgo CS \<and> \<not> recent_blinker \<and> \<not> latActive)
      in if lm_desirePrediction mv \<noteq> [] \<and> ldw_allowed then
           (if length (lm_laneLineProbs mv) \<le> 2 \<or> length (lm_desirePrediction mv) \<le> Desire_laneChangeRight then None
            else
              (let right_lane_visible = (5 / 10 < lm_laneLineProbs mv ! 2);
                   left_lane_visible = (5 / 10 < lm_laneLineProbs mv ! 1);
                   l_lane_close = (left_lane_visible \<and> - (108 / 100 + CAMERA_OFFSET) < lm_left_y mv);
                   r_lane_close = (right_lane_visible \<and> lm_right_y mv < 108 / 100 - CAMERA_OFFSET)
               in Some (l\<lparr>ld_left := (LANE_DEPARTURE_THRESHOLD < lm_desirePrediction mv ! Desire_laneChangeLeft \<and> l_lane_close),
                          ld_right := (LANE_DEPARTURE_THRESHOLD < lm_desirePrediction mv ! Desire_laneChangeRight \<and> r_lane_close)\<rparr>)))
         else Some (l\<lparr>ld_left := False, ld_right := False\<rparr>))"

end
