(* ===== verification/Planner.thy ===== *)
theory Planner
  imports LongMpc SmartCruise SpeedLimitAssist SpeedLimitResolver PlannerAlerts
begin

text \<open>
  Longitudinal planning: the arbitration of the target speeds in \<open>sunnypilot/.../longitudinal_planner.py\<close>,
  and \<open>selfdrive/controls/lib/longitudinal_planner.py\<close> with the round of \<open>plannerd\<close>.  An exception is the
  result \<open>None\<close>.
\<close>

section \<open>The arbitration of \<open>LongitudinalPlannerSP\<close>\<close>

datatype sp_source = SPS_cruise | SPS_sccVision | SPS_sccMap | SPS_speedLimitAssist

text \<open>\<open>min(targets, key=...)\<close> keeps the first target unless a later one is smaller.\<close>

type_synonym speed_target = "sp_source \<times> np_float \<times> real"

definition lower_target :: "speed_target \<Rightarrow> speed_target \<Rightarrow> speed_target" where
  "lower_target a b = (if np_less (fst (snd b)) (fst (snd a)) then b else a)"

record planner_sp =
  ps_events :: events
  ps_resolver :: resolver
  ps_vision :: scc_vision
  ps_map :: scc_map
  ps_sla :: sla
  ps_source :: sp_source
  ps_e2e :: e2e_alerts
  ps_output_v_target :: np_float
  ps_output_a_target :: real

record planner_inputs =
  pi_CS :: car_state
  pi_cc_enabled :: bool
  pi_cc_latActive :: bool
  pi_cc_override :: bool
  pi_selfdrive_enabled :: bool
  pi_experimentalMode :: bool
  pi_personality :: int
  pi_forceDecel :: bool
  pi_longControlState :: long_ctrl_state
  pi_curvature :: real
  pi_e2e :: e2e_inputs
  pi_orientation_rate_z :: "real list"
  pi_velocity_x :: "real list"
  pi_desiredAcceleration :: real
  pi_shouldStop :: bool
  pi_resolver :: resolver_input
  pi_carState_checks :: bool
  pi_map_targets :: raw_targets
  pi_now_ns :: int
  pi_now :: real
  pi_radar :: radar_state
  pi_all_checks :: bool

definition scc_motion_valid :: "planner_inputs \<Rightarrow> bool" where
  "scc_motion_valid i \<longleftrightarrow> pi_carState_checks i \<and> cs_gearShifter (pi_CS i) \<noteq> Gear_reverse"

definition scc_inputs_of :: "planner_inputs \<Rightarrow> real \<Rightarrow> real \<Rightarrow> real \<Rightarrow> scc_inputs" where
  "scc_inputs_of i v_ego a_ego v_cruise =
     \<lparr> sci_orientation_rate_z = pi_orientation_rate_z i, sci_velocity_x = pi_velocity_x i, sci_curvature = pi_curvature i,
       sci_long_enabled = pi_cc_enabled i, sci_long_override = pi_cc_override i, sci_v_ego = v_ego, sci_a_ego = a_ego,
       sci_v_cruise = v_cruise \<rparr>"

definition sla_input_of :: "planner_inputs \<Rightarrow> real \<Rightarrow> real \<Rightarrow> resolver \<Rightarrow> sla_input" where
  "sla_input_of i v_ego a_ego r =
     \<lparr> si_now = pi_now i, si_long_enabled = pi_cc_enabled i, si_v_ego = v_ego, si_a_ego = a_ego,
       si_v_cruise_cluster = min (cs_vCruiseCluster (pi_CS i)) V_CRUISE_MAX * KPH_TO_MS,
       si_speed_limit = rs_speed_limit r, si_speed_limit_final_last = rs_speed_limit_final_last r,
       si_has_speed_limit = (speed_limit_valid r \<or> speed_limit_last_valid r), si_distance = rs_distance r \<rparr>"

text \<open>The targets in the order of the dictionary.\<close>

definition speed_targets :: "real \<Rightarrow> real \<Rightarrow> planner_sp \<Rightarrow> speed_target list" where
  "speed_targets v_cruise a_ego s =
     [(SPS_cruise, Fin v_cruise, a_ego),
      (SPS_sccVision, sv_output_v_target (ps_vision s), sv_output_a_target (ps_vision s)),
      (SPS_sccMap, Fin (sm_output_v_target (ps_map s)), sm_output_a_target (ps_map s)),
      (SPS_speedLimitAssist, Fin (sl_output_v_target (ps_sla s)), sl_output_a_target (ps_sla s))]"

definition choose_speed_target :: "speed_target list \<Rightarrow> speed_target" where
  "choose_speed_target ts = foldl lower_target (hd ts) (tl ts)"

definition update_targets ::
  "car_params \<Rightarrow> car_params_sp \<Rightarrow> planner_inputs \<Rightarrow> real \<Rightarrow> real \<Rightarrow> real \<Rightarrow> planner_sp \<times> params \<Rightarrow> (planner_sp \<times> params) option" where
  "update_targets CP CP_SP i v_ego a_ego v_cruise = (\<lambda>(s, p).
     do { let si = scc_inputs_of i v_ego a_ego v_cruise;
          let m = scc_map_update p (scc_motion_valid i) (pi_map_targets i) (pi_now_ns i) si (ps_map s);
          v \<leftarrow> scc_vision_update p si (ps_vision s);
          r \<leftarrow> resolver_update p v_ego (pi_resolver i) (ps_resolver s);
          let (sla, p, ev) = sla_update CP CP_SP (sla_input_of i v_ego a_ego r) (ps_sla s, p, ps_events s);
          let s = s\<lparr>ps_map := m, ps_vision := v, ps_resolver := r, ps_sla := sla, ps_events := ev\<rparr>;
          let (source, v_target, a_target) = choose_speed_target (speed_targets v_cruise a_ego s);
          Some (s\<lparr>ps_source := source, ps_output_v_target := v_target, ps_output_a_target := a_target\<rparr>, p) })"

section \<open>\<open>LongitudinalPlanner\<close>\<close>

definition J_CRUISE_BP :: "real list" where "J_CRUISE_BP = [0, 10, 25, 40]"
definition J_CRUISE_VALS :: "real list" where "J_CRUISE_VALS = [16 / 10, 12 / 10, 8 / 10, 6 / 10]"
definition A_CRUISE_MIN :: real where "A_CRUISE_MIN = - 12 / 10"

definition get_cruise_accel :: "opendbc \<Rightarrow> real \<Rightarrow> real \<Rightarrow> real \<Rightarrow> real \<Rightarrow> real option" where
  "get_cruise_accel K v_cruise v_ego a_cruise_prev dt =
     do { let target_accel = np_clip (v_cruise - v_ego) A_CRUISE_MIN (ob_ACCEL_MAX K);
          j_cruise \<leftarrow> np_interp v_ego J_CRUISE_BP J_CRUISE_VALS;
          Some (np_clip target_accel (a_cruise_prev - j_cruise * dt) (a_cruise_prev + j_cruise * dt)) }"

record 's planner =
  pl_sp :: planner_sp
  pl_mpc :: "'s long_mpc"
  pl_fcw :: bool
  pl_v_desired_filter :: first_order_filter
  pl_a_cruise :: real
  pl_output_a_target :: real
  pl_output_should_stop :: bool
  pl_v_desired_trajectory :: "real list"
  pl_a_desired_trajectory :: "real list"
  pl_j_desired_trajectory :: "real list"

definition CONTROL_N_T_IDX :: "real list" where
  "CONTROL_N_T_IDX = map T_IDXS [0..<CONTROL_N]"

text \<open>The target speed must be a number for the cruise acceleration; \<open>None\<close> is a target numpy would carry on with.\<close>

fun finite_speed :: "np_float \<Rightarrow> real option" where
  "finite_speed (Fin x) = Some x"
| "finite_speed _ = None"

definition reset_state :: "car_params \<Rightarrow> planner_inputs \<Rightarrow> bool" where
  "reset_state CP i \<longleftrightarrow>
     (if cp_openpilotLongitudinalControl CP then pi_longControlState i = LC_off else \<not> pi_selfdrive_enabled i) \<or>
     cs_vCruise (pi_CS i) = V_CRUISE_UNSET"

text \<open>The target speed of the cruise: the set speed, or 0 when controlsd asks to decelerate.\<close>

definition planner_v_cruise :: "planner_inputs \<Rightarrow> real" where
  "planner_v_cruise i = (if pi_forceDecel i then 0 else min (cs_vCruise (pi_CS i)) V_CRUISE_MAX * KPH_TO_MS)"

text \<open>The state before planning: reset to the car's, or carried on, and the desired speed filtered.\<close>

definition planner_reset :: "opendbc \<Rightarrow> car_params \<Rightarrow> planner_inputs \<Rightarrow> 's planner \<Rightarrow> 's planner" where
  "planner_reset K CP i pl =
     (let v_ego = cs_vEgo (pi_CS i);
          pl = (if reset_state CP i
                then (let a = np_clip (cs_aEgo (pi_CS i)) (ob_ACCEL_MIN K) (ob_ACCEL_MAX K)
                      in pl\<lparr>pl_v_desired_filter := (pl_v_desired_filter pl)\<lparr>ff_x := v_ego\<rparr>, pl_output_a_target := a, pl_a_cruise := a\<rparr>)
                else pl);
          f = filter_update v_ego (pl_v_desired_filter pl)
      in pl\<lparr>pl_v_desired_filter := f\<lparr>ff_x := max 0 (ff_x f)\<rparr>\<rparr>)"

text \<open>The solver's part: weights, current state, update.\<close>

definition planner_solve ::
  "'s mpc_solver \<Rightarrow> opendbc \<Rightarrow> car_params \<Rightarrow> planner_inputs \<Rightarrow> real \<Rightarrow> real \<Rightarrow> 's long_mpc \<Rightarrow> 's long_mpc option" where
  "planner_solve S K CP i v_desired a_target mpc =
     (let CS = pi_CS i; prev_accel_constraint = (\<not> (reset_state CP i \<or> cs_standstill CS))
      in do { mpc \<leftarrow> set_weights S prev_accel_constraint (pi_personality i) mpc;
              let mpc = (if cp_openpilotLongitudinalControl CP then set_cur_state S v_desired a_target mpc
                         else set_cur_state S (cs_vEgo CS) (cs_aEgo CS) mpc);
              mpc_update S K (pi_now i) (pi_radar i) (pi_personality i) mpc })"

text \<open>The candidates are compared by acceleration only; \<open>min\<close> keeps the first of equal ones.\<close>

type_synonym accel_candidate = "real \<times> plan_source \<times> bool"

definition plan_candidates :: "planner_inputs \<Rightarrow> real \<Rightarrow> plan_source \<Rightarrow> real \<Rightarrow> accel_candidate list" where
  "plan_candidates i a_mpc src a_cruise =
     (let v_ego = cs_vEgo (pi_CS i)
      in [(a_mpc, src, should_stop v_ego a_mpc), (a_cruise, LPS_cruise, should_stop v_ego a_cruise)] @
         (if pi_experimentalMode i then [(pi_desiredAcceleration i, LPS_e2e, pi_shouldStop i)] else []))"

definition choose_candidate :: "accel_candidate list \<Rightarrow> accel_candidate" where
  "choose_candidate cs = min_by fst (hd cs) (tl cs)"

text \<open>The plan from the solution: the trajectories, the accelerations and the one chosen.\<close>

definition planner_plan ::
  "opendbc \<Rightarrow> car_params \<Rightarrow> real \<Rightarrow> planner_inputs \<Rightarrow> real \<Rightarrow> real \<Rightarrow> 's planner \<Rightarrow> 's planner option" where
  "planner_plan K CP dt i v_cruise a_prev pl =
     do { let CS = pi_CS i; let v_ego = cs_vEgo CS; let mpc = pl_mpc pl;
          vs \<leftarrow> interp_all CONTROL_N_T_IDX MPC_T_IDXS (mpc_v_solution mpc);
          as \<leftarrow> interp_all CONTROL_N_T_IDX MPC_T_IDXS (mpc_a_solution mpc);
          js \<leftarrow> interp_all CONTROL_N_T_IDX (butlast MPC_T_IDXS) (mpc_j_solution mpc);
          a_mpc \<leftarrow> get_accel_from_plan vs as CONTROL_N_T_IDX (cp_longitudinalActuatorDelay CP + DT_MDL);
          a_cruise \<leftarrow> get_cruise_accel K v_cruise v_ego (pl_a_cruise pl) dt;
          let candidates = plan_candidates i a_mpc (mpc_source mpc) a_cruise;
          let (a_target, source, _) = choose_candidate candidates;
          let a_target = np_clip a_target (ob_ACCEL_MIN K) (ob_ACCEL_MAX K);
          let f = pl_v_desired_filter pl;
          Some (pl\<lparr>pl_mpc := mpc\<lparr>mpc_source := source\<rparr>,
                   pl_fcw := (2 < mpc_crash_cnt mpc \<and> \<not> cs_standstill CS),
                   pl_v_desired_filter := f\<lparr>ff_x := ff_x f + dt * (a_target + a_prev) / 2\<rparr>,
                   pl_a_cruise := a_cruise, pl_output_a_target := a_target,
                   pl_output_should_stop := list_ex (\<lambda>(_, _, stop). stop) candidates,
                   pl_v_desired_trajectory := vs, pl_a_desired_trajectory := as, pl_j_desired_trajectory := js\<rparr>) }"

text \<open>\<open>LongitudinalPlannerSP.update\<close> clears the events and updates the alerts.\<close>

definition planner_sp_update :: "params \<Rightarrow> planner_inputs \<Rightarrow> planner_sp \<Rightarrow> planner_sp option" where
  "planner_sp_update p i s =
     do { (e2e, ev) \<leftarrow> e2e_update p (pi_e2e i) (ps_e2e s, ev_clear (ps_events s));
          Some (s\<lparr>ps_e2e := e2e, ps_events := ev\<rparr>) }"

definition planner_update ::
  "'s mpc_solver \<Rightarrow> opendbc \<Rightarrow> car_params \<Rightarrow> car_params_sp \<Rightarrow> real \<Rightarrow> planner_inputs \<Rightarrow> 's planner \<times> params
   \<Rightarrow> ('s planner \<times> params) option" where
  "planner_update S K CP CP_SP dt i = (\<lambda>(pl, p).
     do { sp \<leftarrow> planner_sp_update p i (pl_sp pl);
          let pl = planner_reset K CP i pl;
          let v_desired = ff_x (pl_v_desired_filter pl);
          (sp, p) \<leftarrow> update_targets CP CP_SP i v_desired (pl_output_a_target pl) (planner_v_cruise i) (sp, p);
          v_cruise \<leftarrow> finite_speed (ps_output_v_target sp);
          let a_prev = ps_output_a_target sp;
          mpc \<leftarrow> planner_solve S K CP i v_desired a_prev (pl_mpc pl);
          pl \<leftarrow> planner_plan K CP dt i v_cruise a_prev (pl\<lparr>pl_sp := sp, pl_mpc := mpc, pl_output_a_target := a_prev\<rparr>);
          Some (pl, p) })"

text \<open>The constructor builds the resolver twice, as the code does.\<close>

definition planner_init ::
  "'s mpc_solver \<Rightarrow> 's \<Rightarrow> car_params \<Rightarrow> car_params_sp \<Rightarrow> bool \<Rightarrow> real \<Rightarrow> real \<Rightarrow> real \<Rightarrow> params \<Rightarrow> ('s planner \<times> params) option" where
  "planner_init S s CP CP_SP mici init_v init_a dt p =
     do { mpc \<leftarrow> mpc_init S s dt;
          (_, p) \<leftarrow> resolver_init p;
          let vision = scc_vision_init p; let scc_map = scc_map_init p;
          (r, p) \<leftarrow> resolver_init p;
          let (sla, p) = sla_init CP CP_SP p;
          let sp = \<lparr> ps_events = ev_init (EVENTS_SP mici), ps_resolver = r, ps_vision = vision, ps_map = scc_map,
                     ps_sla = sla, ps_source = SPS_cruise, ps_e2e = e2e_init p, ps_output_v_target = Fin 0, ps_output_a_target = 0 \<rparr>;
          Some (\<lparr> pl_sp = sp, pl_mpc = mpc, pl_fcw = False, pl_v_desired_filter = filter_init init_v 2 dt True,
                  pl_a_cruise = init_a, pl_output_a_target = init_a, pl_output_should_stop = False,
                  pl_v_desired_trajectory = replicate CONTROL_N 0, pl_a_desired_trajectory = replicate CONTROL_N 0,
                  pl_j_desired_trajectory = replicate CONTROL_N 0 \<rparr>, p) }"

section \<open>The messages and a round of \<open>plannerd\<close>\<close>

record long_plan =
  lpn_valid :: bool
  lpn_speeds :: "real list"
  lpn_accels :: "real list"
  lpn_jerks :: "real list"
  lpn_hasLead :: bool
  lpn_source :: plan_source
  lpn_fcw :: bool
  lpn_aTarget :: real
  lpn_shouldStop :: bool
  lpn_allowBrake :: bool

definition planner_publish :: "planner_inputs \<Rightarrow> 's planner \<Rightarrow> long_plan" where
  "planner_publish i pl =
     \<lparr> lpn_valid = pi_all_checks i, lpn_speeds = pl_v_desired_trajectory pl, lpn_accels = pl_a_desired_trajectory pl,
       lpn_jerks = pl_j_desired_trajectory pl, lpn_hasLead = le_present (ra_leadOne (pi_radar i)),
       lpn_source = mpc_source (pl_mpc pl), lpn_fcw = pl_fcw pl, lpn_aTarget = pl_output_a_target pl,
       lpn_shouldStop = pl_output_should_stop pl, lpn_allowBrake = True \<rparr>"

text \<open>The fields of \<open>longitudinalPlanSP\<close> another process of the model reads.\<close>

definition publish_longitudinal_plan_sp :: "bool \<Rightarrow> planner_sp \<Rightarrow> plan_sp option" where
  "publish_longitudinal_plan_sp mici s =
     do { v_target \<leftarrow> finite_speed (ps_output_v_target s);
          Some \<lparr> lp_events = map fst (ev_to_msg (EVENTS_SP mici) (ps_events s)), lp_vTarget = v_target,
                 lp_speedLimit = rs_speed_limit (ps_resolver s),
                 lp_speedLimitFinalLast = rs_speed_limit_final_last (ps_resolver s),
                 lp_speedLimitValid = speed_limit_valid (ps_resolver s),
                 lp_speedLimitLastValid = speed_limit_last_valid (ps_resolver s), lp_assistState = sl_state (ps_sla s) \<rparr> }"

text \<open>The buttons are tracked in every round, the plan and the lane departure only when the model is new.\<close>

definition plannerd_step ::
  "'s mpc_solver \<Rightarrow> opendbc \<Rightarrow> car_params \<Rightarrow> car_params_sp \<Rightarrow> bool \<times> int \<times> int \<times> ldw_model \<times> planner_inputs
   \<Rightarrow> 's planner \<times> ldw \<times> params \<Rightarrow> (('s planner \<times> ldw \<times> params) \<times> (long_plan \<times> bool \<times> bool) option) option" where
  "plannerd_step S K CP CP_SP = (\<lambda>(model_updated, frame, release_toggle, lm, i) (pl, l, p).
     do { let sla = sla_update_buttons K (pi_now i) release_toggle (ps_sla (pl_sp pl));
          let pl = pl\<lparr>pl_sp := (pl_sp pl)\<lparr>ps_sla := sla\<rparr>\<rparr>;
          if \<not> model_updated then Some ((pl, l, p), None)
          else do { (pl, p) \<leftarrow> planner_update S K CP CP_SP DT_MDL i (pl, p);
                    l \<leftarrow> ldw_update frame lm (pi_CS i) (pi_cc_latActive i) l;
                    Some ((pl, l, p), Some (planner_publish i pl, ld_left l, ld_right l)) } })"

end
