(* ===== verification/PlannerProps.thy ===== *)
theory PlannerProps
  imports Planner
begin

text \<open>
  What holds of longitudinal planning: the target speed is the lowest one, the acceleration the most
  cautious candidate within the limits, a run never raises, a forced deceleration brakes within bounded
  time, and a collision warning needs three frames.
\<close>

section \<open>The arbitration\<close>

lemma choose_speed_target_lowest:
  assumes "choose_speed_target (speed_targets v a s) = (src, v_t, a_t)"
  shows "\<exists>x. v_t = Fin x \<and> x \<le> v \<and> x \<le> sm_output_v_target (ps_map s) \<and> x \<le> sl_output_v_target (ps_sla s) \<and>
    (\<forall>y. sv_output_v_target (ps_vision s) = Fin y \<longrightarrow> x \<le> y) \<and> (src, v_t, a_t) \<in> set (speed_targets v a s)"
proof -
  obtain w where w: "sv_output_v_target (ps_vision s) = w" by simp
  show ?thesis
    using assms unfolding choose_speed_target_def speed_targets_def lower_target_def w
    by (cases w) (auto split: if_splits)
qed

subsection \<open>The sources of the targets do not raise\<close>

lemma vision_update_defined:
  assumes "sci_long_enabled i \<longrightarrow> sci_orientation_rate_z i \<noteq> [] \<and> length (sci_orientation_rate_z i) = length (sci_velocity_x i)"
  shows "\<exists>v'. scc_vision_update p i v = Some v'"
proof -
  have mult: "sci_long_enabled i \<Longrightarrow> \<exists>zs. np_mult (map abs (sci_orientation_rate_z i)) (sci_velocity_x i) = Some zs \<and> zs \<noteq> []"
    using assms by (auto simp: np_mult_def)
  have "\<exists>v1. vision_update_calculations i (vision_update_params p v) = Some v1"
  proof (cases "sci_long_enabled i")
    case True
    then obtain zs where "np_mult (map abs (sci_orientation_rate_z i)) (sci_velocity_x i) = Some zs" "zs \<noteq> []" using mult by blast
    then show ?thesis using True by (auto simp: vision_update_calculations_def np_percentile_def Let_def)
  qed (simp add: vision_update_calculations_def)
  moreover have "\<exists>a. vision_solution i v2 = Some a" for v2
    by (auto simp: vision_solution_def np_interp_def ENTERING_SMOOTH_DECEL_BP_def ENTERING_SMOOTH_DECEL_V_def
        TURNING_ACC_BP_def TURNING_ACC_V_def)
  ultimately show ?thesis
    unfolding scc_vision_update_def Let_def by (metis (no_types, lifting) bind.bind_lunit)
qed

text \<open>The resolver does not raise on parameters in their ranges.\<close>

definition resolver_params_ok :: "params \<Rightarrow> bool" where
  "resolver_params_ok p \<longleftrightarrow>
     (\<exists>n \<in> {0..4}. get_int ''SpeedLimitPolicy'' p = Some n) \<and> (\<exists>n \<in> {0..2}. get_int ''SpeedLimitOffsetType'' p = Some n) \<and>
     (\<exists>n. get_int ''SpeedLimitValueOffset'' p = Some n)"

definition resolver_wf :: "resolver \<Rightarrow> bool" where
  "resolver_wf r \<longleftrightarrow> rs_policy r \<in> {0..4} \<and> rs_offset_type r \<in> {0..2}"

lemma policy_defined: "n \<in> {0..4} \<Longrightarrow> \<exists>pol. Policy n = Some pol"
  by (auto simp: Policy_def)

lemma offset_defined: "rs_offset_type r \<in> {0..2} \<Longrightarrow> \<exists>x. get_speed_limit_offset r = Some x"
proof -
  assume "rs_offset_type r \<in> {0..2}"
  then have "rs_offset_type r = 0 \<or> rs_offset_type r = 1 \<or> rs_offset_type r = 2" by auto
  then have "get_speed_limit_offset r = Some (if rs_offset_type r = 0 then 0
      else if rs_offset_type r = 1 then of_int (rs_offset_value r) * (if rs_is_metric r then KPH_TO_MS else MPH_TO_MS)
      else of_int (rs_offset_value r) * (1 / 100) * rs_speed_limit r)"
    by (auto simp: get_speed_limit_offset_def OffsetType_off_def OffsetType_fixed_def OffsetType_percentage_def)
  then show ?thesis by blast
qed

lemma resolver_update_defined:
  assumes "resolver_params_ok p" "resolver_wf r"
  shows "\<exists>r'. resolver_update p v i r = Some r' \<and> resolver_wf r'"
proof -
  obtain r1 where r1: "resolver_update_params p (r\<lparr>rs_v_ego := v\<rparr>) = Some r1" "resolver_wf r1"
  proof (cases "rs_frame r mod py_int (PARAMS_UPDATE_PERIOD / DT_MDL) = 0")
    case True
    obtain a b c where "get_int ''SpeedLimitPolicy'' p = Some a" "a \<in> {0..4}" "get_int ''SpeedLimitOffsetType'' p = Some b"
      "b \<in> {0..2}" "get_int ''SpeedLimitValueOffset'' p = Some c"
      using assms(1) by (auto simp: resolver_params_ok_def)
    with True that show ?thesis by (simp add: resolver_update_params_def resolver_wf_def)
  next
    case False
    with assms(2) that show ?thesis by (simp add: resolver_update_params_def resolver_wf_def)
  qed
  let ?r2 = "get_from_map_data i (get_from_car_state i r1)"
  have keep: "rs_policy ?r2 = rs_policy r1" "rs_offset_type ?r2 = rs_offset_type r1"
    by (simp_all add: get_from_map_data_def process_map_data_def calculate_map_data_limits_def Let_def
        reset_limit_sources_def get_from_car_state_def)
  obtain pol where pol: "Policy (rs_policy ?r2) = Some pol"
    using policy_defined [of "rs_policy r1"] r1(2) by (auto simp: keep resolver_wf_def)
  have "\<exists>src. source_according_to_policy ?r2 = Some src"
    by (cases "pol = Combined") (simp_all add: source_according_to_policy_def pol Let_def split: list.split)
  then obtain src where src: "source_according_to_policy ?r2 = Some src" by blast
  obtain limit distance where res: "resolve_limit_sources i r1 = Some ((limit, distance, src), ?r2)"
    by (simp add: resolve_limit_sources_def Let_def src)
  let ?r3 = "?r2\<lparr>rs_speed_limit := limit, rs_distance := distance, rs_source := src\<rparr>"
  obtain offset where off: "get_speed_limit_offset ?r3 = Some offset"
    using offset_defined [of ?r3] r1(2) by (auto simp: keep resolver_wf_def)
  have "resolver_update p v i r =
      Some ((update_speed_limit_states (?r3\<lparr>rs_speed_limit_offset := offset\<rparr>))\<lparr>rs_frame :=
        rs_frame (update_speed_limit_states (?r3\<lparr>rs_speed_limit_offset := offset\<rparr>)) + 1\<rparr>)"
    by (simp add: resolver_update_def r1(1) res off Let_def)
  moreover have "rs_policy (update_speed_limit_states r') = rs_policy r'" "rs_offset_type (update_speed_limit_states r') = rs_offset_type r'" for r'
    by (simp_all add: update_speed_limit_states_def Let_def)
  ultimately show ?thesis using r1(2) by (simp add: resolver_wf_def keep)
qed

text \<open>What a frame's inputs need for the update not to raise: the model's path and rates are there, and the
  personality is one of the three.\<close>

definition plan_frame_ok :: "planner_inputs \<Rightarrow> bool" where
  "plan_frame_ok i \<longleftrightarrow>
     (pi_cc_enabled i \<longrightarrow> pi_orientation_rate_z i \<noteq> [] \<and> length (pi_orientation_rate_z i) = length (pi_velocity_x i)) \<and>
     ei_model_x (pi_e2e i) \<noteq> [] \<and> personality_ok (pi_personality i)"

text \<open>The target speed is a number not above the cruise speed or any controller's target.\<close>

definition target_lowest :: "real \<Rightarrow> real \<Rightarrow> planner_sp \<Rightarrow> bool" where
  "target_lowest v_cruise a_ego s \<longleftrightarrow>
     (\<exists>x. ps_output_v_target s = Fin x \<and> x \<le> v_cruise \<and> x \<le> sm_output_v_target (ps_map s) \<and> x \<le> sl_output_v_target (ps_sla s) \<and>
        (\<forall>y. sv_output_v_target (ps_vision s) = Fin y \<longrightarrow> x \<le> y) \<and>
        (ps_source s, ps_output_v_target s, ps_output_a_target s) \<in> set (speed_targets v_cruise a_ego s))"

lemma speed_targets_same:
  "speed_targets v a (s\<lparr>ps_source := x, ps_output_v_target := y, ps_output_a_target := z\<rparr>) = speed_targets v a s"
  by (simp add: speed_targets_def)

lemma update_targets_lowest:
  assumes "update_targets CP CP_SP i v a v_cruise (s, p) = Some (s', p')"
  shows "target_lowest v_cruise a s'"
proof -
  from assms obtain s1 where s': "s' = s1\<lparr>ps_source := fst (choose_speed_target (speed_targets v_cruise a s1)),
      ps_output_v_target := fst (snd (choose_speed_target (speed_targets v_cruise a s1))),
      ps_output_a_target := snd (snd (choose_speed_target (speed_targets v_cruise a s1)))\<rparr>"
    by (auto simp: update_targets_def bind_eq_Some_conv Let_def case_prod_unfold)
  obtain src v_t a_t where "choose_speed_target (speed_targets v_cruise a s1) = (src, v_t, a_t)" by (metis prod_cases3)
  with s' have s1: "choose_speed_target (speed_targets v_cruise a s1) = (src, v_t, a_t)"
    "s' = s1\<lparr>ps_source := src, ps_output_v_target := v_t, ps_output_a_target := a_t\<rparr>" by simp_all
  from choose_speed_target_lowest [OF s1(1)] show ?thesis
    by (auto simp: target_lowest_def s1(2) speed_targets_same)
qed

lemma update_targets_defined:
  assumes "plan_frame_ok i" "resolver_params_ok p" "resolver_wf (ps_resolver s)"
  shows "\<exists>s' p'. update_targets CP CP_SP i v a v_cruise (s, p) = Some (s', p') \<and> resolver_wf (ps_resolver s')"
proof -
  let ?si = "scc_inputs_of i v a v_cruise"
  obtain vis where vis: "scc_vision_update p ?si (ps_vision s) = Some vis"
    using vision_update_defined [of ?si p "ps_vision s"] assms(1) by (auto simp: plan_frame_ok_def scc_inputs_of_def)
  obtain r where r: "resolver_update p v (pi_resolver i) (ps_resolver s) = Some r" "resolver_wf r"
    using resolver_update_defined [OF assms(2,3)] by blast
  obtain sla p' ev where sla: "sla_update CP CP_SP (sla_input_of i v a r) (ps_sla s, p, ps_events s) = (sla, p', ev)"
    by (metis prod_cases3)
  let ?s1 = "s\<lparr>ps_map := scc_map_update p (scc_motion_valid i) (pi_map_targets i) (pi_now_ns i) ?si (ps_map s), ps_vision := vis,
      ps_resolver := r, ps_sla := sla, ps_events := ev\<rparr>"
  obtain src v_t a_t where c: "choose_speed_target (speed_targets v_cruise a ?s1) = (src, v_t, a_t)" by (metis prod_cases3)
  have "update_targets CP CP_SP i v a v_cruise (s, p) =
      Some (?s1\<lparr>ps_source := src, ps_output_v_target := v_t, ps_output_a_target := a_t\<rparr>, p')"
    by (simp add: update_targets_def vis r(1) sla c Let_def)
  with r(2) show ?thesis by simp
qed

section \<open>The plan\<close>

lemma get_cruise_accel_bounds:
  "\<exists>j. 6 / 10 \<le> j \<and> j \<le> 16 / 10 \<and> get_cruise_accel K v_cruise v_ego a_prev dt =
     Some (np_clip (np_clip (v_cruise - v_ego) A_CRUISE_MIN (ob_ACCEL_MAX K)) (a_prev - j * dt) (a_prev + j * dt))"
proof -
  obtain j where j: "np_interp v_ego J_CRUISE_BP J_CRUISE_VALS = Some j"
    using np_interp_defined [of J_CRUISE_BP J_CRUISE_VALS v_ego] by (auto simp: J_CRUISE_BP_def J_CRUISE_VALS_def)
  have "6 / 10 \<le> j \<and> j \<le> 16 / 10" by (rule np_interp_bounds [OF j]) (simp add: J_CRUISE_VALS_def)
  then show ?thesis by (intro exI [of _ j]) (simp add: get_cruise_accel_def j Let_def)
qed

lemma CONTROL_N_T_IDX_length [simp]: "length CONTROL_N_T_IDX = 17"
  by (simp add: CONTROL_N_T_IDX_def CONTROL_N_def)

lemma get_accel_from_plan_defined:
  assumes "length vs = 17" "length as = 17"
  shows "\<exists>a. get_accel_from_plan vs as CONTROL_N_T_IDX t = Some a"
proof -
  obtain v vs' a as' where l: "vs = v # vs'" "as = a # as'" using assms by (cases vs; cases as) auto
  have "CONTROL_N_T_IDX \<noteq> []" by (simp flip: length_greater_0_conv)
  then have "\<exists>y. np_interp x CONTROL_N_T_IDX vs = Some y" for x
    using np_interp_defined [of CONTROL_N_T_IDX vs x] assms(1) by auto
  then obtain f where f: "\<And>x. np_interp x CONTROL_N_T_IDX vs = Some (f x)" by metis
  show ?thesis
    using assms(1) f unfolding get_accel_from_plan_def l by (cases "t < MIN_STABLE_DELAY") simp_all
qed

text \<open>The chosen candidate is the least.\<close>

lemma choose_candidate_least:
  assumes "c \<in> set cs"
  shows "choose_candidate cs \<in> set cs \<and> fst (choose_candidate cs) \<le> fst c"
proof -
  have cs: "cs = hd cs # tl cs" using assms by (cases cs) simp_all
  have "insert (hd cs) (set (tl cs)) = set cs" by (metis cs list.simps(15))
  then show ?thesis
    using min_by_in [of fst "hd cs" "tl cs"] min_by_le [of c "hd cs" "tl cs" fst] assms by (simp add: choose_candidate_def)
qed

text \<open>What a plan is: 17 points, an acceleration within the limits not above any candidate, the cruise
  acceleration moved by at most the jerk.\<close>

definition plan_of :: "opendbc \<Rightarrow> real \<Rightarrow> planner_inputs \<Rightarrow> real \<Rightarrow> real \<Rightarrow> real \<Rightarrow> 's planner \<Rightarrow> bool" where
  "plan_of K dt i v_cruise a_prev a_mpc pl \<longleftrightarrow>
     length (pl_v_desired_trajectory pl) = 17 \<and> length (pl_a_desired_trajectory pl) = 17 \<and> length (pl_j_desired_trajectory pl) = 17 \<and>
     (\<exists>j. 6 / 10 \<le> j \<and> j \<le> 16 / 10 \<and>
        pl_a_cruise pl = np_clip (np_clip (v_cruise - cs_vEgo (pi_CS i)) A_CRUISE_MIN (ob_ACCEL_MAX K)) (a_prev - j * dt) (a_prev + j * dt)) \<and>
     (let accels = [a_mpc, pl_a_cruise pl] @ (if pi_experimentalMode i then [pi_desiredAcceleration i] else [])
      in \<exists>a\<in>set accels. (\<forall>b\<in>set accels. a \<le> b) \<and> pl_output_a_target pl = np_clip a (ob_ACCEL_MIN K) (ob_ACCEL_MAX K)) \<and>
     (pl_output_should_stop pl \<longleftrightarrow> should_stop (cs_vEgo (pi_CS i)) a_mpc \<or> should_stop (cs_vEgo (pi_CS i)) (pl_a_cruise pl) \<or>
        pi_experimentalMode i \<and> pi_shouldStop i)"

lemma planner_plan_ok:
  assumes "mpc_wf (pl_mpc pl)"
  shows "\<exists>pl' a_mpc vs as. planner_plan K CP dt i v_cruise a_prev pl = Some pl' \<and> plan_of K dt i v_cruise (pl_a_cruise pl) a_mpc pl' \<and>
    interp_all CONTROL_N_T_IDX MPC_T_IDXS (mpc_v_solution (pl_mpc pl)) = Some vs \<and> pl_v_desired_trajectory pl' = vs \<and>
    interp_all CONTROL_N_T_IDX MPC_T_IDXS (mpc_a_solution (pl_mpc pl)) = Some as \<and> pl_a_desired_trajectory pl' = as \<and>
    get_accel_from_plan vs as CONTROL_N_T_IDX (cp_longitudinalActuatorDelay CP + DT_MDL) = Some a_mpc \<and>
    mpc_wf (pl_mpc pl') \<and> mpc_crash_cnt (pl_mpc pl') = mpc_crash_cnt (pl_mpc pl) \<and> pl_sp pl' = pl_sp pl \<and>
    mpc_v_solution (pl_mpc pl') = mpc_v_solution (pl_mpc pl) \<and> mpc_a_solution (pl_mpc pl') = mpc_a_solution (pl_mpc pl) \<and>
    (pl_fcw pl' \<longleftrightarrow> 2 < mpc_crash_cnt (pl_mpc pl) \<and> \<not> cs_standstill (pi_CS i))"
proof -
  let ?m = "pl_mpc pl"
  have len: "length (mpc_v_solution ?m) = 13" "length (mpc_a_solution ?m) = 13" "length (mpc_j_solution ?m) = 12"
    using assms by (simp_all add: mpc_wf_def)
  have but: "length (butlast MPC_T_IDXS) = 12" "butlast MPC_T_IDXS \<noteq> []" by (simp_all flip: length_greater_0_conv)
  obtain vs where vs: "interp_all CONTROL_N_T_IDX MPC_T_IDXS (mpc_v_solution ?m) = Some vs" "length vs = 17"
    using interp_all_defined [of MPC_T_IDXS "mpc_v_solution ?m" CONTROL_N_T_IDX] len by auto
  obtain as where as: "interp_all CONTROL_N_T_IDX MPC_T_IDXS (mpc_a_solution ?m) = Some as" "length as = 17"
    using interp_all_defined [of MPC_T_IDXS "mpc_a_solution ?m" CONTROL_N_T_IDX] len by auto
  obtain js where js: "interp_all CONTROL_N_T_IDX (butlast MPC_T_IDXS) (mpc_j_solution ?m) = Some js" "length js = 17"
    using interp_all_defined [of "butlast MPC_T_IDXS" "mpc_j_solution ?m" CONTROL_N_T_IDX] len but by auto
  obtain a_mpc where a: "get_accel_from_plan vs as CONTROL_N_T_IDX (cp_longitudinalActuatorDelay CP + DT_MDL) = Some a_mpc"
    using get_accel_from_plan_defined [OF vs(2) as(2)] by blast
  obtain j a_cruise where j: "6 / 10 \<le> j" "j \<le> 16 / 10" "get_cruise_accel K v_cruise (cs_vEgo (pi_CS i)) (pl_a_cruise pl) dt = Some a_cruise"
    "a_cruise = np_clip (np_clip (v_cruise - cs_vEgo (pi_CS i)) A_CRUISE_MIN (ob_ACCEL_MAX K)) (pl_a_cruise pl - j * dt) (pl_a_cruise pl + j * dt)"
    using get_cruise_accel_bounds [of K v_cruise "cs_vEgo (pi_CS i)" "pl_a_cruise pl" dt] by blast
  let ?cs = "plan_candidates i a_mpc (mpc_source ?m) a_cruise"
  obtain a_t src st where c: "choose_candidate ?cs = (a_t, src, st)" by (metis prod_cases3)
  define pl' where "pl' = (let f = pl_v_desired_filter pl; a_target = np_clip a_t (ob_ACCEL_MIN K) (ob_ACCEL_MAX K)
     in pl\<lparr>pl_mpc := ?m\<lparr>mpc_source := src\<rparr>, pl_fcw := (2 < mpc_crash_cnt ?m \<and> \<not> cs_standstill (pi_CS i)),
           pl_v_desired_filter := f\<lparr>ff_x := ff_x f + dt * (a_target + a_prev) / 2\<rparr>, pl_a_cruise := a_cruise,
           pl_output_a_target := a_target, pl_output_should_stop := list_ex (\<lambda>(_, _, stop). stop) ?cs,
           pl_v_desired_trajectory := vs, pl_a_desired_trajectory := as, pl_j_desired_trajectory := js\<rparr>)"
  have pl': "planner_plan K CP dt i v_cruise a_prev pl = Some pl'"
    by (simp add: planner_plan_def vs(1) as(1) js(1) a j(3) c Let_def pl'_def)
  let ?accels = "[a_mpc, a_cruise] @ (if pi_experimentalMode i then [pi_desiredAcceleration i] else [])"
  have accels: "fst ` set ?cs = set ?accels" by (auto simp: plan_candidates_def Let_def)
  have "choose_candidate ?cs \<in> set ?cs" "\<forall>c\<in>set ?cs. a_t \<le> fst c"
    using choose_candidate_least [of _ ?cs] c by (auto simp: plan_candidates_def Let_def)
  then have "a_t \<in> fst ` set ?cs" "\<forall>b\<in>fst ` set ?cs. a_t \<le> b" using c by (force, blast)
  then have "a_t \<in> set ?accels" "\<forall>b\<in>set ?accels. a_t \<le> b" unfolding accels by blast+
  then have "plan_of K dt i v_cruise (pl_a_cruise pl) a_mpc pl'"
    unfolding plan_of_def Let_def using vs(2) as(2) js(2) j(1,2,4)
    by (auto simp: pl'_def Let_def plan_candidates_def)
  moreover have "mpc_wf (pl_mpc pl')" using assms by (simp add: mpc_wf_def pl'_def Let_def)
  moreover have "pl_v_desired_trajectory pl' = vs" "pl_a_desired_trajectory pl' = as" "pl_sp pl' = pl_sp pl"
    "mpc_v_solution (pl_mpc pl') = mpc_v_solution ?m" "mpc_a_solution (pl_mpc pl') = mpc_a_solution ?m"
    "mpc_crash_cnt (pl_mpc pl') = mpc_crash_cnt ?m" "pl_fcw pl' \<longleftrightarrow> 2 < mpc_crash_cnt ?m \<and> \<not> cs_standstill (pi_CS i)"
    by (simp_all add: pl'_def Let_def)
  ultimately show ?thesis using pl' vs(1) as(1) a by blast
qed

text \<open>A plan of zeros asks for no acceleration.\<close>

lemma interp_all_zero:
  assumes "interp_all xs xp (replicate n 0) = Some ys"
  shows "ys = replicate (length xs) 0"
  using assms
proof (induction xs arbitrary: ys)
  case (Cons x xs)
  then obtain y zs where y: "np_interp x xp (replicate n 0) = Some y" "interp_all xs xp (replicate n 0) = Some zs" "ys = y # zs"
    by (auto simp: bind_eq_Some_conv)
  have "y = 0" using np_interp_bounds [OF y(1), of 0 0] by simp
  with Cons.IH [OF y(2)] y(3) show ?case by simp
qed simp

lemma zero_plan_accel:
  assumes "get_accel_from_plan (replicate 17 0) (replicate 17 0) CONTROL_N_T_IDX t = Some a"
  shows "a = 0"
proof -
  have r: "replicate 17 (0 :: real) = 0 # replicate 16 0" by (simp add: numeral_eq_Suc)
  have zero: "np_interp x CONTROL_N_T_IDX (replicate 17 0) = Some y \<Longrightarrow> y = 0" for x y
    using np_interp_bounds [of x CONTROL_N_T_IDX "replicate 17 0" y 0 0] by simp
  show ?thesis
    using assms zero unfolding get_accel_from_plan_def
    by (cases "t < MIN_STABLE_DELAY") (auto simp: bind_eq_Some_conv r split: list.splits)
qed

section \<open>An update\<close>

lemma e2e_update_defined:
  assumes "ei_model_x i \<noteq> []"
  shows "\<exists>e' ev'. e2e_update p i (e, ev) = Some (e', ev')"
proof -
  have "\<exists>b e'. green_light_trigger i e1 = Some (b, e')" for e1
    using assms unfolding green_light_trigger_def Let_def
    by (cases "ee_green_light_state e1 = E2E_ARMED") (simp_all, blast)
  then have "\<forall>e1. \<exists>q. green_light_trigger i e1 = Some q" by blast
  then obtain g where "\<forall>e1. green_light_trigger i e1 = Some (g e1)" by metis
  then show ?thesis by (simp add: e2e_update_def Let_def case_prod_unfold)
qed

definition planner_wf :: "'s planner \<Rightarrow> bool" where
  "planner_wf pl \<longleftrightarrow> resolver_wf (ps_resolver (pl_sp pl)) \<and> mpc_wf (pl_mpc pl)"

lemma planner_reset_keeps [frame_simps]:
  "pl_sp (planner_reset K CP i pl) = pl_sp pl" "pl_mpc (planner_reset K CP i pl) = pl_mpc pl"
  by (simp_all add: planner_reset_def Let_def)

lemma planner_solve_ok:
  assumes "personality_ok (pi_personality i)" "mpc_wf m"
  shows "\<exists>m'. planner_solve S K CP i v a m = Some m' \<and> mpc_wf m' \<and>
    (mpc_crash_cnt m' = 0 \<or> mpc_crash_cnt m' \<le> mpc_crash_cnt m + 1 \<and> 9 / 10 < le_modelProb (ra_leadOne (pi_radar i))) \<and>
    ((\<forall>t. fst (ms_solve S t) \<noteq> 0) \<longrightarrow> zero_plan m' \<and> mpc_crash_cnt m' \<le> 1)"
proof -
  let ?b = "\<not> (reset_state CP i \<or> cs_standstill (pi_CS i))"
  obtain m1 where m1: "set_weights S ?b (pi_personality i) m = Some m1" using set_weights_ok [OF assms(1), of S ?b m] by blast
  let ?m2 = "if cp_openpilotLongitudinalControl CP then set_cur_state S v a m1
    else set_cur_state S (cs_vEgo (pi_CS i)) (cs_aEgo (pi_CS i)) m1"
  have m2: "mpc_wf ?m2" "mpc_crash_cnt ?m2 = mpc_crash_cnt m" using set_weights_keeps [OF m1] assms(2) by (simp_all add: frame_simps)
  have "planner_solve S K CP i v a m = mpc_update S K (pi_now i) (pi_radar i) (pi_personality i) ?m2"
    using m1 by (simp add: planner_solve_def Let_def)
  with mpc_update_ok [OF assms(1) m2(1), of S K "pi_now i" "pi_radar i"] m2(2) show ?thesis by auto
qed

text \<open>The acceleration the plan of the solver asks for: the one its trajectories, at the times of the messages, need for
  the delay of the actuator.\<close>

definition mpc_asks :: "car_params \<Rightarrow> 's planner \<Rightarrow> real \<Rightarrow> bool" where
  "mpc_asks CP pl a \<longleftrightarrow>
     (\<exists>vs as. interp_all CONTROL_N_T_IDX MPC_T_IDXS (mpc_v_solution (pl_mpc pl)) = Some vs \<and>
        interp_all CONTROL_N_T_IDX MPC_T_IDXS (mpc_a_solution (pl_mpc pl)) = Some as \<and>
        get_accel_from_plan vs as CONTROL_N_T_IDX (cp_longitudinalActuatorDelay CP + DT_MDL) = Some a)"

text \<open>Everything an update establishes, the basis of the properties.\<close>

definition update_post ::
  "'s mpc_solver \<Rightarrow> opendbc \<Rightarrow> car_params \<Rightarrow> real \<Rightarrow> planner_inputs \<Rightarrow> 's planner \<Rightarrow> real \<Rightarrow> 's planner \<Rightarrow> bool" where
  "update_post S K CP dt i pl a_mpc pl' \<longleftrightarrow>
     (\<exists>v_cruise. ps_output_v_target (pl_sp pl') = Fin v_cruise \<and>
        plan_of K dt i v_cruise (pl_a_cruise (planner_reset K CP i pl)) a_mpc pl') \<and>
     target_lowest (planner_v_cruise i) (pl_output_a_target (planner_reset K CP i pl)) (pl_sp pl') \<and>
     (mpc_crash_cnt (pl_mpc pl') = 0 \<or>
        mpc_crash_cnt (pl_mpc pl') \<le> mpc_crash_cnt (pl_mpc pl) + 1 \<and> 9 / 10 < le_modelProb (ra_leadOne (pi_radar i))) \<and>
     (pl_fcw pl' \<longleftrightarrow> 2 < mpc_crash_cnt (pl_mpc pl') \<and> \<not> cs_standstill (pi_CS i)) \<and> mpc_asks CP pl' a_mpc \<and>
     ((\<forall>t. fst (ms_solve S t) \<noteq> 0) \<longrightarrow>
        a_mpc = 0 \<and> pl_v_desired_trajectory pl' = replicate 17 0 \<and> pl_a_desired_trajectory pl' = replicate 17 0 \<and> \<not> pl_fcw pl')"

lemma planner_update_ok:
  assumes "plan_frame_ok i" "resolver_params_ok p" "planner_wf pl"
  shows "\<exists>pl' p' a_mpc. planner_update S K CP CP_SP dt i (pl, p) = Some (pl', p') \<and> planner_wf pl' \<and> update_post S K CP dt i pl a_mpc pl'"
proof -
  obtain e2e ev where e: "e2e_update p (pi_e2e i) (ps_e2e (pl_sp pl), ev_clear (ps_events (pl_sp pl))) = Some (e2e, ev)"
    using e2e_update_defined assms(1) unfolding plan_frame_ok_def by blast
  let ?sp0 = "(pl_sp pl)\<lparr>ps_e2e := e2e, ps_events := ev\<rparr>"
  let ?pl1 = "planner_reset K CP i pl"
  let ?v = "ff_x (pl_v_desired_filter ?pl1)" and ?a0 = "pl_output_a_target ?pl1"
  have "resolver_wf (ps_resolver ?sp0)" using assms(3) by (simp add: planner_wf_def)
  then obtain sp p' where sp: "update_targets CP CP_SP i ?v ?a0 (planner_v_cruise i) (?sp0, p) = Some (sp, p')" "resolver_wf (ps_resolver sp)"
    using update_targets_defined [OF assms(1,2)] by blast
  have low: "target_lowest (planner_v_cruise i) ?a0 sp" by (rule update_targets_lowest [OF sp(1)])
  then obtain vc where vc: "ps_output_v_target sp = Fin vc" by (auto simp: target_lowest_def)
  have "personality_ok (pi_personality i)" "mpc_wf (pl_mpc ?pl1)" using assms(1,3) by (simp_all add: plan_frame_ok_def planner_wf_def frame_simps)
  then obtain m where m: "planner_solve S K CP i ?v (ps_output_a_target sp) (pl_mpc ?pl1) = Some m" "mpc_wf m"
    "mpc_crash_cnt m = 0 \<or> mpc_crash_cnt m \<le> mpc_crash_cnt (pl_mpc pl) + 1 \<and> 9 / 10 < le_modelProb (ra_leadOne (pi_radar i))"
    "(\<forall>t. fst (ms_solve S t) \<noteq> 0) \<longrightarrow> zero_plan m \<and> mpc_crash_cnt m \<le> 1"
    using planner_solve_ok [of i "pl_mpc ?pl1" S K CP ?v "ps_output_a_target sp"] by (auto simp: frame_simps)
  let ?pl2 = "?pl1\<lparr>pl_sp := sp, pl_mpc := m, pl_output_a_target := ps_output_a_target sp\<rparr>"
  have "mpc_wf (pl_mpc ?pl2)" using m(2) by simp
  from planner_plan_ok [OF this, of K CP dt i vc "ps_output_a_target sp"]
  obtain pl' a_mpc vs as where pl': "planner_plan K CP dt i vc (ps_output_a_target sp) ?pl2 = Some pl'"
    "plan_of K dt i vc (pl_a_cruise ?pl1) a_mpc pl'"
    "interp_all CONTROL_N_T_IDX MPC_T_IDXS (mpc_v_solution m) = Some vs" "pl_v_desired_trajectory pl' = vs"
    "interp_all CONTROL_N_T_IDX MPC_T_IDXS (mpc_a_solution m) = Some as" "pl_a_desired_trajectory pl' = as"
    "get_accel_from_plan vs as CONTROL_N_T_IDX (cp_longitudinalActuatorDelay CP + DT_MDL) = Some a_mpc"
    "mpc_wf (pl_mpc pl')" "mpc_crash_cnt (pl_mpc pl') = mpc_crash_cnt m" "pl_sp pl' = sp"
    "pl_fcw pl' \<longleftrightarrow> 2 < mpc_crash_cnt m \<and> \<not> cs_standstill (pi_CS i)"
    "mpc_v_solution (pl_mpc pl') = mpc_v_solution m" "mpc_a_solution (pl_mpc pl') = mpc_a_solution m"
    by auto
  have asks: "mpc_asks CP pl' a_mpc" unfolding mpc_asks_def pl'(12,13) using pl'(3,5,7) by blast
  have zero: "a_mpc = 0 \<and> vs = replicate 17 0 \<and> as = replicate 17 0 \<and> \<not> pl_fcw pl'" if "\<forall>t. fst (ms_solve S t) \<noteq> 0"
  proof -
    from that m(4) have z: "zero_plan m" "mpc_crash_cnt m \<le> 1" by blast+
    have "vs = replicate 17 0" "as = replicate 17 0"
      using interp_all_zero [of CONTROL_N_T_IDX MPC_T_IDXS 13] pl'(3,5) z(1) by (simp_all add: zero_plan_def)
    with pl'(7,11) zero_plan_accel z(2) show ?thesis by auto
  qed
  have upd: "planner_update S K CP CP_SP dt i (pl, p) = Some (pl', p')"
    using m(1) by (simp add: planner_update_def planner_sp_update_def e sp(1) vc pl'(1) Let_def frame_simps)
  have "update_post S K CP dt i pl a_mpc pl'"
    unfolding update_post_def pl'(4,6,9,10) using vc pl'(2) low m(3) pl'(11) asks zero by blast
  moreover have "planner_wf pl'" using sp(2) pl'(8,10) by (simp add: planner_wf_def)
  ultimately show ?thesis using upd by blast
qed

section \<open>Runs\<close>

text \<open>The updates of a run, each with the parameters other processes left in the store.\<close>

fun planner_run ::
  "'s mpc_solver \<Rightarrow> opendbc \<Rightarrow> car_params \<Rightarrow> car_params_sp \<Rightarrow> (params \<times> planner_inputs) list \<Rightarrow> 's planner \<Rightarrow> 's planner option" where
  "planner_run S K CP CP_SP [] pl = Some pl"
| "planner_run S K CP CP_SP ((p, i) # fs) pl =
     do { (pl, _) \<leftarrow> planner_update S K CP CP_SP DT_MDL i (pl, p); planner_run S K CP CP_SP fs pl }"

lemma planner_run_append:
  "planner_run S K CP CP_SP (fs @ gs) pl = Option.bind (planner_run S K CP CP_SP fs pl) (planner_run S K CP CP_SP gs)"
  by (induction fs arbitrary: pl) (auto split: prod.split bind_splits)

definition update_ok :: "params \<times> planner_inputs \<Rightarrow> bool" where
  "update_ok f \<longleftrightarrow> resolver_params_ok (fst f) \<and> plan_frame_ok (snd f)"

lemma planner_run_defined:
  assumes "planner_wf pl" "\<forall>f\<in>set fs. update_ok f"
  shows "\<exists>pl'. planner_run S K CP CP_SP fs pl = Some pl' \<and> planner_wf pl'"
  using assms
proof (induction fs arbitrary: pl)
  case (Cons f fs)
  obtain p i where f: "f = (p, i)" by (cases f)
  obtain pl1 p1 where "planner_update S K CP CP_SP DT_MDL i (pl, p) = Some (pl1, p1)" "planner_wf pl1"
    using planner_update_ok [of i p pl S K CP CP_SP DT_MDL] Cons.prems by (auto simp: f update_ok_def)
  with Cons show ?case by (simp add: f)
qed simp

lemma resolver_init_wf: "resolver_init p = Some (r, p') \<Longrightarrow> resolver_wf r"
proof -
  assume "resolver_init p = Some (r, p')"
  then obtain pol p1 ot ov where r: "get_sanitize_int_param ''SpeedLimitPolicy'' 0 4 p = Some (pol, p1)"
    "get_sanitize_int_param ''SpeedLimitOffsetType'' 0 2 p1 = Some (ot, p')" "rs_policy r = pol" "rs_offset_type r = ot"
    by (auto simp: resolver_init_def bind_eq_Some_conv Let_def)
  with sanitize_in_range [OF r(1)] sanitize_in_range [OF r(2)] show "resolver_wf r" by (simp add: resolver_wf_def)
qed

lemma planner_init_wf:
  assumes "planner_init S s CP CP_SP mici v a dt p = Some (pl, p')"
  shows "planner_wf pl \<and> mpc_crash_cnt (pl_mpc pl) = 0"
proof -
  obtain m where m: "mpc_init S s dt = Some m" "mpc_wf m" "mpc_crash_cnt m = 0" using mpc_init_ok [of S s dt] by blast
  obtain p1 r p2 where "resolver_init p1 = Some (r, p2)" "ps_resolver (pl_sp pl) = r" "pl_mpc pl = m"
    using assms by (auto simp: planner_init_def m(1) bind_eq_Some_conv Let_def case_prod_unfold)
  with m resolver_init_wf show ?thesis by (auto simp: planner_wf_def)
qed

text \<open>For how many of the last frames the model saw the first lead with confidence.\<close>

definition confident_streak :: "(params \<times> planner_inputs) list \<Rightarrow> nat" where
  "confident_streak fs = length (takeWhile (\<lambda>f. 9 / 10 < le_modelProb (ra_leadOne (pi_radar (snd f)))) (rev fs))"

lemma crash_count_streak:
  assumes "planner_wf pl" "mpc_crash_cnt (pl_mpc pl) = 0" "\<forall>f\<in>set fs. update_ok f" "planner_run S K CP CP_SP fs pl = Some pl'"
  shows "mpc_crash_cnt (pl_mpc pl') \<le> int (confident_streak fs)"
  using assms(3,4)
proof (induction fs arbitrary: pl' rule: rev_induct)
  case Nil
  then show ?case using assms(2) by (simp add: confident_streak_def)
next
  case (snoc f fs)
  obtain p i where f: "f = (p, i)" by (cases f)
  obtain pl1 where r: "planner_run S K CP CP_SP fs pl = Some pl1" "planner_wf pl1"
    using planner_run_defined [OF assms(1), of fs S K CP CP_SP] snoc.prems(1) by auto
  obtain pl2 p2 a where u: "planner_update S K CP CP_SP DT_MDL i (pl1, p) = Some (pl2, p2)" "update_post S K CP DT_MDL i pl1 a pl2"
    using planner_update_ok [of i p pl1 S K CP CP_SP DT_MDL] r(2) snoc.prems(1) by (auto simp: f update_ok_def)
  have "pl' = pl2" using snoc.prems(2) r(1) u(1) by (simp add: planner_run_append f)
  moreover have "mpc_crash_cnt (pl_mpc pl1) \<le> int (confident_streak fs)" using snoc r(1) by simp
  ultimately show ?case using u(2) by (auto simp: update_post_def confident_streak_def f)
qed

section \<open>Properties\<close>

text \<open>C26: A collision warning needs three frames: from the constructor, a run of updates whose inputs are complete does
  not raise, and when its last frame reports a forward collision, the car is not standing and in each of the
  last three frames the model was more than 90% sure of the first lead.\<close>

theorem fcw_needs_three_frames:
  assumes "planner_init S s CP CP_SP mici init_v init_a DT_MDL p0 = Some (pl0, p0')" "\<forall>f\<in>set fs. update_ok f"
  shows "\<exists>pl. planner_run S K CP CP_SP fs pl0 = Some pl \<and>
    (fs \<noteq> [] \<and> pl_fcw pl \<longrightarrow> 3 \<le> length fs \<and> \<not> cs_standstill (pi_CS (snd (last fs))) \<and>
       (\<forall>f\<in>set (drop (length fs - 3) fs). 9 / 10 < le_modelProb (ra_leadOne (pi_radar (snd f)))))"
proof -
  let ?P = "\<lambda>f. 9 / 10 < le_modelProb (ra_leadOne (pi_radar (snd f)))"
  have wf: "planner_wf pl0" "mpc_crash_cnt (pl_mpc pl0) = 0" using planner_init_wf [OF assms(1)] by blast+
  obtain pl where r: "planner_run S K CP CP_SP fs pl0 = Some pl" using planner_run_defined [OF wf(1) assms(2)] by blast
  have "3 \<le> length fs \<and> \<not> cs_standstill (pi_CS (snd (last fs))) \<and> (\<forall>f\<in>set (drop (length fs - 3) fs). ?P f)"
    if fcw: "fs \<noteq> []" "pl_fcw pl"
  proof -
    obtain gs p i where fs: "fs = gs @ [(p, i)]" using fcw(1) by (metis rev_exhaust surj_pair)
    obtain pl1 where r1: "planner_run S K CP CP_SP gs pl0 = Some pl1" "planner_wf pl1"
      using planner_run_defined [OF wf(1), of gs S K CP CP_SP] assms(2) by (auto simp: fs)
    obtain pl2 p2 a where u: "planner_update S K CP CP_SP DT_MDL i (pl1, p) = Some (pl2, p2)" "update_post S K CP DT_MDL i pl1 a pl2"
      using planner_update_ok [of i p pl1 S K CP CP_SP DT_MDL] r1(2) assms(2) by (auto simp: fs update_ok_def)
    have "pl = pl2" using r r1(1) u(1) by (simp add: fs planner_run_append)
    then have crash: "2 < mpc_crash_cnt (pl_mpc pl)" "\<not> cs_standstill (pi_CS i)" using u(2) fcw(2) by (auto simp: update_post_def)
    have "3 \<le> confident_streak fs" using crash_count_streak [OF wf assms(2) r] crash(1) by linarith
    then have w: "3 \<le> length (takeWhile ?P (rev fs))" by (simp add: confident_streak_def)
    then have "3 \<le> length fs" using length_takeWhile_le [of ?P "rev fs"] by simp
    moreover have "\<forall>f\<in>set (take 3 (rev fs)). ?P f"
    proof
      fix f assume "f \<in> set (take 3 (rev fs))"
      then have "f \<in> set (takeWhile ?P (rev fs))"
        using w by (metis (no_types, lifting) in_mono set_take_subset_set_take take_all_iff takeWhile_eq_take take_take min.absorb2 order_refl)
      then show "?P f" by (rule set_takeWhileD [THEN conjunct2])
    qed
    ultimately show ?thesis using crash(2) by (simp add: fs take_rev)
  qed
  with r show ?thesis by blast
qed

lemma max_descend: "x \<le> max c y \<Longrightarrow> 0 \<le> d \<Longrightarrow> max c (x - d) \<le> max c (y - d)" for x y c d :: real
  by (auto simp: max_def split: if_splits)

lemma forced_deceleration_step:
  assumes "planner_wf pl" "update_ok (p, i)" "pi_forceDecel i" "\<not> reset_state CP i" "12 / 10 \<le> cs_vEgo (pi_CS i)"
    "ob_ACCEL_MIN K \<le> - 12 / 10" "- 12 / 10 \<le> ob_ACCEL_MAX K"
  shows "\<exists>pl' p'. planner_update S K CP CP_SP DT_MDL i (pl, p) = Some (pl', p') \<and> planner_wf pl' \<and>
    pl_a_cruise pl' \<le> max (- 12 / 10) (pl_a_cruise pl - 3 / 100) \<and> pl_output_a_target pl' \<le> max (- 12 / 10) (pl_a_cruise pl - 3 / 100)"
proof -
  obtain pl' p' a_mpc where u: "planner_update S K CP CP_SP DT_MDL i (pl, p) = Some (pl', p')" "planner_wf pl'"
    "update_post S K CP DT_MDL i pl a_mpc pl'"
    using planner_update_ok [of i p pl S K CP CP_SP DT_MDL] assms(1,2) by (auto simp: update_ok_def)
  have prev: "pl_a_cruise (planner_reset K CP i pl) = pl_a_cruise pl" using assms(4) by (simp add: planner_reset_def Let_def)
  obtain v_cruise where v: "ps_output_v_target (pl_sp pl') = Fin v_cruise" "plan_of K DT_MDL i v_cruise (pl_a_cruise pl) a_mpc pl'"
    using u(3) prev by (auto simp: update_post_def)
  have "v_cruise \<le> 0" using u(3) v(1) assms(3) by (auto simp: update_post_def target_lowest_def planner_v_cruise_def)
  then have clip: "np_clip (v_cruise - cs_vEgo (pi_CS i)) A_CRUISE_MIN (ob_ACCEL_MAX K) = - 12 / 10"
    using assms(5,7) by (simp add: np_clip_def A_CRUISE_MIN_def)
  obtain j where j: "6 / 10 \<le> j" "pl_a_cruise pl' = np_clip (- 12 / 10) (pl_a_cruise pl - j * DT_MDL) (pl_a_cruise pl + j * DT_MDL)"
    using v(2) unfolding plan_of_def clip by blast
  have cruise: "pl_a_cruise pl' \<le> max (- 12 / 10) (pl_a_cruise pl - 3 / 100)"
    using j(1) unfolding j(2) np_clip_def DT_MDL_def by simp
  obtain a where a: "a \<le> pl_a_cruise pl'" "pl_output_a_target pl' = np_clip a (ob_ACCEL_MIN K) (ob_ACCEL_MAX K)"
    using v(2) unfolding plan_of_def Let_def by auto
  have "pl_output_a_target pl' \<le> max a (ob_ACCEL_MIN K)" unfolding a(2) np_clip_def by simp
  with a(1) cruise assms(6) have "pl_output_a_target pl' \<le> max (- 12 / 10) (pl_a_cruise pl - 3 / 100)" by linarith
  with u cruise show ?thesis by blast
qed

text \<open>The planner's cruise acceleration never exceeds the limit of the car or the acceleration it was built with.\<close>

lemma cruise_accel_bounded:
  assumes "planner_wf pl" "\<forall>f\<in>set fs. update_ok f" "planner_run S K CP CP_SP fs pl = Some pl'" "ob_ACCEL_MIN K \<le> ob_ACCEL_MAX K"
    "pl_a_cruise pl \<le> m" "ob_ACCEL_MAX K \<le> m"
  shows "pl_a_cruise pl' \<le> m"
  using assms
proof (induction fs arbitrary: pl)
  case (Cons f fs)
  obtain p i where f: "f = (p, i)" by (cases f)
  obtain pl1 p1 a where u: "planner_update S K CP CP_SP DT_MDL i (pl, p) = Some (pl1, p1)" "planner_wf pl1" "update_post S K CP DT_MDL i pl a pl1"
    using planner_update_ok [of i p pl S K CP CP_SP DT_MDL] Cons.prems(1,2) by (auto simp: f update_ok_def)
  let ?prev = "pl_a_cruise (planner_reset K CP i pl)"
  have "?prev \<le> m"
    using Cons.prems(4-6) np_clip_upper [of "cs_aEgo (pi_CS i)" "ob_ACCEL_MIN K" "ob_ACCEL_MAX K"] by (simp add: planner_reset_def Let_def)
  moreover obtain v j where j: "6 / 10 \<le> j"
    "pl_a_cruise pl1 = np_clip (np_clip (v - cs_vEgo (pi_CS i)) A_CRUISE_MIN (ob_ACCEL_MAX K)) (?prev - j * DT_MDL) (?prev + j * DT_MDL)"
    using u(3) unfolding update_post_def plan_of_def by blast
  moreover have "np_clip (v - cs_vEgo (pi_CS i)) A_CRUISE_MIN (ob_ACCEL_MAX K) \<le> m"
    using np_clip_upper order_trans Cons.prems(6) by blast
  ultimately have "pl_a_cruise pl1 \<le> m"
    unfolding j(2) np_clip_def [of "np_clip _ _ _"] DT_MDL_def by (simp add: min_def max_def)
  then show ?case using Cons.IH [OF u(2)] Cons.prems u(1) by (simp add: f)
qed simp

text \<open>C11: A forced deceleration brakes.  When controlsd asks to decelerate (the driver does not respond, or the system
  disables softly) in each of a run of updates that do not reset the planner (it is engaged, with a set speed) and in which the
  car is not slower than 1.2 m/s, no plan is missing and the acceleration asked for is, after \<open>n\<close> of them, at most the
  cruise acceleration the planner held at the start less 0.03 \<open>n\<close>, or -1.2 m/s2, whatever the leads, the set speed and the
  other controllers ask for.  That cruise acceleration is at most the limit of the car or the one the planner was built with:
  where these are at most 2 m/s2, the car is asked to brake with at least 1.2 m/s2 after 107 updates (5.35 s).\<close>

theorem forced_deceleration_brakes:
  assumes "planner_init S s CP CP_SP mici init_v init_a DT_MDL p0 = Some (pl0, p0')" "\<forall>f\<in>set (es @ fs). update_ok f"
    "planner_run S K CP CP_SP es pl0 = Some pl1" "fs \<noteq> []"
    "ob_ACCEL_MIN K \<le> - 12 / 10" "- 12 / 10 \<le> ob_ACCEL_MAX K"
    "\<forall>f\<in>set fs. pi_forceDecel (snd f) \<and> \<not> reset_state CP (snd f) \<and> 12 / 10 \<le> cs_vEgo (pi_CS (snd f))"
  shows "\<exists>pl. planner_run S K CP CP_SP fs pl1 = Some pl \<and>
    pl_output_a_target pl \<le> max (- 12 / 10) (pl_a_cruise pl1 - 3 / 100 * real (length fs)) \<and>
    (init_a \<le> 2 \<and> ob_ACCEL_MAX K \<le> 2 \<and> 107 \<le> length fs \<longrightarrow> pl_output_a_target pl \<le> - 12 / 10)"
proof -
  have wf1: "planner_wf pl1"
    using planner_run_defined [of pl0 es S K CP CP_SP] planner_init_wf [OF assms(1)] assms(2,3) by auto
  have "\<exists>pl. planner_run S K CP CP_SP fs pl1 = Some pl \<and> planner_wf pl \<and>
      pl_a_cruise pl \<le> max (- 12 / 10) (pl_a_cruise pl1 - 3 / 100 * real (length fs)) \<and>
      (fs \<noteq> [] \<longrightarrow> pl_output_a_target pl \<le> max (- 12 / 10) (pl_a_cruise pl1 - 3 / 100 * real (length fs)))"
    using assms(2,7)
  proof (induction fs rule: rev_induct)
    case Nil
    then show ?case using wf1 by simp
  next
    case (snoc f fs)
    obtain p i where f: "f = (p, i)" by (cases f)
    obtain pl where pl: "planner_run S K CP CP_SP fs pl1 = Some pl" "planner_wf pl"
      "pl_a_cruise pl \<le> max (- 12 / 10) (pl_a_cruise pl1 - 3 / 100 * real (length fs))"
      using snoc by auto
    obtain pl' p' where pl': "planner_update S K CP CP_SP DT_MDL i (pl, p) = Some (pl', p')" "planner_wf pl'"
      "pl_a_cruise pl' \<le> max (- 12 / 10) (pl_a_cruise pl - 3 / 100)"
      "pl_output_a_target pl' \<le> max (- 12 / 10) (pl_a_cruise pl - 3 / 100)"
      using forced_deceleration_step [OF pl(2), of p i CP K S CP_SP] snoc.prems assms(5,6) by (auto simp: f)
    have len: "pl_a_cruise pl1 - 3 / 100 * real (length (fs @ [f])) = pl_a_cruise pl1 - 3 / 100 * real (length fs) - 3 / 100"
      by (simp add: field_simps)
    have "max (- 12 / 10) (pl_a_cruise pl - 3 / 100) \<le> max (- 12 / 10) (pl_a_cruise pl1 - 3 / 100 * real (length (fs @ [f])))"
      unfolding len using pl(3) by (intro max_descend) simp_all
    with pl(1) pl' show ?case by (auto simp: f planner_run_append)
  qed
  then obtain pl where pl: "planner_run S K CP CP_SP fs pl1 = Some pl"
    "pl_output_a_target pl \<le> max (- 12 / 10) (pl_a_cruise pl1 - 3 / 100 * real (length fs))"
    using assms(4) by blast
  have "pl_output_a_target pl \<le> - 12 / 10" if two: "init_a \<le> 2" "ob_ACCEL_MAX K \<le> 2" "107 \<le> length fs"
  proof -
    have "pl_a_cruise pl0 = init_a" using assms(1) by (auto simp: planner_init_def bind_eq_Some_conv Let_def case_prod_unfold)
    then have "pl_a_cruise pl1 \<le> 2"
      using cruise_accel_bounded [of pl0 es S K CP CP_SP pl1 2] planner_init_wf [OF assms(1)] assms(2,3,5,6) two(1,2) by auto
    moreover have "107 \<le> real (length fs)" using two(3) by linarith
    ultimately show ?thesis using pl(2) by linarith
  qed
  with pl show ?thesis by blast
qed

text \<open>Rounds of plannerd, and what their inputs need.\<close>

definition ldw_ok :: "ldw_model \<Rightarrow> bool" where
  "ldw_ok m \<longleftrightarrow> 2 < length (lm_laneLineProbs m) \<and> (lm_desirePrediction m = [] \<or> 4 < length (lm_desirePrediction m))"

type_synonym round = "params \<times> bool \<times> int \<times> int \<times> ldw_model \<times> planner_inputs"

fun plannerd_run ::
  "'s mpc_solver \<Rightarrow> opendbc \<Rightarrow> car_params \<Rightarrow> car_params_sp \<Rightarrow> round list \<Rightarrow> 's planner \<times> ldw
   \<Rightarrow> (('s planner \<times> ldw) \<times> (long_plan \<times> bool \<times> bool) option list) option" where
  "plannerd_run S K CP CP_SP [] st = Some (st, [])"
| "plannerd_run S K CP CP_SP ((p, f) # fs) st =
     do { ((pl, l, _), out) \<leftarrow> plannerd_step S K CP CP_SP f (fst st, snd st, p);
          (st, outs) \<leftarrow> plannerd_run S K CP CP_SP fs (pl, l);
          Some (st, out # outs) }"

definition round_ok :: "round \<Rightarrow> bool" where
  "round_ok = (\<lambda>(p, _, _, _, lm, i). update_ok (p, i) \<and> ldw_ok lm)"

definition output_ok :: "opendbc \<Rightarrow> round \<Rightarrow> (long_plan \<times> bool \<times> bool) option \<Rightarrow> bool" where
  "output_ok K = (\<lambda>(_, updated, _) out. case out of None \<Rightarrow> \<not> updated
     | Some (plan, _) \<Rightarrow> updated \<and> ob_ACCEL_MIN K \<le> lpn_aTarget plan \<and> lpn_aTarget plan \<le> ob_ACCEL_MAX K \<and>
         length (lpn_speeds plan) = 17 \<and> length (lpn_accels plan) = 17 \<and> length (lpn_jerks plan) = 17)"

lemma ldw_update_defined: "ldw_ok m \<Longrightarrow> \<exists>l'. ldw_update f m CS act l = Some l'"
  by (auto simp: ldw_update_def ldw_ok_def Desire_laneChangeRight_def Let_def)

lemma plannerd_step_ok:
  assumes "round_ok (p, f)" "planner_wf pl" "ob_ACCEL_MIN K \<le> ob_ACCEL_MAX K"
  shows "\<exists>pl' l' p' out. plannerd_step S K CP CP_SP f (pl, l, p) = Some ((pl', l', p'), out) \<and> planner_wf pl' \<and> output_ok K (p, f) out"
proof -
  obtain up n rt lm i where f: "f = (up, n, rt, lm, i)" by (metis prod_cases5)
  let ?pl = "pl\<lparr>pl_sp := (pl_sp pl)\<lparr>ps_sla := sla_update_buttons K (pi_now i) rt (ps_sla (pl_sp pl))\<rparr>\<rparr>"
  have wf: "planner_wf ?pl" using assms(2) by (simp add: planner_wf_def)
  show ?thesis
  proof (cases up)
    case False
    with wf show ?thesis by (simp add: plannerd_step_def f Let_def output_ok_def)
  next
    case True
    obtain pl' p' a where u: "planner_update S K CP CP_SP DT_MDL i (?pl, p) = Some (pl', p')" "planner_wf pl'" "update_post S K CP DT_MDL i ?pl a pl'"
      using planner_update_ok [of i p ?pl S K CP CP_SP DT_MDL] wf assms(1) by (auto simp: round_ok_def update_ok_def f)
    obtain l' where l': "ldw_update n lm (pi_CS i) (pi_cc_latActive i) l = Some l'"
      using ldw_update_defined [of lm n "pi_CS i" "pi_cc_latActive i" l] assms(1) by (auto simp: round_ok_def f)
    from u(3) obtain vc where "plan_of K DT_MDL i vc (pl_a_cruise (planner_reset K CP i ?pl)) a pl'" by (auto simp: update_post_def)
    then have "output_ok K (p, f) (Some (planner_publish i pl', ld_left l', ld_right l'))"
      using assms(3) True by (auto simp: plan_of_def Let_def output_ok_def planner_publish_def f np_clip_upper np_clip_lower)
    moreover have "plannerd_step S K CP CP_SP f (pl, l, p) = Some ((pl', l', p'), Some (planner_publish i pl', ld_left l', ld_right l'))"
      using u(1) l' True by (simp add: plannerd_step_def f Let_def)
    ultimately show ?thesis using u(2) by blast
  qed
qed

text \<open>C13: plannerd runs on complete inputs: from the constructor, over any rounds in which the model's path, rates, lane
  lines and desires are there, the personality is 0, 1 or 2, and the stored speed limit policy is 0 to 4, the offset
  type 0 to 2 and the offset a number (the planner takes these settings as they are stored and raises on others), no round raises; a plan is
  published exactly in the rounds with a new model, each with 17 points and an acceleration within the car's limits.\<close>

theorem planner_runs:
  assumes "planner_init S s CP CP_SP mici init_v init_a DT_MDL p0 = Some (pl0, p0')" "\<forall>f\<in>set fs. round_ok f"
    "ob_ACCEL_MIN K \<le> ob_ACCEL_MAX K"
  shows "\<exists>st outs. plannerd_run S K CP CP_SP fs (pl0, ldw_init) = Some (st, outs) \<and> list_all2 (output_ok K) fs outs"
proof -
  have "planner_wf pl0" using planner_init_wf [OF assms(1)] by blast
  then have "\<exists>st outs. plannerd_run S K CP CP_SP fs (pl0, l) = Some (st, outs) \<and> list_all2 (output_ok K) fs outs" for l
    using assms(2)
  proof (induction fs arbitrary: pl0 l)
    case (Cons f fs)
    obtain p g where f: "f = (p, g)" by (cases f)
    obtain pl' l' p' out where s: "plannerd_step S K CP CP_SP g (pl0, l, p) = Some ((pl', l', p'), out)" "planner_wf pl'" "output_ok K f out"
      using plannerd_step_ok [of p g pl0 K S CP CP_SP l] Cons.prems assms(3) by (auto simp: f)
    have "\<forall>f\<in>set fs. round_ok f" using Cons.prems(2) by simp
    then obtain st outs where "plannerd_run S K CP CP_SP fs (pl', l') = Some (st, outs)" "list_all2 (output_ok K) fs outs"
      using Cons.IH [OF s(2)] by blast
    with s(1,3) show ?case by (simp add: f)
  qed simp
  then show ?thesis by blast
qed

text \<open>C12: The plan is the most cautious one.  After every update from the constructor whose inputs are complete, the target
  speed is a number, not above the cruise speed or what Smart Cruise Control and Speed Limit Assist ask for.  The
  acceleration is the clip of one of the candidates and not above the clip of any of them: what the solver's plan for the leads
  asks for, the cruise acceleration and, in experimental mode, what the model asks for.  The plan stops exactly when the
  car is slow and the solver's or the cruise candidate does not accelerate, or, in experimental mode, when the model asks to stop.\<close>

theorem plan_most_cautious:
  assumes "planner_init S s CP CP_SP mici init_v init_a DT_MDL p0 = Some (pl0, p0')" "\<forall>f\<in>set (fs @ [(p, i)]). update_ok f"
    "planner_run S K CP CP_SP (fs @ [(p, i)]) pl0 = Some pl" "publish_longitudinal_plan_sp mici (pl_sp pl) = plan_sp"
  shows "\<exists>sp a_mpc. plan_sp = Some sp \<and> lp_vTarget sp \<le> planner_v_cruise i \<and>
      lp_vTarget sp \<le> sm_output_v_target (ps_map (pl_sp pl)) \<and> lp_vTarget sp \<le> sl_output_v_target (ps_sla (pl_sp pl)) \<and>
      (\<forall>y. sv_output_v_target (ps_vision (pl_sp pl)) = Fin y \<longrightarrow> lp_vTarget sp \<le> y) \<and>
      mpc_asks CP pl a_mpc \<and>
      (let candidates = {a_mpc, pl_a_cruise pl} \<union> (if pi_experimentalMode i then {pi_desiredAcceleration i} else {})
       in (\<exists>a\<in>candidates. pl_output_a_target pl = np_clip a (ob_ACCEL_MIN K) (ob_ACCEL_MAX K)) \<and>
          (\<forall>a\<in>candidates. pl_output_a_target pl \<le> np_clip a (ob_ACCEL_MIN K) (ob_ACCEL_MAX K))) \<and>
      (pl_output_should_stop pl \<longleftrightarrow>
         should_stop (cs_vEgo (pi_CS i)) a_mpc \<or> should_stop (cs_vEgo (pi_CS i)) (pl_a_cruise pl) \<or>
         pi_experimentalMode i \<and> pi_shouldStop i)"
proof -
  have wf0: "planner_wf pl0" using planner_init_wf [OF assms(1)] by blast
  obtain pl1 where r: "planner_run S K CP CP_SP fs pl0 = Some pl1" "planner_wf pl1"
    using planner_run_defined [OF wf0, of fs S K CP CP_SP] assms(2) by auto
  obtain pl2 p2 a_mpc where u: "planner_update S K CP CP_SP DT_MDL i (pl1, p) = Some (pl2, p2)" "update_post S K CP DT_MDL i pl1 a_mpc pl2"
    using planner_update_ok [of i p pl1 S K CP CP_SP DT_MDL] r(2) assms(2) by (auto simp: update_ok_def)
  have post: "update_post S K CP DT_MDL i pl1 a_mpc pl"
    using assms(3) r(1) u by (auto simp: planner_run_append)
  obtain vc where vc: "ps_output_v_target (pl_sp pl) = Fin vc" "plan_of K DT_MDL i vc (pl_a_cruise (planner_reset K CP i pl1)) a_mpc pl"
    using post by (auto simp: update_post_def)
  have low: "vc \<le> planner_v_cruise i \<and> vc \<le> sm_output_v_target (ps_map (pl_sp pl)) \<and> vc \<le> sl_output_v_target (ps_sla (pl_sp pl)) \<and>
      (\<forall>y. sv_output_v_target (ps_vision (pl_sp pl)) = Fin y \<longrightarrow> vc \<le> y)"
    using post vc(1) by (auto simp: update_post_def target_lowest_def)
  let ?c = "{a_mpc, pl_a_cruise pl} \<union> (if pi_experimentalMode i then {pi_desiredAcceleration i} else {})"
  have c: "set ([a_mpc, pl_a_cruise pl] @ (if pi_experimentalMode i then [pi_desiredAcceleration i] else [])) = ?c" by auto
  obtain a where a: "a \<in> ?c" "\<forall>b\<in>?c. a \<le> b" "pl_output_a_target pl = np_clip a (ob_ACCEL_MIN K) (ob_ACCEL_MAX K)"
    using vc(2) unfolding plan_of_def Let_def c by blast
  then have cand: "(\<exists>a\<in>?c. pl_output_a_target pl = np_clip a (ob_ACCEL_MIN K) (ob_ACCEL_MAX K)) \<and>
      (\<forall>a\<in>?c. pl_output_a_target pl \<le> np_clip a (ob_ACCEL_MIN K) (ob_ACCEL_MAX K))"
    using np_clip_mono by metis
  have stop: "pl_output_should_stop pl \<longleftrightarrow> should_stop (cs_vEgo (pi_CS i)) a_mpc \<or> should_stop (cs_vEgo (pi_CS i)) (pl_a_cruise pl) \<or>
      pi_experimentalMode i \<and> pi_shouldStop i"
    using vc(2) unfolding plan_of_def by blast
  have asks: "mpc_asks CP pl a_mpc" using post unfolding update_post_def by blast
  obtain sp where sp: "plan_sp = Some sp" "lp_vTarget sp = vc"
    using assms(4) by (auto simp: publish_longitudinal_plan_sp_def vc(1))
  show ?thesis
    unfolding Let_def by (intro exI [of _ sp] exI [of _ a_mpc]) (use low sp asks cand stop in blast)
qed

text \<open>A failed solver does not stop the planner, but the leads do not brake the car in that update: the plan is all zeros,
  without a collision warning, and the acceleration is decided by the cruise speed and, in experimental
  mode, the model, capped at zero.\<close>

theorem failed_solve_coasts:
  assumes "planner_init S s CP CP_SP mici init_v init_a DT_MDL p0 = Some (pl0, p0')" "\<forall>f\<in>set (fs @ [(p, i)]). update_ok f"
    "planner_run S K CP CP_SP fs pl0 = Some pl1" "\<forall>t. fst (ms_solve S' t) \<noteq> 0"
  shows "\<exists>pl p'. planner_update S' K CP CP_SP DT_MDL i (pl1, p) = Some (pl, p') \<and>
      pl_v_desired_trajectory pl = replicate 17 0 \<and> pl_a_desired_trajectory pl = replicate 17 0 \<and> \<not> pl_fcw pl \<and>
      pl_output_a_target pl =
        np_clip (min 0 (if pi_experimentalMode i then min (pl_a_cruise pl) (pi_desiredAcceleration i) else pl_a_cruise pl))
          (ob_ACCEL_MIN K) (ob_ACCEL_MAX K)"
proof -
  have "planner_wf pl1"
    using planner_run_defined [of pl0 fs S K CP CP_SP] planner_init_wf [OF assms(1)] assms(2,3) by auto
  then obtain pl p' a_mpc where u: "planner_update S' K CP CP_SP DT_MDL i (pl1, p) = Some (pl, p')" "update_post S' K CP DT_MDL i pl1 a_mpc pl"
    using planner_update_ok [of i p pl1 S' K CP CP_SP DT_MDL] assms(2) by (auto simp: update_ok_def)
  have zero: "a_mpc = 0" "pl_v_desired_trajectory pl = replicate 17 0" "pl_a_desired_trajectory pl = replicate 17 0" "\<not> pl_fcw pl"
    using u(2) assms(4) unfolding update_post_def by blast+
  obtain vc where vc: "plan_of K DT_MDL i vc (pl_a_cruise (planner_reset K CP i pl1)) a_mpc pl" using u(2) by (auto simp: update_post_def)
  then obtain a where a: "a \<in> set ([0, pl_a_cruise pl] @ (if pi_experimentalMode i then [pi_desiredAcceleration i] else []))"
    "\<forall>b\<in>set ([0, pl_a_cruise pl] @ (if pi_experimentalMode i then [pi_desiredAcceleration i] else [])). a \<le> b"
    "pl_output_a_target pl = np_clip a (ob_ACCEL_MIN K) (ob_ACCEL_MAX K)"
    unfolding plan_of_def Let_def zero(1) by blast
  have "a = min 0 (if pi_experimentalMode i then min (pl_a_cruise pl) (pi_desiredAcceleration i) else pl_a_cruise pl)"
    using a(1,2) by (auto simp: min_def split: if_splits)
  with u(1) zero(2-) a(3) show ?thesis by auto
qed

section \<open>Witnesses\<close>

text \<open>A solver that returns zeros with a status, and a frame of a car driving at 20 m/s.\<close>

definition demo_solver :: "int \<Rightarrow> unit mpc_solver" where
  "demo_solver status = \<lparr> ms_reset = id, ms_cost_set = (\<lambda>_ _ _. id), ms_set = (\<lambda>_ _ _. id), ms_constraints_set = (\<lambda>_ _ _. id),
     ms_solve = (\<lambda>s. (status, s)), ms_get_x = (\<lambda>_ _. (0, 0, 0)), ms_get_u = (\<lambda>_ _. 0) \<rparr>"

definition demo_radar_state :: radar_state where
  "demo_radar_state = \<lparr> ra_leadOne = no_lead, ra_leadTwo = no_lead,
     ra_radarErrors = \<lparr>re_canError = False, re_radarUnavailableTemporary = False, re_others = []\<rparr>, ra_valid = True \<rparr>"

definition demo_plan_frame :: planner_inputs where
  "demo_plan_frame = \<lparr> pi_CS = demo_car\<lparr>cs_vEgo := 20, cs_vCruise := 100, cs_vCruiseCluster := 100\<rparr>, pi_cc_enabled = True, pi_cc_latActive = True, pi_cc_override = False,
     pi_selfdrive_enabled = True, pi_experimentalMode = False, pi_personality = 1, pi_forceDecel = True, pi_longControlState = LC_pid,
     pi_curvature = 0, pi_e2e = \<lparr>ei_CS = demo_car, ei_cc_enabled = True, ei_model_x = [0], ei_lead_present = False, ei_lead_dRel = 0\<rparr>,
     pi_orientation_rate_z = [0], pi_velocity_x = [20], pi_desiredAcceleration = 0, pi_shouldStop = False, pi_resolver = demo_resolver_input,
     pi_carState_checks = True, pi_map_targets = NoTargets, pi_now_ns = 1, pi_now = 1, pi_radar = demo_radar_state, pi_all_checks = True \<rparr>"

definition demo_ldw_model :: ldw_model where
  "demo_ldw_model = \<lparr> lm_desirePrediction = [], lm_laneLineProbs = [0, 0, 0, 0], lm_left_y = 0, lm_right_y = 0 \<rparr>"

lemma demo_planner_init:
  "\<exists>pl0 p'. planner_init (demo_solver 0) () demo_params demo_params_sp False 0 0 DT_MDL demo_resolver_params = Some (pl0, p')"
proof -
  obtain m where m: "mpc_init (demo_solver 0) () DT_MDL = Some m" using mpc_init_ok [of "demo_solver 0" "()" DT_MDL] by blast
  have r: "\<exists>r. resolver_init demo_resolver_params = Some (r, demo_resolver_params)"
    by (simp add: resolver_init_def get_sanitize_int_param_def get_int_def get_param_def demo_resolver_params_def)
  then obtain r where "resolver_init demo_resolver_params = Some (r, demo_resolver_params)" by blast
  with m show ?thesis by (simp add: planner_init_def Let_def case_prod_unfold)
qed

lemma demo_update_ok: "update_ok (demo_resolver_params, demo_plan_frame)"
  by (simp add: update_ok_def plan_frame_ok_def demo_plan_frame_def resolver_params_ok_def demo_resolver_params_def get_int_def get_param_def
      personality_ok_def)

theorem fcw_needs_three_frames_witness:
  "\<exists>pl0 p' pl. planner_init (demo_solver 0) () demo_params demo_params_sp False 0 0 DT_MDL demo_resolver_params = Some (pl0, p') \<and>
     planner_run (demo_solver 0) demo_opendbc demo_params demo_params_sp [(demo_resolver_params, demo_plan_frame)] pl0 = Some pl \<and> \<not> pl_fcw pl"
proof -
  obtain pl0 p' where i: "planner_init (demo_solver 0) () demo_params demo_params_sp False 0 0 DT_MDL demo_resolver_params = Some (pl0, p')"
    using demo_planner_init by blast
  show ?thesis using fcw_needs_three_frames [OF i, of "[(demo_resolver_params, demo_plan_frame)]" demo_opendbc] demo_update_ok i by auto
qed

theorem forced_deceleration_brakes_witness:
  "\<exists>pl0 p' pl. planner_init (demo_solver 0) () demo_params demo_params_sp False 0 0 DT_MDL demo_resolver_params = Some (pl0, p') \<and>
     planner_run (demo_solver 0) demo_opendbc demo_params demo_params_sp [(demo_resolver_params, demo_plan_frame)] pl0 = Some pl \<and>
     pl_output_a_target pl \<le> max (- 12 / 10) (pl_a_cruise pl0 - 3 / 100)"
proof -
  obtain pl0 p' where i: "planner_init (demo_solver 0) () demo_params demo_params_sp False 0 0 DT_MDL demo_resolver_params = Some (pl0, p')"
    using demo_planner_init by blast
  have "ob_ACCEL_MIN demo_opendbc \<le> - 12 / 10" "- 12 / 10 \<le> ob_ACCEL_MAX demo_opendbc" by (simp_all add: demo_opendbc_def)
  moreover have "pi_forceDecel demo_plan_frame \<and> \<not> reset_state demo_params demo_plan_frame \<and> 12 / 10 \<le> cs_vEgo (pi_CS demo_plan_frame)"
    by (simp add: demo_plan_frame_def reset_state_def V_CRUISE_UNSET_def)
  ultimately show ?thesis
    using forced_deceleration_brakes [OF i, of "[]" "[(demo_resolver_params, demo_plan_frame)]" demo_opendbc pl0] demo_update_ok i by auto
qed

theorem planner_runs_witness:
  "\<exists>pl0 p' st out. planner_init (demo_solver 0) () demo_params demo_params_sp False 0 0 DT_MDL demo_resolver_params = Some (pl0, p') \<and>
     plannerd_run (demo_solver 0) demo_opendbc demo_params demo_params_sp
       [(demo_resolver_params, True, 7, 0, demo_ldw_model, demo_plan_frame)] (pl0, ldw_init) = Some (st, [out]) \<and> out \<noteq> None"
proof -
  obtain pl0 p' where i: "planner_init (demo_solver 0) () demo_params demo_params_sp False 0 0 DT_MDL demo_resolver_params = Some (pl0, p')"
    using demo_planner_init by blast
  let ?f = "(demo_resolver_params, True, 7, 0, demo_ldw_model, demo_plan_frame)"
  have "round_ok ?f" using demo_update_ok by (simp add: round_ok_def ldw_ok_def demo_ldw_model_def)
  moreover have "ob_ACCEL_MIN demo_opendbc \<le> ob_ACCEL_MAX demo_opendbc" by (simp add: demo_opendbc_def)
  ultimately obtain st outs where r: "plannerd_run (demo_solver 0) demo_opendbc demo_params demo_params_sp [?f] (pl0, ldw_init) = Some (st, outs)"
    "list_all2 (output_ok demo_opendbc) [?f] outs"
    using planner_runs [OF i, of "[?f]" demo_opendbc] by auto
  then obtain out where "outs = [out]" "output_ok demo_opendbc ?f out" by (auto simp: list_all2_Cons1)
  moreover from this have "out \<noteq> None" by (cases out) (simp_all add: output_ok_def)
  ultimately show ?thesis using i r(1) by blast
qed

theorem plan_most_cautious_witness:
  "\<exists>pl0 p' pl sp. planner_init (demo_solver 0) () demo_params demo_params_sp False 0 0 DT_MDL demo_resolver_params = Some (pl0, p') \<and>
     planner_run (demo_solver 0) demo_opendbc demo_params demo_params_sp [(demo_resolver_params, demo_plan_frame)] pl0 = Some pl \<and>
     publish_longitudinal_plan_sp False (pl_sp pl) = Some sp \<and> lp_vTarget sp \<le> 0"
proof -
  obtain pl0 p' where i: "planner_init (demo_solver 0) () demo_params demo_params_sp False 0 0 DT_MDL demo_resolver_params = Some (pl0, p')"
    using demo_planner_init by blast
  obtain pl where r: "planner_run (demo_solver 0) demo_opendbc demo_params demo_params_sp [(demo_resolver_params, demo_plan_frame)] pl0 = Some pl"
    using planner_run_defined [of pl0 "[(demo_resolver_params, demo_plan_frame)]"] planner_init_wf [OF i] demo_update_ok by fastforce
  have "planner_v_cruise demo_plan_frame = 0" by (simp add: planner_v_cruise_def demo_plan_frame_def)
  with plan_most_cautious [OF i, of "[]" demo_resolver_params demo_plan_frame demo_opendbc pl] demo_update_ok r i show ?thesis by fastforce
qed

theorem failed_solve_coasts_witness:
  "\<exists>pl0 p' pl p''. planner_init (demo_solver 0) () demo_params demo_params_sp False 0 0 DT_MDL demo_resolver_params = Some (pl0, p') \<and>
     planner_update (demo_solver 1) demo_opendbc demo_params demo_params_sp DT_MDL demo_plan_frame (pl0, demo_resolver_params) = Some (pl, p'') \<and>
     \<not> pl_fcw pl"
proof -
  obtain pl0 p' where i: "planner_init (demo_solver 0) () demo_params demo_params_sp False 0 0 DT_MDL demo_resolver_params = Some (pl0, p')"
    using demo_planner_init by blast
  have "\<forall>t. fst (ms_solve (demo_solver 1) t) \<noteq> 0" by (simp add: demo_solver_def)
  with failed_solve_coasts [OF i, of "[]" demo_resolver_params demo_plan_frame demo_opendbc pl0 "demo_solver 1"] demo_update_ok i
  show ?thesis by auto
qed

end
