(* ===== verification/BinaryStruct.thy ===== *)
theory BinaryStruct
  imports Prelude "HOL-Library.Word"
begin

unbundle bit_operations_syntax

text \<open>
  \<open>system/ubloxd/binary_struct.py\<close>: the schema language of the binary receiver messages and the
  reader that interprets it.  A schema is data in the source (annotations collected into
  \<open>__binary_fields__\<close>), so it is a datatype here and \<open>_parse_field\<close> is its interpreter.  Bytes
  are 8-bit words; the exceptions the parsers raise are values of \<open>bs_error\<close>.
\<close>

section \<open>Exceptions\<close>

datatype bs_error = EOFError | ValueError | AttributeError | AssertionError | TypeError | KeyError

definition rbind :: "'e + 'a \<Rightarrow> ('a \<Rightarrow> 'e + 'b) \<Rightarrow> 'e + 'b" where
  "rbind m f = (case m of Inl e \<Rightarrow> Inl e | Inr x \<Rightarrow> f x)"

lemma rbind_simps [simp]: "rbind (Inl e) f = Inl e" "rbind (Inr x) f = f x"
  by (simp_all add: rbind_def)

lemma rbind_Inr_iff: "rbind m f = Inr y \<longleftrightarrow> (\<exists>x. m = Inr x \<and> f x = Inr y)"
  by (cases m) simp_all

lemma rbind_cong [fundef_cong]:
  "m = m' \<Longrightarrow> (\<And>x. m' = Inr x \<Longrightarrow> f x = g x) \<Longrightarrow> rbind m f = rbind m' g"
  by (cases m') simp_all

section \<open>Values and schemas\<close>

type_synonym bytes = "8 word list"

text \<open>What \<open>struct.unpack\<close> makes of the bits of an IEEE number.\<close>

datatype ieee = Finite real | Infinite bool | Not_a_number

text \<open>An object keeps the attributes in the order they were set; an enum member knows its value.\<close>

datatype bval = VInt int | VBool bool | VFloat ieee | VBytes bytes | VEnum int | VNone
  | VList "bval list" | VObj string "(string \<times> bval) list"

type_synonym obj_attrs = "(string \<times> bval) list"

text \<open>The field types; a class derived from \<open>BinaryStruct\<close> is its name and its annotations.\<close>

datatype field_spec =
    IntType nat bool bool
  | FloatType nat
  | BitsType nat
  | BytesType nat
  | ArrayType field_spec string
  | SwitchType string "(int \<times> field_spec) list" "field_spec option"
  | EnumType field_spec "int list"
  | ConstType field_spec bval
  | SubstreamType string field_spec
  | StructType string "(string \<times> field_spec) list"

definition u8 :: field_spec where "u8 = IntType 8 False False"
definition u16 :: field_spec where "u16 = IntType 16 False False"
definition u32 :: field_spec where "u32 = IntType 32 False False"
definition s8 :: field_spec where "s8 = IntType 8 True False"
definition s16 :: field_spec where "s16 = IntType 16 True False"
definition s32 :: field_spec where "s32 = IntType 32 True False"
definition f32 :: field_spec where "f32 = FloatType 32"
definition f64 :: field_spec where "f64 = FloatType 64"
definition u16be :: field_spec where "u16be = IntType 16 False True"
definition u32be :: field_spec where "u32be = IntType 32 False True"
definition s16be :: field_spec where "s16be = IntType 16 True True"
definition s32be :: field_spec where "s32be = IntType 32 True True"

lemmas bs_type_defs = u8_def u16_def u32_def s8_def s16_def s32_def f32_def f64_def
  u16be_def u32be_def s16be_def s32be_def

section \<open>The reader\<close>

text \<open>\<open>bit_pos\<close> is the position within the current byte: three bits.\<close>

record binary_reader =
  br_data :: bytes
  br_pos :: nat
  br_bit_pos :: "3 word"

definition reader_init :: "bytes \<Rightarrow> binary_reader" where
  "reader_init data = \<lparr>br_data = data, br_pos = 0, br_bit_pos = 0\<rparr>"

definition br_require :: "nat \<Rightarrow> binary_reader \<Rightarrow> bs_error + unit" where
  "br_require n r = (if br_pos r + n > length (br_data r) then Inl EOFError else Inr ())"

definition align_to_byte :: "binary_reader \<Rightarrow> binary_reader" where
  "align_to_byte r = (if 0 < br_bit_pos r then r\<lparr>br_bit_pos := 0, br_pos := br_pos r + 1\<rparr> else r)"

text \<open>The formats of the \<open>struct\<close> module the schemas use, with their size in bytes.\<close>

datatype struct_format = Fmt_int nat bool bool | Fmt_float nat

fun calcsize :: "struct_format \<Rightarrow> nat" where
  "calcsize (Fmt_int n sgnd big) = n"
| "calcsize (Fmt_float n) = n"

definition int_of_bytes :: "bool \<Rightarrow> bytes \<Rightarrow> int" where
  "int_of_bytes big bs = horner_sum uint (2 ^ 8) (if big then rev bs else bs)"

text \<open>An IEEE number with \<open>e\<close> exponent bits over \<open>m\<close> fraction bits, from its bit pattern.\<close>

definition ieee_value :: "nat \<Rightarrow> nat \<Rightarrow> int \<Rightarrow> ieee" where
  "ieee_value e m v =
     (let neg = bit v (e + m); ex = take_bit e (drop_bit m v); fr = take_bit m v;
          bias = 2 ^ (e - 1) - 1; sg = (if neg then - 1 else 1)
      in if ex = mask e then (if fr = 0 then Infinite neg else Not_a_number)
         else if ex = 0 then Finite (sg * of_int fr * 2 powi (1 - bias - int m))
         else Finite (sg * of_int (2 ^ m + fr) * 2 powi (ex - bias - int m)))"

fun unpack_from :: "struct_format \<Rightarrow> bytes \<Rightarrow> bval" where
  "unpack_from (Fmt_int n sgnd big) bs =
     VInt (if sgnd then signed_take_bit (8 * n - 1) (int_of_bytes big bs) else int_of_bytes big bs)"
| "unpack_from (Fmt_float n) bs =
     VFloat (if n = 4 then ieee_value 8 23 (int_of_bytes False bs) else ieee_value 11 52 (int_of_bytes False bs))"

definition read_struct :: "struct_format \<Rightarrow> binary_reader \<Rightarrow> bs_error + (bval \<times> binary_reader)" where
  "read_struct fmt r0 =
     (let r = align_to_byte r0; n = calcsize fmt
      in rbind (br_require n r) (\<lambda>_.
           Inr (unpack_from fmt (take n (drop (br_pos r) (br_data r))), r\<lparr>br_pos := br_pos r + n\<rparr>)))"

definition read_bytes :: "nat \<Rightarrow> binary_reader \<Rightarrow> bs_error + (bytes \<times> binary_reader)" where
  "read_bytes n r0 =
     (let r = align_to_byte r0
      in rbind (br_require n r) (\<lambda>_. Inr (take n (drop (br_pos r) (br_data r)), r\<lparr>br_pos := br_pos r + n\<rparr>)))"

lemma bit_pos_lt [simp]: "unat (b :: 3 word) < 8"
  using unsigned_less [where 'a = nat and w = b] by simp

text \<open>The loop of \<open>read_bits_int_be\<close>: the value so far and the bits that remain.\<close>

function read_bits_loop :: "int \<Rightarrow> nat \<Rightarrow> binary_reader \<Rightarrow> bs_error + (int \<times> binary_reader)" where
  "read_bits_loop result remaining r =
     (if remaining = 0 then Inr (result, r)
      else if length (br_data r) \<le> br_pos r then Inl EOFError
      else
        let bits_in_byte = 8 - unat (br_bit_pos r);
            bits_to_read = min remaining bits_in_byte;
            byte_val = uint (br_data r ! br_pos r);
            shift = bits_in_byte - bits_to_read;
            msk = push_bit bits_to_read 1 - 1;
            extracted = drop_bit shift byte_val AND msk;
            bit_pos = unat (br_bit_pos r) + bits_to_read
        in read_bits_loop (push_bit bits_to_read result OR extracted) (remaining - bits_to_read)
             (if 8 \<le> bit_pos then r\<lparr>br_bit_pos := 0, br_pos := br_pos r + 1\<rparr>
              else r\<lparr>br_bit_pos := of_nat bit_pos\<rparr>))"
  by pat_completeness auto
termination
  by (relation "measure (\<lambda>(_, n, _). n)") (auto simp: min_def not_le)

declare read_bits_loop.simps [simp del]

definition read_bits_int_be :: "nat \<Rightarrow> binary_reader \<Rightarrow> bs_error + (int \<times> binary_reader)" where
  "read_bits_int_be n r = read_bits_loop 0 n r"

section \<open>Attributes\<close>

definition getattr :: "bval \<Rightarrow> string \<Rightarrow> bs_error + bval" where
  "getattr v name =
     (case v of VObj _ as \<Rightarrow> (case map_of as name of None \<Rightarrow> Inl AttributeError | Some w \<Rightarrow> Inr w)
      | _ \<Rightarrow> Inl AttributeError)"

fun split_dots :: "string \<Rightarrow> string \<Rightarrow> string list" where
  "split_dots acc [] = [rev acc]"
| "split_dots acc (c # cs) = (if c = CHR ''.'' then rev acc # split_dots [] cs else split_dots (c # acc) cs)"

definition resolve_path :: "bval \<Rightarrow> string \<Rightarrow> bs_error + bval" where
  "resolve_path obj path = foldl (\<lambda>cur part. rbind cur (\<lambda>v. getattr v part)) (Inr obj) (split_dots [] path)"

text \<open>\<open>int(v)\<close>, and \<open>v\<close> as the key of a dict with integer keys: an enum member and a bool equal
  their integer, and a list or a struct cannot be a key.\<close>

fun int_of_value :: "bval \<Rightarrow> bs_error + int" where
  "int_of_value (VInt i) = Inr i"
| "int_of_value (VBool b) = Inr (of_bool b)"
| "int_of_value (VEnum i) = Inr i"
| "int_of_value (VFloat (Finite x)) = Inr (py_int x)"
| "int_of_value (VFloat _) = Inl ValueError"
| "int_of_value _ = Inl TypeError"

fun dict_key :: "bval \<Rightarrow> bs_error + int option" where
  "dict_key (VInt i) = Inr (Some i)"
| "dict_key (VBool b) = Inr (Some (of_bool b))"
| "dict_key (VEnum i) = Inr (Some i)"
| "dict_key (VFloat (Finite x)) = Inr (if x = of_int \<lfloor>x\<rfloor> then Some \<lfloor>x\<rfloor> else None)"
| "dict_key (VList _) = Inl TypeError"
| "dict_key (VObj _ _) = Inl TypeError"
| "dict_key _ = Inr None"

section \<open>The interpreter\<close>

definition int_format :: "nat \<Rightarrow> bool \<Rightarrow> bool \<Rightarrow> bs_error + struct_format" where
  "int_format bits sgnd big =
     (if bits = 8 then Inr (Fmt_int 1 sgnd False)
      else if bits = 16 then Inr (Fmt_int 2 sgnd big)
      else if bits = 32 then Inr (Fmt_int 4 sgnd big)
      else Inl ValueError)"

definition float_format :: "nat \<Rightarrow> bs_error + struct_format" where
  "float_format bits =
     (if bits = 32 then Inr (Fmt_float 4) else if bits = 64 then Inr (Fmt_float 8) else Inl ValueError)"

text \<open>The list comprehension of an array field.\<close>

fun parse_times :: "(binary_reader \<Rightarrow> bs_error + (bval \<times> binary_reader)) \<Rightarrow> nat \<Rightarrow> binary_reader
    \<Rightarrow> bs_error + (bval list \<times> binary_reader)" where
  "parse_times p 0 r = Inr ([], r)"
| "parse_times p (Suc n) r =
     rbind (p r) (\<lambda>(v, r'). rbind (parse_times p n r') (\<lambda>(vs, r''). Inr (v # vs, r'')))"

function parse_field :: "field_spec \<Rightarrow> bval \<Rightarrow> binary_reader \<Rightarrow> bs_error + (bval \<times> binary_reader)"
  and parse_struct :: "(string \<times> field_spec) list \<Rightarrow> string \<Rightarrow> obj_attrs \<Rightarrow> binary_reader \<Rightarrow> bs_error + (bval \<times> binary_reader)"
  and parse_case :: "(int \<times> field_spec) list \<Rightarrow> field_spec option \<Rightarrow> int option \<Rightarrow> bval \<Rightarrow> binary_reader
    \<Rightarrow> bs_error + (bval \<times> binary_reader)" where
  "parse_field (ConstType base expected) obj r =
     rbind (parse_field base obj r) (\<lambda>(v, r'). if v \<noteq> expected then Inl ValueError else Inr (v, r'))"
| "parse_field (EnumType base members) obj r =
     rbind (parse_field base obj r) (\<lambda>(raw, r').
       case raw of VInt i \<Rightarrow> Inr (if i \<in> set members then VEnum i else raw, r') | _ \<Rightarrow> Inr (raw, r'))"
| "parse_field (SwitchType selector cases dflt) obj r =
     rbind (resolve_path obj selector) (\<lambda>sel. rbind (dict_key sel) (\<lambda>key. parse_case cases dflt key obj r))"
| "parse_field (ArrayType element count_field) obj r =
     rbind (resolve_path obj count_field) (\<lambda>c. rbind (int_of_value c) (\<lambda>n.
       rbind (parse_times (\<lambda>r'. parse_field element obj r') (nat n) r) (\<lambda>(vs, r'). Inr (VList vs, r'))))"
| "parse_field (SubstreamType length_field element) obj r =
     rbind (resolve_path obj length_field) (\<lambda>l. rbind (int_of_value l) (\<lambda>n.
       rbind (read_bytes (nat n) r) (\<lambda>(data, r').
         rbind (parse_field element obj (reader_init data)) (\<lambda>(v, _). Inr (v, r')))))"
| "parse_field (IntType bits sgnd big) obj r = rbind (int_format bits sgnd big) (\<lambda>fmt. read_struct fmt r)"
| "parse_field (FloatType bits) obj r = rbind (float_format bits) (\<lambda>fmt. read_struct fmt r)"
| "parse_field (BitsType bits) obj r =
     rbind (read_bits_int_be bits r) (\<lambda>(v, r'). Inr (if bits = 1 then VBool (v \<noteq> 0) else VInt v, r'))"
| "parse_field (BytesType n) obj r = rbind (read_bytes n r) (\<lambda>(bs, r'). Inr (VBytes bs, r'))"
| "parse_field (StructType cls flds) obj r = parse_struct flds cls [] r"
| "parse_struct [] cls attrs r = Inr (VObj cls attrs, r)"
| "parse_struct ((name, spec) # flds) cls attrs r =
     rbind (parse_field spec (VObj cls attrs) r) (\<lambda>(v, r'). parse_struct flds cls (attrs @ [(name, v)]) r')"
| "parse_case [] dflt key obj r =
     (case dflt of None \<Rightarrow> Inr (VNone, r) | Some s \<Rightarrow> parse_field s obj r)"
| "parse_case ((k, s) # cases) dflt key obj r =
     (if key = Some k then parse_field s obj r else parse_case cases dflt key obj r)"
  by pat_completeness auto
termination
  by (relation "measure (\<lambda>x. case x of
        Inl (s, _) \<Rightarrow> 2 * size s
      | Inr (Inl (fs, _)) \<Rightarrow> 2 * size_list (size_prod (\<lambda>_. 0) size) fs + 1
      | Inr (Inr (cs, d, _)) \<Rightarrow> 2 * size_list (size_prod (\<lambda>_. 0) size) cs + 2 * size_option size d + 1)") auto

definition from_bytes :: "field_spec \<Rightarrow> bytes \<Rightarrow> bs_error + bval" where
  "from_bytes cls data = rbind (parse_field cls VNone (reader_init data)) (\<lambda>(v, _). Inr v)"

end
