(* ===== verification/UbxFramer.thy ===== *)
theory UbxFramer
  imports BinaryStruct
begin

text \<open>
  The byte-level framing of the receiver's protocol: \<open>UbxFramer\<close> of
  \<open>system/ubloxd/ubloxd.py\<close>, which finds checksummed frames in the raw stream, and the frame helpers
  of \<open>system/ubloxd/pigeond.py\<close>, which build and split such frames.
\<close>

section \<open>\<open>UbxFramer\<close>\<close>

record ubx_framer =
  fr_buf :: bytes
  fr_last_log_time :: real

definition framer_init :: ubx_framer where
  "framer_init = \<lparr>fr_buf = [], fr_last_log_time = 0\<rparr>"

definition framer_reset :: "ubx_framer \<Rightarrow> ubx_framer" where
  "framer_reset f = f\<lparr>fr_buf := []\<rparr>"

definition PREAMBLE1 :: "8 word" where "PREAMBLE1 = 0xB5"
definition PREAMBLE2 :: "8 word" where "PREAMBLE2 = 0x62"
definition HEADER_SIZE :: nat where "HEADER_SIZE = 6"
definition CHECKSUM_SIZE :: nat where "CHECKSUM_SIZE = 2"

text \<open>The two running sums; \<open>\<and> 0xFF\<close> is the wrap-around of the 8-bit words.\<close>

definition checksum_sums :: "bytes \<Rightarrow> 8 word \<times> 8 word" where
  "checksum_sums bs = foldl (\<lambda>(ck_a, ck_b) b. (ck_a + b, ck_b + (ck_a + b))) (0, 0) bs"

definition checksum_ok :: "bytes \<Rightarrow> bool" where
  "checksum_ok frame =
     (let (ck_a, ck_b) = checksum_sums (drop 2 (take (length frame - 2) frame))
      in ck_a = frame ! (length frame - 2) \<and> ck_b = frame ! (length frame - 1))"

text \<open>\<open>buf.find(b"\xb5\x62")\<close>.\<close>

fun find_preamble :: "bytes \<Rightarrow> nat option" where
  "find_preamble (a # b # bs) =
     (if a = PREAMBLE1 \<and> b = PREAMBLE2 then Some 0 else map_option Suc (find_preamble (b # bs)))"
| "find_preamble _ = None"

definition frame_length :: "bytes \<Rightarrow> nat" where
  "frame_length buf = HEADER_SIZE + nat (int_of_bytes False (take 2 (drop 4 buf))) + CHECKSUM_SIZE"

text \<open>The loop of \<open>add_data\<close>: the frames it appends and the buffer it leaves.\<close>

function frame_loop :: "bytes \<Rightarrow> bytes list \<times> bytes" where
  "frame_loop buf0 =
     (if length buf0 < 2 then ([], buf0)
      else case find_preamble buf0 of None \<Rightarrow> ([], [])
      | Some start \<Rightarrow>
          let buf = drop start buf0
          in if length buf < HEADER_SIZE then ([], buf)
             else let total_len = frame_length buf
               in if length buf < total_len then ([], buf)
                  else let candidate = take total_len buf
                    in if checksum_ok candidate
                       then (let (out, rest) = frame_loop (drop total_len buf) in (candidate # out, rest))
                       else frame_loop (drop 1 buf))"
  by pat_completeness auto
termination
  by (relation "measure length") (auto simp: frame_length_def HEADER_SIZE_def CHECKSUM_SIZE_def)

declare frame_loop.simps [simp del]

definition add_data :: "real \<Rightarrow> bytes \<Rightarrow> ubx_framer \<Rightarrow> bytes list \<times> ubx_framer" where
  "add_data log_time incoming f0 =
     (let f = f0\<lparr>fr_last_log_time := log_time\<rparr>
      in if incoming = [] then ([], f)
         else let (out, buf) = frame_loop (fr_buf f @ incoming) in (out, f\<lparr>fr_buf := buf\<rparr>))"

section \<open>\<open>pigeond.py\<close>: building and splitting frames\<close>

definition add_ubx_checksum :: "bytes \<Rightarrow> bytes" where
  "add_ubx_checksum msg = (let (a, b) = checksum_sums (drop 2 msg) in msg @ [a, b])"

text \<open>\<open>split_assistnow_messages\<close>: \<open>None\<close> is the failed assertion or the index error of a header
  that is cut short.\<close>

function split_assistnow_messages :: "bytes \<Rightarrow> bytes list option" where
  "split_assistnow_messages dat =
     (if dat = [] then Some []
      else if take 2 dat \<noteq> [PREAMBLE1, PREAMBLE2] then None
      else if length dat < 6 then None
      else let msg_len = 6 + nat (push_bit 8 (uint (dat ! 5)) OR uint (dat ! 4)) + 2
        in map_option (\<lambda>msgs. take msg_len dat # msgs) (split_assistnow_messages (drop msg_len dat)))"
  by pat_completeness auto
termination
  by (relation "measure length") auto

declare split_assistnow_messages.simps [simp del]

end
