(* ===== verification/BitStream.thy ===== *)
theory BitStream
  imports BinaryStruct
begin

text \<open>
  What the reader of \<open>binary_struct.py\<close> computes: a bit field is the number its slice of the bit
  stream spells, and a schema of fixed size is the tuple of its slices.  \<open>spec_end\<close> and \<open>spec_value\<close>
  are the reference definitions; \<open>parse_static\<close> says the interpreter implements them and fails
  exactly when the data ends early.
\<close>

section \<open>The bit stream\<close>

definition byte_bits :: "8 word \<Rightarrow> bool list" where
  "byte_bits w = map (bit w) (rev [0..<8])"

definition bits_of :: "bytes \<Rightarrow> bool list" where
  "bits_of data = concat (map byte_bits data)"

definition bits_fold :: "int \<Rightarrow> bool list \<Rightarrow> int" where
  "bits_fold = foldl (\<lambda>v b. 2 * v + of_bool b)"

definition bits_value :: "bool list \<Rightarrow> int" where
  "bits_value bs = bits_fold 0 bs"

definition cursor :: "binary_reader \<Rightarrow> nat" where
  "cursor r = 8 * br_pos r + unat (br_bit_pos r)"

definition seek :: "nat \<Rightarrow> binary_reader \<Rightarrow> binary_reader" where
  "seek p r = r\<lparr>br_pos := p div 8, br_bit_pos := of_nat (p mod 8)\<rparr>"

lemma length_byte_bits [simp]: "length (byte_bits w) = 8"
  by (simp add: byte_bits_def)

lemma bits_of_simps [simp]: "bits_of [] = []" "bits_of (w # ws) = byte_bits w @ bits_of ws"
  by (simp_all add: bits_of_def)

lemma length_bits_of [simp]: "length (bits_of data) = 8 * length data"
  by (induction data) simp_all

lemma bits_of_append [simp]: "bits_of (xs @ ys) = bits_of xs @ bits_of ys"
  by (induction xs) simp_all

lemma bits_of_drop: "drop (8 * n) (bits_of data) = bits_of (drop n data)"
proof (induction data arbitrary: n)
  case (Cons w ws)
  then show ?case by (cases n) simp_all
qed simp

lemma bits_of_take: "take (8 * n) (bits_of data) = bits_of (take n data)"
proof (induction data arbitrary: n)
  case (Cons w ws)
  then show ?case by (cases n) simp_all
qed simp

lemma bits_fold_append [simp]: "bits_fold v (xs @ ys) = bits_fold (bits_fold v xs) ys"
  by (simp add: bits_fold_def)

lemma bits_fold_eq: "bits_fold v bs = 2 ^ length bs * v + bits_value bs"
proof (induction bs rule: rev_induct)
  case (snoc b bs)
  then show ?case by (simp add: bits_value_def bits_fold_def algebra_simps)
qed (simp add: bits_value_def bits_fold_def)

lemma bits_value_Nil [simp]: "bits_value [] = 0"
  by (simp add: bits_value_def bits_fold_def)

lemma bits_value_append: "bits_value (xs @ ys) = 2 ^ length ys * bits_value xs + bits_value ys"
  using bits_fold_eq [of "bits_value xs" ys] by (simp add: bits_value_def)

lemma bits_value_Cons: "bits_value (b # bs) = 2 ^ length bs * of_bool b + bits_value bs"
  using bits_value_append [of "[b]" bs] by (simp add: bits_value_def bits_fold_def)

lemma bits_value_bounds: "0 \<le> bits_value bs \<and> bits_value bs < 2 ^ length bs"
  by (induction bs) (auto simp: bits_value_Cons)

text \<open>A run of bits of a number, most significant first, is the number shifted and masked.\<close>

lemma bits_value_slice: "bits_value (map (bit (x :: int)) (rev [s..<s + k])) = take_bit k (drop_bit s x)"
proof (induction k)
  case (Suc k)
  have "rev [s..<s + Suc k] = (s + k) # rev [s..<s + k]" by simp
  with Suc show ?case
    by (simp add: bits_value_Cons take_bit_Suc_from_most bit_drop_bit_eq)
qed simp

lemma byte_slice:
  assumes "b + k \<le> 8"
  shows "bits_value (take k (drop b (byte_bits w))) = take_bit k (drop_bit (8 - b - k) (uint w))"
proof -
  have "take k (drop b (rev [0..<8])) = rev [8 - b - k..<8 - b - k + k]"
    using assms by (simp add: drop_rev take_rev)
  then have "take k (drop b (byte_bits w)) = map (bit (uint w)) (rev [8 - b - k..<8 - b - k + k])"
    using assms by (auto simp: byte_bits_def take_map drop_map bit_uint_iff)
  then show ?thesis by (simp only: bits_value_slice)
qed

lemma in_byte: "c < 8 \<Longrightarrow> (8 * p + c) div 8 = (p :: nat) \<and> (8 * p + c) mod 8 = c"
  by simp

lemma seek_simps [simp]:
  "br_data (seek p r) = br_data r" "cursor (seek p r) = p" "seek q (seek p r) = seek q r" "seek (cursor r) r = r"
proof -
  have "unat (of_nat (p mod 8) :: 3 word) = p mod 8"
    by (simp add: unat_of_nat take_bit_eq_mod)
  then show "cursor (seek p r) = p" by (simp add: cursor_def seek_def)
  have "(8 * br_pos r + unat (br_bit_pos r)) mod 8 = unat (br_bit_pos r)"
    "(8 * br_pos r + unat (br_bit_pos r)) div 8 = br_pos r" by simp_all
  then show "seek (cursor r) r = r" by (simp add: cursor_def seek_def)
qed (simp_all add: seek_def)


lemma or_is_append: "0 \<le> x \<Longrightarrow> x < 2 ^ k \<Longrightarrow> push_bit k v OR x = 2 ^ k * v + (x :: int)"
  using concat_bit_eq [of k x v] take_bit_int_eq_self [of x k]
  by (simp add: concat_bit_def push_bit_eq_mult or.commute mult.commute)

text \<open>One iteration of the loop takes the next bits of the stream.\<close>

lemma stream_at:
  assumes "br_pos r < length (br_data r)" "k \<le> 8 - unat (br_bit_pos r)"
  shows "take k (drop (cursor r) (bits_of (br_data r))) =
    take k (drop (unat (br_bit_pos r)) (byte_bits (br_data r ! br_pos r)))"
proof -
  have "drop (cursor r) (bits_of (br_data r)) = drop (unat (br_bit_pos r)) (bits_of (drop (br_pos r) (br_data r)))"
    by (simp add: cursor_def bits_of_drop [symmetric] add.commute)
  also have "drop (br_pos r) (br_data r) = br_data r ! br_pos r # drop (Suc (br_pos r)) (br_data r)"
    using assms(1) by (rule Cons_nth_drop_Suc [symmetric])
  finally show ?thesis using assms(2) by simp
qed

theorem read_bits_loop_slice:
  "read_bits_loop v n r =
     (if n = 0 \<or> cursor r + n \<le> 8 * length (br_data r)
      then Inr (bits_fold v (take n (drop (cursor r) (bits_of (br_data r)))), seek (cursor r + n) r)
      else Inl EOFError)"
proof (induction v n r rule: read_bits_loop.induct)
  case (1 v n r)
  let ?b = "unat (br_bit_pos r)" and ?S = "bits_of (br_data r)"
  consider (stop) "n = 0" | (eof) "0 < n" "length (br_data r) \<le> br_pos r"
    | (step) "0 < n" "br_pos r < length (br_data r)" by linarith
  then show ?case
  proof cases
    case stop
    then show ?thesis by (simp add: read_bits_loop.simps [of v 0] bits_fold_def)
  next
    case eof
    then have "\<not> cursor r + n \<le> 8 * length (br_data r)" by (simp add: cursor_def)
    with eof show ?thesis by (simp add: read_bits_loop.simps [of v n])
  next
    case step
    define k where "k = min n (8 - ?b)"
    define r' where "r' = (if 8 \<le> ?b + k then r\<lparr>br_bit_pos := 0, br_pos := br_pos r + 1\<rparr> else r\<lparr>br_bit_pos := of_nat (?b + k)\<rparr>)"
    define x where "x = take_bit k (drop_bit (8 - ?b - k) (uint (br_data r ! br_pos r)))"
    have b: "?b < 8" by simp
    have k: "0 < k" "k \<le> n" "?b + k \<le> 8" unfolding k_def using step(1) b by linarith+
    have ne: "(n = 0) = False" "(length (br_data r) \<le> br_pos r) = False" using step by simp_all
    have msk: "push_bit k (1 :: int) - 1 = mask k" by (simp add: mask_eq_exp_minus_1 push_bit_eq_mult)
    have loop: "read_bits_loop v n r = read_bits_loop (push_bit k v OR x) (n - k) r'"
      unfolding r'_def x_def take_bit_eq_mask
      by (subst read_bits_loop.simps) (simp only: Let_def k_def [symmetric] msk if_False ne)
    have r': "r' = seek (cursor r + k) r"
    proof (cases "8 \<le> ?b + k")
      case True
      then have "cursor r + k = 8 * (br_pos r + 1)" using k(3) by (simp add: cursor_def)
      with True show ?thesis by (simp add: r'_def seek_def)
    next
      case False
      have "cursor r + k = 8 * br_pos r + (?b + k)" by (simp add: cursor_def)
      then have "(cursor r + k) div 8 = br_pos r" "(cursor r + k) mod 8 = ?b + k"
        using False in_byte [of "?b + k" "br_pos r"] by (metis not_le)+
      with False show ?thesis by (simp add: r'_def seek_def)
    qed
    have "x = bits_value (take k (drop (cursor r) ?S))"
      using byte_slice [OF k(3)] stream_at [OF step(2)] k(3) by (simp add: x_def)
    moreover have bound: "cursor r + k \<le> 8 * length (br_data r)" using step(2) k(3) by (simp add: cursor_def)
    ultimately have fold: "push_bit k v OR x = bits_fold v (take k (drop (cursor r) ?S))"
      using bits_value_bounds [of "take k (drop (cursor r) ?S)"] by (simp add: bits_fold_eq or_is_append)
    have IH: "read_bits_loop (push_bit k v OR x) (n - k) r' =
       (if n - k = 0 \<or> cursor r' + (n - k) \<le> 8 * length (br_data r')
        then Inr (bits_fold (push_bit k v OR x) (take (n - k) (drop (cursor r') (bits_of (br_data r')))), seek (cursor r' + (n - k)) r')
        else Inl EOFError)"
      using "1.IH" [OF _ _ refl refl refl refl refl refl refl]
      unfolding k_def [symmetric] msk r'_def [symmetric] take_bit_eq_mask [symmetric] x_def [symmetric] ne by blast
    have "take n (drop (cursor r) ?S) = take k (drop (cursor r) ?S) @ take (n - k) (drop (cursor r + k) ?S)"
      using k(2) by (metis add.commute drop_drop le_add_diff_inverse take_add)
    with IH k bound show ?thesis
      unfolding loop r' by (auto simp: fold)
  qed
qed


section \<open>Static layouts\<close>

text \<open>
  Where a field that starts at bit \<open>p\<close> ends, for the schemas whose size does not depend on the
  data, and the value the bytes hold there.  This is the reference the interpreter is compared
  with: no reader, no position to maintain.
\<close>

definition align8 :: "nat \<Rightarrow> nat" where "align8 p = 8 * ((p + 7) div 8)"

fun spec_end :: "field_spec \<Rightarrow> nat \<Rightarrow> nat option"
  and fields_end :: "(string \<times> field_spec) list \<Rightarrow> nat \<Rightarrow> nat option" where
  "spec_end (IntType n sgnd big) p = (if n \<in> {8, 16, 32} then Some (align8 p + n) else None)"
| "spec_end (FloatType n) p = (if n \<in> {32, 64} then Some (align8 p + n) else None)"
| "spec_end (BitsType n) p = Some (p + n)"
| "spec_end (BytesType n) p = Some (align8 p + 8 * n)"
| "spec_end (EnumType base members) p = spec_end base p"
| "spec_end (StructType cls flds) p = fields_end flds p"
| "spec_end _ p = None"
| "fields_end [] p = Some p"
| "fields_end ((name, s) # flds) p = (case spec_end s p of None \<Rightarrow> None | Some q \<Rightarrow> fields_end flds q)"

definition field_bytes :: "nat \<Rightarrow> nat \<Rightarrow> bytes \<Rightarrow> bytes" where
  "field_bytes p n data = take n (drop (align8 p div 8) data)"

fun spec_value :: "field_spec \<Rightarrow> nat \<Rightarrow> bytes \<Rightarrow> bval"
  and fields_value :: "(string \<times> field_spec) list \<Rightarrow> nat \<Rightarrow> bytes \<Rightarrow> obj_attrs" where
  "spec_value (IntType n sgnd big) p data = unpack_from (Fmt_int (n div 8) sgnd big) (field_bytes p (n div 8) data)"
| "spec_value (FloatType n) p data = unpack_from (Fmt_float (n div 8)) (field_bytes p (n div 8) data)"
| "spec_value (BitsType n) p data =
     (let v = bits_value (take n (drop p (bits_of data))) in if n = 1 then VBool (v \<noteq> 0) else VInt v)"
| "spec_value (BytesType n) p data = VBytes (field_bytes p n data)"
| "spec_value (EnumType base members) p data =
     (case spec_value base p data of VInt i \<Rightarrow> if i \<in> set members then VEnum i else VInt i | v \<Rightarrow> v)"
| "spec_value (StructType cls flds) p data = VObj cls (fields_value flds p data)"
| "spec_value _ p data = VNone"
| "fields_value [] p data = []"
| "fields_value ((name, s) # flds) p data =
     (name, spec_value s p data) # fields_value flds (the (spec_end s p)) data"

lemma align_to_byte_seek: "align_to_byte r = seek (align8 (cursor r)) r"
proof (cases "br_bit_pos r = 0")
  case True
  then have "align8 (cursor r) = 8 * br_pos r" by (simp add: align8_def cursor_def)
  with True show ?thesis by (simp add: align_to_byte_def seek_def)
next
  case False
  then have "0 < unat (br_bit_pos r)" by (simp add: unat_gt_0)
  then obtain b where b: "unat (br_bit_pos r) = Suc b" by (cases "unat (br_bit_pos r)") simp
  then have "b < 7" using bit_pos_lt [of "br_bit_pos r"] by simp
  with b have "(8 * br_pos r + Suc b + 7) div 8 = br_pos r + 1" by simp
  with b False show ?thesis by (simp add: align_to_byte_def seek_def align8_def cursor_def word_neq_0_conv)
qed

lemma align8_props: "p \<le> align8 p" "8 * (align8 p div 8) = align8 p" "p \<le> 8 * n \<Longrightarrow> align8 p \<le> 8 * n"
  by (simp_all add: align8_def)

lemma br_pos_seek_align [simp]: "br_pos (seek (align8 p) r) = align8 p div 8"
  by (simp add: seek_def)

lemma seek_bytes: "seek (align8 p) r\<lparr>br_pos := align8 p div 8 + n\<rparr> = seek (align8 p + 8 * n) r"
proof -
  have "align8 p mod 8 = 0" by (simp add: align8_def)
  then show ?thesis by (simp add: seek_def)
qed

lemma read_bytes_eq:
  "read_bytes n r =
     (if align8 (cursor r) + 8 * n \<le> 8 * length (br_data r)
      then Inr (field_bytes (cursor r) n (br_data r), seek (align8 (cursor r) + 8 * n) r) else Inl EOFError)"
proof -
  have "align8 (cursor r) div 8 + n \<le> length (br_data r) \<longleftrightarrow> align8 (cursor r) + 8 * n \<le> 8 * length (br_data r)"
    using align8_props(2) [of "cursor r"] by linarith
  then show ?thesis
    by (simp add: read_bytes_def align_to_byte_seek br_require_def seek_bytes field_bytes_def Let_def not_le [symmetric])
qed

lemma read_struct_eq:
  "read_struct fmt r =
     (if align8 (cursor r) + 8 * calcsize fmt \<le> 8 * length (br_data r)
      then Inr (unpack_from fmt (field_bytes (cursor r) (calcsize fmt) (br_data r)), seek (align8 (cursor r) + 8 * calcsize fmt) r)
      else Inl EOFError)"
proof -
  have "align8 (cursor r) div 8 + calcsize fmt \<le> length (br_data r) \<longleftrightarrow>
      align8 (cursor r) + 8 * calcsize fmt \<le> 8 * length (br_data r)"
    using align8_props(2) [of "cursor r"] by linarith
  then show ?thesis
    by (simp add: read_struct_def align_to_byte_seek br_require_def seek_bytes field_bytes_def Let_def not_le [symmetric])
qed

lemma read_bits_int_be_eq:
  "cursor r \<le> 8 * length (br_data r) \<Longrightarrow> read_bits_int_be n r =
     (if cursor r + n \<le> 8 * length (br_data r)
      then Inr (bits_value (take n (drop (cursor r) (bits_of (br_data r)))), seek (cursor r + n) r) else Inl EOFError)"
  by (auto simp: read_bits_int_be_def read_bits_loop_slice bits_value_def)

lemma spec_end_mono:
  "spec_end s p = Some q \<Longrightarrow> p \<le> q"
  "fields_end flds p = Some q \<Longrightarrow> p \<le> q"
proof (induction s p and flds p arbitrary: q and q rule: spec_end_fields_end.induct)
  case (9 name s flds p)
  then show ?case by (fastforce split: option.splits intro: order_trans)
qed (auto split: if_splits intro: order_trans [OF align8_props(1)])

lemma int_of_one_byte: "int_of_bytes False (field_bytes p (Suc 0) data) = int_of_bytes big (field_bytes p (Suc 0) data)"
  by (cases "drop (align8 p div 8) data") (simp_all add: int_of_bytes_def field_bytes_def)

text \<open>The interpreter computes the reference, and fails only for want of data.\<close>

theorem parse_static:
  "spec_end s p = Some q \<Longrightarrow> cursor r = p \<Longrightarrow> p \<le> 8 * length (br_data r) \<Longrightarrow>
     parse_field s obj r = (if q \<le> 8 * length (br_data r) then Inr (spec_value s p (br_data r), seek q r) else Inl EOFError)"
  "fields_end flds p = Some q \<Longrightarrow> cursor r = p \<Longrightarrow> p \<le> 8 * length (br_data r) \<Longrightarrow>
     parse_struct flds cls as r = (if q \<le> 8 * length (br_data r)
       then Inr (VObj cls (as @ fields_value flds p (br_data r)), seek q r) else Inl EOFError)"
proof (induction s p and flds p arbitrary: q r obj and q r cls as rule: spec_end_fields_end.induct)
  case (1 n sgnd big p)
  then show ?case using int_of_one_byte [of p "br_data r" big]
    by (auto simp: int_format_def read_struct_eq split: if_splits)
next
  case (9 name s flds p)
  then obtain m where m: "spec_end s p = Some m" "fields_end flds m = Some q" by (auto split: option.splits)
  note IH1 = "9.IH"(1) [OF m(1) "9.prems"(2,3), of "VObj cls as"]
  show ?case
  proof (cases "m \<le> 8 * length (br_data r)")
    case True
    then show ?thesis
      using "9.IH"(2) [OF m(1) m(2), of "seek m r" cls "as @ [(name, spec_value s p (br_data r))]"] IH1 m(1)
      by (simp add: "9.prems")
  next
    case False
    then show ?thesis using IH1 spec_end_mono(2) [OF m(2)] by simp
  qed
qed (auto simp: float_format_def read_struct_eq read_bytes_eq read_bits_int_be_eq field_bytes_def Let_def split: if_splits bval.splits)

text \<open>Whatever the schema, a parsed object has the attributes its class declares.\<close>

lemma parse_struct_attrs:
  "parse_struct flds cls as r = Inr (v, r') \<Longrightarrow> \<exists>vs. v = VObj cls (as @ vs) \<and> map fst vs = map fst flds"
proof (induction flds arbitrary: as r)
  case (Cons f flds)
  obtain name s where f: "f = (name, s)" by (cases f)
  with Cons.prems obtain x r1 where "parse_struct flds cls (as @ [(name, x)]) r1 = Inr (v, r')"
    by (auto simp: rbind_Inr_iff)
  from Cons.IH [OF this] f show ?case by force
qed simp

lemma from_bytes_attrs:
  "from_bytes (StructType cls flds) data = Inr v \<Longrightarrow> \<exists>vs. v = VObj cls vs \<and> map fst vs = map fst flds"
  using parse_struct_attrs [of flds cls "[]"] by (fastforce simp: from_bytes_def rbind_Inr_iff)

lemma cursor_init [simp]: "cursor (reader_init data) = 0" "br_data (reader_init data) = data"
  by (simp_all add: reader_init_def cursor_def)

lemma from_bytes_static:
  "spec_end s 0 = Some q \<Longrightarrow>
     from_bytes s data = (if q \<le> 8 * length data then Inr (spec_value s 0 data) else Inl EOFError)"
  using parse_static(1) [of s 0 q "reader_init data" VNone] by (simp add: from_bytes_def)


section \<open>The reader stays in its data\<close>

definition reader_ok :: "bytes \<Rightarrow> binary_reader \<Rightarrow> bool" where
  "reader_ok data r \<longleftrightarrow> br_data r = data \<and> cursor r \<le> 8 * length data"

lemma reader_ok_init [simp]: "reader_ok data (reader_init data)"
  by (simp add: reader_ok_def)

lemma parse_times_ok:
  assumes "\<And>r v r'. p r = Inr (v, r') \<Longrightarrow> reader_ok data r \<Longrightarrow> reader_ok data r'"
  shows "parse_times p n r = Inr (vs, r') \<Longrightarrow> reader_ok data r \<Longrightarrow> reader_ok data r' \<and> length vs = n"
proof (induction n arbitrary: r vs)
  case (Suc n)
  then show ?case using assms by (fastforce simp: rbind_Inr_iff)
qed simp

lemma read_ok:
  "read_bytes n r = Inr (bs, r') \<Longrightarrow> reader_ok data r \<Longrightarrow> reader_ok data r'"
  "read_struct fmt r = Inr (v, r') \<Longrightarrow> reader_ok data r \<Longrightarrow> reader_ok data r'"
  "read_bits_int_be n r = Inr (i, r') \<Longrightarrow> reader_ok data r \<Longrightarrow> reader_ok data r'"
  by (auto simp: reader_ok_def read_bytes_eq read_struct_eq read_bits_int_be_eq split: if_splits)

lemma parse_ok:
  "parse_field s obj r = Inr (v, r') \<Longrightarrow> reader_ok data r \<Longrightarrow> reader_ok data r'"
  "parse_struct flds cls as r = Inr (v, r') \<Longrightarrow> reader_ok data r \<Longrightarrow> reader_ok data r'"
  "parse_case cs d key obj r = Inr (v, r') \<Longrightarrow> reader_ok data r \<Longrightarrow> reader_ok data r'"
proof (induction s obj r and flds cls as r and cs d key obj r arbitrary: v r' and v r' and v r'
    rule: parse_field_parse_struct_parse_case.induct)
  case (2 base members obj r)
  then obtain raw r1 where raw: "parse_field base obj r = Inr (raw, r1)"
    and eq: "(case raw of VInt i \<Rightarrow> Inr (if i \<in> set members then VEnum i else raw, r1) | _ \<Rightarrow> Inr (raw, r1)) = (Inr (v, r') :: bs_error + _)"
    by (auto simp: rbind_Inr_iff)
  from eq have "r1 = r'" by (cases raw) auto
  with raw 2 show ?case by auto
next
  case (4 element count_field obj r)
  then obtain n vs where t: "parse_times (\<lambda>r'. parse_field element obj r') n r = Inr (vs, r')"
    by (auto simp: rbind_Inr_iff)
  have "reader_ok data r'" if "parse_field element obj r0 = Inr (w, r')" "reader_ok data r0" for r0 w r'
    using "4.IH" that "4.prems"(1) by (auto simp: rbind_Inr_iff)
  from parse_times_ok [OF this t "4.prems"(2)] show ?case by simp
next
  case (5 length_field element obj r)
  then show ?case by (auto simp: rbind_Inr_iff dest: read_ok(1))
next
  case (6 n sgnd big obj r)
  then show ?case by (auto simp: rbind_Inr_iff dest: read_ok(2))
next
  case (7 n obj r)
  then show ?case by (auto simp: rbind_Inr_iff dest: read_ok(2))
next
  case (8 n obj r)
  then show ?case by (auto simp: rbind_Inr_iff dest: read_ok(3))
next
  case (9 n obj r)
  then show ?case by (auto simp: rbind_Inr_iff dest: read_ok(1))
qed (auto simp: rbind_Inr_iff split: if_splits bval.splits option.splits)


section \<open>Properties\<close>

text \<open>A bit field of \<open>n\<close> bits is the number spelled by the next \<open>n\<close> bits of the data, most
  significant first, across byte borders; the reader then stands behind them, and it raises exactly
  when the data has fewer bits left.\<close>

theorem read_bits_slice:
  "read_bits_int_be n r =
     (if n = 0 \<or> cursor r + n \<le> 8 * length (br_data r)
      then Inr (bits_value (take n (drop (cursor r) (bits_of (br_data r)))), seek (cursor r + n) r)
      else Inl EOFError)"
  by (simp add: read_bits_int_be_def read_bits_loop_slice bits_value_def)

text \<open>C29: For every schema of fixed size the interpreter computes the reference layout: the object whose
  fields are the slices of the data at their offsets.  It raises only \<open>EOFError\<close>, and exactly when the
  data is shorter than the layout.\<close>

theorem schema_implements_layout:
  assumes "spec_end s 0 = Some q"
  shows "from_bytes s data = (if q \<le> 8 * length data then Inr (spec_value s 0 data) else Inl EOFError)"
  by (rule from_bytes_static [OF assms])

definition demo_schema :: field_spec where
  "demo_schema = StructType ''Demo'' [(''a'', BitsType 3), (''b'', BitsType 7), (''c'', s16be), (''d'', u8)]"

theorem schema_implements_layout_witness:
  "from_bytes demo_schema [0xE0, 0x40, 0xFF, 0xFE, 9] =
     Inr (VObj ''Demo'' [(''a'', VInt 7), (''b'', VInt 1), (''c'', VInt (- 2)), (''d'', VInt 9)]) \<and>
   from_bytes demo_schema [0xE0, 0x40, 0xFF, 0xFE] = Inl EOFError"
proof -
  have "spec_end demo_schema 0 = Some 40" by code_simp
  note layout = schema_implements_layout [OF this]
  have "spec_value demo_schema 0 [0xE0, 0x40, 0xFF, 0xFE, 9] =
      VObj ''Demo'' [(''a'', VInt 7), (''b'', VInt 1), (''c'', VInt (- 2)), (''d'', VInt 9)]"
    by code_simp
  then show ?thesis by (simp add: layout)
qed

end
