(* ===== verification/UbxSchemas.thy ===== *)
theory UbxSchemas
  imports BitStream
begin

text \<open>
  The message schemas of the receiver: \<open>ubx.py\<close> (the UBX messages), \<open>gps.py\<close> (the GPS subframes of
  IS-GPS-200) and \<open>glonass.py\<close> (the GLONASS strings), all of \<open>system/ubloxd/\<close>.  A class is a
  constant of type \<open>field_spec\<close> with the annotations of the source in their order, an \<open>IntEnum\<close> is the
  list of its values, and the computed properties of a class are functions of its objects.
\<close>

section \<open>Reading attributes\<close>

text \<open>The attribute of a parsed object as an integer or a flag.  A parsed object has every attribute
  its class declares, so the default is never used on one.\<close>

definition fld :: "bval \<Rightarrow> string \<Rightarrow> int" where
  "fld v name = (case getattr v name of Inr w \<Rightarrow> (case int_of_value w of Inr i \<Rightarrow> i | Inl _ \<Rightarrow> 0) | Inl _ \<Rightarrow> 0)"

definition flag :: "bval \<Rightarrow> string \<Rightarrow> bool" where
  "flag v name \<longleftrightarrow> fld v name \<noteq> 0"

section \<open>\<open>ubx.py\<close>\<close>

definition GnssType :: "int list" where "GnssType = [0, 1, 2, 3, 4, 5, 6]"

definition Measurement :: field_spec where
  "Measurement = StructType ''Measurement''
    [(''pr_mes'', f64), (''cp_mes'', f64), (''do_mes'', f32), (''gnss_id'', EnumType u8 GnssType),
     (''sv_id'', u8), (''reserved2'', BytesType 1), (''freq_id'', u8), (''lock_time'', u16),
     (''cno'', u8), (''pr_stdev'', u8), (''cp_stdev'', u8), (''do_stdev'', u8),
     (''trk_stat'', u8), (''reserved3'', BytesType 1)]"

definition RxmRawx :: field_spec where
  "RxmRawx = StructType ''RxmRawx''
    [(''rcv_tow'', f64), (''week'', u16), (''leap_s'', s8), (''num_meas'', u8),
     (''rec_stat'', u8), (''reserved1'', BytesType 3),
     (''meas'', ArrayType Measurement ''num_meas'')]"

definition RxmSfrbx :: field_spec where
  "RxmSfrbx = StructType ''RxmSfrbx''
    [(''gnss_id'', EnumType u8 GnssType), (''sv_id'', u8), (''reserved1'', BytesType 1),
     (''freq_id'', u8), (''num_words'', u8), (''reserved2'', BytesType 1), (''version'', u8),
     (''reserved3'', BytesType 1), (''body'', ArrayType u32 ''num_words'')]"

definition Nav :: field_spec where
  "Nav = StructType ''Nav''
    [(''gnss_id'', EnumType u8 GnssType), (''sv_id'', u8), (''cno'', u8), (''elev'', s8),
     (''azim'', s16), (''pr_res'', s16), (''flags'', u32)]"

definition NavSat :: field_spec where
  "NavSat = StructType ''NavSat''
    [(''itow'', u32), (''version'', u8), (''num_svs'', u8), (''reserved'', BytesType 2),
     (''svs'', ArrayType Nav ''num_svs'')]"

definition NavPvt :: field_spec where
  "NavPvt = StructType ''NavPvt''
    [(''i_tow'', u32), (''year'', u16), (''month'', u8), (''day'', u8), (''hour'', u8),
     (''min'', u8), (''sec'', u8), (''valid'', u8), (''t_acc'', u32), (''nano'', s32),
     (''fix_type'', u8), (''flags'', u8), (''flags2'', u8), (''num_sv'', u8), (''lon'', s32),
     (''lat'', s32), (''height'', s32), (''h_msl'', s32), (''h_acc'', u32), (''v_acc'', u32),
     (''vel_n'', s32), (''vel_e'', s32), (''vel_d'', s32), (''g_speed'', s32),
     (''head_mot'', s32), (''s_acc'', s32), (''head_acc'', u32), (''p_dop'', u16),
     (''flags3'', u8), (''reserved1'', BytesType 5), (''head_veh'', s32), (''mag_dec'', s16),
     (''mag_acc'', u16)]"

definition ConfigSource :: "int list" where "ConfigSource = [102, 111, 112, 113]"

definition MonHw2 :: field_spec where
  "MonHw2 = StructType ''MonHw2''
    [(''ofs_i'', s8), (''mag_i'', u8), (''ofs_q'', s8), (''mag_q'', u8),
     (''cfg_source'', EnumType u8 ConfigSource), (''reserved1'', BytesType 3),
     (''low_lev_cfg'', u32), (''reserved2'', BytesType 8), (''post_status'', u32),
     (''reserved3'', BytesType 4)]"

definition AntennaStatus :: "int list" where "AntennaStatus = [0, 1, 2, 3, 4]"

definition AntennaPower :: "int list" where "AntennaPower = [0, 1, 2]"

definition MonHw :: field_spec where
  "MonHw = StructType ''MonHw''
    [(''pin_sel'', u32), (''pin_bank'', u32), (''pin_dir'', u32), (''pin_val'', u32),
     (''noise_per_ms'', u16), (''agc_cnt'', u16), (''a_status'', EnumType u8 AntennaStatus),
     (''a_power'', EnumType u8 AntennaPower), (''flags'', u8), (''reserved1'', BytesType 1),
     (''used_mask'', u32), (''vp'', BytesType 17), (''jam_ind'', u8),
     (''reserved2'', BytesType 2), (''pin_irq'', u32), (''pull_h'', u32), (''pull_l'', u32)]"

definition Ubx :: field_spec where
  "Ubx = StructType ''Ubx''
    [(''magic'', ConstType (BytesType 2) (VBytes [0xb5, 0x62])), (''msg_type'', u16be), (''length'', u16),
     (''body'', SubstreamType ''length'' (SwitchType ''msg_type''
        [(0x0107, NavPvt), (0x0213, RxmSfrbx), (0x0215, RxmRawx), (0x0A09, MonHw), (0x0A0B, MonHw2), (0x0135, NavSat)]
        None)),
     (''checksum'', u16)]"

section \<open>\<open>gps.py\<close>\<close>

definition Tlm :: field_spec where
  "Tlm = StructType ''Tlm''
    [(''preamble'', ConstType (BytesType 1) (VBytes [0x8b])), (''tlm'', BitsType 14),
     (''integrity_status'', BitsType 1), (''reserved'', BitsType 1)]"

definition How :: field_spec where
  "How = StructType ''How''
    [(''tow_count'', BitsType 17), (''alert'', BitsType 1), (''anti_spoof'', BitsType 1),
     (''subframe_id'', BitsType 3), (''reserved'', BitsType 2)]"

definition Subframe1 :: field_spec where
  "Subframe1 = StructType ''Subframe1''
    [(''week_no'', BitsType 10), (''code'', BitsType 2), (''sv_accuracy'', BitsType 4),
     (''sv_health'', BitsType 6), (''iodc_msb'', BitsType 2), (''l2_p_data_flag'', BitsType 1),
     (''reserved1'', BitsType 23), (''reserved2'', BitsType 24), (''reserved3'', BitsType 24),
     (''reserved4'', BitsType 16), (''t_gd'', s8), (''iodc_lsb'', u8), (''t_oc'', u16be),
     (''af_2'', s8), (''af_1'', s16be), (''af_0_sign'', BitsType 1),
     (''af_0_value'', BitsType 21), (''reserved5'', BitsType 2)]"

definition Subframe2 :: field_spec where
  "Subframe2 = StructType ''Subframe2''
    [(''iode'', u8), (''c_rs'', s16be), (''delta_n'', s16be), (''m_0'', s32be), (''c_uc'', s16be),
     (''e'', s32be), (''c_us'', s16be), (''sqrt_a'', u32be), (''t_oe'', u16be),
     (''fit_interval_flag'', BitsType 1), (''aoda'', BitsType 5), (''reserved'', BitsType 2)]"

definition Subframe3 :: field_spec where
  "Subframe3 = StructType ''Subframe3''
    [(''c_ic'', s16be), (''omega_0'', s32be), (''c_is'', s16be), (''i_0'', s32be),
     (''c_rc'', s16be), (''omega'', s32be), (''omega_dot_sign'', BitsType 1),
     (''omega_dot_value'', BitsType 23), (''iode'', u8), (''idot_sign'', BitsType 1),
     (''idot_value'', BitsType 13), (''reserved'', BitsType 2)]"

definition IonosphereData :: field_spec where
  "IonosphereData = StructType ''IonosphereData''
    [(''a0'', s8), (''a1'', s8), (''a2'', s8), (''a3'', s8), (''b0'', s8), (''b1'', s8),
     (''b2'', s8), (''b3'', s8)]"

definition Subframe4 :: field_spec where
  "Subframe4 = StructType ''Subframe4''
    [(''data_id'', BitsType 2), (''page_id'', BitsType 6), (''body'', SwitchType ''page_id'' [(56, IonosphereData)] None)]"

definition Gps :: field_spec where
  "Gps = StructType ''Gps''
    [(''tlm'', Tlm), (''how'', How),
     (''body'', SwitchType ''how.subframe_id'' [(1, Subframe1), (2, Subframe2), (3, Subframe3), (4, Subframe4)] None)]"

definition Subframe1_af_0 :: "bval \<Rightarrow> int" where
  "Subframe1_af_0 s = (if flag s ''af_0_sign'' then fld s ''af_0_value'' - push_bit 21 1 else fld s ''af_0_value'')"

definition Subframe3_omega_dot :: "bval \<Rightarrow> int" where
  "Subframe3_omega_dot s = (if flag s ''omega_dot_sign'' then fld s ''omega_dot_value'' - push_bit 23 1 else fld s ''omega_dot_value'')"

definition Subframe3_idot :: "bval \<Rightarrow> int" where
  "Subframe3_idot s = (if flag s ''idot_sign'' then fld s ''idot_value'' - push_bit 13 1 else fld s ''idot_value'')"

section \<open>\<open>glonass.py\<close>\<close>

definition String1 :: field_spec where
  "String1 = StructType ''String1''
    [(''not_used'', BitsType 2), (''p1'', BitsType 2), (''t_k'', BitsType 12),
     (''x_vel_sign'', BitsType 1), (''x_vel_value'', BitsType 23), (''x_accel_sign'', BitsType 1),
     (''x_accel_value'', BitsType 4), (''x_sign'', BitsType 1), (''x_value'', BitsType 26)]"

definition String2 :: field_spec where
  "String2 = StructType ''String2''
    [(''b_n'', BitsType 3), (''p2'', BitsType 1), (''t_b'', BitsType 7),
     (''not_used'', BitsType 5), (''y_vel_sign'', BitsType 1), (''y_vel_value'', BitsType 23),
     (''y_accel_sign'', BitsType 1), (''y_accel_value'', BitsType 4), (''y_sign'', BitsType 1),
     (''y_value'', BitsType 26)]"

definition String3 :: field_spec where
  "String3 = StructType ''String3''
    [(''p3'', BitsType 1), (''gamma_n_sign'', BitsType 1), (''gamma_n_value'', BitsType 10),
     (''not_used'', BitsType 1), (''p'', BitsType 2), (''l_n'', BitsType 1),
     (''z_vel_sign'', BitsType 1), (''z_vel_value'', BitsType 23), (''z_accel_sign'', BitsType 1),
     (''z_accel_value'', BitsType 4), (''z_sign'', BitsType 1), (''z_value'', BitsType 26)]"

definition String4 :: field_spec where
  "String4 = StructType ''String4''
    [(''tau_n_sign'', BitsType 1), (''tau_n_value'', BitsType 21),
     (''delta_tau_n_sign'', BitsType 1), (''delta_tau_n_value'', BitsType 4),
     (''e_n'', BitsType 5), (''not_used_1'', BitsType 14), (''p4'', BitsType 1),
     (''f_t'', BitsType 4), (''not_used_2'', BitsType 3), (''n_t'', BitsType 11),
     (''n'', BitsType 5), (''m'', BitsType 2)]"

definition String5 :: field_spec where
  "String5 = StructType ''String5''
    [(''n_a'', BitsType 11), (''tau_c'', BitsType 32), (''not_used'', BitsType 1),
     (''n_4'', BitsType 5), (''tau_gps'', BitsType 22), (''l_n'', BitsType 1)]"

definition StringNonImmediate :: field_spec where
  "StringNonImmediate = StructType ''StringNonImmediate''
    [(''data_1'', BitsType 64), (''data_2'', BitsType 8)]"

definition Glonass :: field_spec where
  "Glonass = StructType ''Glonass''
    [(''idle_chip'', BitsType 1), (''string_number'', BitsType 4),
     (''data'', SwitchType ''string_number'' [(1, String1), (2, String2), (3, String3), (4, String4), (5, String5)]
        (Some StringNonImmediate)),
     (''hamming_code'', BitsType 8), (''pad_1'', BitsType 11), (''superframe_number'', BitsType 16), (''pad_2'', BitsType 8),
     (''frame_number'', BitsType 8)]"

definition String1_x_vel :: "bval \<Rightarrow> int" where
  "String1_x_vel s = (if flag s ''x_vel_sign'' then fld s ''x_vel_value'' * -1 else fld s ''x_vel_value'')"

definition String1_x_accel :: "bval \<Rightarrow> int" where
  "String1_x_accel s = (if flag s ''x_accel_sign'' then fld s ''x_accel_value'' * -1 else fld s ''x_accel_value'')"

definition String1_x :: "bval \<Rightarrow> int" where
  "String1_x s = (if flag s ''x_sign'' then fld s ''x_value'' * -1 else fld s ''x_value'')"

definition String2_y_vel :: "bval \<Rightarrow> int" where
  "String2_y_vel s = (if flag s ''y_vel_sign'' then fld s ''y_vel_value'' * -1 else fld s ''y_vel_value'')"

definition String2_y_accel :: "bval \<Rightarrow> int" where
  "String2_y_accel s = (if flag s ''y_accel_sign'' then fld s ''y_accel_value'' * -1 else fld s ''y_accel_value'')"

definition String2_y :: "bval \<Rightarrow> int" where
  "String2_y s = (if flag s ''y_sign'' then fld s ''y_value'' * -1 else fld s ''y_value'')"

definition String3_gamma_n :: "bval \<Rightarrow> int" where
  "String3_gamma_n s = (if flag s ''gamma_n_sign'' then fld s ''gamma_n_value'' * -1 else fld s ''gamma_n_value'')"

definition String3_z_vel :: "bval \<Rightarrow> int" where
  "String3_z_vel s = (if flag s ''z_vel_sign'' then fld s ''z_vel_value'' * -1 else fld s ''z_vel_value'')"

definition String3_z_accel :: "bval \<Rightarrow> int" where
  "String3_z_accel s = (if flag s ''z_accel_sign'' then fld s ''z_accel_value'' * -1 else fld s ''z_accel_value'')"

definition String3_z :: "bval \<Rightarrow> int" where
  "String3_z s = (if flag s ''z_sign'' then fld s ''z_value'' * -1 else fld s ''z_value'')"

definition String4_tau_n :: "bval \<Rightarrow> int" where
  "String4_tau_n s = (if flag s ''tau_n_sign'' then fld s ''tau_n_value'' * -1 else fld s ''tau_n_value'')"

definition String4_delta_tau_n :: "bval \<Rightarrow> int" where
  "String4_delta_tau_n s = (if flag s ''delta_tau_n_sign'' then fld s ''delta_tau_n_value'' * -1 else fld s ''delta_tau_n_value'')"

end
