(* ===== verification/Ubloxd.thy ===== *)
theory Ubloxd
  imports UbxFramer UbxSchemas
begin

text \<open>
  \<open>UbloxMsgParser\<close> and \<open>main\<close> of \<open>system/ubloxd/ubloxd.py\<close>: the messages published for the
  receiver's frames, and the caches from which a satellite's ephemeris is assembled.  An exception of
  the source is the value \<open>Inl\<close> with the parser state it leaves; \<open>main\<close> drops the frame then.  Only
  the fields the code assigns are in the messages; the width checks of the message library on
  assignment are not modelled.
\<close>

definition SECS_IN_MIN :: int where "SECS_IN_MIN = 60"
definition SECS_IN_HR :: int where "SECS_IN_HR = 60 * SECS_IN_MIN"
definition SECS_IN_DAY :: int where "SECS_IN_DAY = 24 * SECS_IN_HR"
definition SECS_IN_WEEK :: int where "SECS_IN_WEEK = 7 * SECS_IN_DAY"

lemmas SECS_defs = SECS_IN_MIN_def SECS_IN_HR_def SECS_IN_DAY_def SECS_IN_WEEK_def

definition test_bit :: "int \<Rightarrow> nat \<Rightarrow> bool" where
  "test_bit b shift \<longleftrightarrow> b AND push_bit shift 1 \<noteq> 0"

section \<open>The published messages\<close>

record gps_location_data =
  gl_flags :: int
  gl_hasFix :: bool
  gl_latitude :: real
  gl_longitude :: real
  gl_altitude :: real
  gl_speed :: real
  gl_bearingDeg :: real
  gl_horizontalAccuracy :: real
  gl_satelliteCount :: int
  gl_unixTimestampMillis :: int
  gl_vNED :: "real list"
  gl_verticalAccuracy :: real
  gl_speedAccuracy :: real
  gl_bearingAccuracyDeg :: real

record ephemeris =
  ep_svId :: int
  ep_tgd :: real
  ep_toc :: real
  ep_af2 :: real
  ep_af1 :: real
  ep_af0 :: real
  ep_svHealth :: int
  ep_towCount :: int
  ep_crs :: real
  ep_deltaN :: real
  ep_m0 :: real
  ep_cuc :: real
  ep_ecc :: real
  ep_cus :: real
  ep_a :: real
  ep_toe :: real
  ep_cic :: real
  ep_omega0 :: real
  ep_cis :: real
  ep_i0 :: real
  ep_crc :: real
  ep_omega :: real
  ep_omegaDot :: real
  ep_iode :: int
  ep_iDot :: real
  ep_toeWeek :: int
  ep_tocWeek :: int

record glonass_ephemeris =
  ge_svId :: int
  ge_freqNum :: int
  ge_p1 :: int
  ge_tk :: int
  ge_xVel :: real
  ge_xAccel :: real
  ge_x :: real
  ge_svHealth :: int
  ge_p2 :: int
  ge_tb :: int
  ge_yVel :: real
  ge_yAccel :: real
  ge_y :: real
  ge_p3 :: int
  ge_gammaN :: real
  ge_zVel :: real
  ge_zAccel :: real
  ge_z :: real
  ge_nt :: int
  ge_tauN :: real
  ge_deltaTauN :: real
  ge_age :: int
  ge_p4 :: int
  ge_svURA :: real
  ge_svType :: int
  ge_n4 :: int
  ge_tkSeconds :: int

record measurement =
  ms_svId :: int
  ms_pseudorange :: bval
  ms_carrierCycles :: bval
  ms_doppler :: bval
  ms_gnssId :: int
  ms_glonassFrequencyIndex :: int
  ms_locktime :: int
  ms_cno :: int
  ms_pseudorangeStdev :: real
  ms_carrierPhaseStdev :: real
  ms_dopplerStdev :: real
  ms_pseudorangeValid :: bool
  ms_carrierPhaseValid :: bool
  ms_halfCycleValid :: bool
  ms_halfCycleSubtracted :: bool

record measurement_report =
  mr_rcvTow :: bval
  mr_gpsWeek :: int
  mr_leapSeconds :: int
  mr_measurements :: "measurement list"
  mr_numMeas :: int
  mr_leapSecValid :: bool
  mr_clkReset :: bool

record sat_info =
  si_svId :: int
  si_gnssId :: int
  si_flagsBitfield :: int
  si_cno :: int
  si_elevationDeg :: int
  si_azimuthDeg :: int
  si_pseudorangeResidual :: real

record sat_report =
  sr_iTow :: int
  sr_svs :: "sat_info list"

record hw_status =
  hw_noisePerMS :: int
  hw_flags :: int
  hw_agcCnt :: int
  hw_aStatus :: int
  hw_aPower :: int
  hw_jamInd :: int

record hw_status2 =
  hw2_ofsI :: int
  hw2_magI :: int
  hw2_ofsQ :: int
  hw2_magQ :: int
  hw2_cfgSource :: int
  hw2_lowLevCfg :: int
  hw2_postStatus :: int

datatype ublox_msg =
    GpsLocationExternal gps_location_data
  | Ublox_ephemeris ephemeris
  | Ublox_glonassEphemeris glonass_ephemeris
  | Ublox_measurementReport measurement_report
  | Ublox_satReport sat_report
  | Ublox_hwStatus hw_status
  | Ublox_hwStatus2 hw_status2

section \<open>State\<close>

text \<open>The caches are \<open>defaultdict(dict)\<close>: a satellite or channel without an entry has the empty dict.\<close>

record ephemeris_caches =
  gps_subframes :: "int \<Rightarrow> (int \<times> bytes) list"
  glonass_strings :: "int \<Rightarrow> (int \<times> bytes) list"
  glonass_string_times :: "int \<Rightarrow> (int \<times> real) list"
  glonass_string_superframes :: "int \<Rightarrow> (int \<times> int) list"

record ublox_parser =
  up_framer :: ubx_framer
  up_caches :: ephemeris_caches

definition ublox_parser_init :: ublox_parser where
  "ublox_parser_init = \<lparr>up_framer = framer_init,
     up_caches = \<lparr>gps_subframes = \<lambda>_. [], glonass_strings = \<lambda>_. [], glonass_string_times = \<lambda>_. [],
       glonass_string_superframes = \<lambda>_. []\<rparr>\<rparr>"

type_synonym parse_result = "(bs_error + ublox_msg option) \<times> ephemeris_caches"

definition gpsPi :: real where "gpsPi = 31415926535898 / 10 ^ 13"

definition glonass_URA_lookup :: "(int \<times> real) list" where
  "glonass_URA_lookup = [(0, 1), (1, 2), (2, 5 / 2), (3, 4), (4, 5), (5, 7), (6, 10), (7, 12), (8, 14), (9, 16),
     (10, 32), (11, 64), (12, 128), (13, 256), (14, 512), (15, 1024)]"

section \<open>NAV-PVT\<close>

text \<open>\<open>calendar.timegm\<close>: \<open>datetime.date\<close> checks the year and the month; the day and the time of day
  are added unchecked.\<close>

definition is_leap :: "int \<Rightarrow> bool" where
  "is_leap y \<longleftrightarrow> y mod 4 = 0 \<and> (y mod 100 \<noteq> 0 \<or> y mod 400 = 0)"

definition days_before_year :: "int \<Rightarrow> int" where
  "days_before_year y = (let z = y - 1 in z * 365 + z div 4 - z div 100 + z div 400)"

definition days_before_month :: "int \<Rightarrow> int \<Rightarrow> int" where
  "days_before_month y m =
     [0, 31, 59, 90, 120, 151, 181, 212, 243, 273, 304, 334] ! nat (m - 1) + of_bool (2 < m \<and> is_leap y)"

definition timegm :: "int \<Rightarrow> int \<Rightarrow> int \<Rightarrow> int \<Rightarrow> int \<Rightarrow> int \<Rightarrow> bs_error + int" where
  "timegm year month day hour minute sec =
     (if 1 \<le> year \<and> year \<le> 9999 \<and> 1 \<le> month \<and> month \<le> 12
      then let days = days_before_year year + days_before_month year month + 1 - 719163 + day - 1
           in Inr (((days * 24 + hour) * 60 + minute) * 60 + sec)
      else Inl ValueError)"

definition gen_nav_pvt :: "bval \<Rightarrow> ublox_msg" where
  "gen_nav_pvt msg =
     (let utc_tt = (case timegm (fld msg ''year'') (fld msg ''month'') (fld msg ''day'') (fld msg ''hour'') (fld msg ''min'')
                       (fld msg ''sec'') of Inl _ \<Rightarrow> 0 | Inr t \<Rightarrow> t)
      in GpsLocationExternal
        \<lparr>gl_flags = fld msg ''flags'',
         gl_hasFix = fld msg ''flags'' mod 2 = 1,
         gl_latitude = of_int (fld msg ''lat'') / 10 ^ 7,
         gl_longitude = of_int (fld msg ''lon'') / 10 ^ 7,
         gl_altitude = of_int (fld msg ''height'') / 10 ^ 3,
         gl_speed = of_int (fld msg ''g_speed'') / 10 ^ 3,
         gl_bearingDeg = of_int (fld msg ''head_mot'') / 10 ^ 5,
         gl_horizontalAccuracy = of_int (fld msg ''h_acc'') / 10 ^ 3,
         gl_satelliteCount = fld msg ''num_sv'',
         gl_unixTimestampMillis = py_int (of_int utc_tt * 10 ^ 3 + of_int (fld msg ''nano'') / 10 ^ 6),
         gl_vNED = [of_int (fld msg ''vel_n'') / 10 ^ 3, of_int (fld msg ''vel_e'') / 10 ^ 3, of_int (fld msg ''vel_d'') / 10 ^ 3],
         gl_verticalAccuracy = of_int (fld msg ''v_acc'') / 10 ^ 3,
         gl_speedAccuracy = of_int (fld msg ''s_acc'') / 10 ^ 3,
         gl_bearingAccuracyDeg = of_int (fld msg ''head_acc'') / 10 ^ 5\<rparr>)"

section \<open>GPS ephemeris\<close>

definition subframe_bytes :: "int list \<Rightarrow> bytes" where
  "subframe_bytes body =
     concat (map (\<lambda>word0. let word = drop_bit 6 word0 in
       [word_of_int (drop_bit 16 word AND 0xFF), word_of_int (drop_bit 8 word AND 0xFF), word_of_int (word AND 0xFF)]) body)"

definition is_instance :: "bval \<Rightarrow> string \<Rightarrow> bool" where
  "is_instance v cls \<longleftrightarrow> (case v of VObj c _ \<Rightarrow> c = cls | _ \<Rightarrow> False)"

definition sub :: "bval \<Rightarrow> string \<Rightarrow> bval" where
  "sub v name = (case getattr v name of Inr w \<Rightarrow> w | Inl _ \<Rightarrow> VNone)"

definition pow2 :: "int \<Rightarrow> real" where "pow2 n = 2 powi n"

text \<open>The assignments, given the three parsed subframes.\<close>

definition gps_ephemeris :: "int \<Rightarrow> bval \<Rightarrow> bval \<Rightarrow> bval \<Rightarrow> ephemeris" where
  "gps_ephemeris sv_id sf1 sf2 sf3 =
     (let s1 = sub sf1 ''body''; s2 = sub sf2 ''body''; s3 = sub sf3 ''body'';
          week0 = fld s1 ''week_no'' + 1024;
          week1 = (if week0 < 1877 then week0 + 1024 else week0);
          week = (if fld s2 ''t_oe'' = 0 \<and> fld (sub sf2 ''how'') ''tow_count'' * 6 \<ge> SECS_IN_WEEK - 2 * SECS_IN_HR
                  then week1 + 1 else week1)
      in \<lparr>ep_svId = sv_id,
          ep_tgd = of_int (fld s1 ''t_gd'') * pow2 (-31),
          ep_toc = of_int (fld s1 ''t_oc'') * pow2 4,
          ep_af2 = of_int (fld s1 ''af_2'') * pow2 (-55),
          ep_af1 = of_int (fld s1 ''af_1'') * pow2 (-43),
          ep_af0 = of_int (Subframe1_af_0 s1) * pow2 (-31),
          ep_svHealth = fld s1 ''sv_health'',
          ep_towCount = fld (sub sf1 ''how'') ''tow_count'',
          ep_crs = of_int (fld s2 ''c_rs'') * pow2 (-5),
          ep_deltaN = of_int (fld s2 ''delta_n'') * pow2 (-43) * gpsPi,
          ep_m0 = of_int (fld s2 ''m_0'') * pow2 (-31) * gpsPi,
          ep_cuc = of_int (fld s2 ''c_uc'') * pow2 (-29),
          ep_ecc = of_int (fld s2 ''e'') * pow2 (-33),
          ep_cus = of_int (fld s2 ''c_us'') * pow2 (-29),
          ep_a = (of_int (fld s2 ''sqrt_a'') * pow2 (-19))\<^sup>2,
          ep_toe = of_int (fld s2 ''t_oe'') * pow2 4,
          ep_cic = of_int (fld s3 ''c_ic'') * pow2 (-29),
          ep_omega0 = of_int (fld s3 ''omega_0'') * pow2 (-31) * gpsPi,
          ep_cis = of_int (fld s3 ''c_is'') * pow2 (-29),
          ep_i0 = of_int (fld s3 ''i_0'') * pow2 (-31) * gpsPi,
          ep_crc = of_int (fld s3 ''c_rc'') * pow2 (-5),
          ep_omega = of_int (fld s3 ''omega'') * pow2 (-31) * gpsPi,
          ep_omegaDot = of_int (Subframe3_omega_dot s3) * pow2 (-43) * gpsPi,
          ep_iode = fld s3 ''iode'',
          ep_iDot = of_int (Subframe3_idot s3) * pow2 (-43) * gpsPi,
          ep_toeWeek = week,
          ep_tocWeek = week\<rparr>)"

text \<open>The cached subframe \<open>k\<close> of a satellite, parsed again and checked to be of the class the code
  asserts.\<close>

definition cached_subframe :: "(int \<times> bytes) list \<Rightarrow> int \<Rightarrow> string \<Rightarrow> bs_error + bval" where
  "cached_subframe cache k cls =
     (case map_of cache k of None \<Rightarrow> Inl KeyError
      | Some data \<Rightarrow> rbind (from_bytes Gps data) (\<lambda>sf.
          if is_instance (sub sf ''body'') cls then Inr sf else Inl AssertionError))"

definition parse_gps_ephemeris :: "int \<Rightarrow> int list \<Rightarrow> ephemeris_caches \<Rightarrow> parse_result" where
  "parse_gps_ephemeris sv_id body c =
     (if length body \<noteq> 10 then (Inr None, c)
      else let subframe_data = subframe_bytes body
        in case from_bytes Gps subframe_data of Inl e \<Rightarrow> (Inl e, c)
        | Inr sf \<Rightarrow>
            let subframe_id = fld (sub sf ''how'') ''subframe_id''
            in if subframe_id < 1 \<or> 3 < subframe_id then (Inr None, c)
               else
                 let cache = AList.update subframe_id subframe_data (gps_subframes c sv_id);
                     c1 = c\<lparr>gps_subframes := (gps_subframes c)(sv_id := cache)\<rparr>
                 in if length cache \<noteq> 3 then (Inr None, c1)
                    else case rbind (cached_subframe cache 1 ''Subframe1'') (\<lambda>sf1.
                           rbind (cached_subframe cache 2 ''Subframe2'') (\<lambda>sf2.
                             rbind (cached_subframe cache 3 ''Subframe3'') (\<lambda>sf3. Inr (sf1, sf2, sf3)))) of
                      Inl e \<Rightarrow> (Inl e, c1)
                    | Inr (sf1, sf2, sf3) \<Rightarrow>
                        let c2 = c1\<lparr>gps_subframes := (gps_subframes c1)(sv_id := [])\<rparr>;
                            iodc_lsb = fld (sub sf1 ''body'') ''iodc_lsb'';
                            iode_s2 = fld (sub sf2 ''body'') ''iode'';
                            iode_s3 = fld (sub sf3 ''body'') ''iode''
                        in if \<not> (iodc_lsb = iode_s2 \<and> iode_s2 = iode_s3) then (Inr None, c2)
                           else (Inr (Some (Ublox_ephemeris (gps_ephemeris sv_id sf1 sf2 sf3))), c2))"


section \<open>GLONASS ephemeris\<close>

definition string_bytes :: "int list \<Rightarrow> bytes" where
  "string_bytes body = concat (map (\<lambda>word. map (\<lambda>i. word_of_int (drop_bit (8 * i) word AND 0xFF)) [3, 2, 1, 0]) body)"

text \<open>The loop over the cached strings that decides whether the new one belongs to another
  superframe: the flags \<open>superframe_unknown\<close> and \<open>needs_clear\<close>.\<close>

definition correlate_string :: "real \<Rightarrow> int \<Rightarrow> int \<Rightarrow> (int \<times> bytes) list \<Rightarrow> (int \<times> int) list \<Rightarrow> (int \<times> real) list
    \<Rightarrow> int \<Rightarrow> bool \<times> bool \<Rightarrow> bool \<times> bool" where
  "correlate_string now string_number superframe_number strings superframes stamps i flags =
     (let (superframe_unknown, needs_clear) = flags
      in if map_of strings i = None then flags
         else
           let sf_prev = (case map_of superframes i of None \<Rightarrow> 0 | Some s \<Rightarrow> s);
               unknown = superframe_unknown \<or> sf_prev = 0 \<or> superframe_number = 0;
               clear = needs_clear \<or> (\<not> (sf_prev = 0 \<or> superframe_number = 0) \<and> sf_prev \<noteq> superframe_number);
               prev_time = (case map_of stamps i of None \<Rightarrow> 0 | Some t \<Rightarrow> t)
           in (unknown,
               clear \<or> (unknown \<and> \<bar>(prev_time - 2 * of_int i) - (now - 2 * of_int string_number)\<bar> > 10)))"

definition needs_clear :: "real \<Rightarrow> int \<Rightarrow> int \<Rightarrow> (int \<times> bytes) list \<Rightarrow> (int \<times> int) list \<Rightarrow> (int \<times> real) list \<Rightarrow> bool" where
  "needs_clear now string_number superframe_number strings superframes stamps =
     snd (fold (correlate_string now string_number superframe_number strings superframes stamps) [1, 2, 3, 4, 5] (False, False))"

text \<open>The assignments, given the data of the five strings.\<close>

definition glonass_eph :: "int \<Rightarrow> int \<Rightarrow> bval \<Rightarrow> bval \<Rightarrow> bval \<Rightarrow> bval \<Rightarrow> bval \<Rightarrow> glonass_ephemeris" where
  "glonass_eph sv_id freq_id s1 s2 s3 s4 s5 =
     (let tk = fld s1 ''t_k''
      in \<lparr>ge_svId = sv_id,
          ge_freqNum = freq_id - 7,
          ge_p1 = fld s1 ''p1'',
          ge_tk = tk,
          ge_xVel = of_int (String1_x_vel s1) * pow2 (-20),
          ge_xAccel = of_int (String1_x_accel s1) * pow2 (-30),
          ge_x = of_int (String1_x s1) * pow2 (-11),
          ge_svHealth = (drop_bit 2 (fld s2 ''b_n'')) OR (if flag s3 ''l_n'' then 1 else 0),
          ge_p2 = fld s2 ''p2'',
          ge_tb = fld s2 ''t_b'',
          ge_yVel = of_int (String2_y_vel s2) * pow2 (-20),
          ge_yAccel = of_int (String2_y_accel s2) * pow2 (-30),
          ge_y = of_int (String2_y s2) * pow2 (-11),
          ge_p3 = fld s3 ''p3'',
          ge_gammaN = of_int (String3_gamma_n s3) * pow2 (-40),
          ge_zVel = of_int (String3_z_vel s3) * pow2 (-20),
          ge_zAccel = of_int (String3_z_accel s3) * pow2 (-30),
          ge_z = of_int (String3_z s3) * pow2 (-11),
          ge_nt = fld s4 ''n_t'',
          ge_tauN = of_int (String4_tau_n s4) * pow2 (-30),
          ge_deltaTauN = of_int (String4_delta_tau_n s4) * pow2 (-30),
          ge_age = fld s4 ''e_n'',
          ge_p4 = fld s4 ''p4'',
          ge_svURA = (case map_of glonass_URA_lookup (fld s4 ''f_t'') of None \<Rightarrow> 0 | Some u \<Rightarrow> u),
          ge_svType = fld s4 ''m'',
          ge_n4 = fld s5 ''n_4'',
          ge_tkSeconds = SECS_IN_HR * (drop_bit 7 tk AND 0x1F) + SECS_IN_MIN * (drop_bit 1 tk AND 0x3F) + (tk AND 1) * 30\<rparr>)"

text \<open>String \<open>k\<close> of the cache: an exception of the parser or a missing string ends the assembly with
  no message, another class fails the assertion.\<close>

definition cached_string :: "(int \<times> bytes) list \<Rightarrow> int \<Rightarrow> string \<Rightarrow> bs_error option + bval" where
  "cached_string strings k cls =
     (case rbind (case map_of strings k of None \<Rightarrow> Inl KeyError | Some d \<Rightarrow> Inr d) (from_bytes Glonass) of
        Inl _ \<Rightarrow> Inl None
      | Inr gl \<Rightarrow> if is_instance (sub gl ''data'') cls then Inr (sub gl ''data'') else Inl (Some AssertionError))"

definition parse_glonass_ephemeris :: "real \<Rightarrow> int \<Rightarrow> int \<Rightarrow> int list \<Rightarrow> ephemeris_caches \<Rightarrow> parse_result" where
  "parse_glonass_ephemeris now sv_id freq_id body c =
     (if length body \<noteq> 4 then (Inr None, c)
      else let sbytes = string_bytes body
        in case from_bytes Glonass sbytes of Inl e \<Rightarrow> (Inl e, c)
        | Inr gl \<Rightarrow>
            let string_number = fld gl ''string_number''; superframe = fld gl ''superframe_number''
            in if string_number < 1 \<or> 5 < string_number \<or> flag gl ''idle_chip'' then (Inr None, c)
               else
                 let clear = needs_clear now string_number superframe (glonass_strings c freq_id)
                       (glonass_string_superframes c freq_id) (glonass_string_times c freq_id);
                     strings = AList.update string_number sbytes (if clear then [] else glonass_strings c freq_id);
                     superframes = AList.update string_number superframe
                       (if clear then [] else glonass_string_superframes c freq_id);
                     stamps = AList.update string_number now (if clear then [] else glonass_string_times c freq_id);
                     c1 = c\<lparr>glonass_strings := (glonass_strings c)(freq_id := strings),
                            glonass_string_superframes := (glonass_string_superframes c)(freq_id := superframes),
                            glonass_string_times := (glonass_string_times c)(freq_id := stamps)\<rparr>
                 in if sv_id = 255 \<or> length strings \<noteq> 5 then (Inr None, c1)
                    else case rbind (cached_string strings 1 ''String1'') (\<lambda>s1.
                           rbind (cached_string strings 2 ''String2'') (\<lambda>s2.
                             rbind (cached_string strings 3 ''String3'') (\<lambda>s3.
                               rbind (cached_string strings 4 ''String4'') (\<lambda>s4.
                                 rbind (cached_string strings 5 ''String5'') (\<lambda>s5. Inr (s1, s2, s3, s4, s5)))))) of
                      Inl None \<Rightarrow> (Inr None, c1)
                    | Inl (Some e) \<Rightarrow> (Inl e, c1)
                    | Inr (s1, s2, s3, s4, s5) \<Rightarrow>
                        (Inr (Some (Ublox_glonassEphemeris (glonass_eph sv_id freq_id s1 s2 s3 s4 s5))),
                         c1\<lparr>glonass_strings := (glonass_strings c1)(freq_id := [])\<rparr>))"

section \<open>RXM-SFRBX\<close>

text \<open>The payload is taken apart by hand; the view of it that the code builds, before its
  constellation is looked up.\<close>

record sfrbx_view =
  sx_gnss_id :: int
  sx_sv_id :: int
  sx_freq_id :: int
  sx_body :: "int list"

definition sfrbx_of :: "bytes \<Rightarrow> sfrbx_view option" where
  "sfrbx_of payload =
     (if length payload < 8 then None
      else if 8 + 4 * unat (payload ! 4) \<noteq> length payload then None
      else Some \<lparr>sx_gnss_id = uint (payload ! 0), sx_sv_id = uint (payload ! 1), sx_freq_id = uint (payload ! 3),
        sx_body = map (\<lambda>i. int_of_bytes False (take 4 (drop (8 + 4 * i) payload))) [0..<unat (payload ! 4)]\<rparr>)"

text \<open>An unknown constellation raises in \<open>GnssType\<close>.\<close>

definition gen_rxm_sfrbx :: "real \<Rightarrow> sfrbx_view \<Rightarrow> ephemeris_caches \<Rightarrow> parse_result" where
  "gen_rxm_sfrbx now v c =
     (if sx_gnss_id v = 0 then parse_gps_ephemeris (sx_sv_id v) (sx_body v) c
      else if sx_gnss_id v = 6 then parse_glonass_ephemeris now (sx_sv_id v) (sx_freq_id v) (sx_body v) c
      else (Inr None, c))"

definition parse_sfrbx :: "real \<Rightarrow> bytes \<Rightarrow> ephemeris_caches \<Rightarrow> parse_result" where
  "parse_sfrbx now payload c =
     (case sfrbx_of payload of None \<Rightarrow> (Inr None, c)
      | Some v \<Rightarrow> if sx_gnss_id v \<notin> set GnssType then (Inl ValueError, c) else gen_rxm_sfrbx now v c)"

section \<open>Measurement, satellite and hardware reports\<close>

text \<open>\<open>m.gnss_id.value\<close>: an integer that is no member of its enum has no attribute \<open>value\<close>.\<close>

definition enum_value :: "bval \<Rightarrow> string \<Rightarrow> bs_error + int" where
  "enum_value v name = (case sub v name of VEnum i \<Rightarrow> Inr i | _ \<Rightarrow> Inl AttributeError)"

definition items :: "bval \<Rightarrow> string \<Rightarrow> bval list" where
  "items v name = (case sub v name of VList vs \<Rightarrow> vs | _ \<Rightarrow> [])"

fun map_results :: "('a \<Rightarrow> 'e + 'b) \<Rightarrow> 'a list \<Rightarrow> 'e + 'b list" where
  "map_results f [] = Inr []"
| "map_results f (x # xs) = rbind (f x) (\<lambda>y. rbind (map_results f xs) (\<lambda>ys. Inr (y # ys)))"

definition gen_measurement :: "bval \<Rightarrow> bs_error + measurement" where
  "gen_measurement m =
     rbind (enum_value m ''gnss_id'') (\<lambda>gnss. Inr
       \<lparr>ms_svId = fld m ''sv_id'', ms_pseudorange = sub m ''pr_mes'', ms_carrierCycles = sub m ''cp_mes'',
        ms_doppler = sub m ''do_mes'', ms_gnssId = gnss, ms_glonassFrequencyIndex = fld m ''freq_id'',
        ms_locktime = fld m ''lock_time'', ms_cno = fld m ''cno'',
        ms_pseudorangeStdev = 1 / 100 * pow2 (fld m ''pr_stdev'' AND 15),
        ms_carrierPhaseStdev = 4 / 1000 * of_int (fld m ''cp_stdev'' AND 15),
        ms_dopplerStdev = 2 / 1000 * pow2 (fld m ''do_stdev'' AND 15),
        ms_pseudorangeValid = test_bit (fld m ''trk_stat'') 0, ms_carrierPhaseValid = test_bit (fld m ''trk_stat'') 1,
        ms_halfCycleValid = test_bit (fld m ''trk_stat'') 2, ms_halfCycleSubtracted = test_bit (fld m ''trk_stat'') 3\<rparr>)"

definition gen_rxm_rawx :: "bval \<Rightarrow> bs_error + ublox_msg" where
  "gen_rxm_rawx msg =
     rbind (map_results gen_measurement (items msg ''meas'')) (\<lambda>ms. Inr (Ublox_measurementReport
       \<lparr>mr_rcvTow = sub msg ''rcv_tow'', mr_gpsWeek = fld msg ''week'', mr_leapSeconds = fld msg ''leap_s'',
        mr_measurements = ms, mr_numMeas = fld msg ''num_meas'',
        mr_leapSecValid = test_bit (fld msg ''rec_stat'') 0, mr_clkReset = test_bit (fld msg ''rec_stat'') 2\<rparr>))"

definition gen_sat_info :: "bval \<Rightarrow> bs_error + sat_info" where
  "gen_sat_info s =
     rbind (enum_value s ''gnss_id'') (\<lambda>gnss. Inr
       \<lparr>si_svId = fld s ''sv_id'', si_gnssId = gnss, si_flagsBitfield = fld s ''flags'', si_cno = fld s ''cno'',
        si_elevationDeg = fld s ''elev'', si_azimuthDeg = fld s ''azim'',
        si_pseudorangeResidual = of_int (fld s ''pr_res'') / 10\<rparr>)"

definition gen_nav_sat :: "bval \<Rightarrow> bs_error + ublox_msg" where
  "gen_nav_sat msg =
     rbind (map_results gen_sat_info (items msg ''svs'')) (\<lambda>svs.
       Inr (Ublox_satReport \<lparr>sr_iTow = fld msg ''itow'', sr_svs = svs\<rparr>))"

definition gen_mon_hw :: "bval \<Rightarrow> bs_error + ublox_msg" where
  "gen_mon_hw msg =
     rbind (enum_value msg ''a_status'') (\<lambda>st. rbind (enum_value msg ''a_power'') (\<lambda>pw. Inr (Ublox_hwStatus
       \<lparr>hw_noisePerMS = fld msg ''noise_per_ms'', hw_flags = fld msg ''flags'', hw_agcCnt = fld msg ''agc_cnt'',
        hw_aStatus = st, hw_aPower = pw, hw_jamInd = fld msg ''jam_ind''\<rparr>)))"

definition cfg_map :: "(int \<times> int) list" where "cfg_map = [(113, 1), (111, 2), (112, 3), (102, 4)]"

definition gen_mon_hw2 :: "bval \<Rightarrow> ublox_msg" where
  "gen_mon_hw2 msg = Ublox_hwStatus2
     \<lparr>hw2_ofsI = fld msg ''ofs_i'', hw2_magI = fld msg ''mag_i'', hw2_ofsQ = fld msg ''ofs_q'', hw2_magQ = fld msg ''mag_q'',
      hw2_cfgSource = (case map_of cfg_map (fld msg ''cfg_source'') of None \<Rightarrow> 0 | Some s \<Rightarrow> s),
      hw2_lowLevCfg = fld msg ''low_lev_cfg'', hw2_postStatus = fld msg ''post_status''\<rparr>"

section \<open>Dispatch and the round of \<open>main\<close>\<close>

definition msg_type_of :: "bytes \<Rightarrow> int" where
  "msg_type_of frame = int_of_bytes True (take 2 (drop 2 frame))"

definition payload_of :: "bytes \<Rightarrow> bytes" where
  "payload_of frame = drop 6 (take (length frame - 2) frame)"

definition parse_frame :: "real \<Rightarrow> bytes \<Rightarrow> ephemeris_caches \<Rightarrow> parse_result" where
  "parse_frame now frame c =
     (let msg_type = msg_type_of frame; payload = payload_of frame;
          some = (\<lambda>r. (rbind r (\<lambda>m. Inr (Some m)), c))
      in if msg_type = 0x0107 then some (rbind (from_bytes NavPvt payload) (\<lambda>b. Inr (gen_nav_pvt b)))
         else if msg_type = 0x0213 then parse_sfrbx now payload c
         else if msg_type = 0x0215 then some (rbind (from_bytes RxmRawx payload) gen_rxm_rawx)
         else if msg_type = 0x0A09 then some (rbind (from_bytes MonHw payload) gen_mon_hw)
         else if msg_type = 0x0A0B then some (rbind (from_bytes MonHw2 payload) (\<lambda>b. Inr (gen_mon_hw2 b)))
         else if msg_type = 0x0135 then some (rbind (from_bytes NavSat payload) gen_nav_sat)
         else (Inr None, c))"

definition published :: "bs_error + ublox_msg option \<Rightarrow> ublox_msg list" where
  "published r = (case r of Inr (Some m) \<Rightarrow> [m] | _ \<Rightarrow> [])"

fun parse_frames :: "real \<Rightarrow> bytes list \<Rightarrow> ephemeris_caches \<Rightarrow> ublox_msg list \<times> ephemeris_caches" where
  "parse_frames now [] c = ([], c)"
| "parse_frames now (f # fs) c =
     (let (r, c1) = parse_frame now f c; (ms, c2) = parse_frames now fs c1 in (published r @ ms, c2))"

text \<open>One message of the raw socket, with its monotonic time in nanoseconds.\<close>

definition log_time :: "int \<Rightarrow> real" where "log_time mono_ns = of_int mono_ns / 10 ^ 9"

definition ublox_step :: "int \<times> bytes \<Rightarrow> ublox_parser \<Rightarrow> ublox_msg list \<times> ublox_parser" where
  "ublox_step raw p =
     (let (mono_ns, data) = raw;
          (frames, fr) = add_data (log_time mono_ns) data (up_framer p);
          (ms, c) = parse_frames (fr_last_log_time fr) frames (up_caches p)
      in (ms, p\<lparr>up_framer := fr, up_caches := c\<rparr>))"

fun ublox_main :: "(int \<times> bytes) list \<Rightarrow> ublox_parser \<Rightarrow> ublox_msg list \<times> ublox_parser" where
  "ublox_main [] p = ([], p)"
| "ublox_main (raw # raws) p =
     (let (ms, p1) = ublox_step raw p; (ms', p2) = ublox_main raws p1 in (ms @ ms', p2))"

end
