(* ===== verification/UbloxFacts.thy ===== *)
theory UbloxFacts
  imports Ubloxd
begin

text \<open>
  What the receiver's schemas parse to, and which exceptions the parser can raise: facts about
  \<open>from_bytes\<close> on the GPS and GLONASS schemas, and the invariant of the ephemeris caches.
\<close>

section \<open>Sizes\<close>

lemma schema_sizes:
  "spec_end NavPvt 0 = Some 736" "spec_end MonHw 0 = Some 480" "spec_end MonHw2 0 = Some 224"
  "spec_end Measurement 128 = Some 384" "spec_end Nav 64 = Some 160"
  by code_simp+

lemma gps_sizes:
  "spec_end How p = Some (p + 24)"
  "spec_end Subframe1 48 = Some 240" "spec_end Subframe2 48 = Some 240" "spec_end Subframe3 48 = Some 240"
  by (simp add: How_def) code_simp+

lemma glonass_sizes:
  "spec_end String1 5 = Some 77" "spec_end String2 5 = Some 77" "spec_end String3 5 = Some 77"
  "spec_end String4 5 = Some 77" "spec_end String5 5 = Some 77" "spec_end StringNonImmediate 5 = Some 77"
  by code_simp+

section \<open>GPS subframes\<close>

lemma parse_struct_obj:
  "parse_field (StructType cls flds) obj r = Inr (v, r') \<Longrightarrow> \<exists>as. v = VObj cls as"
  using parse_struct_attrs [of flds cls "[]" r v r'] by auto

lemma path_how: "resolve_path (VObj c [(''tlm'', t), (''how'', h)]) ''how.subframe_id'' = getattr h ''subframe_id''"
  by (simp add: resolve_path_def getattr_def)

lemma subframe_id_key:
  "parse_field How obj r = Inr (h, r') \<Longrightarrow> cursor r \<le> 8 * length (br_data r) \<Longrightarrow>
     \<exists>i. getattr h ''subframe_id'' = Inr (VInt i)"
  using parse_static(1) [OF gps_sizes(1) refl, of r obj]
  by (auto simp: How_def getattr_def Let_def split: if_splits)


definition subframe_class :: "int \<Rightarrow> string" where
  "subframe_class k = (if k = 1 then ''Subframe1'' else if k = 2 then ''Subframe2'' else if k = 3 then ''Subframe3'' else ''Subframe4'')"

lemma gps_object:
  assumes "from_bytes Gps d = Inr sf"
  shows "\<exists>i. getattr (sub sf ''how'') ''subframe_id'' = Inr (VInt i) \<and>
    (i \<in> {1, 2, 3} \<longrightarrow> is_instance (sub sf ''body'') (subframe_class i))"
proof -
  obtain r' where "parse_field Gps VNone (reader_init d) = Inr (sf, r')"
    using assms by (auto simp: from_bytes_def rbind_Inr_iff)
  then obtain t r1 h r2 b r3 where t: "parse_field Tlm (VObj ''Gps'' []) (reader_init d) = Inr (t, r1)"
    and h: "parse_field How (VObj ''Gps'' [(''tlm'', t)]) r1 = Inr (h, r2)"
    and b: "parse_field (SwitchType ''how.subframe_id'' [(1, Subframe1), (2, Subframe2), (3, Subframe3), (4, Subframe4)] None)
        (VObj ''Gps'' [(''tlm'', t), (''how'', h)]) r2 = Inr (b, r3)"
    and sf: "sf = VObj ''Gps'' [(''tlm'', t), (''how'', h), (''body'', b)]"
    unfolding Gps_def by (auto simp: rbind_Inr_iff simp del: parse_field.simps(3))
  have "cursor r1 \<le> 8 * length (br_data r1)"
    using parse_ok(1) [OF t, of d] by (simp add: reader_ok_def)
  with subframe_id_key [OF h] obtain i where i: "getattr h ''subframe_id'' = Inr (VInt i)" by auto
  then have "i \<in> {1, 2, 3} \<longrightarrow> is_instance b (subframe_class i)"
    using b by (auto simp: path_how subframe_class_def Subframe1_def Subframe2_def Subframe3_def is_instance_def
      simp del: parse_struct.simps dest!: parse_struct_attrs)
  with i show ?thesis by (simp add: sf sub_def getattr_def)
qed

lemma fld_VInt: "getattr v name = Inr (VInt i) \<Longrightarrow> fld v name = i"
  by (simp add: fld_def)

section \<open>GLONASS strings\<close>

definition string_class :: "int \<Rightarrow> string" where
  "string_class k = (if k = 1 then ''String1'' else if k = 2 then ''String2'' else if k = 3 then ''String3''
     else if k = 4 then ''String4'' else if k = 5 then ''String5'' else ''StringNonImmediate'')"

lemma parse_static_bits:
  "cursor r \<le> 8 * length (br_data r) \<Longrightarrow> cursor r + n \<le> 8 * length (br_data r) \<Longrightarrow>
     parse_field (BitsType n) obj r = Inr (spec_value (BitsType n) (cursor r) (br_data r), seek (cursor r + n) r)"
  using parse_static(1) [of "BitsType n" "cursor r" "cursor r + n" r obj] by simp

lemma glonass_data:
  assumes "cursor r = 5" "length (br_data r) = 16" "getattr obj ''string_number'' = Inr (VInt i)"
  shows "\<exists>v. is_instance v (string_class i) \<and>
    parse_field (SwitchType ''string_number'' [(1, String1), (2, String2), (3, String3), (4, String4), (5, String5)]
        (Some StringNonImmediate)) obj r = Inr (v, seek 77 r)"
proof -
  note st = parse_static(1) [OF _ assms(1), of _ 77 obj]
  have "resolve_path obj ''string_number'' = Inr (VInt i)" using assms(3) by (simp add: resolve_path_def)
  then show ?thesis
    using st [OF glonass_sizes(1)] st [OF glonass_sizes(2)] st [OF glonass_sizes(3)] st [OF glonass_sizes(4)]
      st [OF glonass_sizes(5)] st [OF glonass_sizes(6)] assms(2)
    by (simp add: string_class_def)
       (auto simp: is_instance_def String1_def String2_def String3_def String4_def String5_def StringNonImmediate_def
         simp del: parse_field.simps fields_value.simps)
qed


definition glonass_tail_fields :: "(string \<times> field_spec) list" where
  "glonass_tail_fields = [(''hamming_code'', BitsType 8), (''pad_1'', BitsType 11), (''superframe_number'', BitsType 16),
     (''pad_2'', BitsType 8), (''frame_number'', BitsType 8)]"

lemma glonass_tail:
  "Glonass = StructType ''Glonass'' ([(''idle_chip'', BitsType 1), (''string_number'', BitsType 4),
     (''data'', SwitchType ''string_number'' [(1, String1), (2, String2), (3, String3), (4, String4), (5, String5)]
        (Some StringNonImmediate))] @ glonass_tail_fields)"
  "fields_end glonass_tail_fields 77 = Some 128"
  by (simp add: Glonass_def glonass_tail_fields_def) code_simp

text \<open>The 16 bytes of a string always parse.\<close>

lemma glonass_object:
  assumes "length d = 16"
  shows "\<exists>gl i. from_bytes Glonass d = Inr gl \<and> getattr gl ''string_number'' = Inr (VInt i) \<and>
    is_instance (sub gl ''data'') (string_class i)"
proof -
  define r1 r5 where "r1 = seek 1 (reader_init d)" and "r5 = seek 5 (reader_init d)"
  define ic where "ic = spec_value (BitsType 1) 0 d"
  define i where "i = bits_value (take 4 (drop 1 (bits_of d)))"
  let ?obj = "VObj ''Glonass'' [(''idle_chip'', ic), (''string_number'', VInt i)]"
  have r: "cursor r1 = 1" "br_data r1 = d" "cursor r5 = 5" "br_data r5 = d" by (simp_all add: r1_def r5_def)
  have p1: "parse_field (BitsType 1) (VObj ''Glonass'' []) (reader_init d) = Inr (ic, r1)"
    using parse_static_bits [of "reader_init d" 1] assms by (simp add: ic_def r1_def)
  have p2: "parse_field (BitsType 4) (VObj ''Glonass'' [(''idle_chip'', ic)]) r1 = Inr (VInt i, r5)"
    using parse_static_bits [of r1 4] assms r by (simp add: i_def r1_def r5_def Let_def)
  obtain v where v: "is_instance v (string_class i)"
    "parse_field (SwitchType ''string_number'' [(1, String1), (2, String2), (3, String3), (4, String4), (5, String5)]
        (Some StringNonImmediate)) ?obj r5 = Inr (v, seek 77 r5)"
    using glonass_data [of r5 ?obj i] r assms by (auto simp: getattr_def)
  have tail: "parse_struct glonass_tail_fields ''Glonass'' [(''idle_chip'', ic), (''string_number'', VInt i), (''data'', v)] (seek 77 r5) =
      Inr (VObj ''Glonass'' ([(''idle_chip'', ic), (''string_number'', VInt i), (''data'', v)] @ fields_value glonass_tail_fields 77 d), seek 128 r5)"
    using parse_static(2) [OF glonass_tail(2), of "seek 77 r5"] r assms by simp
  let ?gl = "VObj ''Glonass'' ([(''idle_chip'', ic), (''string_number'', VInt i), (''data'', v)] @ fields_value glonass_tail_fields 77 d)"
  have "from_bytes Glonass d = Inr ?gl"
    using p1 p2 v(2) tail
    by (simp add: from_bytes_def glonass_tail(1) del: parse_field.simps(3) parse_field.simps(8))
  then show ?thesis using v(1) by (intro exI [of _ ?gl] exI [of _ i]) (simp add: getattr_def sub_def)
qed


section \<open>Which exceptions\<close>

lemma foldl_getattr_err:
  "foldl (\<lambda>cur part. rbind cur (\<lambda>v. getattr v part)) x ps = Inl e \<Longrightarrow> x = Inl e \<or> e = AttributeError"
proof (induction ps arbitrary: x)
  case (Cons q ps)
  from Cons.IH [of "rbind x (\<lambda>v. getattr v q)"] Cons.prems show ?case
    by (cases x) (auto simp: getattr_def split: bval.splits option.splits)
qed simp

lemma resolve_path_err: "resolve_path v p = Inl e \<Longrightarrow> e = AttributeError"
  using foldl_getattr_err [of "Inr v" "split_dots [] p" e] by (simp add: resolve_path_def)

lemma rbind_Inl_iff: "rbind m f = Inl e \<longleftrightarrow> m = Inl e \<or> (\<exists>x. m = Inr x \<and> f x = Inl e)"
  by (cases m) simp_all

lemma read_err:
  "read_bytes n r = Inl e \<Longrightarrow> e = EOFError" "read_struct fmt r = Inl e \<Longrightarrow> e = EOFError"
  "read_bits_int_be n r = Inl e \<Longrightarrow> e = EOFError"
  by (auto simp: read_bytes_eq read_struct_eq read_bits_int_be_def read_bits_loop_slice split: if_splits)

lemma int_of_value_err: "int_of_value v = Inl e \<Longrightarrow> e = ValueError \<or> e = TypeError"
  by (cases v rule: int_of_value.cases) auto

lemma dict_key_err: "dict_key v = Inl e \<Longrightarrow> e = TypeError"
  by (cases v rule: dict_key.cases) auto

lemma parse_times_err:
  "parse_times p n r = Inl e \<Longrightarrow> (\<And>r. p r = Inl e \<Longrightarrow> Q e) \<Longrightarrow> Q e"
  by (induction n arbitrary: r) (auto simp: rbind_Inl_iff)

definition parse_error :: "bs_error \<Rightarrow> bool" where
  "parse_error e \<longleftrightarrow> e \<noteq> AssertionError \<and> e \<noteq> KeyError"

lemma parse_errors:
  "parse_field s obj r = Inl e \<Longrightarrow> parse_error e"
  "parse_struct flds cls as r = Inl e \<Longrightarrow> parse_error e"
  "parse_case cs d key obj r = Inl e \<Longrightarrow> parse_error e"
proof (induction s obj r and flds cls as r and cs d key obj r rule: parse_field_parse_struct_parse_case.induct)
  case (4 element count_field obj r)
  then show ?case
    by (auto simp: rbind_Inl_iff parse_error_def dest: resolve_path_err int_of_value_err elim!: parse_times_err)
next
  case (2 base members obj r)
  then show ?case
    by (cases "parse_field base obj r") (simp, force simp: case_prod_beta split: bval.splits)
next
  case (5 length_field element obj r)
  then obtain l n where "resolve_path obj length_field = Inl e \<or> int_of_value l = Inl e \<or> read_bytes (nat n) r = Inl e \<or>
      (\<exists>data r'. resolve_path obj length_field = Inr l \<and> int_of_value l = Inr n \<and> read_bytes (nat n) r = Inr (data, r') \<and>
         parse_field element obj (reader_init data) = Inl e)"
    by (auto simp: rbind_Inl_iff)
  then show ?case
    using "5.IH" by (fastforce simp: parse_error_def dest: resolve_path_err int_of_value_err read_err)
qed (auto simp: rbind_Inl_iff parse_error_def int_format_def float_format_def
      split: if_splits option.splits bval.splits dest: resolve_path_err int_of_value_err dict_key_err read_err)

lemma from_bytes_err: "from_bytes s d = Inl e \<Longrightarrow> parse_error e"
  by (auto simp: from_bytes_def rbind_Inl_iff dest: parse_errors(1))


section \<open>The caches\<close>

text \<open>Where a cached entry comes from: a frame of the history \<open>fs\<close> that carried it.\<close>

definition carried :: "bytes set \<Rightarrow> (sfrbx_view \<Rightarrow> bool) \<Rightarrow> bool" where
  "carried fs P \<longleftrightarrow> (\<exists>f \<in> fs. \<exists>v. msg_type_of f = 0x0213 \<and> sfrbx_of (payload_of f) = Some v \<and> P v)"

lemma carried_mono: "carried fs P \<Longrightarrow> fs \<subseteq> gs \<Longrightarrow> carried gs P"
  by (auto simp: carried_def)

definition gps_cache_ok :: "bytes set \<Rightarrow> int \<Rightarrow> (int \<times> bytes) list \<Rightarrow> bool" where
  "gps_cache_ok fs sv cache \<longleftrightarrow> distinct (map fst cache) \<and>
     (\<forall>(k, d) \<in> set cache. k \<in> {1, 2, 3} \<and>
        carried fs (\<lambda>v. sx_gnss_id v = 0 \<and> sx_sv_id v = sv \<and> d = subframe_bytes (sx_body v)) \<and>
        (\<exists>sf. from_bytes Gps d = Inr sf \<and> fld (sub sf ''how'') ''subframe_id'' = k))"

lemma gps_cache_ok_empty [simp]: "gps_cache_ok fs sv []"
  by (simp add: gps_cache_ok_def)

lemma gps_cache_ok_mono: "gps_cache_ok fs sv cache \<Longrightarrow> fs \<subseteq> gs \<Longrightarrow> gps_cache_ok gs sv cache"
  unfolding gps_cache_ok_def using carried_mono by fastforce

lemma set_alist_update: "(j, e) \<in> set (AList.update k d al) \<Longrightarrow> (j = k \<and> e = d) \<or> (j, e) \<in> set al"
  by (induction al) (auto split: if_splits)

lemma keys_full:
  assumes "distinct (map fst al)" "fst ` set al \<subseteq> A" "finite A" "length al = card A" "k \<in> A"
  shows "\<exists>d. map_of al k = Some d \<and> (k, d) \<in> set al"
proof -
  have "card (set (map fst al)) = card A" using assms(1,4) distinct_card [of "map fst al"] by simp
  then have "set (map fst al) = A" using assms(2,3) by (intro card_subset_eq) auto
  then have "k \<in> fst ` set al" using assms(5) by simp
  then obtain d where "(k, d) \<in> set al" by auto
  then show ?thesis using assms(1) by auto
qed

lemma cached_subframe_ok:
  assumes "gps_cache_ok fs sv cache" "length cache = 3" "k \<in> {1, 2, 3}"
  shows "\<exists>sf d. cached_subframe cache k (subframe_class k) = Inr sf \<and> from_bytes Gps d = Inr sf \<and>
    fld (sub sf ''how'') ''subframe_id'' = k \<and>
    carried fs (\<lambda>v. sx_gnss_id v = 0 \<and> sx_sv_id v = sv \<and> d = subframe_bytes (sx_body v))"
proof -
  have "fst ` set cache \<subseteq> {1, 2, 3}" using assms(1) by (fastforce simp: gps_cache_ok_def)
  then obtain d where d: "map_of cache k = Some d" "(k, d) \<in> set cache"
    using keys_full [of cache "{1, 2, 3}" k] assms by (auto simp: gps_cache_ok_def)
  have entry: "(case (k, d) of (k, d) \<Rightarrow> k \<in> {1, 2, 3} \<and>
      carried fs (\<lambda>v. sx_gnss_id v = 0 \<and> sx_sv_id v = sv \<and> d = subframe_bytes (sx_body v)) \<and>
      (\<exists>sf. from_bytes Gps d = Inr sf \<and> fld (sub sf ''how'') ''subframe_id'' = k))"
    using assms(1) d(2) unfolding gps_cache_ok_def by blast
  then obtain sf where sf: "from_bytes Gps d = Inr sf" "fld (sub sf ''how'') ''subframe_id'' = k"
      "carried fs (\<lambda>v. sx_gnss_id v = 0 \<and> sx_sv_id v = sv \<and> d = subframe_bytes (sx_body v))"
    by auto
  obtain i where i: "getattr (sub sf ''how'') ''subframe_id'' = Inr (VInt i)"
      "i \<in> {1, 2, 3} \<longrightarrow> is_instance (sub sf ''body'') (subframe_class i)"
    using gps_object [OF sf(1)] by blast
  have "i = k" using fld_VInt [OF i(1)] sf(2) by simp
  with i(2) assms(3) have inst: "is_instance (sub sf ''body'') (subframe_class k)" by blast
  have "cached_subframe cache k (subframe_class k) = Inr sf"
    by (simp only: cached_subframe_def d(1) option.case sf(1) rbind_simps inst if_True)
  with sf show ?thesis by blast
qed

text \<open>What an ephemeris must be made of: three subframes of the satellite, one issue of data.\<close>

definition subframe_of :: "bytes set \<Rightarrow> int \<Rightarrow> int \<Rightarrow> bval \<Rightarrow> bool" where
  "subframe_of fs sv k sf \<longleftrightarrow> (\<exists>d. from_bytes Gps d = Inr sf \<and> fld (sub sf ''how'') ''subframe_id'' = k \<and>
     carried fs (\<lambda>v. sx_gnss_id v = 0 \<and> sx_sv_id v = sv \<and> d = subframe_bytes (sx_body v)))"

definition one_issue :: "bytes set \<Rightarrow> int \<Rightarrow> ephemeris \<Rightarrow> bool" where
  "one_issue fs sv e \<longleftrightarrow>
     (\<exists>sf1 sf2 sf3. e = gps_ephemeris sv sf1 sf2 sf3 \<and>
        subframe_of fs sv 1 sf1 \<and> subframe_of fs sv 2 sf2 \<and> subframe_of fs sv 3 sf3 \<and>
        fld (sub sf1 ''body'') ''iodc_lsb'' = fld (sub sf2 ''body'') ''iode'' \<and>
        fld (sub sf2 ''body'') ''iode'' = fld (sub sf3 ''body'') ''iode'')"

lemma gps_cache_update:
  assumes "gps_cache_ok fs sv cache" "from_bytes Gps d = Inr sf" "fld (sub sf ''how'') ''subframe_id'' = k" "k \<in> {1, 2, 3}"
    "carried fs (\<lambda>v. sx_gnss_id v = 0 \<and> sx_sv_id v = sv \<and> d = subframe_bytes (sx_body v))"
  shows "gps_cache_ok fs sv (AList.update k d cache)"
  using assms by (auto simp: gps_cache_ok_def distinct_update dest!: set_alist_update)

lemma gps_cache_length: "gps_cache_ok fs sv cache \<Longrightarrow> length cache \<le> 3"
proof -
  assume ok: "gps_cache_ok fs sv cache"
  then have "set (map fst cache) \<subseteq> {1, 2, 3}" by (fastforce simp: gps_cache_ok_def)
  then have "card (set (map fst cache)) \<le> card {1, 2, 3 :: int}" by (intro card_mono) simp_all
  then show ?thesis using ok distinct_card [of "map fst cache"] by (simp add: gps_cache_ok_def)
qed

lemma parse_gps_step:
  assumes "\<forall>sv. gps_cache_ok fs sv (gps_subframes c sv)" "parse_gps_ephemeris sv body c = (r, c')"
    "carried fs (\<lambda>v. sx_gnss_id v = 0 \<and> sx_sv_id v = sv \<and> sx_body v = body)"
  shows "(\<forall>sv. gps_cache_ok fs sv (gps_subframes c' sv)) \<and>
    (\<forall>e. r = Inl e \<longrightarrow> parse_error e) \<and>
    (\<forall>m. r = Inr (Some m) \<longrightarrow> (\<exists>e. m = Ublox_ephemeris e \<and> one_issue fs sv e)) \<and>
    glonass_strings c' = glonass_strings c \<and> glonass_string_superframes c' = glonass_string_superframes c"
proof (cases "length body = 10 \<and> (\<exists>sf. from_bytes Gps (subframe_bytes body) = Inr sf \<and>
    fld (sub sf ''how'') ''subframe_id'' \<in> {1..3})")
  case False
  then show ?thesis using assms(1,2) from_bytes_err [of Gps "subframe_bytes body"]
    by (auto simp: parse_gps_ephemeris_def Let_def split: if_splits sum.splits)
next
  case True
  then obtain sf k where sf: "length body = 10" "from_bytes Gps (subframe_bytes body) = Inr sf"
    "fld (sub sf ''how'') ''subframe_id'' = k" "1 \<le> k" "k \<le> 3" by auto
  then have k: "k \<in> {1, 2, 3}" by auto
  let ?d = "subframe_bytes body"
  let ?cache = "AList.update k ?d (gps_subframes c sv)"
  let ?c1 = "c\<lparr>gps_subframes := (gps_subframes c)(sv := ?cache)\<rparr>"
  have "carried fs (\<lambda>v. sx_gnss_id v = 0 \<and> sx_sv_id v = sv \<and> ?d = subframe_bytes (sx_body v))"
    using assms(3) by (auto simp: carried_def)
  then have ok: "gps_cache_ok fs sv ?cache"
    using gps_cache_update [OF _ sf(2,3) k] assms(1) by blast
  show ?thesis
  proof (cases "length ?cache = 3")
    case False
    then have "(r, c') = (Inr None, ?c1)" using assms(2) sf by (simp add: parse_gps_ephemeris_def Let_def)
    then show ?thesis using ok assms(1) by simp
  next
    case True
    obtain sf1 d1 where s1: "cached_subframe ?cache 1 ''Subframe1'' = Inr sf1" "from_bytes Gps d1 = Inr sf1"
      "fld (sub sf1 ''how'') ''subframe_id'' = 1" "carried fs (\<lambda>v. sx_gnss_id v = 0 \<and> sx_sv_id v = sv \<and> d1 = subframe_bytes (sx_body v))"
      using cached_subframe_ok [OF ok True, of 1] by (auto simp: subframe_class_def)
    obtain sf2 d2 where s2: "cached_subframe ?cache 2 ''Subframe2'' = Inr sf2" "from_bytes Gps d2 = Inr sf2"
      "fld (sub sf2 ''how'') ''subframe_id'' = 2" "carried fs (\<lambda>v. sx_gnss_id v = 0 \<and> sx_sv_id v = sv \<and> d2 = subframe_bytes (sx_body v))"
      using cached_subframe_ok [OF ok True, of 2] by (auto simp: subframe_class_def)
    obtain sf3 d3 where s3: "cached_subframe ?cache 3 ''Subframe3'' = Inr sf3" "from_bytes Gps d3 = Inr sf3"
      "fld (sub sf3 ''how'') ''subframe_id'' = 3" "carried fs (\<lambda>v. sx_gnss_id v = 0 \<and> sx_sv_id v = sv \<and> d3 = subframe_bytes (sx_body v))"
      using cached_subframe_ok [OF ok True, of 3] by (auto simp: subframe_class_def)
    let ?agree = "fld (sub sf1 ''body'') ''iodc_lsb'' = fld (sub sf2 ''body'') ''iode'' \<and>
        fld (sub sf2 ''body'') ''iode'' = fld (sub sf3 ''body'') ''iode''"
    have r: "(r, c') = (if ?agree then Inr (Some (Ublox_ephemeris (gps_ephemeris sv sf1 sf2 sf3))) else Inr None,
        ?c1\<lparr>gps_subframes := (gps_subframes ?c1)(sv := [])\<rparr>)"
    proof (cases ?agree)
      case True
      then show ?thesis using assms(2) sf \<open>length ?cache = 3\<close> by (simp add: parse_gps_ephemeris_def Let_def s1(1) s2(1) s3(1))
    next
      case False
      then have n: "?agree = False" by blast
      show ?thesis using assms(2) sf True
        unfolding parse_gps_ephemeris_def Let_def by (simp add: s1(1) s2(1) s3(1) n del: de_Morgan_conj)
    qed
    have "?agree \<longrightarrow> one_issue fs sv (gps_ephemeris sv sf1 sf2 sf3)"
      unfolding one_issue_def subframe_of_def using s1 s2 s3 by blast
    with r assms(1) show ?thesis by (auto split: if_splits)
  qed
qed


section \<open>The GLONASS cache\<close>

definition string_parsed :: "int \<Rightarrow> bytes \<Rightarrow> bval \<Rightarrow> bool" where
  "string_parsed k d gl \<longleftrightarrow> from_bytes Glonass d = Inr gl \<and> fld gl ''string_number'' = k"

definition of_channel :: "bytes set \<Rightarrow> int \<Rightarrow> bytes \<Rightarrow> bool" where
  "of_channel fs freq d \<longleftrightarrow> carried fs (\<lambda>v. sx_gnss_id v = 6 \<and> sx_freq_id v = freq \<and> d = string_bytes (sx_body v))"

definition string_entry :: "bytes set \<Rightarrow> int \<Rightarrow> (int \<times> int) list \<Rightarrow> int \<Rightarrow> bytes \<Rightarrow> bool" where
  "string_entry fs freq superframes k d \<longleftrightarrow> k \<in> {1, 2, 3, 4, 5} \<and> length d = 16 \<and> of_channel fs freq d \<and>
     (\<exists>gl. string_parsed k d gl \<and> map_of superframes k = Some (fld gl ''superframe_number''))"

definition one_superframe :: "(int \<times> bytes) list \<Rightarrow> (int \<times> int) list \<Rightarrow> bool" where
  "one_superframe strings superframes \<longleftrightarrow>
     (\<forall>i j d e s t. (i, d) \<in> set strings \<and> (j, e) \<in> set strings \<and> map_of superframes i = Some s \<and> map_of superframes j = Some t \<and>
        s \<noteq> 0 \<and> t \<noteq> 0 \<longrightarrow> s = t)"

definition glonass_cache_ok :: "bytes set \<Rightarrow> int \<Rightarrow> (int \<times> bytes) list \<Rightarrow> (int \<times> int) list \<Rightarrow> bool" where
  "glonass_cache_ok fs freq strings superframes \<longleftrightarrow> distinct (map fst strings) \<and>
     (\<forall>k d. (k, d) \<in> set strings \<longrightarrow> string_entry fs freq superframes k d) \<and> one_superframe strings superframes"

lemma glonass_cache_ok_empty [simp]: "glonass_cache_ok fs freq [] sfs"
  by (simp add: glonass_cache_ok_def one_superframe_def)

lemma of_channel_mono: "of_channel fs freq d \<Longrightarrow> fs \<subseteq> gs \<Longrightarrow> of_channel gs freq d"
  by (auto simp: of_channel_def intro: carried_mono)

lemma glonass_cache_ok_mono: "glonass_cache_ok fs freq strings sfs \<Longrightarrow> fs \<subseteq> gs \<Longrightarrow> glonass_cache_ok gs freq strings sfs"
  unfolding glonass_cache_ok_def string_entry_def using of_channel_mono by blast

lemma correlate_mono: "snd flags \<Longrightarrow> snd (correlate_string now n sf strings sfs ts i flags)"
  by (simp add: correlate_string_def Let_def case_prod_beta)

lemma correlate_fold_mono: "snd flags \<Longrightarrow> snd (fold (correlate_string now n sf strings sfs ts) is flags)"
  by (induction "is" arbitrary: flags) (simp_all add: correlate_mono)

lemma correlate_detects:
  assumes "\<not> snd (fold (correlate_string now n sf strings sfs ts) is flags)" "i \<in> set is" "map_of strings i = Some d"
    "map_of sfs i = Some s"
  shows "s = 0 \<or> sf = 0 \<or> s = sf"
  using assms(1,2)
proof (induction "is" arbitrary: flags)
  case (Cons j js)
  let ?flags = "correlate_string now n sf strings sfs ts j flags"
  have "\<not> snd ?flags" using Cons.prems(1) correlate_fold_mono [of ?flags] by auto
  then show ?case
    using Cons assms(3,4) by (cases "j = i") (auto simp: correlate_string_def Let_def case_prod_beta)
qed simp

lemma not_cleared:
  assumes "\<not> needs_clear now n sf strings sfs ts" "glonass_cache_ok fs freq strings sfs" "(i, d) \<in> set strings" "map_of sfs i = Some s"
  shows "s = 0 \<or> sf = 0 \<or> s = sf"
proof -
  have "map_of strings i = Some d" "i \<in> set [1, 2, 3, 4, 5]"
    using assms(2,3) by (auto simp: glonass_cache_ok_def string_entry_def)
  from correlate_detects [OF assms(1) [unfolded needs_clear_def] this(2) this(1) assms(4)] show ?thesis .
qed

lemma length_string_bytes: "length (string_bytes body) = 4 * length body"
  by (induction body) (simp_all add: string_bytes_def)

lemma one_superframe_empty [simp]: "one_superframe [] sfs"
  by (simp add: one_superframe_def)

lemma glonass_cache_update:
  assumes ok: "glonass_cache_ok fs freq strings sfs" and new: "string_parsed k d gl" "length d = 16" "k \<in> {1, 2, 3, 4, 5}"
    "of_channel fs freq d"
    and agree: "\<And>i e s. (i, e) \<in> set strings \<Longrightarrow> map_of sfs i = Some s \<Longrightarrow> s = 0 \<or> fld gl ''superframe_number'' = 0 \<or> s = fld gl ''superframe_number''"
  shows "glonass_cache_ok fs freq (AList.update k d strings) (AList.update k (fld gl ''superframe_number'') sfs)"
proof -
  let ?sf = "fld gl ''superframe_number''"
  have sfs: "map_of (AList.update k ?sf sfs) j = (if j = k then Some ?sf else map_of sfs j)" for j
    by (simp add: update_conv')
  have entry: "string_entry fs freq (AList.update k ?sf sfs) j e" if "(j, e) \<in> set (AList.update k d strings)" for j e
  proof (cases "j = k")
    case True
    have "(k, d) \<in> set (AList.update k d strings)" by (rule map_of_SomeD) (simp add: update_conv')
    moreover have "distinct (map fst (AList.update k d strings))"
      using ok by (simp add: glonass_cache_ok_def distinct_update)
    ultimately have "e = d" using that True by (metis Some_eq_map_of_iff option.inject)
    then show ?thesis using new True by (auto simp: string_entry_def sfs)
  next
    case False
    then have "(j, e) \<in> set strings" using set_alist_update [OF that] by simp
    then have "string_entry fs freq sfs j e" using ok by (simp add: glonass_cache_ok_def)
    then show ?thesis using False by (simp add: string_entry_def sfs)
  qed
  have "one_superframe (AList.update k d strings) (AList.update k ?sf sfs)"
    unfolding one_superframe_def
  proof (intro allI impI, elim conjE)
    fix i j di dj s t
    assume a: "(i, di) \<in> set (AList.update k d strings)" "(j, dj) \<in> set (AList.update k d strings)"
      "map_of (AList.update k ?sf sfs) i = Some s" "map_of (AList.update k ?sf sfs) j = Some t" "s \<noteq> 0" "t \<noteq> 0"
    have old: "\<exists>e. (l, e) \<in> set strings" if "(l, dl) \<in> set (AList.update k d strings)" "l \<noteq> k" for l dl
      using set_alist_update [OF that(1)] that(2) by blast
    consider "i = k" "j = k" | "i = k" "j \<noteq> k" | "i \<noteq> k" "j = k" | "i \<noteq> k" "j \<noteq> k" by blast
    then show "s = t"
    proof cases
      case 1
      then show ?thesis using a(3,4) unfolding sfs by simp
    next
      case 2
      then show ?thesis using a agree old [OF a(2)] unfolding sfs by auto
    next
      case 3
      then show ?thesis using a agree old [OF a(1)] unfolding sfs by auto
    next
      case 4
      obtain ei ej where "(i, ei) \<in> set strings" "(j, ej) \<in> set strings" using old [OF a(1) 4(1)] old [OF a(2) 4(2)] by blast
      moreover have "one_superframe strings sfs" using ok by (simp add: glonass_cache_ok_def)
      ultimately show ?thesis using a(3-6) 4 unfolding one_superframe_def sfs by auto
    qed
  qed
  with entry ok show ?thesis by (simp add: glonass_cache_ok_def distinct_update)
qed


text \<open>What a GLONASS ephemeris must be made of: the strings 1 to 5 of the channel, whose superframe
  numbers agree where they are known.\<close>

definition string_set :: "bytes set \<Rightarrow> int \<Rightarrow> (int \<Rightarrow> bval) \<Rightarrow> bool" where
  "string_set fs freq g \<longleftrightarrow>
     (\<forall>k \<in> {1, 2, 3, 4, 5}. \<exists>d. string_parsed k d (g k) \<and> of_channel fs freq d) \<and>
     (\<forall>i \<in> {1, 2, 3, 4, 5}. \<forall>j \<in> {1, 2, 3, 4, 5}. fld (g i) ''superframe_number'' \<noteq> 0 \<and> fld (g j) ''superframe_number'' \<noteq> 0 \<longrightarrow>
        fld (g i) ''superframe_number'' = fld (g j) ''superframe_number'')"

definition one_set :: "bytes set \<Rightarrow> int \<Rightarrow> glonass_ephemeris \<Rightarrow> bool" where
  "one_set fs freq e \<longleftrightarrow>
     (\<exists>sv g. e = glonass_eph sv freq (sub (g 1) ''data'') (sub (g 2) ''data'') (sub (g 3) ''data'') (sub (g 4) ''data'') (sub (g 5) ''data'') \<and>
        string_set fs freq g)"

lemma cached_string_ok:
  assumes "glonass_cache_ok fs freq strings sfs" "length strings = 5" "k \<in> {1, 2, 3, 4, 5}"
  shows "\<exists>gl d. cached_string strings k (string_class k) = Inr (sub gl ''data'') \<and> string_parsed k d gl \<and> of_channel fs freq d \<and>
    (k, d) \<in> set strings \<and> map_of sfs k = Some (fld gl ''superframe_number'')"
proof -
  have "fst ` set strings \<subseteq> {1, 2, 3, 4, 5}" using assms(1) by (fastforce simp: glonass_cache_ok_def string_entry_def)
  then obtain d where d: "map_of strings k = Some d" "(k, d) \<in> set strings"
    using keys_full [of strings "{1, 2, 3, 4, 5}" k] assms by (auto simp: glonass_cache_ok_def)
  have "string_entry fs freq sfs k d" using assms(1) d(2) by (simp add: glonass_cache_ok_def)
  then obtain gl where gl: "length d = 16" "of_channel fs freq d" "string_parsed k d gl" "map_of sfs k = Some (fld gl ''superframe_number'')"
    unfolding string_entry_def by blast
  obtain gl' i where g: "from_bytes Glonass d = Inr gl'" "getattr gl' ''string_number'' = Inr (VInt i)"
      "is_instance (sub gl' ''data'') (string_class i)"
    using glonass_object [OF gl(1)] by blast
  have "gl' = gl" using g(1) gl(3) by (simp add: string_parsed_def)
  moreover have "i = k" using fld_VInt [OF g(2)] gl(3) calculation by (simp add: string_parsed_def)
  ultimately have inst: "is_instance (sub gl ''data'') (string_class k)" and "from_bytes Glonass d = Inr gl" using g by simp_all
  then have "cached_string strings k (string_class k) = Inr (sub gl ''data'')"
    by (simp only: cached_string_def d(1) option.case sum.case rbind_simps if_True)
  with gl d(2) show ?thesis by blast
qed

lemma cached_strings_ok:
  assumes ok: "glonass_cache_ok fs freq strings sfs" and len: "length strings = 5"
  obtains g where "\<And>k. k \<in> {1, 2, 3, 4, 5} \<Longrightarrow> cached_string strings k (string_class k) = Inr (sub (g k) ''data'')"
    "one_set fs freq (glonass_eph sv freq (sub (g 1) ''data'') (sub (g 2) ''data'') (sub (g 3) ''data'') (sub (g 4) ''data'') (sub (g 5) ''data''))"
proof -
  have "\<forall>k. \<exists>gl. k \<in> {1, 2, 3, 4, 5} \<longrightarrow> (\<exists>d. cached_string strings k (string_class k) = Inr (sub gl ''data'') \<and> string_parsed k d gl \<and>
      of_channel fs freq d \<and> (k, d) \<in> set strings \<and> map_of sfs k = Some (fld gl ''superframe_number''))"
    using cached_string_ok [OF ok len] by blast
  then obtain g where g: "\<And>k. k \<in> {1, 2, 3, 4, 5} \<Longrightarrow> \<exists>d. cached_string strings k (string_class k) = Inr (sub (g k) ''data'') \<and>
      string_parsed k d (g k) \<and> of_channel fs freq d \<and> (k, d) \<in> set strings \<and> map_of sfs k = Some (fld (g k) ''superframe_number'')"
    by metis
  have agree: "fld (g i) ''superframe_number'' = fld (g j) ''superframe_number''"
    if ij: "i \<in> {1, 2, 3, 4, 5}" "j \<in> {1, 2, 3, 4, 5}" "fld (g i) ''superframe_number'' \<noteq> 0" "fld (g j) ''superframe_number'' \<noteq> 0" for i j
  proof -
    obtain d e where "(i, d) \<in> set strings" "map_of sfs i = Some (fld (g i) ''superframe_number'')"
      "(j, e) \<in> set strings" "map_of sfs j = Some (fld (g j) ''superframe_number'')"
      using g [OF ij(1)] g [OF ij(2)] by blast
    moreover have "one_superframe strings sfs" using ok by (simp add: glonass_cache_ok_def)
    ultimately show ?thesis using ij(3,4) unfolding one_superframe_def by blast
  qed
  show thesis
  proof (rule that [of g])
    show "one_set fs freq (glonass_eph sv freq (sub (g 1) ''data'') (sub (g 2) ''data'') (sub (g 3) ''data'') (sub (g 4) ''data'') (sub (g 5) ''data''))"
      unfolding one_set_def string_set_def
    proof (intro exI [of _ sv] exI [of _ g] conjI refl ballI impI)
      fix k :: int assume "k \<in> {1, 2, 3, 4, 5}"
      from g [OF this] show "\<exists>d. string_parsed k d (g k) \<and> of_channel fs freq d" by blast
    next
      fix i j :: int assume "i \<in> {1, 2, 3, 4, 5}" "j \<in> {1, 2, 3, 4, 5}"
        "fld (g i) ''superframe_number'' \<noteq> 0 \<and> fld (g j) ''superframe_number'' \<noteq> 0"
      then show "fld (g i) ''superframe_number'' = fld (g j) ''superframe_number''" using agree [of i j] by blast
    qed
  qed (use g in blast)
qed

lemma parse_glonass_step:
  assumes "\<forall>freq. glonass_cache_ok fs freq (glonass_strings c freq) (glonass_string_superframes c freq)"
    "parse_glonass_ephemeris now sv freq body c = (r, c')"
    "carried fs (\<lambda>v. sx_gnss_id v = 6 \<and> sx_freq_id v = freq \<and> sx_body v = body)"
  shows "(\<forall>freq. glonass_cache_ok fs freq (glonass_strings c' freq) (glonass_string_superframes c' freq)) \<and>
    (\<forall>e. r = Inl e \<longrightarrow> parse_error e) \<and>
    (\<forall>m. r = Inr (Some m) \<longrightarrow> (\<exists>e. m = Ublox_glonassEphemeris e \<and> one_set fs freq e)) \<and>
    gps_subframes c' = gps_subframes c"
proof (cases "length body = 4")
  case False
  then show ?thesis using assms(1,2) by (auto simp: parse_glonass_ephemeris_def)
next
  case four: True
  let ?d = "string_bytes body"
  have d16: "length ?d = 16" using four by (simp add: length_string_bytes)
  obtain gl where gl: "from_bytes Glonass ?d = Inr gl" using glonass_object [OF d16] by blast
  define k where "k = fld gl ''string_number''"
  let ?sf = "fld gl ''superframe_number''"
  show ?thesis
  proof (cases "k < 1 \<or> 5 < k \<or> flag gl ''idle_chip''")
    case True
    then show ?thesis using assms(1,2) four gl by (auto simp: parse_glonass_ephemeris_def Let_def k_def)
  next
    case False
    then have k: "k \<in> {1, 2, 3, 4, 5}" by auto
    have parsed: "string_parsed k ?d gl" by (simp add: string_parsed_def gl k_def)
    have chan: "of_channel fs freq ?d" using assms(3) by (auto simp: of_channel_def carried_def)
    define clear where "clear = needs_clear now k ?sf (glonass_strings c freq) (glonass_string_superframes c freq) (glonass_string_times c freq)"
    define strings where "strings = AList.update k ?d (if clear then [] else glonass_strings c freq)"
    define sfs where "sfs = AList.update k ?sf (if clear then [] else glonass_string_superframes c freq)"
    define c1 where "c1 = c\<lparr>glonass_strings := (glonass_strings c)(freq := strings),
        glonass_string_superframes := (glonass_string_superframes c)(freq := sfs),
        glonass_string_times := (glonass_string_times c)(freq := AList.update k now (if clear then [] else glonass_string_times c freq))\<rparr>"
    have ok: "glonass_cache_ok fs freq strings sfs"
    proof (cases clear)
      case True
      then show ?thesis
        using glonass_cache_update [OF _ parsed d16 k chan, of "[]" "[]"] by (simp add: strings_def sfs_def)
    next
      case False
      note old = assms(1) [rule_format, of freq]
      show ?thesis
        using glonass_cache_update [OF old parsed d16 k chan] not_cleared [OF False [unfolded clear_def] old] False
        by (simp add: strings_def sfs_def)
    qed
    show ?thesis
    proof (cases "sv = 255 \<or> length strings \<noteq> 5")
      case True
      then have "(r, c') = (Inr None, c1)"
        using assms(2) False four gl
        by (simp add: parse_glonass_ephemeris_def Let_def k_def [symmetric] clear_def [symmetric] strings_def [symmetric] sfs_def [symmetric] c1_def)
      then show ?thesis using ok assms(1) by (simp add: c1_def)
    next
      case full: False
      then have len: "length strings = 5" by simp
      obtain g where g: "\<And>k. k \<in> {1, 2, 3, 4, 5} \<Longrightarrow> cached_string strings k (string_class k) = Inr (sub (g k) ''data'')"
        "one_set fs freq (glonass_eph sv freq (sub (g 1) ''data'') (sub (g 2) ''data'') (sub (g 3) ''data'') (sub (g 4) ''data'') (sub (g 5) ''data''))"
        using cached_strings_ok [OF ok len] by blast
      have "(r, c') = (Inr (Some (Ublox_glonassEphemeris (glonass_eph sv freq (sub (g 1) ''data'') (sub (g 2) ''data'') (sub (g 3) ''data'')
            (sub (g 4) ''data'') (sub (g 5) ''data'')))), c1\<lparr>glonass_strings := (glonass_strings c1)(freq := [])\<rparr>)"
        using assms(2) False four gl full g(1) [of 1] g(1) [of 2] g(1) [of 3] g(1) [of 4] g(1) [of 5]
        by (simp add: parse_glonass_ephemeris_def Let_def k_def [symmetric] clear_def [symmetric] strings_def [symmetric] sfs_def [symmetric]
          c1_def string_class_def)
      then show ?thesis using g(2) assms(1) by (auto simp: c1_def)
    qed
  qed
qed


section \<open>A frame, and a session\<close>

definition caches_ok :: "bytes set \<Rightarrow> ephemeris_caches \<Rightarrow> bool" where
  "caches_ok fs c \<longleftrightarrow> (\<forall>sv. gps_cache_ok fs sv (gps_subframes c sv)) \<and>
     (\<forall>freq. glonass_cache_ok fs freq (glonass_strings c freq) (glonass_string_superframes c freq))"

lemma caches_ok_mono: "caches_ok fs c \<Longrightarrow> fs \<subseteq> gs \<Longrightarrow> caches_ok gs c"
  unfolding caches_ok_def using gps_cache_ok_mono glonass_cache_ok_mono by blast

text \<open>The ephemerides of a message are assembled from the frames \<open>fs\<close>.\<close>

definition from_frames :: "bytes set \<Rightarrow> ublox_msg \<Rightarrow> bool" where
  "from_frames fs m \<longleftrightarrow>
     (case m of Ublox_ephemeris e \<Rightarrow> one_issue fs (ep_svId e) e
      | Ublox_glonassEphemeris e \<Rightarrow> one_set fs (ge_freqNum e + 7) e | _ \<Rightarrow> True)"

lemma one_issue_mono: "one_issue fs sv e \<Longrightarrow> fs \<subseteq> gs \<Longrightarrow> one_issue gs sv e"
proof -
  assume "fs \<subseteq> gs"
  then have "subframe_of fs sv k sf \<Longrightarrow> subframe_of gs sv k sf" for k sf
    by (auto simp: subframe_of_def intro: carried_mono)
  then show "one_issue fs sv e \<Longrightarrow> one_issue gs sv e" unfolding one_issue_def by blast
qed

lemma one_set_mono: "one_set fs freq e \<Longrightarrow> fs \<subseteq> gs \<Longrightarrow> one_set gs freq e"
proof -
  assume "fs \<subseteq> gs"
  then have "string_set fs freq g \<Longrightarrow> string_set gs freq g" for g
    unfolding string_set_def by (meson of_channel_mono)
  then show "one_set fs freq e \<Longrightarrow> one_set gs freq e" unfolding one_set_def by blast
qed

lemma from_frames_mono: "from_frames fs m \<Longrightarrow> fs \<subseteq> gs \<Longrightarrow> from_frames gs m"
  unfolding from_frames_def by (cases m) (auto intro: one_issue_mono one_set_mono)

lemma ephemeris_ids [simp]:
  "ep_svId (gps_ephemeris sv sf1 sf2 sf3) = sv" "ge_freqNum (glonass_eph sv freq s1 s2 s3 s4 s5) = freq - 7"
  by (simp_all add: gps_ephemeris_def glonass_eph_def Let_def)

lemma one_issue_sv: "one_issue fs sv e \<Longrightarrow> one_issue fs (ep_svId e) e"
proof -
  assume o: "one_issue fs sv e"
  then obtain sf1 sf2 sf3 where "e = gps_ephemeris sv sf1 sf2 sf3" unfolding one_issue_def by blast
  with o show ?thesis by simp
qed

lemma one_set_freq: "one_set fs freq e \<Longrightarrow> one_set fs (ge_freqNum e + 7) e"
proof -
  assume o: "one_set fs freq e"
  then obtain sv s1 s2 s3 s4 s5 where "e = glonass_eph sv freq s1 s2 s3 s4 s5" unfolding one_set_def by blast
  with o show ?thesis by simp
qed

lemma map_results_err: "map_results f xs = Inl e \<Longrightarrow> \<exists>x \<in> set xs. f x = Inl e"
  by (induction xs) (auto simp: rbind_Inl_iff)

lemma enum_value_err: "enum_value v n = Inl e \<Longrightarrow> e = AttributeError"
  by (auto simp: enum_value_def split: bval.splits)

lemma report_errors:
  "gen_rxm_rawx msg = Inl e \<Longrightarrow> parse_error e" "gen_nav_sat msg = Inl e \<Longrightarrow> parse_error e" "gen_mon_hw msg = Inl e \<Longrightarrow> parse_error e"
  by (auto simp: gen_rxm_rawx_def gen_nav_sat_def gen_mon_hw_def gen_measurement_def gen_sat_info_def rbind_Inl_iff parse_error_def
      dest!: map_results_err enum_value_err)

lemma plain_messages:
  "gen_rxm_rawx msg = Inr m \<Longrightarrow> from_frames fs m" "gen_nav_sat msg = Inr m \<Longrightarrow> from_frames fs m" "gen_mon_hw msg = Inr m \<Longrightarrow> from_frames fs m"
  "from_frames fs (gen_nav_pvt msg)" "from_frames fs (gen_mon_hw2 msg)"
  by (auto simp: gen_rxm_rawx_def gen_nav_sat_def gen_mon_hw_def gen_nav_pvt_def gen_mon_hw2_def from_frames_def rbind_Inr_iff Let_def)

lemma parse_frame_step:
  assumes "caches_ok fs c" "parse_frame now f c = (r, c')"
  shows "caches_ok (insert f fs) c' \<and> (\<forall>e. r = Inl e \<longrightarrow> parse_error e) \<and> (\<forall>m. r = Inr (Some m) \<longrightarrow> from_frames (insert f fs) m)"
proof (cases "msg_type_of f = 0x0213")
  case False
  have ok: "caches_ok (insert f fs) c" by (rule caches_ok_mono [OF assms(1)]) auto
  note facts = from_bytes_err report_errors plain_messages
  from assms(2) False have "c' = c" by (auto simp: parse_frame_def Let_def split: if_splits)
  moreover have "parse_error e" if "r = Inl e" for e
    using assms(2) False that by (auto simp: parse_frame_def Let_def rbind_Inl_iff split: if_splits intro: facts)
  moreover have "from_frames (insert f fs) m" if "r = Inr (Some m)" for m
    using assms(2) False that by (auto simp: parse_frame_def Let_def rbind_Inr_iff split: if_splits intro: facts)
  ultimately show ?thesis using ok by blast
next
  case sfrbx: True
  let ?fs = "insert f fs"
  have ok: "caches_ok ?fs c" by (rule caches_ok_mono [OF assms(1)]) auto
  from assms(2) sfrbx have step: "parse_sfrbx now (payload_of f) c = (r, c')" by (simp add: parse_frame_def)
  show ?thesis
  proof (cases "sfrbx_of (payload_of f)")
    case None
    then show ?thesis using step ok by (auto simp: parse_sfrbx_def)
  next
    case (Some v)
    have carried: "carried ?fs P" if "P v" for P using sfrbx Some that by (auto simp: carried_def)
    consider (gps) "sx_gnss_id v = 0" | (glonass) "sx_gnss_id v = 6" | (other) "sx_gnss_id v \<noteq> 0" "sx_gnss_id v \<noteq> 6" by blast
    then show ?thesis
    proof cases
      case gps
      then have "parse_gps_ephemeris (sx_sv_id v) (sx_body v) c = (r, c')"
        using step Some by (simp add: parse_sfrbx_def gen_rxm_sfrbx_def GnssType_def)
      from parse_gps_step [OF _ this, of ?fs] ok gps carried
      have "(\<forall>sv. gps_cache_ok ?fs sv (gps_subframes c' sv)) \<and> (\<forall>e. r = Inl e \<longrightarrow> parse_error e) \<and>
          (\<forall>m. r = Inr (Some m) \<longrightarrow> (\<exists>e. m = Ublox_ephemeris e \<and> one_issue ?fs (sx_sv_id v) e)) \<and>
          glonass_strings c' = glonass_strings c \<and> glonass_string_superframes c' = glonass_string_superframes c"
        by (simp add: caches_ok_def)
      then show ?thesis using ok one_issue_sv [of ?fs "sx_sv_id v"] by (auto simp: caches_ok_def from_frames_def)
    next
      case glonass
      then have "parse_glonass_ephemeris now (sx_sv_id v) (sx_freq_id v) (sx_body v) c = (r, c')"
        using step Some by (simp add: parse_sfrbx_def gen_rxm_sfrbx_def GnssType_def)
      from parse_glonass_step [OF _ this, of ?fs] ok glonass carried
      have "(\<forall>freq. glonass_cache_ok ?fs freq (glonass_strings c' freq) (glonass_string_superframes c' freq)) \<and>
          (\<forall>e. r = Inl e \<longrightarrow> parse_error e) \<and>
          (\<forall>m. r = Inr (Some m) \<longrightarrow> (\<exists>e. m = Ublox_glonassEphemeris e \<and> one_set ?fs (sx_freq_id v) e)) \<and>
          gps_subframes c' = gps_subframes c"
        by (simp add: caches_ok_def)
      then show ?thesis using ok one_set_freq [of ?fs "sx_freq_id v"] by (auto simp: caches_ok_def from_frames_def)
    next
      case other
      then show ?thesis using step Some ok by (auto simp: parse_sfrbx_def gen_rxm_sfrbx_def parse_error_def split: if_splits)
    qed
  qed
qed

lemma parse_frames_ok:
  assumes "caches_ok hist c"
  shows "caches_ok (hist \<union> set fs) (snd (parse_frames now fs c)) \<and> (\<forall>m \<in> set (fst (parse_frames now fs c)). from_frames (hist \<union> set fs) m)"
  using assms
proof (induction fs arbitrary: hist c)
  case (Cons f fs)
  obtain r c1 where step: "parse_frame now f c = (r, c1)" by fastforce
  note ok = parse_frame_step [OF Cons.prems step]
  have IH: "caches_ok (insert f hist \<union> set fs) (snd (parse_frames now fs c1)) \<and>
      (\<forall>m \<in> set (fst (parse_frames now fs c1)). from_frames (insert f hist \<union> set fs) m)"
    by (rule Cons.IH) (use ok in blast)
  have "from_frames (insert f hist \<union> set fs) m" if "m \<in> set (published r)" for m
    using that ok by (auto simp: published_def split: sum.splits option.splits intro: from_frames_mono)
  with IH step show ?case by (simp add: case_prod_beta Un_commute) (metis UnE)
qed simp

end
