(* ===== verification/FramerProps.thy ===== *)
theory FramerProps
  imports UbxFramer
begin

text \<open>
  The framing of the raw receiver stream: every frame the framer returns is a checksummed frame,
  its buffer stays bounded, a stream of frames is recovered however it is cut into reads, and the
  frames do not depend on the cuts unless a read ends in the first preamble byte.
\<close>

section \<open>Frames\<close>

definition ubx_frame :: "bytes \<Rightarrow> bool" where
  "ubx_frame f \<longleftrightarrow> 8 \<le> length f \<and> take 2 f = [PREAMBLE1, PREAMBLE2] \<and> length f = frame_length f \<and> checksum_ok f"

lemma int_of_bytes_bounds: "0 \<le> int_of_bytes big bs \<and> int_of_bytes big bs < 256 ^ length bs"
proof -
  have "0 \<le> horner_sum uint 256 xs \<and> horner_sum uint 256 xs < (256 :: int) ^ length xs" for xs :: bytes
  proof (induction xs)
    case (Cons x xs)
    have "0 \<le> uint x" "uint x < 256" using uint_lt2p [of x] by simp_all
    with Cons show ?case by simp
  qed simp
  from this [of bs] this [of "rev bs"] show ?thesis by (simp add: int_of_bytes_def)
qed

lemma frame_length_bounds: "8 \<le> frame_length buf" "frame_length buf < 65544"
proof -
  have "length (take 2 (drop 4 buf)) \<le> 2" by simp
  then have "(256 :: int) ^ length (take 2 (drop 4 buf)) \<le> 256 ^ 2" by (rule power_increasing) simp
  then have "int_of_bytes False (take 2 (drop 4 buf)) < 65536"
    using int_of_bytes_bounds [of False "take 2 (drop 4 buf)"] power2_eq_square [of "256 :: int"] by linarith
  then show "frame_length buf < 65544" by (simp add: frame_length_def HEADER_SIZE_def CHECKSUM_SIZE_def)
qed (simp add: frame_length_def HEADER_SIZE_def CHECKSUM_SIZE_def)

lemma frame_length_append: "6 \<le> length buf \<Longrightarrow> frame_length (buf @ ys) = frame_length buf"
  by (simp add: frame_length_def)

lemma find_preamble_Some:
  "find_preamble xs = Some k \<Longrightarrow> take 2 (drop k xs) = [PREAMBLE1, PREAMBLE2] \<and> k + 2 \<le> length xs"
  by (induction xs arbitrary: k rule: find_preamble.induct) (auto split: if_splits)

lemma find_preamble_append: "find_preamble xs = Some k \<Longrightarrow> find_preamble (xs @ ys) = Some k"
  by (induction xs arbitrary: k rule: find_preamble.induct) (auto split: if_splits)

lemma find_preamble_head: "take 2 xs = [PREAMBLE1, PREAMBLE2] \<Longrightarrow> find_preamble xs = Some 0"
  by (cases xs rule: find_preamble.cases) auto

text \<open>What the loop does with a buffer that starts with the preamble.\<close>

lemma frame_loop_head:
  assumes "take 2 buf = [PREAMBLE1, PREAMBLE2]"
  shows "frame_loop buf =
    (if length buf < 6 \<or> length buf < frame_length buf then ([], buf)
     else if checksum_ok (take (frame_length buf) buf)
       then (take (frame_length buf) buf # fst (frame_loop (drop (frame_length buf) buf)), snd (frame_loop (drop (frame_length buf) buf)))
       else frame_loop (drop 1 buf))"
proof -
  have "\<not> length buf < 2" using arg_cong [OF assms, of length] by (simp add: min_def split: if_splits)
  then show ?thesis
    by (subst frame_loop.simps) (simp add: find_preamble_head [OF assms] Let_def HEADER_SIZE_def case_prod_beta)
qed

lemma frame_loop_short: "length buf < 2 \<Longrightarrow> frame_loop buf = ([], buf)"
  by (subst frame_loop.simps) simp

lemma frame_loop_none: "2 \<le> length buf \<Longrightarrow> find_preamble buf = None \<Longrightarrow> frame_loop buf = ([], [])"
  by (subst frame_loop.simps) simp

lemma frame_loop_skip:
  assumes "find_preamble buf = Some k"
  shows "frame_loop buf = frame_loop (drop k buf)"
proof -
  note k = find_preamble_Some [OF assms]
  then have "\<not> length buf < 2" "\<not> length (drop k buf) < 2" unfolding length_drop by linarith+
  then show ?thesis
    by (subst (1 2) frame_loop.simps) (simp add: assms find_preamble_head [OF k [THEN conjunct1]])
qed

text \<open>Computation by cases: short, no preamble, garbage to skip, or a preamble at the head.\<close>

lemma frame_loop_cases:
  obtains (short) "length buf < 2"
  | (none) "2 \<le> length buf" "find_preamble buf = None"
  | (skip) k where "find_preamble buf = Some k" "0 < k"
  | (head) "take 2 buf = [PREAMBLE1, PREAMBLE2]"
proof (cases "length buf < 2")
  case False
  then show thesis
    using none skip head find_preamble_Some [of buf] by (cases "find_preamble buf") (auto simp: not_less, metis drop0 gr0I)
qed (rule short)

lemma frame_loop_induct [case_names short none skip wait frame retry]:
  assumes "\<And>buf. length buf < 2 \<Longrightarrow> P buf"
    and "\<And>buf. 2 \<le> length buf \<Longrightarrow> find_preamble buf = None \<Longrightarrow> P buf"
    and "\<And>buf k. find_preamble buf = Some k \<Longrightarrow> 0 < k \<Longrightarrow> P (drop k buf) \<Longrightarrow> P buf"
    and "\<And>buf. take 2 buf = [PREAMBLE1, PREAMBLE2] \<Longrightarrow> length buf < 6 \<or> length buf < frame_length buf \<Longrightarrow> P buf"
    and "\<And>buf. take 2 buf = [PREAMBLE1, PREAMBLE2] \<Longrightarrow> 6 \<le> length buf \<Longrightarrow> frame_length buf \<le> length buf \<Longrightarrow>
        checksum_ok (take (frame_length buf) buf) \<Longrightarrow> P (drop (frame_length buf) buf) \<Longrightarrow> P buf"
    and "\<And>buf. take 2 buf = [PREAMBLE1, PREAMBLE2] \<Longrightarrow> 6 \<le> length buf \<Longrightarrow> frame_length buf \<le> length buf \<Longrightarrow>
        \<not> checksum_ok (take (frame_length buf) buf) \<Longrightarrow> P (drop 1 buf) \<Longrightarrow> P buf"
  shows "P buf"
proof (induction buf rule: length_induct)
  case (1 buf)
  then have IH: "0 < k \<Longrightarrow> 0 < length buf \<Longrightarrow> P (drop k buf)" for k by simp
  show ?case
  proof (cases buf rule: frame_loop_cases)
    case (skip k)
    then have "0 < length buf" using find_preamble_Some [of buf k] by linarith
    from assms(3) [OF skip IH [OF skip(2) this]] show ?thesis .
  next
    case head
    then have pos: "0 < length buf" by auto
    consider (wait) "length buf < 6 \<or> length buf < frame_length buf"
      | (frame) "6 \<le> length buf" "frame_length buf \<le> length buf" "checksum_ok (take (frame_length buf) buf)"
      | (retry) "6 \<le> length buf" "frame_length buf \<le> length buf" "\<not> checksum_ok (take (frame_length buf) buf)"
      by (meson not_less)
    then show ?thesis
    proof cases
      case wait
      with head show ?thesis by (rule assms(4))
    next
      case frame
      have "0 < frame_length buf" using frame_length_bounds(1) [of buf] by linarith
      from assms(5) [OF head frame IH [OF this pos]] show ?thesis .
    next
      case retry
      from assms(6) [OF head retry IH [OF zero_less_one pos]] show ?thesis .
    qed
  qed (use assms(1,2) in auto)
qed

theorem frame_loop_frames:
  "\<forall>f \<in> set (fst (frame_loop buf)). ubx_frame f"
proof (induction buf rule: frame_loop_induct)
  case (frame buf)
  have "frame_length (take (frame_length buf) buf) = frame_length buf"
    using frame_length_append [of "take (frame_length buf) buf" "drop (frame_length buf) buf"]
      frame(2,3) frame_length_bounds(1) [of buf] by simp
  then have "ubx_frame (take (frame_length buf) buf)"
    using frame(1,3,4) frame_length_bounds(1) [of buf] by (simp add: ubx_frame_def min_def)
  with frame show ?case by (simp add: frame_loop_head)
qed (simp_all add: frame_loop_short frame_loop_none frame_loop_skip frame_loop_head)

theorem frame_loop_buffer:
  "length (snd (frame_loop buf)) < 65544 \<and>
   (length (snd (frame_loop buf)) < 2 \<or> take 2 (snd (frame_loop buf)) = [PREAMBLE1, PREAMBLE2])"
proof (induction buf rule: frame_loop_induct)
  case (wait buf)
  then show ?case using frame_length_bounds(2) [of buf] by (auto simp: frame_loop_head)
qed (simp_all add: frame_loop_short frame_loop_none frame_loop_skip frame_loop_head)


section \<open>Streams of frames\<close>

lemma ubx_frame_head:
  assumes "ubx_frame f"
  shows "frame_loop (f @ rest) = (f # fst (frame_loop rest), snd (frame_loop rest))"
proof -
  have f: "8 \<le> length f" "take 2 f = [PREAMBLE1, PREAMBLE2]" "frame_length f = length f" "checksum_ok f"
    using assms by (auto simp: ubx_frame_def)
  then have "frame_length (f @ rest) = length f" by (simp add: frame_length_append)
  with f frame_loop_head [of "f @ rest"] show ?thesis by simp
qed

text \<open>A part of a frame is kept until the rest arrives.\<close>

lemma ubx_frame_part:
  assumes "ubx_frame (p @ q)" "q \<noteq> []"
  shows "frame_loop p = ([], p)"
proof (cases "length p < 2")
  case False
  then have "take 2 p = [PREAMBLE1, PREAMBLE2]" using assms(1) by (simp add: ubx_frame_def)
  moreover have "length p < frame_length p" if "6 \<le> length p"
  proof -
    have "length p + length q = frame_length p"
      using assms(1) frame_length_append [OF that] by (simp add: ubx_frame_def)
    moreover have "0 < length q" using assms(2) by simp
    ultimately show ?thesis by linarith
  qed
  ultimately show ?thesis by (cases "6 \<le> length p") (simp_all add: frame_loop_head)
qed (rule frame_loop_short, simp)

definition partial_frame :: "bytes \<Rightarrow> bool" where
  "partial_frame p \<longleftrightarrow> p = [] \<or> (\<exists>q. q \<noteq> [] \<and> ubx_frame (p @ q))"

lemma frame_loop_stream:
  assumes "\<forall>f \<in> set fs. ubx_frame f" "partial_frame p"
  shows "frame_loop (concat fs @ p) = (fs, p)"
  using assms(1)
proof (induction fs)
  case Nil
  then show ?case using assms(2) by (auto simp: partial_frame_def ubx_frame_part frame_loop_short)
next
  case (Cons f fs)
  then show ?case by (simp add: ubx_frame_head)
qed

text \<open>Any prefix of a stream of frames is some of the frames and a part of the next.\<close>

lemma stream_prefix:
  assumes "\<forall>f \<in> set fs. ubx_frame f" "xs @ ys = concat fs"
  obtains gs hs p where "fs = gs @ hs" "xs = concat gs @ p" "partial_frame p" "p @ ys = concat hs"
  using assms
proof (induction fs arbitrary: xs thesis)
  case Nil
  from Nil(1) [of "[]" "[]" "[]"] Nil(3) show ?case by (simp add: partial_frame_def)
next
  case (Cons f fs)
  show ?case
  proof (cases "length f \<le> length xs")
    case True
    have "xs = f @ drop (length f) xs" "drop (length f) xs @ ys = concat fs"
      using arg_cong [OF Cons.prems(3), of "take (length f)"] arg_cong [OF Cons.prems(3), of "drop (length f)"] True
      by (simp_all, metis append_take_drop_id)
    moreover obtain gs hs p where "fs = gs @ hs" "drop (length f) xs = concat gs @ p" "partial_frame p" "p @ ys = concat hs"
      using Cons.IH [OF _ _ calculation(2)] Cons.prems(2) by auto
    ultimately show thesis using Cons.prems(1) [of "f # gs" hs p] by simp
  next
    case False
    have "take (length xs) f = xs" using arg_cong [OF Cons.prems(3), of "take (length xs)"] False by simp
    then have "f = xs @ drop (length xs) f" by (metis append_take_drop_id)
    then have "partial_frame xs"
      unfolding partial_frame_def using False Cons.prems(2)
      by (metis append_Nil2 le_refl list.set_intros(1))
    with Cons.prems(1) [of "[]" "f # fs" xs] Cons.prems(3) show thesis by simp
  qed
qed

section \<open>Reads\<close>

text \<open>The reads of a session, each with its time, and all the frames they give.\<close>

fun feed :: "(real \<times> bytes) list \<Rightarrow> ubx_framer \<Rightarrow> bytes list \<times> ubx_framer" where
  "feed [] fr = ([], fr)"
| "feed ((t, c) # cs) fr =
     (let (out, fr1) = add_data t c fr; (outs, fr2) = feed cs fr1 in (out @ outs, fr2))"

lemma add_data_buffer:
  assumes "frame_loop (fr_buf fr) = ([], fr_buf fr)"
  shows "fst (add_data t c fr) = fst (frame_loop (fr_buf fr @ c))"
    "fr_buf (snd (add_data t c fr)) = snd (frame_loop (fr_buf fr @ c))"
  using assms by (simp_all add: add_data_def Let_def case_prod_beta)

lemma feed_Cons:
  "fst (feed ((t, c) # cs) fr) = fst (add_data t c fr) @ fst (feed cs (snd (add_data t c fr)))"
  "snd (feed ((t, c) # cs) fr) = snd (feed cs (snd (add_data t c fr)))"
  by (simp_all add: Let_def case_prod_beta)

text \<open>Reading a prefix of a stream of frames leaves some of them returned and a part of the next in the buffer.\<close>

lemma feed_prefix:
  assumes "\<forall>f \<in> set fs. ubx_frame f" "partial_frame (fr_buf fr)" "fr_buf fr @ concat (map snd cs) @ q = concat fs"
  shows "\<exists>hs. fs = fst (feed cs fr) @ hs \<and> partial_frame (fr_buf (snd (feed cs fr))) \<and> fr_buf (snd (feed cs fr)) @ q = concat hs"
  using assms
proof (induction cs arbitrary: fr fs)
  case (Cons tc cs)
  obtain t c where tc: "tc = (t, c)" by (cases tc)
  from Cons.prems(3) tc have eq: "(fr_buf fr @ c) @ concat (map snd cs) @ q = concat fs" by simp
  obtain gs hs p where g: "fs = gs @ hs" "fr_buf fr @ c = concat gs @ p" "partial_frame p" "p @ concat (map snd cs) @ q = concat hs"
    by (rule stream_prefix [OF Cons.prems(1) eq])
  have "frame_loop (concat [] @ fr_buf fr) = ([], fr_buf fr)"
    using Cons.prems(2) by (intro frame_loop_stream) simp_all
  then have loop: "frame_loop (fr_buf fr) = ([], fr_buf fr)" by simp
  have "frame_loop (fr_buf fr @ c) = (gs, p)"
    using g Cons.prems(1) by (simp add: frame_loop_stream)
  with add_data_buffer [OF loop, of t c]
  have a: "fst (add_data t c fr) = gs" "fr_buf (snd (add_data t c fr)) = p" by simp_all
  from Cons.IH [of hs "snd (add_data t c fr)"] g a Cons.prems(1)
  show ?case by (auto simp: tc feed_Cons simp del: feed.simps)
qed simp

lemma feed_stream:
  assumes "\<forall>f \<in> set fs. ubx_frame f" "partial_frame r" "concat (map snd cs) = concat fs @ r" "fr_buf fr = []"
  shows "fst (feed cs fr) = fs \<and> fr_buf (snd (feed cs fr)) = r"
proof -
  obtain q fs' where q: "\<forall>f \<in> set fs'. ubx_frame f" "(concat fs @ r) @ q = concat fs'"
  proof (cases "r = []")
    case True
    then show ?thesis using that [of fs "[]"] assms(1) by simp
  next
    case False
    then obtain q where "ubx_frame (r @ q)" using assms(2) by (auto simp: partial_frame_def)
    then show ?thesis using that [of "fs @ [r @ q]" q] assms(1) by auto
  qed
  let ?gs = "fst (feed cs fr)" and ?p = "fr_buf (snd (feed cs fr))"
  obtain hs where h: "fs' = ?gs @ hs" "partial_frame ?p" "?p @ q = concat hs"
    using feed_prefix [OF q(1), of fr cs q] assms(3,4) q(2) by (auto simp: partial_frame_def)
  have "concat ?gs @ ?p = concat fs @ r" using q(2) h(1,3) by (metis append.assoc append_same_eq concat_append)
  moreover have "\<forall>f \<in> set ?gs. ubx_frame f" using q(1) h(1) by (metis Un_iff set_append)
  ultimately have "(?gs, ?p) = (fs, r)" using frame_loop_stream [OF _ h(2)] frame_loop_stream [OF assms(1,2)] by metis
  then show ?thesis by simp
qed

section \<open>Cuts\<close>

text \<open>
  A buffer of one byte that cannot start a preamble is as good as none.  Two runs agree when they
  return the same frames and leave buffers that agree in this sense.
\<close>

definition settle :: "bytes \<Rightarrow> bytes" where
  "settle b = (if length b = 1 \<and> b \<noteq> [PREAMBLE1] then [] else b)"

definition agree :: "bytes list \<times> bytes \<Rightarrow> bytes list \<times> bytes \<Rightarrow> bool" where
  "agree x y \<longleftrightarrow> fst x = fst y \<and> settle (snd x) = settle (snd y)"

definition safe_end :: "bytes \<Rightarrow> bool" where
  "safe_end c \<longleftrightarrow> c = [] \<or> last c \<noteq> PREAMBLE1"

lemma agree_refl [simp]: "agree x x" by (simp add: agree_def)

lemma agree_trans: "agree x y \<Longrightarrow> agree y z \<Longrightarrow> agree x z" by (simp add: agree_def)

lemma safe_end_append: "safe_end xs \<Longrightarrow> safe_end ys \<Longrightarrow> safe_end (xs @ ys)"
  by (cases "ys = []") (simp_all add: safe_end_def)

lemma safe_end_concat: "\<forall>c \<in> set cs. safe_end c \<Longrightarrow> safe_end (concat cs)"
  by (induction cs) (simp add: safe_end_def, simp add: safe_end_append)

lemma frame_loop_idle: "frame_loop (snd (frame_loop b)) = ([], snd (frame_loop b))"
proof (induction b rule: frame_loop_induct)
  case (wait b)
  then have "frame_loop b = ([], b)" by (auto simp: frame_loop_head)
  then show ?case by simp
qed (simp_all add: frame_loop_short frame_loop_none frame_loop_skip frame_loop_head)

lemma frame_loop_garbage_byte:
  assumes "take 2 (a # zs) \<noteq> [PREAMBLE1, PREAMBLE2]" "zs \<noteq> []" "safe_end zs"
  shows "agree (frame_loop (a # zs)) (frame_loop zs)"
proof -
  obtain b bs where zs: "zs = b # bs" using assms(2) by (cases zs) auto
  have find: "find_preamble (a # zs) = map_option Suc (find_preamble zs)" using assms(1) by (auto simp: zs)
  show ?thesis
  proof (cases "find_preamble zs")
    case None
    then have "frame_loop (a # zs) = ([], [])" using find by (simp add: zs frame_loop_none)
    moreover have "frame_loop zs = (if length zs < 2 then ([], zs) else ([], []))"
      using None by (simp add: frame_loop_short frame_loop_none)
    ultimately show ?thesis using assms(3) by (auto simp: agree_def settle_def safe_end_def zs)
  next
    case (Some k)
    then show ?thesis using find frame_loop_skip [of "a # zs" "Suc k"] frame_loop_skip [of zs k] by simp
  qed
qed

lemma frame_loop_garbage:
  assumes "find_preamble xs = None" "safe_end xs" "safe_end ys"
  shows "agree (frame_loop (xs @ ys)) (frame_loop ys)"
  using assms(1,2)
proof (induction xs)
  case (Cons a xs)
  have safe: "safe_end xs" using Cons.prems(2) by (auto simp: safe_end_def split: if_splits)
  have none: "find_preamble xs = None" using Cons.prems(1) by (cases xs) (auto split: if_splits)
  have IH: "agree (frame_loop (xs @ ys)) (frame_loop ys)" by (rule Cons.IH [OF none safe])
  show ?case
  proof (cases "xs @ ys = []")
    case True
    then show ?thesis using Cons.prems(2) by (auto simp: frame_loop_short agree_def settle_def safe_end_def)
  next
    case False
    have "take 2 (a # xs @ ys) \<noteq> [PREAMBLE1, PREAMBLE2]"
      using Cons.prems by (cases xs) (auto simp: safe_end_def split: if_splits)
    moreover have "safe_end (xs @ ys)" by (rule safe_end_append [OF safe assms(3)])
    ultimately show ?thesis using frame_loop_garbage_byte [of a "xs @ ys"] False IH by (auto intro: agree_trans)
  qed
qed simp

lemma safe_end_drop: "safe_end xs \<Longrightarrow> safe_end (drop k xs)"
  by (cases "k < length xs") (auto simp: safe_end_def)

lemma frame_loop_append:
  assumes "safe_end xs" "safe_end ys"
  shows "agree (frame_loop (xs @ ys))
    (fst (frame_loop xs) @ fst (frame_loop (snd (frame_loop xs) @ ys)), snd (frame_loop (snd (frame_loop xs) @ ys)))"
  using assms(1)
proof (induction xs rule: frame_loop_induct)
  case (none xs)
  then show ?case using frame_loop_garbage [of xs ys] assms(2) by (simp add: frame_loop_none)
next
  case (skip xs k)
  have "frame_loop (xs @ ys) = frame_loop (drop k xs @ ys)"
    using frame_loop_skip [OF find_preamble_append [OF skip(1)], of ys] find_preamble_Some [OF skip(1)] by simp
  with skip show ?case by (simp add: frame_loop_skip safe_end_drop)
next
  case (wait xs)
  then have "frame_loop xs = ([], xs)" by (auto simp: frame_loop_head)
  then show ?case by simp
next
  case (frame xs)
  have head: "take 2 (xs @ ys) = [PREAMBLE1, PREAMBLE2]" using frame(1,2) by simp
  have "frame_loop (xs @ ys) = (take (frame_length xs) xs # fst (frame_loop (drop (frame_length xs) xs @ ys)),
      snd (frame_loop (drop (frame_length xs) xs @ ys)))"
    using frame(2-4) by (subst frame_loop_head [OF head]) (simp add: frame_length_append)
  moreover have "frame_loop xs = (take (frame_length xs) xs # fst (frame_loop (drop (frame_length xs) xs)),
      snd (frame_loop (drop (frame_length xs) xs)))"
    using frame(1-4) by (subst frame_loop_head) simp_all
  moreover note frame(5) [OF safe_end_drop [OF frame(6)]]
  ultimately show ?case by (simp add: agree_def)
next
  case (retry xs)
  have head: "take 2 (xs @ ys) = [PREAMBLE1, PREAMBLE2]" using retry(1,2) by simp
  have "frame_loop (xs @ ys) = frame_loop (drop 1 xs @ ys)"
    using retry(2-4) by (subst frame_loop_head [OF head]) (auto simp: frame_length_append)
  moreover have "frame_loop xs = frame_loop (drop 1 xs)"
    using retry(1-4) by (subst frame_loop_head) simp_all
  moreover note retry(5) [OF safe_end_drop [OF retry(6)]]
  ultimately show ?case by (simp only:)
qed (simp add: frame_loop_short)

lemma feed_cuts:
  assumes "\<forall>(t, c) \<in> set cs. safe_end c" "frame_loop (fr_buf fr) = ([], fr_buf fr)"
  shows "fst (feed cs fr) = fst (frame_loop (fr_buf fr @ concat (map snd cs)))"
  using assms
proof (induction cs arbitrary: fr)
  case (Cons tc cs)
  obtain t c where tc: "tc = (t, c)" by (cases tc)
  let ?fr = "snd (add_data t c fr)" and ?rest = "concat (map snd cs)"
  note a = add_data_buffer [OF Cons.prems(2), of t c]
  show ?case
  proof (cases "c = []")
    case True
    then have "add_data t c fr = ([], fr\<lparr>fr_last_log_time := t\<rparr>)" by (simp add: add_data_def)
    with Cons.IH [of "fr\<lparr>fr_last_log_time := t\<rparr>"] Cons.prems True tc show ?thesis by (simp add: feed_Cons del: feed.simps)
  next
    case False
    have "safe_end (fr_buf fr @ c)" using False Cons.prems(1) tc by (simp add: safe_end_def)
    moreover have "safe_end ?rest" using Cons.prems(1) by (intro safe_end_concat) auto
    ultimately have "fst (frame_loop ((fr_buf fr @ c) @ ?rest)) =
        fst (frame_loop (fr_buf fr @ c)) @ fst (frame_loop (snd (frame_loop (fr_buf fr @ c)) @ ?rest))"
      using frame_loop_append [of "fr_buf fr @ c" ?rest] by (simp add: agree_def)
    moreover have "fst (feed cs ?fr) = fst (frame_loop (fr_buf ?fr @ ?rest))"
      using Cons.IH [of ?fr] Cons.prems(1) frame_loop_idle a by (simp add: tc)
    ultimately show ?thesis by (simp add: tc feed_Cons a del: feed.simps)
  qed
qed simp


section \<open>Frames that are built here\<close>

definition ubx_message :: "8 word \<Rightarrow> 8 word \<Rightarrow> bytes \<Rightarrow> bytes" where
  "ubx_message cls msg_id payload =
     [PREAMBLE1, PREAMBLE2, cls, msg_id, word_of_nat (length payload), word_of_nat (length payload div 256)] @ payload"

lemma checksum_ok_add: "2 \<le> length msg \<Longrightarrow> checksum_ok (add_ubx_checksum msg)"
  by (cases "checksum_sums (drop 2 msg)") (simp add: checksum_ok_def add_ubx_checksum_def nth_append)

lemma length_field:
  assumes "length payload < 65536"
  shows "int_of_bytes False [word_of_nat (length payload), word_of_nat (length payload div 256)] = int (length payload)"
proof -
  let ?n = "length payload"
  have "?n div 256 < 256" using assms by auto
  then have "uint (word_of_nat ?n :: 8 word) = int (?n mod 256)" "uint (word_of_nat (?n div 256) :: 8 word) = int (?n div 256)"
    by (simp_all add: unsigned_of_nat take_bit_eq_mod)
  moreover have "int (?n mod 256) + 256 * int (?n div 256) = int ?n"
    unfolding zmod_int zdiv_int by simp
  ultimately show ?thesis by (simp add: int_of_bytes_def)
qed

lemma ubx_message_frame:
  assumes "length payload < 65536"
  shows "ubx_frame (add_ubx_checksum (ubx_message cls msg_id payload))"
proof -
  obtain a b where "checksum_sums (drop 2 (ubx_message cls msg_id payload)) = (a, b)" by fastforce
  then have eq: "add_ubx_checksum (ubx_message cls msg_id payload) = ubx_message cls msg_id payload @ [a, b]"
    by (simp add: add_ubx_checksum_def)
  have "checksum_ok (ubx_message cls msg_id payload @ [a, b])"
    unfolding eq [symmetric] by (rule checksum_ok_add) (simp add: ubx_message_def)
  moreover have "take 2 (drop 4 (ubx_message cls msg_id payload @ [a, b])) = [word_of_nat (length payload), word_of_nat (length payload div 256)]"
    "length (ubx_message cls msg_id payload @ [a, b]) = 8 + length payload"
    "take 2 (ubx_message cls msg_id payload @ [a, b]) = [PREAMBLE1, PREAMBLE2]"
    by (simp_all add: ubx_message_def)
  ultimately show ?thesis
    unfolding eq ubx_frame_def frame_length_def by (simp only: HEADER_SIZE_def CHECKSUM_SIZE_def length_field [OF assms]) simp
qed

lemma split_frame:
  assumes "ubx_frame f"
  shows "split_assistnow_messages (f @ rest) = map_option (\<lambda>msgs. f # msgs) (split_assistnow_messages rest)"
proof -
  have f: "8 \<le> length f" "take 2 f = [PREAMBLE1, PREAMBLE2]" "frame_length f = length f"
    using assms by (auto simp: ubx_frame_def)
  then have two: "take 2 (drop 4 f) = [f ! 4, f ! 5]"
    by (simp add: numeral_2_eq_2 take_Suc_conv_app_nth)
  have "0 \<le> uint (f ! 4)" "uint (f ! 4) < 2 ^ 8" using uint_lt2p [of "f ! 4"] by simp_all
  then have "push_bit 8 (uint (f ! 5)) OR uint (f ! 4) = int_of_bytes False (take 2 (drop 4 f))"
    using concat_bit_eq [of 8 "uint (f ! 4)" "uint (f ! 5)"] take_bit_int_eq_self [of "uint (f ! 4)" 8]
    by (simp add: two int_of_bytes_def concat_bit_def or.commute push_bit_eq_mult)
  with f have "6 + nat (push_bit 8 (uint (f ! 5)) OR uint (f ! 4)) + 2 = length f"
    by (simp add: frame_length_def HEADER_SIZE_def CHECKSUM_SIZE_def)
  moreover have "(f @ rest) ! 5 = f ! 5" "(f @ rest) ! 4 = f ! 4" "f @ rest \<noteq> []" "take 2 (f @ rest) = [PREAMBLE1, PREAMBLE2]"
    "\<not> length (f @ rest) < 6"
    using f by (auto simp: nth_append)
  ultimately show ?thesis
    by (subst split_assistnow_messages.simps) (simp only: Let_def if_False simp_thms take_append drop_append, simp)
qed

lemma split_frames: "\<forall>f \<in> set fs. ubx_frame f \<Longrightarrow> split_assistnow_messages (concat fs) = Some fs"
  by (induction fs) (simp add: split_assistnow_messages.simps, simp add: split_frame)

section \<open>Any stream\<close>

definition buffer_ok :: "bytes \<Rightarrow> bool" where
  "buffer_ok b \<longleftrightarrow> length b \<le> 65543 \<and> (length b < 2 \<or> take 2 b = [PREAMBLE1, PREAMBLE2])"

lemma feed_sound:
  "buffer_ok (fr_buf fr) \<Longrightarrow>
     (\<forall>f \<in> set (fst (feed cs fr)). ubx_frame f) \<and> buffer_ok (fr_buf (snd (feed cs fr)))"
proof (induction cs arbitrary: fr)
  case (Cons tc cs)
  obtain t c where tc: "tc = (t, c)" by (cases tc)
  have "\<forall>f \<in> set (fst (add_data t c fr)). ubx_frame f" "buffer_ok (fr_buf (snd (add_data t c fr)))"
    using frame_loop_frames [of "fr_buf fr @ c"] frame_loop_buffer [of "fr_buf fr @ c"] Cons.prems
    by (auto simp: add_data_def Let_def case_prod_beta buffer_ok_def)
  with Cons.IH [of "snd (add_data t c fr)"] show ?case by (auto simp: tc feed_Cons simp del: feed.simps)
qed simp

section \<open>Properties\<close>

text \<open>C28: A stream of well-formed frames is recovered exactly, whatever the sizes of the reads that
  deliver it: the framer returns the frames that are complete, in their order, and keeps exactly the bytes of
  the one that is not yet.\<close>

theorem framer_recovers_stream:
  assumes "\<forall>f \<in> set fs. ubx_frame f" "rest = [] \<or> (\<exists>missing. missing \<noteq> [] \<and> ubx_frame (rest @ missing))"
    and "concat (map snd cs) = concat fs @ rest"
  shows "fst (feed cs framer_init) = fs \<and> fr_buf (snd (feed cs framer_init)) = rest"
  using assms by (intro feed_stream) (simp_all add: framer_init_def partial_frame_def)

definition demo_nav :: bytes where
  "demo_nav = add_ubx_checksum (ubx_message 5 1 [6, 0xB5, 0x62])"

lemma demo_nav_frame: "ubx_frame demo_nav"
  unfolding demo_nav_def by (rule ubx_message_frame) simp

theorem framer_recovers_stream_witness:
  "let cs = [(0, take 1 demo_nav), (1, drop 1 demo_nav @ take 7 demo_nav), (2, drop 7 demo_nav @ take 3 demo_nav)]
   in fst (feed cs framer_init) = [demo_nav, demo_nav] \<and> fr_buf (snd (feed cs framer_init)) = take 3 demo_nav"
proof -
  let ?cs = "[(0, take 1 demo_nav), (1, drop 1 demo_nav @ take 7 demo_nav), (2, drop 7 demo_nav @ take 3 demo_nav)]"
  have "drop 3 demo_nav \<noteq> []" by code_simp
  then have "take 3 demo_nav = [] \<or> (\<exists>missing. missing \<noteq> [] \<and> ubx_frame (take 3 demo_nav @ missing))"
    using demo_nav_frame by (metis append_take_drop_id)
  from framer_recovers_stream [of "[demo_nav, demo_nav]" "take 3 demo_nav" ?cs, OF _ this] show ?thesis
    by (simp add: demo_nav_frame)
qed

text \<open>The frames found in any stream, garbage included, do not depend on how the reads cut it,
  as long as no read ends in the first preamble byte.\<close>

theorem framer_ignores_cuts:
  assumes "\<forall>(t, c) \<in> set cs. c = [] \<or> last c \<noteq> PREAMBLE1"
  shows "fst (feed cs framer_init) = fst (frame_loop (concat (map snd cs)))"
  using feed_cuts [of cs framer_init] assms
  by (simp add: framer_init_def frame_loop_short safe_end_def)

theorem framer_ignores_cuts_witness:
  "fst (feed [(0, [1, 2]), (1, [3] @ demo_nav), (2, [4])] framer_init) = fst (frame_loop ([1, 2, 3] @ demo_nav @ [4]))"
proof -
  have "last ([3] @ demo_nav) \<noteq> PREAMBLE1"
    by (simp add: demo_nav_def add_ubx_checksum_def ubx_message_def checksum_sums_def PREAMBLE1_def PREAMBLE2_def)
  with framer_ignores_cuts [of "[(0, [1, 2]), (1, [3] @ demo_nav), (2, [4])]"] show ?thesis
    by (simp add: PREAMBLE1_def)
qed

text \<open>A read that ends in the first preamble byte after bytes that are no frame loses the frame:
  the buffer is cleared although its last byte may start one.\<close>

theorem framer_loses_split_preamble:
  "ubx_frame demo_nav \<and>
   fst (feed [(0, [0x0A] @ demo_nav)] framer_init) = [demo_nav] \<and>
   fst (feed [(0, [0x0A] @ take 1 demo_nav), (1, drop 1 demo_nav)] framer_init) = []"
  using demo_nav_frame by (intro conjI) (assumption, code_simp+)

text \<open>Whatever bytes arrive, every returned frame starts with the preamble, has the length its
  header declares and carries its checksum; and the framer keeps at most 65543 bytes, which are
  fewer than two or start with the preamble.\<close>

theorem framer_sound:
  "(\<forall>f \<in> set (fst (feed cs framer_init)). ubx_frame f) \<and>
   length (fr_buf (snd (feed cs framer_init))) \<le> 65543 \<and>
   (length (fr_buf (snd (feed cs framer_init))) < 2 \<or>
    take 2 (fr_buf (snd (feed cs framer_init))) = [PREAMBLE1, PREAMBLE2])"
  using feed_sound [of framer_init cs] by (simp add: framer_init_def buffer_ok_def)

text \<open>Messages built with \<open>add_ubx_checksum\<close> are split by \<open>split_assistnow_messages\<close> and framed by
  the receiver's framer into the same messages.\<close>

theorem built_messages_split:
  assumes "\<forall>(cls, msg_id, payload) \<in> set ms. length payload < 65536"
    "fs = map (\<lambda>(cls, msg_id, payload). add_ubx_checksum (ubx_message cls msg_id payload)) ms"
  shows "split_assistnow_messages (concat fs) = Some fs \<and> frame_loop (concat fs) = (fs, [])"
proof -
  have fs: "\<forall>f \<in> set fs. ubx_frame f" using assms(1) by (auto simp: assms(2) ubx_message_frame)
  then show ?thesis using split_frames frame_loop_stream [of fs "[]"] by (simp add: partial_frame_def)
qed

theorem built_messages_split_witness:
  "split_assistnow_messages (add_ubx_checksum (ubx_message 0x13 0x40 [1, 2]) @ demo_nav) =
     Some [add_ubx_checksum (ubx_message 0x13 0x40 [1, 2]), demo_nav]"
  using built_messages_split [of "[(0x13, 0x40, [1, 2]), (5, 1, [6, 0xB5, 0x62])]" "[add_ubx_checksum (ubx_message 0x13 0x40 [1, 2]), demo_nav]"]
  by (simp add: demo_nav_def)

end
