(* ===== verification/UbloxProps.thy ===== *)
theory UbloxProps
  imports UbloxFacts FramerProps
begin

text \<open>
  Properties of the receiver's messages over a session: where every published ephemeris comes from,
  which frames are dropped and which exceptions cannot occur, and the decoding of dates and weeks.
\<close>

section \<open>Sessions\<close>

definition session_reads :: "(int \<times> bytes) list \<Rightarrow> (real \<times> bytes) list" where
  "session_reads raws = map (\<lambda>(mono_ns, data). (log_time mono_ns, data)) raws"

definition session_frames :: "(int \<times> bytes) list \<Rightarrow> bytes set" where
  "session_frames raws = set (fst (feed (session_reads raws) framer_init))"

lemma ublox_main_ok:
  assumes "caches_ok hist (up_caches p)"
  shows "caches_ok (hist \<union> set (fst (feed (session_reads raws) (up_framer p)))) (up_caches (snd (ublox_main raws p))) \<and>
    (\<forall>m \<in> set (fst (ublox_main raws p)). from_frames (hist \<union> set (fst (feed (session_reads raws) (up_framer p)))) m)"
  using assms
proof (induction raws arbitrary: hist p)
  case (Cons raw raws)
  obtain mono_ns data where raw: "raw = (mono_ns, data)" by (cases raw)
  obtain frames fr where add: "add_data (log_time mono_ns) data (up_framer p) = (frames, fr)" by fastforce
  obtain ms c where parse: "parse_frames (fr_last_log_time fr) frames (up_caches p) = (ms, c)" by fastforce
  let ?p1 = "p\<lparr>up_framer := fr, up_caches := c\<rparr>" and ?h1 = "hist \<union> set frames"
  have step: "ublox_step raw p = (ms, ?p1)" by (simp add: ublox_step_def raw add parse)
  have ok: "caches_ok ?h1 c" "\<forall>m \<in> set ms. from_frames ?h1 m"
    using parse_frames_ok [OF Cons.prems, of frames "fr_last_log_time fr"] parse by simp_all
  let ?rest = "set (fst (feed (session_reads raws) fr))"
  have IH: "caches_ok (?h1 \<union> ?rest) (up_caches (snd (ublox_main raws ?p1))) \<and>
      (\<forall>m \<in> set (fst (ublox_main raws ?p1)). from_frames (?h1 \<union> ?rest) m)"
    using Cons.IH [of ?h1 ?p1] ok(1) by simp
  have frames: "hist \<union> set (fst (feed (session_reads (raw # raws)) (up_framer p))) = ?h1 \<union> ?rest"
    by (auto simp: session_reads_def raw add case_prod_beta)
  have main: "ublox_main (raw # raws) p = (ms @ fst (ublox_main raws ?p1), snd (ublox_main raws ?p1))"
    by (simp add: step case_prod_beta)
  have "from_frames (?h1 \<union> ?rest) m" if "m \<in> set ms" for m
    using ok(2) that by (blast intro: from_frames_mono)
  with IH show ?case unfolding frames main by auto
qed (simp add: session_reads_def)

lemma init_ok: "caches_ok {} (up_caches ublox_parser_init)"
  by (simp add: caches_ok_def ublox_parser_init_def)

lemma session_ok:
  "caches_ok (session_frames raws) (up_caches (snd (ublox_main raws ublox_parser_init)))"
  "m \<in> set (fst (ublox_main raws ublox_parser_init)) \<Longrightarrow> from_frames (session_frames raws) m"
  using ublox_main_ok [OF init_ok, of raws] by (simp_all add: session_frames_def ublox_parser_init_def)

definition sfrbx_frame :: "8 word \<Rightarrow> 8 word \<Rightarrow> 8 word \<Rightarrow> bytes \<Rightarrow> bytes" where
  "sfrbx_frame gnss sv freq words =
     add_ubx_checksum (ubx_message 2 0x13 ([gnss, sv, 0, freq, word_of_nat (length words div 4), 0, 0, 0] @ words))"

text \<open>A subframe whose data bits are all zero: preamble, subframe id, issue of data 0; and a GLONASS
  string that has nothing but its number.\<close>

definition demo_subframe :: "8 word \<Rightarrow> bytes" where
  "demo_subframe k = sfrbx_frame 0 5 0 ([0, 0, 0xC0, 0x22] @ [0, k, 0, 0] @ replicate 32 0)"

definition demo_string :: "8 word \<Rightarrow> bytes" where
  "demo_string k = sfrbx_frame 6 3 9 ([0, 0, 0, 8 * k] @ replicate 8 0 @ [0, 0, 1, 0])"

definition published_gps :: "(int \<times> bytes) list \<Rightarrow> int list" where
  "published_gps raws = concat (map (\<lambda>m. case m of Ublox_ephemeris e \<Rightarrow> [ep_svId e] | _ \<Rightarrow> []) (fst (ublox_main raws ublox_parser_init)))"

definition demo_gps_session :: "(int \<times> bytes) list" where
  "demo_gps_session = [(0, demo_subframe 2 @ demo_subframe 1), (1, demo_subframe 3)]"

lemma demo_gps_published: "published_gps demo_gps_session = [5]"
  by code_simp

section \<open>Where an ephemeris comes from\<close>

text \<open>C27: In any session, every published GPS ephemeris is computed from three subframes, numbers 1, 2
  and 3, that frames of the session carried for its satellite, and their issues of data are equal: no
  ephemeris mixes satellites or two uploads.\<close>

theorem gps_ephemeris_one_issue:
  assumes "Ublox_ephemeris e \<in> set (fst (ublox_main raws ublox_parser_init))"
  shows "one_issue (session_frames raws) (ep_svId e) e"
  using session_ok(2) [OF assms] by (simp add: from_frames_def)

lemma published_gps_obtain:
  "sv \<in> set (published_gps raws) \<Longrightarrow>
     \<exists>e. Ublox_ephemeris e \<in> set (fst (ublox_main raws ublox_parser_init)) \<and> ep_svId e = sv"
  by (fastforce simp: published_gps_def split: ublox_msg.splits)

theorem gps_ephemeris_one_issue_witness:
  "\<exists>e. one_issue (session_frames demo_gps_session) 5 e"
proof -
  obtain e where e: "Ublox_ephemeris e \<in> set (fst (ublox_main demo_gps_session ublox_parser_init))" "ep_svId e = 5"
    using published_gps_obtain [of 5 demo_gps_session] by (auto simp: demo_gps_published)
  from gps_ephemeris_one_issue [OF e(1)] e(2) show ?thesis by auto
qed

text \<open>In any session, every published GLONASS ephemeris is computed from the strings 1 to 5 that
  frames of the session carried on its channel, and no two of them name different superframes.\<close>

theorem glonass_ephemeris_one_superframe:
  assumes "Ublox_glonassEphemeris e \<in> set (fst (ublox_main raws ublox_parser_init))"
  shows "one_set (session_frames raws) (ge_freqNum e + 7) e"
  using session_ok(2) [OF assms] by (simp add: from_frames_def)

text \<open>C30: After any session, no frame makes an assertion of the parser fail or misses a cache entry it
  looks up: the cached subframes always have the class the code asserts.\<close>

theorem no_assertion_fails:
  "fst (parse_frame now f (up_caches (snd (ublox_main raws ublox_parser_init)))) \<notin> {Inl AssertionError, Inl KeyError}"
proof -
  obtain r c' where s: "parse_frame now f (up_caches (snd (ublox_main raws ublox_parser_init))) = (r, c')" by fastforce
  from parse_frame_step [OF session_ok(1) s] have "\<forall>e. r = Inl e \<longrightarrow> parse_error e" by blast
  then show ?thesis by (auto simp: s parse_error_def)
qed

section \<open>Complete sets are published\<close>

text \<open>The caches after the three subframes of a satellite, in the order of the list.\<close>

definition gps_run :: "int \<Rightarrow> (int \<Rightarrow> int list) \<Rightarrow> int list \<Rightarrow> ephemeris_caches \<Rightarrow> parse_result" where
  "gps_run sv body ks c = fold (\<lambda>k (r, c). parse_gps_ephemeris sv (body k) c) ks (Inr None, c)"

lemma gps_subframe_cached:
  assumes "length body = 10" "from_bytes Gps (subframe_bytes body) = Inr sf" "fld (sub sf ''how'') ''subframe_id'' = k" "k \<in> {1, 2, 3}"
    "length (AList.update k (subframe_bytes body) (gps_subframes c sv)) \<noteq> 3"
  shows "parse_gps_ephemeris sv body c =
    (Inr None, c\<lparr>gps_subframes := (gps_subframes c)(sv := AList.update k (subframe_bytes body) (gps_subframes c sv))\<rparr>)"
  using assms by (auto simp: parse_gps_ephemeris_def Let_def)

text \<open>Once the three subframes of one issue have arrived for a satellite, in any order, its
  ephemeris is published and its cache is empty again.\<close>

theorem gps_ephemeris_published:
  assumes "gps_subframes c sv = []" "distinct ks" "set ks = {1, 2, 3}"
    "\<forall>k \<in> {1, 2, 3}. length (body k) = 10 \<and> from_bytes Gps (subframe_bytes (body k)) = Inr (sf k) \<and>
       fld (sub (sf k) ''how'') ''subframe_id'' = k"
    "fld (sub (sf 1) ''body'') ''iodc_lsb'' = fld (sub (sf 2) ''body'') ''iode''"
    "fld (sub (sf 2) ''body'') ''iode'' = fld (sub (sf 3) ''body'') ''iode''"
  shows "gps_run sv body ks c = (Inr (Some (Ublox_ephemeris (gps_ephemeris sv (sf 1) (sf 2) (sf 3)))), c)"
proof -
  have "length ks = 3" using assms(2,3) distinct_card [of ks] by simp
  then obtain i j k where ks: "ks = [i, j, k]" by (auto simp: length_Suc_conv numeral_3_eq_3)
  have mem: "i \<in> {1, 2, 3}" "j \<in> {1, 2, 3}" "k \<in> {1, 2, 3}" "i \<noteq> j" "i \<noteq> k" "j \<noteq> k" using assms(2,3) ks by auto
  let ?d = "\<lambda>k. subframe_bytes (body k)"
  let ?cache = "[(i, ?d i), (j, ?d j), (k, ?d k)]"
  have sub: "length (body l) = 10" "from_bytes Gps (?d l) = Inr (sf l)" "fld (sub (sf l) ''how'') ''subframe_id'' = l"
    if "l \<in> {1, 2, 3}" for l using assms(4) that by blast+
  have inst: "is_instance (sub (sf l) ''body'') (subframe_class l)" if "l \<in> {1, 2, 3}" for l
  proof -
    note l = that
    obtain m where m: "getattr (sub (sf l) ''how'') ''subframe_id'' = Inr (VInt m)"
        "m \<in> {1, 2, 3} \<longrightarrow> is_instance (sub (sf l) ''body'') (subframe_class m)"
      using gps_object [OF sub(2) [OF l]] by blast
    have "m = l" using fld_VInt [OF m(1)] sub(3) [OF l] by simp
    with m(2) l show ?thesis by blast
  qed
  have cached: "cached_subframe ?cache l (subframe_class l) = Inr (sf l)" if "l \<in> {1, 2, 3}" for l
  proof -
    have "map_of ?cache l = Some (?d l)" using that mem by auto
    then show ?thesis by (simp only: cached_subframe_def option.case sub(2) [OF that] rbind_simps inst [OF that] if_True)
  qed
  let ?c1 = "c\<lparr>gps_subframes := (gps_subframes c)(sv := [(i, ?d i)])\<rparr>"
  let ?c2 = "c\<lparr>gps_subframes := (gps_subframes c)(sv := [(i, ?d i), (j, ?d j)])\<rparr>"
  have p1: "parse_gps_ephemeris sv (body i) c = (Inr None, ?c1)"
    using gps_subframe_cached [OF sub [OF mem(1)] mem(1), of c sv] assms(1) by simp
  have p2: "parse_gps_ephemeris sv (body j) ?c1 = (Inr None, ?c2)"
    using gps_subframe_cached [OF sub [OF mem(2)] mem(2), of ?c1 sv] mem by simp
  have range: "\<not> (k < 1 \<or> 3 < k)" using mem by auto
  have upd: "AList.update k (?d k) (gps_subframes ?c2 sv) = ?cache" using mem by simp
  have c': "c\<lparr>gps_subframes := (gps_subframes c)(sv := [])\<rparr> = c" using assms(1) by (simp add: fun_upd_idem)
  have p3: "parse_gps_ephemeris sv (body k) ?c2 =
      (Inr (Some (Ublox_ephemeris (gps_ephemeris sv (sf 1) (sf 2) (sf 3)))), c\<lparr>gps_subframes := (gps_subframes c)(sv := [])\<rparr>)"
    unfolding parse_gps_ephemeris_def Let_def sub(2) [OF mem(3)] sum.case sub(3) [OF mem(3)] upd
    using sub(1) [OF mem(3)] range cached [of 1] cached [of 2] cached [of 3] assms(5,6)
    by (simp add: subframe_class_def)
  show ?thesis using p1 p2 p3 by (simp add: gps_run_def ks c')
qed


subsection \<open>GLONASS\<close>

definition glonass_run :: "real \<Rightarrow> int \<Rightarrow> int \<Rightarrow> (int \<Rightarrow> int list) \<Rightarrow> int list \<Rightarrow> ephemeris_caches \<Rightarrow> parse_result" where
  "glonass_run now sv freq body ks c = fold (\<lambda>k (r, c). parse_glonass_ephemeris now sv freq (body k) c) ks (Inr None, c)"

lemma correlate_quiet:
  assumes "\<And>i. map_of strings i \<noteq> None \<Longrightarrow> map_of sfs i = Some s" "s \<noteq> 0"
  shows "fold (correlate_string now n s strings sfs ts) is (False, False) = (False, False)"
proof (induction "is")
  case (Cons i "is")
  have "correlate_string now n s strings sfs ts i (False, False) = (False, False)"
    using assms(1) [of i] assms(2) by (cases "map_of strings i") (simp_all add: correlate_string_def)
  with Cons show ?case by simp
qed simp

lemma update_new: "k \<notin> fst ` set al \<Longrightarrow> AList.update k v al = al @ [(k, v)]"
  by (induction al) auto

text \<open>A string of the running superframe joins the others.\<close>

definition gathered :: "int \<Rightarrow> int \<Rightarrow> (int \<Rightarrow> bytes) \<Rightarrow> int list \<Rightarrow> ephemeris_caches \<Rightarrow> bool" where
  "gathered freq s d ks c \<longleftrightarrow> glonass_strings c freq = map (\<lambda>k. (k, d k)) ks \<and>
     (\<forall>k \<in> set ks. map_of (glonass_string_superframes c freq) k = Some s)"

lemma gathered_keys: "map_of (map (\<lambda>k. (k, d k)) ks) i = (if i \<in> set ks then Some (d i) else None)"
  by (induction ks) auto

lemma gathered_quiet:
  assumes "gathered freq s d ks c" "s \<noteq> 0"
  shows "\<not> needs_clear now k s (glonass_strings c freq) (glonass_string_superframes c freq) (glonass_string_times c freq)"
proof -
  have "map_of (glonass_string_superframes c freq) i = Some s" if "map_of (glonass_strings c freq) i \<noteq> None" for i
  proof -
    have "i \<in> set ks" using assms(1) that by (simp add: gathered_def gathered_keys split: if_splits)
    then show ?thesis using assms(1) by (simp add: gathered_def)
  qed
  from correlate_quiet [OF this assms(2)] show ?thesis by (simp only: needs_clear_def snd_conv simp_thms)
qed

lemma glonass_string_joins:
  assumes "gathered freq s d ks c" "s \<noteq> 0" "k \<notin> set ks" "k \<in> {1, 2, 3, 4, 5}" "length body = 4" "d k = string_bytes body"
    "from_bytes Glonass (string_bytes body) = Inr gl" "fld gl ''string_number'' = k" "\<not> flag gl ''idle_chip''" "fld gl ''superframe_number'' = s"
    "length ks < 4"
  shows "\<exists>c'. parse_glonass_ephemeris now sv freq body c = (Inr None, c') \<and> gathered freq s d (ks @ [k]) c'"
proof -
  have quiet: "\<not> needs_clear now k s (glonass_strings c freq) (glonass_string_superframes c freq) (glonass_string_times c freq)"
    by (rule gathered_quiet [OF assms(1,2)])
  have strings: "AList.update k (d k) (glonass_strings c freq) = map (\<lambda>k. (k, d k)) (ks @ [k])"
    using assms(1,3) by (auto simp: gathered_def update_new image_image)
  have range: "\<not> (k < 1 \<or> 5 < k)" using assms(4) by auto
  let ?c' = "c\<lparr>glonass_strings := (glonass_strings c)(freq := AList.update k (d k) (glonass_strings c freq)),
      glonass_string_superframes := (glonass_string_superframes c)(freq := AList.update k s (glonass_string_superframes c freq)),
      glonass_string_times := (glonass_string_times c)(freq := AList.update k now (glonass_string_times c freq))\<rparr>"
  have len: "length (AList.update k (d k) (glonass_strings c freq)) \<noteq> 5" unfolding strings using assms(11) by simp
  have "parse_glonass_ephemeris now sv freq body c = (Inr None, ?c')"
    using assms(5,7-10) quiet range len by (simp add: parse_glonass_ephemeris_def Let_def assms(6) [symmetric])
  moreover have "gathered freq s d (ks @ [k]) ?c'"
    using assms(1) unfolding gathered_def strings by (auto simp: strings update_conv')
  ultimately show ?thesis by blast
qed


lemma glonass_strings_complete:
  assumes "gathered freq s d ks c" "s \<noteq> 0" "k \<notin> set ks" "set (ks @ [k]) = {1, 2, 3, 4, 5}" "length ks = 4" "sv \<noteq> 255"
    and parsed: "\<And>l. l \<in> {1, 2, 3, 4, 5} \<Longrightarrow> length (body l) = 4 \<and> d l = string_bytes (body l) \<and> from_bytes Glonass (string_bytes (body l)) = Inr (gl l) \<and>
      fld (gl l) ''string_number'' = l \<and> \<not> flag (gl l) ''idle_chip'' \<and> fld (gl l) ''superframe_number'' = s"
  shows "fst (parse_glonass_ephemeris now sv freq (body k) c) =
    Inr (Some (Ublox_glonassEphemeris (glonass_eph sv freq (sub (gl 1) ''data'') (sub (gl 2) ''data'') (sub (gl 3) ''data'')
      (sub (gl 4) ''data'') (sub (gl 5) ''data''))))"
proof -
  have k: "k \<in> {1, 2, 3, 4, 5}" using assms(4) by auto
  note pk = parsed [OF k]
  have quiet: "\<not> needs_clear now k s (glonass_strings c freq) (glonass_string_superframes c freq) (glonass_string_times c freq)"
    by (rule gathered_quiet [OF assms(1,2)])
  have strings: "AList.update k (d k) (glonass_strings c freq) = map (\<lambda>k. (k, d k)) (ks @ [k])"
    using assms(1,3) by (auto simp: gathered_def update_new image_image)
  have range: "\<not> (k < 1 \<or> 5 < k)" using k by auto
  have len: "length (map (\<lambda>k. (k, d k)) (ks @ [k])) = 5" using assms(5) by simp
  have cached: "cached_string (map (\<lambda>k. (k, d k)) (ks @ [k])) l (string_class l) = Inr (sub (gl l) ''data'')" if l: "l \<in> {1, 2, 3, 4, 5}" for l
  proof -
    note pl = parsed [OF l]
    have m: "map_of (map (\<lambda>k. (k, d k)) (ks @ [k])) l = Some (d l)"
      using l assms(4) gathered_keys [of d "ks @ [k]" l] by simp
    have "length (d l) = 16" using pl by (simp add: length_string_bytes)
    from glonass_object [OF this] obtain i where i: "getattr (gl l) ''string_number'' = Inr (VInt i)"
        "is_instance (sub (gl l) ''data'') (string_class i)" using pl by auto
    have "i = l" using fld_VInt [OF i(1)] pl by simp
    then show ?thesis using pl i(2) by (simp add: cached_string_def m del: map_append)
  qed
  from cached [of 1] cached [of 2] cached [of 3] cached [of 4] cached [of 5] show ?thesis
    using pk quiet range len assms(6) strings
    by (simp add: parse_glonass_ephemeris_def Let_def string_class_def del: map_append)
qed

lemma glonass_run_gathers:
  assumes "glonass_strings c freq = []" "s \<noteq> 0" "sv \<noteq> 255"
    and parsed: "\<And>l. l \<in> {1, 2, 3, 4, 5} \<Longrightarrow> length (body l) = 4 \<and> d l = string_bytes (body l) \<and> from_bytes Glonass (string_bytes (body l)) = Inr (gl l) \<and>
      fld (gl l) ''string_number'' = l \<and> \<not> flag (gl l) ''idle_chip'' \<and> fld (gl l) ''superframe_number'' = s"
  shows "distinct ks \<Longrightarrow> set ks \<subseteq> {1, 2, 3, 4, 5} \<Longrightarrow> length ks \<le> 4 \<Longrightarrow>
    \<exists>c'. glonass_run now sv freq body ks c = (Inr None, c') \<and> gathered freq s d ks c'"
proof (induction ks rule: rev_induct)
  case Nil
  then show ?case using assms(1) by (simp add: glonass_run_def gathered_def)
next
  case (snoc k ks)
  then obtain c' where c': "glonass_run now sv freq body ks c = (Inr None, c')" "gathered freq s d ks c'" by auto
  have k: "k \<in> {1, 2, 3, 4, 5}" "k \<notin> set ks" "length ks < 4" using snoc.prems by auto
  note pk = parsed [OF k(1)]
  from glonass_string_joins [OF c'(2) assms(2) k(2,1), of "body k" "gl k" now sv] pk k(3) c'(1) show ?case
    by (simp add: glonass_run_def)
qed

lemma glonass_set_published:
  assumes "glonass_strings c freq = []" "s \<noteq> 0" "sv \<noteq> 255" "distinct ks" "set ks = {1, 2, 3, 4, 5}"
    "\<forall>l \<in> {1, 2, 3, 4, 5}. length (body l) = 4 \<and> from_bytes Glonass (string_bytes (body l)) = Inr (gl l) \<and>
      fld (gl l) ''string_number'' = l \<and> \<not> flag (gl l) ''idle_chip'' \<and> fld (gl l) ''superframe_number'' = s"
  shows "fst (glonass_run now sv freq body ks c) =
    Inr (Some (Ublox_glonassEphemeris (glonass_eph sv freq (sub (gl 1) ''data'') (sub (gl 2) ''data'') (sub (gl 3) ''data'')
      (sub (gl 4) ''data'') (sub (gl 5) ''data''))))"
proof -
  have "length ks = 5" using assms(4,5) distinct_card [of ks] by simp
  then obtain ks' k where ks: "ks = ks' @ [k]" "length ks' = 4" by (cases ks rule: rev_cases) auto
  let ?d = "\<lambda>l. string_bytes (body l)"
  have parsed: "length (body l) = 4 \<and> ?d l = string_bytes (body l) \<and> from_bytes Glonass (string_bytes (body l)) = Inr (gl l) \<and>
      fld (gl l) ''string_number'' = l \<and> \<not> flag (gl l) ''idle_chip'' \<and> fld (gl l) ''superframe_number'' = s"
    if "l \<in> {1, 2, 3, 4, 5}" for l using assms(6) that by blast
  have sub: "distinct ks'" "set ks' \<subseteq> {1, 2, 3, 4, 5}" "length ks' \<le> 4" "k \<notin> set ks'" "set (ks' @ [k]) = {1, 2, 3, 4, 5}"
    using assms(4,5) ks by auto
  obtain c' where c': "glonass_run now sv freq body ks' c = (Inr None, c')" "gathered freq s ?d ks' c'"
    using glonass_run_gathers [OF assms(1-3) parsed sub(1-3)] by blast
  from glonass_strings_complete [OF c'(2) assms(2) sub(4,5) ks(2) assms(3) parsed] c'(1)
  show ?thesis by (simp add: glonass_run_def ks(1))
qed


text \<open>Once the five strings of one superframe have arrived on a channel, in any order, the
  ephemeris of the satellite is published.\<close>

theorem glonass_ephemeris_published:
  assumes "glonass_strings c freq = []" "s \<noteq> 0" "sv \<noteq> 255" "distinct ks" "set ks = {1, 2, 3, 4, 5}"
    "\<forall>l \<in> {1, 2, 3, 4, 5}. length (body l) = 4 \<and> from_bytes Glonass (string_bytes (body l)) = Inr (gl l) \<and>
      fld (gl l) ''string_number'' = l \<and> \<not> flag (gl l) ''idle_chip'' \<and> fld (gl l) ''superframe_number'' = s"
  shows "fst (glonass_run now sv freq body ks c) =
    Inr (Some (Ublox_glonassEphemeris (glonass_eph sv freq (sub (gl 1) ''data'') (sub (gl 2) ''data'') (sub (gl 3) ''data'')
      (sub (gl 4) ''data'') (sub (gl 5) ''data''))))"
  using assms by (rule glonass_set_published)

section \<open>Examples\<close>

definition demo_gps_body :: "int \<Rightarrow> int list" where
  "demo_gps_body k = [0x22C00000, 256 * k] @ replicate 8 0"

definition demo_sf :: "int \<Rightarrow> bval" where
  "demo_sf k = (case from_bytes Gps (subframe_bytes (demo_gps_body k)) of Inl _ \<Rightarrow> VNone | Inr v \<Rightarrow> v)"

lemma demo_sf_parsed:
  assumes "k \<in> {1, 2, 3}"
  shows "length (demo_gps_body k) = 10 \<and> from_bytes Gps (subframe_bytes (demo_gps_body k)) = Inr (demo_sf k) \<and>
    fld (sub (demo_sf k) ''how'') ''subframe_id'' = k"
proof -
  have "\<not> isl (from_bytes Gps (subframe_bytes (demo_gps_body 1))) \<and> fld (sub (demo_sf 1) ''how'') ''subframe_id'' = 1"
    "\<not> isl (from_bytes Gps (subframe_bytes (demo_gps_body 2))) \<and> fld (sub (demo_sf 2) ''how'') ''subframe_id'' = 2"
    "\<not> isl (from_bytes Gps (subframe_bytes (demo_gps_body 3))) \<and> fld (sub (demo_sf 3) ''how'') ''subframe_id'' = 3"
    by code_simp+
  then show ?thesis using assms by (auto simp: demo_sf_def demo_gps_body_def split: sum.splits)
qed

theorem gps_ephemeris_published_witness:
  "gps_run 5 demo_gps_body [3, 1, 2] (up_caches ublox_parser_init) =
     (Inr (Some (Ublox_ephemeris (gps_ephemeris 5 (demo_sf 1) (demo_sf 2) (demo_sf 3)))), up_caches ublox_parser_init)"
proof (rule gps_ephemeris_published)
  show "fld (sub (demo_sf 1) ''body'') ''iodc_lsb'' = fld (sub (demo_sf 2) ''body'') ''iode''" by code_simp
  show "fld (sub (demo_sf 2) ''body'') ''iode'' = fld (sub (demo_sf 3) ''body'') ''iode''" by code_simp
qed (use demo_sf_parsed in \<open>auto simp: ublox_parser_init_def\<close>)

definition demo_glonass_body :: "int \<Rightarrow> int list" where
  "demo_glonass_body k = [k * 2 ^ 27, 0, 0, 0x10000]"

definition demo_gl :: "int \<Rightarrow> bval" where
  "demo_gl k = (case from_bytes Glonass (string_bytes (demo_glonass_body k)) of Inl _ \<Rightarrow> VNone | Inr v \<Rightarrow> v)"

definition demo_gl_ok :: "int \<Rightarrow> bool" where
  "demo_gl_ok k \<longleftrightarrow> \<not> isl (from_bytes Glonass (string_bytes (demo_glonass_body k))) \<and> fld (demo_gl k) ''string_number'' = k \<and>
     \<not> flag (demo_gl k) ''idle_chip'' \<and> fld (demo_gl k) ''superframe_number'' = 1"

lemma demo_gl_parsed:
  assumes "k \<in> {1, 2, 3, 4, 5}"
  shows "length (demo_glonass_body k) = 4 \<and> from_bytes Glonass (string_bytes (demo_glonass_body k)) = Inr (demo_gl k) \<and>
    fld (demo_gl k) ''string_number'' = k \<and> \<not> flag (demo_gl k) ''idle_chip'' \<and> fld (demo_gl k) ''superframe_number'' = 1"
proof -
  have "demo_gl_ok 1" "demo_gl_ok 2" "demo_gl_ok 3" "demo_gl_ok 4" "demo_gl_ok 5" by code_simp+
  then have "demo_gl_ok k" using assms by auto
  then show ?thesis by (auto simp: demo_gl_ok_def demo_gl_def demo_glonass_body_def split: sum.splits)
qed

lemma demo_glonass_run:
  "fst (glonass_run 0 3 9 demo_glonass_body [1, 2, 3, 4, 5] (up_caches ublox_parser_init)) =
     Inr (Some (Ublox_glonassEphemeris (glonass_eph 3 9 (sub (demo_gl 1) ''data'') (sub (demo_gl 2) ''data'') (sub (demo_gl 3) ''data'')
       (sub (demo_gl 4) ''data'') (sub (demo_gl 5) ''data''))))"
  using glonass_set_published [of "up_caches ublox_parser_init" 9 1 3 "[1, 2, 3, 4, 5]" demo_glonass_body demo_gl 0] demo_gl_parsed
  by (force simp: ublox_parser_init_def)

definition demo_ubx_frame :: "int \<Rightarrow> bytes" where
  "demo_ubx_frame k = demo_string (word_of_int k)"

lemma demo_ubx_frame_frame: "ubx_frame (demo_ubx_frame k)"
  unfolding demo_ubx_frame_def demo_string_def sfrbx_frame_def by (rule ubx_message_frame) simp

definition demo_carries :: "int \<Rightarrow> bool" where
  "demo_carries k \<longleftrightarrow> msg_type_of (demo_ubx_frame k) = 0x0213 \<and>
     sfrbx_of (payload_of (demo_ubx_frame k)) = Some \<lparr>sx_gnss_id = 6, sx_sv_id = 3, sx_freq_id = 9, sx_body = demo_glonass_body k\<rparr>"

lemma demo_ubx_frame_parsed:
  assumes "k \<in> {1, 2, 3, 4, 5}"
  shows "parse_frame now (demo_ubx_frame k) c = parse_glonass_ephemeris now 3 9 (demo_glonass_body k) c"
proof -
  have "demo_carries 1" "demo_carries 2" "demo_carries 3" "demo_carries 4" "demo_carries 5" by code_simp+
  then have "demo_carries k" using assms by auto
  then show ?thesis by (simp add: demo_carries_def parse_frame_def parse_sfrbx_def gen_rxm_sfrbx_def GnssType_def)
qed

lemma parse_frames_run:
  "set ks \<subseteq> {1, 2, 3, 4, 5} \<Longrightarrow>
     snd (parse_frames now (map demo_ubx_frame ks) c) = snd (glonass_run now 3 9 demo_glonass_body ks c) \<and>
     (ks \<noteq> [] \<longrightarrow> set (published (fst (glonass_run now 3 9 demo_glonass_body ks c))) \<subseteq> set (fst (parse_frames now (map demo_ubx_frame ks) c)))"
proof (induction ks rule: rev_induct)
  case (snoc k ks)
  have app: "parse_frames now (fs @ [f]) c =
      (fst (parse_frames now fs c) @ published (fst (parse_frame now f (snd (parse_frames now fs c)))),
       snd (parse_frame now f (snd (parse_frames now fs c))))" for fs f
    by (induction fs arbitrary: c) (simp_all add: case_prod_beta)
  from snoc show ?case by (simp add: app demo_ubx_frame_parsed glonass_run_def case_prod_beta)
qed (simp add: glonass_run_def)

definition demo_glonass_session :: "(int \<times> bytes) list" where
  "demo_glonass_session = [(0, concat (map demo_ubx_frame [1, 2, 3, 4, 5]))]"

lemma one_read:
  assumes "inc \<noteq> []" "frame_loop inc = (fs, b)"
  shows "fst (ublox_main [(0, inc)] ublox_parser_init) = fst (parse_frames 0 fs (up_caches ublox_parser_init))"
  using assms by (simp add: ublox_step_def ublox_parser_init_def add_data_def framer_init_def log_time_def Let_def case_prod_beta)

theorem glonass_ephemeris_one_superframe_witness:
  "\<exists>e. one_set (session_frames demo_glonass_session) 9 e"
proof -
  let ?fs = "map demo_ubx_frame [1, 2, 3, 4, 5]" and ?c = "up_caches ublox_parser_init"
  have loop: "frame_loop (concat ?fs) = (?fs, [])"
    using frame_loop_stream [of ?fs "[]"] by (simp add: demo_ubx_frame_frame partial_frame_def)
  have ne: "concat ?fs \<noteq> []" using demo_ubx_frame_frame [of 1] by (auto simp: ubx_frame_def)
  have "fst (ublox_main demo_glonass_session ublox_parser_init) = fst (parse_frames 0 ?fs ?c)"
    using one_read [OF ne loop] by (simp only: demo_glonass_session_def)
  moreover obtain e where e: "fst (glonass_run 0 3 9 demo_glonass_body [1, 2, 3, 4, 5] ?c) = Inr (Some (Ublox_glonassEphemeris e))" "ge_freqNum e = 2"
    using demo_glonass_run by auto
  moreover have "set (published (fst (glonass_run 0 3 9 demo_glonass_body [1, 2, 3, 4, 5] ?c))) \<subseteq> set (fst (parse_frames 0 ?fs ?c))"
    by (rule parse_frames_run [THEN conjunct2, rule_format]) simp_all
  ultimately have "Ublox_glonassEphemeris e \<in> set (fst (ublox_main demo_glonass_session ublox_parser_init))"
    by (auto simp: published_def)
  from glonass_ephemeris_one_superframe [OF this] e(2) show ?thesis by auto
qed

theorem glonass_ephemeris_published_witness:
  "\<exists>e. fst (glonass_run 0 3 9 demo_glonass_body [5, 2, 3, 4, 1] (up_caches ublox_parser_init)) = Inr (Some (Ublox_glonassEphemeris e))"
  using glonass_ephemeris_published [of "up_caches ublox_parser_init" 9 1 3 "[5, 2, 3, 4, 1]" demo_glonass_body demo_gl 0] demo_gl_parsed
  by (force simp: ublox_parser_init_def)

end
