(* ===== verification/UbloxValues.thy ===== *)
theory UbloxValues
  imports UbloxFacts FramerProps
begin

text \<open>
  The values in the receiver's messages: dates, GPS weeks, sign extension, and what happens to reports
  with constellations the code does not know.
\<close>

section \<open>Dates\<close>

definition days_in_month :: "int \<Rightarrow> int \<Rightarrow> int" where
  "days_in_month y m = (if m = 2 then (if is_leap y then 29 else 28) else if m \<in> {4, 6, 9, 11} then 30 else 31)"

definition valid_date :: "int \<Rightarrow> int \<Rightarrow> int \<Rightarrow> bool" where
  "valid_date y m d \<longleftrightarrow> 1 \<le> y \<and> y \<le> 9999 \<and> 1 \<le> m \<and> m \<le> 12 \<and> 1 \<le> d \<and> d \<le> days_in_month y m"

text \<open>The day after a date, by the calendar.\<close>

definition next_day :: "int \<times> int \<times> int \<Rightarrow> int \<times> int \<times> int" where
  "next_day = (\<lambda>(y, m, d).
     if d < days_in_month y m then (y, m, d + 1) else if m < 12 then (y, m + 1, 1) else (y + 1, 1, 1))"

lemma div_pred:
  assumes "(0 :: int) < k"
  shows "y div k = (y - 1) div k + (if y mod k = 0 then 1 else 0)"
proof (cases "y mod k = 0")
  case True
  then have "y - 1 = k * (y div k - 1) + (k - 1)" using mult_div_mod_eq [of k y] by (simp add: algebra_simps)
  from int_div_pos_eq [OF this] assms True show ?thesis by simp
next
  case False
  then have "y - 1 = k * (y div k) + (y mod k - 1)" using mult_div_mod_eq [of k y] by simp
  moreover have "0 \<le> y mod k - 1" "y mod k - 1 < k" using False assms pos_mod_bound [of k y] pos_mod_sign [of k y] by linarith+
  ultimately show ?thesis using int_div_pos_eq [of "y - 1" k "y div k" "y mod k - 1"] False by simp
qed

lemma next_year: "days_before_year (y + 1) = days_before_year y + (if is_leap y then 366 else 365)"
proof -
  define a b c where "a = (y - 1) div 4" and "b = (y - 1) div 100" and "c = (y - 1) div 400"
  have e: "y div 4 = a + (if y mod 4 = 0 then 1 else 0)" "y div 100 = b + (if y mod 100 = 0 then 1 else 0)"
    "y div 400 = c + (if y mod 400 = 0 then 1 else 0)"
    unfolding a_def b_def c_def by (simp_all only: div_pred [of 4 y] div_pred [of 100 y] div_pred [of 400 y])
  have m: "y mod 100 = 0 \<Longrightarrow> y mod 4 = 0" "y mod 400 = 0 \<Longrightarrow> y mod 100 = 0" by presburger+
  have "days_before_year (y + 1) = y * 365 + y div 4 - y div 100 + y div 400" by (simp add: days_before_year_def Let_def)
  moreover have "days_before_year y = (y - 1) * 365 + a - b + c"
    by (simp only: days_before_year_def Let_def a_def b_def c_def)
  ultimately show ?thesis unfolding e is_leap_def using m
    by (cases "y mod 4 = 0"; cases "y mod 100 = 0"; cases "y mod 400 = 0") simp_all
qed

lemma next_month:
  "1 \<le> m \<Longrightarrow> m < 12 \<Longrightarrow> days_before_month y (m + 1) = days_before_month y m + days_in_month y m"
proof -
  assume "1 \<le> m" "m < 12"
  then have "m = 1 \<or> m = 2 \<or> m = 3 \<or> m = 4 \<or> m = 5 \<or> m = 6 \<or> m = 7 \<or> m = 8 \<or> m = 9 \<or> m = 10 \<or> m = 11" by arith
  then show ?thesis by (elim disjE) (simp_all add: days_before_month_def days_in_month_def)
qed

text \<open>The date conversion counts the days of the Gregorian calendar: it is zero at the start of
  1970, adds a day of seconds from each valid date to the next, through month ends, leap days and
  centuries, and refuses a month or a year outside the calendar.\<close>

theorem timegm_counts_days:
  "timegm 1970 1 1 0 0 0 = Inr 0 \<and>
   (\<forall>y m d h mi s. valid_date y m d \<and> (y, m, d) \<noteq> (9999, 12, 31) \<longrightarrow>
      (case next_day (y, m, d) of (y', m', d') \<Rightarrow> valid_date y' m' d' \<and>
         (\<exists>t. timegm y m d h mi s = Inr t \<and> timegm y' m' d' h mi s = Inr (t + SECS_IN_DAY)))) \<and>
   (\<forall>y m d h mi s. y < 1 \<or> 9999 < y \<or> m < 1 \<or> 12 < m \<longrightarrow> timegm y m d h mi s = Inl ValueError)"
proof (intro conjI allI impI)
  show "timegm 1970 1 1 0 0 0 = Inr 0" by code_simp
next
  fix y m d h mi s :: int assume "y < 1 \<or> 9999 < y \<or> m < 1 \<or> 12 < m"
  then show "timegm y m d h mi s = Inl ValueError" by (auto simp: timegm_def)
next
  fix y m d h mi s :: int
  assume a: "valid_date y m d \<and> (y, m, d) \<noteq> (9999, 12, 31)"
  have pos: "1 \<le> days_in_month y' m'" for y' m' by (simp add: days_in_month_def)
  consider (day) "d < days_in_month y m" | (month) "d = days_in_month y m" "m < 12" | (year) "d = 31" "m = 12" "days_in_month y m = 31"
    using a by (fastforce simp: valid_date_def days_in_month_def)
  then show "case next_day (y, m, d) of (y', m', d') \<Rightarrow> valid_date y' m' d' \<and>
         (\<exists>t. timegm y m d h mi s = Inr t \<and> timegm y' m' d' h mi s = Inr (t + SECS_IN_DAY))"
  proof cases
    case day
    then show ?thesis using a by (auto simp: next_day_def valid_date_def timegm_def SECS_defs Let_def)
  next
    case month
    then show ?thesis using a next_month [of m y] pos [of y "m + 1"]
      by (auto simp: next_day_def valid_date_def timegm_def SECS_defs Let_def)
  next
    case year
    have "days_before_month (y + 1) 1 = 0" "days_before_month y 12 = 334 + of_bool (is_leap y)"
      by (simp_all add: days_before_month_def)
    then show ?thesis using a year next_year [of y] pos [of "y + 1" 1]
      by (auto simp: next_day_def valid_date_def timegm_def SECS_defs Let_def)
  qed
qed

theorem timegm_counts_days_witness:
  "timegm 2024 3 1 0 0 0 = map_sum id (\<lambda>t. t + SECS_IN_DAY) (timegm 2024 2 29 0 0 0)"
  using timegm_counts_days [THEN conjunct2, THEN conjunct1, rule_format, of 2024 2 29 0 0 0]
  by (auto simp: valid_date_def days_in_month_def is_leap_def next_day_def)

section \<open>Constellations the code does not know\<close>

lemma map_results_first_err:
  "x \<in> set xs \<Longrightarrow> f x = Inl e \<Longrightarrow> (\<And>y e'. f y = Inl e' \<Longrightarrow> e' = e) \<Longrightarrow> map_results f xs = Inl e"
proof (induction xs)
  case (Cons y ys)
  show ?case
  proof (cases "f y")
    case (Inl e')
    then show ?thesis using Cons.prems(3) [OF Inl] by simp
  next
    case (Inr z)
    then have "x \<in> set ys" using Cons.prems(1,2) by auto
    from Cons.IH [OF this Cons.prems(2,3)] Inr show ?thesis by simp
  qed
next
  case Nil
  from Nil.prems(1) show ?case by simp
qed

lemma enum_value_raw: "sub v n = VInt g \<Longrightarrow> enum_value v n = Inl AttributeError"
  by (simp add: enum_value_def)

text \<open>A measurement report or satellite report that has one entry of a constellation outside
  \<open>GnssType\<close> raises, so none of its measurements is published: the enum falls back to the plain integer,
  whose \<open>value\<close> does not exist.\<close>

theorem unknown_constellation_drops_report:
  assumes "msg_type_of f = 0x0215 \<and> from_bytes RxmRawx (payload_of f) = Inr msg \<and> m \<in> set (items msg ''meas'') \<or>
      msg_type_of f = 0x0135 \<and> from_bytes NavSat (payload_of f) = Inr msg \<and> m \<in> set (items msg ''svs'')"
    "sub m ''gnss_id'' = VInt g"
  shows "parse_frame now f c = (Inl AttributeError, c)"
proof -
  have "gen_measurement m = Inl AttributeError" "gen_sat_info m = Inl AttributeError"
    using assms(2) by (simp_all add: gen_measurement_def gen_sat_info_def enum_value_raw)
  moreover have "e = AttributeError" if "gen_measurement v = Inl e \<or> gen_sat_info v = Inl e" for v e
    using that by (auto simp: gen_measurement_def gen_sat_info_def rbind_Inl_iff dest: enum_value_err)
  ultimately have "m \<in> set xs \<Longrightarrow> map_results gen_measurement xs = Inl AttributeError"
    "m \<in> set xs \<Longrightarrow> map_results gen_sat_info xs = Inl AttributeError" for xs
    by (blast intro: map_results_first_err)+
  then show ?thesis using assms(1) by (auto simp: parse_frame_def gen_rxm_rawx_def gen_nav_sat_def)
qed

text \<open>A satellite report with a GPS satellite and one of constellation 7 (NavIC).\<close>

definition demo_navic :: bytes where
  "demo_navic = add_ubx_checksum (ubx_message 1 0x35 ([0, 0, 0, 0, 1, 2, 0, 0] @ [0, 5] @ replicate 10 0 @ [7, 5] @ replicate 10 0))"

theorem unknown_constellation_drops_report_witness:
  "parse_frame 0 demo_navic (up_caches ublox_parser_init) = (Inl AttributeError, up_caches ublox_parser_init)"
proof -
  have w: "msg_type_of demo_navic = 0x0135" by code_simp
  have "\<exists>msg m. from_bytes NavSat (payload_of demo_navic) = Inr msg \<and> m \<in> set (items msg ''svs'') \<and> sub m ''gnss_id'' = VInt 7"
  proof -
    have "case from_bytes NavSat (payload_of demo_navic) of Inl _ \<Rightarrow> False | Inr msg \<Rightarrow>
        (case items msg ''svs'' of [_, m] \<Rightarrow> sub m ''gnss_id'' = VInt 7 | _ \<Rightarrow> False)"
      by code_simp
    then show ?thesis by (auto split: sum.splits list.splits)
  qed
  with w unknown_constellation_drops_report show ?thesis by blast
qed


section \<open>GPS fields\<close>

lemma parse_const_first:
  "parse_struct ((name, ConstType (BytesType n) x) # tail) cls as r = Inr (v, r1) \<Longrightarrow>
     \<exists>bs r0 as'. read_bytes n r = Inr (bs, r0) \<and> parse_struct tail cls as' r0 = Inr (v, r1)"
  by (auto simp: rbind_Inr_iff split: if_splits)

lemma tlm_cursor:
  assumes "parse_field Tlm obj (reader_init d) = Inr (t, r1)"
  shows "cursor r1 = 24 \<and> br_data r1 = d \<and> 24 \<le> 8 * length d"
proof -
  have rest: "fields_end [(''tlm'', BitsType 14), (''integrity_status'', BitsType 1), (''reserved'', BitsType 1)] 8 = Some 24" by simp
  obtain bs r0 as where "read_bytes 1 (reader_init d) = Inr (bs, r0)"
    "parse_struct [(''tlm'', BitsType 14), (''integrity_status'', BitsType 1), (''reserved'', BitsType 1)] ''Tlm'' as r0 = Inr (t, r1)"
    using parse_const_first assms unfolding Tlm_def parse_field.simps by blast
  then show ?thesis
    using parse_static(2) [OF rest, of r0] by (auto simp: read_bytes_eq align8_def split: if_splits)
qed

lemma gps_body:
  assumes "from_bytes Gps d = Inr sf" "fld (sub sf ''how'') ''subframe_id'' = k" "k \<in> {1, 2, 3}"
  shows "sub sf ''body'' = spec_value (if k = 1 then Subframe1 else if k = 2 then Subframe2 else Subframe3) 48 d \<and> 240 \<le> 8 * length d"
proof -
  obtain r' where "parse_field Gps VNone (reader_init d) = Inr (sf, r')"
    using assms(1) by (auto simp: from_bytes_def rbind_Inr_iff)
  then obtain t r1 h r2 b r3 where t: "parse_field Tlm (VObj ''Gps'' []) (reader_init d) = Inr (t, r1)"
    and h: "parse_field How (VObj ''Gps'' [(''tlm'', t)]) r1 = Inr (h, r2)"
    and b: "parse_field (SwitchType ''how.subframe_id'' [(1, Subframe1), (2, Subframe2), (3, Subframe3), (4, Subframe4)] None)
        (VObj ''Gps'' [(''tlm'', t), (''how'', h)]) r2 = Inr (b, r3)"
    and sf: "sf = VObj ''Gps'' [(''tlm'', t), (''how'', h), (''body'', b)]"
    unfolding Gps_def by (auto simp: rbind_Inr_iff simp del: parse_field.simps(3))
  note r1 = tlm_cursor [OF t]
  have r2: "cursor r2 = 48 \<and> br_data r2 = d \<and> 48 \<le> 8 * length d"
    using parse_static(1) [OF gps_sizes(1) refl, of r1 "VObj ''Gps'' [(''tlm'', t)]"] h r1 by (auto split: if_splits)
  obtain i where i: "getattr h ''subframe_id'' = Inr (VInt i)" using subframe_id_key [OF h] r1 by auto
  have "i = k" using fld_VInt [OF i] assms(2) by (simp add: sf sub_def getattr_def)
  with b i have "parse_field (if k = 1 then Subframe1 else if k = 2 then Subframe2 else Subframe3)
      (VObj ''Gps'' [(''tlm'', t), (''how'', h)]) r2 = Inr (b, r3)"
    using assms(3) by (auto simp: path_how)
  then have "b = spec_value (if k = 1 then Subframe1 else if k = 2 then Subframe2 else Subframe3) 48 d \<and> 240 \<le> 8 * length d"
    using parse_static(1) [OF gps_sizes(2), of r2] parse_static(1) [OF gps_sizes(3), of r2] parse_static(1) [OF gps_sizes(4), of r2] r2 assms(3)
    by (auto split: if_splits)
  then show ?thesis by (simp add: sf sub_def getattr_def)
qed

text \<open>The bits \<open>[p, p + n)\<close> of a subframe, most significant first.\<close>

definition sf_bits :: "bytes \<Rightarrow> nat \<Rightarrow> nat \<Rightarrow> int" where
  "sf_bits d p n = bits_value (take n (drop p (bits_of d)))"

lemma sf_bits_bounds: "0 \<le> sf_bits d p n \<and> sf_bits d p n < 2 ^ n"
proof -
  have "(2 :: int) ^ length (take n (drop p (bits_of d))) \<le> 2 ^ n" by (intro power_increasing) simp_all
  then show ?thesis using bits_value_bounds [of "take n (drop p (bits_of d))"] unfolding sf_bits_def by linarith
qed

lemma subframe1_fields:
  "fld (spec_value Subframe1 48 d) ''week_no'' = sf_bits d 48 10"
  "fld (spec_value Subframe1 48 d) ''af_0_value'' = sf_bits d 217 21"
  "flag (spec_value Subframe1 48 d) ''af_0_sign'' \<longleftrightarrow> sf_bits d 216 1 \<noteq> 0"
  by (simp_all add: Subframe1_def fld_def flag_def getattr_def Let_def sf_bits_def align8_def bs_type_defs)


text \<open>The ten bits of the broadcast GPS week are resolved into the 1024 weeks that start with week
  1877; at the end of a week whose ephemeris already refers to the next, one week is added.\<close>

theorem gps_week_resolved:
  assumes "from_bytes Gps d1 = Inr sf1" "fld (sub sf1 ''how'') ''subframe_id'' = 1"
  shows "\<exists>w. 1877 \<le> w \<and> w < 1877 + 1024 \<and> w mod 1024 = sf_bits d1 48 10 \<and>
    ep_tocWeek (gps_ephemeris sv sf1 sf2 sf3) = ep_toeWeek (gps_ephemeris sv sf1 sf2 sf3) \<and>
    ep_toeWeek (gps_ephemeris sv sf1 sf2 sf3) =
      w + of_bool (fld (sub sf2 ''body'') ''t_oe'' = 0 \<and> SECS_IN_WEEK - 2 * SECS_IN_HR \<le> fld (sub sf2 ''how'') ''tow_count'' * 6)"
proof -
  have body: "sub sf1 ''body'' = spec_value Subframe1 48 d1" using gps_body [OF assms] by simp
  have b: "0 \<le> sf_bits d1 48 10" "sf_bits d1 48 10 < 1024" using sf_bits_bounds [of d1 48 10] by simp_all
  let ?w = "if sf_bits d1 48 10 + 1024 < 1877 then sf_bits d1 48 10 + 1024 + 1024 else sf_bits d1 48 10 + 1024"
  have "1877 \<le> ?w \<and> ?w < 1877 + 1024 \<and> ?w mod 1024 = sf_bits d1 48 10"
  proof -
    have "1877 \<le> (if x + 1024 < 1877 then x + 1024 + 1024 else x + 1024) \<and> (if x + 1024 < 1877 then x + 1024 + 1024 else x + 1024) < 1877 + 1024 \<and>
        (if x + 1024 < 1877 then x + 1024 + 1024 else x + 1024) mod 1024 = x" if "0 \<le> x" "x < 1024" for x :: int
      using that mod_mult_self2 [of x 1024 2] mod_mult_self2 [of x 1024 1] by (simp add: mod_pos_pos_trivial add.commute)
    from this [OF b] show ?thesis .
  qed
  moreover have "ep_tocWeek (gps_ephemeris sv sf1 sf2 sf3) = ep_toeWeek (gps_ephemeris sv sf1 sf2 sf3)"
    by (simp add: gps_ephemeris_def Let_def)
  moreover have "ep_toeWeek (gps_ephemeris sv sf1 sf2 sf3) =
      ?w + of_bool (fld (sub sf2 ''body'') ''t_oe'' = 0 \<and> SECS_IN_WEEK - 2 * SECS_IN_HR \<le> fld (sub sf2 ''how'') ''tow_count'' * 6)"
    by (simp add: gps_ephemeris_def Let_def body subframe1_fields(1))
  ultimately show ?thesis by blast
qed

text \<open>A subframe 1 of week 2200, that is 152 in the ten bits.\<close>

definition demo_week_subframe :: bytes where
  "demo_week_subframe = [0x8B, 0, 0, 0, 0, 4, 38, 0] @ replicate 22 0"

theorem gps_week_resolved_witness:
  "\<exists>sf1. from_bytes Gps demo_week_subframe = Inr sf1 \<and> ep_toeWeek (gps_ephemeris 5 sf1 VNone VNone) = 2200"
proof -
  have "case from_bytes Gps demo_week_subframe of Inl _ \<Rightarrow> False | Inr sf \<Rightarrow> fld (sub sf ''how'') ''subframe_id'' = 1"
    by code_simp
  then obtain sf1 where sf: "from_bytes Gps demo_week_subframe = Inr sf1" "fld (sub sf1 ''how'') ''subframe_id'' = 1"
    by (auto split: sum.splits)
  have "sf_bits demo_week_subframe 48 10 = 152" by code_simp
  moreover obtain w where w: "1877 \<le> w" "w < 1877 + 1024" "w mod 1024 = sf_bits demo_week_subframe 48 10"
    "ep_toeWeek (gps_ephemeris 5 sf1 VNone VNone) =
      w + of_bool (fld (sub VNone ''body'') ''t_oe'' = 0 \<and> SECS_IN_WEEK - 2 * SECS_IN_HR \<le> fld (sub VNone ''how'') ''tow_count'' * 6)"
    using gps_week_resolved [OF sf, of 5 VNone VNone] by blast
  moreover have "\<not> SECS_IN_WEEK - 2 * SECS_IN_HR \<le> fld (sub VNone ''how'') ''tow_count'' * 6" by code_simp
  ultimately have "(w - 152) mod 1024 = 0" "ep_toeWeek (gps_ephemeris 5 sf1 VNone VNone) = w" by (simp_all add: mod_diff_left_eq [symmetric])
  then obtain n where "w - 152 = 1024 * n" by (metis mod_0_imp_dvd dvdE)
  note n = this
  have "1 < n" "n < 3" using n w(1,2) by linarith+
  with n have "w = 2200" by simp
  with sf(1) \<open>ep_toeWeek (gps_ephemeris 5 sf1 VNone VNone) = w\<close> show ?thesis by blast
qed

text \<open>The clock bias is the two's complement value of its 22 bits, although the source's comment says
  sign-magnitude.\<close>

theorem af_0_twos_complement:
  assumes "from_bytes Gps d = Inr sf" "fld (sub sf ''how'') ''subframe_id'' = 1"
  shows "Subframe1_af_0 (sub sf ''body'') = signed_take_bit 21 (sf_bits d 216 22)"
proof -
  have body: "sub sf ''body'' = spec_value Subframe1 48 d" and len: "240 \<le> 8 * length d" using gps_body [OF assms] by simp_all
  have "take 22 (drop 216 (bits_of d)) = take 1 (drop 216 (bits_of d)) @ take 21 (drop 217 (bits_of d))"
    using take_add [of 1 21 "drop 216 (bits_of d)"] by simp
  then have x: "sf_bits d 216 22 = 2 ^ 21 * sf_bits d 216 1 + sf_bits d 217 21"
    using len by (simp add: sf_bits_def bits_value_append)
  have s: "sf_bits d 216 1 = 0 \<or> sf_bits d 216 1 = 1" and v: "0 \<le> sf_bits d 217 21" "sf_bits d 217 21 < 2 ^ 21"
    using sf_bits_bounds [of d 216 1] sf_bits_bounds [of d 217 21] by auto
  have "bit (2 ^ 21 + sf_bits d 217 21) 21" "\<not> bit (sf_bits d 217 21) 21"
    using v by (simp_all add: bit_iff_odd div_pos_pos_trivial)
  moreover have "take_bit 22 (2 ^ 21 + sf_bits d 217 21) = 2 ^ 21 + sf_bits d 217 21" "take_bit 22 (sf_bits d 217 21) = sf_bits d 217 21"
    using v by (simp_all add: take_bit_int_eq_self)
  ultimately show ?thesis
    using s by (auto simp: Subframe1_af_0_def body subframe1_fields x signed_take_bit_eq_take_bit_minus push_bit_eq_mult)
qed

theorem af_0_twos_complement_witness:
  "\<exists>sf. from_bytes Gps ([0x8B, 0, 0, 0, 0, 4] @ replicate 21 0 @ [0xFF, 0xFF, 0xFC]) = Inr sf \<and> Subframe1_af_0 (sub sf ''body'') = - 1"
proof -
  let ?d = "[0x8B, 0, 0, 0, 0, 4] @ replicate 21 0 @ [0xFF, 0xFF, 0xFC] :: bytes"
  have "case from_bytes Gps ?d of Inl _ \<Rightarrow> False | Inr sf \<Rightarrow> fld (sub sf ''how'') ''subframe_id'' = 1"
    by code_simp
  then obtain sf where sf: "from_bytes Gps ?d = Inr sf" "fld (sub sf ''how'') ''subframe_id'' = 1"
    by (auto split: sum.splits)
  have "signed_take_bit 21 (sf_bits ?d 216 22) = - 1" by code_simp
  with af_0_twos_complement [OF sf] sf(1) show ?thesis by auto
qed

end
