(* ===== verification/Pigeon.thy ===== *)
theory Pigeon
  imports UbxFramer
begin

text \<open>
  \<open>system/ubloxd/pigeond.py\<close>: configuration of the receiver over its serial port, and the forwarding
  of the raw stream.  The device is the list of its future answers: a round is what one call of
  \<open>receive\<close> returns, whoever makes it, and, for a call in a wait, the time since the wait began.  So what a wait
  reads is gone for the forwarding loop, as in the code.  What is sent is kept in a log.  A wait ends
  with a value, with \<open>TimeoutError\<close>, or not at all when the list of answers is used up.
\<close>

section \<open>Messages\<close>

definition UBLOX_ACK :: bytes where
  "UBLOX_ACK = [0xB5, 0x62, 5, 1, 2, 0]"

definition UBLOX_NACK :: bytes where
  "UBLOX_NACK = [0xB5, 0x62, 5, 0, 2, 0]"

definition UBLOX_SOS_ACK :: bytes where
  "UBLOX_SOS_ACK = [0xB5, 0x62, 9, 0x14, 8, 0, 2, 0, 0, 0, 1, 0, 0, 0]"

definition UBLOX_SOS_NACK :: bytes where
  "UBLOX_SOS_NACK = [0xB5, 0x62, 9, 0x14, 8, 0, 2, 0, 0, 0, 0, 0, 0, 0]"

definition UBLOX_BACKUP_RESTORE_MSG :: bytes where
  "UBLOX_BACKUP_RESTORE_MSG = [0xB5, 0x62, 9, 0x14, 8, 0, 3]"

definition UBLOX_ASSIST_ACK :: bytes where
  "UBLOX_ASSIST_ACK = [0xB5, 0x62, 0x13, 0x60, 8, 0]"

definition cold_start :: bytes where
  "cold_start = [0xB5, 0x62, 6, 4, 4, 0, 0xFF, 0xFF, 0, 0, 0x0C, 0x5D]"

definition clear_configuration :: bytes where
  "clear_configuration = [0xB5, 0x62, 6, 9, 0x0D, 0, 0x1F, 0x1F, 0, 0, 0, 0, 0, 0, 0, 0, 0, 0, 0x17, 0x71, 0xD7]"

definition clear_flash :: bytes where
  "clear_flash = [0xB5, 0x62, 9, 0x14, 4, 0, 1, 0, 0, 0, 0x22, 0xF0]"

definition restore_backup :: bytes where
  "restore_backup = [0xB5, 0x62, 9, 0x14, 0, 0, 0x1D, 0x60]"

definition store_almanac :: bytes where
  "store_almanac = [0xB5, 0x62, 9, 0x14, 4, 0, 0, 0, 0, 0, 0x21, 0xEC]"

definition controlled_stop :: bytes where
  "controlled_stop = [0xB5, 0x62, 6, 4, 4, 0, 0, 0, 8, 0, 0x16, 0x74]"

definition baud_rate_sentence :: bytes where
  "baud_rate_sentence = [0x24, 0x50, 0x55, 0x42, 0x58, 0x2C, 0x34, 0x31, 0x2C, 0x31, 0x2C, 0x30, 0x30, 0x30, 0x37, 0x2C, 0x30,
     0x30, 0x30, 0x33, 0x2C, 0x34, 0x36, 0x30, 0x38, 0x30, 0x30, 0x2C, 0x30, 0x2A, 0x31, 0x35, 0x0D, 0x0A]"

text \<open>The commands of \<open>init_pigeon\<close>, in their order: ports, rates, navigation settings, polls, message rates.\<close>

definition config_commands :: "bytes list" where
  "config_commands =
    [[0xB5, 0x62, 6, 0, 0x14, 0, 3, 0xFF, 0, 0, 0, 0, 0, 0, 0, 0, 0, 0, 1, 0, 1, 0, 0, 0, 0, 0, 0x1E, 0x7F],
     [0xB5, 0x62, 6, 0, 0x14, 0, 0, 0xFF, 0, 0, 0, 0, 0, 0, 0, 0, 0, 0, 0, 0, 0, 0, 0, 0, 0, 0, 0x19, 0x35],
     [0xB5, 0x62, 6, 0, 0x14, 0, 1, 0, 0, 0, 0xC0, 8, 0, 0, 0, 8, 7, 0, 1, 0, 1, 0, 0, 0, 0, 0, 0xF4, 0x80],
     [0xB5, 0x62, 6, 0, 0x14, 0, 4, 0xFF, 0, 0, 0, 0, 0, 0, 0, 0, 0, 0, 0, 0, 0, 0, 0, 0, 0, 0, 0x1D, 0x85],
     [0xB5, 0x62, 6, 0, 0, 0, 6, 0x18],
     [0xB5, 0x62, 6, 0, 1, 0, 1, 8, 0x22],
     [0xB5, 0x62, 6, 0, 1, 0, 3, 0x0A, 0x24],
     [0xB5, 0x62, 6, 8, 6, 0, 0x64, 0, 1, 0, 0, 0, 0x79, 0x10],
     [0xB5, 0x62, 6, 0x24, 0x24, 0, 5, 0, 4, 3, 0, 0, 0, 0, 0, 0, 0, 0, 0, 0, 0, 0, 0, 0, 0, 0, 0, 0, 0, 0, 0,
      0, 0, 0, 0, 0, 0, 0, 0, 0, 0, 0, 0x5A, 0x63],
     [0xB5, 0x62, 6, 0x1E, 0x14, 0, 0, 0, 0, 0, 1, 3, 0, 0, 0, 0, 0, 0, 0, 0, 0, 0, 0, 0, 0, 0, 0x3C, 0x37],
     [0xB5, 0x62, 6, 0x39, 8, 0, 0xFF, 0xAD, 0x62, 0xAD, 0x1E, 0x63, 0, 0, 0x83, 0x0C],
     [0xB5, 0x62, 6, 0x23, 0x28, 0, 0, 0, 0, 4, 0, 0, 0, 0, 0, 0, 0, 0, 0, 0, 0, 0, 0, 1, 0, 0, 0, 0, 0, 0, 0,
      0, 0, 0, 0, 0, 0, 0, 0, 0, 0, 0, 0, 0, 0, 0, 0x56, 0x24],
     [0xB5, 0x62, 6, 0x24, 0, 0, 0x2A, 0x84],
     [0xB5, 0x62, 6, 0x23, 0, 0, 0x29, 0x81],
     [0xB5, 0x62, 6, 0x1E, 0, 0, 0x24, 0x72],
     [0xB5, 0x62, 6, 0x39, 0, 0, 0x3F, 0xC3],
     [0xB5, 0x62, 6, 1, 3, 0, 1, 7, 1, 0x13, 0x51],
     [0xB5, 0x62, 6, 1, 3, 0, 2, 0x15, 1, 0x22, 0x70],
     [0xB5, 0x62, 6, 1, 3, 0, 2, 0x13, 1, 0x20, 0x6C],
     [0xB5, 0x62, 6, 1, 3, 0, 0x0A, 9, 1, 0x1E, 0x70],
     [0xB5, 0x62, 6, 1, 3, 0, 0x0A, 0x0B, 1, 0x20, 0x74],
     [0xB5, 0x62, 6, 1, 3, 0, 1, 0x35, 1, 0x41, 0xAD]]"

section \<open>The serial port\<close>

record pigeon =
  pg_sent :: "bytes list"
  pg_baud :: int
  pg_powered :: bool
  pg_rounds :: "(bytes \<times> real) list"

datatype 'a outcome = Returns 'a | Timeout | Waiting

definition send :: "bytes \<Rightarrow> pigeon \<Rightarrow> pigeon" where
  "send dat p = p\<lparr>pg_sent := pg_sent p @ [dat]\<rparr>"

definition set_baud :: "int \<Rightarrow> pigeon \<Rightarrow> pigeon" where
  "set_baud baud p = p\<lparr>pg_baud := baud\<rparr>"

definition set_power :: "bool \<Rightarrow> pigeon \<Rightarrow> pigeon" where
  "set_power enabled p = p\<lparr>pg_powered := enabled\<rparr>"

text \<open>\<open>receive\<close>: reads of at most 64 bytes until nothing more is there or 4096 bytes are reached;
  \<open>reads\<close> are the results of the calls of \<open>tty.read\<close>.\<close>

fun receive :: "bytes \<Rightarrow> bytes list \<Rightarrow> bytes \<times> bytes list" where
  "receive dat [] = (dat, [])"
| "receive dat (d # reads) =
     (if 0x1000 \<le> length dat then (dat, d # reads)
      else if d = [] then (dat, reads) else receive (dat @ d) reads)"

text \<open>\<open>needle in dat\<close> and \<open>dat.find(needle)\<close>.\<close>

fun find_bytes :: "bytes \<Rightarrow> bytes \<Rightarrow> nat option" where
  "find_bytes needle dat =
     (if take (length needle) dat = needle then Some 0
      else case dat of [] \<Rightarrow> None | _ # ds \<Rightarrow> map_option Suc (find_bytes needle ds))"

declare find_bytes.simps [simp del]

fun wait_loop :: "bytes \<Rightarrow> bytes \<Rightarrow> real \<Rightarrow> bytes \<Rightarrow> (bytes \<times> real) list \<Rightarrow> bool outcome \<times> (bytes \<times> real) list" where
  "wait_loop ack nack timeout dat [] = (Waiting, [])"
| "wait_loop ack nack timeout dat ((d, elapsed) # rounds) =
     (if find_bytes ack (dat @ d) \<noteq> None then (Returns True, rounds)
      else if find_bytes nack (dat @ d) \<noteq> None then (Returns False, rounds)
      else if timeout < elapsed then (Timeout, rounds)
      else wait_loop ack nack timeout (dat @ d) rounds)"

definition wait_for_ack :: "bytes \<Rightarrow> bytes \<Rightarrow> pigeon \<Rightarrow> bool outcome \<times> pigeon" where
  "wait_for_ack ack nack p =
     (let (r, rounds) = wait_loop ack nack (1 / 2) [] (pg_rounds p) in (r, p\<lparr>pg_rounds := rounds\<rparr>))"

text \<open>The answer of \<open>wait_for_ack\<close> is dropped: a refusal counts as an answer.\<close>

definition send_with_ack :: "bytes \<Rightarrow> bytes \<Rightarrow> pigeon \<Rightarrow> unit outcome \<times> pigeon" where
  "send_with_ack ack dat p =
     (let (r, p1) = wait_for_ack ack UBLOX_NACK (send dat p)
      in (case r of Returns _ \<Rightarrow> Returns () | Timeout \<Rightarrow> Timeout | Waiting \<Rightarrow> Waiting, p1))"

fun status_loop :: "bytes \<Rightarrow> (bytes \<times> real) list \<Rightarrow> int outcome \<times> (bytes \<times> real) list" where
  "status_loop dat [] = (Waiting, [])"
| "status_loop dat ((d, elapsed) # rounds) =
     (let dat1 = dat @ d
      in case find_bytes UBLOX_BACKUP_RESTORE_MSG dat1 of
           Some position \<Rightarrow>
             if position + 11 \<le> length dat1 then (Returns (uint (dat1 ! (position + 10))), rounds)
             else if 1 < elapsed then (Timeout, rounds) else status_loop dat1 rounds
         | None \<Rightarrow> if 1 < elapsed then (Timeout, rounds) else status_loop dat1 rounds)"

definition wait_for_backup_restore_status :: "pigeon \<Rightarrow> int outcome \<times> pigeon" where
  "wait_for_backup_restore_status p =
     (let (r, rounds) = status_loop [] (pg_rounds p) in (r, p\<lparr>pg_rounds := rounds\<rparr>))"

section \<open>Sequences of commands\<close>

definition obind :: "'a outcome \<times> pigeon \<Rightarrow> ('a \<Rightarrow> pigeon \<Rightarrow> 'b outcome \<times> pigeon) \<Rightarrow> 'b outcome \<times> pigeon" where
  "obind m f = (case m of (Returns x, p) \<Rightarrow> f x p | (Timeout, p) \<Rightarrow> (Timeout, p) | (Waiting, p) \<Rightarrow> (Waiting, p))"

fun send_all :: "bytes \<Rightarrow> bytes list \<Rightarrow> pigeon \<Rightarrow> unit outcome \<times> pigeon" where
  "send_all ack [] p = (Returns (), p)"
| "send_all ack (c # cs) p = obind (send_with_ack ack c p) (\<lambda>_ p1. send_all ack cs p1)"

definition init_baudrate :: "pigeon \<Rightarrow> pigeon" where
  "init_baudrate p = set_baud 460800 (send baud_rate_sentence (set_baud 9600 p))"

fun reset_device :: "nat \<Rightarrow> pigeon \<Rightarrow> bool outcome \<times> pigeon" where
  "reset_device 0 p = (Returns False, p)"
| "reset_device (Suc n) p =
     obind (send_all UBLOX_ACK [clear_configuration, clear_flash] (init_baudrate (send cold_start p))) (\<lambda>_ p1.
       obind (wait_for_backup_restore_status (send restore_backup p1)) (\<lambda>status p2.
         if status = 1 \<or> status = 3 then (Returns True, p2) else reset_device n p2))"

text \<open>The almanac is stored on a best effort: a time-out is ignored.\<close>

definition save_almanac :: "pigeon \<Rightarrow> unit outcome \<times> pigeon" where
  "save_almanac p =
     (let (r, p1) = wait_for_ack UBLOX_SOS_ACK UBLOX_SOS_NACK (send store_almanac p)
      in (case r of Waiting \<Rightarrow> Waiting | _ \<Rightarrow> Returns (), p1))"

text \<open>The clock, when the system time is valid: year, month, day, hour, minute, second.\<close>

type_synonym utc_time = "int \<times> int \<times> int \<times> int \<times> int \<times> int"

fun time_message :: "utc_time \<Rightarrow> bytes" where
  "time_message (year, month, day, hour, minute, second) =
     add_ubx_checksum ([PREAMBLE1, PREAMBLE2, 0x13, 0x40, 0x18, 0,
       0x10, 0, 0, 0x80, word_of_int (year mod 256), word_of_int (year div 256), word_of_int month, word_of_int day,
       word_of_int hour, word_of_int minute, word_of_int second, 0, 0, 0, 0, 0, 30, 0, 0, 0, 0, 0, 0, 0])"

text \<open>One attempt of \<open>init_pigeon\<close>, and its ten attempts.\<close>

definition init_attempt :: "utc_time option \<Rightarrow> pigeon \<Rightarrow> unit outcome \<times> pigeon" where
  "init_attempt clock p =
     obind (send_all UBLOX_ACK config_commands p) (\<lambda>_ p1.
       obind (wait_for_backup_restore_status (send restore_backup p1)) (\<lambda>_ p2.
         case clock of None \<Rightarrow> (Returns (), p2) | Some t \<Rightarrow> send_with_ack UBLOX_ASSIST_ACK (time_message t) p2))"

fun init_pigeon :: "utc_time option \<Rightarrow> nat \<Rightarrow> pigeon \<Rightarrow> bool outcome \<times> pigeon" where
  "init_pigeon clock 0 p = (Returns False, p)"
| "init_pigeon clock (Suc n) p =
     (case init_attempt clock p of
        (Returns _, p1) \<Rightarrow> (Returns True, p1)
      | (Timeout, p1) \<Rightarrow> init_pigeon clock n p1
      | (Waiting, p1) \<Rightarrow> (Waiting, p1))"

definition pigeon_init :: "utc_time option \<Rightarrow> pigeon \<Rightarrow> unit outcome \<times> pigeon" where
  "pigeon_init clock p =
     obind (init_pigeon clock 10 (init_baudrate (set_power True (set_power False p)))) (\<lambda>_ p1. (Returns (), p1))"

definition deinitialize :: "pigeon \<Rightarrow> pigeon" where
  "deinitialize p = set_power False (send controlled_stop p)"

section \<open>The receiving loop\<close>

record receiving =
  rv_pigeon :: pigeon
  rv_last_almanac_save :: real
  rv_assist_attempted :: bool
  rv_published :: "bytes list"

text \<open>What a round of the loop sees besides the port: the messages the assistance thread has got, the clock, and the
  monotonic time after the read and after a save of the almanac.\<close>

record receiving_input =
  ri_assist :: "bytes list option"
  ri_clock :: "utc_time option"
  ri_time :: real
  ri_time_saved :: real

definition send_assistance :: "receiving_input \<Rightarrow> receiving \<Rightarrow> receiving outcome" where
  "send_assistance i rv =
     (case ri_assist i of
        Some msgs \<Rightarrow>
          if rv_assist_attempted rv then Returns rv
          else (case send_all UBLOX_ASSIST_ACK msgs (rv_pigeon rv) of
                  (Waiting, _) \<Rightarrow> Waiting
                | (_, p) \<Rightarrow> Returns (rv\<lparr>rv_assist_attempted := True, rv_pigeon := p\<rparr>))
      | None \<Rightarrow> Returns rv)"

text \<open>The answers of the device are the reads of the loop and of the waits alike.\<close>

definition receive_round :: "receiving_input \<Rightarrow> receiving \<Rightarrow> receiving outcome" where
  "receive_round i rv0 =
     (case send_assistance i rv0 of
        Returns rv \<Rightarrow>
          (case pg_rounds (rv_pigeon rv) of
             [] \<Rightarrow> Waiting
           | (dat, _) # rounds \<Rightarrow>
               let p = (rv_pigeon rv)\<lparr>pg_rounds := rounds\<rparr>; rv = rv\<lparr>rv_pigeon := p\<rparr>
               in if dat = [] then Returns rv
                  else if hd dat = 0 then
                    (case pigeon_init (ri_clock i) p of
                       (Returns _, p) \<Rightarrow> Returns (rv\<lparr>rv_pigeon := p, rv_assist_attempted := False\<rparr>)
                     | (Timeout, _) \<Rightarrow> Timeout | (Waiting, _) \<Rightarrow> Waiting)
                  else
                    let rv1 = rv\<lparr>rv_published := rv_published rv @ [dat]\<rparr>
                    in if 60 * 5 < ri_time i - rv_last_almanac_save rv1
                       then (case save_almanac p of
                               (Returns _, p) \<Rightarrow> Returns (rv1\<lparr>rv_pigeon := p, rv_last_almanac_save := ri_time_saved i\<rparr>)
                             | (Timeout, _) \<Rightarrow> Timeout | (Waiting, _) \<Rightarrow> Waiting)
                       else Returns rv1)
      | Timeout \<Rightarrow> Timeout | Waiting \<Rightarrow> Waiting)"

fun receive_rounds :: "receiving_input list \<Rightarrow> receiving \<Rightarrow> receiving outcome" where
  "receive_rounds [] rv = Returns rv"
| "receive_rounds (i # is) rv =
     (case receive_round i rv of Returns rv1 \<Rightarrow> receive_rounds is rv1 | Timeout \<Rightarrow> Timeout | Waiting \<Rightarrow> Waiting)"

end
