(* ===== verification/PigeonProps.thy ===== *)
theory PigeonProps
  imports Pigeon FramerProps "HOL-Library.Sublist"
begin

text \<open>
  The configuration commands are frames, a successful initialisation has sent all of them in order,
  and the raw stream reaches the parser unchanged except where a read happens to start with a zero byte or a
  wait for an answer consumes it.
\<close>

section \<open>Commands\<close>

lemma time_message_frame: "ubx_frame (time_message t)"
proof -
  obtain y mo d h mi s where t: "t = (y, mo, d, h, mi, s)" by (cases t)
  have "time_message t = add_ubx_checksum (ubx_message 0x13 0x40
      [0x10, 0, 0, 0x80, word_of_int (y mod 256), word_of_int (y div 256), word_of_int mo, word_of_int d,
       word_of_int h, word_of_int mi, word_of_int s, 0, 0, 0, 0, 0, 30, 0, 0, 0, 0, 0, 0, 0])"
    by (simp add: t ubx_message_def)
  then show ?thesis by (simp add: ubx_message_frame)
qed

text \<open>Every message \<open>pigeond\<close> sends to the receiver, apart from the baud rate sentence, is a frame:
  its length field and its hand-written or computed checksum are right.\<close>

theorem commands_are_frames:
  "(\<forall>c \<in> set config_commands. ubx_frame c) \<and>
   (\<forall>c \<in> {cold_start, clear_configuration, clear_flash, restore_backup, store_almanac, controlled_stop}. ubx_frame c) \<and>
   (\<forall>t. ubx_frame (time_message t))"
proof (intro conjI)
  show "\<forall>c \<in> set config_commands. ubx_frame c" by code_simp
  show "\<forall>c \<in> {cold_start, clear_configuration, clear_flash, restore_backup, store_almanac, controlled_stop}. ubx_frame c" by code_simp
qed (simp add: time_message_frame)

section \<open>Initialisation\<close>

lemma send_with_ack_log: "pg_sent (snd (send_with_ack ack c p)) = pg_sent p @ [c]"
  by (simp add: send_with_ack_def wait_for_ack_def send_def Let_def case_prod_beta)

lemma status_log: "pg_sent (snd (wait_for_backup_restore_status p)) = pg_sent p"
  by (simp add: wait_for_backup_restore_status_def case_prod_beta)

lemma send_all_log:
  "\<exists>k. pg_sent (snd (send_all ack cs p)) = pg_sent p @ take k cs \<and> (fst (send_all ack cs p) = Returns () \<longrightarrow> k = length cs)"
proof (induction cs arbitrary: p)
  case (Cons c cs)
  obtain r p1 where s: "send_with_ack ack c p = (r, p1)" by fastforce
  then have log: "pg_sent p1 = pg_sent p @ [c]" using send_with_ack_log [of ack c p] by simp
  show ?case
  proof (cases r)
    case (Returns u)
    obtain k where "pg_sent (snd (send_all ack cs p1)) = pg_sent p1 @ take k cs" "fst (send_all ack cs p1) = Returns () \<longrightarrow> k = length cs"
      using Cons.IH [of p1] by blast
    then show ?thesis using s log Returns by (intro exI [of _ "Suc k"]) (simp add: obind_def)
  qed (use s log in \<open>auto simp: obind_def intro: exI [of _ 1]\<close>)
qed simp

definition session_commands :: "utc_time option \<Rightarrow> bytes list" where
  "session_commands clock = config_commands @ [restore_backup] @ (case clock of None \<Rightarrow> [] | Some t \<Rightarrow> [time_message t])"

lemma init_attempt_log:
  assumes "init_attempt clock p = (Returns u, p')"
  shows "pg_sent p' = pg_sent p @ session_commands clock"
proof -
  obtain r p1 where a: "send_all UBLOX_ACK config_commands p = (r, p1)" by fastforce
  from assms a have r: "r = Returns ()" by (cases r) (simp_all add: init_attempt_def obind_def)
  from send_all_log [of UBLOX_ACK config_commands p] a r have l1: "pg_sent p1 = pg_sent p @ config_commands" by auto
  obtain st p2 where b: "wait_for_backup_restore_status (send restore_backup p1) = (st, p2)" by fastforce
  have l2: "pg_sent p2 = pg_sent p1 @ [restore_backup]" using status_log [of "send restore_backup p1"] b by (simp add: send_def)
  have c: "(case clock of None \<Rightarrow> (Returns (), p2) | Some t \<Rightarrow> send_with_ack UBLOX_ASSIST_ACK (time_message t) p2) = (Returns u, p')"
    using assms a r b by (cases st) (simp_all add: init_attempt_def obind_def)
  show ?thesis
  proof (cases clock)
    case None
    with c l1 l2 show ?thesis by (simp add: session_commands_def)
  next
    case (Some t)
    with c have "p' = snd (send_with_ack UBLOX_ASSIST_ACK (time_message t) p2)" by simp
    with Some l1 l2 show ?thesis by (simp add: session_commands_def send_with_ack_log)
  qed
qed

text \<open>When the initialisation reports success, after however many attempts, the last thing the
  receiver was sent is the complete configuration in its order, the request for the backup and, if the
  clock is valid, the time.\<close>

theorem init_sends_everything:
  assumes "init_pigeon clock n p = (Returns True, p')"
  shows "\<exists>earlier. pg_sent p' = earlier @ session_commands clock"
  using assms
proof (induction n arbitrary: p)
  case (Suc n)
  obtain r p1 where a: "init_attempt clock p = (r, p1)" by fastforce
  show ?case
  proof (cases r)
    case (Returns u)
    with Suc.prems a have "p' = p1" by simp
    with init_attempt_log [OF a [unfolded Returns]] show ?thesis by blast
  next
    case Timeout
    with Suc a show ?thesis by simp
  next
    case Waiting
    with Suc.prems a show ?thesis by simp
  qed
qed simp

text \<open>A receiver that answers everything at once.\<close>

definition demo_pigeon :: pigeon where
  "demo_pigeon = \<lparr>pg_sent = [], pg_baud = 9600, pg_powered = True,
     pg_rounds = replicate 22 (UBLOX_ACK, 0) @ [(UBLOX_BACKUP_RESTORE_MSG @ [0, 0, 0, 2, 0, 0, 0], 0)]\<rparr>"

theorem init_sends_everything_witness:
  "\<exists>earlier p'. init_pigeon None 10 demo_pigeon = (Returns True, p') \<and> pg_sent p' = earlier @ session_commands None"
proof -
  have "fst (init_pigeon None 10 demo_pigeon) = Returns True" by code_simp
  then obtain p' where "init_pigeon None 10 demo_pigeon = (Returns True, p')" by (cases "init_pigeon None 10 demo_pigeon") auto
  with init_sends_everything [OF this] show ?thesis by blast
qed

section \<open>What the waits consume\<close>

definition consumes :: "pigeon \<Rightarrow> pigeon \<Rightarrow> bool" where
  "consumes p p' \<longleftrightarrow> (\<exists>used. pg_rounds p = used @ pg_rounds p')"

lemma consumes_refl [simp]: "pg_rounds p' = pg_rounds p \<Longrightarrow> consumes p p'"
  by (simp add: consumes_def)

lemma consumes_trans: "consumes p q \<Longrightarrow> consumes q t \<Longrightarrow> consumes p t"
  unfolding consumes_def by (metis append.assoc)

lemma wait_loop_suffix: "\<exists>used. rounds = used @ snd (wait_loop ack nack timeout dat rounds)"
proof (induction rounds arbitrary: dat)
  case (Cons x rounds)
  obtain d elapsed where x: "x = (d, elapsed)" by (cases x)
  have "snd (wait_loop ack nack timeout dat (x # rounds)) \<in> {rounds, snd (wait_loop ack nack timeout (dat @ d) rounds)}"
    by (simp add: x)
  moreover obtain used where "rounds = used @ snd (wait_loop ack nack timeout (dat @ d) rounds)" using Cons.IH by blast
  ultimately show ?case by (metis append_Cons append_Nil empty_iff insert_iff)
qed simp

lemma status_loop_suffix: "\<exists>used. rounds = used @ snd (status_loop dat rounds)"
proof (induction rounds arbitrary: dat)
  case (Cons x rounds)
  obtain d elapsed where x: "x = (d, elapsed)" by (cases x)
  have "snd (status_loop dat (x # rounds)) \<in> {rounds, snd (status_loop (dat @ d) rounds)}"
    by (simp add: x Let_def split: option.split)
  moreover obtain used where "rounds = used @ snd (status_loop (dat @ d) rounds)" using Cons.IH by blast
  ultimately show ?case by (metis append_Cons append_Nil empty_iff insert_iff)
qed simp

lemma wait_for_ack_consumes: "consumes p (snd (wait_for_ack ack nack p))"
  using wait_loop_suffix [of "pg_rounds p" ack nack "1 / 2" "[]"]
  by (auto simp: wait_for_ack_def consumes_def case_prod_beta)

lemma status_consumes: "consumes p (snd (wait_for_backup_restore_status p))"
  using status_loop_suffix [of "pg_rounds p" "[]"]
  by (auto simp: wait_for_backup_restore_status_def consumes_def case_prod_beta)

lemma send_consumes [simp]: "consumes p (send c p)" "consumes p (set_baud b p)" "consumes p (set_power e p)" "consumes p (init_baudrate p)"
  by (simp_all add: send_def set_baud_def set_power_def init_baudrate_def)

lemma send_with_ack_consumes: "consumes p (snd (send_with_ack ack c p))"
  using consumes_trans [OF send_consumes(1) wait_for_ack_consumes]
  by (simp add: send_with_ack_def case_prod_beta Let_def)

lemma obind_consumes:
  "consumes p (snd m) \<Longrightarrow> (\<And>x q. consumes q (snd (f x q))) \<Longrightarrow> consumes p (snd (obind m f))"
  by (auto simp: obind_def intro: consumes_trans split: prod.split outcome.split)

lemma send_all_consumes: "consumes p (snd (send_all ack cs p))"
  by (induction ack cs p rule: send_all.induct) (auto intro: obind_consumes send_with_ack_consumes)

lemma init_attempt_consumes: "consumes p (snd (init_attempt clock p))"
  unfolding init_attempt_def
proof (intro obind_consumes send_all_consumes)
  fix q :: pigeon
  show "consumes q (snd (wait_for_backup_restore_status (send restore_backup q)))"
    by (rule consumes_trans [OF send_consumes(1) status_consumes])
qed (auto intro: send_with_ack_consumes split: option.split)

lemma init_pigeon_consumes: "consumes p (snd (init_pigeon clock n p))"
proof (induction n arbitrary: p)
  case (Suc n)
  obtain r p1 where a: "init_attempt clock p = (r, p1)" by fastforce
  have "consumes p p1" using init_attempt_consumes [of p clock] by (simp add: a)
  then show ?case using Suc.IH [of p1] by (cases r) (auto simp: a intro: consumes_trans)
qed simp

lemma pigeon_init_consumes: "consumes p (snd (pigeon_init clock p))"
  unfolding pigeon_init_def
  by (intro obind_consumes consumes_trans [OF consumes_trans [OF consumes_trans [OF send_consumes(3,3)] send_consumes(4)] init_pigeon_consumes]) simp

lemma save_almanac_consumes: "consumes p (snd (save_almanac p))"
  using consumes_trans [OF send_consumes(1) wait_for_ack_consumes]
  by (simp add: save_almanac_def case_prod_beta Let_def)

section \<open>Forwarding\<close>

lemma send_assistance_ok:
  "send_assistance i rv = Returns rv' \<Longrightarrow> rv_published rv' = rv_published rv \<and> consumes (rv_pigeon rv) (rv_pigeon rv')"
  using send_all_consumes [of "rv_pigeon rv" UBLOX_ASSIST_ACK]
  by (auto simp: send_assistance_def split: option.splits if_splits prod.splits outcome.splits) (metis snd_conv)+

text \<open>What is published was read, unchanged and in order.\<close>

definition forwards :: "receiving \<Rightarrow> receiving \<Rightarrow> bool" where
  "forwards rv rv' \<longleftrightarrow> (\<exists>used new. pg_rounds (rv_pigeon rv) = used @ pg_rounds (rv_pigeon rv') \<and>
     rv_published rv' = rv_published rv @ new \<and> subseq new (map fst used))"

lemma forwards_trans: "forwards a b \<Longrightarrow> forwards b c \<Longrightarrow> forwards a c"
  unfolding forwards_def by (metis append.assoc list_emb_append_mono map_append)

lemma forwards_consume: "consumes (rv_pigeon rv) (rv_pigeon rv') \<Longrightarrow> rv_published rv' = rv_published rv \<Longrightarrow> forwards rv rv'"
  by (auto simp: consumes_def forwards_def)

lemma receive_round_forwards:
  assumes "receive_round i rv0 = Returns rv'"
  shows "forwards rv0 rv'"
proof -
  obtain rv where a: "send_assistance i rv0 = Returns rv"
    using assms by (auto simp: receive_round_def split: outcome.splits)
  then have f0: "forwards rv0 rv" using send_assistance_ok forwards_consume by blast
  obtain dat t rounds where d: "pg_rounds (rv_pigeon rv) = (dat, t) # rounds"
    using assms by (auto simp: receive_round_def a split: list.splits)
  let ?p = "(rv_pigeon rv)\<lparr>pg_rounds := rounds\<rparr>"
  let ?rv = "rv\<lparr>rv_pigeon := ?p\<rparr>"
  have skip: "forwards rv ?rv" by (auto simp: forwards_def d intro: exI [of _ "[_]"])
  have pub: "forwards rv (?rv\<lparr>rv_published := rv_published rv @ [dat]\<rparr>)" by (auto simp: forwards_def d intro!: exI [of _ "[(dat, t)]"])
  have "forwards rv rv'"
  proof (cases "dat = [] \<or> hd dat = 0")
    case True
    obtain o1 p1 where i: "pigeon_init (ri_clock i) ?p = (o1, p1)" by fastforce
    have "consumes ?p p1" using pigeon_init_consumes [of ?p "ri_clock i"] by (simp add: i)
    then have "forwards ?rv (?rv\<lparr>rv_pigeon := p1, rv_assist_attempted := False\<rparr>)" by (intro forwards_consume) simp_all
    then show ?thesis using assms True forwards_trans [OF skip] skip
      by (auto simp: receive_round_def a d i Let_def split: outcome.splits if_splits)
  next
    case False
    let ?rv1 = "?rv\<lparr>rv_published := rv_published rv @ [dat]\<rparr>"
    obtain o1 p1 where s: "save_almanac ?p = (o1, p1)" by fastforce
    have "consumes ?p p1" using save_almanac_consumes [of ?p] by (simp add: s)
    then have "forwards ?rv1 (?rv1\<lparr>rv_pigeon := p1, rv_last_almanac_save := ri_time_saved i\<rparr>)" by (intro forwards_consume) simp_all
    then show ?thesis using assms False forwards_trans [OF pub] pub
      by (auto simp: receive_round_def a d s Let_def split: outcome.splits if_splits)
  qed
  then show ?thesis by (rule forwards_trans [OF f0])
qed

lemma receive_rounds_forwards: "receive_rounds is rv = Returns rv' \<Longrightarrow> forwards rv rv'"
proof (induction "is" arbitrary: rv)
  case Nil
  then show ?case by (auto simp: forwards_def)
next
  case (Cons i "is")
  then obtain rv1 where "receive_round i rv = Returns rv1" "receive_rounds is rv1 = Returns rv'"
    by (auto split: outcome.splits)
  then show ?case using Cons.IH receive_round_forwards forwards_trans by blast
qed

text \<open>Nothing interrupts the forwarding: no assistance is to be sent, no almanac to be saved.\<close>

definition quiet :: "receiving_input list \<Rightarrow> receiving \<Rightarrow> bool" where
  "quiet is rv \<longleftrightarrow> (\<forall>i \<in> set is. (ri_assist i = None \<or> rv_assist_attempted rv) \<and> ri_time i - rv_last_almanac_save rv \<le> 300)"

lemma quiet_rounds:
  assumes "receive_rounds is rv = Returns rv'" "quiet is rv"
    "\<forall>d \<in> set (map fst (take (length is) (pg_rounds (rv_pigeon rv)))). d = [] \<or> hd d \<noteq> 0"
  shows "rv_published rv' = rv_published rv @ filter (\<lambda>d. d \<noteq> []) (map fst (take (length is) (pg_rounds (rv_pigeon rv)))) \<and>
    pg_rounds (rv_pigeon rv') = drop (length is) (pg_rounds (rv_pigeon rv))"
  using assms
proof (induction "is" arbitrary: rv)
  case (Cons i "is")
  have a: "send_assistance i rv = Returns rv"
    using Cons.prems(2) by (auto simp: quiet_def send_assistance_def split: option.split)
  obtain rv1 where s: "receive_round i rv = Returns rv1" "receive_rounds is rv1 = Returns rv'"
    using Cons.prems(1) by (auto split: outcome.splits)
  obtain dat t rounds where d: "pg_rounds (rv_pigeon rv) = (dat, t) # rounds"
    using s(1) by (auto simp: receive_round_def a split: list.splits)
  have "dat = [] \<or> hd dat \<noteq> 0" "\<not> 300 < ri_time i - rv_last_almanac_save rv"
    using Cons.prems(2,3) by (simp_all add: d quiet_def)
  then have rv1: "rv1 = rv\<lparr>rv_pigeon := (rv_pigeon rv)\<lparr>pg_rounds := rounds\<rparr>, rv_published := rv_published rv @ filter (\<lambda>d. d \<noteq> []) [dat]\<rparr>"
    using s(1) by (auto simp: receive_round_def a d Let_def)
  have "quiet is rv1" using Cons.prems(2) by (simp add: rv1 quiet_def)
  then show ?case using Cons.IH [OF s(2)] Cons.prems(3) by (simp add: rv1 d)
qed simp

lemma concat_filter_nonempty: "concat (filter (\<lambda>d. d \<noteq> []) xs) = concat xs"
  by (induction xs) simp_all

text \<open>C31: What \<open>pigeond\<close> publishes are reads of the port, unchanged and in order; the reads that a wait for an answer
  consumes are not among them.  Over any rounds without such a wait (no assistance to be sent, no almanac to be
  saved, no read that starts with a zero byte) every read that is not empty is published, and the frames of the
  stream are what the framer of \<open>ubloxd\<close> returns, the unfinished one staying in its buffer.\<close>

theorem raw_stream_reaches_framer:
  assumes "receive_rounds is rv = Returns rv'" "rv_published rv = []"
  defines "reads \<equiv> map fst (take (length is) (pg_rounds (rv_pigeon rv)))"
  shows "(\<exists>used. pg_rounds (rv_pigeon rv) = used @ pg_rounds (rv_pigeon rv') \<and> subseq (rv_published rv') (map fst used)) \<and>
    (quiet is rv \<and> (\<forall>d \<in> set reads. d = [] \<or> hd d \<noteq> 0) \<longrightarrow>
       rv_published rv' = filter (\<lambda>d. d \<noteq> []) reads \<and>
       (\<forall>fs rest. (\<forall>f \<in> set fs. ubx_frame f) \<and> partial_frame rest \<and> concat reads = concat fs @ rest \<longrightarrow>
          fst (feed (map (Pair t) (rv_published rv')) framer_init) = fs \<and>
          fr_buf (snd (feed (map (Pair t) (rv_published rv')) framer_init)) = rest))"
proof (intro conjI impI allI)
  show "\<exists>used. pg_rounds (rv_pigeon rv) = used @ pg_rounds (rv_pigeon rv') \<and> subseq (rv_published rv') (map fst used)"
    using receive_rounds_forwards [OF assms(1)] assms(2) by (auto simp: forwards_def)
next
  assume q: "quiet is rv \<and> (\<forall>d \<in> set reads. d = [] \<or> hd d \<noteq> 0)"
  then show pub: "rv_published rv' = filter (\<lambda>d. d \<noteq> []) reads"
    using quiet_rounds [OF assms(1)] assms(2) by (simp add: reads_def)
  fix fs rest assume f: "(\<forall>f \<in> set fs. ubx_frame f) \<and> partial_frame rest \<and> concat reads = concat fs @ rest"
  have "concat (map snd (map (Pair t) (rv_published rv'))) = concat fs @ rest"
    using f by (simp add: pub o_def concat_filter_nonempty)
  from feed_stream [OF _ _ this, of framer_init] f
  show "fst (feed (map (Pair t) (rv_published rv')) framer_init) = fs"
    "fr_buf (snd (feed (map (Pair t) (rv_published rv')) framer_init)) = rest"
    by (simp_all add: framer_init_def)
qed

definition demo_receiving :: "bytes list \<Rightarrow> receiving" where
  "demo_receiving reads = \<lparr>rv_pigeon = demo_pigeon\<lparr>pg_rounds := map (\<lambda>d. (d, 0)) reads @ pg_rounds demo_pigeon\<rparr>,
     rv_last_almanac_save = 0, rv_assist_attempted = False, rv_published = []\<rparr>"

definition read_at :: "real \<Rightarrow> receiving_input" where
  "read_at t = \<lparr>ri_assist = None, ri_clock = None, ri_time = t, ri_time_saved = t\<rparr>"

theorem raw_stream_reaches_framer_witness:
  "\<exists>rv'. receive_rounds [read_at 1, read_at 2] (demo_receiving [take 9 demo_nav, drop 9 demo_nav]) = Returns rv' \<and>
     fst (feed (map (Pair 0) (rv_published rv')) framer_init) = [demo_nav]"
proof -
  let ?is = "[read_at 1, read_at 2]" and ?rv = "demo_receiving [take 9 demo_nav, drop 9 demo_nav]"
  have heads: "take 9 demo_nav \<noteq> []" "drop 9 demo_nav \<noteq> []" "hd (take 9 demo_nav) \<noteq> 0" "hd (drop 9 demo_nav) \<noteq> 0" by code_simp+
  then have "\<exists>rv'. receive_rounds ?is ?rv = Returns rv'"
    by (simp add: receive_round_def send_assistance_def read_at_def demo_receiving_def Let_def)
  then obtain rv' where rv': "receive_rounds ?is ?rv = Returns rv'" by blast
  have reads: "map fst (take (length ?is) (pg_rounds (rv_pigeon ?rv))) = [take 9 demo_nav, drop 9 demo_nav]"
    by (simp add: demo_receiving_def)
  have q: "quiet ?is ?rv" by (simp add: quiet_def read_at_def demo_receiving_def)
  have p: "rv_published ?rv = []" by (simp add: demo_receiving_def)
  have "fst (feed (map (Pair 0) (rv_published rv')) framer_init) = [demo_nav]"
    using raw_stream_reaches_framer [OF rv' p, of 0] q heads demo_nav_frame unfolding reads
    by (metis (no_types, lifting) append.right_neutral append_take_drop_id concat.simps empty_iff insert_iff list.set partial_frame_def)
  with rv' show ?thesis by blast
qed

text \<open>A read that starts inside a frame, at a zero byte, is taken for invalid data: it is not
  published, the receiver is initialised again and the frame is lost.\<close>

theorem zero_byte_read_loses_frame:
  "ubx_frame demo_nav \<and> demo_nav = take 5 demo_nav @ drop 5 demo_nav \<and>
   (\<exists>rv'. receive_rounds [read_at 1, read_at 2] (demo_receiving [take 5 demo_nav, drop 5 demo_nav]) = Returns rv' \<and>
      rv_published rv' = [take 5 demo_nav] \<and> fst (feed (map (Pair 0) (rv_published rv')) framer_init) = [])"
proof -
  let ?p = "(rv_pigeon (demo_receiving []))"
  have init: "fst (pigeon_init None ?p) = Returns ()" by code_simp
  then obtain p where p: "pigeon_init None ?p = (Returns (), p)" by (cases "pigeon_init None ?p") auto
  have heads: "take 5 demo_nav \<noteq> []" "drop 5 demo_nav \<noteq> []" "hd (take 5 demo_nav) \<noteq> 0" "hd (drop 5 demo_nav) = 0" by code_simp+
  have pub: "fst (feed [(0, take 5 demo_nav)] framer_init) = []" by code_simp
  have "\<exists>rv'. receive_rounds [read_at 1, read_at 2] (demo_receiving [take 5 demo_nav, drop 5 demo_nav]) = Returns rv' \<and>
      rv_published rv' = [take 5 demo_nav]"
    using heads p by (simp add: receive_round_def send_assistance_def read_at_def demo_receiving_def Let_def)
  with pub demo_nav_frame show ?thesis by auto
qed

text \<open>A save of the almanac loses a frame too: the wait for its answer reads it, and only looks for the answer.\<close>

theorem almanac_save_loses_frame:
  "ubx_frame demo_nav \<and>
   (\<exists>rv'. receive_rounds [read_at 301, read_at 302] (demo_receiving [[1], demo_nav, UBLOX_SOS_ACK, [2]]) = Returns rv' \<and>
      rv_published rv' = [[1], [2]])"
proof -
  have n: "find_bytes UBLOX_SOS_ACK demo_nav = None" "find_bytes UBLOX_SOS_NACK demo_nav = None"
    "find_bytes UBLOX_SOS_ACK (demo_nav @ UBLOX_SOS_ACK) \<noteq> None" by code_simp+
  then show ?thesis using demo_nav_frame
    by (simp add: receive_round_def send_assistance_def read_at_def demo_receiving_def save_almanac_def wait_for_ack_def send_def Let_def)
qed

end
