(* ===== verification/PowerMonitor.thy ===== *)
theory PowerMonitor
  imports ParamsStore
begin

text \<open>
  \<open>system/hardware/power_monitoring.py\<close>: the estimate of the car battery's charge and the decision to
  shut the device down while parked.  Clock readings and the current power draw are inputs; the lock
  has no effect on one thread.
\<close>

definition CAR_VOLTAGE_LOW_PASS_K :: real where "CAR_VOLTAGE_LOW_PASS_K = 11 / 1000"
definition CAR_BATTERY_CAPACITY_uWh :: real where "CAR_BATTERY_CAPACITY_uWh = 30 * 10 ^ 6"
definition CAR_CHARGING_RATE_W :: real where "CAR_CHARGING_RATE_W = 45"
definition VBATT_PAUSE_CHARGING :: real where "VBATT_PAUSE_CHARGING = 118 / 10"
definition MAX_TIME_OFFROAD_S :: real where "MAX_TIME_OFFROAD_S = 30 * 3600"
definition MIN_ON_TIME_S :: real where "MIN_ON_TIME_S = 3600"
definition DELAY_SHUTDOWN_TIME_S :: real where "DELAY_SHUTDOWN_TIME_S = 300"
definition VOLTAGE_SHUTDOWN_MIN_OFFROAD_TIME_S :: real where "VOLTAGE_SHUTDOWN_MIN_OFFROAD_TIME_S = 60"

record power_monitoring =
  pm_last_measurement_time :: "real option"
  pm_last_save_time :: real
  pm_power_used :: real
  pm_car_voltage :: real
  pm_car_voltage_instant :: real
  pm_capacity :: real

definition power_monitoring_init :: "params \<Rightarrow> power_monitoring" where
  "power_monitoring_init p =
     (let stored = (case Option.bind (pr_values p ''CarBatteryCapacity'') as_int of None \<Rightarrow> 0 | Some n \<Rightarrow> of_int n)
      in \<lparr>pm_last_measurement_time = None, pm_last_save_time = 0, pm_power_used = 0,
          pm_car_voltage = 12 * 10 ^ 3, pm_car_voltage_instant = 12 * 10 ^ 3,
          pm_capacity = max (CAR_BATTERY_CAPACITY_uWh / 10) stored\<rparr>)"

text \<open>Integration over a negative time or of a negative power is an error, caught and logged: nothing is
  changed.  The time of the last measurement counts as missing when it is zero.\<close>

definition perform_integration :: "real \<Rightarrow> real \<Rightarrow> power_monitoring \<Rightarrow> power_monitoring" where
  "perform_integration t current_power pm =
     (case pm_last_measurement_time pm of
        None \<Rightarrow> pm
      | Some t0 \<Rightarrow>
          if t0 = 0 then pm
          else
            let integration_time_h = (t - t0) / 3600;
                power_used = (current_power * 1000000) * integration_time_h
            in if power_used < 0 then pm
               else pm\<lparr>pm_power_used := pm_power_used pm + power_used, pm_capacity := pm_capacity pm - power_used,
                       pm_last_measurement_time := Some t\<rparr>)"

text \<open>The low-passed voltage and the cap of the capacity, written to its parameter every 10 s.\<close>

definition measure_voltage :: "real \<Rightarrow> real \<Rightarrow> power_monitoring \<times> params \<Rightarrow> power_monitoring \<times> params" where
  "measure_voltage now voltage = (\<lambda>(pm, p).
     let cap = min (max (pm_capacity pm) 0) CAR_BATTERY_CAPACITY_uWh;
         save = 10 \<le> now - pm_last_save_time pm
     in (pm\<lparr>pm_car_voltage_instant := voltage,
            pm_car_voltage := voltage * CAR_VOLTAGE_LOW_PASS_K + pm_car_voltage pm * (1 - CAR_VOLTAGE_LOW_PASS_K),
            pm_capacity := cap, pm_last_save_time := (if save then now else pm_last_save_time pm)\<rparr>,
         if save then put_param ''CarBatteryCapacity'' (PInt (py_int cap)) p else p))"

definition charge :: "real \<Rightarrow> real \<Rightarrow> power_monitoring \<Rightarrow> power_monitoring" where
  "charge now t0 pm0 =
     (let pm = pm0\<lparr>pm_power_used := 0\<rparr>; integration_time_h = (now - t0) / 3600
      in if integration_time_h < 0 then pm
         else pm\<lparr>pm_capacity := pm_capacity pm + CAR_CHARGING_RATE_W * 10 ^ 6 * integration_time_h,
                 pm_last_measurement_time := Some now\<rparr>)"

definition calculate :: "real \<Rightarrow> real option \<Rightarrow> bool \<Rightarrow> real \<Rightarrow> power_monitoring \<times> params \<Rightarrow> power_monitoring \<times> params" where
  "calculate now voltage ignition current_power s =
     (case voltage of
        None \<Rightarrow> ((fst s)\<lparr>pm_last_measurement_time := None, pm_power_used := 0\<rparr>, snd s)
      | Some v \<Rightarrow>
          let (pm, p) = measure_voltage now v s
          in case pm_last_measurement_time pm of
               None \<Rightarrow> (pm\<lparr>pm_last_measurement_time := Some now\<rparr>, p)
             | Some t0 \<Rightarrow> if ignition then (charge now t0 pm, p) else (perform_integration now current_power pm, p))"

definition get_power_used :: "power_monitoring \<Rightarrow> int" where
  "get_power_used pm = py_int (pm_power_used pm)"

definition get_car_battery_capacity :: "power_monitoring \<Rightarrow> int" where
  "get_car_battery_capacity pm = py_int (pm_capacity pm)"

text \<open>\<open>MaxTimeOffroad\<close> is in minutes; zero means no limit and no value or a negative one the default.\<close>

definition max_time_offroad_exceeded :: "params \<Rightarrow> real \<Rightarrow> bool" where
  "max_time_offroad_exceeded p offroad_time =
     (case Option.bind (pr_values p ''MaxTimeOffroad'') as_int of
        Some n \<Rightarrow> if 0 \<le> n then 0 < n * 60 \<and> of_int (n * 60) \<le> offroad_time else MAX_TIME_OFFROAD_S < offroad_time
      | None \<Rightarrow> MAX_TIME_OFFROAD_S < offroad_time)"

definition should_shutdown :: "real \<Rightarrow> bool \<Rightarrow> bool \<Rightarrow> real option \<Rightarrow> bool \<Rightarrow> params \<Rightarrow> power_monitoring \<Rightarrow> bool" where
  "should_shutdown now ignition in_car offroad_timestamp started_seen p pm =
     (case offroad_timestamp of
        None \<Rightarrow> False
      | Some t \<Rightarrow>
          let offroad_time = now - t;
              low_voltage_shutdown = pm_car_voltage pm < VBATT_PAUSE_CHARGING * 10 ^ 3 \<and>
                VOLTAGE_SHUTDOWN_MIN_OFFROAD_TIME_S < offroad_time;
              s = max_time_offroad_exceeded p offroad_time \<or> low_voltage_shutdown \<or> pm_capacity pm \<le> 0;
              s = s \<and> \<not> ignition \<and> \<not> get_bool ''DisablePowerDown'' p \<and> in_car \<and> DELAY_SHUTDOWN_TIME_S < offroad_time;
              s = s \<or> get_bool ''ForcePowerDown'' p
          in s \<and> (started_seen \<or> MIN_ON_TIME_S < now))"

section \<open>Facts\<close>

lemma parked_calculate:
  "\<exists>u \<ge> 0. pm_power_used (fst (calculate now (Some v) False draw (pm, p))) = pm_power_used pm + u \<and>
     pm_capacity (fst (calculate now (Some v) False draw (pm, p))) = min (max (pm_capacity pm) 0) CAR_BATTERY_CAPACITY_uWh - u"
proof -
  let ?pm = "fst (measure_voltage now v (pm, p))"
  have m: "pm_power_used ?pm = pm_power_used pm" "pm_capacity ?pm = min (max (pm_capacity pm) 0) CAR_BATTERY_CAPACITY_uWh"
    by (simp_all add: measure_voltage_def Let_def)
  have "\<exists>u \<ge> 0. pm_power_used (perform_integration now draw ?pm) = pm_power_used ?pm + u \<and>
      pm_capacity (perform_integration now draw ?pm) = pm_capacity ?pm - u"
  proof (cases "pm_last_measurement_time ?pm")
    case (Some t0)
    let ?u = "(draw * 1000000) * ((now - t0) / 3600)"
    show ?thesis
    proof (cases "t0 = 0 \<or> ?u < 0")
      case True
      then have "perform_integration now draw ?pm = ?pm" using Some unfolding perform_integration_def Let_def
        by (cases "t0 = 0") simp_all
      then show ?thesis by (intro exI [of _ 0]) simp
    next
      case False
      then have "perform_integration now draw ?pm = ?pm\<lparr>pm_power_used := pm_power_used ?pm + ?u,
          pm_capacity := pm_capacity ?pm - ?u, pm_last_measurement_time := Some now\<rparr>"
        using Some unfolding perform_integration_def Let_def by (simp only: option.case if_False de_Morgan_disj)
      then show ?thesis using False by (intro exI [of _ ?u]) simp
    qed
  qed (auto simp: perform_integration_def intro: exI [of _ 0])
  then show ?thesis using m
    by (cases "pm_last_measurement_time ?pm") (auto simp: calculate_def Let_def case_prod_beta intro: exI [of _ 0])
qed

text \<open>The low-passed voltage stays between the lowest and the highest voltage seen.\<close>

lemma calculate_voltage:
  assumes "lo \<le> pm_car_voltage pm" "pm_car_voltage pm \<le> hi" "lo \<le> v" "v \<le> hi"
  shows "lo \<le> pm_car_voltage (fst (calculate now (Some v) ignition draw (pm, p))) \<and>
    pm_car_voltage (fst (calculate now (Some v) ignition draw (pm, p))) \<le> hi"
proof -
  let ?k = "CAR_VOLTAGE_LOW_PASS_K" and ?x = "pm_car_voltage pm"
  have k: "0 \<le> ?k" "?k \<le> 1" by (simp_all add: CAR_VOLTAGE_LOW_PASS_K_def)
  have eq: "pm_car_voltage (fst (calculate now (Some v) ignition draw (pm, p))) = v * ?k + ?x * (1 - ?k)"
    by (auto simp: calculate_def measure_voltage_def perform_integration_def charge_def Let_def split: option.splits)
  have "lo * ?k + lo * (1 - ?k) \<le> v * ?k + ?x * (1 - ?k)" "v * ?k + ?x * (1 - ?k) \<le> hi * ?k + hi * (1 - ?k)"
    using assms k by (auto intro!: add_mono mult_right_mono)
  then show ?thesis unfolding eq by (simp add: algebra_simps)
qed

text \<open>The battery estimate shuts the device down only in the car, with the ignition off, five minutes
  after it went offroad, and unless the driver has disabled it; the forced shutdown ignores these
  conditions but waits until the car was started once or the device ran for an hour.\<close>

lemma shutdown_conditions:
  "should_shutdown now ignition in_car off started_seen p pm \<Longrightarrow>
     (\<exists>t. off = Some t \<and> (started_seen \<or> 3600 < now) \<and>
        (get_bool ''ForcePowerDown'' p \<or>
         \<not> ignition \<and> in_car \<and> \<not> get_bool ''DisablePowerDown'' p \<and> 300 < now - t \<and>
         (max_time_offroad_exceeded p (now - t) \<or> pm_car_voltage pm < 11800 \<or> pm_capacity pm \<le> 0)))"
  by (auto simp: should_shutdown_def Let_def MIN_ON_TIME_S_def DELAY_SHUTDOWN_TIME_S_def VBATT_PAUSE_CHARGING_def split: option.splits)


text \<open>Parked, energy is only moved from the estimate of the battery to the used energy, until the
  estimate is exhausted.\<close>

definition parked_balance :: "power_monitoring \<Rightarrow> bool" where
  "parked_balance pm \<longleftrightarrow> pm_power_used pm + pm_capacity pm \<le> CAR_BATTERY_CAPACITY_uWh \<or> pm_capacity pm \<le> 0"

lemma parked_tick:
  assumes "parked_balance pm"
  shows "parked_balance (fst (calculate now (Some v) False draw (pm, p)))"
proof -
  have C: "0 < CAR_BATTERY_CAPACITY_uWh" by (simp add: CAR_BATTERY_CAPACITY_uWh_def)
  show ?thesis
    using parked_calculate [of now v draw pm p] assms C unfolding parked_balance_def by (auto simp: min_def max_def split: if_splits)
qed

definition parked_run :: "(real \<times> real \<times> real) list \<Rightarrow> power_monitoring \<times> params \<Rightarrow> power_monitoring \<times> params" where
  "parked_run ticks s = fold (\<lambda>(now, v, draw) s. calculate now (Some v) False draw s) ticks s"

text \<open>While the car is parked the device is charged with at most the 30 Wh of the battery estimate:
  once it has used more, the estimate is exhausted and, five minutes after going offroad, the shutdown
  is due (unless it is disabled by the driver).\<close>

theorem parked_energy_bounded:
  assumes "pm_power_used pm = 0" "pm_capacity pm \<le> CAR_BATTERY_CAPACITY_uWh" "parked_run ticks (pm, p) = (pm', p')"
    "CAR_BATTERY_CAPACITY_uWh < pm_power_used pm'"
  shows "pm_capacity pm' \<le> 0 \<and>
    (\<forall>now t. 300 < now - t \<and> \<not> get_bool ''DisablePowerDown'' p' \<longrightarrow> should_shutdown now False True (Some t) True p' pm')"
proof -
  have "parked_balance (fst (parked_run ticks s))" if "parked_balance (fst s)" for s
    using that unfolding parked_run_def
  proof (induction ticks arbitrary: s)
    case (Cons tick ticks)
    obtain now v draw where t: "tick = (now, v, draw)" by (cases tick)
    have "parked_balance (fst (calculate now (Some v) False draw (fst s, snd s)))"
      by (rule parked_tick [OF Cons.prems])
    from Cons.IH [OF this] show ?case by (simp add: t)
  qed simp
  from this [of "(pm, p)"] assms(1-3) have "parked_balance pm'" by (simp add: parked_balance_def)
  with assms(4) have "pm_capacity pm' \<le> 0" by (auto simp: parked_balance_def)
  then show ?thesis by (auto simp: should_shutdown_def Let_def DELAY_SHUTDOWN_TIME_S_def)
qed

definition demo_power :: power_monitoring where
  "demo_power = \<lparr>pm_last_measurement_time = Some 1, pm_last_save_time = 0, pm_power_used = 0, pm_car_voltage = 12000,
     pm_car_voltage_instant = 12000, pm_capacity = 10 * 10 ^ 6\<rparr>"

theorem parked_energy_bounded_witness:
  "\<forall>p. \<exists>pm' p'. parked_run [(36001, 12000, 4)] (demo_power, p) = (pm', p') \<and> pm_capacity pm' \<le> 0"
proof
  fix p
  obtain pm' p' where r: "parked_run [(36001, 12000, 4)] (demo_power, p) = (pm', p')" by fastforce
  then have "pm' = fst (parked_run [(36001, 12000, 4)] (demo_power, p))" by simp
  then have "CAR_BATTERY_CAPACITY_uWh < pm_power_used pm'"
    by (simp add: parked_run_def calculate_def measure_voltage_def perform_integration_def demo_power_def Let_def CAR_BATTERY_CAPACITY_uWh_def)
  from parked_energy_bounded [OF _ _ r this] r
  show "\<exists>pm' p'. parked_run [(36001, 12000, 4)] (demo_power, p) = (pm', p') \<and> pm_capacity pm' \<le> 0"
    by (simp add: demo_power_def CAR_BATTERY_CAPACITY_uWh_def)
qed

end
