(* ===== verification/Hardwared.thy ===== *)
theory Hardwared
  imports Radard PowerMonitor
begin

text \<open>
  \<open>system/hardware/hardwared.py\<close> and \<open>system/hardware/fan_controller.py\<close>: the thread that decides
  whether the device goes onroad, from the ignition, the temperatures and the conditions of the device,
  and that controls the fan, the power saving and the shutdown.  Each clock reading of an iteration is an
  input of its own, as are the sensors and the messages.  A lookup that would raise is the result \<open>None\<close>.
\<close>

definition DT_HW :: real where "DT_HW = 5 / 10"

section \<open>\<open>FanController\<close>\<close>

definition fan_offset :: "bool \<Rightarrow> real" where
  "fan_offset mici = (if mici then 0 else 5)"

record fan_controller =
  fc_last_ignition :: bool
  fc_controller :: pid

definition fan_init :: "int \<Rightarrow> fan_controller" where
  "fan_init rate = \<lparr>fc_last_ignition = False,
     fc_controller = pid_init (const_gain 0) (const_gain (4 / 1000)) (const_gain 0) (10 ^ 308) (- (10 ^ 308)) (of_int rate)\<rparr>"

definition fan_update :: "bool \<Rightarrow> real \<Rightarrow> bool \<Rightarrow> fan_controller \<Rightarrow> (int \<times> fan_controller) option" where
  "fan_update mici cur_temp ignition fc =
     (let c = set_limits (if ignition then 100 else 30) (if ignition then 30 else 0) (fc_controller fc);
          c = (if ignition \<noteq> fc_last_ignition fc then pid_reset c else c)
      in do { feedforward \<leftarrow> np_interp cur_temp [60 + fan_offset mici, 100 + fan_offset mici] [0, 100];
              c \<leftarrow> pid_update (cur_temp - (75 + fan_offset mici)) 0 0 feedforward False c;
              Some (py_int (pid_control c), \<lparr>fc_last_ignition = ignition, fc_controller = c\<rparr>) })"

section \<open>Thermal bands\<close>

record thermal_band =
  tb_min_temp :: "real option"
  tb_max_temp :: "real option"

definition THERMAL_BANDS :: "bool \<Rightarrow> (thermal_status \<times> thermal_band) list" where
  "THERMAL_BANDS mici =
     (if mici then
        [(TS_ok, \<lparr>tb_min_temp = None, tb_max_temp = Some 100\<rparr>),
         (TS_overheated, \<lparr>tb_min_temp = Some 92, tb_max_temp = Some 107\<rparr>),
         (TS_critical, \<lparr>tb_min_temp = Some 98, tb_max_temp = None\<rparr>)]
      else
        [(TS_ok, \<lparr>tb_min_temp = None, tb_max_temp = Some 96\<rparr>),
         (TS_overheated, \<lparr>tb_min_temp = Some 88, tb_max_temp = Some 107\<rparr>),
         (TS_critical, \<lparr>tb_min_temp = Some 94, tb_max_temp = None\<rparr>)])"

definition OFFROAD_DANGER_TEMP :: "bool \<Rightarrow> real" where
  "OFFROAD_DANGER_TEMP mici = (if mici then 85 else 75)"

text \<open>\<open>list(keys).index(status)\<close>; a list index of Python wraps below zero and raises past the end.\<close>

fun key_index :: "'k \<Rightarrow> ('k \<times> 'v) list \<Rightarrow> int option" where
  "key_index k [] = None"
| "key_index k ((k', v) # kvs) = (if k' = k then Some 0 else map_option (\<lambda>i. i + 1) (key_index k kvs))"

definition list_at :: "'a list \<Rightarrow> int \<Rightarrow> 'a option" where
  "list_at xs i =
     (let j = (if i < 0 then i + int (length xs) else i)
      in if 0 \<le> j \<and> j < int (length xs) then Some (xs ! nat j) else None)"

definition band_step :: "bool \<Rightarrow> real \<Rightarrow> thermal_status \<Rightarrow> thermal_status option" where
  "band_step mici all_comp_temp thermal_status =
     do { current_band \<leftarrow> map_of (THERMAL_BANDS mici) thermal_status;
          band_idx \<leftarrow> key_index thermal_status (THERMAL_BANDS mici);
          if \<exists>t \<in> set_option (tb_min_temp current_band). all_comp_temp < t
          then list_at (map fst (THERMAL_BANDS mici)) (band_idx - 1)
          else if \<exists>t \<in> set_option (tb_max_temp current_band). t < all_comp_temp
          then list_at (map fst (THERMAL_BANDS mici)) (band_idx + 1)
          else Some thermal_status }"

section \<open>State and inputs\<close>

text \<open>The constants of the device and the build.\<close>

record hw_env =
  hwe_device_type :: string
  hwe_COMMA_HARDWARE :: bool
  hwe_channel_type :: string
  hwe_channel :: string

definition is_mici :: "hw_env \<Rightarrow> bool" where
  "is_mici E \<longleftrightarrow> hwe_device_type E = ''mici''"

text \<open>The conditions are dictionaries whose values are only taken together: a key that is not there yet
  counts as true.\<close>

record onroad_conditions =
  oc_ignition :: bool
  oc_not_onroad_cycle :: bool
  oc_device_temp_good :: bool
  oc_not_always_offroad :: bool
  oc_not_tici :: bool

record startup_conditions =
  sc_no_excessive_actuation :: bool
  sc_not_uninstalling :: bool
  sc_free_space :: bool
  sc_device_temp_engageable :: bool
  sc_device_booted :: bool
  sc_not_always_offroad :: bool
  sc_not_tici :: bool

definition onroad_ok :: "onroad_conditions \<Rightarrow> bool" where
  "onroad_ok c \<longleftrightarrow> oc_ignition c \<and> oc_not_onroad_cycle c \<and> oc_device_temp_good c \<and> oc_not_always_offroad c \<and> oc_not_tici c"

definition startup_ok :: "startup_conditions \<Rightarrow> bool" where
  "startup_ok c \<longleftrightarrow> sc_no_excessive_actuation c \<and> sc_not_uninstalling c \<and> sc_free_space c \<and>
     sc_device_temp_engageable c \<and> sc_device_booted c \<and> sc_not_always_offroad c \<and> sc_not_tici c"

record hardware_state =
  hs_network_type :: int
  hs_network_info :: "string option"
  hs_network_strength :: int
  hs_network_stats :: "int \<times> int"
  hs_network_metered :: bool
  hs_modem_temps :: "real list"
  hs_usb_state :: "string list"

record hw_thread =
  hw_count :: int
  hw_onroad :: onroad_conditions
  hw_startup :: "startup_conditions option"
  hw_startup_prev :: "startup_conditions option"
  hw_off_ts :: "real option"
  hw_started_ts :: "real option"
  hw_started_seen :: bool
  hw_startup_blocked_ts :: "real option"
  hw_thermal_status :: thermal_status
  hw_last_hw_state :: hardware_state
  hw_all_temp_filter :: first_order_filter
  hw_offroad_temp_filter :: first_order_filter
  hw_should_start_prev :: bool
  hw_in_car :: bool
  hw_engaged_prev :: bool
  hw_pwrsave :: bool
  hw_offroad_cycle_count :: int
  hw_power :: power_monitoring
  hw_uptime_offroad :: real
  hw_uptime_onroad :: real
  hw_last_uptime_ts :: real
  hw_fan :: fan_controller
  hw_prev_offroad_states :: "string \<rightharpoonup> (bool \<times> string option)"

text \<open>A panda state: the types and the harness status are the numbers of the enumerations, 0 is
  \<open>unknown\<close> and \<open>notConnected\<close>.\<close>

record hw_panda =
  hp_pandaType :: nat
  hp_ignitionLine :: bool
  hp_ignitionCan :: bool
  hp_harnessStatus :: nat

record hw_input =
  hi_frame :: int
  hi_panda_updated :: bool
  hi_pandaStates :: "hw_panda list"
  hi_panda_age :: real
  hi_peripheral_pandaType :: nat
  hi_voltage :: real
  hi_selfdriveState :: "bool option"
  hi_hw_state :: "hardware_state option"
  hi_memoryTempC :: real
  hi_cpuTempC :: "real list"
  hi_gpuTempC :: "real list"
  hi_pmicTempC :: "real list"
  hi_freeSpacePercent :: real
  hi_screenBrightnessPercent :: real
  hi_booted :: bool
  hi_power_draw :: real
  hi_status_packet :: "string option"
  hi_t_offroad :: real
  hi_t_started :: real
  hi_t_blocked :: real
  hi_t_off :: real
  hi_t_power :: real
  hi_t_shutdown :: real
  hi_t_now :: real

record hw_output =
  ho_maxTempC :: real
  ho_fanSpeedPercentDesired :: int
  ho_thermalStatus :: thermal_status
  ho_started :: bool
  ho_startedMonoTime :: int
  ho_offroadPowerUsageUwh :: int
  ho_carBatteryCapacityUwh :: int
  ho_hardware_state :: hardware_state
  ho_set_power_save :: "bool option"

definition hw_init :: "real \<Rightarrow> params \<Rightarrow> hw_thread option" where
  "hw_init now p =
     do { uptime_offroad \<leftarrow> get_float ''UptimeOffroad'' p;
          uptime_onroad \<leftarrow> get_float ''UptimeOnroad'' p;
          Some \<lparr>hw_count = 0,
            hw_onroad = \<lparr>oc_ignition = False, oc_not_onroad_cycle = True, oc_device_temp_good = True,
              oc_not_always_offroad = True, oc_not_tici = True\<rparr>,
            hw_startup = None, hw_startup_prev = None, hw_off_ts = None, hw_started_ts = None, hw_started_seen = False,
            hw_startup_blocked_ts = None, hw_thermal_status = TS_ok,
            hw_last_hw_state = \<lparr>hs_network_type = 0, hs_network_info = None, hs_network_strength = 0,
              hs_network_stats = (- 1, - 1), hs_network_metered = False, hs_modem_temps = [], hs_usb_state = []\<rparr>,
            hw_all_temp_filter = filter_init 0 5 DT_HW False, hw_offroad_temp_filter = filter_init 0 5 DT_HW False,
            hw_should_start_prev = False, hw_in_car = False, hw_engaged_prev = False, hw_pwrsave = False,
            hw_offroad_cycle_count = 0, hw_power = power_monitoring_init p,
            hw_uptime_offroad = uptime_offroad, hw_uptime_onroad = uptime_onroad, hw_last_uptime_ts = now,
            hw_fan = fan_init (py_int (1 / DT_HW)), hw_prev_offroad_states = Map.empty\<rparr> }"

section \<open>Offroad alerts\<close>

text \<open>The value written is the alert's entry of \<open>alerts_offroad.json\<close> with an extra text; the store of
  this development keeps the extra text.\<close>

definition set_offroad_alert :: "string \<Rightarrow> bool \<Rightarrow> string option \<Rightarrow> params \<Rightarrow> params" where
  "set_offroad_alert alert show_alert extra_text p =
     (if show_alert then put_param alert (PStr (case extra_text of None \<Rightarrow> [] | Some s \<Rightarrow> s)) p
      else remove_param alert p)"

definition set_offroad_alert_if_changed :: "string \<Rightarrow> bool \<Rightarrow> string option \<Rightarrow> hw_thread \<times> params \<Rightarrow> hw_thread \<times> params" where
  "set_offroad_alert_if_changed alert show_alert extra_text = (\<lambda>(h, p).
     if hw_prev_offroad_states h alert = Some (show_alert, extra_text) then (h, p)
     else (h\<lparr>hw_prev_offroad_states := (hw_prev_offroad_states h)(alert \<mapsto> (show_alert, extra_text))\<rparr>,
           set_offroad_alert alert show_alert extra_text p))"

section \<open>One iteration\<close>

text \<open>A request to cycle the started state, with one second offroad after it.\<close>

definition cycle_request :: "hw_input \<Rightarrow> hw_thread \<times> params \<Rightarrow> hw_thread \<times> params" where
  "cycle_request i = (\<lambda>(h, p).
     let requested = get_bool ''OnroadCycleRequested'' p;
         since = (if requested then hi_frame i else hw_offroad_cycle_count h)
     in (h\<lparr>hw_offroad_cycle_count := since, hw_onroad := (hw_onroad h)\<lparr>oc_not_onroad_cycle := 10 \<le> hi_frame i - since\<rparr>\<rparr>,
         if requested then put_param ''OnroadCycleRequested'' (PBool False) p else p))"

definition panda_ignition :: "hw_panda list \<Rightarrow> bool" where
  "panda_ignition ps = list_ex (\<lambda>s. hp_ignitionLine s \<or> hp_ignitionCan s) (filter (\<lambda>s. hp_pandaType s \<noteq> 0) ps)"

definition read_pandas :: "hw_input \<Rightarrow> hw_thread \<Rightarrow> hw_thread" where
  "read_pandas i h =
     (if hi_panda_updated i \<and> hi_pandaStates i \<noteq> [] then
        h\<lparr>hw_onroad := (hw_onroad h)\<lparr>oc_ignition := panda_ignition (hi_pandaStates i)\<rparr>,
          hw_in_car := hp_harnessStatus (hd (hi_pandaStates i)) \<noteq> 0\<rparr>
      else if 5 < hi_panda_age i then h\<lparr>hw_onroad := (hw_onroad h)\<lparr>oc_ignition := False\<rparr>\<rparr>
      else h)"

text \<open>Every fifth frame, and on either edge of the onroad conditions.\<close>

definition runs_now :: "hw_input \<Rightarrow> hw_thread \<Rightarrow> bool" where
  "runs_now i h \<longleftrightarrow> hi_frame i mod py_round (10 * DT_HW) = 0 \<or> (hw_started_ts h \<noteq> None) \<noteq> onroad_ok (hw_onroad h)"

fun py_max0 :: "real list \<Rightarrow> real" where
  "py_max0 [] = 0"
| "py_max0 [x] = x"
| "py_max0 (x # y # xs) = max x (py_max0 (y # xs))"

definition offroad_temp :: "hw_input \<Rightarrow> real" where
  "offroad_temp i = py_max0 [hi_memoryTempC i, py_max0 (hi_cpuTempC i), py_max0 (hi_gpuTempC i)]"

definition all_temp :: "hw_input \<Rightarrow> real" where
  "all_temp i = py_max0 [hi_memoryTempC i, py_max0 (hi_cpuTempC i), py_max0 (hi_gpuTempC i), py_max0 (hi_pmicTempC i)]"

text \<open>The temperatures, the fan and the thermal status.\<close>

definition update_temps :: "hw_env \<Rightarrow> hw_input \<Rightarrow> hw_thread \<Rightarrow> (int \<times> hw_thread) option" where
  "update_temps E i h =
     (let off = filter_update (offroad_temp i) (hw_offroad_temp_filter h);
          al = filter_update (all_temp i) (hw_all_temp_filter h);
          h = h\<lparr>hw_offroad_temp_filter := off, hw_all_temp_filter := al\<rparr>
      in do { (fan, fc) \<leftarrow> fan_update (is_mici E) (ff_x al) (oc_ignition (hw_onroad h)) (hw_fan h);
              let is_offroad_for_5_min = hw_started_ts h = None \<and>
                (\<not> hw_started_seen h \<or> (case hw_off_ts h of None \<Rightarrow> True | Some t \<Rightarrow> 60 * 5 < hi_t_offroad i - t));
              status \<leftarrow> (if is_offroad_for_5_min \<and> OFFROAD_DANGER_TEMP (is_mici E) < ff_x off then Some TS_critical
                         else band_step (is_mici E) (ff_x al) (hw_thermal_status h));
              Some (fan, h\<lparr>hw_fan := fc, hw_thermal_status := status\<rparr>) })"

definition startup_of :: "hw_env \<Rightarrow> hw_input \<Rightarrow> params \<Rightarrow> hw_thread \<Rightarrow> startup_conditions" where
  "startup_of E i p h =
     (let unsupported = hwe_COMMA_HARDWARE E \<and> hwe_device_type E = ''tici'' \<and> hwe_channel_type E \<noteq> ''tici''
      in \<lparr>sc_no_excessive_actuation = (pr_values p ''Offroad_ExcessiveActuation'' = None),
          sc_not_uninstalling = (\<not> get_bool ''DoUninstall'' p),
          sc_free_space = (2 < hi_freeSpacePercent i),
          sc_device_temp_engageable = (thermal_ord (hw_thermal_status h) < thermal_ord TS_overheated),
          sc_device_booted = ((case hw_startup h of None \<Rightarrow> False | Some c \<Rightarrow> sc_device_booted c) \<or> hi_booted i),
          sc_not_always_offroad = (\<not> get_bool ''OffroadMode'' p),
          sc_not_tici = (\<not> unsupported)\<rparr>)"

text \<open>The conditions, the two offroad alerts, and the fan at full speed while one is shown.\<close>

definition update_conditions :: "hw_env \<Rightarrow> hw_input \<Rightarrow> hw_thread \<times> params \<Rightarrow> bool \<times> hw_thread \<times> params" where
  "update_conditions E i = (\<lambda>(h, p).
     let sc = startup_of E i p h;
         oc = (hw_onroad h)\<lparr>oc_not_always_offroad := sc_not_always_offroad sc, oc_not_tici := sc_not_tici sc,
           oc_device_temp_good := thermal_ord (hw_thermal_status h) < thermal_ord TS_critical\<rparr>;
         p = set_offroad_alert ''Offroad_TiciSupport'' (\<not> sc_not_tici sc) (Some (hwe_channel E)) p;
         show_alert = (\<not> oc_device_temp_good oc \<or> \<not> sc_device_temp_engageable sc) \<and> oc_ignition oc
     in (show_alert, set_offroad_alert_if_changed ''Offroad_TemperatureTooHigh'' show_alert
           (Some (fmt_fixed 1 (ff_x (hw_offroad_temp_filter h)) @ ''C'')) (h\<lparr>hw_onroad := oc, hw_startup := Some sc\<rparr>, p)))"

definition should_start_of :: "hw_thread \<Rightarrow> bool" where
  "should_start_of h \<longleftrightarrow> onroad_ok (hw_onroad h) \<and>
     (hw_started_ts h = None \<longrightarrow> (\<forall>c \<in> set_option (hw_startup h). startup_ok c))"

text \<open>\<open>IsEngaged\<close> is cleared when the start decision changes, and follows \<open>selfdriveState\<close>.\<close>

definition update_engaged :: "hw_input \<Rightarrow> bool \<Rightarrow> hw_thread \<times> params \<Rightarrow> hw_thread \<times> params" where
  "update_engaged i should_start = (\<lambda>(h, p).
     let cleared = should_start \<noteq> hw_should_start_prev h \<or> hw_count h = 0;
         p = (if cleared then put_param ''IsEngaged'' (PBool False) p else p);
         prev = (if cleared then False else hw_engaged_prev h)
     in case hi_selfdriveState i of
          None \<Rightarrow> (h\<lparr>hw_engaged_prev := prev\<rparr>, p)
        | Some engaged \<Rightarrow> (h\<lparr>hw_engaged_prev := engaged\<rparr>, if engaged \<noteq> prev then put_param ''IsEngaged'' (PBool engaged) p else p))"

definition update_power_save :: "hw_input \<Rightarrow> hw_thread \<Rightarrow> bool option \<times> hw_thread" where
  "update_power_save i h =
     (let should_pwrsave = \<not> oc_ignition (hw_onroad h) \<and> hi_screenBrightnessPercent i < 1 / 1000
      in (if should_pwrsave \<noteq> hw_pwrsave h \<or> hw_count h = 0 then Some should_pwrsave else None,
          h\<lparr>hw_pwrsave := should_pwrsave\<rparr>))"

definition update_started :: "hw_input \<Rightarrow> bool \<Rightarrow> hw_thread \<Rightarrow> hw_thread" where
  "update_started i should_start h =
     (if should_start then
        (let h = h\<lparr>hw_off_ts := None\<rparr>;
             h = (if hw_started_ts h = None then h\<lparr>hw_started_ts := Some (hi_t_started i), hw_started_seen := True\<rparr> else h)
         in h\<lparr>hw_startup_blocked_ts := None\<rparr>)
      else
        (let h = (if oc_ignition (hw_onroad h) \<and> hw_startup h \<noteq> hw_startup_prev h
                  then h\<lparr>hw_startup_prev := hw_startup h, hw_startup_blocked_ts := Some (hi_t_blocked i)\<rparr> else h);
             h = h\<lparr>hw_started_ts := None\<rparr>
         in if hw_off_ts h = None then h\<lparr>hw_off_ts := Some (hi_t_off i)\<rparr> else h))"

text \<open>Power monitoring and the shutdown.\<close>

definition update_power :: "hw_input \<Rightarrow> hw_thread \<times> params \<Rightarrow> hw_thread \<times> params" where
  "update_power i = (\<lambda>(h, p).
     let voltage = (if hi_peripheral_pandaType i = 0 then None else Some (hi_voltage i));
         p = put_param ''GithubRunnerSufficientVoltage'' (PBool (\<exists>v \<in> set_option voltage. v \<noteq> 0 \<and> 9000 < v)) p;
         (pm, p) = calculate (hi_t_power i) voltage (oc_ignition (hw_onroad h)) (hi_power_draw i) (hw_power h, p)
     in (h\<lparr>hw_power := pm\<rparr>,
         if should_shutdown (hi_t_shutdown i) (oc_ignition (hw_onroad h)) (hw_in_car h) (hw_off_ts h) (hw_started_seen h) p pm
         then put_param ''DoShutdown'' (PBool True) p else p))"

text \<open>A time stamp counts as missing when it is zero.\<close>

definition truthy_ts :: "real option \<Rightarrow> bool" where
  "truthy_ts t \<longleftrightarrow> t \<noteq> None \<and> t \<noteq> Some 0"

definition update_uptime :: "hw_input \<Rightarrow> hw_thread \<times> params \<Rightarrow> hw_thread \<times> params" where
  "update_uptime i = (\<lambda>(h, p).
     let now = hi_t_now i; last = hw_last_uptime_ts h;
         h = (if truthy_ts (hw_off_ts h) then h\<lparr>hw_uptime_offroad := hw_uptime_offroad h + (now - max last (the (hw_off_ts h)))\<rparr>
              else if truthy_ts (hw_started_ts h) then h\<lparr>hw_uptime_onroad := hw_uptime_onroad h + (now - max last (the (hw_started_ts h)))\<rparr>
              else h);
         h = h\<lparr>hw_last_uptime_ts := now\<rparr>
     in (h, if hw_count h mod py_int (60 / DT_HW) = 0
            then put_param ''UptimeOnroad'' (PFloat (hw_uptime_onroad h)) (put_param ''UptimeOffroad'' (PFloat (hw_uptime_offroad h)) p)
            else p))"

definition save_status :: "hw_input \<Rightarrow> bool \<Rightarrow> bool \<Rightarrow> params \<Rightarrow> params" where
  "save_status i should_start should_start_prev p =
     (if should_start \<and> \<not> should_start_prev then
        (case hi_status_packet i of None \<Rightarrow> p | Some s \<Rightarrow> put_param ''LastOffroadStatusPacket'' (PStr s) p)
      else p)"

definition hw_run :: "hw_env \<Rightarrow> hw_input \<Rightarrow> hw_thread \<times> params \<Rightarrow> (hw_output \<times> hw_thread \<times> params) option" where
  "hw_run E i = (\<lambda>(h, p).
     do { let h = (case hi_hw_state i of None \<Rightarrow> h | Some s \<Rightarrow> h\<lparr>hw_last_hw_state := s\<rparr>);
          (fan, h) \<leftarrow> update_temps E i h;
          let offroad_mode = get_bool ''OffroadMode'' p;
          let (show_alert, h, p) = update_conditions E i (h, p);
          let should_start = should_start_of h;
          let (h, p) = update_engaged i should_start (h, p);
          let (power_save, h) = update_power_save i h;
          let h = update_started i should_start h;
          let (h, p) = update_power i (h, p);
          let p = save_status i should_start (hw_should_start_prev h) p;
          let p = put_param ''NetworkMetered'' (PBool (hs_network_metered (hw_last_hw_state h))) p;
          let (h, p) = update_uptime i (h, p);
          Some (\<lparr>ho_maxTempC = ff_x (hw_all_temp_filter h), ho_fanSpeedPercentDesired = (if show_alert then 100 else fan),
                 ho_thermalStatus = hw_thermal_status h, ho_started = (hw_started_ts h \<noteq> None \<and> \<not> offroad_mode),
                 ho_startedMonoTime = py_int (10 ^ 9 * (case hw_started_ts h of None \<Rightarrow> 0 | Some t \<Rightarrow> t)),
                 ho_offroadPowerUsageUwh = get_power_used (hw_power h),
                 ho_carBatteryCapacityUwh = max 0 (get_car_battery_capacity (hw_power h)),
                 ho_hardware_state = hw_last_hw_state h, ho_set_power_save = power_save\<rparr>,
                h\<lparr>hw_count := hw_count h + 1, hw_should_start_prev := should_start\<rparr>, p) })"

text \<open>An iteration of the loop: nothing is published in the frames between the runs.\<close>

definition hw_step :: "hw_env \<Rightarrow> hw_input \<Rightarrow> hw_thread \<times> params \<Rightarrow> (hw_output option \<times> hw_thread \<times> params) option" where
  "hw_step E i hp =
     (let (h, p) = cycle_request i hp; h = read_pandas i h
      in if runs_now i h then map_option (\<lambda>(out, hp). (Some out, hp)) (hw_run E i (h, p)) else Some (None, h, p))"

section \<open>The other threads\<close>

text \<open>\<open>hw_state_thread\<close>: readings of the slow hardware, every 10 s or when the USB devices change, into a
  queue of one element.  A reading that raises is \<open>None\<close>: it is logged and nothing is queued.\<close>

record hw_state_loop =
  sl_count :: int
  sl_prev_hw_state :: "hardware_state option"
  sl_prev_usb_topology :: "string set"
  sl_queue :: "hardware_state option"

definition hw_state_loop_init :: hw_state_loop where
  "hw_state_loop_init = \<lparr>sl_count = 0, sl_prev_hw_state = None, sl_prev_usb_topology = {}, sl_queue = None\<rparr>"

definition hw_state_round :: "string set \<Rightarrow> hardware_state option \<Rightarrow> hw_state_loop \<Rightarrow> hw_state_loop" where
  "hw_state_round usb_topology reading l =
     (let usb_changed = usb_topology \<noteq> sl_prev_usb_topology l;
          l1 = (if sl_count l mod py_int (10 / DT_HW) = 0 \<or> usb_changed then
                  (let l0 = l\<lparr>sl_prev_usb_topology := usb_topology\<rparr>
                   in case reading of
                        None \<Rightarrow> l0
                      | Some r \<Rightarrow>
                          let hs = (case sl_prev_hw_state l0 of
                                      Some prev \<Rightarrow> if hs_modem_temps r = [] then r\<lparr>hs_modem_temps := hs_modem_temps prev\<rparr> else r
                                    | None \<Rightarrow> r)
                          in l0\<lparr>sl_queue := (case sl_queue l0 of None \<Rightarrow> Some hs | Some q \<Rightarrow> Some q), sl_prev_hw_state := Some hs\<rparr>)
                else l)
      in l1\<lparr>sl_count := sl_count l1 + 1\<rparr>)"

text \<open>\<open>touch_thread\<close>: input events (seconds, microseconds, type, code, value) are collected into frames; an
  event of zeros ends a frame.  While events are there the counter stands.\<close>

type_synonym touch_event = "int \<times> int \<times> int \<times> int \<times> int"

record touch_loop =
  tl_count :: int
  tl_event_frame :: "touch_event list"
  tl_published :: "touch_event list list"

definition touch_round :: "touch_event option \<Rightarrow> touch_loop \<Rightarrow> touch_loop" where
  "touch_round event l =
     (case (if tl_count l mod py_int (1 / DT_HW) = 0 then event else None) of
        Some e \<Rightarrow>
          (case e of (sec, usec, etype, code, value) \<Rightarrow>
             if etype \<noteq> 0 \<or> code \<noteq> 0 \<or> value \<noteq> 0 then l\<lparr>tl_event_frame := tl_event_frame l @ [e]\<rparr>
             else l\<lparr>tl_published := tl_published l @ [tl_event_frame l], tl_event_frame := []\<rparr>)
      | None \<Rightarrow> l\<lparr>tl_count := tl_count l + 1\<rparr>)"

end
