(* ===== verification/HardwaredFacts.thy ===== *)
theory HardwaredFacts
  imports Hardwared
begin

text \<open>
  Facts about \<open>hardwared\<close>: the invariant of its state, and what an iteration and a run do.  A run is a
  list of iterations, each with its inputs and with the parameter store it finds: other processes may write the store between any two iterations.
\<close>

fun hw_runs :: "hw_env \<Rightarrow> (hw_input \<times> params) list \<Rightarrow> hw_thread \<Rightarrow> (hw_output list \<times> hw_thread) option" where
  "hw_runs E [] h = Some ([], h)"
| "hw_runs E ((i, p) # is) h =
     do { (out, h1, p1) \<leftarrow> hw_step E i (h, p);
          (outs, h2) \<leftarrow> hw_runs E is h1;
          Some (case out of None \<Rightarrow> outs | Some x \<Rightarrow> x # outs, h2) }"

section \<open>The fan and the thermal bands\<close>

lemma fan_update_ok:
  assumes "pid_wf (fc_controller fc)"
  shows "\<exists>fan fc'. fan_update mici t ign fc = Some (fan, fc') \<and> pid_wf (fc_controller fc') \<and>
    (if ign then 30 \<le> fan \<and> fan \<le> 100 else 0 \<le> fan \<and> fan \<le> 30)"
proof -
  define c where "c = (let c = set_limits (if ign then 100 else 30) (if ign then 30 else 0) (fc_controller fc)
    in if ign \<noteq> fc_last_ignition fc then pid_reset c else c)"
  have wf: "pid_wf c" "pid_neg_limit c = (if ign then 30 else 0)" "pid_pos_limit c = (if ign then 100 else 30)"
    using assms by (simp_all add: c_def Let_def frame_simps)
  obtain ff where ff: "np_interp t [60 + fan_offset mici, 100 + fan_offset mici] [0, 100] = Some ff"
    using np_interp_defined [of "[60 + fan_offset mici, 100 + fan_offset mici]" "[0, 100]" t] by auto
  obtain c' where c': "pid_update (t - (75 + fan_offset mici)) 0 0 ff False c = Some c'" "pid_wf c'"
    using pid_update_ok [OF wf(1)] by blast
  have "pid_neg_limit c \<le> pid_control c' \<and> pid_control c' \<le> pid_pos_limit c"
    by (rule pid_control_bounds [OF c'(1) wf(1)]) (simp add: wf)
  then have "if ign then 30 \<le> py_int (pid_control c') \<and> py_int (pid_control c') \<le> 100
      else 0 \<le> py_int (pid_control c') \<and> py_int (pid_control c') \<le> 30"
    unfolding wf py_int_def by (cases ign) (auto simp: le_floor_iff floor_le_iff)
  moreover have "fan_update mici t ign fc = Some (py_int (pid_control c'), \<lparr>fc_last_ignition = ign, fc_controller = c'\<rparr>)"
    using c'(1) ff by (simp add: fan_update_def c_def Let_def)
  ultimately show ?thesis using c'(2) by simp
qed

definition cool_limit :: "bool \<Rightarrow> real" where
  "cool_limit mici = (if mici then 92 else 88)"

lemma band_step_simps:
  "band_step mici t TS_ok = Some (if cool_limit mici + 8 < t then TS_overheated else TS_ok)"
  "band_step mici t TS_overheated = Some (if t < cool_limit mici then TS_ok else if 107 < t then TS_critical else TS_overheated)"
  "band_step mici t TS_critical = Some (if t < cool_limit mici + 6 then TS_overheated else TS_critical)"
  by (simp_all add: band_step_def THERMAL_BANDS_def list_at_def Let_def cool_limit_def numeral_eq_Suc)

lemma band_step_wf:
  "s \<noteq> TS_warmDEPRECATED \<Longrightarrow> \<exists>s'. band_step mici t s = Some s' \<and> s' \<noteq> TS_warmDEPRECATED"
  by (cases s) (simp_all add: band_step_simps)

section \<open>The fields an iteration leaves\<close>

definition hw_wf :: "hw_thread \<Rightarrow> bool" where
  "hw_wf h \<longleftrightarrow> pid_wf (fc_controller (hw_fan h)) \<and> hw_thermal_status h \<noteq> TS_warmDEPRECATED"

lemma init_wf: "hw_init now p = Some h \<Longrightarrow> hw_wf h"
  by (auto simp: hw_init_def bind_eq_Some_conv hw_wf_def fan_init_def pid_init_def pid_wf_def)

text \<open>What the temperatures do: the status moves by the bands, or jumps to critical while offroad.\<close>

definition danger :: "hw_env \<Rightarrow> hw_input \<Rightarrow> hw_thread \<Rightarrow> bool" where
  "danger E i h \<longleftrightarrow> hw_started_ts h = None \<and>
     (\<not> hw_started_seen h \<or> (case hw_off_ts h of None \<Rightarrow> True | Some t \<Rightarrow> 60 * 5 < hi_t_offroad i - t)) \<and>
     OFFROAD_DANGER_TEMP (is_mici E) < ff_x (filter_update (offroad_temp i) (hw_offroad_temp_filter h))"

lemma update_temps_eq:
  "update_temps E i h =
     do { (fan, fc) \<leftarrow> fan_update (is_mici E) (ff_x (filter_update (all_temp i) (hw_all_temp_filter h))) (oc_ignition (hw_onroad h)) (hw_fan h);
          status \<leftarrow> (if danger E i h then Some TS_critical
                     else band_step (is_mici E) (ff_x (filter_update (all_temp i) (hw_all_temp_filter h))) (hw_thermal_status h));
          Some (fan, h\<lparr>hw_offroad_temp_filter := filter_update (offroad_temp i) (hw_offroad_temp_filter h),
                       hw_all_temp_filter := filter_update (all_temp i) (hw_all_temp_filter h), hw_fan := fc, hw_thermal_status := status\<rparr>) }"
  by (simp add: update_temps_def danger_def Let_def conj_assoc)

lemma set_alert_fields [frame_simps]:
  "hw_onroad (fst (set_offroad_alert_if_changed a s x hp)) = hw_onroad (fst hp)"
  "hw_startup (fst (set_offroad_alert_if_changed a s x hp)) = hw_startup (fst hp)"
  "hw_startup_prev (fst (set_offroad_alert_if_changed a s x hp)) = hw_startup_prev (fst hp)"
  "hw_started_ts (fst (set_offroad_alert_if_changed a s x hp)) = hw_started_ts (fst hp)"
  "hw_started_seen (fst (set_offroad_alert_if_changed a s x hp)) = hw_started_seen (fst hp)"
  "hw_off_ts (fst (set_offroad_alert_if_changed a s x hp)) = hw_off_ts (fst hp)"
  "hw_thermal_status (fst (set_offroad_alert_if_changed a s x hp)) = hw_thermal_status (fst hp)"
  "hw_all_temp_filter (fst (set_offroad_alert_if_changed a s x hp)) = hw_all_temp_filter (fst hp)"
  "hw_offroad_temp_filter (fst (set_offroad_alert_if_changed a s x hp)) = hw_offroad_temp_filter (fst hp)"
  "hw_fan (fst (set_offroad_alert_if_changed a s x hp)) = hw_fan (fst hp)"
  "hw_in_car (fst (set_offroad_alert_if_changed a s x hp)) = hw_in_car (fst hp)"
  "hw_offroad_cycle_count (fst (set_offroad_alert_if_changed a s x hp)) = hw_offroad_cycle_count (fst hp)"
  "hw_should_start_prev (fst (set_offroad_alert_if_changed a s x hp)) = hw_should_start_prev (fst hp)"
  "hw_count (fst (set_offroad_alert_if_changed a s x hp)) = hw_count (fst hp)"
  by (simp_all add: set_offroad_alert_if_changed_def case_prod_beta)

lemma update_engaged_fields [frame_simps]:
  "hw_onroad (fst (update_engaged i s hp)) = hw_onroad (fst hp)"
  "hw_startup (fst (update_engaged i s hp)) = hw_startup (fst hp)"
  "hw_started_ts (fst (update_engaged i s hp)) = hw_started_ts (fst hp)"
  "hw_started_seen (fst (update_engaged i s hp)) = hw_started_seen (fst hp)"
  "hw_off_ts (fst (update_engaged i s hp)) = hw_off_ts (fst hp)"
  "hw_thermal_status (fst (update_engaged i s hp)) = hw_thermal_status (fst hp)"
  "hw_all_temp_filter (fst (update_engaged i s hp)) = hw_all_temp_filter (fst hp)"
  "hw_offroad_temp_filter (fst (update_engaged i s hp)) = hw_offroad_temp_filter (fst hp)"
  "hw_fan (fst (update_engaged i s hp)) = hw_fan (fst hp)"
  "hw_in_car (fst (update_engaged i s hp)) = hw_in_car (fst hp)"
  by (simp_all add: update_engaged_def case_prod_beta Let_def split: option.split)

lemma update_power_save_fields [frame_simps]:
  "hw_onroad (snd (update_power_save i h)) = hw_onroad h"
  "hw_startup (snd (update_power_save i h)) = hw_startup h"
  "hw_started_ts (snd (update_power_save i h)) = hw_started_ts h"
  "hw_started_seen (snd (update_power_save i h)) = hw_started_seen h"
  "hw_off_ts (snd (update_power_save i h)) = hw_off_ts h"
  "hw_thermal_status (snd (update_power_save i h)) = hw_thermal_status h"
  "hw_all_temp_filter (snd (update_power_save i h)) = hw_all_temp_filter h"
  "hw_offroad_temp_filter (snd (update_power_save i h)) = hw_offroad_temp_filter h"
  "hw_fan (snd (update_power_save i h)) = hw_fan h"
  "hw_in_car (snd (update_power_save i h)) = hw_in_car h"
  by (simp_all add: update_power_save_def Let_def)

lemma update_started_fields [frame_simps]:
  "hw_onroad (update_started i s h) = hw_onroad h"
  "hw_startup (update_started i s h) = hw_startup h"
  "hw_started_ts (update_started i s h) = (if s then (if hw_started_ts h = None then Some (hi_t_started i) else hw_started_ts h) else None)"
  "hw_started_seen (update_started i s h) = (hw_started_seen h \<or> s \<and> hw_started_ts h = None)"
  "hw_off_ts (update_started i s h) = (if s then None else if hw_off_ts h = None then Some (hi_t_off i) else hw_off_ts h)"
  "hw_thermal_status (update_started i s h) = hw_thermal_status h"
  "hw_all_temp_filter (update_started i s h) = hw_all_temp_filter h"
  "hw_offroad_temp_filter (update_started i s h) = hw_offroad_temp_filter h"
  "hw_fan (update_started i s h) = hw_fan h"
  "hw_in_car (update_started i s h) = hw_in_car h"
  by (cases s; auto simp: update_started_def Let_def)+

lemma update_power_fields [frame_simps]:
  "hw_onroad (fst (update_power i hp)) = hw_onroad (fst hp)"
  "hw_startup (fst (update_power i hp)) = hw_startup (fst hp)"
  "hw_started_ts (fst (update_power i hp)) = hw_started_ts (fst hp)"
  "hw_started_seen (fst (update_power i hp)) = hw_started_seen (fst hp)"
  "hw_off_ts (fst (update_power i hp)) = hw_off_ts (fst hp)"
  "hw_thermal_status (fst (update_power i hp)) = hw_thermal_status (fst hp)"
  "hw_all_temp_filter (fst (update_power i hp)) = hw_all_temp_filter (fst hp)"
  "hw_offroad_temp_filter (fst (update_power i hp)) = hw_offroad_temp_filter (fst hp)"
  "hw_fan (fst (update_power i hp)) = hw_fan (fst hp)"
  by (simp_all add: update_power_def case_prod_beta Let_def)

lemma update_uptime_fields [frame_simps]:
  "hw_onroad (fst (update_uptime i hp)) = hw_onroad (fst hp)"
  "hw_startup (fst (update_uptime i hp)) = hw_startup (fst hp)"
  "hw_started_ts (fst (update_uptime i hp)) = hw_started_ts (fst hp)"
  "hw_started_seen (fst (update_uptime i hp)) = hw_started_seen (fst hp)"
  "hw_off_ts (fst (update_uptime i hp)) = hw_off_ts (fst hp)"
  "hw_thermal_status (fst (update_uptime i hp)) = hw_thermal_status (fst hp)"
  "hw_all_temp_filter (fst (update_uptime i hp)) = hw_all_temp_filter (fst hp)"
  "hw_offroad_temp_filter (fst (update_uptime i hp)) = hw_offroad_temp_filter (fst hp)"
  "hw_fan (fst (update_uptime i hp)) = hw_fan (fst hp)"
  by (simp_all add: update_uptime_def case_prod_beta Let_def)

lemma read_pandas_fields [frame_simps]:
  "hw_started_ts (read_pandas i h) = hw_started_ts h" "hw_started_seen (read_pandas i h) = hw_started_seen h"
  "hw_off_ts (read_pandas i h) = hw_off_ts h" "hw_thermal_status (read_pandas i h) = hw_thermal_status h"
  "hw_all_temp_filter (read_pandas i h) = hw_all_temp_filter h"
  "hw_offroad_temp_filter (read_pandas i h) = hw_offroad_temp_filter h" "hw_fan (read_pandas i h) = hw_fan h"
  "hw_startup (read_pandas i h) = hw_startup h" "hw_count (read_pandas i h) = hw_count h"
  "hw_should_start_prev (read_pandas i h) = hw_should_start_prev h"
  "oc_not_onroad_cycle (hw_onroad (read_pandas i h)) = oc_not_onroad_cycle (hw_onroad h)"
  by (simp_all add: read_pandas_def)

lemma cycle_request_fields [frame_simps]:
  "hw_started_ts (fst (cycle_request i hp)) = hw_started_ts (fst hp)"
  "hw_started_seen (fst (cycle_request i hp)) = hw_started_seen (fst hp)"
  "hw_off_ts (fst (cycle_request i hp)) = hw_off_ts (fst hp)"
  "hw_thermal_status (fst (cycle_request i hp)) = hw_thermal_status (fst hp)"
  "hw_all_temp_filter (fst (cycle_request i hp)) = hw_all_temp_filter (fst hp)"
  "hw_offroad_temp_filter (fst (cycle_request i hp)) = hw_offroad_temp_filter (fst hp)"
  "hw_fan (fst (cycle_request i hp)) = hw_fan (fst hp)"
  "hw_startup (fst (cycle_request i hp)) = hw_startup (fst hp)"
  "hw_count (fst (cycle_request i hp)) = hw_count (fst hp)"
  "hw_should_start_prev (fst (cycle_request i hp)) = hw_should_start_prev (fst hp)"
  by (simp_all add: cycle_request_def case_prod_beta Let_def)

section \<open>An iteration as a whole\<close>

definition unsupported :: "hw_env \<Rightarrow> bool" where
  "unsupported E \<longleftrightarrow> hwe_COMMA_HARDWARE E \<and> hwe_device_type E = ''tici'' \<and> hwe_channel_type E \<noteq> ''tici''"

text \<open>The state as the run of an iteration finds it, and the conditions it decides by.\<close>

definition entry_state :: "hw_input \<Rightarrow> hw_thread \<times> params \<Rightarrow> hw_thread" where
  "entry_state i hp = read_pandas i (fst (cycle_request i hp))"

definition stays_onroad :: "hw_env \<Rightarrow> params \<Rightarrow> hw_thread \<Rightarrow> thermal_status \<Rightarrow> bool" where
  "stays_onroad E p h status \<longleftrightarrow>
     oc_ignition (hw_onroad h) \<and> oc_not_onroad_cycle (hw_onroad h) \<and> status \<noteq> TS_critical \<and>
     \<not> get_bool ''OffroadMode'' p \<and> \<not> unsupported E"

definition may_start :: "hw_env \<Rightarrow> hw_input \<Rightarrow> params \<Rightarrow> hw_thread \<Rightarrow> thermal_status \<Rightarrow> bool" where
  "may_start E i p h status \<longleftrightarrow>
     pr_values p ''Offroad_ExcessiveActuation'' = None \<and> \<not> get_bool ''DoUninstall'' p \<and> 2 < hi_freeSpacePercent i \<and>
     status = TS_ok \<and> ((\<exists>c \<in> set_option (hw_startup h). sc_device_booted c) \<or> hi_booted i)"

definition starts :: "hw_env \<Rightarrow> hw_input \<Rightarrow> params \<Rightarrow> hw_thread \<Rightarrow> thermal_status \<Rightarrow> bool" where
  "starts E i p h status \<longleftrightarrow> stays_onroad E p h status \<and> (hw_started_ts h = None \<longrightarrow> may_start E i p h status)"

lemma should_start_eq:
  assumes "hw_thermal_status h \<noteq> TS_warmDEPRECATED"
  shows "should_start_of (fst (snd (update_conditions E i (h, p)))) = starts E i p h (hw_thermal_status h)"
  using assms
  by (cases "hw_thermal_status h"; cases "hw_startup h")
    (auto simp: update_conditions_def Let_def should_start_of_def starts_def stays_onroad_def may_start_def onroad_ok_def
      startup_ok_def startup_of_def unsupported_def frame_simps)

lemma update_conditions_fields [frame_simps]:
  "hw_started_ts (fst (snd (update_conditions E i hp))) = hw_started_ts (fst hp)"
  "hw_started_seen (fst (snd (update_conditions E i hp))) = hw_started_seen (fst hp)"
  "hw_off_ts (fst (snd (update_conditions E i hp))) = hw_off_ts (fst hp)"
  "hw_thermal_status (fst (snd (update_conditions E i hp))) = hw_thermal_status (fst hp)"
  "hw_all_temp_filter (fst (snd (update_conditions E i hp))) = hw_all_temp_filter (fst hp)"
  "hw_offroad_temp_filter (fst (snd (update_conditions E i hp))) = hw_offroad_temp_filter (fst hp)"
  "hw_fan (fst (snd (update_conditions E i hp))) = hw_fan (fst hp)"
  "oc_ignition (hw_onroad (fst (snd (update_conditions E i hp)))) = oc_ignition (hw_onroad (fst hp))"
  "hw_in_car (fst (snd (update_conditions E i hp))) = hw_in_car (fst hp)"
  "hw_should_start_prev (fst (snd (update_conditions E i hp))) = hw_should_start_prev (fst hp)"
  "hw_count (fst (snd (update_conditions E i hp))) = hw_count (fst hp)"
  by (simp_all add: update_conditions_def case_prod_beta Let_def frame_simps)

text \<open>The result of a run in the fields the properties read.\<close>

definition run_facts :: "hw_env \<Rightarrow> hw_input \<Rightarrow> params \<Rightarrow> hw_thread \<Rightarrow> hw_output \<Rightarrow> hw_thread \<Rightarrow> bool" where
  "run_facts E i p h out h1 \<longleftrightarrow>
     hw_thermal_status h1 \<noteq> TS_warmDEPRECATED \<and> pid_wf (fc_controller (hw_fan h1)) \<and>
     (if danger E i h then hw_thermal_status h1 = TS_critical
      else band_step (is_mici E) (ho_maxTempC out) (hw_thermal_status h) = Some (hw_thermal_status h1)) \<and>
     hw_all_temp_filter h1 = filter_update (all_temp i) (hw_all_temp_filter h) \<and>
     hw_offroad_temp_filter h1 = filter_update (offroad_temp i) (hw_offroad_temp_filter h) \<and>
     ho_maxTempC out = ff_x (hw_all_temp_filter h1) \<and> ho_thermalStatus out = hw_thermal_status h1 \<and>
     (hw_started_ts h1 \<noteq> None) = starts E i p h (hw_thermal_status h1) \<and>
     (hw_off_ts h1 = None) = (hw_started_ts h1 \<noteq> None) \<and>
     ho_started out = (hw_started_ts h1 \<noteq> None) \<and>
     (if oc_ignition (hw_onroad h) then 30 \<le> ho_fanSpeedPercentDesired out else 0 \<le> ho_fanSpeedPercentDesired out) \<and>
     ho_fanSpeedPercentDesired out \<le> 100 \<and> 0 \<le> ho_carBatteryCapacityUwh out"

lemma hw_run_ok:
  assumes "hw_wf h"
  shows "\<exists>out h1 p1. hw_run E i (h, p) = Some (out, h1, p1) \<and> run_facts E i p h out h1"
proof -
  define h0 where "h0 = (case hi_hw_state i of None \<Rightarrow> h | Some s \<Rightarrow> h\<lparr>hw_last_hw_state := s\<rparr>)"
  have h0: "hw_started_ts h0 = hw_started_ts h" "hw_off_ts h0 = hw_off_ts h" "hw_thermal_status h0 = hw_thermal_status h"
    "hw_all_temp_filter h0 = hw_all_temp_filter h" "hw_offroad_temp_filter h0 = hw_offroad_temp_filter h" "hw_fan h0 = hw_fan h"
    "hw_onroad h0 = hw_onroad h" "hw_startup h0 = hw_startup h" "danger E i h0 = danger E i h"
    by (auto simp: h0_def danger_def split: option.splits)
  let ?al = "filter_update (all_temp i) (hw_all_temp_filter h)" and ?off = "filter_update (offroad_temp i) (hw_offroad_temp_filter h)"
  obtain fan fc where fan: "fan_update (is_mici E) (ff_x ?al) (oc_ignition (hw_onroad h)) (hw_fan h) = Some (fan, fc)"
    "pid_wf (fc_controller fc)" "if oc_ignition (hw_onroad h) then 30 \<le> fan \<and> fan \<le> 100 else 0 \<le> fan \<and> fan \<le> 30"
    using fan_update_ok assms unfolding hw_wf_def by blast
  obtain status where st: "(if danger E i h then Some TS_critical else band_step (is_mici E) (ff_x ?al) (hw_thermal_status h)) = Some status"
    "status \<noteq> TS_warmDEPRECATED"
    using band_step_wf [of "hw_thermal_status h" "is_mici E" "ff_x ?al"] assms unfolding hw_wf_def by (cases "danger E i h") auto
  define h1 where "h1 = h0\<lparr>hw_offroad_temp_filter := ?off, hw_all_temp_filter := ?al, hw_fan := fc, hw_thermal_status := status\<rparr>"
  have ut: "update_temps E i h0 = Some (fan, h1)"
    using st(1) by (cases "danger E i h") (simp_all add: update_temps_eq h0 fan(1) h1_def)
  have h1: "hw_thermal_status h1 = status" "hw_started_ts h1 = hw_started_ts h" "hw_fan h1 = fc" "hw_all_temp_filter h1 = ?al"
    "hw_offroad_temp_filter h1 = ?off" "hw_onroad h1 = hw_onroad h" "hw_off_ts h1 = hw_off_ts h" "hw_startup h1 = hw_startup h"
    by (simp_all add: h1_def h0)
  have ss: "should_start_of (fst (snd (update_conditions E i (h1, p)))) = starts E i p h status"
    using should_start_eq [of h1 E i p] st(2) by (simp add: h1 starts_def stays_onroad_def may_start_def)
  obtain sh h2 p2 where uc: "update_conditions E i (h1, p) = (sh, h2, p2)" by (cases "update_conditions E i (h1, p)") auto
  define s where "s = should_start_of h2"
  have s: "s = starts E i p h status" using ss uc by (simp add: s_def)
  obtain h3 p3 where ue: "update_engaged i s (h2, p2) = (h3, p3)" by fastforce
  obtain save h4 where up: "update_power_save i h3 = (save, h4)" by fastforce
  define h5 where "h5 = update_started i s h4"
  obtain h6 p6 where pw: "update_power i (h5, p3) = (h6, p6)" by fastforce
  obtain h7 p7 where uu: "update_uptime i (h6, put_param ''NetworkMetered'' (PBool (hs_network_metered (hw_last_hw_state h6)))
      (save_status i s (hw_should_start_prev h6) p6)) = (h7, p7)" by fastforce
  have f2: "hw_started_ts h2 = hw_started_ts h" "hw_off_ts h2 = hw_off_ts h" "hw_thermal_status h2 = status"
    "hw_fan h2 = fc" "hw_all_temp_filter h2 = ?al" "hw_offroad_temp_filter h2 = ?off"
    using update_conditions_fields [of E i "(h1, p)"] uc by (simp_all add: h1)
  have f3: "hw_started_ts h3 = hw_started_ts h" "hw_off_ts h3 = hw_off_ts h" "hw_thermal_status h3 = status"
    "hw_fan h3 = fc" "hw_all_temp_filter h3 = ?al" "hw_offroad_temp_filter h3 = ?off"
    using update_engaged_fields [of i s "(h2, p2)"] ue by (simp_all add: f2)
  have f4: "hw_started_ts h4 = hw_started_ts h" "hw_off_ts h4 = hw_off_ts h" "hw_thermal_status h4 = status"
    "hw_fan h4 = fc" "hw_all_temp_filter h4 = ?al" "hw_offroad_temp_filter h4 = ?off"
    using update_power_save_fields [of i h3] up by (simp_all add: f3)
  have f5: "(hw_started_ts h5 \<noteq> None) = s" "(hw_off_ts h5 = None) = s" "hw_thermal_status h5 = status"
    "hw_fan h5 = fc" "hw_all_temp_filter h5 = ?al" "hw_offroad_temp_filter h5 = ?off"
    by (simp_all add: h5_def frame_simps f4)
  have f6: "(hw_started_ts h6 \<noteq> None) = s" "(hw_off_ts h6 = None) = s" "hw_thermal_status h6 = status"
    "hw_fan h6 = fc" "hw_all_temp_filter h6 = ?al" "hw_offroad_temp_filter h6 = ?off"
    using update_power_fields [of i "(h5, p3)"] f5 unfolding pw by simp_all
  have f7: "(hw_started_ts h7 \<noteq> None) = s" "(hw_off_ts h7 = None) = s" "hw_thermal_status h7 = status"
    "hw_fan h7 = fc" "hw_all_temp_filter h7 = ?al" "hw_offroad_temp_filter h7 = ?off"
    using update_uptime_fields [of i "(h6, put_param ''NetworkMetered''
      (PBool (hs_network_metered (hw_last_hw_state h6))) (save_status i s (hw_should_start_prev h6) p6))"] f6 unfolding uu by simp_all
  have off: "s \<Longrightarrow> \<not> get_bool ''OffroadMode'' p" by (simp add: s starts_def stays_onroad_def)
  let ?h = "h7\<lparr>hw_count := hw_count h7 + 1, hw_should_start_prev := s\<rparr>"
  have "\<exists>out. hw_run E i (h, p) = Some (out, ?h, p7) \<and> ho_maxTempC out = ff_x ?al \<and> ho_thermalStatus out = status \<and>
      ho_started out = s \<and> ho_fanSpeedPercentDesired out = (if sh then 100 else fan) \<and> 0 \<le> ho_carBatteryCapacityUwh out"
    by (simp add: hw_run_def Let_def h0_def [symmetric] ut uc s_def [symmetric] ue up h5_def [symmetric] pw uu f7(2-)) (use f7(1) off in auto)
  then obtain out where out: "hw_run E i (h, p) = Some (out, ?h, p7)" "ho_maxTempC out = ff_x ?al" "ho_thermalStatus out = status"
    "ho_started out = s" "ho_fanSpeedPercentDesired out = (if sh then 100 else fan)" "0 \<le> ho_carBatteryCapacityUwh out" by blast
  have "run_facts E i p h out ?h"
    unfolding run_facts_def using st fan(2,3) s f7(1) by (auto simp: out f7(2-))
  with out(1) show ?thesis by blast
qed

text \<open>The frames between the runs leave the fields a run starts from.\<close>

lemma entry_state_fields:
  "hw_started_ts (entry_state i hp) = hw_started_ts (fst hp)" "hw_started_seen (entry_state i hp) = hw_started_seen (fst hp)"
  "hw_off_ts (entry_state i hp) = hw_off_ts (fst hp)" "hw_thermal_status (entry_state i hp) = hw_thermal_status (fst hp)"
  "hw_all_temp_filter (entry_state i hp) = hw_all_temp_filter (fst hp)"
  "hw_offroad_temp_filter (entry_state i hp) = hw_offroad_temp_filter (fst hp)" "hw_fan (entry_state i hp) = hw_fan (fst hp)"
  "hw_startup (entry_state i hp) = hw_startup (fst hp)" "hw_count (entry_state i hp) = hw_count (fst hp)"
  "hw_should_start_prev (entry_state i hp) = hw_should_start_prev (fst hp)"
  "oc_not_onroad_cycle (hw_onroad (entry_state i hp)) =
     (10 \<le> hi_frame i - (if get_bool ''OnroadCycleRequested'' (snd hp) then hi_frame i else hw_offroad_cycle_count (fst hp)))"
  by (simp_all add: entry_state_def frame_simps) (simp add: cycle_request_def case_prod_beta Let_def)

lemma cycle_request_params:
  "pr_values (snd (cycle_request i hp)) k = pr_values (snd hp) k" if "k \<noteq> ''OnroadCycleRequested''"
  using that by (simp add: cycle_request_def case_prod_beta Let_def put_param_def)

lemma entry_wf: "hw_wf h \<Longrightarrow> hw_wf (entry_state i (h, p))"
  by (simp add: hw_wf_def entry_state_fields)

lemma starts_params:
  "starts E i (snd (cycle_request i (h, p))) h' st = starts E i p h' st"
  by (simp add: starts_def stays_onroad_def may_start_def get_bool_def cycle_request_params)

lemma run_facts_params:
  "run_facts E i (snd (cycle_request i (h, p))) h' out h1 = run_facts E i p h' out h1"
  by (simp add: run_facts_def starts_params)

lemma hw_step_ok:
  assumes "hw_wf h"
  shows "\<exists>out h1 p1. hw_step E i (h, p) = Some (out, h1, p1) \<and>
    (case out of None \<Rightarrow> h1 = entry_state i (h, p) \<and> \<not> runs_now i h1
     | Some x \<Rightarrow> run_facts E i p (entry_state i (h, p)) x h1)"
proof -
  obtain h0 p0 where c: "cycle_request i (h, p) = (h0, p0)" by fastforce
  have e: "entry_state i (h, p) = read_pandas i h0" by (simp add: entry_state_def c)
  obtain out h1 p1 where r: "hw_run E i (read_pandas i h0, p0) = Some (out, h1, p1)" "run_facts E i p0 (read_pandas i h0) out h1"
    using hw_run_ok [OF entry_wf [OF assms, of i p]] unfolding e by blast
  show ?thesis
    using r run_facts_params [of E i h p "read_pandas i h0" out h1]
    by (auto simp: hw_step_def c e Let_def)
qed

lemma hw_step_wf:
  assumes "hw_wf h" "hw_step E i (h, p) = Some (out, h1, p1)"
  shows "hw_wf h1"
proof -
  obtain out' h1' p1' where s: "hw_step E i (h, p) = Some (out', h1', p1')" "case out' of None \<Rightarrow> h1' = entry_state i (h, p) \<and> \<not> runs_now i h1'
     | Some x \<Rightarrow> run_facts E i p (entry_state i (h, p)) x h1'"
    using hw_step_ok [OF assms(1)] by blast
  with assms show ?thesis
    by (cases out') (auto simp: run_facts_def hw_wf_def entry_state_fields)
qed

text \<open>Induction over the iterations of a run.\<close>

lemma hw_runs_total:
  assumes "hw_wf h"
  shows "\<exists>outs h'. hw_runs E is h = Some (outs, h') \<and> hw_wf h'"
  using assms
proof (induction "is" arbitrary: h)
  case (Cons ip "is")
  obtain i p where ip: "ip = (i, p)" by (cases ip)
  obtain out h1 p1 where s: "hw_step E i (h, p) = Some (out, h1, p1)" using hw_step_ok [OF Cons.prems] by blast
  from Cons.IH [OF hw_step_wf [OF Cons.prems s]] s show ?case by (auto simp: ip)
qed simp

lemma hw_runs_invariant:
  assumes "hw_runs E is h = Some (outs, h')" "hw_wf h" "P h"
    and entry: "\<And>i p h. (i, p) \<in> set is \<Longrightarrow> hw_wf h \<Longrightarrow> P h \<Longrightarrow> P (entry_state i (h, p))"
    and run: "\<And>i p h out h1. (i, p) \<in> set is \<Longrightarrow> hw_wf h \<Longrightarrow> P h \<Longrightarrow> out \<in> set outs \<Longrightarrow> run_facts E i p h out h1 \<Longrightarrow> P h1 \<and> Q out"
  shows "P h' \<and> (\<forall>out \<in> set outs. Q out)"
  using assms
proof (induction "is" arbitrary: h outs)
  case (Cons ip "is")
  obtain i p where ip: "ip = (i, p)" by (cases ip)
  obtain out h1 p1 outs1 where s: "hw_step E i (h, p) = Some (out, h1, p1)" "hw_runs E is h1 = Some (outs1, h')"
    "outs = (case out of None \<Rightarrow> outs1 | Some x \<Rightarrow> x # outs1)"
    using Cons.prems(1) by (auto simp: ip bind_eq_Some_conv)
  have f: "case out of None \<Rightarrow> h1 = entry_state i (h, p) \<and> \<not> runs_now i h1 | Some x \<Rightarrow> run_facts E i p (entry_state i (h, p)) x h1"
    using hw_step_ok [OF Cons.prems(2), of E i p] s(1) by auto
  have e: "hw_wf (entry_state i (h, p))" "P (entry_state i (h, p))"
    using Cons.prems(2,3) by (auto simp: ip intro!: entry_wf Cons.prems(4))
  have h1: "P h1" "\<And>x. out = Some x \<Longrightarrow> Q x"
    using f e Cons.prems(5) [of i p "entry_state i (h, p)"] s(3) by (auto simp: ip split: option.splits)
  have "P h' \<and> (\<forall>out \<in> set outs1. Q out)"
  proof (rule Cons.IH [OF s(2) hw_step_wf [OF Cons.prems(2) s(1)] h1(1)])
    fix i' p' h0 assume "(i', p') \<in> set is" "hw_wf h0" "P h0"
    then show "P (entry_state i' (h0, p'))" by (intro Cons.prems(4)) simp_all
  next
    fix i' p' h0 x h2 assume "(i', p') \<in> set is" "hw_wf h0" "P h0" "x \<in> set outs1" "run_facts E i' p' h0 x h2"
    moreover have "x \<in> set outs" using s(3) \<open>x \<in> set outs1\<close> by (auto split: option.splits)
    ultimately show "P h2 \<and> Q x" by (intro Cons.prems(5)) simp_all
  qed
  with h1(2) s(3) show ?case by (auto split: option.splits)
qed simp

end
