(* ===== verification/HardwaredProps.thy ===== *)
theory HardwaredProps
  imports HardwaredFacts
begin

text \<open>
  The properties of \<open>hardwared\<close>: when the device goes onroad and offroad, the hysteresis of its
  temperature, its cooling, the shutdown, and the engagement flag it leaves behind.
\<close>

section \<open>Going onroad\<close>

definition ignition_now :: "hw_input \<Rightarrow> hw_thread \<Rightarrow> bool" where
  "ignition_now i h \<longleftrightarrow>
     (if hi_panda_updated i \<and> hi_pandaStates i \<noteq> [] then panda_ignition (hi_pandaStates i)
      else oc_ignition (hw_onroad h) \<and> hi_panda_age i \<le> 5)"

lemma entry_ignition: "oc_ignition (hw_onroad (entry_state i (h, p))) = ignition_now i h"
  by (auto simp: entry_state_def read_pandas_def cycle_request_def ignition_now_def Let_def)

lemma run_started:
  assumes "hw_wf h" "hw_step E i (h, p) = Some (Some out, h', p')"
  shows "run_facts E i p (entry_state i (h, p)) out h'"
  using hw_step_ok [OF assms(1), of E i p] assms(2) by auto

lemma step_runs:
  assumes "hw_wf h" "hi_frame i mod 5 = 0"
  shows "\<exists>out h1 p1. hw_step E i (h, p) = Some (Some out, h1, p1) \<and> run_facts E i p (entry_state i (h, p)) out h1"
proof -
  have "runs_now i h0" for h0 using assms(2) by (simp add: runs_now_def DT_HW_def)
  with hw_step_ok [OF assms(1), of E i p] show ?thesis by (auto split: option.splits)
qed

lemma hw_runs_length:
  assumes "hw_wf h" "\<forall>(i, p) \<in> set is. hi_frame i mod 5 = 0" "hw_runs E is h = Some (outs, h')"
  shows "length outs = length is"
  using assms
proof (induction "is" arbitrary: h outs)
  case (Cons ip "is")
  obtain i p where ip: "ip = (i, p)" by (cases ip)
  obtain out h1 p1 where s: "hw_step E i (h, p) = Some (Some out, h1, p1)"
    using step_runs [of h i E p] Cons.prems(1,2) by (auto simp: ip)
  from Cons.IH [OF hw_step_wf [OF Cons.prems(1) s]] Cons.prems(2,3) s show ?case by (auto simp: ip bind_eq_Some_conv)
qed simp

text \<open>A device on the bench: cool, booted, with one panda and a parameter store of defaults.\<close>

definition demo_hw_store :: params where
  "demo_hw_store = \<lparr>pr_values = Map.empty, pr_defaults = [''UptimeOffroad'' \<mapsto> PFloat 0, ''UptimeOnroad'' \<mapsto> PFloat 0]\<rparr>"

definition demo_hw :: hw_thread where
  "demo_hw = the (hw_init 0 demo_hw_store)"

definition demo_hw_env :: hw_env where
  "demo_hw_env = \<lparr>hwe_device_type = ''mici'', hwe_COMMA_HARDWARE = True, hwe_channel_type = ''release'', hwe_channel = ''release''\<rparr>"

definition demo_hw_input :: "bool \<Rightarrow> real \<Rightarrow> hw_input" where
  "demo_hw_input ignition temp = \<lparr>hi_frame = 20, hi_panda_updated = True,
     hi_pandaStates = [\<lparr>hp_pandaType = 1, hp_ignitionLine = ignition, hp_ignitionCan = False, hp_harnessStatus = 1\<rparr>],
     hi_panda_age = 0, hi_peripheral_pandaType = 1, hi_voltage = 12000, hi_selfdriveState = Some True, hi_hw_state = None,
     hi_memoryTempC = temp, hi_cpuTempC = [temp], hi_gpuTempC = [], hi_pmicTempC = [], hi_freeSpacePercent = 50,
     hi_screenBrightnessPercent = 0, hi_booted = True, hi_power_draw = 4, hi_status_packet = None,
     hi_t_offroad = 4000, hi_t_started = 4000, hi_t_blocked = 4000, hi_t_off = 4000, hi_t_power = 4000, hi_t_shutdown = 4000, hi_t_now = 4000\<rparr>"

lemma demo_hw_init: "hw_init 0 demo_hw_store = Some demo_hw"
  by (simp add: demo_hw_def hw_init_def get_float_def get_param_def demo_hw_store_def)

lemma demo_hw_wf: "hw_wf demo_hw"
  by (rule init_wf [OF demo_hw_init])

lemma demo_hw_fields:
  "hw_started_ts demo_hw = None" "hw_off_ts demo_hw = None" "hw_thermal_status demo_hw = TS_ok" "hw_offroad_cycle_count demo_hw = 0"
  "hw_all_temp_filter demo_hw = filter_init 0 5 DT_HW False" "hw_offroad_temp_filter demo_hw = filter_init 0 5 DT_HW False"
  "hw_startup demo_hw = None"
  by (simp_all add: demo_hw_def hw_init_def get_float_def get_param_def demo_hw_store_def)

lemma demo_hw_input_fields:
  "hi_frame (demo_hw_input ign t) = 20" "ignition_now (demo_hw_input ign t) h = ign" "hi_freeSpacePercent (demo_hw_input ign t) = 50"
  "hi_booted (demo_hw_input ign t)" "hi_selfdriveState (demo_hw_input ign t) = Some True" "hi_t_shutdown (demo_hw_input ign t) = 4000"
  "0 \<le> t \<Longrightarrow> all_temp (demo_hw_input ign t) = t" "0 \<le> t \<Longrightarrow> offroad_temp (demo_hw_input ign t) = t"
  by (simp_all add: demo_hw_input_def ignition_now_def panda_ignition_def all_temp_def offroad_temp_def)

text \<open>C16: The device is onroad after an iteration exactly when the ignition is on (a panda says so, or
  said so at most 5 s ago), ten frames passed since a requested cycle, the temperature is not critical,
  no offroad mode is set and the device is supported; and to go onroad it also needs no latched excessive
  actuation, no uninstall, free space, the lowest thermal band and a booted device.\<close>

theorem onroad_exactly_when:
  assumes "hw_wf h" "hw_step E i (h, p) = Some (Some out, h', p')"
  shows "ho_started out \<longleftrightarrow>
    ignition_now i h \<and>
    10 \<le> hi_frame i - (if get_bool ''OnroadCycleRequested'' p then hi_frame i else hw_offroad_cycle_count h) \<and>
    ho_thermalStatus out \<noteq> TS_critical \<and> \<not> get_bool ''OffroadMode'' p \<and> \<not> unsupported E \<and>
    (hw_started_ts h = None \<longrightarrow>
       pr_values p ''Offroad_ExcessiveActuation'' = None \<and> \<not> get_bool ''DoUninstall'' p \<and> 2 < hi_freeSpacePercent i \<and>
       ho_thermalStatus out = TS_ok \<and> ((\<exists>c \<in> set_option (hw_startup h). sc_device_booted c) \<or> hi_booted i))"
  using run_started [OF assms]
  by (simp add: run_facts_def starts_def stays_onroad_def may_start_def entry_state_fields entry_ignition)

theorem onroad_exactly_when_witness:
  "\<exists>out h' p'. hw_step demo_hw_env (demo_hw_input True 50) (demo_hw, demo_hw_store) = Some (Some out, h', p') \<and> ho_started out"
proof -
  let ?i = "demo_hw_input True 50"
  obtain out h' p' where s: "hw_step demo_hw_env ?i (demo_hw, demo_hw_store) = Some (Some out, h', p')"
    "run_facts demo_hw_env ?i demo_hw_store (entry_state ?i (demo_hw, demo_hw_store)) out h'"
    using step_runs [OF demo_hw_wf, of ?i demo_hw_env demo_hw_store] by (auto simp: demo_hw_input_fields)
  have "ho_thermalStatus out = TS_ok"
    using s(2) by (auto simp: run_facts_def danger_def entry_state_fields demo_hw_fields filter_init_def update_alpha_def filter_update_def
      demo_hw_input_fields OFFROAD_DANGER_TEMP_def demo_hw_env_def is_mici_def band_step_simps cool_limit_def)
  then have "ho_started out"
    using onroad_exactly_when [OF demo_hw_wf s(1)]
    by (simp add: demo_hw_fields demo_hw_input_fields demo_hw_store_def get_bool_def unsupported_def demo_hw_env_def)
  with s(1) show ?thesis by blast
qed


text \<open>While onroad, an iteration that finds the ignition off, or no panda state for 5 s, publishes the
  device as offroad at once, without waiting for the 2 Hz of the loop.\<close>

theorem ignition_off_is_immediate:
  assumes "hw_wf h" "hw_started_ts h \<noteq> None" "\<not> ignition_now i h"
  shows "\<exists>out h' p'. hw_step E i (h, p) = Some (Some out, h', p') \<and> \<not> ho_started out \<and> hw_started_ts h' = None"
proof -
  obtain out h' p' where s: "hw_step E i (h, p) = Some (out, h', p')"
    "case out of None \<Rightarrow> h' = entry_state i (h, p) \<and> \<not> runs_now i h' | Some x \<Rightarrow> run_facts E i p (entry_state i (h, p)) x h'"
    using hw_step_ok [OF assms(1)] by blast
  have "runs_now i (entry_state i (h, p))"
    using assms(2,3) by (simp add: runs_now_def onroad_ok_def entry_state_fields entry_ignition)
  then obtain x where x: "out = Some x" using s(2) by (cases out) auto
  then have "run_facts E i p (entry_state i (h, p)) x h'" using s(2) by simp
  then show ?thesis using s(1) x assms(3) by (auto simp: run_facts_def starts_def stays_onroad_def entry_ignition)
qed

theorem ignition_off_is_immediate_witness:
  "\<exists>out h' p'. hw_step demo_hw_env ((demo_hw_input False 50)\<lparr>hi_frame := 21\<rparr>) (demo_hw\<lparr>hw_started_ts := Some 1\<rparr>, demo_hw_store) =
     Some (Some out, h', p') \<and> \<not> ho_started out"
  using ignition_off_is_immediate [of "demo_hw\<lparr>hw_started_ts := Some 1\<rparr>" "(demo_hw_input False 50)\<lparr>hi_frame := 21\<rparr>" demo_hw_env demo_hw_store] demo_hw_wf
  by (auto simp: hw_wf_def ignition_now_def demo_hw_input_def panda_ignition_def)


section \<open>Temperature\<close>

text \<open>C19: Once the device is offroad in a hot or critical band, no iteration of any run goes onroad before
  the filtered temperature has fallen below 88 C (92 C on the mici), whatever happens meanwhile; and no
  iteration is ever onroad in the critical band.\<close>

theorem no_restart_before_cooling:
  assumes "hw_wf h" "hw_runs E is h = Some (outs, h')"
  shows "(\<forall>out \<in> set outs. ho_thermalStatus out = TS_critical \<longrightarrow> \<not> ho_started out) \<and>
    (hw_started_ts h = None \<and> hw_thermal_status h \<noteq> TS_ok \<and>
     (\<forall>out \<in> set outs. (if is_mici E then 92 else 88) \<le> ho_maxTempC out) \<longrightarrow> (\<forall>out \<in> set outs. \<not> ho_started out))"
proof -
  have "True \<and> (\<forall>out \<in> set outs. ho_thermalStatus out = TS_critical \<longrightarrow> \<not> ho_started out)"
    by (rule hw_runs_invariant [OF assms(2,1), where P = "\<lambda>_. True"])
      (auto simp: run_facts_def starts_def stays_onroad_def)
  moreover have "\<forall>out \<in> set outs. \<not> ho_started out"
    if hot: "\<forall>out \<in> set outs. (if is_mici E then 92 else 88) \<le> ho_maxTempC out" and h: "hw_started_ts h = None" "hw_thermal_status h \<noteq> TS_ok"
  proof -
    let ?P = "\<lambda>h. hw_started_ts h = None \<and> hw_thermal_status h \<noteq> TS_ok"
    have "?P h' \<and> (\<forall>out \<in> set outs. \<not> ho_started out)"
    proof (rule hw_runs_invariant [OF assms(2,1)])
      fix i p h0 out h1 assume a: "hw_wf h0" "?P h0" "out \<in> set outs" "run_facts E i p h0 out h1"
      have "cool_limit (is_mici E) \<le> ho_maxTempC out" using hot a(3) by (auto simp: cool_limit_def)
      then have "hw_thermal_status h1 \<noteq> TS_ok" using a
        by (cases "hw_thermal_status h0") (auto simp: run_facts_def hw_wf_def band_step_simps split: if_splits)
      then show "?P h1 \<and> \<not> ho_started out" using a(2,4) by (auto simp: run_facts_def starts_def may_start_def)
    qed (use h in \<open>simp_all add: entry_state_fields\<close>)
    then show ?thesis by blast
  qed
  ultimately show ?thesis by blast
qed

theorem no_restart_before_cooling_witness:
  "\<exists>outs h'. hw_runs demo_hw_env [(demo_hw_input True 100, demo_hw_store)] (demo_hw\<lparr>hw_thermal_status := TS_critical\<rparr>) = Some (outs, h') \<and>
     length outs = 1 \<and> (\<forall>out \<in> set outs. \<not> ho_started out)"
proof -
  let ?i = "demo_hw_input True 100" and ?h = "demo_hw\<lparr>hw_thermal_status := TS_critical\<rparr>"
  have wf: "hw_wf ?h" using demo_hw_wf by (simp add: hw_wf_def)
  obtain out h' p' where s: "hw_step demo_hw_env ?i (?h, demo_hw_store) = Some (Some out, h', p')"
    "run_facts demo_hw_env ?i demo_hw_store (entry_state ?i (?h, demo_hw_store)) out h'"
    using step_runs [OF wf, of ?i demo_hw_env demo_hw_store] by (auto simp: demo_hw_input_fields)
  then have r: "hw_runs demo_hw_env [(?i, demo_hw_store)] ?h = Some ([out], h')" by simp
  have "ho_maxTempC out = ff_x (filter_update 100 (filter_init 0 5 DT_HW False))"
    using s(2) unfolding run_facts_def by (simp add: entry_state_fields demo_hw_fields demo_hw_input_fields)
  then have "ho_maxTempC out = 100" by (simp add: filter_init_def update_alpha_def filter_update_def)
  with no_restart_before_cooling [OF wf r] r show ?thesis by (auto simp: demo_hw_fields)
qed


text \<open>A temperature filter that has its time constant of 5 s at 2 Hz and has seen a value.\<close>

definition filter_ready :: "real \<Rightarrow> first_order_filter \<Rightarrow> bool" where
  "filter_ready m f \<longleftrightarrow> ff_initialized f \<and> ff_alpha f = 1 / 11 \<and> ff_x f \<le> m"

definition cooling :: "nat \<Rightarrow> real" where
  "cooling n = 70 + 80 * (10 / 11) ^ n"

lemma cooling_30: "cooling (Suc n) < 75" if "30 \<le> n"
proof -
  have "(10 / 11 :: real) ^ Suc n \<le> (10 / 11) ^ 31" using that by (intro power_decreasing) simp_all
  moreover have "80 * (10 / 11 :: real) ^ 31 < 5" by (simp add: power_divide)
  ultimately show ?thesis by (simp add: cooling_def)
qed

lemma filter_ready_update:
  assumes "filter_ready (cooling n) f" "t \<le> 70"
  shows "filter_ready (cooling (Suc n)) (filter_update t f)"
proof -
  have f: "ff_initialized f" "ff_alpha f = 1 / 11" "ff_x f \<le> cooling n" using assms(1) by (simp_all add: filter_ready_def)
  show ?thesis using f(3) assms(2) by (simp add: filter_ready_def filter_update_def f(1,2) cooling_def)
qed

lemma offroad_le_all: "offroad_temp i \<le> all_temp i"
  by (simp add: offroad_temp_def all_temp_def max_def)

text \<open>How many runs are left until the lowest band, after \<open>n\<close> runs of cooling.\<close>

definition runs_left :: "nat \<Rightarrow> thermal_status \<Rightarrow> nat" where
  "runs_left n s = (if 30 \<le> n then (if s = TS_ok then 0 else if s = TS_overheated then 1 else 2) else 32 - n)"

definition cool_state :: "nat \<Rightarrow> hw_thread \<Rightarrow> bool" where
  "cool_state n h \<longleftrightarrow> hw_wf h \<and> filter_ready (cooling n) (hw_all_temp_filter h) \<and> filter_ready (cooling n) (hw_offroad_temp_filter h)"

lemma cool_run:
  assumes "cool_state n h" "all_temp i \<le> 70" "run_facts E i p h out h1"
  shows "cool_state (Suc n) h1 \<and> runs_left (Suc n) (hw_thermal_status h1) \<le> runs_left n (hw_thermal_status h) - 1"
proof -
  have f: "filter_ready (cooling (Suc n)) (hw_all_temp_filter h1)" "filter_ready (cooling (Suc n)) (hw_offroad_temp_filter h1)"
    using assms filter_ready_update [of n] offroad_le_all [of i] by (auto simp: run_facts_def cool_state_def)
  have "runs_left (Suc n) (hw_thermal_status h1) \<le> runs_left n (hw_thermal_status h) - 1"
  proof (cases "30 \<le> n")
    case True
    have t: "ff_x (hw_all_temp_filter h1) < 75" "ff_x (hw_offroad_temp_filter h1) < 75"
      using f cooling_30 [OF True] by (auto simp: filter_ready_def)
    have "\<not> danger E i h" using t(2) assms(3) by (auto simp: danger_def run_facts_def OFFROAD_DANGER_TEMP_def)
    moreover have "ho_maxTempC out = ff_x (hw_all_temp_filter h1)" "if danger E i h then hw_thermal_status h1 = TS_critical
        else band_step (is_mici E) (ho_maxTempC out) (hw_thermal_status h) = Some (hw_thermal_status h1)"
      using assms(3) unfolding run_facts_def by blast+
    ultimately have "band_step (is_mici E) (ff_x (hw_all_temp_filter h1)) (hw_thermal_status h) = Some (hw_thermal_status h1)"
      by simp
    then show ?thesis using t(1) True assms(1)
      by (cases "hw_thermal_status h") (auto simp: band_step_simps cool_limit_def runs_left_def cool_state_def hw_wf_def split: if_splits)
  next
    case False
    then show ?thesis by (auto simp: runs_left_def)
  qed
  then show ?thesis using f assms(3) by (simp add: cool_state_def hw_wf_def run_facts_def)
qed

lemma cool_runs:
  assumes "cool_state n h" "\<forall>(i, p) \<in> set is. all_temp i \<le> 70" "hw_runs E is h = Some (outs, h')"
    "runs_left n (hw_thermal_status h) \<le> length outs"
  shows "hw_thermal_status h' = TS_ok"
  using assms
proof (induction "is" arbitrary: n h outs)
  case Nil
  then show ?case by (auto simp: runs_left_def split: if_splits)
next
  case (Cons ip "is")
  obtain i p where ip: "ip = (i, p)" by (cases ip)
  obtain out h1 p1 outs1 where s: "hw_step E i (h, p) = Some (out, h1, p1)" "hw_runs E is h1 = Some (outs1, h')"
    "outs = (case out of None \<Rightarrow> outs1 | Some x \<Rightarrow> x # outs1)"
    using Cons.prems(3) by (auto simp: ip bind_eq_Some_conv)
  have e: "cool_state n (entry_state i (h, p))" "hw_thermal_status (entry_state i (h, p)) = hw_thermal_status h" "hw_wf h"
    using Cons.prems(1) by (auto simp: cool_state_def entry_state_fields entry_wf)
  have f: "case out of None \<Rightarrow> h1 = entry_state i (h, p) \<and> \<not> runs_now i h1 | Some x \<Rightarrow> run_facts E i p (entry_state i (h, p)) x h1"
    using hw_step_ok [OF e(3), of E i p] s(1) by auto
  show ?case
  proof (cases out)
    case None
    then show ?thesis using Cons.IH [of n h1 outs1] f e(1,2) s Cons.prems(2,4) by auto
  next
    case (Some x)
    then have "run_facts E i p (entry_state i (h, p)) x h1" using f by simp
    from cool_run [OF e(1) _ this] Cons.prems(2) have
      c: "cool_state (Suc n) h1" "runs_left (Suc n) (hw_thermal_status h1) \<le> runs_left n (hw_thermal_status h) - 1"
      by (auto simp: ip e(2))
    have l: "length outs = Suc (length outs1)" using s(3) Some by simp
    then have "runs_left (Suc n) (hw_thermal_status h1) \<le> length outs1" using c(2) Cons.prems(4) by linarith
    from Cons.IH [OF c(1) _ s(2) this] Cons.prems(2) l show ?thesis by auto
  qed
qed

text \<open>C20: A device whose sensors stay at 70 C or below reaches the lowest thermal band within 32 runs of
  the loop (16 s), from any state whose filters are at most at 150 C.\<close>

theorem cools_down:
  assumes "hw_wf h" "filter_ready 150 (hw_all_temp_filter h)" "filter_ready 150 (hw_offroad_temp_filter h)"
    "\<forall>(i, p) \<in> set is. all_temp i \<le> 70" "hw_runs E is h = Some (outs, h')" "32 \<le> length outs"
  shows "hw_thermal_status h' = TS_ok"
proof -
  have "cool_state 0 h" using assms(1-3) by (simp add: cool_state_def cooling_def)
  from cool_runs [OF this assms(4,5)] assms(6) show ?thesis by (auto simp: runs_left_def)
qed

theorem cools_down_witness:
  "\<exists>outs h'. hw_runs demo_hw_env (replicate 32 (demo_hw_input True 60, demo_hw_store))
     (demo_hw\<lparr>hw_thermal_status := TS_critical, hw_all_temp_filter := \<lparr>ff_x = 110, ff_dt = 1 / 2, ff_alpha = 1 / 11, ff_initialized = True\<rparr>,
        hw_offroad_temp_filter := \<lparr>ff_x = 100, ff_dt = 1 / 2, ff_alpha = 1 / 11, ff_initialized = True\<rparr>\<rparr>) = Some (outs, h') \<and>
     hw_thermal_status h' = TS_ok"
proof -
  let ?is = "replicate 32 (demo_hw_input True 60, demo_hw_store)"
  let ?h = "demo_hw\<lparr>hw_thermal_status := TS_critical, hw_all_temp_filter := \<lparr>ff_x = 110, ff_dt = 1 / 2, ff_alpha = 1 / 11, ff_initialized = True\<rparr>,
        hw_offroad_temp_filter := \<lparr>ff_x = 100, ff_dt = 1 / 2, ff_alpha = 1 / 11, ff_initialized = True\<rparr>\<rparr>"
  have wf: "hw_wf ?h" using demo_hw_wf by (simp add: hw_wf_def)
  obtain outs h' where r: "hw_runs demo_hw_env ?is ?h = Some (outs, h')" using hw_runs_total [OF wf] by blast
  have "length outs = 32" using hw_runs_length [OF wf _ r] by (simp add: demo_hw_input_fields)
  then have "hw_thermal_status h' = TS_ok"
    by (intro cools_down [OF wf _ _ _ r]) (simp_all add: filter_ready_def demo_hw_input_fields)
  with r show ?thesis by blast
qed


section \<open>Runs from the constructor\<close>

text \<open>C23: From its constructor \<open>hardwared\<close> never raises, whatever the sensors, the messages and the store do:
  the thermal status always has a band, the fan is between 0 and 100 percent, and at least at 30 percent
  while the device is onroad; the battery estimate it publishes is never negative.\<close>

theorem hardwared_runs:
  assumes "hw_init now p0 = Some h"
  shows "\<exists>outs h'. hw_runs E is h = Some (outs, h') \<and>
    (\<forall>out \<in> set outs. ho_thermalStatus out \<noteq> TS_warmDEPRECATED \<and> 0 \<le> ho_fanSpeedPercentDesired out \<and>
       ho_fanSpeedPercentDesired out \<le> 100 \<and> (ho_started out \<longrightarrow> 30 \<le> ho_fanSpeedPercentDesired out) \<and>
       0 \<le> ho_carBatteryCapacityUwh out)"
proof -
  obtain outs h' where r: "hw_runs E is h = Some (outs, h')" using hw_runs_total [OF init_wf [OF assms]] by blast
  have "True \<and> (\<forall>out \<in> set outs. ho_thermalStatus out \<noteq> TS_warmDEPRECATED \<and> 0 \<le> ho_fanSpeedPercentDesired out \<and>
       ho_fanSpeedPercentDesired out \<le> 100 \<and> (ho_started out \<longrightarrow> 30 \<le> ho_fanSpeedPercentDesired out) \<and>
       0 \<le> ho_carBatteryCapacityUwh out)"
    by (rule hw_runs_invariant [OF r init_wf [OF assms], where P = "\<lambda>_. True"])
      (auto simp: run_facts_def starts_def stays_onroad_def split: if_splits)
  with r show ?thesis by blast
qed

theorem hardwared_runs_witness:
  "\<exists>outs h'. hw_runs demo_hw_env [(demo_hw_input True 50, demo_hw_store), (demo_hw_input False 120, demo_hw_store)] demo_hw = Some (outs, h') \<and>
     (\<forall>out \<in> set outs. ho_fanSpeedPercentDesired out \<le> 100)"
  using hardwared_runs [OF demo_hw_init, of demo_hw_env "[(demo_hw_input True 50, demo_hw_store), (demo_hw_input False 120, demo_hw_store)]"] by blast


section \<open>Shutdown\<close>

lemma set_alert_params:
  "k \<noteq> a \<Longrightarrow> get_bool k (set_offroad_alert a s x p) = get_bool k p"
  "k \<noteq> a \<Longrightarrow> get_bool k (snd (set_offroad_alert_if_changed a s x (h, p))) = get_bool k p"
  by (simp_all add: set_offroad_alert_def set_offroad_alert_if_changed_def)

lemma update_conditions_params:
  "k \<notin> {''Offroad_TiciSupport'', ''Offroad_TemperatureTooHigh''} \<Longrightarrow> get_bool k (snd (snd (update_conditions E i (h, p)))) = get_bool k p"
  by (simp add: update_conditions_def Let_def set_alert_params)

lemma update_engaged_params:
  "k \<noteq> ''IsEngaged'' \<Longrightarrow> get_bool k (snd (update_engaged i s (h, p))) = get_bool k p"
  by (simp add: update_engaged_def Let_def split: option.split)

lemma calculate_params:
  "k \<noteq> ''CarBatteryCapacity'' \<Longrightarrow> get_bool k (snd (calculate t v ign draw (pm, p))) = get_bool k p"
  by (auto simp: calculate_def measure_voltage_def Let_def split: option.split)

lemma update_power_keeps:
  "k \<notin> {''GithubRunnerSufficientVoltage'', ''CarBatteryCapacity'', ''DoShutdown''} \<Longrightarrow>
     get_bool k (snd (update_power i (h, p))) = get_bool k p"
  by (simp add: update_power_def case_prod_beta Let_def calculate_params)

lemma update_power_params:
  assumes "get_bool ''DoShutdown'' (snd (update_power i (h, p)))" "\<not> get_bool ''DoShutdown'' p"
  shows "\<exists>p' pm. should_shutdown (hi_t_shutdown i) (oc_ignition (hw_onroad h)) (hw_in_car h) (hw_off_ts h) (hw_started_seen h) p' pm \<and>
    get_bool ''ForcePowerDown'' p' = get_bool ''ForcePowerDown'' p \<and> get_bool ''DisablePowerDown'' p' = get_bool ''DisablePowerDown'' p"
proof -
  let ?p = "put_param ''GithubRunnerSufficientVoltage''
     (PBool (\<exists>v \<in> set_option (if hi_peripheral_pandaType i = 0 then None else Some (hi_voltage i)). v \<noteq> 0 \<and> 9000 < v)) p"
  let ?c = "calculate (hi_t_power i) (if hi_peripheral_pandaType i = 0 then None else Some (hi_voltage i))
     (oc_ignition (hw_onroad h)) (hi_power_draw i) (hw_power h, ?p)"
  have k: "get_bool k (snd ?c) = get_bool k p" if "k \<noteq> ''CarBatteryCapacity''" "k \<noteq> ''GithubRunnerSufficientVoltage''" for k
    using that by (simp add: calculate_params)
  have "should_shutdown (hi_t_shutdown i) (oc_ignition (hw_onroad h)) (hw_in_car h) (hw_off_ts h) (hw_started_seen h) (snd ?c) (fst ?c)"
    using assms k [of "''DoShutdown''"] by (auto simp: update_power_def case_prod_beta Let_def split: if_splits)
  then show ?thesis using k [of "''ForcePowerDown''"] k [of "''DisablePowerDown''"] by blast
qed

lemma update_temps_fields:
  assumes "update_temps E i h = Some (fan, h1)"
  shows "hw_onroad h1 = hw_onroad h" "hw_in_car h1 = hw_in_car h" "hw_should_start_prev h1 = hw_should_start_prev h" "hw_count h1 = hw_count h"
  using assms by (auto simp: update_temps_eq bind_eq_Some_conv)

lemma later_params:
  "k \<notin> {''NetworkMetered'', ''LastOffroadStatusPacket'', ''UptimeOffroad'', ''UptimeOnroad''} \<Longrightarrow>
     get_bool k (snd (update_uptime i (h, put_param ''NetworkMetered'' v (save_status i s sp p)))) = get_bool k p"
  by (auto simp: update_uptime_def save_status_def Let_def split: option.split)

text \<open>The stages of a run that write the parameters.\<close>

lemma hw_run_params:
  assumes "hw_run E i (h, p) = Some (out, h1, p1)"
  obtains s h2 p2 h5 where
    "get_bool ''DoShutdown'' p1 = get_bool ''DoShutdown'' (snd (update_power i (h5, snd (update_engaged i s (h2, p2)))))"
    "get_bool ''IsEngaged'' p1 = get_bool ''IsEngaged'' (snd (update_engaged i s (h2, p2)))"
    "\<And>k. k \<notin> {''Offroad_TiciSupport'', ''Offroad_TemperatureTooHigh''} \<Longrightarrow> get_bool k p2 = get_bool k p"
    "oc_ignition (hw_onroad h5) = oc_ignition (hw_onroad h)" "hw_in_car h5 = hw_in_car h" "hw_off_ts h5 = hw_off_ts h1"
    "hw_started_seen h5 = hw_started_seen h1" "hw_should_start_prev h2 = hw_should_start_prev h" "(hw_started_ts h1 \<noteq> None) = s"
proof -
  define h0 where "h0 = (case hi_hw_state i of None \<Rightarrow> h | Some s \<Rightarrow> h\<lparr>hw_last_hw_state := s\<rparr>)"
  have h0: "hw_onroad h0 = hw_onroad h" "hw_in_car h0 = hw_in_car h" "hw_should_start_prev h0 = hw_should_start_prev h"
    by (auto simp: h0_def split: option.splits)
  obtain fan ht where ut: "update_temps E i h0 = Some (fan, ht)"
    using assms by (auto simp: hw_run_def h0_def [symmetric] bind_eq_Some_conv)
  obtain sh h2 p2 where uc: "update_conditions E i (ht, p) = (sh, h2, p2)" by (cases "update_conditions E i (ht, p)") auto
  define s where "s = should_start_of h2"
  obtain h3 p3 where ue: "update_engaged i s (h2, p2) = (h3, p3)" by fastforce
  obtain save h4 where up: "update_power_save i h3 = (save, h4)" by fastforce
  define h5 where "h5 = update_started i s h4"
  obtain h6 p6 where pw: "update_power i (h5, p3) = (h6, p6)" by fastforce
  obtain h7 p7 where uu: "update_uptime i (h6, put_param ''NetworkMetered'' (PBool (hs_network_metered (hw_last_hw_state h6)))
      (save_status i s (hw_should_start_prev h6) p6)) = (h7, p7)" by fastforce
  have r: "h1 = h7\<lparr>hw_count := hw_count h7 + 1, hw_should_start_prev := s\<rparr>" "p1 = p7"
    using assms by (simp_all add: hw_run_def Let_def h0_def [symmetric] ut uc s_def [symmetric] ue up h5_def [symmetric] pw uu)
  have p7: "get_bool k p7 = get_bool k p6" if "k \<notin> {''NetworkMetered'', ''LastOffroadStatusPacket'', ''UptimeOffroad'', ''UptimeOnroad''}" for k
    using later_params [OF that, of i h6] uu by (metis snd_conv)
  have eng: "get_bool ''IsEngaged'' p6 = get_bool ''IsEngaged'' p3"
    using update_power_keeps [of "''IsEngaged''" i h5 p3] pw by simp
  have f2: "oc_ignition (hw_onroad h2) = oc_ignition (hw_onroad h)" "hw_in_car h2 = hw_in_car h" "hw_should_start_prev h2 = hw_should_start_prev h"
    using update_conditions_fields [of E i "(ht, p)"] unfolding uc by (simp_all add: update_temps_fields [OF ut] h0)
  have f3: "oc_ignition (hw_onroad h3) = oc_ignition (hw_onroad h)" "hw_in_car h3 = hw_in_car h"
    using update_engaged_fields [of i s "(h2, p2)"] f2 unfolding ue by simp_all
  have f4: "oc_ignition (hw_onroad h4) = oc_ignition (hw_onroad h)" "hw_in_car h4 = hw_in_car h"
    using update_power_save_fields [of i h3] f3 unfolding up by simp_all
  have f5: "oc_ignition (hw_onroad h5) = oc_ignition (hw_onroad h)" "hw_in_car h5 = hw_in_car h" "(hw_started_ts h5 \<noteq> None) = s"
    using f4 by (simp_all add: h5_def frame_simps)
  have f7: "hw_off_ts h7 = hw_off_ts h5" "hw_started_seen h7 = hw_started_seen h5" "hw_started_ts h7 = hw_started_ts h5"
    using update_power_fields [of i "(h5, p3)"] unfolding pw
    using update_uptime_fields [of i "(h6, put_param ''NetworkMetered''
      (PBool (hs_network_metered (hw_last_hw_state h6))) (save_status i s (hw_should_start_prev h6) p6))"] unfolding uu by simp_all
  show thesis
  proof (rule that [of h5 s h2 p2])
    show "get_bool k p2 = get_bool k p" if "k \<notin> {''Offroad_TiciSupport'', ''Offroad_TemperatureTooHigh''}" for k
      using update_conditions_params [OF that, of E i ht p] unfolding uc by simp
  qed (simp_all add: r p7 eng ue pw f2 f5(1,2) f7, use f5(3) in simp)
qed

text \<open>\<open>hardwared\<close> asks for the shutdown of the device only in an iteration that leaves it offroad, once
  the car has been started or the device has run for an hour; and, unless a shutdown is forced, only
  with the ignition off, in the car, 5 minutes after going offroad and with the shutdown not disabled.\<close>

theorem shutdown_only_offroad:
  assumes "hw_wf h" "hw_step E i (h, p) = Some (Some out, h', p')" "get_bool ''DoShutdown'' p'" "\<not> get_bool ''DoShutdown'' p"
  shows "\<not> ho_started out \<and> (hw_started_seen h' \<or> 3600 < hi_t_shutdown i) \<and>
    (get_bool ''ForcePowerDown'' p \<or>
     \<not> ignition_now i h \<and> \<not> get_bool ''DisablePowerDown'' p \<and> hw_in_car (entry_state i (h, p)) \<and>
     (\<exists>t. hw_off_ts h' = Some t \<and> 300 < hi_t_shutdown i - t))"
proof -
  define p0 where "p0 = snd (cycle_request i (h, p))"
  let ?e = "entry_state i (h, p)"
  have p0: "get_bool k p0 = get_bool k p" if "k \<noteq> ''OnroadCycleRequested''" for k
    using cycle_request_params [OF that, of i "(h, p)"] by (simp add: get_bool_def p0_def)
  have run: "hw_run E i (?e, p0) = Some (out, h', p')"
    using assms(2) by (auto simp: hw_step_def Let_def entry_state_def case_prod_beta p0_def split: if_splits)
  obtain s h2 p2 h5 where r: "get_bool ''DoShutdown'' p' = get_bool ''DoShutdown'' (snd (update_power i (h5, snd (update_engaged i s (h2, p2)))))"
    "\<And>k. k \<notin> {''Offroad_TiciSupport'', ''Offroad_TemperatureTooHigh''} \<Longrightarrow> get_bool k p2 = get_bool k p0"
    "oc_ignition (hw_onroad h5) = oc_ignition (hw_onroad ?e)" "hw_in_car h5 = hw_in_car ?e" "hw_off_ts h5 = hw_off_ts h'"
    "hw_started_seen h5 = hw_started_seen h'"
    by (rule hw_run_params [OF run], rule that)
  have k: "get_bool k (snd (update_engaged i s (h2, p2))) = get_bool k p"
    if "k \<in> {''DoShutdown'', ''ForcePowerDown'', ''DisablePowerDown''}" for k
    using that r(2) [of k] p0 [of k] by (auto simp: update_engaged_params)
  obtain p3 pm where sd: "should_shutdown (hi_t_shutdown i) (oc_ignition (hw_onroad h5)) (hw_in_car h5) (hw_off_ts h5) (hw_started_seen h5) p3 pm"
    "get_bool ''ForcePowerDown'' p3 = get_bool ''ForcePowerDown'' p" "get_bool ''DisablePowerDown'' p3 = get_bool ''DisablePowerDown'' p"
    using update_power_params [of i h5 "snd (update_engaged i s (h2, p2))"] assms(3,4) r(1) k by auto
  obtain t where t: "hw_off_ts h5 = Some t" "hw_started_seen h5 \<or> 3600 < hi_t_shutdown i"
    "get_bool ''ForcePowerDown'' p3 \<or> \<not> oc_ignition (hw_onroad h5) \<and> hw_in_car h5 \<and> \<not> get_bool ''DisablePowerDown'' p3 \<and>
       300 < hi_t_shutdown i - t"
    using shutdown_conditions [OF sd(1)] by blast
  have "(hw_off_ts h' = None) = (hw_started_ts h' \<noteq> None)" "ho_started out = (hw_started_ts h' \<noteq> None)"
    using run_started [OF assms(1,2)] unfolding run_facts_def by blast+
  then have "\<not> ho_started out" using t(1) r(5) by simp
  moreover have "hw_off_ts h' = Some t" using t(1) r(5) by simp
  ultimately show ?thesis using t(2,3) sd(2,3) unfolding r(3,4,6) entry_ignition by blast
qed

lemma forced_shutdown:
  assumes "get_bool ''ForcePowerDown'' p" "hw_off_ts h \<noteq> None" "3600 < hi_t_shutdown i"
  shows "get_bool ''DoShutdown'' (snd (update_power i (h, p)))"
proof -
  have "should_shutdown (hi_t_shutdown i) ign car (hw_off_ts h) seen p' pm" if "get_bool ''ForcePowerDown'' p'" for ign car seen p' pm
    using assms(2,3) that by (auto simp: should_shutdown_def Let_def MIN_ON_TIME_S_def)
  then show ?thesis using assms(1) by (simp add: update_power_def case_prod_beta Let_def calculate_params)
qed

lemma demo_forced_shutdown:
  "\<exists>out h' p'. hw_step demo_hw_env (demo_hw_input False 50) (demo_hw, put_param ''ForcePowerDown'' (PBool True) demo_hw_store) =
     Some (Some out, h', p') \<and> get_bool ''DoShutdown'' p'"
proof -
  let ?i = "demo_hw_input False 50" and ?p = "put_param ''ForcePowerDown'' (PBool True) demo_hw_store"
  obtain out h' p' where s: "hw_step demo_hw_env ?i (demo_hw, ?p) = Some (Some out, h', p')"
    "run_facts demo_hw_env ?i ?p (entry_state ?i (demo_hw, ?p)) out h'"
    using step_runs [OF demo_hw_wf, of ?i demo_hw_env ?p] by (auto simp: demo_hw_input_fields)
  have "hw_off_ts h' \<noteq> None"
    using s(2) by (simp add: run_facts_def starts_def stays_onroad_def entry_ignition demo_hw_input_fields)
  define p0 where "p0 = snd (cycle_request ?i (demo_hw, ?p))"
  have f: "get_bool ''ForcePowerDown'' p0"
    by (simp add: get_bool_def p0_def cycle_request_params) (simp add: put_param_def)
  have run: "hw_run demo_hw_env ?i (entry_state ?i (demo_hw, ?p), p0) = Some (out, h', p')"
    using s(1) by (auto simp: hw_step_def Let_def entry_state_def case_prod_beta p0_def split: if_splits)
  obtain st h2 p2 h5 where
    "get_bool ''DoShutdown'' p' = get_bool ''DoShutdown'' (snd (update_power ?i (h5, snd (update_engaged ?i st (h2, p2)))))"
    "\<And>k. k \<notin> {''Offroad_TiciSupport'', ''Offroad_TemperatureTooHigh''} \<Longrightarrow> get_bool k p2 = get_bool k p0" "hw_off_ts h5 = hw_off_ts h'"
    by (rule hw_run_params [OF run], rule that)
  then have d: "get_bool ''DoShutdown'' p'"
    using forced_shutdown [of "snd (update_engaged ?i st (h2, p2))" h5 ?i] f \<open>hw_off_ts h' \<noteq> None\<close>
    by (simp add: update_engaged_params demo_hw_input_fields)
  with s(1) show ?thesis by blast
qed

theorem shutdown_only_offroad_witness:
  "\<exists>out h' p'. hw_step demo_hw_env (demo_hw_input False 50) (demo_hw, put_param ''ForcePowerDown'' (PBool True) demo_hw_store) =
     Some (Some out, h', p') \<and> get_bool ''DoShutdown'' p' \<and> \<not> ho_started out"
proof -
  obtain out h' p' where s: "hw_step demo_hw_env (demo_hw_input False 50) (demo_hw, put_param ''ForcePowerDown'' (PBool True) demo_hw_store) =
      Some (Some out, h', p')" "get_bool ''DoShutdown'' p'" using demo_forced_shutdown by blast
  have "\<not> get_bool ''DoShutdown'' (put_param ''ForcePowerDown'' (PBool True) demo_hw_store)"
    by simp (simp add: get_bool_def demo_hw_store_def)
  from shutdown_only_offroad [OF demo_hw_wf s this] s show ?thesis by blast
qed

section \<open>The engagement flag\<close>

text \<open>When the device goes offroad in an iteration that has a new \<open>selfdriveState\<close> with openpilot
  enabled (a critical temperature while engaged), the parameter \<open>IsEngaged\<close>, which the change of the
  start decision clears, is set again in the same iteration: the device is offroad with the flag true.\<close>

theorem engaged_flag_left_behind:
  assumes "hw_wf h" "hw_step E i (h, p) = Some (Some out, h', p')" "hw_should_start_prev h" "\<not> ho_started out"
    "hi_selfdriveState i = Some True"
  shows "get_bool ''IsEngaged'' p'"
proof -
  define p0 where "p0 = snd (cycle_request i (h, p))"
  have run: "hw_run E i (entry_state i (h, p), p0) = Some (out, h', p')"
    using assms(2) by (auto simp: hw_step_def Let_def entry_state_def case_prod_beta p0_def split: if_splits)
  obtain s h2 p2 where "get_bool ''IsEngaged'' p' = get_bool ''IsEngaged'' (snd (update_engaged i s (h2, p2)))"
    "hw_should_start_prev h2 = hw_should_start_prev (entry_state i (h, p))" "(hw_started_ts h' \<noteq> None) = s"
    by (rule hw_run_params [OF run], rule that)
  moreover have "hw_started_ts h' = None" using run_started [OF assms(1,2)] assms(4) by (simp add: run_facts_def)
  ultimately show ?thesis using assms(3,5) by (simp add: update_engaged_def Let_def entry_state_fields)
qed

theorem engaged_flag_left_behind_witness:
  "\<exists>out h' p'. hw_step demo_hw_env (demo_hw_input False 50) (demo_hw\<lparr>hw_started_ts := Some 1, hw_should_start_prev := True\<rparr>, demo_hw_store) =
     Some (Some out, h', p') \<and> \<not> ho_started out \<and> get_bool ''IsEngaged'' p'"
proof -
  let ?i = "demo_hw_input False 50" and ?h = "demo_hw\<lparr>hw_started_ts := Some 1, hw_should_start_prev := True\<rparr>"
  have wf: "hw_wf ?h" using demo_hw_wf by (simp add: hw_wf_def)
  obtain out h' p' where s: "hw_step demo_hw_env ?i (?h, demo_hw_store) = Some (Some out, h', p')"
    "run_facts demo_hw_env ?i demo_hw_store (entry_state ?i (?h, demo_hw_store)) out h'"
    using step_runs [OF wf, of ?i demo_hw_env demo_hw_store] by (auto simp: demo_hw_input_fields)
  have off: "\<not> ho_started out"
    using s(2) by (simp add: run_facts_def starts_def stays_onroad_def entry_ignition demo_hw_input_fields)
  from engaged_flag_left_behind [OF wf s(1) _ off] off s(1) show ?thesis by (auto simp: demo_hw_input_fields)
qed


end
