(* ===== verification/ManagerProc.thy ===== *)
theory ManagerProc
  imports Hardwared
begin

text \<open>
  \<open>system/manager\<close>: \<open>process.py\<close> (starting and stopping one process), \<open>process_config.py\<close> (which process
  runs when) and \<open>map_params.py\<close> (the targets kept in memory).  A child
  process is its pid and, once it has ended, its exit code; children end between the operations or while
  one waits for them, which is an input.  What is done to the system is a list of events.
\<close>

section \<open>Processes\<close>

record os_proc =
  op_pid :: int
  op_exitcode :: "int option"

datatype psignal = SIGINT | SIGKILL | SIGTERM

datatype pevent = Sent string psignal | Spawned string int

text \<open>What the system answers in one round: whether the process ends within the 5 s of \<open>join_process\<close> and
  with which code, the code \<open>SIGKILL\<close> gives it, the pid of a new one, and whether the pid a daemon left
  in its parameter still runs it.\<close>

record proc_input =
  pi_join :: "int option"
  pi_killed :: int
  pi_pid :: int
  pi_daemon_running :: bool

text \<open>What the conditions of \<open>process_config\<close> read beside the parameters.\<close>

record run_env =
  re_notCar :: bool
  re_ublox_available :: bool

type_synonym should_run = "run_env \<Rightarrow> bool \<Rightarrow> params \<Rightarrow> bool \<times> params"

datatype proc_kind = NativeProcess | PythonProcess | DaemonProcess string

record mproc =
  mp_name :: string
  mp_kind :: proc_kind
  mp_should_run :: should_run
  mp_enabled :: bool
  mp_sigkill :: bool
  mp_proc :: "os_proc option"
  mp_shutting_down :: bool

definition exited :: "os_proc option \<Rightarrow> bool" where
  "exited q \<longleftrightarrow> (\<exists>o1 \<in> set_option q. op_exitcode o1 \<noteq> None)"

definition is_alive :: "os_proc option \<Rightarrow> bool" where
  "is_alive q \<longleftrightarrow> (\<exists>o1 \<in> set_option q. op_exitcode o1 = None)"

definition signal_proc :: "psignal \<Rightarrow> mproc \<Rightarrow> pevent list" where
  "signal_proc sig p = (if mp_proc p = None \<or> exited (mp_proc p) then [] else [Sent (mp_name p) sig])"

definition join_process :: "proc_input \<Rightarrow> mproc \<Rightarrow> mproc" where
  "join_process pin p =
     p\<lparr>mp_proc := map_option (\<lambda>q. if op_exitcode q = None then q\<lparr>op_exitcode := pi_join pin\<rparr> else q) (mp_proc p)\<rparr>"

text \<open>The end of \<open>stop\<close>: the exit code, and the process forgotten once it has one.\<close>

definition reap :: "mproc \<Rightarrow> int option \<times> mproc" where
  "reap p =
     (let ret = Option.bind (mp_proc p) op_exitcode
      in (ret, if ret \<noteq> None then p\<lparr>mp_shutting_down := False, mp_proc := None\<rparr> else p))"

definition kill_now :: "proc_input \<Rightarrow> mproc \<Rightarrow> mproc" where
  "kill_now pin p = p\<lparr>mp_proc := map_option (\<lambda>q. q\<lparr>op_exitcode := Some (pi_killed pin)\<rparr>) (mp_proc p)\<rparr>"

definition stop :: "bool \<Rightarrow> bool \<Rightarrow> psignal option \<Rightarrow> proc_input \<Rightarrow> mproc \<Rightarrow> int option \<times> pevent list \<times> mproc" where
  "stop retry block sig pin p =
     (case mp_kind p of
        DaemonProcess _ \<Rightarrow> (None, [], p)
      | _ \<Rightarrow>
          if mp_proc p = None then (None, [], p)
          else if is_alive (mp_proc p) then
            (let first = \<not> mp_shutting_down p;
                 ev = (if first then signal_proc (case sig of None \<Rightarrow> if mp_sigkill p then SIGKILL else SIGINT | Some s \<Rightarrow> s) p else []);
                 p1 = (if first then p\<lparr>mp_shutting_down := True\<rparr> else p)
             in if first \<and> \<not> block then (None, ev, p1)
                else
                  (let p2 = join_process pin p1
                   in if is_alive (mp_proc p2) \<and> retry
                      then (let (ret, p3) = reap (kill_now pin p2) in (ret, ev @ signal_proc SIGKILL p2, p3))
                      else (let (ret, p3) = reap p2 in (ret, ev, p3))))
          else (let (ret, p1) = reap p in (ret, [], p1)))"

definition start_child :: "proc_input \<Rightarrow> mproc \<Rightarrow> pevent list \<times> mproc" where
  "start_child pin p =
     (let (ev, p1) = (if mp_shutting_down p then (let (_, ev, q) = stop True True None pin p in (ev, q)) else ([], p))
      in if is_alive (mp_proc p1) then (ev, p1)
         else (ev @ [Spawned (mp_name p1) (pi_pid pin)],
               p1\<lparr>mp_proc := Some \<lparr>op_pid = pi_pid pin, op_exitcode = None\<rparr>, mp_shutting_down := False\<rparr>))"

text \<open>A daemon keeps its pid in a parameter and outlives the manager.\<close>

definition start_daemon :: "string \<Rightarrow> proc_input \<Rightarrow> mproc \<Rightarrow> params \<Rightarrow> pevent list \<times> params" where
  "start_daemon param_name pin p params =
     (if pr_values params param_name \<noteq> None \<and> pi_daemon_running pin then ([], params)
      else ([Spawned (mp_name p) (pi_pid pin)], put_param param_name (PInt (pi_pid pin)) params))"

definition start :: "proc_input \<Rightarrow> mproc \<times> params \<Rightarrow> pevent list \<times> mproc \<times> params" where
  "start pin = (\<lambda>(p, params).
     case mp_kind p of
       DaemonProcess param_name \<Rightarrow> (let (ev, params) = start_daemon param_name pin p params in (ev, p, params))
     | _ \<Rightarrow> (let (ev, p) = start_child pin p in (ev, p, params)))"

record managed_state =
  st_name :: string
  st_running :: bool
  st_shouldBeRunning :: bool
  st_pid :: int
  st_exitCode :: int

definition get_process_state_msg :: "mproc \<Rightarrow> managed_state" where
  "get_process_state_msg p =
     (case mp_proc p of
        None \<Rightarrow> \<lparr>st_name = mp_name p, st_running = False, st_shouldBeRunning = False, st_pid = 0, st_exitCode = 0\<rparr>
      | Some q \<Rightarrow> \<lparr>st_name = mp_name p, st_running = is_alive (Some q), st_shouldBeRunning = (\<not> mp_shutting_down p),
          st_pid = op_pid q, st_exitCode = (case op_exitcode q of None \<Rightarrow> 0 | Some c \<Rightarrow> c)\<rparr>)"

text \<open>\<open>ensure_running\<close>: first every process is looked at in order, and those that shall not run are
  stopped without blocking; then the others are started.\<close>

fun select_running :: "run_env \<Rightarrow> bool \<Rightarrow> string list \<Rightarrow> (string \<Rightarrow> proc_input) \<Rightarrow> mproc list \<Rightarrow> params
    \<Rightarrow> pevent list \<times> (bool \<times> mproc) list \<times> params" where
  "select_running R started not_run pin [] params = ([], [], params)"
| "select_running R started not_run pin (p # ps) params =
     (let (wanted, params1) =
            (if mp_enabled p \<and> mp_name p \<notin> set not_run then mp_should_run p R started params else (False, params));
          (ev, p1) = (if wanted then ([], p) else (let (_, ev, q) = stop True False None (pin (mp_name p)) p in (ev, q)));
          (evs, rest, params2) = select_running R started not_run pin ps params1
      in (ev @ evs, (wanted, p1) # rest, params2))"

fun start_selected :: "(string \<Rightarrow> proc_input) \<Rightarrow> (bool \<times> mproc) list \<Rightarrow> params \<Rightarrow> pevent list \<times> mproc list \<times> params" where
  "start_selected pin [] params = ([], [], params)"
| "start_selected pin ((wanted, p) # ps) params =
     (let (ev, p1, params1) = (if wanted then start (pin (mp_name p)) (p, params) else ([], p, params));
          (evs, rest, params2) = start_selected pin ps params1
      in (ev @ evs, p1 # rest, params2))"

definition ensure_running :: "run_env \<Rightarrow> bool \<Rightarrow> string list \<Rightarrow> (string \<Rightarrow> proc_input) \<Rightarrow> mproc list \<times> params
    \<Rightarrow> pevent list \<times> mproc list \<times> params" where
  "ensure_running R started not_run pin = (\<lambda>(ps, params).
     let (ev1, selected, params1) = select_running R started not_run pin ps params;
         (ev2, ps1, params2) = start_selected pin selected params1
     in (ev1 @ ev2, ps1, params2))"

section \<open>Which process runs when\<close>

definition soundd_run :: should_run where
  "soundd_run R started p = (started \<or> get_bool ''BluetoothAudioTestActive'' p, p)"

definition bluetooth_enabled :: should_run where
  "bluetooth_enabled R started p = (get_bool ''BluetoothEnabled'' p, p)"

definition iscar :: should_run where
  "iscar R started p = (started \<and> \<not> re_notCar R, p)"

definition logging_run :: should_run where
  "logging_run R started p = (started \<and> (\<not> re_notCar R \<or> \<not> get_bool ''DisableLogging'' p), p)"

definition ublox :: should_run where
  "ublox R started p =
     (started \<and> re_ublox_available R,
      if re_ublox_available R \<noteq> get_bool ''UbloxAvailable'' p
      then put_param ''UbloxAvailable'' (PBool (re_ublox_available R)) p else p)"

definition qcomgps :: should_run where
  "qcomgps R started p = (started \<and> \<not> re_ublox_available R, p)"

definition always_run :: should_run where
  "always_run R started p = (True, p)"

definition only_onroad :: should_run where
  "only_onroad R started p = (started, p)"

definition only_offroad :: should_run where
  "only_offroad R started p = (\<not> started, p)"

definition use_copyparty :: should_run where
  "use_copyparty R started p = (get_bool ''EnableCopyparty'' p, p)"

definition lanlink_run :: should_run where
  "lanlink_run R started p = (get_bool ''LanLinkEnabled'' p, p)"

definition pandad_run :: should_run where
  "pandad_run R started p = (\<not> (get_bool ''LanLinkDiagMode'' p \<and> fst (lanlink_run R started p)), p)"

definition bigmodeld_run :: should_run where
  "bigmodeld_run R started p = (started \<and> get_bool ''BigmodelToggle'' p, p)"

text \<open>\<open>or_\<close> and \<open>and_\<close> take exactly two functions: \<open>operator.or_\<close> has two arguments.\<close>

definition or_run :: "should_run \<Rightarrow> should_run \<Rightarrow> should_run" where
  "or_run f g R started p = (let (a, p1) = f R started p; (b, p2) = g R started p1 in (a \<or> b, p2))"

definition and_run :: "should_run \<Rightarrow> should_run \<Rightarrow> should_run" where
  "and_run f g R started p = (let (a, p1) = f R started p; (b, p2) = g R started p1 in (a \<and> b, p2))"

definition native :: "string \<Rightarrow> should_run \<Rightarrow> bool \<Rightarrow> mproc" where
  "native name cond enabled = \<lparr>mp_name = name, mp_kind = NativeProcess, mp_should_run = cond, mp_enabled = enabled,
     mp_sigkill = False, mp_proc = None, mp_shutting_down = False\<rparr>"

definition python :: "string \<Rightarrow> should_run \<Rightarrow> bool \<Rightarrow> mproc" where
  "python name cond enabled = \<lparr>mp_name = name, mp_kind = PythonProcess, mp_should_run = cond, mp_enabled = enabled,
     mp_sigkill = False, mp_proc = None, mp_shutting_down = False\<rparr>"

definition procs :: "bool \<Rightarrow> bool \<Rightarrow> bool \<Rightarrow> bool \<Rightarrow> mproc list" where
  "procs PC COMMA_HARDWARE Darwin copyparty_installed =
    [native ''loggerd'' logging_run True,
     python ''logmessaged'' always_run True,
     python ''lanlinkd'' lanlink_run True,
     native ''camerad'' only_onroad True,
     python ''proclogd'' only_onroad (\<not> Darwin),
     python ''journald'' only_onroad (\<not> Darwin),
     python ''micd'' iscar True,
     python ''timed'' always_run (\<not> PC),
     python ''modeld'' only_onroad True,
     native ''bigmodeld'' bigmodeld_run True,
     python ''sensord'' only_onroad (\<not> PC),
     python ''ui'' always_run True,
     python ''soundd'' soundd_run True,
     python ''bluetooth_managerd'' bluetooth_enabled COMMA_HARDWARE,
     python ''locationd'' only_onroad True,
     native ''_pandad'' pandad_run False,
     python ''calibrationd'' only_onroad True,
     python ''torqued'' only_onroad True,
     python ''controlsd'' iscar True,
     python ''selfdrived'' only_onroad True,
     python ''card'' only_onroad True,
     python ''deleter'' always_run True,
     python ''qcomgpsd'' qcomgps COMMA_HARDWARE,
     python ''pandad'' pandad_run True,
     python ''paramsd'' only_onroad True,
     python ''lagd'' only_onroad True,
     python ''ubloxd'' ublox COMMA_HARDWARE,
     python ''pigeond'' ublox COMMA_HARDWARE,
     python ''plannerd'' only_onroad True,
     python ''radard'' only_onroad True,
     python ''hardwared'' always_run True,
     python ''modem'' always_run COMMA_HARDWARE,
     python ''tombstoned'' always_run (\<not> PC),
     python ''updated'' only_offroad (\<not> PC),
     native ''locationd_llk'' only_onroad True]
    @ (if copyparty_installed then [native ''copyparty-sfx'' (and_run only_offroad use_copyparty) True] else [])"

section \<open>Clearing parameters\<close>

datatype param_flag = PERSISTENT | CLEAR_ON_MANAGER_START | CLEAR_ON_ONROAD_TRANSITION | CLEAR_ON_OFFROAD_TRANSITION
  | DEVELOPMENT_ONLY | CLEAR_ON_IGNITION_ON | BACKUP

text \<open>The flags of every known key (\<open>params_keys.h\<close>); \<open>clear_all\<close> also removes keys that are not known.\<close>

type_synonym key_flags = "string \<Rightarrow> param_flag set option"

definition clear_all :: "key_flags \<Rightarrow> param_flag \<Rightarrow> params \<Rightarrow> params" where
  "clear_all flags flag p =
     p\<lparr>pr_values := (\<lambda>k. case flags k of None \<Rightarrow> None | Some fs \<Rightarrow> if flag \<in> fs then None else pr_values p k)\<rparr>"

definition MAP_TARGET_KEYS :: "string list" where
  "MAP_TARGET_KEYS = [''MapTargetVelocities'']"

definition remove_map_targets :: "params option \<Rightarrow> params option" where
  "remove_map_targets mem = map_option (fold remove_param MAP_TARGET_KEYS) mem"

definition clear_map_params :: "key_flags \<Rightarrow> param_flag \<Rightarrow> params option \<Rightarrow> params option" where
  "clear_map_params flags flag mem = remove_map_targets (map_option (clear_all flags flag) mem)"

definition remove_map_targets_if_writer_gone :: "bool \<Rightarrow> bool \<Rightarrow> params option \<Rightarrow> params option" where
  "remove_map_targets_if_writer_gone started writer_running mem =
     (if started \<and> \<not> writer_running then remove_map_targets mem else mem)"

end
