(* ===== verification/Manager.thy ===== *)
theory Manager
  imports ManagerProc
begin

text \<open>
  \<open>system/manager/manager.py\<close>: start-up, supervision loop, clean-up and what follows it;
  \<open>quick_boot.py\<close>; and the migrations of \<open>sunnypilot/system/params_migration.py\<close> that need no car data
  (the others are a parameter of the model).
\<close>

section \<open>Start-up\<close>

text \<open>A native artifact as \<open>quick_boot.py\<close> finds it.\<close>

datatype artifact = Missing | Unreadable | Content string

definition QUICK_BOOT_NATIVE_ARTIFACTS :: "string list" where
  "QUICK_BOOT_NATIVE_ARTIFACTS =
     [''openpilot/selfdrive/pandad/pandad'', ''openpilot/system/loggerd/loggerd'', ''openpilot/system/camerad/camerad'',
      ''openpilot/sunnypilot/selfdrive/locationd/locationd'', ''openpilot/common/libparams_c.so'']"

definition PC_PATH_MARKER :: string where "PC_PATH_MARKER = ''/.comma''"

datatype unfit = Missing_artifact string | Cross_built_artifact string | Unreadable_artifact string

fun unfit_artifact :: "(string \<Rightarrow> artifact) \<Rightarrow> string list \<Rightarrow> unfit option" where
  "unfit_artifact fs [] = None"
| "unfit_artifact fs (rel # rels) =
     (case fs rel of
        Missing \<Rightarrow> Some (Missing_artifact rel)
      | Unreadable \<Rightarrow> Some (Unreadable_artifact rel)
      | Content s \<Rightarrow> if py_contains PC_PATH_MARKER s then Some (Cross_built_artifact rel) else unfit_artifact fs rels)"

definition native_artifacts_unfit_for_quick_boot :: "(string \<Rightarrow> artifact) \<Rightarrow> unfit option" where
  "native_artifacts_unfit_for_quick_boot fs = unfit_artifact fs QUICK_BOOT_NATIVE_ARTIFACTS"

definition ONROAD_BRIGHTNESS_MIGRATION_VERSION :: string where "ONROAD_BRIGHTNESS_MIGRATION_VERSION = ''1.0''"
definition ONROAD_BRIGHTNESS_TIMER_MIGRATION_VERSION :: string where "ONROAD_BRIGHTNESS_TIMER_MIGRATION_VERSION = ''1.0''"

definition VALID_TIMER_VALUES :: "int list" where
  "VALID_TIMER_VALUES = [3, 5, 7, 10, 15, 30] @ map (\<lambda>i. (i - 5) * 60) [6..15]"

text \<open>A value that is missing or no number raises, which is caught: nothing is written.\<close>

definition migrate_brightness :: "params \<Rightarrow> params" where
  "migrate_brightness p =
     (if pr_values p ''OnroadScreenOffBrightnessMigrated'' = Some (PStr ONROAD_BRIGHTNESS_MIGRATION_VERSION) then p
      else case get_int ''OnroadScreenOffBrightness'' p of
             None \<Rightarrow> p
           | Some val \<Rightarrow>
               put_param ''OnroadScreenOffBrightnessMigrated'' (PStr ONROAD_BRIGHTNESS_MIGRATION_VERSION)
                 (if 2 \<le> val then put_param ''OnroadScreenOffBrightness'' (PInt (val + 1)) p else p))"

text \<open>Here a missing value is not in the set either, so the default of 15 s is written.\<close>

definition migrate_timer :: "params \<Rightarrow> params" where
  "migrate_timer p =
     (if pr_values p ''OnroadScreenOffTimerMigrated'' = Some (PStr ONROAD_BRIGHTNESS_TIMER_MIGRATION_VERSION) then p
      else put_param ''OnroadScreenOffTimerMigrated'' (PStr ONROAD_BRIGHTNESS_TIMER_MIGRATION_VERSION)
        (case get_int ''OnroadScreenOffTimer'' p of
           Some val \<Rightarrow> if val \<in> set VALID_TIMER_VALUES then p else put_param ''OnroadScreenOffTimer'' (PInt 15) p
         | None \<Rightarrow> put_param ''OnroadScreenOffTimer'' (PInt 15) p))"

definition run_migration :: "(params \<Rightarrow> params) \<Rightarrow> params \<Rightarrow> params" where
  "run_migration migrate_car p = migrate_car (migrate_timer (migrate_brightness (remove_param ''DynamicExperimentalControl'' p)))"

fun set_defaults :: "string list \<Rightarrow> params \<Rightarrow> params" where
  "set_defaults [] p = p"
| "set_defaults (k # ks) p =
     set_defaults ks (case (pr_defaults p k, pr_values p k) of (Some v, None) \<Rightarrow> put_param k v p | _ \<Rightarrow> p)"

record build_metadata =
  bm_version :: string
  bm_git_commit :: string
  bm_git_commit_date :: string
  bm_channel :: string
  bm_git_origin :: string
  bm_development_channel :: bool
  bm_tested_channel :: bool
  bm_release_channel :: bool
  bm_release_sp_channel :: bool

definition set_build_params :: "build_metadata \<Rightarrow> string \<Rightarrow> params \<Rightarrow> params" where
  "set_build_params b serial p =
     fold (\<lambda>(k, v). put_param k v)
       [(''Version'', PStr (bm_version b)), (''GitCommit'', PStr (bm_git_commit b)), (''GitCommitDate'', PStr (bm_git_commit_date b)),
        (''GitBranch'', PStr (bm_channel b)), (''GitRemote'', PStr (bm_git_origin b)),
        (''IsDevelopmentBranch'', PBool (bm_development_channel b)), (''IsTestedBranch'', PBool (bm_tested_channel b)),
        (''IsReleaseBranch'', PBool (bm_release_channel b)), (''IsReleaseSpBranch'', PBool (bm_release_sp_channel b)),
        (''HardwareSerial'', PStr serial)] p"

record init_env =
  ie_flags :: key_flags
  ie_all_keys :: "string list"
  ie_PC :: bool
  ie_artifacts :: "string \<Rightarrow> artifact"
  ie_migrate_car :: "params \<Rightarrow> params"
  ie_build :: build_metadata
  ie_serial :: string

text \<open>The second component is whether the file \<open>prebuilt\<close> exists.\<close>

definition quick_boot :: "init_env \<Rightarrow> params \<Rightarrow> bool \<Rightarrow> bool" where
  "quick_boot I p prebuilt \<longleftrightarrow>
     prebuilt \<or> get_bool ''QuickBootToggle'' p \<and> \<not> ie_PC I \<and> native_artifacts_unfit_for_quick_boot (ie_artifacts I) = None"

definition manager_init :: "init_env \<Rightarrow> params \<times> bool \<Rightarrow> params \<times> bool" where
  "manager_init I = (\<lambda>(p, prebuilt).
     let p = fold (clear_all (ie_flags I))
               [CLEAR_ON_MANAGER_START, CLEAR_ON_ONROAD_TRANSITION, CLEAR_ON_OFFROAD_TRANSITION, CLEAR_ON_IGNITION_ON] p;
         p = (if Option.bind (pr_values p ''DeviceBootMode'') as_int = Some 1 then put_param ''OffroadMode'' (PBool True) p else p);
         prebuilt = quick_boot I p prebuilt;
         p = (if ie_PC I then p else run_migration (ie_migrate_car I) p);
         p = set_defaults (ie_all_keys I) p
     in (set_build_params (ie_build I) (ie_serial I) p, prebuilt))"

section \<open>The supervision loop\<close>

record manager =
  mg_procs :: "mproc list"
  mg_started_prev :: bool
  mg_ignition_prev :: bool

record manager_input =
  mi_started :: bool
  mi_pandaStates :: "hw_panda list"
  mi_run :: run_env
  mi_proc :: "string \<Rightarrow> proc_input"
  mi_all_checks :: bool
  mi_now :: string

record manager_output =
  mo_events :: "pevent list"
  mo_processes :: "managed_state list"
  mo_watchdog :: bool
  mo_shutdown :: bool

type_synonym param_stores = "params \<times> params option"

text \<open>The first part of a round: the transitions clear parameters, in both stores.\<close>

definition manager_transitions :: "key_flags \<Rightarrow> manager_input \<Rightarrow> manager \<Rightarrow> param_stores \<Rightarrow> param_stores" where
  "manager_transitions flags i m = (\<lambda>(p, mem).
     let started = mi_started i; started_prev = mg_started_prev m;
         (p, mem) = (if started \<and> \<not> started_prev
                     then (clear_all flags CLEAR_ON_ONROAD_TRANSITION p, clear_map_params flags CLEAR_ON_ONROAD_TRANSITION mem)
                     else if \<not> started \<and> started_prev
                     then (clear_all flags CLEAR_ON_OFFROAD_TRANSITION p, clear_map_params flags CLEAR_ON_OFFROAD_TRANSITION mem)
                     else (p, mem));
         p = (if panda_ignition (mi_pandaStates i) \<and> \<not> mg_ignition_prev m then clear_all flags CLEAR_ON_IGNITION_ON p else p)
     in (if started \<noteq> started_prev then put_param ''IsOffroad'' (PBool (\<not> started)) p else p, mem))"

text \<open>The requests that end the loop, in the order they are looked at.\<close>

definition exit_requests :: "string list" where
  "exit_requests = [''DoUninstall'', ''DoShutdown'', ''DoReboot'']"

definition note_exit :: "string \<Rightarrow> params \<Rightarrow> params" where
  "note_exit now p =
     fold (\<lambda>k p. if get_bool k p then put_param ''LastManagerExitReason'' (PStr (k @ '' '' @ now)) p else p) exit_requests p"

definition writer_running :: "mproc \<Rightarrow> bool" where
  "writer_running p \<longleftrightarrow> is_alive (mp_proc p) \<and> \<not> mp_shutting_down p"

definition manager_round :: "key_flags \<Rightarrow> string list \<Rightarrow> manager_input \<Rightarrow> manager \<times> param_stores
    \<Rightarrow> (manager_output \<times> manager \<times> param_stores) option" where
  "manager_round flags ignored i = (\<lambda>(m, s).
     let (p, mem) = manager_transitions flags i m s;
         (ev, ps, p) = ensure_running (mi_run i) (mi_started i) ignored (mi_proc i) (mg_procs m, p)
     in case find (\<lambda>q. mp_name q = ''bigmodeld'') ps of
          None \<Rightarrow> None
        | Some bigmodeld \<Rightarrow>
            let mem = remove_map_targets_if_writer_gone (mi_started i) (writer_running bigmodeld) mem
            in Some (\<lparr>mo_events = ev, mo_processes = map get_process_state_msg ps, mo_watchdog = mi_all_checks i,
                      mo_shutdown = list_ex (\<lambda>k. get_bool k p) exit_requests\<rparr>,
                     \<lparr>mg_procs = ps, mg_started_prev = mi_started i, mg_ignition_prev = panda_ignition (mi_pandaStates i)\<rparr>,
                     note_exit (mi_now i) p, mem))"

text \<open>Between two rounds children may end by themselves and other processes may write the stores.\<close>

definition child_exits :: "string \<Rightarrow> int \<Rightarrow> mproc list \<Rightarrow> mproc list" where
  "child_exits name code =
     map (\<lambda>p. if mp_name p = name \<and> is_alive (mp_proc p)
              then p\<lparr>mp_proc := map_option (\<lambda>q. q\<lparr>op_exitcode := Some code\<rparr>) (mp_proc p)\<rparr> else p)"

record gap =
  gp_exits :: "(string \<times> int) list"
  gp_params :: params
  gp_mem_params :: "params option"

definition apply_gap :: "gap \<Rightarrow> manager \<Rightarrow> manager \<times> param_stores" where
  "apply_gap g m = (m\<lparr>mg_procs := fold (\<lambda>(n, c). child_exits n c) (gp_exits g) (mg_procs m)\<rparr>, (gp_params g, gp_mem_params g))"

text \<open>The loop ends with the first round that finds a request; the list of inputs is as long as the run.\<close>

fun manager_rounds :: "key_flags \<Rightarrow> string list \<Rightarrow> (gap \<times> manager_input) list \<Rightarrow> manager \<Rightarrow> param_stores
    \<Rightarrow> (manager_output list \<times> manager \<times> param_stores) option" where
  "manager_rounds flags ignored [] m s = Some ([], m, s)"
| "manager_rounds flags ignored ((g, i) # gis) m s =
     do { (out, m1, s1) \<leftarrow> manager_round flags ignored i (apply_gap g m);
          if mo_shutdown out then Some ([out], m1, s1)
          else do { (outs, m2, s2) \<leftarrow> manager_rounds flags ignored gis m1 s1; Some (out # outs, m2, s2) } }"

definition manager_start :: "run_env \<Rightarrow> string list \<Rightarrow> (string \<Rightarrow> proc_input) \<Rightarrow> mproc list \<Rightarrow> params \<Rightarrow> pevent list \<times> manager \<times> params" where
  "manager_start R ignored pin ps p =
     (let (ev, ps1, p1) = ensure_running R False ignored pin (ps, put_param ''IsOffroad'' (PBool True) p)
      in (ev, \<lparr>mg_procs = ps1, mg_started_prev = False, mg_ignition_prev = False\<rparr>, p1))"

section \<open>Clean-up and power\<close>

fun stop_all :: "bool \<Rightarrow> (string \<Rightarrow> proc_input) \<Rightarrow> mproc list \<Rightarrow> pevent list \<times> mproc list" where
  "stop_all block pin [] = ([], [])"
| "stop_all block pin (p # ps) =
     (let (_, ev, p1) = stop True block None (pin (mp_name p)) p; (evs, rest) = stop_all block pin ps in (ev @ evs, p1 # rest))"

definition manager_cleanup :: "(string \<Rightarrow> proc_input) \<Rightarrow> (string \<Rightarrow> proc_input) \<Rightarrow> mproc list \<Rightarrow> pevent list \<times> mproc list" where
  "manager_cleanup pin1 pin2 ps =
     (let (ev1, ps1) = stop_all False pin1 ps; (ev2, ps2) = stop_all True pin2 ps1 in (ev1 @ ev2, ps2))"

datatype power_action = Uninstall | Reboot | Shutdown

definition final_action :: "params \<Rightarrow> power_action option" where
  "final_action p =
     (if get_bool ''DoUninstall'' p then Some Uninstall
      else if get_bool ''DoReboot'' p then Some Reboot
      else if get_bool ''DoShutdown'' p then Some Shutdown else None)"

end
