(* ===== verification/ManagerFacts.thy ===== *)
theory ManagerFacts
  imports Manager
begin

text \<open>
  Facts about single processes and about a round of \<open>ensure_running\<close>: which process it leaves running,
  stopping or gone, and that nothing touches a process that runs and shall run.
\<close>

section \<open>One process\<close>

definition child_wf :: "mproc \<Rightarrow> bool" where
  "child_wf p \<longleftrightarrow> (\<forall>d. mp_kind p \<noteq> DaemonProcess d) \<and> (mp_shutting_down p \<longrightarrow> mp_proc p \<noteq> None)"

definition running :: "mproc \<Rightarrow> bool" where
  "running p \<longleftrightarrow> is_alive (mp_proc p) \<and> \<not> mp_shutting_down p"

definition stopping :: "mproc \<Rightarrow> bool" where
  "stopping p \<longleftrightarrow> is_alive (mp_proc p) \<and> mp_shutting_down p"

text \<open>What the table says of a process, without its state.\<close>

definition static :: "mproc \<Rightarrow> mproc" where
  "static p = p\<lparr>mp_proc := None, mp_shutting_down := False\<rparr>"

lemma static_fields [simp]:
  "mp_name (static p) = mp_name p" "mp_kind (static p) = mp_kind p" "mp_should_run (static p) = mp_should_run p"
  "mp_enabled (static p) = mp_enabled p" "mp_sigkill (static p) = mp_sigkill p" "mp_proc (static p) = None"
  by (simp_all add: static_def)

lemma static_eqD:
  assumes "static p = static q"
  shows "mp_name p = mp_name q" "mp_kind p = mp_kind q" "mp_should_run p = mp_should_run q" "mp_enabled p = mp_enabled q"
  using assms by (metis static_fields)+

lemma alive_exited: "q \<noteq> None \<Longrightarrow> is_alive q \<longleftrightarrow> \<not> exited q"
  by (auto simp: is_alive_def exited_def)

lemma is_alive_Some [simp]: "is_alive (Some q) \<longleftrightarrow> op_exitcode q = None" "\<not> is_alive None"
  by (simp_all add: is_alive_def)

lemma stop_child:
  assumes "child_wf p"
  shows "static (snd (snd (stop True block sig pin p))) = static p \<and> child_wf (snd (snd (stop True block sig pin p))) \<and>
    (if \<not> block \<and> running p then stopping (snd (snd (stop True block sig pin p))) \<and>
         mp_proc (snd (snd (stop True block sig pin p))) = mp_proc p
     else mp_proc (snd (snd (stop True block sig pin p))) = None)"
proof (cases "mp_kind p")
  case (DaemonProcess d)
  then show ?thesis using assms by (simp add: child_wf_def)
qed (cases "mp_proc p"; cases "mp_shutting_down p"; cases block; cases "pi_join pin"; use assms in
  \<open>auto simp: stop_def child_wf_def static_def running_def stopping_def reap_def kill_now_def join_process_def Let_def\<close>)+

lemma start_child_running:
  assumes "child_wf p"
  shows "static (snd (start_child pin p)) = static p \<and> child_wf (snd (start_child pin p)) \<and> running (snd (start_child pin p))"
proof (cases "mp_shutting_down p")
  case True
  have "\<not> running p" using True by (simp add: running_def)
  then show ?thesis using stop_child [OF assms, of True None pin] True
    by (auto simp: start_child_def Let_def case_prod_beta running_def child_wf_def static_def)
next
  case False
  then show ?thesis using assms by (auto simp: start_child_def Let_def running_def child_wf_def static_def)
qed

lemma start_child_undisturbed: "running p \<Longrightarrow> start_child pin p = ([], p)"
  by (simp add: start_child_def running_def)

lemma start_eq:
  "child_wf p \<Longrightarrow> start pin (p, params) = (fst (start_child pin p), snd (start_child pin p), params)"
  by (cases "mp_kind p") (auto simp: start_def child_wf_def case_prod_beta)

section \<open>A round\<close>

definition wanted :: "run_env \<Rightarrow> bool \<Rightarrow> string list \<Rightarrow> params \<Rightarrow> mproc \<Rightarrow> bool" where
  "wanted R started ignored params p \<longleftrightarrow>
     mp_enabled p \<and> mp_name p \<notin> set ignored \<and> fst (mp_should_run p R started params)"

text \<open>A condition that does not depend on what conditions write, and writes nothing else.\<close>

definition cond_ok :: "should_run \<Rightarrow> bool" where
  "cond_ok f \<longleftrightarrow> (\<forall>R started p b. fst (f R started (put_param ''UbloxAvailable'' (PBool b) p)) = fst (f R started p) \<and>
     (snd (f R started p) = p \<or> snd (f R started p) = put_param ''UbloxAvailable'' (PBool (re_ublox_available R)) p))"

lemma cond_ok_table:
  "cond_ok soundd_run" "cond_ok bluetooth_enabled" "cond_ok iscar" "cond_ok logging_run" "cond_ok ublox" "cond_ok qcomgps"
  "cond_ok always_run" "cond_ok only_onroad" "cond_ok only_offroad" "cond_ok use_copyparty" "cond_ok lanlink_run"
  "cond_ok pandad_run" "cond_ok bigmodeld_run" "cond_ok (and_run only_offroad use_copyparty)"
  by (auto simp: cond_ok_def soundd_run_def bluetooth_enabled_def iscar_def logging_run_def ublox_def qcomgps_def always_run_def
      only_onroad_def only_offroad_def use_copyparty_def lanlink_run_def pandad_run_def bigmodeld_run_def and_run_def)

definition same_but_ublox :: "params \<Rightarrow> params \<Rightarrow> bool" where
  "same_but_ublox p q \<longleftrightarrow> q = p \<or> (\<exists>b. q = put_param ''UbloxAvailable'' (PBool b) p)"

lemma put_param_twice [simp]: "put_param k v (put_param k w p) = put_param k v p"
  by (simp add: put_param_def)

lemma same_but_ublox_step:
  "cond_ok f \<Longrightarrow> same_but_ublox p q \<Longrightarrow> same_but_ublox p (snd (f R started q)) \<and> fst (f R started q) = fst (f R started p)"
  unfolding same_but_ublox_def cond_ok_def by (metis put_param_twice)

text \<open>The processes of the manager: those of the table, each well formed.\<close>

definition table_ok :: "mproc list \<Rightarrow> bool" where
  "table_ok ps \<longleftrightarrow> (\<forall>p \<in> set ps. child_wf p \<and> cond_ok (mp_should_run p))"

definition wants :: "run_env \<Rightarrow> bool \<Rightarrow> string list \<Rightarrow> (string \<Rightarrow> proc_input) \<Rightarrow> params \<Rightarrow> mproc \<Rightarrow> bool \<times> mproc" where
  "wants R started ignored pin params p =
     (wanted R started ignored params p,
      if wanted R started ignored params p then p else snd (snd (stop True False None (pin (mp_name p)) p)))"

lemma select_running_eq:
  assumes "table_ok ps" "same_but_ublox params q"
  shows "fst (snd (select_running R started ignored pin ps q)) = map (wants R started ignored pin params) ps \<and>
    same_but_ublox params (snd (snd (select_running R started ignored pin ps q)))"
  using assms
proof (induction ps arbitrary: q)
  case (Cons p ps)
  have p: "cond_ok (mp_should_run p)" "table_ok ps" using Cons.prems(1) by (simp_all add: table_ok_def)
  define w where "w = (if mp_enabled p \<and> mp_name p \<notin> set ignored then mp_should_run p R started q else (False, q))"
  have w: "fst w = wanted R started ignored params p" "same_but_ublox params (snd w)"
    using same_but_ublox_step [OF p(1) Cons.prems(2), of R started] Cons.prems(2) by (auto simp: w_def wanted_def)
  from Cons.IH [OF p(2) w(2)] w show ?case
    by (cases w) (auto simp: w_def [symmetric] Let_def case_prod_beta wants_def)
qed simp

lemma start_selected_eq:
  assumes "\<forall>(w, p) \<in> set wps. child_wf p"
  shows "fst (snd (start_selected pin wps params)) = map (\<lambda>(w, p). if w then snd (start_child (pin (mp_name p)) p) else p) wps \<and>
    snd (snd (start_selected pin wps params)) = params"
  using assms
proof (induction wps)
  case (Cons wp wps)
  obtain w p where wp: "wp = (w, p)" by (cases wp)
  with Cons show ?case by (cases w) (simp_all add: Let_def case_prod_beta start_eq)
qed simp

text \<open>One process through a round.\<close>

definition round_proc :: "run_env \<Rightarrow> bool \<Rightarrow> string list \<Rightarrow> (string \<Rightarrow> proc_input) \<Rightarrow> params \<Rightarrow> mproc \<Rightarrow> mproc" where
  "round_proc R started ignored pin params p =
     (if wanted R started ignored params p then snd (start_child (pin (mp_name p)) p)
      else snd (snd (stop True False None (pin (mp_name p)) p)))"

lemma ensure_running_eq:
  assumes "table_ok ps"
  shows "fst (snd (ensure_running R started ignored pin (ps, params))) = map (round_proc R started ignored pin params) ps \<and>
    same_but_ublox params (snd (snd (ensure_running R started ignored pin (ps, params))))"
proof -
  have s: "fst (snd (select_running R started ignored pin ps params)) = map (wants R started ignored pin params) ps"
    "same_but_ublox params (snd (snd (select_running R started ignored pin ps params)))"
    using select_running_eq [OF assms, of params params] by (simp_all add: same_but_ublox_def)
  have wf: "\<forall>(w, p) \<in> set (map (wants R started ignored pin params) ps). child_wf p"
    using assms stop_child by (auto simp: wants_def table_ok_def)
  show ?thesis
    using start_selected_eq [OF wf, of pin] s
    by (auto simp: ensure_running_def Let_def case_prod_beta o_def wants_def round_proc_def)
qed

lemma round_proc_ok:
  assumes "child_wf p" "q = round_proc R started ignored pin params p"
  shows "static q = static p" "child_wf q" "wanted R started ignored params p \<Longrightarrow> running q"
    "\<not> wanted R started ignored params p \<Longrightarrow> mp_proc q = None \<or> running p \<and> stopping q"
    "wanted R started ignored params p \<Longrightarrow> running p \<Longrightarrow> q = p"
proof -
  show "static q = static p" "child_wf q"
    using start_child_running [OF assms(1)] stop_child [OF assms(1)] by (auto simp: assms(2) round_proc_def)
  show "running q" if "wanted R started ignored params p"
    using that start_child_running [OF assms(1)] by (simp add: assms(2) round_proc_def)
  show "mp_proc q = None \<or> running p \<and> stopping q" if "\<not> wanted R started ignored params p"
    using that stop_child [OF assms(1), of False None "pin (mp_name p)"] by (auto simp: assms(2) round_proc_def split: if_splits)
  show "q = p" if "wanted R started ignored params p" "running p"
    using that start_child_undisturbed [of p] by (simp add: assms(2) round_proc_def)
qed

lemma wanted_static: "static p = static q \<Longrightarrow> wanted R started ignored params p = wanted R started ignored params q"
  using static_eqD [of p q] by (simp add: wanted_def)

lemma round_table_ok:
  assumes "table_ok ps"
  shows "table_ok (map (round_proc R started ignored pin params) ps)"
proof -
  have "cond_ok (mp_should_run (round_proc R started ignored pin params p)) \<and> child_wf (round_proc R started ignored pin params p)"
    if p: "p \<in> set ps" for p
  proof -
    have w: "child_wf p" "cond_ok (mp_should_run p)" using assms p by (simp_all add: table_ok_def)
    have "mp_should_run (round_proc R started ignored pin params p) = mp_should_run p"
      by (rule static_eqD(3) [OF round_proc_ok(1) [OF w(1) refl]])
    with w(2) round_proc_ok(2) [OF w(1) refl] show ?thesis by simp
  qed
  then show ?thesis by (simp add: table_ok_def)
qed

section \<open>The table\<close>

lemma procs_ok: "table_ok (procs PC C D cp)"
  by (simp add: table_ok_def procs_def native_def python_def child_wf_def cond_ok_table)

lemma procs_names: "distinct (map mp_name (procs PC C D cp))"
  by (simp add: procs_def native_def python_def)

definition of_table :: "mproc list \<Rightarrow> mproc list \<Rightarrow> bool" where
  "of_table table ps \<longleftrightarrow> map static ps = map static table \<and> (\<forall>p \<in> set ps. child_wf p)"

lemma of_table_ok:
  assumes "of_table table ps" "table_ok table"
  shows "table_ok ps"
proof -
  have "cond_ok (mp_should_run p)" if p: "p \<in> set ps" for p
  proof -
    have "static p \<in> static ` set table" using p assms(1) by (metis of_table_def image_eqI list.set_map)
    then obtain q where "q \<in> set table" "static p = static q" by blast
    then show ?thesis using assms(2) static_eqD(3) [of p q] by (simp add: table_ok_def)
  qed
  then show ?thesis using assms(1) by (simp add: of_table_def table_ok_def)
qed

lemma of_table_map:
  assumes "of_table table ps" "\<And>p. child_wf p \<Longrightarrow> static (f p) = static p \<and> child_wf (f p)"
  shows "of_table table (map f ps)"
proof -
  have "map (\<lambda>p. static (f p)) ps = map static ps" using assms by (intro map_cong) (auto simp: of_table_def)
  then show ?thesis using assms unfolding of_table_def map_map o_def by auto
qed

lemma of_table_round: "of_table table ps \<Longrightarrow> of_table table (map (round_proc R started ignored pin params) ps)"
  using round_proc_ok(1,2) [OF _ refl] by (intro of_table_map) blast+

lemma child_exits_table: "of_table table ps \<Longrightarrow> of_table table (child_exits n c ps)"
  unfolding child_exits_def by (rule of_table_map) (auto simp: static_def child_wf_def)

lemma exits_table: "of_table table ps \<Longrightarrow> of_table table (fold (\<lambda>(n, c). child_exits n c) exs ps)"
  by (induction exs arbitrary: ps) (auto simp: child_exits_table)

end
