(* ===== verification/ManagerProps.thy ===== *)
theory ManagerProps
  imports ManagerFacts
begin

text \<open>
  The properties of the manager over its reachable states: which processes a round leaves running, how
  soon the others are gone, that the map targets of a writer that is gone are removed, what the clean-up
  leaves, and that the migrations run once.
\<close>

section \<open>Reachable states\<close>

text \<open>The machine and the build: the table of processes depends on it.\<close>

record mgr_env =
  ge_PC :: bool
  ge_COMMA_HARDWARE :: bool
  ge_Darwin :: bool
  ge_copyparty :: bool
  ge_flags :: key_flags
  ge_ignored :: "string list"

definition table_of :: "mgr_env \<Rightarrow> mproc list" where
  "table_of G = procs (ge_PC G) (ge_COMMA_HARDWARE G) (ge_Darwin G) (ge_copyparty G)"

inductive mgr_reach :: "mgr_env \<Rightarrow> manager \<Rightarrow> bool" for G where
  start: "manager_start R (ge_ignored G) pin (table_of G) p = (ev, m, p') \<Longrightarrow> mgr_reach G m"
| round: "mgr_reach G m \<Longrightarrow> manager_round (ge_flags G) (ge_ignored G) i (apply_gap g m) = Some (out, m', s') \<Longrightarrow> mgr_reach G m'"

lemma table_of_ok: "table_ok (table_of G)" "of_table (table_of G) (table_of G)"
  using procs_ok by (auto simp: table_of_def of_table_def table_ok_def)

lemma apply_gap_table: "of_table t (mg_procs m) \<Longrightarrow> of_table t (mg_procs (fst (apply_gap g m)))"
  by (simp add: apply_gap_def exits_table)

text \<open>What a round does, process by process.\<close>

definition round_params :: "key_flags \<Rightarrow> manager_input \<Rightarrow> manager \<times> param_stores \<Rightarrow> params" where
  "round_params flags i ms = fst (manager_transitions flags i (fst ms) (snd ms))"

lemma manager_round_eq:
  assumes "of_table (table_of G) (mg_procs m)" "manager_round flags ignored i (m, s) = Some (out, m', s')"
  shows "mg_procs m' = map (round_proc (mi_run i) (mi_started i) ignored (mi_proc i) (round_params flags i (m, s))) (mg_procs m)"
    "mo_processes out = map get_process_state_msg (mg_procs m')"
    "mg_started_prev m' = mi_started i" "mg_ignition_prev m' = panda_ignition (mi_pandaStates i)"
proof -
  have "table_ok (mg_procs m)" by (rule of_table_ok [OF assms(1) table_of_ok(1)])
  from ensure_running_eq [OF this, of "mi_run i" "mi_started i" ignored "mi_proc i" "fst (manager_transitions flags i m s)"] assms(2)
  show "mg_procs m' = map (round_proc (mi_run i) (mi_started i) ignored (mi_proc i) (round_params flags i (m, s))) (mg_procs m)"
    "mo_processes out = map get_process_state_msg (mg_procs m')"
    "mg_started_prev m' = mi_started i" "mg_ignition_prev m' = panda_ignition (mi_pandaStates i)"
    by (auto simp: manager_round_def round_params_def Let_def case_prod_beta split: option.splits)
qed

lemma mgr_reach_table:
  assumes "mgr_reach G m"
  shows "of_table (table_of G) (mg_procs m)"
  using assms
proof (induction rule: mgr_reach.induct)
  case (start R pin p ev m p')
  from ensure_running_eq [OF table_of_ok(1), of R False "ge_ignored G" pin G "put_param ''IsOffroad'' (PBool True) p"] start
  have "mg_procs m = map (round_proc R False (ge_ignored G) pin (put_param ''IsOffroad'' (PBool True) p)) (table_of G)"
    by (auto simp: manager_start_def Let_def case_prod_beta)
  then show ?case using of_table_round [OF table_of_ok(2)] by simp
next
  case (round m i g out m' s')
  obtain m0 s0 where g: "apply_gap g m = (m0, s0)" by (cases "apply_gap g m")
  have t: "of_table (table_of G) (mg_procs m0)" using apply_gap_table [OF round.IH, of g] g by simp
  from manager_round_eq(1) [OF t round.hyps(2) [unfolded g]] of_table_round [OF t] show ?case by simp
qed

lemma round_source:
  assumes "mgr_reach G m" "manager_round (ge_flags G) (ge_ignored G) i (apply_gap g m) = Some (out, m', s')" "q \<in> set (mg_procs m')"
  shows "\<exists>p \<in> set (mg_procs (fst (apply_gap g m))). child_wf p \<and>
    q = round_proc (mi_run i) (mi_started i) (ge_ignored G) (mi_proc i) (round_params (ge_flags G) i (apply_gap g m)) p"
proof -
  obtain m0 s0 where g: "apply_gap g m = (m0, s0)" by (cases "apply_gap g m")
  have t: "of_table (table_of G) (mg_procs m0)" using apply_gap_table [OF mgr_reach_table [OF assms(1)], of g] g by simp
  from manager_round_eq(1) [OF t assms(2) [unfolded g]] assms(3) t show ?thesis by (auto simp: g of_table_def)
qed

section \<open>Properties\<close>

text \<open>C17: After every round of every run each process that the table wants (enabled, not ignored, its
  condition true) is alive and not being stopped, whatever ended before, and each other process is gone
  or has been told to end; and a process that ran and is still wanted is left alone, with its pid.\<close>

theorem round_runs_exactly_wanted:
  assumes "mgr_reach G m" "manager_round (ge_flags G) (ge_ignored G) i (apply_gap g m) = Some (out, m', s')"
  shows "map mp_name (mg_procs m') = map mp_name (table_of G) \<and>
    (\<forall>q \<in> set (mg_procs m').
       if wanted (mi_run i) (mi_started i) (ge_ignored G) (round_params (ge_flags G) i (apply_gap g m)) q then running q
       else mp_proc q = None \<or> stopping q) \<and>
    (\<forall>p \<in> set (mg_procs (fst (apply_gap g m))).
       running p \<and> wanted (mi_run i) (mi_started i) (ge_ignored G) (round_params (ge_flags G) i (apply_gap g m)) p \<longrightarrow>
         p \<in> set (mg_procs m'))"
proof -
  obtain m0 s0 where g: "apply_gap g m = (m0, s0)" by (cases "apply_gap g m")
  have t: "of_table (table_of G) (mg_procs m0)" using apply_gap_table [OF mgr_reach_table [OF assms(1)], of g] g by simp
  have "of_table (table_of G) (mg_procs m')" using mgr_reach_table [OF mgr_reach.round [OF assms]] .
  then have "map mp_name (map static (mg_procs m')) = map mp_name (map static (table_of G))" by (simp add: of_table_def)
  then have names: "map mp_name (mg_procs m') = map mp_name (table_of G)" by (simp add: o_def)
  have each: "if wanted (mi_run i) (mi_started i) (ge_ignored G) (round_params (ge_flags G) i (apply_gap g m)) q then running q
       else mp_proc q = None \<or> stopping q" if "q \<in> set (mg_procs m')" for q
    using round_source [OF assms that] round_proc_ok(1,3,4) wanted_static by (metis (no_types, lifting))
  have "p \<in> set (mg_procs m')"
    if "p \<in> set (mg_procs m0)" "running p" "wanted (mi_run i) (mi_started i) (ge_ignored G) (round_params (ge_flags G) i (m0, s0)) p" for p
  proof -
    have "child_wf p" using t that(1) by (simp add: of_table_def)
    from round_proc_ok(5) [OF this refl that(3,2), of "mi_proc i"] manager_round_eq(1) [OF t assms(2) [unfolded g]] that(1)
    show ?thesis by (metis image_eqI list.set_map)
  qed
  with names each show ?thesis by (simp add: g)
qed

text \<open>C22: A process that two successive rounds do not want is gone after the second, whatever it does
  with the signals: the first sends SIGINT, the second waits 5 s and kills it.\<close>

theorem unwanted_gone_in_two_rounds:
  assumes "mgr_reach G m" "manager_round (ge_flags G) (ge_ignored G) i1 (apply_gap g1 m) = Some (out1, m1, s1)"
    "manager_round (ge_flags G) (ge_ignored G) i2 (apply_gap g2 m1) = Some (out2, m2, s2)" "q \<in> set (mg_procs m2)"
    "\<not> wanted (mi_run i1) (mi_started i1) (ge_ignored G) (round_params (ge_flags G) i1 (apply_gap g1 m)) q"
    "\<not> wanted (mi_run i2) (mi_started i2) (ge_ignored G) (round_params (ge_flags G) i2 (apply_gap g2 m1)) q"
  shows "mp_proc q = None"
proof -
  have gap: "\<exists>p0 \<in> set ps. static p = static p0 \<and> (mp_proc p0 = None \<longrightarrow> mp_proc p = None) \<and> (mp_shutting_down p = mp_shutting_down p0)"
    if "p \<in> set (fold (\<lambda>(n, c). child_exits n c) exs ps)" for p exs ps
    using that
  proof (induction exs arbitrary: ps)
    case Nil
    then show ?case by (intro bexI [of _ p]) simp_all
  next
    case (Cons e exs)
    obtain n c where e: "e = (n, c)" by (cases e)
    from Cons.IH [of "child_exits n c ps"] Cons.prems obtain p0 where p0: "p0 \<in> set (child_exits n c ps)" "static p = static p0"
      "mp_proc p0 = None \<longrightarrow> mp_proc p = None" "mp_shutting_down p = mp_shutting_down p0" by (auto simp: e)
    then obtain p1 where "p1 \<in> set ps" "static p0 = static p1" "mp_proc p1 = None \<longrightarrow> mp_proc p0 = None"
      "mp_shutting_down p0 = mp_shutting_down p1"
      by (auto simp: child_exits_def static_def)
    with p0 show ?case by auto
  qed
  have r1: "mgr_reach G m1" by (rule mgr_reach.round [OF assms(1,2)])
  obtain p where p: "p \<in> set (mg_procs (fst (apply_gap g2 m1)))" "child_wf p"
    "q = round_proc (mi_run i2) (mi_started i2) (ge_ignored G) (mi_proc i2) (round_params (ge_flags G) i2 (apply_gap g2 m1)) p"
    using round_source [OF r1 assms(3,4)] by blast
  have pq: "static q = static p" by (rule round_proc_ok(1) [OF p(2,3)])
  obtain p0 where p0: "p0 \<in> set (mg_procs m1)" "static p = static p0" "mp_proc p0 = None \<longrightarrow> mp_proc p = None"
    "mp_shutting_down p = mp_shutting_down p0"
    using gap [of p "gp_exits g2" "mg_procs m1"] p(1) by (auto simp: apply_gap_def)
  have "\<not> wanted (mi_run i1) (mi_started i1) (ge_ignored G) (round_params (ge_flags G) i1 (apply_gap g1 m)) p0"
    using assms(5) wanted_static pq p0(2) by metis
  then have "mp_proc p0 = None \<or> stopping p0"
    using round_source [OF assms(1,2) p0(1)] round_proc_ok(1,4) wanted_static by (metis (no_types, lifting))
  then have "\<not> running p" using p0(3,4) by (auto simp: running_def stopping_def)
  moreover have "\<not> wanted (mi_run i2) (mi_started i2) (ge_ignored G) (round_params (ge_flags G) i2 (apply_gap g2 m1)) p"
    using assms(6) wanted_static [OF pq] by metis
  ultimately show ?thesis using round_proc_ok(4) [OF p(2,3)] by blast
qed

section \<open>The groups of the table\<close>

definition ONROAD_PROCESSES :: "string list" where
  "ONROAD_PROCESSES = [''camerad'', ''modeld'', ''locationd'', ''locationd_llk'', ''calibrationd'', ''torqued'', ''paramsd'', ''lagd'',
     ''selfdrived'', ''card'', ''plannerd'', ''radard'']"

lemma table_onroad: "\<forall>t \<in> set (procs PC C D cp). mp_name t \<in> set ONROAD_PROCESSES \<longrightarrow> mp_enabled t \<and> mp_should_run t = only_onroad"
  by (simp add: procs_def native_def python_def ONROAD_PROCESSES_def)

lemma table_others:
  "\<forall>t \<in> set (procs PC C D cp). mp_name t = ''controlsd'' \<longrightarrow> mp_enabled t \<and> mp_should_run t = iscar"
  "\<forall>t \<in> set (procs PC C D cp). mp_name t = ''pandad'' \<longrightarrow> mp_enabled t \<and> mp_should_run t = pandad_run"
  "\<forall>t \<in> set (procs PC C D cp). mp_name t \<in> {''ubloxd'', ''pigeond''} \<longrightarrow> mp_should_run t = ublox"
  "\<forall>t \<in> set (procs PC C D cp). mp_name t = ''qcomgpsd'' \<longrightarrow> mp_should_run t = qcomgps"
  by (simp_all add: procs_def native_def python_def)

lemma table_conditions:
  assumes "t \<in> set (procs PC C D cp)"
  shows "mp_name t \<in> set ONROAD_PROCESSES \<Longrightarrow> mp_enabled t \<and> mp_should_run t = only_onroad"
    "mp_name t = ''controlsd'' \<Longrightarrow> mp_enabled t \<and> mp_should_run t = iscar"
    "mp_name t = ''pandad'' \<Longrightarrow> mp_enabled t \<and> mp_should_run t = pandad_run"
    "mp_name t \<in> {''ubloxd'', ''pigeond''} \<Longrightarrow> mp_should_run t = ublox"
    "mp_name t = ''qcomgpsd'' \<Longrightarrow> mp_should_run t = qcomgps"
  by (rule table_onroad [THEN bspec, OF assms, THEN mp] table_others [THEN bspec, OF assms, THEN mp], assumption)+

lemma reach_conditions:
  assumes "mgr_reach G m" "q \<in> set (mg_procs m)"
  shows "\<exists>t \<in> set (table_of G). mp_name q = mp_name t \<and> mp_enabled q = mp_enabled t \<and> mp_should_run q = mp_should_run t"
proof -
  have "static q \<in> static ` set (table_of G)"
    using mgr_reach_table [OF assms(1)] assms(2) by (metis of_table_def image_eqI list.set_map)
  then obtain t where "t \<in> set (table_of G)" "static q = static t" by blast
  then show ?thesis using static_eqD [of q t] by blast
qed

text \<open>C18: In every run the rounds keep the driving processes in step with \<open>started\<close>: offroad none of them
  runs after the round (each is gone or told to end), onroad each that is not ignored runs, \<open>controlsd\<close>
  only in a car; \<open>pandad\<close> runs unless the diagnosis of LANLink has the panda; and the receivers of the two
  GNSS chips never run together.\<close>

theorem processes_follow_started:
  assumes "mgr_reach G m" "manager_round (ge_flags G) (ge_ignored G) i (apply_gap g m) = Some (out, m', s')" "q \<in> set (mg_procs m')"
    "mp_name q \<notin> set (ge_ignored G)"
  shows "(mp_name q \<in> set ONROAD_PROCESSES \<longrightarrow> running q = mi_started i) \<and>
    (mp_name q = ''controlsd'' \<longrightarrow> running q = (mi_started i \<and> \<not> re_notCar (mi_run i))) \<and>
    (mp_name q = ''pandad'' \<longrightarrow> running q = (\<not> (get_bool ''LanLinkDiagMode'' (round_params (ge_flags G) i (apply_gap g m)) \<and>
       get_bool ''LanLinkEnabled'' (round_params (ge_flags G) i (apply_gap g m))))) \<and>
    (mp_name q \<in> {''ubloxd'', ''pigeond''} \<longrightarrow> running q \<longrightarrow>
       (\<forall>r \<in> set (mg_procs m'). mp_name r = ''qcomgpsd'' \<longrightarrow> \<not> running r))"
proof -
  let ?w = "wanted (mi_run i) (mi_started i) (ge_ignored G) (round_params (ge_flags G) i (apply_gap g m))"
  have reach: "mgr_reach G m'" by (rule mgr_reach.round [OF assms(1,2)])
  have w: "running r = ?w r" if "r \<in> set (mg_procs m')" for r
    using round_source [OF assms(1,2) that] round_proc_ok(1,3,4) wanted_static running_def stopping_def is_alive_Some(2)
    by (metis (no_types, lifting))
  obtain t where t: "t \<in> set (table_of G)" "mp_name q = mp_name t" "mp_enabled q = mp_enabled t" "mp_should_run q = mp_should_run t"
    using reach_conditions [OF reach assms(3)] by blast
  have c: "mp_name q \<in> set ONROAD_PROCESSES \<Longrightarrow> mp_enabled q \<and> mp_should_run q = only_onroad"
    "mp_name q = ''controlsd'' \<Longrightarrow> mp_enabled q \<and> mp_should_run q = iscar"
    "mp_name q = ''pandad'' \<Longrightarrow> mp_enabled q \<and> mp_should_run q = pandad_run"
    "mp_name q \<in> {''ubloxd'', ''pigeond''} \<Longrightarrow> mp_should_run q = ublox"
    using table_conditions [OF t(1) [unfolded table_of_def]] unfolding t(2-4) by blast+
  have quec: "\<not> running r" if r: "r \<in> set (mg_procs m')" "mp_name r = ''qcomgpsd''" "?w q" "mp_should_run q = ublox" for r
  proof -
    obtain u where u: "u \<in> set (table_of G)" "mp_name r = mp_name u" "mp_should_run r = mp_should_run u"
      using reach_conditions [OF reach r(1)] by blast
    have "mp_should_run r = qcomgps" using table_conditions(5) [OF u(1) [unfolded table_of_def]] u(2,3) r(2) by simp
    then show ?thesis using r(3,4) w [OF r(1)] by (simp add: wanted_def qcomgps_def ublox_def)
  qed
  show ?thesis
  proof (intro conjI impI)
    show "running q = mi_started i" if "mp_name q \<in> set ONROAD_PROCESSES"
      using c(1) [OF that] assms(4) w [OF assms(3)] by (simp add: wanted_def only_onroad_def)
    show "running q = (mi_started i \<and> \<not> re_notCar (mi_run i))" if "mp_name q = ''controlsd''"
      using c(2) [OF that] assms(4) w [OF assms(3)] by (simp add: wanted_def iscar_def)
    show "running q = (\<not> (get_bool ''LanLinkDiagMode'' (round_params (ge_flags G) i (apply_gap g m)) \<and>
       get_bool ''LanLinkEnabled'' (round_params (ge_flags G) i (apply_gap g m))))" if "mp_name q = ''pandad''"
      using c(3) [OF that] assms(4) w [OF assms(3)] by (simp add: wanted_def pandad_run_def lanlink_run_def)
    show "\<forall>r \<in> set (mg_procs m'). mp_name r = ''qcomgpsd'' \<longrightarrow> \<not> running r" if "mp_name q \<in> {''ubloxd'', ''pigeond''}" "running q"
      using c(4) [OF that(1)] that(2) w [OF assms(3)] quec by blast
  qed
qed

text \<open>Offroad none of the driving processes runs, ignored or not.\<close>

lemma offroad_stops:
  assumes "mgr_reach G m" "manager_round (ge_flags G) (ge_ignored G) i (apply_gap g m) = Some (out, m', s')" "q \<in> set (mg_procs m')"
    "mp_name q \<in> set (''controlsd'' # ONROAD_PROCESSES)" "\<not> mi_started i"
  shows "mp_proc q = None \<or> stopping q"
proof -
  obtain t where t: "t \<in> set (table_of G)" "mp_name q = mp_name t" "mp_should_run q = mp_should_run t"
    using reach_conditions [OF mgr_reach.round [OF assms(1,2)] assms(3)] by blast
  have "mp_should_run q = iscar \<or> mp_should_run q = only_onroad"
    using table_conditions(1,2) [OF t(1) [unfolded table_of_def]] assms(4) t(2,3) by auto
  then have "\<not> wanted (mi_run i) (mi_started i) (ge_ignored G) (round_params (ge_flags G) i (apply_gap g m)) q"
    using assms(5) by (auto simp: wanted_def iscar_def only_onroad_def)
  then show ?thesis
    using round_source [OF assms(1-3)] round_proc_ok(1,4) wanted_static by (metis (no_types, lifting))
qed

text \<open>A request in the parameters is seen by the round and survives it.\<close>

lemma clear_all_keeps: "flags k = Some fs \<Longrightarrow> fl \<notin> fs \<Longrightarrow> get_bool k (clear_all flags fl p) = get_bool k p"
  by (simp add: clear_all_def get_bool_def)

lemma transitions_keep:
  assumes "flags k = Some {CLEAR_ON_MANAGER_START}" "k \<noteq> ''IsOffroad''"
  shows "get_bool k (fst (manager_transitions flags i m s)) = get_bool k (fst s)"
  using assms by (simp add: manager_transitions_def Let_def case_prod_beta clear_all_keeps)

lemma note_exit_keeps: "k \<noteq> ''LastManagerExitReason'' \<Longrightarrow> get_bool k (note_exit now p) = get_bool k p"
  by (simp add: note_exit_def exit_requests_def)

lemma round_request:
  assumes "mgr_reach G m" "manager_round (ge_flags G) (ge_ignored G) i (apply_gap g m) = Some (out, m', (p', mem'))"
    "ge_flags G k = Some {CLEAR_ON_MANAGER_START}" "k \<in> set exit_requests"
  shows "get_bool k p' = get_bool k (gp_params g)" "get_bool k p' \<Longrightarrow> mo_shutdown out"
proof -
  obtain m0 s0 where g: "apply_gap g m = (m0, s0)" "fst s0 = gp_params g" by (cases "apply_gap g m") (auto simp: apply_gap_def)
  have t: "of_table (table_of G) (mg_procs m0)" using apply_gap_table [OF mgr_reach_table [OF assms(1)], of g] g by simp
  define tr where "tr = manager_transitions (ge_flags G) i m0 s0"
  define er where "er = ensure_running (mi_run i) (mi_started i) (ge_ignored G) (mi_proc i) (mg_procs m0, fst tr)"
  have ub: "same_but_ublox (fst tr) (snd (snd er))"
    using ensure_running_eq [OF of_table_ok [OF t table_of_ok(1)]] by (simp add: er_def)
  have k: "k \<noteq> ''UbloxAvailable''" "k \<noteq> ''IsOffroad''" "k \<noteq> ''LastManagerExitReason''"
    using assms(4) by (auto simp: exit_requests_def)
  have r: "mo_shutdown out = list_ex (\<lambda>k. get_bool k (snd (snd er))) exit_requests" "p' = note_exit (mi_now i) (snd (snd er))"
    using assms(2) by (auto simp: manager_round_def g(1) Let_def case_prod_beta tr_def er_def split: option.splits)
  have "get_bool k (snd (snd er)) = get_bool k (fst tr)" using ub k(1) by (auto simp: same_but_ublox_def)
  also have "\<dots> = get_bool k (gp_params g)" using transitions_keep [of "ge_flags G" k i m0 s0] assms(3) k(2) by (simp add: tr_def g(2))
  finally have e: "get_bool k (snd (snd er)) = get_bool k (gp_params g)" .
  then show "get_bool k p' = get_bool k (gp_params g)" using note_exit_keeps [OF k(3)] by (simp add: r(2))
  then show "mo_shutdown out" if "get_bool k p'" using that assms(4) e by (auto simp: r(1) list_ex_iff)
qed

section \<open>The map targets\<close>

lemma remove_map_targets_gone: "remove_map_targets mem = Some mem' \<Longrightarrow> pr_values mem' ''MapTargetVelocities'' = None"
  by (auto simp: remove_map_targets_def MAP_TARGET_KEYS_def remove_param_def)

text \<open>Map targets never outlive their writer: after a round in which the device went onroad or
  offroad, or is onroad without a running \<open>bigmodeld\<close>, no targets are left in the memory store, whatever
  it held and whatever the flags of the keys are.\<close>

theorem map_targets_removed:
  assumes "manager_round flags ignored i (m, s) = Some (out, m', (p', Some mem'))"
    "mi_started i \<noteq> mg_started_prev m \<or>
     mi_started i \<and> (\<forall>q \<in> set (mg_procs m'). mp_name q = ''bigmodeld'' \<longrightarrow> \<not> running q)"
  shows "pr_values mem' ''MapTargetVelocities'' = None"
proof -
  define t where "t = manager_transitions flags i m s"
  obtain b where b: "find (\<lambda>q. mp_name q = ''bigmodeld'') (mg_procs m') = Some b"
    "remove_map_targets_if_writer_gone (mi_started i) (writer_running b) (snd t) = Some mem'"
    using assms(1) by (auto simp: manager_round_def Let_def case_prod_beta t_def split: option.splits)
  from b(1) have name: "b \<in> set (mg_procs m')" "mp_name b = ''bigmodeld''" by (auto simp: find_Some_iff)
  show ?thesis
  proof (cases "mi_started i \<and> \<not> writer_running b")
    case True
    then show ?thesis using b(2) by (auto simp: remove_map_targets_if_writer_gone_def intro: remove_map_targets_gone)
  next
    case False
    then have mem: "snd t = Some mem'" using b(2) unfolding remove_map_targets_if_writer_gone_def by (simp split: if_splits)
    have "mi_started i \<noteq> mg_started_prev m" using False assms(2) name by (auto simp: writer_running_def running_def)
    then have "\<exists>fl. snd t = clear_map_params flags fl (snd s)"
      by (auto simp: t_def manager_transitions_def Let_def case_prod_beta)
    then show ?thesis using mem by (auto simp: clear_map_params_def intro: remove_map_targets_gone)
  qed
qed

section \<open>Reports, clean-up, start-up\<close>

text \<open>The manager restarts a process that has ended before it reports: in no reachable round does the
  published state contain a process that should be running and is not, so the check of \<open>selfdrived\<close> sees
  only processes that end between the two steps of one round.\<close>

theorem ended_processes_not_reported:
  assumes "mgr_reach G m" "manager_round (ge_flags G) (ge_ignored G) i (apply_gap g m) = Some (out, m', s')"
    "st \<in> set (mo_processes out)" "st_shouldBeRunning st"
  shows "st_running st"
proof -
  obtain m0 s0 where g: "apply_gap g m = (m0, s0)" by (cases "apply_gap g m")
  have t: "of_table (table_of G) (mg_procs m0)" using apply_gap_table [OF mgr_reach_table [OF assms(1)], of g] g by simp
  obtain q where q: "q \<in> set (mg_procs m')" "st = get_process_state_msg q"
    using manager_round_eq(2) [OF t assms(2) [unfolded g]] assms(3) by auto
  have "running q \<or> mp_proc q = None \<or> stopping q"
    using round_source [OF assms(1,2) q(1)] round_proc_ok(3,4) by (metis (no_types, lifting))
  then show ?thesis using assms(4) by (auto simp: q(2) get_process_state_msg_def running_def stopping_def split: option.splits)
qed

lemma stop_all_eq:
  "snd (stop_all block pin ps) = map (\<lambda>p. snd (snd (stop True block None (pin (mp_name p)) p))) ps"
  "fst (stop_all block pin ps) = concat (map (\<lambda>p. fst (snd (stop True block None (pin (mp_name p)) p))) ps)"
  by (induction ps) (simp_all add: case_prod_beta Let_def)

lemma stop_gentle:
  "\<not> mp_sigkill p \<Longrightarrow> pi_join pin \<noteq> None \<Longrightarrow> Sent n SIGKILL \<notin> set (fst (snd (stop True block None pin p)))"
  by (cases "mp_proc p"; cases "mp_kind p")
    (auto simp: stop_def Let_def join_process_def signal_proc_def case_prod_beta is_alive_def reap_def)

lemma table_sigkill: "\<forall>t \<in> set (procs PC C D cp). \<not> mp_sigkill t"
  by (simp add: procs_def native_def python_def)

text \<open>The clean-up leaves no process of the table behind, whatever the processes do; and a process that
  ends within 5 s of its signal is never killed.\<close>

theorem cleanup_leaves_nothing:
  assumes "mgr_reach G m" "manager_cleanup pin1 pin2 (mg_procs m) = (ev, ps)"
  shows "length ps = length (table_of G) \<and> (\<forall>q \<in> set ps. mp_proc q = None) \<and>
    ((\<forall>n. pi_join (pin1 n) \<noteq> None \<and> pi_join (pin2 n) \<noteq> None) \<longrightarrow> (\<forall>n. Sent n SIGKILL \<notin> set ev))"
proof -
  let ?f = "\<lambda>p. snd (snd (stop True False None (pin1 (mp_name p)) p))"
  have t: "of_table (table_of G) (mg_procs m)" by (rule mgr_reach_table [OF assms(1)])
  have t1: "of_table (table_of G) (map ?f (mg_procs m))" using stop_child by (intro of_table_map [OF t]) blast
  have ps: "ps = map (\<lambda>p. snd (snd (stop True True None (pin2 (mp_name p)) p))) (map ?f (mg_procs m))"
    "ev = fst (stop_all False pin1 (mg_procs m)) @ fst (stop_all True pin2 (map ?f (mg_procs m)))"
    using assms(2) by (auto simp: manager_cleanup_def case_prod_beta Let_def stop_all_eq)
  have "length (mg_procs m) = length (table_of G)" using t by (metis of_table_def length_map)
  moreover have "mp_proc q = None" if q: "q \<in> set ps" for q
  proof -
    obtain p where p: "p \<in> set (map ?f (mg_procs m))" "q = snd (snd (stop True True None (pin2 (mp_name p)) p))"
      using q ps(1) by auto
    have "child_wf p" using t1 p(1) unfolding of_table_def by blast
    from stop_child [OF this, of True None "pin2 (mp_name p)"] show ?thesis by (simp add: p(2))
  qed
  moreover have "Sent n SIGKILL \<notin> set ev" if g: "\<forall>n. pi_join (pin1 n) \<noteq> None \<and> pi_join (pin2 n) \<noteq> None" for n
  proof -
    have nk: "\<not> mp_sigkill p" if "of_table (table_of G) qs" "p \<in> set qs" for p qs
    proof -
      have "static p \<in> static ` set (table_of G)" using that by (metis of_table_def image_eqI list.set_map)
      then obtain u where "u \<in> set (table_of G)" "mp_sigkill p = mp_sigkill u" by (metis image_iff static_fields(5))
      then show ?thesis using table_sigkill unfolding table_of_def by blast
    qed
    have "Sent n SIGKILL \<notin> set (fst (stop_all False pin1 (mg_procs m)))"
      using g nk [OF t] stop_gentle by (fastforce simp: stop_all_eq)
    moreover have "Sent n SIGKILL \<notin> set (fst (stop_all True pin2 (map ?f (mg_procs m))))"
      unfolding stop_all_eq using g nk [OF t1] stop_gentle by fastforce
    ultimately show ?thesis by (simp add: ps(2))
  qed
  ultimately show ?thesis using ps(1) by simp
qed

text \<open>The marker that skips the build is written only over native artifacts that are all there, readable
  and built on the device.\<close>

lemma unfit_None: "unfit_artifact fs rels = None \<longleftrightarrow> (\<forall>rel \<in> set rels. \<exists>s. fs rel = Content s \<and> \<not> py_contains PC_PATH_MARKER s)"
  by (induction rels) (auto split: artifact.splits)

lemma quick_boot_safe:
  "quick_boot I p False \<Longrightarrow>
     \<forall>rel \<in> set QUICK_BOOT_NATIVE_ARTIFACTS. \<exists>s. ie_artifacts I rel = Content s \<and> \<not> py_contains PC_PATH_MARKER s"
  by (auto simp: quick_boot_def native_artifacts_unfit_for_quick_boot_def unfit_None)

text \<open>The screen settings are migrated once: every later boot leaves them as the first one did, so the
  brightness index is moved at most by one, provided the migration of the car data does not write them.\<close>

definition MIGRATED_KEYS :: "string list" where
  "MIGRATED_KEYS = [''OnroadScreenOffBrightness'', ''OnroadScreenOffBrightnessMigrated'', ''OnroadScreenOffTimer'', ''OnroadScreenOffTimerMigrated'']"

definition migrated :: "params \<Rightarrow> bool" where
  "migrated p \<longleftrightarrow> pr_values p ''OnroadScreenOffBrightnessMigrated'' = Some (PStr ONROAD_BRIGHTNESS_MIGRATION_VERSION) \<and>
     pr_values p ''OnroadScreenOffTimerMigrated'' = Some (PStr ONROAD_BRIGHTNESS_TIMER_MIGRATION_VERSION)"

lemma migrated_stays:
  assumes "\<And>p k. k \<in> set MIGRATED_KEYS \<Longrightarrow> pr_values (mc p) k = pr_values p k" "migrated p" "k \<in> set MIGRATED_KEYS"
  shows "pr_values (run_migration mc p) k = pr_values p k"
proof -
  let ?p = "remove_param ''DynamicExperimentalControl'' p"
  have v: "pr_values ?p j = pr_values p j" if "j \<in> set MIGRATED_KEYS" for j
    using that by (auto simp: remove_param_def MIGRATED_KEYS_def)
  then have "migrated ?p" using assms(2) by (auto simp: migrated_def MIGRATED_KEYS_def)
  then have "migrate_timer (migrate_brightness ?p) = ?p" by (simp add: migrated_def migrate_brightness_def migrate_timer_def)
  then show ?thesis using assms(1) [OF assms(3)] v [OF assms(3)] by (simp add: run_migration_def)
qed

lemma migration_done:
  assumes "\<And>p k. k \<in> set MIGRATED_KEYS \<Longrightarrow> pr_values (mc p) k = pr_values p k" "get_int ''OnroadScreenOffBrightness'' p = Some v"
  shows "migrated (run_migration mc p)"
proof -
  have "get_int ''OnroadScreenOffBrightness'' (remove_param ''DynamicExperimentalControl'' p) = Some v" using assms(2) by simp
  then show ?thesis using assms(1)
    by (auto simp: migrated_def run_migration_def migrate_brightness_def migrate_timer_def MIGRATED_KEYS_def put_param_def
        split: option.splits)
qed

theorem migrations_run_once:
  assumes "\<And>p k. k \<in> set MIGRATED_KEYS \<Longrightarrow> pr_values (mc p) k = pr_values p k" "get_int ''OnroadScreenOffBrightness'' p = Some v"
    "k \<in> set MIGRATED_KEYS"
  shows "pr_values ((run_migration mc ^^ Suc n) p) k = pr_values (run_migration mc p) k \<and> migrated ((run_migration mc ^^ Suc n) p)"
proof -
  have stay: "\<forall>j \<in> set MIGRATED_KEYS. pr_values ((run_migration mc ^^ n) q) j = pr_values q j" if "migrated q" for q
    using that
  proof (induction n arbitrary: q)
    case (Suc n)
    have "migrated (run_migration mc q)"
      using migrated_stays [OF assms(1) Suc.prems] Suc.prems by (auto simp: migrated_def MIGRATED_KEYS_def)
    from Suc.IH [OF this] migrated_stays [OF assms(1) Suc.prems] show ?case by (simp add: funpow_swap1)
  qed simp
  from stay [OF migration_done [OF assms(1,2)]] assms(3) migration_done [OF assms(1,2)] show ?thesis
    by (auto simp: funpow_swap1 migrated_def MIGRATED_KEYS_def)
qed

section \<open>A run on the bench\<close>

definition demo_mgr :: mgr_env where
  "demo_mgr = \<lparr>ge_PC = False, ge_COMMA_HARDWARE = True, ge_Darwin = False, ge_copyparty = False,
     ge_flags = (\<lambda>k. Some {CLEAR_ON_MANAGER_START}), ge_ignored = []\<rparr>"

definition demo_pin :: "string \<Rightarrow> proc_input" where
  "demo_pin n = \<lparr>pi_join = None, pi_killed = - 9, pi_pid = 100, pi_daemon_running = False\<rparr>"

definition demo_run :: run_env where
  "demo_run = \<lparr>re_notCar = False, re_ublox_available = True\<rparr>"

definition demo_mgr_store :: params where
  "demo_mgr_store = \<lparr>pr_values = Map.empty, pr_defaults = Map.empty\<rparr>"

definition demo_manager :: manager where
  "demo_manager = fst (snd (manager_start demo_run [] demo_pin (table_of demo_mgr) demo_mgr_store))"

definition demo_gap :: gap where
  "demo_gap = \<lparr>gp_exits = [(''ui'', 1)], gp_params = demo_mgr_store, gp_mem_params = Some demo_mgr_store\<rparr>"

definition demo_mgr_input :: "bool \<Rightarrow> manager_input" where
  "demo_mgr_input started = \<lparr>mi_started = started, mi_pandaStates = [], mi_run = demo_run, mi_proc = demo_pin,
     mi_all_checks = True, mi_now = []\<rparr>"

lemma demo_reach: "mgr_reach demo_mgr demo_manager"
proof -
  obtain ev m p where s: "manager_start demo_run (ge_ignored demo_mgr) demo_pin (table_of demo_mgr) demo_mgr_store = (ev, m, p)"
    by (cases "manager_start demo_run (ge_ignored demo_mgr) demo_pin (table_of demo_mgr) demo_mgr_store") auto
  from mgr_reach.start [OF s] s show ?thesis by (simp add: demo_manager_def demo_mgr_def)
qed

lemma manager_round_total:
  assumes "mgr_reach G m"
  shows "\<exists>out m' s'. manager_round (ge_flags G) (ge_ignored G) i (apply_gap g m) = Some (out, m', s')"
proof -
  obtain m0 s0 where g: "apply_gap g m = (m0, s0)" by (cases "apply_gap g m")
  have t: "of_table (table_of G) (mg_procs m0)" using apply_gap_table [OF mgr_reach_table [OF assms], of g] g by simp
  define ps where "ps = map (round_proc (mi_run i) (mi_started i) (ge_ignored G) (mi_proc i) (fst (manager_transitions (ge_flags G) i m0 s0))) (mg_procs m0)"
  have ps: "fst (snd (ensure_running (mi_run i) (mi_started i) (ge_ignored G) (mi_proc i) (mg_procs m0, fst (manager_transitions (ge_flags G) i m0 s0)))) = ps"
    using ensure_running_eq [OF of_table_ok [OF t table_of_ok(1)]] by (simp add: ps_def)
  have "of_table (table_of G) ps" unfolding ps_def by (rule of_table_round [OF t])
  then have "map mp_name (map static ps) = map mp_name (map static (table_of G))" by (simp add: of_table_def)
  then have "map mp_name ps = map mp_name (table_of G)" by (simp add: o_def)
  moreover have "''bigmodeld'' \<in> set (map mp_name (table_of G))" by (simp add: table_of_def procs_def native_def python_def)
  ultimately have "''bigmodeld'' \<in> set (map mp_name ps)" by (simp only:)
  then have "\<exists>q \<in> set ps. mp_name q = ''bigmodeld''" by auto
  then obtain b where "find (\<lambda>q. mp_name q = ''bigmodeld'') ps = Some b"
    by (cases "find (\<lambda>q. mp_name q = ''bigmodeld'') ps") (auto simp: find_None_iff)
  then show ?thesis using ps by (auto simp: manager_round_def g Let_def case_prod_beta)
qed

lemma demo_round:
  "\<exists>out m' s'. manager_round (ge_flags demo_mgr) (ge_ignored demo_mgr) (demo_mgr_input started) (apply_gap demo_gap demo_manager) =
     Some (out, m', s')"
  by (rule manager_round_total [OF demo_reach])

theorem round_runs_exactly_wanted_witness:
  "\<exists>out m' s'. manager_round (ge_flags demo_mgr) (ge_ignored demo_mgr) (demo_mgr_input True) (apply_gap demo_gap demo_manager) =
     Some (out, m', s') \<and> map mp_name (mg_procs m') = map mp_name (table_of demo_mgr)"
  using demo_round [of True] round_runs_exactly_wanted [OF demo_reach, of "demo_mgr_input True" demo_gap] by blast

theorem unwanted_gone_in_two_rounds_witness:
  "\<exists>out1 m1 s1 out2 m2 s2.
     manager_round (ge_flags demo_mgr) (ge_ignored demo_mgr) (demo_mgr_input False) (apply_gap demo_gap demo_manager) = Some (out1, m1, s1) \<and>
     manager_round (ge_flags demo_mgr) (ge_ignored demo_mgr) (demo_mgr_input False) (apply_gap demo_gap m1) = Some (out2, m2, s2) \<and>
     (\<forall>q \<in> set (mg_procs m2). mp_name q = ''controlsd'' \<longrightarrow> mp_proc q = None)"
proof -
  let ?i = "demo_mgr_input False"
  obtain out1 m1 s1 where r1: "manager_round (ge_flags demo_mgr) (ge_ignored demo_mgr) ?i (apply_gap demo_gap demo_manager) = Some (out1, m1, s1)"
    using demo_round [of False] by blast
  have m1: "mgr_reach demo_mgr m1" by (rule mgr_reach.round [OF demo_reach r1])
  obtain out2 m2 s2 where r2: "manager_round (ge_flags demo_mgr) (ge_ignored demo_mgr) ?i (apply_gap demo_gap m1) = Some (out2, m2, s2)"
    using manager_round_total [OF m1] by blast
  have "mp_proc q = None" if q: "q \<in> set (mg_procs m2)" "mp_name q = ''controlsd''" for q
  proof -
    obtain t where t: "t \<in> set (table_of demo_mgr)" "mp_name q = mp_name t" "mp_should_run q = mp_should_run t"
      using reach_conditions [OF mgr_reach.round [OF m1 r2] q(1)] by blast
    have "mp_should_run q = iscar" using table_conditions(2) [OF t(1) [unfolded table_of_def]] t(2,3) q(2) by simp
    then have nw: "\<not> wanted (mi_run ?i) (mi_started ?i) (ge_ignored demo_mgr) p q" for p
      by (simp add: wanted_def iscar_def demo_mgr_input_def)
    show ?thesis by (rule unwanted_gone_in_two_rounds [OF demo_reach r1 r2 q(1) nw nw])
  qed
  with r1 r2 show ?thesis by blast
qed

theorem processes_follow_started_witness:
  "\<exists>out m' s'. manager_round (ge_flags demo_mgr) (ge_ignored demo_mgr) (demo_mgr_input True) (apply_gap demo_gap demo_manager) =
     Some (out, m', s') \<and> (\<forall>q \<in> set (mg_procs m'). mp_name q = ''selfdrived'' \<longrightarrow> running q)"
proof -
  obtain out m' s' where r: "manager_round (ge_flags demo_mgr) (ge_ignored demo_mgr) (demo_mgr_input True) (apply_gap demo_gap demo_manager) =
     Some (out, m', s')" using demo_round [of True] by blast
  have "running q" if "q \<in> set (mg_procs m')" "mp_name q = ''selfdrived''" for q
    using processes_follow_started [OF demo_reach r that(1)] that(2) by (simp add: ONROAD_PROCESSES_def demo_mgr_def demo_mgr_input_def)
  with r show ?thesis by blast
qed

text \<open>Targets left by a \<open>bigmodeld\<close> that is switched off: the round onroad removes them.\<close>

theorem map_targets_removed_witness:
  "\<exists>out m' p' mem'. manager_round (ge_flags demo_mgr) (ge_ignored demo_mgr) (demo_mgr_input True)
     (demo_manager, (demo_mgr_store, Some (put_param ''MapTargetVelocities'' (PStr ''x'') demo_mgr_store))) = Some (out, m', (p', Some mem')) \<and>
     pr_values mem' ''MapTargetVelocities'' = None"
proof -
  let ?g = "\<lparr>gp_exits = [], gp_params = demo_mgr_store, gp_mem_params = Some (put_param ''MapTargetVelocities'' (PStr ''x'') demo_mgr_store)\<rparr>"
  have g: "apply_gap ?g demo_manager = (demo_manager, (demo_mgr_store, Some (put_param ''MapTargetVelocities'' (PStr ''x'') demo_mgr_store)))"
    by (simp add: apply_gap_def)
  obtain out m' p' mem where r: "manager_round (ge_flags demo_mgr) (ge_ignored demo_mgr) (demo_mgr_input True) (apply_gap ?g demo_manager) =
     Some (out, m', (p', mem))" using manager_round_total [OF demo_reach, of "demo_mgr_input True" ?g] by (metis prod.exhaust)
  have "mem \<noteq> None"
    using r by (auto simp: g manager_round_def manager_transitions_def clear_map_params_def remove_map_targets_def
        remove_map_targets_if_writer_gone_def Let_def case_prod_beta split: option.splits if_splits)
  then obtain mem' where mem: "mem = Some mem'" by blast
  have "mi_started (demo_mgr_input True) \<noteq> mg_started_prev demo_manager"
    by (simp add: demo_mgr_input_def demo_manager_def manager_start_def Let_def case_prod_beta)
  with map_targets_removed [OF r [unfolded g mem]] r show ?thesis unfolding g mem by blast
qed

theorem ended_processes_not_reported_witness:
  "\<exists>out m' s'. manager_round (ge_flags demo_mgr) (ge_ignored demo_mgr) (demo_mgr_input True) (apply_gap demo_gap demo_manager) =
     Some (out, m', s') \<and> (\<forall>st \<in> set (mo_processes out). st_shouldBeRunning st \<longrightarrow> st_running st)"
  using demo_round [of True] ended_processes_not_reported [OF demo_reach, of "demo_mgr_input True" demo_gap] by blast

theorem cleanup_leaves_nothing_witness:
  "\<exists>ev ps. manager_cleanup demo_pin demo_pin (mg_procs demo_manager) = (ev, ps) \<and> (\<forall>q \<in> set ps. mp_proc q = None)"
proof -
  obtain ev ps where c: "manager_cleanup demo_pin demo_pin (mg_procs demo_manager) = (ev, ps)" by fastforce
  from cleanup_leaves_nothing [OF demo_reach c] c show ?thesis by blast
qed

end
