(* ===== verification/Spec2Isabelle.thy ===== *)
theory Spec2Isabelle
  imports EventProps AlertManager MadsProps SelfdriveProps CarEvents Buttons Icbm Actuation
    SpeedLimitProps SpeedLimitResolver Card Desire StateSpec EventSpec ControlsProps PlannerProps
    UbloxProps UbloxValues PigeonProps HardwaredProps ManagerProps
begin

text \<open>
  A model of the decision-making core of this driving assistant (a fork of openpilot and sunnypilot) and the
  theorems that make it correct.  All paths are relative to \<open>src/openpilot/\<close>.

  \<^bold>\<open>The program and its parts.\<close>  The assistant is a set of processes that exchange messages.  \<open>card\<close> reads the
  car and writes its commands; \<open>selfdrived\<close> turns the car state and the health of every other process into
  events, decides with two state machines whether openpilot and the lateral-only mode MADS are engaged, and
  chooses the alert on the screen; \<open>radard\<close> and \<open>plannerd\<close> choose the leads and an acceleration;
  \<open>controlsd\<close> turns the plan into steering and acceleration commands.  \<open>hardwared\<close> decides whether the
  device is onroad at all, the manager starts and stops the processes accordingly, and \<open>pigeond\<close> and
  \<open>ubloxd\<close> bring the GNSS receiver's messages in.  The parts share the parameter store; another process may
  write it at any time, so a theorem about runs takes the store that each step finds as an input of that step.

  \<^bold>\<open>Correspondence\<close> (theory: source).  A class is a record with its fields, a method a definition on it with the
  method's name (suffixed where the name is taken), a message a record of the fields the code reads, an
  enumeration a datatype or, for the event names, the integers the code sorts by.

  \<^item> Base.  \<open>Prelude\<close>: units, control periods, \<open>int()\<close>, \<open>round()\<close>, \<open>np.clip\<close>, formatting, insertion
    by bisection.  \<open>Messages\<close>: structs of \<open>cereal\<close> and opendbc, \<open>SubMaster\<close> checks.  \<open>ParamsStore\<close>:
    \<open>common/params.py\<close> as typed values.  \<open>Engagement\<close>: the contract of an engagement machine.
  \<^item> Events.  \<open>EventsBase\<close>: \<open>events_base.py\<close>; \<open>EventNames\<close>, \<open>EventTable\<close>, \<open>EventTableSP\<close>: both event tables
    entry by entry with every alert callback; \<open>AlertManager\<close>: \<open>alertmanager.py\<close>.  \<open>EventSpec\<close> is the
    multiset specification of the store, \<open>EventProps\<close> what the tables guarantee.
  \<^item> Engagement.  \<open>StateMachine\<close>: \<open>selfdrived/state.py\<close>, with its decision table in \<open>StateSpec\<close>; \<open>Mads\<close>,
    \<open>MadsFacts\<close>, \<open>MadsProps\<close>: \<open>sunnypilot/mads\<close>; \<open>CarEvents\<close>: \<open>car_events.py\<close>, \<open>car_specific.py\<close>;
    \<open>Buttons\<close>, \<open>Icbm\<close>, \<open>Actuation\<close>: button timers, stock-cruise button presses, the check for
    excessive actuation; \<open>SelfdriveD\<close>, \<open>SelfdriveFacts\<close>, \<open>SelfdriveProps\<close>: \<open>selfdrived.py\<close>, whose frame
    \<open>sd_step\<close> composes all of them.
  \<^item> Set speed.  \<open>Cruise\<close>: \<open>car/cruise.py\<close>, \<open>cruise_ext.py\<close>; \<open>Card\<close>: \<open>car/card.py\<close>; \<open>SpeedLimitAssist\<close>,
    \<open>SpeedLimitProps\<close>, \<open>SpeedLimitResolver\<close>: the speed-limit packages.
  \<^item> Planning.  \<open>Radard\<close>: \<open>radard.py\<close> with its filters; \<open>SmartCruise\<close>: curve and map controllers;
    \<open>LongMpc\<close>: \<open>long_mpc.py\<close> around the generated solver; \<open>PlannerAlerts\<close>, \<open>Planner\<close>, \<open>PlannerProps\<close>: the
    planner, its sunnypilot extension and the round of \<open>plannerd\<close>; \<open>Desire\<close>: lane changes and turns.
  \<^item> Control.  \<open>Pid\<close>, \<open>LongControl\<close>, \<open>LatControl\<close>: \<open>common/pid.py\<close> and the controllers of \<open>controls/lib\<close>;
    \<open>LatTorque\<close>, \<open>LatTorqueProps\<close>: both torque steering controllers with their sunnypilot extension;
    \<open>Controls\<close>, \<open>ControlsProps\<close>: \<open>controlsd.py\<close> with its extension.
  \<^item> Receiver.  \<open>BinaryStruct\<close>: the schema interpreter \<open>binary_struct.py\<close>, with its specification as slices of
    a bit stream in \<open>BitStream\<close>; \<open>UbxSchemas\<close>: the schemas; \<open>UbxFramer\<close>, \<open>Ubloxd\<close>: \<open>ubloxd.py\<close>; \<open>Pigeon\<close>:
    \<open>pigeond.py\<close>; \<open>FramerProps\<close>, \<open>UbloxFacts\<close>, \<open>UbloxProps\<close>, \<open>UbloxValues\<close>, \<open>PigeonProps\<close> their lemmas.
  \<^item> Device.  \<open>PowerMonitor\<close>, \<open>Hardwared\<close>, \<open>HardwaredFacts\<close>, \<open>HardwaredProps\<close>: \<open>system/hardware\<close>;
    \<open>ManagerProc\<close>, \<open>Manager\<close>, \<open>ManagerFacts\<close>, \<open>ManagerProps\<close>: \<open>system/manager\<close>.

  \<^bold>\<open>Interfaces.\<close>  The locales are the contracts between the parts: \<open>event_store\<close> and \<open>param_store\<close> (interpreted on
  the store operations), \<open>engagement\<close> (interpreted on the openpilot machine, on MADS, on the Speed Limit
  Assist and on the button controller: a machine that is on was admitted, and a kill input turns it off in
  the same step), \<open>button_timers\<close> and \<open>run_counter\<close> (counters of consecutive frames).

  \<^bold>\<open>What the lemmas show.\<close>  For each part: that its steps do not raise and keep an invariant of its state from the
  constructor on; what each branch does; and the properties a driver relies on.  The brake, a lost CAN bus, a
  relay fault, an immediate-disable event end the engagement in that frame, a panda that denies control within
  200 frames (201 from a frame that starts disengaged); control is active only under its conditions and its commands are bounded in every run (the
  steering torque where the jerk-aware controller is off: with it, the first active frame can command more than
  full torque), and the torque controller controls the error to the request of one actuator delay ago; the
  plan follows the most cautious candidate and a forced deceleration brakes in bounded time; a speed limit is
  followed only after a confirmation and a request for one ends; the set speed stays in its bounds under every
  interleaving with the parameter thread; the receiver's stream is recovered however it is cut, as far as no wait for an answer
  consumes it, and an ephemeris never mixes issues of data; the device goes onroad exactly under its conditions and the manager
  runs exactly the processes its table wants.  The theorems of this theory join parts: the brake reaches the
  actuators through \<open>selfdrived\<close> and \<open>controlsd\<close>, a critical temperature takes the driving processes down
  through \<open>hardwared\<close> and the manager, and a shutdown request powers the device off.  Some lemmas state
  defects of the code as it is written (an ignored timer, a stale-data check that never holds, a lost frame).

  \<^bold>\<open>Reference definitions.\<close>  The event store refines multisets, the engagement machine equals its decision table
  over every run, the schema interpreter equals the slices of its layout, alert priorities form a linear
  order (\<open>linorder\<close> instance), and the selection of the planner and of the leads is proved minimal.

  \<^bold>\<open>Conventions.\<close>  A Python exception is the result \<open>None\<close> or the left of a sum where the code tells exceptions
  apart.  Integers are unbounded as in Python; bytes of the receiver are 8-bit words and wrap.  Floats are exact
  reals, so statements about thresholds hold up to rounding; values that can be infinite or NaN and are compared
  as such have types of their own (\<open>np_float\<close>, \<open>ieee\<close>).  Clocks, sensors, sockets, and the answers of devices and
  of the operating system are inputs of a step.  Threads are sequences of steps: the runs of \<open>selfdrived\<close> (\<open>sd_run\<close>) and
  of \<open>card\<close> (\<open>card_run\<close>) are frames and rounds of the parameter thread in any order; children of the manager may end and other processes may write the stores between any
  two rounds.  Dictionaries are association lists where their order matters and maps otherwise.

  \<^bold>\<open>Bounds.\<close>  Loops are structural recursions or functions with a measure; no definition uses fuel.  A wait for the receiver reads the same answers as the forwarding loop; it
  ends with a value or a timeout, or not at all when the list of its answers is used up, which is a result
  of its own.  The numbers in the theorems are those of the code: 300 frames of soft disabling and of a
  confirmation request (3 s at 100 Hz, 15 s at 20 Hz), 200 frames of mismatch (201 with the frame that resets the counter), 26 and 100 frames of excessive
  actuation, 3 frames for a collision warning, two rounds (with a wait of 5 s) to end a process.  The 32 runs of
  the loop (16 s) in the cooling theorem come from the 5 s filter falling from 150 to below 75 degrees.

  \<^bold>\<open>Parameters.\<close>  Code outside the repository is an argument: the car interfaces, constants and vehicle model of
  opendbc (for the torque controllers: conversions, friction), the acados solver, and the migrations that need
  opendbc.  What is used of them appears as named
  hypotheses (a solver returning rows of the right size, gains that are interpolation tables, conversions that keep what
  full torque gives within full torque), each shown
  satisfiable by a witness.

  \<^bold>\<open>Not modelled.\<close>  The user interface (drawing and dialogs on top of the published messages); the neural network
  runners; localisation and the learners of calibration, steering and delay (filters over generated code and
  numpy regressions); recording, uploading, updating and networking services (I/O around files, git and external
  services); the modem's own GNSS receiver; and the development tools and the simulator.  Sockets, logging, the
  fork of processes and process scheduling have no counterpart.
\<close>

section \<open>Properties across components\<close>

text \<open>C2: The brake reaches the actuators: in a frame of selfdrived with a new brake press, or with the brake
  held while moving, the state it publishes makes the next frame of controlsd that reads it send no
  longitudinal command (the acceleration is 0 within the car's limits), and no lateral command either where
  MADS is not available, from every state of controlsd and whatever its other inputs are (a model output, once
  it is long enough to be used, has all its points).\<close>

theorem brake_cuts_control:
  assumes "sd_inv E sd" "frame_ok E inp sd" "\<not> cp_passive (se_CP E)"
    and "data_sample E inp sd = (CS, sd1)" "sd_initialized sd1" "cs_canValid CS" "cs_brakePressed CS"
    and "\<not> cs_brakePressed (sd_CS_prev sd) \<or> \<not> cs_standstill CS"
    and "ctl_inv F c" "params_ok p"
  shows "\<exists>pb sd'. sd_step E inp sd = Some (pb, sd') \<and>
     (\<forall>ci. inputs_ok ci \<longrightarrow> ci_enabled ci = pb_enabled pb \<longrightarrow> ci_active ci = pb_active pb \<longrightarrow>
        (\<exists>co c'. ctl_step F (p, clock, ci) c = Some (co, c') \<and> \<not> ac_longActive (co_actuators co) \<and>
           ac_accel (co_actuators co) = np_clip 0 (fst (accel_limits F ci)) (snd (accel_limits F ci)) \<and>
           (\<not> ci_mads_available ci \<longrightarrow> \<not> ac_latActive (co_actuators co))))"
proof -
  obtain pb sd' where pb: "sd_step E inp sd = Some (pb, sd')" "\<not> pb_enabled pb" "\<not> pb_active pb"
    using brake_off [OF assms(1-8)] by blast
  have "\<exists>co c'. ctl_step F (p, clock, ci) c = Some (co, c') \<and> \<not> ac_longActive (co_actuators co) \<and>
      ac_accel (co_actuators co) = np_clip 0 (fst (accel_limits F ci)) (snd (accel_limits F ci)) \<and>
      (\<not> ci_mads_available ci \<longrightarrow> \<not> ac_latActive (co_actuators co))"
    if ci: "ci_enabled ci = pb_enabled pb" "ci_active ci = pb_active pb" "inputs_ok ci" for ci
  proof (rule ctl_step_ok [OF assms(9,10) ci(3), of clock])
    fix co c'
    assume s: "ctl_step F (p, clock, ci) c = Some (co, c')" and facts: "output_facts F ci c co"
    have off: "\<not> long_allowed F ci" using ci(1) pb(2) by (simp add: long_allowed_def)
    have lat: "\<not> frame_lat F ci c" if "\<not> ci_mads_available ci"
      using that ci(2) pb(3) by (auto simp: frame_lat_def get_lat_active_def split: prod.splits if_splits)
    show ?thesis using s facts off lat by (auto simp: frame_facts_def)
  qed
  with pb(1) show ?thesis by blast
qed

theorem brake_cuts_control_witness:
  "\<exists>pb sd' co c'. sd_step demo_sd_env (demo_inputs demo_car) demo_selfdrived = Some (pb, sd') \<and>
     ctl_step demo_ctl_env (demo_ctl_store, (1, 1),
       (demo_ctl_inputs demo_car)\<lparr>ci_enabled := pb_enabled pb, ci_active := pb_active pb\<rparr>) demo_controls = Some (co, c') \<and>
     ac_accel (co_actuators co) = 0"
proof -
  obtain CS sd1 where d: "data_sample demo_sd_env (demo_inputs demo_car) demo_selfdrived = (CS, sd1)"
    by (cases "data_sample demo_sd_env (demo_inputs demo_car) demo_selfdrived")
  have CS: "CS = demo_car" using data_sample_fields(15) [OF d] by (simp add: demo_inputs_def)
  have i: "sd_initialized sd1" by (rule data_sample_fields(14) [OF d]) (simp add: demo_selfdrived_def)
  have car: "\<not> cp_passive (se_CP demo_sd_env)" "cs_canValid CS" "cs_brakePressed CS"
    "\<not> cs_brakePressed (sd_CS_prev demo_selfdrived) \<or> \<not> cs_standstill CS"
    by (simp_all add: CS demo_car_def demo_selfdrived_def demo_sd_env_def demo_params_def)
  from brake_cuts_control [OF demo_sd_inv demo_frame_ok car(1) d i car(2-4) demo_controls_inv demo_ctl_wf(2),
      where clock = "(1, 1)"]
  obtain pb sd' where pb: "sd_step demo_sd_env (demo_inputs demo_car) demo_selfdrived = Some (pb, sd')"
    "\<forall>ci. inputs_ok ci \<longrightarrow> ci_enabled ci = pb_enabled pb \<longrightarrow> ci_active ci = pb_active pb \<longrightarrow>
       (\<exists>co c'. ctl_step demo_ctl_env (demo_ctl_store, (1, 1), ci) demo_controls = Some (co, c') \<and>
          \<not> ac_longActive (co_actuators co) \<and>
          ac_accel (co_actuators co) = np_clip 0 (fst (accel_limits demo_ctl_env ci)) (snd (accel_limits demo_ctl_env ci)) \<and>
          (\<not> ci_mads_available ci \<longrightarrow> \<not> ac_latActive (co_actuators co)))" by blast
  from pb(2) [rule_format, of "(demo_ctl_inputs demo_car)\<lparr>ci_enabled := pb_enabled pb, ci_active := pb_active pb\<rparr>"] pb(1)
  show ?thesis by (auto simp: demo_limits np_clip_def inputs_ok_def demo_ctl_inputs_def CONTROL_N_def)
qed

text \<open>C3: A critical temperature takes the driving processes down: when \<open>hardwared\<close> publishes the critical
  band, every round of the manager that reads this message leaves no process of the driving stack, and
  no \<open>controlsd\<close>, running: each is gone or has been told to end.\<close>

theorem critical_heat_stops_driving:
  assumes "hw_wf h" "hw_step E hi (h, p) = Some (Some dev, h', p')" "ho_thermalStatus dev = TS_critical"
    and "mgr_reach G m" "mi_started i = ho_started dev"
    and "manager_round (ge_flags G) (ge_ignored G) i (apply_gap g m) = Some (out, m', s')"
    and "q \<in> set (mg_procs m')" "mp_name q \<in> set (''controlsd'' # ONROAD_PROCESSES)"
  shows "mp_proc q = None \<or> stopping q"
proof -
  have "\<not> ho_started dev"
    using run_started [OF assms(1,2)] assms(3) by (auto simp: run_facts_def starts_def stays_onroad_def)
  with offroad_stops [OF assms(4,6,7,8)] assms(5) show ?thesis by simp
qed

theorem critical_heat_stops_driving_witness:
  "\<exists>dev h' p' out m' s'.
     hw_step demo_hw_env (demo_hw_input True 120) (demo_hw\<lparr>hw_thermal_status := TS_critical\<rparr>, demo_hw_store) = Some (Some dev, h', p') \<and>
     manager_round (ge_flags demo_mgr) (ge_ignored demo_mgr) (demo_mgr_input (ho_started dev)) (apply_gap demo_gap demo_manager) =
       Some (out, m', s') \<and>
     (\<forall>q \<in> set (mg_procs m'). mp_name q = ''controlsd'' \<longrightarrow> mp_proc q = None \<or> stopping q)"
proof -
  let ?h = "demo_hw\<lparr>hw_thermal_status := TS_critical\<rparr>" and ?i = "demo_hw_input True 120"
  have wf: "hw_wf ?h" using demo_hw_wf by (simp add: hw_wf_def)
  obtain dev h' p' where s: "hw_step demo_hw_env ?i (?h, demo_hw_store) = Some (Some dev, h', p')"
    "run_facts demo_hw_env ?i demo_hw_store (entry_state ?i (?h, demo_hw_store)) dev h'"
    using step_runs [OF wf, of ?i demo_hw_env demo_hw_store] by (auto simp: demo_hw_input_fields)
  have "ho_maxTempC dev = ff_x (filter_update 120 (filter_init 0 5 DT_HW False))"
    using s(2) unfolding run_facts_def by (simp add: entry_state_fields demo_hw_fields demo_hw_input_fields)
  then have t: "ho_maxTempC dev = 120" by (simp add: filter_init_def update_alpha_def filter_update_def)
  have "ho_thermalStatus dev = hw_thermal_status h'"
    "if danger demo_hw_env ?i (entry_state ?i (?h, demo_hw_store)) then hw_thermal_status h' = TS_critical
     else band_step (is_mici demo_hw_env) (ho_maxTempC dev) (hw_thermal_status (entry_state ?i (?h, demo_hw_store))) = Some (hw_thermal_status h')"
    using s(2) unfolding run_facts_def by blast+
  then have crit: "ho_thermalStatus dev = TS_critical"
    by (auto simp: t entry_state_fields band_step_simps cool_limit_def split: if_splits)
  obtain out m' s' where r: "manager_round (ge_flags demo_mgr) (ge_ignored demo_mgr) (demo_mgr_input (ho_started dev))
      (apply_gap demo_gap demo_manager) = Some (out, m', s')" using demo_round by blast
  have "mp_proc q = None \<or> stopping q" if "q \<in> set (mg_procs m')" "mp_name q = ''controlsd''" for q
    by (rule critical_heat_stops_driving [OF wf s(1) crit demo_reach _ r that(1)]) (simp_all add: demo_mgr_input_def that(2))
  with s(1) r show ?thesis by blast
qed

text \<open>C21: A shutdown that \<open>hardwared\<close> decides is carried out: the next round of the manager that finds its
  parameters ends the loop, and what follows the clean-up is the shutdown, unless an uninstall or a
  reboot was asked for too.\<close>

theorem shutdown_request_powers_off:
  assumes "hw_step E hi (h, p) = Some (Some dev, h', p')" "get_bool ''DoShutdown'' p'"
    and "mgr_reach G m" "gp_params g = p'"
    and "manager_round (ge_flags G) (ge_ignored G) i (apply_gap g m) = Some (out, m', (p1, mem1))"
    and "\<forall>k \<in> {''DoUninstall'', ''DoShutdown'', ''DoReboot''}. ge_flags G k = Some {CLEAR_ON_MANAGER_START}"
  shows "mo_shutdown out \<and> final_action p1 =
    Some (if get_bool ''DoUninstall'' p' then Uninstall else if get_bool ''DoReboot'' p' then Reboot else Shutdown)"
proof -
  have k: "get_bool k p1 = get_bool k p'" if "k \<in> {''DoUninstall'', ''DoShutdown'', ''DoReboot''}" for k
    using round_request(1) [OF assms(3,5), of k] assms(4,6) that by (auto simp: exit_requests_def)
  have "mo_shutdown out"
    using round_request(2) [OF assms(3,5), of "''DoShutdown''"] assms(2,6) k [of "''DoShutdown''"] by (simp add: exit_requests_def)
  with k assms(2) show ?thesis by (simp add: final_action_def)
qed

theorem shutdown_request_powers_off_witness:
  "\<exists>dev h' p' out m' p1 mem1.
     hw_step demo_hw_env (demo_hw_input False 50) (demo_hw, put_param ''ForcePowerDown'' (PBool True) demo_hw_store) = Some (Some dev, h', p') \<and>
     manager_round (ge_flags demo_mgr) (ge_ignored demo_mgr) (demo_mgr_input (ho_started dev))
       (apply_gap (demo_gap\<lparr>gp_params := p'\<rparr>) demo_manager) = Some (out, m', (p1, mem1)) \<and> mo_shutdown out"
proof -
  obtain dev h' p' where s: "hw_step demo_hw_env (demo_hw_input False 50) (demo_hw, put_param ''ForcePowerDown'' (PBool True) demo_hw_store) =
      Some (Some dev, h', p')" "get_bool ''DoShutdown'' p'"
    using demo_forced_shutdown by blast
  obtain out m' p1 mem1 where r: "manager_round (ge_flags demo_mgr) (ge_ignored demo_mgr) (demo_mgr_input (ho_started dev))
      (apply_gap (demo_gap\<lparr>gp_params := p'\<rparr>) demo_manager) = Some (out, m', (p1, mem1))"
    using manager_round_total [OF demo_reach, of "demo_mgr_input (ho_started dev)" "demo_gap\<lparr>gp_params := p'\<rparr>"] by (metis prod.exhaust)
  have "mo_shutdown out"
    by (rule shutdown_request_powers_off [OF s demo_reach _ r, THEN conjunct1]) (simp_all add: demo_gap_def demo_mgr_def)
  with s(1) r show ?thesis by blast
qed

end
